(* ===== verification/Prelude.thy ===== *)
theory Prelude
  imports Main "HOL-Library.Monad_Syntax"
begin

text \<open>
  Shared vocabulary of the development: identifiers and times, the strings and decimal and
  calendar formats the backend prints, the JSON values it stores, the errors it raises
  (\<^verbatim>\<open>src/app/core/exceptions.py\<close>) and the table operations behind every
  repository of \<^verbatim>\<open>src/app/modules\<close>.  A table is the list of its rows in insertion
  order.  The locale \<^verbatim>\<open>row_repo\<close> is the contract every table-backed repository offers its
  services; the model theories interpret it on their own tables.
\<close>

named_theorems table_simps "laws of the row operations"
named_theorems svc_defs "definitions of the service operations"

section \<open>Identifiers and time\<close>

text \<open>A UUID is its 128-bit integer; a timestamp is a count of microseconds since the epoch.\<close>

type_synonym uuid = nat
type_synonym time = int

definition seconds :: "int \<Rightarrow> time" where "seconds n = n * 1000000"
definition minutes :: "int \<Rightarrow> time" where "minutes n = seconds (60 * n)"
definition hours :: "int \<Rightarrow> time" where "hours n = seconds (3600 * n)"
definition days :: "int \<Rightarrow> time" where "days n = seconds (86400 * n)"

lemmas time_defs = seconds_def minutes_def hours_def days_def

section \<open>Strings\<close>

definition lower_char :: "char \<Rightarrow> char" where
  "lower_char c = (let n = (of_char c :: nat) in if 65 \<le> n \<and> n \<le> 90 then char_of (n + 32) else c)"

definition upper_char :: "char \<Rightarrow> char" where
  "upper_char c = (let n = (of_char c :: nat) in if 97 \<le> n \<and> n \<le> 122 then char_of (n - 32) else c)"

definition lower :: "string \<Rightarrow> string" where "lower s = map lower_char s"
definition upper :: "string \<Rightarrow> string" where "upper s = map upper_char s"

definition is_alpha :: "char \<Rightarrow> bool" where
  "is_alpha c = (let n = (of_char c :: nat) in (65 \<le> n \<and> n \<le> 90) \<or> (97 \<le> n \<and> n \<le> 122))"

definition is_space :: "char \<Rightarrow> bool" where
  "is_space c = ((of_char c :: nat) = 32 \<or> (9 \<le> (of_char c :: nat) \<and> (of_char c :: nat) \<le> 13))"

fun starts_with :: "string \<Rightarrow> string \<Rightarrow> bool" where
  "starts_with _ [] = True"
| "starts_with [] (_ # _) = False"
| "starts_with (x # xs) (y # ys) = (x = y \<and> starts_with xs ys)"

fun contains_str :: "string \<Rightarrow> string \<Rightarrow> bool" where
  "contains_str [] p = (p = [])"
| "contains_str (x # xs) p = (starts_with (x # xs) p \<or> contains_str xs p)"

definition strip :: "string \<Rightarrow> string" where
  "strip s = rev (dropWhile is_space (rev (dropWhile is_space s)))"

text \<open>\<^verbatim>\<open>re.sub(r"-+", "-", s)\<close> and \<^verbatim>\<open>strip("-")\<close>.\<close>

fun collapse_hyphens :: "string \<Rightarrow> string" where
  "collapse_hyphens (a # b # s) = (if a = CHR ''-'' \<and> b = CHR ''-'' then collapse_hyphens (b # s) else a # collapse_hyphens (b # s))"
| "collapse_hyphens s = s"

definition strip_hyphens :: "string \<Rightarrow> string" where
  "strip_hyphens s = rev (dropWhile (\<lambda>c. c = CHR ''-'') (rev (dropWhile (\<lambda>c. c = CHR ''-'') s)))"

text \<open>Decimal numerals, and the zero-padded ones of Python's \<^verbatim>\<open>:04d\<close> and \<^verbatim>\<open>:02d\<close>.\<close>

definition digit_char :: "nat \<Rightarrow> char" where "digit_char d = char_of (48 + d)"

fun show_nat :: "nat \<Rightarrow> string" where
  "show_nat n = (if n < 10 then [digit_char n] else show_nat (n div 10) @ [digit_char (n mod 10)])"

declare show_nat.simps [simp del]

definition show_int :: "int \<Rightarrow> string" where
  "show_int i = (if i < 0 then ''-'' @ show_nat (nat (- i)) else show_nat (nat i))"

definition pad_left :: "nat \<Rightarrow> char \<Rightarrow> string \<Rightarrow> string" where
  "pad_left w c s = replicate (w - length s) c @ s"

definition zero_pad :: "nat \<Rightarrow> int \<Rightarrow> string" where
  "zero_pad w i = pad_left w CHR ''0'' (show_int i)"

definition hex_char :: "nat \<Rightarrow> char" where
  "hex_char d = char_of (if d < 10 then 48 + d else 87 + d)"

primrec hex_digits :: "nat \<Rightarrow> nat \<Rightarrow> string" where
  "hex_digits 0 n = []"
| "hex_digits (Suc w) n = hex_digits w (n div 16) @ [hex_char (n mod 16)]"

text \<open>Python's \<^verbatim>\<open>str(uuid)\<close>: 32 hexadecimal digits grouped 8-4-4-4-12.\<close>

definition uuid_str :: "uuid \<Rightarrow> string" where
  "uuid_str u = (let h = hex_digits 32 u in
     take 8 h @ ''-'' @ take 4 (drop 8 h) @ ''-'' @ take 4 (drop 12 h) @ ''-'' @
     take 4 (drop 16 h) @ ''-'' @ drop 20 h)"

lemma starts_with_iff: "starts_with s p \<longleftrightarrow> (\<exists>r. s = p @ r)"
  by (induction s p rule: starts_with.induct) auto

lemma contains_str_iff: "contains_str s p \<longleftrightarrow> (\<exists>a b. s = a @ p @ b)"
proof (induction s)
  case (Cons x s)
  have "(\<exists>a b. x # s = a @ p @ b) \<longleftrightarrow> (\<exists>b. x # s = p @ b) \<or> (\<exists>a b. s = a @ p @ b)"
    by (metis append_Cons append_Nil list.exhaust list.inject)
  then show ?case
    using Cons by (simp add: starts_with_iff)
qed simp

lemma length_hex_digits [simp]: "length (hex_digits w n) = w"
  by (induction w arbitrary: n) auto

lemma length_lower [simp]: "length (lower s) = length s"
  by (simp add: lower_def)

lemma length_upper [simp]: "length (upper s) = length s"
  by (simp add: upper_def)

lemma lower_char_idem [simp]: "lower_char (lower_char c) = lower_char c"
  by (auto simp: lower_char_def Let_def)

lemma lower_idem [simp]: "lower (lower s) = lower s"
  by (simp add: lower_def)

section \<open>Calendar\<close>

text \<open>
  Year, month and day of a UTC timestamp, by the proleptic Gregorian calendar that Python's
  \<^verbatim>\<open>datetime\<close> implements.
\<close>

definition epoch_day :: "time \<Rightarrow> int" where "epoch_day t = t div days 1"

definition civil_year_month :: "int \<Rightarrow> int \<times> int" where
  "civil_year_month d = (let z = d + 719468;
      n400 = z div 146097; r400 = z mod 146097;
      n100 = min (r400 div 36524) 3; r100 = r400 - n100 * 36524;
      n4 = r100 div 1461; r4 = r100 mod 1461;
      n1 = min (r4 div 365) 3; doy = r4 - n1 * 365;
      mp = (5 * doy + 2) div 153;
      m = (if mp < 10 then mp + 3 else mp - 9)
    in (400 * n400 + 100 * n100 + 4 * n4 + n1 + (if m \<le> 2 then 1 else 0), m))"

definition civil_day :: "int \<Rightarrow> int" where
  "civil_day d = (let z = d + 719468;
      r400 = z mod 146097; n100 = min (r400 div 36524) 3; r100 = r400 - n100 * 36524;
      r4 = r100 mod 1461; n1 = min (r4 div 365) 3; doy = r4 - n1 * 365
    in doy - (153 * ((5 * doy + 2) div 153) + 2) div 5 + 1)"

lemma civil_month_range:
  assumes "civil_year_month d = (y, m)"
  shows "1 \<le> m \<and> m \<le> 12"
proof -
  define r4 where "r4 = ((d + 719468) mod 146097 - min ((d + 719468) mod 146097 div 36524) 3 * 36524) mod 1461"
  define doy where "doy = r4 - min (r4 div 365) 3 * 365"
  define mp where "mp = (5 * doy + 2) div 153"
  have "0 \<le> r4" "r4 \<le> 1460"
    unfolding r4_def by (simp_all add: zmod_le_nonneg_dividend pos_mod_bound [THEN zless_imp_add1_zle, simplified])
  moreover have "365 * (r4 div 365) \<le> r4" "r4 < 365 * (r4 div 365) + 365"
    by simp_all
  ultimately have "0 \<le> doy \<and> doy \<le> 365"
    unfolding doy_def min_def by (cases "r4 div 365 \<le> 3") simp_all
  then have "0 \<le> mp \<and> mp \<le> 11"
    unfolding mp_def using zdiv_mono1 [of "5 * doy + 2" 1827 153]
    by (simp add: pos_imp_zdiv_nonneg_iff)
  moreover have "m = (if mp < 10 then mp + 3 else mp - 9)"
    using assms unfolding civil_year_month_def Let_def prod.inject mp_def doy_def r4_def
    by (rule conjunct2 [THEN sym])
  ultimately show ?thesis
    by (auto split: if_splits)
qed

section \<open>JSON values\<close>

datatype json =
    JNull
  | JBool bool
  | JInt int
  | JStr string
  | JArr "json list"
  | JObj "(string \<times> json) list"

definition jopt :: "('a \<Rightarrow> json) \<Rightarrow> 'a option \<Rightarrow> json" where
  "jopt f x = (case x of None \<Rightarrow> JNull | Some v \<Rightarrow> f v)"

definition juuid :: "uuid \<Rightarrow> json" where "juuid u = JStr (uuid_str u)"

text \<open>Python's truth value of a JSON value, and of an optional string.\<close>

fun truthy :: "json \<Rightarrow> bool" where
  "truthy JNull = False"
| "truthy (JBool b) = b"
| "truthy (JInt i) = (i \<noteq> 0)"
| "truthy (JStr s) = (s \<noteq> [])"
| "truthy (JArr xs) = (xs \<noteq> [])"
| "truthy (JObj xs) = (xs \<noteq> [])"

definition str_truthy :: "string option \<Rightarrow> bool" where
  "str_truthy x = (case x of None \<Rightarrow> False | Some s \<Rightarrow> s \<noteq> [])"

section \<open>Errors\<close>

text \<open>
  The exceptions of \<^verbatim>\<open>core/exceptions.py\<close>, and the others a request can raise: a violated
  uniqueness constraint at flush (\<^verbatim>\<open>IntegrityError\<close>), a \<^verbatim>\<open>ValueError\<close>, and
  \<^verbatim>\<open>MultipleResultsFound\<close> of \<^verbatim>\<open>scalar_one_or_none\<close>.
\<close>

datatype app_error =
    AppException string nat string
  | ResourceNotFoundException string
  | ForbiddenException string
  | UnauthorizedException string
  | ConflictException string
  | RateLimitExceededException string
  | ValidationException string
  | IntegrityError string
  | ValueError string
  | MultipleResultsFound

fun status_code :: "app_error \<Rightarrow> nat" where
  "status_code (AppException m st c) = st"
| "status_code (ResourceNotFoundException m) = 404"
| "status_code (ForbiddenException m) = 403"
| "status_code (UnauthorizedException m) = 401"
| "status_code (ConflictException m) = 409"
| "status_code (RateLimitExceededException m) = 429"
| "status_code (ValidationException m) = 422"
| "status_code _ = 500"

fun error_code :: "app_error \<Rightarrow> string" where
  "error_code (AppException m st c) = c"
| "error_code (ResourceNotFoundException m) = ''RESOURCE_NOT_FOUND''"
| "error_code (ForbiddenException m) = ''FORBIDDEN''"
| "error_code (UnauthorizedException m) = ''UNAUTHORIZED''"
| "error_code (ConflictException m) = ''CONFLICT''"
| "error_code (RateLimitExceededException m) = ''RATE_LIMIT_EXCEEDED''"
| "error_code (ValidationException m) = ''VALIDATION_ERROR''"
| "error_code _ = ''INTERNAL_SERVER_ERROR''"

text \<open>The message the client reads: an exception the handlers do not know is masked.\<close>

fun response_message :: "app_error \<Rightarrow> string" where
  "response_message (AppException m st c) = m"
| "response_message (ResourceNotFoundException m) = m"
| "response_message (ForbiddenException m) = m"
| "response_message (UnauthorizedException m) = m"
| "response_message (ConflictException m) = m"
| "response_message (RateLimitExceededException m) = m"
| "response_message (ValidationException m) = m"
| "response_message _ = ''An unexpected error occurred''"

text \<open>The error codes of the handler for plain HTTP exceptions.\<close>

definition http_error_code :: "nat \<Rightarrow> string" where
  "http_error_code st = (case map_of
     [(400, ''BAD_REQUEST''), (401, ''UNAUTHORIZED''), (403, ''FORBIDDEN''),
      (404, ''RESOURCE_NOT_FOUND''), (405, ''METHOD_NOT_ALLOWED''), (409, ''CONFLICT''),
      (422, ''VALIDATION_ERROR''), (429, ''RATE_LIMIT_EXCEEDED'')] st of
     Some c \<Rightarrow> c | None \<Rightarrow> ''HTTP_ERROR'')"

section \<open>Requests\<close>

text \<open>
  A service operation returns its value or the exception it raised, and the session it leaves.
  \<^verbatim>\<open>get_db\<close> commits the session when the handler returns and rolls it back when the handler
  raises (\<^verbatim>\<open>db/session.py\<close>).
\<close>

type_synonym ('a, 's) service = "'s \<Rightarrow> (app_error + 'a) \<times> 's"

definition with_session :: "('a, 's) service \<Rightarrow> ('a, 's) service" where
  "with_session f s = (case f s of (Inl e, s') \<Rightarrow> (Inl e, s) | (Inr v, s') \<Rightarrow> (Inr v, s'))"

lemma with_session_error: "fst (with_session f s) = Inl e \<Longrightarrow> snd (with_session f s) = s"
  by (auto simp: with_session_def split: prod.splits sum.splits)

section \<open>Tables\<close>

text \<open>
  A lookup by a unique column finds the row if it is there; saving a row that the session has
  loaded writes it back in place; adding one appends it.  A repository \<^verbatim>\<open>update\<close> with keyword
  arguments writes its fields one after the other.
\<close>

definition get_row :: "('r \<Rightarrow> 'k) \<Rightarrow> 'k \<Rightarrow> 'r list \<Rightarrow> 'r option" where
  "get_row key k t = find (\<lambda>r. key r = k) t"

definition save_row :: "('r \<Rightarrow> 'k) \<Rightarrow> 'r \<Rightarrow> 'r list \<Rightarrow> 'r list" where
  "save_row key r t = map (\<lambda>x. if key x = key r then r else x) t"

definition set_fields :: "('f \<Rightarrow> 'r \<Rightarrow> 'r) \<Rightarrow> 'f list \<Rightarrow> 'r \<Rightarrow> 'r" where
  "set_fields put kws r = fold put kws r"

text \<open>\<^verbatim>\<open>order_by(...).offset(o).limit(l)\<close> over the rows a query selects.\<close>

definition page_of :: "('r \<Rightarrow> 'k::linorder) \<Rightarrow> nat \<Rightarrow> nat \<Rightarrow> 'r list \<Rightarrow> 'r list" where
  "page_of sk off lim t = take lim (drop off (sort_key sk t))"

lemma sort_key_Nil_iff [simp]: "sort_key f xs = [] \<longleftrightarrow> xs = []"
  by (metis length_0_conv length_sort)

lemma get_row_Some: "get_row key k t = Some r \<Longrightarrow> r \<in> set t \<and> key r = k"
  by (auto simp: get_row_def find_Some_iff)

lemma get_row_None: "get_row key k t = None \<longleftrightarrow> k \<notin> key ` set t"
  by (auto simp: get_row_def find_None_iff)

lemma get_row_distinct: "distinct (map key t) \<Longrightarrow> r \<in> set t \<Longrightarrow> get_row key (key r) t = Some r"
  by (induction t) (auto simp: get_row_def)

lemma get_row_append:
  "get_row key k (t @ u) = (case get_row key k t of None \<Rightarrow> get_row key k u | Some r \<Rightarrow> Some r)"
  by (induction t) (auto simp: get_row_def)

lemma save_row_keys [simp]: "map key (save_row key r t) = map key t"
  by (simp add: save_row_def)

lemma length_save_row [simp]: "length (save_row key r t) = length t"
  by (simp add: save_row_def)

lemma set_save_row: "x \<in> set (save_row key r t) \<Longrightarrow> x = r \<or> x \<in> set t"
  by (auto simp: save_row_def split: if_splits)

lemma get_row_save:
  "get_row key k (save_row key r t) =
     (if k = key r then map_option (\<lambda>_. r) (get_row key k t) else get_row key k t)"
  by (induction t) (auto simp: get_row_def save_row_def)

lemma distinct_map_inj: "distinct (map key t) \<Longrightarrow> x \<in> set t \<Longrightarrow> y \<in> set t \<Longrightarrow> key x = key y \<Longrightarrow> x = y"
  by (auto simp: distinct_map dest: inj_onD)

lemma map_save_row_same:
  assumes "distinct (map key t)" and "r0 \<in> set t" and "key r = key r0" and "g r = g r0"
  shows "map g (save_row key r t) = map g t"
  using assms by (auto simp: save_row_def dest: distinct_map_inj)

lemma find_subset_distinct:
  assumes "distinct (map key t)" and "set rs \<subseteq> set t" and "x \<in> set t"
  shows "find (\<lambda>r. key r = key x) rs = (if x \<in> set rs then Some x else None)"
proof (cases "find (\<lambda>r. key r = key x) rs")
  case None
  then show ?thesis
    by (auto simp: find_None_iff)
next
  case (Some r)
  then have "r \<in> set rs" and "key r = key x"
    by (auto simp: find_Some_iff)
  with assms have "r = x"
    by (blast intro: distinct_map_inj)
  with Some \<open>r \<in> set rs\<close> show ?thesis
    by simp
qed

lemma fold_save_row:
  assumes "distinct (map key rs)" and "\<And>r. key (f r) = key r"
  shows "fold (\<lambda>r t. save_row key (f r) t) rs t =
    map (\<lambda>x. case find (\<lambda>r. key r = key x) rs of None \<Rightarrow> x | Some r \<Rightarrow> f r) t"
  using assms(1)
proof (induction rs arbitrary: t)
  case (Cons r rs)
  then have "find (\<lambda>r'. key r' = key r) rs = None"
    by (auto simp: find_None_iff image_iff)
  with Cons show ?case
    by (auto simp: save_row_def assms(2) comp_def split: option.splits)
qed simp

text \<open>Counting after one row changes from not counted to counted.\<close>

lemma count_one_more:
  assumes "distinct (map key t)" and "x \<in> set t" and "\<not> P x" and "P (f x)" and "key (f x) = key x"
  shows "length (filter P (map (\<lambda>y. if key y = key x then f y else y) t)) = length (filter P t) + 1"
  using assms
proof (induction t)
  case (Cons a t)
  show ?case
  proof (cases "key a = key x")
    case True
    then have "a = x"
      using Cons.prems(1,2) by (auto simp: image_iff)
    moreover have "map (\<lambda>y. if key y = key x then f y else y) t = t"
      using Cons.prems(1) True by (auto intro!: map_idI simp: image_iff)
    ultimately show ?thesis
      using Cons.prems by simp
  next
    case False
    then have "length (filter P (map (\<lambda>y. if key y = key x then f y else y) t)) = length (filter P t) + 1"
      using Cons by auto
    then show ?thesis
      using False by simp
  qed
qed simp

lemma filter_map_skip:
  "(\<And>u. u \<in> set ts \<Longrightarrow> key u = k \<Longrightarrow> \<not> P u \<and> \<not> P (f u)) \<Longrightarrow>
    filter P (map (\<lambda>u. if key u = k then f u else u) ts) = filter P ts"
  by (induction ts) auto

text \<open>Counting the rows of a query group by group.\<close>

lemma length_by_key:
  assumes "distinct ks" and "f ` set xs \<subseteq> set ks"
  shows "length (filter P xs) = sum_list (map (\<lambda>k. length (filter (\<lambda>x. f x = k \<and> P x) xs)) ks)"
  using assms(2)
proof (induction xs)
  case (Cons x xs)
  have "sum_list (map (\<lambda>k. length (filter (\<lambda>y. f y = k \<and> P y) (x # xs))) ks) =
      sum_list (map (\<lambda>k. (if k = f x \<and> P x then 1 else 0) + length (filter (\<lambda>y. f y = k \<and> P y) xs)) ks)"
    by (rule arg_cong [where f = sum_list]) auto
  also have "\<dots> = sum_list (map (\<lambda>k. if k = f x \<and> P x then 1 else 0) ks) + length (filter P xs)"
    using Cons by (simp add: sum_list_addf)
  also have "sum_list (map (\<lambda>k. if k = f x \<and> P x then 1 else 0) ks) = (if P x then (1::nat) else 0)"
    using Cons.prems assms(1) by (auto simp: sum_list_distinct_conv_sum_set)
  finally show ?case
    by simp
qed simp

text \<open>
  The contract of a repository: the rows of its table in a session, lookup by primary key, saving
  a loaded row and adding a new one.  Services that update the rows of a query one by one rest on
  \<^verbatim>\<open>save_loop\<close>.
\<close>

locale row_repo =
  fixes key :: "'r \<Rightarrow> uuid"
    and rows :: "'s \<Rightarrow> 'r list"
    and get :: "'s \<Rightarrow> uuid \<Rightarrow> 'r option"
    and save :: "'r \<Rightarrow> 's \<Rightarrow> 's"
    and add :: "'r \<Rightarrow> 's \<Rightarrow> 's"
  assumes get_hit: "get s k = Some r \<Longrightarrow> r \<in> set (rows s) \<and> key r = k"
    and get_miss: "get s k = None \<Longrightarrow> k \<notin> key ` set (rows s)"
    and rows_save: "rows (save r s) = save_row key r (rows s)"
    and rows_add: "rows (add r s) = rows s @ [r]"
begin

lemma get_known:
  assumes "distinct (map key (rows s))" and "r \<in> set (rows s)"
  shows "get s (key r) = Some r"
proof (cases "get s (key r)")
  case None
  with get_miss assms(2) show ?thesis
    by blast
next
  case (Some r')
  with get_hit [OF Some] assms show ?thesis
    by (blast dest: distinct_map_inj)
qed

lemma save_keys: "map key (rows (save r s)) = map key (rows s)"
  by (simp add: rows_save)

lemma add_distinct:
  "distinct (map key (rows s)) \<Longrightarrow> key r \<notin> key ` set (rows s) \<Longrightarrow> distinct (map key (rows (add r s)))"
  by (simp add: rows_add)

lemma get_save:
  assumes "distinct (map key (rows s))" and "get s (key r) = Some r0"
  shows "get (save r s) (key r) = Some r"
proof -
  have "r \<in> set (rows (save r s))"
    using get_hit [OF assms(2)] by (auto simp: rows_save save_row_def image_iff)
  moreover have "distinct (map key (rows (save r s)))"
    using assms(1) by (simp add: save_keys)
  ultimately show ?thesis
    by (rule get_known [rotated])
qed

lemma rows_save_fold: "rows (fold (\<lambda>r. save (f r)) rs s) = fold (\<lambda>r t. save_row key (f r) t) rs (rows s)"
  by (induction rs arbitrary: s) (simp_all add: rows_save)

lemma save_loop_rows:
  assumes "distinct (map key (rows s))" and "distinct (map key rs)" and "set rs \<subseteq> set (rows s)"
    and "\<And>r. key (f r) = key r"
  shows "rows (fold (\<lambda>r. save (f r)) rs s) = map (\<lambda>r. if r \<in> set rs then f r else r) (rows s)"
proof -
  have "rows (fold (\<lambda>r. save (f r)) rs s) =
      map (\<lambda>x. case find (\<lambda>r. key r = key x) rs of None \<Rightarrow> x | Some r \<Rightarrow> f r) (rows s)"
    by (simp add: rows_save_fold fold_save_row assms)
  also have "\<dots> = map (\<lambda>r. if r \<in> set rs then f r else r) (rows s)"
    using assms(1,3) by (auto simp: find_subset_distinct)
  finally show ?thesis .
qed

lemma save_loop:
  assumes "distinct (map key (rows s))" and "\<And>r. key (f r) = key r"
  shows "rows (fold (\<lambda>r. save (f r)) (filter P (rows s)) s) = map (\<lambda>r. if P r then f r else r) (rows s)"
  using assms by (simp add: save_loop_rows distinct_map_filter cong: map_cong)

end

end
