(* ===== verification/Database.thy ===== *)
theory Database
  imports Prelude
begin

text \<open>
  The tables the modelled services read and write, one record per SQLAlchemy model
  (\<^verbatim>\<open>src/app/modules/*/models.py\<close>, \<^verbatim>\<open>src/app/core/audit_log.py\<close>), and the session state
  \<^verbatim>\<open>db\<close> that holds them.  Columns that hold a closed set of strings written by an enumeration of
  the source are datatypes with a \<^verbatim>\<open>value\<close> function giving the stored string; free string columns
  (roles, plans, provider states) stay strings.  The bookkeeping column \<^verbatim>\<open>updated_at\<close> is left out:
  no modelled operation reads it.
\<close>

section \<open>Users and organizations\<close>

record user =
  u_id :: uuid
  u_email :: string
  u_password_hash :: string
  u_full_name :: string
  u_is_active :: bool
  u_is_email_verified :: bool
  u_is_superuser :: bool
  u_google_id :: "string option"
  u_github_id :: "string option"
  u_avatar_url :: "string option"
  u_auth_provider :: "string option"
  u_external_auth_id :: "string option"
  u_is_system_admin :: bool
  u_admin_note :: "string option"
  u_source :: "string option"
  u_last_login_at :: "time option"
  u_last_activity_at :: "time option"
  u_login_count :: int
  u_created_at :: time

record organization =
  o_id :: uuid
  o_name :: string
  o_slug :: string
  o_plan :: string
  o_has_agency_mode :: bool
  o_created_at :: time

record organization_member =
  m_id :: uuid
  m_org_id :: uuid
  m_user_id :: uuid
  m_role :: string
  m_joined_at :: time
  m_is_deleted :: bool
  m_deleted_at :: "time option"

record client =
  cl_id :: uuid
  cl_org_id :: uuid
  cl_name :: string
  cl_description :: "string option"

record application =
  ap_id :: uuid
  ap_org_id :: uuid
  ap_client_id :: "uuid option"
  ap_name :: string
  ap_description :: "string option"
  ap_created_at :: time

section \<open>Subscriptions\<close>

record subscription =
  s_id :: uuid
  s_organization_id :: uuid
  s_provider :: string
  s_provider_customer_id :: "string option"
  s_provider_subscription_id :: "string option"
  s_plan :: string
  s_status :: string
  s_current_period_start :: "time option"
  s_current_period_end :: "time option"

section \<open>Referral codes and the partner program\<close>

record referral_code =
  rc_id :: uuid
  rc_user_id :: uuid
  rc_code :: string
  rc_is_active :: bool
  rc_created_at :: time

datatype partner_status = PActive | PSuspended | PBanned
datatype referral_status = RReferred | RSignedUp | RPaid | RChurned
datatype commission_status = CPending | CPayable | CPaid | CReversed
datatype payout_status = PoPending | PoProcessing | PoPaid | PoFailed

fun partner_status_value :: "partner_status \<Rightarrow> string" where
  "partner_status_value PActive = ''active''"
| "partner_status_value PSuspended = ''suspended''"
| "partner_status_value PBanned = ''banned''"

fun referral_status_value :: "referral_status \<Rightarrow> string" where
  "referral_status_value RReferred = ''referred''"
| "referral_status_value RSignedUp = ''signed_up''"
| "referral_status_value RPaid = ''paid''"
| "referral_status_value RChurned = ''churned''"

fun commission_status_value :: "commission_status \<Rightarrow> string" where
  "commission_status_value CPending = ''pending''"
| "commission_status_value CPayable = ''payable''"
| "commission_status_value CPaid = ''paid''"
| "commission_status_value CReversed = ''reversed''"

fun payout_status_value :: "payout_status \<Rightarrow> string" where
  "payout_status_value PoPending = ''pending''"
| "payout_status_value PoProcessing = ''processing''"
| "payout_status_value PoPaid = ''paid''"
| "payout_status_value PoFailed = ''failed''"

definition EARNING_STATUSES :: "partner_status list" where
  "EARNING_STATUSES = [PActive]"

datatype reversal_reason = Refund | Chargeback | Admin

fun reversal_reason_value :: "reversal_reason \<Rightarrow> string" where
  "reversal_reason_value Refund = ''refund''"
| "reversal_reason_value Chargeback = ''chargeback''"
| "reversal_reason_value Admin = ''admin''"

record partner_profile =
  pp_id :: uuid
  pp_user_id :: uuid
  pp_referral_code_id :: "uuid option"
  pp_status :: partner_status
  pp_click_count :: int
  pp_created_at :: time

record partner_referral =
  pr_id :: uuid
  pr_partner_id :: uuid
  pr_referred_user_id :: uuid
  pr_referred_org_id :: "uuid option"
  pr_status :: referral_status
  pr_subscribed_at :: "time option"
  pr_created_at :: time

record partner_commission =
  pc_id :: uuid
  pc_partner_id :: uuid
  pc_referral_id :: "uuid option"
  pc_billing_event_id :: string
  pc_period :: string
  pc_subscription_amount_minor :: int
  pc_commission_amount_minor :: int
  pc_currency :: string
  pc_rate :: int
  pc_status :: commission_status
  pc_payable_at :: "time option"
  pc_paid_at :: "time option"
  pc_reversal_reason :: "string option"
  pc_payout_id :: "uuid option"
  pc_created_at :: time

record partner_payout =
  po_id :: uuid
  po_partner_id :: uuid
  po_amount_minor :: int
  po_currency :: string
  po_status :: payout_status
  po_period :: "string option"
  po_transaction_reference :: "string option"
  po_paid_at :: "time option"
  po_created_at :: time

section \<open>Audit log\<close>

record audit_log =
  al_event_type :: string
  al_org_id :: "uuid option"
  al_user_id :: "uuid option"
  al_resource_type :: "string option"
  al_resource_id :: "string option"
  al_payload :: json
  al_created_at :: time

text \<open>The separate log of admin panel mutations (\<^verbatim>\<open>modules/admin/models.py\<close>).\<close>

record admin_audit_log =
  aal_admin_user_id :: "uuid option"
  aal_admin_email :: "string option"
  aal_action :: string
  aal_entity_type :: "string option"
  aal_entity_id :: "string option"
  aal_details :: json
  aal_ip_address :: "string option"
  aal_user_agent :: "string option"
  aal_created_at :: time

section \<open>The session state\<close>

record db =
  db_users :: "user list"
  db_organizations :: "organization list"
  db_members :: "organization_member list"
  db_clients :: "client list"
  db_applications :: "application list"
  db_subscriptions :: "subscription list"
  db_referral_codes :: "referral_code list"
  db_profiles :: "partner_profile list"
  db_referrals :: "partner_referral list"
  db_commissions :: "partner_commission list"
  db_payouts :: "partner_payout list"
  db_audit :: "audit_log list"
  db_admin_audit :: "admin_audit_log list"

definition empty_db :: db where
  "empty_db = \<lparr>db_users = [], db_organizations = [], db_members = [], db_clients = [],
     db_applications = [],    db_subscriptions = [], db_referral_codes = [], db_profiles = [], db_referrals = [],
     db_commissions = [], db_payouts = [], db_audit = [], db_admin_audit = []\<rparr>"

text \<open>\<^verbatim>\<open>AuditLogService.log_event\<close> and \<^verbatim>\<open>get_events\<close>.\<close>

definition log_event ::
  "time \<Rightarrow> string \<Rightarrow> uuid option \<Rightarrow> uuid option \<Rightarrow> string \<Rightarrow> string \<Rightarrow> json \<Rightarrow> db \<Rightarrow> db" where
  "log_event now event_type org_id user_id resource_type resource_id payload s =
     s\<lparr>db_audit := db_audit s @ [\<lparr>al_event_type = event_type, al_org_id = org_id,
       al_user_id = user_id, al_resource_type = Some resource_type,
       al_resource_id = Some resource_id,
       al_payload = (if truthy payload then payload else JObj []), al_created_at = now\<rparr>]\<rparr>"

definition get_events :: "uuid option \<Rightarrow> nat \<Rightarrow> db \<Rightarrow> audit_log list" where
  "get_events org_id lim s = page_of (\<lambda>e. - al_created_at e) 0 lim
     (filter (\<lambda>e. org_id = None \<or> al_org_id e = org_id) (db_audit s))"

lemma log_event_tables [simp]:
  "db_users (log_event t e oi u rt ri p s) = db_users s"
  "db_organizations (log_event t e oi u rt ri p s) = db_organizations s"
  "db_members (log_event t e oi u rt ri p s) = db_members s"
  "db_clients (log_event t e oi u rt ri p s) = db_clients s"
  "db_applications (log_event t e oi u rt ri p s) = db_applications s"
  "db_subscriptions (log_event t e oi u rt ri p s) = db_subscriptions s"
  "db_referral_codes (log_event t e oi u rt ri p s) = db_referral_codes s"
  "db_profiles (log_event t e oi u rt ri p s) = db_profiles s"
  "db_referrals (log_event t e oi u rt ri p s) = db_referrals s"
  "db_commissions (log_event t e oi u rt ri p s) = db_commissions s"
  "db_payouts (log_event t e oi u rt ri p s) = db_payouts s"
  "db_admin_audit (log_event t e oi u rt ri p s) = db_admin_audit s"
  by (simp_all add: log_event_def)

lemma log_event_appends: "\<exists>e. db_audit (log_event t ev oi u rt ri p s) = db_audit s @ [e] \<and> al_event_type e = ev"
  by (simp add: log_event_def)

end
