(* ===== verification/Permissions.thy ===== *)
theory Permissions
  imports Prelude
begin

text \<open>
  \<^verbatim>\<open>src/app/core/permissions.py\<close>: the role hierarchy, the plan catalogue (prices, monitoring
  limits, check intervals, retention, features) and the helpers the services call.  Roles and plans
  are strings in the database; a helper lower-cases its argument and falls back to a default.
\<close>

section \<open>Roles\<close>

definition ROLE_HIERARCHY :: "(string \<times> nat) list" where
  "ROLE_HIERARCHY = [(''owner'', 40), (''admin'', 30), (''member'', 20), (''viewer'', 10)]"

text \<open>\<^verbatim>\<open>d.get(k, v)\<close>, and a string printed between single quotes.\<close>

definition dict_get :: "(string \<times> 'v) list \<Rightarrow> string \<Rightarrow> 'v \<Rightarrow> 'v" where
  "dict_get d k v = (case map_of d k of None \<Rightarrow> v | Some x \<Rightarrow> x)"

definition quoted :: "string \<Rightarrow> string" where
  "quoted s = CHR 0x27 # s @ [CHR 0x27]"

definition get_role_level :: "string \<Rightarrow> nat" where
  "get_role_level role = dict_get ROLE_HIERARCHY (lower role) 0"

definition has_permission :: "string \<Rightarrow> string \<Rightarrow> bool" where
  "has_permission user_role required_role = (get_role_level user_role \<ge> get_role_level required_role)"

definition require_permission :: "string \<Rightarrow> string \<Rightarrow> app_error + unit" where
  "require_permission user_role required_role =
     (if \<not> has_permission user_role required_role
      then Inl (ForbiddenException (''Action requires at least '' @ quoted required_role @
             '' role, but user has '' @ quoted user_role @ '' role.''))
      else Inr ())"

section \<open>Plans\<close>

definition PLAN_VALUES :: "string list" where
  "PLAN_VALUES = [''free'', ''starter'', ''standard'', ''professional'', ''agency'']"

definition PLAN_PRICES_USD :: "(string \<times> int) list" where
  "PLAN_PRICES_USD =
    [(''free'', 0),
     (''starter'', 19),
     (''standard'', 49),
     (''professional'', 99),
     (''agency'', 199)]"

definition PLAN_DEPENDENCY_LIMITS :: "(string \<times> nat) list" where
  "PLAN_DEPENDENCY_LIMITS =
    [(''free'', 3),
     (''starter'', 10),
     (''standard'', 30),
     (''professional'', 100),
     (''agency'', 500)]"

definition PLAN_CHECK_INTERVALS :: "(string \<times> int) list" where
  "PLAN_CHECK_INTERVALS =
    [(''free'', 60),
     (''starter'', 60),
     (''standard'', 15),
     (''professional'', 5),
     (''agency'', 5)]"

definition PLAN_RETENTION_DAYS :: "(string \<times> int) list" where
  "PLAN_RETENTION_DAYS =
    [(''free'', 1),
     (''starter'', 7),
     (''standard'', 30),
     (''professional'', 90),
     (''agency'', 90)]"

definition PLAN_FEATURES :: "(string \<times> (string \<times> json) list) list" where
  "PLAN_FEATURES =
    [(''free'', 
      [(''custom_endpoint_urls'', JBool True),
       (''data_retention_days'', JInt 1),
       (''email_alerts'', JBool True),
       (''basic_incident_detection'', JBool True),
       (''slack_alerts'', JBool False),
       (''api_access'', JBool False),
       (''attribution'', JBool False),
       (''evidence_generation'', JBool False),
       (''historical_analysis'', JBool False),
       (''custom_branded_evidence'', JBool False),
       (''client_groups_isolation'', JBool False),
       (''client_facing_reports'', JBool False),
       (''agency_branding'', JBool False)]),
     (''starter'', 
      [(''custom_endpoint_urls'', JBool True),
       (''data_retention_days'', JInt 7),
       (''email_alerts'', JBool True),
       (''basic_incident_detection'', JBool True),
       (''slack_alerts'', JBool False),
       (''api_access'', JBool False),
       (''attribution'', JStr ''limited''),
       (''evidence_generation'', JBool False),
       (''historical_analysis'', JBool True),
       (''custom_branded_evidence'', JBool False),
       (''client_groups_isolation'', JBool False),
       (''client_facing_reports'', JBool False),
       (''agency_branding'', JBool False)]),
     (''standard'', 
      [(''custom_endpoint_urls'', JBool True),
       (''data_retention_days'', JInt 30),
       (''email_alerts'', JBool True),
       (''basic_incident_detection'', JBool True),
       (''slack_alerts'', JBool True),
       (''api_access'', JBool True),
       (''attribution'', JStr ''deterministic''),
       (''evidence_generation'', JBool True),
       (''historical_analysis'', JBool True),
       (''custom_branded_evidence'', JBool False),
       (''client_groups_isolation'', JBool False),
       (''client_facing_reports'', JBool False),
       (''agency_branding'', JBool False)]),
     (''professional'', 
      [(''custom_endpoint_urls'', JBool True),
       (''data_retention_days'', JInt 90),
       (''email_alerts'', JBool True),
       (''basic_incident_detection'', JBool True),
       (''slack_alerts'', JBool True),
       (''api_access'', JBool True),
       (''attribution'', JStr ''deterministic''),
       (''evidence_generation'', JBool True),
       (''historical_analysis'', JBool True),
       (''custom_branded_evidence'', JBool True),
       (''client_groups_isolation'', JBool False),
       (''client_facing_reports'', JBool False),
       (''agency_branding'', JBool False)]),
     (''agency'', 
      [(''custom_endpoint_urls'', JBool True),
       (''data_retention_days'', JInt 90),
       (''email_alerts'', JBool True),
       (''basic_incident_detection'', JBool True),
       (''slack_alerts'', JBool True),
       (''api_access'', JBool True),
       (''attribution'', JStr ''deterministic''),
       (''evidence_generation'', JBool True),
       (''historical_analysis'', JBool True),
       (''custom_branded_evidence'', JBool True),
       (''client_groups_isolation'', JBool True),
       (''client_facing_reports'', JBool True),
       (''agency_branding'', JBool True)])]"

definition PLAN_TAGS :: "(string \<times> string option) list" where
  "PLAN_TAGS =
    [(''free'', None),
     (''starter'', None),
     (''standard'', Some ''most_popular''),
     (''professional'', None),
     (''agency'', Some ''built_for_agencies'')]"

definition PLAN_DESCRIPTIONS :: "(string \<times> string) list" where
  "PLAN_DESCRIPTIONS =
    [(''free'', ''Start measuring your dependencies.''),
     (''starter'', ''Track more of your stack.''),
     (''standard'', ''Investigate and prove dependency failures.''),
     (''professional'', ''Operate dependency intelligence at team scale.''),
     (''agency'', ''Manage reliability across your entire client portfolio.'')]"

definition PLAN_AMOUNTS :: "(string \<times> int) list" where
  "PLAN_AMOUNTS = PLAN_PRICES_USD"

definition get_min_check_interval :: "string \<Rightarrow> int" where
  "get_min_check_interval plan = dict_get PLAN_CHECK_INTERVALS (lower plan) 60"

definition get_dependency_limit :: "string \<Rightarrow> nat" where
  "get_dependency_limit plan = dict_get PLAN_DEPENDENCY_LIMITS (lower plan) 3"

definition get_plan_price_usd :: "string \<Rightarrow> int" where
  "get_plan_price_usd plan = dict_get PLAN_PRICES_USD (lower plan) 0"

definition get_retention_days :: "string \<Rightarrow> int" where
  "get_retention_days plan = dict_get PLAN_RETENTION_DAYS (lower plan) 1"

definition is_valid_plan :: "string \<Rightarrow> bool" where
  "is_valid_plan plan = (lower plan \<in> set PLAN_VALUES)"

definition is_paid_plan :: "string \<Rightarrow> bool" where
  "is_paid_plan plan = (get_plan_price_usd plan > 0)"

text \<open>The value of a feature flag of a plan, as a client of the catalogue reads it.\<close>

definition plan_feature :: "string \<Rightarrow> string \<Rightarrow> json option" where
  "plan_feature plan f = (case map_of PLAN_FEATURES plan of None \<Rightarrow> None | Some fs \<Rightarrow> map_of fs f)"

lemmas plan_table_defs = PLAN_PRICES_USD_def PLAN_DEPENDENCY_LIMITS_def PLAN_CHECK_INTERVALS_def
  PLAN_RETENTION_DAYS_def PLAN_VALUES_def

section \<open>Properties\<close>

lemma level_cases:
  "get_role_level u = (if lower u = ''owner'' then 40 else if lower u = ''admin'' then 30
     else if lower u = ''member'' then 20 else if lower u = ''viewer'' then 10 else 0)"
  by (simp add: get_role_level_def dict_get_def ROLE_HIERARCHY_def)

lemma lower_literals [simp]:
  "lower ''owner'' = ''owner''" "lower ''admin'' = ''admin''" "lower ''member'' = ''member''"
  "lower ''viewer'' = ''viewer''"
  by (simp_all add: lower_def lower_char_def)

text \<open>
  A role check grants exactly the roles at or above the required one, ignoring case, and a role
  the hierarchy does not know satisfies no known requirement; but a requirement the hierarchy does
  not know is met by everybody.
\<close>
theorem role_check:
  "(require_permission u ''owner'' = Inr () \<longleftrightarrow> lower u = ''owner'') \<and>
   (require_permission u ''admin'' = Inr () \<longleftrightarrow> lower u \<in> {''owner'', ''admin''}) \<and>
   (require_permission u ''member'' = Inr () \<longleftrightarrow> lower u \<in> {''owner'', ''admin'', ''member''}) \<and>
   (require_permission u ''viewer'' = Inr () \<longleftrightarrow> lower u \<in> {''owner'', ''admin'', ''member'', ''viewer''}) \<and>
   (lower r \<in> {''owner'', ''admin'', ''member'', ''viewer''} \<or> require_permission u r = Inr ())"
  by (auto simp: require_permission_def has_permission_def level_cases)

text \<open>A feature value that a plan keeps: a flag stays on, and any other value stays truthy.\<close>

definition feature_kept :: "string \<Rightarrow> string \<Rightarrow> string \<Rightarrow> bool" where
  "feature_kept p q f = (case (plan_feature p f, plan_feature q f) of
     (Some a, Some b) \<Rightarrow> (truthy a \<longrightarrow> truthy b) | _ \<Rightarrow> False)"

definition feature_names :: "string list" where
  "feature_names = map fst (snd (hd PLAN_FEATURES))"

lemma feature_names_list:
  "feature_names = [''custom_endpoint_urls'', ''data_retention_days'', ''email_alerts'',
     ''basic_incident_detection'', ''slack_alerts'', ''api_access'', ''attribution'',
     ''evidence_generation'', ''historical_analysis'', ''custom_branded_evidence'',
     ''client_groups_isolation'', ''client_facing_reports'', ''agency_branding'']"
  by (simp add: feature_names_def PLAN_FEATURES_def)

text \<open>
  The plan catalogue is coherent: from free to agency the price, the monitoring limit and the
  retention never go down and the minimum check interval never goes up, every feature of a plan is
  kept by the next one, the retention a plan advertises is the one the helper returns, and every
  plan but free has to be paid for.
\<close>
theorem plan_catalogue_coherent:
  "sorted (map get_plan_price_usd PLAN_VALUES) \<and> sorted (map get_dependency_limit PLAN_VALUES) \<and>
   sorted (map get_retention_days PLAN_VALUES) \<and> sorted (rev (map get_min_check_interval PLAN_VALUES)) \<and>
   list_all (\<lambda>(p, q). list_all (feature_kept p q) feature_names) (zip PLAN_VALUES (tl PLAN_VALUES)) \<and>
   list_all (\<lambda>p. plan_feature p ''data_retention_days'' = Some (JInt (get_retention_days p))) PLAN_VALUES \<and>
   filter is_paid_plan PLAN_VALUES = tl PLAN_VALUES"
  by code_simp

end
