(* ===== verification/Organizations.thy ===== *)
theory Organizations
  imports Database Permissions
begin

text \<open>
  \<^verbatim>\<open>modules/users\<close>, \<^verbatim>\<open>modules/organizations\<close> and the application part of
  \<^verbatim>\<open>modules/agencies\<close>: the user and organization repositories, the user profile service and the
  organization service with its member management.  Fresh identifiers, the clock and the password
  hash are arguments.
\<close>

section \<open>User repository\<close>

definition user_get_by_id :: "db \<Rightarrow> uuid \<Rightarrow> user option" where
  "user_get_by_id s i = get_row u_id i (db_users s)"

definition user_get_by_email :: "db \<Rightarrow> string \<Rightarrow> user option" where
  "user_get_by_email s email = get_row u_email (lower email) (db_users s)"

definition user_get_by_google_id :: "db \<Rightarrow> string \<Rightarrow> user option" where
  "user_get_by_google_id s g = get_row u_google_id (Some g) (db_users s)"

definition user_get_by_github_id :: "db \<Rightarrow> string \<Rightarrow> user option" where
  "user_get_by_github_id s g = get_row u_github_id (Some g) (db_users s)"

definition save_user :: "user \<Rightarrow> db \<Rightarrow> db" where
  "save_user r s = s\<lparr>db_users := save_row u_id r (db_users s)\<rparr>"

definition add_user :: "user \<Rightarrow> db \<Rightarrow> db" where
  "add_user r s = s\<lparr>db_users := db_users s @ [r]\<rparr>"

text \<open>The flush of a new user fails on a taken primary key, email or provider identifier.\<close>

definition user_conflict :: "user \<Rightarrow> db \<Rightarrow> bool" where
  "user_conflict r s = (\<exists>x \<in> set (db_users s). u_id x = u_id r \<or> u_email x = u_email r \<or>
     (u_google_id x \<noteq> None \<and> u_google_id x = u_google_id r) \<or>
     (u_github_id x \<noteq> None \<and> u_github_id x = u_github_id r))"

definition user_create ::
  "uuid \<Rightarrow> time \<Rightarrow> string \<Rightarrow> string \<Rightarrow> string \<Rightarrow> bool \<Rightarrow> bool \<Rightarrow> string option \<Rightarrow> string option \<Rightarrow>
   string option \<Rightarrow> string option \<Rightarrow> string option \<Rightarrow> bool \<Rightarrow> (user, db) service" where
  "user_create i now email password_hash full_name is_superuser is_email_verified google_id
     github_id avatar_url auth_provider external_auth_id is_active s =
     (let r = \<lparr>u_id = i, u_email = lower email, u_password_hash = password_hash,
        u_full_name = full_name, u_is_active = is_active, u_is_email_verified = is_email_verified,
        u_is_superuser = is_superuser, u_google_id = google_id, u_github_id = github_id,
        u_avatar_url = avatar_url, u_auth_provider = auth_provider,
        u_external_auth_id = external_auth_id, u_is_system_admin = False, u_admin_note = None,
        u_source = None, u_last_login_at = None, u_last_activity_at = None, u_login_count = 0,
        u_created_at = now\<rparr>
      in if user_conflict r s then (Inl (IntegrityError ''users''), s)
         else (Inr r, add_user r s))"

text \<open>
  The keyword arguments of \<^verbatim>\<open>UserRepository.update\<close> that its callers use, all in
  \<^verbatim>\<open>_UPDATABLE_FIELDS\<close>; a \<^verbatim>\<open>None\<close> value is skipped and an email is lower-cased.
\<close>

datatype user_field =
    UfEmail "string option"
  | UfFullName "string option"
  | UfPasswordHash "string option"
  | UfIsActive "bool option"
  | UfIsEmailVerified "bool option"
  | UfLastLoginAt "time option"
  | UfLoginCount "int option"

fun put_user :: "user_field \<Rightarrow> user \<Rightarrow> user" where
  "put_user (UfEmail (Some v)) r = r\<lparr>u_email := lower v\<rparr>"
| "put_user (UfFullName (Some v)) r = r\<lparr>u_full_name := v\<rparr>"
| "put_user (UfPasswordHash (Some v)) r = r\<lparr>u_password_hash := v\<rparr>"
| "put_user (UfIsActive (Some v)) r = r\<lparr>u_is_active := v\<rparr>"
| "put_user (UfIsEmailVerified (Some v)) r = r\<lparr>u_is_email_verified := v\<rparr>"
| "put_user (UfLastLoginAt (Some v)) r = r\<lparr>u_last_login_at := Some v\<rparr>"
| "put_user (UfLoginCount (Some v)) r = r\<lparr>u_login_count := v\<rparr>"
| "put_user _ r = r"

definition user_update :: "user \<Rightarrow> user_field list \<Rightarrow> (user, db) service" where
  "user_update user kws s =
     (let r = set_fields put_user kws user
      in if (\<exists>x \<in> set (db_users s). u_id x \<noteq> u_id r \<and> u_email x = u_email r)
         then (Inl (IntegrityError ''ix_users_email''), s) else (Inr r, save_user r s))"

interpretation user_repo: row_repo u_id db_users user_get_by_id save_user add_user
  by unfold_locales
    (auto simp: user_get_by_id_def save_user_def add_user_def get_row_None dest: get_row_Some)

text \<open>\<^verbatim>\<open>UserService.get_profile\<close> and \<^verbatim>\<open>update_profile\<close>; \<^verbatim>\<open>hash\<close> is the password hash.\<close>

definition get_profile :: "uuid \<Rightarrow> (user, db) service" where
  "get_profile user_id s = (case user_get_by_id s user_id of
     None \<Rightarrow> (Inl (ResourceNotFoundException ''User not found''), s)
   | Some u \<Rightarrow> (Inr u, s))"

definition update_profile ::
  "(string \<Rightarrow> string) \<Rightarrow> uuid \<Rightarrow> string option \<Rightarrow> string option \<Rightarrow> string option \<Rightarrow> (user, db) service" where
  "update_profile hash user_id full_name email password s = (case user_get_by_id s user_id of
     None \<Rightarrow> (Inl (ResourceNotFoundException ''User not found''), s)
   | Some u \<Rightarrow>
       (case (case email of None \<Rightarrow> None | Some e \<Rightarrow> user_get_by_email s e) of
          Some existing \<Rightarrow>
            if u_id existing \<noteq> user_id
            then (Inl (ConflictException ''Email is already registered by another user''), s)
            else user_update u [UfFullName full_name, UfEmail email, UfPasswordHash (map_option hash password)] s
        | None \<Rightarrow>
            user_update u [UfFullName full_name, UfEmail email, UfPasswordHash (map_option hash password)] s))"

section \<open>Organization repository\<close>

definition org_get_by_id :: "db \<Rightarrow> uuid \<Rightarrow> organization option" where
  "org_get_by_id s i = get_row o_id i (db_organizations s)"

definition org_get_by_slug :: "db \<Rightarrow> string \<Rightarrow> organization option" where
  "org_get_by_slug s slug = get_row o_slug (lower slug) (db_organizations s)"

definition save_org :: "organization \<Rightarrow> db \<Rightarrow> db" where
  "save_org r s = s\<lparr>db_organizations := save_row o_id r (db_organizations s)\<rparr>"

definition add_org :: "organization \<Rightarrow> db \<Rightarrow> db" where
  "add_org r s = s\<lparr>db_organizations := db_organizations s @ [r]\<rparr>"

text \<open>One result row per membership of the user, the organization joined, newest organization first.\<close>

definition org_list_for_user :: "db \<Rightarrow> uuid \<Rightarrow> organization list" where
  "org_list_for_user s user_id = sort_key (\<lambda>org. - o_created_at org)
     (concat (map (\<lambda>org. map (\<lambda>_. org)
        (filter (\<lambda>m. m_org_id m = o_id org \<and> m_user_id m = user_id \<and> \<not> m_is_deleted m) (db_members s)))
      (db_organizations s)))"

definition org_create :: "uuid \<Rightarrow> time \<Rightarrow> string \<Rightarrow> string \<Rightarrow> string \<Rightarrow> (organization, db) service" where
  "org_create i now name slug plan s =
     (let r = \<lparr>o_id = i, o_name = name, o_slug = lower slug, o_plan = plan,
               o_has_agency_mode = False, o_created_at = now\<rparr>
      in if (\<exists>x \<in> set (db_organizations s). o_id x = i \<or> o_slug x = lower slug)
         then (Inl (IntegrityError ''organizations''), s) else (Inr r, add_org r s))"

datatype org_field = OfName "string option" | OfPlan "string option" | OfHasAgencyMode "bool option"

fun put_org :: "org_field \<Rightarrow> organization \<Rightarrow> organization" where
  "put_org (OfName (Some v)) r = r\<lparr>o_name := v\<rparr>"
| "put_org (OfPlan (Some v)) r = r\<lparr>o_plan := v\<rparr>"
| "put_org (OfHasAgencyMode (Some v)) r = r\<lparr>o_has_agency_mode := v\<rparr>"
| "put_org _ r = r"

definition org_update :: "organization \<Rightarrow> org_field list \<Rightarrow> db \<Rightarrow> organization \<times> db" where
  "org_update org kws s = (let r = set_fields put_org kws org in (r, save_org r s))"

interpretation org_repo: row_repo o_id db_organizations org_get_by_id save_org add_org
  by unfold_locales
    (auto simp: org_get_by_id_def save_org_def add_org_def get_row_None dest: get_row_Some)

section \<open>Members\<close>

text \<open>
  \<^verbatim>\<open>scalar_one_or_none\<close> of a query that no uniqueness constraint bounds raises on a second row.
\<close>

definition one_or_none :: "'r list \<Rightarrow> app_error + 'r option" where
  "one_or_none rs = (case rs of [] \<Rightarrow> Inr None | [r] \<Rightarrow> Inr (Some r) | _ \<Rightarrow> Inl MultipleResultsFound)"

definition get_member :: "db \<Rightarrow> uuid \<Rightarrow> uuid \<Rightarrow> bool \<Rightarrow> app_error + organization_member option" where
  "get_member s org_id user_id include_deleted = one_or_none
     (filter (\<lambda>m. m_org_id m = org_id \<and> m_user_id m = user_id \<and> (include_deleted \<or> \<not> m_is_deleted m))
       (db_members s))"

definition member_row :: "db \<Rightarrow> uuid \<Rightarrow> organization_member option" where
  "member_row s i = get_row m_id i (db_members s)"

definition get_member_by_id :: "db \<Rightarrow> uuid \<Rightarrow> bool \<Rightarrow> organization_member option" where
  "get_member_by_id s i include_deleted = (case member_row s i of
     None \<Rightarrow> None | Some m \<Rightarrow> if include_deleted \<or> \<not> m_is_deleted m then Some m else None)"

text \<open>The members of an organization, in joining order; ties are broken by the identifier.\<close>

definition org_members :: "db \<Rightarrow> uuid \<Rightarrow> organization_member list" where
  "org_members s org_id = sort_key m_joined_at (sort_key m_id
     (filter (\<lambda>m. m_org_id m = org_id \<and> \<not> m_is_deleted m) (db_members s)))"

definition after_member :: "organization_member \<Rightarrow> organization_member \<Rightarrow> bool" where
  "after_member c m = (m_joined_at m > m_joined_at c \<or> m_joined_at m = m_joined_at c \<and> m_id m > m_id c)"

definition list_members :: "db \<Rightarrow> uuid \<Rightarrow> nat option \<Rightarrow> uuid option \<Rightarrow> organization_member list" where
  "list_members s org_id lim cursor =
     (let q = org_members s org_id;
          q = (case cursor of None \<Rightarrow> q | Some c \<Rightarrow>
                 (case member_row s c of None \<Rightarrow> q | Some cm \<Rightarrow> filter (after_member cm) q))
      in case lim of None \<Rightarrow> q | Some n \<Rightarrow> take n q)"

definition save_member :: "organization_member \<Rightarrow> db \<Rightarrow> db" where
  "save_member r s = s\<lparr>db_members := save_row m_id r (db_members s)\<rparr>"

definition insert_member :: "organization_member \<Rightarrow> db \<Rightarrow> db" where
  "insert_member r s = s\<lparr>db_members := db_members s @ [r]\<rparr>"

text \<open>The flush of a membership also fails on a dangling organization or user.\<close>

definition add_member :: "uuid \<Rightarrow> time \<Rightarrow> uuid \<Rightarrow> uuid \<Rightarrow> string \<Rightarrow> (organization_member, db) service" where
  "add_member i now org_id user_id role s =
     (let r = \<lparr>m_id = i, m_org_id = org_id, m_user_id = user_id, m_role = role, m_joined_at = now,
               m_is_deleted = False, m_deleted_at = None\<rparr>
      in if i \<in> m_id ` set (db_members s) \<or> org_id \<notin> o_id ` set (db_organizations s) \<or>
            user_id \<notin> u_id ` set (db_users s)
         then (Inl (IntegrityError ''organization_members''), s)
         else (Inr r, insert_member r s))"

definition update_member_role :: "organization_member \<Rightarrow> string \<Rightarrow> db \<Rightarrow> organization_member \<times> db" where
  "update_member_role m role s = (let r = m\<lparr>m_role := role\<rparr> in (r, save_member r s))"

definition restore_member :: "organization_member \<Rightarrow> string \<Rightarrow> db \<Rightarrow> organization_member \<times> db" where
  "restore_member m role s =
     (let r = m\<lparr>m_is_deleted := False, m_deleted_at := None, m_role := role\<rparr> in (r, save_member r s))"

definition soft_delete_member :: "time \<Rightarrow> organization_member \<Rightarrow> db \<Rightarrow> db" where
  "soft_delete_member now m s = save_member (m\<lparr>m_is_deleted := True, m_deleted_at := Some now\<rparr>) s"

interpretation member_repo: row_repo m_id db_members member_row save_member insert_member
  by unfold_locales
    (auto simp: member_row_def save_member_def insert_member_def get_row_None dest: get_row_Some)

text \<open>The owner a service acts for: the first active member whose role is owner.\<close>

definition first_owner :: "db \<Rightarrow> uuid \<Rightarrow> organization_member option" where
  "first_owner s org_id = find (\<lambda>m. m_role m = ''owner'') (list_members s org_id None None)"

section \<open>Applications\<close>

definition create_application ::
  "uuid \<Rightarrow> time \<Rightarrow> uuid \<Rightarrow> string \<Rightarrow> uuid option \<Rightarrow> string option \<Rightarrow> db \<Rightarrow> application \<times> db" where
  "create_application i now org_id name client_id description s =
     (let r = \<lparr>ap_id = i, ap_org_id = org_id, ap_client_id = client_id, ap_name = name,
               ap_description = description, ap_created_at = now\<rparr>
      in (r, s\<lparr>db_applications := db_applications s @ [r]\<rparr>))"

definition get_application :: "db \<Rightarrow> uuid \<Rightarrow> application option" where
  "get_application s i = get_row ap_id i (db_applications s)"

definition get_default_application :: "db \<Rightarrow> uuid \<Rightarrow> application option" where
  "get_default_application s org_id =
     (case sort_key ap_created_at (filter (\<lambda>a. ap_org_id a = org_id \<and> ap_client_id a = None \<and>
         ap_name a = ''Default'') (db_applications s)) of
        [] \<Rightarrow> None | a # _ \<Rightarrow> Some a)"

end
