(* ===== verification/Org_Service.thy ===== *)
theory Org_Service
  imports Organizations
begin

text \<open>
  \<^verbatim>\<open>modules/organizations/service.py\<close>: creating, reading and updating organizations and managing
  their members.
\<close>

section \<open>Operations\<close>

text \<open>\<^verbatim>\<open>re.sub(r"[^a-z0-9-]+", "-", s)\<close>, then \<^verbatim>\<open>strip("-")\<close>.\<close>

definition slug_char :: "char \<Rightarrow> bool" where
  "slug_char c = (let n = (of_char c :: nat) in (97 \<le> n \<and> n \<le> 122) \<or> (48 \<le> n \<and> n \<le> 57) \<or> n = 45)"

fun slug_sub :: "bool \<Rightarrow> string \<Rightarrow> string" where
  "slug_sub in_run [] = []"
| "slug_sub in_run (c # cs) =
     (if slug_char c then c # slug_sub False cs
      else if in_run then slug_sub True cs else CHR 0x2D # slug_sub True cs)"

definition strip_dash :: "string \<Rightarrow> string" where
  "strip_dash s = rev (dropWhile (\<lambda>c. c = CHR 0x2D) (rev (dropWhile (\<lambda>c. c = CHR 0x2D) s)))"

definition org_slug :: "string option \<Rightarrow> string \<Rightarrow> string \<Rightarrow> string" where
  "org_slug slug name hex8 =
     (if str_truthy slug then the slug
      else let d = strip_dash (slug_sub False (lower name)) in if d = [] then ''org-'' @ hex8 else d)"

definition list_my_orgs :: "uuid \<Rightarrow> (organization list, db) service" where
  "list_my_orgs user_id s = (Inr (org_list_for_user s user_id), s)"

text \<open>\<^verbatim>\<open>hex8\<close> is the random fragment; the identifiers are those of the organization, its owner's
  membership and its default application.\<close>

definition create_org ::
  "time \<Rightarrow> string \<Rightarrow> uuid \<Rightarrow> uuid \<Rightarrow> uuid \<Rightarrow> uuid \<Rightarrow> string \<Rightarrow> string option \<Rightarrow> (organization, db) service" where
  "create_org now hex8 oid mid aid user_id name slug s =
     (let sl = org_slug slug name hex8 in
      case org_get_by_slug s sl of
        Some _ \<Rightarrow> (Inl (ConflictException (''Organization slug '' @ quoted sl @ '' is already in use'')), s)
      | None \<Rightarrow>
          (case org_create oid now name sl ''free'' s of
             (Inl e, s1) \<Rightarrow> (Inl e, s1)
           | (Inr org, s1) \<Rightarrow>
               (case add_member mid now (o_id org) user_id ''owner'' s1 of
                  (Inl e, s2) \<Rightarrow> (Inl e, s2)
                | (Inr _, s2) \<Rightarrow>
                    (let s3 = snd (create_application aid now (o_id org) ''Default'' None
                                     (Some ''Default application'') s2)
                     in (Inr org, s3)))))"

definition get_org :: "uuid \<Rightarrow> (organization, db) service" where
  "get_org org_id s = (case org_get_by_id s org_id of
     None \<Rightarrow> (Inl (ResourceNotFoundException ''Organization not found''), s)
   | Some org \<Rightarrow> (Inr org, s))"

definition update_org :: "uuid \<Rightarrow> string option \<Rightarrow> (organization, db) service" where
  "update_org org_id name s = (case org_get_by_id s org_id of
     None \<Rightarrow> (Inl (ResourceNotFoundException ''Organization not found''), s)
   | Some org \<Rightarrow> (let (r, s1) = org_update org [OfName name] s in (Inr r, s1)))"

text \<open>The page, whether there are more, and the cursor of the next one.\<close>

definition service_list_members ::
  "uuid \<Rightarrow> nat \<Rightarrow> uuid option \<Rightarrow> db \<Rightarrow> organization_member list \<times> bool \<times> string option" where
  "service_list_members org_id lim cursor s =
     (let members = list_members s org_id (Some (lim + 1)) cursor;
          has_more = length members > lim;
          items = take lim members
      in (items, has_more, if has_more \<and> items \<noteq> [] then Some (uuid_str (m_id (last items))) else None))"

definition invite_member ::
  "time \<Rightarrow> uuid \<Rightarrow> uuid \<Rightarrow> string \<Rightarrow> string \<Rightarrow> (organization_member, db) service" where
  "invite_member now mid org_id email role s = (case user_get_by_email s email of
     None \<Rightarrow> (Inl (ResourceNotFoundException (''User with email '' @ quoted email @ '' not found'')), s)
   | Some user \<Rightarrow>
       (case get_member s org_id (u_id user) True of
          Inl e \<Rightarrow> (Inl e, s)
        | Inr (Some m) \<Rightarrow>
            if \<not> m_is_deleted m
            then (Inl (ConflictException ''User is already a member of this organization''), s)
            else (let (r, s1) = restore_member m role s in (Inr r, s1))
        | Inr None \<Rightarrow> add_member mid now org_id (u_id user) role s))"

definition change_member_role ::
  "uuid \<Rightarrow> uuid \<Rightarrow> string \<Rightarrow> (organization_member, db) service" where
  "change_member_role org_id member_id role s = (case get_member_by_id s member_id False of
     None \<Rightarrow> (Inl (ResourceNotFoundException ''Organization member not found''), s)
   | Some m \<Rightarrow>
       if m_org_id m \<noteq> org_id then (Inl (ResourceNotFoundException ''Organization member not found''), s)
       else (let (r, s1) = update_member_role m role s in (Inr r, s1)))"

definition remove_member :: "time \<Rightarrow> uuid \<Rightarrow> uuid \<Rightarrow> (unit, db) service" where
  "remove_member now org_id member_id s = (case get_member_by_id s member_id False of
     None \<Rightarrow> (Inl (ResourceNotFoundException ''Organization member not found''), s)
   | Some m \<Rightarrow>
       if m_org_id m \<noteq> org_id then (Inl (ResourceNotFoundException ''Organization member not found''), s)
       else if m_role m = ''owner'' \<and>
          length (filter (\<lambda>x. m_role x = ''owner'') (list_members s org_id None None)) \<le> 1
       then (Inl (ForbiddenException (''Cannot remove the last owner of the organization. '' @
               ''Transfer ownership to another member first.'')), s)
       else (Inr (), soft_delete_member now m s))"

section \<open>Owners\<close>

definition is_owner_of :: "uuid \<Rightarrow> organization_member \<Rightarrow> bool" where
  "is_owner_of org_id m = (m_org_id m = org_id \<and> \<not> m_is_deleted m \<and> m_role m = ''owner'')"

definition has_owner :: "uuid \<Rightarrow> db \<Rightarrow> bool" where
  "has_owner org_id s = (\<exists>m \<in> set (db_members s). is_owner_of org_id m)"

definition members_wf :: "db \<Rightarrow> bool" where
  "members_wf s = (distinct (map m_id (db_members s)) \<and>
     distinct (map (\<lambda>m. (m_org_id m, m_user_id m)) (db_members s)))"

lemma get_member_by_id_row:
  "get_member_by_id s i False = Some m \<Longrightarrow> m \<in> set (db_members s) \<and> m_id m = i \<and> \<not> m_is_deleted m"
  by (auto simp: get_member_by_id_def split: option.splits if_splits dest: member_repo.get_hit)

lemma owners_list:
  "filter (\<lambda>x. m_role x = ''owner'') (list_members s org_id None None) =
   sort_key m_joined_at (sort_key m_id (filter (is_owner_of org_id) (db_members s)))"
  by (simp add: list_members_def org_members_def filter_sort is_owner_of_def [abs_def] conj_ac)

lemma owners_count:
  "length (filter (\<lambda>x. m_role x = ''owner'') (list_members s org_id None None)) =
   length (filter (is_owner_of org_id) (db_members s))"
  by (simp add: owners_list)

lemma has_owner_filter: "has_owner org_id s \<longleftrightarrow> filter (is_owner_of org_id) (db_members s) \<noteq> []"
  by (auto simp: has_owner_def filter_empty_conv)

lemma two_owners:
  assumes "length (filter (is_owner_of org_id) ms) > 1" and "distinct (map m_id ms)"
  shows "\<exists>x \<in> set ms. is_owner_of org_id x \<and> m_id x \<noteq> i"
proof -
  obtain a b rest where f: "filter (is_owner_of org_id) ms = a # b # rest"
    using assms(1) by (cases "filter (is_owner_of org_id) ms" rule: remdups_adj.cases) auto
  have "{a, b} \<subseteq> set (filter (is_owner_of org_id) ms)"
    by (simp add: f)
  moreover have "m_id a \<noteq> m_id b"
    using distinct_map_filter [OF assms(2), of "is_owner_of org_id"] by (simp add: f)
  ultimately show ?thesis
    by (cases "m_id a = i") auto
qed

lemma saved_member_kept: "x \<in> set (db_members s) \<Longrightarrow> m_id x \<noteq> m_id r \<Longrightarrow> x \<in> set (db_members (save_member r s))"
  by (auto simp: member_repo.rows_save save_row_def)

lemma saved_member_in: "m \<in> set (db_members s) \<Longrightarrow> m_id r = m_id m \<Longrightarrow> r \<in> set (db_members (save_member r s))"
  by (force simp: member_repo.rows_save save_row_def)

lemma other_owner:
  assumes "members_wf s" and "m \<in> set (db_members s)" and "has_owner o' s"
    and "is_owner_of o' m \<Longrightarrow> length (filter (is_owner_of o') (db_members s)) > 1"
  shows "\<exists>x \<in> set (db_members s). is_owner_of o' x \<and> m_id x \<noteq> m_id m"
proof (cases "is_owner_of o' m")
  case True
  then show ?thesis
    using two_owners assms(1,4) by (simp add: members_wf_def)
next
  case False
  obtain x where x: "x \<in> set (db_members s)" "is_owner_of o' x"
    using assms(3) by (auto simp: has_owner_def)
  with False have "x \<noteq> m"
    by auto
  with x assms(1,2) have "m_id x \<noteq> m_id m"
    unfolding members_wf_def by (blast dest: distinct_map_inj)
  with x show ?thesis
    by blast
qed

lemma remove_member_keeps_owner_aux:
  assumes "members_wf s" and "has_owner o' s"
  shows "has_owner o' (snd (remove_member now org_id i s))"
proof (cases "fst (remove_member now org_id i s)")
  case (Inl e)
  then show ?thesis
    using assms(2) by (auto simp: remove_member_def split: option.splits if_splits)
next
  case (Inr u)
  then obtain m where m: "get_member_by_id s i False = Some m" "m_org_id m = org_id"
    and guard: "m_role m = ''owner'' \<Longrightarrow> length (filter (is_owner_of org_id) (db_members s)) > 1"
    and res: "snd (remove_member now org_id i s) = soft_delete_member now m s"
    by (auto simp: remove_member_def owners_count split: option.splits if_splits)
  have "\<exists>x \<in> set (db_members s). is_owner_of o' x \<and> m_id x \<noteq> m_id m"
    using assms m guard
    by (intro other_owner) (auto simp: is_owner_of_def dest: get_member_by_id_row)
  then show ?thesis
    by (auto simp: res soft_delete_member_def has_owner_def intro!: saved_member_kept)
qed

text \<open>
  The invariant of the membership tables: unique identifiers and slugs, one membership row per
  organization and user, and no membership of an unknown organization.
\<close>

definition org_wf :: "db \<Rightarrow> bool" where
  "org_wf s = (members_wf s \<and> distinct (map o_id (db_organizations s)) \<and>
     distinct (map o_slug (db_organizations s)) \<and>
     (\<forall>m \<in> set (db_members s). m_org_id m \<in> o_id ` set (db_organizations s)))"

lemma save_member_wf:
  assumes "org_wf s" and "m \<in> set (db_members s)" and "m_id r = m_id m" and "m_org_id r = m_org_id m"
    and "m_user_id r = m_user_id m"
  shows "org_wf (save_member r s)"
proof -
  have d: "distinct (map m_id (db_members s))"
    using assms(1) by (simp add: org_wf_def members_wf_def)
  have "map (\<lambda>m. (m_org_id m, m_user_id m)) (save_row m_id r (db_members s)) =
      map (\<lambda>m. (m_org_id m, m_user_id m)) (db_members s)"
    using d assms(2,3,4,5) by (intro map_save_row_same) auto
  moreover have "\<forall>x \<in> set (save_row m_id r (db_members s)). m_org_id x \<in> o_id ` set (db_organizations s)"
    using assms by (auto simp: org_wf_def dest!: set_save_row)
  ultimately show ?thesis
    using assms(1) by (simp add: org_wf_def members_wf_def save_member_def)
qed

lemma soft_delete_wf: "org_wf s \<Longrightarrow> m \<in> set (db_members s) \<Longrightarrow> org_wf (soft_delete_member now m s)"
  unfolding soft_delete_member_def by (rule save_member_wf) auto

lemma update_role_wf: "org_wf s \<Longrightarrow> m \<in> set (db_members s) \<Longrightarrow> org_wf (snd (update_member_role m role s))"
  unfolding update_member_role_def Let_def snd_conv by (rule save_member_wf) auto

lemma restore_wf: "org_wf s \<Longrightarrow> m \<in> set (db_members s) \<Longrightarrow> org_wf (snd (restore_member m role s))"
  unfolding restore_member_def Let_def snd_conv by (rule save_member_wf) auto

lemma add_member_wf:
  assumes "org_wf s" and "\<forall>m \<in> set (db_members s). m_org_id m = org_id \<longrightarrow> m_user_id m \<noteq> user_id"
  shows "org_wf (snd (add_member i now org_id user_id role s))"
  using assms by (auto simp: add_member_def Let_def org_wf_def members_wf_def insert_member_def)

lemma get_member_None:
  "get_member s org_id user_id True = Inr None \<Longrightarrow>
   \<forall>m \<in> set (db_members s). m_org_id m = org_id \<longrightarrow> m_user_id m \<noteq> user_id"
  by (auto simp: get_member_def one_or_none_def filter_empty_conv split: list.splits)

lemma get_member_Some:
  "get_member s org_id user_id d = Inr (Some m) \<Longrightarrow>
   m \<in> set (db_members s) \<and> m_org_id m = org_id \<and> m_user_id m = user_id"
  by (auto simp: get_member_def one_or_none_def filter_eq_Cons_iff split: list.splits)

lemma get_member_total:
  assumes "org_wf s"
  shows "get_member s org_id user_id d \<noteq> Inl e"
proof -
  let ?f = "filter (\<lambda>m. m_org_id m = org_id \<and> m_user_id m = user_id \<and> (d \<or> \<not> m_is_deleted m)) (db_members s)"
  have "distinct (map (\<lambda>m. (m_org_id m, m_user_id m)) ?f)"
    using assms by (simp add: org_wf_def members_wf_def distinct_map_filter)
  moreover have "\<forall>m \<in> set ?f. (m_org_id m, m_user_id m) = (org_id, user_id)"
    by simp
  ultimately have "length ?f \<le> 1"
    by (cases ?f rule: remdups_adj.cases) auto
  then show ?thesis
    unfolding get_member_def one_or_none_def by (cases ?f rule: remdups_adj.cases) auto
qed

lemma invite_wf: "org_wf s \<Longrightarrow> org_wf (snd (invite_member now mid org_id email role s))"
  by (auto simp: invite_member_def split: option.splits sum.splits prod.splits
      dest!: get_member_None get_member_Some
      dest: add_member_wf restore_wf [of s _ role])

lemma change_role_wf: "org_wf s \<Longrightarrow> org_wf (snd (change_member_role org_id i role s))"
  by (auto simp: change_member_role_def split: option.splits prod.splits
      dest: get_member_by_id_row update_role_wf [of s _ role])

lemma remove_wf: "org_wf s \<Longrightarrow> org_wf (snd (remove_member now org_id i s))"
  by (auto simp: remove_member_def split: option.splits
      dest: get_member_by_id_row soft_delete_wf [of s _ now])

lemma org_update_wf:
  assumes "org_wf s" and "org \<in> set (db_organizations s)"
  shows "org_wf (snd (org_update org kws s))"
proof -
  have "\<And>k r. o_id (put_org k r) = o_id r \<and> o_slug (put_org k r) = o_slug r"
    by (rule put_org.induct) auto
  then have keep: "\<And>r. o_id (fold put_org kws r) = o_id r \<and> o_slug (fold put_org kws r) = o_slug r"
    by (induction kws) auto
  have "map o_slug (save_row o_id (fold put_org kws org) (db_organizations s)) = map o_slug (db_organizations s)"
    using assms keep by (intro map_save_row_same) (auto simp: org_wf_def)
  moreover have "o_id ` set (save_row o_id (fold put_org kws org) (db_organizations s)) = o_id ` set (db_organizations s)"
    by (metis list.set_map save_row_keys)
  ultimately show ?thesis
    using assms(1) by (simp add: org_update_def Let_def set_fields_def save_org_def org_wf_def members_wf_def)
qed

lemma update_org_wf: "org_wf s \<Longrightarrow> org_wf (snd (update_org org_id name s))"
  by (auto simp: update_org_def split: option.splits prod.splits
      dest!: org_repo.get_hit dest: org_update_wf [of s _ "[OfName name]"])

lemma create_org_wf:
  assumes "org_wf s"
  shows "org_wf (snd (create_org now hex8 oid mid aid user_id name slug s))"
proof -
  define sl where "sl = org_slug slug name hex8"
  define s1 where "s1 = snd (org_create oid now name sl ''free'' s)"
  have wf1: "org_wf s1"
    using assms unfolding s1_def
    by (auto simp: org_create_def Let_def add_org_def org_wf_def members_wf_def)
  show ?thesis
  proof (cases "fst (org_create oid now name sl ''free'' s)")
    case (Inl e)
    then have "s1 = s"
      by (auto simp: s1_def org_create_def Let_def split: if_splits)
    with Inl assms show ?thesis
      by (auto simp: create_org_def sl_def s1_def Let_def split: option.splits prod.splits sum.splits)
  next
    case (Inr org)
    then have "o_id org = oid" "oid \<notin> o_id ` set (db_organizations s)" "db_members s1 = db_members s"
      by (auto simp: s1_def org_create_def Let_def add_org_def split: if_splits)
    then have "\<forall>m \<in> set (db_members s1). m_org_id m \<noteq> o_id org"
      using assms by (metis org_wf_def)
    then have "org_wf (snd (add_member mid now (o_id org) user_id ''owner'' s1))"
      using wf1 by (intro add_member_wf) auto
    moreover have "\<And>t. org_wf t \<Longrightarrow> org_wf (snd (create_application aid now k n cl d t))" for k n cl d
      by (simp add: create_application_def Let_def org_wf_def members_wf_def)
    ultimately show ?thesis
      using assms Inr by (auto simp: create_org_def sl_def s1_def Let_def split: option.splits prod.splits sum.splits)
  qed
qed

section \<open>Reachable membership states\<close>

inductive org_step :: "db \<Rightarrow> db \<Rightarrow> bool" where
  step_create: "org_step s (snd (create_org now hex8 oid mid aid user_id name slug s))"
| step_update: "org_step s (snd (update_org org_id nm s))"
| step_invite: "org_step s (snd (invite_member now mid org_id email role s))"
| step_role: "org_step s (snd (change_member_role org_id i role s))"
| step_remove: "org_step s (snd (remove_member now org_id i s))"

lemma org_step_wf: "org_step s s' \<Longrightarrow> org_wf s \<Longrightarrow> org_wf s'"
  by (induction rule: org_step.induct)
    (simp_all add: create_org_wf update_org_wf invite_wf change_role_wf remove_wf)

lemma org_steps_wf: "org_step\<^sup>*\<^sup>* s s' \<Longrightarrow> org_wf s \<Longrightarrow> org_wf s'"
  by (induction rule: rtranclp_induct) (auto dest: org_step_wf)

lemma empty_org_wf: "org_wf (empty_db\<lparr>db_users := us\<rparr>)"
  by (simp add: org_wf_def members_wf_def empty_db_def)


section \<open>Properties\<close>

definition demo_user :: "uuid \<Rightarrow> string \<Rightarrow> user" where
  "demo_user i email = \<lparr>u_id = i, u_email = email, u_password_hash = ''h'', u_full_name = ''A'',
     u_is_active = True, u_is_email_verified = True, u_is_superuser = False, u_google_id = None,
     u_github_id = None, u_avatar_url = None, u_auth_provider = None, u_external_auth_id = None,
     u_is_system_admin = False, u_admin_note = None, u_source = None, u_last_login_at = None,
     u_last_activity_at = None, u_login_count = 0, u_created_at = 0\<rparr>"

definition demo_org_db :: db where
  "demo_org_db = empty_db
     \<lparr>db_users := [demo_user 1 ''a@x'', demo_user 2 ''b@x''],
      db_organizations := [\<lparr>o_id = 10, o_name = ''Acme'', o_slug = ''acme'', o_plan = ''free'',
        o_has_agency_mode = False, o_created_at = 0\<rparr>],
      db_members := [\<lparr>m_id = 20, m_org_id = 10, m_user_id = 1, m_role = ''owner'', m_joined_at = 0,
        m_is_deleted = False, m_deleted_at = None\<rparr>]\<rparr>"

text \<open>
  Removing a member never leaves an organization without an owner: whatever organization and
  member the request names, every organization that had an active owner before still has one.
\<close>
theorem remove_member_keeps_owner:
  assumes "members_wf s" and "has_owner o' s"
  shows "has_owner o' (snd (remove_member now org_id i s))"
  using assms by (rule remove_member_keeps_owner_aux)

theorem remove_member_keeps_owner_witness:
  "has_owner 10 (snd (remove_member 5 10 20 demo_org_db))"
  by (rule remove_member_keeps_owner)
    (simp_all add: demo_org_db_def members_wf_def has_owner_def is_owner_of_def)

text \<open>
  Changing a role has no such guard: demoting the only owner of an organization succeeds and
  leaves it with no owner at all, the state that removing a member refuses to reach.
\<close>
theorem demotion_drops_last_owner:
  assumes "members_wf s" and "get_member_by_id s i False = Some m"
    and "filter (is_owner_of org_id) (db_members s) = [m]" and "role \<noteq> ''owner''"
  shows "fst (change_member_role org_id i role s) = Inr (m\<lparr>m_role := role\<rparr>)
    \<and> \<not> has_owner org_id (snd (change_member_role org_id i role s))
    \<and> fst (remove_member now org_id i s) \<noteq> Inr ()"
proof -
  have "m \<in> set (filter (is_owner_of org_id) (db_members s))"
    by (simp add: assms(3))
  then have m: "m \<in> set (db_members s)" "is_owner_of org_id m"
    by auto
  have "\<And>x. x \<in> set (db_members s) \<Longrightarrow> is_owner_of org_id x \<Longrightarrow> x = m"
    using arg_cong [OF assms(3), of set] by auto
  then have "\<not> has_owner org_id (save_member (m\<lparr>m_role := role\<rparr>) s)"
    using assms(4) by (auto simp: has_owner_def save_member_def save_row_def is_owner_of_def)
  then show ?thesis
    using assms m
    by (auto simp: change_member_role_def update_member_role_def Let_def is_owner_of_def
        remove_member_def owners_count)
qed

theorem demotion_drops_last_owner_witness:
  "\<not> has_owner 10 (snd (change_member_role 10 20 ''member'' demo_org_db))"
  by (rule demotion_drops_last_owner [where m = "hd (db_members demo_org_db)",
        THEN conjunct2, THEN conjunct1])
    (simp_all add: demo_org_db_def members_wf_def is_owner_of_def get_member_by_id_def member_row_def
      get_row_def)

text \<open>
  Starting from well-formed tables, every sequence of organization operations (creating,
  renaming, inviting, changing roles, removing) keeps one membership row per organization and user,
  unique slugs and no dangling membership, so the lookup of a membership never finds two rows.
\<close>
theorem membership_unique:
  assumes "org_step\<^sup>*\<^sup>* s s'" and "org_wf s"
  shows "org_wf s' \<and> (\<forall>e. get_member s' org_id user_id d \<noteq> Inl e)"
  using org_steps_wf [OF assms] by (simp add: get_member_total)

theorem membership_unique_witness:
  "org_wf (snd (invite_member 5 21 10 ''B@x'' ''admin'' demo_org_db))
   \<and> length (db_members (snd (invite_member 5 21 10 ''B@x'' ''admin'' demo_org_db))) = 2"
proof
  have "org_step\<^sup>*\<^sup>* demo_org_db (snd (invite_member 5 21 10 ''B@x'' ''admin'' demo_org_db))"
    by (rule r_into_rtranclp) (rule step_invite)
  then show "org_wf (snd (invite_member 5 21 10 ''B@x'' ''admin'' demo_org_db))"
    by (rule membership_unique [THEN conjunct1])
      (simp add: demo_org_db_def org_wf_def members_wf_def)
qed code_simp

text \<open>
  When creating an organization succeeds, its slug was free and is now taken, the caller is its
  owner, it is on the free plan, and it has its default application.
\<close>
theorem create_org_success:
  assumes "create_org now hex8 oid mid aid user_id name slug s = (Inr org, s')"
  shows "org_get_by_slug s (o_slug org) = None \<and> o_plan org = ''free'' \<and> has_owner (o_id org) s'
    \<and> get_default_application s' (o_id org) \<noteq> None"
  using assms
  by (auto simp: create_org_def Let_def org_create_def add_org_def add_member_def insert_member_def
      create_application_def org_get_by_slug_def has_owner_def is_owner_of_def
      get_default_application_def filter_empty_conv
      split: option.splits sum.splits prod.splits if_splits list.splits)

theorem create_org_success_witness:
  "o_slug (projr (fst (create_org 5 ''ab'' 11 21 31 2 ''My Org!'' None demo_org_db))) = ''my-org''
   \<and> has_owner 11 (snd (create_org 5 ''ab'' 11 21 31 2 ''My Org!'' None demo_org_db))"
proof -
  let ?r = "create_org 5 ''ab'' 11 21 31 2 ''My Org!'' None demo_org_db"
  have slug: "isl (fst ?r) = False \<and> o_slug (projr (fst ?r)) = ''my-org'' \<and> o_id (projr (fst ?r)) = 11"
    by code_simp
  then have "?r = (Inr (projr (fst ?r)), snd ?r)"
    by (cases ?r; cases "fst ?r") auto
  from create_org_success [OF this] slug show ?thesis
    by simp
qed

end
