(* ===== verification/Partner_Repository.thy ===== *)
theory Partner_Repository
  imports Organizations
begin

text \<open>
  \<^verbatim>\<open>modules/partners/repository.py\<close> and the code repository of
  \<^verbatim>\<open>modules/referrals/repository.py\<close>: lookups, creation (a violated uniqueness constraint is an
  \<^verbatim>\<open>IntegrityError\<close> at flush), keyword updates and the list and sum queries.  Every table is an
  instance of the repository contract.
\<close>

section \<open>Queries\<close>

text \<open>SQL \<^verbatim>\<open>ILIKE\<close> with its wildcards and backslash escapes.\<close>

function like_match :: "string \<Rightarrow> string \<Rightarrow> bool" where
  "like_match [] s = (s = [])"
| "like_match (c # p) s =
     (if c = CHR ''%'' then like_match p s \<or> (case s of [] \<Rightarrow> False | _ # s' \<Rightarrow> like_match (c # p) s')
      else if c = CHR ''_'' then (case s of [] \<Rightarrow> False | _ # s' \<Rightarrow> like_match p s')
      else if c = CHR 0x5C \<and> p \<noteq> [] then
        (case s of [] \<Rightarrow> False | x # s' \<Rightarrow> x = hd p \<and> like_match (tl p) s')
      else (case s of [] \<Rightarrow> False | x # s' \<Rightarrow> x = c \<and> like_match p s'))"
  by pat_completeness auto
termination
  by (relation "measure (\<lambda>(p, s). length p + length s)") auto

definition ilike :: "string \<Rightarrow> string \<Rightarrow> bool" where
  "ilike s pat = like_match (lower pat) (lower s)"

section \<open>Referral codes\<close>

definition code_get_by_id :: "db \<Rightarrow> uuid \<Rightarrow> referral_code option" where
  "code_get_by_id s i = get_row rc_id i (db_referral_codes s)"

definition code_get_by_user_id :: "db \<Rightarrow> uuid \<Rightarrow> referral_code option" where
  "code_get_by_user_id s u = get_row rc_user_id u (db_referral_codes s)"

definition code_get_by_code :: "db \<Rightarrow> string \<Rightarrow> referral_code option" where
  "code_get_by_code s code = find (\<lambda>r. rc_code r = upper code \<and> rc_is_active r) (db_referral_codes s)"

definition code_exists :: "db \<Rightarrow> string \<Rightarrow> bool" where
  "code_exists s code = (length (filter (\<lambda>r. rc_code r = upper code) (db_referral_codes s)) > 0)"

definition code_create :: "uuid \<Rightarrow> time \<Rightarrow> uuid \<Rightarrow> string \<Rightarrow> (referral_code, db) service" where
  "code_create i now user_id code s =
     (let r = \<lparr>rc_id = i, rc_user_id = user_id, rc_code = code, rc_is_active = True, rc_created_at = now\<rparr>
      in if \<exists>x \<in> set (db_referral_codes s). rc_id x = i \<or> rc_user_id x = user_id \<or> rc_code x = code
         then (Inl (IntegrityError ''referral_codes''), s)
         else (Inr r, s\<lparr>db_referral_codes := db_referral_codes s @ [r]\<rparr>))"

section \<open>Partner profiles\<close>

definition profile_get_by_user_id :: "db \<Rightarrow> uuid \<Rightarrow> partner_profile option" where
  "profile_get_by_user_id s u = get_row pp_user_id u (db_profiles s)"

definition profile_get_by_id :: "db \<Rightarrow> uuid \<Rightarrow> partner_profile option" where
  "profile_get_by_id s i = get_row pp_id i (db_profiles s)"

definition save_profile :: "partner_profile \<Rightarrow> db \<Rightarrow> db" where
  "save_profile r s = s\<lparr>db_profiles := save_row pp_id r (db_profiles s)\<rparr>"

definition add_profile :: "partner_profile \<Rightarrow> db \<Rightarrow> db" where
  "add_profile r s = s\<lparr>db_profiles := db_profiles s @ [r]\<rparr>"

definition profile_create :: "uuid \<Rightarrow> time \<Rightarrow> uuid \<Rightarrow> uuid option \<Rightarrow> (partner_profile, db) service" where
  "profile_create i now user_id code_id s =
     (let r = \<lparr>pp_id = i, pp_user_id = user_id, pp_referral_code_id = code_id, pp_status = PActive,
               pp_click_count = 0, pp_created_at = now\<rparr>
      in if \<exists>x \<in> set (db_profiles s). pp_id x = i \<or> pp_user_id x = user_id \<or>
            (code_id \<noteq> None \<and> pp_referral_code_id x = code_id)
         then (Inl (IntegrityError ''uq_partner_profiles''), s) else (Inr r, add_profile r s))"

datatype profile_field = PpStatus "partner_status option" | PpClickCount "int option"

fun put_profile :: "profile_field \<Rightarrow> partner_profile \<Rightarrow> partner_profile" where
  "put_profile (PpStatus (Some v)) r = r\<lparr>pp_status := v\<rparr>"
| "put_profile (PpClickCount (Some v)) r = r\<lparr>pp_click_count := v\<rparr>"
| "put_profile _ r = r"

definition profile_update :: "partner_profile \<Rightarrow> profile_field list \<Rightarrow> db \<Rightarrow> db" where
  "profile_update p kws s = save_profile (set_fields put_profile kws p) s"

definition profile_list_all ::
  "db \<Rightarrow> string option \<Rightarrow> string option \<Rightarrow> nat \<Rightarrow> nat \<Rightarrow> partner_profile list \<times> nat" where
  "profile_list_all s status search off lim =
     (let q = filter (\<lambda>p.
        (\<not> str_truthy status \<or> status = Some (partner_status_value (pp_status p))) \<and>
        (\<not> str_truthy search \<or> (case user_get_by_id s (pp_user_id p) of None \<Rightarrow> False
           | Some u \<Rightarrow> ilike (u_email u) (''%'' @ the search @ ''%'')))) (db_profiles s)
      in (page_of (\<lambda>p. - pp_created_at p) off lim q, length q))"

interpretation profile_repo: row_repo pp_id db_profiles profile_get_by_id save_profile add_profile
  by unfold_locales
    (auto simp: profile_get_by_id_def save_profile_def add_profile_def get_row_None dest: get_row_Some)

section \<open>Partner referrals\<close>

definition referral_get_by_referred_user :: "db \<Rightarrow> uuid \<Rightarrow> partner_referral option" where
  "referral_get_by_referred_user s u = get_row pr_referred_user_id u (db_referrals s)"

definition referral_get_by_id :: "db \<Rightarrow> uuid \<Rightarrow> partner_referral option" where
  "referral_get_by_id s i = get_row pr_id i (db_referrals s)"

definition save_referral :: "partner_referral \<Rightarrow> db \<Rightarrow> db" where
  "save_referral r s = s\<lparr>db_referrals := save_row pr_id r (db_referrals s)\<rparr>"

definition add_referral :: "partner_referral \<Rightarrow> db \<Rightarrow> db" where
  "add_referral r s = s\<lparr>db_referrals := db_referrals s @ [r]\<rparr>"

definition referral_create ::
  "uuid \<Rightarrow> time \<Rightarrow> uuid \<Rightarrow> uuid \<Rightarrow> uuid option \<Rightarrow> referral_status \<Rightarrow> (partner_referral, db) service" where
  "referral_create i now partner_id referred_user_id referred_org_id status s =
     (let r = \<lparr>pr_id = i, pr_partner_id = partner_id, pr_referred_user_id = referred_user_id,
               pr_referred_org_id = referred_org_id, pr_status = status, pr_subscribed_at = None,
               pr_created_at = now\<rparr>
      in if \<exists>x \<in> set (db_referrals s). pr_id x = i \<or> pr_referred_user_id x = referred_user_id
         then (Inl (IntegrityError ''uq_partner_referrals_referred_user_id''), s)
         else (Inr r, add_referral r s))"

datatype referral_field = PrStatus "referral_status option" | PrSubscribedAt "time option"

fun put_referral :: "referral_field \<Rightarrow> partner_referral \<Rightarrow> partner_referral" where
  "put_referral (PrStatus (Some v)) r = r\<lparr>pr_status := v\<rparr>"
| "put_referral (PrSubscribedAt (Some v)) r = r\<lparr>pr_subscribed_at := Some v\<rparr>"
| "put_referral _ r = r"

definition referral_update :: "partner_referral \<Rightarrow> referral_field list \<Rightarrow> db \<Rightarrow> db" where
  "referral_update r kws s = save_referral (set_fields put_referral kws r) s"

definition referral_count_by_partner :: "db \<Rightarrow> uuid \<Rightarrow> referral_status option \<Rightarrow> nat" where
  "referral_count_by_partner s p status =
     length (filter (\<lambda>r. pr_partner_id r = p \<and> (status = None \<or> status = Some (pr_status r))) (db_referrals s))"

definition referral_list_by_partner :: "db \<Rightarrow> uuid \<Rightarrow> nat \<Rightarrow> nat \<Rightarrow> partner_referral list \<times> nat" where
  "referral_list_by_partner s p off lim =
     (let q = filter (\<lambda>r. pr_partner_id r = p) (db_referrals s)
      in (page_of (\<lambda>r. - pr_created_at r) off lim q, length q))"

interpretation referral_repo: row_repo pr_id db_referrals referral_get_by_id save_referral add_referral
  by unfold_locales
    (auto simp: referral_get_by_id_def save_referral_def add_referral_def get_row_None dest: get_row_Some)

section \<open>Commissions\<close>

definition commission_get_by_billing_event :: "db \<Rightarrow> string \<Rightarrow> uuid \<Rightarrow> partner_commission option" where
  "commission_get_by_billing_event s ev p =
     find (\<lambda>c. pc_billing_event_id c = ev \<and> pc_partner_id c = p) (db_commissions s)"

definition commission_get_by_id :: "db \<Rightarrow> uuid \<Rightarrow> partner_commission option" where
  "commission_get_by_id s i = get_row pc_id i (db_commissions s)"

definition save_commission :: "partner_commission \<Rightarrow> db \<Rightarrow> db" where
  "save_commission r s = s\<lparr>db_commissions := save_row pc_id r (db_commissions s)\<rparr>"

definition add_commission :: "partner_commission \<Rightarrow> db \<Rightarrow> db" where
  "add_commission r s = s\<lparr>db_commissions := db_commissions s @ [r]\<rparr>"

text \<open>The lengths of the columns are not guarded: the references are the payment provider's.\<close>

definition commission_create ::
  "uuid \<Rightarrow> time \<Rightarrow> uuid \<Rightarrow> uuid option \<Rightarrow> string \<Rightarrow> string \<Rightarrow> int \<Rightarrow> int \<Rightarrow> string \<Rightarrow> int \<Rightarrow> time option \<Rightarrow>
   (partner_commission, db) service" where
  "commission_create i now partner_id referral_id billing_event_id period subscription_amount_minor
     commission_amount_minor currency rate payable_at s =
     (let r = \<lparr>pc_id = i, pc_partner_id = partner_id, pc_referral_id = referral_id,
               pc_billing_event_id = billing_event_id, pc_period = period,
               pc_subscription_amount_minor = subscription_amount_minor,
               pc_commission_amount_minor = commission_amount_minor, pc_currency = currency,
               pc_rate = rate, pc_status = CPending, pc_payable_at = payable_at, pc_paid_at = None,
               pc_reversal_reason = None, pc_payout_id = None, pc_created_at = now\<rparr>
      in if \<exists>x \<in> set (db_commissions s). pc_id x = i \<or>
            (pc_billing_event_id x = billing_event_id \<and> pc_partner_id x = partner_id)
         then (Inl (IntegrityError ''uq_partner_commissions_idempotency''), s)
         else (Inr r, add_commission r s))"

datatype commission_field =
    PcStatus "commission_status option"
  | PcReversalReason "string option"
  | PcPayoutId "uuid option"
  | PcPaidAt "time option"

fun put_commission :: "commission_field \<Rightarrow> partner_commission \<Rightarrow> partner_commission" where
  "put_commission (PcStatus (Some v)) r = r\<lparr>pc_status := v\<rparr>"
| "put_commission (PcReversalReason (Some v)) r = r\<lparr>pc_reversal_reason := Some v\<rparr>"
| "put_commission (PcPayoutId (Some v)) r = r\<lparr>pc_payout_id := Some v\<rparr>"
| "put_commission (PcPaidAt (Some v)) r = r\<lparr>pc_paid_at := Some v\<rparr>"
| "put_commission _ r = r"

definition commission_update :: "partner_commission \<Rightarrow> commission_field list \<Rightarrow> db \<Rightarrow> db" where
  "commission_update c kws s = save_commission (set_fields put_commission kws c) s"

definition commission_list_by_partner :: "db \<Rightarrow> uuid \<Rightarrow> nat \<Rightarrow> nat \<Rightarrow> partner_commission list \<times> nat" where
  "commission_list_by_partner s p off lim =
     (let q = filter (\<lambda>c. pc_partner_id c = p) (db_commissions s)
      in (page_of (\<lambda>c. - pc_created_at c) off lim q, length q))"

definition commission_list_all ::
  "db \<Rightarrow> uuid option \<Rightarrow> string option \<Rightarrow> string option \<Rightarrow> nat \<Rightarrow> nat \<Rightarrow> partner_commission list \<times> nat" where
  "commission_list_all s partner_id status period off lim =
     (let q = filter (\<lambda>c. (partner_id = None \<or> partner_id = Some (pc_partner_id c)) \<and>
        (\<not> str_truthy status \<or> status = Some (commission_status_value (pc_status c))) \<and>
        (\<not> str_truthy period \<or> period = Some (pc_period c))) (db_commissions s)
      in (page_of (\<lambda>c. - pc_created_at c) off lim q, length q))"

definition sum_amount_by_partner ::
  "db \<Rightarrow> uuid \<Rightarrow> commission_status list \<Rightarrow> bool \<Rightarrow> bool \<Rightarrow> string option \<Rightarrow> int" where
  "sum_amount_by_partner s p statuses exclude_reversed exclude_reserved period =
     sum_list (map pc_commission_amount_minor (filter (\<lambda>c. pc_partner_id c = p \<and>
       (statuses = [] \<or> pc_status c \<in> set statuses) \<and>
       (\<not> exclude_reversed \<or> pc_status c \<noteq> CReversed) \<and>
       (\<not> exclude_reserved \<or> pc_payout_id c = None) \<and>
       (\<not> str_truthy period \<or> period = Some (pc_period c))) (db_commissions s)))"

definition is_payable :: "uuid \<Rightarrow> partner_commission \<Rightarrow> bool" where
  "is_payable p c = (pc_partner_id c = p \<and> pc_status c = CPayable \<and> pc_payout_id c = None)"

definition payable_by_partner :: "db \<Rightarrow> uuid \<Rightarrow> partner_commission list" where
  "payable_by_partner s p = sort_key pc_created_at (filter (is_payable p) (db_commissions s))"

definition past_hold :: "time \<Rightarrow> partner_commission \<Rightarrow> bool" where
  "past_hold now c = (pc_status c = CPending \<and>
     (case pc_payable_at c of None \<Rightarrow> False | Some t \<Rightarrow> t \<le> now))"

definition pending_past_hold :: "db \<Rightarrow> time \<Rightarrow> partner_commission list" where
  "pending_past_hold s now = filter (past_hold now) (db_commissions s)"

definition commissions_for_payout :: "db \<Rightarrow> uuid \<Rightarrow> partner_commission list" where
  "commissions_for_payout s payout_id = filter (\<lambda>c. pc_payout_id c = Some payout_id) (db_commissions s)"

interpretation commission_repo:
  row_repo pc_id db_commissions commission_get_by_id save_commission add_commission
  by unfold_locales
    (auto simp: commission_get_by_id_def save_commission_def add_commission_def get_row_None
      dest: get_row_Some)

section \<open>Payouts\<close>

definition payout_get_by_id :: "db \<Rightarrow> uuid \<Rightarrow> partner_payout option" where
  "payout_get_by_id s i = get_row po_id i (db_payouts s)"

definition save_payout :: "partner_payout \<Rightarrow> db \<Rightarrow> db" where
  "save_payout r s = s\<lparr>db_payouts := save_row po_id r (db_payouts s)\<rparr>"

definition add_payout :: "partner_payout \<Rightarrow> db \<Rightarrow> db" where
  "add_payout r s = s\<lparr>db_payouts := db_payouts s @ [r]\<rparr>"

definition payout_create ::
  "uuid \<Rightarrow> time \<Rightarrow> uuid \<Rightarrow> int \<Rightarrow> string \<Rightarrow> string option \<Rightarrow> (partner_payout, db) service" where
  "payout_create i now partner_id amount_minor currency period s =
     (let r = \<lparr>po_id = i, po_partner_id = partner_id, po_amount_minor = amount_minor,
               po_currency = currency, po_status = PoPending, po_period = period,
               po_transaction_reference = None, po_paid_at = None, po_created_at = now\<rparr>
      in if i \<in> po_id ` set (db_payouts s) then (Inl (IntegrityError ''partner_payouts_pkey''), s)
         else (Inr r, add_payout r s))"

datatype payout_field =
    PoStatus "payout_status option"
  | PoTransactionReference "string option"
  | PoPaidAt "time option"

fun put_payout :: "payout_field \<Rightarrow> partner_payout \<Rightarrow> partner_payout" where
  "put_payout (PoStatus (Some v)) r = r\<lparr>po_status := v\<rparr>"
| "put_payout (PoTransactionReference (Some v)) r = r\<lparr>po_transaction_reference := Some v\<rparr>"
| "put_payout (PoPaidAt (Some v)) r = r\<lparr>po_paid_at := Some v\<rparr>"
| "put_payout _ r = r"

definition payout_update :: "partner_payout \<Rightarrow> payout_field list \<Rightarrow> db \<Rightarrow> partner_payout \<times> db" where
  "payout_update p kws s = (let r = set_fields put_payout kws p in (r, save_payout r s))"

definition payout_list_by_partner :: "db \<Rightarrow> uuid \<Rightarrow> nat \<Rightarrow> nat \<Rightarrow> partner_payout list \<times> nat" where
  "payout_list_by_partner s p off lim =
     (let q = filter (\<lambda>x. po_partner_id x = p) (db_payouts s)
      in (page_of (\<lambda>x. - po_created_at x) off lim q, length q))"

definition payout_list_all ::
  "db \<Rightarrow> string option \<Rightarrow> uuid option \<Rightarrow> string option \<Rightarrow> nat \<Rightarrow> nat \<Rightarrow> partner_payout list \<times> nat" where
  "payout_list_all s status partner_id period off lim =
     (let q = filter (\<lambda>x. (\<not> str_truthy status \<or> status = Some (payout_status_value (po_status x))) \<and>
        (partner_id = None \<or> partner_id = Some (po_partner_id x)) \<and>
        (\<not> str_truthy period \<or> period = po_period x)) (db_payouts s)
      in (page_of (\<lambda>x. - po_created_at x) off lim q, length q))"

interpretation payout_repo: row_repo po_id db_payouts payout_get_by_id save_payout add_payout
  by unfold_locales
    (auto simp: payout_get_by_id_def save_payout_def add_payout_def get_row_None dest: get_row_Some)

end
