(* ===== verification/Partner_Service.thy ===== *)
theory Partner_Service
  imports Partner_Repository
begin

text \<open>
  \<^verbatim>\<open>modules/partners/service.py\<close> and \<^verbatim>\<open>public_router.py\<close>: activating the referral program,
  profiles, the dashboard, the referral list, the binding of a new user to the partner who referred
  them and the public resolution of a referral link.  The partner settings of
  \<^verbatim>\<open>config.py\<close>, the clock, fresh identifiers and the random code fragments are arguments.
\<close>

section \<open>Settings\<close>

record partner_settings =
  RELIASTRA_PUBLIC_URL :: string
  PARTNER_REFERRAL_PATH_PREFIX :: string
  PARTNER_COMMISSION_RATE :: int
  PARTNER_COMMISSION_HOLD_DAYS :: int
  PARTNER_MINIMUM_PAYOUT_MINOR :: int
  PARTNER_DEFAULT_CURRENCY :: string

definition default_settings :: partner_settings where
  "default_settings = \<lparr>RELIASTRA_PUBLIC_URL = ''https://reliastra.com'',
     PARTNER_REFERRAL_PATH_PREFIX = ''/r'', PARTNER_COMMISSION_RATE = 30,
     PARTNER_COMMISSION_HOLD_DAYS = 30, PARTNER_MINIMUM_PAYOUT_MINOR = 5000,
     PARTNER_DEFAULT_CURRENCY = ''USD''\<rparr>"

text \<open>The ranges that the configuration fields enforce.\<close>

definition settings_valid :: "partner_settings \<Rightarrow> bool" where
  "settings_valid cfg = (0 \<le> PARTNER_COMMISSION_RATE cfg \<and> PARTNER_COMMISSION_RATE cfg \<le> 100 \<and>
     0 \<le> PARTNER_COMMISSION_HOLD_DAYS cfg \<and> PARTNER_COMMISSION_HOLD_DAYS cfg \<le> 365 \<and>
     0 \<le> PARTNER_MINIMUM_PAYOUT_MINOR cfg)"

definition rstrip_char :: "char \<Rightarrow> string \<Rightarrow> string" where
  "rstrip_char c s = rev (dropWhile (\<lambda>x. x = c) (rev s))"

definition partner_referral_base_url :: "partner_settings \<Rightarrow> string" where
  "partner_referral_base_url cfg =
     rstrip_char CHR ''/'' (RELIASTRA_PUBLIC_URL cfg) @
     (''/'' @ rstrip_char CHR ''/'' (dropWhile (\<lambda>x. x = CHR ''/'') (PARTNER_REFERRAL_PATH_PREFIX cfg)))"

section \<open>Helpers\<close>

definition build_referral_code :: "string \<Rightarrow> string \<Rightarrow> string" where
  "build_referral_code full_name fragment =
     (let cleaned = upper (filter is_alpha full_name);
          prefix = (if length cleaned \<ge> 4 then take 4 cleaned
                    else cleaned @ replicate (4 - length cleaned) CHR ''X'')
      in prefix @ ''-'' @ fragment)"

definition period_month :: "time \<Rightarrow> string" where
  "period_month moment = (let (y, m) = civil_year_month (epoch_day moment)
     in zero_pad 4 y @ ''-'' @ zero_pad 2 m)"

definition mask_email :: "string \<Rightarrow> string" where
  "mask_email email =
     (if email = [] \<or> CHR ''@'' \<notin> set email then ''***''
      else let loc = takeWhile (\<lambda>c. c \<noteq> CHR ''@'') email;
               domain = tl (dropWhile (\<lambda>c. c \<noteq> CHR ''@'') email);
               head = (if loc \<noteq> [] then [hd loc] else ''*'')
           in head @ ''***@'' @ domain)"

definition apply_rate :: "int \<Rightarrow> int \<Rightarrow> int" where
  "apply_rate amount_minor rate_pct = (amount_minor * rate_pct + 50) div 100"

section \<open>Activation and profile\<close>

record profile_response =
  pfr_partner_id :: uuid
  pfr_referral_code :: string
  pfr_referral_link :: string
  pfr_commission_rate :: int
  pfr_status :: string
  pfr_created_at :: time

definition referral_code_for :: "db \<Rightarrow> uuid option \<Rightarrow> string" where
  "referral_code_for s code_id = (case code_id of None \<Rightarrow> []
     | Some i \<Rightarrow> (case code_get_by_id s i of None \<Rightarrow> [] | Some rc \<Rightarrow> rc_code rc))"

definition to_profile_response :: "partner_settings \<Rightarrow> db \<Rightarrow> partner_profile \<Rightarrow> profile_response" where
  "to_profile_response cfg s p =
     (let code = referral_code_for s (pp_referral_code_id p)
      in \<lparr>pfr_partner_id = pp_id p, pfr_referral_code = code,
          pfr_referral_link = partner_referral_base_url cfg @ ''/'' @ code,
          pfr_commission_rate = PARTNER_COMMISSION_RATE cfg,
          pfr_status = partner_status_value (pp_status p), pfr_created_at = pp_created_at p\<rparr>)"

text \<open>The loop draws at most ten candidates; \<^verbatim>\<open>fragments\<close> are the random fragments it draws.\<close>

fun create_unique_code ::
  "nat \<Rightarrow> uuid \<Rightarrow> time \<Rightarrow> uuid \<Rightarrow> string \<Rightarrow> (nat \<Rightarrow> string) \<Rightarrow> (referral_code, db) service" where
  "create_unique_code 0 cid now user_id full_name fragments s =
     (Inl (ValidationException ''Unable to generate a unique referral code''), s)"
| "create_unique_code (Suc n) cid now user_id full_name fragments s =
     (let candidate = build_referral_code full_name (fragments n)
      in if \<not> code_exists s candidate then code_create cid now user_id candidate s
         else create_unique_code n cid now user_id full_name fragments s)"

definition activate_partner ::
  "partner_settings \<Rightarrow> time \<Rightarrow> uuid \<Rightarrow> uuid \<Rightarrow> (nat \<Rightarrow> string) \<Rightarrow> user \<Rightarrow> bool \<Rightarrow> (profile_response, db) service" where
  "activate_partner cfg now pid cid fragments user agree_terms s =
     (case profile_get_by_user_id s (u_id user) of
        Some existing \<Rightarrow> (Inr (to_profile_response cfg s existing), s)
      | None \<Rightarrow>
          if \<not> agree_terms
          then (Inl (ValidationException ''You must agree to the partner terms''), s)
          else
            (case (case code_get_by_user_id s (u_id user) of
                     Some code \<Rightarrow> (Inr code, s)
                   | None \<Rightarrow> create_unique_code 10 cid now (u_id user) (u_full_name user) fragments s) of
               (Inl e, s1) \<Rightarrow> (Inl e, s1)
             | (Inr code, s1) \<Rightarrow>
                 (case profile_create pid now (u_id user) (Some (rc_id code)) s1 of
                    (Inl e, s2) \<Rightarrow> (Inl e, s2)
                  | (Inr p, s2) \<Rightarrow>
                      (let s3 = log_event now ''partner_activated'' None (Some (u_id user)) ''partner''
                                  (uuid_str (pp_id p)) (JObj [(''referral_code'', JStr (rc_code code))]) s2
                       in (Inr (to_profile_response cfg s3 p), s3)))))"

definition get_partner_for_user :: "uuid \<Rightarrow> db \<Rightarrow> app_error + partner_profile" where
  "get_partner_for_user user_id s = (case profile_get_by_user_id s user_id of
     None \<Rightarrow> Inl (ResourceNotFoundException
       ''Partner profile not found - activate the referral program first'')
   | Some p \<Rightarrow> Inr p)"

definition get_my_profile :: "partner_settings \<Rightarrow> uuid \<Rightarrow> (profile_response, db) service" where
  "get_my_profile cfg user_id s = (case get_partner_for_user user_id s of
     Inl e \<Rightarrow> (Inl e, s) | Inr p \<Rightarrow> (Inr (to_profile_response cfg s p), s))"

section \<open>Dashboard and referral list\<close>

record dashboard_response =
  d_referral_link :: string
  d_clicks :: int
  d_signups :: nat
  d_active_paid_customers :: nat
  d_monthly_commission_minor :: int
  d_pending_commission_minor :: int
  d_total_earned_minor :: int
  d_total_paid_minor :: int
  d_currency :: string

definition get_dashboard :: "partner_settings \<Rightarrow> time \<Rightarrow> uuid \<Rightarrow> (dashboard_response, db) service" where
  "get_dashboard cfg now user_id s = (case get_partner_for_user user_id s of
     Inl e \<Rightarrow> (Inl e, s)
   | Inr p \<Rightarrow>
       (let code = pfr_referral_code (to_profile_response cfg s p);
            i = pp_id p;
            now_period = period_month now
        in (Inr \<lparr>d_referral_link = partner_referral_base_url cfg @ ''/'' @ code,
              d_clicks = pp_click_count p,
              d_signups = referral_count_by_partner s i None,
              d_active_paid_customers = referral_count_by_partner s i (Some RPaid),
              d_monthly_commission_minor = sum_amount_by_partner s i [] True False (Some now_period),
              d_pending_commission_minor = sum_amount_by_partner s i [CPending, CPayable] True False None,
              d_total_earned_minor = sum_amount_by_partner s i [] True False None,
              d_total_paid_minor = sum_amount_by_partner s i [CPaid] True False None,
              d_currency = PARTNER_DEFAULT_CURRENCY cfg\<rparr>, s)))"

record referral_item =
  ri_referral_id :: uuid
  ri_status :: string
  ri_plan :: "string option"
  ri_subscription_amount_minor :: int
  ri_commission_rate :: int
  ri_monthly_commission_minor :: int
  ri_masked_email :: "string option"
  ri_organization_name :: "string option"
  ri_created_at :: time
  ri_subscribed_at :: "time option"

definition latest_commission :: "db \<Rightarrow> partner_referral \<Rightarrow> partner_commission option" where
  "latest_commission s ref = (case sort_key (\<lambda>c. - pc_created_at c)
       (filter (\<lambda>c. pc_partner_id c = pr_partner_id ref \<and> pc_referral_id c = Some (pr_id ref) \<and>
          pc_status c \<noteq> CReversed) (db_commissions s)) of
     [] \<Rightarrow> None | c # _ \<Rightarrow> Some c)"

definition referral_item_of :: "partner_settings \<Rightarrow> db \<Rightarrow> partner_referral \<Rightarrow> referral_item" where
  "referral_item_of cfg s ref =
     (let org = (case pr_referred_org_id ref of None \<Rightarrow> None | Some i \<Rightarrow> org_get_by_id s i);
          row = latest_commission s ref
      in \<lparr>ri_referral_id = pr_id ref, ri_status = referral_status_value (pr_status ref),
          ri_plan = map_option o_plan org,
          ri_subscription_amount_minor = (case row of None \<Rightarrow> 0 | Some c \<Rightarrow> pc_subscription_amount_minor c),
          ri_commission_rate = PARTNER_COMMISSION_RATE cfg,
          ri_monthly_commission_minor = (case row of None \<Rightarrow> 0 | Some c \<Rightarrow> pc_commission_amount_minor c),
          ri_masked_email = map_option (\<lambda>u. mask_email (u_email u)) (user_get_by_id s (pr_referred_user_id ref)),
          ri_organization_name = map_option o_name org,
          ri_created_at = pr_created_at ref, ri_subscribed_at = pr_subscribed_at ref\<rparr>)"

text \<open>The items of a page and the total; \<^verbatim>\<open>page\<close> is at least 1.\<close>

definition list_referrals ::
  "partner_settings \<Rightarrow> uuid \<Rightarrow> nat \<Rightarrow> nat \<Rightarrow> (referral_item list \<times> nat, db) service" where
  "list_referrals cfg user_id page page_size s = (case get_partner_for_user user_id s of
     Inl e \<Rightarrow> (Inl e, s)
   | Inr p \<Rightarrow>
       (let (refs, total) = referral_list_by_partner s (pp_id p) ((page - 1) * page_size) page_size
        in (Inr (map (referral_item_of cfg s) refs, total), s)))"

section \<open>Attribution\<close>

definition bind_referral ::
  "time \<Rightarrow> uuid \<Rightarrow> string \<Rightarrow> uuid \<Rightarrow> uuid option \<Rightarrow> (partner_referral option, db) service" where
  "bind_referral now rid referral_code new_user_id new_org_id s =
     (case code_get_by_code s referral_code of
        None \<Rightarrow> (Inr None, s)
      | Some code_obj \<Rightarrow>
          (case profile_get_by_user_id s (rc_user_id code_obj) of
             None \<Rightarrow> (Inr None, s)
           | Some partner \<Rightarrow>
               if pp_status partner \<noteq> PActive then (Inr None, s)
               else if pp_user_id partner = new_user_id then (Inr None, s)
               else
                 (case referral_get_by_referred_user s new_user_id of
                    Some existing \<Rightarrow> (Inr (Some existing), s)
                  | None \<Rightarrow>
                      (case referral_create rid now (pp_id partner) new_user_id new_org_id RSignedUp s of
                         (Inl e, s1) \<Rightarrow> (Inl e, s1)
                       | (Inr referral, s1) \<Rightarrow>
                           (Inr (Some referral),
                            log_event now ''partner_referral_created'' None (Some (pp_user_id partner))
                              ''partner_referral'' (uuid_str (pr_id referral))
                              (JObj [(''partner_id'', juuid (pp_id partner)),
                                     (''referred_user_id'', juuid new_user_id),
                                     (''referral_code'', JStr (rc_code code_obj))]) s1)))))"

section \<open>Public resolution\<close>

definition safe_destination :: "string option \<Rightarrow> string" where
  "safe_destination dest = (case dest of
     None \<Rightarrow> ''/''
   | Some d \<Rightarrow>
       if d = [] then ''/''
       else if \<not> starts_with d ''/'' \<or> starts_with d ''//'' \<or> contains_str d ''://'' then ''/''
       else d)"

record resolve_response =
  rr_valid :: bool
  rr_referral_code :: "string option"
  rr_destination :: string

text \<open>Rate limiting happens before; \<^verbatim>\<open>scalar_one_or_none\<close> is over a unique column.\<close>

definition resolve_referral :: "string \<Rightarrow> string option \<Rightarrow> (resolve_response, db) service" where
  "resolve_referral referral_code dest s =
     (let invalid = \<lparr>rr_valid = False, rr_referral_code = None, rr_destination = ''/''\<rparr> in
      case code_get_by_code s referral_code of
        None \<Rightarrow> (Inr invalid, s)
      | Some code \<Rightarrow>
          (case get_row pp_referral_code_id (Some (rc_id code)) (db_profiles s) of
             None \<Rightarrow> (Inr invalid, s)
           | Some partner \<Rightarrow>
               if pp_status partner \<notin> set EARNING_STATUSES then (Inr invalid, s)
               else (Inr \<lparr>rr_valid = True, rr_referral_code = Some (rc_code code),
                          rr_destination = safe_destination dest\<rparr>,
                     profile_update partner [PpClickCount (Some (pp_click_count partner + 1))] s)))"

end
