(* ===== verification/Commissions.thy ===== *)
theory Commissions
  imports Partner_Service
begin

text \<open>
  \<^verbatim>\<open>modules/partners/commissions.py\<close> and \<^verbatim>\<open>payouts.py\<close>: accruing one commission per confirmed
  payment, reversing commissions, churn, releasing commissions whose hold has elapsed, and the
  payouts that reserve and settle them.
\<close>

section \<open>Commission service\<close>

definition org_owner :: "db \<Rightarrow> uuid \<Rightarrow> uuid option" where
  "org_owner s org_id = map_option m_user_id (first_owner s org_id)"

definition commission_currency :: "partner_settings \<Rightarrow> string \<Rightarrow> string" where
  "commission_currency cfg currency =
     (let c = upper (take 3 currency) in if c \<noteq> [] then c else PARTNER_DEFAULT_CURRENCY cfg)"

text \<open>The guards of \<^verbatim>\<open>record_payment\<close>: the referral and the partner that earn on the payment.\<close>

definition payment_target ::
  "db \<Rightarrow> uuid \<Rightarrow> int \<Rightarrow> string \<Rightarrow> (partner_referral \<times> partner_profile) option" where
  "payment_target s organization_id collected_minor payment_reference =
     (if payment_reference = [] \<or> collected_minor \<le> 0 then None
      else case org_owner s organization_id of None \<Rightarrow> None
      | Some owner \<Rightarrow>
        (case referral_get_by_referred_user s owner of None \<Rightarrow> None
         | Some referral \<Rightarrow>
           if pr_status referral = RChurned then None
           else case profile_get_by_id s (pr_partner_id referral) of None \<Rightarrow> None
           | Some partner \<Rightarrow>
             if pp_status partner \<notin> set EARNING_STATUSES then None
             else if commission_get_by_billing_event s payment_reference (pp_id partner) \<noteq> None then None
             else Some (referral, partner)))"

definition record_payment ::
  "partner_settings \<Rightarrow> time \<Rightarrow> uuid \<Rightarrow> uuid \<Rightarrow> int \<Rightarrow> string \<Rightarrow> string \<Rightarrow> time option \<Rightarrow> string \<Rightarrow>
   (unit, db) service" where
  "record_payment cfg now cid organization_id collected_minor currency payment_reference paid_at
     payment_provider s =
     (case payment_target s organization_id collected_minor payment_reference of
        None \<Rightarrow> (Inr (), s)
      | Some (referral, partner) \<Rightarrow>
          (let event_at = (case paid_at of None \<Rightarrow> now | Some t \<Rightarrow> t);
               rate = PARTNER_COMMISSION_RATE cfg;
               amount = apply_rate collected_minor rate
           in if amount \<le> 0 then (Inr (), s)
           else
             (let payable_at = event_at + days (PARTNER_COMMISSION_HOLD_DAYS cfg);
                  s1 = (if pr_status referral = RSignedUp
                        then referral_update referral [PrStatus (Some RPaid), PrSubscribedAt (Some event_at)] s
                        else s)
              in case commission_create cid now (pp_id partner) (Some (pr_id referral))
                     payment_reference (period_month event_at) collected_minor amount
                     (commission_currency cfg currency) rate (Some payable_at) s1 of
                   (Inl e, s2) \<Rightarrow> (Inl e, s2)
                 | (Inr commission, s2) \<Rightarrow>
                     (Inr (), log_event now ''partner_commission_created'' None
                        (Some (pp_user_id partner)) ''partner_commission'' (uuid_str (pc_id commission))
                        (JObj [(''partner_id'', juuid (pp_id partner)),
                               (''referral_id'', juuid (pr_id referral)),
                               (''billing_event_id'', JStr payment_reference),
                               (''amount_minor'', JInt amount),
                               (''currency'', JStr currency),
                               (''rate'', JInt rate),
                               (''payment_provider'', JStr payment_provider)]) s2))))"

definition reverses :: "string \<Rightarrow> partner_commission \<Rightarrow> bool" where
  "reverses payment_reference c =
     (pc_billing_event_id c = payment_reference \<and> pc_status c \<noteq> CReversed)"

definition reverse_by_reference :: "string \<Rightarrow> string \<Rightarrow> (nat, db) service" where
  "reverse_by_reference payment_reference reason s =
     (if payment_reference = [] then (Inr 0, s)
      else let commissions = filter (reverses payment_reference) (db_commissions s)
           in (Inr (length commissions),
               fold (\<lambda>c. commission_update c [PcStatus (Some CReversed), PcReversalReason (Some reason),
                                             PcPayoutId None]) commissions s))"

definition reverse_commission :: "time \<Rightarrow> uuid \<Rightarrow> string \<Rightarrow> (unit, db) service" where
  "reverse_commission now commission_id reason s =
     (case commission_get_by_id s commission_id of
        None \<Rightarrow> (Inl (ResourceNotFoundException ''Commission not found''), s)
      | Some c \<Rightarrow>
          if pc_status c = CReversed then (Inr (), s)
          else (Inr (), log_event now ''partner_commission_reversed'' None None ''partner_commission''
                  (uuid_str (pc_id c)) (JObj [(''reason'', JStr reason)])
                  (commission_update c [PcStatus (Some CReversed),
                     PcReversalReason (Some (if reason \<noteq> [] then reason else reversal_reason_value Admin)),
                     PcPayoutId None] s)))"

definition handle_churn :: "uuid \<Rightarrow> (unit, db) service" where
  "handle_churn organization_id s =
     (case org_owner s organization_id of None \<Rightarrow> (Inr (), s)
      | Some owner \<Rightarrow>
        (case referral_get_by_referred_user s owner of None \<Rightarrow> (Inr (), s)
         | Some referral \<Rightarrow>
             if pr_status referral = RChurned then (Inr (), s)
             else (Inr (), referral_update referral [PrStatus (Some RChurned)] s)))"

definition release_payable :: "time \<Rightarrow> (nat, db) service" where
  "release_payable now s =
     (let pending = pending_past_hold s now
      in (Inr (length pending), fold (\<lambda>c. commission_update c [PcStatus (Some CPayable)]) pending s))"

section \<open>Payout service\<close>

definition payable_balance :: "db \<Rightarrow> uuid \<Rightarrow> int" where
  "payable_balance s p = fold (\<lambda>c total. total + pc_commission_amount_minor c) (payable_by_partner s p) 0"

text \<open>The loop that reserves payable commissions oldest first until the amount is covered.\<close>

fun reserve_loop :: "uuid \<Rightarrow> int \<Rightarrow> partner_commission list \<Rightarrow> db \<Rightarrow> db" where
  "reserve_loop payout_id remaining [] s = s"
| "reserve_loop payout_id remaining (c # cs) s =
     (if remaining \<le> 0 then s
      else let take_amount = min (pc_commission_amount_minor c) remaining
           in reserve_loop payout_id (remaining - take_amount) cs
                (commission_update c [PcPayoutId (Some payout_id)] s))"

definition create_payout ::
  "partner_settings \<Rightarrow> time \<Rightarrow> uuid \<Rightarrow> uuid \<Rightarrow> int option \<Rightarrow> (partner_payout, db) service" where
  "create_payout cfg now oid partner_id amount_minor s =
     (case profile_get_by_id s partner_id of
        None \<Rightarrow> (Inl (ResourceNotFoundException ''Partner not found''), s)
      | Some partner \<Rightarrow>
          (let payable = payable_by_partner s partner_id;
               available = sum_list (map pc_commission_amount_minor payable);
               amount = (case amount_minor of None \<Rightarrow> available | Some a \<Rightarrow> a)
           in if amount \<le> 0 \<or> amount > available
              then (Inl (ValidationException (''Payout amount must be between 1 and the payable balance ('' @
                      show_int available @ '')'')), s)
              else if amount_minor = None \<and> available < PARTNER_MINIMUM_PAYOUT_MINOR cfg
              then (Inl (ValidationException
                      ''Partner's payable balance is below the minimum payout threshold''), s)
              else
                (case payout_create oid now partner_id amount (PARTNER_DEFAULT_CURRENCY cfg)
                        (Some (period_month now)) s of
                   (Inl e, s1) \<Rightarrow> (Inl e, s1)
                 | (Inr payout, s1) \<Rightarrow>
                     (Inr payout,
                      log_event now ''partner_payout_created'' None (Some (pp_user_id partner))
                        ''partner_payout'' (uuid_str (po_id payout))
                        (JObj [(''partner_id'', juuid partner_id), (''amount_minor'', JInt amount)])
                        (reserve_loop (po_id payout) amount payable s1)))))"

definition process_payout ::
  "time \<Rightarrow> uuid \<Rightarrow> string \<Rightarrow> string option \<Rightarrow> (partner_payout, db) service" where
  "process_payout now payout_id action transaction_reference s =
     (case payout_get_by_id s payout_id of
        None \<Rightarrow> (Inl (ResourceNotFoundException ''Payout not found''), s)
      | Some payout \<Rightarrow>
          (case
            (if action = ''mark_paid'' then
               (if \<not> str_truthy transaction_reference
                then (Inl (ValidationException ''transaction_reference is required to mark a payout paid''), s)
                else let (p, s1) = payout_update payout [PoStatus (Some PoPaid),
                           PoTransactionReference transaction_reference, PoPaidAt (Some now)] s
                     in (Inr p, fold (\<lambda>c. commission_update c [PcStatus (Some CPaid), PcPaidAt (Some now)])
                                  (commissions_for_payout s1 (po_id p)) s1))
             else if action = ''mark_failed'' then
               (let (p, s1) = payout_update payout [PoStatus (Some PoFailed)] s
                in (Inr p, fold (\<lambda>c. commission_update c [PcPayoutId None])
                             (commissions_for_payout s1 (po_id p)) s1))
             else (Inl (ValidationException (''Unsupported payout action: '' @ action)), s)) of
             (Inl e, s2) \<Rightarrow> (Inl e, s2)
           | (Inr p, s2) \<Rightarrow>
               (Inr p, log_event now (''partner_payout_'' @ action) None None ''partner_payout''
                  (uuid_str (po_id p))
                  (JObj [(''action'', JStr action),
                         (''transaction_reference'', jopt JStr transaction_reference)]) s2)))"

section \<open>The effect of the update loops\<close>

text \<open>
  With unique commission identifiers, a loop that updates the rows of a query one by one rewrites
  exactly those rows in place.
\<close>

definition commission_ids :: "db \<Rightarrow> bool" where
  "commission_ids s = distinct (map pc_id (db_commissions s))"

lemma put_commission_id [simp]: "pc_id (set_fields put_commission kws c) = pc_id c"
proof -
  have "\<And>k c. pc_id (put_commission k c) = pc_id c"
    by (rule put_commission.induct) auto
  then show ?thesis
    unfolding set_fields_def by (induction kws arbitrary: c) auto
qed

lemma commission_update_rows:
  "db_commissions (commission_update c kws s) = save_row pc_id (set_fields put_commission kws c) (db_commissions s)"
  by (simp add: commission_update_def save_commission_def)

lemma commission_update_tables [simp]:
  "db_users (commission_update c kws s) = db_users s"
  "db_organizations (commission_update c kws s) = db_organizations s"
  "db_members (commission_update c kws s) = db_members s"
  "db_subscriptions (commission_update c kws s) = db_subscriptions s"
  "db_referral_codes (commission_update c kws s) = db_referral_codes s"
  "db_profiles (commission_update c kws s) = db_profiles s"
  "db_referrals (commission_update c kws s) = db_referrals s"
  "db_payouts (commission_update c kws s) = db_payouts s"
  "db_audit (commission_update c kws s) = db_audit s"
  "db_clients (commission_update c kws s) = db_clients s"
  "db_applications (commission_update c kws s) = db_applications s"
  "db_admin_audit (commission_update c kws s) = db_admin_audit s"
  by (simp_all add: commission_update_def save_commission_def)

lemma commission_loop_tables [simp]:
  "db_users (fold (\<lambda>c. commission_update c kws) cs s) = db_users s"
  "db_organizations (fold (\<lambda>c. commission_update c kws) cs s) = db_organizations s"
  "db_members (fold (\<lambda>c. commission_update c kws) cs s) = db_members s"
  "db_subscriptions (fold (\<lambda>c. commission_update c kws) cs s) = db_subscriptions s"
  "db_referral_codes (fold (\<lambda>c. commission_update c kws) cs s) = db_referral_codes s"
  "db_profiles (fold (\<lambda>c. commission_update c kws) cs s) = db_profiles s"
  "db_referrals (fold (\<lambda>c. commission_update c kws) cs s) = db_referrals s"
  "db_payouts (fold (\<lambda>c. commission_update c kws) cs s) = db_payouts s"
  "db_audit (fold (\<lambda>c. commission_update c kws) cs s) = db_audit s"
  "db_clients (fold (\<lambda>c. commission_update c kws) cs s) = db_clients s"
  "db_applications (fold (\<lambda>c. commission_update c kws) cs s) = db_applications s"
  "db_admin_audit (fold (\<lambda>c. commission_update c kws) cs s) = db_admin_audit s"
  by (induction cs arbitrary: s) simp_all

lemma commission_loop_db:
  "fold (\<lambda>c. commission_update c kws) cs s =
   s\<lparr>db_commissions := db_commissions (fold (\<lambda>c. commission_update c kws) cs s)\<rparr>"
  by (rule db.equality) simp_all

lemma commission_loop:
  assumes "commission_ids s"
  shows "db_commissions (fold (\<lambda>c. commission_update c kws) (filter P (db_commissions s)) s) =
    map (\<lambda>c. if P c then set_fields put_commission kws c else c) (db_commissions s)"
  using commission_repo.save_loop [of s "set_fields put_commission kws" P] assms
  by (simp add: commission_ids_def commission_update_def [abs_def])

lemma commission_loop_keys [simp]:
  "map pc_id (db_commissions (fold (\<lambda>c. commission_update c kws) cs s)) = map pc_id (db_commissions s)"
  by (induction cs arbitrary: s) (simp_all add: commission_update_rows)

section \<open>Elimination of the guards\<close>

lemma payment_target_Some:
  "payment_target s org amt ref = Some (referral, partner) \<longleftrightarrow>
     ref \<noteq> [] \<and> 0 < amt \<and>
     (\<exists>owner. org_owner s org = Some owner \<and> referral_get_by_referred_user s owner = Some referral) \<and>
     pr_status referral \<noteq> RChurned \<and> profile_get_by_id s (pr_partner_id referral) = Some partner \<and>
     pp_status partner \<in> set EARNING_STATUSES \<and>
     commission_get_by_billing_event s ref (pp_id partner) = None"
  by (auto simp: payment_target_def split: option.splits)

lemma payment_target_rows:
  assumes "payment_target s org amt ref = Some (referral, partner)"
  shows "referral \<in> set (db_referrals s)" and "partner \<in> set (db_profiles s)" and "0 < amt"
    and "pp_id partner = pr_partner_id referral"
  using assms
  by (auto simp: payment_target_Some referral_get_by_referred_user_def dest: get_row_Some profile_repo.get_hit)

text \<open>A payment either changes nothing or promotes the referral and creates one commission.\<close>

definition promoted :: "partner_referral \<Rightarrow> time \<Rightarrow> db \<Rightarrow> db" where
  "promoted referral event_at s = (if pr_status referral = RSignedUp
     then referral_update referral [PrStatus (Some RPaid), PrSubscribedAt (Some event_at)] s else s)"

lemma record_payment_cases:
  assumes "record_payment cfg now cid org amt cur ref paid prov s = (out, s')"
  obtains
    (skip) "out = Inr ()" "s' = s"
      "\<And>rp. payment_target s org amt ref = Some rp \<Longrightarrow> apply_rate amt (PARTNER_COMMISSION_RATE cfg) \<le> 0"
  | (accrue) referral partner event_at res s2
    where "payment_target s org amt ref = Some (referral, partner)"
      and "0 < apply_rate amt (PARTNER_COMMISSION_RATE cfg)"
      and "event_at = (case paid of None \<Rightarrow> now | Some t \<Rightarrow> t)"
      and "commission_create cid now (pp_id partner) (Some (pr_id referral)) ref (period_month event_at) amt
        (apply_rate amt (PARTNER_COMMISSION_RATE cfg)) (commission_currency cfg cur)
        (PARTNER_COMMISSION_RATE cfg) (Some (event_at + days (PARTNER_COMMISSION_HOLD_DAYS cfg)))
        (promoted referral event_at s) = (res, s2)"
      and "(\<exists>e. res = Inl e \<and> out = Inl e \<and> s' = s2) \<or>
        (\<exists>c p. res = Inr c \<and> out = Inr () \<and> s' = log_event now ''partner_commission_created'' None
          (Some (pp_user_id partner)) ''partner_commission'' (uuid_str (pc_id c)) p s2)"
proof (cases "payment_target s org amt ref")
  case None
  with assms skip show ?thesis
    by (auto simp: record_payment_def)
next
  case (Some rp)
  obtain referral partner where t: "payment_target s org amt ref = Some (referral, partner)"
    using Some by (cases rp) simp
  define ev where "ev = (case paid of None \<Rightarrow> now | Some t \<Rightarrow> t)"
  define cr where "cr = commission_create cid now (pp_id partner) (Some (pr_id referral)) ref (period_month ev) amt
        (apply_rate amt (PARTNER_COMMISSION_RATE cfg)) (commission_currency cfg cur)
        (PARTNER_COMMISSION_RATE cfg) (Some (ev + days (PARTNER_COMMISSION_HOLD_DAYS cfg)))
        (promoted referral ev s)"
  show ?thesis
  proof (cases "0 < apply_rate amt (PARTNER_COMMISSION_RATE cfg)")
    case True
    obtain res s2 where rs: "cr = (res, s2)"
      by fastforce
    have "(\<exists>e. res = Inl e \<and> out = Inl e \<and> s' = s2) \<or>
        (\<exists>c p. res = Inr c \<and> out = Inr () \<and> s' = log_event now ''partner_commission_created'' None
          (Some (pp_user_id partner)) ''partner_commission'' (uuid_str (pc_id c)) p s2)"
      using assms True rs
      by (cases res) (auto simp: record_payment_def t ev_def [symmetric] promoted_def [symmetric]
          cr_def [symmetric] Let_def)
    with accrue [OF t True ev_def] rs show ?thesis
      by (simp add: cr_def)
  next
    case False
    with assms skip t show ?thesis
      by (auto simp: record_payment_def)
  qed
qed

lemma commission_create_effect:
  assumes "commission_create cid now pid rid ev period sub amount cur rate pay s = (res, s')"
  shows "db_members s' = db_members s \<and> db_profiles s' = db_profiles s \<and> db_referrals s' = db_referrals s \<and>
    db_organizations s' = db_organizations s \<and> db_subscriptions s' = db_subscriptions s \<and>
    (case res of Inl e \<Rightarrow> s' = s | Inr c \<Rightarrow> db_commissions s' = db_commissions s @ [c] \<and>
       pc_billing_event_id c = ev \<and> pc_partner_id c = pid)"
  using assms by (auto simp: commission_create_def Let_def add_commission_def split: if_splits)

lemma promoted_tables [simp]:
  "db_members (promoted r t s) = db_members s"
  "db_organizations (promoted r t s) = db_organizations s"
  "db_subscriptions (promoted r t s) = db_subscriptions s"
  "db_profiles (promoted r t s) = db_profiles s"
  "db_commissions (promoted r t s) = db_commissions s"
  by (simp_all add: promoted_def referral_update_def save_referral_def)

lemma record_payment_other_tables:
  "db_organizations (snd (record_payment cfg now cid org amt cur ref paid prov s)) = db_organizations s"
  "db_subscriptions (snd (record_payment cfg now cid org amt cur ref paid prov s)) = db_subscriptions s"
proof -
  obtain out s' where r: "record_payment cfg now cid org amt cur ref paid prov s = (out, s')"
    by fastforce
  from r have "db_organizations s' = db_organizations s \<and> db_subscriptions s' = db_subscriptions s"
  proof (cases rule: record_payment_cases)
    case (accrue referral partner event_at res s2)
    then show ?thesis
      using commission_create_effect [OF accrue(4)] by auto
  qed simp
  with r show "db_organizations (snd (record_payment cfg now cid org amt cur ref paid prov s)) = db_organizations s"
    "db_subscriptions (snd (record_payment cfg now cid org amt cur ref paid prov s)) = db_subscriptions s"
    by simp_all
qed

end
