(* ===== verification/Redis.thy ===== *)
theory Redis
  imports Prelude
begin

text \<open>
  The Redis commands the backend uses and the timeout-safe wrappers of
  \<^verbatim>\<open>src/app/infrastructure/redis_client.py\<close>.  A server is a map from keys to values with an
  optional expiry, together with the current reachability: a command on an unreachable server
  raises in the client, which the raw operations return as \<^verbatim>\<open>None\<close>.  Redis itself is not part of
  the repository; the commands follow its documented semantics (\<^verbatim>\<open>SET NX EX\<close>, \<^verbatim>\<open>GET\<close>,
  \<^verbatim>\<open>DEL\<close>, \<^verbatim>\<open>INCR\<close>).
\<close>

record 'v redis =
  r_up :: bool
  r_kv :: "string \<Rightarrow> ('v \<times> time option) option"

definition live :: "time \<Rightarrow> ('v \<times> time option) option \<Rightarrow> 'v option" where
  "live now e = (case e of None \<Rightarrow> None
     | Some (v, None) \<Rightarrow> Some v
     | Some (v, Some t) \<Rightarrow> if now < t then Some v else None)"

definition redis_empty :: "'v redis" where
  "redis_empty = \<lparr>r_up = True, r_kv = (\<lambda>_. None)\<rparr>"

definition redis_get :: "time \<Rightarrow> string \<Rightarrow> 'v redis \<Rightarrow> 'v option option" where
  "redis_get now k r = (if r_up r then Some (live now (r_kv r k)) else None)"

definition expiry :: "time \<Rightarrow> int option \<Rightarrow> time option" where
  "expiry now ex = map_option (\<lambda>n. now + seconds n) ex"

definition put_key :: "string \<Rightarrow> 'v \<Rightarrow> time option \<Rightarrow> 'v redis \<Rightarrow> 'v redis" where
  "put_key k v t r = r\<lparr>r_kv := (r_kv r)(k \<mapsto> (v, t))\<rparr>"

definition redis_set :: "time \<Rightarrow> string \<Rightarrow> 'v \<Rightarrow> int option \<Rightarrow> 'v redis \<Rightarrow> unit option \<times> 'v redis" where
  "redis_set now k v ex r =
     (if r_up r then (Some (), put_key k v (expiry now ex) r) else (None, r))"

definition redis_set_nx :: "time \<Rightarrow> string \<Rightarrow> 'v \<Rightarrow> int option \<Rightarrow> 'v redis \<Rightarrow> bool option \<times> 'v redis" where
  "redis_set_nx now k v ex r =
     (if \<not> r_up r then (None, r)
      else case live now (r_kv r k) of
        Some _ \<Rightarrow> (Some False, r)
      | None \<Rightarrow> (Some True, put_key k v (expiry now ex) r))"

definition redis_delete :: "string \<Rightarrow> 'v redis \<Rightarrow> unit option \<times> 'v redis" where
  "redis_delete k r = (if r_up r then (Some (), r\<lparr>r_kv := (r_kv r)(k := None)\<rparr>) else (None, r))"

section \<open>The safe wrappers\<close>

definition safe_redis_get :: "time \<Rightarrow> string \<Rightarrow> 'v redis \<Rightarrow> 'v option" where
  "safe_redis_get now k r = (case redis_get now k r of None \<Rightarrow> None | Some v \<Rightarrow> v)"

definition safe_redis_set :: "time \<Rightarrow> string \<Rightarrow> 'v \<Rightarrow> int option \<Rightarrow> 'v redis \<Rightarrow> bool \<times> 'v redis" where
  "safe_redis_set now k v ex r = (case redis_set now k v ex r of (None, r') \<Rightarrow> (False, r') | (Some _, r') \<Rightarrow> (True, r'))"

definition safe_redis_setex :: "time \<Rightarrow> string \<Rightarrow> int \<Rightarrow> 'v \<Rightarrow> 'v redis \<Rightarrow> bool \<times> 'v redis" where
  "safe_redis_setex now k n v r = (case redis_set now k v (Some n) r of (None, r') \<Rightarrow> (False, r') | (Some _, r') \<Rightarrow> (True, r'))"

definition safe_redis_set_nx :: "time \<Rightarrow> string \<Rightarrow> 'v \<Rightarrow> int option \<Rightarrow> 'v redis \<Rightarrow> bool \<times> 'v redis" where
  "safe_redis_set_nx now k v ex r = (case redis_set_nx now k v ex r of (None, r') \<Rightarrow> (False, r') | (Some b, r') \<Rightarrow> (b, r'))"

definition safe_redis_delete :: "string \<Rightarrow> 'v redis \<Rightarrow> bool \<times> 'v redis" where
  "safe_redis_delete k r = (case redis_delete k r of (None, r') \<Rightarrow> (False, r') | (Some _, r') \<Rightarrow> (True, r'))"

definition safe_redis_exists :: "time \<Rightarrow> string \<Rightarrow> 'v redis \<Rightarrow> bool" where
  "safe_redis_exists now k r = (case redis_get now k r of Some (Some _) \<Rightarrow> True | _ \<Rightarrow> False)"

definition safe_redis_ping :: "'v redis \<Rightarrow> bool" where
  "safe_redis_ping r = r_up r"

section \<open>Leases\<close>

text \<open>
  The contract of a claim with a time to live: a claim succeeds only on a free key, a successful
  claim holds until the lease ends, and a failed one changes nothing.  The webhook idempotency keys
  and the half-open probes of the circuit breaker are claims.
\<close>

locale lease =
  fixes claim :: "time \<Rightarrow> string \<Rightarrow> 's \<Rightarrow> bool \<times> 's"
    and held :: "time \<Rightarrow> string \<Rightarrow> 's \<Rightarrow> bool"
    and span :: time
  assumes claim_free: "fst (claim now k s) \<Longrightarrow> \<not> held now k s"
    and claim_holds: "fst (claim now k s) \<Longrightarrow> t < now + span \<Longrightarrow> held t k (snd (claim now k s))"
    and claim_fails: "\<not> fst (claim now k s) \<Longrightarrow> snd (claim now k s) = s"
begin

lemma held_blocks: "held now k s \<Longrightarrow> claim now k s = (False, s)"
  by (metis claim_fails claim_free prod.collapse)

text \<open>A key is claimed at most once per lease.\<close>

lemma claim_once:
  assumes "fst (claim now k s)" and "t < now + span"
  shows "claim t k (snd (claim now k s)) = (False, snd (claim now k s))"
  using claim_holds [OF assms] by (rule held_blocks)

end

definition key_held :: "time \<Rightarrow> string \<Rightarrow> 'v redis \<Rightarrow> bool" where
  "key_held now k r = (live now (r_kv r k) \<noteq> None)"

definition redis_claim :: "int \<Rightarrow> 'v \<Rightarrow> time \<Rightarrow> string \<Rightarrow> 'v redis \<Rightarrow> bool \<times> 'v redis" where
  "redis_claim ex v now k r = safe_redis_set_nx now k v (Some ex) r"

interpretation redis_lease: lease "redis_claim ex v" key_held "seconds ex" for ex v
proof
  fix now k and s :: "'a redis"
  show "fst (redis_claim ex v now k s) \<Longrightarrow> \<not> key_held now k s"
    by (auto simp: redis_claim_def safe_redis_set_nx_def redis_set_nx_def key_held_def
        split: if_splits option.splits)
  show "fst (redis_claim ex v now k s) \<Longrightarrow> t < now + seconds ex \<Longrightarrow> key_held t k (snd (redis_claim ex v now k s))" for t
    by (auto simp: redis_claim_def safe_redis_set_nx_def redis_set_nx_def key_held_def put_key_def
        live_def expiry_def split: if_splits option.splits prod.splits)
  show "\<not> fst (redis_claim ex v now k s) \<Longrightarrow> snd (redis_claim ex v now k s) = s"
    by (auto simp: redis_claim_def safe_redis_set_nx_def redis_set_nx_def split: if_splits option.splits)
qed

lemma claim_live: "r_up r \<Longrightarrow> \<not> key_held now k r \<Longrightarrow> fst (redis_claim ex v now k r)"
  by (auto simp: redis_claim_def safe_redis_set_nx_def redis_set_nx_def key_held_def split: option.splits)

lemma claim_down: "\<not> r_up r \<Longrightarrow> redis_claim ex v now k r = (False, r)"
  by (simp add: redis_claim_def safe_redis_set_nx_def redis_set_nx_def)

end
