(* ===== verification/Py_Values.thy ===== *)
theory Py_Values
  imports Prelude
begin

text \<open>
  Python operations on decoded JSON values and strings that the handlers use on untrusted input:
  \<^verbatim>\<open>dict.get\<close>, \<^verbatim>\<open>or\<close>, \<^verbatim>\<open>str\<close>, \<^verbatim>\<open>int\<close>, \<^verbatim>\<open>str.replace\<close> and \<^verbatim>\<open>uuid.UUID\<close>.  An object is the
  list of its members with distinct keys.
\<close>

definition dget :: "(string \<times> json) list \<Rightarrow> string \<Rightarrow> json" where
  "dget d k = (case map_of d k of None \<Rightarrow> JNull | Some v \<Rightarrow> v)"

definition as_dict :: "json \<Rightarrow> (string \<times> json) list" where
  "as_dict j = (case j of JObj d \<Rightarrow> d | _ \<Rightarrow> [])"

definition jor :: "json \<Rightarrow> json \<Rightarrow> json" where
  "jor a b = (if truthy a then a else b)"

fun join :: "string \<Rightarrow> string list \<Rightarrow> string" where
  "join sep [] = []"
| "join sep [x] = x"
| "join sep (x # y # xs) = x @ sep @ join sep (y # xs)"

text \<open>\<^verbatim>\<open>repr\<close> of a string does not escape here: quotes and backslashes inside are kept as they are.\<close>

fun py_repr :: "json \<Rightarrow> string" and py_str :: "json \<Rightarrow> string" where
  "py_repr JNull = ''None''"
| "py_repr (JBool b) = (if b then ''True'' else ''False'')"
| "py_repr (JInt i) = show_int i"
| "py_repr (JStr s) = CHR 0x27 # s @ [CHR 0x27]"
| "py_repr (JArr xs) = ''['' @ join '', '' (map py_repr xs) @ '']''"
| "py_repr (JObj d) = ''{'' @ join '', '' (map (\<lambda>(k, x). CHR 0x27 # k @ [CHR 0x27] @ '': '' @ py_repr x) d) @ ''}''"
| "py_str JNull = ''None''"
| "py_str (JBool b) = (if b then ''True'' else ''False'')"
| "py_str (JInt i) = show_int i"
| "py_str (JStr s) = s"
| "py_str (JArr xs) = ''['' @ join '', '' (map py_repr xs) @ '']''"
| "py_str (JObj d) = ''{'' @ join '', '' (map (\<lambda>(k, x). CHR 0x27 # k @ [CHR 0x27] @ '': '' @ py_repr x) d) @ ''}''"

text \<open>\<^verbatim>\<open>int(x)\<close> of a JSON value, \<^verbatim>\<open>None\<close> where it raises.\<close>

definition digit_val :: "char \<Rightarrow> nat option" where
  "digit_val c = (let n = (of_char c :: nat) in if 48 \<le> n \<and> n \<le> 57 then Some (n - 48) else None)"

fun parse_digits :: "nat \<Rightarrow> string \<Rightarrow> nat option" where
  "parse_digits acc [] = Some acc"
| "parse_digits acc (c # cs) = (case digit_val c of None \<Rightarrow> None | Some d \<Rightarrow> parse_digits (10 * acc + d) cs)"

definition parse_int :: "string \<Rightarrow> int option" where
  "parse_int s = (case strip s of
     [] \<Rightarrow> None
   | c # cs \<Rightarrow>
       if c = CHR ''-'' then (if cs = [] then None else map_option (\<lambda>n. - int n) (parse_digits 0 cs))
       else map_option int (parse_digits 0 (c # cs)))"

definition py_int :: "json \<Rightarrow> int option" where
  "py_int j = (case j of JInt i \<Rightarrow> Some i | JBool b \<Rightarrow> Some (if b then 1 else 0)
     | JStr s \<Rightarrow> parse_int s | _ \<Rightarrow> None)"

function replace_str :: "string \<Rightarrow> string \<Rightarrow> string \<Rightarrow> string" where
  "replace_str p r s =
     (if p = [] \<or> s = [] then s
      else if starts_with s p then r @ replace_str p r (drop (length p) s)
      else hd s # replace_str p r (tl s))"
  by pat_completeness auto
termination
  by (relation "measure (\<lambda>(p, r, s). length s)") auto

declare replace_str.simps [simp del]

definition hex_val :: "char \<Rightarrow> nat option" where
  "hex_val c = (let n = (of_char c :: nat) in
     if 48 \<le> n \<and> n \<le> 57 then Some (n - 48)
     else if 97 \<le> n \<and> n \<le> 102 then Some (n - 87)
     else if 65 \<le> n \<and> n \<le> 70 then Some (n - 55) else None)"

fun parse_hex :: "nat \<Rightarrow> string \<Rightarrow> nat option" where
  "parse_hex acc [] = Some acc"
| "parse_hex acc (c # cs) = (case hex_val c of None \<Rightarrow> None | Some d \<Rightarrow> parse_hex (16 * acc + d) cs)"

definition strip_braces :: "string \<Rightarrow> string" where
  "strip_braces s = (let b = (\<lambda>c. c = CHR 0x7B \<or> c = CHR 0x7D) in rev (dropWhile b (rev (dropWhile b s))))"

text \<open>
  \<^verbatim>\<open>uuid.UUID(s)\<close>: the prefixes, braces and dashes go, and 32 hexadecimal digits remain.  (Python's
  \<^verbatim>\<open>int(hex, 16)\<close> also takes signs, blanks and underscores among those 32 characters.)
\<close>

definition parse_uuid :: "string \<Rightarrow> uuid option" where
  "parse_uuid s =
     (let h = replace_str ''-'' [] (strip_braces (replace_str ''uuid:'' [] (replace_str ''urn:'' [] s)))
      in if length h \<noteq> 32 then None else parse_hex 0 h)"

section \<open>Printing and parsing identifiers\<close>

lemma of_char_small: "n < 128 \<Longrightarrow> (of_char (char_of n :: char) :: nat) = n"
  by simp

lemma hex_val_hex_char: "d < 16 \<Longrightarrow> hex_val (hex_char d) = Some d"
  by (auto simp: hex_val_def hex_char_def Let_def of_char_small)

lemma parse_hex_append: "parse_hex acc (xs @ ys) = (case parse_hex acc xs of None \<Rightarrow> None | Some a \<Rightarrow> parse_hex a ys)"
  by (induction acc xs rule: parse_hex.induct) (auto split: option.splits)

lemma parse_hex_digits: "parse_hex acc (hex_digits w n) = Some (16 ^ w * acc + n mod 16 ^ w)"
proof (induction w arbitrary: n)
  case (Suc w)
  have "n mod 16 ^ Suc w = 16 * (n div 16 mod 16 ^ w) + n mod 16"
    by (metis mod_mult2_eq power_Suc mult.commute add.commute)
  with Suc show ?case
    by (simp add: parse_hex_append hex_val_hex_char algebra_simps)
qed simp

lemma replace_char: "replace_str [c] [] s = filter (\<lambda>x. x \<noteq> c) s"
proof (induction s)
  case (Cons x s)
  then show ?case
    by (subst replace_str.simps) auto
qed (simp add: replace_str.simps)

lemma replace_absent:
  assumes "CHR '':'' \<in> set p" and "CHR '':'' \<notin> set s"
  shows "replace_str p r s = s"
  using assms(2)
proof (induction s)
  case (Cons x s)
  have "\<not> starts_with (x # s) p"
    using assms(1) Cons.prems by (metis Un_iff set_append starts_with_iff)
  with Cons show ?case
    by (subst replace_str.simps) simp
qed (simp add: replace_str.simps)

lemma hex_char_plain:
  assumes "d < 16"
  shows "hex_char d \<notin> {CHR '':'', CHR ''-'', CHR 0x7B, CHR 0x7D}"
proof -
  have "hex_val c = None" if "c \<in> {CHR '':'', CHR ''-'', CHR 0x7B, CHR 0x7D}" for c
    using that by (auto simp: hex_val_def Let_def)
  with hex_val_hex_char [OF assms] show ?thesis
    by force
qed

lemma hex_digits_plain: "set (hex_digits w n) \<inter> {CHR '':'', CHR ''-'', CHR 0x7B, CHR 0x7D} = {}"
proof (induction w arbitrary: n)
  case (Suc w)
  then show ?case
    using hex_char_plain [of "n mod 16"] by auto
qed simp

lemma strip_braces_plain:
  assumes "set s \<inter> {CHR 0x7B, CHR 0x7D} = {}"
  shows "strip_braces s = s"
proof -
  have "dropWhile (\<lambda>c. c = CHR 0x7B \<or> c = CHR 0x7D) t = t" if "set t = set s" for t
    using that assms by (cases t) auto
  then show ?thesis
    by (simp add: strip_braces_def Let_def)
qed

lemma uuid_roundtrip_aux:
  assumes "u < 2 ^ 128"
  shows "parse_uuid (uuid_str u) = Some u"
proof -
  define h where "h = hex_digits 32 u"
  have plain: "set h \<inter> {CHR '':'', CHR ''-'', CHR 0x7B, CHR 0x7D} = {}" and len: "length h = 32"
    using hex_digits_plain by (simp_all add: h_def)
  have parts: "uuid_str u = take 8 h @ ''-'' @ take 4 (drop 8 h) @ ''-'' @ take 4 (drop 12 h) @ ''-'' @
      take 4 (drop 16 h) @ ''-'' @ drop 20 h"
    by (simp add: uuid_str_def h_def Let_def)
  have sub: "set (take n (drop m h)) \<subseteq> set h" for n m
    by (meson set_drop_subset set_take_subset subset_trans)
  have chars: "set (uuid_str u) \<subseteq> insert CHR ''-'' (set h)"
    unfolding parts using sub [of 8 0] sub [of 4 8] sub [of 4 12] sub [of 4 16] set_drop_subset [of 20 h] by auto
  have "filter (\<lambda>x. x \<noteq> CHR ''-'') t = t" if "set t \<subseteq> set h" for t
    using that plain by (auto simp: filter_id_conv)
  then have dashes: "filter (\<lambda>x. x \<noteq> CHR ''-'') (uuid_str u) =
      take 8 h @ take 4 (drop 8 h) @ take 4 (drop 12 h) @ take 4 (drop 16 h) @ drop 20 h"
    unfolding parts using sub [of 8 0] sub [of 4 8] sub [of 4 12] sub [of 4 16] set_drop_subset [of 20 h]
    by simp
  also have "\<dots> = h"
    using append_take_drop_id [of 4 "drop 16 h"] append_take_drop_id [of 4 "drop 12 h"]
      append_take_drop_id [of 4 "drop 8 h"] append_take_drop_id [of 8 h]
    by (simp add: drop_drop)
  finally have "replace_str ''-'' [] (uuid_str u) = h"
    by (simp add: replace_char)
  moreover have "CHR '':'' \<notin> set (uuid_str u)" "set (uuid_str u) \<inter> {CHR 0x7B, CHR 0x7D} = {}"
    using chars plain by auto
  moreover have "parse_hex 0 h = Some u"
    using assms by (simp add: h_def parse_hex_digits)
  ultimately show ?thesis
    by (simp add: parse_uuid_def Let_def replace_absent strip_braces_plain len)
qed

end
