(* ===== verification/Billing.thy ===== *)
theory Billing
  imports Commissions Redis Py_Values
begin

text \<open>
  \<^verbatim>\<open>modules/billing\<close>: plan details, checkout initialization, the verification of a transaction
  and the Paystack webhook with its signature check, its idempotency claim in Redis and its event
  handlers.  Paystack, the HMAC-SHA512 digest, the JSON decoder of the request body and
  \<^verbatim>\<open>datetime.fromisoformat\<close> are the fields of \<^verbatim>\<open>billing_env\<close>; a failed HTTP call is
  \<^verbatim>\<open>None\<close>, a response is a JSON object.
\<close>

record billing_env =
  be_settings :: partner_settings
  be_secret :: string
  be_verify :: "string \<Rightarrow> (string \<times> json) list option"
  be_initialize :: "string \<Rightarrow> int \<Rightarrow> string \<Rightarrow> (string \<times> json) list \<Rightarrow> (string \<times> json) list option"
  be_hmac :: "string \<Rightarrow> string \<Rightarrow> string"
  be_decode :: "string \<Rightarrow> (string \<times> (string \<times> json) list) option"
  be_fromisoformat :: "string \<Rightarrow> time option"

definition PLAN_AMOUNTS :: "(string \<times> int) list" where
  "PLAN_AMOUNTS = [(''starter'', 1900), (''standard'', 4900), (''professional'', 9900), (''agency'', 0)]"

section \<open>Subscription repository\<close>

definition get_subscription :: "db \<Rightarrow> uuid \<Rightarrow> subscription option" where
  "get_subscription s org_id = get_row s_organization_id org_id (db_subscriptions s)"

definition subscription_row :: "db \<Rightarrow> uuid \<Rightarrow> subscription option" where
  "subscription_row s i = get_row s_id i (db_subscriptions s)"

definition save_subscription :: "subscription \<Rightarrow> db \<Rightarrow> db" where
  "save_subscription r s = s\<lparr>db_subscriptions := save_row s_id r (db_subscriptions s)\<rparr>"

definition add_subscription :: "subscription \<Rightarrow> db \<Rightarrow> db" where
  "add_subscription r s = s\<lparr>db_subscriptions := db_subscriptions s @ [r]\<rparr>"

interpretation subscription_repo:
  row_repo s_id db_subscriptions subscription_row save_subscription add_subscription
  by unfold_locales
    (auto simp: subscription_row_def save_subscription_def add_subscription_def get_row_None dest: get_row_Some)

datatype subscription_field =
    SfPlan "string option"
  | SfStatus "string option"
  | SfProviderCustomerId "string option"
  | SfProviderSubscriptionId "string option"
  | SfCurrentPeriodStart "time option"
  | SfCurrentPeriodEnd "time option"

fun put_subscription :: "subscription_field \<Rightarrow> subscription \<Rightarrow> subscription" where
  "put_subscription (SfPlan (Some v)) r = r\<lparr>s_plan := v\<rparr>"
| "put_subscription (SfStatus (Some v)) r = r\<lparr>s_status := v\<rparr>"
| "put_subscription (SfProviderCustomerId (Some v)) r = r\<lparr>s_provider_customer_id := Some v\<rparr>"
| "put_subscription (SfProviderSubscriptionId (Some v)) r = r\<lparr>s_provider_subscription_id := Some v\<rparr>"
| "put_subscription (SfCurrentPeriodStart (Some v)) r = r\<lparr>s_current_period_start := Some v\<rparr>"
| "put_subscription (SfCurrentPeriodEnd (Some v)) r = r\<lparr>s_current_period_end := Some v\<rparr>"
| "put_subscription _ r = r"

definition update_subscription :: "subscription \<Rightarrow> subscription_field list \<Rightarrow> db \<Rightarrow> db" where
  "update_subscription r kws s = save_subscription (set_fields put_subscription kws r) s"

definition create_subscription ::
  "uuid \<Rightarrow> uuid \<Rightarrow> string option \<Rightarrow> string option \<Rightarrow> string \<Rightarrow> string \<Rightarrow> time option \<Rightarrow> time option \<Rightarrow>
   (subscription, db) service" where
  "create_subscription i org_id customer sub plan status period_start period_end s =
     (let r = \<lparr>s_id = i, s_organization_id = org_id, s_provider = ''paystack'',
               s_provider_customer_id = customer, s_provider_subscription_id = sub, s_plan = plan,
               s_status = status, s_current_period_start = period_start, s_current_period_end = period_end\<rparr>
      in if \<exists>x \<in> set (db_subscriptions s). s_id x = i \<or> s_organization_id x = org_id
         then (Inl (IntegrityError ''uq_subscriptions_organization_id''), s)
         else (Inr r, add_subscription r s))"

definition get_org_by_provider_customer :: "db \<Rightarrow> string \<Rightarrow> string \<Rightarrow> app_error + organization option" where
  "get_org_by_provider_customer s customer_id provider = one_or_none
     (concat (map (\<lambda>o'. map (\<lambda>_. o') (filter (\<lambda>x. s_organization_id x = o_id o' \<and>
        s_provider_customer_id x = Some customer_id \<and> s_provider x = provider) (db_subscriptions s)))
      (db_organizations s)))"

section \<open>Reading provider data\<close>

definition parse_datetime :: "billing_env \<Rightarrow> json \<Rightarrow> time option" where
  "parse_datetime env v = (case v of
     JStr s \<Rightarrow> if s = [] then None else be_fromisoformat env (replace_str ''Z'' ''+00:00'' s)
   | _ \<Rightarrow> None)"

definition normalized_plan :: "(string \<times> json) list \<Rightarrow> string" where
  "normalized_plan data =
     (let metadata = as_dict (dget data ''metadata'');
          candidate = dget metadata ''plan'';
          candidate = (if truthy candidate then candidate
            else (case dget data ''plan'' of
                    JObj plan_data \<Rightarrow> jor (dget plan_data ''name'') (dget plan_data ''plan_code'')
                  | JStr p \<Rightarrow> JStr p
                  | _ \<Rightarrow> candidate));
          c = lower (strip (py_str (jor candidate (JStr ''starter''))))
      in if c \<in> set PLAN_VALUES then c else ''starter'')"

text \<open>A provider code stored in a string column.\<close>

definition column_str :: "json \<Rightarrow> string option" where
  "column_str j = (case j of JNull \<Rightarrow> None | v \<Rightarrow> Some (py_str v))"

section \<open>Plan details and checkout\<close>

record plan_details =
  pld_org_id :: uuid
  pld_plan :: string
  pld_max_dependencies :: nat
  pld_min_check_interval_seconds :: int
  pld_subscription_status :: "string option"
  pld_current_period_end :: "time option"
  pld_price_usd :: int

definition get_plan_details :: "uuid \<Rightarrow> (plan_details, db) service" where
  "get_plan_details org_id s = (case org_get_by_id s org_id of
     None \<Rightarrow> (Inl (ResourceNotFoundException ''Organization not found''), s)
   | Some org \<Rightarrow>
       (let sub = get_subscription s org_id
        in (Inr \<lparr>pld_org_id = o_id org, pld_plan = o_plan org,
              pld_max_dependencies = get_dependency_limit (o_plan org),
              pld_min_check_interval_seconds = get_min_check_interval (o_plan org),
              pld_subscription_status = map_option s_status sub,
              pld_current_period_end = (case sub of None \<Rightarrow> None | Some x \<Rightarrow> s_current_period_end x),
              pld_price_usd = get_plan_price_usd (o_plan org)\<rparr>, s)))"

record payment_init =
  pin_authorization_url :: json
  pin_reference :: json
  pin_access_code :: json

definition checkout_email :: "db \<Rightarrow> uuid \<Rightarrow> string option \<Rightarrow> string option" where
  "checkout_email s org_id email =
     (if str_truthy email then email
      else case first_owner s org_id of None \<Rightarrow> None
        | Some m \<Rightarrow> map_option u_email (user_get_by_id s (m_user_id m)))"

definition initialize_transaction ::
  "billing_env \<Rightarrow> string \<Rightarrow> int \<Rightarrow> string \<Rightarrow> (string \<times> json) list \<Rightarrow> app_error + (string \<times> json) list" where
  "initialize_transaction env email amount plan metadata =
     (if be_secret env = [] then Inl (ValidationException ''Paystack is not configured'')
      else case be_initialize env email amount plan metadata of
        None \<Rightarrow> Inl (ValidationException ''Paystack transaction initialization failed'')
      | Some r \<Rightarrow> Inr r)"

definition initialize_payment ::
  "billing_env \<Rightarrow> uuid \<Rightarrow> string \<Rightarrow> string option \<Rightarrow> (payment_init, db) service" where
  "initialize_payment env org_id plan email s = (case org_get_by_id s org_id of
     None \<Rightarrow> (Inl (ResourceNotFoundException ''Organization not found''), s)
   | Some org \<Rightarrow>
       (let plan = lower plan in
        if \<not> is_paid_plan plan
        then (Inl (ValidationException (''Invalid paid plan: '' @ quoted plan @
               ''. Must be one of: starter, standard, professional.'')), s)
        else (case map_of PLAN_AMOUNTS plan of
          None \<Rightarrow> (Inl (ValidationException (''Plan '' @ quoted plan @ '' is not available for self-serve checkout. '' @
                   ''Please contact sales for agency plans.'')), s)
        | Some base_amount \<Rightarrow>
            (case checkout_email s org_id email of
               None \<Rightarrow> (Inl (ValidationException ''No email is available for payment initialization''), s)
             | Some em \<Rightarrow>
                 if em = [] then (Inl (ValidationException ''No email is available for payment initialization''), s)
                 else (case initialize_transaction env em base_amount plan
                          [(''org_id'', juuid org_id), (''plan'', JStr plan)] of
                    Inl e \<Rightarrow> (Inl e, s)
                  | Inr result \<Rightarrow>
                      (let data = as_dict (dget result ''data'') in
                       if \<not> truthy (dget result ''status'') \<or> data = []
                       then (Inl (ValidationException ''Paystack transaction initialization failed''), s)
                       else (case (map_of data ''authorization_url'', map_of data ''reference'', map_of data ''access_code'') of
                          (Some a, Some r, Some c) \<Rightarrow>
                            (Inr \<lparr>pin_authorization_url = a, pin_reference = r, pin_access_code = c\<rparr>, s)
                        | _ \<Rightarrow> (Inl (ValidationException ''Paystack returned an incomplete response''), s))))))))"

section \<open>Verification\<close>

record verify_response =
  vr_verified :: bool
  vr_plan :: string
  vr_reference :: string

text \<open>An exception in the commission processing is logged and swallowed.\<close>

definition record_partner_commission ::
  "billing_env \<Rightarrow> time \<Rightarrow> uuid \<Rightarrow> uuid \<Rightarrow> (string \<times> json) list \<Rightarrow> string \<Rightarrow> db \<Rightarrow> db" where
  "record_partner_commission env now cid org_id data reference s =
     (let collected = dget data ''amount'' in
      if \<not> truthy collected then s
      else case py_int collected of None \<Rightarrow> s
      | Some minor \<Rightarrow>
          snd (record_payment (be_settings env) now cid org_id minor
                 (take 3 (upper (py_str (jor (dget data ''currency'') (JStr ''USD''))))) reference
                 (parse_datetime env (dget data ''paid_at'')) ''paystack'' s))"

definition upsert_subscription ::
  "uuid \<Rightarrow> uuid \<Rightarrow> string \<Rightarrow> string \<Rightarrow> string option \<Rightarrow> string option \<Rightarrow> time option \<Rightarrow> time option \<Rightarrow>
   (unit, db) service" where
  "upsert_subscription sid org_id plan status customer sub period_start period_end s =
     (case get_subscription s org_id of
        Some r \<Rightarrow> (Inr (), update_subscription r [SfPlan (Some plan), SfStatus (Some status),
           SfProviderCustomerId customer, SfProviderSubscriptionId sub,
           SfCurrentPeriodStart period_start, SfCurrentPeriodEnd period_end] s)
      | None \<Rightarrow>
          (case create_subscription sid org_id customer sub plan status period_start period_end s of
             (Inl e, s1) \<Rightarrow> (Inl e, s1) | (Inr _, s1) \<Rightarrow> (Inr (), s1)))"

definition verify_transaction ::
  "billing_env \<Rightarrow> time \<Rightarrow> uuid \<Rightarrow> uuid \<Rightarrow> string \<Rightarrow> (verify_response, db) service" where
  "verify_transaction env now sid cid reference s =
     (if be_secret env = [] then (Inl (ValidationException ''Paystack is not configured''), s)
      else case be_verify env reference of
        None \<Rightarrow> (Inl (ValidationException ''Unable to verify Paystack transaction''), s)
      | Some result \<Rightarrow>
          (let data = as_dict (dget result ''data'');
               unverified = (Inr \<lparr>vr_verified = False, vr_plan = ''free'', vr_reference = reference\<rparr>, s)
           in if \<not> truthy (dget result ''status'') \<or> dget data ''status'' \<noteq> JStr ''success'' then unverified
           else
             (let metadata = as_dict (dget data ''metadata'');
                  org_id_raw = dget metadata ''org_id''
              in if \<not> truthy org_id_raw then unverified
              else case parse_uuid (py_str org_id_raw) of
                None \<Rightarrow> (Inl (ValidationException ''Invalid organization metadata from Paystack''), s)
              | Some org_id \<Rightarrow>
                (case org_get_by_id s org_id of
                   None \<Rightarrow> (Inl (ResourceNotFoundException ''Organization not found''), s)
                 | Some org \<Rightarrow>
                     (let plan = normalized_plan data;
                          customer = as_dict (dget data ''customer'');
                          customer_code = dget customer ''customer_code''
                      in case upsert_subscription sid org_id plan ''active'' (column_str customer_code)
                             (Some (py_str (jor (dget data ''subscription_code'') (JStr reference))))
                             (parse_datetime env (dget data ''paid_at''))
                             (parse_datetime env (dget data ''next_payment_date'')) s of
                           (Inl e, s1) \<Rightarrow> (Inl e, s1)
                         | (Inr _, s1) \<Rightarrow>
                             (let s2 = snd (org_update org [OfPlan (Some plan)] s1);
                                  s3 = record_partner_commission env now cid org_id data reference s2
                              in (Inr \<lparr>vr_verified = True, vr_plan = plan, vr_reference = reference\<rparr>, s3)))))))"

section \<open>Webhook\<close>

record billing_state =
  bs_db :: db
  bs_redis :: "string redis"

definition webhook_event_id :: "string \<Rightarrow> (string \<times> json) list \<Rightarrow> string option" where
  "webhook_event_id event_type data =
     (let event_id = jor (jor (jor (dget data ''id'') (dget data ''event_id'')) (dget data ''reference''))
                       (dget data ''subscription_code'')
      in if event_type = [] \<or> \<not> truthy event_id then None
         else Some (event_type @ '':'' @ py_str event_id))"

definition claim_webhook_event :: "time \<Rightarrow> string \<Rightarrow> string redis \<Rightarrow> bool \<times> string redis" where
  "claim_webhook_event now event_id r = redis_claim (24 * 3600) ''1'' now (''paystack:event:'' @ event_id) r"

definition upsert_webhook_subscription ::
  "billing_env \<Rightarrow> uuid \<Rightarrow> (string \<times> json) list \<Rightarrow> (unit, db) service" where
  "upsert_webhook_subscription env sid data s =
     (let org_id_raw = dget (as_dict (dget data ''metadata'')) ''org_id'' in
      if \<not> truthy org_id_raw then (Inr (), s)
      else case parse_uuid (py_str org_id_raw) of None \<Rightarrow> (Inr (), s)
      | Some org_id \<Rightarrow>
        (case org_get_by_id s org_id of None \<Rightarrow> (Inr (), s)
         | Some org \<Rightarrow>
             (let customer = as_dict (dget data ''customer'');
                  plan = normalized_plan data
              in case upsert_subscription sid org_id plan (py_str (jor (dget data ''status'') (JStr ''active'')))
                     (column_str (dget customer ''customer_code'')) (column_str (dget data ''subscription_code''))
                     (parse_datetime env (dget data ''createdAt''))
                     (parse_datetime env (dget data ''next_payment_date'')) s of
                   (Inl e, s1) \<Rightarrow> (Inl e, s1)
                 | (Inr _, s1) \<Rightarrow> (Inr (), snd (org_update org [OfPlan (Some plan)] s1)))))"

definition disable_webhook_subscription :: "(string \<times> json) list \<Rightarrow> (unit, db) service" where
  "disable_webhook_subscription data s =
     (let customer_code = dget (as_dict (dget data ''customer'')) ''customer_code'' in
      if \<not> truthy customer_code then (Inr (), s)
      else case get_org_by_provider_customer s (py_str customer_code) ''paystack'' of
        Inl e \<Rightarrow> (Inl e, s)
      | Inr None \<Rightarrow> (Inr (), s)
      | Inr (Some org) \<Rightarrow>
          (let s1 = (case get_subscription s (o_id org) of None \<Rightarrow> s
                     | Some r \<Rightarrow> update_subscription r [SfStatus (Some ''inactive'')] s)
           in (Inr (), snd (org_update org [OfPlan (Some ''free'')] s1))))"

text \<open>The partner handlers swallow every exception.\<close>

definition handle_partner_churn :: "(string \<times> json) list \<Rightarrow> db \<Rightarrow> db" where
  "handle_partner_churn data s =
     (let customer_code = dget (as_dict (dget data ''customer'')) ''customer_code'' in
      if \<not> truthy customer_code then s
      else case get_org_by_provider_customer s (py_str customer_code) ''paystack'' of
        Inr (Some org) \<Rightarrow> snd (handle_churn (o_id org) s)
      | _ \<Rightarrow> s)"

definition reverse_partner_commissions :: "(string \<times> json) list \<Rightarrow> string \<Rightarrow> db \<Rightarrow> db" where
  "reverse_partner_commissions data reason s =
     (let transaction = as_dict (dget data ''transaction'');
          reference = jor (jor (dget data ''transaction_reference'') (dget data ''reference''))
                        (dget transaction ''reference'')
      in if \<not> truthy reference then s else snd (reverse_by_reference (py_str reference) reason s))"

definition dispatch_event ::
  "billing_env \<Rightarrow> time \<Rightarrow> uuid \<Rightarrow> uuid \<Rightarrow> string \<Rightarrow> (string \<times> json) list \<Rightarrow> (unit, db) service" where
  "dispatch_event env now sid cid event_type data s =
     (if event_type = ''charge.success'' \<and> truthy (dget data ''reference'') then
        (case verify_transaction env now sid cid (py_str (dget data ''reference'')) s of
           (Inl e, s1) \<Rightarrow> (Inl e, s1) | (Inr _, s1) \<Rightarrow> (Inr (), s1))
      else if event_type = ''subscription.create'' then upsert_webhook_subscription env sid data s
      else if event_type \<in> {''subscription.disable'', ''subscription.not_renew''} then
        (case disable_webhook_subscription data s of
           (Inl e, s1) \<Rightarrow> (Inl e, s1)
         | (Inr _, s1) \<Rightarrow> (Inr (), handle_partner_churn data s1))
      else if event_type \<in> {''refund.processed'', ''charge.refunded''} then
        (Inr (), reverse_partner_commissions data ''refund'' s)
      else if event_type \<in> {''charge.dispute.create'', ''charge.dispute.remind''} then
        (Inr (), reverse_partner_commissions data ''chargeback'' s)
      else (Inr (), s))"

definition webhook_auth :: "billing_env \<Rightarrow> string \<Rightarrow> string \<Rightarrow> app_error + unit" where
  "webhook_auth env signature raw_body =
     (if signature = [] then Inl (UnauthorizedException ''Missing Paystack webhook signature'')
      else if raw_body = [] then Inl (UnauthorizedException ''Missing raw request body'')
      else if be_secret env = [] then Inl (UnauthorizedException ''Paystack webhook secret is not configured'')
      else if be_hmac env (be_secret env) raw_body \<noteq> signature
      then Inl (UnauthorizedException ''Invalid Paystack webhook signature'')
      else Inr ())"

definition webhook_claim :: "time \<Rightarrow> string \<Rightarrow> (string \<times> json) list \<Rightarrow> string redis \<Rightarrow> bool \<times> string redis" where
  "webhook_claim now event_type data r = (case webhook_event_id event_type data of
     None \<Rightarrow> (True, r) | Some event_id \<Rightarrow> claim_webhook_event now event_id r)"

definition handle_webhook ::
  "billing_env \<Rightarrow> time \<Rightarrow> uuid \<Rightarrow> uuid \<Rightarrow> string \<Rightarrow> (string \<times> json) list \<Rightarrow> string \<Rightarrow> string \<Rightarrow>
   (string, billing_state) service" where
  "handle_webhook env now sid cid event_type data signature raw_body s =
     (case webhook_auth env signature raw_body of
        Inl e \<Rightarrow> (Inl e, s)
      | Inr _ \<Rightarrow>
          (case webhook_claim now event_type data (bs_redis s) of
             (False, r) \<Rightarrow> (Inr event_type, s\<lparr>bs_redis := r\<rparr>)
           | (True, r) \<Rightarrow>
               (case dispatch_event env now sid cid event_type data (bs_db s) of
                  (Inl e, d) \<Rightarrow> (Inl e, s\<lparr>bs_redis := r, bs_db := d\<rparr>)
                | (Inr _, d) \<Rightarrow> (Inr event_type, s\<lparr>bs_redis := r, bs_db := d\<rparr>))))"

text \<open>
  The route: the body is decoded and validated, and the request's database session is rolled back
  when the handler raises.  Redis is not part of that transaction.
\<close>

definition paystack_webhook ::
  "billing_env \<Rightarrow> time \<Rightarrow> uuid \<Rightarrow> uuid \<Rightarrow> string \<Rightarrow> string \<Rightarrow> (string, billing_state) service" where
  "paystack_webhook env now sid cid signature raw_body s = (case be_decode env raw_body of
     None \<Rightarrow> (Inl (ValidationException ''Invalid Paystack webhook body''), s)
   | Some (event_type, data) \<Rightarrow>
       (case handle_webhook env now sid cid event_type data signature raw_body s of
          (Inl e, s') \<Rightarrow> (Inl e, s'\<lparr>bs_db := bs_db s\<rparr>)
        | (Inr v, s') \<Rightarrow> (Inr v, s')))"

record pricing_plan =
  prp_plan :: string
  prp_display_name :: string
  prp_description :: string
  prp_tag :: "string option"
  prp_price_usd :: int
  prp_max_dependencies :: nat
  prp_min_check_interval_seconds :: int
  prp_data_retention_days :: int
  prp_features :: "(string \<times> json) list"

definition capitalize :: "string \<Rightarrow> string" where
  "capitalize s = (case s of [] \<Rightarrow> [] | c # cs \<Rightarrow> upper_char c # lower cs)"

definition get_pricing_plans :: "pricing_plan list" where
  "get_pricing_plans = map (\<lambda>p. \<lparr>prp_plan = p, prp_display_name = capitalize p,
     prp_description = dict_get PLAN_DESCRIPTIONS p [],
     prp_tag = dict_get PLAN_TAGS p None, prp_price_usd = dict_get PLAN_PRICES_USD p 0,
     prp_max_dependencies = dict_get PLAN_DEPENDENCY_LIMITS p 0,
     prp_min_check_interval_seconds = get_min_check_interval p,
     prp_data_retention_days = dict_get PLAN_RETENTION_DAYS p 1,
     prp_features = dict_get PLAN_FEATURES p []\<rparr>) PLAN_VALUES"

text \<open>The verification route turns every exception into a validation error.\<close>

fun error_text :: "app_error \<Rightarrow> string" where
  "error_text (AppException m st c) = m"
| "error_text (ResourceNotFoundException m) = m"
| "error_text (ForbiddenException m) = m"
| "error_text (UnauthorizedException m) = m"
| "error_text (ConflictException m) = m"
| "error_text (RateLimitExceededException m) = m"
| "error_text (ValidationException m) = m"
| "error_text (IntegrityError m) = m"
| "error_text (ValueError m) = m"
| "error_text MultipleResultsFound = ''Multiple rows were found when one or none was required''"

definition verify_route ::
  "billing_env \<Rightarrow> time \<Rightarrow> uuid \<Rightarrow> uuid \<Rightarrow> string \<Rightarrow> (verify_response, db) service" where
  "verify_route env now sid cid reference = with_session (\<lambda>s.
     (case verify_transaction env now sid cid reference s of
        (Inl e, s') \<Rightarrow> (Inl (ValidationException (''Transaction verification failed: '' @ error_text e)), s')
      | (Inr v, s') \<Rightarrow> (Inr v, s')))"

end
