(* ===== verification/Partner_Admin.thy ===== *)
theory Partner_Admin
  imports Commissions
begin

text \<open>
  The HTTP surface of the partner program: the self-service routes of
  \<^verbatim>\<open>modules/partners/router.py\<close>, the admin panel of \<^verbatim>\<open>admin_router.py\<close> with the admin guard
  (\<^verbatim>\<open>modules/admin/guards.py\<close>) and the audit decorator (\<^verbatim>\<open>modules/admin/decorators.py\<close>), and the
  release task of \<^verbatim>\<open>tasks.py\<close>.
\<close>

section \<open>Self-service routes\<close>

definition require_partner_user :: "string option \<Rightarrow> user \<Rightarrow> app_error + user" where
  "require_partner_user auth_method current_user =
     (if auth_method = Some ''apikey''
      then Inl (ForbiddenException ''Organization API keys cannot access partner self-service routes'')
      else Inr current_user)"

record commission_item =
  ci_id :: uuid
  ci_referral_id :: "uuid option"
  ci_period :: string
  ci_subscription_amount_minor :: int
  ci_commission_rate :: int
  ci_commission_amount_minor :: int
  ci_currency :: string
  ci_status :: string
  ci_created_at :: time
  ci_payable_at :: "time option"
  ci_paid_at :: "time option"

definition commission_item_of :: "partner_commission \<Rightarrow> commission_item" where
  "commission_item_of c = \<lparr>ci_id = pc_id c, ci_referral_id = pc_referral_id c, ci_period = pc_period c,
     ci_subscription_amount_minor = pc_subscription_amount_minor c, ci_commission_rate = pc_rate c,
     ci_commission_amount_minor = pc_commission_amount_minor c, ci_currency = pc_currency c,
     ci_status = commission_status_value (pc_status c), ci_created_at = pc_created_at c,
     ci_payable_at = pc_payable_at c, ci_paid_at = pc_paid_at c\<rparr>"

definition my_commissions :: "uuid \<Rightarrow> nat \<Rightarrow> nat \<Rightarrow> (commission_item list \<times> nat, db) service" where
  "my_commissions user_id page page_size s = (case get_partner_for_user user_id s of
     Inl e \<Rightarrow> (Inl e, s)
   | Inr p \<Rightarrow>
       (let (rows, total) = commission_list_by_partner s (pp_id p) ((page - 1) * page_size) page_size
        in (Inr (map commission_item_of rows, total), s)))"

record payout_item =
  pi_id :: uuid
  pi_period :: "string option"
  pi_amount_minor :: int
  pi_currency :: string
  pi_status :: string
  pi_paid_at :: "time option"
  pi_transaction_reference :: "string option"

definition payout_item_of :: "partner_payout \<Rightarrow> payout_item" where
  "payout_item_of p = \<lparr>pi_id = po_id p, pi_period = po_period p, pi_amount_minor = po_amount_minor p,
     pi_currency = po_currency p, pi_status = payout_status_value (po_status p),
     pi_paid_at = po_paid_at p, pi_transaction_reference = po_transaction_reference p\<rparr>"

definition my_payouts :: "uuid \<Rightarrow> nat \<Rightarrow> nat \<Rightarrow> (payout_item list \<times> nat, db) service" where
  "my_payouts user_id page page_size s = (case get_partner_for_user user_id s of
     Inl e \<Rightarrow> (Inl e, s)
   | Inr p \<Rightarrow>
       (let (rows, total) = payout_list_by_partner s (pp_id p) ((page - 1) * page_size) page_size
        in (Inr (map payout_item_of rows, total), s)))"

section \<open>Admin guard and audit decorator\<close>

definition require_system_admin :: "user \<Rightarrow> app_error + user" where
  "require_system_admin u =
     (if \<not> u_is_system_admin u then Inl (ForbiddenException ''System admin access required'') else Inr u)"

record http_client =
  hc_host :: "string option"
  hc_user_agent :: "string option"

text \<open>
  The decorator logs a successful mutation; the entity it names is the keyword argument
  \<^verbatim>\<open>user_id\<close>, else \<^verbatim>\<open>ticket_id\<close>, else the empty string.  Both are path parameters, so a
  present one is non-empty.  The entry is written in a session of its own.
\<close>

definition audited ::
  "time \<Rightarrow> string \<Rightarrow> string \<Rightarrow> user \<Rightarrow> http_client \<Rightarrow> (string \<times> string) list \<Rightarrow> ('a, db) service \<Rightarrow> ('a, db) service" where
  "audited now action entity_type admin client kwargs f s = (case f s of
     (Inl e, s1) \<Rightarrow> (Inl e, s1)
   | (Inr r, s1) \<Rightarrow>
       (let entity_id = (case map_of kwargs ''user_id'' of Some i \<Rightarrow> i
                         | None \<Rightarrow> (case map_of kwargs ''ticket_id'' of Some i \<Rightarrow> i | None \<Rightarrow> []))
        in (Inr r, s1\<lparr>db_admin_audit := db_admin_audit s1 @
             [\<lparr>aal_admin_user_id = Some (u_id admin), aal_admin_email = Some (u_email admin),
               aal_action = action, aal_entity_type = Some entity_type, aal_entity_id = Some entity_id,
               aal_details = JObj [], aal_ip_address = hc_host client,
               aal_user_agent = hc_user_agent client, aal_created_at = now\<rparr>]\<rparr>)))"

definition admin_route :: "user \<Rightarrow> ('a, db) service \<Rightarrow> ('a, db) service" where
  "admin_route admin f s = (case require_system_admin admin of
     Inl e \<Rightarrow> (Inl e, s) | Inr _ \<Rightarrow> with_session f s)"

section \<open>Admin queries\<close>

definition email_for :: "db \<Rightarrow> uuid \<Rightarrow> string option" where
  "email_for s user_id = map_option u_email (user_get_by_id s user_id)"

record partner_admin_item =
  pai_partner_id :: uuid
  pai_user_id :: uuid
  pai_email :: string
  pai_referral_code :: string
  pai_status :: string
  pai_referred_signups :: nat
  pai_active_paid_customers :: nat
  pai_monthly_commission_minor :: int
  pai_total_earned_minor :: int
  pai_total_paid_minor :: int
  pai_currency :: string
  pai_created_at :: time

definition admin_item :: "time \<Rightarrow> db \<Rightarrow> partner_profile \<Rightarrow> partner_admin_item" where
  "admin_item now s p =
     (let i = pp_id p
      in \<lparr>pai_partner_id = i, pai_user_id = pp_user_id p,
          pai_email = (case email_for s (pp_user_id p) of None \<Rightarrow> [] | Some e \<Rightarrow> e),
          pai_referral_code = referral_code_for s (pp_referral_code_id p),
          pai_status = partner_status_value (pp_status p),
          pai_referred_signups = referral_count_by_partner s i None,
          pai_active_paid_customers = referral_count_by_partner s i (Some RPaid),
          pai_monthly_commission_minor = sum_amount_by_partner s i [] True False (Some (period_month now)),
          pai_total_earned_minor = sum_amount_by_partner s i [] True False None,
          pai_total_paid_minor = sum_amount_by_partner s i [CPaid] True False None,
          pai_currency = ''USD'', pai_created_at = pp_created_at p\<rparr>)"

definition list_partners ::
  "time \<Rightarrow> string option \<Rightarrow> string option \<Rightarrow> nat \<Rightarrow> nat \<Rightarrow> (partner_admin_item list \<times> nat, db) service" where
  "list_partners now status search page page_size s =
     (let (profiles, total) = profile_list_all s status search ((page - 1) * page_size) page_size
      in (Inr (map (admin_item now s) profiles, total), s))"

record partner_stats =
  ps_total_partners :: nat
  ps_active_partners :: nat
  ps_total_referred_signups :: nat
  ps_total_active_paid_customers :: nat
  ps_monthly_referred_revenue_minor :: int
  ps_monthly_commission_minor :: int
  ps_total_commission_paid_minor :: int
  ps_pending_commission_minor :: int

definition sum_commissions :: "(partner_commission \<Rightarrow> int) \<Rightarrow> (partner_commission \<Rightarrow> bool) \<Rightarrow> db \<Rightarrow> int" where
  "sum_commissions col cond s = sum_list (map col (filter cond (db_commissions s)))"

definition get_stats :: "time \<Rightarrow> db \<Rightarrow> partner_stats" where
  "get_stats now s =
     (let now_period = period_month now;
          this_month = (\<lambda>c. pc_period c = now_period \<and> pc_status c \<noteq> CReversed)
      in \<lparr>ps_total_partners = length (db_profiles s),
          ps_active_partners = length (filter (\<lambda>p. pp_status p = PActive) (db_profiles s)),
          ps_total_referred_signups = length (db_referrals s),
          ps_total_active_paid_customers = length (filter (\<lambda>r. pr_status r = RPaid) (db_referrals s)),
          ps_monthly_referred_revenue_minor = sum_commissions pc_subscription_amount_minor this_month s,
          ps_monthly_commission_minor = sum_commissions pc_commission_amount_minor this_month s,
          ps_total_commission_paid_minor = sum_commissions pc_commission_amount_minor (\<lambda>c. pc_status c = CPaid) s,
          ps_pending_commission_minor = sum_commissions pc_commission_amount_minor
             (\<lambda>c. pc_status c \<in> {CPending, CPayable}) s\<rparr>)"

record admin_commission_item =
  aci_commission_id :: uuid
  aci_partner_id :: uuid
  aci_partner_email :: "string option"
  aci_referral_id :: "uuid option"
  aci_referred_email :: "string option"
  aci_period :: string
  aci_subscription_amount_minor :: int
  aci_commission_amount_minor :: int
  aci_currency :: string
  aci_status :: string
  aci_created_at :: time
  aci_paid_at :: "time option"

definition partner_email :: "db \<Rightarrow> uuid \<Rightarrow> string option" where
  "partner_email s p = (case profile_get_by_id s p of None \<Rightarrow> None | Some x \<Rightarrow> email_for s (pp_user_id x))"

definition admin_commission_item_of :: "db \<Rightarrow> partner_commission \<Rightarrow> admin_commission_item" where
  "admin_commission_item_of s c =
     (let ref = (case pc_referral_id c of None \<Rightarrow> None | Some r \<Rightarrow> referral_get_by_id s r)
      in \<lparr>aci_commission_id = pc_id c, aci_partner_id = pc_partner_id c,
          aci_partner_email = partner_email s (pc_partner_id c), aci_referral_id = pc_referral_id c,
          aci_referred_email = (case ref of None \<Rightarrow> None | Some r \<Rightarrow> email_for s (pr_referred_user_id r)),
          aci_period = pc_period c, aci_subscription_amount_minor = pc_subscription_amount_minor c,
          aci_commission_amount_minor = pc_commission_amount_minor c, aci_currency = pc_currency c,
          aci_status = commission_status_value (pc_status c), aci_created_at = pc_created_at c,
          aci_paid_at = pc_paid_at c\<rparr>)"

definition list_commissions ::
  "uuid option \<Rightarrow> string option \<Rightarrow> string option \<Rightarrow> nat \<Rightarrow> nat \<Rightarrow> (admin_commission_item list \<times> nat, db) service" where
  "list_commissions partner_id status period page page_size s =
     (let (rows, total) = commission_list_all s partner_id status period ((page - 1) * page_size) page_size
      in (Inr (map (admin_commission_item_of s) rows, total), s))"

definition list_payouts ::
  "string option \<Rightarrow> uuid option \<Rightarrow> string option \<Rightarrow> nat \<Rightarrow> nat \<Rightarrow>
   ((payout_item \<times> uuid \<times> string option \<times> time) list \<times> nat, db) service" where
  "list_payouts status partner_id period page page_size s =
     (let (rows, total) = payout_list_all s status partner_id period ((page - 1) * page_size) page_size
      in (Inr (map (\<lambda>p. (payout_item_of p, po_partner_id p, partner_email s (po_partner_id p), po_created_at p)) rows,
               total), s))"

record partner_detail =
  pd_profile :: partner_profile
  pd_email :: "string option"
  pd_referral_code :: string
  pd_total_earned_minor :: int
  pd_total_paid_minor :: int
  pd_pending_commission_minor :: int
  pd_payable_balance_minor :: int
  pd_referred_customers :: "(partner_referral \<times> string option \<times> string option) list"
  pd_commission_history :: "commission_item list"
  pd_payout_history :: "payout_item list"

definition get_partner_detail :: "uuid \<Rightarrow> (partner_detail, db) service" where
  "get_partner_detail partner_id s = (case profile_get_by_id s partner_id of
     None \<Rightarrow> (Inl (ResourceNotFoundException ''Partner not found''), s)
   | Some p \<Rightarrow>
       (let i = pp_id p
        in (Inr \<lparr>pd_profile = p, pd_email = email_for s (pp_user_id p),
              pd_referral_code = referral_code_for s (pp_referral_code_id p),
              pd_total_earned_minor = sum_amount_by_partner s i [] True False None,
              pd_total_paid_minor = sum_amount_by_partner s i [CPaid] True False None,
              pd_pending_commission_minor = sum_amount_by_partner s i [CPending, CPayable] True False None,
              pd_payable_balance_minor = payable_balance s i,
              pd_referred_customers = map (\<lambda>r. let email = email_for s (pr_referred_user_id r)
                in (r, email, if str_truthy email then Some (mask_email (the email)) else None))
                (fst (referral_list_by_partner s i 0 100)),
              pd_commission_history = map commission_item_of (fst (commission_list_by_partner s i 0 100)),
              pd_payout_history = map payout_item_of (fst (payout_list_by_partner s i 0 100))\<rparr>, s)))"

section \<open>Admin mutations\<close>

definition admin_reverse_commission ::
  "time \<Rightarrow> user \<Rightarrow> http_client \<Rightarrow> uuid \<Rightarrow> string \<Rightarrow> (unit, db) service" where
  "admin_reverse_commission now admin client commission_id reason =
     admin_route admin (audited now ''reverse_commission'' ''partner_commission'' admin client
       [(''commission_id'', uuid_str commission_id)] (reverse_commission now commission_id reason))"

definition admin_create_payout ::
  "partner_settings \<Rightarrow> time \<Rightarrow> uuid \<Rightarrow> user \<Rightarrow> http_client \<Rightarrow> uuid \<Rightarrow> int option \<Rightarrow> (partner_payout, db) service" where
  "admin_create_payout cfg now oid admin client partner_id amount_minor =
     admin_route admin (audited now ''create_payout'' ''partner_payout'' admin client []
       (create_payout cfg now oid partner_id amount_minor))"

definition admin_process_payout ::
  "time \<Rightarrow> user \<Rightarrow> http_client \<Rightarrow> uuid \<Rightarrow> string \<Rightarrow> string option \<Rightarrow> (partner_payout, db) service" where
  "admin_process_payout now admin client payout_id action transaction_reference =
     admin_route admin (audited now ''process_payout'' ''partner_payout'' admin client
       [(''payout_id'', uuid_str payout_id)] (process_payout now payout_id action transaction_reference))"

definition update_partner_status ::
  "time \<Rightarrow> uuid \<Rightarrow> uuid \<Rightarrow> partner_status \<Rightarrow> string option \<Rightarrow> (partner_profile, db) service" where
  "update_partner_status now admin_id partner_id status reason s =
     (case profile_get_by_id s partner_id of
        None \<Rightarrow> (Inl (ResourceNotFoundException ''Partner not found''), s)
      | Some p \<Rightarrow>
          (Inr (set_fields put_profile [PpStatus (Some status)] p),
           log_event now ''partner_status_changed'' None (Some admin_id) ''partner'' (uuid_str (pp_id p))
             (JObj [(''status'', JStr (partner_status_value status)), (''reason'', jopt JStr reason)])
             (profile_update p [PpStatus (Some status)] s)))"

definition admin_update_partner_status ::
  "time \<Rightarrow> user \<Rightarrow> http_client \<Rightarrow> uuid \<Rightarrow> partner_status \<Rightarrow> string option \<Rightarrow> (partner_profile, db) service" where
  "admin_update_partner_status now admin client partner_id status reason =
     admin_route admin (audited now ''update_partner_status'' ''partner'' admin client
       [(''partner_id'', uuid_str partner_id)] (update_partner_status now (u_id admin) partner_id status reason))"

section \<open>The release task\<close>

definition commission_hold_release :: "time \<Rightarrow> (nat, db) service" where
  "commission_hold_release now = with_session (release_payable now)"

end
