(* ===== verification/Partner_Ledger.thy ===== *)
theory Partner_Ledger
  imports Partner_Admin "HOL-Library.Sublist"
begin

text \<open>
  What the partner program promises about its tables over any sequence of its operations: the
  ledger invariant, the append-only commission ledger, exactly-once accrual, and the behaviour of
  reversals, releases and payouts.
\<close>

section \<open>Immutable parts of the rows\<close>

definition commission_core :: "partner_commission \<Rightarrow> partner_commission" where
  "commission_core c =
     c\<lparr>pc_status := CPending, pc_paid_at := None, pc_reversal_reason := None, pc_payout_id := None\<rparr>"

definition referral_core :: "partner_referral \<Rightarrow> partner_referral" where
  "referral_core r = r\<lparr>pr_status := RSignedUp, pr_subscribed_at := None\<rparr>"

definition profile_core :: "partner_profile \<Rightarrow> partner_profile" where
  "profile_core p = p\<lparr>pp_status := PActive, pp_click_count := 0\<rparr>"

lemma put_commission_core [simp]: "commission_core (set_fields put_commission kws c) = commission_core c"
proof -
  have "\<And>k c. commission_core (put_commission k c) = commission_core c"
    by (rule put_commission.induct) (auto simp: commission_core_def)
  then show ?thesis
    unfolding set_fields_def by (induction kws arbitrary: c) auto
qed

lemma put_referral_core [simp]: "referral_core (set_fields put_referral kws c) = referral_core c"
proof -
  have "\<And>k c. referral_core (put_referral k c) = referral_core c"
    by (rule put_referral.induct) (auto simp: referral_core_def)
  then show ?thesis
    unfolding set_fields_def by (induction kws arbitrary: c) auto
qed

lemma put_profile_core [simp]: "profile_core (set_fields put_profile kws c) = profile_core c"
proof -
  have "\<And>k c. profile_core (put_profile k c) = profile_core c"
    by (rule put_profile.induct) (auto simp: profile_core_def)
  then show ?thesis
    unfolding set_fields_def by (induction kws arbitrary: c) auto
qed

lemma core_fields [simp]:
  "pc_id (commission_core c) = pc_id c" "pc_partner_id (commission_core c) = pc_partner_id c"
  "pc_billing_event_id (commission_core c) = pc_billing_event_id c"
  "pc_commission_amount_minor (commission_core c) = pc_commission_amount_minor c"
  "pc_subscription_amount_minor (commission_core c) = pc_subscription_amount_minor c"
  "pc_rate (commission_core c) = pc_rate c"
  "pr_id (referral_core r) = pr_id r" "pr_partner_id (referral_core r) = pr_partner_id r"
  "pr_referred_user_id (referral_core r) = pr_referred_user_id r"
  "pp_id (profile_core p) = pp_id p" "pp_user_id (profile_core p) = pp_user_id p"
  by (simp_all add: commission_core_def referral_core_def profile_core_def)

lemma core_eqD:
  "commission_core c = commission_core d \<Longrightarrow> pc_id c = pc_id d"
  "referral_core r = referral_core t \<Longrightarrow> pr_id r = pr_id t"
  "profile_core p = profile_core q \<Longrightarrow> pp_id p = pp_id q"
  by (metis core_fields)+

section \<open>The ledger invariant\<close>

definition commission_ok :: "partner_commission \<Rightarrow> bool" where
  "commission_ok c = (0 < pc_subscription_amount_minor c \<and> 0 < pc_commission_amount_minor c \<and>
     0 \<le> pc_rate c \<and> pc_rate c \<le> 100 \<and>
     pc_commission_amount_minor c = apply_rate (pc_subscription_amount_minor c) (pc_rate c))"

definition commissions_wf :: "partner_commission list \<Rightarrow> bool" where
  "commissions_wf cs = (distinct (map pc_id cs) \<and>
     distinct (map (\<lambda>c. (pc_billing_event_id c, pc_partner_id c)) cs) \<and> list_all commission_ok cs)"

definition referrals_wf :: "partner_profile list \<Rightarrow> partner_referral list \<Rightarrow> bool" where
  "referrals_wf ps rs = (distinct (map pp_id ps) \<and> distinct (map pp_user_id ps) \<and>
     distinct (map pr_id rs) \<and> distinct (map pr_referred_user_id rs) \<and>
     list_all (\<lambda>r. pr_partner_id r \<in> set (map pp_id ps)) rs \<and>
     list_all (\<lambda>r. list_all (\<lambda>p. pp_id p = pr_partner_id r \<longrightarrow> pp_user_id p \<noteq> pr_referred_user_id r) ps) rs)"

definition ledger_wf :: "db \<Rightarrow> bool" where
  "ledger_wf s = (commissions_wf (db_commissions s) \<and> referrals_wf (db_profiles s) (db_referrals s) \<and>
     distinct (map po_id (db_payouts s)))"

definition ledger_le :: "db \<Rightarrow> db \<Rightarrow> bool" where
  "ledger_le s s' =
     (prefix (map commission_core (db_commissions s)) (map commission_core (db_commissions s')) \<and>
      prefix (map referral_core (db_referrals s)) (map referral_core (db_referrals s')) \<and>
      prefix (map profile_core (db_profiles s)) (map profile_core (db_profiles s')))"

definition ledger_ext :: "db \<Rightarrow> db \<Rightarrow> bool" where
  "ledger_ext s s' = (ledger_wf s \<longrightarrow> ledger_wf s' \<and> ledger_le s s')"

lemma ledger_ext_refl [simp, intro]: "ledger_ext s s"
  by (simp add: ledger_ext_def ledger_le_def)

lemma ledger_ext_trans: "ledger_ext s t \<Longrightarrow> ledger_ext t u \<Longrightarrow> ledger_ext s u"
  by (auto simp: ledger_ext_def ledger_le_def intro: prefix_order.trans)

lemma commissions_wf_core: "commissions_wf (map commission_core cs) = commissions_wf cs"
  by (simp add: commissions_wf_def list_all_iff commission_ok_def comp_def)

lemma referrals_wf_core: "referrals_wf (map profile_core ps) (map referral_core rs) = referrals_wf ps rs"
  by (simp add: referrals_wf_def list_all_iff comp_def image_image)

lemma same_core_wf:
  assumes "map commission_core (db_commissions s') = map commission_core (db_commissions s)"
    and "map referral_core (db_referrals s') = map referral_core (db_referrals s)"
    and "map profile_core (db_profiles s') = map profile_core (db_profiles s)"
    and "map po_id (db_payouts s') = map po_id (db_payouts s)"
  shows "ledger_ext s s'"
proof -
  have "commissions_wf (db_commissions s') = commissions_wf (db_commissions s)"
    by (metis assms(1) commissions_wf_core)
  moreover have "referrals_wf (db_profiles s') (db_referrals s') = referrals_wf (db_profiles s) (db_referrals s)"
    by (metis assms(2,3) referrals_wf_core)
  ultimately show ?thesis
    using assms by (simp add: ledger_ext_def ledger_wf_def ledger_le_def)
qed

section \<open>Steps that keep every immutable part\<close>

lemma save_row_core:
  assumes "distinct (map key t)" and "core r \<in> core ` set t" and "\<And>a b. core a = core b \<Longrightarrow> key a = key b"
  shows "map core (save_row key r t) = map core t"
proof -
  from assms(2) obtain r0 where r0: "r0 \<in> set t" "core r = core r0"
    by auto
  show ?thesis
    by (rule map_save_row_same [OF assms(1) r0(1) assms(3) [OF r0(2)] r0(2)])
qed

lemma commission_update_core:
  assumes "commission_ids s" and "commission_core c \<in> commission_core ` set (db_commissions s)"
  shows "map commission_core (db_commissions (commission_update c kws s)) = map commission_core (db_commissions s)"
  using assms unfolding commission_update_rows commission_ids_def
  by (intro save_row_core) (auto dest: core_eqD)

lemma commission_update_ids [simp]: "commission_ids (commission_update c kws s) = commission_ids s"
  by (simp add: commission_ids_def commission_update_rows)

lemma commission_fold_core:
  assumes "commission_ids s" and "commission_core ` set cs \<subseteq> commission_core ` set (db_commissions s)"
  shows "map commission_core (db_commissions (fold (\<lambda>c. commission_update c kws) cs s)) =
    map commission_core (db_commissions s)"
  using assms
proof (induction cs arbitrary: s)
  case (Cons c cs)
  have step: "map commission_core (db_commissions (commission_update c kws s)) = map commission_core (db_commissions s)"
    using Cons.prems by (intro commission_update_core) auto
  then have "commission_core ` set (db_commissions (commission_update c kws s)) = commission_core ` set (db_commissions s)"
    by (metis list.set_map)
  then show ?case
    using Cons step by simp
qed simp

lemma reserve_loop_tables [simp]:
  "db_profiles (reserve_loop i n cs s) = db_profiles s"
  "db_referrals (reserve_loop i n cs s) = db_referrals s"
  "db_payouts (reserve_loop i n cs s) = db_payouts s"
  "db_users (reserve_loop i n cs s) = db_users s"
  "db_audit (reserve_loop i n cs s) = db_audit s"
  by (induction i n cs s rule: reserve_loop.induct) (simp_all add: Let_def)

lemma reserve_loop_core:
  assumes "commission_ids s" and "commission_core ` set cs \<subseteq> commission_core ` set (db_commissions s)"
  shows "map commission_core (db_commissions (reserve_loop i n cs s)) = map commission_core (db_commissions s)"
  using assms
proof (induction i n cs s rule: reserve_loop.induct)
  case (2 i n c cs s)
  have step: "map commission_core (db_commissions (commission_update c kws s)) = map commission_core (db_commissions s)" for kws
    using "2.prems" by (intro commission_update_core) auto
  then have "commission_core ` set (db_commissions (commission_update c kws s)) = commission_core ` set (db_commissions s)" for kws
    by (metis list.set_map)
  then show ?case
    using 2 step by (simp add: Let_def)
qed simp

lemma ledger_wf_ids: "ledger_wf s \<Longrightarrow> commission_ids s"
  by (simp add: ledger_wf_def commissions_wf_def commission_ids_def)

lemma commission_update_ext:
  "c \<in> set (db_commissions s) \<Longrightarrow> ledger_ext s (commission_update c kws s)"
  unfolding ledger_ext_def
  by (intro impI same_core_wf [unfolded ledger_ext_def, rule_format])
    (auto intro!: commission_update_core ledger_wf_ids)

lemma commission_fold_ext:
  "set cs \<subseteq> set (db_commissions s) \<Longrightarrow> ledger_ext s (fold (\<lambda>c. commission_update c kws) cs s)"
  unfolding ledger_ext_def
  by (intro impI same_core_wf [unfolded ledger_ext_def, rule_format])
    (auto intro!: commission_fold_core ledger_wf_ids)

lemma reserve_loop_ext: "set cs \<subseteq> set (db_commissions s) \<Longrightarrow> ledger_ext s (reserve_loop i n cs s)"
  unfolding ledger_ext_def
  by (intro impI same_core_wf [unfolded ledger_ext_def, rule_format])
    (auto intro!: reserve_loop_core ledger_wf_ids)

lemma log_event_ext [simp, intro]: "ledger_ext s (log_event t e oi u rt ri p s)"
  by (rule same_core_wf) simp_all

lemma referral_update_ext:
  "r \<in> set (db_referrals s) \<Longrightarrow> ledger_ext s (referral_update r kws s)"
  unfolding ledger_ext_def
  by (intro impI same_core_wf [unfolded ledger_ext_def, rule_format])
    (auto simp: referral_update_def save_referral_def ledger_wf_def referrals_wf_def
      intro!: save_row_core dest: core_eqD)

lemma profile_update_ext:
  "p \<in> set (db_profiles s) \<Longrightarrow> ledger_ext s (profile_update p kws s)"
  unfolding ledger_ext_def
  by (intro impI same_core_wf [unfolded ledger_ext_def, rule_format])
    (auto simp: profile_update_def save_profile_def ledger_wf_def referrals_wf_def
      intro!: save_row_core dest: core_eqD)

lemma payout_update_ext [simp, intro]: "ledger_ext s (snd (payout_update p kws s))"
  by (rule same_core_wf) (simp_all add: payout_update_def Let_def save_payout_def)

section \<open>Steps that add rows\<close>

lemma commission_create_ext:
  assumes "commission_create cid now pid rid ev period sub amount cur rate pay s = (res, s')"
    and "0 < sub" "0 < amount" "amount = apply_rate sub rate" "0 \<le> rate" "rate \<le> 100"
  shows "ledger_ext s s'"
  using assms
  by (auto simp: commission_create_def Let_def add_commission_def ledger_ext_def ledger_wf_def
      commissions_wf_def ledger_le_def commission_ok_def split: if_splits)

lemma referral_create_ext:
  assumes "referral_create rid now pid u oid st s = (res, s')"
    and "p \<in> set (db_profiles s)" and "pp_id p = pid" and "pp_user_id p \<noteq> u"
  shows "ledger_ext s s'"
proof (cases res)
  case (Inl e)
  then show ?thesis
    using assms(1) by (auto simp: referral_create_def Let_def split: if_splits)
next
  case (Inr r)
  then have r: "s' = add_referral r s" "pr_id r = rid" "pr_partner_id r = pid" "pr_referred_user_id r = u"
    "\<forall>x \<in> set (db_referrals s). pr_id x \<noteq> rid \<and> pr_referred_user_id x \<noteq> u"
    using assms(1) by (auto simp: referral_create_def Let_def split: if_splits)
  {
    assume wf: "ledger_wf s"
    have "list_all (\<lambda>q. pp_id q = pid \<longrightarrow> pp_user_id q \<noteq> u) (db_profiles s)"
      using wf assms(2-4) by (auto simp: list_all_iff ledger_wf_def referrals_wf_def dest: distinct_map_inj)
    then have "ledger_wf s'"
      using wf r assms(2,3) by (force simp: ledger_wf_def referrals_wf_def add_referral_def)
    moreover have "ledger_le s s'"
      using r by (simp add: ledger_le_def add_referral_def)
    ultimately have "ledger_wf s' \<and> ledger_le s s'" ..
  }
  then show ?thesis
    by (simp add: ledger_ext_def)
qed

lemma profile_create_ext:
  assumes "profile_create pid now u code s = (res, s')"
  shows "ledger_ext s s'"
proof (cases res)
  case (Inl e)
  then show ?thesis
    using assms by (auto simp: profile_create_def Let_def split: if_splits)
next
  case (Inr p)
  then have p: "s' = add_profile p s" "pp_id p \<notin> pp_id ` set (db_profiles s)"
      "pp_user_id p \<notin> pp_user_id ` set (db_profiles s)"
    using assms by (auto simp: profile_create_def Let_def split: if_splits)
  {
    assume wf: "ledger_wf s"
    then have "\<forall>r \<in> set (db_referrals s). pr_partner_id r \<noteq> pp_id p"
      using p(2) unfolding ledger_wf_def referrals_wf_def list_all_iff set_map by metis
    then have "ledger_wf s'"
      using wf p by (auto simp: ledger_wf_def referrals_wf_def add_profile_def list_all_iff)
    moreover have "ledger_le s s'"
      using p by (simp add: ledger_le_def add_profile_def)
    ultimately have "ledger_wf s' \<and> ledger_le s s'" ..
  }
  then show ?thesis
    by (simp add: ledger_ext_def)
qed

lemma payout_create_ext:
  assumes "payout_create oid now p a c period s = (res, s')"
  shows "ledger_ext s s'"
  using assms
  by (auto simp: payout_create_def Let_def add_payout_def ledger_ext_def ledger_wf_def ledger_le_def
      split: if_splits)

lemma code_create_ext: "code_create cid now u code s = (res, s') \<Longrightarrow> ledger_ext s s'"
  by (auto simp: code_create_def Let_def ledger_ext_def ledger_wf_def ledger_le_def split: if_splits)

lemma create_unique_code_ext: "create_unique_code n cid now u nm fr s = (res, s') \<Longrightarrow> ledger_ext s s'"
  by (induction n) (auto simp: Let_def split: if_splits dest: code_create_ext)

section \<open>The operations\<close>

lemma promoted_ext: "r \<in> set (db_referrals s) \<Longrightarrow> ledger_ext s (promoted r t s)"
  by (simp add: promoted_def referral_update_ext)

lemma record_payment_ext:
  assumes "settings_valid cfg"
  shows "ledger_ext s (snd (record_payment cfg now cid org amt cur ref paid prov s))"
proof -
  obtain out s' where r: "record_payment cfg now cid org amt cur ref paid prov s = (out, s')"
    by fastforce
  from r have "ledger_ext s s'"
  proof (cases rule: record_payment_cases)
    case (accrue referral partner event_at res s2)
    have "ledger_ext (promoted referral event_at s) s2"
      using commission_create_ext [OF accrue(4)] payment_target_rows(3) [OF accrue(1)] accrue(2) assms
      by (simp add: settings_valid_def)
    with payment_target_rows(1) [OF accrue(1)] have "ledger_ext s s2"
      by (blast intro: ledger_ext_trans promoted_ext)
    with accrue(5) show ?thesis
      by (blast intro: ledger_ext_trans log_event_ext)
  qed simp
  with r show ?thesis
    by simp
qed

lemma reverse_by_reference_ext: "ledger_ext s (snd (reverse_by_reference ref reason s))"
  by (auto simp: reverse_by_reference_def Let_def intro!: commission_fold_ext)

lemma reverse_commission_ext: "ledger_ext s (snd (reverse_commission now cid reason s))"
  by (auto simp: reverse_commission_def split: option.splits dest!: commission_repo.get_hit
      intro!: ledger_ext_trans [OF commission_update_ext log_event_ext])

lemma handle_churn_ext: "ledger_ext s (snd (handle_churn org s))"
  by (auto simp: handle_churn_def referral_get_by_referred_user_def split: option.splits
      dest!: get_row_Some intro!: referral_update_ext)

lemma release_payable_ext: "ledger_ext s (snd (release_payable now s))"
  by (auto simp: release_payable_def Let_def pending_past_hold_def intro!: commission_fold_ext)

lemma payable_rows: "set (payable_by_partner s p) \<subseteq> set (db_commissions s)"
  by (auto simp: payable_by_partner_def)

lemma payout_create_rows: "payout_create oid now p a c period s = (res, s') \<Longrightarrow> db_commissions s' = db_commissions s"
  by (auto simp: payout_create_def Let_def add_payout_def split: if_splits)

lemma create_payout_ext: "ledger_ext s (snd (create_payout cfg now oid pid amt s))"
proof -
  have "ledger_ext s (log_event now ev oi u rt ri p (reserve_loop i n (payable_by_partner s pid) s1))"
    if "payout_create oid now pid a c period s = (res, s1)" for a c period res s1 ev oi u rt ri p i n
    by (rule ledger_ext_trans [OF payout_create_ext [OF that]],
        rule ledger_ext_trans [OF reserve_loop_ext log_event_ext])
      (use payable_rows payout_create_rows [OF that] in auto)
  then show ?thesis
    by (auto simp: create_payout_def Let_def split: option.splits sum.splits prod.splits
        intro: payout_create_ext)
qed

lemma payout_update_rows [simp]: "db_commissions (snd (payout_update p kws s)) = db_commissions s"
  by (simp add: payout_update_def Let_def save_payout_def)

lemma process_payout_ext: "ledger_ext s (snd (process_payout now i action ref s))"
proof -
  have "ledger_ext s (log_event now ev oi u rt ri p
      (fold (\<lambda>c. commission_update c kws) (commissions_for_payout s1 j) s1))"
    if "payout_update po fs s = (po', s1)" for ev oi u rt ri p kws j po fs po' s1
  proof -
    have "ledger_ext s s1"
      using payout_update_ext [of s po fs] that by simp
    then show ?thesis
      by (intro ledger_ext_trans [OF _ ledger_ext_trans [OF commission_fold_ext log_event_ext]])
        (auto simp: commissions_for_payout_def)
  qed
  then show ?thesis
    by (auto simp: process_payout_def split: option.splits prod.splits)
qed

lemma bind_referral_ext: "ledger_ext s (snd (bind_referral now rid code u oid s))"
  by (auto simp: bind_referral_def profile_get_by_user_id_def split: option.splits sum.splits prod.splits
      dest!: get_row_Some intro: referral_create_ext ledger_ext_trans [OF referral_create_ext log_event_ext])

lemma activate_partner_ext: "ledger_ext s (snd (activate_partner cfg now pid cid fr u agree s))"
  by (auto simp: activate_partner_def Let_def split: option.splits sum.splits prod.splits
      intro: create_unique_code_ext profile_create_ext
        ledger_ext_trans [OF create_unique_code_ext profile_create_ext]
        ledger_ext_trans [OF profile_create_ext log_event_ext]
        ledger_ext_trans [OF create_unique_code_ext ledger_ext_trans [OF profile_create_ext log_event_ext]])

lemma resolve_referral_ext: "ledger_ext s (snd (resolve_referral code dest s))"
  by (auto simp: resolve_referral_def Let_def split: option.splits dest!: get_row_Some
      intro!: profile_update_ext)

lemma update_partner_status_ext: "ledger_ext s (snd (update_partner_status now aid pid st reason s))"
  by (auto simp: update_partner_status_def split: option.splits dest!: profile_repo.get_hit
      intro!: ledger_ext_trans [OF profile_update_ext log_event_ext])

end
