(* ===== verification/Partner_Steps.thy ===== *)
theory Partner_Steps
  imports Partner_Ledger
begin

text \<open>
  The partner program as a transition system over the session state: its operations, in any order
  and with any arguments, interleaved with arbitrary changes to the tables of the other modules.
  The section after it follows single rows through those steps, and the last one characterises the
  reservation loop of payouts.
\<close>

section \<open>Steps\<close>

inductive partner_step :: "db \<Rightarrow> db \<Rightarrow> bool" where
  pay: "settings_valid cfg \<Longrightarrow> partner_step s (snd (record_payment cfg now cid org amt cur ref paid prov s))"
| refund: "partner_step s (snd (reverse_by_reference ref reason s))"
| reverse: "partner_step s (snd (reverse_commission now i reason s))"
| churn: "partner_step s (snd (handle_churn org s))"
| release: "partner_step s (snd (release_payable now s))"
| payout: "partner_step s (snd (create_payout cfg now oid pid amt_opt s))"
| process: "partner_step s (snd (process_payout now i action tx s))"
| bind: "partner_step s (snd (bind_referral now rid code u oid_opt s))"
| activate: "partner_step s (snd (activate_partner cfg now pid cid fr usr agree s))"
| click: "partner_step s (snd (resolve_referral code dest s))"
| status: "partner_step s (snd (update_partner_status now aid pid st reason_opt s))"
| elsewhere: "partner_step s (s\<lparr>db_users := us, db_organizations := os, db_members := ms, db_clients := cls,
    db_applications := aps, db_subscriptions := subs, db_audit := al, db_admin_audit := aal\<rparr>)"

lemma partner_step_ext: "partner_step s s' \<Longrightarrow> ledger_ext s s'"
  by (induction rule: partner_step.induct)
    (simp_all add: record_payment_ext reverse_by_reference_ext reverse_commission_ext handle_churn_ext
      release_payable_ext create_payout_ext process_payout_ext bind_referral_ext activate_partner_ext
      resolve_referral_ext update_partner_status_ext same_core_wf)

lemma partner_steps_ext: "partner_step\<^sup>*\<^sup>* s s' \<Longrightarrow> ledger_ext s s'"
  by (induction rule: rtranclp_induct) (auto intro: ledger_ext_trans partner_step_ext)

section \<open>Following rows\<close>

lemma prefix_map_in: "prefix (map f xs) (map f ys) \<Longrightarrow> x \<in> set xs \<Longrightarrow> \<exists>y \<in> set ys. f y = f x"
  by (metis (no_types, lifting) image_eqI imageE list.set_map set_mono_prefix subsetD)

lemma commission_persists:
  assumes "ledger_le s s'" and "c \<in> set (db_commissions s)"
  shows "commission_get_by_billing_event s' (pc_billing_event_id c) (pc_partner_id c) \<noteq> None"
proof -
  have "prefix (map commission_core (db_commissions s)) (map commission_core (db_commissions s'))"
    using assms(1) by (simp add: ledger_le_def)
  from prefix_map_in [OF this assms(2)] obtain d
    where "d \<in> set (db_commissions s')" "commission_core d = commission_core c"
    by blast
  moreover from this(2) have "pc_billing_event_id d = pc_billing_event_id c" "pc_partner_id d = pc_partner_id c"
    by (metis core_fields)+
  ultimately show ?thesis
    by (auto simp: commission_get_by_billing_event_def find_None_iff)
qed

lemma referral_persists:
  assumes "ledger_le s s'" and "ledger_wf s'" and "referral_get_by_referred_user s u = Some r"
    and "referral_get_by_referred_user s' u = Some r'"
  shows "pr_partner_id r' = pr_partner_id r \<and> pr_id r' = pr_id r"
proof -
  have r: "r \<in> set (db_referrals s)" "pr_referred_user_id r = u"
    using get_row_Some [OF assms(3) [unfolded referral_get_by_referred_user_def]] by auto
  have r': "r' \<in> set (db_referrals s')" "pr_referred_user_id r' = u"
    using get_row_Some [OF assms(4) [unfolded referral_get_by_referred_user_def]] by auto
  have "prefix (map referral_core (db_referrals s)) (map referral_core (db_referrals s'))"
    using assms(1) by (simp add: ledger_le_def)
  from prefix_map_in [OF this r(1)] obtain t
    where t: "t \<in> set (db_referrals s')" "referral_core t = referral_core r"
    by blast
  then have f: "pr_referred_user_id t = u" "pr_partner_id t = pr_partner_id r" "pr_id t = pr_id r"
    using r(2) by (metis core_fields)+
  then have "t = r'"
    using assms(2) t(1) r'
    by (auto simp: ledger_wf_def referrals_wf_def dest: distinct_map_inj)
  with f show ?thesis
    by simp
qed

text \<open>No step brings a churned referral back.\<close>

definition churned_stays :: "db \<Rightarrow> db \<Rightarrow> bool" where
  "churned_stays s s' =
     (\<forall>r \<in> set (db_referrals s). pr_status r = RChurned \<longrightarrow> r \<in> set (db_referrals s'))"

lemma churned_same: "db_referrals s' = db_referrals s \<Longrightarrow> churned_stays s s'"
  by (simp add: churned_stays_def)

lemma churned_update:
  assumes "ledger_wf s" and "r0 \<in> set (db_referrals s)" and "pr_status r0 \<noteq> RChurned"
  shows "churned_stays s (referral_update r0 kws s)"
proof -
  have id: "pr_id (set_fields put_referral kws r0) = pr_id r0"
    by (metis core_fields(7) put_referral_core)
  have "pr_id r \<noteq> pr_id r0" if "r \<in> set (db_referrals s)" "pr_status r = RChurned" for r
    using that assms by (auto simp: ledger_wf_def referrals_wf_def dest: distinct_map_inj)
  then show ?thesis
    by (force simp: churned_stays_def referral_update_def save_referral_def save_row_def id)
qed

lemma churned_trans: "churned_stays s t \<Longrightarrow> churned_stays t u \<Longrightarrow> churned_stays s u"
  by (auto simp: churned_stays_def)

lemma record_payment_churned:
  assumes "ledger_wf s"
  shows "churned_stays s (snd (record_payment cfg now cid org amt cur ref paid prov s))"
proof -
  obtain out s' where r: "record_payment cfg now cid org amt cur ref paid prov s = (out, s')"
    by fastforce
  from r have "churned_stays s s'"
  proof (cases rule: record_payment_cases)
    case (accrue referral partner event_at res s2)
    have "churned_stays s (promoted referral event_at s)"
      using churned_update [OF assms payment_target_rows(1) [OF accrue(1)]]
      by (simp add: promoted_def churned_same)
    moreover have "db_referrals s' = db_referrals (promoted referral event_at s)"
      using commission_create_effect [OF accrue(4)] accrue(5) by auto
    ultimately show ?thesis
      by (simp add: churned_stays_def)
  qed (simp add: churned_same)
  with r show ?thesis
    by simp
qed

lemma create_unique_code_referrals:
  "create_unique_code n cid now u nm fr s = (res, s') \<Longrightarrow> db_referrals s' = db_referrals s"
  by (induction n) (auto simp: Let_def code_create_def split: if_splits)

lemma churned_step:
  assumes "partner_step s s'" and wf: "ledger_wf s"
  shows "churned_stays s s'"
  using assms(1)
proof (cases rule: partner_step.cases)
  case pay
  then show ?thesis
    using wf by (simp add: record_payment_churned)
next
  case (churn org)
  then show ?thesis
    using wf by (auto simp: handle_churn_def churned_same referral_get_by_referred_user_def
        split: option.splits dest!: get_row_Some intro: churned_update)
next
  case bind
  then show ?thesis
    by (auto simp: churned_stays_def bind_referral_def referral_create_def Let_def add_referral_def
        split: option.splits)
next
  case activate
  then show ?thesis
    by (auto simp: churned_stays_def activate_partner_def profile_create_def Let_def add_profile_def
        split: option.splits sum.splits prod.splits dest!: create_unique_code_referrals)
next
  case payout
  then show ?thesis
    by (auto simp: churned_stays_def create_payout_def payout_create_def Let_def add_payout_def
        split: option.splits)
next
  case process
  then show ?thesis
    by (auto simp: churned_stays_def process_payout_def payout_update_def Let_def save_payout_def
        split: option.splits)
qed (auto simp: churned_stays_def reverse_by_reference_def reverse_commission_def release_payable_def
    resolve_referral_def profile_update_def save_profile_def update_partner_status_def Let_def
    split: option.splits)

lemma churned_steps:
  assumes "partner_step\<^sup>*\<^sup>* s s'" and "ledger_wf s"
  shows "churned_stays s s'"
  using assms(1)
proof (induction rule: rtranclp_induct)
  case (step t u)
  have "ledger_wf t"
    using partner_steps_ext [OF step.hyps(1)] assms(2) by (simp add: ledger_ext_def)
  then show ?case
    using churned_step [OF step.hyps(2)] step.IH by (blast intro: churned_trans)
qed (simp add: churned_stays_def)

end
