(* ===== verification/Partner_Payouts.thy ===== *)
theory Partner_Payouts
  imports Partner_Steps "HOL-Library.Multiset"
begin

text \<open>
  The reservation loop of \<^verbatim>\<open>PartnerPayoutService.create_payout\<close> and what the payout operations do
  to the commission table.
\<close>

section \<open>The reserved prefix\<close>

fun reserved :: "int \<Rightarrow> partner_commission list \<Rightarrow> partner_commission list" where
  "reserved n [] = []"
| "reserved n (c # cs) =
     (if n \<le> 0 then [] else c # reserved (n - min (pc_commission_amount_minor c) n) cs)"

definition amounts :: "partner_commission list \<Rightarrow> int" where
  "amounts cs = sum_list (map pc_commission_amount_minor cs)"

lemma amounts_simps [simp]:
  "amounts [] = 0" "amounts (c # cs) = pc_commission_amount_minor c + amounts cs" "amounts (cs @ ds) = amounts cs + amounts ds"
  by (simp_all add: amounts_def)

lemma reserve_loop_fold:
  "reserve_loop i n cs s = fold (\<lambda>c. commission_update c [PcPayoutId (Some i)]) (reserved n cs) s"
  by (induction i n cs s rule: reserve_loop.induct) (simp_all add: Let_def)

lemma reserved_prefix: "prefix (reserved n cs) cs"
  by (induction n cs rule: reserved.induct) auto

lemma amounts_nonneg: "list_all (\<lambda>c. 0 < pc_commission_amount_minor c) cs \<Longrightarrow> 0 \<le> amounts cs"
  by (induction cs) auto

lemma reserved_nothing [simp]: "n \<le> 0 \<Longrightarrow> reserved n cs = []"
  by (cases cs) auto

lemma reserved_covers:
  assumes "n \<le> amounts cs" and "list_all (\<lambda>c. 0 < pc_commission_amount_minor c) cs"
  shows "n \<le> amounts (reserved n cs)"
  using assms
proof (induction n cs rule: reserved.induct)
  case (2 n c cs)
  then show ?case
    using amounts_nonneg [of cs] by (cases "n \<le> pc_commission_amount_minor c") auto
qed simp

lemma reserved_minimal:
  assumes "0 < n" and "list_all (\<lambda>c. 0 < pc_commission_amount_minor c) cs"
  shows "amounts (butlast (reserved n cs)) < n"
  using assms
proof (induction n cs rule: reserved.induct)
  case (2 n c cs)
  show ?case
  proof (cases "reserved (n - min (pc_commission_amount_minor c) n) cs = []")
    case False
    then have "0 < n - min (pc_commission_amount_minor c) n"
      by (cases cs) (auto split: if_splits)
    with 2 False show ?thesis
      by (auto simp: min_def split: if_splits)
  qed (use 2 in simp)
qed simp

lemma payable_balance_amounts: "payable_balance s p = amounts (payable_by_partner s p)"
proof -
  have "fold (\<lambda>c t. t + pc_commission_amount_minor c) cs a = a + amounts cs" for cs a
    by (induction cs arbitrary: a) simp_all
  then show ?thesis
    by (simp add: payable_balance_def)
qed

lemma amounts_sum_mset: "amounts cs = sum_mset (image_mset pc_commission_amount_minor (mset cs))"
  by (induction cs) auto

lemma amounts_sort [simp]: "amounts (sort_key f cs) = amounts cs"
  by (simp add: amounts_sum_mset)

lemma payable_amounts: "payable_balance s p = amounts (filter (is_payable p) (db_commissions s))"
  by (simp add: payable_balance_amounts payable_by_partner_def)

lemma amounts_split: "amounts cs = amounts (filter P cs) + amounts (filter (\<lambda>c. \<not> P c) cs)"
  by (induction cs) auto

lemma payable_positive:
  assumes "ledger_wf s"
  shows "list_all (\<lambda>c. 0 < pc_commission_amount_minor c) (payable_by_partner s p)"
  using assms payable_rows [of s p]
  by (auto simp: ledger_wf_def commissions_wf_def list_all_iff commission_ok_def)

lemma amounts_mset: "mset cs = mset ds \<Longrightarrow> amounts cs = amounts ds"
  by (simp add: amounts_sum_mset)

section \<open>Reserving rows of the table\<close>

lemma commission_loop_rows:
  assumes "commission_ids s" and "distinct cs" and "set cs \<subseteq> set (db_commissions s)"
  shows "db_commissions (fold (\<lambda>c. commission_update c kws) cs s) =
    map (\<lambda>c. if c \<in> set cs then set_fields put_commission kws c else c) (db_commissions s)"
proof -
  have "inj_on pc_id (set cs)"
    using assms(1,3) by (auto simp: commission_ids_def distinct_map inj_on_def)
  then have "distinct (map pc_id cs)"
    using assms(2) by (simp add: distinct_map)
  then show ?thesis
    using commission_repo.save_loop_rows [of s cs "set_fields put_commission kws"] assms(1,3)
    by (simp add: commission_ids_def commission_update_def [abs_def])
qed

lemma reserve_rows:
  assumes "ledger_wf s" and "prefix rs (payable_by_partner s p)"
  shows "db_commissions (fold (\<lambda>c. commission_update c [PcPayoutId (Some i)]) rs s) =
    map (\<lambda>c. if c \<in> set rs then c\<lparr>pc_payout_id := Some i\<rparr> else c) (db_commissions s)"
proof -
  have "distinct (db_commissions s)"
    using assms(1) by (auto simp: ledger_wf_def commissions_wf_def distinct_map)
  then have "distinct (payable_by_partner s p)"
    by (simp add: payable_by_partner_def)
  then have "distinct rs"
    using assms(2) by (auto simp: prefix_def)
  moreover have "set rs \<subseteq> set (db_commissions s)"
    using set_mono_prefix [OF assms(2)] payable_rows by blast
  ultimately show ?thesis
    by (subst commission_loop_rows) (simp_all add: ledger_wf_ids assms(1) set_fields_def cong: map_cong)
qed

lemma payable_after_reserve:
  assumes "distinct cs" and "\<forall>c \<in> set rs. is_payable p c" and "set rs \<subseteq> set cs" and "distinct rs"
  shows "amounts (filter (is_payable p) (map (\<lambda>c. if c \<in> set rs then c\<lparr>pc_payout_id := Some i\<rparr> else c) cs)) =
    amounts (filter (is_payable p) cs) - amounts rs"
proof -
  have kept: "filter (is_payable p) (map (\<lambda>c. if c \<in> set rs then c\<lparr>pc_payout_id := Some i\<rparr> else c) cs) =
      filter (\<lambda>c. c \<notin> set rs) (filter (is_payable p) cs)"
    by (induction cs) (auto simp: is_payable_def)
  have "mset (filter (\<lambda>c. c \<in> set rs) (filter (is_payable p) cs)) = mset rs"
    using assms by (intro set_eq_iff_mset_eq_distinct [THEN iffD1]) auto
  then have taken: "amounts (filter (\<lambda>c. c \<in> set rs) (filter (is_payable p) cs)) = amounts rs"
    by (rule amounts_mset)
  show ?thesis
    unfolding kept using taken amounts_split [of "filter (is_payable p) cs" "\<lambda>c. c \<in> set rs"] by linarith
qed

end
