(* ===== verification/Partner_Properties.thy ===== *)
theory Partner_Properties
  imports Partner_Payouts
begin

text \<open>
  The properties of the partner program, each applied to a small concrete program state.
\<close>

section \<open>A concrete program state\<close>

text \<open>
  User 1 is an active partner with code \<^verbatim>\<open>ALEX-7X2K\<close>; user 2, owner of organization 10, signed up
  through it.
\<close>

definition demo_code :: referral_code where
  "demo_code = \<lparr>rc_id = 100, rc_user_id = 1, rc_code = ''ALEX-7X2K'', rc_is_active = True, rc_created_at = 0\<rparr>"

definition demo_profile :: partner_profile where
  "demo_profile = \<lparr>pp_id = 200, pp_user_id = 1, pp_referral_code_id = Some 100, pp_status = PActive,
     pp_click_count = 0, pp_created_at = 0\<rparr>"

definition demo_referral :: partner_referral where
  "demo_referral = \<lparr>pr_id = 300, pr_partner_id = 200, pr_referred_user_id = 2,
     pr_referred_org_id = Some 10, pr_status = RSignedUp, pr_subscribed_at = None, pr_created_at = 0\<rparr>"

definition demo_owner :: organization_member where
  "demo_owner = \<lparr>m_id = 20, m_org_id = 10, m_user_id = 2, m_role = ''owner'', m_joined_at = 0,
     m_is_deleted = False, m_deleted_at = None\<rparr>"

definition demo_user_row :: "bool \<Rightarrow> user" where
  "demo_user_row admin = \<lparr>u_id = 9, u_email = ''root@x'', u_password_hash = ''h'', u_full_name = ''R'',
     u_is_active = True, u_is_email_verified = True, u_is_superuser = False, u_google_id = None,
     u_github_id = None, u_avatar_url = None, u_auth_provider = None, u_external_auth_id = None,
     u_is_system_admin = admin, u_admin_note = None, u_source = None, u_last_login_at = None,
     u_last_activity_at = None, u_login_count = 0, u_created_at = 0\<rparr>"

definition demo_db :: db where
  "demo_db = empty_db\<lparr>db_members := [demo_owner], db_referral_codes := [demo_code],
     db_profiles := [demo_profile], db_referrals := [demo_referral]\<rparr>"

definition demo_commission :: "uuid \<Rightarrow> string \<Rightarrow> commission_status \<Rightarrow> uuid option \<Rightarrow> partner_commission" where
  "demo_commission i ev st po = \<lparr>pc_id = i, pc_partner_id = 200, pc_referral_id = Some 300,
     pc_billing_event_id = ev, pc_period = ''2024-01'', pc_subscription_amount_minor = 4900,
     pc_commission_amount_minor = 1470, pc_currency = ''USD'', pc_rate = 30, pc_status = st,
     pc_payable_at = Some 0, pc_paid_at = None, pc_reversal_reason = None, pc_payout_id = po,
     pc_created_at = 0\<rparr>"

definition demo_payout :: partner_payout where
  "demo_payout = \<lparr>po_id = 500, po_partner_id = 200, po_amount_minor = 1470, po_currency = ''USD'',
     po_status = PoPending, po_period = Some ''2024-01'', po_transaction_reference = None,
     po_paid_at = None, po_created_at = 0\<rparr>"

lemmas demo_defs = demo_db_def demo_code_def demo_profile_def demo_referral_def demo_owner_def
  demo_commission_def demo_payout_def empty_db_def

lemma demo_wf: "ledger_wf demo_db"
  by (simp add: demo_defs ledger_wf_def commissions_wf_def referrals_wf_def)

lemma demo_commissions_wf:
  "ledger_wf (demo_db\<lparr>db_commissions := [demo_commission 400 ''r1'' st po], db_payouts := ps\<rparr>) \<longleftrightarrow>
     distinct (map po_id ps)"
  by (simp add: demo_defs ledger_wf_def commissions_wf_def referrals_wf_def commission_ok_def apply_rate_def)

lemma demo_owner_lookup: "org_owner (demo_db\<lparr>db_commissions := cs, db_payouts := ps\<rparr>) 10 = Some 2"
  by (simp add: org_owner_def first_owner_def list_members_def org_members_def demo_defs)

definition demo_paid :: db where
  "demo_paid = snd (record_payment default_settings 0 400 10 4900 ''usd'' ''r1'' None ''paystack'' demo_db)"

lemma demo_target: "payment_target demo_db 10 4900 ''r1'' = Some (demo_referral, demo_profile)"
  using demo_owner_lookup [of "[]" "[]"]
  by (simp add: payment_target_def referral_get_by_referred_user_def get_row_def profile_get_by_id_def
      EARNING_STATUSES_def commission_get_by_billing_event_def demo_defs)

lemma demo_paid_rows: "map pc_commission_amount_minor (db_commissions demo_paid) = [1470]"
  by (simp add: demo_paid_def record_payment_def demo_target default_settings_def apply_rate_def Let_def
      commission_create_def add_commission_def demo_referral_def referral_update_def save_referral_def)
    (simp add: demo_defs)

lemma demo_settings: "settings_valid default_settings"
  by (simp add: settings_valid_def default_settings_def)

lemma demo_paid_step: "partner_step demo_db demo_paid"
  unfolding demo_paid_def by (rule pay) (rule demo_settings)

section \<open>The ledger\<close>

text \<open>
  C1: The commission ledger is append-only.  From well-formed tables, whatever sequence of partner
  operations runs (payments, refunds, reversals, churn, releases, payouts, sign-ups, clicks, status
  changes, interleaved with arbitrary changes to the other modules' tables), the tables stay
  well-formed and every row that existed keeps its identity, amounts, rate, period, currency and
  provenance, in place: only the status, the payment date, the reversal reason and the payout of a
  commission ever change.
\<close>
theorem ledger_append_only:
  assumes "partner_step\<^sup>*\<^sup>* s s'" and "ledger_wf s"
  shows "ledger_wf s' \<and>
    prefix (map commission_core (db_commissions s)) (map commission_core (db_commissions s'))"
  using partner_steps_ext [OF assms(1)] assms(2) by (simp add: ledger_ext_def ledger_le_def)

theorem ledger_append_only_witness:
  "ledger_wf demo_paid \<and> map pc_commission_amount_minor (db_commissions demo_paid) = [1470]"
  using ledger_append_only [OF r_into_rtranclp, OF demo_paid_step demo_wf] demo_paid_rows by simp

text \<open>
  C2: A payment never pays a partner twice.  Once a payment of an organization has created a commission, every
  later delivery of the same payment reference for that organization is a no-op as long as the
  organization's owner is the same again, whatever partner operations ran in between and whatever amount,
  currency, date, clock or settings the later delivery carries.  (The owner is the key of the attribution:
  after a change to an owner whom another partner referred, a redelivery earns that partner a
  commission of its own.)
\<close>
theorem payment_at_most_once:
  assumes "ledger_wf s" and "settings_valid cfg"
    and "s1 = snd (record_payment cfg now cid org amt cur ref paid prov s)"
    and "db_commissions s1 \<noteq> db_commissions s"
    and "partner_step\<^sup>*\<^sup>* s1 s2" and "org_owner s2 org = org_owner s org"
  shows "record_payment cfg' now' cid' org amt' cur' ref paid' prov' s2 = (Inr (), s2)"
proof -
  obtain out where r: "record_payment cfg now cid org amt cur ref paid prov s = (out, s1)"
    using assms(3) by (metis prod.collapse)
  have ext: "ledger_ext s s1"
    using record_payment_ext [OF assms(2)] assms(3) by simp
  have wf1: "ledger_wf s1" and wf2: "ledger_wf s2" and le: "ledger_le s1 s2" "ledger_le s s2"
    using ext ledger_ext_trans [OF ext partner_steps_ext [OF assms(5)]] partner_steps_ext [OF assms(5)] assms(1)
    by (auto simp: ledger_ext_def)
  from r show ?thesis
  proof (cases rule: record_payment_cases)
    case (accrue referral partner event_at res s')
    have "db_commissions s1 = db_commissions s'"
      using accrue(5) by auto
    then obtain c where c: "c \<in> set (db_commissions s1)" "pc_billing_event_id c = ref" "pc_partner_id c = pp_id partner"
      using commission_create_effect [OF accrue(4)] assms(4) by (auto split: sum.splits)
    obtain owner where owner: "org_owner s org = Some owner" "referral_get_by_referred_user s owner = Some referral"
      using accrue(1) by (auto simp: payment_target_Some)
    have "payment_target s2 org amt' ref = None"
    proof (rule ccontr)
      assume "payment_target s2 org amt' ref \<noteq> None"
      then obtain r' p' where t: "payment_target s2 org amt' ref = Some (r', p')"
        by fastforce
      then have r': "referral_get_by_referred_user s2 owner = Some r'"
        using owner assms(6) by (auto simp: payment_target_Some)
      have "pr_partner_id r' = pp_id partner"
        using referral_persists [OF le(2) wf2 owner(2) r'] payment_target_rows(4) [OF accrue(1)] by simp
      then have "pp_id p' = pc_partner_id c"
        using payment_target_rows(4) [OF t] c(3) by simp
      then show False
        using t commission_persists [OF le(1) c(1)] c(2) by (simp add: payment_target_Some)
    qed
    then show ?thesis
      by (simp add: record_payment_def)
  qed (use assms(4) in simp)
qed

theorem payment_at_most_once_witness:
  "record_payment default_settings 9 401 10 9900 ''eur'' ''r1'' (Some 7) ''paystack''
     (snd (release_payable (days 60) demo_paid)) = (Inr (), snd (release_payable (days 60) demo_paid))"
proof (rule payment_at_most_once [OF demo_wf demo_settings demo_paid_def])
  show "db_commissions demo_paid \<noteq> db_commissions demo_db"
    using demo_paid_rows by (auto simp: demo_db_def empty_db_def)
  show "partner_step\<^sup>*\<^sup>* demo_paid (snd (release_payable (days 60) demo_paid))"
    by (rule r_into_rtranclp) (rule release)
  have "db_members demo_paid = db_members demo_db"
    by (simp add: demo_paid_def record_payment_def demo_target Let_def commission_create_def
        add_commission_def referral_update_def save_referral_def)
  then show "org_owner (snd (release_payable (days 60) demo_paid)) 10 = org_owner demo_db 10"
    by (simp add: org_owner_def first_owner_def list_members_def org_members_def release_payable_def Let_def)
qed

text \<open>
  The commission is the configured percentage of the collected amount rounded half up to a
  minor unit, never negative and never more than what was collected.
\<close>
theorem commission_rounding:
  assumes "0 \<le> amt" and "settings_valid cfg"
  shows "100 * apply_rate amt (PARTNER_COMMISSION_RATE cfg) - amt * PARTNER_COMMISSION_RATE cfg \<in> {- 49..50} \<and>
    0 \<le> apply_rate amt (PARTNER_COMMISSION_RATE cfg) \<and> apply_rate amt (PARTNER_COMMISSION_RATE cfg) \<le> amt"
proof -
  let ?r = "PARTNER_COMMISSION_RATE cfg"
  let ?x = "amt * ?r + 50"
  have r: "0 \<le> ?r" "?r \<le> 100"
    using assms(2) by (auto simp: settings_valid_def)
  have q: "?x = 100 * (?x div 100) + ?x mod 100" "0 \<le> ?x mod 100" "?x mod 100 < 100"
    by simp_all
  have "amt * ?r \<le> amt * 100"
    using assms(1) r by (intro mult_left_mono) auto
  moreover have "0 \<le> amt * ?r"
    using assms(1) r by simp
  ultimately show ?thesis
    using q unfolding apply_rate_def atLeastAtMost_iff by linarith
qed

theorem commission_rounding_witness:
  "apply_rate 4999 30 = 1500 \<and> apply_rate 4999 30 \<le> 4999"
  using commission_rounding [of 4999 default_settings, OF _ demo_settings]
  by (simp add: default_settings_def apply_rate_def)

text \<open>
  C22: The effect of an accepted payment, exactly: one new pending commission for the partner with
  the collected amount, the rounded commission, the rate of the settings and the end of the hold
  period, and a referral that was signed up becomes a paying one as of the payment date.
\<close>
theorem accrual_exact:
  assumes "payment_target s org amt ref = Some (referral, partner)"
    and "0 < apply_rate amt (PARTNER_COMMISSION_RATE cfg)"
    and "cid \<notin> pc_id ` set (db_commissions s)"
  shows "\<exists>s'. record_payment cfg now cid org amt cur ref paid prov s = (Inr (), s') \<and>
    db_commissions s' = db_commissions s @
      [\<lparr>pc_id = cid, pc_partner_id = pp_id partner, pc_referral_id = Some (pr_id referral),
        pc_billing_event_id = ref, pc_period = period_month (case paid of None \<Rightarrow> now | Some t \<Rightarrow> t),
        pc_subscription_amount_minor = amt,
        pc_commission_amount_minor = apply_rate amt (PARTNER_COMMISSION_RATE cfg),
        pc_currency = commission_currency cfg cur, pc_rate = PARTNER_COMMISSION_RATE cfg,
        pc_status = CPending,
        pc_payable_at = Some ((case paid of None \<Rightarrow> now | Some t \<Rightarrow> t) + days (PARTNER_COMMISSION_HOLD_DAYS cfg)),
        pc_paid_at = None, pc_reversal_reason = None, pc_payout_id = None, pc_created_at = now\<rparr>] \<and>
    db_referrals s' = (if pr_status referral = RSignedUp
      then save_row pr_id (referral\<lparr>pr_status := RPaid,
             pr_subscribed_at := Some (case paid of None \<Rightarrow> now | Some t \<Rightarrow> t)\<rparr>) (db_referrals s)
      else db_referrals s)"
proof -
  have "\<not> (\<exists>x \<in> set (db_commissions s). pc_id x = cid \<or> (pc_billing_event_id x = ref \<and> pc_partner_id x = pp_id partner))"
    using assms(1,3) by (auto simp: payment_target_Some commission_get_by_billing_event_def find_None_iff)
  then show ?thesis
    using assms(1,2)
    by (auto simp: record_payment_def Let_def commission_create_def add_commission_def
        referral_update_def save_referral_def set_fields_def)
qed

theorem accrual_exact_witness:
  "\<exists>s'. record_payment default_settings 0 400 10 4900 ''usd'' ''r1'' None ''paystack'' demo_db = (Inr (), s') \<and>
     map pr_status (db_referrals s') = [RPaid]"
  using accrual_exact [OF demo_target, of default_settings 400 0 "''usd''" None "''paystack''"]
  by (auto simp: demo_db_def empty_db_def default_settings_def apply_rate_def demo_referral_def save_row_def)

text \<open>
  Releasing promotes exactly the pending commissions whose hold has elapsed, leaves every other
  row and table alone, reports how many it promoted, and running it again at the same time (or an
  earlier one) changes nothing.
\<close>
theorem release_exact:
  assumes "ledger_wf s" and "t \<le> now"
  shows "release_payable now s = (Inr (length (filter (past_hold now) (db_commissions s))),
      s\<lparr>db_commissions := map (\<lambda>c. if past_hold now c then c\<lparr>pc_status := CPayable\<rparr> else c) (db_commissions s)\<rparr>) \<and>
    release_payable t (snd (release_payable now s)) = (Inr 0, snd (release_payable now s))"
proof -
  have first: "release_payable now s = (Inr (length (filter (past_hold now) (db_commissions s))),
      s\<lparr>db_commissions := map (\<lambda>c. if past_hold now c then c\<lparr>pc_status := CPayable\<rparr> else c) (db_commissions s)\<rparr>)"
    unfolding release_payable_def Let_def pending_past_hold_def
    by (subst commission_loop_db) (simp add: commission_loop ledger_wf_ids assms(1) set_fields_def cong: map_cong)
  moreover have "filter (past_hold t) (map (\<lambda>c. if past_hold now c then c\<lparr>pc_status := CPayable\<rparr> else c) (db_commissions s)) = []"
    using assms(2) by (auto simp: filter_empty_conv past_hold_def split: option.splits)
  ultimately show ?thesis
    by (simp add: release_payable_def Let_def pending_past_hold_def)
qed

definition demo_pending :: db where
  "demo_pending = demo_db\<lparr>db_commissions := [demo_commission 400 ''r1'' CPending None]\<rparr>"

lemma demo_pending_wf: "ledger_wf demo_pending"
  using demo_commissions_wf [of "[]" CPending None] by (simp add: demo_pending_def demo_db_def empty_db_def)

theorem release_exact_witness:
  "fst (release_payable 5 demo_pending) = Inr 1
   \<and> release_payable 3 (snd (release_payable 5 demo_pending)) = (Inr 0, snd (release_payable 5 demo_pending))"
proof -
  have le: "(3::time) \<le> 5"
    by simp
  have c: "release_payable 5 demo_pending = (Inr (length (filter (past_hold 5) (db_commissions demo_pending))),
      demo_pending\<lparr>db_commissions := map (\<lambda>c. if past_hold 5 c then c\<lparr>pc_status := CPayable\<rparr> else c)
        (db_commissions demo_pending)\<rparr>)"
    and i: "release_payable 3 (snd (release_payable 5 demo_pending)) = (Inr 0, snd (release_payable 5 demo_pending))"
    using release_exact [OF demo_pending_wf le] by blast+
  have "fst (release_payable 5 demo_pending) = Inr 1"
    unfolding c fst_conv by (simp add: demo_pending_def past_hold_def demo_commission_def)
  with i show ?thesis
    by blast
qed

section \<open>Churn\<close>

text \<open>
  Churn is final.  Once the subscription of a referred customer has ended, no later payment of
  that customer earns a commission, whatever steps come in between; a new subscription does not
  bring the referral back.
\<close>
theorem churn_is_final:
  assumes "ledger_wf s" and "org_owner s org = Some owner"
    and "referral_get_by_referred_user s owner \<noteq> None"
    and "partner_step\<^sup>*\<^sup>* (snd (handle_churn org s)) s'" and "org_owner s' org = Some owner"
  shows "record_payment cfg now cid org amt cur ref paid prov s' = (Inr (), s')"
proof -
  define s1 where "s1 = snd (handle_churn org s)"
  have ext: "ledger_ext s s1"
    unfolding s1_def by (rule handle_churn_ext)
  have wf1: "ledger_wf s1"
    using ext assms(1) by (simp add: ledger_ext_def)
  obtain r0 where r0: "referral_get_by_referred_user s owner = Some r0"
    using assms(3) by blast
  then have r0_in: "r0 \<in> set (db_referrals s)" "pr_referred_user_id r0 = owner"
    by (auto simp: referral_get_by_referred_user_def dest: get_row_Some)
  obtain r where r: "r \<in> set (db_referrals s1)" "pr_referred_user_id r = owner" "pr_status r = RChurned"
  proof (cases "pr_status r0 = RChurned")
    case True
    with that r0_in assms(2) r0 show thesis
      by (auto simp: s1_def handle_churn_def)
  next
    case False
    have "r0\<lparr>pr_status := RChurned\<rparr> \<in> set (db_referrals s1)"
      using False assms(2) r0 r0_in
      by (force simp: s1_def handle_churn_def referral_update_def save_referral_def save_row_def set_fields_def)
    with that [of "r0\<lparr>pr_status := RChurned\<rparr>"] r0_in show thesis
      by simp
  qed
  have "churned_stays s1 s'" "ledger_wf s'"
    using churned_steps [OF assms(4) [folded s1_def] wf1] partner_steps_ext [OF assms(4) [folded s1_def]] wf1
    by (auto simp: ledger_ext_def)
  then have "referral_get_by_referred_user s' owner = Some r"
    using r get_row_distinct [of pr_referred_user_id "db_referrals s'" r]
    by (auto simp: churned_stays_def referral_get_by_referred_user_def ledger_wf_def referrals_wf_def)
  then have "payment_target s' org amt ref = None"
    using r(3) assms(5) by (simp add: payment_target_def)
  then show ?thesis
    by (simp add: record_payment_def)
qed

theorem churn_is_final_witness:
  "record_payment default_settings 5 400 10 4900 ''usd'' ''r1'' None ''paystack'' (snd (handle_churn 10 demo_db))
     = (Inr (), snd (handle_churn 10 demo_db))"
proof (rule churn_is_final [OF demo_wf])
  show o: "org_owner demo_db 10 = Some 2"
    using demo_owner_lookup [of "[]" "[]"] by (simp add: demo_db_def empty_db_def)
  then show "org_owner (snd (handle_churn 10 demo_db)) 10 = Some 2"
    by (auto simp: org_owner_def first_owner_def list_members_def org_members_def handle_churn_def
        referral_update_def save_referral_def split: option.splits)
qed (simp_all add: referral_get_by_referred_user_def get_row_def demo_defs)

section \<open>Payouts\<close>

lemma commission_loop_at:
  assumes "db_commissions u = cs" and "distinct (map pc_id cs)"
  shows "db_commissions (fold (\<lambda>c. commission_update c kws) (filter P cs) u) =
    map (\<lambda>c. if P c then set_fields put_commission kws c else c) cs"
  using commission_loop [of u kws P] assms by (simp add: commission_ids_def)

text \<open>
  C3: Creating a payout reserves the oldest payable commissions until the amount is covered: the
  reserved rows are a prefix of the payable ones in age order, cover the amount, would not cover it
  without the last one, carry the new payout, and leave the payable balance, which drops by exactly
  their sum.
\<close>
theorem create_payout_reserves:
  assumes "ledger_wf s" and "create_payout cfg now oid pid amt_opt s = (Inr p, s')"
  shows "\<exists>rs. prefix rs (payable_by_partner s pid) \<and> 0 < po_amount_minor p \<and>
    po_amount_minor p \<le> amounts rs \<and> amounts (butlast rs) < po_amount_minor p \<and>
    db_commissions s' = map (\<lambda>c. if c \<in> set rs then c\<lparr>pc_payout_id := Some oid\<rparr> else c) (db_commissions s) \<and>
    payable_balance s' pid = payable_balance s pid - amounts rs"
proof -
  define payable where "payable = payable_by_partner s pid"
  define a where "a = (case amt_opt of None \<Rightarrow> amounts payable | Some a \<Rightarrow> a)"
  define rs where "rs = reserved a payable"
  obtain s1 where a: "0 < a" "a \<le> amounts payable"
    and c: "payout_create oid now pid a (PARTNER_DEFAULT_CURRENCY cfg) (Some (period_month now)) s = (Inr p, s1)"
    and s': "db_commissions s' = db_commissions (reserve_loop oid a payable s1)"
    using assms(2)
    by (auto simp: create_payout_def Let_def a_def payable_def amounts_def payout_create_def
        split: option.splits sum.splits prod.splits if_splits)
  have p: "po_amount_minor p = a" "db_commissions s1 = db_commissions s"
    using c by (auto simp: payout_create_def Let_def add_payout_def split: if_splits)
  have pos: "list_all (\<lambda>c. 0 < pc_commission_amount_minor c) payable"
    using payable_positive [OF assms(1)] by (simp add: payable_def)
  have pre: "prefix rs payable"
    unfolding rs_def by (rule reserved_prefix)
  have wf1: "ledger_wf s1" "payable_by_partner s1 pid = payable"
    using payout_create_ext [OF c] assms(1) p(2)
    by (simp_all add: ledger_ext_def payable_by_partner_def payable_def)
  have rows: "db_commissions s' = map (\<lambda>c. if c \<in> set rs then c\<lparr>pc_payout_id := Some oid\<rparr> else c) (db_commissions s)"
    using reserve_rows [OF wf1(1), of rs pid oid] pre wf1(2) p(2)
    by (simp add: s' reserve_loop_fold rs_def)
  have dist: "distinct (db_commissions s)"
    using assms(1) by (auto simp: ledger_wf_def commissions_wf_def distinct_map)
  then have "distinct payable"
    by (simp add: payable_def payable_by_partner_def)
  then have "distinct rs"
    using pre by (auto simp: prefix_def)
  moreover have sub: "\<forall>c \<in> set rs. is_payable pid c" "set rs \<subseteq> set (db_commissions s)"
    using set_mono_prefix [OF pre] by (auto simp: payable_def payable_by_partner_def)
  ultimately have balance: "payable_balance s' pid = payable_balance s pid - amounts rs"
    unfolding payable_amounts rows by (intro payable_after_reserve [OF dist])
  have covers: "a \<le> amounts rs" and minimal: "amounts (butlast rs) < a"
    unfolding rs_def by (rule reserved_covers [OF a(2) pos], rule reserved_minimal [OF a(1) pos])
  show ?thesis
    unfolding p(1) by (intro exI conjI, rule pre [unfolded payable_def], rule a(1), rule covers,
        rule minimal, rule rows, rule balance)
qed

definition demo_payable :: db where
  "demo_payable = demo_db\<lparr>db_commissions := [demo_commission 400 ''r1'' CPayable None]\<rparr>"

lemma demo_payable_wf: "ledger_wf demo_payable"
  using demo_commissions_wf [of "[]" CPayable None] by (simp add: demo_payable_def demo_db_def empty_db_def)

lemma demo_payable_rows: "payable_by_partner demo_payable 200 = [demo_commission 400 ''r1'' CPayable None]"
  by (simp add: payable_by_partner_def demo_payable_def is_payable_def demo_commission_def)

lemma demo_partial_payout:
  "\<exists>p s'. create_payout default_settings 9 500 200 (Some 1) demo_payable = (Inr p, s') \<and> po_amount_minor p = 1"
proof -
  have "profile_get_by_id demo_payable 200 = Some demo_profile" "db_payouts demo_payable = []"
    by (simp_all add: demo_payable_def profile_get_by_id_def get_row_def demo_db_def empty_db_def demo_profile_def)
  then show ?thesis
    by (simp add: create_payout_def demo_payable_rows payout_create_def Let_def demo_commission_def)
qed

theorem create_payout_reserves_witness:
  "\<exists>p s'. create_payout default_settings 9 500 200 (Some 1) demo_payable = (Inr p, s') \<and>
     po_amount_minor p = 1 \<and> payable_balance demo_payable 200 = 1470 \<and> payable_balance s' 200 = 0"
proof -
  obtain p s' where c: "create_payout default_settings 9 500 200 (Some 1) demo_payable = (Inr p, s')"
    and a: "po_amount_minor p = 1"
    using demo_partial_payout by blast
  have b: "payable_balance demo_payable 200 = 1470"
    by (simp add: payable_balance_amounts demo_payable_rows demo_commission_def)
  obtain rs where rs: "prefix rs [demo_commission 400 ''r1'' CPayable None]" "1 \<le> amounts rs"
    "payable_balance s' 200 = 1470 - amounts rs"
    using create_payout_reserves [OF demo_payable_wf c] by (auto simp: demo_payable_rows a b)
  then have "amounts rs = 1470"
    by (auto simp: prefix_Cons demo_commission_def)
  with c a b rs show ?thesis
    by auto
qed

text \<open>
  Marking a payout failed does not return its commissions to the payable pool: the payout
  becomes failed and not one commission changes, so the payable balance of every partner stays
  reduced by what the failed payout had reserved.
\<close>
theorem mark_failed_keeps_reservation:
  assumes "ledger_wf s" and "payout_get_by_id s i = Some po"
  shows "\<exists>s'. process_payout now i ''mark_failed'' tx s = (Inr (po\<lparr>po_status := PoFailed\<rparr>), s') \<and>
    db_commissions s' = db_commissions s \<and> payable_balance s' p = payable_balance s p"
proof -
  have po: "po_id po = i"
    using payout_repo.get_hit [OF assms(2)] by simp
  have "db_commissions (fold (\<lambda>c. commission_update c [PcPayoutId None]) (filter P (db_commissions s)) u) =
      db_commissions s" if "db_commissions u = db_commissions s" for P u
    using that ledger_wf_ids [OF assms(1)]
    by (subst commission_loop_at) (auto simp: commission_ids_def set_fields_def intro!: map_idI)
  then show ?thesis
    using assms po
    by (simp add: process_payout_def payout_update_def Let_def set_fields_def commissions_for_payout_def
        save_payout_def payable_amounts)
qed

definition demo_reserved :: db where
  "demo_reserved = demo_db\<lparr>db_commissions := [demo_commission 400 ''r1'' CPayable (Some 500)],
     db_payouts := [demo_payout]\<rparr>"

lemma demo_reserved_wf: "ledger_wf demo_reserved"
  unfolding demo_reserved_def by (simp add: demo_commissions_wf demo_payout_def)

lemma demo_reserved_payout: "payout_get_by_id demo_reserved 500 = Some demo_payout"
  by (simp add: demo_reserved_def payout_get_by_id_def get_row_def demo_payout_def)

theorem mark_failed_keeps_reservation_witness:
  "\<exists>s'. fst (process_payout 9 500 ''mark_failed'' None demo_reserved) = Inr (demo_payout\<lparr>po_status := PoFailed\<rparr>) \<and>
     s' = snd (process_payout 9 500 ''mark_failed'' None demo_reserved) \<and> payable_balance s' 200 = 0"
proof -
  obtain s' where s': "process_payout 9 500 ''mark_failed'' None demo_reserved = (Inr (demo_payout\<lparr>po_status := PoFailed\<rparr>), s')"
    "payable_balance s' 200 = payable_balance demo_reserved 200"
    using mark_failed_keeps_reservation [OF demo_reserved_wf demo_reserved_payout] by blast
  have "payable_balance demo_reserved 200 = 0"
    by (simp add: payable_amounts demo_reserved_def is_payable_def demo_commission_def)
  with s' show ?thesis
    by simp
qed

text \<open>
  Reversing a commission that a payout has reserved does not take it out of the payout: when
  the payout is then marked paid, the reversed commission is paid, its reversal reason still on
  record.
\<close>
theorem reversed_commission_still_paid:
  assumes "ledger_wf s" and "c \<in> set (db_commissions s)" and "pc_status c \<noteq> CReversed"
    and "pc_payout_id c = Some i" and "payout_get_by_id s i = Some po" and "tx \<noteq> []"
  shows "c\<lparr>pc_status := CPaid, pc_reversal_reason := Some (if reason \<noteq> [] then reason else ''admin''),
      pc_paid_at := Some t\<rparr> \<in> set (db_commissions
        (snd (process_payout t i ''mark_paid'' (Some tx) (snd (reverse_commission now (pc_id c) reason s)))))"
proof -
  define r where "r = c\<lparr>pc_status := CReversed, pc_reversal_reason := Some (if reason \<noteq> [] then reason else ''admin'')\<rparr>"
  define s1 where "s1 = snd (reverse_commission now (pc_id c) reason s)"
  have "commission_get_by_id s (pc_id c) = Some c"
    using commission_repo.get_known assms(1,2) ledger_wf_ids by (auto simp: commission_ids_def)
  then have rows: "db_commissions s1 = save_row pc_id r (db_commissions s)" "db_payouts s1 = db_payouts s"
    using assms(3) by (simp_all add: s1_def reverse_commission_def commission_update_rows r_def set_fields_def)
  have r_in: "r \<in> set (db_commissions s1)"
    using assms(2) by (force simp: rows save_row_def r_def)
  have ids: "commission_ids s1"
    using ledger_wf_ids [OF assms(1)] by (simp add: commission_ids_def rows)
  have po: "payout_get_by_id s1 i = Some po" "po_id po = i"
    using assms(5) payout_repo.get_hit [OF assms(5)] by (auto simp: payout_get_by_id_def rows)
  have "db_commissions (snd (process_payout t i ''mark_paid'' (Some tx) s1)) =
      map (\<lambda>c. if pc_payout_id c = Some i then c\<lparr>pc_status := CPaid, pc_paid_at := Some t\<rparr> else c) (db_commissions s1)"
    using assms(6) po ids
    by (simp add: process_payout_def str_truthy_def payout_update_def Let_def set_fields_def
        commissions_for_payout_def commission_loop_at save_payout_def commission_ids_def cong: map_cong)
  moreover have "pc_payout_id r = Some i"
    using assms(4) by (simp add: r_def)
  ultimately have "r\<lparr>pc_status := CPaid, pc_paid_at := Some t\<rparr> \<in>
      set (db_commissions (snd (process_payout t i ''mark_paid'' (Some tx) s1)))"
    using r_in by force
  moreover have "r\<lparr>pc_status := CPaid, pc_paid_at := Some t\<rparr> = c\<lparr>pc_status := CPaid,
      pc_reversal_reason := Some (if reason \<noteq> [] then reason else ''admin''), pc_paid_at := Some t\<rparr>"
    by (rule partner_commission.equality) (simp_all add: r_def)
  ultimately show ?thesis
    by (simp only: s1_def)
qed

theorem reversed_commission_still_paid_witness:
  "CPaid \<in> pc_status ` set (db_commissions (snd (process_payout 9 500 ''mark_paid'' (Some ''tx'')
     (snd (reverse_commission 8 400 ''refund'' demo_reserved)))))"
proof -
  have "demo_commission 400 ''r1'' CPayable (Some 500) \<in> set (db_commissions demo_reserved)"
    by (simp add: demo_reserved_def)
  from reversed_commission_still_paid [OF demo_reserved_wf this _ _ demo_reserved_payout,
      where tx = "''tx''" and reason = "''refund''" and t = 9 and now = 8]
  show ?thesis
    by (force simp: demo_commission_def)
qed

section \<open>Attribution and the public surface\<close>

text \<open>
  Attribution is unique and permanent: after any sequence of partner operations a customer has
  at most one referral, it never names the customer's own partner account, and a customer who was
  attributed to a partner still is, to the same partner by the same referral.
\<close>
theorem attribution_unique:
  assumes "partner_step\<^sup>*\<^sup>* s s'" and "ledger_wf s"
  shows "(\<forall>r \<in> set (db_referrals s'). \<forall>t \<in> set (db_referrals s').
      pr_referred_user_id t = pr_referred_user_id r \<longrightarrow> t = r) \<and>
    (\<forall>r \<in> set (db_referrals s'). \<forall>p \<in> set (db_profiles s').
      pp_id p = pr_partner_id r \<longrightarrow> pp_user_id p \<noteq> pr_referred_user_id r) \<and>
    (\<forall>u r. referral_get_by_referred_user s u = Some r \<longrightarrow>
      (\<exists>r'. referral_get_by_referred_user s' u = Some r' \<and> pr_partner_id r' = pr_partner_id r \<and> pr_id r' = pr_id r))"
proof -
  have wf: "ledger_wf s'" and le: "ledger_le s s'"
    using partner_steps_ext [OF assms(1)] assms(2) by (auto simp: ledger_ext_def)
  have "\<exists>r'. referral_get_by_referred_user s' u = Some r' \<and> pr_partner_id r' = pr_partner_id r \<and> pr_id r' = pr_id r"
    if r: "referral_get_by_referred_user s u = Some r" for u r
  proof -
    have "r \<in> set (db_referrals s)" "pr_referred_user_id r = u"
      using get_row_Some [OF r [unfolded referral_get_by_referred_user_def]] by auto
    moreover have "prefix (map referral_core (db_referrals s)) (map referral_core (db_referrals s'))"
      using le by (simp add: ledger_le_def)
    ultimately obtain t where "t \<in> set (db_referrals s')" "pr_referred_user_id t = u"
      by (metis core_fields(9) prefix_map_in)
    then have "referral_get_by_referred_user s' u \<noteq> None"
      by (auto simp: referral_get_by_referred_user_def get_row_None)
    with referral_persists [OF le wf r] show ?thesis
      by blast
  qed
  moreover have "\<forall>r \<in> set (db_referrals s'). \<forall>t \<in> set (db_referrals s').
      pr_referred_user_id t = pr_referred_user_id r \<longrightarrow> t = r"
    using wf by (auto simp: ledger_wf_def referrals_wf_def dest: distinct_map_inj)
  ultimately show ?thesis
    using wf by (simp add: ledger_wf_def referrals_wf_def list_all_iff)
qed

theorem attribution_unique_witness:
  "\<exists>r'. referral_get_by_referred_user (snd (bind_referral 9 301 ''alex-7x2k'' 2 None demo_db)) 2 = Some r' \<and>
     pr_partner_id r' = 200 \<and> pr_id r' = 300"
proof -
  have "partner_step\<^sup>*\<^sup>* demo_db (snd (bind_referral 9 301 ''alex-7x2k'' 2 None demo_db))"
    by (rule r_into_rtranclp) (rule bind)
  moreover have "referral_get_by_referred_user demo_db 2 = Some demo_referral"
    by (simp add: referral_get_by_referred_user_def get_row_def demo_defs)
  ultimately have "\<exists>r'. referral_get_by_referred_user (snd (bind_referral 9 301 ''alex-7x2k'' 2 None demo_db)) 2 = Some r' \<and>
     pr_partner_id r' = pr_partner_id demo_referral \<and> pr_id r' = pr_id demo_referral"
    using attribution_unique [THEN conjunct2, THEN conjunct2] demo_wf by blast
  then show ?thesis
    by (simp add: demo_referral_def)
qed

text \<open>
  The masked address shows a partner the first letter of the customer's local part and the
  domain and nothing else: two customers that agree on those have the same masked address,
  whatever the rest of their addresses and its length.
\<close>
theorem mask_email_hides:
  assumes "CHR ''@'' \<notin> set l" and "CHR ''@'' \<notin> set l'" and "l \<noteq> []" and "l' \<noteq> []" and "hd l = hd l'"
  shows "mask_email (l @ CHR ''@'' # d) = hd l # ''***@'' @ d \<and>
    mask_email (l @ CHR ''@'' # d) = mask_email (l' @ CHR ''@'' # d)"
proof -
  have "mask_email (k @ CHR ''@'' # d) = hd k # ''***@'' @ d" if "CHR ''@'' \<notin> set k" "k \<noteq> []" for k
  proof -
    have "takeWhile (\<lambda>c. c \<noteq> CHR ''@'') (k @ CHR ''@'' # d) = k"
      "dropWhile (\<lambda>c. c \<noteq> CHR ''@'') (k @ CHR ''@'' # d) = CHR ''@'' # d"
      using that(1) by (auto simp: takeWhile_append dropWhile_append)
    with that show ?thesis
      by (simp add: mask_email_def Let_def)
  qed
  with assms show ?thesis
    by metis
qed

theorem mask_email_hides_witness:
  "mask_email ''alice@example.com'' = mask_email ''andrew@example.com''"
  using mask_email_hides [of "''alice''" "''andrew''" "''example.com''", THEN conjunct2] by simp

text \<open>
  The destination of a resolved referral link always starts with one slash, never with two and
  never contains a scheme separator, and a path that does is returned as it is.  The check does not
  see a backslash: the path slash, backslash, host passes, which browsers read as a
  protocol-relative address of that host.
\<close>
theorem safe_destination_relative:
  "starts_with (safe_destination dest) ''/'' \<and> \<not> starts_with (safe_destination dest) ''//'' \<and>
   \<not> contains_str (safe_destination dest) ''://'' \<and>
   safe_destination (Some (CHR ''/'' # CHR 0x5C # ''evil.example'')) = CHR ''/'' # CHR 0x5C # ''evil.example''"
  by (simp add: safe_destination_def split: option.splits)

lemma partner_mutations_admin_log:
  "db_admin_audit (snd (reverse_commission now i reason s)) = db_admin_audit s"
  "db_admin_audit (snd (create_payout cfg now oid pid amt_opt s)) = db_admin_audit s"
  "db_admin_audit (snd (process_payout now i action tx s)) = db_admin_audit s"
  "db_admin_audit (snd (update_partner_status now aid pid st ro s)) = db_admin_audit s"
proof -
  have "db_admin_audit (reserve_loop i n cs t) = db_admin_audit t" for i n cs t
    by (simp add: reserve_loop_fold)
  then show "db_admin_audit (snd (create_payout cfg now oid pid amt_opt s)) = db_admin_audit s"
    by (auto simp: create_payout_def payout_create_def Let_def add_payout_def split: option.splits)
  show "db_admin_audit (snd (reverse_commission now i reason s)) = db_admin_audit s"
    "db_admin_audit (snd (process_payout now i action tx s)) = db_admin_audit s"
    "db_admin_audit (snd (update_partner_status now aid pid st ro s)) = db_admin_audit s"
    by (auto simp: reverse_commission_def process_payout_def payout_update_def Let_def save_payout_def
        update_partner_status_def profile_update_def save_profile_def split: option.splits)
qed

lemma audited_route:
  assumes "\<And>t. db_admin_audit (snd (f t)) = db_admin_audit t"
    and "map_of kwargs ''user_id'' = None" and "map_of kwargs ''ticket_id'' = None"
  shows "let r = admin_route admin (audited now action ty admin client kwargs f) s in
    (\<not> u_is_system_admin admin \<longrightarrow> r = (Inl (ForbiddenException ''System admin access required''), s)) \<and>
    (db_admin_audit (snd r) = db_admin_audit s \<or>
     (\<exists>e. db_admin_audit (snd r) = db_admin_audit s @ [e] \<and> aal_action e = action \<and> aal_entity_id e = Some []))"
  using assms(1) [of s] assms(2,3)
  by (auto simp: admin_route_def require_system_admin_def with_session_def audited_def Let_def
      split: prod.splits sum.splits)

text \<open>
  The partner mutations of the admin panel need a system administrator (anybody else gets 403
  and changes nothing), and each successful one is logged, but the log entry never says which
  commission, payout or partner it was about: the recorded entity is the empty string.
\<close>
theorem admin_mutation_log:
  "let r = admin_process_payout now admin client i action tx s in
    (\<not> u_is_system_admin admin \<longrightarrow> r = (Inl (ForbiddenException ''System admin access required''), s)) \<and>
    (db_admin_audit (snd r) = db_admin_audit s \<or>
     (\<exists>e. db_admin_audit (snd r) = db_admin_audit s @ [e] \<and> aal_action e = ''process_payout'' \<and>
        aal_entity_id e = Some []))"
  unfolding admin_process_payout_def
  by (rule audited_route) (simp_all add: partner_mutations_admin_log)

theorem admin_mutation_log_witness:
  "admin_process_payout 9 (demo_user_row False) \<lparr>hc_host = None, hc_user_agent = None\<rparr> 500 ''mark_paid'' (Some ''tx'') demo_reserved
     = (Inl (ForbiddenException ''System admin access required''), demo_reserved)"
  using admin_mutation_log [of 9 "demo_user_row False" "\<lparr>hc_host = None, hc_user_agent = None\<rparr>" 500 "''mark_paid''" "Some ''tx''" demo_reserved]
  by (simp add: Let_def demo_user_row_def)

end
