(* ===== verification/Billing_Properties.thy ===== *)
theory Billing_Properties
  imports Billing Partner_Properties
begin

text \<open>
  What the billing component guarantees: authentication and idempotency of the webhook and what a
  failure after the claim costs, the plan a verified transaction sets, the checkout amounts and the
  reversal of refunded payments.
\<close>

section \<open>A concrete provider\<close>

text \<open>
  Paystack reports one successful transaction of 4900 for organization 10 on the standard plan; the
  digest of a body is the body itself.  \<^verbatim>\<open>demo_env False\<close> is the same provider out of reach.
\<close>

definition demo_data :: "(string \<times> json) list" where
  "demo_data = [(''status'', JStr ''success''), (''amount'', JInt 4900), (''currency'', JStr ''usd''),
     (''reference'', JStr ''r1''),
     (''metadata'', JObj [(''org_id'', juuid 10), (''plan'', JStr ''standard'')]),
     (''customer'', JObj [(''customer_code'', JStr ''CUS'')])]"

definition demo_env :: "bool \<Rightarrow> billing_env" where
  "demo_env reachable = \<lparr>be_settings = default_settings, be_secret = ''sk'',
     be_verify = (\<lambda>_. if reachable then Some [(''status'', JBool True), (''data'', JObj demo_data)] else None),
     be_initialize = (\<lambda>_ amount _ _. Some [(''status'', JBool True),
        (''data'', JObj [(''authorization_url'', JStr ''u''), (''reference'', JStr ''r''), (''access_code'', JInt amount)])]),
     be_hmac = (\<lambda>_ body. body), be_decode = (\<lambda>_. Some (''charge.success'', demo_data)),
     be_fromisoformat = (\<lambda>_. None)\<rparr>"

definition demo_acme :: organization where
  "demo_acme = \<lparr>o_id = 10, o_name = ''Acme'', o_slug = ''acme'', o_plan = ''free'', o_has_agency_mode = False, o_created_at = 0\<rparr>"

definition demo_billing :: billing_state where
  "demo_billing = \<lparr>bs_db = demo_db\<lparr>db_organizations := [demo_acme]\<rparr>, bs_redis = redis_empty\<rparr>"

section \<open>The webhook\<close>

text \<open>
  C29: Nobody without the signing secret changes anything: if a webhook request changes the database
  or the idempotency keys, then the secret is configured and the signature is the digest of the raw
  body under it.
\<close>
theorem webhook_authenticated:
  assumes "snd (paystack_webhook env now sid cid signature raw_body s) \<noteq> s"
  shows "be_secret env \<noteq> [] \<and> raw_body \<noteq> [] \<and> signature = be_hmac env (be_secret env) raw_body"
proof -
  have "webhook_auth env signature raw_body = Inr ()"
    using assms by (cases "webhook_auth env signature raw_body")
      (auto simp: paystack_webhook_def handle_webhook_def split: option.splits)
  then show ?thesis
    by (auto simp: webhook_auth_def split: if_splits)
qed

lemma webhook_redis:
  assumes "be_decode env body = Some (event_type, data)" and "webhook_auth env signature body = Inr ()"
  shows "bs_redis (snd (paystack_webhook env now sid cid signature body s)) =
    snd (webhook_claim now event_type data (bs_redis s))"
  using assms by (auto simp: paystack_webhook_def handle_webhook_def split: prod.splits sum.splits bool.splits)

lemma webhook_skipped:
  assumes "be_decode env body = Some (event_type, data)" and "webhook_auth env signature body = Inr ()"
    and "webhook_claim now event_type data (bs_redis s) = (False, bs_redis s)"
  shows "paystack_webhook env now sid cid signature body s = (Inr event_type, s)"
  using assms by (simp add: paystack_webhook_def handle_webhook_def)

lemma webhook_claim_once:
  assumes "webhook_event_id event_type data = Some i" and "fst (webhook_claim now event_type data r)"
    and "t < now + hours 24"
  shows "webhook_claim t event_type data (snd (webhook_claim now event_type data r)) =
    (False, snd (webhook_claim now event_type data r))"
  using assms redis_lease.claim_once [of "24 * 3600" "''1''" now "''paystack:event:'' @ i" r t]
  by (simp add: webhook_claim_def claim_webhook_event_def time_defs)

lemma webhook_auth_verify [simp]: "webhook_auth (env\<lparr>be_verify := v\<rparr>) sig body = webhook_auth env sig body"
  by (simp add: webhook_auth_def)

lemma demo_auth: "webhook_auth (demo_env b) ''body'' ''body'' = Inr ()"
  by (simp add: webhook_auth_def demo_env_def)

lemma demo_decode: "be_decode (demo_env b) body = Some (''charge.success'', demo_data)"
  by (simp add: demo_env_def)

lemma demo_event: "webhook_event_id ''charge.success'' demo_data = Some ''charge.success:r1''"
  by (simp add: webhook_event_id_def demo_data_def dget_def jor_def)

lemma demo_claim: "fst (webhook_claim now ''charge.success'' demo_data (bs_redis demo_billing))"
  by (simp add: webhook_claim_def demo_event claim_webhook_event_def demo_billing_def claim_live
      redis_empty_def key_held_def live_def)

theorem webhook_authenticated_witness:
  "''body'' = be_hmac (demo_env True) (be_secret (demo_env True)) ''body''"
proof -
  let ?r = "paystack_webhook (demo_env True) 0 1 2 ''body'' ''body'' demo_billing"
  have "key_held 0 ''paystack:event:charge.success:r1'' (bs_redis (snd ?r))"
    using redis_lease.claim_holds [of "24 * 3600" "''1''" 0 "''paystack:event:charge.success:r1''" "bs_redis demo_billing" 0]
      demo_claim [of 0]
    by (simp add: webhook_redis [OF demo_decode demo_auth] webhook_claim_def demo_event claim_webhook_event_def seconds_def)
  then have "snd ?r \<noteq> demo_billing"
    by (auto simp: demo_billing_def key_held_def redis_empty_def live_def)
  from webhook_authenticated [OF this] show ?thesis
    by blast
qed

text \<open>
  C30: An event is processed at most once: after a delivery that claimed its event, every delivery
  of the same event within 24 hours is acknowledged and changes nothing, whatever Paystack would
  answer by then.
\<close>
theorem webhook_at_most_once:
  assumes "be_decode env body = Some (event_type, data)" and "webhook_auth env signature body = Inr ()"
    and "webhook_event_id event_type data = Some i"
    and "fst (webhook_claim now event_type data (bs_redis s))" and "t < now + hours 24"
    and "s1 = snd (paystack_webhook env now sid cid signature body s)"
  shows "paystack_webhook (env\<lparr>be_verify := v\<rparr>) t sid' cid' signature body s1 = (Inr event_type, s1)"
proof (rule webhook_skipped)
  show "webhook_claim t event_type data (bs_redis s1) = (False, bs_redis s1)"
    unfolding assms(6) webhook_redis [OF assms(1,2)] by (rule webhook_claim_once [OF assms(3,4,5)])
qed (use assms(1,2) in simp_all)

theorem webhook_at_most_once_witness:
  "paystack_webhook (demo_env True) (hours 1) 5 6 ''body'' ''body'' (snd (paystack_webhook (demo_env True) 0 1 2 ''body'' ''body'' demo_billing))
     = (Inr ''charge.success'', snd (paystack_webhook (demo_env True) 0 1 2 ''body'' ''body'' demo_billing))"
proof -
  have e: "(demo_env True)\<lparr>be_verify := be_verify (demo_env True)\<rparr> = demo_env True"
    by simp
  have "hours 1 < 0 + hours 24"
    by (simp add: time_defs)
  from webhook_at_most_once [OF demo_decode [of True] demo_auth [of True] demo_event demo_claim this refl,
      where v = "be_verify (demo_env True)"]
  show ?thesis
    unfolding e by blast
qed

text \<open>
  A payment confirmation that cannot be verified at once is lost: when Paystack is unreachable
  while a successful charge is being processed, the request fails and the database is rolled back,
  but the claim of the event stays, so the redelivery within 24 hours is acknowledged without being
  processed even if Paystack answers by then.
\<close>
theorem failed_charge_not_retried:
  assumes "be_decode env body = Some (''charge.success'', data)" and "webhook_auth env signature body = Inr ()"
    and "truthy (dget data ''reference'')" and "be_verify env (py_str (dget data ''reference'')) = None"
    and "webhook_event_id ''charge.success'' data = Some i"
    and "fst (webhook_claim now ''charge.success'' data (bs_redis s))" and "t < now + hours 24"
  shows "\<exists>s1. paystack_webhook env now sid cid signature body s =
      (Inl (ValidationException ''Unable to verify Paystack transaction''), s1) \<and> bs_db s1 = bs_db s \<and>
    paystack_webhook (env\<lparr>be_verify := v\<rparr>) t sid' cid' signature body s1 = (Inr ''charge.success'', s1)"
proof -
  have "be_secret env \<noteq> []"
    using assms(2) by (auto simp: webhook_auth_def split: if_splits)
  then have "dispatch_event env now sid cid ''charge.success'' data (bs_db s) =
      (Inl (ValidationException ''Unable to verify Paystack transaction''), bs_db s)"
    using assms(3,4) by (simp add: dispatch_event_def verify_transaction_def)
  then have "fst (paystack_webhook env now sid cid signature body s) =
      Inl (ValidationException ''Unable to verify Paystack transaction'') \<and>
      bs_db (snd (paystack_webhook env now sid cid signature body s)) = bs_db s"
    using assms(1,2,6) by (auto simp: paystack_webhook_def handle_webhook_def split: prod.split bool.split)
  moreover define s1 where "s1 = snd (paystack_webhook env now sid cid signature body s)"
  moreover have "webhook_claim t ''charge.success'' data (bs_redis s1) = (False, bs_redis s1)"
    unfolding s1_def webhook_redis [OF assms(1,2)] by (rule webhook_claim_once [OF assms(5,6,7)])
  then have "paystack_webhook (env\<lparr>be_verify := v\<rparr>) t sid' cid' signature body s1 = (Inr ''charge.success'', s1)"
    using assms(1,2) by (intro webhook_skipped) simp_all
  ultimately show ?thesis
    by (metis prod.collapse)
qed

theorem failed_charge_not_retried_witness:
  "\<exists>s1. fst (paystack_webhook (demo_env False) 0 1 2 ''body'' ''body'' demo_billing) =
      Inl (ValidationException ''Unable to verify Paystack transaction'') \<and>
    s1 = snd (paystack_webhook (demo_env False) 0 1 2 ''body'' ''body'' demo_billing) \<and>
    paystack_webhook (demo_env True) (hours 1) 3 4 ''body'' ''body'' s1 = (Inr ''charge.success'', s1)"
proof -
  have "demo_env True = (demo_env False)\<lparr>be_verify := be_verify (demo_env True)\<rparr>"
    by (simp add: demo_env_def)
  moreover have "truthy (dget demo_data ''reference'')" "be_verify (demo_env False) r = None" "hours 1 < 0 + hours 24" for r
    by (simp_all add: demo_data_def dget_def demo_env_def time_defs)
  ultimately show ?thesis
    using failed_charge_not_retried [OF demo_decode demo_auth _ _ demo_event demo_claim] by (metis fst_conv snd_conv)
qed

text \<open>
  With Redis down every identified event is dropped: the wrapper reports a failed claim the same
  way as a lost one, so the webhook acknowledges the event as a duplicate and processes nothing.
\<close>
theorem redis_outage_drops_events:
  assumes "be_decode env body = Some (event_type, data)" and "webhook_auth env signature body = Inr ()"
    and "webhook_event_id event_type data = Some i" and "\<not> r_up (bs_redis s)"
  shows "paystack_webhook env now sid cid signature body s = (Inr event_type, s)"
  by (rule webhook_skipped [OF assms(1,2)]) (simp add: webhook_claim_def claim_webhook_event_def claim_down assms(3,4))

theorem redis_outage_drops_events_witness:
  "paystack_webhook (demo_env True) 0 1 2 ''body'' ''body'' (demo_billing\<lparr>bs_redis := \<lparr>r_up = False, r_kv = \<lambda>_. None\<rparr>\<rparr>) =
     (Inr ''charge.success'', demo_billing\<lparr>bs_redis := \<lparr>r_up = False, r_kv = \<lambda>_. None\<rparr>\<rparr>)"
  by (rule redis_outage_drops_events [OF demo_decode demo_auth demo_event]) simp

section \<open>Verification and plans\<close>

lemma normalized_plan_valid: "normalized_plan data \<in> set PLAN_VALUES"
  by (simp add: normalized_plan_def Let_def PLAN_VALUES_def)

definition billing_wf :: "db \<Rightarrow> bool" where
  "billing_wf s = (distinct (map o_id (db_organizations s)) \<and> distinct (map s_id (db_subscriptions s)) \<and>
     distinct (map s_organization_id (db_subscriptions s)))"

lemma put_subscription_keys [simp]:
  "s_id (fold put_subscription kws r) = s_id r" "s_organization_id (fold put_subscription kws r) = s_organization_id r"
proof -
  have "\<And>k r. s_id (put_subscription k r) = s_id r \<and> s_organization_id (put_subscription k r) = s_organization_id r"
    by (rule put_subscription.induct) auto
  then show "s_id (fold put_subscription kws r) = s_id r" "s_organization_id (fold put_subscription kws r) = s_organization_id r"
    by (induction kws arbitrary: r) auto
qed

lemma put_period_fields [simp]:
  "s_plan (put_subscription (SfCurrentPeriodEnd x) r) = s_plan r" "s_status (put_subscription (SfCurrentPeriodEnd x) r) = s_status r"
  "s_plan (put_subscription (SfCurrentPeriodStart x) r) = s_plan r" "s_status (put_subscription (SfCurrentPeriodStart x) r) = s_status r"
  "s_plan (put_subscription (SfProviderSubscriptionId y) r) = s_plan r" "s_status (put_subscription (SfProviderSubscriptionId y) r) = s_status r"
  "s_plan (put_subscription (SfProviderCustomerId y) r) = s_plan r" "s_status (put_subscription (SfProviderCustomerId y) r) = s_status r"
  by (cases x; cases y; simp)+

lemma get_row_snoc: "get_row key k t = None \<Longrightarrow> key x = k \<Longrightarrow> get_row key k (t @ [x]) = Some x"
  by (simp add: get_row_append) (simp add: get_row_def)

text \<open>After an upsert the organization has one subscription with the given plan and status.\<close>

lemma upsert_effect:
  assumes "billing_wf s" and "upsert_subscription sid org_id plan status customer sub ps pe s = (Inr u, s')"
  shows "\<exists>r. get_subscription s' org_id = Some r \<and> s_plan r = plan \<and> s_status r = status \<and>
    db_organizations s' = db_organizations s"
proof (cases "get_subscription s org_id")
  case None
  then have "\<forall>x \<in> set (db_subscriptions s). s_organization_id x \<noteq> org_id"
    by (auto simp: get_subscription_def get_row_None)
  with None assms(2) show ?thesis
    by (auto simp: upsert_subscription_def create_subscription_def Let_def add_subscription_def get_subscription_def
        get_row_snoc split: if_splits)
next
  case (Some r)
  let ?r = "fold put_subscription [SfPlan (Some plan), SfStatus (Some status), SfProviderCustomerId customer,
      SfProviderSubscriptionId sub, SfCurrentPeriodStart ps, SfCurrentPeriodEnd pe] r"
  have r: "r \<in> set (db_subscriptions s)" "s_organization_id r = org_id"
    using get_row_Some [OF Some [unfolded get_subscription_def]] by auto
  have s': "s' = save_subscription ?r s"
    using assms(2) Some by (simp add: upsert_subscription_def update_subscription_def set_fields_def)
  have "?r \<in> set (db_subscriptions s')"
    unfolding s' using r by (force simp: subscription_repo.rows_save save_row_def simp del: fold.simps)
  moreover have "map s_organization_id (db_subscriptions s') = map s_organization_id (db_subscriptions s)"
    unfolding s' subscription_repo.rows_save
    by (rule map_save_row_same [of s_id _ r]) (use assms(1) r in \<open>simp_all add: billing_wf_def del: fold.simps\<close>)
  ultimately have "get_subscription s' org_id = Some ?r"
    using assms(1) get_row_distinct [of s_organization_id "db_subscriptions s'" ?r] r
    by (simp add: get_subscription_def billing_wf_def del: fold.simps)
  then show ?thesis
    by (auto simp: s' save_subscription_def)
qed

lemma upsert_succeeds:
  assumes "sid \<notin> s_id ` set (db_subscriptions s)"
  shows "\<exists>t. upsert_subscription sid org_id p st c x ps pe s = (Inr (), t)"
  using assms
  by (auto simp: upsert_subscription_def create_subscription_def Let_def get_subscription_def get_row_None split: option.splits)

lemma verified_transaction_provisions_aux:
  assumes "billing_wf s" and "verify_transaction env now sid cid reference s = (Inr v, s')" and "vr_verified v"
    and res: "be_verify env reference = Some result" and data_def: "data = as_dict (dget result ''data'')"
  shows "vr_plan v = normalized_plan data \<and> normalized_plan data \<in> set PLAN_VALUES \<and>
    (\<exists>org_id org r. parse_uuid (py_str (dget (as_dict (dget data ''metadata'')) ''org_id'')) = Some org_id \<and>
       org_get_by_id s' org_id = Some org \<and> o_plan org = vr_plan v \<and>
       get_subscription s' org_id = Some r \<and> s_plan r = vr_plan v \<and> s_status r = ''active'')"
proof -
  obtain org_id org where org: "org_get_by_id s org_id = Some org"
    and uuid: "parse_uuid (py_str (dget (as_dict (dget data ''metadata'')) ''org_id'')) = Some org_id"
    and body: "(case upsert_subscription sid org_id (normalized_plan data) ''active''
         (column_str (dget (as_dict (dget data ''customer'')) ''customer_code''))
         (Some (py_str (jor (dget data ''subscription_code'') (JStr reference))))
         (parse_datetime env (dget data ''paid_at'')) (parse_datetime env (dget data ''next_payment_date'')) s of
           (Inl e, s1) \<Rightarrow> (Inl e, s1)
         | (Inr _, s1) \<Rightarrow>
             (let s2 = snd (org_update org [OfPlan (Some (normalized_plan data))] s1);
                  s3 = record_partner_commission env now cid org_id data reference s2
              in (Inr \<lparr>vr_verified = True, vr_plan = normalized_plan data, vr_reference = reference\<rparr>, s3)))
       = (Inr v, s')"
    using assms(2,3) res
    by (auto simp: verify_transaction_def data_def [symmetric] Let_def split: if_splits option.splits)
  obtain s1 u where up: "upsert_subscription sid org_id (normalized_plan data) ''active''
         (column_str (dget (as_dict (dget data ''customer'')) ''customer_code''))
         (Some (py_str (jor (dget data ''subscription_code'') (JStr reference))))
         (parse_datetime env (dget data ''paid_at'')) (parse_datetime env (dget data ''next_payment_date'')) s = (Inr u, s1)"
    using body by (auto split: prod.splits sum.splits)
  define s2 where "s2 = snd (org_update org [OfPlan (Some (normalized_plan data))] s1)"
  have s': "s' = record_partner_commission env now cid org_id data reference s2" and v: "vr_plan v = normalized_plan data"
    using body up by (auto simp: s2_def Let_def)
  obtain r where r: "get_subscription s1 org_id = Some r" "s_plan r = normalized_plan data" "s_status r = ''active''"
    "db_organizations s1 = db_organizations s"
    using upsert_effect [OF assms(1) up] by blast
  have same: "db_organizations s' = db_organizations s2" "db_subscriptions s' = db_subscriptions s2"
    unfolding s' record_partner_commission_def Let_def
    by (auto simp: record_payment_other_tables split: option.splits)
  have id: "o_id org = org_id"
    using org_repo.get_hit [OF org] by simp
  have "org_get_by_id (save_org (org\<lparr>o_plan := normalized_plan data\<rparr>) s1) (o_id (org\<lparr>o_plan := normalized_plan data\<rparr>)) =
      Some (org\<lparr>o_plan := normalized_plan data\<rparr>)"
    by (rule org_repo.get_save [where ?r0.0 = org])
      (use org r(4) id assms(1) in \<open>simp_all add: billing_wf_def org_get_by_id_def\<close>)
  then have "org_get_by_id s2 org_id = Some (org\<lparr>o_plan := normalized_plan data\<rparr>)"
    by (simp add: s2_def org_update_def set_fields_def id Let_def)
  then have "org_get_by_id s' org_id = Some (org\<lparr>o_plan := normalized_plan data\<rparr>)"
    by (simp add: org_get_by_id_def same)
  moreover have "get_subscription s' org_id = Some r"
    using r(1) by (simp add: get_subscription_def same s2_def org_update_def save_org_def Let_def)
  ultimately show ?thesis
    unfolding v using r(2,3) uuid normalized_plan_valid by (intro conjI exI) (assumption | simp)+
qed

text \<open>
  A verified transaction provisions what was paid for: the reported plan is the catalogue plan
  the transaction names, and the organization named by the transaction's metadata is on that plan
  with an active subscription to it.
\<close>
theorem verified_transaction_provisions:
  assumes "billing_wf s" and "verify_transaction env now sid cid reference s = (Inr v, s')" and "vr_verified v"
    and "be_verify env reference = Some result" and "data = as_dict (dget result ''data'')"
  shows "vr_plan v = normalized_plan data \<and> normalized_plan data \<in> set PLAN_VALUES \<and>
    (\<exists>org_id org r. parse_uuid (py_str (dget (as_dict (dget data ''metadata'')) ''org_id'')) = Some org_id \<and>
       org_get_by_id s' org_id = Some org \<and> o_plan org = vr_plan v \<and>
       get_subscription s' org_id = Some r \<and> s_plan r = vr_plan v \<and> s_status r = ''active'')"
  using assms by (rule verified_transaction_provisions_aux)

lemma demo_billing_wf: "billing_wf (bs_db demo_billing)"
  by (simp add: billing_wf_def demo_billing_def demo_db_def empty_db_def demo_acme_def)

lemma demo_uuid: "parse_uuid (uuid_str 10) = Some 10"
  by (rule uuid_roundtrip_aux) simp

lemma demo_org_lookup: "org_get_by_id (bs_db demo_billing) 10 = Some demo_acme"
  by (simp add: demo_billing_def org_get_by_id_def get_row_def demo_acme_def)

lemma demo_no_subscription: "db_subscriptions (bs_db demo_billing) = []"
  by (simp add: demo_billing_def demo_db_def empty_db_def)

lemma demo_orgs: "db_organizations (bs_db demo_billing) = [demo_acme]"
  by (simp add: demo_billing_def)

lemma demo_plan: "normalized_plan demo_data = ''standard''"
  by (simp add: normalized_plan_def demo_data_def dget_def as_dict_def jor_def strip_def is_space_def lower_def
      lower_char_def PLAN_VALUES_def Let_def)

lemma demo_verify:
  "\<exists>s'. verify_transaction (demo_env True) now sid cid ''r1'' (bs_db demo_billing) =
     (Inr \<lparr>vr_verified = True, vr_plan = ''standard'', vr_reference = ''r1''\<rparr>, s')"
proof -
  have "be_secret (demo_env True) \<noteq> []"
    "be_verify (demo_env True) ''r1'' = Some [(''status'', JBool True), (''data'', JObj demo_data)]"
    by (simp_all add: demo_env_def)
  moreover have "dget demo_data ''status'' = JStr ''success''"
    "dget (as_dict (dget demo_data ''metadata'')) ''org_id'' = juuid 10"
    by (simp_all add: demo_data_def dget_def as_dict_def)
  moreover have "uuid_str 10 \<noteq> []"
    by (simp add: uuid_str_def Let_def)
  ultimately show ?thesis
    by (simp add: verify_transaction_def dget_def [of "[(''status'', JBool True), (''data'', JObj demo_data)]"]
        as_dict_def [of "JObj demo_data"] juuid_def demo_uuid demo_org_lookup demo_plan upsert_subscription_def
        get_subscription_def get_row_def create_subscription_def demo_no_subscription Let_def)
qed

lemma demo_response: "be_verify (demo_env True) r = Some [(''status'', JBool True), (''data'', JObj demo_data)]"
  by (simp add: demo_env_def)

lemma demo_response_data: "demo_data = as_dict (dget [(''status'', JBool True), (''data'', JObj demo_data)] ''data'')"
  by (simp add: dget_def as_dict_def)

lemma demo_org_id: "parse_uuid (py_str (dget (as_dict (dget demo_data ''metadata'')) ''org_id'')) = Some 10"
proof -
  have "dget (as_dict (dget demo_data ''metadata'')) ''org_id'' = juuid 10"
    by (simp add: demo_data_def dget_def as_dict_def)
  then show ?thesis
    by (simp add: juuid_def demo_uuid)
qed

theorem verified_transaction_provisions_witness:
  "\<exists>v s' org. verify_transaction (demo_env True) 0 1 2 ''r1'' (bs_db demo_billing) = (Inr v, s') \<and>
     org_get_by_id s' 10 = Some org \<and> o_plan org = ''standard''"
proof -
  obtain s' where v: "verify_transaction (demo_env True) 0 1 2 ''r1'' (bs_db demo_billing) =
     (Inr \<lparr>vr_verified = True, vr_plan = ''standard'', vr_reference = ''r1''\<rparr>, s')"
    using demo_verify by blast
  from verified_transaction_provisions [OF demo_billing_wf this _ demo_response demo_response_data] v show ?thesis
    by (auto simp: demo_org_id)
qed

text \<open>
  A transaction reference never expires: a reference that verified once verifies again in any
  later state that still has the organization, even after the subscription was cancelled and the
  organization put back on the free plan, and provisions the same plan again without a new payment.
\<close>
theorem old_reference_reprovisions:
  assumes "verify_transaction env now sid cid reference s = (Inr v, s1)" and "vr_verified v"
    and "billing_wf s2" and "set (map o_id (db_organizations s)) \<subseteq> set (map o_id (db_organizations s2))"
    and "sid' \<notin> s_id ` set (db_subscriptions s2)"
  shows "\<exists>s3 org_id org. verify_transaction env now' sid' cid' reference s2 = (Inr v, s3) \<and>
    org_get_by_id s3 org_id = Some org \<and> o_plan org = vr_plan v"
proof -
  have "\<exists>s3. verify_transaction env now' sid' cid' reference s2 = (Inr v, s3)"
  proof -
    obtain result where res: "be_secret env \<noteq> []" "be_verify env reference = Some result"
      using assms(1) by (auto simp: verify_transaction_def split: if_splits option.splits)
    define data where "data = as_dict (dget result ''data'')"
    obtain org_id org where ok: "truthy (dget result ''status'')" "dget data ''status'' = JStr ''success''"
      "truthy (dget (as_dict (dget data ''metadata'')) ''org_id'')"
      "parse_uuid (py_str (dget (as_dict (dget data ''metadata'')) ''org_id'')) = Some org_id"
      "org_get_by_id s org_id = Some org"
      using assms(1,2) res
      by (auto simp: verify_transaction_def data_def [symmetric] Let_def split: if_splits option.splits)
    then have v: "v = \<lparr>vr_verified = True, vr_plan = normalized_plan data, vr_reference = reference\<rparr>"
      using assms(1) res
      by (auto simp: verify_transaction_def data_def [symmetric] Let_def split: sum.splits prod.splits)
    have "org_id \<in> set (map o_id (db_organizations s))"
      using org_repo.get_hit [OF ok(5)] by auto
    then have "org_get_by_id s2 org_id \<noteq> None"
      using assms(4) org_repo.get_miss [of s2 org_id] by auto
    then obtain org2 where org2: "org_get_by_id s2 org_id = Some org2"
      by blast
    obtain t where "upsert_subscription sid' org_id (normalized_plan data) ''active''
         (column_str (dget (as_dict (dget data ''customer'')) ''customer_code''))
         (Some (py_str (jor (dget data ''subscription_code'') (JStr reference))))
         (parse_datetime env (dget data ''paid_at'')) (parse_datetime env (dget data ''next_payment_date'')) s2 = (Inr (), t)"
      using upsert_succeeds [OF assms(5)] by blast
    then show ?thesis
      using res ok org2 v by (simp add: verify_transaction_def data_def [symmetric] Let_def)
  qed
  then obtain s3 where "verify_transaction env now' sid' cid' reference s2 = (Inr v, s3)"
    by blast
  moreover from this obtain result where "be_verify env reference = Some result"
    by (auto simp: verify_transaction_def split: if_splits option.splits)
  ultimately show ?thesis
    using verified_transaction_provisions_aux [OF assms(3) _ assms(2)] by blast
qed

theorem old_reference_reprovisions_witness:
  "\<exists>v s3 org_id org. verify_transaction (demo_env True) 9 3 4 ''r1''
     (snd (disable_webhook_subscription demo_data (bs_db demo_billing))) = (Inr v, s3) \<and>
     org_get_by_id s3 org_id = Some org \<and> o_plan org = ''standard''"
proof -
  obtain s' where v: "verify_transaction (demo_env True) 0 1 2 ''r1'' (bs_db demo_billing) =
     (Inr \<lparr>vr_verified = True, vr_plan = ''standard'', vr_reference = ''r1''\<rparr>, s')"
    using demo_verify by blast
  have d: "snd (disable_webhook_subscription demo_data (bs_db demo_billing)) = bs_db demo_billing"
    by (simp add: disable_webhook_subscription_def demo_data_def dget_def as_dict_def get_org_by_provider_customer_def
        demo_no_subscription demo_orgs one_or_none_def Let_def)
  from old_reference_reprovisions [OF v _ demo_billing_wf, of 3 9 4] show ?thesis
    unfolding d by (auto simp: demo_no_subscription)
qed

text \<open>
  A refund or charge-back event reverses every commission of the refunded payment, including
  paid ones, records the reason, and touches no other commission and no other table.
\<close>
theorem refund_reverses_commissions:
  assumes "commission_ids s" and "(event_type, reason) \<in> {(''refund.processed'', ''refund''), (''charge.refunded'', ''refund''),
      (''charge.dispute.create'', ''chargeback''), (''charge.dispute.remind'', ''chargeback'')}"
    and "dget data ''transaction_reference'' = JStr ref" and "ref \<noteq> []"
  shows "dispatch_event env now sid cid event_type data s = (Inr (),
    s\<lparr>db_commissions := map (\<lambda>c. if pc_billing_event_id c = ref \<and> pc_status c \<noteq> CReversed
        then c\<lparr>pc_status := CReversed, pc_reversal_reason := Some reason\<rparr> else c) (db_commissions s)\<rparr>)"
proof -
  have "snd (reverse_by_reference ref reason s) =
    s\<lparr>db_commissions := map (\<lambda>c. if pc_billing_event_id c = ref \<and> pc_status c \<noteq> CReversed
        then c\<lparr>pc_status := CReversed, pc_reversal_reason := Some reason\<rparr> else c) (db_commissions s)\<rparr>"
    using assms(1,4) unfolding reverse_by_reference_def Let_def
    by (simp, subst commission_loop_db) (simp add: commission_loop set_fields_def reverses_def cong: map_cong)
  then show ?thesis
    using assms(2-4) by (auto simp: dispatch_event_def reverse_partner_commissions_def jor_def)
qed

theorem refund_reverses_commissions_witness:
  "map pc_status (db_commissions (snd (dispatch_event (demo_env True) 0 1 2 ''refund.processed''
     [(''transaction_reference'', JStr ''r1'')]
     (demo_db\<lparr>db_commissions := [demo_commission 400 ''r1'' CPaid None, demo_commission 401 ''r2'' CPaid None]\<rparr>)))) =
   [CReversed, CPaid]"
proof -
  have "commission_ids (demo_db\<lparr>db_commissions := [demo_commission 400 ''r1'' CPaid None, demo_commission 401 ''r2'' CPaid None]\<rparr>)"
    by (simp add: commission_ids_def demo_commission_def)
  from refund_reverses_commissions [OF this, of "''refund.processed''" "''refund''" "[(''transaction_reference'', JStr ''r1'')]" "''r1''"
      "demo_env True" 0 1 2]
  show ?thesis
    by (simp add: dget_def demo_commission_def)
qed

text \<open>
  The agency plan, which the amounts table's comment and the error message exclude from
  self-serve checkout, passes every check of the checkout and is charged zero: the provider is asked
  for a transaction of amount 0 for plan agency.
\<close>
theorem agency_checkout_is_free:
  assumes "org_get_by_id s org_id = Some org" and "be_secret env \<noteq> []" and "email \<noteq> []"
    and "be_initialize env email 0 ''agency'' [(''org_id'', juuid org_id), (''plan'', JStr ''agency'')] = Some result"
    and "truthy (dget result ''status'')" and "dget result ''data'' = JObj data"
    and "map_of data ''authorization_url'' = Some a" and "map_of data ''reference'' = Some r"
    and "map_of data ''access_code'' = Some c"
  shows "initialize_payment env org_id ''Agency'' (Some email) s =
    (Inr \<lparr>pin_authorization_url = a, pin_reference = r, pin_access_code = c\<rparr>, s)"
proof -
  have "lower ''Agency'' = ''agency''" "lower ''agency'' = ''agency''"
    by code_simp+
  moreover from this have "is_paid_plan ''agency''" "map_of PLAN_AMOUNTS ''agency'' = Some 0"
    by (simp_all add: is_paid_plan_def get_plan_price_usd_def dict_get_def PLAN_PRICES_USD_def PLAN_AMOUNTS_def)
  moreover have "data \<noteq> []"
    using assms(7) by auto
  ultimately show ?thesis
    using assms
    by (simp add: initialize_payment_def checkout_email_def str_truthy_def initialize_transaction_def as_dict_def Let_def)
qed

theorem agency_checkout_is_free_witness:
  "\<exists>p. fst (initialize_payment (demo_env True) 10 ''Agency'' (Some ''a@x'') (bs_db demo_billing)) = Inr p \<and>
     pin_access_code p = JInt 0"
  using agency_checkout_is_free [OF demo_org_lookup, of "demo_env True" "''a@x''"]
  by (simp add: demo_env_def dget_def)

lemma plan_values_plain: "p \<in> set PLAN_VALUES \<Longrightarrow> strip p = p \<and> lower p = p \<and> p \<noteq> []"
  unfolding PLAN_VALUES_def by (simp, elim disjE) (hypsubst, code_simp)+

lemma checkout_plan:
  assumes "dget data ''metadata'' = JObj [(''org_id'', x), (''plan'', JStr p)]" and "p \<in> set PLAN_VALUES"
  shows "normalized_plan data = p"
  using plan_values_plain [OF assms(2)] assms
  by (simp add: normalized_plan_def dget_def [of "[(''org_id'', x), (''plan'', JStr p)]"] as_dict_def jor_def Let_def)

lemma priced_plan: "map_of PLAN_AMOUNTS p = Some a \<Longrightarrow> p \<in> set PLAN_VALUES"
  by (auto simp: PLAN_AMOUNTS_def PLAN_VALUES_def split: if_splits)

lemma checkout_request:
  assumes "initialize_payment env org_id plan email s = (Inr p, s')"
  shows "s' = s \<and> (\<exists>em amount result. be_secret env \<noteq> [] \<and> map_of PLAN_AMOUNTS (lower plan) = Some amount \<and>
    org_get_by_id s org_id \<noteq> None \<and>
    be_initialize env em amount (lower plan) [(''org_id'', juuid org_id), (''plan'', JStr (lower plan))] = Some result \<and>
    map_of (as_dict (dget result ''data'')) ''reference'' = Some (pin_reference p))"
  using assms
  by (auto simp: initialize_payment_def initialize_transaction_def Let_def split: option.splits if_splits sum.splits prod.splits)
    blast

text \<open>
  Checkout and verification agree: when Paystack reports the transaction a checkout opened as
  successful with the metadata the checkout sent, verifying its reference sets the organization that
  checked out to the plan it chose, whatever happened to the subscription in between.
\<close>
theorem checkout_roundtrip:
  assumes "initialize_payment env org_id plan email s = (Inr p, s0)" and "org_id < 2 ^ 128"
    and echo: "\<And>em amount pl metadata result.
      be_initialize env em amount pl metadata = Some result \<Longrightarrow>
      map_of (as_dict (dget result ''data'')) ''reference'' = Some (pin_reference p) \<Longrightarrow>
      \<exists>data. be_verify env' (py_str (pin_reference p)) = Some [(''status'', JBool True), (''data'', JObj data)] \<and>
        dget data ''status'' = JStr ''success'' \<and> dget data ''metadata'' = JObj metadata"
    and "be_secret env' \<noteq> []" and "billing_wf s2" and "org_get_by_id s2 org_id \<noteq> None"
    and "sid \<notin> s_id ` set (db_subscriptions s2)"
  shows "\<exists>s3 org. verify_transaction env' now sid cid (py_str (pin_reference p)) s2 =
      (Inr \<lparr>vr_verified = True, vr_plan = lower plan, vr_reference = py_str (pin_reference p)\<rparr>, s3) \<and>
    org_get_by_id s3 org_id = Some org \<and> o_plan org = lower plan"
proof -
  let ?md = "[(''org_id'', juuid org_id), (''plan'', JStr (lower plan))]"
  obtain em amount result where req: "map_of PLAN_AMOUNTS (lower plan) = Some amount"
      "be_initialize env em amount (lower plan) ?md = Some result"
      "map_of (as_dict (dget result ''data'')) ''reference'' = Some (pin_reference p)"
    using checkout_request [OF assms(1)] by blast
  obtain data where ver: "be_verify env' (py_str (pin_reference p)) = Some [(''status'', JBool True), (''data'', JObj data)]"
      "dget data ''status'' = JStr ''success''" "dget data ''metadata'' = JObj ?md"
    using echo [OF req(2,3)] by blast
  have plan: "normalized_plan data = lower plan"
    using checkout_plan [OF ver(3) priced_plan [OF req(1)]] .
  have id: "dget (as_dict (dget data ''metadata'')) ''org_id'' = juuid org_id"
    by (simp add: ver(3) as_dict_def dget_def [of ?md])
  have uuid: "parse_uuid (uuid_str org_id) = Some org_id" "uuid_str org_id \<noteq> []"
    using uuid_roundtrip_aux [OF assms(2)] by (auto simp: uuid_str_def Let_def)
  obtain org where org: "org_get_by_id s2 org_id = Some org"
    using assms(6) by blast
  obtain t where "upsert_subscription sid org_id (normalized_plan data) ''active''
       (column_str (dget (as_dict (dget data ''customer'')) ''customer_code''))
       (Some (py_str (jor (dget data ''subscription_code'') (JStr (py_str (pin_reference p))))))
       (parse_datetime env' (dget data ''paid_at'')) (parse_datetime env' (dget data ''next_payment_date'')) s2 = (Inr (), t)"
    using upsert_succeeds [OF assms(7)] by blast
  then obtain s3 where v: "verify_transaction env' now sid cid (py_str (pin_reference p)) s2 =
      (Inr \<lparr>vr_verified = True, vr_plan = lower plan, vr_reference = py_str (pin_reference p)\<rparr>, s3)"
    using assms(4) ver(1,2) id uuid org plan
    by (auto simp: verify_transaction_def dget_def [of "[(''status'', JBool True), (''data'', JObj data)]"]
        as_dict_def [of "JObj data"] juuid_def Let_def)
  from verified_transaction_provisions_aux [OF assms(5) v _ ver(1) refl] id uuid v show ?thesis
    by (auto simp: dget_def [of "[(''status'', JBool True), (''data'', JObj data)]"] as_dict_def [of "JObj data"] juuid_def)
qed

text \<open>A provider that opens one transaction and reports its metadata back.\<close>

definition demo_echo :: "bool \<Rightarrow> billing_env" where
  "demo_echo paid = (demo_env True)\<lparr>be_initialize := (\<lambda>_ _ _ metadata.
       if metadata = [(''org_id'', juuid 10), (''plan'', JStr ''starter'')]
       then Some [(''status'', JBool True), (''data'', JObj [(''authorization_url'', JStr ''u''), (''reference'', JStr ''r9''),
         (''access_code'', JStr ''a'')])] else None),
     be_verify := (\<lambda>_. Some [(''status'', JBool True), (''data'', JObj [(''status'', JStr (if paid then ''success'' else ''abandoned'')),
       (''metadata'', JObj [(''org_id'', juuid 10), (''plan'', JStr ''starter'')])])])\<rparr>"

lemma demo_checkout: "initialize_payment (demo_echo False) 10 ''Starter'' (Some ''a@x'') (bs_db demo_billing) =
  (Inr \<lparr>pin_authorization_url = JStr ''u'', pin_reference = JStr ''r9'', pin_access_code = JStr ''a''\<rparr>, bs_db demo_billing)"
proof -
  have "lower ''Starter'' = ''starter''" "is_paid_plan ''starter''" "map_of PLAN_AMOUNTS ''starter'' = Some 1900"
    by code_simp+
  then show ?thesis
    by (simp add: initialize_payment_def demo_org_lookup checkout_email_def str_truthy_def initialize_transaction_def
        demo_echo_def demo_env_def as_dict_def dget_def Let_def)
qed

theorem checkout_roundtrip_witness:
  "\<exists>s3 org. verify_transaction (demo_echo True) 5 1 2 ''r9'' (bs_db demo_billing) =
      (Inr \<lparr>vr_verified = True, vr_plan = ''starter'', vr_reference = ''r9''\<rparr>, s3) \<and>
    org_get_by_id s3 10 = Some org \<and> o_plan org = ''starter''"
proof -
  have low: "lower ''Starter'' = ''starter''"
    by code_simp
  have echo: "\<exists>data. be_verify (demo_echo True) r = Some [(''status'', JBool True), (''data'', JObj data)] \<and>
      dget data ''status'' = JStr ''success'' \<and> dget data ''metadata'' = JObj metadata"
    if "be_initialize (demo_echo False) em amount pl metadata = Some result" for em amount pl metadata result r
    using that by (auto simp: demo_echo_def dget_def split: if_splits)
  show ?thesis
    using checkout_roundtrip [OF demo_checkout _ echo _ demo_billing_wf, where now = 5 and sid = 1 and cid = 2]
    by (simp add: low demo_org_lookup demo_no_subscription) (simp add: demo_echo_def demo_env_def)
qed

end
