(* ===== verification/Monitoring.thy ===== *)
theory Monitoring
  imports Complex_Main Organizations Py_Values
begin

text \<open>
  The tables of the monitoring half of the program and their repositories: dependencies
  (\<^verbatim>\<open>modules/dependencies\<close>), check results (\<^verbatim>\<open>modules/checks\<close>), incidents and correlations
  (\<^verbatim>\<open>modules/incidents\<close>), attribution results (\<^verbatim>\<open>modules/attribution\<close>), alert configurations
  (\<^verbatim>\<open>modules/notifications\<close>), observations and their outbox (\<^verbatim>\<open>modules/observations\<close>).
  Latencies, confidences and scores are real numbers.  A query result is a filter of the table in
  the order the query asks for, rows with equal keys in insertion order.
\<close>

section \<open>Rows\<close>

record dependency =
  d_id :: uuid
  d_org_id :: uuid
  d_application_id :: "uuid option"
  d_name :: string
  d_endpoint_url :: string
  d_method :: string
  d_headers :: "(string \<times> json) list option"
  d_expected_status_codes :: "int list"
  d_timeout_seconds :: int
  d_check_interval_seconds :: int
  d_next_check_at :: "time option"
  d_regions :: "string list"
  d_alert_threshold_ms :: "int option"
  d_is_active :: bool
  d_is_deleted :: bool
  d_deleted_at :: "time option"
  d_created_at :: time

record check_result =
  cr_id :: uuid
  cr_executed_at :: time
  cr_dependency_id :: uuid
  cr_org_id :: uuid
  cr_region :: string
  cr_latency_ms :: real
  cr_status_code :: "int option"
  cr_is_up :: bool
  cr_error_message :: "string option"
  cr_quorum_confirmed :: bool

datatype incident_severity = Critical | Major | Minor
datatype incident_status = IncOpen | IncResolved | IncFalsePositive
datatype root_cause = VendorFailure | NetworkIssue | ConfigError | UnknownCause
datatype correlation_method = Temporal | Manual | Ml

fun incident_severity_value :: "incident_severity \<Rightarrow> string" where
  "incident_severity_value Critical = ''critical''"
| "incident_severity_value Major = ''major''"
| "incident_severity_value Minor = ''minor''"

definition DEFAULT_CORRELATION_CONFIDENCE :: real where "DEFAULT_CORRELATION_CONFIDENCE = 85 / 100"
definition TEMPORAL_WINDOW_SECONDS :: int where "TEMPORAL_WINDOW_SECONDS = 300"

record incident =
  in_id :: uuid
  in_org_id :: uuid
  in_dependency_id :: uuid
  in_started_at :: time
  in_resolved_at :: "time option"
  in_severity :: incident_severity
  in_status :: incident_status
  in_root_cause :: root_cause
  in_description :: "string option"
  in_evidence_report_id :: "uuid option"
  in_created_at :: time

record incident_correlation =
  ic_id :: uuid
  ic_incident_id :: uuid
  ic_correlated_dependency_id :: uuid
  ic_confidence :: real
  ic_time_window_seconds :: int
  ic_method :: correlation_method
  ic_created_at :: time

text \<open>Evidence attached to an attribution: an observation, or a signal with its score.\<close>

datatype evidence_item =
    ObservationItem uuid time string "string option"
  | SignalItem string real

record attribution_result =
  ar_id :: uuid
  ar_incident_id :: uuid
  ar_org_id :: uuid
  ar_suspected_dependency_id :: uuid
  ar_classification :: string
  ar_confidence_score :: real
  ar_signal_breakdown :: "(string \<times> real) list"
  ar_supporting_evidence :: "evidence_item list"
  ar_contradicting_evidence :: "evidence_item list"
  ar_methodology_version :: string
  ar_created_at :: time

record alert_config =
  ac_id :: uuid
  ac_org_id :: uuid
  ac_channel_type :: string
  ac_config :: "(string \<times> json) list"
  ac_is_active :: bool
  ac_created_at :: time

text \<open>
  \<^verbatim>\<open>ObservationCreateDTO\<close> and \<^verbatim>\<open>Observation\<close>.  The TLS columns are never set by a caller in the
  repository and are left out.
\<close>

record observation_create =
  oc_timestamp :: "time option"
  oc_source_type :: string
  oc_source_id :: "uuid option"
  oc_org_id :: "uuid option"
  oc_region :: string
  oc_endpoint_url :: string
  oc_latency_ms :: real
  oc_status_code :: "int option"
  oc_response_time_ms :: "real option"
  oc_error_type :: "string option"
  oc_error_message :: "string option"
  oc_metadata :: "(string \<times> json) list"

record observation =
  ob_id :: uuid
  ob_timestamp :: time
  ob_source_type :: string
  ob_source_id :: "uuid option"
  ob_org_id :: "uuid option"
  ob_region :: string
  ob_endpoint_url :: string
  ob_latency_ms :: real
  ob_status_code :: "int option"
  ob_response_time_ms :: "real option"
  ob_error_type :: "string option"
  ob_error_message :: "string option"
  ob_metadata :: "(string \<times> json) list"

text \<open>The payload is the value its JSON text validates to, if it does.\<close>

record outbox_event =
  ox_id :: uuid
  ox_event_type :: string
  ox_payload :: "observation_create option"
  ox_created_at :: time

text \<open>The session state: the tables above beside those of the accounts.\<close>

record monitor =
  mo_db :: db
  mo_dependencies :: "dependency list"
  mo_checks :: "check_result list"
  mo_incidents :: "incident list"
  mo_correlations :: "incident_correlation list"
  mo_attributions :: "attribution_result list"
  mo_alerts :: "alert_config list"
  mo_outbox :: "outbox_event list"
  mo_observations :: "observation list"

definition empty_monitor :: monitor where
  "empty_monitor = \<lparr>mo_db = empty_db, mo_dependencies = [], mo_checks = [], mo_incidents = [],
     mo_correlations = [], mo_attributions = [], mo_alerts = [], mo_outbox = [], mo_observations = []\<rparr>"

section \<open>Dependencies\<close>

definition dependency_row :: "monitor \<Rightarrow> uuid \<Rightarrow> dependency option" where
  "dependency_row s i = get_row d_id i (mo_dependencies s)"

definition dep_get_by_id :: "monitor \<Rightarrow> uuid \<Rightarrow> dependency option" where
  "dep_get_by_id s i = (case dependency_row s i of None \<Rightarrow> None
     | Some d \<Rightarrow> if d_is_deleted d then None else Some d)"

definition save_dependency :: "dependency \<Rightarrow> monitor \<Rightarrow> monitor" where
  "save_dependency d s = s\<lparr>mo_dependencies := save_row d_id d (mo_dependencies s)\<rparr>"

definition add_dependency :: "dependency \<Rightarrow> monitor \<Rightarrow> monitor" where
  "add_dependency d s = s\<lparr>mo_dependencies := mo_dependencies s @ [d]\<rparr>"

interpretation dependency_repo:
  row_repo d_id mo_dependencies dependency_row save_dependency add_dependency
  by unfold_locales
    (auto simp: dependency_row_def save_dependency_def add_dependency_def get_row_None dest: get_row_Some)

definition org_dependencies :: "monitor \<Rightarrow> uuid \<Rightarrow> dependency list" where
  "org_dependencies s org_id = filter (\<lambda>d. d_org_id d = org_id \<and> \<not> d_is_deleted d) (mo_dependencies s)"

text \<open>A cursor that names no dependency compares with SQL's null, which selects nothing.\<close>

definition dep_list_for_org :: "monitor \<Rightarrow> uuid \<Rightarrow> nat \<Rightarrow> uuid option \<Rightarrow> dependency list" where
  "dep_list_for_org s org_id cnt cursor = page_of (\<lambda>d. - d_created_at d) 0 cnt
     (filter (\<lambda>d. case cursor of None \<Rightarrow> True
        | Some c \<Rightarrow> (case dependency_row s c of None \<Rightarrow> False | Some x \<Rightarrow> d_created_at d < d_created_at x))
      (org_dependencies s org_id))"

definition dep_count_for_org :: "monitor \<Rightarrow> uuid \<Rightarrow> nat" where
  "dep_count_for_org s org_id = length (org_dependencies s org_id)"

text \<open>A missing \<^verbatim>\<open>next_check_at\<close> is never due.\<close>

definition is_due :: "time \<Rightarrow> dependency \<Rightarrow> bool" where
  "is_due now d = (d_is_active d \<and> \<not> d_is_deleted d \<and>
     (case d_next_check_at d of None \<Rightarrow> False | Some t \<Rightarrow> t \<le> now))"

definition get_due_dependencies :: "time \<Rightarrow> nat \<Rightarrow> monitor \<Rightarrow> dependency list" where
  "get_due_dependencies now cnt s =
     page_of (\<lambda>d. case d_next_check_at d of None \<Rightarrow> 0 | Some t \<Rightarrow> t) 0 cnt (filter (is_due now) (mo_dependencies s))"

definition dep_create :: "dependency \<Rightarrow> (dependency, monitor) service" where
  "dep_create d s = (if d_id d \<in> d_id ` set (mo_dependencies s)
     then (Inl (IntegrityError ''dependencies_pkey''), s) else (Inr d, add_dependency d s))"

text \<open>
  The keyword arguments its callers pass to \<^verbatim>\<open>update\<close>.  Two of them, \<^verbatim>\<open>application_id\<close> and
  \<^verbatim>\<open>alert_threshold_ms\<close>, are not in \<^verbatim>\<open>_UPDATABLE_FIELDS\<close> and change nothing.
\<close>

datatype dependency_field =
    DfName "string option"
  | DfApplicationId "uuid option"
  | DfEndpointUrl "string option"
  | DfMethod "string option"
  | DfHeaders "(string \<times> json) list option"
  | DfExpectedStatusCodes "int list option"
  | DfTimeoutSeconds "int option"
  | DfCheckIntervalSeconds "int option"
  | DfRegions "string list option"
  | DfAlertThresholdMs "int option"
  | DfIsActive "bool option"

fun put_dependency :: "dependency_field \<Rightarrow> dependency \<Rightarrow> dependency" where
  "put_dependency (DfName (Some v)) d = d\<lparr>d_name := v\<rparr>"
| "put_dependency (DfEndpointUrl (Some v)) d = d\<lparr>d_endpoint_url := v\<rparr>"
| "put_dependency (DfMethod (Some v)) d = d\<lparr>d_method := v\<rparr>"
| "put_dependency (DfHeaders (Some v)) d = d\<lparr>d_headers := Some v\<rparr>"
| "put_dependency (DfExpectedStatusCodes (Some v)) d = d\<lparr>d_expected_status_codes := v\<rparr>"
| "put_dependency (DfTimeoutSeconds (Some v)) d = d\<lparr>d_timeout_seconds := v\<rparr>"
| "put_dependency (DfCheckIntervalSeconds (Some v)) d = d\<lparr>d_check_interval_seconds := v\<rparr>"
| "put_dependency (DfRegions (Some v)) d = d\<lparr>d_regions := v\<rparr>"
| "put_dependency (DfIsActive (Some v)) d = d\<lparr>d_is_active := v\<rparr>"
| "put_dependency _ d = d"

definition dep_update :: "dependency \<Rightarrow> dependency_field list \<Rightarrow> monitor \<Rightarrow> dependency \<times> monitor" where
  "dep_update d kws s = (let d' = set_fields put_dependency kws d in (d', save_dependency d' s))"

definition dep_soft_delete :: "time \<Rightarrow> dependency \<Rightarrow> monitor \<Rightarrow> monitor" where
  "dep_soft_delete now d s =
     save_dependency (d\<lparr>d_is_deleted := True, d_is_active := False, d_deleted_at := Some now\<rparr>) s"

section \<open>Check results\<close>

text \<open>The key of the partitioned table is the identifier with the execution time.\<close>

definition check_create ::
  "uuid \<Rightarrow> time \<Rightarrow> uuid \<Rightarrow> uuid \<Rightarrow> string \<Rightarrow> real \<Rightarrow> bool \<Rightarrow> int option \<Rightarrow> string option \<Rightarrow> bool \<Rightarrow>
   (check_result, monitor) service" where
  "check_create i now dependency_id org_id region latency_ms is_up code error_message quorum_confirmed s =
     (let r = \<lparr>cr_id = i, cr_executed_at = now, cr_dependency_id = dependency_id, cr_org_id = org_id,
               cr_region = region, cr_latency_ms = latency_ms, cr_status_code = code, cr_is_up = is_up,
               cr_error_message = error_message, cr_quorum_confirmed = quorum_confirmed\<rparr>
      in if i \<in> cr_id ` set (mo_checks s) then (Inl (IntegrityError ''check_results_pkey''), s)
         else if (case error_message of None \<Rightarrow> False | Some m \<Rightarrow> length m > 500)
         then (Inl (ValueError ''value too long for type character varying(500)''), s)
         else (Inr r, s\<lparr>mo_checks := mo_checks s @ [r]\<rparr>))"

definition confirm_quorum :: "check_result \<Rightarrow> monitor \<Rightarrow> monitor" where
  "confirm_quorum r s = s\<lparr>mo_checks := save_row cr_id (r\<lparr>cr_quorum_confirmed := True\<rparr>) (mo_checks s)\<rparr>"

text \<open>The results of a dependency that is not soft-deleted, newest first.\<close>

definition check_rows :: "monitor \<Rightarrow> uuid \<Rightarrow> check_result list" where
  "check_rows s dependency_id = filter (\<lambda>r. cr_dependency_id r = dependency_id \<and>
     dep_get_by_id s dependency_id \<noteq> None) (mo_checks s)"

definition list_for_dependency :: "monitor \<Rightarrow> uuid \<Rightarrow> nat \<Rightarrow> check_result list" where
  "list_for_dependency s dependency_id cnt = page_of (\<lambda>r. - cr_executed_at r) 0 cnt (check_rows s dependency_id)"

definition list_recent_for_dependency :: "time \<Rightarrow> monitor \<Rightarrow> uuid \<Rightarrow> int \<Rightarrow> check_result list" where
  "list_recent_for_dependency now s dependency_id window_seconds =
     sort_key (\<lambda>r. - cr_executed_at r)
       (filter (\<lambda>r. now - seconds window_seconds \<le> cr_executed_at r) (check_rows s dependency_id))"

definition checks_list_for_org :: "monitor \<Rightarrow> uuid \<Rightarrow> nat \<Rightarrow> check_result list" where
  "checks_list_for_org s org_id cnt = page_of (\<lambda>r. - cr_executed_at r) 0 cnt
     (filter (\<lambda>r. cr_org_id r = org_id \<and> dep_get_by_id s (cr_dependency_id r) \<noteq> None) (mo_checks s))"

text \<open>\<^verbatim>\<open>round(x, n)\<close>: the nearest decimal with \<^verbatim>\<open>n\<close> places, ties to the even digit.\<close>

definition round_even :: "real \<Rightarrow> int" where
  "round_even x = (let f = \<lfloor>x\<rfloor>; d = x - of_int f in
     if d < 1 / 2 then f else if d > 1 / 2 then f + 1 else if even f then f else f + 1)"

definition py_round :: "nat \<Rightarrow> real \<Rightarrow> real" where
  "py_round n x = of_int (round_even (x * 10 ^ n)) / 10 ^ n"

record check_stats =
  cs_uptime_percentage :: real
  cs_avg_latency_ms :: real
  cs_total_checks :: nat
  cs_total_up :: nat
  cs_total_down :: nat

definition stats_of :: "check_result list \<Rightarrow> check_stats" where
  "stats_of rs =
     (if rs = [] then \<lparr>cs_uptime_percentage = 100, cs_avg_latency_ms = 0, cs_total_checks = 0, cs_total_up = 0, cs_total_down = 0\<rparr>
      else (let total = length rs; up = length (filter cr_is_up rs) in
        \<lparr>cs_uptime_percentage = py_round 2 (real up / real total * 100),
         cs_avg_latency_ms = py_round 2 (sum_list (map cr_latency_ms rs) / real total),
         cs_total_checks = total, cs_total_up = up, cs_total_down = total - up\<rparr>))"

definition get_aggregated_stats :: "time \<Rightarrow> monitor \<Rightarrow> uuid \<Rightarrow> int \<Rightarrow> check_stats" where
  "get_aggregated_stats now s dependency_id window_hours =
     stats_of (filter (\<lambda>r. now - hours window_hours \<le> cr_executed_at r) (check_rows s dependency_id))"

text \<open>
  One query for many dependencies, grouped by dependency; a dependency without rows in the window
  gets the default.
\<close>

definition bulk_rows :: "time \<Rightarrow> monitor \<Rightarrow> uuid list \<Rightarrow> int \<Rightarrow> check_result list" where
  "bulk_rows now s ids window_hours = filter (\<lambda>r. cr_dependency_id r \<in> set ids \<and>
     now - hours window_hours \<le> cr_executed_at r \<and> dep_get_by_id s (cr_dependency_id r) \<noteq> None) (mo_checks s)"

definition group_rows :: "check_result list \<Rightarrow> (uuid \<times> check_result list) list" where
  "group_rows rs = map (\<lambda>i. (i, filter (\<lambda>r. cr_dependency_id r = i) rs)) (remdups (map cr_dependency_id rs))"

definition get_aggregated_stats_bulk :: "time \<Rightarrow> monitor \<Rightarrow> uuid list \<Rightarrow> int \<Rightarrow> (uuid \<rightharpoonup> check_stats)" where
  "get_aggregated_stats_bulk now s ids window_hours =
     (\<lambda>i. case map_of (group_rows (bulk_rows now s ids window_hours)) i of
        Some rs \<Rightarrow> Some (stats_of rs) | None \<Rightarrow> if i \<in> set ids then Some (stats_of []) else None)"

section \<open>Incidents\<close>

definition incident_get_by_id :: "monitor \<Rightarrow> uuid \<Rightarrow> incident option" where
  "incident_get_by_id s i = get_row in_id i (mo_incidents s)"

definition save_incident :: "incident \<Rightarrow> monitor \<Rightarrow> monitor" where
  "save_incident r s = s\<lparr>mo_incidents := save_row in_id r (mo_incidents s)\<rparr>"

definition add_incident :: "incident \<Rightarrow> monitor \<Rightarrow> monitor" where
  "add_incident r s = s\<lparr>mo_incidents := mo_incidents s @ [r]\<rparr>"

interpretation incident_repo:
  row_repo in_id mo_incidents incident_get_by_id save_incident add_incident
  by unfold_locales
    (auto simp: incident_get_by_id_def save_incident_def add_incident_def get_row_None dest: get_row_Some)

definition is_open_for :: "uuid \<Rightarrow> incident \<Rightarrow> bool" where
  "is_open_for dependency_id r = (in_dependency_id r = dependency_id \<and> in_status r = IncOpen)"

definition get_open_for_dependency :: "monitor \<Rightarrow> uuid \<Rightarrow> incident option" where
  "get_open_for_dependency s dependency_id = find (is_open_for dependency_id) (mo_incidents s)"

text \<open>
  The flush of an incident fails on a taken key, and on the partial unique index
  \<^verbatim>\<open>uq_incidents_one_open_per_dependency\<close> of migration 0014.
\<close>

text \<open>The partial unique index of migration 0014 is on the organization and the dependency of the open rows.\<close>

definition is_open_pair :: "uuid \<Rightarrow> uuid \<Rightarrow> incident \<Rightarrow> bool" where
  "is_open_pair org_id dependency_id r = (in_org_id r = org_id \<and> is_open_for dependency_id r)"

definition incident_create ::
  "uuid \<Rightarrow> time \<Rightarrow> uuid \<Rightarrow> uuid \<Rightarrow> incident_severity \<Rightarrow> string option \<Rightarrow> (incident, monitor) service" where
  "incident_create i now org_id dependency_id severity description s =
     (let r = \<lparr>in_id = i, in_org_id = org_id, in_dependency_id = dependency_id, in_started_at = now,
               in_resolved_at = None, in_severity = severity, in_status = IncOpen, in_root_cause = UnknownCause,
               in_description = description, in_evidence_report_id = None, in_created_at = now\<rparr>
      in if i \<in> in_id ` set (mo_incidents s) then (Inl (IntegrityError ''incidents_pkey''), s)
         else if list_ex (is_open_pair org_id dependency_id) (mo_incidents s)
         then (Inl (IntegrityError ''uq_incidents_one_open_per_dependency''), s)
         else (Inr r, add_incident r s))"

datatype incident_field =
    IfStatus "incident_status option"
  | IfSeverity "incident_severity option"
  | IfRootCause "root_cause option"
  | IfDescription "string option"
  | IfResolvedAt "time option"
  | IfEvidenceReportId "uuid option"

fun put_incident :: "incident_field \<Rightarrow> incident \<Rightarrow> incident" where
  "put_incident (IfStatus (Some v)) r = r\<lparr>in_status := v\<rparr>"
| "put_incident (IfSeverity (Some v)) r = r\<lparr>in_severity := v\<rparr>"
| "put_incident (IfRootCause (Some v)) r = r\<lparr>in_root_cause := v\<rparr>"
| "put_incident (IfDescription (Some v)) r = r\<lparr>in_description := Some v\<rparr>"
| "put_incident (IfResolvedAt (Some v)) r = r\<lparr>in_resolved_at := Some v\<rparr>"
| "put_incident (IfEvidenceReportId (Some v)) r = r\<lparr>in_evidence_report_id := Some v\<rparr>"
| "put_incident _ r = r"

text \<open>The flush fails on the partial index when the row becomes a second open one.\<close>

definition incident_update :: "incident \<Rightarrow> incident_field list \<Rightarrow> (incident, monitor) service" where
  "incident_update r kws s =
     (let r' = set_fields put_incident kws r in
      if in_status r' = IncOpen \<and>
         list_ex (\<lambda>x. in_id x \<noteq> in_id r' \<and> is_open_pair (in_org_id r') (in_dependency_id r') x) (mo_incidents s)
      then (Inl (IntegrityError ''uq_incidents_one_open_per_dependency''), s)
      else (Inr r', save_incident r' s))"

definition incidents_list_for_org ::
  "monitor \<Rightarrow> uuid \<Rightarrow> nat \<Rightarrow> incident_status option \<Rightarrow> incident_severity option \<Rightarrow> incident list" where
  "incidents_list_for_org s org_id cnt status severity = page_of (\<lambda>r. - in_started_at r) 0 cnt
     (filter (\<lambda>r. in_org_id r = org_id \<and> (status = None \<or> status = Some (in_status r)) \<and>
        (severity = None \<or> severity = Some (in_severity r))) (mo_incidents s))"

definition list_open_in_window :: "monitor \<Rightarrow> uuid \<Rightarrow> time \<Rightarrow> int \<Rightarrow> uuid \<Rightarrow> incident list" where
  "list_open_in_window s org_id center window_seconds exclude =
     filter (\<lambda>r. in_org_id r = org_id \<and> center - seconds window_seconds \<le> in_started_at r \<and>
       in_started_at r \<le> center + seconds window_seconds \<and> in_status r = IncOpen \<and> in_id r \<noteq> exclude)
     (mo_incidents s)"

definition create_correlation ::
  "uuid \<Rightarrow> time \<Rightarrow> uuid \<Rightarrow> uuid \<Rightarrow> real \<Rightarrow> int \<Rightarrow> correlation_method \<Rightarrow> monitor \<Rightarrow> incident_correlation \<times> monitor" where
  "create_correlation i now incident_id dependency_id confidence window_seconds method s =
     (let r = \<lparr>ic_id = i, ic_incident_id = incident_id, ic_correlated_dependency_id = dependency_id,
               ic_confidence = confidence, ic_time_window_seconds = window_seconds, ic_method = method,
               ic_created_at = now\<rparr>
      in (r, s\<lparr>mo_correlations := mo_correlations s @ [r]\<rparr>))"

definition get_correlations :: "monitor \<Rightarrow> uuid \<Rightarrow> incident_correlation list" where
  "get_correlations s incident_id =
     sort_key (\<lambda>c. - ic_confidence c) (filter (\<lambda>c. ic_incident_id c = incident_id) (mo_correlations s))"

section \<open>Attribution results, observations and the outbox\<close>

definition attribution_get_by_incident :: "monitor \<Rightarrow> uuid \<Rightarrow> attribution_result option" where
  "attribution_get_by_incident s incident_id = get_row ar_incident_id incident_id (mo_attributions s)"

definition attribution_create :: "attribution_result \<Rightarrow> (attribution_result, monitor) service" where
  "attribution_create r s =
     (if ar_id r \<in> ar_id ` set (mo_attributions s) \<or> ar_incident_id r \<in> ar_incident_id ` set (mo_attributions s)
      then (Inl (IntegrityError ''attribution_results''), s)
      else (Inr r, s\<lparr>mo_attributions := mo_attributions s @ [r]\<rparr>))"

definition list_for_source ::
  "monitor \<Rightarrow> uuid \<Rightarrow> string \<Rightarrow> nat \<Rightarrow> time option \<Rightarrow> time option \<Rightarrow> observation list" where
  "list_for_source s source_id source_type cnt since until = page_of (\<lambda>x. - ob_timestamp x) 0 cnt
     (filter (\<lambda>x. ob_source_id x = Some source_id \<and> ob_source_type x = source_type \<and>
        (case since of None \<Rightarrow> True | Some t \<Rightarrow> t \<le> ob_timestamp x) \<and>
        (case until of None \<Rightarrow> True | Some t \<Rightarrow> ob_timestamp x \<le> t)) (mo_observations s))"

text \<open>
  The insertion of an observation: its organization must exist, and the text columns have their
  lengths; the region and the URL were bounded when the payload was validated.
\<close>

definition observation_fits :: "monitor \<Rightarrow> observation_create \<Rightarrow> bool" where
  "observation_fits s dto =
     ((case oc_org_id dto of None \<Rightarrow> True | Some g \<Rightarrow> org_get_by_id (mo_db s) g \<noteq> None) \<and>
      (case oc_error_type dto of None \<Rightarrow> True | Some e \<Rightarrow> length e \<le> 50) \<and>
      (case oc_error_message dto of None \<Rightarrow> True | Some e \<Rightarrow> length e \<le> 500))"

definition observation_of :: "uuid \<Rightarrow> time \<Rightarrow> observation_create \<Rightarrow> observation" where
  "observation_of i now dto =
     \<lparr>ob_id = i, ob_timestamp = (case oc_timestamp dto of None \<Rightarrow> now | Some t \<Rightarrow> t),
      ob_source_type = oc_source_type dto, ob_source_id = oc_source_id dto, ob_org_id = oc_org_id dto,
      ob_region = oc_region dto, ob_endpoint_url = oc_endpoint_url dto, ob_latency_ms = oc_latency_ms dto,
      ob_status_code = oc_status_code dto, ob_response_time_ms = oc_response_time_ms dto,
      ob_error_type = oc_error_type dto, ob_error_message = oc_error_message dto, ob_metadata = oc_metadata dto\<rparr>"

definition observation_add :: "uuid \<Rightarrow> time \<Rightarrow> observation_create \<Rightarrow> (observation, monitor) service" where
  "observation_add i now dto s =
     (if observation_fits s dto then (Inr (observation_of i now dto), s\<lparr>mo_observations := mo_observations s @ [observation_of i now dto]\<rparr>)
      else (Inl (IntegrityError ''observations''), s))"

definition alerts_list_for_org :: "monitor \<Rightarrow> uuid \<Rightarrow> bool \<Rightarrow> alert_config list" where
  "alerts_list_for_org s org_id active_only = sort_key (\<lambda>c. - ac_created_at c)
     (filter (\<lambda>c. ac_org_id c = org_id \<and> (active_only \<longrightarrow> ac_is_active c)) (mo_alerts s))"

end
