(* ===== verification/Url.thy ===== *)
theory Url
  imports Py_Values "HOL-Library.Word"
begin

unbundle bit_operations_syntax

text \<open>
  The parts of Python's standard library the outbound requests rest on: \<^verbatim>\<open>urllib.parse.urlparse\<close>
  and \<^verbatim>\<open>urljoin\<close> for the hierarchical schemes the checks use, the \<^verbatim>\<open>hostname\<close> and
  \<^verbatim>\<open>port\<close> of a parsed URL, and \<^verbatim>\<open>ipaddress.ip_address\<close> with network membership.  An IPv4
  address is a 32-bit word, an IPv6 address a 128-bit word.
\<close>

section \<open>Splitting strings\<close>

definition before :: "char \<Rightarrow> string \<Rightarrow> string" where
  "before c s = takeWhile (\<lambda>x. x \<noteq> c) s"

text \<open>The part after the first \<^verbatim>\<open>c\<close>, empty when there is none.\<close>

definition after :: "char \<Rightarrow> string \<Rightarrow> string" where
  "after c s = tl (dropWhile (\<lambda>x. x \<noteq> c) s)"

text \<open>\<^verbatim>\<open>s.split(c)\<close>; the result is never empty.\<close>

fun split_on :: "char \<Rightarrow> string \<Rightarrow> string list" where
  "split_on c [] = [[]]"
| "split_on c (x # xs) = (if x = c then [] # split_on c xs
     else case split_on c xs of [] \<Rightarrow> [[x]] | p # ps \<Rightarrow> (x # p) # ps)"

definition rafter :: "char \<Rightarrow> string \<Rightarrow> string" where
  "rafter c s = rev (before c (rev s))"

lemma split_on_not_Nil [simp]: "split_on c s \<noteq> []"
  by (induction s) (auto split: list.splits)

section \<open>URLs\<close>

record url_parts =
  ur_scheme :: string
  ur_netloc :: string
  ur_path :: string
  ur_params :: string
  ur_query :: string
  ur_fragment :: string

definition is_digit :: "char \<Rightarrow> bool" where
  "is_digit c = (digit_val c \<noteq> None)"

definition scheme_char :: "char \<Rightarrow> bool" where
  "scheme_char c = (is_alpha c \<or> is_digit c \<or> c = CHR ''+'' \<or> c = CHR ''-'' \<or> c = CHR ''.'')"

definition split_scheme :: "string \<Rightarrow> string \<Rightarrow> string \<times> string" where
  "split_scheme dflt u =
     (let p = before CHR '':'' u in
      if CHR '':'' \<in> set u \<and> p \<noteq> [] \<and> is_alpha (hd p) \<and> list_all scheme_char p
      then (lower p, after CHR '':'' u) else (dflt, u))"

text \<open>
  \<^verbatim>\<open>urlsplit\<close> removes leading control characters and blanks and embedded tabs and line ends, and
  fails on unbalanced brackets.  (The check that a bracketed host is an IPv6 address, new in
  3.11.4, only turns a malformed host into the same error earlier.)
\<close>

definition clean_url :: "string \<Rightarrow> string" where
  "clean_url u = filter (\<lambda>c. (of_char c :: nat) \<notin> {9, 10, 13}) (dropWhile (\<lambda>c. (of_char c :: nat) \<le> 32) u)"

definition split_params :: "string \<Rightarrow> string \<times> string" where
  "split_params path =
     (let seg = rafter CHR ''/'' path; dir = take (length path - length seg) path
      in if CHR '';'' \<in> set seg then (dir @ before CHR '';'' seg, after CHR '';'' seg) else (path, []))"

definition urlparse :: "string \<Rightarrow> string \<Rightarrow> url_parts option" where
  "urlparse dflt u0 =
     (let (scheme, u1) = split_scheme dflt (clean_url u0);
          stop = (\<lambda>c. c \<in> {CHR ''/'', CHR ''?'', CHR ''#''});
          (netloc, u2) = (if starts_with u1 ''//''
             then (takeWhile (\<lambda>c. \<not> stop c) (drop 2 u1), dropWhile (\<lambda>c. \<not> stop c) (drop 2 u1))
             else ([], u1));
          u3 = before CHR ''#'' u2; path0 = before CHR ''?'' u3;
          (path, params) = (if scheme \<in> {''http'', ''https''} then split_params path0 else (path0, []))
      in if (CHR ''['' \<in> set netloc) \<noteq> (CHR '']'' \<in> set netloc) then None
         else Some \<lparr>ur_scheme = scheme, ur_netloc = netloc, ur_path = path, ur_params = params,
                ur_query = after CHR ''?'' u3, ur_fragment = after CHR ''#'' u2\<rparr>)"

definition urlunparse :: "url_parts \<Rightarrow> string" where
  "urlunparse p =
     (let path = ur_path p @ (if ur_params p = [] then [] else '';'' @ ur_params p);
          path = (if ur_netloc p \<noteq> [] \<or> (ur_scheme p \<in> {''http'', ''https''} \<and> \<not> starts_with path ''//'')
            then ''//'' @ ur_netloc p @ (if path \<noteq> [] \<and> hd path \<noteq> CHR ''/'' then ''/'' @ path else path)
            else path)
      in (if ur_scheme p = [] then [] else ur_scheme p @ '':'') @ path @
         (if ur_query p = [] then [] else ''?'' @ ur_query p) @
         (if ur_fragment p = [] then [] else ''#'' @ ur_fragment p))"

definition host_info :: "url_parts \<Rightarrow> string" where
  "host_info p = rafter CHR ''@'' (ur_netloc p)"

definition url_hostname :: "url_parts \<Rightarrow> string option" where
  "url_hostname p =
     (let h = host_info p;
          name = (if CHR ''['' \<in> set h then before CHR '']'' (after CHR ''['' h) else before CHR '':'' h);
          zone = drop (length (before CHR ''%'' name)) name
      in if name = [] then None else Some (lower (before CHR ''%'' name) @ zone))"

text \<open>\<^verbatim>\<open>port\<close>: absent, or a number; \<^verbatim>\<open>Inl\<close> where Python raises \<^verbatim>\<open>ValueError\<close>.\<close>

definition url_port :: "url_parts \<Rightarrow> unit + nat option" where
  "url_port p =
     (let h = host_info p;
          s = (if CHR ''['' \<in> set h then after CHR '':'' (after CHR '']'' (after CHR ''['' h)) else after CHR '':'' h)
      in if s = [] then Inr None
         else case parse_digits 0 s of None \<Rightarrow> Inl ()
           | Some n \<Rightarrow> if n \<le> 65535 then Inr (Some n) else Inl ())"

text \<open>\<^verbatim>\<open>urljoin\<close> for a base with scheme \<^verbatim>\<open>http\<close> or \<^verbatim>\<open>https\<close>.\<close>

fun pop_segments :: "string list \<Rightarrow> string list \<Rightarrow> string list" where
  "pop_segments acc [] = rev acc"
| "pop_segments acc (s # ss) =
     (if s = ''..'' then pop_segments (tl acc) ss
      else if s = ''.'' then pop_segments acc ss
      else pop_segments (s # acc) ss)"

definition join_path :: "string \<Rightarrow> string \<Rightarrow> string" where
  "join_path bpath path =
     (let bs = split_on CHR ''/'' bpath;
          bs = (if last bs \<noteq> [] then butlast bs else bs);
          segs = (if starts_with path ''/'' then split_on CHR ''/'' path
            else (let all = bs @ split_on CHR ''/'' path
                  in if length all \<le> 2 then all
                     else [hd all] @ filter (\<lambda>s. s \<noteq> []) (butlast (tl all)) @ [last all]));
          resolved = pop_segments [] segs @ (if last segs \<in> {''.'', ''..''} then [[]] else []);
          r = join ''/'' resolved
      in if r = [] then ''/'' else r)"

definition urljoin :: "string \<Rightarrow> string \<Rightarrow> string option" where
  "urljoin base u =
     (if u = [] then Some base
      else case urlparse [] base of None \<Rightarrow> None
      | Some b \<Rightarrow>
        (case urlparse (ur_scheme b) u of None \<Rightarrow> None
         | Some p \<Rightarrow>
             if ur_scheme p \<noteq> ur_scheme b \<or> ur_scheme p \<notin> {''http'', ''https''} then Some u
             else if ur_netloc p \<noteq> [] then Some (urlunparse p)
             else if ur_path p = [] \<and> ur_params p = []
             then Some (urlunparse (p\<lparr>ur_netloc := ur_netloc b, ur_path := ur_path b, ur_params := ur_params b,
                    ur_query := (if ur_query p = [] then ur_query b else ur_query p)\<rparr>))
             else Some (urlunparse (p\<lparr>ur_netloc := ur_netloc b, ur_path := join_path (ur_path b) (ur_path p)\<rparr>))))"

section \<open>IP addresses\<close>

datatype ip = IPv4 "32 word" | IPv6 "128 word"
datatype ip_network = Net4 "32 word" nat | Net6 "128 word" nat

fun in_network :: "ip \<Rightarrow> ip_network \<Rightarrow> bool" where
  "in_network (IPv4 a) (Net4 n l) = (drop_bit (32 - l) a = drop_bit (32 - l) n)"
| "in_network (IPv6 a) (Net6 n l) = (drop_bit (128 - l) a = drop_bit (128 - l) n)"
| "in_network _ _ = False"

definition parse_octet :: "string \<Rightarrow> nat option" where
  "parse_octet s = (if s = [] \<or> length s > 3 \<or> (s \<noteq> ''0'' \<and> hd s = CHR ''0'') then None
     else case parse_digits 0 s of None \<Rightarrow> None | Some n \<Rightarrow> if n \<le> 255 then Some n else None)"

definition parse_ipv4 :: "string \<Rightarrow> 32 word option" where
  "parse_ipv4 s = (case map parse_octet (split_on CHR ''.'' s) of
     [Some a, Some b, Some c, Some d] \<Rightarrow> Some (of_int (((int a * 256 + int b) * 256 + int c) * 256 + int d))
   | _ \<Rightarrow> None)"

fun hex_int :: "int \<Rightarrow> string \<Rightarrow> int option" where
  "hex_int acc [] = Some acc"
| "hex_int acc (c # cs) = (case hex_val c of None \<Rightarrow> None | Some d \<Rightarrow> hex_int (16 * acc + int d) cs)"

definition parse_hextet :: "string \<Rightarrow> int option" where
  "parse_hextet s = (if s = [] \<or> length s > 4 then None else hex_int 0 s)"

fun hextets :: "int \<Rightarrow> string list \<Rightarrow> int option" where
  "hextets acc [] = Some acc"
| "hextets acc (p # ps) = (case parse_hextet p of None \<Rightarrow> None | Some h \<Rightarrow> hextets (acc * 65536 + h) ps)"

text \<open>A trailing dotted quad becomes two hextets.\<close>

definition hextet_str :: "int \<Rightarrow> string" where
  "hextet_str h = map (\<lambda>d. hex_char (nat d)) [h div 4096 mod 16, h div 256 mod 16, h div 16 mod 16, h mod 16]"

definition expand_quad :: "string list \<Rightarrow> string list option" where
  "expand_quad parts =
     (if CHR ''.'' \<in> set (last parts)
      then map_option (\<lambda>q. butlast parts @ [hextet_str (uint q div 65536), hextet_str (uint q mod 65536)])
             (parse_ipv4 (last parts))
      else Some parts)"

text \<open>The positions of the inner empty parts, that is of \<^verbatim>\<open>::\<close>.\<close>

definition skip_positions :: "string list \<Rightarrow> nat list" where
  "skip_positions parts = filter (\<lambda>i. parts ! i = []) [1..<length parts - 1]"

definition parse_ipv6_parts :: "string list \<Rightarrow> int option" where
  "parse_ipv6_parts parts =
     (case skip_positions parts of
        [] \<Rightarrow> if length parts \<noteq> 8 \<or> hd parts = [] \<or> last parts = [] then None else hextets 0 parts
      | [i] \<Rightarrow>
          (let hi = take i parts; lo = drop (i + 1) parts;
               hi' = (if hd parts = [] then tl hi else hi);
               lo' = (if last parts = [] then butlast lo else lo)
           in if (hd parts = [] \<and> hi' \<noteq> []) \<or> (last parts = [] \<and> lo' \<noteq> []) \<or> length hi' + length lo' > 7 then None
              else (case (hextets 0 hi', hextets 0 lo') of
                 (Some h, Some l) \<Rightarrow> Some (h * 65536 ^ (8 - length hi') + l)
               | _ \<Rightarrow> None))
      | _ \<Rightarrow> None)"

definition parse_ipv6 :: "string \<Rightarrow> 128 word option" where
  "parse_ipv6 s0 =
     (let s = before CHR ''%'' s0; scope = after CHR ''%'' s0 in
      if CHR ''%'' \<in> set s0 \<and> (scope = [] \<or> CHR ''%'' \<in> set scope) then None
      else (let parts = split_on CHR '':'' s in
        if length parts < 3 then None
        else case expand_quad parts of None \<Rightarrow> None
          | Some ps \<Rightarrow> if length ps > 9 then None else map_option of_int (parse_ipv6_parts ps)))"

text \<open>\<^verbatim>\<open>ipaddress.ip_address\<close>; \<^verbatim>\<open>None\<close> where it raises.\<close>

definition ip_address :: "string \<Rightarrow> ip option" where
  "ip_address s = (case parse_ipv4 s of Some a \<Rightarrow> Some (IPv4 a)
     | None \<Rightarrow> map_option IPv6 (parse_ipv6 s))"

end
