(* ===== verification/Ssrf.thy ===== *)
theory Ssrf
  imports Url Permissions
begin

text \<open>
  \<^verbatim>\<open>src/app/core/ssrf_protection.py\<close>: the outbound URL policy and the pinning of a connection to
  the addresses that were validated.  Name resolution is outside the repository: \<^verbatim>\<open>dns k h\<close> is the
  answer to the \<^verbatim>\<open>k\<close>-th lookup of the process, for host \<^verbatim>\<open>h\<close> (the empty list when it fails), so
  two lookups of one name may differ.  Every function takes the number of lookups made so far and
  returns the new one.
\<close>

type_synonym resolver = "nat \<Rightarrow> string \<Rightarrow> string list"

definition blocked_networks :: "ip_network list" where
  "blocked_networks = [
     Net4 0x0A000000 8, Net4 0xAC100000 12, Net4 0xC0A80000 16, Net4 0x7F000000 8, Net4 0xA9FE0000 16,
     Net6 1 128, Net6 0xFC000000000000000000000000000000 7, Net6 0xFE800000000000000000000000000000 10]"

definition blocked :: "ip \<Rightarrow> bool" where
  "blocked a = list_ex (in_network a) blocked_networks"

text \<open>\<^verbatim>\<open>None\<close> where \<^verbatim>\<open>ip_address\<close> raises.\<close>

definition is_public_ip :: "string \<Rightarrow> bool option" where
  "is_public_ip s = map_option (\<lambda>a. \<not> blocked a) (ip_address s)"

definition private_reason :: "string \<Rightarrow> string \<Rightarrow> string" where
  "private_reason hostname resolved = ''Hostname '' @ quoted hostname @ '' resolves to '' @ resolved @
     '', which is in a private/blocked network''"

definition unresolved_reason :: "string \<Rightarrow> string" where
  "unresolved_reason hostname = ''Cannot resolve hostname '' @ quoted hostname"

text \<open>\<^verbatim>\<open>is_url_safe\<close>: the reason of a rejection, or \<^verbatim>\<open>None\<close> when the URL is safe.\<close>

definition is_url_safe :: "resolver \<Rightarrow> nat \<Rightarrow> string \<Rightarrow> string option \<times> nat" where
  "is_url_safe dns k url = (case urlparse [] url of
     None \<Rightarrow> (Some ''Cannot parse URL: Invalid IPv6 URL'', k)
   | Some parsed \<Rightarrow>
       if ur_scheme parsed \<notin> {''http'', ''https''}
       then (Some (''Scheme '' @ quoted (ur_scheme parsed) @ '' is not allowed''), k)
       else (case url_hostname parsed of
         None \<Rightarrow> (Some ''URL has no hostname'', k)
       | Some hostname \<Rightarrow>
           if is_public_ip hostname = Some False
           then (Some (''IP '' @ hostname @ '' points to a private/blocked network''), k)
           else (case dns k hostname of
             [] \<Rightarrow> (Some (unresolved_reason hostname), k + 1)
           | ips \<Rightarrow> (map_option (private_reason hostname) (find (\<lambda>r. is_public_ip r = Some False) ips), k + 1))))"

definition validate_outbound_url :: "resolver \<Rightarrow> nat \<Rightarrow> string \<Rightarrow> (string + unit) \<times> nat" where
  "validate_outbound_url dns k url = (case is_url_safe dns k url of
     (Some reason, k') \<Rightarrow> (Inl (''URL safety check failed: '' @ reason), k')
   | (None, k') \<Rightarrow> (Inr (), k'))"

record pinned_target =
  pt_url :: string
  pt_hostname :: string
  pt_port :: nat
  pt_ips :: "string list"

text \<open>The check of the second lookup: every address must be public, and a malformed one raises.\<close>

fun all_public :: "string \<Rightarrow> string list \<Rightarrow> string + unit" where
  "all_public hostname [] = Inr ()"
| "all_public hostname (r # rs) = (case is_public_ip r of
     None \<Rightarrow> Inl (quoted r @ '' does not appear to be an IPv4 or IPv6 address'')
   | Some False \<Rightarrow> Inl (private_reason hostname r)
   | Some True \<Rightarrow> all_public hostname rs)"

definition target_port :: "url_parts \<Rightarrow> string + nat" where
  "target_port parsed = (case url_port parsed of
     Inl _ \<Rightarrow> Inl ''Port could not be cast to integer value''
   | Inr p \<Rightarrow> Inr (case p of Some n \<Rightarrow> if n = 0 then (if ur_scheme parsed = ''https'' then 443 else 80) else n
       | None \<Rightarrow> (if ur_scheme parsed = ''https'' then 443 else 80)))"

definition resolve_pinned_target :: "resolver \<Rightarrow> nat \<Rightarrow> string \<Rightarrow> (string + pinned_target) \<times> nat" where
  "resolve_pinned_target dns k url = (case validate_outbound_url dns k url of
     (Inl e, k') \<Rightarrow> (Inl e, k')
   | (Inr _, k') \<Rightarrow>
       (case urlparse [] url of None \<Rightarrow> (Inl ''Invalid IPv6 URL'', k')
        | Some parsed \<Rightarrow>
            (let hostname = (case url_hostname parsed of None \<Rightarrow> [] | Some h \<Rightarrow> h);
                 resolved = dns k' hostname
             in if resolved = [] then (Inl (unresolved_reason hostname), k' + 1)
                else case all_public hostname resolved of Inl e \<Rightarrow> (Inl e, k' + 1)
                | Inr _ \<Rightarrow>
                    (case target_port parsed of Inl e \<Rightarrow> (Inl e, k' + 1)
                     | Inr port \<Rightarrow> (Inr \<lparr>pt_url = url, pt_hostname = hostname, pt_port = port, pt_ips = resolved\<rparr>, k' + 1)))))"

text \<open>
  A pinned transport is determined by its cache key: it connects to \<^verbatim>\<open>tr_ip\<close> and verifies the
  certificate against \<^verbatim>\<open>tr_hostname\<close>.
\<close>

record transport =
  tr_hostname :: string
  tr_port :: nat
  tr_use_ssl :: bool
  tr_ip :: string

definition pinned_transport_for :: "pinned_target \<Rightarrow> transport" where
  "pinned_transport_for t = \<lparr>tr_hostname = pt_hostname t, tr_port = pt_port t,
     tr_use_ssl = starts_with (lower (pt_url t)) ''https://'', tr_ip = hd (pt_ips t)\<rparr>"

section \<open>What a pinned connection reaches\<close>

lemma all_public_iff: "all_public h rs = Inr () \<longleftrightarrow> list_all (\<lambda>r. is_public_ip r = Some True) rs"
  by (induction rs) (auto split: option.split bool.split)

text \<open>A transport is admissible when the address it connects to is a public one.\<close>

definition admissible :: "transport \<Rightarrow> bool" where
  "admissible t = (is_public_ip (tr_ip t) = Some True)"

lemma pinned_admissible:
  assumes "resolve_pinned_target dns k url = (Inr t, k')"
  shows "admissible (pinned_transport_for t)" and "list_all (\<lambda>r. is_public_ip r = Some True) (pt_ips t)"
    and "pt_ips t \<noteq> []" and "pt_url t = url"
proof -
  obtain h where "all_public h (pt_ips t) = Inr ()" "pt_ips t \<noteq> []" "pt_url t = url"
    using assms by (auto simp: resolve_pinned_target_def Let_def split: prod.splits sum.splits option.splits if_splits)
  then show "admissible (pinned_transport_for t)" "list_all (\<lambda>r. is_public_ip r = Some True) (pt_ips t)"
    "pt_ips t \<noteq> []" "pt_url t = url"
    by (auto simp: all_public_iff admissible_def pinned_transport_for_def list_all_iff)
qed

end
