(* ===== verification/Notifications.thy ===== *)
theory Notifications
  imports Monitoring Redis Ssrf
begin

text \<open>
  \<^verbatim>\<open>modules/notifications\<close>: alert configurations, the four channels and the deduplicated
  dispatch of an alert.  A message that leaves the process is a value of \<^verbatim>\<open>outbound\<close>, recorded
  in the order of sending.  The receivers, the digests and pydantic's JSON text of an alert are the
  fields of \<^verbatim>\<open>notify_env\<close>: \<^verbatim>\<open>ne_accepts m\<close> says whether the receiver takes the message
  (a status below 400, a delivered mail).
\<close>

record alert_payload =
  al_org :: uuid
  al_incident_id :: "uuid option"
  al_severity :: string
  al_title :: string
  al_body :: string
  al_metadata :: "(string \<times> json) list"

datatype outbound =
    OutEmail string string string
  | OutSlack string string
  | OutPagerDuty json string string alert_payload
  | OutWebhook string string "(string \<times> string) list"

record notify_env =
  ne_secret_key :: string
  ne_accepts :: "outbound \<Rightarrow> bool"
  ne_digest :: "string \<Rightarrow> string \<Rightarrow> string"
  ne_hexdigest :: "string \<Rightarrow> string \<Rightarrow> string"
  ne_sha256 :: "string \<Rightarrow> string"
  ne_json :: "alert_payload \<Rightarrow> string"
  ne_dns :: resolver

record notify_state =
  ns_redis :: "string redis"
  ns_lookups :: nat
  ns_sent :: "outbound list"

definition send_out :: "notify_env \<Rightarrow> outbound \<Rightarrow> notify_state \<Rightarrow> bool \<times> notify_state" where
  "send_out env m s = (ne_accepts env m, s\<lparr>ns_sent := ns_sent s @ [m]\<rparr>)"

section \<open>Channels\<close>

definition webhook_secret_for_org :: "notify_env \<Rightarrow> uuid \<Rightarrow> string" where
  "webhook_secret_for_org env org_id = ne_digest env (ne_secret_key env) (''webhook:'' @ uuid_str org_id)"

definition sign_webhook_payload :: "notify_env \<Rightarrow> time \<Rightarrow> uuid \<Rightarrow> string \<Rightarrow> (string \<times> string) list" where
  "sign_webhook_payload env now org_id body =
     (let timestamp = show_int (now div seconds 1);
          signature = ne_hexdigest env (webhook_secret_for_org env org_id) (timestamp @ ''.'' @ body)
      in [(''X-Reliastra-Signature'', ''t='' @ timestamp @ '',sha256='' @ signature),
          (''X-Reliastra-Timestamp'', timestamp)])"

definition newline :: string where "newline = [CHR 0x0A]"

definition send_email :: "notify_env \<Rightarrow> alert_payload \<Rightarrow> (string \<times> json) list \<Rightarrow> notify_state \<Rightarrow> bool \<times> notify_state" where
  "send_email env alert config s =
     (let recipient = jor (dget config ''email'') (dget config ''recipient'') in
      if \<not> truthy recipient then (False, s)
      else send_out env (OutEmail (py_str recipient)
             (''['' @ upper (al_severity alert) @ ''] '' @ al_title alert)
             (al_body alert @ newline @ newline @ ''Incident ID: '' @
              (case al_incident_id alert of None \<Rightarrow> ''N/A'' | Some i \<Rightarrow> uuid_str i) @ newline @
              ''Metadata: '' @ py_str (JObj (al_metadata alert)))) s)"

text \<open>Validates the URL first; a value that is not a string does not parse.\<close>

definition guarded_send ::
  "notify_env \<Rightarrow> json \<Rightarrow> (string \<Rightarrow> outbound) \<Rightarrow> notify_state \<Rightarrow> bool \<times> notify_state" where
  "guarded_send env target message s =
     (if \<not> truthy target then (False, s)
      else (case target of
        JStr u \<Rightarrow> (case validate_outbound_url (ne_dns env) (ns_lookups s) u of
            (Inl _, k) \<Rightarrow> (False, s\<lparr>ns_lookups := k\<rparr>)
          | (Inr _, k) \<Rightarrow> send_out env (message u) (s\<lparr>ns_lookups := k\<rparr>))
      | _ \<Rightarrow> (False, s)))"

definition send_slack :: "notify_env \<Rightarrow> alert_payload \<Rightarrow> (string \<times> json) list \<Rightarrow> notify_state \<Rightarrow> bool \<times> notify_state" where
  "send_slack env alert config s = guarded_send env (dget config ''webhook_url'')
     (\<lambda>u. OutSlack u (''*'' @ al_title alert @ ''* ['' @ upper (al_severity alert) @ '']'' @ newline @ al_body alert)) s"

definition pagerduty_severity :: "string \<Rightarrow> string" where
  "pagerduty_severity severity =
     dict_get [(''critical'', ''critical''), (''major'', ''error''), (''minor'', ''warning'')] (lower severity) ''info''"

definition send_pagerduty :: "notify_env \<Rightarrow> alert_payload \<Rightarrow> (string \<times> json) list \<Rightarrow> notify_state \<Rightarrow> bool \<times> notify_state" where
  "send_pagerduty env alert config s =
     (let routing_key = dget config ''routing_key'' in
      if \<not> truthy routing_key then (False, s)
      else send_out env (OutPagerDuty routing_key (al_title alert) (pagerduty_severity (al_severity alert)) alert) s)"

definition send_webhook :: "notify_env \<Rightarrow> time \<Rightarrow> alert_payload \<Rightarrow> (string \<times> json) list \<Rightarrow> notify_state \<Rightarrow> bool \<times> notify_state" where
  "send_webhook env now alert config s =
     (let body = ne_json env alert in
      guarded_send env (dget config ''url'')
        (\<lambda>u. OutWebhook u body (sign_webhook_payload env now (al_org alert) body @ [(''Content-Type'', ''application/json'')])) s)"

definition send_to_channel ::
  "notify_env \<Rightarrow> time \<Rightarrow> alert_payload \<Rightarrow> string \<Rightarrow> (string \<times> json) list \<Rightarrow> notify_state \<Rightarrow> bool \<times> notify_state" where
  "send_to_channel env now alert channel_type config s =
     (let c = lower channel_type in
      if c = ''email'' then send_email env alert config s
      else if c = ''slack'' then send_slack env alert config s
      else if c = ''pagerduty'' then send_pagerduty env alert config s
      else if c = ''webhook'' then send_webhook env now alert config s
      else (False, s))"

section \<open>Dispatch\<close>

definition alert_fingerprint :: "notify_env \<Rightarrow> alert_payload \<Rightarrow> string" where
  "alert_fingerprint env alert = ne_sha256 env (uuid_str (al_org alert) @ ''|'' @ al_severity alert @ ''|'' @
     al_title alert @ ''|'' @ (case al_incident_id alert of Some i \<Rightarrow> uuid_str i
       | None \<Rightarrow> (case map_of (al_metadata alert) ''dependency_id'' of None \<Rightarrow> [] | Some v \<Rightarrow> py_str v)))"

definition is_duplicate_alert :: "notify_env \<Rightarrow> time \<Rightarrow> alert_payload \<Rightarrow> string redis \<Rightarrow> bool \<times> string redis" where
  "is_duplicate_alert env now alert r =
     (case redis_claim 60 ''1'' now (''alert:dedup:'' @ alert_fingerprint env alert) r of
        (claimed, r') \<Rightarrow> (\<not> claimed, r'))"

fun send_all ::
  "notify_env \<Rightarrow> time \<Rightarrow> alert_payload \<Rightarrow> alert_config list \<Rightarrow> nat \<Rightarrow> notify_state \<Rightarrow> nat \<times> notify_state" where
  "send_all env now alert [] n s = (n, s)"
| "send_all env now alert (c # cs) n s =
     (case send_to_channel env now alert (ac_channel_type c) (ac_config c) s of
        (ok, s') \<Rightarrow> send_all env now alert cs (if ok then n + 1 else n) s')"

definition dispatch_alert ::
  "notify_env \<Rightarrow> time \<Rightarrow> monitor \<Rightarrow> alert_payload \<Rightarrow> notify_state \<Rightarrow> nat \<times> notify_state" where
  "dispatch_alert env now m alert s =
     (case is_duplicate_alert env now alert (ns_redis s) of
        (True, r) \<Rightarrow> (0, s\<lparr>ns_redis := r\<rparr>)
      | (False, r) \<Rightarrow> send_all env now alert (alerts_list_for_org m (al_org alert) True) 0 (s\<lparr>ns_redis := r\<rparr>))"

section \<open>Alert configurations\<close>

datatype channel_type = EmailChannel | SlackChannel | PagerDutyChannel | WebhookChannel

fun channel_value :: "channel_type \<Rightarrow> string" where
  "channel_value EmailChannel = ''email''"
| "channel_value SlackChannel = ''slack''"
| "channel_value PagerDutyChannel = ''pagerduty''"
| "channel_value WebhookChannel = ''webhook''"

definition alert_get_by_id :: "monitor \<Rightarrow> uuid \<Rightarrow> alert_config option" where
  "alert_get_by_id s i = get_row ac_id i (mo_alerts s)"

definition save_alert :: "alert_config \<Rightarrow> monitor \<Rightarrow> monitor" where
  "save_alert r s = s\<lparr>mo_alerts := save_row ac_id r (mo_alerts s)\<rparr>"

definition add_alert :: "alert_config \<Rightarrow> monitor \<Rightarrow> monitor" where
  "add_alert r s = s\<lparr>mo_alerts := mo_alerts s @ [r]\<rparr>"

interpretation alert_repo: row_repo ac_id mo_alerts alert_get_by_id save_alert add_alert
  by unfold_locales (auto simp: alert_get_by_id_def save_alert_def add_alert_def get_row_None dest: get_row_Some)

definition list_configs :: "monitor \<Rightarrow> uuid \<Rightarrow> alert_config list" where
  "list_configs s org_id = alerts_list_for_org s org_id False"

definition create_config ::
  "uuid \<Rightarrow> time \<Rightarrow> uuid \<Rightarrow> channel_type \<Rightarrow> (string \<times> json) list \<Rightarrow> bool \<Rightarrow> (alert_config, monitor) service" where
  "create_config i now org_id channel config active s =
     (let r = \<lparr>ac_id = i, ac_org_id = org_id, ac_channel_type = channel_value channel, ac_config = config,
               ac_is_active = active, ac_created_at = now\<rparr>
      in if i \<in> ac_id ` set (mo_alerts s) then (Inl (IntegrityError ''alert_configs_pkey''), s) else (Inr r, add_alert r s))"

definition owned_config :: "monitor \<Rightarrow> uuid \<Rightarrow> uuid \<Rightarrow> app_error + alert_config" where
  "owned_config s org_id i = (case alert_get_by_id s i of
     None \<Rightarrow> Inl (ResourceNotFoundException ''Alert configuration not found'')
   | Some r \<Rightarrow> if ac_org_id r \<noteq> org_id then Inl (ResourceNotFoundException ''Alert configuration not found'') else Inr r)"

definition get_config :: "uuid \<Rightarrow> uuid \<Rightarrow> (alert_config, monitor) service" where
  "get_config org_id i s = (case owned_config s org_id i of Inl e \<Rightarrow> (Inl e, s) | Inr r \<Rightarrow> (Inr r, s))"

definition update_config ::
  "uuid \<Rightarrow> uuid \<Rightarrow> channel_type option \<Rightarrow> (string \<times> json) list option \<Rightarrow> bool option \<Rightarrow> (alert_config, monitor) service" where
  "update_config org_id i channel config active s = (case owned_config s org_id i of Inl e \<Rightarrow> (Inl e, s)
   | Inr r \<Rightarrow>
       (let r1 = (case channel of None \<Rightarrow> r | Some c \<Rightarrow> r\<lparr>ac_channel_type := channel_value c\<rparr>);
            r2 = (case config of None \<Rightarrow> r1 | Some c \<Rightarrow> r1\<lparr>ac_config := c\<rparr>);
            r3 = (case active of None \<Rightarrow> r2 | Some a \<Rightarrow> r2\<lparr>ac_is_active := a\<rparr>)
        in (Inr r3, save_alert r3 s)))"

definition delete_config :: "uuid \<Rightarrow> uuid \<Rightarrow> (unit, monitor) service" where
  "delete_config org_id i s = (case owned_config s org_id i of Inl e \<Rightarrow> (Inl e, s)
   | Inr r \<Rightarrow> (Inr (), s\<lparr>mo_alerts := filter (\<lambda>x. ac_id x \<noteq> ac_id r) (mo_alerts s)\<rparr>))"

definition send_test_alert ::
  "notify_env \<Rightarrow> time \<Rightarrow> monitor \<Rightarrow> uuid \<Rightarrow> uuid \<Rightarrow> notify_state \<Rightarrow> (app_error + bool) \<times> notify_state" where
  "send_test_alert env now m org_id i s = (case owned_config m org_id i of Inl e \<Rightarrow> (Inl e, s)
   | Inr r \<Rightarrow>
       (case send_to_channel env now \<lparr>al_org = org_id, al_incident_id = None, al_severity = ''minor'',
            al_title = ''Reliastra Test Alert'', al_body = ''This is a test notification from Reliastra MVP.'',
            al_metadata = [(''test'', JBool True)]\<rparr> (ac_channel_type r) (ac_config r) s of
          (ok, s') \<Rightarrow> (Inr ok, s')))"

section \<open>Laws\<close>

text \<open>A URL that leaves the process has passed the outbound policy.\<close>

fun outbound_url :: "outbound \<Rightarrow> string option" where
  "outbound_url (OutSlack u t) = Some u"
| "outbound_url (OutWebhook u b h) = Some u"
| "outbound_url _ = None"

definition vetted :: "notify_env \<Rightarrow> outbound \<Rightarrow> bool" where
  "vetted env m = (case outbound_url m of None \<Rightarrow> True
     | Some u \<Rightarrow> \<exists>k k'. validate_outbound_url (ne_dns env) k u = (Inr (), k'))"

lemma guarded_send_vetted:
  assumes "\<And>u. outbound_url (message u) = Some u" and "list_all (vetted env) (ns_sent s)"
  shows "list_all (vetted env) (ns_sent (snd (guarded_send env target message s)))"
  using assms by (auto simp: guarded_send_def send_out_def vetted_def split: json.splits prod.splits sum.splits)

lemma channel_vetted:
  assumes "list_all (vetted env) (ns_sent s)"
  shows "list_all (vetted env) (ns_sent (snd (send_to_channel env now alert c config s)))"
  using assms
  by (auto simp: send_to_channel_def Let_def send_slack_def send_webhook_def send_email_def send_pagerduty_def
      send_out_def vetted_def [of env "OutEmail _ _ _"] vetted_def [of env "OutPagerDuty _ _ _ _"]
      intro!: guarded_send_vetted)

lemma send_all_vetted:
  "list_all (vetted env) (ns_sent s) \<Longrightarrow> list_all (vetted env) (ns_sent (snd (send_all env now alert cs n s)))"
  by (induction cs arbitrary: n s) (auto simp: case_prod_beta intro: channel_vetted)

lemma channel_redis:
  "ns_redis (snd (send_to_channel env now alert c config s)) = ns_redis s"
proof -
  have "ns_redis (snd (guarded_send env target message s)) = ns_redis s" for target message
    by (cases target) (auto simp: guarded_send_def send_out_def split: prod.splits sum.splits)
  then show ?thesis
    by (simp add: send_to_channel_def Let_def send_slack_def send_webhook_def send_email_def send_pagerduty_def send_out_def)
qed

lemma send_all_redis: "ns_redis (snd (send_all env now alert cs n s)) = ns_redis s"
  by (induction cs arbitrary: n s) (auto simp: case_prod_beta channel_redis)

lemma dispatch_redis:
  "ns_redis (snd (dispatch_alert env now m alert s)) = snd (is_duplicate_alert env now alert (ns_redis s))"
  by (auto simp: dispatch_alert_def send_all_redis split: prod.splits bool.splits)

end
