(* ===== verification/Attribution.thy ===== *)
theory Attribution
  imports Monitoring
begin

text \<open>
  \<^verbatim>\<open>modules/attribution/service.py\<close>: the deterministic engine that turns five signals of an
  incident into a confidence and a classification.  The arithmetic is exact real arithmetic, with
  Python's rounding to decimals.
\<close>

definition signal_weights :: "(string \<times> real) list" where
  "signal_weights = [(''temporal'', 20 / 100), (''endpoint_overlap'', 25 / 100), (''latency_correlation'', 25 / 100),
     (''error_pattern'', 15 / 100), (''infrastructure_baseline'', 15 / 100)]"

definition METHODOLOGY_VERSION :: string where "METHODOLOGY_VERSION = ''v1.0''"

definition signal_temporal :: "monitor \<Rightarrow> incident \<Rightarrow> real" where
  "signal_temporal s inc =
     (if list_open_in_window s (in_org_id inc) (in_started_at inc) 300 (in_id inc) \<noteq> [] then 1 else 0)"

definition signal_endpoint_overlap :: "monitor \<Rightarrow> incident \<Rightarrow> real" where
  "signal_endpoint_overlap s inc = (case get_correlations s (in_id inc) of
     [] \<Rightarrow> 0 | cs \<Rightarrow> min 1 (Max (set (map ic_confidence cs))))"

definition mean :: "real list \<Rightarrow> real" where
  "mean xs = sum_list xs / real (length xs)"

definition signal_latency_correlation :: "observation list \<Rightarrow> real" where
  "signal_latency_correlation obs =
     (let latencies = map (\<lambda>x. max 0 (ob_latency_ms x)) obs in
      if length latencies < 2 then 0
      else (let m = mean latencies; variance = mean (map (\<lambda>v. (v - m)\<^sup>2) latencies)
            in min 1 (max 0 (sqrt variance / (m + 1)))))"

definition error_types :: "observation list \<Rightarrow> string list" where
  "error_types obs = concat (map (\<lambda>x. case ob_error_type x of None \<Rightarrow> [] | Some e \<Rightarrow> if e = [] then [] else [e]) obs)"

definition signal_error_pattern :: "observation list \<Rightarrow> real" where
  "signal_error_pattern obs =
     (let errors = error_types obs in
      if errors = [] then 0 else real (Max (set (map (count_list errors) errors))) / real (length errors))"

definition signal_scores :: "monitor \<Rightarrow> incident \<Rightarrow> observation list \<Rightarrow> bool \<Rightarrow> (string \<times> real) list" where
  "signal_scores s inc obs infrastructure_ok = map (\<lambda>(n, v). (n, py_round 4 v))
     [(''temporal'', signal_temporal s inc), (''endpoint_overlap'', signal_endpoint_overlap s inc),
      (''latency_correlation'', signal_latency_correlation obs), (''error_pattern'', signal_error_pattern obs),
      (''infrastructure_baseline'', if infrastructure_ok then 1 else 0)]"

definition confidence_of :: "(string \<times> real) list \<Rightarrow> real" where
  "confidence_of scores = py_round 2 (sum_list (map (\<lambda>(n, w). (case map_of scores n of None \<Rightarrow> 0 | Some v \<Rightarrow> v) * w) signal_weights) * 100)"

definition classification_of :: "real \<Rightarrow> bool \<Rightarrow> string" where
  "classification_of confidence infrastructure_ok =
     (if confidence \<ge> 75 then ''vendor_failure''
      else if confidence \<ge> 50 then ''multi_cause''
      else if \<not> infrastructure_ok then ''infrastructure_issue''
      else ''unknown'')"

definition collect_supporting :: "observation list \<Rightarrow> (string \<times> real) list \<Rightarrow> evidence_item list" where
  "collect_supporting obs scores =
     map (\<lambda>x. ObservationItem (ob_id x) (ob_timestamp x) (ob_region x) (ob_error_type x))
       (filter (\<lambda>x. ob_error_type x \<noteq> None \<or> ob_status_code x = None) obs) @
     map (\<lambda>(n, v). SignalItem n v) (filter (\<lambda>(n, v). v \<ge> 1 / 2) scores)"

definition collect_contradicting :: "(string \<times> real) list \<Rightarrow> evidence_item list" where
  "collect_contradicting scores = map (\<lambda>(n, v). SignalItem n v) (filter (\<lambda>(n, v). v < 1 / 2) scores)"

definition compute_attribution ::
  "uuid \<Rightarrow> time \<Rightarrow> monitor \<Rightarrow> incident \<Rightarrow> observation list \<Rightarrow> bool \<Rightarrow> attribution_result" where
  "compute_attribution i now s inc obs infrastructure_ok =
     (let scores = signal_scores s inc obs infrastructure_ok;
          confidence = confidence_of scores
      in \<lparr>ar_id = i, ar_incident_id = in_id inc, ar_org_id = in_org_id inc,
          ar_suspected_dependency_id = in_dependency_id inc,
          ar_classification = classification_of confidence infrastructure_ok, ar_confidence_score = confidence,
          ar_signal_breakdown = scores, ar_supporting_evidence = collect_supporting obs scores,
          ar_contradicting_evidence = collect_contradicting scores,
          ar_methodology_version = METHODOLOGY_VERSION, ar_created_at = now\<rparr>)"

section \<open>Bounds\<close>

lemma round_even_bounds: "of_int (round_even x) \<le> x + 1 / 2" "x - 1 / 2 \<le> of_int (round_even x)"
  unfolding round_even_def Let_def by (simp_all split: if_splits, linarith+)

lemma round_even_mono:
  assumes "x \<le> y"
  shows "round_even x \<le> round_even y"
proof (cases "\<lfloor>x\<rfloor> = \<lfloor>y\<rfloor>")
  case True
  with assms show ?thesis
    by (auto simp: round_even_def Let_def)
next
  case False
  then have "\<lfloor>x\<rfloor> + 1 \<le> \<lfloor>y\<rfloor>"
    using assms floor_mono by fastforce
  moreover have "round_even x \<le> \<lfloor>x\<rfloor> + 1" "\<lfloor>y\<rfloor> \<le> round_even y"
    by (auto simp: round_even_def Let_def)
  ultimately show ?thesis
    by linarith
qed

lemma round_even_of_int [simp]: "round_even (of_int k) = k"
  by (simp add: round_even_def)

lemma py_round_mono: "x \<le> y \<Longrightarrow> py_round n x \<le> py_round n y"
  by (simp add: py_round_def divide_right_mono round_even_mono)

lemma py_round_nat [simp]: "py_round n (of_nat k) = of_nat k"
proof -
  have "real k * 10 ^ n = of_int (int k * 10 ^ n)"
    by simp
  then have "round_even (real k * 10 ^ n) = int k * 10 ^ n"
    by (metis round_even_of_int)
  then show ?thesis
    by (simp add: py_round_def)
qed

lemma py_round_01 [simp]: "py_round n 0 = 0" "py_round n 1 = 1" "py_round n 100 = 100"
  using py_round_nat [of n 0] py_round_nat [of n 1] py_round_nat [of n 100] by simp_all

lemma py_round_unit: "0 \<le> x \<Longrightarrow> x \<le> 1 \<Longrightarrow> 0 \<le> py_round n x \<and> py_round n x \<le> 1"
  using py_round_mono [of 0 x n] py_round_mono [of x 1 n] by simp

lemma signal_unit:
  shows "0 \<le> signal_temporal s inc \<and> signal_temporal s inc \<le> 1"
    and "0 \<le> signal_latency_correlation obs \<and> signal_latency_correlation obs \<le> 1"
    and "0 \<le> signal_error_pattern obs \<and> signal_error_pattern obs \<le> 1"
proof -
  show "0 \<le> signal_temporal s inc \<and> signal_temporal s inc \<le> 1"
    by (simp add: signal_temporal_def)
  show "0 \<le> signal_latency_correlation obs \<and> signal_latency_correlation obs \<le> 1"
    by (simp add: signal_latency_correlation_def Let_def)
  let ?e = "error_types obs"
  have "Max (set (map (count_list ?e) ?e)) \<le> length ?e" if "?e \<noteq> []"
    using that by (auto simp: count_le_length)
  then show "0 \<le> signal_error_pattern obs \<and> signal_error_pattern obs \<le> 1"
    by (auto simp: signal_error_pattern_def Let_def divide_le_eq_1)
qed

text \<open>An overlap is a confidence between 0 and 1 when the recorded correlations are.\<close>

lemma overlap_unit:
  assumes "list_all (\<lambda>c. 0 \<le> ic_confidence c) (mo_correlations s)"
  shows "0 \<le> signal_endpoint_overlap s inc \<and> signal_endpoint_overlap s inc \<le> 1"
proof (cases "get_correlations s (in_id inc)")
  case (Cons c cs)
  have "c \<in> set (get_correlations s (in_id inc))"
    by (simp add: Cons)
  then have "0 \<le> ic_confidence c"
    using assms by (auto simp: get_correlations_def list_all_iff)
  moreover have "ic_confidence c \<le> Max (set (map ic_confidence (c # cs)))"
    by simp
  ultimately show ?thesis
    by (auto simp: signal_endpoint_overlap_def Cons intro: order_trans)
qed (simp add: signal_endpoint_overlap_def)

text \<open>The confidence is a percentage, and each class is a range of it.\<close>

lemma confidence_sum:
  "confidence_of (signal_scores s inc obs ok) = py_round 2
     ((py_round 4 (signal_temporal s inc) * 20 + py_round 4 (signal_endpoint_overlap s inc) * 25 +
       py_round 4 (signal_latency_correlation obs) * 25 + py_round 4 (signal_error_pattern obs) * 15 +
       (if ok then 15 else 0)))"
  by (simp add: confidence_of_def signal_scores_def signal_weights_def algebra_simps)

lemma confidence_bounds:
  assumes "list_all (\<lambda>c. 0 \<le> ic_confidence c) (mo_correlations s)"
  shows "0 \<le> confidence_of (signal_scores s inc obs ok) \<and> confidence_of (signal_scores s inc obs ok) \<le> 100"
proof -
  let ?x = "py_round 4 (signal_temporal s inc) * 20 + py_round 4 (signal_endpoint_overlap s inc) * 25 +
       py_round 4 (signal_latency_correlation obs) * 25 + py_round 4 (signal_error_pattern obs) * 15 + (if ok then 15 else 0)"
  have "0 \<le> ?x" "?x \<le> 100"
    using py_round_unit [of "signal_temporal s inc" 4] py_round_unit [of "signal_endpoint_overlap s inc" 4]
      py_round_unit [of "signal_latency_correlation obs" 4] py_round_unit [of "signal_error_pattern obs" 4]
      signal_unit(1) [of s inc] signal_unit(2) [of obs] signal_unit(3) [of obs] overlap_unit [OF assms, of inc]
    by (simp_all split: if_splits)
  then show ?thesis
    unfolding confidence_sum using py_round_mono [of 0 ?x 2] py_round_mono [of ?x 100 2] by simp
qed

end
