(* ===== verification/Incidents.thy ===== *)
theory Incidents
  imports Notifications Attribution
begin

text \<open>
  \<^verbatim>\<open>modules/incidents/service.py\<close>: opening an incident with its temporal correlations and its
  alert, resolving it with attribution and the dispatch of the evidence task, and the operations of
  the routes.  The state adds to the tables the outbound side of the process, the queue of Celery
  tasks and, for the check runner, the circuit-breaker keys.  \<^verbatim>\<open>ids\<close> supplies the fresh
  identifiers of an operation.
\<close>

datatype task =
    EvidenceTask uuid
  | CheckTask uuid string

record world =
  w_m :: monitor
  w_notify :: notify_state
  w_tasks :: "task list"
  w_broker_up :: bool

text \<open>\<^verbatim>\<open>apply_async\<close> raises when the broker is unreachable.\<close>

definition enqueue :: "task \<Rightarrow> world \<Rightarrow> bool \<times> world" where
  "enqueue t w = (if w_broker_up w then (True, w\<lparr>w_tasks := w_tasks w @ [t]\<rparr>) else (False, w))"

section \<open>Opening an incident\<close>

text \<open>
  \<^verbatim>\<open>TemporalCorrelationStrategy.correlate\<close>: a pair of correlations for each other open incident of
  the organization in the window.
\<close>

definition correlate_pair :: "(nat \<Rightarrow> uuid) \<Rightarrow> nat \<Rightarrow> time \<Rightarrow> incident \<Rightarrow> incident \<Rightarrow> monitor \<Rightarrow> monitor" where
  "correlate_pair ids n now inc other s =
     snd (create_correlation (ids (n + 1)) now (in_id other) (in_dependency_id inc)
            DEFAULT_CORRELATION_CONFIDENCE TEMPORAL_WINDOW_SECONDS Temporal
       (snd (create_correlation (ids n) now (in_id inc) (in_dependency_id other)
            DEFAULT_CORRELATION_CONFIDENCE TEMPORAL_WINDOW_SECONDS Temporal s)))"

fun correlate_loop :: "(nat \<Rightarrow> uuid) \<Rightarrow> nat \<Rightarrow> time \<Rightarrow> incident \<Rightarrow> incident list \<Rightarrow> monitor \<Rightarrow> monitor" where
  "correlate_loop ids n now inc [] s = s"
| "correlate_loop ids n now inc (x # xs) s =
     (if in_dependency_id x \<noteq> in_dependency_id inc
      then correlate_loop ids (n + 2) now inc xs (correlate_pair ids n now inc x s)
      else correlate_loop ids n now inc xs s)"

definition correlate :: "(nat \<Rightarrow> uuid) \<Rightarrow> time \<Rightarrow> incident \<Rightarrow> monitor \<Rightarrow> monitor" where
  "correlate ids now inc s = correlate_loop ids 0 now inc
     (list_open_in_window s (in_org_id inc) (in_started_at inc) TEMPORAL_WINDOW_SECONDS (in_id inc)) s"

definition incident_alert :: "incident \<Rightarrow> string \<Rightarrow> alert_payload" where
  "incident_alert inc error_message =
     \<lparr>al_org = in_org_id inc, al_incident_id = Some (in_id inc), al_severity = incident_severity_value (in_severity inc),
      al_title = ''Service Degradation Detected'',
      al_body = ''Dependency '' @ uuid_str (in_dependency_id inc) @ '' is reporting failure: '' @ error_message,
      al_metadata = [(''dependency_id'', juuid (in_dependency_id inc))]\<rparr>"

text \<open>
  \<^verbatim>\<open>others\<close> is what other transactions commit between the look-up and the insertion; the insertion
  of a second open incident fails on the partial unique index and the winner's incident is used.
\<close>

definition check_and_create_incident ::
  "notify_env \<Rightarrow> (nat \<Rightarrow> uuid) \<Rightarrow> uuid \<Rightarrow> (monitor \<Rightarrow> monitor) \<Rightarrow> time \<Rightarrow> uuid \<Rightarrow> uuid \<Rightarrow> string \<Rightarrow> (incident, world) service" where
  "check_and_create_incident env ids i others now org_id dependency_id error_message w =
     (case get_open_for_dependency (w_m w) dependency_id of
        Some existing \<Rightarrow> (Inr existing, w)
      | None \<Rightarrow>
          (let m = others (w_m w) in
           case incident_create i now org_id dependency_id Major (Some error_message) m of
             (Inl e, _) \<Rightarrow> (case get_open_for_dependency m dependency_id of
                Some winner \<Rightarrow> (Inr winner, w\<lparr>w_m := m\<rparr>)
              | None \<Rightarrow> (Inl e, w\<lparr>w_m := m\<rparr>))
           | (Inr inc, m1) \<Rightarrow>
               (let m2 = correlate ids now inc m1;
                    n = snd (dispatch_alert env now m2 (incident_alert inc error_message) (w_notify w))
                in (Inr inc, w\<lparr>w_m := m2, w_notify := n\<rparr>))))"

section \<open>Resolving an incident\<close>

text \<open>The attribution runs in a savepoint; any exception is logged and leaves no trace.\<close>

definition attribute_incident :: "uuid \<Rightarrow> time \<Rightarrow> incident \<Rightarrow> monitor \<Rightarrow> monitor" where
  "attribute_incident i now inc s = (case attribution_get_by_incident s (in_id inc) of
     Some _ \<Rightarrow> s
   | None \<Rightarrow>
       (let obs = list_for_source s (in_dependency_id inc) ''customer_check'' 100
              (Some (in_started_at inc)) (in_resolved_at inc)
        in case attribution_create (compute_attribution i now s inc obs True) s of
             (Inl _, _) \<Rightarrow> s | (Inr _, s1) \<Rightarrow> s1))"

definition resolve_incident :: "uuid \<Rightarrow> time \<Rightarrow> uuid \<Rightarrow> uuid option \<Rightarrow> (incident, world) service" where
  "resolve_incident aid now incident_id org_id w = (case incident_get_by_id (w_m w) incident_id of
     None \<Rightarrow> (Inl (ResourceNotFoundException ''Incident not found''), w)
   | Some inc \<Rightarrow>
       if org_id \<noteq> None \<and> org_id \<noteq> Some (in_org_id inc)
       then (Inl (ResourceNotFoundException ''Incident not found''), w)
       else if in_status inc = IncResolved \<and> in_resolved_at inc \<noteq> None then (Inr inc, w)
       else (case incident_update inc [IfStatus (Some IncResolved), IfResolvedAt (Some now)] (w_m w) of
          (Inl e, m) \<Rightarrow> (Inl e, w\<lparr>w_m := m\<rparr>)
        | (Inr updated, m) \<Rightarrow>
            (Inr updated, snd (enqueue (EvidenceTask (in_id inc)) (w\<lparr>w_m := attribute_incident aid now updated m\<rparr>)))))"

section \<open>Routes\<close>

definition list_incidents ::
  "monitor \<Rightarrow> uuid \<Rightarrow> nat \<Rightarrow> incident_status option \<Rightarrow> incident_severity option \<Rightarrow> incident list" where
  "list_incidents s org_id cnt status severity = incidents_list_for_org s org_id cnt status severity"

definition owned_incident :: "monitor \<Rightarrow> uuid \<Rightarrow> uuid \<Rightarrow> app_error + incident" where
  "owned_incident s org_id i = (case incident_get_by_id s i of
     None \<Rightarrow> Inl (ResourceNotFoundException ''Incident not found'')
   | Some r \<Rightarrow> if in_org_id r \<noteq> org_id then Inl (ResourceNotFoundException ''Incident not found'') else Inr r)"

definition get_incident_detail :: "monitor \<Rightarrow> uuid \<Rightarrow> uuid \<Rightarrow> app_error + incident \<times> incident_correlation list" where
  "get_incident_detail s org_id i = (case owned_incident s org_id i of
     Inl e \<Rightarrow> Inl e | Inr r \<Rightarrow> Inr (r, get_correlations s i))"

record incident_update_request =
  iur_status :: "incident_status option"
  iur_severity :: "incident_severity option"
  iur_root_cause :: "root_cause option"
  iur_description :: "string option"

definition incident_update_fields :: "incident_update_request \<Rightarrow> incident_field list" where
  "incident_update_fields r =
     [IfStatus (if iur_status r = Some IncResolved then None else iur_status r), IfSeverity (iur_severity r),
      IfRootCause (iur_root_cause r), IfDescription (iur_description r)]"

text \<open>A request without fields to write does not touch the row.\<close>

definition update_incident :: "uuid \<Rightarrow> time \<Rightarrow> uuid \<Rightarrow> uuid \<Rightarrow> incident_update_request \<Rightarrow> (incident, world) service" where
  "update_incident aid now org_id i r w = (case owned_incident (w_m w) org_id i of
     Inl e \<Rightarrow> (Inl e, w)
   | Inr inc \<Rightarrow>
       (let kws = incident_update_fields r;
            empty = ((iur_status r = None \<or> iur_status r = Some IncResolved) \<and> iur_severity r = None \<and>
               iur_root_cause r = None \<and> iur_description r = None)
        in case (if empty then (Inr inc, w_m w) else incident_update inc kws (w_m w)) of
             (Inl e, m) \<Rightarrow> (Inl e, w\<lparr>w_m := m\<rparr>)
           | (Inr updated, m) \<Rightarrow>
               (if iur_status r = Some IncResolved
                then resolve_incident aid now i (Some org_id) (w\<lparr>w_m := m\<rparr>)
                else (Inr updated, w\<lparr>w_m := m\<rparr>))))"

text \<open>The request model puts no bounds on the confidence.\<close>

definition manually_correlate ::
  "uuid \<Rightarrow> time \<Rightarrow> uuid \<Rightarrow> uuid \<Rightarrow> uuid \<Rightarrow> real \<Rightarrow> int \<Rightarrow> correlation_method \<Rightarrow> (incident_correlation, monitor) service" where
  "manually_correlate ci now org_id i dependency_id confidence window method s = (case owned_incident s org_id i of
     Inl e \<Rightarrow> (Inl e, s)
   | Inr _ \<Rightarrow> (case create_correlation ci now i dependency_id confidence window method s of (c, s') \<Rightarrow> (Inr c, s')))"

section \<open>Tasks\<close>

text \<open>The Celery tasks \<^verbatim>\<open>create_incident\<close> and \<^verbatim>\<open>resolve_incident\<close>: an exception rolls the tables back.\<close>

definition create_incident_task ::
  "notify_env \<Rightarrow> (nat \<Rightarrow> uuid) \<Rightarrow> uuid \<Rightarrow> (monitor \<Rightarrow> monitor) \<Rightarrow> time \<Rightarrow> uuid \<Rightarrow> string \<Rightarrow> (incident option, world) service" where
  "create_incident_task env ids i others now dependency_id error_message w =
     (case dep_get_by_id (w_m w) dependency_id of None \<Rightarrow> (Inr None, w)
      | Some d \<Rightarrow>
          (case check_and_create_incident env ids i others now (d_org_id d) (d_id d) error_message w of
             (Inl e, w') \<Rightarrow> (Inl e, w'\<lparr>w_m := w_m w\<rparr>) | (Inr inc, w') \<Rightarrow> (Inr (Some inc), w')))"

definition resolve_incident_task :: "uuid \<Rightarrow> time \<Rightarrow> uuid \<Rightarrow> (incident option, world) service" where
  "resolve_incident_task aid now dependency_id w = (case get_open_for_dependency (w_m w) dependency_id of
     None \<Rightarrow> (Inr None, w)
   | Some inc \<Rightarrow> (case resolve_incident aid now (in_id inc) (Some (in_org_id inc)) w of
        (Inl e, w') \<Rightarrow> (Inl e, w'\<lparr>w_m := w_m w\<rparr>) | (Inr r, w') \<Rightarrow> (Inr (Some r), w')))"

section \<open>One open incident per dependency\<close>

definition incidents_wf :: "monitor \<Rightarrow> bool" where
  "incidents_wf s = (distinct (map in_id (mo_incidents s)) \<and>
     distinct (map in_dependency_id (filter (\<lambda>r. in_status r = IncOpen) (mo_incidents s))))"

lemma open_find: "get_open_for_dependency s d = None \<longleftrightarrow> \<not> list_ex (is_open_for d) (mo_incidents s)"
  by (auto simp: get_open_for_dependency_def find_None_iff list_ex_iff)

lemma open_find_Some: "get_open_for_dependency s d = Some r \<Longrightarrow> r \<in> set (mo_incidents s) \<and> is_open_for d r"
  by (auto simp: get_open_for_dependency_def find_Some_iff)

text \<open>
  The index says more with what the services keep: a dependency stays in its organization, and its
  incidents are filed there.
\<close>

definition dep_orgs :: "monitor \<Rightarrow> (uuid \<times> uuid) set" where
  "dep_orgs s = (\<lambda>d. (d_id d, d_org_id d)) ` set (mo_dependencies s)"

definition incident_orgs :: "monitor \<Rightarrow> bool" where
  "incident_orgs s = (distinct (map d_id (mo_dependencies s)) \<and>
     (\<forall>r \<in> set (mo_incidents s). (in_dependency_id r, in_org_id r) \<in> dep_orgs s))"

definition monitor_wf :: "monitor \<Rightarrow> bool" where
  "monitor_wf s = (incidents_wf s \<and> incident_orgs s)"

text \<open>What every operation owes the invariant: to keep it, and the dependencies in their organizations.\<close>

definition monitor_keeps :: "monitor \<Rightarrow> monitor \<Rightarrow> bool" where
  "monitor_keeps s s' = (monitor_wf s \<longrightarrow> monitor_wf s' \<and> dep_orgs s \<subseteq> dep_orgs s')"

lemma monitor_keeps_refl [simp, intro]: "monitor_keeps s s"
  by (simp add: monitor_keeps_def)

lemma monitor_keeps_trans [trans]: "monitor_keeps s s1 \<Longrightarrow> monitor_keeps s1 s2 \<Longrightarrow> monitor_keeps s s2"
  by (auto simp: monitor_keeps_def)

lemma monitor_keeps_wf: "monitor_keeps s s' \<Longrightarrow> monitor_wf s \<Longrightarrow> monitor_wf s'"
  by (simp add: monitor_keeps_def)

lemma monitor_wf_cong: "mo_incidents s = mo_incidents s' \<Longrightarrow> mo_dependencies s = mo_dependencies s' \<Longrightarrow> monitor_wf s = monitor_wf s'"
  by (simp add: monitor_wf_def incidents_wf_def incident_orgs_def dep_orgs_def)

lemma monitor_keeps_cong: "mo_incidents s' = mo_incidents s \<Longrightarrow> mo_dependencies s' = mo_dependencies s \<Longrightarrow> monitor_keeps s s'"
  using monitor_wf_cong [of s s'] by (simp add: monitor_keeps_def dep_orgs_def)

lemma dep_orgs_unique: "distinct (map d_id (mo_dependencies s)) \<Longrightarrow> (d, g) \<in> dep_orgs s \<Longrightarrow> (d, h) \<in> dep_orgs s \<Longrightarrow> g = h"
  using distinct_map_inj [of d_id "mo_dependencies s"] by (auto simp: dep_orgs_def)

lemma open_pair_org:
  assumes "incident_orgs s" and "(d, g) \<in> dep_orgs s" and "x \<in> set (mo_incidents s)" and "is_open_for d x"
  shows "is_open_pair g d x"
  using assms dep_orgs_unique [of s d g "in_org_id x"] by (auto simp: incident_orgs_def is_open_pair_def is_open_for_def)

lemma incident_create_keeps:
  assumes "incident_create i now g d sev desc s = (res, s')" and "monitor_wf s \<Longrightarrow> (d, g) \<in> dep_orgs s"
  shows "monitor_keeps s s'"
proof (cases res)
  case (Inr r)
  have "monitor_wf s'" if wf: "monitor_wf s"
  proof -
    have orgs: "incident_orgs s" and dg: "(d, g) \<in> dep_orgs s"
      using wf assms(2) by (auto simp: monitor_wf_def)
    have row: "\<not> list_ex (is_open_pair g d) (mo_incidents s)" "i \<notin> in_id ` set (mo_incidents s)" "s' = add_incident r s"
      "in_id r = i" "in_dependency_id r = d" "in_org_id r = g" "in_status r = IncOpen"
      using assms(1) Inr by (auto simp: incident_create_def Let_def split: if_splits)
    then have "\<not> is_open_for d x" if "x \<in> set (mo_incidents s)" for x
      using open_pair_org [OF orgs dg that] that by (auto simp: list_ex_iff)
    then show ?thesis
      using wf row dg
      by (auto simp: monitor_wf_def incidents_wf_def incident_orgs_def dep_orgs_def add_incident_def is_open_for_def)
  qed
  moreover have "dep_orgs s' = dep_orgs s"
    using assms(1) Inr by (auto simp: incident_create_def Let_def dep_orgs_def add_incident_def split: if_splits)
  ultimately show ?thesis
    by (simp add: monitor_keeps_def)
qed (use assms(1) in \<open>auto simp: incident_create_def Let_def split: if_splits\<close>)

lemma create_correlation_tables [simp]:
  "mo_incidents (snd (create_correlation i t a d c n m s)) = mo_incidents s"
  "mo_checks (snd (create_correlation i t a d c n m s)) = mo_checks s"
  "mo_outbox (snd (create_correlation i t a d c n m s)) = mo_outbox s"
  "mo_dependencies (snd (create_correlation i t a d c n m s)) = mo_dependencies s"
  "mo_observations (snd (create_correlation i t a d c n m s)) = mo_observations s"
  "mo_attributions (snd (create_correlation i t a d c n m s)) = mo_attributions s"
  "mo_db (snd (create_correlation i t a d c n m s)) = mo_db s"
  by (simp_all add: create_correlation_def Let_def)

lemma correlate_pair_tables [simp]:
  "mo_incidents (correlate_pair ids n t a x s) = mo_incidents s"
  "mo_checks (correlate_pair ids n t a x s) = mo_checks s"
  "mo_outbox (correlate_pair ids n t a x s) = mo_outbox s"
  "mo_dependencies (correlate_pair ids n t a x s) = mo_dependencies s"
  "mo_observations (correlate_pair ids n t a x s) = mo_observations s"
  "mo_attributions (correlate_pair ids n t a x s) = mo_attributions s"
  "mo_db (correlate_pair ids n t a x s) = mo_db s"
  by (simp_all add: correlate_pair_def)

lemma correlate_loop_tables:
  "mo_incidents (correlate_loop ids n t a xs s) = mo_incidents s \<and>
   mo_checks (correlate_loop ids n t a xs s) = mo_checks s \<and>
   mo_outbox (correlate_loop ids n t a xs s) = mo_outbox s \<and>
   mo_dependencies (correlate_loop ids n t a xs s) = mo_dependencies s \<and>
   mo_observations (correlate_loop ids n t a xs s) = mo_observations s \<and>
   mo_attributions (correlate_loop ids n t a xs s) = mo_attributions s \<and>
   mo_db (correlate_loop ids n t a xs s) = mo_db s"
  by (induction ids n t a xs s rule: correlate_loop.induct) simp_all

lemma correlate_tables [simp]:
  "mo_incidents (correlate ids t a s) = mo_incidents s"
  "mo_checks (correlate ids t a s) = mo_checks s"
  "mo_outbox (correlate ids t a s) = mo_outbox s"
  "mo_dependencies (correlate ids t a s) = mo_dependencies s"
  "mo_observations (correlate ids t a s) = mo_observations s"
  "mo_attributions (correlate ids t a s) = mo_attributions s"
  "mo_db (correlate ids t a s) = mo_db s"
  by (simp_all add: correlate_def correlate_loop_tables)

lemma attribute_incident_tables [simp]:
  "mo_incidents (attribute_incident i t a s) = mo_incidents s"
  "mo_checks (attribute_incident i t a s) = mo_checks s"
  "mo_outbox (attribute_incident i t a s) = mo_outbox s"
  "mo_dependencies (attribute_incident i t a s) = mo_dependencies s"
  "mo_observations (attribute_incident i t a s) = mo_observations s"
  "mo_db (attribute_incident i t a s) = mo_db s"
  by (simp_all add: attribute_incident_def attribution_create_def Let_def split: option.split)

lemma enqueue_m [simp]: "w_m (snd (enqueue t w)) = w_m w" "w_notify (snd (enqueue t w)) = w_notify w"
  by (simp_all add: enqueue_def)

text \<open>Saving a row keeps the invariant when it stays closed or is the only open one.\<close>

lemma save_incident_wf:
  assumes "incidents_wf s" and "r0 \<in> set (mo_incidents s)" and "in_id r = in_id r0"
    and "in_status r = IncOpen \<Longrightarrow> \<not> list_ex (\<lambda>x. in_id x \<noteq> in_id r \<and> is_open_for (in_dependency_id r) x) (mo_incidents s)"
  shows "incidents_wf (save_incident r s)"
proof -
  let ?t = "mo_incidents s"
  have inj: "inj_on in_dependency_id {x \<in> set ?t. in_status x = IncOpen}" and d: "distinct (map in_id ?t)"
    using assms(1) by (auto simp: incidents_wf_def distinct_map)
  have "inj_on in_dependency_id {x \<in> set (save_row in_id r ?t). in_status x = IncOpen}"
  proof (rule inj_onI)
    fix x y
    assume x: "x \<in> {x \<in> set (save_row in_id r ?t). in_status x = IncOpen}"
      and y: "y \<in> {x \<in> set (save_row in_id r ?t). in_status x = IncOpen}" and e: "in_dependency_id x = in_dependency_id y"
    have cases: "z = r \<or> z \<in> set ?t \<and> in_id z \<noteq> in_id r" if "z \<in> set (save_row in_id r ?t)" for z
      using that by (auto simp: save_row_def split: if_splits)
    have clash: "in_status r = IncOpen \<Longrightarrow> z \<in> set ?t \<Longrightarrow> in_id z \<noteq> in_id r \<Longrightarrow> in_status z = IncOpen \<Longrightarrow>
        in_dependency_id z \<noteq> in_dependency_id r" for z
      using assms(4) by (auto simp: list_ex_iff is_open_for_def)
    from x y have xy: "x \<in> set (save_row in_id r ?t)" "y \<in> set (save_row in_id r ?t)" "in_status x = IncOpen" "in_status y = IncOpen"
      by simp_all
    show "x = y"
      using cases [OF xy(1)] cases [OF xy(2)]
    proof (elim disjE conjE)
      assume "x \<in> set ?t" "y \<in> set ?t"
      with inj_onD [OF inj e] xy show ?thesis
        by simp
    qed (use clash [of x] clash [of y] xy e in simp_all)
  qed
  moreover have "distinct (map in_id (save_row in_id r ?t))"
    using d by simp
  moreover from this have "distinct (save_row in_id r ?t)"
    using distinct_map by blast
  ultimately show ?thesis
    by (simp add: incidents_wf_def save_incident_def distinct_map [of in_dependency_id])
qed

lemma set_incident_id [simp]: "in_id (set_fields put_incident kws r) = in_id r"
proof -
  have "\<And>k r. in_id (put_incident k r) = in_id r"
    by (rule put_incident.induct) auto
  then show ?thesis
    unfolding set_fields_def by (induction kws arbitrary: r) auto
qed

lemma set_incident_owner [simp]:
  "in_org_id (set_fields put_incident kws r) = in_org_id r"
  "in_dependency_id (set_fields put_incident kws r) = in_dependency_id r"
proof -
  have "\<And>k r. in_org_id (put_incident k r) = in_org_id r \<and> in_dependency_id (put_incident k r) = in_dependency_id r"
    by (rule put_incident.induct) auto
  then show "in_org_id (set_fields put_incident kws r) = in_org_id r" "in_dependency_id (set_fields put_incident kws r) = in_dependency_id r"
    unfolding set_fields_def by (induction kws arbitrary: r) auto
qed

lemma incident_update_keeps:
  assumes "r \<in> set (mo_incidents s)" and "incident_update r kws s = (res, s')"
  shows "monitor_keeps s s'"
proof (cases res)
  case (Inr r1)
  let ?r = "set_fields put_incident kws r"
  have s': "s' = save_incident ?r s"
    and alone: "in_status ?r = IncOpen \<Longrightarrow> \<not> list_ex (\<lambda>x. in_id x \<noteq> in_id ?r \<and> is_open_pair (in_org_id r) (in_dependency_id r) x) (mo_incidents s)"
    using assms(2) Inr by (auto simp: incident_update_def Let_def split: if_splits)
  have "monitor_wf s'" if wf: "monitor_wf s"
  proof -
    have orgs: "incident_orgs s" and owner: "(in_dependency_id r, in_org_id r) \<in> dep_orgs s"
      using wf assms(1) by (auto simp: monitor_wf_def incident_orgs_def)
    have "in_status ?r = IncOpen \<Longrightarrow> \<not> list_ex (\<lambda>x. in_id x \<noteq> in_id ?r \<and> is_open_for (in_dependency_id ?r) x) (mo_incidents s)"
      using alone open_pair_org [OF orgs owner] by (auto simp: list_ex_iff)
    then have "incidents_wf s'"
      unfolding s' using wf assms(1) save_incident_wf [of s r ?r] by (simp add: monitor_wf_def)
    moreover have "incident_orgs s'"
      using orgs owner by (auto simp: s' incident_orgs_def dep_orgs_def save_incident_def dest!: set_save_row)
    ultimately show ?thesis
      by (simp add: monitor_wf_def)
  qed
  then show ?thesis
    by (simp add: monitor_keeps_def s' dep_orgs_def save_incident_def)
qed (use assms(2) in \<open>auto simp: incident_update_def Let_def split: if_splits\<close>)

lemma get_incident_row: "incident_get_by_id s i = Some r \<Longrightarrow> r \<in> set (mo_incidents s) \<and> in_id r = i"
  by (rule incident_repo.get_hit)

lemma owned_incident_row: "owned_incident s g i = Inr r \<Longrightarrow> r \<in> set (mo_incidents s) \<and> in_id r = i \<and> in_org_id r = g"
  by (auto simp: owned_incident_def dest: get_incident_row split: option.splits if_splits)

lemma create_incident_keeps:
  assumes "\<And>m. monitor_keeps m (others m)" and "monitor_wf (w_m w) \<Longrightarrow> (d, g) \<in> dep_orgs (w_m w)"
  shows "monitor_keeps (w_m w) (w_m (snd (check_and_create_incident env ids i others now g d msg w)))"
proof (cases "get_open_for_dependency (w_m w) d")
  case None
  let ?m = "others (w_m w)"
  obtain res m1 where c: "incident_create i now g d Major (Some msg) ?m = (res, m1)"
    by fastforce
  have "monitor_keeps (w_m w) m1"
    unfolding monitor_keeps_def
  proof
    assume wf: "monitor_wf (w_m w)"
    then have m: "monitor_wf ?m" "dep_orgs (w_m w) \<subseteq> dep_orgs ?m"
      using assms(1) by (simp_all add: monitor_keeps_def)
    then have "monitor_keeps ?m m1"
      using assms(2) wf by (intro incident_create_keeps [OF c]) auto
    with m show "monitor_wf m1 \<and> dep_orgs (w_m w) \<subseteq> dep_orgs m1"
      by (auto simp: monitor_keeps_def)
  qed
  moreover have "monitor_keeps m1 (correlate ids now inc m1)" for inc
    by (rule monitor_keeps_cong) simp_all
  ultimately show ?thesis
    using None c assms(1) monitor_keeps_trans
    by (cases res) (auto simp: check_and_create_incident_def Let_def split: option.split)
qed (simp add: check_and_create_incident_def)

lemma resolve_incident_keeps: "monitor_keeps (w_m w) (w_m (snd (resolve_incident aid now i g w)))"
proof (cases "incident_get_by_id (w_m w) i")
  case (Some inc)
  obtain res m where u: "incident_update inc [IfStatus (Some IncResolved), IfResolvedAt (Some now)] (w_m w) = (res, m)"
    by fastforce
  have "monitor_keeps (w_m w) m"
    using incident_update_keeps [OF _ u] get_incident_row [OF Some] by blast
  moreover have "monitor_keeps m (attribute_incident aid now x m)" for x
    by (rule monitor_keeps_cong) simp_all
  ultimately show ?thesis
    using Some u monitor_keeps_trans by (cases res) (auto simp: resolve_incident_def)
qed (simp add: resolve_incident_def)

lemma update_incident_keeps: "monitor_keeps (w_m w) (w_m (snd (update_incident aid now g i r w)))"
proof (cases "owned_incident (w_m w) g i")
  case (Inr inc)
  let ?empty = "(iur_status r = None \<or> iur_status r = Some IncResolved) \<and> iur_severity r = None \<and>
               iur_root_cause r = None \<and> iur_description r = None"
  obtain res m where u: "(if ?empty then (Inr inc, w_m w) else incident_update inc (incident_update_fields r) (w_m w)) = (res, m)"
    by fastforce
  have m: "monitor_keeps (w_m w) m"
    using incident_update_keeps [of inc "w_m w" "incident_update_fields r"] owned_incident_row [OF Inr] u
    by (auto split: if_splits)
  have "monitor_keeps m (w_m (snd (resolve_incident aid now i (Some g) (w\<lparr>w_m := m\<rparr>))))"
    using resolve_incident_keeps [of "w\<lparr>w_m := m\<rparr>" aid now i "Some g"] by simp
  with m u show ?thesis
    unfolding update_incident_def Let_def Inr sum.case u using monitor_keeps_trans by (cases res) auto
qed (simp add: update_incident_def)

end
