(* ===== verification/Dependencies.thy ===== *)
theory Dependencies
  imports Monitoring
begin

text \<open>
  \<^verbatim>\<open>modules/dependencies/service.py\<close> and \<^verbatim>\<open>schemas.py\<close>: the validation of requests and the
  operations on monitored endpoints, with the plan's limits.  The Fernet encryption of header values
  (\<^verbatim>\<open>core/security.py\<close>) is the pair of functions \<^verbatim>\<open>crypto\<close>; a failed decryption yields the empty
  dictionary there.
\<close>

section \<open>Requests\<close>

datatype http_method = GET | HEAD | POST

fun http_method_value :: "http_method \<Rightarrow> string" where
  "http_method_value GET = ''GET''"
| "http_method_value HEAD = ''HEAD''"
| "http_method_value POST = ''POST''"

definition DEFAULT_REGIONS :: "string list" where
  "DEFAULT_REGIONS = [''us-east'', ''eu-west'']"

definition ALLOWED_REGIONS :: "string list" where
  "ALLOWED_REGIONS = [''us-east'', ''eu-west'', ''ap-south'', ''sa-east'']"

definition forbidden_headers :: "string list" where
  "forbidden_headers = [''cookie'', ''host'', ''content-length'', ''transfer-encoding'', ''connection'',
     ''keep-alive'', ''upgrade'']"

definition forbidden_header_prefixes :: "string list" where
  "forbidden_header_prefixes = [''proxy-'', ''x-forwarded-'']"

definition header_allowed :: "string \<Rightarrow> bool" where
  "header_allowed name = (let key = lower name in
     key \<notin> set forbidden_headers \<and> \<not> list_ex (starts_with key) forbidden_header_prefixes \<and>
     \<not> list_ex (\<lambda>c. (of_char c :: nat) \<in> {13, 10, 58}) key)"

definition valid_headers :: "(string \<times> json) list option \<Rightarrow> bool" where
  "valid_headers h = (case h of None \<Rightarrow> True | Some d \<Rightarrow> list_all (\<lambda>(k, _). header_allowed k) d)"

text \<open>\<^verbatim>\<open>_validate_regions\<close>: known regions only, first occurrences in order.\<close>

fun dedup :: "string list \<Rightarrow> string list \<Rightarrow> string list" where
  "dedup acc [] = acc"
| "dedup acc (x # xs) = dedup (if x \<in> set acc then acc else acc @ [x]) xs"

definition validate_regions :: "string list \<Rightarrow> string list option" where
  "validate_regions v = (if v = [] \<or> \<not> set v \<subseteq> set ALLOWED_REGIONS then None else Some (dedup [] v))"

definition valid_endpoint_url :: "string \<Rightarrow> bool" where
  "valid_endpoint_url v = (starts_with v ''http://'' \<or> starts_with v ''https://'')"

record dependency_create_request =
  dcr_name :: string
  dcr_application_id :: "uuid option"
  dcr_endpoint_url :: string
  dcr_method :: http_method
  dcr_headers :: "(string \<times> json) list option"
  dcr_expected_status_codes :: "int list"
  dcr_timeout_seconds :: int
  dcr_check_interval_seconds :: int
  dcr_regions :: "string list"
  dcr_alert_threshold_ms :: "int option"
  dcr_is_active :: bool

definition in_range :: "int \<Rightarrow> int \<Rightarrow> int \<Rightarrow> bool" where
  "in_range lo hi v = (lo \<le> v \<and> v \<le> hi)"

definition opt_all :: "('a \<Rightarrow> bool) \<Rightarrow> 'a option \<Rightarrow> bool" where
  "opt_all p x = (case x of None \<Rightarrow> True | Some v \<Rightarrow> p v)"

text \<open>The validated request; \<^verbatim>\<open>None\<close> is a 422 response.\<close>

definition validate_create_request :: "dependency_create_request \<Rightarrow> dependency_create_request option" where
  "validate_create_request r = (case validate_regions (dcr_regions r) of
     None \<Rightarrow> None
   | Some regions \<Rightarrow>
       if dcr_name r \<noteq> [] \<and> length (dcr_name r) \<le> 150 \<and> valid_endpoint_url (dcr_endpoint_url r) \<and>
          valid_headers (dcr_headers r) \<and> in_range 1 300 (dcr_timeout_seconds r) \<and>
          in_range 1 86400 (dcr_check_interval_seconds r) \<and> opt_all (\<lambda>t. 1 \<le> t) (dcr_alert_threshold_ms r)
       then Some (r\<lparr>dcr_regions := regions\<rparr>) else None)"

record dependency_update_request =
  dur_name :: "string option"
  dur_application_id :: "uuid option"
  dur_endpoint_url :: "string option"
  dur_method :: "http_method option"
  dur_headers :: "(string \<times> json) list option"
  dur_expected_status_codes :: "int list option"
  dur_timeout_seconds :: "int option"
  dur_check_interval_seconds :: "int option"
  dur_regions :: "string list option"
  dur_alert_threshold_ms :: "int option"
  dur_is_active :: "bool option"

definition validate_update_request :: "dependency_update_request \<Rightarrow> dependency_update_request option" where
  "validate_update_request r =
     (let regions = (case dur_regions r of None \<Rightarrow> Some None | Some v \<Rightarrow> map_option Some (validate_regions v)) in
      case regions of None \<Rightarrow> None
      | Some v \<Rightarrow>
          if opt_all (\<lambda>n. n \<noteq> [] \<and> length n \<le> 150) (dur_name r) \<and> opt_all valid_endpoint_url (dur_endpoint_url r) \<and>
             valid_headers (dur_headers r) \<and> opt_all (in_range 1 300) (dur_timeout_seconds r) \<and>
             opt_all (in_range 1 86400) (dur_check_interval_seconds r) \<and> opt_all (\<lambda>t. 1 \<le> t) (dur_alert_threshold_ms r)
          then Some (r\<lparr>dur_regions := v\<rparr>) else None)"

section \<open>Headers at rest\<close>

record crypto =
  cy_encrypt :: "(string \<times> json) list \<Rightarrow> string"
  cy_decrypt :: "string \<Rightarrow> (string \<times> json) list"

definition encode_headers :: "crypto \<Rightarrow> (string \<times> json) list option \<Rightarrow> (string \<times> json) list option" where
  "encode_headers cy h = (case h of None \<Rightarrow> None
     | Some d \<Rightarrow> if d = [] then None else Some [(''_encrypted_data'', JStr (cy_encrypt cy d))])"

definition decode_headers :: "crypto \<Rightarrow> (string \<times> json) list option \<Rightarrow> (string \<times> json) list option" where
  "decode_headers cy h = (case h of None \<Rightarrow> None
     | Some d \<Rightarrow> if d = [] then None
         else (case map_of d ''_encrypted_data'' of None \<Rightarrow> Some d
           | Some v \<Rightarrow> Some (cy_decrypt cy (py_str v))))"

section \<open>Responses\<close>

record dependency_response =
  dr_id :: uuid
  dr_org_id :: uuid
  dr_application_id :: "uuid option"
  dr_name :: string
  dr_endpoint_url :: string
  dr_method :: string
  dr_headers :: "(string \<times> json) list option"
  dr_has_headers :: bool
  dr_expected_status_codes :: "int list"
  dr_timeout_seconds :: int
  dr_check_interval_seconds :: int
  dr_next_check_at :: "time option"
  dr_regions :: "string list"
  dr_alert_threshold_ms :: "int option"
  dr_is_active :: bool
  dr_created_at :: time

definition to_response :: "dependency \<Rightarrow> dependency_response" where
  "to_response d = \<lparr>dr_id = d_id d, dr_org_id = d_org_id d, dr_application_id = d_application_id d,
     dr_name = d_name d, dr_endpoint_url = d_endpoint_url d, dr_method = d_method d, dr_headers = None,
     dr_has_headers = (case d_headers d of None \<Rightarrow> False | Some h \<Rightarrow> h \<noteq> []),
     dr_expected_status_codes = d_expected_status_codes d, dr_timeout_seconds = d_timeout_seconds d,
     dr_check_interval_seconds = d_check_interval_seconds d, dr_next_check_at = d_next_check_at d,
     dr_regions = d_regions d, dr_alert_threshold_ms = d_alert_threshold_ms d, dr_is_active = d_is_active d,
     dr_created_at = d_created_at d\<rparr>"

section \<open>Service\<close>

definition list_dependencies :: "monitor \<Rightarrow> uuid \<Rightarrow> nat \<Rightarrow> uuid option \<Rightarrow> dependency_response list" where
  "list_dependencies s org_id cnt cursor = map to_response (dep_list_for_org s org_id cnt cursor)"

definition owned_application :: "db \<Rightarrow> uuid \<Rightarrow> uuid \<Rightarrow> bool" where
  "owned_application s org_id i = (case get_application s i of None \<Rightarrow> False | Some a \<Rightarrow> ap_org_id a = org_id)"

text \<open>The application of a new dependency: the given one, or the default one, created if needed.\<close>

definition target_application :: "uuid \<Rightarrow> time \<Rightarrow> uuid \<Rightarrow> uuid option \<Rightarrow> (uuid, monitor) service" where
  "target_application aid now org_id application_id s = (case application_id of
     Some i \<Rightarrow> if owned_application (mo_db s) org_id i then (Inr i, s)
       else (Inl (ValidationException ''Application does not belong to this organization''), s)
   | None \<Rightarrow> (case get_default_application (mo_db s) org_id of
       Some a \<Rightarrow> (Inr (ap_id a), s)
     | None \<Rightarrow> (case create_application aid now org_id ''Default'' None (Some ''Default application'') (mo_db s) of
         (a, b) \<Rightarrow> (Inr (ap_id a), s\<lparr>mo_db := b\<rparr>))))"

definition interval_error :: "string \<Rightarrow> app_error" where
  "interval_error plan = ValidationException (''Minimum check interval for plan '' @ quoted plan @ '' is '' @
     show_int (get_min_check_interval plan) @ '' seconds.'')"

definition limit_error :: "string \<Rightarrow> app_error" where
  "limit_error plan = ConflictException (''Dependency limit reached for plan '' @ quoted plan @ '' ('' @
     show_nat (get_dependency_limit plan) @ '').'')"

definition new_dependency ::
  "crypto \<Rightarrow> uuid \<Rightarrow> time \<Rightarrow> uuid \<Rightarrow> uuid \<Rightarrow> dependency_create_request \<Rightarrow> dependency" where
  "new_dependency cy i now org_id application_id r =
     \<lparr>d_id = i, d_org_id = org_id, d_application_id = Some application_id, d_name = dcr_name r,
      d_endpoint_url = dcr_endpoint_url r, d_method = http_method_value (dcr_method r),
      d_headers = encode_headers cy (dcr_headers r), d_expected_status_codes = dcr_expected_status_codes r,
      d_timeout_seconds = dcr_timeout_seconds r, d_check_interval_seconds = dcr_check_interval_seconds r,
      d_next_check_at = Some now, d_regions = dcr_regions r, d_alert_threshold_ms = dcr_alert_threshold_ms r,
      d_is_active = dcr_is_active r, d_is_deleted = False, d_deleted_at = None, d_created_at = now\<rparr>"

definition create_dependency ::
  "crypto \<Rightarrow> uuid \<Rightarrow> uuid \<Rightarrow> time \<Rightarrow> uuid \<Rightarrow> dependency_create_request \<Rightarrow> (dependency_response, monitor) service" where
  "create_dependency cy i aid now org_id r s = (case org_get_by_id (mo_db s) org_id of
     None \<Rightarrow> (Inl (ResourceNotFoundException ''Organization not found''), s)
   | Some org \<Rightarrow>
       if dcr_check_interval_seconds r < get_min_check_interval (o_plan org) then (Inl (interval_error (o_plan org)), s)
       else if dep_count_for_org s org_id \<ge> get_dependency_limit (o_plan org) then (Inl (limit_error (o_plan org)), s)
       else (case target_application aid now org_id (dcr_application_id r) s of
          (Inl e, s1) \<Rightarrow> (Inl e, s1)
        | (Inr application_id, s1) \<Rightarrow>
            (case dep_create (new_dependency cy i now org_id application_id r) s1 of
               (Inl e, s2) \<Rightarrow> (Inl e, s2) | (Inr d, s2) \<Rightarrow> (Inr (to_response d), s2))))"

definition owned_dependency :: "monitor \<Rightarrow> uuid \<Rightarrow> uuid \<Rightarrow> app_error + dependency" where
  "owned_dependency s org_id i = (case dep_get_by_id s i of
     None \<Rightarrow> Inl (ResourceNotFoundException ''Dependency not found'')
   | Some d \<Rightarrow> if d_org_id d \<noteq> org_id then Inl (ResourceNotFoundException ''Dependency not found'') else Inr d)"

definition get_dependency :: "uuid \<Rightarrow> uuid \<Rightarrow> (dependency_response, monitor) service" where
  "get_dependency org_id i s = (case owned_dependency s org_id i of
     Inl e \<Rightarrow> (Inl e, s) | Inr d \<Rightarrow> (Inr (to_response d), s))"

definition update_fields :: "crypto \<Rightarrow> dependency_update_request \<Rightarrow> dependency_field list" where
  "update_fields cy r =
     [DfApplicationId (dur_application_id r), DfName (dur_name r), DfEndpointUrl (dur_endpoint_url r),
      DfMethod (map_option http_method_value (dur_method r)), DfExpectedStatusCodes (dur_expected_status_codes r),
      DfTimeoutSeconds (dur_timeout_seconds r), DfCheckIntervalSeconds (dur_check_interval_seconds r),
      DfRegions (dur_regions r), DfAlertThresholdMs (dur_alert_threshold_ms r), DfIsActive (dur_is_active r),
      DfHeaders (case dur_headers r of None \<Rightarrow> None | Some h \<Rightarrow> encode_headers cy (Some h))]"

definition update_interval_ok :: "monitor \<Rightarrow> uuid \<Rightarrow> dependency_update_request \<Rightarrow> app_error + unit" where
  "update_interval_ok s org_id r = (case (org_get_by_id (mo_db s) org_id, dur_check_interval_seconds r) of
     (Some org, Some n) \<Rightarrow> if n < get_min_check_interval (o_plan org) then Inl (interval_error (o_plan org)) else Inr ()
   | _ \<Rightarrow> Inr ())"

definition update_dependency ::
  "crypto \<Rightarrow> uuid \<Rightarrow> uuid \<Rightarrow> dependency_update_request \<Rightarrow> (dependency_response, monitor) service" where
  "update_dependency cy org_id i r s = (case owned_dependency s org_id i of
     Inl e \<Rightarrow> (Inl e, s)
   | Inr d \<Rightarrow>
       (case update_interval_ok s org_id r of Inl e \<Rightarrow> (Inl e, s)
        | Inr _ \<Rightarrow>
            if \<not> opt_all (owned_application (mo_db s) org_id) (dur_application_id r)
            then (Inl (ValidationException ''Application does not belong to this organization''), s)
            else (case dep_update d (update_fields cy r) s of (d', s') \<Rightarrow> (Inr (to_response d'), s'))))"

definition delete_dependency :: "time \<Rightarrow> uuid \<Rightarrow> uuid \<Rightarrow> (unit, monitor) service" where
  "delete_dependency now org_id i s = (case owned_dependency s org_id i of
     Inl e \<Rightarrow> (Inl e, s) | Inr d \<Rightarrow> (Inr (), dep_soft_delete now d s))"

definition get_dependency_history :: "time \<Rightarrow> uuid \<Rightarrow> uuid \<Rightarrow> (uuid \<times> check_stats, monitor) service" where
  "get_dependency_history now org_id i s = (case owned_dependency s org_id i of
     Inl e \<Rightarrow> (Inl e, s) | Inr _ \<Rightarrow> (Inr (i, get_aggregated_stats now s i 24), s))"

text \<open>The row with its headers in clear, for the check runner.\<close>

definition get_dependency_config_internal :: "crypto \<Rightarrow> monitor \<Rightarrow> uuid \<Rightarrow> uuid option \<Rightarrow> dependency option" where
  "get_dependency_config_internal cy s i org_id = (case dep_get_by_id s i of None \<Rightarrow> None
     | Some d \<Rightarrow> if org_id \<noteq> None \<and> org_id \<noteq> Some (d_org_id d) then None
         else Some (d\<lparr>d_headers := decode_headers cy (d_headers d)\<rparr>))"

section \<open>Invariants of the operations\<close>

text \<open>
  Every dependency has a non-empty list of distinct monitored regions and a positive interval, and
  identifiers are unique.
\<close>

definition dependency_ok :: "dependency \<Rightarrow> bool" where
  "dependency_ok d = (d_regions d \<noteq> [] \<and> distinct (d_regions d) \<and> set (d_regions d) \<subseteq> set ALLOWED_REGIONS \<and>
     1 \<le> d_check_interval_seconds d \<and> in_range 1 300 (d_timeout_seconds d))"

definition dependencies_wf :: "monitor \<Rightarrow> bool" where
  "dependencies_wf s = (distinct (map d_id (mo_dependencies s)) \<and> list_all dependency_ok (mo_dependencies s))"

lemma dedup_distinct: "distinct acc \<Longrightarrow> distinct (dedup acc xs)"
  by (induction acc xs rule: dedup.induct) auto

lemma dedup_set: "set (dedup acc xs) = set acc \<union> set xs"
  by (induction acc xs rule: dedup.induct) auto

lemma validated_regions:
  assumes "validate_regions v = Some rs"
  shows "rs \<noteq> [] \<and> distinct rs \<and> set rs \<subseteq> set ALLOWED_REGIONS"
proof -
  have "set rs = set v" "v \<noteq> []" "set v \<subseteq> set ALLOWED_REGIONS"
    using assms by (auto simp: validate_regions_def dedup_set split: if_splits)
  moreover have "distinct rs"
    using assms by (auto simp: validate_regions_def dedup_distinct split: if_splits)
  ultimately show ?thesis
    by (metis empty_set set_empty)
qed

lemma validated_create:
  assumes "validate_create_request r0 = Some r"
  shows "dependency_ok (new_dependency cy i now org_id a r)"
proof -
  obtain rs where "validate_regions (dcr_regions r0) = Some rs" and r: "r = r0\<lparr>dcr_regions := rs\<rparr>"
    and bounds: "in_range 1 300 (dcr_timeout_seconds r0)" "in_range 1 86400 (dcr_check_interval_seconds r0)"
    using assms by (auto simp: validate_create_request_def split: option.splits if_splits)
  then show ?thesis
    using validated_regions [of "dcr_regions r0" rs] by (simp add: dependency_ok_def new_dependency_def in_range_def)
qed

lemma target_application_tables:
  "mo_dependencies (snd (target_application aid now org_id a s)) = mo_dependencies s"
  "org_get_by_id (mo_db (snd (target_application aid now org_id a s))) g = org_get_by_id (mo_db s) g"
  by (auto simp: target_application_def create_application_def org_get_by_id_def Let_def split: option.splits)

lemma create_cases:
  assumes "create_dependency cy i aid now org_id r s = (Inr resp, s')"
  obtains org a where "org_get_by_id (mo_db s) org_id = Some org"
    "get_min_check_interval (o_plan org) \<le> dcr_check_interval_seconds r"
    "dep_count_for_org s org_id < get_dependency_limit (o_plan org)"
    "i \<notin> d_id ` set (mo_dependencies s)"
    "mo_dependencies s' = mo_dependencies s @ [new_dependency cy i now org_id a r]"
    "resp = to_response (new_dependency cy i now org_id a r)"
proof -
  obtain org where org: "org_get_by_id (mo_db s) org_id = Some org"
    "get_min_check_interval (o_plan org) \<le> dcr_check_interval_seconds r"
    "dep_count_for_org s org_id < get_dependency_limit (o_plan org)"
    using assms by (auto simp: create_dependency_def split: option.splits if_splits)
  obtain a s1 where "target_application aid now org_id (dcr_application_id r) s = (Inr a, s1)"
    "dep_create (new_dependency cy i now org_id a r) s1 = (Inr (new_dependency cy i now org_id a r), s')"
    "resp = to_response (new_dependency cy i now org_id a r)"
    using assms org by (auto simp: create_dependency_def dep_create_def split: prod.splits sum.splits if_splits)
  moreover from this have "mo_dependencies s1 = mo_dependencies s"
    by (metis snd_conv target_application_tables(1))
  ultimately show ?thesis
    using that [OF org] by (auto simp: dep_create_def add_dependency_def new_dependency_def split: if_splits)
qed

lemma dep_get_by_id_row: "dep_get_by_id s i = Some d \<Longrightarrow> d \<in> set (mo_dependencies s) \<and> d_id d = i \<and> \<not> d_is_deleted d"
  using dependency_repo.get_hit [of s i] by (auto simp: dep_get_by_id_def split: option.splits if_splits)

lemma owned_row: "owned_dependency s org_id i = Inr d \<Longrightarrow>
    d \<in> set (mo_dependencies s) \<and> d_id d = i \<and> d_org_id d = org_id \<and> \<not> d_is_deleted d"
  by (auto simp: owned_dependency_def dest: dep_get_by_id_row split: option.splits if_splits)

text \<open>What an update changes.\<close>

lemma put_dependency_fields:
  "d_id (put_dependency f d) = d_id d" "d_org_id (put_dependency f d) = d_org_id d"
  "d_is_deleted (put_dependency f d) = d_is_deleted d" "d_application_id (put_dependency f d) = d_application_id d"
  "d_alert_threshold_ms (put_dependency f d) = d_alert_threshold_ms d"
  "d_regions (put_dependency f d) = (case f of DfRegions (Some v) \<Rightarrow> v | _ \<Rightarrow> d_regions d)"
  "d_check_interval_seconds (put_dependency f d) = (case f of DfCheckIntervalSeconds (Some v) \<Rightarrow> v | _ \<Rightarrow> d_check_interval_seconds d)"
  "d_timeout_seconds (put_dependency f d) = (case f of DfTimeoutSeconds (Some v) \<Rightarrow> v | _ \<Rightarrow> d_timeout_seconds d)"
  "d_headers (put_dependency f d) = (case f of DfHeaders (Some v) \<Rightarrow> Some v | _ \<Rightarrow> d_headers d)"
  by (cases "(f, d)" rule: put_dependency.cases; simp)+

lemma updated_fields:
  assumes "d' = set_fields put_dependency (update_fields cy r) d"
  shows "d_id d' = d_id d" "d_org_id d' = d_org_id d" "d_is_deleted d' = d_is_deleted d"
    "d_application_id d' = d_application_id d" "d_alert_threshold_ms d' = d_alert_threshold_ms d"
    "d_regions d' = (case dur_regions r of None \<Rightarrow> d_regions d | Some v \<Rightarrow> v)"
    "d_check_interval_seconds d' = (case dur_check_interval_seconds r of None \<Rightarrow> d_check_interval_seconds d | Some v \<Rightarrow> v)"
    "d_timeout_seconds d' = (case dur_timeout_seconds r of None \<Rightarrow> d_timeout_seconds d | Some v \<Rightarrow> v)"
    "d_headers d' = (case dur_headers r of None \<Rightarrow> d_headers d | Some h \<Rightarrow> if h = [] then d_headers d else encode_headers cy (Some h))"
  unfolding assms set_fields_def update_fields_def
  by (simp_all add: put_dependency_fields encode_headers_def split: option.split)

lemma update_cases:
  assumes "update_dependency cy org_id i r s = (Inr resp, s')"
  obtains d where "owned_dependency s org_id i = Inr d" "update_interval_ok s org_id r = Inr ()"
    "s' = save_dependency (set_fields put_dependency (update_fields cy r) d) s"
    "resp = to_response (set_fields put_dependency (update_fields cy r) d)"
  using assms that by (auto simp: update_dependency_def dep_update_def Let_def split: sum.splits if_splits)

section \<open>Operations of the component\<close>

text \<open>Any successful request on dependencies; the handlers roll back on an error.\<close>

inductive dependency_step :: "monitor \<Rightarrow> monitor \<Rightarrow> bool" where
  create: "validate_create_request r0 = Some r \<Longrightarrow> create_dependency cy i aid now org_id r s = (Inr resp, s') \<Longrightarrow> dependency_step s s'"
| update: "validate_update_request r0 = Some u \<Longrightarrow> update_dependency cy org_id i u s = (Inr resp, s') \<Longrightarrow> dependency_step s s'"
| delete: "delete_dependency now org_id i s = (Inr (), s') \<Longrightarrow> dependency_step s s'"

text \<open>Within the limits of the organization's plan.\<close>

definition within_plan :: "monitor \<Rightarrow> uuid \<Rightarrow> bool" where
  "within_plan s org_id = (case org_get_by_id (mo_db s) org_id of None \<Rightarrow> True
     | Some org \<Rightarrow> dep_count_for_org s org_id \<le> get_dependency_limit (o_plan org) \<and>
         list_all (\<lambda>d. get_min_check_interval (o_plan org) \<le> d_check_interval_seconds d) (org_dependencies s org_id))"

lemma save_row_filter_le:
  assumes "distinct (map key t)" and "r0 \<in> set t" and "key r = key r0" and "P r \<Longrightarrow> P r0"
  shows "length (filter P (save_row key r t)) \<le> length (filter P t)"
proof -
  have "length (filter P (map (\<lambda>x. if key x = key r then r else x) xs)) \<le> length (filter P xs)" if "set xs \<subseteq> set t" for xs
    using that
  proof (induction xs)
    case (Cons x xs)
    then have "key x = key r \<Longrightarrow> x = r0"
      using assms(1-3) by (auto dest: distinct_map_inj)
    with Cons assms(4) show ?case
      by auto
  qed simp
  then show ?thesis
    by (simp add: save_row_def)
qed

lemma save_dependency_within:
  assumes "distinct (map d_id (mo_dependencies s))" and "d0 \<in> set (mo_dependencies s)" and "d_id d = d_id d0"
    and "d_org_id d = d_org_id d0" and "d_is_deleted d0 \<Longrightarrow> d_is_deleted d"
    and "\<And>org. d_org_id d0 = g \<Longrightarrow> org_get_by_id (mo_db s) g = Some org \<Longrightarrow> \<not> d_is_deleted d \<Longrightarrow>
      get_min_check_interval (o_plan org) \<le> d_check_interval_seconds d"
    and "within_plan s g"
  shows "within_plan (save_dependency d s) g"
proof (cases "org_get_by_id (mo_db s) g")
  case (Some org)
  have "length (filter (\<lambda>d. d_org_id d = g \<and> \<not> d_is_deleted d) (save_row d_id d (mo_dependencies s))) \<le>
      length (filter (\<lambda>d. d_org_id d = g \<and> \<not> d_is_deleted d) (mo_dependencies s))"
    by (rule save_row_filter_le [of d_id _ d0]) (use assms(1-5) in auto)
  moreover have rows: "x = d \<or> x \<in> set (mo_dependencies s)" if "x \<in> set (save_row d_id d (mo_dependencies s))" for x
    using set_save_row [OF that] .
  ultimately show ?thesis
    using assms(4,6,7) Some
    by (auto simp: within_plan_def dep_count_for_org_def org_dependencies_def save_dependency_def list_all_iff dest!: rows)
qed (simp add: within_plan_def save_dependency_def)

lemma dependency_step_wf:
  assumes "dependency_step s s'" and "dependencies_wf s"
  shows "dependencies_wf s'"
  using assms
proof (induction rule: dependency_step.induct)
  case (create r0 r cy i aid now org_id s resp s')
  obtain a where "i \<notin> d_id ` set (mo_dependencies s)"
    "mo_dependencies s' = mo_dependencies s @ [new_dependency cy i now org_id a r]"
    using create.hyps(2) by (rule create_cases)
  moreover have "d_id (new_dependency cy i now org_id a r) = i"
    by (simp add: new_dependency_def)
  ultimately show ?case
    using create.prems validated_create [OF create.hyps(1)] by (simp add: dependencies_wf_def)
next
  case (update r0 u cy org_id i s resp s')
  obtain d where d: "owned_dependency s org_id i = Inr d"
    and s': "s' = save_dependency (set_fields put_dependency (update_fields cy u) d) s"
    using update.hyps(2) by (rule update_cases)
  have "dependency_ok d"
    using owned_row [OF d] update.prems by (auto simp: dependencies_wf_def list_all_iff)
  moreover have "case dur_regions u of None \<Rightarrow> True | Some v \<Rightarrow> v \<noteq> [] \<and> distinct v \<and> set v \<subseteq> set ALLOWED_REGIONS"
    "opt_all (in_range 1 300) (dur_timeout_seconds u)" "opt_all (in_range 1 86400) (dur_check_interval_seconds u)"
    using update.hyps(1)
    by (auto simp: validate_update_request_def Let_def dest!: validated_regions split: option.splits if_splits)
  ultimately have "dependency_ok (set_fields put_dependency (update_fields cy u) d)"
    by (auto simp: dependency_ok_def updated_fields [OF refl] opt_all_def in_range_def split: option.splits)
  then show ?case
    using update.prems by (auto simp: s' dependencies_wf_def save_dependency_def list_all_iff dest: set_save_row)
next
  case (delete now org_id i s s')
  then obtain d where d: "owned_dependency s org_id i = Inr d" and s': "s' = dep_soft_delete now d s"
    by (auto simp: delete_dependency_def split: sum.splits)
  have "dependency_ok d"
    using owned_row [OF d] delete.prems by (simp add: dependencies_wf_def list_all_iff)
  then have "dependency_ok (d\<lparr>d_is_deleted := True, d_is_active := False, d_deleted_at := Some now\<rparr>)"
    by (simp add: dependency_ok_def)
  then show ?case
    using delete.prems by (auto simp: s' dependencies_wf_def dep_soft_delete_def save_dependency_def list_all_iff dest: set_save_row)
qed

lemma dependency_step_within:
  assumes "dependency_step s s'" and "dependencies_wf s" and "within_plan s g"
  shows "within_plan s' g"
  using assms
proof (induction rule: dependency_step.induct)
  case (create r0 r cy i aid now org_id s resp s')
  obtain org a where "org_get_by_id (mo_db s) org_id = Some org"
    "get_min_check_interval (o_plan org) \<le> dcr_check_interval_seconds r"
    "dep_count_for_org s org_id < get_dependency_limit (o_plan org)"
    "mo_dependencies s' = mo_dependencies s @ [new_dependency cy i now org_id a r]"
    using create.hyps(2) by (rule create_cases)
  moreover have "org_get_by_id (mo_db s') g = org_get_by_id (mo_db s) g"
    using create.hyps(2) target_application_tables(2)
    by (auto simp: create_dependency_def dep_create_def add_dependency_def split: option.splits if_splits prod.splits sum.splits)
      (metis snd_conv)+
  ultimately show ?case
    using create.prems by (auto simp: within_plan_def dep_count_for_org_def org_dependencies_def new_dependency_def split: option.splits)
next
  case (update r0 u cy org_id i s resp s')
  obtain d where d: "owned_dependency s org_id i = Inr d" and iv: "update_interval_ok s org_id u = Inr ()"
    and s': "s' = save_dependency (set_fields put_dependency (update_fields cy u) d) s"
    using update.hyps(2) by (rule update_cases)
  show ?case
    unfolding s'
  proof (rule save_dependency_within [of _ d])
    fix org
    assume "d_org_id d = g" and "org_get_by_id (mo_db s) g = Some org"
    with iv update.prems owned_row [OF d]
    show "get_min_check_interval (o_plan org) \<le> d_check_interval_seconds (set_fields put_dependency (update_fields cy u) d)"
      by (auto simp: updated_fields [OF refl] update_interval_ok_def within_plan_def org_dependencies_def list_all_iff
          split: option.splits if_splits)
  qed (use update.prems owned_row [OF d] in \<open>simp_all add: dependencies_wf_def updated_fields [OF refl]\<close>)
next
  case (delete now org_id i s s')
  then obtain d where d: "owned_dependency s org_id i = Inr d" and s': "s' = dep_soft_delete now d s"
    by (auto simp: delete_dependency_def split: sum.splits)
  show ?case
    unfolding s' dep_soft_delete_def
    by (rule save_dependency_within [of _ d]) (use delete.prems owned_row [OF d] in \<open>simp_all add: dependencies_wf_def\<close>)
qed

end
