(* ===== verification/Circuit_Breaker.thy ===== *)
theory Circuit_Breaker
  imports Redis
begin

text \<open>
  \<^verbatim>\<open>src/app/core/circuit_breaker.py\<close>: the per-dependency circuit breaker kept in Redis.  A stored
  document is the value its JSON text denotes (\<^verbatim>\<open>CbDoc\<close>), any other text does not load
  (\<^verbatim>\<open>CbText\<close>); the probe key holds a text.  \<^verbatim>\<open>time.time()\<close> is the clock argument.
\<close>

definition FAILURE_THRESHOLD :: int where "FAILURE_THRESHOLD = 3"
definition SUCCESS_THRESHOLD :: int where "SUCCESS_THRESHOLD = 2"
definition HALF_OPEN_INTERVAL :: time where "HALF_OPEN_INTERVAL = seconds 60"
definition PROBE_LEASE_SECONDS :: int where "PROBE_LEASE_SECONDS = 60"

datatype circuit_state = CircuitClosed | CircuitOpen

record circuit =
  cb_state :: circuit_state
  cb_failures :: int
  cb_successes :: int
  cb_opened_at :: "time option"

datatype cb_value = CbDoc circuit | CbText string

definition state_key :: "uuid \<Rightarrow> string" where
  "state_key d = ''reliastra:circuit:'' @ uuid_str d"

definition probe_key :: "uuid \<Rightarrow> string" where
  "probe_key d = ''reliastra:circuit:probe:'' @ uuid_str d"

definition empty_state :: circuit where
  "empty_state = \<lparr>cb_state = CircuitClosed, cb_failures = 0, cb_successes = 0, cb_opened_at = None\<rparr>"

definition cb_load :: "time \<Rightarrow> uuid \<Rightarrow> cb_value redis \<Rightarrow> circuit" where
  "cb_load now d r = (case redis_get now (state_key d) r of
     Some (Some (CbDoc c)) \<Rightarrow> c | _ \<Rightarrow> empty_state)"

definition cb_save :: "time \<Rightarrow> uuid \<Rightarrow> circuit \<Rightarrow> cb_value redis \<Rightarrow> bool \<times> cb_value redis" where
  "cb_save now d c r = (case redis_set now (state_key d) (CbDoc c) None r of
     (None, r') \<Rightarrow> (False, r') | (Some _, r') \<Rightarrow> (True, r'))"

text \<open>The probe lease; a failing command lets the probe through.\<close>

definition acquire_probe :: "time \<Rightarrow> uuid \<Rightarrow> cb_value redis \<Rightarrow> bool \<times> cb_value redis" where
  "acquire_probe now d r = (case redis_set_nx now (probe_key d) (CbText ''1'') (Some PROBE_LEASE_SECONDS) r of
     (None, r') \<Rightarrow> (True, r') | (Some b, r') \<Rightarrow> (b, r'))"

definition should_dispatch :: "time \<Rightarrow> uuid \<Rightarrow> cb_value redis \<Rightarrow> bool \<times> cb_value redis" where
  "should_dispatch now d r =
     (let c = cb_load now d r in
      if cb_state c \<noteq> CircuitOpen then (True, r)
      else if now - (case cb_opened_at c of None \<Rightarrow> 0 | Some t \<Rightarrow> t) < HALF_OPEN_INTERVAL then (False, r)
      else acquire_probe now d r)"

definition on_success :: "circuit \<Rightarrow> circuit" where
  "on_success c =
     (let c = c\<lparr>cb_failures := 0, cb_successes := cb_successes c + 1\<rparr> in
      if cb_successes c \<ge> SUCCESS_THRESHOLD
      then c\<lparr>cb_state := CircuitClosed, cb_successes := 0, cb_opened_at := None\<rparr> else c)"

definition on_failure :: "time \<Rightarrow> circuit \<Rightarrow> circuit" where
  "on_failure now c =
     (let c = c\<lparr>cb_successes := 0, cb_failures := cb_failures c + 1\<rparr> in
      if cb_failures c \<ge> FAILURE_THRESHOLD
      then c\<lparr>cb_state := CircuitOpen, cb_opened_at := Some now\<rparr> else c)"

text \<open>The success that reaches the threshold also drops the probe lease.\<close>

definition record_success :: "time \<Rightarrow> uuid \<Rightarrow> cb_value redis \<Rightarrow> cb_value redis" where
  "record_success now d r =
     (let c = cb_load now d r;
          r1 = (if cb_successes c + 1 \<ge> SUCCESS_THRESHOLD then snd (redis_delete (probe_key d) r) else r)
      in snd (cb_save now d (on_success c) r1))"

definition record_failure :: "time \<Rightarrow> uuid \<Rightarrow> cb_value redis \<Rightarrow> cb_value redis" where
  "record_failure now d r = snd (cb_save now d (on_failure now (cb_load now d r)) r)"

section \<open>Laws\<close>

lemma keys_distinct: "probe_key d \<noteq> state_key d'"
proof
  assume "probe_key d = state_key d'"
  then have "''probe:'' @ uuid_str d = uuid_str d'"
    by (simp add: probe_key_def state_key_def)
  then have "length (''probe:'' @ uuid_str d) = length (uuid_str d')"
    by simp
  then show False
    by (simp add: uuid_str_def Let_def)
qed

lemma cb_load_save: "r_up r \<Longrightarrow> cb_load t d (snd (cb_save now d c r)) = c"
  by (simp add: cb_load_def cb_save_def redis_set_def redis_get_def put_key_def live_def expiry_def)

lemma cb_save_up [simp]: "r_up (snd (cb_save now d c r)) = r_up r"
  by (simp add: cb_save_def redis_set_def put_key_def)

lemma redis_delete_up [simp]: "r_up (snd (redis_delete k r)) = r_up r"
  by (simp add: redis_delete_def)

lemma record_up [simp]: "r_up (record_failure now d r) = r_up r" "r_up (record_success now d r) = r_up r"
  by (simp_all add: record_failure_def record_success_def Let_def)

lemma load_record_failure: "r_up r \<Longrightarrow> cb_load t d (record_failure now d r) = on_failure now (cb_load now d r)"
  by (simp add: record_failure_def cb_load_save)

lemma load_record_success: "r_up r \<Longrightarrow> cb_load t d (record_success now d r) = on_success (cb_load now d r)"
  by (simp add: record_success_def cb_load_save Let_def)

text \<open>A Redis outage never stops monitoring.\<close>

lemma dispatch_down: "\<not> r_up r \<Longrightarrow> should_dispatch now d r = (True, r)"
  by (simp add: should_dispatch_def cb_load_def redis_get_def empty_state_def)

lemma acquire_probe_claim: "r_up r \<Longrightarrow> acquire_probe now d r = redis_claim PROBE_LEASE_SECONDS (CbText ''1'') now (probe_key d) r"
  by (simp add: acquire_probe_def redis_claim_def safe_redis_set_nx_def redis_set_nx_def split: option.split)

lemma load_probe: "cb_load t d (snd (acquire_probe now d' r)) = cb_load t d r"
  using keys_distinct [of d' d]
  by (auto simp: acquire_probe_def redis_set_nx_def cb_load_def redis_get_def put_key_def split: option.split)

lemma probe_up [simp]: "r_up (snd (acquire_probe now d r)) = r_up r"
  by (auto simp: acquire_probe_def redis_set_nx_def put_key_def split: option.split)

text \<open>Once a probe of an open circuit went out, no other one does before the lease ends.\<close>

lemma probe_once:
  assumes "r_up r" and "fst (should_dispatch now d r)" and "cb_state (cb_load now d r) = CircuitOpen"
    and "cb_load t d r = cb_load now d r" and "t < now + seconds PROBE_LEASE_SECONDS"
  shows "\<not> fst (should_dispatch t d (snd (should_dispatch now d r)))"
proof -
  have probe: "should_dispatch now d r = acquire_probe now d r"
    using assms(2,3) by (auto simp: should_dispatch_def Let_def split: if_splits)
  have "fst (acquire_probe now d r)"
    using assms(2) by (simp add: probe)
  then have "acquire_probe t d (snd (acquire_probe now d r)) = (False, snd (acquire_probe now d r))"
    using redis_lease.claim_once [of PROBE_LEASE_SECONDS "CbText ''1''" now "probe_key d" r t] assms(1,5)
    by (simp add: acquire_probe_claim)
      (metis acquire_probe_claim probe_up)
  moreover have "cb_load t d (snd (acquire_probe now d r)) = cb_load now d r"
    by (simp add: load_probe assms(4))
  ultimately show ?thesis
    using assms(3) unfolding probe by (simp add: should_dispatch_def Let_def)
qed

text \<open>Three failures in a row open the circuit, and nothing is dispatched for a minute.\<close>

fun record_failures :: "uuid \<Rightarrow> time list \<Rightarrow> cb_value redis \<Rightarrow> cb_value redis" where
  "record_failures d [] r = r"
| "record_failures d (t # ts) r = record_failures d ts (record_failure t d r)"

lemma record_failures_up [simp]: "r_up (record_failures d ts r) = r_up r"
  by (induction d ts r rule: record_failures.induct) simp_all

lemma load_record_failures:
  "r_up r \<Longrightarrow> cb_load x d (record_failures d (t # ts) r) = fold on_failure (t # ts) (cb_load t d r)"
proof (induction ts arbitrary: t r)
  case (Cons u ts)
  then have "cb_load x d (record_failures d (u # ts) (record_failure t d r)) =
      fold on_failure (u # ts) (cb_load u d (record_failure t d r))"
    by (metis record_up(1))
  with Cons.prems show ?case
    by (simp add: load_record_failure)
qed (simp add: load_record_failure)

lemma on_failure_fold:
  "cb_failures (fold on_failure ts c) = cb_failures c + int (length ts)"
  "ts \<noteq> [] \<Longrightarrow> FAILURE_THRESHOLD \<le> cb_failures c + int (length ts) \<Longrightarrow>
     cb_state (fold on_failure ts c) = CircuitOpen \<and> cb_opened_at (fold on_failure ts c) = Some (last ts)"
proof (induction ts rule: rev_induct)
  case (snoc t ts)
  have "cb_failures (on_failure t x) = cb_failures x + 1" for x
    by (simp add: on_failure_def Let_def)
  moreover have "FAILURE_THRESHOLD \<le> cb_failures x + 1 \<Longrightarrow>
      cb_state (on_failure t x) = CircuitOpen \<and> cb_opened_at (on_failure t x) = Some t" for x
    by (simp add: on_failure_def Let_def)
  ultimately show "cb_failures (fold on_failure (ts @ [t]) c) = cb_failures c + int (length (ts @ [t]))"
    "ts @ [t] \<noteq> [] \<Longrightarrow> FAILURE_THRESHOLD \<le> cb_failures c + int (length (ts @ [t])) \<Longrightarrow>
       cb_state (fold on_failure (ts @ [t]) c) = CircuitOpen \<and> cb_opened_at (fold on_failure (ts @ [t]) c) = Some (last (ts @ [t]))"
    using snoc.IH(1) by (simp_all add: algebra_simps)
qed simp_all

lemma failures_open:
  assumes "r_up r" and "3 \<le> length ts" and "0 \<le> cb_failures (cb_load (hd ts) d r)"
  shows "cb_state (cb_load x d (record_failures d ts r)) = CircuitOpen \<and>
    cb_opened_at (cb_load x d (record_failures d ts r)) = Some (last ts)"
  using assms on_failure_fold(2) [of ts "cb_load (hd ts) d r"] load_record_failures [of r x d "hd ts" "tl ts"]
  by (cases ts) (auto simp: FAILURE_THRESHOLD_def)

section \<open>What the breaker guarantees its callers\<close>

text \<open>
  What \<^verbatim>\<open>should_dispatch\<close>, which no module of the repository calls, would tell its callers: after three
  failures in a row it answers no for a minute, and from then on yes at most once a minute,
  whichever scheduler asks.
\<close>
theorem breaker_protects:
  assumes "r_up r" and "3 \<le> length ts" and "0 \<le> cb_failures (cb_load (hd ts) d r)"
    and "r' = record_failures d ts r"
  shows "(\<forall>now < last ts + seconds 60. should_dispatch now d r' = (False, r')) \<and>
    (\<forall>now t. fst (should_dispatch now d r') \<and> t < now + seconds 60 \<longrightarrow>
       \<not> fst (should_dispatch t d (snd (should_dispatch now d r'))))"
proof -
  have open_circuit: "cb_state (cb_load x d r') = CircuitOpen" "cb_opened_at (cb_load x d r') = Some (last ts)" for x
    using failures_open [OF assms(1-3)] by (simp_all add: assms(4))
  have same: "cb_load x d r' = cb_load y d r'" for x y
    using load_record_failures [OF assms(1), of _ d "hd ts" "tl ts"] assms(2) by (cases ts) (auto simp: assms(4))
  have up: "r_up r'"
    using assms(1) by (simp add: assms(4))
  show ?thesis
    using probe_once [OF up _ open_circuit(1) same]
    by (auto simp: should_dispatch_def open_circuit HALF_OPEN_INTERVAL_def PROBE_LEASE_SECONDS_def)
qed

theorem breaker_protects_witness:
  "should_dispatch (seconds 62) 7 (record_failures 7 [0, seconds 1, seconds 3] redis_empty) =
     (False, record_failures 7 [0, seconds 1, seconds 3] redis_empty)"
  using breaker_protects [of redis_empty "[0, seconds 1, seconds 3]" 7, OF _ _ _ refl]
  by (simp add: redis_empty_def cb_load_def redis_get_def live_def empty_state_def time_defs)

end
