(* ===== verification/Checks.thy ===== *)
theory Checks
  imports Incidents Dependencies Circuit_Breaker
begin

text \<open>
  \<^verbatim>\<open>modules/checks\<close>: the scheduler, the probe of an endpoint with its redirects, and the
  execution of one check with the quorum that opens and closes incidents.  The HTTP exchange is the
  field \<^verbatim>\<open>pe_request\<close>: the answer to the \<^verbatim>\<open>n\<close>-th request of the check, or the text of the
  exception it raises.  One clock reading stands for the moment the result is stored.
\<close>

definition QUORUM_WINDOW_SECONDS :: int where "QUORUM_WINDOW_SECONDS = 60"
definition QUORUM_MIN_REGIONS :: nat where "QUORUM_MIN_REGIONS = 2"
definition CONSECUTIVE_RECOVERY_CHECKS :: nat where "CONSECUTIVE_RECOVERY_CHECKS = 2"
definition MAX_REDIRECTS :: nat where "MAX_REDIRECTS = 5"

section \<open>The probe\<close>

record http_request =
  rq_method :: string
  rq_url :: string
  rq_headers :: "(string \<times> json) list"
  rq_timeout :: int

record http_response =
  rs_status :: int
  rs_location :: "string option"

record probe_env =
  pe_notify :: notify_env
  pe_crypto :: crypto
  pe_request :: "nat \<Rightarrow> transport \<Rightarrow> http_request \<Rightarrow> string + http_response"
  pe_elapsed_ms :: real

text \<open>
  What the redirect loop ends with: the exception text, or the last response with the redirect error
  if there is one; and, for reasoning, the connections it made and the lookups used.
\<close>

record probe_trace =
  pt_outcome :: "string + http_response \<times> string option"
  pt_connections :: "(transport \<times> http_request) list"
  pt_lookups :: nat

definition redirect_to :: "http_response \<Rightarrow> string option" where
  "redirect_to r = (if rs_status r \<in> {301, 302, 303, 307, 308} \<and> str_truthy (rs_location r) then rs_location r else None)"

definition too_many_redirects :: string where
  "too_many_redirects = ''Too many redirects (> '' @ show_nat MAX_REDIRECTS @ '')''"

text \<open>\<^verbatim>\<open>remaining\<close> is \<^verbatim>\<open>_MAX_REDIRECTS - redirects_followed\<close>.\<close>

fun follow :: "probe_env \<Rightarrow> http_request \<Rightarrow> pinned_target \<Rightarrow> nat \<Rightarrow> nat \<Rightarrow> nat \<Rightarrow> probe_trace" where
  "follow env req target k n remaining =
     (let c = (pinned_transport_for target, req);
          stop = (\<lambda>o' k. \<lparr>pt_outcome = o', pt_connections = [c], pt_lookups = k\<rparr>)
      in case pe_request env n (fst c) req of
           Inl exc \<Rightarrow> stop (Inl exc) k
         | Inr r \<Rightarrow>
             (case redirect_to r of None \<Rightarrow> stop (Inr (r, None)) k
              | Some location \<Rightarrow>
                  (case remaining of 0 \<Rightarrow> stop (Inr (r, Some too_many_redirects)) k
                   | Suc m \<Rightarrow>
                       (case urljoin (rq_url req) location of None \<Rightarrow> stop (Inl ''Invalid IPv6 URL'') k
                        | Some next_url \<Rightarrow>
                            (case resolve_pinned_target (ne_dns (pe_notify env)) k next_url of
                               (Inl e, k') \<Rightarrow> stop (Inr (r, Some (''Redirect blocked by security policy: '' @ e))) k'
                             | (Inr t, k') \<Rightarrow>
                                 (let tr = follow env (req\<lparr>rq_url := next_url\<rparr>) t k' (n + 1) m
                                  in tr\<lparr>pt_connections := c # pt_connections tr\<rparr>))))))"

declare follow.simps [simp del]

record probe_result =
  prs_is_up :: bool
  prs_status_code :: "int option"
  prs_error_message :: "string option"

definition probe_result_of :: "int list \<Rightarrow> string + http_response \<times> string option \<Rightarrow> probe_result" where
  "probe_result_of expected o' = (case o' of
     Inl exc \<Rightarrow> \<lparr>prs_is_up = False, prs_status_code = None, prs_error_message = Some exc\<rparr>
   | Inr (r, Some e) \<Rightarrow> \<lparr>prs_is_up = False, prs_status_code = Some (rs_status r), prs_error_message = Some e\<rparr>
   | Inr (r, None) \<Rightarrow>
       if rs_status r \<in> set expected
       then \<lparr>prs_is_up = True, prs_status_code = Some (rs_status r), prs_error_message = None\<rparr>
       else \<lparr>prs_is_up = False, prs_status_code = Some (rs_status r),
             prs_error_message = Some (''Unexpected status code: '' @ show_int (rs_status r))\<rparr>)"

definition check_request :: "dependency \<Rightarrow> http_request" where
  "check_request dto = \<lparr>rq_method = d_method dto, rq_url = d_endpoint_url dto,
     rq_headers = (case d_headers dto of None \<Rightarrow> [] | Some h \<Rightarrow> h),
     rq_timeout = (if d_timeout_seconds dto = 0 then 10 else d_timeout_seconds dto)\<rparr>"

definition expected_codes :: "dependency \<Rightarrow> int list" where
  "expected_codes dto = (if d_expected_status_codes dto \<noteq> [] then d_expected_status_codes dto else [200])"

section \<open>The observation outbox\<close>

definition error_type_of :: "string \<Rightarrow> string" where
  "error_type_of message = take 50 (replace_str '' '' ''_'' (lower (strip (before CHR '':'' message))))"

text \<open>The validation of \<^verbatim>\<open>ObservationCreateDTO\<close>.\<close>

definition observation_dto :: "check_result \<Rightarrow> string \<Rightarrow> string \<Rightarrow> observation_create option" where
  "observation_dto r endpoint_url method =
     (if cr_region r \<noteq> [] \<and> length (cr_region r) \<le> 50 \<and> endpoint_url \<noteq> [] \<and> length endpoint_url \<le> 500 \<and> 0 \<le> cr_latency_ms r
      then Some \<lparr>oc_timestamp = Some (cr_executed_at r), oc_source_type = ''customer_check'',
        oc_source_id = Some (cr_dependency_id r), oc_org_id = Some (cr_org_id r), oc_region = cr_region r,
        oc_endpoint_url = endpoint_url, oc_latency_ms = cr_latency_ms r, oc_status_code = cr_status_code r,
        oc_response_time_ms = Some (cr_latency_ms r),
        oc_error_type = (if str_truthy (cr_error_message r) then map_option error_type_of (cr_error_message r) else None),
        oc_error_message = cr_error_message r,
        oc_metadata = [(''method'', JStr method), (''is_up'', JBool (cr_is_up r)),
          (''quorum_confirmed'', JBool (cr_quorum_confirmed r)), (''check_result_id'', juuid (cr_id r))]\<rparr>
      else None)"

definition enqueue_observation_outbox ::
  "uuid \<Rightarrow> time \<Rightarrow> check_result \<Rightarrow> string \<Rightarrow> string \<Rightarrow> (unit, monitor) service" where
  "enqueue_observation_outbox i now r endpoint_url method s = (case observation_dto r endpoint_url method of
     None \<Rightarrow> (Inl (ValueError ''ObservationCreateDTO''), s)
   | Some dto \<Rightarrow>
       if i \<in> ox_id ` set (mo_outbox s) then (Inl (IntegrityError ''observation_outbox_pkey''), s)
       else (Inr (), s\<lparr>mo_outbox := mo_outbox s @ [\<lparr>ox_id = i, ox_event_type = ''observation_created'',
          ox_payload = Some dto, ox_created_at = now\<rparr>]\<rparr>))"

section \<open>Executing a check\<close>

record check_ids =
  ci_result :: uuid
  ci_event :: uuid
  ci_incident :: uuid
  ci_attribution :: uuid
  ci_correlation :: "nat \<Rightarrow> uuid"

definition failing_regions :: "check_result list \<Rightarrow> string \<Rightarrow> string set" where
  "failing_regions recent region = insert region (set (map cr_region (filter (\<lambda>r. \<not> cr_is_up r) recent)))"

definition succeeding_regions :: "check_result list \<Rightarrow> string \<Rightarrow> string set" where
  "succeeding_regions recent region =
     insert region (set (map cr_region (filter cr_is_up (take (CONSECUTIVE_RECOVERY_CHECKS * 2) recent))))"

text \<open>
  The quorum evaluation after the result is stored: the stored result, with its quorum flag, is
  returned.
\<close>

definition evaluate_quorum ::
  "notify_env \<Rightarrow> check_ids \<Rightarrow> (monitor \<Rightarrow> monitor) \<Rightarrow> time \<Rightarrow> check_result \<Rightarrow> (check_result, world) service" where
  "evaluate_quorum env ids others now result w =
     (let d = cr_dependency_id result;
          recent = list_recent_for_dependency now (w_m w) d QUORUM_WINDOW_SECONDS
      in if \<not> cr_is_up result then
           (if card (failing_regions recent (cr_region result)) \<ge> QUORUM_MIN_REGIONS
            then (case check_and_create_incident env (ci_correlation ids) (ci_incident ids) others now (cr_org_id result) d
                     (if str_truthy (cr_error_message result) then the (cr_error_message result) else ''Quorum confirmed failure'')
                     (w\<lparr>w_m := confirm_quorum result (w_m w)\<rparr>) of
                   (Inl e, w') \<Rightarrow> (Inl e, w')
                 | (Inr _, w') \<Rightarrow> (Inr (result\<lparr>cr_quorum_confirmed := True\<rparr>), w'))
            else (Inr result, w))
         else (case get_open_for_dependency (w_m w) d of
             None \<Rightarrow> (Inr result, w)
           | Some inc \<Rightarrow>
               if card (succeeding_regions recent (cr_region result)) \<ge> QUORUM_MIN_REGIONS
               then (case resolve_incident (ci_attribution ids) now (in_id inc) (Some (in_org_id inc)) w of
                   (Inl e, w') \<Rightarrow> (Inl e, w') | (Inr _, w') \<Rightarrow> (Inr result, w'))
               else (Inr result, w)))"

record check_state =
  ck_world :: world
  ck_circuit :: "cb_value redis"

definition record_blocked_result ::
  "check_ids \<Rightarrow> time \<Rightarrow> dependency \<Rightarrow> string \<Rightarrow> string \<Rightarrow> (check_result, monitor) service" where
  "record_blocked_result ids now dto region reason s =
     (case check_create (ci_result ids) now (d_id dto) (d_org_id dto) region 0 False None
             (Some (''URL blocked by security policy: '' @ reason)) False s of
        (Inl e, s1) \<Rightarrow> (Inl e, s1)
      | (Inr r, s1) \<Rightarrow>
          (case enqueue_observation_outbox (ci_event ids) now r (d_endpoint_url dto) (d_method dto) s1 of
             (Inl e, s2) \<Rightarrow> (Inl e, s2) | (Inr _, s2) \<Rightarrow> (Inr r, s2)))"

text \<open>Storing a probe's result, its quorum evaluation and its outbox event.\<close>

definition record_result ::
  "probe_env \<Rightarrow> check_ids \<Rightarrow> (monitor \<Rightarrow> monitor) \<Rightarrow> time \<Rightarrow> dependency \<Rightarrow> string \<Rightarrow> probe_result \<Rightarrow> (check_result, world) service" where
  "record_result env ids others now dto region p w =
     (case check_create (ci_result ids) now (d_id dto) (d_org_id dto) region (pe_elapsed_ms env) (prs_is_up p)
             (prs_status_code p) (prs_error_message p) False (w_m w) of
        (Inl e, m) \<Rightarrow> (Inl e, w\<lparr>w_m := m\<rparr>)
      | (Inr r0, m) \<Rightarrow>
          (case evaluate_quorum (pe_notify env) ids others now r0 (w\<lparr>w_m := m\<rparr>) of
             (Inl e, w1) \<Rightarrow> (Inl e, w1)
           | (Inr r, w1) \<Rightarrow>
               (case enqueue_observation_outbox (ci_event ids) now r (d_endpoint_url dto) (d_method dto) (w_m w1) of
                  (Inl e, m2) \<Rightarrow> (Inl e, w1\<lparr>w_m := m2\<rparr>) | (Inr _, m2) \<Rightarrow> (Inr r, w1\<lparr>w_m := m2\<rparr>))))"

definition set_lookups :: "nat \<Rightarrow> world \<Rightarrow> world" where
  "set_lookups k w = w\<lparr>w_notify := (w_notify w)\<lparr>ns_lookups := k\<rparr>\<rparr>"

text \<open>The check proper, of a dependency with its headers in clear.\<close>

definition run_check ::
  "probe_env \<Rightarrow> check_ids \<Rightarrow> (monitor \<Rightarrow> monitor) \<Rightarrow> time \<Rightarrow> dependency \<Rightarrow> string \<Rightarrow> (check_result option, check_state) service" where
  "run_check env ids others now dto region s =
     (let w = ck_world s in
      case resolve_pinned_target (ne_dns (pe_notify env)) (ns_lookups (w_notify w)) (d_endpoint_url dto) of
        (Inl reason, k) \<Rightarrow>
          (case record_blocked_result ids now dto region reason (w_m w) of
             (Inl e, m) \<Rightarrow> (Inl e, s\<lparr>ck_world := set_lookups k (w\<lparr>w_m := m\<rparr>)\<rparr>)
           | (Inr r, m) \<Rightarrow> (Inr (Some r), \<lparr>ck_world = set_lookups k (w\<lparr>w_m := m\<rparr>),
                 ck_circuit = record_failure now (d_id dto) (ck_circuit s)\<rparr>))
      | (Inr target, k) \<Rightarrow>
          (let tr = follow env (check_request dto) target k 0 MAX_REDIRECTS;
               p = probe_result_of (expected_codes dto) (pt_outcome tr)
           in case record_result env ids others now dto region p (set_lookups (pt_lookups tr) w) of
                (Inl e, w1) \<Rightarrow> (Inl e, s\<lparr>ck_world := w1\<rparr>)
              | (Inr r, w1) \<Rightarrow> (Inr (Some r), \<lparr>ck_world = w1,
                  ck_circuit = (if prs_is_up p then record_success now (d_id dto) (ck_circuit s)
                                else record_failure now (d_id dto) (ck_circuit s))\<rparr>)))"

definition execute_check ::
  "probe_env \<Rightarrow> check_ids \<Rightarrow> (monitor \<Rightarrow> monitor) \<Rightarrow> time \<Rightarrow> uuid \<Rightarrow> string \<Rightarrow> (check_result option, check_state) service" where
  "execute_check env ids others now dependency_id region s =
     (let w = ck_world s in
      case dep_get_by_id (w_m w) dependency_id of None \<Rightarrow> (Inr None, s)
      | Some d \<Rightarrow>
        if \<not> d_is_active d then (Inr None, s)
        else
          (case get_dependency_config_internal (pe_crypto env) (w_m w) dependency_id (Some (d_org_id d)) of
             None \<Rightarrow> (Inl (ValueError ''dependency config''), s)
           | Some dto \<Rightarrow> run_check env ids others now dto region s))"

text \<open>
  The Celery task: the session is committed, or rolled back when the body raises; messages already
  sent and Redis keys already written stay.
\<close>

definition execute_check_task ::
  "probe_env \<Rightarrow> check_ids \<Rightarrow> (monitor \<Rightarrow> monitor) \<Rightarrow> time \<Rightarrow> uuid \<Rightarrow> string \<Rightarrow> (check_result option, check_state) service" where
  "execute_check_task env ids others now dependency_id region s =
     (case execute_check env ids others now dependency_id region s of
        (Inl e, s') \<Rightarrow> (Inl e, s'\<lparr>ck_world := (ck_world s')\<lparr>w_m := w_m (ck_world s)\<rparr>\<rparr>)
      | (Inr v, s') \<Rightarrow> (Inr v, s'))"

section \<open>Scheduling\<close>

definition check_regions :: "dependency \<Rightarrow> string list" where
  "check_regions d = (if d_regions d \<noteq> [] then d_regions d else DEFAULT_REGIONS)"

definition advance :: "time \<Rightarrow> dependency \<Rightarrow> dependency" where
  "advance now d = d\<lparr>d_next_check_at := Some (now + seconds (d_check_interval_seconds d))\<rparr>"

fun enqueue_all :: "task list \<Rightarrow> world \<Rightarrow> bool \<times> world" where
  "enqueue_all [] w = (True, w)"
| "enqueue_all (t # ts) w = (case enqueue t w of (False, w') \<Rightarrow> (False, w') | (True, w') \<Rightarrow> enqueue_all ts w')"

fun schedule_loop :: "time \<Rightarrow> dependency list \<Rightarrow> nat \<Rightarrow> (nat, world) service" where
  "schedule_loop now [] n w = (Inr n, w)"
| "schedule_loop now (d # ds) n w =
     (case enqueue_all (map (CheckTask (d_id d)) (check_regions d)) (w\<lparr>w_m := save_dependency (advance now d) (w_m w)\<rparr>) of
        (False, w') \<Rightarrow> (Inl (ValueError ''broker unreachable''), w')
      | (True, w') \<Rightarrow> schedule_loop now ds (n + length (check_regions d)) w')"

definition schedule_due_checks :: "time \<Rightarrow> (nat, world) service" where
  "schedule_due_checks now w = schedule_loop now (get_due_dependencies now 500 (w_m w)) 0 w"

definition list_results_for_dependency :: "monitor \<Rightarrow> uuid \<Rightarrow> nat \<Rightarrow> check_result list" where
  "list_results_for_dependency s i cnt = list_for_dependency s i cnt"

definition list_results_for_org :: "monitor \<Rightarrow> uuid \<Rightarrow> nat \<Rightarrow> check_result list" where
  "list_results_for_org s org_id cnt = checks_list_for_org s org_id cnt"

end
