(* ===== verification/Outbox.thy ===== *)
theory Outbox
  imports Checks
begin

text \<open>
  \<^verbatim>\<open>modules/observations/outbox.py\<close> and its task: draining the observation outbox in batches,
  and the accounting that ties every check result to one piece of evidence.
\<close>

definition PROCESS_BATCH_SIZE :: nat where "PROCESS_BATCH_SIZE = 100"

definition list_pending :: "monitor \<Rightarrow> nat \<Rightarrow> outbox_event list" where
  "list_pending s cnt = take cnt (sort_key ox_created_at (sort_key ox_id (mo_outbox s)))"

definition outbox_delete :: "outbox_event \<Rightarrow> monitor \<Rightarrow> monitor" where
  "outbox_delete e s = s\<lparr>mo_outbox := filter (\<lambda>x. ox_id x \<noteq> ox_id e) (mo_outbox s)\<rparr>"

definition record_observation :: "uuid \<Rightarrow> time \<Rightarrow> observation_create \<Rightarrow> (observation, monitor) service" where
  "record_observation i now dto s = observation_add i now dto s"

text \<open>
  A failing flush deactivates the session (\<^verbatim>\<open>None\<close>): the loop logs the exception and goes on, but
  every later statement of the batch and the final commit raise.  A payload that does not validate
  raises before it reaches the session and leaves the event pending.
\<close>

definition process_event :: "uuid \<Rightarrow> time \<Rightarrow> outbox_event \<Rightarrow> nat \<times> monitor \<Rightarrow> (nat \<times> monitor) option" where
  "process_event i now e st = (case st of (n, s) \<Rightarrow>
     (if ox_event_type e \<noteq> ''observation_created'' then Some (n, outbox_delete e s)
      else case ox_payload e of None \<Rightarrow> Some (n, s)
      | Some dto \<Rightarrow> (case record_observation i now dto s of
          (Inl _, _) \<Rightarrow> None | (Inr _, s1) \<Rightarrow> Some (n + 1, outbox_delete e s1))))"

fun process_loop :: "(nat \<Rightarrow> uuid) \<Rightarrow> time \<Rightarrow> nat \<Rightarrow> outbox_event list \<Rightarrow> nat \<times> monitor \<Rightarrow> (nat \<times> monitor) option" where
  "process_loop ids now k [] st = Some st"
| "process_loop ids now k (e # es) st = (case process_event (ids k) now e st of
     None \<Rightarrow> None | Some st' \<Rightarrow> process_loop ids now (k + 1) es st')"

text \<open>The task with its session: a deactivated session is rolled back.\<close>

definition process_outbox :: "(nat \<Rightarrow> uuid) \<Rightarrow> time \<Rightarrow> nat \<Rightarrow> (nat, monitor) service" where
  "process_outbox ids now batch_size s = (case process_loop ids now 0 (list_pending s batch_size) (0, s) of
     None \<Rightarrow> (Inl (IntegrityError ''observations''), s) | Some (n, s') \<Rightarrow> (Inr n, s'))"

definition retention_cleanup :: "time \<Rightarrow> int \<Rightarrow> monitor \<Rightarrow> nat \<times> monitor" where
  "retention_cleanup now retention_days s =
     (let expired = (\<lambda>x. ob_timestamp x < now - days retention_days)
      in (length (filter expired (mo_observations s)),
          s\<lparr>mo_observations := filter (\<lambda>x. \<not> expired x) (mo_observations s)\<rparr>))"

end
