(* ===== verification/Quorum.thy ===== *)
theory Quorum
  imports Outbox
begin

text \<open>
  What one check does to the tables: the lemmas about the redirect loop, about the quorum evaluation
  and about the rows a successful check adds.
\<close>

section \<open>The redirect loop\<close>

lemma follow_connections:
  assumes "admissible (pinned_transport_for target)"
  shows "list_all (\<lambda>c. admissible (fst c)) (pt_connections (follow env req target k n remaining)) \<and>
    length (pt_connections (follow env req target k n remaining)) \<le> remaining + 1"
  using assms
proof (induction env req target k n remaining rule: follow.induct)
  case (1 env req target k n remaining)
  show ?case
  proof (cases "pe_request env n (pinned_transport_for target) req")
    case (Inr r)
    show ?thesis
    proof (cases "redirect_to r")
      case (Some location)
      show ?thesis
      proof (cases remaining)
        case (Suc m)
        show ?thesis
        proof (cases "urljoin (rq_url req) location")
          case (Some next_url)
          obtain res k' where rt: "resolve_pinned_target (ne_dns (pe_notify env)) k next_url = (res, k')"
            by fastforce
          show ?thesis
          proof (cases res)
            case (Inr t)
            have "admissible (pinned_transport_for t)"
              using pinned_admissible(1) rt Inr by blast
            with "1.IH" [OF refl refl _ \<open>redirect_to r = Some location\<close> Suc Some rt [symmetric] Inr]
              \<open>pe_request env n (pinned_transport_for target) req = Inr r\<close> "1.prems"
            show ?thesis
              using \<open>redirect_to r = Some location\<close> Suc Some rt Inr by (simp add: follow.simps [of env req target k n] Let_def)
          qed (use "1.prems" \<open>pe_request env n (pinned_transport_for target) req = Inr r\<close>
              \<open>redirect_to r = Some location\<close> Suc Some rt in \<open>simp add: follow.simps [of env req target k n] Let_def\<close>)
        qed (use "1.prems" \<open>pe_request env n (pinned_transport_for target) req = Inr r\<close>
            \<open>redirect_to r = Some location\<close> Suc in \<open>simp add: follow.simps [of env req target k n] Let_def\<close>)
      qed (use "1.prems" Inr Some in \<open>simp add: follow.simps [of env req target k n] Let_def\<close>)
    qed (use "1.prems" Inr in \<open>simp add: follow.simps [of env req target k n] Let_def\<close>)
  qed (use "1.prems" in \<open>simp add: follow.simps [of env req target k n] Let_def\<close>)
qed

section \<open>Tables an operation leaves alone\<close>

lemma config_internal: "dep_get_by_id s i = Some d \<Longrightarrow> get_dependency_config_internal cy s i (Some (d_org_id d)) =
    Some (d\<lparr>d_headers := decode_headers cy (d_headers d)\<rparr>)"
  by (simp add: get_dependency_config_internal_def)

lemma incident_create_tables:
  "mo_checks (snd (incident_create i t g d v m s)) = mo_checks s"
  "mo_outbox (snd (incident_create i t g d v m s)) = mo_outbox s"
  "mo_dependencies (snd (incident_create i t g d v m s)) = mo_dependencies s"
  "mo_observations (snd (incident_create i t g d v m s)) = mo_observations s"
  "mo_db (snd (incident_create i t g d v m s)) = mo_db s"
  by (simp_all add: incident_create_def add_incident_def Let_def)

lemma incident_update_tables:
  "mo_checks (snd (incident_update r kws s)) = mo_checks s"
  "mo_outbox (snd (incident_update r kws s)) = mo_outbox s"
  "mo_dependencies (snd (incident_update r kws s)) = mo_dependencies s"
  "mo_observations (snd (incident_update r kws s)) = mo_observations s"
  "mo_db (snd (incident_update r kws s)) = mo_db s"
  by (simp_all add: incident_update_def save_incident_def Let_def)

text \<open>Everything but incidents, correlations and attributions is the same.\<close>

definition same_evidence :: "monitor \<Rightarrow> monitor \<Rightarrow> bool" where
  "same_evidence s s' = (mo_checks s' = mo_checks s \<and> mo_outbox s' = mo_outbox s \<and>
     mo_dependencies s' = mo_dependencies s \<and> mo_observations s' = mo_observations s \<and> mo_db s' = mo_db s)"

lemma same_evidence_refl [simp]: "same_evidence s s"
  by (simp add: same_evidence_def)

lemma same_evidence_trans: "same_evidence a b \<Longrightarrow> same_evidence b c \<Longrightarrow> same_evidence a c"
  by (simp add: same_evidence_def)

lemma create_incident_evidence:
  "same_evidence (w_m w) (w_m (snd (check_and_create_incident env ids i id now g d msg w)))"
proof (cases "get_open_for_dependency (w_m w) d")
  case None
  obtain res m1 where c: "incident_create i now g d Major (Some msg) (w_m w) = (res, m1)"
    by fastforce
  then have "same_evidence (w_m w) m1"
    using incident_create_tables [of i now g d Major "Some msg" "w_m w"] by (simp add: same_evidence_def)
  then show ?thesis
    using None c by (cases res) (auto simp: check_and_create_incident_def Let_def same_evidence_def)
qed (simp add: check_and_create_incident_def)

lemma resolve_incident_evidence: "same_evidence (w_m w) (w_m (snd (resolve_incident aid now i g w)))"
proof (cases "incident_get_by_id (w_m w) i")
  case (Some inc)
  obtain res m where u: "incident_update inc [IfStatus (Some IncResolved), IfResolvedAt (Some now)] (w_m w) = (res, m)"
    by fastforce
  then have "same_evidence (w_m w) m"
    using incident_update_tables [of inc "[IfStatus (Some IncResolved), IfResolvedAt (Some now)]" "w_m w"]
    by (simp add: same_evidence_def)
  then show ?thesis
    using Some u by (cases res) (auto simp: resolve_incident_def same_evidence_def)
qed (simp add: resolve_incident_def)

lemma update_incident_evidence: "same_evidence (w_m w) (w_m (snd (update_incident aid now g i r w)))"
proof (cases "owned_incident (w_m w) g i")
  case (Inr inc)
  let ?empty = "(iur_status r = None \<or> iur_status r = Some IncResolved) \<and> iur_severity r = None \<and>
               iur_root_cause r = None \<and> iur_description r = None"
  obtain res m where u: "(if ?empty then (Inr inc, w_m w) else incident_update inc (incident_update_fields r) (w_m w)) = (res, m)"
    by fastforce
  then have m: "same_evidence (w_m w) m"
    using incident_update_tables [of inc "incident_update_fields r" "w_m w"] by (auto simp: same_evidence_def split: if_splits)
  have "same_evidence m (w_m (snd (resolve_incident aid now i (Some g) (w\<lparr>w_m := m\<rparr>))))"
    using resolve_incident_evidence [of "w\<lparr>w_m := m\<rparr>"] by simp
  from same_evidence_trans [OF m this] m u show ?thesis
    unfolding update_incident_def Let_def Inr sum.case u by (cases res) auto
qed (simp add: update_incident_def)

section \<open>The rows of a check\<close>

lemma save_last:
  assumes "cr_id r \<notin> cr_id ` set t"
  shows "save_row cr_id (r\<lparr>cr_quorum_confirmed := b\<rparr>) (t @ [r]) = t @ [r\<lparr>cr_quorum_confirmed := b\<rparr>]"
proof -
  have "cr_id x \<noteq> cr_id r" if "x \<in> set t" for x
    using assms that by (metis imageI)
  then show ?thesis
    by (simp add: save_row_def map_idI)
qed

text \<open>The quorum evaluation of a result that was just stored.\<close>

lemma evaluate_quorum_rows:
  assumes "evaluate_quorum env ids id now r0 w = (Inr r, w')"
    and "mo_checks (w_m w) = t @ [r0]" and "cr_id r0 \<notin> cr_id ` set t" and "\<not> cr_quorum_confirmed r0"
  shows "mo_checks (w_m w') = t @ [r]" "mo_outbox (w_m w') = mo_outbox (w_m w)"
    "mo_observations (w_m w') = mo_observations (w_m w)" "mo_dependencies (w_m w') = mo_dependencies (w_m w)"
    "mo_db (w_m w') = mo_db (w_m w)" "r = r0\<lparr>cr_quorum_confirmed := cr_quorum_confirmed r\<rparr>"
proof -
  define d where "d = cr_dependency_id r0"
  define recent where "recent = list_recent_for_dependency now (w_m w) d QUORUM_WINDOW_SECONDS"
  define q where "q = card (failing_regions recent (cr_region r0))"
  have r0: "r0 = r0\<lparr>cr_quorum_confirmed := False\<rparr>"
    using assms(4) by simp
  have goal: "mo_checks (w_m w') = t @ [r] \<and> mo_outbox (w_m w') = mo_outbox (w_m w) \<and>
    mo_observations (w_m w') = mo_observations (w_m w) \<and> mo_dependencies (w_m w') = mo_dependencies (w_m w) \<and>
    mo_db (w_m w') = mo_db (w_m w) \<and> r = r0\<lparr>cr_quorum_confirmed := cr_quorum_confirmed r\<rparr>"
  proof (cases "cr_is_up r0")
    case False
    let ?w = "w\<lparr>w_m := confirm_quorum r0 (w_m w)\<rparr>"
    let ?msg = "if str_truthy (cr_error_message r0) then the (cr_error_message r0) else ''Quorum confirmed failure''"
    let ?c = "check_and_create_incident env (ci_correlation ids) (ci_incident ids) id now (cr_org_id r0) d ?msg ?w"
    have same: "same_evidence (confirm_quorum r0 (w_m w)) (w_m (snd ?c))"
      using create_incident_evidence [of ?w] by simp
    show ?thesis
    proof (cases "q \<ge> QUORUM_MIN_REGIONS")
      case True
      then have "r = r0\<lparr>cr_quorum_confirmed := True\<rparr>" "w' = snd ?c"
        using assms(1) False by (auto simp: evaluate_quorum_def Let_def d_def recent_def q_def split: prod.splits sum.splits)
      with same show ?thesis
        using save_last [OF assms(3)] by (simp add: same_evidence_def confirm_quorum_def assms(2))
    next
      case False
      with \<open>\<not> cr_is_up r0\<close> assms(1,2) r0 show ?thesis
        by (auto simp: evaluate_quorum_def Let_def d_def recent_def q_def)
    qed
  next
    case True
    then have "r = r0" "w' = w \<or> (\<exists>i g. w' = snd (resolve_incident (ci_attribution ids) now i g w))"
      using assms(1) by (auto simp: evaluate_quorum_def Let_def split: prod.splits sum.splits option.splits if_splits)
        (metis snd_conv)
    then have "same_evidence (w_m w) (w_m w')"
      using resolve_incident_evidence by fastforce
    with \<open>r = r0\<close> assms(2) r0 show ?thesis
      by (simp add: same_evidence_def)
  qed
  then show "mo_checks (w_m w') = t @ [r]" "mo_outbox (w_m w') = mo_outbox (w_m w)"
    "mo_observations (w_m w') = mo_observations (w_m w)" "mo_dependencies (w_m w') = mo_dependencies (w_m w)"
    "mo_db (w_m w') = mo_db (w_m w)" "r = r0\<lparr>cr_quorum_confirmed := cr_quorum_confirmed r\<rparr>"
    by auto
qed

text \<open>
  A check appends one result and, in the same transaction, one outbox event that carries it; the
  tables of observations, dependencies and accounts stay.
\<close>

definition adds_evidence :: "check_result \<Rightarrow> monitor \<Rightarrow> monitor \<Rightarrow> bool" where
  "adds_evidence r s s' = (mo_checks s' = mo_checks s @ [r] \<and> cr_id r \<notin> cr_id ` set (mo_checks s) \<and>
     (\<exists>i t url method. i \<notin> ox_id ` set (mo_outbox s) \<and> observation_dto r url method \<noteq> None \<and>
        mo_outbox s' = mo_outbox s @ [\<lparr>ox_id = i, ox_event_type = ''observation_created'',
          ox_payload = observation_dto r url method, ox_created_at = t\<rparr>]) \<and>
     mo_observations s' = mo_observations s \<and> mo_dependencies s' = mo_dependencies s \<and> mo_db s' = mo_db s)"

lemma check_create_rows:
  assumes "check_create i now d g region l up st msg q s = (Inr r, s')"
  shows "s' = s\<lparr>mo_checks := mo_checks s @ [r]\<rparr>" "cr_id r = i" "i \<notin> cr_id ` set (mo_checks s)"
    "cr_dependency_id r = d" "cr_region r = region" "cr_is_up r = up" "cr_quorum_confirmed r = q" "cr_org_id r = g"
    "cr_executed_at r = now" "cr_error_message r = msg"
  using assms by (auto simp: check_create_def Let_def split: if_splits)

lemma enqueue_outbox_rows:
  assumes "enqueue_observation_outbox i now r url method s = (Inr u, s')"
  shows "i \<notin> ox_id ` set (mo_outbox s)" "observation_dto r url method \<noteq> None"
    "s' = s\<lparr>mo_outbox := mo_outbox s @ [\<lparr>ox_id = i, ox_event_type = ''observation_created'',
       ox_payload = observation_dto r url method, ox_created_at = now\<rparr>]\<rparr>"
  using assms by (auto simp: enqueue_observation_outbox_def split: option.splits if_splits)

lemma blocked_result_evidence:
  assumes "record_blocked_result ids now dto region reason s = (Inr r, s')"
  shows "adds_evidence r s s'" "mo_incidents s' = mo_incidents s" "cr_dependency_id r = d_id dto" "\<not> cr_is_up r"
proof -
  obtain s1 where c: "check_create (ci_result ids) now (d_id dto) (d_org_id dto) region 0 False None
        (Some (''URL blocked by security policy: '' @ reason)) False s = (Inr r, s1)"
    and e: "\<exists>u. enqueue_observation_outbox (ci_event ids) now r (d_endpoint_url dto) (d_method dto) s1 = (Inr u, s')"
    using assms by (auto simp: record_blocked_result_def split: prod.splits sum.splits)
  obtain u where e: "enqueue_observation_outbox (ci_event ids) now r (d_endpoint_url dto) (d_method dto) s1 = (Inr u, s')"
    using e by blast
  from check_create_rows [OF c] enqueue_outbox_rows [OF e]
  show "adds_evidence r s s'" "mo_incidents s' = mo_incidents s" "cr_dependency_id r = d_id dto" "\<not> cr_is_up r"
    by (auto simp: adds_evidence_def)
qed

lemma record_result_evidence:
  assumes "record_result env ids id now dto region p w = (Inr r, w')"
  shows "adds_evidence r (w_m w) (w_m w')"
proof -
  obtain r0 m w1 u m2 where c: "check_create (ci_result ids) now (d_id dto) (d_org_id dto) region (pe_elapsed_ms env)
        (prs_is_up p) (prs_status_code p) (prs_error_message p) False (w_m w) = (Inr r0, m)"
    and q: "evaluate_quorum (pe_notify env) ids id now r0 (w\<lparr>w_m := m\<rparr>) = (Inr r, w1)"
    and e: "enqueue_observation_outbox (ci_event ids) now r (d_endpoint_url dto) (d_method dto) (w_m w1) = (Inr u, m2)"
    and w': "w' = w1\<lparr>w_m := m2\<rparr>"
    using assms by (auto simp: record_result_def split: prod.splits sum.splits)
  note c = check_create_rows [OF c] and e = enqueue_outbox_rows [OF e]
  have m: "mo_checks (w_m (w\<lparr>w_m := m\<rparr>)) = mo_checks (w_m w) @ [r0]"
    by (simp add: c(1))
  have fresh: "cr_id r0 \<notin> cr_id ` set (mo_checks (w_m w))" "\<not> cr_quorum_confirmed r0"
    using c by simp_all
  note q = evaluate_quorum_rows [OF q m fresh]
  have "cr_id r = cr_id r0"
    using q(6) by (metis check_result.select_convs(1) check_result.surjective check_result.update_convs(10))
  with c(1) q e w' fresh show ?thesis
    unfolding adds_evidence_def by (auto simp: c(1))
qed

lemma execute_check_cases:
  assumes "execute_check env ids others now d region s = (Inr (Some r), s')"
  obtains (blocked) dep dto reason k where "dep_get_by_id (w_m (ck_world s)) d = Some dep" "d_is_active dep"
      "d_id dto = d" "d_endpoint_url dto = d_endpoint_url dep" "d_org_id dto = d_org_id dep"
      "resolve_pinned_target (ne_dns (pe_notify env)) (ns_lookups (w_notify (ck_world s))) (d_endpoint_url dep) = (Inl reason, k)"
      "record_blocked_result ids now dto region reason (w_m (ck_world s)) = (Inr r, w_m (ck_world s'))"
      "w_notify (ck_world s') = (w_notify (ck_world s))\<lparr>ns_lookups := k\<rparr>" "w_tasks (ck_world s') = w_tasks (ck_world s)"
  | (probed) dep dto target k w p where "dep_get_by_id (w_m (ck_world s)) d = Some dep" "d_is_active dep"
      "d_id dto = d" "d_endpoint_url dto = d_endpoint_url dep" "d_org_id dto = d_org_id dep"
      "resolve_pinned_target (ne_dns (pe_notify env)) (ns_lookups (w_notify (ck_world s))) (d_endpoint_url dep) = (Inr target, k)"
      "w_m w = w_m (ck_world s)" "record_result env ids others now dto region p w = (Inr r, ck_world s')"
      "w_tasks w = w_tasks (ck_world s)" "w_broker_up w = w_broker_up (ck_world s)"
proof -
  obtain dep where dep: "dep_get_by_id (w_m (ck_world s)) d = Some dep" "d_is_active dep"
    using assms by (auto simp: execute_check_def Let_def split: option.splits if_splits)
  define dto where "dto = dep\<lparr>d_headers := decode_headers (pe_crypto env) (d_headers dep)\<rparr>"
  have run: "run_check env ids others now dto region s = (Inr (Some r), s')"
    using assms dep by (simp add: execute_check_def config_internal dto_def)
  have dto: "d_id dto = d" "d_endpoint_url dto = d_endpoint_url dep" "d_org_id dto = d_org_id dep"
    using dep_get_by_id_row [OF dep(1)] by (simp_all add: dto_def)
  obtain res k where rt: "resolve_pinned_target (ne_dns (pe_notify env)) (ns_lookups (w_notify (ck_world s))) (d_endpoint_url dep) = (res, k)"
    by fastforce
  show thesis
  proof (cases res)
    case (Inl reason)
    then show thesis
      using run rt dto by (intro blocked [OF dep dto])
        (auto simp: run_check_def Let_def set_lookups_def split: prod.splits sum.splits)
  next
    case (Inr target)
    obtain w1 where "record_result env ids others now dto region
        (probe_result_of (expected_codes dto) (pt_outcome (follow env (check_request dto) target k 0 MAX_REDIRECTS)))
        (set_lookups (pt_lookups (follow env (check_request dto) target k 0 MAX_REDIRECTS)) (ck_world s)) = (Inr r, w1)"
      "w1 = ck_world s'"
      using run rt dto Inr by (auto simp: run_check_def Let_def split: prod.splits sum.splits)
    then show thesis
      using rt Inr
      by (intro probed [OF dep dto, of target k "set_lookups (pt_lookups (follow env (check_request dto) target k 0 MAX_REDIRECTS)) (ck_world s)"])
        (auto simp: set_lookups_def)
  qed
qed

lemma execute_check_evidence:
  assumes "execute_check env ids id now d region s = (Inr (Some r), s')"
  shows "adds_evidence r (w_m (ck_world s)) (w_m (ck_world s'))"
  using assms
proof (cases rule: execute_check_cases)
  case blocked
  then show ?thesis
    using blocked_result_evidence(1) by blast
next
  case probed
  then show ?thesis
    using record_result_evidence by metis
qed

end
