(* ===== verification/Monitoring_Steps.thy ===== *)
theory Monitoring_Steps
  imports Quorum
begin

text \<open>
  The step relation of the monitoring half: checks, incident operations, dependency requests, the
  scheduler and the outbox task, in any order, and what all of them preserve.
\<close>

section \<open>What the quorum decides\<close>

text \<open>The regions with a failed result of the dependency in the last minute.\<close>

definition down_regions :: "time \<Rightarrow> uuid \<Rightarrow> monitor \<Rightarrow> string set" where
  "down_regions now d s = set (map cr_region (filter (\<lambda>c. cr_dependency_id c = d \<and> \<not> cr_is_up c \<and>
     now - seconds 60 \<le> cr_executed_at c) (mo_checks s)))"

lemma failing_regions_spec:
  assumes "r0 \<in> set (mo_checks s)" and "\<not> cr_is_up r0" and "cr_executed_at r0 = now"
    and "dep_get_by_id s (cr_dependency_id r0) \<noteq> None"
  shows "failing_regions (list_recent_for_dependency now s (cr_dependency_id r0) QUORUM_WINDOW_SECONDS) (cr_region r0) =
    down_regions now (cr_dependency_id r0) s"
  using assms
  by (auto simp: failing_regions_def list_recent_for_dependency_def check_rows_def down_regions_def QUORUM_WINDOW_SECONDS_def
      seconds_def image_iff)

lemma down_regions_cong:
  "map (\<lambda>c. (cr_region c, cr_dependency_id c, cr_is_up c, cr_executed_at c)) (mo_checks s) =
   map (\<lambda>c. (cr_region c, cr_dependency_id c, cr_is_up c, cr_executed_at c)) (mo_checks s') \<Longrightarrow>
   down_regions now d s = down_regions now d s'"
proof -
  have "down_regions now d s = (\<lambda>(x, _). x) ` {(x, y, u, t) \<in> set (map (\<lambda>c. (cr_region c, cr_dependency_id c, cr_is_up c, cr_executed_at c)) (mo_checks s)).
      y = d \<and> \<not> u \<and> now - seconds 60 \<le> t}" for s
    by (auto simp: down_regions_def image_iff) blast+
  then show "map (\<lambda>c. (cr_region c, cr_dependency_id c, cr_is_up c, cr_executed_at c)) (mo_checks s) =
    map (\<lambda>c. (cr_region c, cr_dependency_id c, cr_is_up c, cr_executed_at c)) (mo_checks s') \<Longrightarrow> ?thesis"
    by presburger
qed

text \<open>A new incident is the last row.\<close>

lemma create_incident_rows:
  assumes "check_and_create_incident env ids i id now g d msg w = (Inr inc, w')"
  shows "if get_open_for_dependency (w_m w) d = None
    then mo_incidents (w_m w') = mo_incidents (w_m w) @ [inc] \<and> is_open_for d inc \<and> in_org_id inc = g \<and>
      in_started_at inc = now \<and> in_severity inc = Major
    else w' = w"
proof (cases "get_open_for_dependency (w_m w) d")
  case None
  obtain res m1 where c: "incident_create i now g d Major (Some msg) (w_m w) = (res, m1)"
    by fastforce
  show ?thesis
  proof (cases res)
    case (Inr inc')
    then have "inc' = inc" "w_m w' = correlate ids now inc m1"
      using assms None c by (auto simp: check_and_create_incident_def Let_def)
    then show ?thesis
      using None c Inr by (auto simp: incident_create_def Let_def add_incident_def is_open_for_def split: if_splits)
  qed (use assms None c in \<open>simp add: check_and_create_incident_def\<close>)
qed (use assms in \<open>simp add: check_and_create_incident_def\<close>)

lemma evaluate_quorum_down:
  assumes "evaluate_quorum env ids id now r0 w = (Inr r, w')" and "\<not> cr_is_up r0" and "\<not> cr_quorum_confirmed r0"
    and "q = card (failing_regions (list_recent_for_dependency now (w_m w) (cr_dependency_id r0) QUORUM_WINDOW_SECONDS) (cr_region r0))"
  shows "cr_quorum_confirmed r \<longleftrightarrow> 2 \<le> q"
    and "if 2 \<le> q \<and> get_open_for_dependency (w_m w) (cr_dependency_id r0) = None
      then \<exists>inc. mo_incidents (w_m w') = mo_incidents (w_m w) @ [inc] \<and> is_open_for (cr_dependency_id r0) inc \<and>
        in_org_id inc = cr_org_id r0 \<and> in_started_at inc = now \<and> in_severity inc = Major
      else mo_incidents (w_m w') = mo_incidents (w_m w)"
proof -
  have open_same: "get_open_for_dependency (confirm_quorum r0 m) d = get_open_for_dependency m d"
    "mo_incidents (confirm_quorum r0 m) = mo_incidents m" for m d
    by (simp_all add: get_open_for_dependency_def confirm_quorum_def)
  let ?c = "check_and_create_incident env (ci_correlation ids) (ci_incident ids) id now (cr_org_id r0) (cr_dependency_id r0)
         (if str_truthy (cr_error_message r0) then the (cr_error_message r0) else ''Quorum confirmed failure'')
         (w\<lparr>w_m := confirm_quorum r0 (w_m w)\<rparr>)"
  have outcome: "2 \<le> q \<and> r = r0\<lparr>cr_quorum_confirmed := True\<rparr> \<and> (\<exists>inc. ?c = (Inr inc, w')) \<or> \<not> 2 \<le> q \<and> r = r0 \<and> w' = w"
    using assms(1,2) by (auto simp: evaluate_quorum_def Let_def assms(4) QUORUM_MIN_REGIONS_def split: prod.splits sum.splits if_splits)
  then show "cr_quorum_confirmed r \<longleftrightarrow> 2 \<le> q"
    using assms(3) by auto
  show "if 2 \<le> q \<and> get_open_for_dependency (w_m w) (cr_dependency_id r0) = None
      then \<exists>inc. mo_incidents (w_m w') = mo_incidents (w_m w) @ [inc] \<and> is_open_for (cr_dependency_id r0) inc \<and>
        in_org_id inc = cr_org_id r0 \<and> in_started_at inc = now \<and> in_severity inc = Major
      else mo_incidents (w_m w') = mo_incidents (w_m w)"
  proof (cases "2 \<le> q")
    case True
    with outcome obtain inc where "?c = (Inr inc, w')"
      by blast
    from create_incident_rows [OF this] True show ?thesis
      by (auto simp: open_same split: if_splits)
  qed (use outcome in simp)
qed

lemma record_result_quorum:
  assumes "record_result env ids id now dto region p w = (Inr r, w')"
    and "dep_get_by_id (w_m w) (d_id dto) \<noteq> None" and "\<not> cr_is_up r"
  shows "cr_quorum_confirmed r \<longleftrightarrow> 2 \<le> card (down_regions now (d_id dto) (w_m w'))"
    and "if 2 \<le> card (down_regions now (d_id dto) (w_m w')) \<and> get_open_for_dependency (w_m w) (d_id dto) = None
      then \<exists>inc. mo_incidents (w_m w') = mo_incidents (w_m w) @ [inc] \<and> is_open_for (d_id dto) inc \<and>
        in_org_id inc = d_org_id dto \<and> in_started_at inc = now \<and> in_severity inc = Major
      else mo_incidents (w_m w') = mo_incidents (w_m w)"
proof -
  obtain r0 m w1 u m2 where c: "check_create (ci_result ids) now (d_id dto) (d_org_id dto) region (pe_elapsed_ms env)
        (prs_is_up p) (prs_status_code p) (prs_error_message p) False (w_m w) = (Inr r0, m)"
    and q: "evaluate_quorum (pe_notify env) ids id now r0 (w\<lparr>w_m := m\<rparr>) = (Inr r, w1)"
    and e: "enqueue_observation_outbox (ci_event ids) now r (d_endpoint_url dto) (d_method dto) (w_m w1) = (Inr u, m2)"
    and w': "w' = w1\<lparr>w_m := m2\<rparr>"
    using assms by (auto simp: record_result_def split: prod.splits sum.splits)
  note c = check_create_rows [OF c]
  have rows: "mo_checks m = mo_checks (w_m w) @ [r0]" "mo_incidents m = mo_incidents (w_m w)" "mo_dependencies m = mo_dependencies (w_m w)"
    by (simp_all add: c(1))
  have fresh: "cr_id r0 \<notin> cr_id ` set (mo_checks (w_m w))" "\<not> cr_quorum_confirmed r0"
    using c by simp_all
  have m: "mo_checks (w_m (w\<lparr>w_m := m\<rparr>)) = mo_checks (w_m w) @ [r0]"
    by (simp add: rows)
  note q' = evaluate_quorum_rows [OF q m fresh]
  have keep: "cr_is_up r = cr_is_up r0" "cr_region r = cr_region r0" "cr_dependency_id r = cr_dependency_id r0"
    "cr_executed_at r = cr_executed_at r0"
    using arg_cong [OF q'(6), of cr_is_up] arg_cong [OF q'(6), of cr_region] arg_cong [OF q'(6), of cr_dependency_id]
      arg_cong [OF q'(6), of cr_executed_at] by simp_all
  have up: "\<not> cr_is_up r0"
    using assms(3) by (simp add: keep)
  have incs: "mo_incidents m2 = mo_incidents (w_m w1)" "mo_checks m2 = mo_checks (w_m w1)"
    using enqueue_outbox_rows(3) [OF e] by simp_all
  have "dep_get_by_id m (cr_dependency_id r0) \<noteq> None"
    using assms(2) c(4) rows(3) by (simp add: dep_get_by_id_def dependency_row_def)
  then have spec: "failing_regions (list_recent_for_dependency now m (cr_dependency_id r0) QUORUM_WINDOW_SECONDS) (cr_region r0) =
      down_regions now (cr_dependency_id r0) m"
    using up c(9) by (intro failing_regions_spec) (simp_all add: rows)
  have "down_regions now d m = down_regions now d (w_m w')" for d
    by (rule down_regions_cong) (simp add: w' incs q'(1) rows keep)
  then have q: "cr_quorum_confirmed r \<longleftrightarrow> 2 \<le> card (down_regions now (cr_dependency_id r0) (w_m w'))"
    "if 2 \<le> card (down_regions now (cr_dependency_id r0) (w_m w')) \<and> get_open_for_dependency m (cr_dependency_id r0) = None
      then \<exists>inc. mo_incidents (w_m w1) = mo_incidents m @ [inc] \<and> is_open_for (cr_dependency_id r0) inc \<and>
        in_org_id inc = cr_org_id r0 \<and> in_started_at inc = now \<and> in_severity inc = Major
      else mo_incidents (w_m w1) = mo_incidents m"
    using evaluate_quorum_down [OF q up fresh(2) refl] by (simp_all add: spec cong: if_cong)
  have "get_open_for_dependency m d = get_open_for_dependency (w_m w) d" for d
    by (simp add: get_open_for_dependency_def rows)
  with q show "cr_quorum_confirmed r \<longleftrightarrow> 2 \<le> card (down_regions now (d_id dto) (w_m w'))"
    "if 2 \<le> card (down_regions now (d_id dto) (w_m w')) \<and> get_open_for_dependency (w_m w) (d_id dto) = None
      then \<exists>inc. mo_incidents (w_m w') = mo_incidents (w_m w) @ [inc] \<and> is_open_for (d_id dto) inc \<and>
        in_org_id inc = d_org_id dto \<and> in_started_at inc = now \<and> in_severity inc = Major
      else mo_incidents (w_m w') = mo_incidents (w_m w)"
    by (simp_all add: w' incs rows c(4,8) cong: if_cong)
qed

section \<open>Recovery\<close>

lemma card_insert_two: "finite S \<Longrightarrow> 2 \<le> card (insert x S) \<longleftrightarrow> (\<exists>y\<in>S. y \<noteq> x)"
proof
  assume "2 \<le> card (insert x S)"
  then show "\<exists>y\<in>S. y \<noteq> x"
    by (metis card.empty card_insert_le_m1 insert_iff is_singletonI' is_singleton_altdef numeral_le_one_iff semiring_norm(69) empty_iff)
next
  assume "finite S" "\<exists>y\<in>S. y \<noteq> x"
  then obtain y where "y \<in> S" "y \<noteq> x"
    by blast
  then have "card {x, y} \<le> card (insert x S)"
    using \<open>finite S\<close> by (intro card_mono) auto
  with \<open>y \<noteq> x\<close> show "2 \<le> card (insert x S)"
    by simp
qed

lemma resolved_open:
  assumes "incidents_wf (w_m w)" and "get_open_for_dependency (w_m w) d = Some inc"
    and "resolve_incident aid now (in_id inc) (Some (in_org_id inc)) w = (Inr inc', w')"
  shows "get_open_for_dependency (w_m w') d = None" "w_tasks w' = w_tasks w @ (if w_broker_up w then [EvidenceTask (in_id inc)] else [])"
proof -
  have inc: "inc \<in> set (mo_incidents (w_m w))" "is_open_for d inc"
    using open_find_Some [OF assms(2)] by simp_all
  then have get: "incident_get_by_id (w_m w) (in_id inc) = Some inc"
    using assms(1) incident_repo.get_known [of "w_m w" inc] by (simp add: incidents_wf_def)
  let ?r = "inc\<lparr>in_status := IncResolved, in_resolved_at := Some now\<rparr>"
  have up: "incident_update inc [IfStatus (Some IncResolved), IfResolvedAt (Some now)] (w_m w) = (Inr ?r, save_incident ?r (w_m w))"
    by (simp add: incident_update_def set_fields_def Let_def)
  have "w' = snd (enqueue (EvidenceTask (in_id inc)) (w\<lparr>w_m := attribute_incident aid now ?r (save_incident ?r (w_m w))\<rparr>))"
    using assms(3) inc(2) by (auto simp: resolve_incident_def get up is_open_for_def)
  then have w': "mo_incidents (w_m w') = save_row in_id ?r (mo_incidents (w_m w))"
    "w_tasks w' = w_tasks w @ (if w_broker_up w then [EvidenceTask (in_id inc)] else [])"
    by (simp_all add: save_incident_def enqueue_def)
  have "\<not> is_open_for d x" if "x \<in> set (save_row in_id ?r (mo_incidents (w_m w)))" for x
  proof
    assume o': "is_open_for d x"
    with that have x: "x \<in> set (mo_incidents (w_m w))" "in_id x \<noteq> in_id inc"
      by (auto simp: save_row_def is_open_for_def split: if_splits)
    have "inj_on in_dependency_id {x \<in> set (mo_incidents (w_m w)). in_status x = IncOpen}"
      using assms(1) by (auto simp: incidents_wf_def distinct_map)
    from inj_onD [OF this, of x inc] inc o' x show False
      by (auto simp: is_open_for_def)
  qed
  then show "get_open_for_dependency (w_m w') d = None"
    by (auto simp: open_find w' list_ex_iff)
  show "w_tasks w' = w_tasks w @ (if w_broker_up w then [EvidenceTask (in_id inc)] else [])"
    by (rule w'(2))
qed

text \<open>A successful result that was just stored, with an incident open.\<close>

lemma evaluate_quorum_up:
  assumes "evaluate_quorum env ids id now r0 w = (Inr r, w')" and "cr_is_up r0"
    and "incidents_wf (w_m w)" and "get_open_for_dependency (w_m w) (cr_dependency_id r0) = Some inc"
  defines "seen \<equiv> take 4 (list_recent_for_dependency now (w_m w) (cr_dependency_id r0) 60)"
  shows "r = r0" "if \<exists>c\<in>set seen. cr_is_up c \<and> cr_region c \<noteq> cr_region r0
    then get_open_for_dependency (w_m w') (cr_dependency_id r0) = None \<and>
      w_tasks w' = w_tasks w @ (if w_broker_up w then [EvidenceTask (in_id inc)] else [])
    else w' = w"
proof -
  have "card (succeeding_regions (list_recent_for_dependency now (w_m w) (cr_dependency_id r0) QUORUM_WINDOW_SECONDS) (cr_region r0)) \<ge> 2
      \<longleftrightarrow> (\<exists>y\<in>cr_region ` {c \<in> set seen. cr_is_up c}. y \<noteq> cr_region r0)"
    by (simp add: succeeding_regions_def card_insert_two seen_def CONSECUTIVE_RECOVERY_CHECKS_def QUORUM_WINDOW_SECONDS_def)
  then have spec: "card (succeeding_regions (list_recent_for_dependency now (w_m w) (cr_dependency_id r0) QUORUM_WINDOW_SECONDS) (cr_region r0)) \<ge> QUORUM_MIN_REGIONS
      \<longleftrightarrow> (\<exists>c\<in>set seen. cr_is_up c \<and> cr_region c \<noteq> cr_region r0)"
    by (auto simp: QUORUM_MIN_REGIONS_def)
  show "r = r0"
    using assms(1,2,4) by (auto simp: evaluate_quorum_def Let_def split: prod.splits sum.splits if_splits)
  show "if \<exists>c\<in>set seen. cr_is_up c \<and> cr_region c \<noteq> cr_region r0
    then get_open_for_dependency (w_m w') (cr_dependency_id r0) = None \<and>
      w_tasks w' = w_tasks w @ (if w_broker_up w then [EvidenceTask (in_id inc)] else [])
    else w' = w"
  proof (cases "\<exists>c\<in>set seen. cr_is_up c \<and> cr_region c \<noteq> cr_region r0")
    case True
    then obtain inc' where "resolve_incident (ci_attribution ids) now (in_id inc) (Some (in_org_id inc)) w = (Inr inc', w')"
      using assms(1,2,4) spec by (auto simp: evaluate_quorum_def Let_def split: prod.splits sum.splits)
    from resolved_open [OF assms(3,4) this] True show ?thesis
      by simp
  next
    case False
    then show ?thesis
      using assms(1,2,4) spec by (auto simp: evaluate_quorum_def Let_def split: if_splits)
  qed
qed

lemma record_result_recovery:
  assumes "record_result env ids id now dto region p w = (Inr r, w')" and "cr_is_up r"
    and "incidents_wf (w_m w)" and "get_open_for_dependency (w_m w) (d_id dto) = Some inc"
  shows "if \<exists>c\<in>set (take 4 (list_recent_for_dependency now (w_m w') (d_id dto) 60)). cr_is_up c \<and> cr_region c \<noteq> region
    then get_open_for_dependency (w_m w') (d_id dto) = None \<and>
      w_tasks w' = w_tasks w @ (if w_broker_up w then [EvidenceTask (in_id inc)] else [])
    else mo_incidents (w_m w') = mo_incidents (w_m w) \<and> w_tasks w' = w_tasks w"
proof -
  obtain r0 m w1 u m2 where c: "check_create (ci_result ids) now (d_id dto) (d_org_id dto) region (pe_elapsed_ms env)
        (prs_is_up p) (prs_status_code p) (prs_error_message p) False (w_m w) = (Inr r0, m)"
    and q: "evaluate_quorum (pe_notify env) ids id now r0 (w\<lparr>w_m := m\<rparr>) = (Inr r, w1)"
    and e: "enqueue_observation_outbox (ci_event ids) now r (d_endpoint_url dto) (d_method dto) (w_m w1) = (Inr u, m2)"
    and w': "w' = w1\<lparr>w_m := m2\<rparr>"
    using assms by (auto simp: record_result_def split: prod.splits sum.splits)
  note c = check_create_rows [OF c]
  have m: "mo_checks (w_m (w\<lparr>w_m := m\<rparr>)) = mo_checks (w_m w) @ [r0]"
    and fresh: "cr_id r0 \<notin> cr_id ` set (mo_checks (w_m w))" "\<not> cr_quorum_confirmed r0"
    using c by simp_all
  note q' = evaluate_quorum_rows [OF q m fresh]
  have up: "cr_is_up r0"
    using assms(2) arg_cong [OF q'(6), of cr_is_up] by simp
  have wf: "incidents_wf (w_m (w\<lparr>w_m := m\<rparr>))" and op: "get_open_for_dependency (w_m (w\<lparr>w_m := m\<rparr>)) (cr_dependency_id r0) = Some inc"
    using assms(3,4) c by (simp_all add: incidents_wf_def get_open_for_dependency_def)
  note up' = evaluate_quorum_up [OF q up wf op]
  have tables: "mo_checks m2 = mo_checks m" "mo_dependencies m2 = mo_dependencies m" "mo_incidents m2 = mo_incidents (w_m w1)"
    "mo_incidents m = mo_incidents (w_m w)"
    using enqueue_outbox_rows(3) [OF e] q' c up'(1) by simp_all
  then have recent: "list_recent_for_dependency now m2 d t = list_recent_for_dependency now m d t" for d t
    by (simp add: list_recent_for_dependency_def check_rows_def dep_get_by_id_def dependency_row_def)
  have "get_open_for_dependency m2 d = get_open_for_dependency (w_m w1) d" for d
    by (simp add: get_open_for_dependency_def tables)
  with up'(2) show ?thesis
    by (auto simp: w' tables recent c(4,5) split: if_splits)
qed

section \<open>Steps\<close>

text \<open>
  A commit of a concurrent transaction while an incident is being inserted: the two writes of the
  incident repository, on any row and with any values, a dependency request, a scheduler's run or a write
  to the other tables.
\<close>

inductive incident_write :: "monitor \<Rightarrow> monitor \<Rightarrow> bool" where
  create: "dep \<in> set (mo_dependencies m) \<Longrightarrow> incident_create i t (d_org_id dep) (d_id dep) sev desc m = (res, m') \<Longrightarrow> incident_write m m'"
| update: "r \<in> set (mo_incidents m) \<Longrightarrow> incident_update r kws m = (res, m') \<Longrightarrow> incident_write m m'"
| dependency: "dependency_step m m' \<Longrightarrow> incident_write m m'"
| advance: "d \<in> set (mo_dependencies m) \<Longrightarrow> incident_write m (save_dependency (advance t d) m)"
| elsewhere: "mo_incidents m' = mo_incidents m \<Longrightarrow> mo_dependencies m' = mo_dependencies m \<Longrightarrow> incident_write m m'"

definition concurrent :: "(monitor \<Rightarrow> monitor) \<Rightarrow> bool" where
  "concurrent others = (\<forall>m. incident_write\<^sup>*\<^sup>* m (others m))"

text \<open>A step of the monitoring half, with \<^verbatim>\<open>others\<close> committed inside the insertion of an incident.\<close>

inductive monitor_step :: "check_state \<Rightarrow> check_state \<Rightarrow> bool" where
  check: "concurrent others \<Longrightarrow> execute_check_task env ids others now d region s = (res, s') \<Longrightarrow> monitor_step s s'"
| create: "concurrent others \<Longrightarrow> create_incident_task nenv cids i others now d msg (ck_world s) = (res, w') \<Longrightarrow>
     monitor_step s (s\<lparr>ck_world := w'\<rparr>)"
| resolve: "resolve_incident aid now i g (ck_world s) = (Inr inc, w') \<Longrightarrow> monitor_step s (s\<lparr>ck_world := w'\<rparr>)"
| resolve_task: "resolve_incident_task aid now d (ck_world s) = (res, w') \<Longrightarrow> monitor_step s (s\<lparr>ck_world := w'\<rparr>)"
| update: "update_incident aid now g i r (ck_world s) = (Inr inc, w') \<Longrightarrow> monitor_step s (s\<lparr>ck_world := w'\<rparr>)"
| dependency: "dependency_step (w_m (ck_world s)) m \<Longrightarrow> monitor_step s (s\<lparr>ck_world := (ck_world s)\<lparr>w_m := m\<rparr>\<rparr>)"
| schedule: "schedule_due_checks now (ck_world s) = (Inr n, w') \<Longrightarrow> monitor_step s (s\<lparr>ck_world := w'\<rparr>)"
| outbox: "process_outbox oids now n (w_m (ck_world s)) = (Inr k, m) \<Longrightarrow> monitor_step s (s\<lparr>ck_world := (ck_world s)\<lparr>w_m := m\<rparr>\<rparr>)"
| retention: "monitor_step s (s\<lparr>ck_world := (ck_world s)\<lparr>w_m := snd (retention_cleanup now n (w_m (ck_world s)))\<rparr>\<rparr>)"

lemma confirm_quorum_incidents [simp]: "mo_incidents (confirm_quorum r m) = mo_incidents m"
  by (simp add: confirm_quorum_def)

lemma check_create_incidents: "mo_incidents (snd (check_create i t d g rg l u st msg q s)) = mo_incidents s"
  by (simp add: check_create_def Let_def)

lemma enqueue_outbox_incidents: "mo_incidents (snd (enqueue_observation_outbox i t r u m s)) = mo_incidents s"
  by (simp add: enqueue_observation_outbox_def split: option.split)

lemma check_create_dependencies: "mo_dependencies (snd (check_create i t d g rg l u st msg q s)) = mo_dependencies s"
  by (simp add: check_create_def Let_def)

lemma enqueue_outbox_dependencies: "mo_dependencies (snd (enqueue_observation_outbox i t r u m s)) = mo_dependencies s"
  by (simp add: enqueue_observation_outbox_def split: option.split)

lemma evaluate_quorum_keeps:
  assumes "\<And>m. monitor_keeps m (others m)"
    and "monitor_wf (w_m w) \<Longrightarrow> (cr_dependency_id r, cr_org_id r) \<in> dep_orgs (w_m w)"
  shows "monitor_keeps (w_m w) (w_m (snd (evaluate_quorum env ids others now r w)))"
proof -
  let ?w = "w\<lparr>w_m := confirm_quorum r (w_m w)\<rparr>"
  have confirm: "mo_incidents (confirm_quorum r m) = mo_incidents m" "mo_dependencies (confirm_quorum r m) = mo_dependencies m" for m
    by (simp_all add: confirm_quorum_def)
  have "monitor_keeps (w_m w) (w_m ?w)"
    by (rule monitor_keeps_cong) (simp_all add: confirm)
  moreover have "monitor_keeps (w_m ?w) (w_m (snd (check_and_create_incident env c i others now (cr_org_id r) (cr_dependency_id r) msg ?w)))" for c i msg
    by (rule create_incident_keeps [OF assms(1)])
      (use assms(2) monitor_wf_cong [of "confirm_quorum r (w_m w)" "w_m w"] in \<open>simp add: confirm dep_orgs_def\<close>)
  ultimately have c: "check_and_create_incident env c i others now (cr_org_id r) (cr_dependency_id r) msg ?w = (res, w') \<Longrightarrow>
      monitor_keeps (w_m w) (w_m w')" for c i msg res w'
    by (metis monitor_keeps_trans snd_conv)
  have rs: "resolve_incident a now i g w = (res, w') \<Longrightarrow> monitor_keeps (w_m w) (w_m w')" for a i g res w'
    using resolve_incident_keeps [of w a now i g] by simp
  show ?thesis
  proof (cases "cr_is_up r")
    case False
    then show ?thesis
      by (auto simp: evaluate_quorum_def Let_def dest: c split: prod.split sum.split)
  next
    case True
    then show ?thesis
      by (auto simp: evaluate_quorum_def Let_def dest: rs split: prod.split sum.split option.split)
  qed
qed

lemma record_result_keeps:
  assumes "\<And>m. monitor_keeps m (others m)" and "monitor_wf (w_m w) \<Longrightarrow> (d_id dto, d_org_id dto) \<in> dep_orgs (w_m w)"
  shows "monitor_keeps (w_m w) (w_m (snd (record_result env ids others now dto region p w)))"
proof -
  obtain res m where c: "check_create (ci_result ids) now (d_id dto) (d_org_id dto) region (pe_elapsed_ms env) (prs_is_up p)
      (prs_status_code p) (prs_error_message p) False (w_m w) = (res, m)"
    by fastforce
  then have same: "mo_incidents m = mo_incidents (w_m w)" "mo_dependencies m = mo_dependencies (w_m w)"
    using check_create_incidents check_create_dependencies by (metis snd_conv)+
  then have m: "monitor_keeps (w_m w) m"
    by (intro monitor_keeps_cong)
  show ?thesis
  proof (cases res)
    case (Inr r0)
    obtain res1 w1 where q: "evaluate_quorum (pe_notify env) ids others now r0 (w\<lparr>w_m := m\<rparr>) = (res1, w1)"
      by fastforce
    have r0: "cr_dependency_id r0 = d_id dto" "cr_org_id r0 = d_org_id dto"
      using check_create_rows [OF c [unfolded Inr]] by simp_all
    have "monitor_keeps m (w_m w1)"
      using evaluate_quorum_keeps [of others "w\<lparr>w_m := m\<rparr>" r0 "pe_notify env" ids now] assms q monitor_wf_cong [OF same]
      by (simp add: r0 dep_orgs_def same)
    with m have "monitor_keeps (w_m w) (w_m w1)"
      by (rule monitor_keeps_trans)
    moreover have "monitor_keeps (w_m w1) (snd (enqueue_observation_outbox i t r u me (w_m w1)))" for i t r u me
      by (rule monitor_keeps_cong) (simp_all add: enqueue_outbox_incidents enqueue_outbox_dependencies)
    ultimately have "monitor_keeps (w_m w) (snd (enqueue_observation_outbox i t r u me (w_m w1)))" "monitor_keeps (w_m w) (w_m w1)" for i t r u me
      using monitor_keeps_trans by blast+
    then show ?thesis
      using c Inr q by (auto simp: record_result_def split: prod.splits sum.splits) (metis snd_conv)+
  qed (use c m in \<open>simp add: record_result_def\<close>)
qed

lemma blocked_result_incidents: "mo_incidents (snd (record_blocked_result ids now dto region reason s)) = mo_incidents s"
  by (auto simp: record_blocked_result_def split: prod.splits sum.splits)
    (metis check_create_incidents enqueue_outbox_incidents snd_conv)+

lemma blocked_result_dependencies: "mo_dependencies (snd (record_blocked_result ids now dto region reason s)) = mo_dependencies s"
  by (auto simp: record_blocked_result_def split: prod.splits sum.splits)
    (metis check_create_dependencies enqueue_outbox_dependencies snd_conv)+

lemma run_check_keeps:
  assumes "\<And>m. monitor_keeps m (others m)" and "(d_id dto, d_org_id dto) \<in> dep_orgs (w_m (ck_world s))"
  shows "monitor_keeps (w_m (ck_world s)) (w_m (ck_world (snd (run_check env ids others now dto region s))))"
proof -
  obtain res k where rt: "resolve_pinned_target (ne_dns (pe_notify env)) (ns_lookups (w_notify (ck_world s))) (d_endpoint_url dto) = (res, k)"
    by fastforce
  show ?thesis
  proof (cases res)
    case (Inl reason)
    have "monitor_keeps (w_m (ck_world s)) (snd (record_blocked_result ids now dto region reason (w_m (ck_world s))))"
      by (rule monitor_keeps_cong) (simp_all add: blocked_result_incidents blocked_result_dependencies)
    then show ?thesis
      using rt Inl by (auto simp: run_check_def Let_def set_lookups_def split: prod.split sum.split)
  next
    case (Inr target)
    have "monitor_keeps (w_m (ck_world s)) (w_m (snd (record_result env ids others now dto region p (set_lookups k (ck_world s)))))" for p k
      using record_result_keeps [of others "set_lookups k (ck_world s)" dto] assms by (simp add: set_lookups_def)
    then show ?thesis
      using rt Inr by (auto simp: run_check_def Let_def split: prod.split sum.split) (metis snd_conv)+
  qed
qed

lemma execute_check_keeps:
  assumes "\<And>m. monitor_keeps m (others m)"
  shows "monitor_keeps (w_m (ck_world s)) (w_m (ck_world (snd (execute_check env ids others now d region s))))"
proof (cases "dep_get_by_id (w_m (ck_world s)) d")
  case (Some dep)
  define dto where "dto = dep\<lparr>d_headers := decode_headers (pe_crypto env) (d_headers dep)\<rparr>"
  have "(d_id dto, d_org_id dto) \<in> dep_orgs (w_m (ck_world s))"
    using dep_get_by_id_row [OF Some] by (force simp: dto_def dep_orgs_def)
  from run_check_keeps [of others, OF assms this] show ?thesis
    using Some by (simp add: execute_check_def config_internal dto_def)
qed (simp add: execute_check_def)

lemma enqueue_all_m: "w_m (snd (enqueue_all ts w)) = w_m w"
  by (induction ts arbitrary: w) (auto simp: enqueue_def)

lemma schedule_loop_tables:
  "mo_incidents (w_m (snd (schedule_loop now ds n w))) = mo_incidents (w_m w) \<and>
   mo_checks (w_m (snd (schedule_loop now ds n w))) = mo_checks (w_m w) \<and>
   mo_outbox (w_m (snd (schedule_loop now ds n w))) = mo_outbox (w_m w) \<and>
   mo_observations (w_m (snd (schedule_loop now ds n w))) = mo_observations (w_m w)"
proof (induction ds arbitrary: n w)
  case (Cons d ds)
  let ?w = "w\<lparr>w_m := save_dependency (advance now d) (w_m w)\<rparr>"
  obtain b w' where e: "enqueue_all (map (CheckTask (d_id d)) (check_regions d)) ?w = (b, w')"
    by fastforce
  then have "w_m w' = save_dependency (advance now d) (w_m w)"
    using enqueue_all_m [of "map (CheckTask (d_id d)) (check_regions d)" ?w] by simp
  with e Cons.IH [of "n + length (check_regions d)" w'] show ?case
    by (cases b) (simp_all add: save_dependency_def)
qed simp

lemma dependency_step_tables:
  "dependency_step s s' \<Longrightarrow> mo_incidents s' = mo_incidents s \<and> mo_checks s' = mo_checks s \<and> mo_outbox s' = mo_outbox s \<and>
    mo_observations s' = mo_observations s"
proof (induction rule: dependency_step.induct)
  case (create r0 r cy i aid now org_id s resp s')
  have "mo_incidents (snd (target_application aid now org_id a s)) = mo_incidents s \<and>
      mo_checks (snd (target_application aid now org_id a s)) = mo_checks s \<and>
      mo_outbox (snd (target_application aid now org_id a s)) = mo_outbox s \<and>
      mo_observations (snd (target_application aid now org_id a s)) = mo_observations s" for a
    by (auto simp: target_application_def split: option.split prod.split)
  moreover obtain a d where "s' = add_dependency d (snd (target_application aid now org_id a s))"
    using create.hyps(2) by (auto simp: create_dependency_def dep_create_def split: option.splits if_splits prod.splits sum.splits)
      (metis snd_conv)
  ultimately show ?case
    by (simp add: add_dependency_def)
next
  case (update r0 u cy org_id i s resp s')
  then show ?case
    by (elim update_cases) (simp add: save_dependency_def)
next
  case (delete now org_id i s s')
  then show ?case
    by (auto simp: delete_dependency_def dep_soft_delete_def save_dependency_def split: sum.splits)
qed

lemma process_event_tables:
  "process_event i now e (n, s) = Some (n', s') \<Longrightarrow> mo_incidents s' = mo_incidents s \<and> mo_dependencies s' = mo_dependencies s"
  by (auto simp: process_event_def outbox_delete_def record_observation_def observation_add_def
      split: if_splits option.splits sum.splits prod.splits)

lemma process_loop_tables:
  "process_loop ids now k es st = Some st' \<Longrightarrow>
    mo_incidents (snd st') = mo_incidents (snd st) \<and> mo_dependencies (snd st') = mo_dependencies (snd st)"
  by (induction ids now k es st rule: process_loop.induct)
    (auto split: option.splits dest: process_event_tables)

section \<open>One open incident per dependency, whatever happens in between\<close>

text \<open>The steps that write no incident keep the invariant when they keep the dependencies' organizations.\<close>

lemma same_incidents_keeps:
  assumes "mo_incidents s' = mo_incidents s" and "distinct (map d_id (mo_dependencies s)) \<Longrightarrow> distinct (map d_id (mo_dependencies s'))"
    and "distinct (map d_id (mo_dependencies s)) \<Longrightarrow> dep_orgs s \<subseteq> dep_orgs s'"
  shows "monitor_keeps s s'"
  using assms by (auto simp: monitor_keeps_def monitor_wf_def incidents_wf_def incident_orgs_def)

lemma save_dependency_orgs:
  assumes "distinct (map d_id (mo_dependencies s))" and "d0 \<in> set (mo_dependencies s)" and "d_id d = d_id d0" and "d_org_id d = d_org_id d0"
  shows "dep_orgs (save_dependency d s) = dep_orgs s"
proof -
  have "map (\<lambda>x. (d_id x, d_org_id x)) (save_row d_id d (mo_dependencies s)) = map (\<lambda>x. (d_id x, d_org_id x)) (mo_dependencies s)"
    by (rule map_save_row_same [OF assms(1-3)]) (use assms(3,4) in simp)
  from arg_cong [OF this, of set] show ?thesis
    by (simp add: dep_orgs_def save_dependency_def)
qed

lemma save_dependency_keeps:
  assumes "d0 \<in> set (mo_dependencies s)" and "d_id d = d_id d0" and "d_org_id d = d_org_id d0"
  shows "monitor_keeps s (save_dependency d s)"
proof (rule same_incidents_keeps)
  show "distinct (map d_id (mo_dependencies s)) \<Longrightarrow> dep_orgs s \<subseteq> dep_orgs (save_dependency d s)"
    using save_dependency_orgs [OF _ assms] by simp
qed (simp_all add: save_dependency_def)

lemma dependency_step_keeps: "dependency_step s s' \<Longrightarrow> monitor_keeps s s'"
proof (induction rule: dependency_step.induct)
  case (create r0 r cy i aid now org_id s resp s')
  have incs: "mo_incidents s' = mo_incidents s"
    using dependency_step_tables [OF dependency_step.create [OF create.hyps]] by simp
  obtain a where rows: "i \<notin> d_id ` set (mo_dependencies s)"
    "mo_dependencies s' = mo_dependencies s @ [new_dependency cy i now org_id a r]"
    using create.hyps(2) by (rule create_cases)
  have "d_id (new_dependency cy i now org_id a r) = i"
    by (simp add: new_dependency_def)
  with rows incs show ?case
    by (intro same_incidents_keeps) (auto simp: dep_orgs_def)
next
  case (update r0 u cy org_id i s resp s')
  obtain d where d: "owned_dependency s org_id i = Inr d"
    and s': "s' = save_dependency (set_fields put_dependency (update_fields cy u) d) s"
    using update.hyps(2) by (rule update_cases)
  show ?case
    unfolding s' by (rule save_dependency_keeps [of d]) (use owned_row [OF d] in \<open>simp_all add: updated_fields [OF refl]\<close>)
next
  case (delete now org_id i s s')
  then obtain d where d: "owned_dependency s org_id i = Inr d" and s': "s' = dep_soft_delete now d s"
    by (auto simp: delete_dependency_def split: sum.splits)
  show ?case
    unfolding s' dep_soft_delete_def by (rule save_dependency_keeps [of d]) (use owned_row [OF d] in simp_all)
qed

lemma incident_write_keeps: "incident_write m m' \<Longrightarrow> monitor_keeps m m'"
proof (induction rule: incident_write.induct)
  case (create dep m i t sev desc res m')
  then show ?case
    by (intro incident_create_keeps [of i t]) (auto simp: dep_orgs_def)
next
  case (advance d m t)
  then show ?case
    by (intro save_dependency_keeps [of d]) (simp_all add: advance_def)
qed (auto intro: incident_update_keeps dependency_step_keeps monitor_keeps_cong)

lemma concurrent_keeps: "concurrent others \<Longrightarrow> monitor_keeps m (others m)"
proof -
  have "incident_write\<^sup>*\<^sup>* m m' \<Longrightarrow> monitor_keeps m m'" for m'
    by (induction rule: rtranclp_induct) (auto intro: monitor_keeps_trans incident_write_keeps)
  then show "concurrent others \<Longrightarrow> monitor_keeps m (others m)"
    by (simp add: concurrent_def)
qed

lemma schedule_loop_keeps:
  assumes "set ds \<subseteq> {d. (d_id d, d_org_id d) \<in> dep_orgs (w_m w)}"
  shows "monitor_keeps (w_m w) (w_m (snd (schedule_loop now ds n w)))"
  using assms
proof (induction ds arbitrary: n w)
  case (Cons d ds)
  let ?w = "w\<lparr>w_m := save_dependency (advance now d) (w_m w)\<rparr>"
  obtain b w' where e: "enqueue_all (map (CheckTask (d_id d)) (check_regions d)) ?w = (b, w')"
    by fastforce
  then have w': "w_m w' = save_dependency (advance now d) (w_m w)"
    using enqueue_all_m [of "map (CheckTask (d_id d)) (check_regions d)" ?w] by simp
  obtain d0 where d0: "d0 \<in> set (mo_dependencies (w_m w))" "d_id d = d_id d0" "d_org_id d = d_org_id d0"
    using Cons.prems by (auto simp: dep_orgs_def)
  have first: "monitor_keeps (w_m w) (w_m w')"
    unfolding w' by (rule save_dependency_keeps [OF d0(1)]) (simp_all add: advance_def d0)
  show ?case
  proof (cases "monitor_wf (w_m w)")
    case True
    then have "set ds \<subseteq> {d. (d_id d, d_org_id d) \<in> dep_orgs (w_m w')}"
      using Cons.prems first by (auto simp: monitor_keeps_def)
    from monitor_keeps_trans [OF first Cons.IH [OF this]] first e show ?thesis
      by (cases b) simp_all
  qed (simp add: monitor_keeps_def)
qed simp

lemma due_rows: "set (get_due_dependencies now n s) \<subseteq> {d \<in> set (mo_dependencies s). is_due now d}"
  by (auto simp: get_due_dependencies_def page_of_def dest: in_set_takeD in_set_dropD)

lemma monitor_step_keeps:
  assumes "monitor_step s s'"
  shows "monitor_keeps (w_m (ck_world s)) (w_m (ck_world s'))"
  using assms
proof (induction rule: monitor_step.induct)
  case (check others env ids now d region s res s')
  have "monitor_keeps (w_m (ck_world s)) (w_m (ck_world (snd (execute_check env ids others now d region s))))"
    using execute_check_keeps concurrent_keeps [OF check.hyps(1)] by blast
  with check.hyps(2) show ?case
    by (auto simp: execute_check_task_def split: prod.splits sum.splits)
next
  case (create others nenv cids i now d msg s res w')
  show ?case
  proof (cases "dep_get_by_id (w_m (ck_world s)) d")
    case (Some dep)
    have "(d_id dep, d_org_id dep) \<in> dep_orgs (w_m (ck_world s))"
      using dep_get_by_id_row [OF Some] by (auto simp: dep_orgs_def)
    then have "monitor_keeps (w_m (ck_world s))
        (w_m (snd (check_and_create_incident nenv cids i others now (d_org_id dep) (d_id dep) msg (ck_world s))))"
      using create_incident_keeps concurrent_keeps [OF create.hyps(1)] by blast
    with create.hyps(2) Some show ?thesis
      by (auto simp: create_incident_task_def split: prod.splits sum.splits)
  qed (use create.hyps(2) in \<open>auto simp: create_incident_task_def\<close>)
next
  case (resolve aid now i g s inc w')
  then show ?case
    using resolve_incident_keeps [of "ck_world s" aid now i g] by simp
next
  case (resolve_task aid now d s res w')
  show ?case
  proof (cases "get_open_for_dependency (w_m (ck_world s)) d")
    case (Some inc)
    then show ?thesis
      using resolve_task resolve_incident_keeps [of "ck_world s" aid now "in_id inc" "Some (in_org_id inc)"]
      by (auto simp: resolve_incident_task_def split: prod.splits sum.splits)
  qed (use resolve_task in \<open>auto simp: resolve_incident_task_def\<close>)
next
  case (update aid now g i r s inc w')
  then show ?case
    using update_incident_keeps [of "ck_world s" aid now g i r] by simp
next
  case (dependency s m)
  then show ?case
    by (simp add: dependency_step_keeps)
next
  case (schedule now s n w')
  have "set (get_due_dependencies now 500 (w_m (ck_world s))) \<subseteq> {d. (d_id d, d_org_id d) \<in> dep_orgs (w_m (ck_world s))}"
    using due_rows [of now 500 "w_m (ck_world s)"] by (auto simp: dep_orgs_def)
  from schedule_loop_keeps [OF this, of now 0] schedule show ?case
    by (simp add: schedule_due_checks_def)
next
  case (outbox oids now n s k m)
  then have "mo_incidents m = mo_incidents (w_m (ck_world s))" "mo_dependencies m = mo_dependencies (w_m (ck_world s))"
    by (auto simp: process_outbox_def split: option.splits dest: process_loop_tables)
  then show ?case
    by (simp add: monitor_keeps_cong)
next
  case (retention s now n)
  show ?case
    by (simp add: monitor_keeps_cong retention_cleanup_def Let_def)
qed

lemma monitor_steps_wf: "monitor_step\<^sup>*\<^sup>* s s' \<Longrightarrow> monitor_wf (w_m (ck_world s)) \<Longrightarrow> monitor_wf (w_m (ck_world s'))"
  by (induction rule: rtranclp_induct) (auto dest: monitor_step_keeps monitor_keeps_wf)

end
