(* ===== verification/Blind_Spots.thy ===== *)
theory Blind_Spots
  imports Monitoring_Steps
begin

text \<open>
  Checks that cannot reach the quorum: those of a dependency with one region, whose recent results
  never name a second one.
\<close>

section \<open>Checks from one region\<close>

definition region_only :: "uuid \<Rightarrow> string \<Rightarrow> monitor \<Rightarrow> bool" where
  "region_only d region s = list_all (\<lambda>c. cr_dependency_id c = d \<longrightarrow> cr_region c = region) (mo_checks s)"

lemma evaluate_quorum_single:
  assumes "region_only (cr_dependency_id r0) (cr_region r0) (w_m w)"
  shows "evaluate_quorum env ids id now r0 w = (Inr r0, w)"
proof -
  let ?recent = "list_recent_for_dependency now (w_m w) (cr_dependency_id r0) QUORUM_WINDOW_SECONDS"
  have rows: "cr_region c = cr_region r0" if "c \<in> set ?recent" for c
    using that assms by (auto simp: list_recent_for_dependency_def check_rows_def region_only_def list_all_iff)
  then have "failing_regions ?recent (cr_region r0) = {cr_region r0}" "succeeding_regions ?recent (cr_region r0) = {cr_region r0}"
    by (auto simp: failing_regions_def succeeding_regions_def dest: in_set_takeD)
  then show ?thesis
    by (simp add: evaluate_quorum_def Let_def QUORUM_MIN_REGIONS_def split: option.split)
qed

lemma record_result_single:
  assumes "record_result env ids id now dto region p w = (res, w')" and "region_only (d_id dto) region (w_m w)"
  shows "mo_incidents (w_m w') = mo_incidents (w_m w)" "w_notify w' = w_notify w" "region_only (d_id dto) region (w_m w')"
proof -
  obtain c m where c: "check_create (ci_result ids) now (d_id dto) (d_org_id dto) region (pe_elapsed_ms env)
        (prs_is_up p) (prs_status_code p) (prs_error_message p) False (w_m w) = (c, m)"
    by fastforce
  have "mo_incidents (w_m w') = mo_incidents (w_m w) \<and> w_notify w' = w_notify w \<and> region_only (d_id dto) region (w_m w')"
  proof (cases c)
    case (Inl e)
    then have "m = w_m w"
      using c by (auto simp: check_create_def Let_def split: if_splits)
    with Inl c assms show ?thesis
      by (simp add: record_result_def)
  next
    case (Inr r0)
    note r0 = check_create_rows [OF c [unfolded Inr]]
    have m: "region_only (d_id dto) region m"
      using assms(2) r0 by (simp add: region_only_def)
    then have q: "evaluate_quorum (pe_notify env) ids id now r0 (w\<lparr>w_m := m\<rparr>) = (Inr r0, w\<lparr>w_m := m\<rparr>)"
      by (intro evaluate_quorum_single) (simp add: r0)
    have "w' = w\<lparr>w_m := snd (enqueue_observation_outbox (ci_event ids) now r0 (d_endpoint_url dto) (d_method dto) m)\<rparr>"
      using assms(1) c Inr q by (auto simp: record_result_def split: prod.splits sum.splits)
    with m r0(1) show ?thesis
      by (simp add: enqueue_observation_outbox_def region_only_def split: option.split)
  qed
  then show "mo_incidents (w_m w') = mo_incidents (w_m w)" "w_notify w' = w_notify w" "region_only (d_id dto) region (w_m w')"
    by simp_all
qed

lemma blocked_result_flag: "record_blocked_result ids now dto region reason s = (Inr r, s') \<Longrightarrow> \<not> cr_quorum_confirmed r"
  by (auto simp: record_blocked_result_def dest: check_create_rows(7) split: prod.splits sum.splits)

lemma blocked_result_single:
  assumes "record_blocked_result ids now dto region reason s = (res, s')" and "region_only (d_id dto) region s"
  shows "region_only (d_id dto) region s'"
proof -
  obtain c m where c: "check_create (ci_result ids) now (d_id dto) (d_org_id dto) region 0 False None
      (Some (''URL blocked by security policy: '' @ reason)) False s = (c, m)"
    by fastforce
  have "region_only (d_id dto) region m"
    using c assms(2) by (auto simp: check_create_def Let_def region_only_def split: if_splits)
  then have "region_only (d_id dto) region (snd (enqueue_observation_outbox (ci_event ids) now r u v m))" for r u v
    by (simp add: enqueue_observation_outbox_def region_only_def split: option.split)
  then show ?thesis
    using \<open>region_only (d_id dto) region m\<close> assms(1) c
    by (auto simp: record_blocked_result_def split: prod.splits sum.splits) (metis snd_conv)+
qed

lemma region_only_task:
  assumes "execute_check_task env ids id now d region s = (res, s')" and "region_only d region (w_m (ck_world s))"
  shows "mo_incidents (w_m (ck_world s')) = mo_incidents (w_m (ck_world s)) \<and>
    ns_sent (w_notify (ck_world s')) = ns_sent (w_notify (ck_world s)) \<and> region_only d region (w_m (ck_world s'))"
proof -
  let ?ok = "\<lambda>w. mo_incidents (w_m w) = mo_incidents (w_m (ck_world s)) \<and>
    ns_sent (w_notify w) = ns_sent (w_notify (ck_world s)) \<and> region_only d region (w_m w)"
  have "?ok (ck_world (snd (run_check env ids id now dto region s)))" if "d_id dto = d" for dto
  proof -
    obtain t k where rt: "resolve_pinned_target (ne_dns (pe_notify env)) (ns_lookups (w_notify (ck_world s))) (d_endpoint_url dto) = (t, k)"
      by fastforce
    show ?thesis
    proof (cases t)
      case (Inl reason)
      obtain res m where b: "record_blocked_result ids now dto region reason (w_m (ck_world s)) = (res, m)"
        by fastforce
      then have "region_only d region m" "mo_incidents m = mo_incidents (w_m (ck_world s))"
        using blocked_result_single [OF b] blocked_result_incidents [of ids now dto region reason "w_m (ck_world s)"] assms(2) that
        by simp_all
      then show ?thesis
        using rt Inl b by (simp add: run_check_def Let_def set_lookups_def split: sum.split)
    next
      case (Inr target)
      define tr where "tr = follow env (check_request dto) target k 0 MAX_REDIRECTS"
      obtain res w1 where r: "record_result env ids id now dto region (probe_result_of (expected_codes dto) (pt_outcome tr))
          (set_lookups (pt_lookups tr) (ck_world s)) = (res, w1)"
        by fastforce
      then have "?ok w1"
        using record_result_single [OF r] assms(2) that by (simp add: set_lookups_def)
      then show ?thesis
        using rt Inr r by (simp add: run_check_def Let_def tr_def split: sum.split)
    qed
  qed
  then have "?ok (ck_world (snd (execute_check env ids id now d region s)))"
    using assms(2)
    by (cases "dep_get_by_id (w_m (ck_world s)) d") (simp_all add: execute_check_def Let_def config_internal dep_get_by_id_row)
  then show ?thesis
    using assms by (auto simp: execute_check_task_def split: prod.splits sum.splits)
qed

section \<open>Sequences\<close>

text \<open>A check of the dependency from the region, by the task, whatever it returns.\<close>

inductive region_check :: "uuid \<Rightarrow> string \<Rightarrow> check_state \<Rightarrow> check_state \<Rightarrow> bool" for d region where
  check: "execute_check_task env ids id now d region s = (res, s') \<Longrightarrow> region_check d region s s'"

lemma region_checks_quiet:
  assumes "(region_check d region)\<^sup>*\<^sup>* s s'" and "region_only d region (w_m (ck_world s))"
  shows "mo_incidents (w_m (ck_world s')) = mo_incidents (w_m (ck_world s)) \<and>
    ns_sent (w_notify (ck_world s')) = ns_sent (w_notify (ck_world s)) \<and> region_only d region (w_m (ck_world s'))"
  using assms
proof (induction rule: rtranclp_induct)
  case (step y z)
  from step.hyps(2) step.IH [OF step.prems] show ?case
    by cases (auto dest: region_only_task)
qed simp

end
