(* ===== verification/Alarm.thy ===== *)
theory Alarm
  imports Blind_Spots
begin

text \<open>
  What the monitoring promises its customers, as an abstract machine: the set of dependencies with
  an open incident, and the verdict of a check that adds a dependency to the set or removes it.  The
  checks of the code refine it.
\<close>

definition open_set :: "monitor \<Rightarrow> uuid set" where
  "open_set s = in_dependency_id ` set (filter (\<lambda>r. in_status r = IncOpen) (mo_incidents s))"

datatype verdict = RaiseAlarm | ClearAlarm | KeepAlarm

fun alarm_step :: "verdict \<Rightarrow> uuid \<Rightarrow> uuid set \<Rightarrow> uuid set" where
  "alarm_step RaiseAlarm d S = insert d S"
| "alarm_step ClearAlarm d S = S - {d}"
| "alarm_step KeepAlarm d S = S"

text \<open>The verdict on the results of the last minute, the check's own among them.\<close>

definition verdict_of :: "time \<Rightarrow> uuid \<Rightarrow> string \<Rightarrow> bool \<Rightarrow> monitor \<Rightarrow> verdict" where
  "verdict_of now d region up s =
     (if \<not> up then (if 2 \<le> card (down_regions now d s) then RaiseAlarm else KeepAlarm)
      else if \<exists>c\<in>set (take 4 (list_recent_for_dependency now s d 60)). cr_is_up c \<and> cr_region c \<noteq> region
      then ClearAlarm else KeepAlarm)"

lemma open_set_iff: "d \<in> open_set s \<longleftrightarrow> get_open_for_dependency s d \<noteq> None"
  by (auto simp: open_set_def open_find list_ex_iff is_open_for_def)

lemma open_set_cong: "mo_incidents s = mo_incidents s' \<Longrightarrow> open_set s = open_set s'"
  by (simp add: open_set_def)

lemma open_set_save:
  assumes "incidents_wf s" and "get_open_for_dependency s d = Some inc"
    and "mo_incidents s' = save_row in_id (inc\<lparr>in_status := IncResolved, in_resolved_at := t\<rparr>) (mo_incidents s)"
  shows "open_set s' = open_set s - {d}"
proof -
  have inc: "inc \<in> set (mo_incidents s)" "is_open_for d inc"
    using open_find_Some [OF assms(2)] by simp_all
  have ids: "\<And>x. x \<in> set (mo_incidents s) \<Longrightarrow> in_id x = in_id inc \<Longrightarrow> x = inc"
    using distinct_map_inj [of in_id "mo_incidents s"] assms(1) inc(1) by (auto simp: incidents_wf_def)
  have inj: "inj_on in_dependency_id {x \<in> set (mo_incidents s). in_status x = IncOpen}"
    using assms(1) by (auto simp: incidents_wf_def distinct_map)
  define r' where "r' = inc\<lparr>in_status := IncResolved, in_resolved_at := t\<rparr>"
  have r': "in_id r' = in_id inc" "in_status r' = IncResolved"
    by (simp_all add: r'_def)
  have rows: "mo_incidents s' = map (\<lambda>x. if x = inc then r' else x) (mo_incidents s)"
    using ids by (auto simp: assms(3) save_row_def r' r'_def [symmetric])
  have "{x \<in> set (mo_incidents s'). in_status x = IncOpen} = {x \<in> set (mo_incidents s). in_status x = IncOpen} - {inc}"
    using r'(2) by (auto simp: rows)
  then have "open_set s' = in_dependency_id ` ({x \<in> set (mo_incidents s). in_status x = IncOpen} - {inc})"
    by (simp add: open_set_def)
  also have "\<dots> = open_set s - {d}"
    using inc by (subst inj_on_image_set_diff [OF inj]) (auto simp: open_set_def is_open_for_def)
  finally show ?thesis .
qed

text \<open>A successful result either leaves the incidents or resolves the open one.\<close>

lemma evaluate_quorum_resolves:
  assumes "evaluate_quorum env ids id now r0 w = (Inr r, w')" and "cr_is_up r0" and "incidents_wf (w_m w)"
  shows "mo_incidents (w_m w') = mo_incidents (w_m w) \<or>
    (\<exists>inc. get_open_for_dependency (w_m w) (cr_dependency_id r0) = Some inc \<and>
      mo_incidents (w_m w') = save_row in_id (inc\<lparr>in_status := IncResolved, in_resolved_at := Some now\<rparr>) (mo_incidents (w_m w)))"
proof (cases "get_open_for_dependency (w_m w) (cr_dependency_id r0)")
  case (Some inc)
  have inc: "inc \<in> set (mo_incidents (w_m w))" "in_status inc = IncOpen"
    using open_find_Some [OF Some] by (simp_all add: is_open_for_def)
  then have get: "incident_get_by_id (w_m w) (in_id inc) = Some inc"
    using assms(3) incident_repo.get_known [of "w_m w" inc] by (simp add: incidents_wf_def)
  have "mo_incidents (w_m (snd (resolve_incident a now (in_id inc) (Some (in_org_id inc)) w))) =
      save_row in_id (inc\<lparr>in_status := IncResolved, in_resolved_at := Some now\<rparr>) (mo_incidents (w_m w))" for a
    using inc(2) by (simp add: resolve_incident_def get incident_update_def set_fields_def Let_def save_incident_def)
  then have "resolve_incident a now (in_id inc) (Some (in_org_id inc)) w = (res, w'') \<Longrightarrow> mo_incidents (w_m w'') =
      save_row in_id (inc\<lparr>in_status := IncResolved, in_resolved_at := Some now\<rparr>) (mo_incidents (w_m w))" for a res w''
    by (metis snd_conv)
  then show ?thesis
    using assms(1,2) Some by (auto simp: evaluate_quorum_def Let_def split: prod.splits sum.splits if_splits)
qed (use assms(1,2) in \<open>simp add: evaluate_quorum_def Let_def\<close>)

lemma record_result_resolves:
  assumes "record_result env ids id now dto region p w = (Inr r, w')" and "cr_is_up r" and "incidents_wf (w_m w)"
  shows "open_set (w_m w') = open_set (w_m w) \<or>
    get_open_for_dependency (w_m w) (d_id dto) \<noteq> None \<and> open_set (w_m w') = open_set (w_m w) - {d_id dto}"
proof -
  obtain r0 m w1 u m2 where c: "check_create (ci_result ids) now (d_id dto) (d_org_id dto) region (pe_elapsed_ms env)
        (prs_is_up p) (prs_status_code p) (prs_error_message p) False (w_m w) = (Inr r0, m)"
    and q: "evaluate_quorum (pe_notify env) ids id now r0 (w\<lparr>w_m := m\<rparr>) = (Inr r, w1)"
    and e: "enqueue_observation_outbox (ci_event ids) now r (d_endpoint_url dto) (d_method dto) (w_m w1) = (Inr u, m2)"
    and w': "w' = w1\<lparr>w_m := m2\<rparr>"
    using assms by (auto simp: record_result_def split: prod.splits sum.splits)
  note c = check_create_rows [OF c]
  have m: "mo_checks (w_m (w\<lparr>w_m := m\<rparr>)) = mo_checks (w_m w) @ [r0]"
    and fresh: "cr_id r0 \<notin> cr_id ` set (mo_checks (w_m w))" "\<not> cr_quorum_confirmed r0"
    using c by simp_all
  have up: "cr_is_up r0"
    using assms(2) arg_cong [OF evaluate_quorum_rows(6) [OF q m fresh], of cr_is_up] by simp
  have same: "mo_incidents m = mo_incidents (w_m w)" "mo_incidents m2 = mo_incidents (w_m w1)"
    using c(1) enqueue_outbox_rows(3) [OF e] by simp_all
  then have wf: "incidents_wf (w_m (w\<lparr>w_m := m\<rparr>))" and op: "get_open_for_dependency m d = get_open_for_dependency (w_m w) d" for d
    using assms(3) by (simp_all add: incidents_wf_def get_open_for_dependency_def)
  from evaluate_quorum_resolves [OF q up wf] show ?thesis
  proof (elim disjE exE conjE)
    fix inc
    assume "get_open_for_dependency (w_m (w\<lparr>w_m := m\<rparr>)) (cr_dependency_id r0) = Some inc"
      and "mo_incidents (w_m w1) = save_row in_id (inc\<lparr>in_status := IncResolved, in_resolved_at := Some now\<rparr>) (mo_incidents (w_m (w\<lparr>w_m := m\<rparr>)))"
    with open_set_save [of "w_m w" "d_id dto" inc m2 "Some now"] assms(3) show ?thesis
      by (simp add: w' same op c(4))
  qed (simp add: open_set_def w' same)
qed

lemma record_result_alarm:
  assumes "record_result env ids id now dto region p w = (Inr r, w')" and "incidents_wf (w_m w)"
    and "dep_get_by_id (w_m w) (d_id dto) \<noteq> None"
  shows "open_set (w_m w') = alarm_step (verdict_of now (d_id dto) region (cr_is_up r) (w_m w')) (d_id dto) (open_set (w_m w))"
proof (cases "cr_is_up r")
  case False
  show ?thesis
  proof (cases "2 \<le> card (down_regions now (d_id dto) (w_m w')) \<and> get_open_for_dependency (w_m w) (d_id dto) = None")
    case True
    with record_result_quorum(2) [OF assms(1,3) False] obtain inc where
      "mo_incidents (w_m w') = mo_incidents (w_m w) @ [inc]" "is_open_for (d_id dto) inc"
      by auto
    then have "open_set (w_m w') = insert (d_id dto) (open_set (w_m w))"
      by (auto simp: open_set_def is_open_for_def)
    with True False show ?thesis
      by (simp add: verdict_of_def)
  next
    case same: False
    with record_result_quorum(2) [OF assms(1,3) False] have "mo_incidents (w_m w') = mo_incidents (w_m w)"
      by presburger
    then have "open_set (w_m w') = open_set (w_m w)"
      by (rule open_set_cong)
    moreover have "2 \<le> card (down_regions now (d_id dto) (w_m w')) \<Longrightarrow> d_id dto \<in> open_set (w_m w)"
      using same by (simp add: open_set_iff)
    ultimately show ?thesis
      using False by (auto simp: verdict_of_def)
  qed
next
  case True
  show ?thesis
  proof (cases "get_open_for_dependency (w_m w) (d_id dto)")
    case None
    then have "open_set (w_m w') = open_set (w_m w)" "d_id dto \<notin> open_set (w_m w)"
      using record_result_resolves [OF assms(1) True assms(2)] by (auto simp: open_set_iff)
    then show ?thesis
      using True by (auto simp: verdict_of_def)
  next
    case (Some inc)
    note rec = record_result_recovery [OF assms(1) True assms(2) Some]
    show ?thesis
    proof (cases "\<exists>c\<in>set (take 4 (list_recent_for_dependency now (w_m w') (d_id dto) 60)). cr_is_up c \<and> cr_region c \<noteq> region")
      case clear: True
      with rec have "d_id dto \<notin> open_set (w_m w')"
        by (simp add: open_set_iff)
      with record_result_resolves [OF assms(1) True assms(2)] Some have "open_set (w_m w') = open_set (w_m w) - {d_id dto}"
        by (auto simp: open_set_iff [symmetric])
      with clear True show ?thesis
        by (simp add: verdict_of_def)
    next
      case False
      with rec have "open_set (w_m w') = open_set (w_m w)"
        by (intro open_set_cong) simp
      with False True show ?thesis
        by (auto simp: verdict_of_def)
    qed
  qed
qed

text \<open>The check as a whole, of an endpoint that resolves.\<close>

lemma check_quorum:
  assumes "execute_check env ids id now d region s = (Inr (Some r), s')" and "\<not> cr_is_up r"
    and "dep_get_by_id (w_m (ck_world s)) d = Some dep"
    and "resolve_pinned_target (ne_dns (pe_notify env)) (ns_lookups (w_notify (ck_world s))) (d_endpoint_url dep) = (Inr target, k)"
  shows "(cr_quorum_confirmed r \<longleftrightarrow> 2 \<le> card (down_regions now d (w_m (ck_world s')))) \<and>
    (if 2 \<le> card (down_regions now d (w_m (ck_world s'))) \<and> get_open_for_dependency (w_m (ck_world s)) d = None
      then \<exists>inc. mo_incidents (w_m (ck_world s')) = mo_incidents (w_m (ck_world s)) @ [inc] \<and> is_open_for d inc \<and>
        in_org_id inc = d_org_id dep \<and> in_started_at inc = now \<and> in_severity inc = Major
      else mo_incidents (w_m (ck_world s')) = mo_incidents (w_m (ck_world s)))"
  using assms(1)
proof (cases rule: execute_check_cases)
  case (probed dep' dto target' k' w p)
  then have "dep_get_by_id (w_m w) (d_id dto) \<noteq> None"
    by simp
  from record_result_quorum [OF probed(8) this assms(2)] probed assms(3) show ?thesis
    by (simp cong: if_cong)
next
  case (blocked dep' dto reason k')
  then show ?thesis
    using assms(3,4) by simp
qed

end
