(* ===== verification/Monitoring_Examples.thy ===== *)
theory Monitoring_Examples
  imports Alarm
begin

text \<open>
  The concrete states the witnesses of the monitoring properties run on: a dependency
  of organization 1 probed from two regions at \<^verbatim>\<open>https://a.io/\<close>.
\<close>

section \<open>The example state\<close>

definition example_dependency :: "string list \<Rightarrow> dependency" where
  "example_dependency regions = \<lparr>d_id = 5, d_org_id = 1, d_application_id = None, d_name = ''api'',
     d_endpoint_url = ''https://a.io/'', d_method = ''GET'', d_headers = None, d_expected_status_codes = [200],
     d_timeout_seconds = 10, d_check_interval_seconds = 60, d_next_check_at = Some 0, d_regions = regions,
     d_alert_threshold_ms = None, d_is_active = True, d_is_deleted = False, d_deleted_at = None, d_created_at = 0\<rparr>"

definition example_state :: "string list \<Rightarrow> check_result list \<Rightarrow> incident list \<Rightarrow> check_state" where
  "example_state regions checks incs = \<lparr>ck_world = \<lparr>
       w_m = empty_monitor\<lparr>mo_dependencies := [example_dependency regions], mo_checks := checks, mo_incidents := incs\<rparr>,
       w_notify = \<lparr>ns_redis = \<lparr>r_up = True, r_kv = (\<lambda>_. None)\<rparr>, ns_lookups = 0, ns_sent = []\<rparr>, w_tasks = [], w_broker_up = True\<rparr>,
     ck_circuit = \<lparr>r_up = True, r_kv = (\<lambda>_. None)\<rparr>\<rparr>"

definition example_result :: "uuid \<Rightarrow> time \<Rightarrow> string \<Rightarrow> bool \<Rightarrow> check_result" where
  "example_result i now region up = \<lparr>cr_id = i, cr_executed_at = now, cr_dependency_id = 5, cr_org_id = 1, cr_region = region,
     cr_latency_ms = 12, cr_status_code = None, cr_is_up = up, cr_error_message = None, cr_quorum_confirmed = False\<rparr>"

definition example_incident :: incident where
  "example_incident = \<lparr>in_id = 20, in_org_id = 1, in_dependency_id = 5, in_started_at = 0, in_resolved_at = None,
     in_severity = Major, in_status = IncOpen, in_root_cause = UnknownCause, in_description = None,
     in_evidence_report_id = None, in_created_at = 0\<rparr>"

text \<open>The endpoint answers with a status, or its name does not resolve.\<close>

definition example_env :: "int \<Rightarrow> string list \<Rightarrow> probe_env" where
  "example_env code ips = \<lparr>pe_notify = \<lparr>ne_secret_key = ''k'', ne_accepts = (\<lambda>_. True), ne_digest = (\<lambda>a b. a @ b),
       ne_hexdigest = (\<lambda>a b. a @ b), ne_sha256 = (\<lambda>x. x), ne_json = (\<lambda>_. ''{}''), ne_dns = (\<lambda>_ _. ips)\<rparr>,
     pe_crypto = \<lparr>cy_encrypt = (\<lambda>_. []), cy_decrypt = (\<lambda>_. [])\<rparr>, pe_request = (\<lambda>_ _ _. Inr \<lparr>rs_status = code, rs_location = None\<rparr>), pe_elapsed_ms = 12\<rparr>"

definition example_ids :: "uuid \<Rightarrow> check_ids" where
  "example_ids n = \<lparr>ci_result = n, ci_event = n, ci_incident = n, ci_attribution = n, ci_correlation = (\<lambda>k. n + of_nat k)\<rparr>"

text \<open>Evaluating an attribution without a spread of latencies needs no root.\<close>

lemma root_code [code]: "root n x = (if x = 0 then 0 else root n x)"
  by simp

definition example_check :: "int \<Rightarrow> string list \<Rightarrow> uuid \<Rightarrow> time \<Rightarrow> string \<Rightarrow> check_state \<Rightarrow> (app_error + check_result option) \<times> check_state" where
  "example_check code ips n now region = execute_check (example_env code ips) (example_ids n) id now 5 region"

text \<open>A check that stored a result with the property.\<close>

definition stored :: "(check_result \<Rightarrow> check_state \<Rightarrow> bool) \<Rightarrow> (app_error + check_result option) \<times> check_state \<Rightarrow> bool" where
  "stored P x = (case x of (Inr (Some r), s') \<Rightarrow> P r s' | _ \<Rightarrow> False)"

lemma stored_E:
  assumes "stored P x"
  obtains r s' where "x = (Inr (Some r), s')" "P r s'"
  using assms by (auto simp: stored_def split: prod.splits sum.splits option.splits)

definition example_regions :: "string list" where
  "example_regions = [''us-east-1'', ''eu-west-1'']"

text \<open>One region failed; one recovered with the incident still open.\<close>

definition one_down :: check_state where
  "one_down = example_state example_regions [example_result 7 1000 ''us-east-1'' False] []"

definition one_up :: check_state where
  "one_up = example_state example_regions [example_result 7 1000 ''us-east-1'' True] [example_incident]"

lemma example_dependencies:
  shows one_down_dependency: "dep_get_by_id (w_m (ck_world one_down)) 5 = Some (example_dependency example_regions)"
    and one_up_dependency: "dep_get_by_id (w_m (ck_world one_up)) 5 = Some (example_dependency example_regions)"
  by (simp_all add: one_down_def one_up_def example_state_def dep_get_by_id_def dependency_row_def example_dependency_def get_row_def)

text \<open>The endpoint of the example is admitted by the outbound policy.\<close>

lemma example_target: "\<exists>t. resolve_pinned_target (\<lambda>_ _. [''8.8.8.8'']) 0 ''https://a.io/'' = (Inr t, 2)"
proof -
  have "case resolve_pinned_target (\<lambda>_ _. [''8.8.8.8'']) 0 ''https://a.io/'' of (Inl _, _) \<Rightarrow> False | (Inr _, k) \<Rightarrow> k = 2"
    by code_simp
  then show ?thesis
    by (auto split: prod.splits sum.splits)
qed

end
