(* ===== verification/Monitoring_Properties.thy ===== *)
theory Monitoring_Properties
  imports Monitoring_Examples
begin

text \<open>
  The properties of checks, the quorum and incidents.
\<close>

section \<open>Quorum\<close>

text \<open>
  C5: Of the checks whose endpoint resolves to an address the policy admits (a blocked or
  unresolvable one is stored as failed and is never confirmed), with no other transaction
  committing inside the check: a failed one is flagged as confirmed exactly when results of at
  least two regions failed in the last minute, itself included; then, and only then, the check opens an
  incident, of severity major and dated now, unless the dependency already has an open one.
\<close>

theorem quorum_opens_incident:
  assumes "execute_check env ids id now d region s = (Inr (Some r), s')" and "\<not> cr_is_up r"
    and "dep_get_by_id (w_m (ck_world s)) d = Some dep"
    and "resolve_pinned_target (ne_dns (pe_notify env)) (ns_lookups (w_notify (ck_world s))) (d_endpoint_url dep) = (Inr target, k)"
  shows "(cr_quorum_confirmed r \<longleftrightarrow> 2 \<le> card (down_regions now d (w_m (ck_world s')))) \<and>
    (if 2 \<le> card (down_regions now d (w_m (ck_world s'))) \<and> get_open_for_dependency (w_m (ck_world s)) d = None
      then \<exists>inc. mo_incidents (w_m (ck_world s')) = mo_incidents (w_m (ck_world s)) @ [inc] \<and> is_open_for d inc \<and>
        in_org_id inc = d_org_id dep \<and> in_started_at inc = now \<and> in_severity inc = Major
      else mo_incidents (w_m (ck_world s')) = mo_incidents (w_m (ck_world s)))"
  by (rule check_quorum [OF assms])

theorem quorum_opens_incident_witness:
  "stored (\<lambda>r s'. cr_quorum_confirmed r \<and> length (mo_incidents (w_m (ck_world s'))) = 1)
     (example_check 500 [''8.8.8.8''] 8 2000 ''eu-west-1'' one_down)"
proof -
  have "stored (\<lambda>r s'. \<not> cr_is_up r \<and> 2 \<le> card (down_regions 2000 5 (w_m (ck_world s'))))
     (example_check 500 [''8.8.8.8''] 8 2000 ''eu-west-1'' one_down)"
    by code_simp
  then obtain r s' where run: "example_check 500 [''8.8.8.8''] 8 2000 ''eu-west-1'' one_down = (Inr (Some r), s')"
    and r: "\<not> cr_is_up r" "2 \<le> card (down_regions 2000 5 (w_m (ck_world s')))"
    by (elim stored_E) simp
  have "mo_incidents (w_m (ck_world one_down)) = []" "get_open_for_dependency (w_m (ck_world one_down)) 5 = None"
    by (simp_all add: one_down_def example_state_def get_open_for_dependency_def)
  moreover obtain t where "resolve_pinned_target (ne_dns (pe_notify (example_env 500 [''8.8.8.8'']))) (ns_lookups (w_notify (ck_world one_down)))
      (d_endpoint_url (example_dependency example_regions)) = (Inr t, 2)"
    using example_target by (auto simp: example_env_def one_down_def example_state_def example_dependency_def)
  moreover note quorum_opens_incident [OF run [unfolded example_check_def] r(1) one_down_dependency this]
  ultimately show ?thesis
    using r(2) by (auto simp: run stored_def)
qed

section \<open>Recovery\<close>

text \<open>
  C8: When a check succeeds while the dependency has an open incident, the incident is resolved and
  its evidence task queued exactly when one of the four newest results of the last minute is a success from a
  different region; otherwise the incident stays.  (A comment of the code asks for two consecutive
  successful checks: failures in between do not count, and successes of one region never suffice.)
\<close>

theorem recovery_criterion:
  assumes "execute_check env ids id now d region s = (Inr (Some r), s')" and "cr_is_up r"
    and "incidents_wf (w_m (ck_world s))" and "get_open_for_dependency (w_m (ck_world s)) d = Some inc"
  shows "if \<exists>c\<in>set (take 4 (list_recent_for_dependency now (w_m (ck_world s')) d 60)). cr_is_up c \<and> cr_region c \<noteq> region
    then get_open_for_dependency (w_m (ck_world s')) d = None \<and>
      w_tasks (ck_world s') = w_tasks (ck_world s) @ (if w_broker_up (ck_world s) then [EvidenceTask (in_id inc)] else [])
    else mo_incidents (w_m (ck_world s')) = mo_incidents (w_m (ck_world s)) \<and> w_tasks (ck_world s') = w_tasks (ck_world s)"
  using assms(1)
proof (cases rule: execute_check_cases)
  case (blocked dep dto reason k)
  then show ?thesis
    using blocked_result_evidence(4) [OF blocked(7)] assms(2) by simp
next
  case (probed dep' dto target' k' w p)
  then show ?thesis
    using record_result_recovery [OF probed(8) assms(2)] assms(3,4) by (simp cong: if_cong)
qed

theorem recovery_criterion_witness:
  "stored (\<lambda>r s'. get_open_for_dependency (w_m (ck_world s')) 5 = None \<and> w_tasks (ck_world s') = [EvidenceTask 20])
     (example_check 200 [''8.8.8.8''] 8 2000 ''eu-west-1'' one_up)"
proof -
  have "stored (\<lambda>r s'. cr_is_up r \<and> list_ex (\<lambda>c. cr_is_up c \<and> cr_region c \<noteq> ''eu-west-1'')
        (take 4 (list_recent_for_dependency 2000 (w_m (ck_world s')) 5 60)))
     (example_check 200 [''8.8.8.8''] 8 2000 ''eu-west-1'' one_up)"
    by code_simp
  then obtain r s' where run: "example_check 200 [''8.8.8.8''] 8 2000 ''eu-west-1'' one_up = (Inr (Some r), s')"
    and r: "cr_is_up r" "\<exists>c\<in>set (take 4 (list_recent_for_dependency 2000 (w_m (ck_world s')) 5 60)). cr_is_up c \<and> cr_region c \<noteq> ''eu-west-1''"
    by (elim stored_E) (simp add: list_ex_iff)
  have "incidents_wf (w_m (ck_world one_up))" "get_open_for_dependency (w_m (ck_world one_up)) 5 = Some example_incident"
    by (simp_all add: one_up_def example_state_def get_open_for_dependency_def incidents_wf_def is_open_for_def example_incident_def)
  note this = recovery_criterion [OF run [unfolded example_check_def] r(1) this]
  then have "get_open_for_dependency (w_m (ck_world s')) 5 = None \<and>
      w_tasks (ck_world s') = w_tasks (ck_world one_up) @ (if w_broker_up (ck_world one_up) then [EvidenceTask (in_id example_incident)] else [])"
    using r(2) by argo
  moreover have "w_tasks (ck_world one_up) = []" "w_broker_up (ck_world one_up)" "in_id example_incident = 20"
    by (simp_all add: one_up_def example_state_def example_incident_def)
  ultimately show ?thesis
    by (simp add: run stored_def)
qed

section \<open>Refinement\<close>

text \<open>
  C4: The checks refine the abstract alarm: a check whose endpoint resolves to an address the policy
  admits, with no other transaction committing inside it, changes the set of dependencies with an
  open incident exactly as its verdict on the last minute's results says, for its own dependency and no
  other.  (A blocked or unresolvable endpoint raises no alarm: \<^verbatim>\<open>blocked_check_never_alerts\<close>.)
\<close>

theorem check_refines_alarm:
  assumes "execute_check env ids id now d region s = (Inr (Some r), s')" and "incidents_wf (w_m (ck_world s))"
    and "dep_get_by_id (w_m (ck_world s)) d = Some dep"
    and "resolve_pinned_target (ne_dns (pe_notify env)) (ns_lookups (w_notify (ck_world s))) (d_endpoint_url dep) = (Inr target, k)"
  shows "open_set (w_m (ck_world s')) =
    alarm_step (verdict_of now d region (cr_is_up r) (w_m (ck_world s'))) d (open_set (w_m (ck_world s)))"
  using assms(1)
proof (cases rule: execute_check_cases)
  case (probed dep' dto target' k' w p)
  then have "dep_get_by_id (w_m w) (d_id dto) \<noteq> None" "incidents_wf (w_m w)"
    using assms(2) by simp_all
  from record_result_alarm [OF probed(8) this(2,1)] probed show ?thesis
    by simp
next
  case (blocked dep' dto reason k')
  then show ?thesis
    using assms(3,4) by simp
qed

text \<open>An alarm that is raised, and one that is cleared.\<close>

theorem check_refines_alarm_witness:
  "stored (\<lambda>r s'. open_set (w_m (ck_world s')) = {5}) (example_check 500 [''8.8.8.8''] 8 2000 ''eu-west-1'' one_down) \<and>
   stored (\<lambda>r s'. open_set (w_m (ck_world s')) = {}) (example_check 200 [''8.8.8.8''] 8 2000 ''eu-west-1'' one_up)"
proof
  have target: "\<exists>t. resolve_pinned_target (ne_dns (pe_notify (example_env c [''8.8.8.8'']))) 0
      (d_endpoint_url (example_dependency example_regions)) = (Inr t, 2)" for c
    using example_target by (simp add: example_env_def example_dependency_def)
  have look: "ns_lookups (w_notify (ck_world one_down)) = 0" "ns_lookups (w_notify (ck_world one_up)) = 0"
    by (simp_all add: one_down_def one_up_def example_state_def)
  have "stored (\<lambda>r s'. verdict_of 2000 5 ''eu-west-1'' (cr_is_up r) (w_m (ck_world s')) = RaiseAlarm)
      (example_check 500 [''8.8.8.8''] 8 2000 ''eu-west-1'' one_down)"
    by code_simp
  then obtain r s' where run: "example_check 500 [''8.8.8.8''] 8 2000 ''eu-west-1'' one_down = (Inr (Some r), s')"
    and v: "verdict_of 2000 5 ''eu-west-1'' (cr_is_up r) (w_m (ck_world s')) = RaiseAlarm"
    by (elim stored_E)
  have wf: "incidents_wf (w_m (ck_world one_down))" "open_set (w_m (ck_world one_down)) = {}"
    by (simp_all add: one_down_def example_state_def incidents_wf_def open_set_def)
  have "open_set (w_m (ck_world s')) = {5}"
    using check_refines_alarm [OF run [unfolded example_check_def] wf(1) one_down_dependency] target [of 500] look v wf(2)
    by (metis alarm_step.simps(1) insert_absorb2)
  then show "stored (\<lambda>r s'. open_set (w_m (ck_world s')) = {5}) (example_check 500 [''8.8.8.8''] 8 2000 ''eu-west-1'' one_down)"
    by (simp add: run stored_def)
  have "stored (\<lambda>r s'. verdict_of 2000 5 ''eu-west-1'' (cr_is_up r) (w_m (ck_world s')) = ClearAlarm)
      (example_check 200 [''8.8.8.8''] 8 2000 ''eu-west-1'' one_up)"
    by code_simp
  then obtain r s' where run: "example_check 200 [''8.8.8.8''] 8 2000 ''eu-west-1'' one_up = (Inr (Some r), s')"
    and v: "verdict_of 2000 5 ''eu-west-1'' (cr_is_up r) (w_m (ck_world s')) = ClearAlarm"
    by (elim stored_E)
  have wf: "incidents_wf (w_m (ck_world one_up))" "open_set (w_m (ck_world one_up)) = {5}"
    by (simp_all add: one_up_def example_state_def incidents_wf_def open_set_def example_incident_def)
  have "open_set (w_m (ck_world s')) = {}"
    using check_refines_alarm [OF run [unfolded example_check_def] wf(1) one_up_dependency] target [of 200] look v wf(2)
    by (metis alarm_step.simps(2) Diff_cancel)
  then show "stored (\<lambda>r s'. open_set (w_m (ck_world s')) = {}) (example_check 200 [''8.8.8.8''] 8 2000 ''eu-west-1'' one_up)"
    by (simp add: run stored_def)
qed

section \<open>One open incident per dependency\<close>

text \<open>
  C6: However checks, incident requests and tasks, dependency requests, the scheduler, the outbox task and
  the retention task interleave, and whatever other transactions commit between the look-up and the insertion
  of an incident (incident rows created or updated, dependency requests, scheduler writes), no
  dependency ever has two open incidents.  The database's partial index covers the pair of organization
  and dependency alone; the rest is that a dependency never changes its organization.
\<close>

theorem one_open_incident:
  assumes "monitor_step\<^sup>*\<^sup>* s s'" and "monitor_wf (w_m (ck_world s))"
  shows "length (filter (is_open_for d) (mo_incidents (w_m (ck_world s')))) \<le> 1"
proof -
  let ?t = "mo_incidents (w_m (ck_world s'))"
  have "incidents_wf (w_m (ck_world s'))"
    using monitor_steps_wf assms by (simp add: monitor_wf_def)
  then have "distinct (filter (\<lambda>x. x = d) (map in_dependency_id (filter (\<lambda>r. in_status r = IncOpen) ?t)))"
    by (simp add: incidents_wf_def)
  moreover have "length (filter (\<lambda>x. x = d) (map in_dependency_id (filter (\<lambda>r. in_status r = IncOpen) ?t))) =
      length (filter (is_open_for d) ?t)"
    by (simp add: filter_map comp_def is_open_for_def [abs_def] conj_commute)
  moreover have "distinct (filter (\<lambda>x. x = d) xs) \<Longrightarrow> length (filter (\<lambda>x. x = d) xs) \<le> 1" for xs
    by (induction xs) (auto simp: filter_empty_conv)
  ultimately show ?thesis
    by metis
qed

text \<open>Another worker commits its incident between the look-up and the insertion.\<close>

definition rival :: "monitor \<Rightarrow> monitor" where
  "rival m = (case dep_get_by_id m 5 of None \<Rightarrow> m
     | Some dep \<Rightarrow> snd (incident_create 30 5 (d_org_id dep) (d_id dep) Major None m))"

lemma rival_concurrent: "concurrent rival"
  unfolding concurrent_def
proof
  fix m
  show "incident_write\<^sup>*\<^sup>* m (rival m)"
  proof (cases "dep_get_by_id m 5")
    case (Some dep)
    obtain res m' where c: "incident_create 30 5 (d_org_id dep) (d_id dep) Major None m = (res, m')"
      by fastforce
    then have "incident_write m m'"
      using dep_get_by_id_row [OF Some] by (intro incident_write.create) auto
    with Some c show ?thesis
      by (simp add: rival_def)
  qed (simp add: rival_def)
qed

theorem one_open_incident_witness:
  "\<exists>inc w'. create_incident_task (pe_notify (example_env 500 [])) (\<lambda>_. 40) 31 rival 6 5 ''down''
      (ck_world (example_state example_regions [] [])) = (Inr (Some inc), w') \<and> in_id inc = 30 \<and>
    length (filter (is_open_for 5) (mo_incidents (w_m w'))) \<le> 1"
proof -
  let ?s = "example_state example_regions [] []"
  have "case create_incident_task (pe_notify (example_env 500 [])) (\<lambda>_. 40) 31 rival 6 5 ''down'' (ck_world ?s) of
      (Inr (Some inc), _) \<Rightarrow> in_id inc = 30 | _ \<Rightarrow> False"
    by code_simp
  then obtain inc w' where c: "create_incident_task (pe_notify (example_env 500 [])) (\<lambda>_. 40) 31 rival 6 5 ''down'' (ck_world ?s) = (Inr (Some inc), w')"
    and i: "in_id inc = 30"
    by (auto split: prod.splits sum.splits option.splits)
  have "monitor_step ?s (?s\<lparr>ck_world := w'\<rparr>)"
    by (rule monitor_step.create [OF rival_concurrent c])
  moreover have "monitor_wf (w_m (ck_world ?s))"
    by (simp add: monitor_wf_def incidents_wf_def incident_orgs_def example_state_def)
  ultimately show ?thesis
    using one_open_incident [of ?s "?s\<lparr>ck_world := w'\<rparr>" 5] c i by auto
qed

section \<open>Blind spots\<close>

text \<open>
  A dependency that is checked from one region alone is never alerted on: whatever its checks
  find, in any number and over any time, no incident is opened or closed and no message is sent.
\<close>

theorem single_region_is_blind:
  assumes "(region_check d region)\<^sup>*\<^sup>* s s'" and "region_only d region (w_m (ck_world s))"
  shows "mo_incidents (w_m (ck_world s')) = mo_incidents (w_m (ck_world s)) \<and>
    ns_sent (w_notify (ck_world s')) = ns_sent (w_notify (ck_world s))"
  using region_checks_quiet [OF assms] by blast

text \<open>Two failures in a row from the only region.\<close>

theorem single_region_is_blind_witness:
  "stored (\<lambda>r s'. \<not> cr_is_up r \<and> length (mo_checks (w_m (ck_world s'))) = 2 \<and> mo_incidents (w_m (ck_world s')) = [])
     (example_check 500 [''8.8.8.8''] 8 2000 ''us-east-1''
        (example_state [''us-east-1''] [example_result 7 1000 ''us-east-1'' False] []))"
proof -
  let ?s = "example_state [''us-east-1''] [example_result 7 1000 ''us-east-1'' False] []"
  have "stored (\<lambda>r s'. \<not> cr_is_up r \<and> length (mo_checks (w_m (ck_world s'))) = 2) (example_check 500 [''8.8.8.8''] 8 2000 ''us-east-1'' ?s)"
    by code_simp
  then obtain r s' where run: "example_check 500 [''8.8.8.8''] 8 2000 ''us-east-1'' ?s = (Inr (Some r), s')"
    and r: "\<not> cr_is_up r" "length (mo_checks (w_m (ck_world s'))) = 2"
    by (elim stored_E) simp
  have "region_check 5 ''us-east-1'' ?s s'"
    by (rule region_check.check [of "example_env 500 [''8.8.8.8'']" "example_ids 8" 2000])
      (use run in \<open>simp add: execute_check_task_def example_check_def\<close>)
  moreover have "region_only 5 ''us-east-1'' (w_m (ck_world ?s))"
    by (simp add: region_only_def example_state_def example_result_def)
  ultimately have "mo_incidents (w_m (ck_world s')) = mo_incidents (w_m (ck_world ?s))"
    using single_region_is_blind by blast
  moreover have "mo_incidents (w_m (ck_world ?s)) = []"
    by (simp add: example_state_def)
  ultimately show ?thesis
    using r by (simp add: run stored_def)
qed

text \<open>
  A check whose endpoint does not resolve, or resolves to a blocked address, stores a failed
  result that is never confirmed: it opens no incident, sends no message and queues no task, from however many
  regions the name fails.
\<close>

theorem blocked_check_never_alerts:
  assumes "execute_check env ids others now d region s = (Inr (Some r), s')"
    and "dep_get_by_id (w_m (ck_world s)) d = Some dep"
    and "resolve_pinned_target (ne_dns (pe_notify env)) (ns_lookups (w_notify (ck_world s))) (d_endpoint_url dep) = (Inl reason, k)"
  shows "\<not> cr_is_up r \<and> \<not> cr_quorum_confirmed r \<and> mo_checks (w_m (ck_world s')) = mo_checks (w_m (ck_world s)) @ [r] \<and>
    mo_incidents (w_m (ck_world s')) = mo_incidents (w_m (ck_world s)) \<and>
    ns_sent (w_notify (ck_world s')) = ns_sent (w_notify (ck_world s)) \<and> w_tasks (ck_world s') = w_tasks (ck_world s)"
  using assms(1)
proof (cases rule: execute_check_cases)
  case (blocked dep' dto reason' k')
  from blocked_result_evidence [OF blocked(7)] blocked_result_flag [OF blocked(7)] blocked(8,9) show ?thesis
    by (simp add: adds_evidence_def)
next
  case (probed dep' dto target' k' w p)
  then show ?thesis
    using assms(2,3) by simp
qed

text \<open>The second region's name look-up fails while the first region's failure is on record.\<close>

theorem blocked_check_never_alerts_witness:
  "stored (\<lambda>r s'. \<not> cr_is_up r \<and> card (down_regions 2000 5 (w_m (ck_world s'))) = 2 \<and> mo_incidents (w_m (ck_world s')) = [])
     (example_check 500 [] 8 2000 ''eu-west-1'' one_down)"
proof -
  have "stored (\<lambda>r s'. card (down_regions 2000 5 (w_m (ck_world s'))) = 2) (example_check 500 [] 8 2000 ''eu-west-1'' one_down)"
    by code_simp
  then obtain r s' where run: "example_check 500 [] 8 2000 ''eu-west-1'' one_down = (Inr (Some r), s')"
    and r: "card (down_regions 2000 5 (w_m (ck_world s'))) = 2"
    by (elim stored_E)
  have "case resolve_pinned_target (\<lambda>_ _. []) 0 ''https://a.io/'' of (Inl _, _) \<Rightarrow> True | (Inr _, _) \<Rightarrow> False"
    by code_simp
  then obtain e k where "resolve_pinned_target (ne_dns (pe_notify (example_env 500 []))) (ns_lookups (w_notify (ck_world one_down)))
      (d_endpoint_url (example_dependency example_regions)) = (Inl e, k)"
    by (auto simp: example_env_def one_down_def example_state_def example_dependency_def split: prod.splits sum.splits)
  moreover have "mo_incidents (w_m (ck_world one_down)) = []"
    by (simp add: one_down_def example_state_def)
  moreover note blocked_check_never_alerts [OF run [unfolded example_check_def] one_down_dependency]
  ultimately show ?thesis
    using r by (auto simp: run stored_def)
qed

end
