(* ===== verification/Evidence.thy ===== *)
theory Evidence
  imports Blind_Spots "HOL-Library.Multiset"
begin

text \<open>
  The accounting of observations: every stored check result is represented once, by an event
  waiting in the outbox or by an observation, until the retention task deletes the observation; the
  outbox task moves events in batches.
\<close>

section \<open>The accounting\<close>

text \<open>The check result an observation or its event is about.\<close>

definition evidence_key :: "(string \<times> json) list \<Rightarrow> json option" where
  "evidence_key metadata = map_of metadata ''check_result_id''"

definition event_key :: "outbox_event \<Rightarrow> json option" where
  "event_key e = (case ox_payload e of None \<Rightarrow> None | Some dto \<Rightarrow> evidence_key (oc_metadata dto))"

definition event_ok :: "outbox_event \<Rightarrow> bool" where
  "event_ok e = (ox_event_type e = ''observation_created'' \<and> ox_payload e \<noteq> None)"

definition outbox_wf :: "monitor \<Rightarrow> bool" where
  "outbox_wf s = (distinct (map ox_id (mo_outbox s)) \<and> list_all event_ok (mo_outbox s))"

text \<open>A check result, an event and an observation name the result and its time of execution.\<close>

type_synonym mark = "json option \<times> time option"

definition check_mark :: "check_result \<Rightarrow> mark" where
  "check_mark r = (Some (juuid (cr_id r)), Some (cr_executed_at r))"

definition event_mark :: "outbox_event \<Rightarrow> mark" where
  "event_mark e = (event_key e, case ox_payload e of None \<Rightarrow> None | Some dto \<Rightarrow> oc_timestamp dto)"

definition observation_mark :: "observation \<Rightarrow> mark" where
  "observation_mark x = (evidence_key (ob_metadata x), Some (ob_timestamp x))"

definition check_marks :: "monitor \<Rightarrow> mark multiset" where
  "check_marks s = mset (map check_mark (mo_checks s))"

definition evidence_marks :: "monitor \<Rightarrow> mark multiset" where
  "evidence_marks s = mset (map event_mark (mo_outbox s)) + mset (map observation_mark (mo_observations s))"

text \<open>Executed at a given time or later.\<close>

definition since :: "time \<Rightarrow> mark \<Rightarrow> bool" where
  "since t k = (case snd k of None \<Rightarrow> False | Some e \<Rightarrow> t \<le> e)"

text \<open>
  No result has two pieces of evidence, none is evidence of nothing, and every result executed since the
  given time has one.
\<close>

definition accounted :: "time \<Rightarrow> monitor \<Rightarrow> bool" where
  "accounted t s = (evidence_marks s \<subseteq># check_marks s \<and> filter_mset (since t) (check_marks s) \<subseteq># evidence_marks s \<and> outbox_wf s)"

lemma accounted_cong: "mo_checks s = mo_checks s' \<Longrightarrow> mo_outbox s = mo_outbox s' \<Longrightarrow> mo_observations s = mo_observations s' \<Longrightarrow>
    accounted t s = accounted t s'"
  by (simp add: accounted_def outbox_wf_def check_marks_def evidence_marks_def)

lemma accounted_recent:
  assumes "accounted t s"
  shows "filter_mset (since t) (check_marks s) = filter_mset (since t) (evidence_marks s)"
proof (rule subset_mset.antisym)
  show "filter_mset (since t) (evidence_marks s) \<subseteq># filter_mset (since t) (check_marks s)"
    using assms by (simp add: accounted_def multiset_filter_mono)
  have "filter_mset (since t) (filter_mset (since t) (check_marks s)) \<subseteq># filter_mset (since t) (evidence_marks s)"
    using assms unfolding accounted_def by (intro multiset_filter_mono) blast
  then show "filter_mset (since t) (check_marks s) \<subseteq># filter_mset (since t) (evidence_marks s)"
    by (simp add: filter_filter_mset)
qed

lemma dto_mark: "observation_dto r url method = Some dto \<Longrightarrow>
    evidence_key (oc_metadata dto) = Some (juuid (cr_id r)) \<and> oc_timestamp dto = Some (cr_executed_at r)"
  by (auto simp: observation_dto_def evidence_key_def split: if_splits)

lemma adds_evidence_accounted:
  assumes "adds_evidence r s s'" and "accounted t s"
  shows "accounted t s'"
proof -
  obtain i u url verb dto where i: "i \<notin> ox_id ` set (mo_outbox s)" and dto: "observation_dto r url verb = Some dto"
    and s': "mo_checks s' = mo_checks s @ [r]" "mo_observations s' = mo_observations s"
      "mo_outbox s' = mo_outbox s @ [\<lparr>ox_id = i, ox_event_type = ''observation_created'', ox_payload = Some dto, ox_created_at = u\<rparr>]"
    using assms(1) by (auto simp: adds_evidence_def)
  have "check_marks s' = add_mset (check_mark r) (check_marks s)" "evidence_marks s' = add_mset (check_mark r) (evidence_marks s)"
    using dto_mark [OF dto] by (simp_all add: check_marks_def evidence_marks_def s' event_mark_def event_key_def check_mark_def)
  moreover have "outbox_wf s'"
    using assms(2) i by (simp add: accounted_def outbox_wf_def s' event_ok_def)
  ultimately show ?thesis
    using assms(2) subset_mset.add_mono [of "filter_mset (since t) (check_marks s)" "evidence_marks s" "{#}" "{#check_mark r#}"]
    by (simp add: accounted_def)
qed

section \<open>The batch\<close>

text \<open>What the loop does to the events it takes, when their payloads fit.\<close>

definition event_fits :: "monitor \<Rightarrow> outbox_event \<Rightarrow> bool" where
  "event_fits s e = (case ox_payload e of None \<Rightarrow> False | Some dto \<Rightarrow> observation_fits s dto)"

lemma fits_db: "mo_db s = mo_db s' \<Longrightarrow> event_fits s = event_fits s'"
  by (rule ext) (simp add: event_fits_def observation_fits_def split: option.split)

lemma process_event_fits:
  assumes "event_ok e" and "event_fits s e"
  obtains dto where "ox_payload e = Some dto"
    "process_event i now e (n, s) = Some (n + 1, outbox_delete e (s\<lparr>mo_observations := mo_observations s @ [observation_of i now dto]\<rparr>))"
  using assms that
  by (auto simp: event_ok_def event_fits_def process_event_def record_observation_def observation_add_def split: option.splits)

lemma process_event_misfit:
  assumes "event_ok e" and "\<not> event_fits s e"
  shows "process_event i now e (n, s) = None"
  using assms
  by (auto simp: event_ok_def event_fits_def process_event_def record_observation_def observation_add_def split: option.splits)

text \<open>A batch of events of the outbox either moves all of them or, if one does not fit, raises.\<close>

lemma process_loop_fits:
  assumes "list_all event_ok es" and "list_all (event_fits s) es"
  shows "\<exists>obs s'. process_loop ids now k es (n, s) = Some (n + length es, s') \<and>
    s' = s\<lparr>mo_outbox := filter (\<lambda>x. ox_id x \<notin> ox_id ` set es) (mo_outbox s), mo_observations := mo_observations s @ obs\<rparr> \<and>
    (list_all (\<lambda>e. snd (event_mark e) \<noteq> None) es \<longrightarrow> map observation_mark obs = map event_mark es) \<and> length obs = length es"
  using assms
proof (induction es arbitrary: k n s)
  case Nil
  have "s = s\<lparr>mo_outbox := mo_outbox s, mo_observations := mo_observations s\<rparr>"
    by (rule monitor.equality) simp_all
  then show ?case
    by (intro exI [of _ "[]"] exI [of _ s]) simp
next
  case (Cons e es)
  obtain dto where dto: "ox_payload e = Some dto"
    and p: "process_event (ids k) now e (n, s) =
        Some (n + 1, outbox_delete e (s\<lparr>mo_observations := mo_observations s @ [observation_of (ids k) now dto]\<rparr>))"
    using Cons.prems process_event_fits [of e s "ids k" now n] by auto
  let ?s1 = "outbox_delete e (s\<lparr>mo_observations := mo_observations s @ [observation_of (ids k) now dto]\<rparr>)"
  have "list_all (event_fits ?s1) es"
    using Cons.prems(2) fits_db [of s ?s1] by (simp add: outbox_delete_def)
  from Cons.IH [of ?s1 "k + 1" "n + 1"] this Cons.prems(1) obtain obs where
    loop: "process_loop ids now (k + 1) es (n + 1, ?s1) = Some (n + 1 + length es,
        ?s1\<lparr>mo_outbox := filter (\<lambda>x. ox_id x \<notin> ox_id ` set es) (mo_outbox ?s1), mo_observations := mo_observations ?s1 @ obs\<rparr>)"
    and obs: "list_all (\<lambda>e. snd (event_mark e) \<noteq> None) es \<longrightarrow> map observation_mark obs = map event_mark es" "length obs = length es"
    by auto
  have "snd (event_mark e) \<noteq> None \<Longrightarrow> observation_mark (observation_of (ids k) now dto) = event_mark e"
    by (auto simp: observation_mark_def observation_of_def event_mark_def event_key_def dto)
  with p loop obs show ?case
    by (intro exI [of _ "observation_of (ids k) now dto # obs"]) (simp add: outbox_delete_def conj_commute)
qed

lemma process_loop_misfit:
  assumes "list_all event_ok es" and "\<not> list_all (event_fits s) es"
  shows "process_loop ids now k es (n, s) = None"
  using assms
proof (induction es arbitrary: k n s)
  case (Cons e es)
  show ?case
  proof (cases "event_fits s e")
    case True
    then obtain dto where p: "process_event (ids k) now e (n, s) =
        Some (n + 1, outbox_delete e (s\<lparr>mo_observations := mo_observations s @ [observation_of (ids k) now dto]\<rparr>))"
      using Cons.prems process_event_fits [of e s "ids k" now n] by auto
    have "\<not> list_all (event_fits s) es"
      using Cons.prems(2) True by simp
    then have "process_loop ids now (k + 1) es (n + 1, outbox_delete e (s\<lparr>mo_observations := mo_observations s @ [observation_of (ids k) now dto]\<rparr>)) = None"
      using Cons.prems(1) fits_db [of s "outbox_delete e (s\<lparr>mo_observations := mo_observations s @ [observation_of (ids k) now dto]\<rparr>)"]
      by (intro Cons.IH) (simp_all add: outbox_delete_def)
    with p show ?thesis
      by simp
  qed (use Cons.prems process_event_misfit in simp)
qed simp

lemma list_pending_set: "set (list_pending s n) \<subseteq> set (mo_outbox s)"
  by (auto simp: list_pending_def dest: in_set_takeD)

lemma filter_other_keys: "distinct (map f (xs @ ys)) \<Longrightarrow> filter (\<lambda>x. f x \<notin> f ` set xs) (xs @ ys) = ys"
  by (auto simp: filter_empty_conv intro!: filter_True)

lemma pending_mset: "distinct (map ox_id (mo_outbox s)) \<Longrightarrow>
    mset (filter (\<lambda>x. ox_id x \<notin> ox_id ` set (list_pending s n)) (mo_outbox s)) + mset (list_pending s n) = mset (mo_outbox s)"
proof -
  assume d: "distinct (map ox_id (mo_outbox s))"
  let ?t = "sort_key ox_created_at (sort_key ox_id (mo_outbox s))"
  have t: "mset ?t = mset (mo_outbox s)" "set ?t = set (mo_outbox s)"
    by simp_all
  have "distinct (map ox_id ?t)"
    using d t by (metis mset_eq_imp_distinct_iff mset_map)
  then have "distinct (map ox_id (take n ?t @ drop n ?t))"
    by simp
  from filter_other_keys [OF this] have "filter (\<lambda>x. ox_id x \<notin> ox_id ` set (take n ?t)) (take n ?t @ drop n ?t) = drop n ?t" .
  then have "mset (filter (\<lambda>x. ox_id x \<notin> ox_id ` set (take n ?t)) ?t) = mset (drop n ?t)"
    by simp
  then have "mset (filter (\<lambda>x. ox_id x \<notin> ox_id ` set (take n ?t)) (mo_outbox s)) = mset (drop n ?t)"
    by (metis mset_filter t(1))
  moreover have "mset (take n ?t) + mset (drop n ?t) = mset (mo_outbox s)"
    by (metis append_take_drop_id mset_append t(1))
  ultimately show ?thesis
    by (simp add: list_pending_def union_commute)
qed

lemma process_outbox_ok:
  assumes "process_outbox ids now n s = (Inr k, s')" and "list_all event_ok (mo_outbox s)"
  obtains obs where "k = length (list_pending s n)"
    "s' = s\<lparr>mo_outbox := filter (\<lambda>x. ox_id x \<notin> ox_id ` set (list_pending s n)) (mo_outbox s), mo_observations := mo_observations s @ obs\<rparr>"
    "list_all (\<lambda>e. snd (event_mark e) \<noteq> None) (list_pending s n) \<Longrightarrow> map observation_mark obs = map event_mark (list_pending s n)"
proof -
  have ok: "list_all event_ok (list_pending s n)"
    using assms(2) list_pending_set by (fastforce simp: list_all_iff)
  then have "list_all (event_fits s) (list_pending s n)"
    using assms(1) process_loop_misfit by (fastforce simp: process_outbox_def)
  from process_loop_fits [OF ok this, of ids now 0 0] show thesis
    using assms(1) that by (auto simp: process_outbox_def)
qed

lemma process_outbox_accounted:
  assumes "process_outbox ids now n s = (Inr k, s')" and "accounted t s"
  shows "accounted t s'"
proof -
  have ok: "list_all event_ok (mo_outbox s)" and d: "distinct (map ox_id (mo_outbox s))"
    using assms(2) by (simp_all add: accounted_def outbox_wf_def)
  let ?batch = "list_pending s n" and ?rest = "filter (\<lambda>x. ox_id x \<notin> ox_id ` set (list_pending s n)) (mo_outbox s)"
  have "snd (event_mark e) \<noteq> None" if "e \<in> set (mo_outbox s)" for e
  proof -
    have "event_mark e \<in># evidence_marks s"
      using that by (simp add: evidence_marks_def)
    then have "event_mark e \<in># check_marks s"
      using assms(2) by (auto simp: accounted_def dest: mset_subset_eqD)
    then show ?thesis
      by (auto simp: check_marks_def check_mark_def)
  qed
  then have dated: "list_all (\<lambda>e. snd (event_mark e) \<noteq> None) ?batch"
    using list_pending_set [of s n] by (auto simp: list_all_iff)
  obtain obs where s': "s' = s\<lparr>mo_outbox := ?rest, mo_observations := mo_observations s @ obs\<rparr>"
    and obs: "map observation_mark obs = map event_mark ?batch"
    by (rule process_outbox_ok [OF assms(1) ok]) (use dated in blast)
  have "mset (map event_mark ?rest) + mset (map event_mark ?batch) = mset (map event_mark (mo_outbox s))"
    by (metis image_mset_union mset_map pending_mset [OF d])
  then have "mset (map event_mark ?rest) + mset (map observation_mark obs) = mset (map event_mark (mo_outbox s))"
    by (simp only: obs)
  then have "evidence_marks s' = evidence_marks s" "check_marks s' = check_marks s"
    by (simp_all add: evidence_marks_def check_marks_def s' ac_simps)
  moreover have "outbox_wf s'"
    using d ok by (auto simp: outbox_wf_def s' list_all_iff distinct_map_filter)
  ultimately show ?thesis
    using assms(2) by (simp add: accounted_def)
qed

text \<open>The retention task deletes observations, and only such as are older than its cutoff.\<close>

lemma retention_accounted:
  assumes "now - days n \<le> t" and "accounted t s"
  shows "accounted t (snd (retention_cleanup now n s))"
proof -
  let ?old = "\<lambda>x. ob_timestamp x < now - days n"
  let ?s = "snd (retention_cleanup now n s)"
  have s': "mo_checks ?s = mo_checks s" "mo_outbox ?s = mo_outbox s" "mo_observations ?s = filter (\<lambda>x. \<not> ?old x) (mo_observations s)"
    by (simp_all add: retention_cleanup_def Let_def)
  have "mset (map observation_mark (filter (\<lambda>x. \<not> ?old x) xs)) \<subseteq># mset (map observation_mark xs)" for xs
    by (simp add: mset_filter image_mset_subseteq_mono multiset_filter_subset)
  then have less: "evidence_marks ?s \<subseteq># evidence_marks s"
    by (simp only: evidence_marks_def s' subset_mset.add_left_mono)
  have "filter_mset (since t) (mset (map observation_mark (filter (\<lambda>x. \<not> ?old x) xs))) = filter_mset (since t) (mset (map observation_mark xs))" for xs
    using assms(1) by (induction xs) (auto simp: since_def observation_mark_def)
  then have recent: "filter_mset (since t) (evidence_marks ?s) = filter_mset (since t) (evidence_marks s)"
    by (simp only: evidence_marks_def s' filter_union_mset)
  have "filter_mset (since t) (check_marks ?s) = filter_mset (since t) (evidence_marks ?s)"
    using accounted_recent [OF assms(2)] by (simp add: recent) (simp add: check_marks_def s')
  then have "filter_mset (since t) (check_marks ?s) \<subseteq># evidence_marks ?s"
    by simp
  moreover have "evidence_marks ?s \<subseteq># check_marks ?s"
    using subset_mset.order_trans [OF less] assms(2) by (simp add: accounted_def check_marks_def s')
  ultimately show ?thesis
    using assms(2) by (simp add: accounted_def outbox_wf_def s')
qed

section \<open>Steps\<close>

text \<open>
  The steps of the monitoring half, one after the other: a transaction that commits inside another
  is a step of its own, before it.  Every run of the retention task has a cutoff of at most
  \<^verbatim>\<open>t\<close>.
\<close>

inductive evidence_step :: "time \<Rightarrow> check_state \<Rightarrow> check_state \<Rightarrow> bool" for t where
  check: "execute_check_task env ids id now d region s = (res, s') \<Longrightarrow> evidence_step t s s'"
| create: "create_incident_task nenv cids i id now d msg (ck_world s) = (res, w') \<Longrightarrow>
     evidence_step t s (s\<lparr>ck_world := w'\<rparr>)"
| resolve: "resolve_incident aid now i g (ck_world s) = (Inr inc, w') \<Longrightarrow> evidence_step t s (s\<lparr>ck_world := w'\<rparr>)"
| resolve_task: "resolve_incident_task aid now d (ck_world s) = (res, w') \<Longrightarrow> evidence_step t s (s\<lparr>ck_world := w'\<rparr>)"
| update: "update_incident aid now g i r (ck_world s) = (Inr inc, w') \<Longrightarrow> evidence_step t s (s\<lparr>ck_world := w'\<rparr>)"
| dependency: "dependency_step (w_m (ck_world s)) m \<Longrightarrow> evidence_step t s (s\<lparr>ck_world := (ck_world s)\<lparr>w_m := m\<rparr>\<rparr>)"
| schedule: "schedule_due_checks now (ck_world s) = (Inr n, w') \<Longrightarrow> evidence_step t s (s\<lparr>ck_world := w'\<rparr>)"
| outbox: "process_outbox oids now n (w_m (ck_world s)) = (res, m) \<Longrightarrow> evidence_step t s (s\<lparr>ck_world := (ck_world s)\<lparr>w_m := m\<rparr>\<rparr>)"
| retention: "now - days n \<le> t \<Longrightarrow>
     evidence_step t s (s\<lparr>ck_world := (ck_world s)\<lparr>w_m := snd (retention_cleanup now n (w_m (ck_world s)))\<rparr>\<rparr>)"

lemma process_outbox_error: "process_outbox ids now n s = (Inl e, s') \<Longrightarrow> s' = s"
  by (auto simp: process_outbox_def split: option.splits)

lemma execute_check_none: "execute_check env ids others now d region s = (Inr None, s') \<Longrightarrow> s' = s"
  by (auto simp: execute_check_def run_check_def Let_def split: option.splits if_splits prod.splits sum.splits)

lemma same_evidence_accounted: "same_evidence s s' \<Longrightarrow> accounted t s = accounted t s'"
  by (rule accounted_cong) (simp_all add: same_evidence_def)

lemma accounted_created:
  "accounted t (w_m w) \<Longrightarrow> check_and_create_incident nenv cids i id now g d msg w = (res, w') \<Longrightarrow> accounted t (w_m w')"
  using same_evidence_accounted [OF create_incident_evidence [of w nenv cids i now g d msg]] by simp

lemma accounted_resolved:
  "accounted t (w_m w) \<Longrightarrow> resolve_incident aid now i g w = (res, w') \<Longrightarrow> accounted t (w_m w')"
  using same_evidence_accounted [OF resolve_incident_evidence [of w aid now i g]] by simp

lemma evidence_step_accounted:
  assumes "evidence_step t s s'" and "accounted t (w_m (ck_world s))"
  shows "accounted t (w_m (ck_world s'))"
  using assms
proof (induction rule: evidence_step.induct)
  case (check env ids now d region s res s')
  show ?case
  proof (cases res)
    case (Inl e)
    then show ?thesis
      using check by (auto simp: execute_check_task_def split: prod.splits sum.splits)
  next
    case (Inr v)
    then have run: "execute_check env ids id now d region s = (Inr v, s')"
      using check.hyps by (auto simp: execute_check_task_def split: prod.splits sum.splits)
    show ?thesis
    proof (cases v)
      case None
      then show ?thesis
        using execute_check_none run check.prems by blast
    next
      case (Some r)
      then show ?thesis
        using execute_check_evidence run adds_evidence_accounted check.prems by blast
    qed
  qed
next
  case (create nenv cids i now d msg s res w')
  then show ?case
    using accounted_created [of t "ck_world s" nenv cids i now]
    by (auto simp: create_incident_task_def split: option.splits prod.splits sum.splits)
next
  case (resolve aid now i g s inc w')
  then show ?case
    using accounted_resolved [of t "ck_world s" aid now i g] by simp
next
  case (resolve_task aid now d s res w')
  then show ?case
    using accounted_resolved [of t "ck_world s" aid now]
    by (auto simp: resolve_incident_task_def split: option.splits prod.splits sum.splits)
next
  case (update aid now g i r s inc w')
  then show ?case
    using same_evidence_accounted [OF update_incident_evidence [of "ck_world s" aid now g i r]] by simp
next
  case (dependency s m)
  then show ?case
    using dependency_step_tables [of "w_m (ck_world s)" m] accounted_cong [of m "w_m (ck_world s)" t] by simp
next
  case (schedule now s n w')
  then have "w' = snd (schedule_loop now (get_due_dependencies now 500 (w_m (ck_world s))) 0 (ck_world s))"
    by (simp add: schedule_due_checks_def)
  with schedule.prems show ?case
    using accounted_cong [of "w_m w'" "w_m (ck_world s)" t] by (simp add: schedule_loop_tables)
next
  case (outbox oids now n s res m)
  then show ?case
    by (cases res) (auto dest: process_outbox_error process_outbox_accounted)
next
  case (retention now n s)
  then show ?case
    by (simp add: retention_accounted)
qed

lemma evidence_steps_accounted:
  "(evidence_step t)\<^sup>*\<^sup>* s s' \<Longrightarrow> accounted t (w_m (ck_world s)) \<Longrightarrow> accounted t (w_m (ck_world s'))"
  by (induction rule: rtranclp_induct) (auto intro: evidence_step_accounted)

section \<open>Draining\<close>

text \<open>The task run again and again, with fresh identifiers for each run.\<close>

fun outbox_runs :: "(nat \<Rightarrow> nat \<Rightarrow> uuid) \<Rightarrow> time \<Rightarrow> nat \<Rightarrow> nat \<Rightarrow> monitor \<Rightarrow> monitor" where
  "outbox_runs ids now n 0 s = s"
| "outbox_runs ids now n (Suc k) s = outbox_runs ids now n k (snd (process_outbox (ids k) now n s))"

lemma outbox_shrinks:
  assumes "list_all event_ok (mo_outbox s)" and "list_all (event_fits s) (mo_outbox s)" and "distinct (map ox_id (mo_outbox s))"
  obtains k s' where "process_outbox ids now n s = (Inr k, s')" "k = min n (length (mo_outbox s))"
    "length (mo_outbox s') = length (mo_outbox s) - k" "set (mo_outbox s') \<subseteq> set (mo_outbox s)"
    "distinct (map ox_id (mo_outbox s'))" "mo_db s' = mo_db s"
proof -
  have "list_all event_ok (list_pending s n)" "list_all (event_fits s) (list_pending s n)"
    using assms(1,2) list_pending_set [of s n] by (auto simp: list_all_iff)
  from process_loop_fits [OF this, of ids now 0 0] obtain obs where
    p: "process_outbox ids now n s = (Inr (length (list_pending s n)),
      s\<lparr>mo_outbox := filter (\<lambda>x. ox_id x \<notin> ox_id ` set (list_pending s n)) (mo_outbox s), mo_observations := mo_observations s @ obs\<rparr>)"
    by (auto simp: process_outbox_def)
  have "length (filter (\<lambda>x. ox_id x \<notin> ox_id ` set (list_pending s n)) (mo_outbox s)) + length (list_pending s n) = length (mo_outbox s)"
    by (metis pending_mset [OF assms(3)] size_mset size_union)
  moreover have "length (list_pending s n) = min n (length (mo_outbox s))"
    by (simp add: list_pending_def)
  ultimately show thesis
    using p assms(3) by (intro that [OF p]) (auto simp: distinct_map_filter)
qed

lemma outbox_runs_empty:
  assumes "list_all event_ok (mo_outbox s)" and "list_all (event_fits s) (mo_outbox s)" and "distinct (map ox_id (mo_outbox s))"
    and "length (mo_outbox s) \<le> k * n"
  shows "mo_outbox (outbox_runs ids now n k s) = []"
  using assms
proof (induction k arbitrary: s)
  case (Suc k)
  obtain j s' where p: "process_outbox (ids k) now n s = (Inr j, s')" "j = min n (length (mo_outbox s))"
    "length (mo_outbox s') = length (mo_outbox s) - j" "set (mo_outbox s') \<subseteq> set (mo_outbox s)"
    "distinct (map ox_id (mo_outbox s'))" "mo_db s' = mo_db s"
    by (rule outbox_shrinks [OF Suc.prems(1-3), of "ids k" now n])
  have "list_all event_ok (mo_outbox s')" "list_all (event_fits s') (mo_outbox s')"
    using Suc.prems(1,2) p(4) fits_db [OF p(6)] by (auto simp: list_all_iff)
  moreover have "length (mo_outbox s') \<le> k * n"
    using Suc.prems(4) p(2,3) by (auto simp: min_def split: if_splits)
  ultimately show ?case
    using p(1,5) Suc.IH by simp
qed simp

end
