(* ===== verification/Evidence_Properties.thy ===== *)
theory Evidence_Properties
  imports Evidence Monitoring_Examples
begin

text \<open>
  The properties of the observation pipeline, the scheduler and the resolution of incidents.
\<close>

section \<open>Scheduling\<close>

lemma enqueue_all_ok: "enqueue_all ts w = (True, w') \<Longrightarrow> w' = w\<lparr>w_tasks := w_tasks w @ ts\<rparr>"
  by (induction ts arbitrary: w) (fastforce simp: enqueue_def split: if_splits)+

definition due_tasks :: "dependency list \<Rightarrow> task list" where
  "due_tasks ds = concat (map (\<lambda>d. map (CheckTask (d_id d)) (check_regions d)) ds)"

lemma save_advanced:
  assumes "distinct (map d_id t)" and "d \<in> set t"
  shows "save_row d_id (advance now d) t = map (\<lambda>x. if x = d then advance now x else x) t"
  using distinct_map_inj [OF assms(1)] assms(2) by (auto simp: save_row_def advance_def)

lemma schedule_loop_ok:
  assumes "schedule_loop now ds n w = (Inr m, w')" and "distinct (map d_id (mo_dependencies (w_m w)))"
    and "distinct ds" and "set ds \<subseteq> set (mo_dependencies (w_m w))"
  shows "w_tasks w' = w_tasks w @ due_tasks ds \<and> m = n + length (due_tasks ds) \<and>
    mo_dependencies (w_m w') = map (\<lambda>x. if x \<in> set ds then advance now x else x) (mo_dependencies (w_m w))"
  using assms
proof (induction ds arbitrary: n w)
  case (Cons d ds)
  let ?t = "mo_dependencies (w_m w)"
  let ?w = "w\<lparr>w_m := save_dependency (advance now d) (w_m w)\<rparr>"
  obtain w1 where e: "enqueue_all (map (CheckTask (d_id d)) (check_regions d)) ?w = (True, w1)"
    and loop: "schedule_loop now ds (n + length (check_regions d)) w1 = (Inr m, w')"
    using Cons.prems(1) by (auto split: prod.splits bool.splits)
  have w1: "w_m w1 = save_dependency (advance now d) (w_m w)" "w_tasks w1 = w_tasks w @ map (CheckTask (d_id d)) (check_regions d)"
    using enqueue_all_ok [OF e] by simp_all
  have t1: "mo_dependencies (w_m w1) = map (\<lambda>x. if x = d then advance now x else x) ?t"
    using Cons.prems(2,4) by (simp add: w1 save_dependency_def save_advanced)
  have inj: "\<And>x. x \<in> set ?t \<Longrightarrow> d_id x = d_id d \<Longrightarrow> x = d"
    using distinct_map_inj [OF Cons.prems(2)] Cons.prems(4) by auto
  have "distinct (map d_id (mo_dependencies (w_m w1)))"
    using Cons.prems(2) by (simp add: w1 save_dependency_def)
  moreover have "set ds \<subseteq> set (mo_dependencies (w_m w1))"
    using Cons.prems(3,4) by (auto simp: t1 image_iff)
  ultimately have "w_tasks w' = w_tasks w1 @ due_tasks ds" "m = n + length (check_regions d) + length (due_tasks ds)"
    "mo_dependencies (w_m w') = map (\<lambda>x. if x \<in> set ds then advance now x else x) (mo_dependencies (w_m w1))"
    using Cons.IH [OF loop] Cons.prems(3) by simp_all
  moreover have "advance now d \<notin> set ds"
  proof
    assume "advance now d \<in> set ds"
    then have "advance now d = d"
      using Cons.prems(4) inj [of "advance now d"] by (auto simp: advance_def)
    with \<open>advance now d \<in> set ds\<close> Cons.prems(3) show False
      by simp
  qed
  ultimately show ?case
    using Cons.prems(3) by (auto simp: w1 t1 [unfolded w1(1)] due_tasks_def)
qed (simp add: due_tasks_def)

lemma due_distinct: "distinct (mo_dependencies s) \<Longrightarrow> distinct (get_due_dependencies now n s)"
  by (simp add: get_due_dependencies_def page_of_def distinct_take distinct_drop distinct_sort)

text \<open>
  C26: A scheduler run that succeeds (the broker takes every task) queues, for each of the first 500 due
  dependencies in order of due time, the others waiting for a later run, one check per region, returns their number, and pushes exactly those dependencies to one
  interval from now, so that none of them is due again earlier; no other dependency changes.
\<close>

theorem scheduler_queues_due_checks:
  assumes "schedule_due_checks now w = (Inr n, w')" and "distinct (map d_id (mo_dependencies (w_m w)))"
  shows "\<exists>due. due = get_due_dependencies now 500 (w_m w) \<and> length due \<le> 500 \<and>
    w_tasks w' = w_tasks w @ due_tasks due \<and> n = length (due_tasks due) \<and>
    mo_dependencies (w_m w') = map (\<lambda>x. if x \<in> set due then advance now x else x) (mo_dependencies (w_m w)) \<and>
    list_all (\<lambda>d. is_due now d \<and> (\<forall>t. is_due t (advance now d) \<longleftrightarrow> now + seconds (d_check_interval_seconds d) \<le> t)) due"
proof -
  let ?due = "get_due_dependencies now 500 (w_m w)"
  have rows: "distinct ?due" "set ?due \<subseteq> set (mo_dependencies (w_m w))"
    using assms(2) due_distinct due_rows distinct_map by blast+
  have "is_due now d \<and> (\<forall>t. is_due t (advance now d) \<longleftrightarrow> now + seconds (d_check_interval_seconds d) \<le> t)" if "d \<in> set ?due" for d
    using that due_rows [of now 500 "w_m w"] by (auto simp: is_due_def advance_def)
  moreover have "length ?due \<le> 500"
    by (simp add: get_due_dependencies_def page_of_def)
  ultimately show ?thesis
    using schedule_loop_ok [OF assms(1) [unfolded schedule_due_checks_def] assms(2) rows] by (auto simp: list_all_iff)
qed

theorem scheduler_queues_due_checks_witness:
  "\<exists>w'. schedule_due_checks 1000 (ck_world one_down) = (Inr 2, w') \<and>
    w_tasks w' = [CheckTask 5 ''us-east-1'', CheckTask 5 ''eu-west-1'']"
proof -
  have "case schedule_due_checks 1000 (ck_world one_down) of (Inl _, _) \<Rightarrow> False | (Inr n, _) \<Rightarrow> n = 2 \<and>
      due_tasks (get_due_dependencies 1000 500 (w_m (ck_world one_down))) = [CheckTask 5 ''us-east-1'', CheckTask 5 ''eu-west-1'']"
    by code_simp
  then obtain w' where run: "schedule_due_checks 1000 (ck_world one_down) = (Inr 2, w')"
    and due: "due_tasks (get_due_dependencies 1000 500 (w_m (ck_world one_down))) = [CheckTask 5 ''us-east-1'', CheckTask 5 ''eu-west-1'']"
    by (auto split: prod.splits sum.splits)
  have "distinct (map d_id (mo_dependencies (w_m (ck_world one_down))))" "w_tasks (ck_world one_down) = []"
    by (simp_all add: one_down_def example_state_def)
  with scheduler_queues_due_checks [OF run] run due show ?thesis
    by simp
qed

section \<open>Observations\<close>

text \<open>
  C7: Whatever checks, incident and dependency requests, scheduler, outbox and retention runs happen, one
  after the other in any order and with their failures: no stored check result ever has two pieces of evidence
  (a pending event and an observation, or two of them), no piece is evidence of anything but a
  stored result, and a result executed no earlier than the cutoffs of the retention runs has exactly one.
  So it is the retention task alone that makes a result lose its evidence.
\<close>

theorem evidence_accounted:
  assumes "(evidence_step t)\<^sup>*\<^sup>* s s'" and "accounted t (w_m (ck_world s))"
  shows "evidence_marks (w_m (ck_world s')) \<subseteq># check_marks (w_m (ck_world s')) \<and>
    filter_mset (since t) (check_marks (w_m (ck_world s'))) = filter_mset (since t) (evidence_marks (w_m (ck_world s')))"
  using evidence_steps_accounted [OF assms] accounted_recent by (simp add: accounted_def)

text \<open>A check is stored; a year later the retention task runs with a cutoff before it.\<close>

theorem evidence_accounted_witness:
  "stored (\<lambda>r s'. evidence_marks (snd (retention_cleanup (2000 + days 365) 365 (w_m (ck_world s')))) = {#check_mark r#} \<and>
        cr_executed_at r = 2000)
     (example_check 500 [''8.8.8.8''] 8 2000 ''eu-west-1'' (example_state example_regions [] []))"
proof -
  let ?s = "example_state example_regions [] []"
  have "stored (\<lambda>r s'. mo_checks (w_m (ck_world s')) = [r] \<and> cr_executed_at r = 2000)
     (example_check 500 [''8.8.8.8''] 8 2000 ''eu-west-1'' ?s)"
    by code_simp
  then obtain r s' where run: "example_check 500 [''8.8.8.8''] 8 2000 ''eu-west-1'' ?s = (Inr (Some r), s')"
    and r: "mo_checks (w_m (ck_world s')) = [r]" "cr_executed_at r = 2000"
    by (elim stored_E) simp
  let ?m = "snd (retention_cleanup (2000 + days 365) 365 (w_m (ck_world s')))"
  let ?s' = "s'\<lparr>ck_world := (ck_world s')\<lparr>w_m := ?m\<rparr>\<rparr>"
  have "evidence_step 2000 ?s s'"
    by (rule evidence_step.check [of "example_env 500 [''8.8.8.8'']" "example_ids 8" 2000 5 "''eu-west-1''"])
      (use run in \<open>simp add: execute_check_task_def example_check_def\<close>)
  moreover have "evidence_step 2000 s' ?s'"
    by (rule evidence_step.retention) simp
  ultimately have run': "(evidence_step 2000)\<^sup>*\<^sup>* ?s ?s'"
    by (meson converse_rtranclp_into_rtranclp r_into_rtranclp)
  have wf: "accounted 2000 (w_m (ck_world ?s))"
    by (simp add: accounted_def outbox_wf_def check_marks_def evidence_marks_def example_state_def empty_monitor_def)
  have c: "check_marks ?m = {#check_mark r#}" "since 2000 (check_mark r)"
    using r by (simp_all add: check_marks_def retention_cleanup_def Let_def since_def check_mark_def)
  have "evidence_marks ?m \<subseteq># check_marks ?m \<and> filter_mset (since 2000) (check_marks ?m) = filter_mset (since 2000) (evidence_marks ?m)"
    using evidence_accounted [OF run' wf] by simp
  then have e: "evidence_marks ?m \<subseteq># {#check_mark r#}" "filter_mset (since 2000) {#check_mark r#} = filter_mset (since 2000) (evidence_marks ?m)"
    unfolding c(1) by (rule conjunct1, rule conjunct2)
  have "filter_mset (since 2000) {#check_mark r#} = {#check_mark r#}"
    using c(2) by simp
  then have "{#check_mark r#} \<subseteq># evidence_marks ?m"
    unfolding e(2) by (metis multiset_filter_subset)
  with e(1) have "evidence_marks ?m = {#check_mark r#}"
    by (rule subset_mset.antisym)
  then show ?thesis
    using r by (simp add: run stored_def)
qed

text \<open>
  C27: When the database accepts every pending observation, the outbox is empty after as many runs of
  the task as batches fit its length.
\<close>

theorem outbox_drains:
  assumes "outbox_wf s" and "list_all (event_fits s) (mo_outbox s)" and "length (mo_outbox s) \<le> k * n"
  shows "mo_outbox (outbox_runs ids now n k s) = []"
  using outbox_runs_empty assms by (simp add: outbox_wf_def)

definition example_dto :: "uuid \<Rightarrow> uuid option \<Rightarrow> observation_create" where
  "example_dto i g = \<lparr>oc_timestamp = Some 0, oc_source_type = ''customer_check'', oc_source_id = Some 5, oc_org_id = g,
     oc_region = ''us-east-1'', oc_endpoint_url = ''https://a.io/'', oc_latency_ms = 12, oc_status_code = Some 200,
     oc_response_time_ms = None, oc_error_type = None, oc_error_message = None,
     oc_metadata = [(''check_result_id'', juuid i)]\<rparr>"

definition example_event :: "uuid \<Rightarrow> uuid option \<Rightarrow> outbox_event" where
  "example_event i g = \<lparr>ox_id = i, ox_event_type = ''observation_created'', ox_payload = Some (example_dto i g), ox_created_at = 0\<rparr>"

definition example_outbox :: "uuid option \<Rightarrow> monitor" where
  "example_outbox g = empty_monitor\<lparr>mo_checks := [example_result 1 0 ''us-east-1'' True, example_result 2 0 ''us-east-1'' True],
     mo_outbox := [example_event 1 None, example_event 2 g]\<rparr>"

lemma example_outbox_wf: "outbox_wf (example_outbox g)"
  by (simp add: outbox_wf_def example_outbox_def empty_monitor_def example_event_def event_ok_def)

theorem outbox_drains_witness: "mo_outbox (outbox_runs (\<lambda>k i. i) 9 1 2 (example_outbox None)) = []"
  by (rule outbox_drains [OF example_outbox_wf])
    (simp_all add: example_outbox_def example_event_def event_fits_def observation_fits_def example_dto_def)

text \<open>
  C28: One event in the batch whose insertion the database refuses blocks the outbox: every run rolls
  back and leaves all tables as they were, although the loop catches the error of each event.
\<close>

theorem outbox_poisoned:
  assumes "outbox_wf s" and "e \<in> set (list_pending s n)" and "\<not> event_fits s e"
  shows "outbox_runs ids now n k s = s"
proof -
  have "list_all event_ok (list_pending s n)"
    using assms(1) list_pending_set [of s n] by (auto simp: outbox_wf_def list_all_iff)
  moreover have "\<not> list_all (event_fits s) (list_pending s n)"
    using assms(2,3) by (auto simp: list_all_iff)
  ultimately have "process_outbox i now n s = (Inl (IntegrityError ''observations''), s)" for i
    by (simp add: process_outbox_def process_loop_misfit)
  then show ?thesis
    by (induction k) simp_all
qed

text \<open>The second event names an organization that is not there; the first one never gets through.\<close>

theorem outbox_poisoned_witness:
  "outbox_runs (\<lambda>k i. i) 9 100 3 (example_outbox (Some 3)) = example_outbox (Some 3)"
  by (rule outbox_poisoned [OF example_outbox_wf, of "example_event 2 (Some 3)"])
    (simp_all add: example_outbox_def list_pending_def example_event_def event_fits_def observation_fits_def example_dto_def
      empty_monitor_def org_get_by_id_def get_row_def empty_db_def)

section \<open>Resolution\<close>

lemma attributed_incident: "incident_get_by_id (attribute_incident a t r s) i = incident_get_by_id s i"
  by (simp add: incident_get_by_id_def)

lemma resolve_result:
  assumes "resolve_incident aid now i g w = (Inr inc, w')" and "distinct (map in_id (mo_incidents (w_m w)))"
  shows "in_status inc = IncResolved" "in_resolved_at inc \<noteq> None" "incident_get_by_id (w_m w') i = Some inc"
    "g = None \<or> g = Some (in_org_id inc)"
proof -
  obtain r where r: "incident_get_by_id (w_m w) i = Some r" and g: "g = None \<or> g = Some (in_org_id r)"
    using assms(1) by (auto simp: resolve_incident_def split: option.splits if_splits)
  let ?r = "r\<lparr>in_status := IncResolved, in_resolved_at := Some now\<rparr>"
  have up: "incident_update r [IfStatus (Some IncResolved), IfResolvedAt (Some now)] (w_m w) = (Inr ?r, save_incident ?r (w_m w))"
    by (simp add: incident_update_def set_fields_def Let_def)
  have "in_status inc = IncResolved \<and> in_resolved_at inc \<noteq> None \<and> incident_get_by_id (w_m w') i = Some inc \<and>
      (g = None \<or> g = Some (in_org_id inc))"
  proof (cases "in_status r = IncResolved \<and> in_resolved_at r \<noteq> None")
    case False
    then have "inc = ?r" "w_m w' = attribute_incident aid now ?r (save_incident ?r (w_m w))"
      using assms(1) r g up by (auto simp: resolve_incident_def)
    moreover have "incident_get_by_id (save_incident ?r (w_m w)) (in_id ?r) = Some ?r"
      by (rule incident_repo.get_save [OF assms(2), of ?r r]) (use r incident_repo.get_hit [OF r] in simp)
    ultimately show ?thesis
      using incident_repo.get_hit [OF r] g by (auto simp: attributed_incident)
  qed (use assms(1) r g in \<open>auto simp: resolve_incident_def\<close>)
  then show "in_status inc = IncResolved" "in_resolved_at inc \<noteq> None" "incident_get_by_id (w_m w') i = Some inc"
    "g = None \<or> g = Some (in_org_id inc)"
    by blast+
qed

text \<open>
  Resolving an incident is idempotent: a second request, at any later time, returns the same
  row and changes nothing: the first resolution time, the attribution and the queued tasks stay.
\<close>

theorem resolve_idempotent:
  assumes "resolve_incident aid now i g w = (Inr inc, w')" and "distinct (map in_id (mo_incidents (w_m w)))"
  shows "in_status inc = IncResolved \<and> in_resolved_at inc \<noteq> None \<and> resolve_incident aid' now' i g w' = (Inr inc, w')"
  using resolve_result [OF assms] by (auto simp: resolve_incident_def)

theorem resolve_idempotent_witness:
  "\<exists>inc w'. resolve_incident 1 50 20 None (ck_world one_up) = (Inr inc, w') \<and> resolve_incident 2 99 20 None w' = (Inr inc, w') \<and>
    w_tasks w' = [EvidenceTask 20] \<and> in_resolved_at inc = Some 50"
proof -
  have "case resolve_incident 1 50 20 None (ck_world one_up) of (Inl _, _) \<Rightarrow> False
      | (Inr inc, w') \<Rightarrow> w_tasks w' = [EvidenceTask 20] \<and> in_resolved_at inc = Some 50"
    by code_simp
  then obtain inc w' where run: "resolve_incident 1 50 20 None (ck_world one_up) = (Inr inc, w')"
    and w': "w_tasks w' = [EvidenceTask 20]" "in_resolved_at inc = Some 50"
    by (auto split: prod.splits sum.splits)
  have "distinct (map in_id (mo_incidents (w_m (ck_world one_up))))"
    by (simp add: one_up_def example_state_def)
  from resolve_idempotent [OF run this, of 2 99] run w' show ?thesis
    by simp
qed

end
