(* ===== verification/Policy_Properties.thy ===== *)
theory Policy_Properties
  imports Monitoring_Examples
begin

text \<open>
  The properties of the policies around monitoring: plan limits on dependencies, the bounds of an
  attribution, the outbound network policy and the deduplication of alerts.
\<close>

section \<open>Dependencies\<close>

text \<open>
  C36: Over any sequence of validated dependency requests every dependency has distinct known regions,
  at least one, and bounded timeouts, and an organization never exceeds its plan's number of
  dependencies or checks more often than the plan allows.
\<close>

theorem dependency_limits:
  assumes "dependency_step\<^sup>*\<^sup>* s s'" and "dependencies_wf s" and "within_plan s g"
  shows "dependencies_wf s' \<and> within_plan s' g"
  using assms
  by (induction rule: rtranclp_induct) (auto intro: dependency_step_wf dependency_step_within)

definition example_request :: dependency_create_request where
  "example_request = \<lparr>dcr_name = ''api'', dcr_application_id = None, dcr_endpoint_url = ''https://a.io/'', dcr_method = GET,
     dcr_headers = None, dcr_expected_status_codes = [200], dcr_timeout_seconds = 10, dcr_check_interval_seconds = 300,
     dcr_regions = [''us-east'', ''eu-west'', ''us-east''], dcr_alert_threshold_ms = None, dcr_is_active = True\<rparr>"

definition example_org_state :: monitor where
  "example_org_state = empty_monitor\<lparr>mo_db := empty_db\<lparr>db_organizations := [\<lparr>o_id = 1, o_name = ''Acme'', o_slug = ''acme'',
     o_plan = ''free'', o_has_agency_mode = False, o_created_at = 0\<rparr>]\<rparr>\<rparr>"

definition example_create :: "(dependency_response, monitor) service" where
  "example_create = create_dependency \<lparr>cy_encrypt = (\<lambda>_. []), cy_decrypt = (\<lambda>_. [])\<rparr> 5 6 0 1
     (example_request\<lparr>dcr_regions := [''us-east'', ''eu-west'']\<rparr>)"

theorem dependency_limits_witness:
  "\<exists>resp s'. example_create example_org_state = (Inr resp, s') \<and> dependencies_wf s' \<and> within_plan s' 1 \<and>
    length (mo_dependencies s') = 1"
proof -
  have "case example_create example_org_state of (Inl _, _) \<Rightarrow> False | (Inr _, s') \<Rightarrow> length (mo_dependencies s') = 1"
    by code_simp
  then obtain resp s' where c: "example_create example_org_state = (Inr resp, s')" "length (mo_dependencies s') = 1"
    by (auto split: prod.splits sum.splits)
  have "validate_create_request example_request = Some (example_request\<lparr>dcr_regions := [''us-east'', ''eu-west'']\<rparr>)"
    by code_simp
  then have "dependency_step example_org_state s'"
    using c(1) unfolding example_create_def by (rule dependency_step.create)
  moreover have "dependencies_wf example_org_state" "within_plan example_org_state 1"
    by (simp_all add: dependencies_wf_def example_org_state_def empty_monitor_def within_plan_def dep_count_for_org_def
        org_dependencies_def split: option.split)
  ultimately show ?thesis
    using dependency_limits [OF r_into_rtranclp] c by blast
qed

section \<open>Statistics\<close>

lemma map_of_map_pairs: "map_of (map (\<lambda>i. (i, f i)) is) x = (if x \<in> set is then Some (f x) else None)"
  by (induction "is") auto

text \<open>
  The bulk statistics of the dashboards, one grouped query with a default for dependencies
  without results, agree with the statistics of each dependency taken alone, and name no other.
\<close>

theorem bulk_stats_agree:
  "get_aggregated_stats_bulk now s ids window_hours =
     (\<lambda>i. if i \<in> set ids then Some (get_aggregated_stats now s i window_hours) else None)"
proof
  fix i
  let ?rs = "bulk_rows now s ids window_hours"
  have rows: "filter (\<lambda>r. cr_dependency_id r = i) ?rs =
      filter (\<lambda>r. now - hours window_hours \<le> cr_executed_at r) (check_rows s i)" if "i \<in> set ids"
    using that by (auto simp: bulk_rows_def check_rows_def intro: filter_cong)
  have "i \<notin> cr_dependency_id ` set ?rs \<Longrightarrow> filter (\<lambda>r. cr_dependency_id r = i) ?rs = []"
    by (auto simp: filter_empty_conv)
  moreover have "i \<in> cr_dependency_id ` set ?rs \<Longrightarrow> i \<in> set ids"
    by (auto simp: bulk_rows_def)
  ultimately show "get_aggregated_stats_bulk now s ids window_hours i =
      (if i \<in> set ids then Some (get_aggregated_stats now s i window_hours) else None)"
    unfolding get_aggregated_stats_bulk_def group_rows_def map_of_map_pairs get_aggregated_stats_def
    using rows by (simp split: if_split) (metis list.set_map)
qed

section \<open>Attribution\<close>

text \<open>
  While the recorded correlation confidences are not negative, the confidence of an automatic attribution is a
  percentage between 15 and 100, its class is the band of the percentage, and the class for
  trouble of Reliastra's own infrastructure is never given.
\<close>

theorem attribution_bounds:
  assumes "list_all (\<lambda>c. 0 \<le> ic_confidence c) (mo_correlations s)" and "a = compute_attribution i now s inc obs True"
  shows "15 \<le> ar_confidence_score a \<and> ar_confidence_score a \<le> 100 \<and>
    ar_classification a = (if 75 \<le> ar_confidence_score a then ''vendor_failure''
       else if 50 \<le> ar_confidence_score a then ''multi_cause'' else ''unknown'')"
proof -
  let ?c = "confidence_of (signal_scores s inc obs True)"
  let ?x = "py_round 4 (signal_temporal s inc) * 20 + py_round 4 (signal_endpoint_overlap s inc) * 25 +
       py_round 4 (signal_latency_correlation obs) * 25 + py_round 4 (signal_error_pattern obs) * 15 + 15"
  have "15 \<le> ?x"
    using py_round_unit [of "signal_temporal s inc" 4] py_round_unit [of "signal_endpoint_overlap s inc" 4]
      py_round_unit [of "signal_latency_correlation obs" 4] py_round_unit [of "signal_error_pattern obs" 4]
      signal_unit(1) [of s inc] signal_unit(2) [of obs] signal_unit(3) [of obs] overlap_unit [OF assms(1), of inc]
    by simp
  then have "15 \<le> ?c"
    using py_round_mono [of 15 ?x 2] py_round_nat [of 2 15] by (simp add: confidence_sum)
  moreover have "?c \<le> 100"
    using confidence_bounds [OF assms(1)] by blast
  ultimately show ?thesis
    by (simp add: assms(2) compute_attribution_def Let_def classification_of_def)
qed

theorem attribution_bounds_witness:
  "ar_classification (compute_attribution 1 2 empty_monitor example_incident [] True) = ''unknown'' \<and>
   15 \<le> ar_confidence_score (compute_attribution 1 2 empty_monitor example_incident [] True)"
proof -
  have c: "ar_confidence_score (compute_attribution 1 2 empty_monitor example_incident [] True) < 50"
    by code_simp
  have "list_all (\<lambda>c. 0 \<le> ic_confidence c) (mo_correlations empty_monitor)"
    by (simp add: empty_monitor_def)
  from attribution_bounds [OF this refl, of 1 2 example_incident "[]"] c show ?thesis
    by simp
qed

section \<open>The outbound network\<close>

text \<open>
  C39: The redirect loop of a probe terminates after at most six requests, whatever the servers and the name
  service answer, and every connection goes to a literal address that passed the policy when it was
  resolved: a name cannot be re-bound between the check and the connection.
\<close>

theorem probe_terminates:
  assumes "resolve_pinned_target (ne_dns (pe_notify env)) k0 url = (Inr target, k)"
    and "conns = pt_connections (follow env req target k n MAX_REDIRECTS)"
  shows "length conns \<le> 6 \<and> list_all (\<lambda>(t, _). is_public_ip (tr_ip t) = Some True) conns"
proof -
  have "admissible (pinned_transport_for target)"
    by (rule pinned_admissible [OF assms(1)])
  from follow_connections [OF this, of env req k n MAX_REDIRECTS] show ?thesis
    by (auto simp: assms(2) MAX_REDIRECTS_def admissible_def list_all_iff)
qed

text \<open>A server that redirects to itself for ever.\<close>

definition looping_env :: probe_env where
  "looping_env = (example_env 302 [''8.8.8.8''])\<lparr>pe_request := (\<lambda>_ _ _. Inr \<lparr>rs_status = 302, rs_location = Some ''/''\<rparr>)\<rparr>"

theorem probe_terminates_witness:
  "\<exists>t. resolve_pinned_target (\<lambda>_ _. [''8.8.8.8'']) 0 ''https://a.io/'' = (Inr t, 2) \<and>
    length (pt_connections (follow looping_env (check_request (example_dependency [])) t 2 0 MAX_REDIRECTS)) \<le> 6"
proof -
  obtain t where t: "resolve_pinned_target (\<lambda>_ _. [''8.8.8.8'']) 0 ''https://a.io/'' = (Inr t, 2)"
    using example_target by blast
  then have "resolve_pinned_target (ne_dns (pe_notify looping_env)) 0 ''https://a.io/'' = (Inr t, 2)"
    by (simp add: looping_env_def example_env_def)
  from probe_terminates [OF this refl] t show ?thesis
    by blast
qed

lemma div_range: "0 < d \<Longrightarrow> (n::nat) div d = q \<longleftrightarrow> q * d \<le> n \<and> n < (q + 1) * d"
  by (metis div_less_iff_less_mult less_eq_div_iff_mult_less_eq Suc_eq_plus1 le_antisym less_Suc_eq_le order_refl)

lemma drop_bit_word_eq: "drop_bit k a = b \<longleftrightarrow> unat a div 2 ^ k = unat b" for a b :: "'w::len word"
  by (metis unat_drop_bit_eq drop_bit_eq_div word_unat_eq_iff)

lemma drop_bit_range: "drop_bit k a = b \<longleftrightarrow> unat b * 2 ^ k \<le> unat a \<and> unat a < (unat b + 1) * 2 ^ k" for a b :: "'w::len word"
  unfolding drop_bit_word_eq by (rule div_range) simp

text \<open>
  C40: The blocked IPv4 addresses are exactly the five listed ranges, as intervals of the address number: this host's own
  block 0/8, the carrier block 100.64/10 and multicast are not among them, and no IPv4 address written as an
  IPv6 one is blocked, so the metadata address passes as \<^verbatim>\<open>::ffff:169.254.169.254\<close>.
\<close>

theorem blocked_addresses:
  "(blocked (IPv4 a) \<longleftrightarrow>
     0x0A000000 \<le> unat a \<and> unat a < 0x0B000000 \<or> 0x7F000000 \<le> unat a \<and> unat a < 0x80000000 \<or>
     0xA9FE0000 \<le> unat a \<and> unat a < 0xA9FF0000 \<or> 0xAC100000 \<le> unat a \<and> unat a < 0xAC200000 \<or>
     0xC0A80000 \<le> unat a \<and> unat a < 0xC0A90000) \<and>
   \<not> (0xFFFF00000000 \<le> unat m \<and> unat m < 0x1000000000000 \<and> blocked (IPv6 m)) \<and>
   is_public_ip ''::ffff:169.254.169.254'' = Some True \<and> is_public_ip ''0.0.0.0'' = Some True"
proof (intro conjI)
  show "blocked (IPv4 a) \<longleftrightarrow>
     0x0A000000 \<le> unat a \<and> unat a < 0x0B000000 \<or> 0x7F000000 \<le> unat a \<and> unat a < 0x80000000 \<or>
     0xA9FE0000 \<le> unat a \<and> unat a < 0xA9FF0000 \<or> 0xAC100000 \<le> unat a \<and> unat a < 0xAC200000 \<or>
     0xC0A80000 \<le> unat a \<and> unat a < 0xC0A90000"
    by (simp add: blocked_def blocked_networks_def drop_bit_range) linarith
  show "\<not> (0xFFFF00000000 \<le> unat m \<and> unat m < 0x1000000000000 \<and> blocked (IPv6 m))"
    by (auto simp: blocked_def blocked_networks_def drop_bit_range)
  show "is_public_ip ''::ffff:169.254.169.254'' = Some True"
    by code_simp
  show "is_public_ip ''0.0.0.0'' = Some True"
    by code_simp
qed

section \<open>Alerts\<close>

text \<open>
  An alert that was sent to any channel is not sent again within a minute, whatever the channel
  configurations become; and with Redis unreachable no alert is sent at all.
\<close>

theorem alert_at_most_once:
  assumes "dispatch_alert env now m a s = (n, s')"
  shows "(ns_sent s' \<noteq> ns_sent s \<and> t < now + seconds 60 \<longrightarrow> dispatch_alert env t m' a s' = (0, s')) \<and>
    (\<not> r_up (ns_redis s) \<longrightarrow> n = 0 \<and> s' = s)"
proof (intro conjI impI)
  let ?k = "''alert:dedup:'' @ alert_fingerprint env a"
  assume sent: "ns_sent s' \<noteq> ns_sent s \<and> t < now + seconds 60"
  have claimed: "fst (redis_claim 60 ''1'' now ?k (ns_redis s))"
  proof (rule ccontr)
    assume "\<not> fst (redis_claim 60 ''1'' now ?k (ns_redis s))"
    then have "ns_sent s' = ns_sent s"
      using assms by (auto simp: dispatch_alert_def is_duplicate_alert_def split: prod.splits)
    with sent show False
      by simp
  qed
  have "ns_redis s' = snd (redis_claim 60 ''1'' now ?k (ns_redis s))"
    using dispatch_redis [of env now m a s] assms by (simp add: is_duplicate_alert_def case_prod_beta)
  then have "redis_claim 60 ''1'' t ?k (ns_redis s') = (False, ns_redis s')"
    using redis_lease.claim_once [OF claimed] sent by simp
  then show "dispatch_alert env t m' a s' = (0, s')"
    by (simp add: dispatch_alert_def is_duplicate_alert_def)
next
  assume "\<not> r_up (ns_redis s)"
  then have "(n, s') = (0, s)"
    using assms by (simp add: dispatch_alert_def is_duplicate_alert_def claim_down)
  then show "n = 0" "s' = s"
    by simp_all
qed

definition example_alert :: alert_payload where
  "example_alert = \<lparr>al_org = 1, al_incident_id = None, al_severity = ''major'', al_title = ''Down'', al_body = ''x'', al_metadata = []\<rparr>"

definition example_channels :: monitor where
  "example_channels = empty_monitor\<lparr>mo_alerts := [\<lparr>ac_id = 3, ac_org_id = 1, ac_channel_type = ''email'',
     ac_config = [(''email'', JStr ''ops@a.io'')], ac_is_active = True, ac_created_at = 0\<rparr>]\<rparr>"

theorem alert_at_most_once_witness:
  "\<exists>s'. dispatch_alert (pe_notify (example_env 200 [])) 0 example_channels example_alert (w_notify (ck_world one_up)) = (1, s') \<and>
    dispatch_alert (pe_notify (example_env 200 [])) (seconds 59) example_channels example_alert s' = (0, s')"
proof -
  have "case dispatch_alert (pe_notify (example_env 200 [])) 0 example_channels example_alert (w_notify (ck_world one_up)) of
      (n, s') \<Rightarrow> n = 1 \<and> length (ns_sent s') = 1"
    by code_simp
  then obtain s' where d: "dispatch_alert (pe_notify (example_env 200 [])) 0 example_channels example_alert (w_notify (ck_world one_up)) = (1, s')"
    and s': "length (ns_sent s') = 1"
    by (auto split: prod.splits)
  have "ns_sent (w_notify (ck_world one_up)) = []"
    by (simp add: one_up_def example_state_def)
  with alert_at_most_once [OF d, of "seconds 59" example_channels] s' d show ?thesis
    by (force simp: seconds_def)
qed

end
