(* ===== verification/Sessions.thy ===== *)
theory Sessions
  imports Partner_Service Py_Values
begin

text \<open>
  \<^verbatim>\<open>core/security.py\<close>, the tables and repository of \<^verbatim>\<open>modules/auth\<close> and its session service:
  registration, login, the rotation of refresh tokens and logout.  The hash functions, bcrypt and
  the JWT library are the fields of \<^verbatim>\<open>security\<close>; salts, token identifiers and random tokens are
  arguments.
\<close>

section \<open>Sequencing\<close>

text \<open>A statement that may raise, followed by the rest of the handler.\<close>

definition and_then :: "('a, 's) service \<Rightarrow> ('a \<Rightarrow> ('b, 's) service) \<Rightarrow> ('b, 's) service" where
  "and_then f g s = (case f s of (Inl e, s1) \<Rightarrow> (Inl e, s1) | (Inr v, s1) \<Rightarrow> g v s1)"

lemma and_then_Inr: "f s = (Inr v, s1) \<Longrightarrow> and_then f g s = g v s1"
  by (simp add: and_then_def)

lemma and_then_Inl: "f s = (Inl e, s1) \<Longrightarrow> and_then f g s = (Inl e, s1)"
  by (simp add: and_then_def)

lemma and_then_E:
  assumes "and_then f g s = (Inr v, s')"
  obtains w s1 where "f s = (Inr w, s1)" and "g w s1 = (Inr v, s')"
  using assms by (auto simp: and_then_def split: prod.splits sum.splits)

text \<open>A computation that does not touch the session.\<close>

definition pure_step :: "app_error + 'a \<Rightarrow> ('a, 's) service" where
  "pure_step r s = (r, s)"

lemma pure_step_Inr [simp]: "pure_step r s = (Inr v, s') \<longleftrightarrow> r = Inr v \<and> s' = s"
  by (auto simp: pure_step_def)

section \<open>Security primitives\<close>

datatype jwt_outcome = JwtClaims "(string \<times> json) list" | JwtExpired | JwtInvalid

record security =
  sec_sha256 :: "string \<Rightarrow> string"
  sec_hashpw :: "string \<Rightarrow> string \<Rightarrow> string option"
  sec_checkpw :: "string \<Rightarrow> string \<Rightarrow> bool option"
  sec_jwt_encode :: "(string \<times> json) list \<Rightarrow> string"
  sec_jwt_decode :: "time \<Rightarrow> string \<Rightarrow> jwt_outcome"
  sec_access_minutes :: int
  sec_refresh_days :: int

definition get_password_hash :: "security \<Rightarrow> string \<Rightarrow> string \<Rightarrow> app_error + string" where
  "get_password_hash sec salt password = (case sec_hashpw sec password salt of
     None \<Rightarrow> Inl (ValueError ''password'') | Some h \<Rightarrow> Inr h)"

definition verify_password :: "security \<Rightarrow> string \<Rightarrow> string \<Rightarrow> bool" where
  "verify_password sec plain hashed = (case sec_checkpw sec plain hashed of None \<Rightarrow> False | Some b \<Rightarrow> b)"

text \<open>\<^verbatim>\<open>dict.update\<close> with one item.\<close>

definition dict_set :: "string \<times> json \<Rightarrow> (string \<times> json) list \<Rightarrow> (string \<times> json) list" where
  "dict_set kv d = (if fst kv \<in> fst ` set d then map (\<lambda>(k, v). if k = fst kv then kv else (k, v)) d else d @ [kv])"

text \<open>JWT dates are whole seconds.\<close>

definition base_token_payload :: "time \<Rightarrow> string \<Rightarrow> string \<Rightarrow> time \<Rightarrow> string \<Rightarrow> (string \<times> json) list" where
  "base_token_payload now jti subject expire token_type =
     [(''sub'', JStr subject), (''iat'', JInt (now div 1000000)), (''nbf'', JInt (now div 1000000)),
      (''exp'', JInt (expire div 1000000)), (''type'', JStr token_type), (''jti'', JStr jti)]"

definition create_access_token :: "security \<Rightarrow> time \<Rightarrow> string \<Rightarrow> string \<Rightarrow> (string \<times> json) list \<Rightarrow> string" where
  "create_access_token sec now jti subject additional_claims =
     sec_jwt_encode sec (fold dict_set additional_claims
       (base_token_payload now jti subject (now + minutes (sec_access_minutes sec)) ''access''))"

definition create_refresh_token :: "security \<Rightarrow> time \<Rightarrow> string \<Rightarrow> string \<Rightarrow> (string \<times> json) list \<Rightarrow> string" where
  "create_refresh_token sec now jti subject additional_claims =
     sec_jwt_encode sec (fold dict_set additional_claims
       (base_token_payload now jti subject (now + days (sec_refresh_days sec)) ''refresh''))"

definition decode_token :: "security \<Rightarrow> time \<Rightarrow> string \<Rightarrow> app_error + (string \<times> json) list" where
  "decode_token sec now token = (case sec_jwt_decode sec now token of
     JwtClaims d \<Rightarrow> Inr d
   | JwtExpired \<Rightarrow> Inl (UnauthorizedException ''Token has expired'')
   | JwtInvalid \<Rightarrow> Inl (UnauthorizedException ''Invalid token''))"

text \<open>API keys: 20 random bytes in hexadecimal, the prefix stored in clear.\<close>

definition hash_api_key :: "security \<Rightarrow> string \<Rightarrow> string \<Rightarrow> app_error + string" where
  "hash_api_key sec salt key = (case sec_hashpw sec key salt of
     None \<Rightarrow> Inl (ValueError ''key'') | Some h \<Rightarrow> Inr h)"

definition generate_api_key :: "security \<Rightarrow> string \<Rightarrow> nat \<Rightarrow> app_error + string \<times> string \<times> string" where
  "generate_api_key sec salt rnd =
     (let full_key = ''rel_'' @ hex_digits 40 rnd; prefix = take 8 full_key
      in case hash_api_key sec salt full_key of Inl e \<Rightarrow> Inl e | Inr h \<Rightarrow> Inr (full_key, prefix, h))"

definition verify_api_key :: "security \<Rightarrow> string \<Rightarrow> string \<Rightarrow> bool" where
  "verify_api_key sec raw_key stored_hash =
     (if list_ex (starts_with stored_hash) [''$2a$'', ''$2b$'', ''$2y$'']
      then (case sec_checkpw sec raw_key stored_hash of None \<Rightarrow> False | Some b \<Rightarrow> b)
      else sec_sha256 sec raw_key = stored_hash)"

section \<open>Tables\<close>

record refresh_token =
  rt_id :: uuid
  rt_user_id :: uuid
  rt_token_hash :: string
  rt_token_family :: uuid
  rt_token_sequence :: int
  rt_is_revoked :: bool
  rt_expires_at :: time
  rt_created_at :: time

text \<open>Email verification and password reset tokens have the same columns, in two tables.\<close>

record one_time_token =
  ot_id :: uuid
  ot_user_id :: uuid
  ot_token_hash :: string
  ot_is_used :: bool
  ot_expires_at :: time
  ot_created_at :: time

record api_key =
  ak_id :: uuid
  ak_org_id :: uuid
  ak_name :: string
  ak_prefix :: string
  ak_hashed_key :: string
  ak_scopes :: "string list"
  ak_last_used_at :: "time option"
  ak_expires_at :: "time option"
  ak_created_at :: time
  ak_is_deleted :: bool
  ak_deleted_at :: "time option"

record auth =
  au_db :: db
  au_refresh :: "refresh_token list"
  au_email_tokens :: "one_time_token list"
  au_reset_tokens :: "one_time_token list"
  au_api_keys :: "api_key list"

definition on_db :: "('a, db) service \<Rightarrow> ('a, auth) service" where
  "on_db f s = (case f (au_db s) of (r, d) \<Rightarrow> (r, s\<lparr>au_db := d\<rparr>))"

section \<open>Refresh tokens\<close>

definition hash_token :: "security \<Rightarrow> string \<Rightarrow> string" where
  "hash_token sec token = sec_sha256 sec token"

definition refresh_by_hash :: "auth \<Rightarrow> string \<Rightarrow> refresh_token option" where
  "refresh_by_hash s h = get_row rt_token_hash h (au_refresh s)"

definition get_refresh_token :: "security \<Rightarrow> auth \<Rightarrow> string \<Rightarrow> refresh_token option" where
  "get_refresh_token sec s token_str = refresh_by_hash s (hash_token sec token_str)"

definition save_refresh :: "refresh_token \<Rightarrow> auth \<Rightarrow> auth" where
  "save_refresh r s = s\<lparr>au_refresh := save_row rt_id r (au_refresh s)\<rparr>"

definition add_refresh :: "refresh_token \<Rightarrow> auth \<Rightarrow> auth" where
  "add_refresh r s = s\<lparr>au_refresh := au_refresh s @ [r]\<rparr>"

definition refresh_row :: "auth \<Rightarrow> uuid \<Rightarrow> refresh_token option" where
  "refresh_row s i = get_row rt_id i (au_refresh s)"

interpretation refresh_repo: row_repo rt_id au_refresh refresh_row save_refresh add_refresh
  by unfold_locales
    (auto simp: refresh_row_def save_refresh_def add_refresh_def get_row_None dest: get_row_Some)

text \<open>The identifier and a family for a token without one are drawn afresh; the flush fails on a
  taken hash and on an unknown user.\<close>

definition store_refresh_token ::
  "security \<Rightarrow> uuid \<Rightarrow> uuid \<Rightarrow> time \<Rightarrow> uuid \<Rightarrow> string \<Rightarrow> time \<Rightarrow> uuid option \<Rightarrow> int \<Rightarrow> (refresh_token, auth) service" where
  "store_refresh_token sec i fresh_family now user_id token_str expires_at token_family token_sequence s =
     (let r = \<lparr>rt_id = i, rt_user_id = user_id, rt_token_hash = hash_token sec token_str,
               rt_token_family = (case token_family of Some f \<Rightarrow> f | None \<Rightarrow> fresh_family),
               rt_token_sequence = token_sequence, rt_is_revoked = False,
               rt_expires_at = expires_at, rt_created_at = now\<rparr>
      in if i \<in> rt_id ` set (au_refresh s) \<or> rt_token_hash r \<in> rt_token_hash ` set (au_refresh s) \<or>
            user_id \<notin> u_id ` set (db_users (au_db s))
         then (Inl (IntegrityError ''refresh_tokens''), s) else (Inr r, add_refresh r s))"

definition get_latest_sequence :: "auth \<Rightarrow> uuid \<Rightarrow> int" where
  "get_latest_sequence s family =
     (case map rt_token_sequence (filter (\<lambda>r. rt_token_family r = family) (au_refresh s)) of
        [] \<Rightarrow> 0 | x # xs \<Rightarrow> fold max xs x)"

definition revoke_family :: "uuid \<Rightarrow> auth \<Rightarrow> auth" where
  "revoke_family family s = fold (\<lambda>r. save_refresh (r\<lparr>rt_is_revoked := True\<rparr>))
     (filter (\<lambda>r. rt_token_family r = family) (au_refresh s)) s"

definition revoke_refresh_token :: "security \<Rightarrow> string \<Rightarrow> auth \<Rightarrow> bool \<times> auth" where
  "revoke_refresh_token sec token_str s = (case get_refresh_token sec s token_str of
     None \<Rightarrow> (False, s)
   | Some r \<Rightarrow> (True, save_refresh (r\<lparr>rt_is_revoked := True\<rparr>) s))"

section \<open>The session service\<close>

record token_response =
  tr_access_token :: string
  tr_refresh_token :: string
  tr_token_type :: string
  tr_expires_in :: int

text \<open>\<^verbatim>\<open>jtis\<close>: the identifiers of the access and the refresh token.\<close>

definition generate_token_pair :: "security \<Rightarrow> time \<Rightarrow> string \<times> string \<Rightarrow> uuid \<Rightarrow> token_response" where
  "generate_token_pair sec now jtis user_id =
     \<lparr>tr_access_token = create_access_token sec now (fst jtis) (uuid_str user_id) [],
      tr_refresh_token = create_refresh_token sec now (snd jtis) (uuid_str user_id) [],
      tr_token_type = ''bearer'', tr_expires_in = sec_access_minutes sec * 60\<rparr>"

text \<open>The pair is generated and its refresh token stored as the first of a new family.\<close>

definition open_session ::
  "security \<Rightarrow> time \<Rightarrow> string \<times> string \<Rightarrow> uuid \<Rightarrow> uuid \<Rightarrow> uuid \<Rightarrow> (token_response, auth) service" where
  "open_session sec now jtis tid family user_id =
     (let tokens = generate_token_pair sec now jtis user_id in
      and_then (store_refresh_token sec tid family now user_id (tr_refresh_token tokens)
          (now + days (sec_refresh_days sec)) None 1)
        (\<lambda>_. pure_step (Inr tokens)))"

definition login ::
  "security \<Rightarrow> time \<Rightarrow> string \<times> string \<Rightarrow> uuid \<Rightarrow> uuid \<Rightarrow> string \<Rightarrow> string \<Rightarrow> (token_response, auth) service" where
  "login sec now jtis tid family email password s =
     (case user_get_by_email (au_db s) email of
        None \<Rightarrow> (Inl (UnauthorizedException ''Invalid email or password''), s)
      | Some user \<Rightarrow>
          if \<not> verify_password sec password (u_password_hash user)
          then (Inl (UnauthorizedException ''Invalid email or password''), s)
          else if \<not> u_is_active user
          then (Inl (UnauthorizedException ''User account is disabled''), s)
          else open_session sec now jtis tid family (u_id user) s)"

text \<open>
  The checks of \<^verbatim>\<open>refresh\<close> up to the reuse detection: the stored token and its user, or the
  exception.
\<close>

definition refresh_checks :: "security \<Rightarrow> time \<Rightarrow> string \<Rightarrow> auth \<Rightarrow> app_error + refresh_token \<times> user" where
  "refresh_checks sec now token_str s = (case decode_token sec now token_str of
     Inl e \<Rightarrow> Inl e
   | Inr payload \<Rightarrow>
       if dget payload ''type'' \<noteq> JStr ''refresh'' then Inl (UnauthorizedException ''Invalid token type'')
       else (case get_refresh_token sec s token_str of
          None \<Rightarrow> Inl (UnauthorizedException ''Refresh token not found or invalid'')
        | Some stored \<Rightarrow>
            if rt_is_revoked stored then Inl (UnauthorizedException ''Refresh token has been revoked'')
            else if \<not> truthy (dget payload ''sub'') then Inl (UnauthorizedException ''Invalid token payload'')
            else (case parse_uuid (py_str (dget payload ''sub'')) of
               None \<Rightarrow> Inl (ValueError ''badly formed hexadecimal UUID string'')
             | Some user_id \<Rightarrow>
                 (case user_get_by_id (au_db s) user_id of
                    None \<Rightarrow> Inl (UnauthorizedException ''User account not found or disabled'')
                  | Some user \<Rightarrow>
                      if \<not> u_is_active user
                      then Inl (UnauthorizedException ''User account not found or disabled'')
                      else Inr (stored, user)))))"

text \<open>The writes: the next token of the family, and the revocation of the presented one.\<close>

definition rotate_session ::
  "security \<Rightarrow> time \<Rightarrow> string \<times> string \<Rightarrow> uuid \<Rightarrow> uuid \<Rightarrow> string \<Rightarrow> refresh_token \<Rightarrow> user \<Rightarrow> (token_response, auth) service" where
  "rotate_session sec now jtis tid fresh_family token_str stored user =
     (let tokens = generate_token_pair sec now jtis (u_id user) in
      and_then (store_refresh_token sec tid fresh_family now (u_id user) (tr_refresh_token tokens)
          (now + days (sec_refresh_days sec)) (Some (rt_token_family stored)) (rt_token_sequence stored + 1))
        (\<lambda>_ s1. (Inr tokens, snd (revoke_refresh_token sec token_str s1))))"

definition refresh ::
  "security \<Rightarrow> time \<Rightarrow> string \<times> string \<Rightarrow> uuid \<Rightarrow> uuid \<Rightarrow> string \<Rightarrow> (token_response, auth) service" where
  "refresh sec now jtis tid fresh_family token_str s = (case refresh_checks sec now token_str s of
     Inl e \<Rightarrow> (Inl e, s)
   | Inr (stored, user) \<Rightarrow>
       if get_latest_sequence s (rt_token_family stored) > rt_token_sequence stored
       then (Inl (UnauthorizedException ''Refresh token reuse detected; session has been revoked''),
             revoke_family (rt_token_family stored) s)
       else rotate_session sec now jtis tid fresh_family token_str stored user s)"

definition logout :: "security \<Rightarrow> string \<Rightarrow> (unit, auth) service" where
  "logout sec token_str s = (Inr (), snd (revoke_refresh_token sec token_str s))"

end
