(* ===== verification/Registration.thy ===== *)
theory Registration
  imports Sessions
begin

text \<open>
  \<^verbatim>\<open>AuthService.register\<close>: the account, its organization with a free slug, the default application
  and the first session, with the partner referral bound on the way.
\<close>

section \<open>A free slug\<close>

lemma show_nat_digits:
  "show_nat n \<noteq> [] \<and> (\<forall>c \<in> set (show_nat n). digit_val c \<noteq> None) \<and> parse_digits 0 (show_nat n) = Some n"
proof (induction n rule: show_nat.induct)
  case (1 n)
  have d: "digit_val (digit_char k) = Some k" if "k < 10" for k
    using that by (simp add: digit_val_def digit_char_def Let_def of_char_small)
  have app: "parse_digits acc (xs @ ys) = (case parse_digits acc xs of None \<Rightarrow> None | Some a \<Rightarrow> parse_digits a ys)" for acc xs ys
    by (induction acc xs rule: parse_digits.induct) (auto split: option.splits)
  show ?case
  proof (cases "n < 10")
    case True
    then show ?thesis
      by (subst (1 2 3) show_nat.simps) (simp add: d)
  next
    case False
    then have "parse_digits 0 (show_nat (n div 10)) = Some (n div 10)" "show_nat (n div 10) \<noteq> []"
      "\<forall>c \<in> set (show_nat (n div 10)). digit_val c \<noteq> None"
      using 1 by auto
    with False show ?thesis
      by (subst (1 2 3) show_nat.simps) (simp add: d app)
  qed
qed

lemma show_nat_inj: "show_nat a = show_nat b \<longleftrightarrow> a = b"
  by (metis option.inject show_nat_digits)

lemma lower_digits: "\<forall>c \<in> set s. digit_val c \<noteq> None \<Longrightarrow> lower s = s"
  by (induction s) (auto simp: lower_def lower_char_def digit_val_def Let_def split: if_splits)

lemma lower_append: "lower (a @ b) = lower a @ lower b"
  by (simp add: lower_def)

lemma lower_Cons: "lower (c # s) = lower_char c # lower s"
  by (simp add: lower_def)

lemma lower_show_nat [simp]: "lower (show_nat n) = show_nat n"
  using show_nat_digits by (simp add: lower_digits)

definition slug_taken :: "db \<Rightarrow> string \<Rightarrow> nat \<Rightarrow> bool" where
  "slug_taken s base n = (org_get_by_slug s (base @ ''-'' @ show_nat n) \<noteq> None)"

lemma finite_slug_taken: "finite {n. slug_taken s base n}"
proof (rule inj_on_finite)
  show "inj_on (\<lambda>n. lower (base @ ''-'' @ show_nat n)) {n. slug_taken s base n}"
    by (auto simp: inj_on_def lower_append lower_Cons show_nat_inj)
  show "(\<lambda>n. lower (base @ ''-'' @ show_nat n)) ` {n. slug_taken s base n} \<subseteq> o_slug ` set (db_organizations s)"
    by (auto simp: slug_taken_def org_get_by_slug_def dest!: get_row_Some intro: rev_image_eqI)
qed simp

text \<open>The \<^verbatim>\<open>while existing_slug\<close> loop: the taken suffixes from the counter on become fewer.\<close>

function next_slug :: "db \<Rightarrow> string \<Rightarrow> nat \<Rightarrow> string" where
  "next_slug s base suffix =
     (if org_get_by_slug s (base @ ''-'' @ show_nat suffix) = None then base @ ''-'' @ show_nat suffix
      else next_slug s base (suffix + 1))"
  by pat_completeness auto
termination
proof (relation "measure (\<lambda>(s, base, n). card {k. n \<le> k \<and> slug_taken s base k})")
  fix s base n
  assume taken: "org_get_by_slug s (base @ ''-'' @ show_nat n) \<noteq> None"
  have "{k. n + 1 \<le> k \<and> slug_taken s base k} \<subset> {k. n \<le> k \<and> slug_taken s base k}"
  proof
    show "{k. n + 1 \<le> k \<and> slug_taken s base k} \<subseteq> {k. n \<le> k \<and> slug_taken s base k}"
      by auto
    have "n \<in> {k. n \<le> k \<and> slug_taken s base k}" and "n \<notin> {k. n + 1 \<le> k \<and> slug_taken s base k}"
      using taken by (simp_all add: slug_taken_def)
    then show "{k. n + 1 \<le> k \<and> slug_taken s base k} \<noteq> {k. n \<le> k \<and> slug_taken s base k}"
      by blast
  qed
  then have "card {k. n + 1 \<le> k \<and> slug_taken s base k} < card {k. n \<le> k \<and> slug_taken s base k}"
    by (rule psubset_card_mono [rotated]) (rule finite_subset [OF _ finite_slug_taken [of s base]], auto)
  then show "((s, base, n + 1), (s, base, n)) \<in> measure (\<lambda>(s, base, n). card {k. n \<le> k \<and> slug_taken s base k})"
    by simp
qed simp

declare next_slug.simps [simp del]

definition register_slug :: "db \<Rightarrow> uuid \<Rightarrow> string" where
  "register_slug s user_id =
     (let slug = ''org-'' @ take 8 (hex_digits 32 user_id)
      in if org_get_by_slug s slug = None then slug else next_slug s slug 2)"

lemma next_slug_free: "org_get_by_slug s (next_slug s base n) = None"
  by (induction s base n rule: next_slug.induct) (subst next_slug.simps, simp)

lemma register_slug_free: "org_get_by_slug s (register_slug s u) = None"
  by (simp add: register_slug_def next_slug_free Let_def)

section \<open>Registration\<close>

record register_request =
  rq_email :: string
  rq_password :: string
  rq_full_name :: string
  rq_org_name :: "string option"
  rq_ref_code :: "string option"

record register_response =
  rg_user :: user
  rg_organization :: organization
  rg_tokens :: token_response

text \<open>The identifiers a registration draws.\<close>

record register_ids =
  ri_user :: uuid
  ri_org :: uuid
  ri_member :: uuid
  ri_application :: uuid
  ri_referral :: uuid
  ri_token :: uuid
  ri_family :: uuid
  ri_salt :: string
  ri_jtis :: "string \<times> string"

text \<open>
  Binding the referral cannot raise into the registration, except that a failed flush leaves the
  session unusable: the next flush raises.
\<close>

definition bind_quietly :: "time \<Rightarrow> uuid \<Rightarrow> string option \<Rightarrow> uuid \<Rightarrow> uuid \<Rightarrow> (unit, db) service" where
  "bind_quietly now rid ref_code user_id org_id s =
     (if \<not> str_truthy ref_code then (Inr (), s)
      else case bind_referral now rid (the ref_code) user_id (Some org_id) s of
        (Inr _, s1) \<Rightarrow> (Inr (), s1)
      | (Inl (IntegrityError m), s1) \<Rightarrow> (Inl (IntegrityError m), s1)
      | (Inl _, s1) \<Rightarrow> (Inr (), s1))"

definition register_account ::
  "security \<Rightarrow> time \<Rightarrow> register_ids \<Rightarrow> register_request \<Rightarrow> (user \<times> organization, db) service" where
  "register_account sec now ids rq =
     and_then (pure_step (get_password_hash sec (ri_salt ids) (rq_password rq))) (\<lambda>password_hash.
     and_then (user_create (ri_user ids) now (rq_email rq) password_hash (rq_full_name rq) False False
        None None None None None True) (\<lambda>user s.
     and_then (org_create (ri_org ids) now
        (if str_truthy (rq_org_name rq) then the (rq_org_name rq) else rq_full_name rq @ CHR 0x27 # ''s Organization'')
        (register_slug s (u_id user)) ''free'') (\<lambda>org.
     and_then (add_member (ri_member ids) now (o_id org) (u_id user) ''owner'') (\<lambda>_.
     and_then (\<lambda>s. (Inr (), snd (create_application (ri_application ids) now (o_id org) ''Default'' None
        (Some ''Default application'') s))) (\<lambda>_.
     and_then (bind_quietly now (ri_referral ids) (rq_ref_code rq) (u_id user) (o_id org)) (\<lambda>_.
     pure_step (Inr (user, org))))))
     s))"

definition register ::
  "security \<Rightarrow> time \<Rightarrow> register_ids \<Rightarrow> register_request \<Rightarrow> (register_response, auth) service" where
  "register sec now ids rq s =
     (case user_get_by_email (au_db s) (rq_email rq) of
        Some _ \<Rightarrow> (Inl (ConflictException ''Email is already registered''), s)
      | None \<Rightarrow>
          and_then (on_db (register_account sec now ids rq)) (\<lambda>(user, org).
          and_then (open_session sec now (ri_jtis ids) (ri_token ids) (ri_family ids) (u_id user)) (\<lambda>tokens.
          pure_step (Inr \<lparr>rg_user = user, rg_organization = org, rg_tokens = tokens\<rparr>))) s)"

end
