(* ===== verification/Email_Auth.thy ===== *)
theory Email_Auth
  imports Sessions
begin

text \<open>
  The one-time tokens of \<^verbatim>\<open>modules/auth/repository.py\<close> and \<^verbatim>\<open>modules/auth/email_service.py\<close>: email
  verification and password reset.  The mails an operation sends are returned beside its response,
  with their plain text; delivery failures are swallowed by the client.
\<close>

section \<open>One-time tokens\<close>

text \<open>The operations are the same on both tables.\<close>

definition token_by_hash :: "string \<Rightarrow> one_time_token list \<Rightarrow> one_time_token option" where
  "token_by_hash h ts = get_row ot_token_hash h ts"

definition store_token ::
  "uuid \<Rightarrow> time \<Rightarrow> uuid \<Rightarrow> string \<Rightarrow> time \<Rightarrow> one_time_token list \<Rightarrow> one_time_token list option" where
  "store_token i now user_id h expires_at ts =
     (if i \<in> ot_id ` set ts \<or> h \<in> ot_token_hash ` set ts then None
      else Some (ts @ [\<lparr>ot_id = i, ot_user_id = user_id, ot_token_hash = h, ot_is_used = False,
             ot_expires_at = expires_at, ot_created_at = now\<rparr>]))"

definition use_token :: "one_time_token \<Rightarrow> one_time_token list \<Rightarrow> one_time_token list" where
  "use_token r ts = save_row ot_id (r\<lparr>ot_is_used := True\<rparr>) ts"

definition use_all :: "uuid \<Rightarrow> one_time_token list \<Rightarrow> one_time_token list" where
  "use_all user_id ts = fold use_token (filter (\<lambda>r. ot_user_id r = user_id \<and> \<not> ot_is_used r) ts) ts"

definition get_email_verification_token :: "security \<Rightarrow> auth \<Rightarrow> string \<Rightarrow> one_time_token option" where
  "get_email_verification_token sec s token_str = token_by_hash (hash_token sec token_str) (au_email_tokens s)"

definition create_email_verification_token ::
  "security \<Rightarrow> uuid \<Rightarrow> time \<Rightarrow> uuid \<Rightarrow> string \<Rightarrow> time \<Rightarrow> (unit, auth) service" where
  "create_email_verification_token sec i now user_id token_str expires_at s =
     (case store_token i now user_id (hash_token sec token_str) expires_at (au_email_tokens s) of
        None \<Rightarrow> (Inl (IntegrityError ''email_verification_tokens''), s)
      | Some ts \<Rightarrow> (Inr (), s\<lparr>au_email_tokens := ts\<rparr>))"

definition mark_email_verification_used :: "security \<Rightarrow> string \<Rightarrow> auth \<Rightarrow> bool \<times> auth" where
  "mark_email_verification_used sec token_str s = (case get_email_verification_token sec s token_str of
     None \<Rightarrow> (False, s)
   | Some r \<Rightarrow> (True, s\<lparr>au_email_tokens := use_token r (au_email_tokens s)\<rparr>))"

definition revoke_all_email_verification_tokens :: "uuid \<Rightarrow> auth \<Rightarrow> auth" where
  "revoke_all_email_verification_tokens user_id s = s\<lparr>au_email_tokens := use_all user_id (au_email_tokens s)\<rparr>"

definition get_password_reset_token :: "security \<Rightarrow> auth \<Rightarrow> string \<Rightarrow> one_time_token option" where
  "get_password_reset_token sec s token_str = token_by_hash (hash_token sec token_str) (au_reset_tokens s)"

definition create_password_reset_token ::
  "security \<Rightarrow> uuid \<Rightarrow> time \<Rightarrow> uuid \<Rightarrow> string \<Rightarrow> time \<Rightarrow> (unit, auth) service" where
  "create_password_reset_token sec i now user_id token_str expires_at s =
     (case store_token i now user_id (hash_token sec token_str) expires_at (au_reset_tokens s) of
        None \<Rightarrow> (Inl (IntegrityError ''password_reset_tokens''), s)
      | Some ts \<Rightarrow> (Inr (), s\<lparr>au_reset_tokens := ts\<rparr>))"

definition mark_password_reset_used :: "security \<Rightarrow> string \<Rightarrow> auth \<Rightarrow> bool \<times> auth" where
  "mark_password_reset_used sec token_str s = (case get_password_reset_token sec s token_str of
     None \<Rightarrow> (False, s)
   | Some r \<Rightarrow> (True, s\<lparr>au_reset_tokens := use_token r (au_reset_tokens s)\<rparr>))"

definition revoke_all_password_reset_tokens :: "uuid \<Rightarrow> auth \<Rightarrow> auth" where
  "revoke_all_password_reset_tokens user_id s = s\<lparr>au_reset_tokens := use_all user_id (au_reset_tokens s)\<rparr>"

section \<open>Mails\<close>

record mail =
  ml_to :: string
  ml_subject :: string
  ml_body :: string

definition nl :: string where "nl = [CHR 0x0A]"

definition EMAIL_VERIFICATION_EXPIRE_MINUTES :: int where "EMAIL_VERIFICATION_EXPIRE_MINUTES = 60"
definition PASSWORD_RESET_EXPIRE_MINUTES :: int where "PASSWORD_RESET_EXPIRE_MINUTES = 15"

text \<open>\<^verbatim>\<open>base\<close> is the configured front-end address, possibly empty.\<close>

definition frontend_base :: "string \<Rightarrow> string" where
  "frontend_base base = (if base = [] then ''http://localhost:3000'' else base)"

definition build_verification_url :: "string \<Rightarrow> string \<Rightarrow> string" where
  "build_verification_url base token = frontend_base base @ ''/verify-email?token='' @ token"

definition build_reset_url :: "string \<Rightarrow> string \<Rightarrow> string" where
  "build_reset_url base token = frontend_base base @ ''/reset-password?token='' @ token"

definition verification_body :: "string \<Rightarrow> string \<Rightarrow> string" where
  "verification_body user_name url = join (nl @ nl)
     [''Hello '' @ user_name @ '','',
      ''Thank you for signing up with Reliastra. Please verify your email address by clicking the link below:'',
      url,
      ''This link expires in '' @ show_int EMAIL_VERIFICATION_EXPIRE_MINUTES @ '' minutes.'',
      ''If you did not create an account, please ignore this email.'',
      ''Best regards,'' @ nl @ ''The Reliastra Team'']"

definition reset_body :: "string \<Rightarrow> string \<Rightarrow> string" where
  "reset_body user_name url = join (nl @ nl)
     [''Hello '' @ user_name @ '','',
      ''We received a request to reset your Reliastra password. Click the link below to set a new password:'',
      url,
      ''This link expires in '' @ show_int PASSWORD_RESET_EXPIRE_MINUTES @ '' minutes.'',
      ''If you did not request a password reset, please ignore this email - your password will remain unchanged.'',
      ''Best regards,'' @ nl @ ''The Reliastra Team'']"

section \<open>The operations\<close>

type_synonym message = "(string \<times> json) list"

definition send_verification_email ::
  "security \<Rightarrow> string \<Rightarrow> time \<Rightarrow> uuid \<Rightarrow> string \<Rightarrow> string \<Rightarrow> (message \<times> mail list, auth) service" where
  "send_verification_email sec base now tid token email s =
     (case user_get_by_email (au_db s) email of
        None \<Rightarrow> (Inl (ValidationException ''No account found with this email address''), s)
      | Some user \<Rightarrow>
          if u_is_email_verified user
          then (Inl (AppException ''Email is already verified'' 400 ''EMAIL_ALREADY_VERIFIED''), s)
          else and_then (create_email_verification_token sec tid now (u_id user) token
                 (now + minutes EMAIL_VERIFICATION_EXPIRE_MINUTES))
               (\<lambda>_. pure_step (Inr
                 ([(''message'', JStr ''Verification email sent. Check your inbox.''), (''email'', JStr email)],
                  [\<lparr>ml_to = email, ml_subject = ''Verify your Reliastra email'',
                    ml_body = verification_body (u_full_name user) (build_verification_url base token)\<rparr>])))
               (revoke_all_email_verification_tokens (u_id user) s))"

definition verify_email :: "security \<Rightarrow> time \<Rightarrow> string \<Rightarrow> (message, auth) service" where
  "verify_email sec now token s =
     (case get_email_verification_token sec s token of
        None \<Rightarrow> (Inl (ValidationException ''Invalid verification token''), s)
      | Some stored \<Rightarrow>
          if ot_is_used stored
          then (Inl (ValidationException ''This verification link has already been used''), s)
          else if ot_expires_at stored < now
          then (Inl (ValidationException ''Verification link has expired. Please request a new one.''), s)
          else (let s1 = snd (mark_email_verification_used sec token s);
                    reply = [(''message'', JStr ''Email verified successfully.''), (''is_email_verified'', JBool True)]
            in case user_get_by_id (au_db s1) (ot_user_id stored) of
                 None \<Rightarrow> (Inr reply, s1)
               | Some user \<Rightarrow>
                   and_then (on_db (user_update user [UfIsEmailVerified (Some True)])) (\<lambda>_. pure_step (Inr reply)) s1))"

definition reset_requested :: message where
  "reset_requested = [(''message'',
     JStr ''If an account with this email exists, a password reset link has been sent.'')]"

definition send_password_reset_email ::
  "security \<Rightarrow> string \<Rightarrow> time \<Rightarrow> uuid \<Rightarrow> string \<Rightarrow> string \<Rightarrow> (message \<times> mail list, auth) service" where
  "send_password_reset_email sec base now tid token email s =
     (case user_get_by_email (au_db s) email of
        None \<Rightarrow> (Inr (reset_requested, []), s)
      | Some user \<Rightarrow>
          and_then (create_password_reset_token sec tid now (u_id user) token
              (now + minutes PASSWORD_RESET_EXPIRE_MINUTES))
            (\<lambda>_. pure_step (Inr (reset_requested,
              [\<lparr>ml_to = email, ml_subject = ''Reset your Reliastra password'',
                ml_body = reset_body (u_full_name user) (build_reset_url base token)\<rparr>])))
            (revoke_all_password_reset_tokens (u_id user) s))"

definition reset_password :: "security \<Rightarrow> time \<Rightarrow> string \<Rightarrow> string \<Rightarrow> string \<Rightarrow> (message, auth) service" where
  "reset_password sec now salt token new_password s =
     (case get_password_reset_token sec s token of
        None \<Rightarrow> (Inl (ValidationException ''Invalid password reset token''), s)
      | Some stored \<Rightarrow>
          if ot_is_used stored
          then (Inl (ValidationException ''This reset link has already been used. Please request a new one.''), s)
          else if ot_expires_at stored < now
          then (Inl (ValidationException ''Password reset link has expired. Please request a new one.''), s)
          else and_then (\<lambda>s. (Inr (), snd (mark_password_reset_used sec token s))) (\<lambda>_.
            and_then (pure_step (get_password_hash sec salt new_password)) (\<lambda>password_hash s.
            (let reply = [(''message'', JStr
                   ''Password has been reset successfully. You can now log in with your new password.'')]
             in case user_get_by_id (au_db s) (ot_user_id stored) of
                  None \<Rightarrow> (Inr reply, s)
                | Some user \<Rightarrow>
                    and_then (on_db (user_update user [UfPasswordHash (Some password_hash)]))
                      (\<lambda>_. pure_step (Inr reply)) s))) s)"

end
