(* ===== verification/OAuth.thy ===== *)
theory OAuth
  imports Registration Redis
begin

text \<open>
  Sign-in with Google, GitHub and Supabase (\<^verbatim>\<open>modules/auth/google_service.py\<close>,
  \<^verbatim>\<open>github_service.py\<close>, \<^verbatim>\<open>supabase.py\<close>, \<^verbatim>\<open>core/supabase.py\<close>, their routes in \<^verbatim>\<open>modules/auth/router.py\<close>).
  The replies of the providers are a parameter, \<^verbatim>\<open>None\<close> where the HTTP client raises; so is the
  JWT library, whose verification of a Supabase token is a field of the environment.
\<close>

section \<open>State\<close>

text \<open>\<^verbatim>\<open>sg_delete_up\<close>: whether a deletion that follows a successful look-up still reaches Redis.\<close>

record signin =
  sg_auth :: auth
  sg_redis :: "string redis"
  sg_delete_up :: bool

definition on_auth :: "('a, auth) service \<Rightarrow> ('a, signin) service" where
  "on_auth f s = (case f (sg_auth s) of (r, a) \<Rightarrow> (r, s\<lparr>sg_auth := a\<rparr>))"

text \<open>A request whose session is rolled back when it fails; what it did in Redis stays.\<close>

definition with_signin_session :: "('a, signin) service \<Rightarrow> ('a, signin) service" where
  "with_signin_session f s = (case f s of (Inr x, s') \<Rightarrow> (Inr x, s') | (Inl e, s') \<Rightarrow> (Inl e, s'\<lparr>sg_auth := sg_auth s\<rparr>))"

record oauth_settings =
  os_enabled :: bool
  os_client_id :: "string option"
  os_client_secret :: "string option"
  os_redirect_uri :: "string option"

text \<open>The status and the decoded body of each call to a provider.\<close>

record provider =
  pv_token :: "string \<Rightarrow> (int \<times> (string \<times> json) list) option"
  pv_userinfo :: "string \<Rightarrow> (int \<times> (string \<times> json) list) option"
  pv_emails :: "string \<Rightarrow> (int \<times> (string \<times> json) list list) option"

section \<open>The columns of \<^verbatim>\<open>UserRepository.update\<close> a sign-in writes\<close>

datatype link_field =
    LfGoogleId "string option"
  | LfGithubId "string option"
  | LfAvatarUrl "string option"
  | LfAuthProvider "string option"
  | LfExternalAuthId "string option"

fun put_link :: "link_field \<Rightarrow> user \<Rightarrow> user" where
  "put_link (LfGoogleId (Some v)) r = r\<lparr>u_google_id := Some v\<rparr>"
| "put_link (LfGithubId (Some v)) r = r\<lparr>u_github_id := Some v\<rparr>"
| "put_link (LfAvatarUrl (Some v)) r = r\<lparr>u_avatar_url := Some v\<rparr>"
| "put_link (LfAuthProvider (Some v)) r = r\<lparr>u_auth_provider := Some v\<rparr>"
| "put_link (LfExternalAuthId (Some v)) r = r\<lparr>u_external_auth_id := Some v\<rparr>"
| "put_link _ r = r"

definition link_user :: "user \<Rightarrow> link_field list \<Rightarrow> (user, db) service" where
  "link_user user kws s =
     (let r = set_fields put_link kws user
      in if (\<exists>x \<in> set (db_users s). u_id x \<noteq> u_id r \<and>
            ((u_google_id x \<noteq> None \<and> u_google_id x = u_google_id r) \<or> (u_github_id x \<noteq> None \<and> u_github_id x = u_github_id r)))
         then (Inl (IntegrityError ''users''), s) else (Inr r, save_user r s))"

text \<open>A text column takes a string or NULL; other values of a claim fail in the driver.\<close>

definition text_column :: "json \<Rightarrow> app_error + string option" where
  "text_column j = (case j of JNull \<Rightarrow> Inr None | JStr s \<Rightarrow> Inr (Some s) | _ \<Rightarrow> Inl (ValueError ''expected str''))"

definition required_text :: "json \<Rightarrow> app_error + string" where
  "required_text j = (case j of JStr s \<Rightarrow> Inr s | _ \<Rightarrow> Inl (ValueError ''expected str''))"

section \<open>The CSRF state\<close>

definition OAUTH_STATE_TTL_SECONDS :: int where "OAUTH_STATE_TTL_SECONDS = 600"

definition store_state :: "time \<Rightarrow> string \<Rightarrow> string \<Rightarrow> signin \<Rightarrow> signin" where
  "store_state now prefix state_token s =
     s\<lparr>sg_redis := snd (safe_redis_set now (prefix @ state_token) ''1'' (Some OAUTH_STATE_TTL_SECONDS) (sg_redis s))\<rparr>"

text \<open>The result of the deletion is ignored: a state whose deletion is lost is valid and stays.\<close>

definition validate_state :: "time \<Rightarrow> string \<Rightarrow> string \<Rightarrow> signin \<Rightarrow> bool \<times> signin" where
  "validate_state now prefix state_token s =
     (if safe_redis_exists now (prefix @ state_token) (sg_redis s)
      then (True, if sg_delete_up s then s\<lparr>sg_redis := snd (safe_redis_delete (prefix @ state_token) (sg_redis s))\<rparr> else s)
      else (False, s))"

definition check_signin_state :: "time \<Rightarrow> string \<Rightarrow> string option \<Rightarrow> (unit, signin) service" where
  "check_signin_state now prefix state s =
     (if \<not> str_truthy state then (Inr (), s)
      else case validate_state now prefix (the state) s of (ok, s1) \<Rightarrow>
        (if ok then Inr () else Inl (ValidationException ''Invalid or expired authorization state. Please try again.''), s1))"

text \<open>\<^verbatim>\<open>urllib.parse.urlencode\<close> on bytes.\<close>

definition unreserved :: "char \<Rightarrow> bool" where
  "unreserved c = (let n = (of_char c :: nat) in is_alpha c \<or> (48 \<le> n \<and> n \<le> 57) \<or> c \<in> set ''_.-~'')"

definition quote_plus :: "string \<Rightarrow> string" where
  "quote_plus s = concat (map (\<lambda>c. if unreserved c then [c] else if c = CHR '' '' then ''+''
     else ''%'' @ upper (hex_digits 2 (of_char c))) s)"

definition urlencode :: "(string \<times> string) list \<Rightarrow> string" where
  "urlencode kvs = join ''&'' (map (\<lambda>(k, v). quote_plus k @ ''='' @ quote_plus v) kvs)"

definition py_text :: "string option \<Rightarrow> string" where
  "py_text x = (case x of None \<Rightarrow> ''None'' | Some s \<Rightarrow> s)"

section \<open>A new account\<close>

definition create_org_and_agency :: "time \<Rightarrow> register_ids \<Rightarrow> user \<Rightarrow> string \<Rightarrow> (unit, db) service" where
  "create_org_and_agency now ids user full_name s =
     and_then (org_create (ri_org ids) now (full_name @ CHR 0x27 # ''s Organization'') (register_slug s (u_id user)) ''free'') (\<lambda>org.
     and_then (add_member (ri_member ids) now (o_id org) (u_id user) ''owner'') (\<lambda>_ s.
       (Inr (), snd (create_application (ri_application ids) now (o_id org) ''Default'' None (Some ''Default application'') s)))) s"

definition oauth_session :: "security \<Rightarrow> time \<Rightarrow> register_ids \<Rightarrow> user \<times> bool \<Rightarrow> (token_response \<times> bool, auth) service" where
  "oauth_session sec now ids x =
     (if \<not> u_is_active (fst x) then pure_step (Inl (UnauthorizedException ''User account is disabled''))
      else and_then (open_session sec now (ri_jtis ids) (ri_token ids) (ri_family ids) (u_id (fst x))) (\<lambda>tokens.
        pure_step (Inr (tokens, snd x))))"

definition local_part :: "string \<Rightarrow> string" where
  "local_part email = takeWhile (\<lambda>c. c \<noteq> CHR ''@'') email"

section \<open>Google\<close>

definition google_check_enabled :: "oauth_settings \<Rightarrow> app_error + unit" where
  "google_check_enabled st =
     (if \<not> os_enabled st then Inl (AppException ''Google authentication is not enabled'' 403 ''GOOGLE_AUTH_DISABLED'')
      else if \<not> str_truthy (os_client_id st) \<or> \<not> str_truthy (os_client_secret st)
      then Inl (AppException ''Google OAuth is not configured (missing CLIENT_ID or CLIENT_SECRET)'' 500 ''GOOGLE_AUTH_MISCONFIGURED'')
      else Inr ())"

definition GOOGLE_STATE_PREFIX :: string where "GOOGLE_STATE_PREFIX = ''oauth:google:state:''"

definition google_authorization_url :: "oauth_settings \<Rightarrow> string \<Rightarrow> app_error + string" where
  "google_authorization_url st state_token = (case google_check_enabled st of Inl e \<Rightarrow> Inl e
     | Inr _ \<Rightarrow> Inr (''https://accounts.google.com/o/oauth2/v2/auth?'' @ urlencode
         [(''client_id'', py_text (os_client_id st)), (''redirect_uri'', py_text (os_redirect_uri st)),
          (''response_type'', ''code''), (''scope'', ''openid email profile''), (''access_type'', ''offline''),
          (''prompt'', ''select_account''), (''state'', state_token)]))"

definition google_exchange :: "oauth_settings \<Rightarrow> provider \<Rightarrow> string \<Rightarrow> app_error + (string \<times> json) list" where
  "google_exchange st pv code = (case google_check_enabled st of Inl e \<Rightarrow> Inl e
     | Inr _ \<Rightarrow> (case pv_token pv code of
         None \<Rightarrow> Inl (ValueError ''httpx.HTTPError'')
       | Some (status, body) \<Rightarrow>
           if status \<noteq> 200 then Inl (UnauthorizedException ''Failed to exchange authorization code with Google'') else Inr body))"

definition google_user_info :: "provider \<Rightarrow> string \<Rightarrow> app_error + (string \<times> json) list" where
  "google_user_info pv access_token = (case pv_userinfo pv access_token of
     None \<Rightarrow> Inl (ValueError ''httpx.HTTPError'')
   | Some (status, body) \<Rightarrow>
       if status \<noteq> 200 then Inl (UnauthorizedException ''Failed to retrieve user info from Google'') else Inr body)"

text \<open>The profile of the signed-in Google user: identifier, email, name and picture.\<close>

definition google_profile :: "oauth_settings \<Rightarrow> provider \<Rightarrow> string \<Rightarrow> app_error + string \<times> string \<times> json \<times> json" where
  "google_profile st pv code = (case google_exchange st pv code of Inl e \<Rightarrow> Inl e
     | Inr token_data \<Rightarrow>
       if \<not> truthy (dget token_data ''access_token'') then Inl (UnauthorizedException ''No access token in Google response'')
       else (case google_user_info pv (py_str (dget token_data ''access_token'')) of Inl e \<Rightarrow> Inl e
         | Inr g \<Rightarrow>
           if \<not> truthy (dget g ''id'') \<or> \<not> truthy (dget g ''email'')
           then Inl (ValidationException ''Google account must provide an email address'')
           else if \<not> truthy (dget g ''email_verified'')
           then Inl (UnauthorizedException ''Google email is not verified. Please verify your email with Google first.'')
           else (case required_text (dget g ''id'') of Inl e \<Rightarrow> Inl e
             | Inr google_id \<Rightarrow> (case required_text (dget g ''email'') of Inl e \<Rightarrow> Inl e
               | Inr email \<Rightarrow> Inr (google_id, email, dget g ''name'', dget g ''picture'')))))"

text \<open>Finding the account by the identifier, else by the email, else creating it.\<close>

definition google_new_account ::
  "security \<Rightarrow> time \<Rightarrow> register_ids \<Rightarrow> string \<Rightarrow> string \<times> string \<times> json \<times> json \<Rightarrow> (user \<times> bool, db) service" where
  "google_new_account sec now ids password profile = (case profile of (google_id, email, name, picture) \<Rightarrow>
     and_then (pure_step (get_password_hash sec (ri_salt ids) password)) (\<lambda>password_hash.
     and_then (pure_step (if truthy name then required_text name else Inr (local_part email))) (\<lambda>full_name.
     and_then (pure_step (text_column picture)) (\<lambda>avatar.
     and_then (user_create (ri_user ids) now email password_hash full_name False True (Some google_id) None avatar
        (Some ''google'') None True) (\<lambda>user.
     and_then (create_org_and_agency now ids user full_name) (\<lambda>_. pure_step (Inr (user, True))))))))"

definition google_account ::
  "security \<Rightarrow> time \<Rightarrow> register_ids \<Rightarrow> string \<Rightarrow> string \<times> string \<times> json \<times> json \<Rightarrow> (user \<times> bool, db) service" where
  "google_account sec now ids password profile s = (case profile of (google_id, email, name, picture) \<Rightarrow>
     (case user_get_by_google_id s google_id of
        Some user \<Rightarrow>
          if truthy picture
          then and_then (pure_step (text_column picture)) (\<lambda>avatar.
            and_then (link_user user [LfAvatarUrl avatar]) (\<lambda>user. pure_step (Inr (user, False)))) s
          else (Inr (user, False), s)
      | None \<Rightarrow> (case user_get_by_email s email of
          Some user \<Rightarrow> and_then (pure_step (text_column picture)) (\<lambda>avatar.
            and_then (link_user user [LfGoogleId (Some google_id), LfAvatarUrl avatar, LfAuthProvider (Some ''google'')])
              (\<lambda>user. pure_step (Inr (user, False)))) s
        | None \<Rightarrow> google_new_account sec now ids password profile s)))"

definition google_authenticate ::
  "security \<Rightarrow> oauth_settings \<Rightarrow> provider \<Rightarrow> time \<Rightarrow> register_ids \<Rightarrow> string \<Rightarrow> string \<Rightarrow> string option \<Rightarrow>
   (token_response \<times> bool, signin) service" where
  "google_authenticate sec st pv now ids password code state =
     and_then (check_signin_state now GOOGLE_STATE_PREFIX state) (\<lambda>_.
     and_then (pure_step (google_profile st pv code)) (\<lambda>profile.
     and_then (on_auth (on_db (google_account sec now ids password profile))) (\<lambda>x.
     on_auth (oauth_session sec now ids x))))"

section \<open>GitHub\<close>

definition github_check_enabled :: "oauth_settings \<Rightarrow> app_error + unit" where
  "github_check_enabled st =
     (if \<not> os_enabled st then Inl (AppException ''GitHub authentication is not enabled'' 403 ''GITHUB_AUTH_DISABLED'')
      else if \<not> str_truthy (os_client_id st) \<or> \<not> str_truthy (os_client_secret st)
      then Inl (AppException ''GitHub OAuth is not configured (missing CLIENT_ID or CLIENT_SECRET)'' 500 ''GITHUB_AUTH_MISCONFIGURED'')
      else Inr ())"

definition GITHUB_STATE_PREFIX :: string where "GITHUB_STATE_PREFIX = ''oauth:github:state:''"

definition github_authorization_url :: "oauth_settings \<Rightarrow> string \<Rightarrow> app_error + string" where
  "github_authorization_url st state_token = (case github_check_enabled st of Inl e \<Rightarrow> Inl e
     | Inr _ \<Rightarrow> Inr (''https://github.com/login/oauth/authorize?'' @ urlencode
         [(''client_id'', py_text (os_client_id st)), (''redirect_uri'', py_text (os_redirect_uri st)),
          (''response_type'', ''code''), (''scope'', ''read:user user:email''), (''state'', state_token)]))"

definition github_exchange :: "oauth_settings \<Rightarrow> provider \<Rightarrow> string \<Rightarrow> app_error + (string \<times> json) list" where
  "github_exchange st pv code = (case github_check_enabled st of Inl e \<Rightarrow> Inl e
     | Inr _ \<Rightarrow> (case pv_token pv code of
         None \<Rightarrow> Inl (ValueError ''httpx.HTTPError'')
       | Some (status, body) \<Rightarrow>
           if status \<noteq> 200 then Inl (UnauthorizedException ''Failed to exchange authorization code with GitHub'')
           else if ''error'' \<in> fst ` set body
           then Inl (UnauthorizedException (''GitHub OAuth error: '' @ py_str
             (case map_of body ''error_description'' of Some d \<Rightarrow> d | None \<Rightarrow> dget body ''error'')))
           else Inr body))"

definition github_user_info :: "provider \<Rightarrow> string \<Rightarrow> app_error + (string \<times> json) list" where
  "github_user_info pv access_token = (case pv_userinfo pv access_token of
     None \<Rightarrow> Inl (ValueError ''httpx.HTTPError'')
   | Some (status, body) \<Rightarrow>
       if status \<noteq> 200 then Inl (UnauthorizedException ''Failed to retrieve user info from GitHub'') else Inr body)"

definition github_emails :: "provider \<Rightarrow> string \<Rightarrow> app_error + (string \<times> json) list list" where
  "github_emails pv access_token = (case pv_emails pv access_token of
     None \<Rightarrow> Inl (ValueError ''httpx.HTTPError'')
   | Some (status, body) \<Rightarrow> Inr (if status \<noteq> 200 then [] else body))"

definition resolve_email :: "(string \<times> json) list \<Rightarrow> (string \<times> json) list list \<Rightarrow> app_error + json \<times> bool" where
  "resolve_email github_user emails =
     (let entry_email = (\<lambda>e. case map_of e ''email'' of None \<Rightarrow> Inl (ValueError ''email'') | Some x \<Rightarrow> Inr (x, True))
      in if truthy (dget github_user ''email'') then Inr (dget github_user ''email'', True)
         else (case find (\<lambda>e. truthy (dget e ''primary'') \<and> truthy (dget e ''verified'')) emails of
            Some e \<Rightarrow> entry_email e
          | None \<Rightarrow> (case find (\<lambda>e. truthy (dget e ''verified'')) emails of
              Some e \<Rightarrow> entry_email e
            | None \<Rightarrow> Inr (JStr ((case map_of github_user ''login'' of None \<Rightarrow> ''unknown'' | Some l \<Rightarrow> py_str l) @
                ''@users.noreply.github.com''), False))))"

text \<open>Identifier, email, whether it is verified, name and avatar; the two calls run together.\<close>

definition github_profile :: "oauth_settings \<Rightarrow> provider \<Rightarrow> string \<Rightarrow> app_error + string \<times> string \<times> bool \<times> json \<times> json" where
  "github_profile st pv code = (case github_exchange st pv code of Inl e \<Rightarrow> Inl e
     | Inr token_data \<Rightarrow>
       if \<not> truthy (dget token_data ''access_token'') then Inl (UnauthorizedException ''No access token in GitHub response'')
       else (let access_token = py_str (dget token_data ''access_token'')
         in case (github_user_info pv access_token, github_emails pv access_token) of
           (Inl e, _) \<Rightarrow> Inl e
         | (_, Inl e) \<Rightarrow> Inl e
         | (Inr g, Inr emails) \<Rightarrow>
             (let github_id = py_str (dget g ''id'');
                  github_login = (case map_of g ''login'' of None \<Rightarrow> JStr '''' | Some l \<Rightarrow> l)
              in case resolve_email g emails of Inl e \<Rightarrow> Inl e
               | Inr (email, verified) \<Rightarrow>
                 if github_id = [] then Inl (ValidationException ''GitHub account did not return a valid user ID'')
                 else (case required_text email of Inl e \<Rightarrow> Inl e
                   | Inr email \<Rightarrow> Inr (github_id, email, verified, jor (dget g ''name'') github_login, dget g ''avatar_url'')))))"

definition github_new_account ::
  "security \<Rightarrow> time \<Rightarrow> register_ids \<Rightarrow> string \<Rightarrow> string \<times> string \<times> bool \<times> json \<times> json \<Rightarrow> (user \<times> bool, db) service" where
  "github_new_account sec now ids password profile = (case profile of (github_id, email, verified, name, avatar) \<Rightarrow>
     and_then (pure_step (get_password_hash sec (ri_salt ids) password)) (\<lambda>password_hash.
     and_then (pure_step (required_text name)) (\<lambda>full_name.
     and_then (pure_step (text_column avatar)) (\<lambda>avatar_url.
     and_then (user_create (ri_user ids) now email password_hash full_name False verified None (Some github_id) avatar_url
        (Some ''github'') None True) (\<lambda>user.
     and_then (create_org_and_agency now ids user full_name) (\<lambda>_. pure_step (Inr (user, True))))))))"

definition github_account ::
  "security \<Rightarrow> time \<Rightarrow> register_ids \<Rightarrow> string \<Rightarrow> string \<times> string \<times> bool \<times> json \<times> json \<Rightarrow> (user \<times> bool, db) service" where
  "github_account sec now ids password profile s = (case profile of (github_id, email, verified, name, avatar) \<Rightarrow>
     (case user_get_by_github_id s github_id of
        Some user \<Rightarrow>
          if truthy avatar
          then and_then (pure_step (text_column avatar)) (\<lambda>avatar_url.
            and_then (link_user user [LfAvatarUrl avatar_url]) (\<lambda>user. pure_step (Inr (user, False)))) s
          else (Inr (user, False), s)
      | None \<Rightarrow> (case user_get_by_email s email of
          Some user \<Rightarrow> and_then (pure_step (if truthy avatar then text_column avatar else Inr (u_avatar_url user))) (\<lambda>avatar_url.
            and_then (link_user user [LfGithubId (Some github_id), LfAvatarUrl avatar_url, LfAuthProvider (Some ''github'')])
              (\<lambda>user. pure_step (Inr (user, False)))) s
        | None \<Rightarrow> github_new_account sec now ids password profile s)))"

definition github_authenticate ::
  "security \<Rightarrow> oauth_settings \<Rightarrow> provider \<Rightarrow> time \<Rightarrow> register_ids \<Rightarrow> string \<Rightarrow> string \<Rightarrow> string option \<Rightarrow>
   (token_response \<times> bool, signin) service" where
  "github_authenticate sec st pv now ids password code state =
     and_then (check_signin_state now GITHUB_STATE_PREFIX state) (\<lambda>_.
     and_then (pure_step (github_profile st pv code)) (\<lambda>profile.
     and_then (on_auth (on_db (github_account sec now ids password profile))) (\<lambda>x.
     on_auth (oauth_session sec now ids x))))"

section \<open>Routes\<close>

record oauth_response =
  or_tokens :: token_response
  or_is_new_user :: bool
  or_user_id :: uuid
  or_email :: string
  or_full_name :: string

text \<open>The routes decode the token they just issued and read its user back.\<close>

definition oauth_answer :: "security \<Rightarrow> time \<Rightarrow> token_response \<times> bool \<Rightarrow> (oauth_response, signin) service" where
  "oauth_answer sec now x s =
     (case decode_token sec now (tr_access_token (fst x)) of
        Inl e \<Rightarrow> (Inl e, s)
      | Inr payload \<Rightarrow> (case parse_uuid (py_str (dget payload ''sub'')) of
          None \<Rightarrow> (Inl (ValueError ''badly formed hexadecimal UUID string''), s)
        | Some user_id \<Rightarrow> (case user_get_by_id (au_db (sg_auth s)) user_id of
            None \<Rightarrow> (Inl (ResourceNotFoundException ''User not found - account may have been deleted''), s)
          | Some user \<Rightarrow> (Inr \<lparr>or_tokens = fst x, or_is_new_user = snd x, or_user_id = u_id user, or_email = u_email user,
              or_full_name = u_full_name user\<rparr>, s))))"

definition google_auth_callback ::
  "security \<Rightarrow> oauth_settings \<Rightarrow> provider \<Rightarrow> time \<Rightarrow> register_ids \<Rightarrow> string \<Rightarrow> string \<Rightarrow> string option \<Rightarrow> (oauth_response, signin) service" where
  "google_auth_callback sec st pv now ids password code state =
     and_then (google_authenticate sec st pv now ids password code state) (oauth_answer sec now)"

definition github_auth_callback ::
  "security \<Rightarrow> oauth_settings \<Rightarrow> provider \<Rightarrow> time \<Rightarrow> register_ids \<Rightarrow> string \<Rightarrow> string \<Rightarrow> string option \<Rightarrow> (oauth_response, signin) service" where
  "github_auth_callback sec st pv now ids password code state =
     and_then (github_authenticate sec st pv now ids password code state) (oauth_answer sec now)"

text \<open>The state is stored before the settings are checked.\<close>

definition get_google_auth_url :: "oauth_settings \<Rightarrow> time \<Rightarrow> string \<Rightarrow> (string \<times> string, signin) service" where
  "get_google_auth_url st now state_token s =
     (case google_authorization_url st state_token of Inl e \<Rightarrow> Inl e | Inr url \<Rightarrow> Inr (url, state_token),
      store_state now GOOGLE_STATE_PREFIX state_token s)"

definition get_github_auth_url :: "oauth_settings \<Rightarrow> time \<Rightarrow> string \<Rightarrow> (string \<times> string, signin) service" where
  "get_github_auth_url st now state_token s =
     (case github_authorization_url st state_token of Inl e \<Rightarrow> Inl e | Inr url \<Rightarrow> Inr (url, state_token),
      store_state now GITHUB_STATE_PREFIX state_token s)"

end
