(* ===== verification/Supabase_Auth.thy ===== *)
theory Supabase_Auth
  imports OAuth
begin

text \<open>
  \<^verbatim>\<open>core/supabase.py\<close> and \<^verbatim>\<open>modules/auth/supabase.py\<close>: verification of Supabase tokens with the shared
  secret or the cached key set, and the provisioning of their users.  The JWT library and the key-set
  endpoint are fields of the environment; \<^verbatim>\<open>_decode_jwt_payload\<close> has no caller and is left out.
\<close>

section \<open>Verification\<close>

text \<open>\<^verbatim>\<open>sb_decode\<close>: \<^verbatim>\<open>pyjwt.decode\<close> with an algorithm and a key, \<^verbatim>\<open>None\<close> where it raises.\<close>

record supabase_env =
  sb_jwt_secret :: string
  sb_decode :: "string \<Rightarrow> json \<Rightarrow> time \<Rightarrow> string \<Rightarrow> (string \<times> json) list option"
  sb_fetch :: "json list option"

record jwks_cache =
  jw_keys :: "json list"
  jw_expires_at :: time

definition empty_jwks :: jwks_cache where
  "empty_jwks = \<lparr>jw_keys = [], jw_expires_at = 0\<rparr>"

text \<open>A failed download answers with the expired keys and leaves the cache as it is.\<close>

definition fetch_jwks :: "supabase_env \<Rightarrow> time \<Rightarrow> jwks_cache \<Rightarrow> json list \<times> jwks_cache" where
  "fetch_jwks env now c =
     (if jw_expires_at c > now then (jw_keys c, c)
      else case sb_fetch env of
        None \<Rightarrow> (jw_keys c, c)
      | Some keys \<Rightarrow> (keys, \<lparr>jw_keys = keys, jw_expires_at = now + seconds 3600\<rparr>))"

fun first_key :: "supabase_env \<Rightarrow> time \<Rightarrow> string \<Rightarrow> json list \<Rightarrow> (string \<times> json) list option" where
  "first_key env now token [] = None"
| "first_key env now token (k # ks) =
     (case sb_decode env ''RS256'' k now token of None \<Rightarrow> first_key env now token ks | Some p \<Rightarrow> Some p)"

definition verify_supabase_token ::
  "supabase_env \<Rightarrow> time \<Rightarrow> string \<Rightarrow> jwks_cache \<Rightarrow> (string \<times> json) list option \<times> jwks_cache" where
  "verify_supabase_token env now token c =
     (if token = [] then (None, c)
      else if sb_jwt_secret env \<noteq> [] then (sb_decode env ''HS256'' (JStr (sb_jwt_secret env)) now token, c)
      else case fetch_jwks env now c of (keys, c1) \<Rightarrow> (first_key env now token keys, c1))"

definition get_supabase_user :: "supabase_env \<Rightarrow> time \<Rightarrow> string \<Rightarrow> jwks_cache \<Rightarrow> (app_error + (string \<times> json) list) \<times> jwks_cache" where
  "get_supabase_user env now auth_header c =
     (if \<not> starts_with auth_header ''Bearer '' then (Inl (AppException ''Missing or malformed Authorization header'' 401 ''HTTP''), c)
      else (let token = strip (drop 7 auth_header)
        in if token = [] then (Inl (AppException ''Missing Supabase access token'' 401 ''HTTP''), c)
           else case verify_supabase_token env now token c of
             (None, c1) \<Rightarrow> (Inl (AppException ''Invalid or expired Supabase token'' 401 ''HTTP''), c1)
           | (Some payload, c1) \<Rightarrow> (Inr payload, c1)))"

section \<open>Mapping of the claims\<close>

record supabase_user =
  su_external_auth_id :: string
  su_email :: json
  su_full_name :: json
  su_is_email_verified :: json

definition object_or_empty :: "json \<Rightarrow> app_error + (string \<times> json) list" where
  "object_or_empty j = (if \<not> truthy j then Inr [] else case j of JObj d \<Rightarrow> Inr d | _ \<Rightarrow> Inl (ValueError ''get''))"

definition dget_or :: "json \<Rightarrow> (string \<times> json) list \<Rightarrow> string \<Rightarrow> json" where
  "dget_or x d k = (case map_of d k of None \<Rightarrow> x | Some v \<Rightarrow> v)"

definition map_supabase_user :: "(string \<times> json) list \<Rightarrow> app_error + supabase_user" where
  "map_supabase_user payload = (case object_or_empty (dget payload ''user_metadata'') of Inl e \<Rightarrow> Inl e
     | Inr user_meta \<Rightarrow> (case object_or_empty (dget payload ''app_metadata'') of Inl e \<Rightarrow> Inl e
       | Inr app_meta \<Rightarrow>
         (let email = jor (dget payload ''email'') (dget_or (JStr []) user_meta ''email'');
              name = jor (dget user_meta ''full_name'') (dget user_meta ''name'');
              verified = jor (dget payload ''email_verified'') (dget_or (JBool False) app_meta ''email_verified'');
              external = ''supabase:'' @ py_str (dget_or (JStr []) payload ''sub'')
          in if truthy name then Inr \<lparr>su_external_auth_id = external, su_email = email, su_full_name = name,
                  su_is_email_verified = verified\<rparr>
             else (case dget_or (JStr []) payload ''email'' of
                 JStr e \<Rightarrow> Inr \<lparr>su_external_auth_id = external, su_email = email, su_full_name = JStr (local_part e),
                   su_is_email_verified = verified\<rparr>
               | _ \<Rightarrow> Inl (ValueError ''split'')))))"

section \<open>Provisioning\<close>

definition get_by_external_auth_id :: "db \<Rightarrow> string \<Rightarrow> app_error + user option" where
  "get_by_external_auth_id s x = one_or_none (filter (\<lambda>u. u_external_auth_id u = Some x) (db_users s))"

definition flag_column :: "json \<Rightarrow> app_error + bool" where
  "flag_column j = (case j of JBool b \<Rightarrow> Inr b | _ \<Rightarrow> Inl (ValueError ''is_email_verified''))"

definition supabase_new_account :: "time \<Rightarrow> register_ids \<Rightarrow> nat \<Rightarrow> supabase_user \<Rightarrow> (user, db) service" where
  "supabase_new_account now ids rnd m =
     and_then (pure_step (if truthy (su_email m) then required_text (su_email m)
       else Inr (take 8 (hex_digits 32 rnd) @ ''@supabase.local''))) (\<lambda>email.
     and_then (pure_step (required_text (su_full_name m))) (\<lambda>full_name.
     and_then (pure_step (flag_column (su_is_email_verified m))) (\<lambda>verified.
     and_then (user_create (ri_user ids) now email [] full_name False verified None None None None (Some (su_external_auth_id m)) True) (\<lambda>user.
     and_then (org_create (ri_org ids) now (full_name @ CHR 0x27 # ''s Organization'')
        (''user-'' @ take 8 (hex_digits 32 (u_id user))) ''free'') (\<lambda>org.
     and_then (add_member (ri_member ids) now (o_id org) (u_id user) ''owner'') (\<lambda>_. pure_step (Inr user)))))))"

definition supabase_account :: "time \<Rightarrow> register_ids \<Rightarrow> nat \<Rightarrow> supabase_user \<Rightarrow> (user, db) service" where
  "supabase_account now ids rnd m s = (case get_by_external_auth_id s (su_external_auth_id m) of
     Inl e \<Rightarrow> (Inl e, s)
   | Inr (Some user) \<Rightarrow> (Inr user, s)
   | Inr None \<Rightarrow>
       if \<not> truthy (su_email m) then supabase_new_account now ids rnd m s
       else (case required_text (su_email m) of Inl e \<Rightarrow> (Inl e, s)
         | Inr email \<Rightarrow> (case user_get_by_email s email of
             Some user \<Rightarrow> link_user user [LfExternalAuthId (Some (su_external_auth_id m))] s
           | None \<Rightarrow> supabase_new_account now ids rnd m s)))"

record supabase_profile =
  sf_user_id :: uuid
  sf_email :: string
  sf_full_name :: string
  sf_tokens :: token_response

text \<open>The refresh token is stored with the lifetime of an access token.\<close>

definition supabase_session :: "security \<Rightarrow> time \<Rightarrow> register_ids \<Rightarrow> user \<Rightarrow> (supabase_profile, auth) service" where
  "supabase_session sec now ids user =
     (let tokens = generate_token_pair sec now (ri_jtis ids) (u_id user) in
      and_then (store_refresh_token sec (ri_token ids) (ri_family ids) now (u_id user) (tr_refresh_token tokens)
          (now + minutes (sec_access_minutes sec)) None 1)
        (\<lambda>_. pure_step (Inr \<lparr>sf_user_id = u_id user, sf_email = u_email user, sf_full_name = u_full_name user, sf_tokens = tokens\<rparr>)))"

definition supabase_me :: "security \<Rightarrow> time \<Rightarrow> register_ids \<Rightarrow> nat \<Rightarrow> (string \<times> json) list \<Rightarrow> (supabase_profile, auth) service" where
  "supabase_me sec now ids rnd payload =
     and_then (pure_step (map_supabase_user payload)) (\<lambda>m.
     and_then (on_db (supabase_account now ids rnd m)) (supabase_session sec now ids))"

end
