(* ===== verification/Session_Steps.thy ===== *)
theory Session_Steps
  imports Registration Email_Auth Supabase_Auth
begin

text \<open>
  The sessions as a transition system: registrations, logins, sign-ins with Google, GitHub and Supabase,
  refreshes, logouts, the email flows and arbitrary changes of the other tables, each committed or rolled
  back by its request, one after the other.  The invariant: of every token family at most the newest
  token is unrevoked.
\<close>

section \<open>The invariant\<close>

definition tip :: "refresh_token list \<Rightarrow> refresh_token \<Rightarrow> bool" where
  "tip ts r = (\<forall>x \<in> set ts. rt_token_family x = rt_token_family r \<longrightarrow>
     x = r \<or> rt_token_sequence x < rt_token_sequence r)"

definition sessions_wf :: "auth \<Rightarrow> bool" where
  "sessions_wf s = (distinct (map rt_id (au_refresh s)) \<and> distinct (map rt_token_hash (au_refresh s)) \<and>
     (\<forall>r \<in> set (au_refresh s). rt_is_revoked r \<or> tip (au_refresh s) r))"

definition revoked :: "string \<Rightarrow> refresh_token \<Rightarrow> refresh_token" where
  "revoked h r = (if rt_token_hash r = h then r\<lparr>rt_is_revoked := True\<rparr> else r)"

lemma revoked_fields [simp]:
  "rt_id (revoked h r) = rt_id r" "rt_token_hash (revoked h r) = rt_token_hash r"
  "rt_token_family (revoked h r) = rt_token_family r"
  "rt_token_sequence (revoked h r) = rt_token_sequence r"
  "rt_user_id (revoked h r) = rt_user_id r"
  "rt_is_revoked (revoked h r) = (rt_is_revoked r \<or> rt_token_hash r = h)"
  by (simp_all add: revoked_def)

lemma get_refresh_token_row:
  "get_refresh_token sec s tok = Some r \<Longrightarrow> r \<in> set (au_refresh s) \<and> rt_token_hash r = hash_token sec tok"
  by (auto simp: get_refresh_token_def refresh_by_hash_def dest: get_row_Some)

lemma get_refresh_token_known:
  assumes "distinct (map rt_token_hash (au_refresh s))" and "r \<in> set (au_refresh s)"
    and "rt_token_hash r = hash_token sec tok"
  shows "get_refresh_token sec s tok = Some r"
  using get_row_distinct [OF assms(1,2)] assms(3) by (simp add: get_refresh_token_def refresh_by_hash_def)

lemma revoke_rows:
  assumes "distinct (map rt_id (au_refresh s))" and "distinct (map rt_token_hash (au_refresh s))"
  shows "au_refresh (snd (revoke_refresh_token sec tok s)) = map (revoked (hash_token sec tok)) (au_refresh s)"
proof (cases "get_refresh_token sec s tok")
  case None
  then have "rt_token_hash r \<noteq> hash_token sec tok" if "r \<in> set (au_refresh s)" for r
    using that by (auto simp: get_refresh_token_def refresh_by_hash_def get_row_None intro: rev_image_eqI)
  then show ?thesis
    using None by (auto simp: revoke_refresh_token_def revoked_def map_idI)
next
  case (Some r)
  then have r: "r \<in> set (au_refresh s)" "rt_token_hash r = hash_token sec tok"
    by (auto dest: get_refresh_token_row)
  have "(if rt_id x = rt_id r then r\<lparr>rt_is_revoked := True\<rparr> else x) = revoked (hash_token sec tok) x"
    if x: "x \<in> set (au_refresh s)" for x
  proof (cases "x = r")
    case True
    then show ?thesis
      by (simp add: revoked_def r)
  next
    case False
    with x r assms have "rt_id x \<noteq> rt_id r" "rt_token_hash x \<noteq> rt_token_hash r"
      by (auto dest: distinct_map_inj)
    then show ?thesis
      by (simp add: revoked_def r)
  qed
  then show ?thesis
    by (simp add: revoke_refresh_token_def Some save_refresh_def save_row_def)
qed

lemma revoke_other [simp]:
  "au_db (snd (revoke_refresh_token sec tok s)) = au_db s"
  "au_email_tokens (snd (revoke_refresh_token sec tok s)) = au_email_tokens s"
  "au_reset_tokens (snd (revoke_refresh_token sec tok s)) = au_reset_tokens s"
  "au_api_keys (snd (revoke_refresh_token sec tok s)) = au_api_keys s"
  by (auto simp: revoke_refresh_token_def save_refresh_def split: option.splits)

lemma store_refresh_token_E:
  assumes "store_refresh_token sec i ff now u tok ex fam sq s = (Inr r, s')"
  shows "s' = add_refresh r s" and "rt_id r = i" and "i \<notin> rt_id ` set (au_refresh s)"
    and "rt_token_hash r = hash_token sec tok" and "hash_token sec tok \<notin> rt_token_hash ` set (au_refresh s)"
    and "rt_token_family r = (case fam of Some f \<Rightarrow> f | None \<Rightarrow> ff)" and "rt_token_sequence r = sq"
    and "rt_user_id r = u" and "\<not> rt_is_revoked r" and "rt_expires_at r = ex"
  using assms by (auto simp: store_refresh_token_def Let_def split: if_splits)

lemma sessions_wf_add:
  assumes "sessions_wf s" and "rt_id r \<notin> rt_id ` set (au_refresh s)"
    and "rt_token_hash r \<notin> rt_token_hash ` set (au_refresh s)"
    and "rt_token_family r \<notin> rt_token_family ` set (au_refresh s)"
  shows "sessions_wf (add_refresh r s)"
  using assms by (auto simp: sessions_wf_def add_refresh_def tip_def image_iff)

lemma open_session_E:
  assumes "open_session sec now jtis tid fam u s = (Inr tokens, s')"
  obtains r where "s' = add_refresh r s" and "tokens = generate_token_pair sec now jtis u"
    and "rt_id r = tid" and "tid \<notin> rt_id ` set (au_refresh s)"
    and "rt_token_hash r = hash_token sec (tr_refresh_token tokens)"
    and "rt_token_hash r \<notin> rt_token_hash ` set (au_refresh s)"
    and "rt_token_family r = fam" and "rt_token_sequence r = 1" and "rt_user_id r = u" and "\<not> rt_is_revoked r"
proof -
  let ?t = "generate_token_pair sec now jtis u"
  obtain r where st: "store_refresh_token sec tid fam now u (tr_refresh_token ?t)
      (now + days (sec_refresh_days sec)) None 1 s = (Inr r, s')" and t: "tokens = ?t"
    using assms by (auto simp: open_session_def Let_def pure_step_def elim!: and_then_E)
  show ?thesis
    using store_refresh_token_E [OF st] by (intro that [of r]) (simp_all add: t)
qed

lemma open_session_wf:
  assumes "sessions_wf s" and "fam \<notin> rt_token_family ` set (au_refresh s)"
    and "open_session sec now jtis tid fam u s = (Inr tokens, s')"
  shows "sessions_wf s'"
  using assms(3) by (rule open_session_E) (use assms(1,2) in \<open>simp add: sessions_wf_add\<close>)

lemma logout_wf: "sessions_wf s \<Longrightarrow> sessions_wf (snd (revoke_refresh_token sec tok s))"
  by (fastforce simp: sessions_wf_def revoke_rows comp_def tip_def)

section \<open>Rotation\<close>

lemma refresh_checks_E:
  assumes "refresh_checks sec now tok s = Inr (stored, user)"
  shows "get_refresh_token sec s tok = Some stored" and "\<not> rt_is_revoked stored"
    and "user_get_by_id (au_db s) (u_id user) = Some user" and "u_is_active user"
  using assms by (auto simp: refresh_checks_def user_get_by_id_def split: sum.splits option.splits if_splits
      dest: get_row_Some)

lemma latest_le:
  assumes "tip (au_refresh s) r" and "r \<in> set (au_refresh s)"
  shows "get_latest_sequence s (rt_token_family r) \<le> rt_token_sequence r"
proof -
  have fold_le: "fold max xs x \<le> b \<longleftrightarrow> x \<le> b \<and> (\<forall>y \<in> set xs. y \<le> b)" for xs and x b :: int
    by (induction xs arbitrary: x) auto
  have "r \<in> set (filter (\<lambda>x. rt_token_family x = rt_token_family r) (au_refresh s))"
    using assms(2) by simp
  moreover have "\<forall>x \<in> set (filter (\<lambda>x. rt_token_family x = rt_token_family r) (au_refresh s)).
      rt_token_sequence x \<le> rt_token_sequence r"
    using assms(1) by (auto simp: tip_def)
  ultimately show ?thesis
    unfolding get_latest_sequence_def
    by (cases "filter (\<lambda>x. rt_token_family x = rt_token_family r) (au_refresh s)") (auto simp: fold_le)
qed

text \<open>Where the invariant holds the reuse detection never fires.\<close>

lemma no_reuse:
  assumes "sessions_wf s" and "refresh_checks sec now tok s = Inr (stored, user)"
  shows "\<not> get_latest_sequence s (rt_token_family stored) > rt_token_sequence stored"
proof -
  have "stored \<in> set (au_refresh s)"
    using refresh_checks_E(1) [OF assms(2)] by (blast dest: get_refresh_token_row)
  with assms(1) refresh_checks_E(2) [OF assms(2)] show ?thesis
    using latest_le [of s stored] by (auto simp: sessions_wf_def)
qed

lemma refresh_wf_eq:
  assumes "sessions_wf s"
  shows "refresh sec now jtis tid ff tok s = (case refresh_checks sec now tok s of
     Inl e \<Rightarrow> (Inl e, s) | Inr (stored, user) \<Rightarrow> rotate_session sec now jtis tid ff tok stored user s)"
  using no_reuse [OF assms] by (auto simp: refresh_def split: sum.splits)

lemma rotate_E:
  assumes "rotate_session sec now jtis tid ff tok stored user s = (Inr tokens, s')" and "sessions_wf s"
  obtains r where "tokens = generate_token_pair sec now jtis (u_id user)"
    and "au_refresh s' = map (revoked (hash_token sec tok)) (au_refresh s @ [r])"
    and "au_db s' = au_db s" and "au_reset_tokens s' = au_reset_tokens s"
    and "au_email_tokens s' = au_email_tokens s" and "au_api_keys s' = au_api_keys s"
    and "rt_id r \<notin> rt_id ` set (au_refresh s)" and "rt_token_hash r \<notin> rt_token_hash ` set (au_refresh s)"
    and "rt_token_hash r = hash_token sec (tr_refresh_token tokens)"
    and "rt_token_family r = rt_token_family stored" and "rt_token_sequence r = rt_token_sequence stored + 1"
    and "rt_user_id r = u_id user" and "\<not> rt_is_revoked r"
proof -
  let ?t = "generate_token_pair sec now jtis (u_id user)"
  obtain r where st: "store_refresh_token sec tid ff now (u_id user) (tr_refresh_token ?t)
      (now + days (sec_refresh_days sec)) (Some (rt_token_family stored)) (rt_token_sequence stored + 1) s =
      (Inr r, add_refresh r s)" and t: "tokens = ?t"
    and s': "s' = snd (revoke_refresh_token sec tok (add_refresh r s))"
    using assms(1) by (auto simp: rotate_session_def Let_def elim!: and_then_E dest: store_refresh_token_E(1))
  note E = store_refresh_token_E [OF st]
  have "distinct (map rt_id (au_refresh (add_refresh r s)))"
    "distinct (map rt_token_hash (au_refresh (add_refresh r s)))"
    using assms(2) E by (auto simp: sessions_wf_def refresh_repo.rows_add)
  then have "au_refresh s' = map (revoked (hash_token sec tok)) (au_refresh s @ [r])"
    by (simp add: s' revoke_rows refresh_repo.rows_add)
  then show ?thesis
    using E by (intro that [of r]) (simp_all add: s' t add_refresh_def)
qed

lemma rotate_wf:
  assumes "sessions_wf s" and "get_refresh_token sec s tok = Some stored" and "\<not> rt_is_revoked stored"
    and "rotate_session sec now jtis tid ff tok stored user s = (Inr tokens, s')"
  shows "sessions_wf s'"
  using assms(4,1)
proof (rule rotate_E)
  fix r
  assume tokens: "tokens = generate_token_pair sec now jtis (u_id user)"
    and rows: "au_refresh s' = map (revoked (hash_token sec tok)) (au_refresh s @ [r])"
    and "rt_id r \<notin> rt_id ` set (au_refresh s)" "rt_token_hash r \<notin> rt_token_hash ` set (au_refresh s)"
    and fam: "rt_token_family r = rt_token_family stored"
    and sq: "rt_token_sequence r = rt_token_sequence stored + 1"
  then have dist: "distinct (map rt_id (au_refresh s'))" "distinct (map rt_token_hash (au_refresh s'))"
    using assms(1) by (auto simp: sessions_wf_def comp_def)
  have stored: "stored \<in> set (au_refresh s)" "rt_token_hash stored = hash_token sec tok"
    using assms(2) by (auto dest: get_refresh_token_row)
  then have top: "tip (au_refresh s) stored"
    using assms(1,3) by (auto simp: sessions_wf_def)
  have "tip (au_refresh s') x" if x: "x \<in> set (au_refresh s')" "\<not> rt_is_revoked x" for x
  proof -
    obtain y where y: "y \<in> set (au_refresh s @ [r])" "x = revoked (hash_token sec tok) y"
      using x(1) rows by auto
    with x(2) have y2: "\<not> rt_is_revoked y" "rt_token_hash y \<noteq> hash_token sec tok"
      by simp_all
    show ?thesis
    proof (cases "y = r")
      case True
      then show ?thesis
        using top by (auto simp: tip_def rows y fam sq)
    next
      case False
      with y(1) have "y \<in> set (au_refresh s)"
        by simp
      then have "tip (au_refresh s) y"
        using assms(1) y2(1) by (auto simp: sessions_wf_def)
      moreover have "rt_token_family y \<noteq> rt_token_family stored"
        using top calculation \<open>y \<in> set (au_refresh s)\<close> stored y2(2) unfolding tip_def by force
      ultimately show ?thesis
        by (auto simp: tip_def rows y fam) 
    qed
  qed
  with dist show ?thesis
    by (auto simp: sessions_wf_def)
qed

section \<open>One-time tokens\<close>

interpretation token_repo:
  row_repo ot_id "\<lambda>ts. ts" "\<lambda>ts k. get_row ot_id k ts" "save_row ot_id" "\<lambda>r ts. ts @ [r]"
  by unfold_locales (auto simp: get_row_None dest: get_row_Some)

definition tokens_wf :: "one_time_token list \<Rightarrow> bool" where
  "tokens_wf ts = (distinct (map ot_id ts) \<and> distinct (map ot_token_hash ts))"

definition spent :: "string \<Rightarrow> one_time_token list \<Rightarrow> bool" where
  "spent h ts = (\<exists>r \<in> set ts. ot_token_hash r = h \<and> ot_is_used r)"

text \<open>Every operation keeps the rows and their use.\<close>

definition tokens_le :: "one_time_token list \<Rightarrow> one_time_token list \<Rightarrow> bool" where
  "tokens_le ts ts' = ((tokens_wf ts \<longrightarrow> tokens_wf ts') \<and> (\<forall>h. spent h ts \<longrightarrow> spent h ts'))"

lemma tokens_le_refl [simp, intro]: "tokens_le ts ts"
  by (simp add: tokens_le_def)

lemma tokens_le_trans: "tokens_le a b \<Longrightarrow> tokens_le b c \<Longrightarrow> tokens_le a c"
  by (simp add: tokens_le_def)

lemma store_token_le: "store_token i now u h ex ts = Some ts' \<Longrightarrow> tokens_le ts ts'"
  by (auto simp: store_token_def tokens_le_def tokens_wf_def spent_def split: if_splits)

lemma token_by_hash_known:
  "tokens_wf ts \<Longrightarrow> r \<in> set ts \<Longrightarrow> ot_token_hash r = h \<Longrightarrow> token_by_hash h ts = Some r"
  by (auto simp: token_by_hash_def tokens_wf_def intro: get_row_distinct)

lemma spent_found: "tokens_wf ts \<Longrightarrow> spent h ts \<Longrightarrow> \<exists>r. token_by_hash h ts = Some r \<and> ot_is_used r"
  by (auto simp: spent_def dest: token_by_hash_known)

lemma mark_used_le:
  assumes "\<And>r. ot_id (f r) = ot_id r" and "\<And>r. ot_token_hash (f r) = ot_token_hash r"
    and "\<And>r. ot_is_used r \<Longrightarrow> ot_is_used (f r)"
  shows "tokens_le ts (map f ts)"
  using assms by (auto simp: tokens_le_def tokens_wf_def spent_def comp_def)

lemma use_token_rows:
  assumes "tokens_wf ts" and "r \<in> set ts"
  shows "use_token r ts = map (\<lambda>x. if ot_id x = ot_id r then x\<lparr>ot_is_used := True\<rparr> else x) ts"
  using assms by (auto simp: use_token_def save_row_def tokens_wf_def dest: distinct_map_inj)

lemma use_token_le:
  assumes "tokens_wf ts" and "r \<in> set ts"
  shows "tokens_le ts (use_token r ts)" and "spent (ot_token_hash r) (use_token r ts)"
proof -
  show "tokens_le ts (use_token r ts)"
    unfolding use_token_rows [OF assms] by (auto intro!: mark_used_le)
  have "r\<lparr>ot_is_used := True\<rparr> \<in> set (use_token r ts)"
    unfolding use_token_rows [OF assms] using assms(2) by force
  then show "spent (ot_token_hash r) (use_token r ts)"
    unfolding spent_def by (rule rev_bexI) simp
qed

lemma use_all_rows:
  assumes "tokens_wf ts"
  shows "use_all u ts = map (\<lambda>r. if ot_user_id r = u \<and> \<not> ot_is_used r then r\<lparr>ot_is_used := True\<rparr> else r) ts"
  unfolding use_all_def use_token_def [abs_def]
  using assms token_repo.save_loop [of ts "\<lambda>r. r\<lparr>ot_is_used := True\<rparr>" "\<lambda>r. ot_user_id r = u \<and> \<not> ot_is_used r"]
  by (simp add: tokens_wf_def)

lemma use_all_le: "tokens_wf ts \<Longrightarrow> tokens_le ts (use_all u ts)"
  by (auto simp: use_all_rows intro!: mark_used_le)

section \<open>Steps\<close>

definition auth_wf :: "auth \<Rightarrow> bool" where
  "auth_wf s = (sessions_wf s \<and> tokens_wf (au_email_tokens s) \<and> tokens_wf (au_reset_tokens s))"

definition dead :: "string \<Rightarrow> auth \<Rightarrow> bool" where
  "dead h s = (\<exists>r \<in> set (au_refresh s). rt_token_hash r = h \<and> rt_is_revoked r)"

text \<open>What a step may do: keep the invariant, every revocation and every use.\<close>

definition auth_le :: "auth \<Rightarrow> auth \<Rightarrow> bool" where
  "auth_le s s' = (auth_wf s \<longrightarrow> auth_wf s' \<and> (\<forall>h. dead h s \<longrightarrow> dead h s') \<and>
     (\<forall>h. spent h (au_email_tokens s) \<longrightarrow> spent h (au_email_tokens s')) \<and>
     (\<forall>h. spent h (au_reset_tokens s) \<longrightarrow> spent h (au_reset_tokens s')))"

lemma auth_le_refl [simp, intro]: "auth_le s s"
  by (simp add: auth_le_def)

lemma auth_le_trans: "auth_le a b \<Longrightarrow> auth_le b c \<Longrightarrow> auth_le a c"
  by (simp add: auth_le_def)

lemma auth_le_tokens:
  assumes "au_refresh s' = au_refresh s"
    and "tokens_wf (au_email_tokens s) \<Longrightarrow> tokens_le (au_email_tokens s) (au_email_tokens s')"
    and "tokens_wf (au_reset_tokens s) \<Longrightarrow> tokens_le (au_reset_tokens s) (au_reset_tokens s')"
  shows "auth_le s s'"
  using assms by (auto simp: auth_le_def auth_wf_def sessions_wf_def dead_def tokens_le_def)

lemma with_session_le:
  assumes "\<And>v s'. f s = (Inr v, s') \<Longrightarrow> auth_le s s'"
  shows "auth_le s (snd (with_session f s))"
  using assms by (auto simp: with_session_def split: prod.splits sum.splits)

lemma open_session_le:
  assumes "fam \<notin> rt_token_family ` set (au_refresh s)"
    and "open_session sec now jtis tid fam u s = (Inr tokens, s')"
  shows "auth_le s s'"
  using assms(2)
proof (rule open_session_E)
  fix r
  assume "s' = add_refresh r s"
  then show ?thesis
    using open_session_wf [OF _ assms] by (auto simp: auth_le_def auth_wf_def dead_def add_refresh_def)
qed

lemma login_le:
  assumes "fam \<notin> rt_token_family ` set (au_refresh s)" and "login sec now jtis tid fam email pw s = (Inr v, s')"
  shows "auth_le s s'"
  using assms by (auto simp: login_def split: option.splits if_splits intro: open_session_le)

lemma on_db_E:
  assumes "on_db f s = (Inr v, s')"
  obtains d where "f (au_db s) = (Inr v, d)" and "s' = s\<lparr>au_db := d\<rparr>"
  using assms by (auto simp: on_db_def split: prod.splits)

lemma register_le:
  assumes "ri_family ids \<notin> rt_token_family ` set (au_refresh s)" and "register sec now ids rq s = (Inr v, s')"
  shows "auth_le s s'"
proof -
  have "\<exists>i d tokens. open_session sec now (ri_jtis ids) (ri_token ids) (ri_family ids) i
      (s\<lparr>au_db := d\<rparr>) = (Inr tokens, s')"
    using assms(2) by (auto simp: register_def split: option.splits elim!: and_then_E on_db_E) blast
  then obtain i d tokens where opened: "open_session sec now (ri_jtis ids) (ri_token ids) (ri_family ids) i
      (s\<lparr>au_db := d\<rparr>) = (Inr tokens, s')"
    by blast
  have "auth_le (s\<lparr>au_db := d\<rparr>) s'"
    using assms(1) by (intro open_session_le [OF _ opened]) simp
  moreover have "auth_le s (s\<lparr>au_db := d\<rparr>)"
    by (rule auth_le_tokens) simp_all
  ultimately show ?thesis
    by (blast intro: auth_le_trans)
qed

lemma logout_le: "auth_le s (snd (revoke_refresh_token sec tok s))"
  by (force simp: auth_le_def auth_wf_def sessions_wf_def dead_def tip_def revoke_rows comp_def)

lemma refresh_le:
  assumes "refresh sec now jtis tid ff tok s = (Inr v, s')"
  shows "auth_le s s'"
  unfolding auth_le_def
proof (rule impI)
  assume wf: "auth_wf s"
  then have swf: "sessions_wf s"
    by (simp add: auth_wf_def)
  then obtain stored user where ck: "refresh_checks sec now tok s = Inr (stored, user)"
    and rot: "rotate_session sec now jtis tid ff tok stored user s = (Inr v, s')"
    using assms by (auto simp: refresh_wf_eq split: sum.splits)
  have "sessions_wf s'"
    using rotate_wf [OF swf refresh_checks_E(1,2) [OF ck] rot] .
  moreover from rot swf obtain r where
    "au_refresh s' = map (revoked (hash_token sec tok)) (au_refresh s @ [r])"
    "au_reset_tokens s' = au_reset_tokens s" "au_email_tokens s' = au_email_tokens s"
    by (rule rotate_E)
  ultimately show "auth_wf s' \<and> (\<forall>h. dead h s \<longrightarrow> dead h s') \<and>
     (\<forall>h. spent h (au_email_tokens s) \<longrightarrow> spent h (au_email_tokens s')) \<and>
     (\<forall>h. spent h (au_reset_tokens s) \<longrightarrow> spent h (au_reset_tokens s'))"
    using wf by (auto simp: auth_wf_def dead_def)
qed

lemma get_token_use:
  assumes "token_by_hash h ts = Some r" and "tokens_wf ts"
  shows "tokens_le ts (use_token r ts)" and "spent h (use_token r ts)"
proof -
  have "r \<in> set ts" "ot_token_hash r = h"
    using assms(1) by (auto simp: token_by_hash_def dest: get_row_Some)
  then show "tokens_le ts (use_token r ts)" "spent h (use_token r ts)"
    using use_token_le [OF assms(2), of r] by simp_all
qed

lemma renew_token_le:
  "store_token i now u h ex (use_all u ts) = Some ts' \<Longrightarrow> tokens_wf ts \<Longrightarrow> tokens_le ts ts'"
  by (rule tokens_le_trans [OF use_all_le store_token_le])

lemma user_get_saved:
  "user_get_by_id (save_user r d) u = (if u = u_id r then map_option (\<lambda>_. r) (user_get_by_id d u) else user_get_by_id d u)"
  by (simp add: user_get_by_id_def save_user_def get_row_save)

lemma user_get_id: "user_get_by_id d u = Some r \<Longrightarrow> u_id r = u"
  by (auto simp: user_get_by_id_def dest: get_row_Some)

text \<open>What a successful reset did: the token was fresh and is used, and only the password changed.\<close>

lemma reset_password_E:
  assumes "reset_password sec now salt tok pw s = (Inr v, s')"
  obtains r d where "get_password_reset_token sec s tok = Some r" and "\<not> ot_is_used r" and "now \<le> ot_expires_at r"
    and "s' = snd (mark_password_reset_used sec tok s)\<lparr>au_db := d\<rparr>"
    and "\<And>u. map_option u_is_active (user_get_by_id d u) = map_option u_is_active (user_get_by_id (au_db s) u)"
proof -
  obtain r where r: "get_password_reset_token sec s tok = Some r" "\<not> ot_is_used r" "now \<le> ot_expires_at r"
    using assms by (auto simp: reset_password_def split: option.splits if_splits)
  have "\<exists>h. (case user_get_by_id (au_db s) (ot_user_id r) of
        None \<Rightarrow> s' = snd (mark_password_reset_used sec tok s)
      | Some user \<Rightarrow> (\<exists>w d. user_update user [UfPasswordHash (Some h)] (au_db s) = (Inr w, d) \<and>
          s' = snd (mark_password_reset_used sec tok s)\<lparr>au_db := d\<rparr>))"
    using assms r by (auto simp: reset_password_def Let_def mark_password_reset_used_def
        split: option.splits elim!: and_then_E on_db_E) blast
  then obtain h where rest: "(case user_get_by_id (au_db s) (ot_user_id r) of
        None \<Rightarrow> s' = snd (mark_password_reset_used sec tok s)
      | Some user \<Rightarrow> (\<exists>w d. user_update user [UfPasswordHash (Some h)] (au_db s) = (Inr w, d) \<and>
          s' = snd (mark_password_reset_used sec tok s)\<lparr>au_db := d\<rparr>))"
    by blast
  show ?thesis
  proof (cases "user_get_by_id (au_db s) (ot_user_id r)")
    case None
    have "au_db (snd (mark_password_reset_used sec tok s)) = au_db s"
      by (simp add: mark_password_reset_used_def r)
    with None rest r show ?thesis
      by (intro that [of r "au_db s"]) simp_all
  next
    case (Some user)
    with rest obtain w d where d: "user_update user [UfPasswordHash (Some h)] (au_db s) = (Inr w, d)"
      and s': "s' = snd (mark_password_reset_used sec tok s)\<lparr>au_db := d\<rparr>"
      by auto
    then have "d = save_user (user\<lparr>u_password_hash := h\<rparr>) (au_db s)"
      by (auto simp: user_update_def set_fields_def Let_def split: if_splits)
    then show ?thesis
      using r s' Some user_get_id [OF Some] by (intro that [of r d]) (auto simp: user_get_saved)
  qed
qed

lemma reset_le: "reset_password sec now salt tok pw s = (Inr v, s') \<Longrightarrow> auth_le s s'"
  by (erule reset_password_E, rule auth_le_tokens)
    (auto simp: mark_password_reset_used_def get_password_reset_token_def dest: get_token_use(1))

lemma request_reset_le: "send_password_reset_email sec base now tid tok email s = (Inr v, s') \<Longrightarrow> auth_le s s'"
  by (rule auth_le_tokens, auto simp: send_password_reset_email_def create_password_reset_token_def revoke_all_password_reset_tokens_def
      split: option.splits elim!: and_then_E)
    (erule (1) renew_token_le)

lemma request_verification_le: "send_verification_email sec base now tid tok email s = (Inr v, s') \<Longrightarrow> auth_le s s'"
  by (rule auth_le_tokens, auto simp: send_verification_email_def create_email_verification_token_def revoke_all_email_verification_tokens_def
      split: option.splits if_splits elim!: and_then_E)
    (erule (1) renew_token_le)

lemma verify_email_E:
  assumes "verify_email sec now tok s = (Inr v, s')"
  obtains r where "get_email_verification_token sec s tok = Some r" and "\<not> ot_is_used r" and "now \<le> ot_expires_at r"
    and "au_refresh s' = au_refresh s" and "au_reset_tokens s' = au_reset_tokens s"
    and "au_email_tokens s' = use_token r (au_email_tokens s)"
  using assms by (auto simp: verify_email_def Let_def mark_email_verification_used_def
      split: option.splits if_splits elim!: and_then_E on_db_E intro: that)

lemma verify_email_le: "verify_email sec now tok s = (Inr v, s') \<Longrightarrow> auth_le s s'"
  by (erule verify_email_E, rule auth_le_tokens)
    (auto simp: get_email_verification_token_def dest: get_token_use(1))

lemma on_auth_E:
  assumes "on_auth f s = (Inr v, s')"
  obtains a where "f (sg_auth s) = (Inr v, a)" and "s' = s\<lparr>sg_auth := a\<rparr>"
  using assms by (auto simp: on_auth_def split: prod.splits)

lemma check_signin_state_auth: "check_signin_state now prefix state s = (r, s') \<Longrightarrow> sg_auth s' = sg_auth s"
  by (auto simp: check_signin_state_def validate_state_def split: if_splits prod.splits)

text \<open>The sign-ins with an external identity open a session of a new family.\<close>

lemma oauth_session_le:
  assumes "ri_family ids \<notin> rt_token_family ` set (au_refresh s)" and "oauth_session sec now ids x s = (Inr v, s')"
  shows "auth_le s s'"
  using assms by (auto simp: oauth_session_def pure_step_def elim!: and_then_E split: if_splits intro: open_session_le)

lemma on_db_le: "on_db f s = (Inr v, s') \<Longrightarrow> auth_le s s' \<and> au_refresh s' = au_refresh s"
  by (auto elim!: on_db_E intro!: auth_le_tokens)

lemma signin_le:
  assumes "and_then (and_then (check_signin_state now prefix state) (\<lambda>_. and_then (pure_step y) (\<lambda>p.
      and_then (on_auth (on_db (f p))) (\<lambda>x. on_auth (oauth_session sec now ids x))))) (oauth_answer sec now) g = (Inr v, g')"
    and "ri_family ids \<notin> rt_token_family ` set (au_refresh (sg_auth g))"
  shows "auth_le (sg_auth g) (sg_auth g')"
proof -
  obtain g1 p g2 x g3 z where c: "check_signin_state now prefix state g = (Inr (), g1)"
    and a: "on_auth (on_db (f p)) g1 = (Inr x, g2)" and o1: "on_auth (oauth_session sec now ids x) g2 = (Inr z, g3)"
    and ans: "oauth_answer sec now z g3 = (Inr v, g')"
    using assms(1) by (auto simp: pure_step_def elim!: and_then_E)
  have g': "g' = g3"
    using ans by (auto simp: oauth_answer_def split: sum.splits option.splits)
  have g1: "sg_auth g1 = sg_auth g"
    using check_signin_state_auth [OF c] .
  have "auth_le (sg_auth g1) (sg_auth g2) \<and> au_refresh (sg_auth g2) = au_refresh (sg_auth g1)"
    using a by (rule on_auth_E) (auto dest: on_db_le)
  moreover from this have fam: "ri_family ids \<notin> rt_token_family ` set (au_refresh (sg_auth g2))"
    using assms(2) by (simp add: g1)
  have "auth_le (sg_auth g2) (sg_auth g3)"
    using o1 by (rule on_auth_E) (simp add: oauth_session_le [OF fam])
  ultimately show ?thesis
    unfolding g' using auth_le_trans g1 by metis
qed

lemma google_le:
  "google_auth_callback sec st pv now ids password code state g = (Inr v, g') \<Longrightarrow>
    ri_family ids \<notin> rt_token_family ` set (au_refresh (sg_auth g)) \<Longrightarrow> auth_le (sg_auth g) (sg_auth g')"
  unfolding google_auth_callback_def google_authenticate_def by (rule signin_le)

lemma github_le:
  "github_auth_callback sec st pv now ids password code state g = (Inr v, g') \<Longrightarrow>
    ri_family ids \<notin> rt_token_family ` set (au_refresh (sg_auth g)) \<Longrightarrow> auth_le (sg_auth g) (sg_auth g')"
  unfolding github_auth_callback_def github_authenticate_def by (rule signin_le)

lemma signin_session_le:
  assumes "with_signin_session f g = (res, g')" and "\<And>v g1. f g = (Inr v, g1) \<Longrightarrow> auth_le (sg_auth g) (sg_auth g1)"
  shows "auth_le (sg_auth g) (sg_auth g')"
  using assms by (auto simp: with_signin_session_def split: prod.splits sum.splits)

lemma supabase_le:
  assumes "ri_family ids \<notin> rt_token_family ` set (au_refresh s)" and "supabase_me sec now ids rnd payload s = (Inr v, s')"
  shows "auth_le s s'"
proof -
  obtain m user s1 where a: "on_db (supabase_account now ids rnd m) s = (Inr user, s1)"
    and o1: "supabase_session sec now ids user s1 = (Inr v, s')"
    using assms(2) by (auto simp: supabase_me_def pure_step_def elim!: and_then_E)
  from o1 obtain r where st: "store_refresh_token sec (ri_token ids) (ri_family ids) now (u_id user)
      (tr_refresh_token (generate_token_pair sec now (ri_jtis ids) (u_id user))) (now + minutes (sec_access_minutes sec)) None 1 s1 = (Inr r, s')"
    by (auto simp: supabase_session_def Let_def pure_step_def elim!: and_then_E)
  note E = store_refresh_token_E [OF st]
  have "auth_le s s1" "au_refresh s1 = au_refresh s"
    using on_db_le [OF a] by simp_all
  moreover from this have "auth_le s1 s'"
    using assms(1) E sessions_wf_add [of s1 r] by (auto simp: auth_le_def auth_wf_def dead_def add_refresh_def)
  ultimately show ?thesis
    using auth_le_trans by blast
qed

inductive auth_step :: "security \<Rightarrow> auth \<Rightarrow> auth \<Rightarrow> bool" for sec where
  registers: "ri_family ids \<notin> rt_token_family ` set (au_refresh s) \<Longrightarrow>
    auth_step sec s (snd (with_session (register sec now ids rq) s))"
| logs_in: "fam \<notin> rt_token_family ` set (au_refresh s) \<Longrightarrow>
    auth_step sec s (snd (with_session (login sec now jtis tid fam email pw) s))"
| google: "with_signin_session (google_auth_callback sec st pv now ids password code state) g = (res, g') \<Longrightarrow>
    ri_family ids \<notin> rt_token_family ` set (au_refresh (sg_auth g)) \<Longrightarrow> auth_step sec (sg_auth g) (sg_auth g')"
| github: "with_signin_session (github_auth_callback sec st pv now ids password code state) g = (res, g') \<Longrightarrow>
    ri_family ids \<notin> rt_token_family ` set (au_refresh (sg_auth g)) \<Longrightarrow> auth_step sec (sg_auth g) (sg_auth g')"
| supabase: "ri_family ids \<notin> rt_token_family ` set (au_refresh s) \<Longrightarrow>
    auth_step sec s (snd (with_session (supabase_me sec now ids rnd payload) s))"
| refreshes: "auth_step sec s (snd (with_session (refresh sec now jtis tid ff tok) s))"
| logs_out: "auth_step sec s (snd (with_session (logout sec tok) s))"
| asks_verification: "auth_step sec s (snd (with_session (send_verification_email sec base now tid tok email) s))"
| verifies: "auth_step sec s (snd (with_session (verify_email sec now tok) s))"
| asks_reset: "auth_step sec s (snd (with_session (send_password_reset_email sec base now tid tok email) s))"
| resets: "auth_step sec s (snd (with_session (reset_password sec now salt tok pw) s))"
| elsewhere: "auth_step sec s (s\<lparr>au_db := d, au_api_keys := ks\<rparr>)"

lemma auth_step_le: "auth_step sec s s' \<Longrightarrow> auth_le s s'"
proof (induction rule: auth_step.induct)
  case (logs_out s tok)
  then show ?case
    by (simp add: with_session_def logout_def logout_le)
next
  case (google st pv now ids password code state g res g')
  then show ?case
    by (blast intro: signin_session_le google_le)
next
  case (github st pv now ids password code state g res g')
  then show ?case
    by (blast intro: signin_session_le github_le)
qed (auto intro: with_session_le register_le login_le refresh_le request_verification_le verify_email_le
    request_reset_le reset_le supabase_le auth_le_tokens)

lemma auth_steps_le: "(auth_step sec)\<^sup>*\<^sup>* s s' \<Longrightarrow> auth_le s s'"
  by (induction rule: rtranclp_induct) (auto intro: auth_le_trans auth_step_le)

end
