(* ===== verification/Auth_Properties.thy ===== *)
theory Auth_Properties
  imports Session_Steps
begin

text \<open>
  The properties of sessions, registration and the email flows.
\<close>

section \<open>Concrete states\<close>

definition empty_auth :: auth where
  "empty_auth = \<lparr>au_db = empty_db, au_refresh = [], au_email_tokens = [], au_reset_tokens = [], au_api_keys = []\<rparr>"

lemma empty_auth_wf: "auth_wf empty_auth"
  by (simp add: auth_wf_def empty_auth_def sessions_wf_def tokens_wf_def)

lemma reachable_wf: "(auth_step sec)\<^sup>*\<^sup>* empty_auth s \<Longrightarrow> auth_wf s"
  using auth_steps_le empty_auth_wf by (fastforce simp: auth_le_def)

text \<open>A library whose tokens are the identifiers of their payloads.\<close>

definition demo_claims :: "string \<Rightarrow> string \<Rightarrow> (string \<times> json) list" where
  "demo_claims ty jti = [(''sub'', JStr (uuid_str 1)), (''iat'', JInt 0), (''nbf'', JInt 0),
     (''exp'', JInt 2592000), (''type'', JStr ty), (''jti'', JStr jti)]"

definition demo_security :: security where
  "demo_security = \<lparr>sec_sha256 = (\<lambda>t. t), sec_hashpw = (\<lambda>p salt. Some (salt @ p)),
     sec_checkpw = (\<lambda>p h. Some (h = ''s'' @ p)),
     sec_jwt_encode = (\<lambda>d. py_str (dget d ''jti'')),
     sec_jwt_decode = (\<lambda>now t. if hd t = CHR ''r'' then JwtClaims (demo_claims ''refresh'' t)
        else if hd t = CHR ''a'' then JwtClaims (demo_claims ''access'' t) else JwtInvalid),
     sec_access_minutes = 15, sec_refresh_days = 30\<rparr>"

definition demo_user :: user where
  "demo_user = \<lparr>u_id = 1, u_email = ''a@b.c'', u_password_hash = ''spw'', u_full_name = ''A'', u_is_active = True,
     u_is_email_verified = False, u_is_superuser = False, u_google_id = None, u_github_id = None,
     u_avatar_url = None, u_auth_provider = None, u_external_auth_id = None, u_is_system_admin = False,
     u_admin_note = None, u_source = None, u_last_login_at = None, u_last_activity_at = None, u_login_count = 0,
     u_created_at = 0\<rparr>"

definition demo_users :: db where
  "demo_users = \<lparr>db_users = [demo_user], db_organizations = [], db_members = [], db_clients = [],
     db_applications = [], db_subscriptions = [], db_referral_codes = [], db_profiles = [], db_referrals = [],
     db_commissions = [], db_payouts = [], db_audit = [], db_admin_audit = []\<rparr>"

definition demo_row :: "uuid \<Rightarrow> string \<Rightarrow> int \<Rightarrow> bool \<Rightarrow> refresh_token" where
  "demo_row i h sq gone = \<lparr>rt_id = i, rt_user_id = 1, rt_token_hash = h, rt_token_family = 7, rt_token_sequence = sq,
     rt_is_revoked = gone, rt_expires_at = 2592000000000, rt_created_at = 0\<rparr>"

definition demo_auth :: auth where
  "demo_auth = \<lparr>au_db = demo_users, au_refresh = [], au_email_tokens = [], au_reset_tokens = [], au_api_keys = []\<rparr>"

definition demo_login :: auth where
  "demo_login = \<lparr>au_db = demo_users, au_refresh = [demo_row 11 ''r1'' 1 False],
     au_email_tokens = [], au_reset_tokens = [], au_api_keys = []\<rparr>"

definition demo_rotated :: auth where
  "demo_rotated = \<lparr>au_db = demo_users, au_refresh = [demo_row 11 ''r1'' 1 True, demo_row 12 ''r2'' 2 False],
     au_email_tokens = [], au_reset_tokens = [], au_api_keys = []\<rparr>"

definition demo_pair :: "string \<Rightarrow> string \<Rightarrow> token_response" where
  "demo_pair a r = \<lparr>tr_access_token = a, tr_refresh_token = r, tr_token_type = ''bearer'', tr_expires_in = 900\<rparr>"

lemma demo_login_reply:
  "fst (login demo_security 0 (''a1'', ''r1'') 11 7 ''A@b.c'' ''pw'' demo_auth) = Inr (demo_pair ''a1'' ''r1'')"
  by code_simp

lemma demo_login_state: "snd (login demo_security 0 (''a1'', ''r1'') 11 7 ''A@b.c'' ''pw'' demo_auth) = demo_login"
  by code_simp

lemma demo_login_run: "login demo_security 0 (''a1'', ''r1'') 11 7 ''A@b.c'' ''pw'' demo_auth = (Inr (demo_pair ''a1'' ''r1''), demo_login)"
  by (rule prod_eqI) (simp_all only: fst_conv snd_conv demo_login_reply demo_login_state)

lemma demo_checks_at:
  assumes "au_db s = demo_users" and "hd tok = CHR ''r''" and "get_refresh_token demo_security s tok = Some row" and "\<not> rt_is_revoked row"
  shows "refresh_checks demo_security 0 tok s = Inr (row, demo_user)"
proof -
  have "decode_token demo_security 0 tok = Inr (demo_claims ''refresh'' tok)"
    using assms(2) by (simp add: decode_token_def demo_security_def)
  moreover have "user_get_by_id (au_db s) 1 = Some demo_user"
    unfolding assms(1) by code_simp
  moreover have "parse_uuid (uuid_str 1) = Some 1"
    by (rule uuid_roundtrip_aux) simp
  moreover have "uuid_str 1 \<noteq> []"
    by code_simp
  ultimately show ?thesis
    using assms(3,4) by (simp add: refresh_checks_def demo_claims_def dget_def demo_user_def)
qed

lemma demo_checks: "refresh_checks demo_security 0 ''r1'' demo_login = Inr (demo_row 11 ''r1'' 1 False, demo_user)"
proof (rule demo_checks_at)
  show "get_refresh_token demo_security demo_login ''r1'' = Some (demo_row 11 ''r1'' 1 False)"
    by code_simp
qed (simp_all add: demo_login_def demo_row_def)

lemma demo_refresh_run: "refresh demo_security 0 (''a2'', ''r2'') 12 8 ''r1'' demo_login = (Inr (demo_pair ''a2'' ''r2''), demo_rotated)"
proof -
  have "\<not> get_latest_sequence demo_login (rt_token_family (demo_row 11 ''r1'' 1 False)) > rt_token_sequence (demo_row 11 ''r1'' 1 False)"
    by code_simp
  moreover have "fst (rotate_session demo_security 0 (''a2'', ''r2'') 12 8 ''r1'' (demo_row 11 ''r1'' 1 False) demo_user demo_login) =
      Inr (demo_pair ''a2'' ''r2'')"
    by code_simp
  moreover have "snd (rotate_session demo_security 0 (''a2'', ''r2'') 12 8 ''r1'' (demo_row 11 ''r1'' 1 False) demo_user demo_login) =
      demo_rotated"
    by code_simp
  ultimately show ?thesis
    by (simp add: refresh_def demo_checks prod_eq_iff)
qed

lemma committed: "f s = (Inr v, s') \<Longrightarrow> with_session f s = (Inr v, s')"
  by (simp add: with_session_def)

lemma demo_reach: "(auth_step demo_security)\<^sup>*\<^sup>* empty_auth demo_login"
proof -
  have "auth_step demo_security empty_auth (empty_auth\<lparr>au_db := demo_users, au_api_keys := []\<rparr>)"
    by (rule auth_step.elsewhere)
  moreover have "empty_auth\<lparr>au_db := demo_users, au_api_keys := []\<rparr> = demo_auth"
    by (simp add: empty_auth_def demo_auth_def)
  moreover have "auth_step demo_security demo_auth demo_login"
    using auth_step.logs_in [of 7 demo_auth demo_security 0 "(''a1'', ''r1'')" 11 "''A@b.c''" "''pw''"]
    unfolding committed [of "login demo_security 0 (''a1'', ''r1'') 11 7 ''A@b.c'' ''pw''", OF demo_login_run]
    by (simp add: demo_auth_def)
  ultimately show ?thesis
    by (metis converse_rtranclp_into_rtranclp rtranclp.rtrancl_refl)
qed

section \<open>Sessions\<close>

text \<open>
  Two refreshes of one token that run at the same time: both look the token up before either
  writes, so both succeed and the family has two live tokens of one sequence number; once one of them is
  refreshed, the other is older than the newest.
\<close>

definition demo_split :: auth where
  "demo_split = demo_rotated\<lparr>au_refresh := [demo_row 11 ''r1'' 1 True, demo_row 12 ''r2'' 2 False, demo_row 13 ''r3'' 2 False]\<rparr>"

definition demo_race :: auth where
  "demo_race = demo_rotated\<lparr>au_refresh := [demo_row 11 ''r1'' 1 True, demo_row 12 ''r2'' 2 True, demo_row 13 ''r3'' 2 False,
     demo_row 14 ''r4'' 3 False]\<rparr>"

lemma demo_race_run:
  "refresh_checks demo_security 0 ''r1'' demo_login = Inr (demo_row 11 ''r1'' 1 False, demo_user) \<and>
   snd (rotate_session demo_security 0 (''a2'', ''r2'') 12 8 ''r1'' (demo_row 11 ''r1'' 1 False) demo_user demo_login) = demo_rotated \<and>
   snd (rotate_session demo_security 0 (''a3'', ''r3'') 13 8 ''r1'' (demo_row 11 ''r1'' 1 False) demo_user demo_rotated) = demo_split \<and>
   snd (refresh demo_security 0 (''a4'', ''r4'') 14 8 ''r2'' demo_split) = demo_race"
proof (intro conjI)
  show "refresh_checks demo_security 0 ''r1'' demo_login = Inr (demo_row 11 ''r1'' 1 False, demo_user)"
    by (rule demo_checks)
  show "snd (rotate_session demo_security 0 (''a2'', ''r2'') 12 8 ''r1'' (demo_row 11 ''r1'' 1 False) demo_user demo_login) = demo_rotated"
    "snd (rotate_session demo_security 0 (''a3'', ''r3'') 13 8 ''r1'' (demo_row 11 ''r1'' 1 False) demo_user demo_rotated) = demo_split"
    by code_simp+
  have "refresh_checks demo_security 0 ''r2'' demo_split = Inr (demo_row 12 ''r2'' 2 False, demo_user)"
  proof (rule demo_checks_at)
    show "get_refresh_token demo_security demo_split ''r2'' = Some (demo_row 12 ''r2'' 2 False)"
      by code_simp
  qed (simp_all add: demo_split_def demo_rotated_def demo_row_def)
  moreover have "\<not> get_latest_sequence demo_split (rt_token_family (demo_row 12 ''r2'' 2 False)) > rt_token_sequence (demo_row 12 ''r2'' 2 False)"
    by code_simp
  moreover have "snd (rotate_session demo_security 0 (''a4'', ''r4'') 14 8 ''r2'' (demo_row 12 ''r2'' 2 False) demo_user demo_split) = demo_race"
    by code_simp
  ultimately show "snd (refresh demo_security 0 (''a4'', ''r4'') 14 8 ''r2'' demo_split) = demo_race"
    by (simp add: refresh_def)
qed

lemma demo_race_fires:
  "fst (refresh demo_security 0 (''a5'', ''r5'') 15 8 ''r3'' demo_race) =
    Inl (UnauthorizedException ''Refresh token reuse detected; session has been revoked'')"
proof -
  have "refresh_checks demo_security 0 ''r3'' demo_race = Inr (demo_row 13 ''r3'' 2 False, demo_user)"
  proof (rule demo_checks_at)
    show "get_refresh_token demo_security demo_race ''r3'' = Some (demo_row 13 ''r3'' 2 False)"
      by code_simp
  qed (simp_all add: demo_race_def demo_rotated_def demo_row_def)
  moreover have "get_latest_sequence demo_race (rt_token_family (demo_row 13 ''r3'' 2 False)) > rt_token_sequence (demo_row 13 ''r3'' 2 False)"
    by code_simp
  ultimately show ?thesis
    by (simp add: refresh_def)
qed

text \<open>
  C9: The theft detection ends no session.  In every state that registrations, logins, sign-ins with Google,
  GitHub and Supabase, refreshes, logouts, email flows and changes elsewhere reach when they run one after
  the other, it does not fire: an unrevoked refresh token is the newest of its family, so a rotated
  token is refused as revoked before its sequence is compared.  In the other states, which two concurrent
  refreshes of one token reach, it can fire; then, in whatever state, the revocation of the family is
  rolled back with the refused request and every token stays as it was.
\<close>
theorem reuse_detection_dead:
  assumes "(auth_step sec)\<^sup>*\<^sup>* empty_auth s"
  shows "fst (refresh sec now jtis tid ff tok s) \<noteq>
      Inl (UnauthorizedException ''Refresh token reuse detected; session has been revoked'') \<and>
    (fst (refresh sec now jtis tid ff tok s') =
      Inl (UnauthorizedException ''Refresh token reuse detected; session has been revoked'') \<longrightarrow>
     snd (with_session (refresh sec now jtis tid ff tok) s') = s')"
proof -
  have wf: "sessions_wf s"
    using reachable_wf [OF assms] by (simp add: auth_wf_def)
  have "fst (refresh sec now jtis tid ff tok s) \<noteq>
      Inl (UnauthorizedException ''Refresh token reuse detected; session has been revoked'')"
    by (auto simp: refresh_wf_eq [OF wf] refresh_checks_def decode_token_def rotate_session_def Let_def and_then_def
        store_refresh_token_def split: sum.splits option.splits if_splits prod.splits jwt_outcome.splits)
  then show ?thesis
    by (auto simp: with_session_def split: prod.splits)
qed

text \<open>It stays silent after a serial rotation; it fires after the concurrent one and the tokens stay.\<close>

theorem reuse_detection_dead_witness:
  "fst (refresh demo_security 0 (''a2'', ''r2'') 12 8 ''r1'' demo_rotated) \<noteq>
      Inl (UnauthorizedException ''Refresh token reuse detected; session has been revoked'') \<and>
   fst (refresh demo_security 0 (''a5'', ''r5'') 15 8 ''r3'' demo_race) =
      Inl (UnauthorizedException ''Refresh token reuse detected; session has been revoked'') \<and>
   snd (with_session (refresh demo_security 0 (''a5'', ''r5'') 15 8 ''r3'') demo_race) = demo_race"
proof -
  have "auth_step demo_security demo_login demo_rotated"
    using auth_step.refreshes [of demo_security demo_login 0 "(''a2'', ''r2'')" 12 8 "''r1''"]
    unfolding committed [of "refresh demo_security 0 (''a2'', ''r2'') 12 8 ''r1''", OF demo_refresh_run] by simp
  with demo_reach have "(auth_step demo_security)\<^sup>*\<^sup>* empty_auth demo_rotated"
    by (rule rtranclp.rtrancl_into_rtrancl)
  from reuse_detection_dead [OF this, of 0 "(''a2'', ''r2'')" 12 8 "''r1''"]
    reuse_detection_dead [OF this, of 0 "(''a5'', ''r5'')" 15 8 "''r3''" demo_race] demo_race_fires
  show ?thesis
    by blast
qed

lemma dead_refused:
  assumes "auth_wf s" and "dead (hash_token sec tok) s"
  shows "(\<exists>e. fst (with_session (refresh sec now jtis tid ff tok) s) = Inl e) \<and>
    snd (with_session (refresh sec now jtis tid ff tok) s) = s"
proof -
  obtain r where r: "r \<in> set (au_refresh s)" "rt_token_hash r = hash_token sec tok" "rt_is_revoked r"
    using assms(2) by (auto simp: dead_def)
  then have "get_refresh_token sec s tok = Some r"
    using assms(1) by (intro get_refresh_token_known) (auto simp: auth_wf_def sessions_wf_def)
  then have "\<exists>e. refresh_checks sec now tok s = Inl e"
    using r(3) by (auto simp: refresh_checks_def split: sum.splits)
  then show ?thesis
    by (auto simp: with_session_def refresh_def)
qed

text \<open>
  C10: A refresh token works once, when requests run one after the other.  After a successful refresh the presented token is refused in every
  later state and presenting it changes nothing; in particular the session's new token stays usable,
  in the hands of whoever rotated it.
\<close>
theorem refresh_rotates:
  assumes "(auth_step sec)\<^sup>*\<^sup>* empty_auth s" and "refresh sec now jtis tid ff tok s = (Inr tokens, s1)"
    and "(auth_step sec)\<^sup>*\<^sup>* s1 s2"
  shows "(\<exists>e. fst (with_session (refresh sec now2 jtis2 tid2 ff2 tok) s2) = Inl e) \<and>
    snd (with_session (refresh sec now2 jtis2 tid2 ff2 tok) s2) = s2 \<and>
    (\<exists>r. get_refresh_token sec s1 (tr_refresh_token tokens) = Some r \<and> \<not> rt_is_revoked r)"
proof -
  have wf: "auth_wf s" "sessions_wf s"
    using reachable_wf [OF assms(1)] by (simp_all add: auth_wf_def)
  have wf1: "auth_wf s1"
    using refresh_le [OF assms(2)] wf(1) by (simp add: auth_le_def)
  from assms(2) wf(2) obtain stored user where ck: "refresh_checks sec now tok s = Inr (stored, user)"
    and rot: "rotate_session sec now jtis tid ff tok stored user s = (Inr tokens, s1)"
    by (auto simp: refresh_wf_eq split: sum.splits)
  have stored: "stored \<in> set (au_refresh s)" "rt_token_hash stored = hash_token sec tok"
    using refresh_checks_E(1) [OF ck] by (auto dest: get_refresh_token_row)
  from rot wf(2) obtain r where rows: "au_refresh s1 = map (revoked (hash_token sec tok)) (au_refresh s @ [r])"
    and fresh: "rt_token_hash r \<notin> rt_token_hash ` set (au_refresh s)"
    and hash: "rt_token_hash r = hash_token sec (tr_refresh_token tokens)" and live: "\<not> rt_is_revoked r"
    by (rule rotate_E)
  have "revoked (hash_token sec tok) stored \<in> set (au_refresh s1)"
    using stored(1) rows by simp
  then have "dead (hash_token sec tok) s1"
    unfolding dead_def by (rule rev_bexI) (simp add: stored(2))
  moreover have "auth_le s1 s2"
    using assms(3) by (rule auth_steps_le)
  ultimately have "auth_wf s2" "dead (hash_token sec tok) s2"
    using wf1 by (auto simp: auth_le_def)
  moreover have "rt_token_hash r \<noteq> hash_token sec tok"
    using stored fresh by (metis image_eqI)
  moreover have "get_refresh_token sec s1 (tr_refresh_token tokens) = Some (revoked (hash_token sec tok) r)"
    using wf1 rows hash by (intro get_refresh_token_known) (auto simp: auth_wf_def sessions_wf_def)
  ultimately show ?thesis
    using dead_refused live by simp
qed

theorem refresh_rotates_witness:
  "snd (with_session (refresh demo_security 5 (''a3'', ''r3'') 13 9 ''r1'') demo_rotated) = demo_rotated"
  using refresh_rotates [OF demo_reach demo_refresh_run, of demo_rotated 5 "(''a3'', ''r3'')" 13 9] by blast

section \<open>One-time tokens\<close>

lemma spent_reset:
  assumes "tokens_wf (au_reset_tokens s)" and "spent (hash_token sec tok) (au_reset_tokens s)"
  shows "reset_password sec now salt tok pw s =
    (Inl (ValidationException ''This reset link has already been used. Please request a new one.''), s)"
  using spent_found [OF assms] by (auto simp: reset_password_def get_password_reset_token_def)

lemma reset_spends:
  assumes "auth_wf s" and "reset_password sec now salt tok pw s = (Inr v, s1)"
  shows "spent (hash_token sec tok) (au_reset_tokens s1)"
  using assms(2)
proof (rule reset_password_E)
  fix r d
  assume r: "get_password_reset_token sec s tok = Some r"
    and "s1 = snd (mark_password_reset_used sec tok s)\<lparr>au_db := d\<rparr>"
  then show ?thesis
    using assms(1) get_token_use(2) [of "hash_token sec tok" "au_reset_tokens s" r]
    by (simp add: mark_password_reset_used_def get_password_reset_token_def auth_wf_def)
qed

text \<open>
  C17: A password reset link works at most once, and never after its fifteen minutes: after a
  successful reset every later use of the token is refused and changes nothing.
\<close>
theorem reset_link_once:
  assumes "(auth_step sec)\<^sup>*\<^sup>* empty_auth s" and "reset_password sec now salt tok pw s = (Inr v, s1)"
    and "(auth_step sec)\<^sup>*\<^sup>* s1 s2"
  shows "(\<exists>r. get_password_reset_token sec s tok = Some r \<and> now \<le> ot_expires_at r) \<and>
    reset_password sec now2 salt2 tok pw2 s2 =
      (Inl (ValidationException ''This reset link has already been used. Please request a new one.''), s2)"
proof -
  have "auth_wf s"
    using assms(1) by (rule reachable_wf)
  then have "auth_wf s1" "spent (hash_token sec tok) (au_reset_tokens s1)"
    using reset_le [OF assms(2)] reset_spends [OF _ assms(2)] by (auto simp: auth_le_def)
  then have "auth_wf s2" "spent (hash_token sec tok) (au_reset_tokens s2)"
    using auth_steps_le [OF assms(3)] by (auto simp: auth_le_def)
  then have "reset_password sec now2 salt2 tok pw2 s2 =
      (Inl (ValidationException ''This reset link has already been used. Please request a new one.''), s2)"
    by (intro spent_reset) (simp_all add: auth_wf_def)
  moreover have "\<exists>r. get_password_reset_token sec s tok = Some r \<and> now \<le> ot_expires_at r"
    using assms(2) by (rule reset_password_E) blast
  ultimately show ?thesis
    by blast
qed

definition demo_asked :: auth where
  "demo_asked = \<lparr>au_db = demo_users, au_refresh = [demo_row 11 ''r1'' 1 False], au_email_tokens = [],
     au_reset_tokens = [\<lparr>ot_id = 21, ot_user_id = 1, ot_token_hash = ''t1'', ot_is_used = False,
        ot_expires_at = 900000000, ot_created_at = 0\<rparr>], au_api_keys = []\<rparr>"

definition demo_reset :: auth where
  "demo_reset = \<lparr>au_db = demo_users\<lparr>db_users := [demo_user\<lparr>u_password_hash := ''snew''\<rparr>]\<rparr>,
     au_refresh = [demo_row 11 ''r1'' 1 False], au_email_tokens = [],
     au_reset_tokens = [\<lparr>ot_id = 21, ot_user_id = 1, ot_token_hash = ''t1'', ot_is_used = True,
        ot_expires_at = 900000000, ot_created_at = 0\<rparr>], au_api_keys = []\<rparr>"

definition demo_done :: "(string \<times> json) list" where
  "demo_done = [(''message'', JStr ''Password has been reset successfully. You can now log in with your new password.'')]"

lemma demo_reset_run: "reset_password demo_security 60000000 ''s'' ''t1'' ''new'' demo_asked = (Inr demo_done, demo_reset)"
proof (rule prod_eqI)
  show "fst (reset_password demo_security 60000000 ''s'' ''t1'' ''new'' demo_asked) = fst (Inr demo_done, demo_reset)"
    unfolding fst_conv by code_simp
  show "snd (reset_password demo_security 60000000 ''s'' ''t1'' ''new'' demo_asked) = snd (Inr demo_done, demo_reset)"
    unfolding snd_conv by code_simp
qed

lemma demo_asked_reach: "(auth_step demo_security)\<^sup>*\<^sup>* empty_auth demo_asked"
proof -
  have "snd (send_password_reset_email demo_security ''u'' 0 21 ''t1'' ''a@b.c'' demo_login) = demo_asked"
    and "isl (fst (send_password_reset_email demo_security ''u'' 0 21 ''t1'' ''a@b.c'' demo_login)) = False"
    by code_simp+
  then have "snd (with_session (send_password_reset_email demo_security ''u'' 0 21 ''t1'' ''a@b.c'') demo_login) = demo_asked"
    by (auto simp: with_session_def split: prod.splits sum.splits)
  with auth_step.asks_reset [of demo_security demo_login "''u''" 0 21 "''t1''" "''a@b.c''"]
  have "auth_step demo_security demo_login demo_asked"
    by simp
  with demo_reach show ?thesis
    by (rule rtranclp.rtrancl_into_rtrancl)
qed

theorem reset_link_once_witness:
  "reset_password demo_security 70000000 ''s'' ''t1'' ''other'' demo_reset =
     (Inl (ValidationException ''This reset link has already been used. Please request a new one.''), demo_reset)"
  using reset_link_once [OF demo_asked_reach demo_reset_run, of demo_reset 70000000 "''s''" "''other''"] by blast

section \<open>Password reset and open sessions\<close>

lemma refresh_checks_same:
  assumes "au_refresh s' = au_refresh s"
    and "\<And>u. map_option u_is_active (user_get_by_id (au_db s') u) = map_option u_is_active (user_get_by_id (au_db s) u)"
  shows "map_sum id fst (refresh_checks sec now tok s') = map_sum id fst (refresh_checks sec now tok s)"
proof -
  have key: "map_sum id fst (case user_get_by_id d u of None \<Rightarrow> Inl e | Some x \<Rightarrow> if \<not> u_is_active x then Inl e else Inr (r, x)) =
      (if map_option u_is_active (user_get_by_id d u) = Some True then Inr r else Inl e)"
    for d u and e :: app_error and r :: refresh_token
    by (simp split: option.splits)
  show ?thesis
  proof (cases "decode_token sec now tok")
    case (Inr payload)
    then show ?thesis
      unfolding refresh_checks_def get_refresh_token_def refresh_by_hash_def assms(1)
      by (cases "get_row rt_token_hash (hash_token sec tok) (au_refresh s)"; cases "parse_uuid (py_str (dget payload ''sub''))")
        (simp_all add: key assms(2) cong: if_cong)
  qed (simp add: refresh_checks_def)
qed

lemma refresh_checks_eq:
  assumes "au_refresh s' = au_refresh s" and "au_db s' = au_db s"
  shows "refresh_checks sec now tok s' = refresh_checks sec now tok s"
  unfolding refresh_checks_def get_refresh_token_def refresh_by_hash_def assms ..

text \<open>
  Resetting the password ends no session: every refresh token is accepted or refused after the
  reset as before it, although the service announces that it revokes them all.
\<close>
theorem reset_keeps_sessions:
  assumes "reset_password sec now salt tok pw s = (Inr v, s1)"
  shows "au_refresh s1 = au_refresh s \<and>
    ((\<exists>x. refresh_checks sec t rtok s1 = Inr x) \<longleftrightarrow> (\<exists>x. refresh_checks sec t rtok s = Inr x))"
  using assms
proof (rule reset_password_E)
  fix r d
  assume r: "get_password_reset_token sec s tok = Some r"
    and s1: "s1 = snd (mark_password_reset_used sec tok s)\<lparr>au_db := d\<rparr>"
    and act: "\<And>u. map_option u_is_active (user_get_by_id d u) = map_option u_is_active (user_get_by_id (au_db s) u)"
  have same: "au_refresh s1 = au_refresh s"
    unfolding s1 mark_password_reset_used_def r by simp
  have "map_sum id fst (refresh_checks sec t rtok s1) = map_sum id fst (refresh_checks sec t rtok s)"
    by (rule refresh_checks_same) (simp_all add: same act s1 [THEN arg_cong, of au_db])
  then have "(\<exists>x. refresh_checks sec t rtok s1 = Inr x) \<longleftrightarrow> (\<exists>x. refresh_checks sec t rtok s = Inr x)"
    by (cases "refresh_checks sec t rtok s1"; cases "refresh_checks sec t rtok s") auto
  with same show ?thesis
    by blast
qed

theorem reset_keeps_sessions_witness:
  "\<exists>x. refresh_checks demo_security 0 ''r1'' demo_reset = Inr x"
proof -
  have "refresh_checks demo_security 0 ''r1'' demo_asked = refresh_checks demo_security 0 ''r1'' demo_login"
    by (rule refresh_checks_eq) (simp_all add: demo_asked_def demo_login_def)
  then show ?thesis
    using reset_keeps_sessions [OF demo_reset_run, of 0 "''r1''"] demo_checks by auto
qed

section \<open>Registration and login\<close>

lemma bind_quietly_tables:
  assumes "bind_quietly now rid code u oid d = (Inr v, d')"
  shows "db_users d' = db_users d \<and> db_organizations d' = db_organizations d \<and> db_members d' = db_members d"
  using assms by (auto simp: bind_quietly_def bind_referral_def referral_create_def add_referral_def Let_def
      split: if_splits option.splits sum.splits prod.splits app_error.splits)

lemma register_account_E:
  assumes "register_account sec now ids rq d = (Inr (user, org), d')"
  obtains m where "db_users d' = db_users d @ [user]" and "db_organizations d' = db_organizations d @ [org]"
    and "db_members d' = db_members d @ [m]"
    and "sec_hashpw sec (rq_password rq) (ri_salt ids) = Some (u_password_hash user)"
    and "u_email user = lower (rq_email rq)" and "u_is_active user" and "o_plan org = ''free''"
    and "m_org_id m = o_id org" and "m_user_id m = u_id user" and "m_role m = ''owner''" and "\<not> m_is_deleted m"
    and "o_slug org \<notin> o_slug ` set (db_organizations d)"
    and "u_id user \<notin> u_id ` set (db_users d)"
proof -
  obtain h d1 d2 m d3 where h: "get_password_hash sec (ri_salt ids) (rq_password rq) = Inr h"
    and u: "user_create (ri_user ids) now (rq_email rq) h (rq_full_name rq) False False
        None None None None None True d = (Inr user, d1)"
    and og: "org_create (ri_org ids) now
        (if str_truthy (rq_org_name rq) then the (rq_org_name rq) else rq_full_name rq @ CHR 0x27 # ''s Organization'')
        (register_slug d1 (u_id user)) ''free'' d1 = (Inr org, d2)"
    and m: "add_member (ri_member ids) now (o_id org) (u_id user) ''owner'' d2 = (Inr m, d3)"
    and b: "bind_quietly now (ri_referral ids) (rq_ref_code rq) (u_id user) (o_id org)
        (snd (create_application (ri_application ids) now (o_id org) ''Default'' None (Some ''Default application'') d3)) = (Inr (), d')"
    using assms by (auto simp: register_account_def elim!: and_then_E)
  have "db_users d1 = db_users d @ [user]" "db_organizations d1 = db_organizations d" "db_members d1 = db_members d"
    "u_password_hash user = h" "u_email user = lower (rq_email rq)" "u_is_active user"
    "u_id user \<notin> u_id ` set (db_users d)"
    using u by (auto simp: user_create_def user_conflict_def add_user_def Let_def split: if_splits)
  moreover have "db_users d2 = db_users d1" "db_organizations d2 = db_organizations d1 @ [org]" "db_members d2 = db_members d1"
    "o_plan org = ''free''" "o_slug org \<notin> o_slug ` set (db_organizations d1)"
    using og by (auto simp: org_create_def add_org_def Let_def split: if_splits)
  moreover have "db_users d3 = db_users d2" "db_organizations d3 = db_organizations d2" "db_members d3 = db_members d2 @ [m]"
    "m_org_id m = o_id org" "m_user_id m = u_id user" "m_role m = ''owner''" "\<not> m_is_deleted m"
    using m by (auto simp: add_member_def insert_member_def Let_def split: if_splits)
  moreover have "db_users d' = db_users d3" "db_organizations d' = db_organizations d3" "db_members d' = db_members d3"
    using bind_quietly_tables [OF b] by (simp_all add: create_application_def Let_def)
  moreover have "sec_hashpw sec (rq_password rq) (ri_salt ids) = Some h"
    using h by (auto simp: get_password_hash_def split: option.splits)
  ultimately show ?thesis
    by (intro that [of m]) simp_all
qed

lemma email_known_last:
  "user_get_by_email d e = None \<Longrightarrow> u_email u = lower e \<Longrightarrow> db_users d' = db_users d @ [u] \<Longrightarrow>
    lower e' = lower e \<Longrightarrow> user_get_by_email d' e' = Some u"
  by (simp add: user_get_by_email_def get_row_append) (simp add: get_row_def)

text \<open>
  C16: A registration can be logged into: afterwards the address, in any letter case, with the
  registered password opens a session for the new account, which is the owner of a new organization
  on the free plan under a slug no other organization has.
\<close>
theorem register_then_login:
  assumes "register sec now ids rq s = (Inr resp, s1)"
    and "\<And>h. sec_hashpw sec (rq_password rq) (ri_salt ids) = Some h \<Longrightarrow> sec_checkpw sec (rq_password rq) h = Some True"
    and "lower email = lower (rq_email rq)"
  shows "login sec now2 jtis tid fam email (rq_password rq) s1 = open_session sec now2 jtis tid fam (u_id (rg_user resp)) s1 \<and>
    (\<exists>m. db_members (au_db s1) = db_members (au_db s) @ [m] \<and> m_role m = ''owner'' \<and> \<not> m_is_deleted m \<and>
       m_org_id m = o_id (rg_organization resp) \<and> m_user_id m = u_id (rg_user resp)) \<and>
    db_organizations (au_db s1) = db_organizations (au_db s) @ [rg_organization resp] \<and>
    o_plan (rg_organization resp) = ''free'' \<and>
    o_slug (rg_organization resp) \<notin> o_slug ` set (db_organizations (au_db s))"
proof -
  have fresh: "user_get_by_email (au_db s) (rq_email rq) = None"
    using assms(1) by (auto simp: register_def split: option.splits)
  with assms(1) obtain user org d tokens where acc: "register_account sec now ids rq (au_db s) = (Inr (user, org), d)"
    and opn: "open_session sec now (ri_jtis ids) (ri_token ids) (ri_family ids) (u_id user) (s\<lparr>au_db := d\<rparr>) = (Inr tokens, s1)"
    and resp: "resp = \<lparr>rg_user = user, rg_organization = org, rg_tokens = tokens\<rparr>"
    by (auto simp: register_def elim!: and_then_E on_db_E)
  from opn have d: "au_db s1 = d"
    by (rule open_session_E) (simp add: add_refresh_def)
  from acc show ?thesis
  proof (rule register_account_E)
    fix m
    assume us: "db_users d = db_users (au_db s) @ [user]" and h: "sec_hashpw sec (rq_password rq) (ri_salt ids) = Some (u_password_hash user)"
      and e: "u_email user = lower (rq_email rq)" and act: "u_is_active user"
      and rest: "db_organizations d = db_organizations (au_db s) @ [org]" "db_members d = db_members (au_db s) @ [m]"
        "o_plan org = ''free''" "m_org_id m = o_id org" "m_user_id m = u_id user" "m_role m = ''owner''" "\<not> m_is_deleted m"
        "o_slug org \<notin> o_slug ` set (db_organizations (au_db s))"
    have "user_get_by_email (au_db s1) email = Some user"
      using email_known_last [OF fresh e us assms(3)] by (simp add: d)
    then have "login sec now2 jtis tid fam email (rq_password rq) s1 = open_session sec now2 jtis tid fam (u_id user) s1"
      using assms(2) [OF h] act by (simp add: login_def verify_password_def)
    with rest show ?thesis
      by (simp add: resp d)
  qed
qed

definition demo_ids :: register_ids where
  "demo_ids = \<lparr>ri_user = 3, ri_org = 4, ri_member = 5, ri_application = 6, ri_referral = 7, ri_token = 8, ri_family = 9,
     ri_salt = ''s'', ri_jtis = (''a1'', ''r1'')\<rparr>"

definition demo_request :: register_request where
  "demo_request = \<lparr>rq_email = ''New@b.c'', rq_password = ''secret12'', rq_full_name = ''N'', rq_org_name = None, rq_ref_code = None\<rparr>"

lemma open_session_ok:
  assumes "tid \<notin> rt_id ` set (au_refresh s)" and "u \<in> u_id ` set (db_users (au_db s))"
    and "hash_token sec (create_refresh_token sec now (snd jtis) (uuid_str u) []) \<notin> rt_token_hash ` set (au_refresh s)"
  shows "\<exists>tokens s'. open_session sec now jtis tid fam u s = (Inr tokens, s')"
  using assms by (auto simp: open_session_def and_then_def store_refresh_token_def generate_token_pair_def pure_step_def Let_def)

lemma demo_register_account:
  "\<exists>user org d. register_account demo_security 0 demo_ids demo_request demo_users = (Inr (user, org), d) \<and> u_id user = 3"
proof -
  have "lower ''New@b.c'' = ''new@b.c''"
    by code_simp
  then show ?thesis
    by (simp add: register_account_def and_then_def pure_step_def get_password_hash_def demo_security_def demo_ids_def
        demo_request_def user_create_def user_conflict_def demo_users_def demo_user_def add_user_def org_create_def add_org_def
        add_member_def insert_member_def create_application_def bind_quietly_def str_truthy_def Let_def)
qed

lemma demo_token_hash: "hash_token demo_security (create_refresh_token demo_security now j u []) = j"
  by (simp add: hash_token_def create_refresh_token_def demo_security_def base_token_payload_def dget_def)

theorem register_then_login_witness:
  "\<exists>resp s1 tokens s2. register demo_security 0 demo_ids demo_request demo_auth = (Inr resp, s1) \<and>
     login demo_security 9 (''a2'', ''r2'') 10 11 ''new@B.c'' ''secret12'' s1 = (Inr tokens, s2)"
proof -
  obtain user org d where acc: "register_account demo_security 0 demo_ids demo_request demo_users = (Inr (user, org), d)"
    and u: "u_id user = 3"
    using demo_register_account by blast
  then have in_d: "3 \<in> u_id ` set (db_users d)"
    by (auto elim!: register_account_E)
  have "\<exists>tokens s'. open_session demo_security 0 (ri_jtis demo_ids) (ri_token demo_ids) (ri_family demo_ids) (u_id user)
      (demo_auth\<lparr>au_db := d\<rparr>) = (Inr tokens, s')"
    using in_d u by (intro open_session_ok) (simp_all add: demo_auth_def)
  then obtain t1 s1 where opn: "open_session demo_security 0 (ri_jtis demo_ids) (ri_token demo_ids) (ri_family demo_ids)
      (u_id user) (demo_auth\<lparr>au_db := d\<rparr>) = (Inr t1, s1)"
    by blast
  define resp where "resp = \<lparr>rg_user = user, rg_organization = org, rg_tokens = t1\<rparr>"
  have "user_get_by_email (au_db demo_auth) (rq_email demo_request) = None"
    by code_simp
  moreover have "au_db demo_auth = demo_users"
    by (simp add: demo_auth_def)
  ultimately have reg: "register demo_security 0 demo_ids demo_request demo_auth = (Inr resp, s1)"
    by (simp add: register_def and_then_def on_db_def acc opn pure_step_def resp_def)
  from opn obtain r where s1: "au_refresh s1 = [r]" "rt_id r = 8" "rt_token_hash r = ''r1''" "au_db s1 = d"
    by (rule open_session_E) (simp add: add_refresh_def demo_auth_def demo_ids_def generate_token_pair_def demo_token_hash)
  have "\<exists>tokens s2. open_session demo_security 9 (''a2'', ''r2'') 10 11 (u_id (rg_user resp)) s1 = (Inr tokens, s2)"
    using in_d u by (intro open_session_ok) (simp_all add: s1 resp_def demo_token_hash)
  moreover have "lower ''new@B.c'' = lower (rq_email demo_request)"
    by code_simp
  ultimately show ?thesis
    using register_then_login [OF reg, of "''new@B.c''" 9 "(''a2'', ''r2'')" 10 11] reg
    by (auto simp: demo_security_def demo_request_def demo_ids_def)
qed

text \<open>
  A request to reset a password answers every address alike; it writes and mails only when the
  address has an account.
\<close>
theorem reset_request_uniform:
  shows "(case send_password_reset_email sec base now tid tok email s of
     (Inr (reply, mails), s1) \<Rightarrow> reply = reset_requested \<and>
        (if user_get_by_email (au_db s) email = None then mails = [] \<and> s1 = s
         else map ml_to mails = [email])
   | (Inl e, s1) \<Rightarrow> e = IntegrityError ''password_reset_tokens'')"
  by (auto simp: send_password_reset_email_def and_then_def create_password_reset_token_def pure_step_def
      split: option.splits sum.splits)

end
