(* ===== verification/Api_Keys.thy ===== *)
theory Api_Keys
  imports Session_Steps Redis
begin

text \<open>
  \<^verbatim>\<open>modules/api_keys\<close>: the keys of an organization, their verification and the task that flushes the
  times of their last use from Redis.  The printing and parsing of ISO dates are the arguments
  \<^verbatim>\<open>isoformat\<close> and \<^verbatim>\<open>fromisoformat\<close>.
\<close>

section \<open>Scopes\<close>

definition DEFAULT_SCOPES :: "string list" where
  "DEFAULT_SCOPES = [''read:checks'', ''write:dependencies'', ''read:incidents'', ''read:evidence'']"

definition VALID_SCOPES :: "string list" where
  "VALID_SCOPES = [''read:checks'', ''write:dependencies'', ''read:incidents'', ''read:evidence'',
     ''write:incidents'', ''write:checks'', ''read:dependencies'', ''read:organizations'',
     ''write:organizations'', ''read:billing'', ''write:billing'', ''read:notifications'',
     ''write:notifications'', ''read:api_keys'', ''write:api_keys'']"

record api_key_create_request =
  kc_name :: string
  kc_scopes :: "string list"
  kc_expires_at :: "time option"

text \<open>The validators of the request, run when it is parsed.\<close>

definition validate_key_request :: "time \<Rightarrow> api_key_create_request \<Rightarrow> bool" where
  "validate_key_request now rq = (set (kc_scopes rq) \<subseteq> set VALID_SCOPES \<and>
     (case kc_expires_at rq of None \<Rightarrow> True | Some t \<Rightarrow> now < t))"

section \<open>Repository\<close>

definition api_key_row :: "auth \<Rightarrow> uuid \<Rightarrow> api_key option" where
  "api_key_row s i = get_row ak_id i (au_api_keys s)"

definition api_key_get_by_id :: "auth \<Rightarrow> uuid \<Rightarrow> api_key option" where
  "api_key_get_by_id s i = (case api_key_row s i of None \<Rightarrow> None
     | Some k \<Rightarrow> if ak_is_deleted k then None else Some k)"

definition get_by_hashed_key :: "auth \<Rightarrow> string \<Rightarrow> api_key option" where
  "get_by_hashed_key s h = (case get_row ak_hashed_key h (au_api_keys s) of None \<Rightarrow> None
     | Some k \<Rightarrow> if ak_is_deleted k then None else Some k)"

definition list_by_prefix :: "auth \<Rightarrow> string \<Rightarrow> api_key list" where
  "list_by_prefix s prefix = sort_key (\<lambda>k. - ak_created_at k)
     (filter (\<lambda>k. ak_prefix k = prefix \<and> \<not> ak_is_deleted k) (au_api_keys s))"

definition keys_list_for_org :: "auth \<Rightarrow> uuid \<Rightarrow> api_key list" where
  "keys_list_for_org s org_id = sort_key (\<lambda>k. - ak_created_at k)
     (filter (\<lambda>k. ak_org_id k = org_id \<and> \<not> ak_is_deleted k) (au_api_keys s))"

definition save_api_key :: "api_key \<Rightarrow> auth \<Rightarrow> auth" where
  "save_api_key k s = s\<lparr>au_api_keys := save_row ak_id k (au_api_keys s)\<rparr>"

definition add_api_key :: "api_key \<Rightarrow> auth \<Rightarrow> auth" where
  "add_api_key k s = s\<lparr>au_api_keys := au_api_keys s @ [k]\<rparr>"

interpretation api_key_repo: row_repo ak_id au_api_keys api_key_row save_api_key add_api_key
  by unfold_locales
    (auto simp: api_key_row_def save_api_key_def add_api_key_def get_row_None dest: get_row_Some)

definition api_key_create ::
  "uuid \<Rightarrow> time \<Rightarrow> uuid \<Rightarrow> string \<Rightarrow> string \<Rightarrow> string \<Rightarrow> string list \<Rightarrow> time option \<Rightarrow> (api_key, auth) service" where
  "api_key_create i now org_id name prefix hashed_key scopes expires_at s =
     (let k = \<lparr>ak_id = i, ak_org_id = org_id, ak_name = name, ak_prefix = prefix, ak_hashed_key = hashed_key,
               ak_scopes = scopes, ak_last_used_at = None, ak_expires_at = expires_at, ak_created_at = now,
               ak_is_deleted = False, ak_deleted_at = None\<rparr>
      in if i \<in> ak_id ` set (au_api_keys s) \<or> hashed_key \<in> ak_hashed_key ` set (au_api_keys s) \<or>
            org_id \<notin> o_id ` set (db_organizations (au_db s))
         then (Inl (IntegrityError ''api_keys''), s) else (Inr k, add_api_key k s))"

definition api_key_delete :: "time \<Rightarrow> api_key \<Rightarrow> auth \<Rightarrow> auth" where
  "api_key_delete now k s = save_api_key (k\<lparr>ak_is_deleted := True, ak_deleted_at := Some now\<rparr>) s"

text \<open>
  One update statement over the keys of the mapping; \<^verbatim>\<open>greatest\<close> ignores a null.  The count is the
  number of rows matched.
\<close>

definition greatest :: "time option \<Rightarrow> time \<Rightarrow> time option" where
  "greatest old v = (case old of None \<Rightarrow> Some v | Some t \<Rightarrow> Some (max t v))"

definition update_last_used_batch :: "(uuid \<times> time) list \<Rightarrow> auth \<Rightarrow> nat \<times> auth" where
  "update_last_used_batch timestamps s =
     (length (filter (\<lambda>k. map_of timestamps (ak_id k) \<noteq> None) (au_api_keys s)),
      s\<lparr>au_api_keys := map (\<lambda>k. case map_of timestamps (ak_id k) of None \<Rightarrow> k
          | Some v \<Rightarrow> k\<lparr>ak_last_used_at := greatest (ak_last_used_at k) v\<rparr>) (au_api_keys s)\<rparr>)"

section \<open>Service\<close>

definition list_keys :: "uuid \<Rightarrow> (api_key list, auth) service" where
  "list_keys org_id s = (Inr (keys_list_for_org s org_id), s)"

text \<open>The response carries the full key, this once.\<close>

definition create_key ::
  "security \<Rightarrow> time \<Rightarrow> uuid \<Rightarrow> string \<Rightarrow> nat \<Rightarrow> uuid \<Rightarrow> api_key_create_request \<Rightarrow> (api_key \<times> string, auth) service" where
  "create_key sec now i salt rnd org_id rq =
     and_then (pure_step (generate_api_key sec salt rnd)) (\<lambda>(full_key, prefix, hashed_key).
     and_then (api_key_create i now org_id (kc_name rq) prefix hashed_key (kc_scopes rq) (kc_expires_at rq)) (\<lambda>k.
     pure_step (Inr (k, full_key))))"

definition revoke_key :: "time \<Rightarrow> uuid \<Rightarrow> uuid \<Rightarrow> (unit, auth) service" where
  "revoke_key now org_id key_id s = (case api_key_get_by_id s key_id of
     None \<Rightarrow> (Inl (ResourceNotFoundException ''API key not found''), s)
   | Some k \<Rightarrow> if ak_org_id k \<noteq> org_id then (Inl (ResourceNotFoundException ''API key not found''), s)
       else (Inr (), api_key_delete now k s))"

definition LAST_USED_TTL_SECONDS :: int where "LAST_USED_TTL_SECONDS = 5 * 60"

definition last_used_key :: "uuid \<Rightarrow> string" where
  "last_used_key i = ''apikey:last_used:'' @ uuid_str i"

definition record_last_used :: "(time \<Rightarrow> string) \<Rightarrow> time \<Rightarrow> api_key \<Rightarrow> string redis \<Rightarrow> string redis" where
  "record_last_used isoformat now k r =
     snd (safe_redis_setex now (last_used_key (ak_id k)) LAST_USED_TTL_SECONDS (isoformat now) r)"

definition matching_key :: "security \<Rightarrow> auth \<Rightarrow> string \<Rightarrow> api_key option" where
  "matching_key sec s raw_key = find (\<lambda>k. verify_api_key sec raw_key (ak_hashed_key k))
     (list_by_prefix s (if length raw_key \<ge> 8 then take 8 raw_key else raw_key))"

definition authenticate_key ::
  "security \<Rightarrow> (time \<Rightarrow> string) \<Rightarrow> time \<Rightarrow> string \<Rightarrow> auth \<Rightarrow> string redis \<Rightarrow> (app_error + api_key) \<times> string redis" where
  "authenticate_key sec isoformat now raw_key s r = (case matching_key sec s raw_key of
     None \<Rightarrow> (Inl (UnauthorizedException ''Invalid API key''), r)
   | Some k \<Rightarrow>
       if (case ak_expires_at k of None \<Rightarrow> False | Some t \<Rightarrow> t < now)
       then (Inl (UnauthorizedException ''API key has expired''), r)
       else (Inr k, record_last_used isoformat now k r))"

section \<open>Flushing the last uses\<close>

definition FLUSH_BATCH_SIZE :: nat where "FLUSH_BATCH_SIZE = 500"

text \<open>\<^verbatim>\<open>rsplit(":", 1)[-1]\<close>; \<^verbatim>\<open>scanned\<close> are the keys the scan yields, in its order.\<close>

fun drain_last_used :: "time \<Rightarrow> string redis \<Rightarrow> string list \<Rightarrow> (string \<times> string) list \<Rightarrow> (string \<times> string) list" where
  "drain_last_used now r [] mapping = mapping"
| "drain_last_used now r (k # ks) mapping =
     (if length mapping \<ge> FLUSH_BATCH_SIZE then mapping
      else case redis_get now k r of
        Some (Some v) \<Rightarrow> drain_last_used now r ks
          (if v = [] then mapping
           else if rev (takeWhile (\<lambda>c. c \<noteq> CHR '':'') (rev k)) \<in> fst ` set mapping
           then map (\<lambda>(i, x). if i = rev (takeWhile (\<lambda>c. c \<noteq> CHR '':'') (rev k)) then (i, v) else (i, x)) mapping
           else mapping @ [(rev (takeWhile (\<lambda>c. c \<noteq> CHR '':'') (rev k)), v)])
      | Some None \<Rightarrow> drain_last_used now r ks mapping
      | None \<Rightarrow> mapping)"

definition parse_last_used :: "(string \<Rightarrow> time option) \<Rightarrow> (string \<times> string) list \<Rightarrow> (uuid \<times> time) list" where
  "parse_last_used fromisoformat mapping = List.map_filter (\<lambda>(i, v).
     case (parse_uuid i, fromisoformat (replace_str ''Z'' ''+00:00'' v)) of
       (Some u, Some t) \<Rightarrow> Some (u, t) | _ \<Rightarrow> None) mapping"

definition clear_redis_keys :: "string list \<Rightarrow> string redis \<Rightarrow> string redis" where
  "clear_redis_keys ids r = fold (\<lambda>i r. snd (redis_delete (''apikey:last_used:'' @ i) r)) ids r"

definition flush_api_key_last_used ::
  "(string \<Rightarrow> time option) \<Rightarrow> time \<Rightarrow> string list \<Rightarrow> auth \<Rightarrow> string redis \<Rightarrow> nat \<times> auth \<times> string redis" where
  "flush_api_key_last_used fromisoformat now scanned s r =
     (let mapping = drain_last_used now r scanned []
      in if mapping = [] then (0, s, r)
         else let parsed = parse_last_used fromisoformat mapping;
                  (updated, s1) = (if parsed = [] then (0, s) else update_last_used_batch parsed s)
              in (updated, s1, clear_redis_keys (map fst mapping) r))"

end
