(* ===== verification/Rate_Limit.thy ===== *)
theory Rate_Limit
  imports Redis Url
begin

text \<open>
  \<^verbatim>\<open>src/app/core/rate_limit.py\<close>: the client address a request is counted under, and the sliding
  window limiter over Redis sorted sets.  A sorted set is the list of its members with their scores;
  the reading of the clock and the unique member it gives are arguments.  A pipeline that times out
  counts as not executed.
\<close>

section \<open>The client address\<close>

text \<open>\<^verbatim>\<open>hops\<close> is \<^verbatim>\<open>_TRUSTED_PROXY_HOPS\<close>, one unless configured; negative indexing counts from the end.\<close>

definition forwarded_hops :: "string \<Rightarrow> string list" where
  "forwarded_hops h = map strip (filter (\<lambda>p. strip p \<noteq> []) (split_on CHR '','' h))"

definition forwarded_candidate :: "nat \<Rightarrow> string list \<Rightarrow> string" where
  "forwarded_candidate hops ps = (if length ps \<le> hops then last ps else ps ! (length ps - hops))"

definition client_ip_from_request :: "nat \<Rightarrow> string \<Rightarrow> string option \<Rightarrow> string" where
  "client_ip_from_request hops forwarded peer =
     (let ps = forwarded_hops forwarded;
          fallback = (case peer of Some h \<Rightarrow> h | None \<Rightarrow> ''unknown_ip'')
      in if ps = [] then fallback
         else let candidate = forwarded_candidate hops ps
           in if ip_address candidate \<noteq> None then candidate else fallback)"

section \<open>Sorted sets\<close>

type_synonym zset = "(string \<times> time) list"

definition zremrangebyscore :: "time \<Rightarrow> time \<Rightarrow> zset \<Rightarrow> zset" where
  "zremrangebyscore lo hi z = filter (\<lambda>(m, sc). \<not> (lo \<le> sc \<and> sc \<le> hi)) z"

definition zadd :: "string \<Rightarrow> time \<Rightarrow> zset \<Rightarrow> zset" where
  "zadd m sc z = (if m \<in> fst ` set z then map (\<lambda>(n, x). if n = m then (n, sc) else (n, x)) z else z @ [(m, sc)])"

definition zset_of :: "time \<Rightarrow> string \<Rightarrow> zset redis \<Rightarrow> zset" where
  "zset_of now k r = (case live now (r_kv r k) of None \<Rightarrow> [] | Some z \<Rightarrow> z)"

section \<open>The limiter\<close>

record rate_limiter =
  rl_limit :: int
  rl_window_seconds :: int
  rl_key_prefix :: string

definition rate_key :: "rate_limiter \<Rightarrow> string \<Rightarrow> string" where
  "rate_key l identifier = rl_key_prefix l @ '':'' @ identifier"

definition rate_check :: "rate_limiter \<Rightarrow> time \<Rightarrow> string \<Rightarrow> string \<Rightarrow> zset redis \<Rightarrow> (app_error + bool) \<times> zset redis" where
  "rate_check l now member identifier r =
     (if \<not> r_up r then (Inr True, r)
      else let key = rate_key l identifier;
               z = zremrangebyscore 0 (now - seconds (rl_window_seconds l)) (zset_of now key r);
               r' = put_key key (zadd member now z) (Some (now + seconds (rl_window_seconds l * 2))) r
           in if int (length z) \<ge> rl_limit l
              then (Inl (RateLimitExceededException (''Rate limit exceeded ('' @ show_int (rl_limit l) @
                      '' req / '' @ show_int (rl_window_seconds l) @ ''s)'')), r')
              else (Inr True, r'))"

definition api_key_limiter :: rate_limiter where
  "api_key_limiter = \<lparr>rl_limit = 1000, rl_window_seconds = 60, rl_key_prefix = ''rl_apikey''\<rparr>"

definition ip_limiter :: rate_limiter where
  "ip_limiter = \<lparr>rl_limit = 100, rl_window_seconds = 60, rl_key_prefix = ''rl_ip''\<rparr>"

definition public_vendor_limiter :: rate_limiter where
  "public_vendor_limiter = \<lparr>rl_limit = 60, rl_window_seconds = 60, rl_key_prefix = ''rl_vendor''\<rparr>"

definition enforce_rate_limit ::
  "nat \<Rightarrow> string \<Rightarrow> string option \<Rightarrow> rate_limiter \<Rightarrow> time \<Rightarrow> string \<Rightarrow> string option \<Rightarrow> zset redis \<Rightarrow>
   (app_error + bool) \<times> zset redis" where
  "enforce_rate_limit hops forwarded peer l now member identifier r =
     rate_check l now member
       (case identifier of None \<Rightarrow> client_ip_from_request hops forwarded peer | Some i \<Rightarrow> i) r"

section \<open>The sliding window\<close>

text \<open>
  What the limiter is for, without Redis: a request is admitted when fewer than \<^verbatim>\<open>limit\<close> requests of
  its identifier, admitted or not, arrived within the window before it.
\<close>

type_synonym request = "time \<times> string \<times> string"

definition in_window :: "rate_limiter \<Rightarrow> time \<Rightarrow> string \<Rightarrow> request \<Rightarrow> bool" where
  "in_window l now i q = (case q of (t, m, j) \<Rightarrow> j = i \<and> now - seconds (rl_window_seconds l) < t)"

definition admits :: "rate_limiter \<Rightarrow> request list \<Rightarrow> request \<Rightarrow> bool" where
  "admits l past q = (case q of (t, m, i) \<Rightarrow> int (length (filter (in_window l t i) past)) < rl_limit l)"

primrec window_run :: "rate_limiter \<Rightarrow> request list \<Rightarrow> request list \<Rightarrow> bool list" where
  "window_run l past [] = []"
| "window_run l past (q # qs) = admits l past q # window_run l (past @ [q]) qs"

text \<open>The verdicts of the code's limiter on a sequence of requests.\<close>

primrec rate_run :: "rate_limiter \<Rightarrow> request list \<Rightarrow> zset redis \<Rightarrow> bool list" where
  "rate_run l [] r = []"
| "rate_run l (q # qs) r = (case q of (t, m, i) \<Rightarrow>
     case rate_check l t m i r of (v, r') \<Rightarrow> (v = Inr True) # rate_run l qs r')"

lemma rate_key_inj: "rate_key l i = rate_key l j \<longleftrightarrow> i = j"
  by (simp add: rate_key_def)

text \<open>
  The state of the server mirrors the requests so far: for every identifier the live set, cut to the
  window of any later moment, is the requests of that identifier in that window.
\<close>

definition entry :: "request \<Rightarrow> string \<times> time" where
  "entry q = (case q of (t, m, i) \<Rightarrow> (m, t))"

definition mirrors :: "rate_limiter \<Rightarrow> time \<Rightarrow> request list \<Rightarrow> zset redis \<Rightarrow> bool" where
  "mirrors l now past r = (\<forall>i t. now \<le> t \<longrightarrow>
     zremrangebyscore 0 (t - seconds (rl_window_seconds l)) (zset_of t (rate_key l i) r) =
     map entry (filter (in_window l t i) past))"

lemma mirrors_empty: "mirrors l now [] redis_empty"
  by (simp add: mirrors_def redis_empty_def zset_of_def live_def zremrangebyscore_def)

lemma zadd_new: "m \<notin> fst ` set z \<Longrightarrow> zadd m sc z = z @ [(m, sc)]"
  by (simp add: zadd_def)

lemma zset_of_put_other: "k \<noteq> k' \<Longrightarrow> zset_of t k (put_key k' z e r) = zset_of t k r"
  by (simp add: zset_of_def put_key_def)

lemma zset_of_put: "zset_of t k (put_key k z (Some e) r) = (if t < e then z else [])"
  by (simp add: zset_of_def put_key_def live_def)

lemma window_later: "t \<le> t' \<Longrightarrow> in_window l t' i q \<Longrightarrow> in_window l t i q"
  by (auto simp: in_window_def split: prod.splits)

lemma filter_window_later:
  "t \<le> t' \<Longrightarrow> filter (in_window l t' i) (filter (in_window l t i) past) = filter (in_window l t' i) past"
  by (auto intro!: filter_cong dest: window_later)

lemma cut_window:
  assumes "\<forall>q \<in> set qs. 0 \<le> fst q \<and> snd (snd q) = i"
  shows "zremrangebyscore 0 (t - seconds (rl_window_seconds l)) (map entry qs) = map entry (filter (in_window l t i) qs)"
  using assms by (induction qs) (auto simp: zremrangebyscore_def entry_def in_window_def)

lemma rate_check_up:
  assumes up: "r_up r" and mir: "mirrors l t past r"
    and fresh: "m \<notin> (\<lambda>(t, m, i). m) ` set past"
  shows "rate_check l t m i r =
    (if admits l past (t, m, i) then Inr True else Inl (RateLimitExceededException (''Rate limit exceeded ('' @
        show_int (rl_limit l) @ '' req / '' @ show_int (rl_window_seconds l) @ ''s)'')),
     put_key (rate_key l i) (map entry (filter (in_window l t i) past @ [(t, m, i)]))
       (Some (t + seconds (rl_window_seconds l * 2))) r)"
proof -
  let ?w = "filter (in_window l t i) past"
  have cut: "zremrangebyscore 0 (t - seconds (rl_window_seconds l)) (zset_of t (rate_key l i) r) = map entry ?w"
    using mir by (simp add: mirrors_def)
  have "m \<notin> fst ` set (map entry ?w)"
    using fresh by (force simp: entry_def split: prod.splits)
  then have "zadd m t (map entry ?w) = map entry (?w @ [(t, m, i)])"
    by (simp add: zadd_new entry_def)
  with up cut show ?thesis
    by (simp add: rate_check_def Let_def admits_def)
qed

lemma mirrors_step:
  assumes "mirrors l t past r" and "0 < rl_window_seconds l" and "0 < t" and "\<forall>q \<in> set past. 0 \<le> fst q \<and> fst q \<le> t"
  shows "mirrors l t (past @ [(t, m, i)])
    (put_key (rate_key l i) (map entry (filter (in_window l t i) past @ [(t, m, i)]))
       (Some (t + seconds (rl_window_seconds l * 2))) r)"
  unfolding mirrors_def
proof (intro allI impI)
  fix j t'
  assume le: "t \<le> t'"
  let ?w = "filter (in_window l t i) past"
  let ?r = "put_key (rate_key l i) (map entry (?w @ [(t, m, i)])) (Some (t + seconds (rl_window_seconds l * 2))) r"
  let ?lo = "t' - seconds (rl_window_seconds l)"
  show "zremrangebyscore 0 ?lo (zset_of t' (rate_key l j) ?r) =
    map entry (filter (in_window l t' j) (past @ [(t, m, i)]))"
  proof (cases "j = i")
    case False
    then have "zset_of t' (rate_key l j) ?r = zset_of t' (rate_key l j) r"
      by (simp add: zset_of_put_other rate_key_inj)
    with False le assms(1) show ?thesis
      by (simp add: mirrors_def in_window_def)
  next
    case True
    have rows: "\<forall>q \<in> set (?w @ [(t, m, i)]). 0 \<le> fst q \<and> snd (snd q) = i"
      using assms(3,4) by (auto simp: in_window_def)
    show ?thesis
    proof (cases "t' < t + seconds (rl_window_seconds l * 2)")
      case live: True
      have "zset_of t' (rate_key l j) ?r = map entry (?w @ [(t, m, i)])"
        using live True by (simp only: zset_of_put if_True)
      then have "zremrangebyscore 0 ?lo (zset_of t' (rate_key l j) ?r) = map entry (filter (in_window l t' i) (?w @ [(t, m, i)]))"
        by (simp only: cut_window [OF rows])
      also have "filter (in_window l t' i) (?w @ [(t, m, i)]) = filter (in_window l t' i) (past @ [(t, m, i)])"
        by (simp only: filter_append filter_window_later [OF le])
      finally show ?thesis
        by (simp only: True)
    next
      case False
      with assms(2) have gone: "\<not> in_window l t' i q" if "fst q \<le> t" for q
        using that by (auto simp: in_window_def seconds_def split: prod.splits)
      have "filter (in_window l t' i) (past @ [(t, m, i)]) = []"
        using assms(4) gone by (force simp: filter_empty_conv)
      with True False show ?thesis
        by (simp only: zset_of_put if_False) (simp add: zremrangebyscore_def)
    qed
  qed
qed

definition request_log :: "request list \<Rightarrow> bool" where
  "request_log qs = (sorted (map fst qs) \<and> distinct (map (\<lambda>(t, m, i). m) qs) \<and> (\<forall>q \<in> set qs. 0 < fst q))"

lemma request_log_snoc:
  assumes "request_log (past @ q # qs)"
  shows "request_log ((past @ [q]) @ qs)" and "0 < fst q"
    and "\<forall>p \<in> set past. 0 \<le> fst p \<and> fst p \<le> fst q"
    and "fst (snd q) \<notin> (\<lambda>(t, m, i). m) ` set past"
  using assms by (auto simp: request_log_def sorted_append less_imp_le split: prod.splits)

lemma put_key_up [simp]: "r_up (put_key k v e r) = r_up r"
  by (simp add: put_key_def)

lemma mirrors_mono: "mirrors l t past r \<Longrightarrow> t \<le> t' \<Longrightarrow> mirrors l t' past r"
  by (simp add: mirrors_def)

lemma rate_run_window:
  assumes "0 < rl_window_seconds l" and "r_up r" and "request_log (past @ qs)"
    and "mirrors l t0 past r" and "\<forall>q \<in> set qs. t0 \<le> fst q"
  shows "rate_run l qs r = window_run l past qs"
  using assms(2-)
proof (induction qs arbitrary: past r t0)
  case (Cons q qs)
  obtain t m i where q: "q = (t, m, i)"
    by (cases q)
  note facts = request_log_snoc [OF Cons.prems(2)]
  have mir: "mirrors l t past r"
    using Cons.prems(3,4) q by (auto intro: mirrors_mono)
  define r' where "r' = put_key (rate_key l i) (map entry (filter (in_window l t i) past @ [(t, m, i)]))
       (Some (t + seconds (rl_window_seconds l * 2))) r"
  have "mirrors l t (past @ [q]) r'"
    unfolding r'_def q using mirrors_step [OF mir assms(1)] facts(2,3) q by simp
  moreover have "\<forall>p \<in> set qs. t \<le> fst p"
    using Cons.prems(2) q by (auto simp: request_log_def sorted_append)
  ultimately have "rate_run l qs r' = window_run l (past @ [q]) qs"
    using Cons.IH [of r' "past @ [q]" t] Cons.prems(1) facts(1) by (simp add: r'_def)
  moreover have "rate_check l t m i r = (if admits l past q then Inr True
      else Inl (RateLimitExceededException (''Rate limit exceeded ('' @
        show_int (rl_limit l) @ '' req / '' @ show_int (rl_window_seconds l) @ ''s)'')), r')"
    using rate_check_up [OF Cons.prems(1) mir] facts(4) q by (simp add: r'_def)
  ultimately show ?case
    by (simp add: q)
qed simp

lemma rate_run_fresh:
  assumes "0 < rl_window_seconds l" and "request_log qs"
  shows "rate_run l qs redis_empty = window_run l [] qs"
proof (cases qs)
  case (Cons q qs')
  have "\<forall>p \<in> set qs. fst q \<le> fst p"
    using assms(2) Cons by (auto simp: request_log_def)
  moreover have "r_up redis_empty"
    by (simp add: redis_empty_def)
  ultimately show ?thesis
    using rate_run_window [OF assms(1) _ _ mirrors_empty [of l "fst q"], of qs] assms(2) by simp
qed simp

text \<open>The requests a run admitted.\<close>

definition admitted :: "rate_limiter \<Rightarrow> request list \<Rightarrow> request list" where
  "admitted l qs = map fst (filter snd (zip qs (rate_run l qs redis_empty)))"

lemma length_window_run [simp]: "length (window_run l past qs) = length qs"
  by (induction qs arbitrary: past) simp_all

lemma window_run_append:
  "window_run l past (qs @ qs') = window_run l past qs @ window_run l (past @ qs) qs'"
  by (induction qs arbitrary: past) simp_all

definition between :: "rate_limiter \<Rightarrow> time \<Rightarrow> string \<Rightarrow> request \<Rightarrow> bool" where
  "between l t i q = (in_window l t i q \<and> fst q \<le> t)"

lemma kept_filter_le:
  assumes "\<And>q. P q \<Longrightarrow> P' q"
  shows "length (filter P (map fst (filter snd (zip qs bs)))) \<le> length (filter P' qs)"
proof (induction qs arbitrary: bs)
  case (Cons q qs)
  then show ?case
    using assms [of q] by (cases bs) (auto simp: le_SucI)
qed simp

lemma window_bound:
  assumes "0 \<le> rl_limit l"
  shows "int (length (filter (between l t i) (map fst (filter snd (zip qs (window_run l [] qs)))))) \<le> rl_limit l"
proof (induction qs rule: rev_induct)
  case (snoc q qs)
  let ?kept = "map fst (filter snd (zip qs (window_run l [] qs)))"
  have split: "map fst (filter snd (zip (qs @ [q]) (window_run l [] (qs @ [q])))) =
      ?kept @ (if admits l qs q then [q] else [])"
    by (simp add: window_run_append)
  show ?case
  proof (cases "admits l qs q \<and> between l t i q")
    case True
    then have sub: "between l t i p \<Longrightarrow> in_window l (fst q) i p" for p
      by (auto simp: between_def in_window_def split: prod.splits)
    have "length (filter (between l t i) ?kept) \<le> length (filter (in_window l (fst q) i) qs)"
      by (rule kept_filter_le) (rule sub)
    moreover have "int (length (filter (in_window l (fst q) i) qs)) < rl_limit l"
      using True by (auto simp: admits_def between_def in_window_def split: prod.splits)
    ultimately show ?thesis
      unfolding split using True by simp
  next
    case False
    with snoc show ?thesis
      unfolding split by auto
  qed
qed (use assms in simp)

end
