(* ===== verification/Access.thy ===== *)
theory Access
  imports Api_Keys Rate_Limit Permissions
begin

text \<open>
  \<^verbatim>\<open>app/dependencies.py\<close> and \<^verbatim>\<open>core/tenant.py\<close>: who a request acts as, for which organization and
  with which role and scopes.  A request is its path, verb and headers (names in lower case); what
  the dependencies leave on \<^verbatim>\<open>request.state\<close> is the record \<^verbatim>\<open>request_state\<close>.
\<close>

section \<open>Requests\<close>

record http_request =
  hr_path :: string
  hr_verb :: string
  hr_headers :: "(string \<times> string) list"

record request_state =
  rs_organization_id :: "uuid option"
  rs_auth_method :: string
  rs_api_key_org_id :: "uuid option"
  rs_api_key_scopes :: "string list"
  rs_current_role :: "string option"
  rs_user_id :: "string option"

definition fresh_request_state :: request_state where
  "fresh_request_state = \<lparr>rs_organization_id = None, rs_auth_method = [], rs_api_key_org_id = None,
     rs_api_key_scopes = [], rs_current_role = None, rs_user_id = None\<rparr>"

definition header :: "http_request \<Rightarrow> string \<Rightarrow> string" where
  "header rq name = (case map_of (hr_headers rq) name of None \<Rightarrow> [] | Some v \<Rightarrow> v)"

section \<open>Tenant headers\<close>

definition ORG_HEADER_CANDIDATES :: "string list" where
  "ORG_HEADER_CANDIDATES = [''x-organization-id'', ''reliastra-organization'']"

text \<open>\<^verbatim>\<open>Inl\<close>: the header is not a UUID.\<close>

fun organization_header :: "http_request \<Rightarrow> string list \<Rightarrow> string + uuid option" where
  "organization_header rq [] = Inr None"
| "organization_header rq (n # ns) =
     (if header rq n = [] then organization_header rq ns
      else case parse_uuid (strip (header rq n)) of
        Some u \<Rightarrow> Inr (Some u) | None \<Rightarrow> Inl (header rq n))"

definition extract_organization_id :: "http_request \<Rightarrow> string + uuid option" where
  "extract_organization_id rq = organization_header rq ORG_HEADER_CANDIDATES"

text \<open>The middleware answers 400 itself, or passes the request on with the organization.\<close>

definition tenant_context :: "http_request \<Rightarrow> app_error + request_state" where
  "tenant_context rq = (case extract_organization_id rq of
     Inl _ \<Rightarrow> Inl (AppException ''Invalid organization header'' 400 ''VALIDATION_ERROR'')
   | Inr o_opt \<Rightarrow> Inr (fresh_request_state\<lparr>rs_organization_id := o_opt\<rparr>))"

section \<open>Scopes\<close>

definition write_verb :: "string \<Rightarrow> bool" where
  "write_verb v = (v \<notin> {''GET'', ''HEAD'', ''OPTIONS''})"

definition scope_markers :: "(string \<times> string) list" where
  "scope_markers = [(''/evidence'', ''evidence''), (''/dependencies'', ''dependencies''),
     (''/checks'', ''checks''), (''/incidents'', ''incidents''), (''/billing'', ''billing''),
     (''/notifications'', ''notifications''), (''/api-keys'', ''api_keys'')]"

definition infer_scope :: "string \<Rightarrow> string \<Rightarrow> string option" where
  "infer_scope path verb =
     (let rw = (if write_verb verb then ''write'' else ''read'') in
      case find (\<lambda>(marker, resource). contains_str path marker) scope_markers of
        Some (_, resource) \<Rightarrow> Some ((if resource = ''evidence'' then ''read'' else rw) @ '':'' @ resource)
      | None \<Rightarrow>
          if contains_str path ''/clients'' \<or> contains_str path ''/ai-providers'' then Some (rw @ '':organizations'')
          else if contains_str path ''/dashboard/'' then Some ''read:checks''
          else if starts_with path ''/v1/orgs'' then Some (rw @ '':organizations'')
          else None)"

definition has_scope :: "string list \<Rightarrow> string \<Rightarrow> bool" where
  "has_scope scopes required =
     (required \<in> set scopes \<or> ''*'' \<in> set scopes \<or>
      before CHR '':'' required = ''read'' \<and> (''write:'' @ after CHR '':'' required) \<in> set scopes)"

section \<open>Credentials\<close>

text \<open>FastAPI's \<^verbatim>\<open>HTTPBearer(auto_error=False)\<close>: the credentials of a bearer header.\<close>

definition bearer_credentials :: "http_request \<Rightarrow> string option" where
  "bearer_credentials rq =
     (let a = header rq ''authorization''; scheme = before CHR '' '' a; param = after CHR '' '' a
      in if a \<noteq> [] \<and> scheme \<noteq> [] \<and> param \<noteq> [] \<and> lower scheme = ''bearer'' then Some param else None)"

definition raw_api_key :: "http_request \<Rightarrow> string option" where
  "raw_api_key rq =
     (let auth_header = strip (header rq ''authorization''); api_key_header = strip (header rq ''x-api-key'')
      in if api_key_header \<noteq> [] then Some api_key_header
         else if starts_with (lower auth_header) ''rel_'' then Some auth_header
         else if (case bearer_credentials rq of Some c \<Rightarrow> starts_with c ''rel_'' | None \<Rightarrow> False)
         then bearer_credentials rq
         else if starts_with (lower auth_header) ''apikey ''
         then Some (strip (dropWhile (\<lambda>c. \<not> is_space c) auth_header))
         else None)"

text \<open>The Redis server, seen through the strings and the sorted sets it holds.\<close>

record access_redis =
  ar_strings :: "string redis"
  ar_zsets :: "zset redis"

text \<open>The clock, the unique member of the rate limiter, the secrets and the date format.\<close>

record access_env =
  ae_now :: time
  ae_member :: string
  ae_security :: security
  ae_isoformat :: "time \<Rightarrow> string"

definition key_owner :: "db \<Rightarrow> uuid \<Rightarrow> organization_member option" where
  "key_owner s org_id =
     (let members = list_members s org_id None None
      in case find (\<lambda>m. m_role m = ''owner'') members of
           Some m \<Rightarrow> Some m
         | None \<Rightarrow> (case members of [] \<Rightarrow> None | m # _ \<Rightarrow> Some m))"

definition key_user :: "time \<Rightarrow> api_key \<Rightarrow> user" where
  "key_user now k = \<lparr>u_id = 0, u_email = ''apikey@reliastra.local'', u_password_hash = [],
     u_full_name = ''API Key ('' @ ak_name k @ '')'', u_is_active = True, u_is_email_verified = False,
     u_is_superuser = False, u_google_id = None, u_github_id = None, u_avatar_url = None,
     u_auth_provider = None, u_external_auth_id = None, u_is_system_admin = False, u_admin_note = None,
     u_source = None, u_last_login_at = None, u_last_activity_at = None, u_login_count = 0, u_created_at = now\<rparr>"

definition key_principal :: "access_env \<Rightarrow> auth \<Rightarrow> http_request \<Rightarrow> request_state \<Rightarrow> api_key \<Rightarrow> app_error + user \<times> request_state" where
  "key_principal env s rq st k =
     (let st' = st\<lparr>rs_auth_method := ''apikey'', rs_api_key_org_id := Some (ak_org_id k),
                   rs_api_key_scopes := ak_scopes k, rs_current_role := Some ''admin'',
                   rs_user_id := Some (''apikey:'' @ uuid_str (ak_id k))\<rparr>;
          user = (case key_owner (au_db s) (ak_org_id k) of
                    None \<Rightarrow> None | Some m \<Rightarrow> user_get_by_id (au_db s) (m_user_id m))
      in case infer_scope (hr_path rq) (hr_verb rq) of
           Some required \<Rightarrow>
             if \<not> has_scope (ak_scopes k) required
             then Inl (ForbiddenException (''API key lacks required scope: '' @ required))
             else Inr (case user of Some u \<Rightarrow> u | None \<Rightarrow> key_user (ae_now env) k, st')
         | None \<Rightarrow> Inr (case user of Some u \<Rightarrow> u | None \<Rightarrow> key_user (ae_now env) k, st'))"

definition jwt_principal :: "access_env \<Rightarrow> auth \<Rightarrow> string \<Rightarrow> request_state \<Rightarrow> app_error + user \<times> request_state" where
  "jwt_principal env s credentials st = (case decode_token (ae_security env) (ae_now env) credentials of
     Inl e \<Rightarrow> Inl e
   | Inr payload \<Rightarrow>
       if dget payload ''type'' \<noteq> JStr ''access'' then Inl (UnauthorizedException ''Invalid token type'')
       else if \<not> truthy (dget payload ''sub'') then Inl (UnauthorizedException ''Invalid token subject'')
       else (case parse_uuid (py_str (dget payload ''sub'')) of
          None \<Rightarrow> Inl (ValueError ''badly formed hexadecimal UUID string'')
        | Some user_id \<Rightarrow>
            (case user_get_by_id (au_db s) user_id of
               None \<Rightarrow> Inl (UnauthorizedException ''User not found or disabled'')
             | Some user \<Rightarrow>
                 if \<not> u_is_active user then Inl (UnauthorizedException ''User not found or disabled'')
                 else Inr (user, st\<lparr>rs_auth_method := ''jwt'', rs_user_id := Some (uuid_str (u_id user))\<rparr>))))"

definition get_current_user ::
  "access_env \<Rightarrow> auth \<Rightarrow> http_request \<Rightarrow> request_state \<Rightarrow> access_redis \<Rightarrow>
   (app_error + user \<times> request_state) \<times> access_redis" where
  "get_current_user env s rq st r = (case raw_api_key rq of
     Some raw_key \<Rightarrow>
       if raw_key = [] then
         (case bearer_credentials rq of
            Some c \<Rightarrow> (jwt_principal env s c st, r)
          | None \<Rightarrow> (Inl (UnauthorizedException ''Authentication required (Bearer token or X-API-Key header)''), r))
       else
         (case rate_check api_key_limiter (ae_now env) (ae_member env)
             (if length raw_key \<ge> 8 then take 8 raw_key else raw_key) (ar_zsets r) of
            (Inl e, z) \<Rightarrow> (Inl e, r\<lparr>ar_zsets := z\<rparr>)
          | (Inr _, z) \<Rightarrow>
              (case authenticate_key (ae_security env) (ae_isoformat env) (ae_now env) raw_key s (ar_strings r) of
                 (Inl e, t) \<Rightarrow> (Inl e, \<lparr>ar_strings = t, ar_zsets = z\<rparr>)
               | (Inr k, t) \<Rightarrow> (key_principal env s rq st k, \<lparr>ar_strings = t, ar_zsets = z\<rparr>)))
   | None \<Rightarrow>
       (case bearer_credentials rq of
          Some c \<Rightarrow> (jwt_principal env s c st, r)
        | None \<Rightarrow> (Inl (UnauthorizedException ''Authentication required (Bearer token or X-API-Key header)''), r)))"

section \<open>Organizations and roles\<close>

definition get_current_org ::
  "auth \<Rightarrow> http_request \<Rightarrow> user \<times> request_state \<Rightarrow> app_error + organization \<times> request_state" where
  "get_current_org s rq us = (case us of (current_user, st) \<Rightarrow>
     case (case rs_organization_id st of Some i \<Rightarrow> Inr (Some i) | None \<Rightarrow> extract_organization_id rq) of
       Inl _ \<Rightarrow> Inl (ResourceNotFoundException ''Invalid organization header'')
     | Inr org_id \<Rightarrow>
         if rs_auth_method st = ''apikey'' then
           (if org_id \<noteq> None \<and> org_id \<noteq> rs_api_key_org_id st
            then Inl (ForbiddenException ''API key is not authorized for this organization'')
            else case (case rs_api_key_org_id st of None \<Rightarrow> None | Some i \<Rightarrow> org_get_by_id (au_db s) i) of
              None \<Rightarrow> Inl (ResourceNotFoundException ''Organization not found'')
            | Some org \<Rightarrow> Inr (org, st\<lparr>rs_current_role := Some ''admin''\<rparr>))
         else (case org_id of
           None \<Rightarrow> Inl (ForbiddenException
             ''Organization context required. Send X-Organization-ID or Reliastra-Organization.'')
         | Some i \<Rightarrow>
             (case get_member (au_db s) i (u_id current_user) False of
                Inl e \<Rightarrow> Inl e
              | Inr None \<Rightarrow> Inl (ForbiddenException ''User is not a member of this organization'')
              | Inr (Some m) \<Rightarrow>
                  (case org_get_by_id (au_db s) i of
                     None \<Rightarrow> Inl (ResourceNotFoundException ''Organization not found'')
                   | Some org \<Rightarrow> Inr (org, st\<lparr>rs_current_role := Some (m_role m)\<rparr>)))))"

definition require_scope :: "string \<Rightarrow> organization \<times> request_state \<Rightarrow> app_error + organization" where
  "require_scope scope os = (case os of (org, st) \<Rightarrow>
     if rs_auth_method st = ''apikey'' \<and> \<not> has_scope (rs_api_key_scopes st) scope
     then Inl (ForbiddenException (''API key lacks required scope: '' @ scope)) else Inr org)"

definition require_role :: "string \<Rightarrow> organization \<times> request_state \<Rightarrow> app_error + organization" where
  "require_role min_role os = (case os of (org, st) \<Rightarrow>
     (let user_role = (case rs_current_role st of None \<Rightarrow> ''viewer'' | Some r \<Rightarrow> r)
      in if \<not> has_permission user_role min_role
         then Inl (ForbiddenException (''Action requires at least '' @ CHR 0x27 # min_role @ CHR 0x27 #
                '' role, but user has '' @ CHR 0x27 # user_role @ CHR 0x27 # '' role.''))
         else Inr org))"

text \<open>A request to a route that depends on \<^verbatim>\<open>require_role(min_role)\<close>.\<close>

definition authorize ::
  "access_env \<Rightarrow> auth \<Rightarrow> string \<Rightarrow> http_request \<Rightarrow> access_redis \<Rightarrow> app_error + organization" where
  "authorize env s min_role rq r = (case tenant_context rq of
     Inl e \<Rightarrow> Inl e
   | Inr st \<Rightarrow> (case fst (get_current_user env s rq st r) of
       Inl e \<Rightarrow> Inl e
     | Inr us \<Rightarrow> (case get_current_org s rq us of
         Inl e \<Rightarrow> Inl e
       | Inr os \<Rightarrow> require_role min_role os)))"

end
