(* ===== verification/Idempotency.thy ===== *)
theory Idempotency
  imports Access
begin

text \<open>
  The idempotency middleware of \<^verbatim>\<open>main.py\<close>.  The rest of the application is the argument
  \<^verbatim>\<open>call_next\<close>, which returns a response, or nothing where it raises, with the state it leaves; the
  SHA-256 digest of a credential is the one of \<^verbatim>\<open>security\<close>.  The middleware's keys are its own: no
  other code of the program writes a key that begins with \<^verbatim>\<open>idempotency\<close>.
\<close>

record http_response =
  hs_status :: nat
  hs_content :: string
  hs_media_type :: "string option"
  hs_headers :: "(string \<times> string) list"

definition hop_by_hop :: "string list" where
  "hop_by_hop = [''connection'', ''keep-alive'', ''proxy-authenticate'', ''proxy-authorization'', ''te'',
     ''trailers'', ''transfer-encoding'', ''upgrade'', ''content-encoding'']"

definition is_cacheable_status :: "nat \<Rightarrow> bool" where
  "is_cacheable_status st = (200 \<le> st \<and> st < 300 \<or> st \<in> {404, 409, 422})"

text \<open>\<^verbatim>\<open>None\<close>: a bearer header without a token, on which the split raises.\<close>

definition idempotency_principal :: "security \<Rightarrow> time \<Rightarrow> http_request \<Rightarrow> string option \<Rightarrow> string option" where
  "idempotency_principal sec now rq peer =
     (let auth = header rq ''authorization''; api_key = header rq ''x-api-key''
      in if starts_with (lower auth) ''bearer ''
         then (if strip (dropWhile (\<lambda>c. \<not> is_space c) auth) = [] then None
           else case decode_token sec now (strip (dropWhile (\<lambda>c. \<not> is_space c) auth)) of
             Inl _ \<Rightarrow> Some ''user:invalid-token''
           | Inr payload \<Rightarrow> Some (''user:'' @ (case map_of payload ''sub'' of None \<Rightarrow> ''unknown'' | Some j \<Rightarrow> py_str j)))
         else (let credential = (if api_key \<noteq> [] then api_key
                 else if starts_with (lower auth) ''apikey '' \<or> starts_with (lower auth) ''rel_'' then auth else [])
           in if credential \<noteq> [] then Some (''key:'' @ take 32 (sec_sha256 sec credential))
              else Some (''ip:'' @ (case peer of Some h \<Rightarrow> h | None \<Rightarrow> ''unknown''))))"

text \<open>What a key holds: the lock, or a response.\<close>

datatype idem_value = InFlight | Cached http_response

definition conflict_response :: http_response where
  "conflict_response = \<lparr>hs_status = 409,
     hs_content = ''{\"error\":{\"code\":\"IDEMPOTENT_REQUEST_IN_FLIGHT\",\"message\":\"A request with this idempotency key is already being processed\"}}'',
     hs_media_type = Some ''application/json'', hs_headers = []\<rparr>"

definition replayed :: "http_response \<Rightarrow> http_response" where
  "replayed c = c\<lparr>hs_headers := filter (\<lambda>(k, v). lower k \<notin> set hop_by_hop) (hs_headers c)\<rparr>"

definition cache_key :: "string \<Rightarrow> string \<Rightarrow> string" where
  "cache_key who idempotency_key = ''idempotency:'' @ who @ '':'' @ idempotency_key"

definition lock_key :: "string \<Rightarrow> string" where
  "lock_key k = k @ '':lock''"

text \<open>A cached value that is not a response makes the decoding raise, and the request goes through.\<close>

definition idempotent ::
  "security \<Rightarrow> time \<Rightarrow> http_request \<Rightarrow> string option \<Rightarrow> ('s \<Rightarrow> http_response option \<times> 's) \<Rightarrow>
   's \<Rightarrow> idem_value redis \<Rightarrow> http_response option \<times> 's \<times> idem_value redis" where
  "idempotent sec now rq peer call_next s r =
     (let idempotency_key = header rq ''idempotency-key'';
          pass = (\<lambda>s r. case call_next s of (resp, s1) \<Rightarrow> (resp, s1, r))
      in if idempotency_key = [] \<or> hr_verb rq \<notin> {''POST'', ''PATCH''} then pass s r
      else case idempotency_principal sec now rq peer of
        None \<Rightarrow> pass s r
      | Some who \<Rightarrow>
        (let k = cache_key who idempotency_key in
         case safe_redis_get now k r of
           Some (Cached c) \<Rightarrow> (Some c, s, r)
         | Some InFlight \<Rightarrow> pass s r
         | None \<Rightarrow>
             (case safe_redis_set_nx now (lock_key k) InFlight (Some 60) r of
                (False, r1) \<Rightarrow> (Some conflict_response, s, r1)
              | (True, r1) \<Rightarrow>
                  (case call_next s of (resp, s1) \<Rightarrow>
                     (let r2 = snd (redis_delete (lock_key k) r1) in
                      case resp of
                        None \<Rightarrow> pass s1 r2
                      | Some c \<Rightarrow>
                          if is_cacheable_status (hs_status c)
                          then (Some (replayed c), s1, snd (safe_redis_setex now k 86400 (Cached (replayed c)) r2))
                          else (Some c, s1, r2))))))"

end
