(* ===== verification/Access_Properties.thy ===== *)
theory Access_Properties
  imports Auth_Properties Idempotency
begin

text \<open>
  The properties of authorization, API keys, the rate limiter and the idempotency middleware.
\<close>

section \<open>Authorization\<close>

lemma tenant_context_E:
  assumes "tenant_context rq = Inr st"
  obtains o_opt where "extract_organization_id rq = Inr o_opt" and "st = fresh_request_state\<lparr>rs_organization_id := o_opt\<rparr>"
  using assms by (auto simp: tenant_context_def split: sum.splits)

lemma matching_key_E:
  assumes "matching_key sec s raw = Some k"
  shows "k \<in> set (au_api_keys s)" and "\<not> ak_is_deleted k" and "verify_api_key sec raw (ak_hashed_key k)"
    and "ak_prefix k = (if length raw \<ge> 8 then take 8 raw else raw)"
proof -
  have "k \<in> set (list_by_prefix s (if length raw \<ge> 8 then take 8 raw else raw))" and v: "verify_api_key sec raw (ak_hashed_key k)"
    using assms unfolding matching_key_def find_Some_iff by auto
  then show "k \<in> set (au_api_keys s)" "\<not> ak_is_deleted k" "verify_api_key sec raw (ak_hashed_key k)"
    "ak_prefix k = (if length raw \<ge> 8 then take 8 raw else raw)"
    by (auto simp: list_by_prefix_def)
qed

text \<open>A key is not expired at a moment.\<close>

definition unexpired :: "time \<Rightarrow> api_key \<Rightarrow> bool" where
  "unexpired now k = (case ak_expires_at k of None \<Rightarrow> True | Some t \<Rightarrow> now \<le> t)"

lemma authenticate_key_E:
  assumes "authenticate_key sec isof now raw s r = (Inr k, r')"
  shows "matching_key sec s raw = Some k" and "unexpired now k"
  using assms by (auto simp: authenticate_key_def unexpired_def split: option.splits if_splits)

lemma jwt_principal_E:
  assumes "jwt_principal env s c st = Inr (u, st')"
  shows "\<exists>payload. decode_token (ae_security env) (ae_now env) c = Inr payload \<and>
      dget payload ''type'' = JStr ''access'' \<and> parse_uuid (py_str (dget payload ''sub'')) = Some (u_id u) \<and>
      user_get_by_id (au_db s) (u_id u) = Some u \<and> u_is_active u \<and>
      rs_auth_method st' = ''jwt'' \<and> rs_organization_id st' = rs_organization_id st"
  using assms by (auto simp: jwt_principal_def split: sum.splits if_splits option.splits dest: user_get_id)

lemma get_current_user_E:
  assumes "get_current_user env s rq st r = (Inr (u, st'), r')"
  shows "(\<exists>raw k. raw_api_key rq = Some raw \<and> matching_key (ae_security env) s raw = Some k \<and> unexpired (ae_now env) k \<and>
      (\<forall>scope. infer_scope (hr_path rq) (hr_verb rq) = Some scope \<longrightarrow> has_scope (ak_scopes k) scope) \<and>
      rs_auth_method st' = ''apikey'' \<and> rs_api_key_org_id st' = Some (ak_org_id k) \<and> rs_current_role st' = Some ''admin'' \<and>
      rs_organization_id st' = rs_organization_id st) \<or>
    (\<exists>c payload. bearer_credentials rq = Some c \<and> decode_token (ae_security env) (ae_now env) c = Inr payload \<and>
      dget payload ''type'' = JStr ''access'' \<and> parse_uuid (py_str (dget payload ''sub'')) = Some (u_id u) \<and>
      user_get_by_id (au_db s) (u_id u) = Some u \<and> u_is_active u \<and>
      rs_auth_method st' = ''jwt'' \<and> rs_organization_id st' = rs_organization_id st)"
proof -
  show ?thesis
  proof (cases "raw_api_key rq")
    case None
    with assms show ?thesis
      by (auto simp: get_current_user_def split: option.splits dest: jwt_principal_E)
  next
    case (Some raw)
    show ?thesis
    proof (cases "raw = []")
      case True
      with assms Some show ?thesis
        by (auto simp: get_current_user_def split: option.splits dest: jwt_principal_E)
    next
      case False
      with assms Some obtain k t where auth: "authenticate_key (ae_security env) (ae_isoformat env) (ae_now env) raw s (ar_strings r) = (Inr k, t)"
        and prin: "key_principal env s rq st k = Inr (u, st')"
        by (auto simp: get_current_user_def split: sum.splits prod.splits)
      have "\<forall>scope. infer_scope (hr_path rq) (hr_verb rq) = Some scope \<longrightarrow> has_scope (ak_scopes k) scope"
        "rs_auth_method st' = ''apikey''" "rs_api_key_org_id st' = Some (ak_org_id k)"
        "rs_current_role st' = Some ''admin''" "rs_organization_id st' = rs_organization_id st"
        using prin by (auto simp: key_principal_def Let_def split: option.splits if_splits)
      with Some authenticate_key_E [OF auth] show ?thesis
        by blast
    qed
  qed
qed

lemma one_or_none_in: "one_or_none rs = Inr (Some m) \<Longrightarrow> m \<in> set rs"
  by (auto simp: one_or_none_def split: list.splits)

lemma org_get_id: "org_get_by_id d i = Some org \<Longrightarrow> o_id org = i"
  by (auto simp: org_get_by_id_def dest: get_row_Some)

text \<open>What lets a request through a route that requires a role.\<close>

definition key_grants :: "access_env \<Rightarrow> auth \<Rightarrow> http_request \<Rightarrow> string \<Rightarrow> organization \<Rightarrow> bool" where
  "key_grants env s rq min_role org = (\<exists>raw. \<exists>k \<in> set (au_api_keys s). raw_api_key rq = Some raw \<and>
     verify_api_key (ae_security env) raw (ak_hashed_key k) \<and> \<not> ak_is_deleted k \<and> unexpired (ae_now env) k \<and>
     ak_org_id k = o_id org \<and> has_permission ''admin'' min_role \<and>
     (\<forall>scope. infer_scope (hr_path rq) (hr_verb rq) = Some scope \<longrightarrow> has_scope (ak_scopes k) scope))"

definition member_grants :: "access_env \<Rightarrow> auth \<Rightarrow> http_request \<Rightarrow> string \<Rightarrow> organization \<Rightarrow> bool" where
  "member_grants env s rq min_role org = (\<exists>c payload u. \<exists>m \<in> set (db_members (au_db s)).
     bearer_credentials rq = Some c \<and> decode_token (ae_security env) (ae_now env) c = Inr payload \<and>
     dget payload ''type'' = JStr ''access'' \<and> parse_uuid (py_str (dget payload ''sub'')) = Some (u_id u) \<and>
     user_get_by_id (au_db s) (u_id u) = Some u \<and> u_is_active u \<and>
     extract_organization_id rq = Inr (Some (o_id org)) \<and> m_org_id m = o_id org \<and> m_user_id m = u_id u \<and>
     \<not> m_is_deleted m \<and> has_permission (m_role m) min_role)"

text \<open>
  C11: A request passes a route that requires a role, for an organization, only with a live API key of
  that organization whose scopes cover the scope of the path and only where administrators pass, or
  with an access token of an active user who is a member of the organization named in the header with
  at least the role.
\<close>
theorem authorize_sound:
  assumes "authorize env s min_role rq r = Inr org"
  shows "key_grants env s rq min_role org \<or> member_grants env s rq min_role org"
proof -
  obtain st u st' r' st2 where ten: "tenant_context rq = Inr st" and usr: "get_current_user env s rq st r = (Inr (u, st'), r')"
    and og: "get_current_org s rq (u, st') = Inr (org, st2)" and role: "require_role min_role (org, st2) = Inr org"
    using assms by (auto simp: authorize_def require_role_def Let_def fst_def split: sum.splits if_splits prod.splits)
  obtain o_opt where ext: "extract_organization_id rq = Inr o_opt" and st: "rs_organization_id st = o_opt"
    using ten by (rule tenant_context_E) simp
  have src: "(case rs_organization_id st of Some i \<Rightarrow> Inr (Some i) | None \<Rightarrow> extract_organization_id rq) = Inr o_opt"
    using ext st by (auto split: option.splits)
  from get_current_user_E [OF usr] show ?thesis
  proof (elim disjE exE conjE)
    fix raw k
    assume raw: "raw_api_key rq = Some raw" and k: "matching_key (ae_security env) s raw = Some k" "unexpired (ae_now env) k"
      and scope: "\<forall>scope. infer_scope (hr_path rq) (hr_verb rq) = Some scope \<longrightarrow> has_scope (ak_scopes k) scope"
      and st': "rs_auth_method st' = ''apikey''" "rs_api_key_org_id st' = Some (ak_org_id k)"
        "rs_organization_id st' = rs_organization_id st"
    from og st' src have "org_get_by_id (au_db s) (ak_org_id k) = Some org" "rs_current_role st2 = Some ''admin''"
      by (auto simp: get_current_org_def split: if_splits option.splits)
    with role have "ak_org_id k = o_id org" "has_permission ''admin'' min_role"
      by (auto simp: require_role_def Let_def dest: org_get_id split: if_splits)
    with raw k(2) scope matching_key_E(1-3) [OF k(1)] show ?thesis
      unfolding key_grants_def by blast
  next
    fix c payload
    assume tok: "bearer_credentials rq = Some c" "decode_token (ae_security env) (ae_now env) c = Inr payload"
        "dget payload ''type'' = JStr ''access''" "parse_uuid (py_str (dget payload ''sub'')) = Some (u_id u)"
        "user_get_by_id (au_db s) (u_id u) = Some u" "u_is_active u"
      and st': "rs_auth_method st' = ''jwt''" "rs_organization_id st' = rs_organization_id st"
    from og st' src obtain i m where i: "o_opt = Some i" "get_member (au_db s) i (u_id u) False = Inr (Some m)"
        "org_get_by_id (au_db s) i = Some org" "rs_current_role st2 = Some (m_role m)"
      by (auto simp: get_current_org_def split: if_splits option.splits sum.splits)
    then have "m \<in> set (db_members (au_db s))" "m_org_id m = o_id org" "m_user_id m = u_id u" "\<not> m_is_deleted m"
      by (auto simp: get_member_def dest!: one_or_none_in org_get_id)
    moreover have "has_permission (m_role m) min_role"
      using role i(4) by (auto simp: require_role_def Let_def split: if_splits)
    moreover have "extract_organization_id rq = Inr (Some (o_id org))"
      using ext i(1,3) by (auto dest: org_get_id)
    ultimately show ?thesis
      using tok unfolding member_grants_def by blast
  qed
qed

text \<open>A key whose rate window has room passes every administrator's route outside the scope table.\<close>

lemma unscoped_key_passes:
  assumes "raw_api_key rq = Some raw" and "raw \<noteq> []" and "matching_key (ae_security env) s raw = Some k"
    and "unexpired (ae_now env) k" and "org_get_by_id (au_db s) (ak_org_id k) = Some org"
    and "extract_organization_id rq = Inr None" and "\<not> r_up (ar_zsets r)"
    and "infer_scope (hr_path rq) (hr_verb rq) = None" and "has_permission ''admin'' min_role"
  shows "authorize env s min_role rq r = Inr org"
proof -
  have "tenant_context rq = Inr (fresh_request_state\<lparr>rs_organization_id := None\<rparr>)"
    by (simp add: tenant_context_def assms(6))
  moreover have "\<exists>u st t. get_current_user env s rq (fresh_request_state\<lparr>rs_organization_id := None\<rparr>) r = (Inr (u, st), t) \<and>
      rs_auth_method st = ''apikey'' \<and> rs_api_key_org_id st = Some (ak_org_id k) \<and> rs_organization_id st = None"
  proof -
    obtain t where "authenticate_key (ae_security env) (ae_isoformat env) (ae_now env) raw s (ar_strings r) = (Inr k, t)"
      using assms(3,4) by (auto simp: authenticate_key_def unexpired_def split: option.splits)
    moreover have "rate_check api_key_limiter (ae_now env) (ae_member env) i (ar_zsets r) = (Inr True, ar_zsets r)" for i
      using assms(7) by (simp add: rate_check_def)
    ultimately show ?thesis
      using assms(1,2,8) by (simp add: get_current_user_def key_principal_def Let_def fresh_request_state_def)
  qed
  ultimately show ?thesis
    using assms(5,6,9)
    by (auto simp: authorize_def get_current_org_def require_role_def Let_def split: option.splits prod.splits)
qed

text \<open>
  C12: Scopes do not protect what the scope table does not name.  An API key without any scope passes
  every route that requires an administrator or less under paths such as \<^verbatim>\<open>/v1/webhooks\<close>,
  \<^verbatim>\<open>/v1/status-page\<close> and \<^verbatim>\<open>/v1/vendors/submissions\<close>.
\<close>
theorem unscoped_paths_open:
  assumes "raw_api_key rq = Some raw" and "raw \<noteq> []" and "matching_key (ae_security env) s raw = Some k"
    and "ak_scopes k = []" and "unexpired (ae_now env) k" and "org_get_by_id (au_db s) (ak_org_id k) = Some org"
    and "extract_organization_id rq = Inr None" and "\<not> r_up (ar_zsets r)"
    and "hr_path rq \<in> {''/v1/webhooks'', ''/v1/status-page'', ''/v1/vendors/submissions''}"
  shows "authorize env s ''admin'' rq r = Inr org"
proof -
  have "infer_scope p v = None"
    if "p \<in> {''/v1/webhooks'', ''/v1/status-page'', ''/v1/vendors/submissions''}" for p v
    using that by (auto simp: infer_scope_def scope_markers_def Let_def)
  then have "infer_scope (hr_path rq) (hr_verb rq) = None"
    using assms(9) by blast
  then show ?thesis
    using assms(1-3,5-8) by (intro unscoped_key_passes [where k = k]) (simp_all add: has_permission_def)
qed

definition demo_key :: api_key where
  "demo_key = \<lparr>ak_id = 31, ak_org_id = 5, ak_name = ''ci'', ak_prefix = ''rel_abcd'', ak_hashed_key = ''rel_abcdef'',
     ak_scopes = [], ak_last_used_at = None, ak_expires_at = None, ak_created_at = 0, ak_is_deleted = False,
     ak_deleted_at = None\<rparr>"

definition demo_org :: organization where
  "demo_org = \<lparr>o_id = 5, o_name = ''O'', o_slug = ''o'', o_plan = ''free'', o_has_agency_mode = False, o_created_at = 0\<rparr>"

definition demo_keyed :: auth where
  "demo_keyed = \<lparr>au_db = demo_users\<lparr>db_organizations := [demo_org]\<rparr>, au_refresh = [], au_email_tokens = [],
     au_reset_tokens = [], au_api_keys = [demo_key]\<rparr>"

definition demo_env :: access_env where
  "demo_env = \<lparr>ae_now = 5, ae_member = ''m'', ae_security = demo_security, ae_isoformat = show_int\<rparr>"

definition demo_http :: http_request where
  "demo_http = \<lparr>hr_path = ''/v1/webhooks'', hr_verb = ''POST'', hr_headers = [(''x-api-key'', ''rel_abcdef'')]\<rparr>"

definition demo_redis_down :: access_redis where
  "demo_redis_down = \<lparr>ar_strings = \<lparr>r_up = False, r_kv = (\<lambda>_. None)\<rparr>, ar_zsets = \<lparr>r_up = False, r_kv = (\<lambda>_. None)\<rparr>\<rparr>"

lemma demo_raw_key: "raw_api_key demo_http = Some ''rel_abcdef''"
  by code_simp

lemma demo_no_org: "extract_organization_id demo_http = Inr None"
  by (simp add: extract_organization_id_def ORG_HEADER_CANDIDATES_def header_def demo_http_def)

lemma demo_matching: "matching_key (ae_security demo_env) demo_keyed ''rel_abcdef'' = Some demo_key"
  by code_simp

lemma demo_key_lives: "unexpired (ae_now demo_env) demo_key"
  by code_simp

lemma demo_key_org: "org_get_by_id (au_db demo_keyed) (ak_org_id demo_key) = Some demo_org"
  by (simp add: org_get_by_id_def get_row_def demo_keyed_def demo_key_def demo_org_def)

lemma demo_down: "\<not> r_up (ar_zsets demo_redis_down)"
  by (simp add: demo_redis_down_def)

lemma demo_unscoped: "infer_scope (hr_path demo_http) (hr_verb demo_http) = None"
  by (simp add: demo_http_def infer_scope_def scope_markers_def Let_def)

theorem unscoped_paths_open_witness: "authorize demo_env demo_keyed ''admin'' demo_http demo_redis_down = Inr demo_org"
  by (rule unscoped_paths_open [OF demo_raw_key _ demo_matching _ demo_key_lives demo_key_org demo_no_org demo_down])
    (simp_all add: demo_key_def demo_http_def)

theorem authorize_sound_witness:
  "key_grants demo_env demo_keyed demo_http ''admin'' demo_org \<or> member_grants demo_env demo_keyed demo_http ''admin'' demo_org"
proof (rule authorize_sound)
  show "authorize demo_env demo_keyed ''admin'' demo_http demo_redis_down = Inr demo_org"
    by (rule unscoped_key_passes [OF demo_raw_key _ demo_matching demo_key_lives demo_key_org demo_no_org demo_down demo_unscoped])
      (simp_all add: has_permission_def)
qed

section \<open>API keys\<close>

lemma create_key_E:
  assumes "create_key sec now i salt rnd org_id rq s = (Inr (k, full), s1)"
  obtains "s1 = add_api_key k s" and "ak_hashed_key k \<notin> ak_hashed_key ` set (au_api_keys s)"
    and "sec_hashpw sec full salt = Some (ak_hashed_key k)" and "ak_prefix k = take 8 full" and "length full = 44"
    and "ak_org_id k = org_id" and "\<not> ak_is_deleted k" and "ak_id k = i" and "i \<notin> ak_id ` set (au_api_keys s)"
    and "ak_scopes k = kc_scopes rq" and "ak_expires_at k = kc_expires_at rq"
  using assms by (auto simp: create_key_def generate_api_key_def hash_api_key_def api_key_create_def Let_def
      split: sum.splits option.splits if_splits elim!: and_then_E)

lemma find_unique:
  assumes "x \<in> set xs" and "P x" and "\<And>y. y \<in> set xs \<Longrightarrow> P y \<Longrightarrow> y = x"
  shows "find P xs = Some x"
proof (cases "find P xs")
  case None
  with assms(1,2) show ?thesis
    by (auto simp: find_None_iff)
next
  case (Some y)
  then have "y \<in> set xs" "P y"
    by (auto simp: find_Some_iff)
  with Some assms(3) show ?thesis
    by simp
qed

lemma matching_none:
  assumes "\<And>k. k \<in> set (au_api_keys s) \<Longrightarrow> ak_is_deleted k \<or> \<not> verify_api_key sec raw (ak_hashed_key k)"
  shows "matching_key sec s raw = None"
  using assms by (auto simp: matching_key_def find_None_iff list_by_prefix_def)

text \<open>
  C18: A created key authenticates as itself from then on until it expires, and from its revocation on
  it never does.  (Only the new key is assumed to match what bcrypt stored for it.)
\<close>
theorem api_key_lifecycle:
  assumes "create_key sec now i salt rnd org_id rq s = (Inr (k, full), s1)"
    and "\<And>k'. k' \<in> set (au_api_keys s) \<Longrightarrow> \<not> verify_api_key sec full (ak_hashed_key k')"
    and "verify_api_key sec full (ak_hashed_key k)"
    and "revoke_key t org_id i s1 = (Inr (), s2)"
  shows "fst (authenticate_key sec isof now1 full s1 r) =
      (if unexpired now1 k then Inr k else Inl (UnauthorizedException ''API key has expired'')) \<and>
    fst (authenticate_key sec isof now2 full s2 r) = Inl (UnauthorizedException ''Invalid API key'')"
  using assms(1)
proof (rule create_key_E)
  assume s1: "s1 = add_api_key k s" and new: "ak_id k = i" "i \<notin> ak_id ` set (au_api_keys s)" "\<not> ak_is_deleted k"
    and pre: "ak_prefix k = take 8 full" "length full = 44"
  have "matching_key sec s1 full = Some k"
    unfolding matching_key_def
    by (rule find_unique) (use s1 new(3) pre assms(2,3) in \<open>auto simp: add_api_key_def list_by_prefix_def\<close>)
  then have live: "fst (authenticate_key sec isof now1 full s1 r) =
      (if unexpired now1 k then Inr k else Inl (UnauthorizedException ''API key has expired''))"
    by (auto simp: authenticate_key_def unexpired_def split: option.splits)
  have "api_key_row s1 i = Some k"
    using s1 new get_row_None [of ak_id i "au_api_keys s"]
    by (simp add: api_key_row_def add_api_key_def get_row_append) (simp add: get_row_def)
  then have "s2 = api_key_delete t k s1"
    using assms(4) by (auto simp: revoke_key_def api_key_get_by_id_def split: if_splits)
  then have "matching_key sec s2 full = None"
    using assms(2) new(1)
    by (intro matching_none) (auto simp: api_key_delete_def api_key_repo.rows_save save_row_def s1 add_api_key_def)
  with live show ?thesis
    by (simp add: authenticate_key_def)
qed

definition bcrypt_security :: security where
  "bcrypt_security = demo_security\<lparr>sec_hashpw := (\<lambda>p salt. Some (''$2b$'' @ p)), sec_checkpw := (\<lambda>p h. Some (h = ''$2b$'' @ p))\<rparr>"

theorem api_key_lifecycle_witness:
  "\<exists>k full s1 s2. create_key bcrypt_security 0 41 ''x'' 7 5 \<lparr>kc_name = ''ci'', kc_scopes = [''read:checks''],
       kc_expires_at = Some 100\<rparr> demo_keyed = (Inr (k, full), s1) \<and> revoke_key 50 5 41 s1 = (Inr (), s2) \<and>
     fst (authenticate_key bcrypt_security show_int 60 full s2 redis_empty) = Inl (UnauthorizedException ''Invalid API key'')"
proof -
  define full where "full = ''rel_'' @ hex_digits 40 7"
  define k where "k = \<lparr>ak_id = 41, ak_org_id = 5, ak_name = ''ci'', ak_prefix = take 8 full, ak_hashed_key = ''$2b$'' @ full,
     ak_scopes = [''read:checks''], ak_last_used_at = None, ak_expires_at = Some 100, ak_created_at = 0,
     ak_is_deleted = False, ak_deleted_at = None\<rparr>"
  have "generate_api_key bcrypt_security ''x'' 7 = Inr (full, take 8 full, ''$2b$'' @ full)"
    by (simp add: generate_api_key_def hash_api_key_def bcrypt_security_def full_def Let_def)
  then have c: "create_key bcrypt_security 0 41 ''x'' 7 5 \<lparr>kc_name = ''ci'', kc_scopes = [''read:checks''], kc_expires_at = Some 100\<rparr>
      demo_keyed = (Inr (k, full), add_api_key k demo_keyed)"
    by (simp add: create_key_def and_then_def pure_step_def api_key_create_def Let_def k_def demo_keyed_def demo_key_def demo_org_def)
  have r: "revoke_key 50 5 41 (add_api_key k demo_keyed) = (Inr (), api_key_delete 50 k (add_api_key k demo_keyed))"
    by (simp add: revoke_key_def api_key_get_by_id_def api_key_row_def get_row_def add_api_key_def demo_keyed_def demo_key_def k_def)
  have o: "\<not> verify_api_key bcrypt_security full (ak_hashed_key k')" if "k' \<in> set (au_api_keys demo_keyed)" for k'
  proof -
    have "length full = 44"
      by (simp add: full_def)
    then show ?thesis
      using that by (auto simp: demo_keyed_def demo_key_def verify_api_key_def bcrypt_security_def demo_security_def)
  qed
  have v: "verify_api_key bcrypt_security full (ak_hashed_key k)"
    by (simp add: verify_api_key_def bcrypt_security_def k_def)
  from api_key_lifecycle [OF c o v r] c r show ?thesis
    by blast
qed

section \<open>Rate limiting\<close>

text \<open>
  C21: With Redis up the limiter is exactly a sliding window over all requests: of any sequence of
  requests a request is admitted when fewer than the limit of its identifier, admitted or refused,
  arrived within the window before it; hence at most the limit is admitted in any window, and a client
  that keeps sending while refused stays refused.
\<close>
theorem rate_limit_exact:
  assumes "0 < rl_window_seconds l" and "0 \<le> rl_limit l" and "request_log qs"
  shows "rate_run l qs redis_empty = window_run l [] qs \<and> int (length (filter (between l t i) (admitted l qs))) \<le> rl_limit l"
  using rate_run_fresh [OF assms(1,3)] window_bound [OF assms(2)] by (simp add: admitted_def)

theorem rate_limit_exact_witness:
  "rate_run \<lparr>rl_limit = 2, rl_window_seconds = 60, rl_key_prefix = ''p''\<rparr>
     [(1, ''a'', ''x''), (30000000, ''b'', ''x''), (59000000, ''c'', ''x''), (61000000, ''d'', ''x''), (61000000, ''e'', ''y'')] redis_empty =
   [True, True, False, False, True]"
proof -
  let ?qs = "[(1, ''a'', ''x''), (30000000, ''b'', ''x''), (59000000, ''c'', ''x''), (61000000, ''d'', ''x''), (61000000, ''e'', ''y'')]"
  let ?l = "\<lparr>rl_limit = 2, rl_window_seconds = 60, rl_key_prefix = ''p''\<rparr>"
  have "request_log ?qs"
    by (simp add: request_log_def)
  then have "rate_run ?l ?qs redis_empty = window_run ?l [] ?qs"
    using rate_limit_exact [of ?l ?qs] by simp
  also have "\<dots> = [True, True, False, False, True]"
    by (simp add: admits_def in_window_def seconds_def)
  finally show ?thesis .
qed

section \<open>Idempotency\<close>

lemma live_expired: "live now (Some (v, Some t)) = (if now < t then Some v else None)"
  by (simp add: live_def)

text \<open>
  C12: Within a day of a cacheable answer the same key of the same principal is answered with the
  cached response and not executed, whatever path, body and handler the second request names.
\<close>
theorem idempotent_replay:
  assumes "idempotency_principal sec now rq peer = Some who" and "idempotency_principal sec now2 rq2 peer2 = Some who"
    and "header rq ''idempotency-key'' = key" and "header rq2 ''idempotency-key'' = key" and "key \<noteq> []"
    and "hr_verb rq \<in> {''POST'', ''PATCH''}" and "hr_verb rq2 \<in> {''POST'', ''PATCH''}"
    and "r_up r" and "safe_redis_get now (cache_key who key) r = None"
    and "safe_redis_get now (lock_key (cache_key who key)) r = None"
    and "call_next s = (Some c, s1)" and "is_cacheable_status (hs_status c)" and "now2 < now + hours 24"
  shows "\<exists>r1. idempotent sec now rq peer call_next s r = (Some (replayed c), s1, r1) \<and>
    idempotent sec now2 rq2 peer2 other s2 r1 = (Some (replayed c), s2, r1)"
proof -
  let ?k = "cache_key who key"
  have free: "live now (r_kv r (lock_key ?k)) = None"
    using assms(8,10) by (simp add: safe_redis_get_def redis_get_def)
  obtain r2 where nx: "safe_redis_set_nx now (lock_key ?k) InFlight (Some 60) r = (True, r2)" and up: "r_up r2"
    using free assms(8) by (auto simp: safe_redis_set_nx_def redis_set_nx_def put_key_def)
  define r1 where "r1 = snd (safe_redis_setex now ?k 86400 (Cached (replayed c)) (snd (redis_delete (lock_key ?k) r2)))"
  have first: "idempotent sec now rq peer call_next s r = (Some (replayed c), s1, r1)"
    using assms(1,3,5,6,9,11,12) nx by (simp add: idempotent_def Let_def r1_def)
  have "safe_redis_get now2 ?k r1 = Some (Cached (replayed c))"
    using up assms(13) by (simp add: r1_def safe_redis_setex_def redis_set_def redis_delete_def safe_redis_get_def
        redis_get_def put_key_def expiry_def live_expired hours_def seconds_def)
  then have "idempotent sec now2 rq2 peer2 other s2 r1 = (Some (replayed c), s2, r1)"
    using assms(2,4,5,7) by (simp add: idempotent_def Let_def)
  with first show ?thesis
    by blast
qed

definition idem_request :: "string \<Rightarrow> http_request" where
  "idem_request path = \<lparr>hr_path = path, hr_verb = ''POST'', hr_headers = [(''idempotency-key'', ''k1'')]\<rparr>"

theorem idempotent_replay_witness:
  "\<exists>c r1. idempotent demo_security 0 (idem_request ''/v1/auth/login'') (Some ''10.0.0.1'') (\<lambda>n. (Some c, Suc n)) 0 redis_empty =
      (Some (replayed c), 1, r1) \<and>
    idempotent demo_security 9 (idem_request ''/v1/auth/register'') (Some ''10.0.0.1'') (\<lambda>n. (None, n)) 4 r1 = (Some (replayed c), 4, r1)"
proof -
  let ?c = "\<lparr>hs_status = 200, hs_content = ''tokens'', hs_media_type = None, hs_headers = []\<rparr>"
  have p: "idempotency_principal demo_security t (idem_request path) (Some ''10.0.0.1'') = Some ''ip:10.0.0.1''" for t path
    by (simp add: idempotency_principal_def idem_request_def header_def lower_def Let_def)
  show ?thesis
    using idempotent_replay [OF p [of 0 "''/v1/auth/login''"] p [of 9 "''/v1/auth/register''"],
        of "''k1''" redis_empty "\<lambda>n. (Some ?c, Suc n)" "0::nat" ?c "1::nat" "\<lambda>n. (None, n)" 4]
    by (auto simp: idem_request_def header_def redis_empty_def safe_redis_get_def redis_get_def live_def is_cacheable_status_def
        hours_def seconds_def)
qed

text \<open>
  Keys are separated by the verified user only.  Tokens of different users never share a key, but
  all requests whose bearer token does not verify share one principal, as do all anonymous requests
  that come through the same proxy, so their cached answers, a login's tokens among them, are
  replayed to each other.
\<close>
theorem idempotency_scoping:
  assumes "CHR '':'' \<notin> set u1" and "CHR '':'' \<notin> set u2"
    and "starts_with (lower (header rq ''authorization'')) ''bearer ''"
    and "strip (dropWhile (\<lambda>c. \<not> is_space c) (header rq ''authorization'')) = tok" and "tok \<noteq> []"
    and "decode_token sec now tok = Inl e"
    and "header rq2 ''authorization'' = []" and "header rq2 ''x-api-key'' = []"
  shows "(cache_key (''user:'' @ u1) k1 = cache_key (''user:'' @ u2) k2 \<longleftrightarrow> u1 = u2 \<and> k1 = k2) \<and>
    idempotency_principal sec now rq peer = Some ''user:invalid-token'' \<and>
    idempotency_principal sec now rq2 (Some proxy) = Some (''ip:'' @ proxy)"
proof -
  have "u1 @ '':'' @ k1 = u2 @ '':'' @ k2 \<longleftrightarrow> u1 = u2 \<and> k1 = k2"
  proof
    assume eq: "u1 @ '':'' @ k1 = u2 @ '':'' @ k2"
    have "takeWhile (\<lambda>c. c \<noteq> CHR '':'') (u @ '':'' @ k) = u" if "CHR '':'' \<notin> set u" for u k
      using that by (induction u) auto
    with assms(1,2) eq have "u1 = u2"
      by metis
    with eq show "u1 = u2 \<and> k1 = k2"
      by simp
  qed simp
  then show ?thesis
    using assms(3-8) by (simp add: cache_key_def idempotency_principal_def Let_def lower_def)
qed

theorem idempotency_scoping_witness:
  "idempotency_principal demo_security 0 \<lparr>hr_path = ''/v1/auth/login'', hr_verb = ''POST'',
     hr_headers = [(''authorization'', ''Bearer xyz'')]\<rparr> None = Some ''user:invalid-token''"
proof -
  let ?rq = "\<lparr>hr_path = ''/v1/auth/login'', hr_verb = ''POST'', hr_headers = [(''authorization'', ''Bearer xyz'')]\<rparr>"
  have h: "header ?rq ''authorization'' = ''Bearer xyz''"
    by (simp add: header_def)
  have "starts_with (lower ''Bearer xyz'') ''bearer ''" "strip (dropWhile (\<lambda>c. \<not> is_space c) ''Bearer xyz'') = ''xyz''"
    by code_simp+
  moreover have "decode_token demo_security 0 ''xyz'' = Inl (UnauthorizedException ''Invalid token'')"
    by (simp add: decode_token_def demo_security_def)
  ultimately show ?thesis
    using idempotency_scoping [of "[]" "[]" ?rq "''xyz''" demo_security 0 "UnauthorizedException ''Invalid token''"
        "\<lparr>hr_path = [], hr_verb = [], hr_headers = []\<rparr>" "[]" "[]" None "[]"] h
    by (simp add: header_def)
qed

text \<open>
  With Redis unreachable every POST and PATCH that carries an idempotency key is refused as a
  conflict without being executed, although the middleware means to let it through.
\<close>
theorem idempotency_redis_down:
  assumes "\<not> r_up r" and "header rq ''idempotency-key'' \<noteq> []" and "hr_verb rq \<in> {''POST'', ''PATCH''}"
    and "idempotency_principal sec now rq peer \<noteq> None"
  shows "idempotent sec now rq peer call_next s r = (Some conflict_response, s, r) \<and> hs_status conflict_response = 409"
  using assms by (auto simp: idempotent_def Let_def safe_redis_get_def redis_get_def safe_redis_set_nx_def
      redis_set_nx_def conflict_response_def)

theorem idempotency_redis_down_witness:
  "idempotent demo_security 0 (idem_request ''/v1/orgs'') None (\<lambda>n. (None, Suc n)) (0::nat) \<lparr>r_up = False, r_kv = (\<lambda>_. None)\<rparr> =
     (Some conflict_response, 0, \<lparr>r_up = False, r_kv = (\<lambda>_. None)\<rparr>)"
  by (rule idempotency_redis_down [THEN conjunct1])
    (simp_all add: idem_request_def header_def idempotency_principal_def lower_def Let_def)

end
