(* ===== verification/Webhooks.thy ===== *)
theory Webhooks
  imports Sessions Ssrf
begin

text \<open>
  \<^verbatim>\<open>modules/webhooks\<close>: the customers' webhooks, the signed delivery of an event to them and the retry
  of failed deliveries.  Outside the repository, and the fields of \<^verbatim>\<open>hook_env\<close>: the answers of the
  name service, the Fernet cipher of the signing secrets (its random part is an argument), HMAC-SHA256,
  \<^verbatim>\<open>isoformat\<close> and the replies of the receivers, which may depend on everything posted before.
  The posts are part of the state, as they cannot be rolled back; \<^verbatim>\<open>hp_for\<close> names the delivery a post
  was made for.
\<close>

section \<open>Tables\<close>

record webhook =
  wk_id :: uuid
  wk_org_id :: uuid
  wk_name :: string
  wk_url :: string
  wk_events :: "string list"
  wk_secret_hash :: "string option"
  wk_custom_headers :: "(string \<times> string) list option"
  wk_is_active :: bool
  wk_created_by :: uuid
  wk_last_delivery_at :: "time option"
  wk_failure_count :: nat
  wk_is_deleted :: bool
  wk_deleted_at :: "time option"
  wk_created_at :: time

record webhook_delivery =
  wd_id :: uuid
  wd_webhook_id :: uuid
  wd_event_type :: string
  wd_payload :: json
  wd_status :: string
  wd_response_status_code :: "nat option"
  wd_response_body :: "string option"
  wd_attempt_count :: nat
  wd_next_retry_at :: "time option"
  wd_created_at :: time
  wd_delivered_at :: "time option"

record hook_post =
  hp_url :: string
  hp_body :: string
  hp_headers :: "(string \<times> string) list"
  hp_for :: "uuid option"

record hooks =
  hk_webhooks :: "webhook list"
  hk_deliveries :: "webhook_delivery list"
  hk_posts :: "hook_post list"
  hk_lookups :: nat

text \<open>A response, an \<^verbatim>\<open>httpx.HTTPError\<close>, or an exception of another class.\<close>

datatype hook_reply = Responded nat string | TransportError string | Raised string

record hook_env =
  he_dns :: resolver
  he_encrypt :: "string \<Rightarrow> string \<Rightarrow> string"
  he_decrypt :: "string \<Rightarrow> string option"
  he_hmac :: "string \<Rightarrow> string \<Rightarrow> string"
  he_isoformat :: "time \<Rightarrow> string"
  he_reply :: "hook_post list \<Rightarrow> hook_post \<Rightarrow> hook_reply"

section \<open>\<^verbatim>\<open>json.dumps\<close>\<close>

definition json_escape :: "char \<Rightarrow> string" where
  "json_escape c = (let n = (of_char c :: nat) in
     if c = CHR 0x22 then [CHR 0x5C, CHR 0x22] else if c = CHR 0x5C then [CHR 0x5C, CHR 0x5C]
     else if n = 10 then [CHR 0x5C, CHR ''n''] else if n = 13 then [CHR 0x5C, CHR ''r'']
     else if n = 9 then [CHR 0x5C, CHR ''t''] else if n = 12 then [CHR 0x5C, CHR ''f'']
     else if n = 8 then [CHR 0x5C, CHR ''b'']
     else if n < 32 \<or> 126 < n then [CHR 0x5C, CHR ''u''] @ hex_digits 4 n else [c])"

definition json_string :: "string \<Rightarrow> string" where
  "json_string s = [CHR 0x22] @ concat (map json_escape s) @ [CHR 0x22]"

definition comma_join :: "string list \<Rightarrow> string" where
  "comma_join ss = concat (case ss of [] \<Rightarrow> [] | x # xs \<Rightarrow> x # map (\<lambda>y. '', '' @ y) xs)"

fun json_dumps :: "json \<Rightarrow> string" where
  "json_dumps JNull = ''null''"
| "json_dumps (JBool b) = (if b then ''true'' else ''false'')"
| "json_dumps (JInt i) = show_int i"
| "json_dumps (JStr s) = json_string s"
| "json_dumps (JArr xs) = ''['' @ comma_join (map json_dumps xs) @ '']''"
| "json_dumps (JObj kvs) = ''{'' @ comma_join (map (\<lambda>(k, v). json_string k @ '': '' @ json_dumps v) kvs) @ ''}''"

section \<open>Repository\<close>

definition webhook_get :: "hooks \<Rightarrow> uuid \<Rightarrow> uuid option \<Rightarrow> bool \<Rightarrow> webhook option" where
  "webhook_get s webhook_id org_id include_deleted =
     find (\<lambda>w. wk_id w = webhook_id \<and> (case org_id of None \<Rightarrow> True | Some owner \<Rightarrow> wk_org_id w = owner) \<and>
       (include_deleted \<or> \<not> wk_is_deleted w)) (hk_webhooks s)"

definition webhook_list :: "hooks \<Rightarrow> uuid \<Rightarrow> webhook list" where
  "webhook_list s org_id = sort_key (\<lambda>w. - wk_created_at w)
     (filter (\<lambda>w. wk_org_id w = org_id \<and> \<not> wk_is_deleted w) (hk_webhooks s))"

definition list_active_for_org_and_event :: "hooks \<Rightarrow> uuid \<Rightarrow> string \<Rightarrow> webhook list" where
  "list_active_for_org_and_event s org_id event_type =
     filter (\<lambda>w. event_type \<in> set (wk_events w)) (sort_key wk_created_at
       (filter (\<lambda>w. wk_org_id w = org_id \<and> wk_is_active w \<and> \<not> wk_is_deleted w) (hk_webhooks s)))"

definition webhook_save :: "webhook \<Rightarrow> hooks \<Rightarrow> hooks" where
  "webhook_save w s = s\<lparr>hk_webhooks := save_row wk_id w (hk_webhooks s)\<rparr>"

definition delivery_save :: "webhook_delivery \<Rightarrow> hooks \<Rightarrow> hooks" where
  "delivery_save d s = s\<lparr>hk_deliveries := save_row wd_id d (hk_deliveries s)\<rparr>"

text \<open>The columns \<^verbatim>\<open>name\<close> and \<^verbatim>\<open>secret_hash\<close> hold 255 characters.\<close>

definition webhook_fits :: "webhook \<Rightarrow> bool" where
  "webhook_fits w = (length (wk_name w) \<le> 255 \<and> (case wk_secret_hash w of None \<Rightarrow> True | Some h \<Rightarrow> length h \<le> 255))"

definition too_long :: app_error where
  "too_long = ValueError ''value too long for type character varying(255)''"

definition webhook_create :: "webhook \<Rightarrow> (webhook, hooks) service" where
  "webhook_create w s =
     (if webhook_fits w then (Inr w, s\<lparr>hk_webhooks := hk_webhooks s @ [w]\<rparr>) else (Inl too_long, s))"

definition webhook_soft_delete :: "time \<Rightarrow> webhook \<Rightarrow> hooks \<Rightarrow> hooks" where
  "webhook_soft_delete now w = webhook_save (w\<lparr>wk_is_deleted := True, wk_deleted_at := Some now\<rparr>)"

text \<open>The keyword arguments of an update: a value of \<^verbatim>\<open>None\<close> leaves the field.\<close>

datatype webhook_field =
    WName string | WUrl string | WEvents "string list" | WHeaders "(string \<times> string) list"
  | WSecret string | WActive bool

fun put_webhook_field :: "webhook_field \<Rightarrow> webhook \<Rightarrow> webhook" where
  "put_webhook_field (WName v) w = w\<lparr>wk_name := v\<rparr>"
| "put_webhook_field (WUrl v) w = w\<lparr>wk_url := v\<rparr>"
| "put_webhook_field (WEvents v) w = w\<lparr>wk_events := v\<rparr>"
| "put_webhook_field (WHeaders v) w = w\<lparr>wk_custom_headers := Some v\<rparr>"
| "put_webhook_field (WSecret v) w = w\<lparr>wk_secret_hash := Some v\<rparr>"
| "put_webhook_field (WActive v) w = w\<lparr>wk_is_active := v\<rparr>"

definition webhook_update :: "webhook \<Rightarrow> webhook_field list \<Rightarrow> (webhook, hooks) service" where
  "webhook_update w kwargs s = (let w' = set_fields put_webhook_field kwargs w in
     if webhook_fits w' then (Inr w', webhook_save w' s) else (Inl too_long, s))"

definition increment_failure_count :: "webhook \<Rightarrow> webhook" where
  "increment_failure_count w = w\<lparr>wk_failure_count := wk_failure_count w + 1\<rparr>"

definition reset_failure_count :: "webhook \<Rightarrow> webhook" where
  "reset_failure_count w = w\<lparr>wk_failure_count := 0\<rparr>"

definition update_last_delivery :: "time option \<Rightarrow> webhook \<Rightarrow> webhook" where
  "update_last_delivery delivered_at w = w\<lparr>wk_last_delivery_at := delivered_at\<rparr>"

definition list_for_webhook :: "hooks \<Rightarrow> uuid \<Rightarrow> string option \<Rightarrow> nat \<Rightarrow> webhook_delivery list" where
  "list_for_webhook s webhook_id status limit = page_of (\<lambda>d. - wd_created_at d) 0 limit
     (filter (\<lambda>d. wd_webhook_id d = webhook_id \<and> (case status of None \<Rightarrow> True | Some st \<Rightarrow> wd_status d = st))
       (hk_deliveries s))"

text \<open>The column \<^verbatim>\<open>event_type\<close> holds 50 characters.\<close>

definition delivery_create :: "uuid \<Rightarrow> time \<Rightarrow> uuid \<Rightarrow> string \<Rightarrow> json \<Rightarrow> (webhook_delivery, hooks) service" where
  "delivery_create i now webhook_id event_type payload s =
     (let d = \<lparr>wd_id = i, wd_webhook_id = webhook_id, wd_event_type = event_type, wd_payload = payload,
        wd_status = ''pending'', wd_response_status_code = None, wd_response_body = None, wd_attempt_count = 1,
        wd_next_retry_at = None, wd_created_at = now, wd_delivered_at = None\<rparr>
      in if 50 < length event_type then (Inl (ValueError ''value too long for type character varying(50)''), s)
         else (Inr d, s\<lparr>hk_deliveries := hk_deliveries s @ [d]\<rparr>))"

definition delivery_mark_success :: "time \<Rightarrow> nat \<Rightarrow> string option \<Rightarrow> webhook_delivery \<Rightarrow> webhook_delivery" where
  "delivery_mark_success now code body d = d\<lparr>wd_status := ''success'', wd_response_status_code := Some code,
     wd_response_body := body, wd_delivered_at := Some now\<rparr>"

definition delivery_mark_failed ::
  "nat option \<Rightarrow> string option \<Rightarrow> time option \<Rightarrow> webhook_delivery \<Rightarrow> webhook_delivery" where
  "delivery_mark_failed code body next_retry_at d =
     (let count = (if wd_attempt_count d = 0 then 1 else wd_attempt_count d);
          d1 = d\<lparr>wd_status := (if next_retry_at = None then ''failed'' else ''retrying''),
            wd_response_status_code := code, wd_response_body := body, wd_attempt_count := count\<rparr>
      in if next_retry_at = None then d1
         else d1\<lparr>wd_next_retry_at := next_retry_at, wd_attempt_count := count + 1\<rparr>)"

definition mark_permanently_failed :: "webhook_delivery \<Rightarrow> webhook_delivery" where
  "mark_permanently_failed d = d\<lparr>wd_status := ''failed_permanently''\<rparr>"

section \<open>Signing\<close>

text \<open>The decryption raises \<^verbatim>\<open>InvalidToken\<close> where \<^verbatim>\<open>he_decrypt\<close> has no value.\<close>

definition recover_signing_secret :: "hook_env \<Rightarrow> webhook \<Rightarrow> app_error + string option" where
  "recover_signing_secret env w = (case wk_secret_hash w of
     None \<Rightarrow> Inr None
   | Some h \<Rightarrow>
       if h = [] then Inr None
       else if starts_with h ''gAAAAA''
       then (case he_decrypt env h of None \<Rightarrow> Inl (ValueError ''InvalidToken'') | Some p \<Rightarrow> Inr (Some p))
       else Inr (Some h))"

definition sign_payload :: "hook_env \<Rightarrow> string \<Rightarrow> string \<Rightarrow> string" where
  "sign_payload env secret body = he_hmac env secret body"

definition header_set :: "string \<times> string \<Rightarrow> (string \<times> string) list \<Rightarrow> (string \<times> string) list" where
  "header_set kv d = (if fst kv \<in> fst ` set d then map (\<lambda>(k, v). if k = fst kv then kv else (k, v)) d else d @ [kv])"

text \<open>The headers of a post: the fixed ones, the signature if there is a secret, and the custom headers over them.\<close>

definition post_headers ::
  "hook_env \<Rightarrow> webhook \<Rightarrow> string \<Rightarrow> string \<Rightarrow> string \<Rightarrow> app_error + (string \<times> string) list" where
  "post_headers env w event_type delivery body =
     (let headers = [(''Content-Type'', ''application/json''), (''X-Reliastra-Event'', event_type),
            (''X-Reliastra-Delivery'', delivery)]
      in case recover_signing_secret env w of
        Inl e \<Rightarrow> Inl e
      | Inr signing_secret \<Rightarrow>
          (let signed = (if str_truthy signing_secret
             then header_set (''X-Reliastra-Signature'', ''sha256='' @ sign_payload env (the signing_secret) body) headers
             else headers)
           in Inr (fold header_set (case wk_custom_headers w of None \<Rightarrow> [] | Some h \<Rightarrow> h) signed)))"

definition send_post :: "hook_env \<Rightarrow> hook_post \<Rightarrow> hooks \<Rightarrow> hook_reply \<times> hooks" where
  "send_post env p s = (he_reply env (hk_posts s) p, s\<lparr>hk_posts := hk_posts s @ [p]\<rparr>)"

section \<open>Requests\<close>

datatype webhook_event =
    incident_opened | incident_updated | incident_resolved | vendor_degraded | vendor_down
  | vendor_recovered | evidence_ready | sla_breach | check_failed

fun event_value :: "webhook_event \<Rightarrow> string" where
  "event_value incident_opened = ''incident.opened''"
| "event_value incident_updated = ''incident.updated''"
| "event_value incident_resolved = ''incident.resolved''"
| "event_value vendor_degraded = ''vendor.degraded''"
| "event_value vendor_down = ''vendor.down''"
| "event_value vendor_recovered = ''vendor.recovered''"
| "event_value evidence_ready = ''evidence.ready''"
| "event_value sla_breach = ''sla.breach''"
| "event_value check_failed = ''check.failed''"

record webhook_create_request =
  wcr_name :: string
  wcr_url :: string
  wcr_events :: "webhook_event list"
  wcr_headers :: "(string \<times> string) list option"
  wcr_secret :: "string option"
  wcr_is_active :: bool

record webhook_update_request =
  wur_name :: "string option"
  wur_url :: "string option"
  wur_events :: "webhook_event list option"
  wur_headers :: "(string \<times> string) list option"
  wur_secret :: "string option"
  wur_is_active :: "bool option"

record webhook_response =
  whr_id :: uuid
  whr_name :: string
  whr_url_masked :: string
  whr_events :: "string list"
  whr_is_active :: bool
  whr_secret_preview :: "string option"
  whr_failure_count :: nat
  whr_last_delivery_at :: "time option"
  whr_created_at :: time

definition mask_url :: "string \<Rightarrow> string" where
  "mask_url url = (if length url \<le> 30 then take 30 url @ ''***'' else take 30 url @ ''***'')"

definition secret_preview :: "string option \<Rightarrow> string option" where
  "secret_preview secret_hash = (case secret_hash of None \<Rightarrow> None
     | Some h \<Rightarrow> if h = [] then None else Some (''sk_...'' @ drop (length h - 4) h))"

definition to_webhook_response :: "webhook \<Rightarrow> webhook_response" where
  "to_webhook_response w = \<lparr>whr_id = wk_id w, whr_name = wk_name w, whr_url_masked = mask_url (wk_url w),
     whr_events = wk_events w, whr_is_active = wk_is_active w,
     whr_secret_preview = (case wk_secret_hash w of None \<Rightarrow> None
       | Some h \<Rightarrow> if h = [] then None
           else if starts_with h ''gAAAAA'' then Some (''sk_...'' @ drop (length h - 4) h) else secret_preview (Some h)),
     whr_failure_count = wk_failure_count w, whr_last_delivery_at = wk_last_delivery_at w,
     whr_created_at = wk_created_at w\<rparr>"

definition webhook_not_found :: app_error where
  "webhook_not_found = ResourceNotFoundException ''Webhook not found''"

text \<open>\<^verbatim>\<open>validate_outbound_url\<close> raises a \<^verbatim>\<open>ValueError\<close>.\<close>

definition check_url :: "hook_env \<Rightarrow> string \<Rightarrow> (unit, hooks) service" where
  "check_url env url s = (case validate_outbound_url (he_dns env) (hk_lookups s) url of
     (Inl reason, k) \<Rightarrow> (Inl (ValueError reason), s\<lparr>hk_lookups := k\<rparr>)
   | (Inr _, k) \<Rightarrow> (Inr (), s\<lparr>hk_lookups := k\<rparr>))"

definition create_webhook ::
  "hook_env \<Rightarrow> time \<Rightarrow> uuid \<Rightarrow> string \<Rightarrow> string \<Rightarrow> uuid \<Rightarrow> uuid \<Rightarrow> webhook_create_request \<Rightarrow> (webhook, hooks) service" where
  "create_webhook env now i nonce generated org_id user_id request =
     and_then (check_url env (wcr_url request)) (\<lambda>_.
       webhook_create \<lparr>wk_id = i, wk_org_id = org_id, wk_name = wcr_name request, wk_url = wcr_url request,
         wk_events = map event_value (wcr_events request),
         wk_secret_hash = Some (he_encrypt env nonce
           (if str_truthy (wcr_secret request) then the (wcr_secret request) else generated)),
         wk_custom_headers = wcr_headers request, wk_is_active = wcr_is_active request, wk_created_by = user_id,
         wk_last_delivery_at = None, wk_failure_count = 0, wk_is_deleted = False, wk_deleted_at = None,
         wk_created_at = now\<rparr>)"

definition list_webhooks :: "uuid \<Rightarrow> hooks \<Rightarrow> webhook_response list" where
  "list_webhooks org_id s = map to_webhook_response (webhook_list s org_id)"

definition with_webhook :: "uuid \<Rightarrow> uuid \<Rightarrow> (webhook \<Rightarrow> ('a, hooks) service) \<Rightarrow> ('a, hooks) service" where
  "with_webhook org_id webhook_id body s = (case webhook_get s webhook_id (Some org_id) False of
     None \<Rightarrow> (Inl webhook_not_found, s) | Some w \<Rightarrow> body w s)"

definition delete_webhook :: "time \<Rightarrow> uuid \<Rightarrow> uuid \<Rightarrow> (unit, hooks) service" where
  "delete_webhook now org_id webhook_id = with_webhook org_id webhook_id
     (\<lambda>w s. (Inr (), webhook_soft_delete now w s))"

definition webhook_kwargs :: "hook_env \<Rightarrow> string \<Rightarrow> webhook_update_request \<Rightarrow> webhook_field list" where
  "webhook_kwargs env nonce r =
     (case wur_name r of None \<Rightarrow> [] | Some v \<Rightarrow> [WName v]) @
     (case wur_url r of None \<Rightarrow> [] | Some v \<Rightarrow> [WUrl v]) @
     (case wur_events r of None \<Rightarrow> [] | Some v \<Rightarrow> [WEvents (map event_value v)]) @
     (case wur_headers r of None \<Rightarrow> [] | Some v \<Rightarrow> [WHeaders v]) @
     (case wur_secret r of None \<Rightarrow> [] | Some v \<Rightarrow> [WSecret (he_encrypt env nonce v)]) @
     (case wur_is_active r of None \<Rightarrow> [] | Some v \<Rightarrow> [WActive v])"

definition update_webhook ::
  "hook_env \<Rightarrow> string \<Rightarrow> uuid \<Rightarrow> uuid \<Rightarrow> webhook_update_request \<Rightarrow> (webhook_response, hooks) service" where
  "update_webhook env nonce org_id webhook_id request = with_webhook org_id webhook_id (\<lambda>w.
     and_then (case wur_url request of None \<Rightarrow> (\<lambda>s. (Inr (), s)) | Some u \<Rightarrow> check_url env u) (\<lambda>_.
     and_then (webhook_update w (webhook_kwargs env nonce request)) (\<lambda>w' s. (Inr (to_webhook_response w'), s))))"

text \<open>The test post; its latency is not modelled.\<close>

record webhook_test_response =
  wt_success :: bool
  wt_status_code :: "nat option"
  wt_response_body :: "string option"

definition clip :: "nat \<Rightarrow> string \<Rightarrow> string option" where
  "clip n body = (if body = [] then None else Some (take n body))"

definition test_payload :: "hook_env \<Rightarrow> time \<Rightarrow> uuid \<Rightarrow> string \<Rightarrow> json" where
  "test_payload env now i event = JObj [(''event'', JStr event), (''timestamp'', JStr (he_isoformat env now)),
     (''data'', JObj [(''id'', juuid i), (''test'', JBool True), (''message'', JStr ''Webhook test from Reliastra'')])]"

fun test_outcome :: "hook_reply \<Rightarrow> app_error + webhook_test_response" where
  "test_outcome (Responded code body) =
     Inr \<lparr>wt_success = (200 \<le> code \<and> code < 300), wt_status_code = Some code, wt_response_body = clip 2000 body\<rparr>"
| "test_outcome (TransportError msg) =
     Inr \<lparr>wt_success = False, wt_status_code = None, wt_response_body = Some (take 2000 msg)\<rparr>"
| "test_outcome (Raised msg) = Inl (ValueError msg)"

definition post_test :: "hook_env \<Rightarrow> time \<Rightarrow> uuid \<Rightarrow> uuid \<Rightarrow> string \<Rightarrow> webhook \<Rightarrow> (webhook_test_response, hooks) service" where
  "post_test env now i delivery event w s =
     (let body = json_dumps (test_payload env now i event)
      in case post_headers env w event (uuid_str delivery) body of
        Inl e \<Rightarrow> (Inl e, s)
      | Inr headers \<Rightarrow>
          (case send_post env \<lparr>hp_url = wk_url w, hp_body = body, hp_headers = headers, hp_for = None\<rparr> s of
             (reply, s1) \<Rightarrow> (test_outcome reply, s1)))"

definition test_webhook ::
  "hook_env \<Rightarrow> time \<Rightarrow> uuid \<Rightarrow> uuid \<Rightarrow> uuid \<Rightarrow> uuid \<Rightarrow> string \<Rightarrow> (webhook_test_response, hooks) service" where
  "test_webhook env now i delivery org_id webhook_id event = with_webhook org_id webhook_id (\<lambda>w.
     and_then (check_url env (wk_url w)) (\<lambda>_. post_test env now i delivery event w))"

definition list_deliveries ::
  "uuid \<Rightarrow> uuid \<Rightarrow> string option \<Rightarrow> nat \<Rightarrow> (webhook_delivery list, hooks) service" where
  "list_deliveries org_id webhook_id status limit = with_webhook org_id webhook_id
     (\<lambda>w s. (Inr (list_for_webhook s webhook_id status limit), s))"

section \<open>Delivery\<close>

definition RETRY_DELAYS :: "time list" where
  "RETRY_DELAYS = [minutes 1, minutes 5, minutes 15, hours 1, hours 3]"

definition MAX_RETRIES :: nat where "MAX_RETRIES = 5"

definition handle_delivery_failure ::
  "time \<Rightarrow> webhook \<Rightarrow> webhook_delivery \<Rightarrow> nat option \<Rightarrow> string option \<Rightarrow> hooks \<Rightarrow> hooks" where
  "handle_delivery_failure now w d code body s =
     (let s1 = webhook_save (increment_failure_count w) s;
          current_attempt = (if wd_attempt_count d = 0 then 1 else wd_attempt_count d)
      in if MAX_RETRIES \<le> current_attempt then delivery_save (mark_permanently_failed d) s1
         else (let retry_index = min (current_attempt - 1) (length RETRY_DELAYS - 1);
                   next_retry = now + RETRY_DELAYS ! retry_index
               in delivery_save (delivery_mark_failed code body (Some next_retry) d) s1))"

definition handle_delivery_success :: "time \<Rightarrow> webhook \<Rightarrow> webhook_delivery \<Rightarrow> nat \<Rightarrow> string option \<Rightarrow> hooks \<Rightarrow> hooks" where
  "handle_delivery_success now w d code body s =
     (let d1 = delivery_mark_success now code body d
      in webhook_save (update_last_delivery (wd_delivered_at d1) (reset_failure_count w)) (delivery_save d1 s))"

fun handle_reply :: "time \<Rightarrow> webhook \<Rightarrow> webhook_delivery \<Rightarrow> hook_reply \<Rightarrow> (unit, hooks) service" where
  "handle_reply now w d (Responded code body) s =
     (Inr (), if 200 \<le> code \<and> code < 300 then handle_delivery_success now w d code (clip 5000 body) s
              else handle_delivery_failure now w d (Some code) (clip 5000 body) s)"
| "handle_reply now w d (TransportError msg) s = (Inr (), handle_delivery_failure now w d None (Some (take 5000 msg)) s)"
| "handle_reply now w d (Raised msg) s = (Inl (ValueError msg), s)"

definition delivery_request :: "webhook \<Rightarrow> webhook_delivery \<Rightarrow> string \<Rightarrow> (string \<times> string) list \<Rightarrow> hook_post" where
  "delivery_request w d body headers = \<lparr>hp_url = wk_url w, hp_body = body, hp_headers = headers, hp_for = Some (wd_id d)\<rparr>"

definition post_delivery :: "hook_env \<Rightarrow> time \<Rightarrow> webhook \<Rightarrow> webhook_delivery \<Rightarrow> (unit, hooks) service" where
  "post_delivery env now w d s =
     (let body = json_dumps (wd_payload d)
      in case post_headers env w (wd_event_type d) (uuid_str (wd_id d)) body of
        Inl e \<Rightarrow> (Inl e, s)
      | Inr headers \<Rightarrow>
          (case send_post env (delivery_request w d body headers) s of (reply, s1) \<Rightarrow> handle_reply now w d reply s1))"

definition deliver_single :: "hook_env \<Rightarrow> time \<Rightarrow> uuid \<Rightarrow> string \<Rightarrow> json \<Rightarrow> webhook \<Rightarrow> (unit, hooks) service" where
  "deliver_single env now i event_type payload w =
     and_then (delivery_create i now (wk_id w) event_type payload) (post_delivery env now w)"

fun deliver_loop ::
  "hook_env \<Rightarrow> time \<Rightarrow> (nat \<Rightarrow> uuid) \<Rightarrow> nat \<Rightarrow> string \<Rightarrow> json \<Rightarrow> webhook list \<Rightarrow> (unit, hooks) service" where
  "deliver_loop env now ids k event_type payload [] s = (Inr (), s)"
| "deliver_loop env now ids k event_type payload (w # ws) s =
     and_then (deliver_single env now (ids k) event_type payload w)
       (\<lambda>_. deliver_loop env now ids (k + 1) event_type payload ws) s"

definition deliver_webhook ::
  "hook_env \<Rightarrow> time \<Rightarrow> (nat \<Rightarrow> uuid) \<Rightarrow> uuid \<Rightarrow> string \<Rightarrow> json \<Rightarrow> (unit, hooks) service" where
  "deliver_webhook env now ids org_id event_type payload s =
     deliver_loop env now ids 0 event_type payload (list_active_for_org_and_event s org_id event_type) s"

section \<open>Retries\<close>

definition is_due :: "time \<Rightarrow> webhook_delivery \<Rightarrow> bool" where
  "is_due now d = (wd_status d = ''retrying'' \<and> (case wd_next_retry_at d of None \<Rightarrow> False | Some t \<Rightarrow> t \<le> now) \<and>
     wd_attempt_count d < MAX_RETRIES)"

definition retry_one :: "hook_env \<Rightarrow> time \<Rightarrow> webhook_delivery \<Rightarrow> (unit, hooks) service" where
  "retry_one env now d s = (case webhook_get s (wd_webhook_id d) None False of
     None \<Rightarrow> (Inr (), delivery_save (mark_permanently_failed d) s)
   | Some w \<Rightarrow>
       if \<not> wk_is_active w then (Inr (), delivery_save (mark_permanently_failed d) s)
       else post_delivery env now w d s)"

fun retry_loop :: "hook_env \<Rightarrow> time \<Rightarrow> webhook_delivery list \<Rightarrow> nat \<Rightarrow> (nat, hooks) service" where
  "retry_loop env now [] retried s = (Inr retried, s)"
| "retry_loop env now (d # ds) retried s =
     and_then (retry_one env now d) (\<lambda>_. retry_loop env now ds (retried + 1)) s"

definition retry_pending_deliveries :: "hook_env \<Rightarrow> time \<Rightarrow> (nat, hooks) service" where
  "retry_pending_deliveries env now s = retry_loop env now (take 100 (filter (is_due now) (hk_deliveries s))) 0 s"

end
