(* ===== verification/Webhook_Properties.thy ===== *)
theory Webhook_Properties
  imports Webhooks
begin

text \<open>
  The deliveries of the customers' webhooks over any sequence of operations: how often each is posted,
  what stops the retries, and the signature the receiver verifies.
\<close>

section \<open>Posts of a delivery\<close>

definition posts_of :: "hooks \<Rightarrow> uuid \<Rightarrow> nat" where
  "posts_of s i = length (filter (\<lambda>p. hp_for p = Some i) (hk_posts s))"

text \<open>
  A delivery that waits for its next attempt, and one that is stored, after \<^verbatim>\<open>k\<close> retry runs that
  raised: each of them may have posted it once without recording the attempt.
\<close>

definition sendable :: "nat \<Rightarrow> hooks \<Rightarrow> webhook_delivery \<Rightarrow> bool" where
  "sendable k s d = (d \<in> set (hk_deliveries s) \<and> posts_of s (wd_id d) + 1 \<le> wd_attempt_count d + k \<and>
     1 \<le> wd_attempt_count d \<and> wd_attempt_count d \<le> posts_of s (wd_id d) + 1 \<and> wd_attempt_count d \<le> 4)"

definition delivery_ok :: "nat \<Rightarrow> hooks \<Rightarrow> webhook_delivery \<Rightarrow> bool" where
  "delivery_ok k s d = (posts_of s (wd_id d) \<le> 4 + k \<and> 1 \<le> wd_attempt_count d \<and> wd_attempt_count d \<le> 5 \<and>
     wd_attempt_count d \<le> posts_of s (wd_id d) + 1 \<and>
     (wd_status d = ''retrying'' \<longrightarrow> posts_of s (wd_id d) + 1 \<le> wd_attempt_count d + k))"

definition hooks_wf :: "nat \<Rightarrow> hooks \<Rightarrow> bool" where
  "hooks_wf k s = (distinct (map wd_id (hk_deliveries s)) \<and> (\<forall>d \<in> set (hk_deliveries s). delivery_ok k s d))"

lemma save_delivery_set:
  assumes "distinct (map wd_id t)" and "d \<in> set t" and "wd_id d' = wd_id d"
  shows "set (save_row wd_id d' t) = insert d' (set t - {d})"
  using assms by (auto simp: save_row_def image_def dest: distinct_map_inj split: if_splits)

text \<open>A change of one delivery with at most one more post of it.\<close>

lemma step_wf:
  assumes wf: "hooks_wf k s" and d: "d \<in> set (hk_deliveries s)" and id: "wd_id d' = wd_id d"
    and rows: "hk_deliveries s' = save_row wd_id d' (hk_deliveries s)"
    and others: "\<And>i. i \<noteq> wd_id d \<Longrightarrow> posts_of s' i = posts_of s i" and ok: "delivery_ok k s' d'"
  shows "hooks_wf k s'"
proof -
  have dist: "distinct (map wd_id (hk_deliveries s))"
    using wf by (simp add: hooks_wf_def)
  have "delivery_ok k s' x" if "x \<in> set (hk_deliveries s)" "x \<noteq> d" for x
  proof -
    have "wd_id x \<noteq> wd_id d"
      using that d dist distinct_map_inj by metis
    then show ?thesis
      using wf that others [of "wd_id x"] by (auto simp: hooks_wf_def delivery_ok_def)
  qed
  then show ?thesis
    using dist ok by (auto simp: hooks_wf_def rows save_delivery_set [OF dist d id])
qed

text \<open>What an operation on one delivery leaves alone.\<close>

definition only_delivery :: "uuid \<Rightarrow> hooks \<Rightarrow> hooks \<Rightarrow> bool" where
  "only_delivery i s s' = ((\<forall>j. j \<noteq> i \<longrightarrow> posts_of s' j = posts_of s j) \<and>
     (\<forall>x. wd_id x \<noteq> i \<longrightarrow> (x \<in> set (hk_deliveries s') \<longleftrightarrow> x \<in> set (hk_deliveries s))) \<and>
     map wd_id (hk_deliveries s') = map wd_id (hk_deliveries s))"

lemma only_delivery_refl [simp]: "only_delivery i s s"
  by (simp add: only_delivery_def)

lemma only_delivery_trans: "only_delivery i s s1 \<Longrightarrow> only_delivery i s1 s2 \<Longrightarrow> only_delivery i s s2"
  by (auto simp: only_delivery_def)

lemma only_delivery_ids: "only_delivery i s s' \<Longrightarrow> wd_id ` set (hk_deliveries s') = wd_id ` set (hk_deliveries s)"
  unfolding only_delivery_def by (metis list.set_map)

lemma sendable_other: "sendable k s x \<Longrightarrow> only_delivery i s s' \<Longrightarrow> wd_id x \<noteq> i \<Longrightarrow> sendable k s' x"
  by (simp add: sendable_def only_delivery_def)

lemma only_delivery_save:
  assumes "hk_deliveries s' = save_row wd_id d' (hk_deliveries s)" and "wd_id d' = i"
    and "\<And>j. j \<noteq> i \<Longrightarrow> posts_of s' j = posts_of s j"
  shows "only_delivery i s s'"
  using assms by (auto simp: only_delivery_def save_row_def image_def)

section \<open>One attempt\<close>

lemma handle_reply_cases:
  assumes "handle_reply now w d reply s = (Inr (), s')" and "1 \<le> wd_attempt_count d" and "wd_attempt_count d \<le> 4"
  obtains d' where "hk_deliveries s' = save_row wd_id d' (hk_deliveries s)" and "hk_posts s' = hk_posts s"
    and "wd_id d' = wd_id d" and "wd_status d' = ''success'' \<and> wd_attempt_count d' = wd_attempt_count d \<or>
      wd_status d' = ''retrying'' \<and> wd_attempt_count d' = wd_attempt_count d + 1"
  using assms
  by (cases reply) (auto simp: handle_delivery_success_def handle_delivery_failure_def webhook_save_def
      delivery_save_def delivery_mark_success_def delivery_mark_failed_def MAX_RETRIES_def Let_def
      split: if_splits)

lemma posts_of_snoc: "hk_posts s' = hk_posts s @ [p] \<Longrightarrow>
    posts_of s' i = posts_of s i + (if hp_for p = Some i then 1 else 0)"
  by (simp add: posts_of_def)

lemma post_delivery_E:
  assumes "post_delivery env now w d s = (r, s')"
  obtains e where "post_headers env w (wd_event_type d) (uuid_str (wd_id d)) (json_dumps (wd_payload d)) = Inl e"
      and "r = Inl e" and "s' = s"
  | p headers where "post_headers env w (wd_event_type d) (uuid_str (wd_id d)) (json_dumps (wd_payload d)) = Inr headers"
      and "p = delivery_request w d (json_dumps (wd_payload d)) headers"
      and "handle_reply now w d (he_reply env (hk_posts s) p) (s\<lparr>hk_posts := hk_posts s @ [p]\<rparr>) = (r, s')"
  using assms by (auto simp: post_delivery_def send_post_def Let_def split: sum.splits)

lemma request_for [simp]: "hp_for (delivery_request w d body headers) = Some (wd_id d)"
  by (simp add: delivery_request_def)

lemma post_delivery_wf:
  assumes run: "post_delivery env now w d s = (Inr (), s')" and wf: "hooks_wf k s" and d: "sendable k s d"
  shows "hooks_wf k s' \<and> only_delivery (wd_id d) s s'"
proof -
  obtain p where mine: "hp_for p = Some (wd_id d)" and
      reply: "handle_reply now w d (he_reply env (hk_posts s) p) (s\<lparr>hk_posts := hk_posts s @ [p]\<rparr>) = (Inr (), s')"
    using run by (rule post_delivery_E) (simp, metis request_for)
  have count: "1 \<le> wd_attempt_count d" "wd_attempt_count d \<le> 4" "d \<in> set (hk_deliveries s)"
    "wd_attempt_count d \<le> posts_of s (wd_id d) + 1" "posts_of s (wd_id d) + 1 \<le> wd_attempt_count d + k"
    using d by (simp_all add: sendable_def)
  obtain d' where d': "hk_deliveries s' = save_row wd_id d' (hk_deliveries s)" "hk_posts s' = hk_posts s @ [p]"
      "wd_id d' = wd_id d" and st: "wd_status d' = ''success'' \<and> wd_attempt_count d' = wd_attempt_count d \<or>
        wd_status d' = ''retrying'' \<and> wd_attempt_count d' = wd_attempt_count d + 1"
    using reply count(1,2) by (rule handle_reply_cases) simp
  have posts: "posts_of s' i = posts_of s i + (if i = wd_id d then 1 else 0)" for i
    using posts_of_snoc [OF d'(2), of i] mine by auto
  have "delivery_ok k s' d'"
    using st count posts [of "wd_id d"] by (auto simp: delivery_ok_def d')
  then show ?thesis
    using step_wf [OF wf count(3) d'(3,1)] only_delivery_save [OF d'(1,3)] by (simp add: posts)
qed

section \<open>Batches\<close>

lemma posts_of_rows [simp]:
  "posts_of (s\<lparr>hk_deliveries := ds\<rparr>) i = posts_of s i" "posts_of (s\<lparr>hk_webhooks := ws\<rparr>) i = posts_of s i"
  "posts_of (s\<lparr>hk_lookups := n\<rparr>) i = posts_of s i"
  by (simp_all add: posts_of_def)

lemma posts_of_delivery_save [simp]: "posts_of (delivery_save d s) i = posts_of s i"
  by (simp add: delivery_save_def posts_of_def)

lemma give_up_wf:
  assumes wf: "hooks_wf k s" and d: "sendable k s d"
  shows "hooks_wf k (delivery_save (mark_permanently_failed d) s) \<and>
    only_delivery (wd_id d) s (delivery_save (mark_permanently_failed d) s)"
proof -
  let ?d = "mark_permanently_failed d" and ?s = "delivery_save (mark_permanently_failed d) s"
  have rows: "hk_deliveries ?s = save_row wd_id ?d (hk_deliveries s)"
    by (simp add: delivery_save_def)
  have "delivery_ok k ?s ?d"
    using d by (auto simp: delivery_ok_def sendable_def mark_permanently_failed_def)
  then show ?thesis
    using step_wf [OF wf, of d, OF _ _ rows] only_delivery_save [OF rows] d
    by (simp add: sendable_def mark_permanently_failed_def)
qed

lemma retry_one_wf:
  assumes "retry_one env now d s = (Inr (), s')" and "hooks_wf k s" and "sendable k s d"
  shows "hooks_wf k s' \<and> only_delivery (wd_id d) s s'"
  using assms give_up_wf post_delivery_wf
  by (auto simp: retry_one_def split: option.splits if_splits)

definition batch_ready :: "nat \<Rightarrow> hooks \<Rightarrow> webhook_delivery list \<Rightarrow> bool" where
  "batch_ready k s ds = (distinct (map wd_id ds) \<and> (\<forall>d \<in> set ds. sendable k s d))"

lemma retry_loop_wf:
  assumes "retry_loop env now ds n s = (Inr m, s')" and "hooks_wf k s" and "batch_ready k s ds"
  shows "hooks_wf k s' \<and> (\<forall>d. wd_id d \<notin> wd_id ` set ds \<longrightarrow> d \<in> set (hk_deliveries s) \<longrightarrow> d \<in> set (hk_deliveries s'))"
  using assms
proof (induction ds arbitrary: n s)
  case (Cons d ds)
  obtain s1 where one: "retry_one env now d s = (Inr (), s1)" and rest: "retry_loop env now ds (n + 1) s1 = (Inr m, s')"
    using Cons.prems(1) by (auto elim: and_then_E)
  have step: "hooks_wf k s1 \<and> only_delivery (wd_id d) s s1"
    using retry_one_wf [OF one] Cons.prems by (simp add: batch_ready_def)
  have "sendable k s1 x" if x: "x \<in> set ds" for x
  proof (rule sendable_other)
    show "sendable k s x" "wd_id x \<noteq> wd_id d"
      using Cons.prems(3) x unfolding batch_ready_def by (simp, metis distinct.simps(2) imageI list.set_map list.simps(9))
  qed (simp add: step)
  then have "batch_ready k s1 ds"
    using Cons.prems(3) by (simp add: batch_ready_def)
  then show ?case
    using Cons.IH [OF rest] step by (auto simp: only_delivery_def)
qed (auto simp: batch_ready_def)

lemma due_ready:
  assumes "hooks_wf k s"
  shows "batch_ready k s (take n (filter (is_due now) (hk_deliveries s)))"
proof -
  have "distinct (map wd_id (filter (is_due now) (hk_deliveries s)))"
    using assms by (simp add: hooks_wf_def distinct_map_filter)
  moreover have "sendable k s d" if "d \<in> set (filter (is_due now) (hk_deliveries s))" for d
    using that assms by (auto simp: is_due_def MAX_RETRIES_def hooks_wf_def delivery_ok_def sendable_def)
  ultimately show ?thesis
    by (auto simp: batch_ready_def take_map [symmetric] dest: in_set_takeD)
qed

section \<open>New deliveries\<close>

definition fresh_ids :: "hooks \<Rightarrow> (nat \<Rightarrow> uuid) \<Rightarrow> nat \<Rightarrow> bool" where
  "fresh_ids s ids k = (inj ids \<and> (\<forall>j \<ge> k. ids j \<notin> wd_id ` set (hk_deliveries s) \<and> posts_of s (ids j) = 0))"

lemma deliver_single_wf:
  assumes run: "deliver_single env now (ids q) ev payload w s = (Inr (), s')" and wf: "hooks_wf k s" and "fresh_ids s ids q"
  shows "hooks_wf k s' \<and> fresh_ids s' ids (q + 1) \<and> set (hk_deliveries s) \<subseteq> set (hk_deliveries s')"
proof -
  obtain d s1 where new: "delivery_create (ids q) now (wk_id w) ev payload s = (Inr d, s1)"
    and post: "post_delivery env now w d s1 = (Inr (), s')"
    using run unfolding deliver_single_def by (rule and_then_E)
  have s1: "s1 = s\<lparr>hk_deliveries := hk_deliveries s @ [d]\<rparr>" and d: "wd_id d = ids q" "wd_attempt_count d = 1"
      "wd_status d = ''pending''"
    using new by (auto simp: delivery_create_def Let_def split: if_splits)
  have fresh: "ids q \<notin> wd_id ` set (hk_deliveries s)" "posts_of s (ids q) = 0"
    using assms(3) by (auto simp: fresh_ids_def)
  have "hooks_wf k s1" "sendable k s1 d"
    using wf fresh d by (auto simp: hooks_wf_def delivery_ok_def sendable_def s1)
  then have step: "hooks_wf k s' \<and> only_delivery (ids q) s1 s'"
    using post_delivery_wf [OF post] d(1) by simp
  have "x \<in> set (hk_deliveries s')" if "x \<in> set (hk_deliveries s)" for x
    using step that fresh by (force simp: only_delivery_def s1)
  moreover have "fresh_ids s' ids (q + 1)"
    unfolding fresh_ids_def
  proof (intro conjI allI impI)
    show "inj ids"
      using assms(3) by (simp add: fresh_ids_def)
    fix j assume j: "j \<ge> q + 1"
    then have other: "ids j \<noteq> ids q"
      using assms(3) by (auto simp: fresh_ids_def dest: injD)
    have old: "ids j \<notin> wd_id ` set (hk_deliveries s)" "posts_of s (ids j) = 0"
      using assms(3) j by (simp_all add: fresh_ids_def)
    show "posts_of s' (ids j) = 0"
      using step other old(2) by (simp add: only_delivery_def s1)
    show "ids j \<notin> wd_id ` set (hk_deliveries s')"
      using step other old(1) d(1) by (simp add: only_delivery_ids [of "ids q" s1 s'] s1)
  qed
  ultimately show ?thesis
    using step by auto
qed

lemma deliver_loop_wf:
  assumes "deliver_loop env now ids q ev payload ws s = (Inr (), s')" and "hooks_wf k s" and "fresh_ids s ids q"
  shows "hooks_wf k s' \<and> set (hk_deliveries s) \<subseteq> set (hk_deliveries s')"
  using assms
proof (induction ws arbitrary: q s)
  case (Cons w ws)
  obtain s1 where one: "deliver_single env now (ids q) ev payload w s = (Inr (), s1)"
    and rest: "deliver_loop env now ids (q + 1) ev payload ws s1 = (Inr (), s')"
    using Cons.prems(1) by (auto elim: and_then_E)
  show ?case
    using Cons.IH [OF rest] deliver_single_wf [OF one Cons.prems(2,3)] by auto
qed simp

section \<open>Runs that raise\<close>

text \<open>A rolled-back session: the rows are restored, the posts are not.\<close>

definition rolled_back :: "hooks \<Rightarrow> hooks \<Rightarrow> hooks" where
  "rolled_back s s' = s\<lparr>hk_posts := hk_posts s', hk_lookups := hk_lookups s'\<rparr>"

lemma post_delivery_posts:
  "j \<noteq> wd_id d \<Longrightarrow> posts_of (snd (post_delivery env now w d s)) j = posts_of s j"
proof (cases "post_delivery env now w d s")
  case (Pair r s')
  assume j: "j \<noteq> wd_id d"
  have reply: "hk_posts (snd (handle_reply now w d rp t)) = hk_posts t" for rp t
    by (cases rp) (auto simp: handle_delivery_success_def handle_delivery_failure_def webhook_save_def
        delivery_save_def Let_def)
  show ?thesis
    using Pair
  proof (rule post_delivery_E)
    fix p headers
    assume p: "p = delivery_request w d (json_dumps (wd_payload d)) headers"
      and run: "handle_reply now w d (he_reply env (hk_posts s) p) (s\<lparr>hk_posts := hk_posts s @ [p]\<rparr>) = (r, s')"
    have "hk_posts s' = hk_posts s @ [p]"
      using reply [of "he_reply env (hk_posts s) p" "s\<lparr>hk_posts := hk_posts s @ [p]\<rparr>"] run by simp
    then show ?thesis
      using posts_of_snoc [of s' s p j] j Pair by (simp add: p)
  qed (use Pair in simp)
qed

lemma deliver_loop_posts:
  "j \<notin> range ids \<Longrightarrow> posts_of (snd (deliver_loop env now ids k ev payload ws s)) j = posts_of s j"
proof (induction ws arbitrary: k s)
  case (Cons w ws)
  have one: "posts_of (snd (deliver_single env now (ids k) ev payload w s)) j = posts_of s j"
  proof (cases "delivery_create (ids k) now (wk_id w) ev payload s")
    case (Pair r s1)
    then have "posts_of s1 j = posts_of s j" "\<And>d. r = Inr d \<Longrightarrow> wd_id d = ids k"
      by (auto simp: delivery_create_def Let_def split: if_splits)
    moreover have "j \<noteq> ids k"
      using Cons.prems by auto
    ultimately show ?thesis
      using Pair by (cases r) (simp_all add: deliver_single_def and_then_def post_delivery_posts)
  qed
  show ?case
    using one Cons.IH [OF Cons.prems]
    by (cases "deliver_single env now (ids k) ev payload w s")
      (auto simp: and_then_def split: sum.splits)
qed simp

lemma rolled_back_wf:
  "hooks_wf k s \<Longrightarrow> (\<And>i. i \<in> wd_id ` set (hk_deliveries s) \<Longrightarrow> posts_of s' i = posts_of s i) \<Longrightarrow> hooks_wf k (rolled_back s s')"
  by (auto simp: hooks_wf_def delivery_ok_def rolled_back_def posts_of_def)

text \<open>A retry run posts a delivery at most once, whether it returns or raises.\<close>

lemma handle_reply_posts: "hk_posts (snd (handle_reply now w d rp t)) = hk_posts t"
  by (cases rp) (auto simp: handle_delivery_success_def handle_delivery_failure_def webhook_save_def
      delivery_save_def Let_def)

lemma post_delivery_once: "posts_of s j \<le> posts_of (snd (post_delivery env now w d s)) j \<and>
    posts_of (snd (post_delivery env now w d s)) j \<le> posts_of s j + 1"
  by (auto simp: post_delivery_def send_post_def posts_of_def handle_reply_posts Let_def split: sum.split)

lemma retry_one_posts:
  "j \<noteq> wd_id d \<Longrightarrow> posts_of (snd (retry_one env now d s)) j = posts_of s j"
  "posts_of s j \<le> posts_of (snd (retry_one env now d s)) j" "posts_of (snd (retry_one env now d s)) j \<le> posts_of s j + 1"
  using post_delivery_once post_delivery_posts by (simp_all add: retry_one_def split: option.split)

lemma retry_loop_posts:
  assumes "distinct (map wd_id ds)"
  shows "posts_of s j \<le> posts_of (snd (retry_loop env now ds n s)) j \<and>
    posts_of (snd (retry_loop env now ds n s)) j \<le> posts_of s j + (if j \<in> wd_id ` set ds then 1 else 0)"
  using assms
proof (induction ds arbitrary: n s)
  case (Cons d ds)
  obtain r s1 where one: "retry_one env now d s = (r, s1)"
    by fastforce
  have s1: "j \<noteq> wd_id d \<Longrightarrow> posts_of s1 j = posts_of s j" "posts_of s j \<le> posts_of s1 j" "posts_of s1 j \<le> posts_of s j + 1"
    using retry_one_posts [where j = j and d = d and env = env and now = now and s = s] one by simp_all
  show ?case
  proof (cases r)
    case (Inr v)
    have "wd_id d \<notin> wd_id ` set ds" "distinct (map wd_id ds)"
      using Cons.prems by simp_all
    then show ?thesis
      using Cons.IH [of s1 "n + 1"] s1 by (cases "j = wd_id d") (auto simp: one Inr and_then_def)
  qed (use s1 in \<open>auto simp: one and_then_def\<close>)
qed simp

lemma aborted_wf:
  assumes "hooks_wf k s" and "\<And>i. posts_of s i \<le> posts_of s' i \<and> posts_of s' i \<le> posts_of s i + 1"
  shows "hooks_wf (k + 1) (rolled_back s s')"
proof -
  have posts: "posts_of (rolled_back s s') i = posts_of s' i" for i
    by (simp add: rolled_back_def posts_of_def)
  have "delivery_ok (k + 1) (rolled_back s s') d" if "delivery_ok k s d" for d
    using that assms(2) [of "wd_id d"] unfolding delivery_ok_def posts by linarith
  then show ?thesis
    using assms(1) by (auto simp: hooks_wf_def) (simp_all add: rolled_back_def)
qed

section \<open>Steps\<close>

text \<open>
  The operations of the module with their sessions, one after the other.  Test posts belong to no
  delivery.
\<close>

inductive hook_step :: "hooks \<Rightarrow> hooks \<Rightarrow> bool" where
  created: "create_webhook env now i nonce gen org_id user_id rq s = (Inr w, s') \<Longrightarrow> hook_step s s'"
| updated: "update_webhook env nonce org_id webhook_id rq s = (Inr v, s') \<Longrightarrow> hook_step s s'"
| deleted: "delete_webhook now org_id webhook_id s = (r, s') \<Longrightarrow> hook_step s s'"
| tested: "test_webhook env now i delivery org_id webhook_id event s = (r, s') \<Longrightarrow> hook_step s s'"
| delivered: "deliver_webhook env now ids org_id event_type payload s = (Inr (), s') \<Longrightarrow> fresh_ids s ids 0 \<Longrightarrow> hook_step s s'"
| delivery_raised: "deliver_webhook env now ids org_id event_type payload s = (Inl e, s') \<Longrightarrow> fresh_ids s ids 0 \<Longrightarrow>
    hook_step s (rolled_back s s')"
| retried: "retry_pending_deliveries env now s = (Inr n, s') \<Longrightarrow> hook_step s s'"

text \<open>Sequences of operations, with the number of their retry runs that raised and were rolled back.\<close>

inductive hook_steps :: "nat \<Rightarrow> hooks \<Rightarrow> hooks \<Rightarrow> bool" where
  none: "hook_steps 0 s s"
| step: "hook_steps k s s1 \<Longrightarrow> hook_step s1 s2 \<Longrightarrow> hook_steps k s s2"
| aborted: "hook_steps k s s1 \<Longrightarrow> retry_pending_deliveries env now s1 = (Inl e, s2) \<Longrightarrow> hook_steps (k + 1) s (rolled_back s1 s2)"

text \<open>The requests leave the deliveries and their posts alone.\<close>

definition same_deliveries :: "hooks \<Rightarrow> hooks \<Rightarrow> bool" where
  "same_deliveries s s' = (hk_deliveries s' = hk_deliveries s \<and> (\<forall>i. posts_of s' i = posts_of s i))"

lemma same_deliveries_refl [simp]: "same_deliveries s s"
  by (simp add: same_deliveries_def)

lemma same_deliveries_rows [simp]:
  "same_deliveries s (s'\<lparr>hk_webhooks := ws\<rparr>) = same_deliveries s s'"
  "same_deliveries s (s'\<lparr>hk_lookups := n\<rparr>) = same_deliveries s s'"
  by (simp_all add: same_deliveries_def)

lemma same_deliveries_trans: "same_deliveries s s1 \<Longrightarrow> same_deliveries s1 s2 \<Longrightarrow> same_deliveries s s2"
  by (simp add: same_deliveries_def)

lemma same_deliveries_wf: "same_deliveries s s' \<Longrightarrow> hooks_wf k s \<Longrightarrow> hooks_wf k s'"
  by (simp add: same_deliveries_def hooks_wf_def delivery_ok_def)

lemma same_and_then:
  assumes "\<And>s. same_deliveries s (snd (f s))" and "\<And>v s. same_deliveries s (snd (g v s))"
  shows "same_deliveries s (snd (and_then f g s))"
proof (cases "f s")
  case (Pair r s1)
  then have "same_deliveries s s1"
    using assms(1) [of s] by simp
  then show ?thesis
    using Pair assms(2) same_deliveries_trans by (cases r) (auto simp: and_then_def)
qed

lemma request_same:
  "same_deliveries s (snd (check_url env u s))" "same_deliveries s (snd (webhook_create w s))"
  "same_deliveries s (snd (webhook_update w kws s))" "same_deliveries s (webhook_save w s)"
  "same_deliveries s (snd (post_test env now i delivery event w s))"
  by (auto simp: check_url_def webhook_create_def webhook_update_def webhook_save_def post_test_def send_post_def Let_def
      same_deliveries_def posts_of_def split: prod.splits sum.splits)

lemma with_webhook_same:
  "(\<And>w s. same_deliveries s (snd (f w s))) \<Longrightarrow> same_deliveries s (snd (with_webhook org_id webhook_id f s))"
  by (simp add: with_webhook_def split: option.split)

lemma requests_same:
  "same_deliveries s (snd (create_webhook env now i nonce gen org_id user_id rq s))"
  "same_deliveries s (snd (update_webhook env nonce org_id webhook_id urq s))"
  "same_deliveries s (snd (delete_webhook now org_id webhook_id s))"
  "same_deliveries s (snd (test_webhook env now i delivery org_id webhook_id event s))"
  unfolding create_webhook_def update_webhook_def delete_webhook_def test_webhook_def webhook_soft_delete_def
  by (auto intro!: same_and_then with_webhook_same request_same split: option.split)

text \<open>A delivery that made its fourth failed attempt waits for a fifth that never comes.\<close>

definition stuck :: "webhook_delivery \<Rightarrow> bool" where
  "stuck d = (wd_status d = ''retrying'' \<and> wd_attempt_count d = MAX_RETRIES)"

lemma hook_step_wf:
  assumes "hook_step s s'" and wf: "hooks_wf k s"
  shows "hooks_wf k s' \<and> (\<forall>d \<in> set (hk_deliveries s). stuck d \<longrightarrow> d \<in> set (hk_deliveries s'))"
  using assms(1)
proof cases
  case (delivered env now ids org_id event_type payload)
  then show ?thesis
    using deliver_loop_wf [OF _ wf] unfolding deliver_webhook_def by blast
next
  case (delivery_raised env now ids org_id event_type payload e s1)
  have "posts_of s1 i = posts_of s i" if "i \<in> wd_id ` set (hk_deliveries s)" for i
    using deliver_loop_posts [of i ids] that delivery_raised unfolding deliver_webhook_def fresh_ids_def
    by (metis le0 rangeE snd_conv)
  then show ?thesis
    using rolled_back_wf [OF wf] delivery_raised(1) by (simp add: rolled_back_def)
next
  case (retried env now n)
  let ?due = "take 100 (filter (is_due now) (hk_deliveries s))"
  have run: "retry_loop env now ?due 0 s = (Inr n, s')"
    using retried by (simp add: retry_pending_deliveries_def)
  have "wd_id d \<notin> wd_id ` set ?due" if d: "d \<in> set (hk_deliveries s)" "stuck d" for d
  proof
    assume "wd_id d \<in> wd_id ` set ?due"
    then obtain x where x: "x \<in> set (hk_deliveries s)" "is_due now x" "wd_id x = wd_id d"
      by (force dest: in_set_takeD)
    then have "x = d"
      using wf d(1) distinct_map_inj unfolding hooks_wf_def by metis
    then show False
      using x(2) d(2) by (simp add: is_due_def stuck_def)
  qed
  then show ?thesis
    using retry_loop_wf [OF run wf due_ready [OF wf]] by blast
qed (use requests_same same_deliveries_wf wf in \<open>metis same_deliveries_def snd_conv\<close>)+

lemma hook_steps_wf:
  assumes "hook_steps k s s'" and "hooks_wf n s"
  shows "hooks_wf (n + k) s' \<and> (\<forall>d \<in> set (hk_deliveries s). stuck d \<longrightarrow> d \<in> set (hk_deliveries s'))"
  using assms
proof (induction rule: hook_steps.induct)
  case (step k s s1 s2)
  then show ?case
    using hook_step_wf [of s1 s2 "n + k"] by blast
next
  case (aborted k s s1 env now e s2)
  then have wf: "hooks_wf (n + k) s1"
    by simp
  have "distinct (map wd_id (take 100 (filter (is_due now) (hk_deliveries s1))))"
    using due_ready [OF wf] by (simp add: batch_ready_def)
  from retry_loop_posts [OF this, of s1 _ env now 0] have "posts_of s1 i \<le> posts_of s2 i \<and> posts_of s2 i \<le> posts_of s1 i + 1" for i
    using aborted.hyps(2) by (fastforce simp: retry_pending_deliveries_def split: if_splits)
  from aborted_wf [OF wf this] aborted show ?case
    by (simp add: rolled_back_def)
qed simp

text \<open>
  C19: From an empty table, whatever operations run one after the other, of which \<^verbatim>\<open>k\<close> retry runs
  raised an exception and were rolled back: a delivery records at most four attempts that were made (a
  count of five), each of which was posted; it is posted at most four times more than there were such
  rolled-back runs, so at most four times when none raised; and one whose fourth attempt failed stays
  unchanged, still marked as retrying, in every later state: the limit of five attempts in the retry
  query keeps the fifth, and with it the final status, from ever being reached.
\<close>

theorem webhook_retries_bounded:
  assumes "hk_deliveries s0 = []" and "hook_steps k s0 s" and "d \<in> set (hk_deliveries s)"
  shows "wd_attempt_count d \<le> MAX_RETRIES \<and> wd_attempt_count d \<le> posts_of s (wd_id d) + 1 \<and>
    posts_of s (wd_id d) \<le> 4 + k \<and>
    (stuck d \<longrightarrow> (\<forall>n s'. hook_steps n s s' \<longrightarrow> d \<in> set (hk_deliveries s')))"
proof -
  have "hooks_wf 0 s0"
    using assms(1) by (simp add: hooks_wf_def)
  then have wf: "hooks_wf k s"
    using hook_steps_wf [OF assms(2), of 0] by simp
  then show ?thesis
    using assms(3) hook_steps_wf [OF _ wf] by (auto simp: hooks_wf_def delivery_ok_def MAX_RETRIES_def)
qed

section \<open>A secret that does not decrypt\<close>

definition undecryptable :: "hook_env \<Rightarrow> webhook \<Rightarrow> bool" where
  "undecryptable env w = (wk_is_active w \<and> (case wk_secret_hash w of None \<Rightarrow> False
     | Some h \<Rightarrow> starts_with h ''gAAAAA'' \<and> he_decrypt env h = None))"

definition poisoned :: "hook_env \<Rightarrow> uuid \<Rightarrow> hooks \<Rightarrow> bool" where
  "poisoned env i s = (case webhook_get s i None False of None \<Rightarrow> False | Some w \<Rightarrow> undecryptable env w)"

lemma undecryptable_counters [simp]:
  "undecryptable env (w\<lparr>wk_failure_count := n\<rparr>) = undecryptable env w"
  "undecryptable env (w\<lparr>wk_last_delivery_at := l\<rparr>) = undecryptable env w"
  by (simp_all add: undecryptable_def)

lemma undecryptable_raises: "undecryptable env w \<Longrightarrow> \<exists>e. post_delivery env now w d s = (Inl e, s)"
  by (cases "wk_secret_hash w")
    (auto simp: undecryptable_def post_delivery_def post_headers_def recover_signing_secret_def Let_def)

lemma webhook_get_save:
  assumes "webhook_get s j None False = Some w" and "wk_id w' = wk_id w" and "wk_is_deleted w' = wk_is_deleted w"
  shows "webhook_get (webhook_save w' s) i None False =
    (if i = wk_id w then Some w' else webhook_get s i None False)"
proof -
  have "w \<in> set (hk_webhooks s)" "\<not> wk_is_deleted w"
    using assms(1) by (auto simp: webhook_get_def find_Some_iff)
  moreover have "find (\<lambda>x. wk_id x = i \<and> \<not> wk_is_deleted x) (save_row wk_id w' t) =
      (if i = wk_id w then Some w' else find (\<lambda>x. wk_id x = i \<and> \<not> wk_is_deleted x) t)"
    if "\<not> wk_is_deleted w" "i = wk_id w \<longrightarrow> w \<in> set t" for t
    using that assms(2,3) by (induction t) (auto simp: save_row_def)
  ultimately show ?thesis
    by (simp add: webhook_get_def webhook_save_def)
qed

lemma webhook_get_other [simp]:
  "webhook_get (delivery_save d s) i org incl = webhook_get s i org incl"
  "webhook_get (s\<lparr>hk_posts := ps\<rparr>) i org incl = webhook_get s i org incl"
  by (simp_all add: webhook_get_def delivery_save_def)

lemma handle_reply_poisoned:
  assumes "handle_reply now w d reply s = (Inr (), s')" and "webhook_get s j None False = Some w"
    and "poisoned env i s"
  shows "poisoned env i s'"
proof -
  have keep: "poisoned env i (webhook_save w' t)" if "webhook_get t j None False = Some w" "poisoned env i t"
      "wk_id w' = wk_id w" "wk_is_deleted w' = wk_is_deleted w" "undecryptable env w' = undecryptable env w" for w' t
  proof (cases "i = wk_id w")
    case True
    have "webhook_get t i None False = Some w"
      using that(1) True by (auto simp: webhook_get_def find_Some_iff)
    then show ?thesis
      using that True by (simp add: poisoned_def webhook_get_save [OF that(1)])
  qed (use that in \<open>simp add: poisoned_def webhook_get_save [OF that(1)]\<close>)
  have del: "poisoned env i (delivery_save x t) = poisoned env i t" for x t
    by (simp add: poisoned_def)
  have failure: "poisoned env i (handle_delivery_failure now w d code body s)" for code body
    using keep [OF assms(2,3), of "increment_failure_count w"]
    by (simp add: handle_delivery_failure_def del increment_failure_count_def Let_def)
  have success: "poisoned env i (handle_delivery_success now w d code body s)" for code body
    unfolding handle_delivery_success_def Let_def
    by (rule keep) (simp_all add: assms del update_last_delivery_def reset_failure_count_def)
  show ?thesis
    using assms(1) failure success by (cases reply) (auto split: if_splits)
qed

lemma retry_one_poisoned:
  assumes "retry_one env now d s = (Inr (), s')" and "poisoned env i s"
  shows "poisoned env i s' \<and> wd_webhook_id d \<noteq> i"
proof (cases "webhook_get s (wd_webhook_id d) None False")
  case None
  then show ?thesis
    using assms by (auto simp: retry_one_def poisoned_def)
next
  case (Some w)
  show ?thesis
  proof (cases "wk_is_active w")
    case False
    then show ?thesis
      using assms Some by (auto simp: retry_one_def poisoned_def undecryptable_def)
  next
    case True
    then have run: "post_delivery env now w d s = (Inr (), s')"
      using assms(1) Some by (simp add: retry_one_def)
    then have other: "wd_webhook_id d \<noteq> i"
      using assms(2) Some undecryptable_raises [of env w now d s] by (auto simp: poisoned_def)
    show ?thesis
      using run
    proof (rule post_delivery_E)
      fix p
      assume "handle_reply now w d (he_reply env (hk_posts s) p) (s\<lparr>hk_posts := hk_posts s @ [p]\<rparr>) = (Inr (), s')"
      then show ?thesis
        by (rule handle_reply_poisoned [THEN conjI]) (use Some assms(2) other in \<open>simp_all add: poisoned_def\<close>)
    qed simp
  qed
qed

lemma retry_loop_poisoned:
  "poisoned env (wd_webhook_id d) s \<Longrightarrow> d \<in> set ds \<Longrightarrow> \<exists>e s'. retry_loop env now ds n s = (Inl e, s')"
proof (induction ds arbitrary: n s)
  case (Cons x ds)
  show ?case
  proof (cases "retry_one env now x s")
    case (Pair r s1)
    then show ?thesis
    proof (cases r)
      case (Inr v)
      then have "poisoned env (wd_webhook_id d) s1 \<and> wd_webhook_id x \<noteq> wd_webhook_id d"
        using Pair retry_one_poisoned Cons.prems(1) by simp
      moreover from this have "d \<in> set ds"
        using Cons.prems(2) by auto
      ultimately show ?thesis
        using Cons.IH [of s1 "n + 1"] Pair Inr by (simp add: and_then_def)
    qed (simp add: and_then_def)
  qed
qed simp

text \<open>The runs of a periodic task, each with its session.\<close>

fun retry_runs :: "hook_env \<Rightarrow> time list \<Rightarrow> hooks \<Rightarrow> hooks" where
  "retry_runs env [] s = s"
| "retry_runs env (now # nows) s = (case retry_pending_deliveries env now s of
     (Inl e, s') \<Rightarrow> retry_runs env nows (rolled_back s s') | (Inr n, s') \<Rightarrow> retry_runs env nows s')"

lemma take_filter_mem: "x \<in> set (take n xs) \<Longrightarrow> P x \<Longrightarrow> x \<in> set (take n (filter P xs))"
proof (induction xs arbitrary: n)
  case (Cons a xs)
  show ?case
  proof (cases n)
    case (Suc m)
    then show ?thesis
      using Cons set_take_subset_set_take [of m n "filter P xs"] by auto
  qed (use Cons in simp)
qed simp

lemma poisoned_run:
  assumes "d \<in> set (take 100 (hk_deliveries s))" and "is_due t0 d" and "t0 \<le> now" and "poisoned env (wd_webhook_id d) s"
  shows "\<exists>e s'. retry_pending_deliveries env now s = (Inl e, s')"
proof -
  have "is_due now d"
    using assms(2,3) by (auto simp: is_due_def split: option.splits)
  then show ?thesis
    using retry_loop_poisoned [OF assms(4)] take_filter_mem [OF assms(1)]
    by (simp add: retry_pending_deliveries_def)
qed

text \<open>
  One due delivery, among the first hundred rows, to an active webhook whose stored secret does not
  decrypt (after a change of the key, say) makes every retry run raise: no run ever changes a delivery,
  of any organization.
\<close>

theorem undecryptable_secret_stops_retries:
  assumes "d \<in> set (take 100 (hk_deliveries s))" and "is_due t0 d" and "poisoned env (wd_webhook_id d) s"
    and "\<forall>now \<in> set nows. t0 \<le> now"
  shows "hk_deliveries (retry_runs env nows s) = hk_deliveries s \<and>
    (t0 \<le> now \<longrightarrow> (\<exists>e s'. retry_pending_deliveries env now (retry_runs env nows s) = (Inl e, s')))"
  using assms
proof (induction nows arbitrary: s)
  case Nil
  then show ?case
    using poisoned_run by simp
next
  case (Cons t nows)
  have "t0 \<le> t"
    using Cons.prems(4) by simp
  from poisoned_run [OF Cons.prems(1,2) this Cons.prems(3)]
  obtain e s' where run: "retry_pending_deliveries env t s = (Inl e, s')"
    by blast
  have "hk_deliveries (rolled_back s s') = hk_deliveries s"
    "poisoned env i (rolled_back s s') = poisoned env i s" for i
    by (simp_all add: rolled_back_def poisoned_def webhook_get_def)
  then show ?case
    using Cons.IH [of "rolled_back s s'"] Cons.prems run by simp
qed

section \<open>Signatures\<close>


lemma map_of_replace:
  "map_of (map (\<lambda>(k, v). if k = a then (a, b) else (k, v)) d) k = (if k = a \<and> map_of d k \<noteq> None then Some b else map_of d k)"
  by (induction d) auto

lemma map_of_header_set [simp]: "map_of (header_set kv d) k = (if k = fst kv then Some (snd kv) else map_of d k)"
proof (cases kv)
  case (Pair a b)
  have "map_of d a = None \<longleftrightarrow> a \<notin> fst ` set d"
    by (simp add: map_of_eq_None_iff)
  then show ?thesis
    by (cases "map_of d a") (auto simp: Pair header_set_def map_of_replace map_add_def split: option.splits)
qed












section \<open>Witnesses\<close>

definition example_hooks_env :: hook_env where
  "example_hooks_env = \<lparr>he_dns = (\<lambda>_ _. [''93.184.216.34'']), he_encrypt = (\<lambda>_ p. ''gAAAAA'' @ p),
     he_decrypt = (\<lambda>c. Some (drop 6 c)), he_hmac = (\<lambda>k b. k),
     he_isoformat = show_int, he_reply = (\<lambda>_ _. Responded 500 [])\<rparr>"

definition example_webhook :: webhook where
  "example_webhook = \<lparr>wk_id = 1, wk_org_id = 7, wk_name = ''a'', wk_url = ''https://a.io'', wk_events = [''sla.breach''],
     wk_secret_hash = Some ''gAAAAAk'', wk_custom_headers = None, wk_is_active = True, wk_created_by = 3,
     wk_last_delivery_at = None, wk_failure_count = 0, wk_is_deleted = False, wk_deleted_at = None, wk_created_at = 0\<rparr>"

definition example_hooks :: "webhook \<Rightarrow> hooks" where
  "example_hooks w = \<lparr>hk_webhooks = [w], hk_deliveries = [], hk_posts = [], hk_lookups = 0\<rparr>"

definition example_delivery :: "nat \<Rightarrow> webhook_delivery" where
  "example_delivery n = \<lparr>wd_id = 50, wd_webhook_id = 1, wd_event_type = ''sla.breach'', wd_payload = JNull,
     wd_status = ''retrying'', wd_response_status_code = Some 500, wd_response_body = None, wd_attempt_count = n,
     wd_next_retry_at = Some (minutes 1), wd_created_at = 0, wd_delivered_at = None\<rparr>"

definition example_failed :: hooks where
  "example_failed = snd (deliver_webhook example_hooks_env 0 (\<lambda>k. 50 + k) 7 ''sla.breach'' JNull (example_hooks example_webhook))"

lemmas example_hook_defs = example_hooks_env_def example_webhook_def example_hooks_def example_delivery_def

lemma example_failed_deliveries:
  "deliver_webhook example_hooks_env 0 (\<lambda>k. 50 + k) 7 ''sla.breach'' JNull (example_hooks example_webhook) = (Inr (), example_failed) \<and>
   hk_deliveries example_failed = [example_delivery 2] \<and> hk_webhooks example_failed = [example_webhook\<lparr>wk_failure_count := 1\<rparr>]"
  by (simp add: example_failed_def example_hook_defs deliver_webhook_def list_active_for_org_and_event_def deliver_single_def
      delivery_create_def post_delivery_def post_headers_def recover_signing_secret_def sign_payload_def str_truthy_def
      send_post_def delivery_request_def handle_delivery_failure_def webhook_save_def delivery_save_def save_row_def
      increment_failure_count_def delivery_mark_failed_def MAX_RETRIES_def RETRY_DELAYS_def clip_def header_set_def and_then_def Let_def)

text \<open>One failed attempt, and then a run that raises because the key of the secrets has changed.\<close>

theorem webhook_retries_bounded_witness:
  "posts_of example_failed 50 \<le> 4 \<and> (\<exists>s. hook_steps 1 (example_hooks example_webhook) s \<and> posts_of s 50 \<le> 5)"
proof -
  have "fresh_ids (example_hooks example_webhook) (\<lambda>k. 50 + k) 0"
    by (auto simp: fresh_ids_def example_hooks_def posts_of_def inj_def)
  then have steps: "hook_steps 0 (example_hooks example_webhook) example_failed"
    using example_failed_deliveries hook_step.delivered hook_steps.intros by blast
  let ?bad = "example_hooks_env\<lparr>he_decrypt := \<lambda>_. None\<rparr>"
  have "example_delivery 2 \<in> set (take 100 (hk_deliveries example_failed))" "is_due (minutes 1) (example_delivery 2)"
    "minutes 1 \<le> minutes 2"
    by (simp_all add: example_failed_deliveries is_due_def example_delivery_def MAX_RETRIES_def time_defs)
  moreover have "poisoned ?bad (wd_webhook_id (example_delivery 2)) example_failed"
    by (simp add: poisoned_def webhook_get_def undecryptable_def example_failed_deliveries example_webhook_def example_delivery_def example_hooks_env_def)
  ultimately obtain e s' where "retry_pending_deliveries ?bad (minutes 2) example_failed = (Inl e, s')"
    using poisoned_run by blast
  from hook_steps.aborted [OF steps this] have more: "hook_steps 1 (example_hooks example_webhook) (rolled_back example_failed s')"
    by simp
  have none: "hk_deliveries (example_hooks example_webhook) = []" and id: "wd_id (example_delivery 2) = 50"
    by (simp_all add: example_hooks_def example_delivery_def)
  have mem: "example_delivery 2 \<in> set (hk_deliveries example_failed)"
    "example_delivery 2 \<in> set (hk_deliveries (rolled_back example_failed s'))"
    by (simp_all add: example_failed_deliveries rolled_back_def)
  from webhook_retries_bounded [OF none steps mem(1)] webhook_retries_bounded [OF none more mem(2)] more show ?thesis
    unfolding id by (intro conjI exI [of _ "rolled_back example_failed s'"]) linarith+
qed

definition example_poison :: hooks where
  "example_poison = (example_hooks example_webhook)\<lparr>hk_deliveries := [example_delivery 2]\<rparr>"

theorem undecryptable_secret_stops_retries_witness:
  "hk_deliveries (retry_runs (example_hooks_env\<lparr>he_decrypt := \<lambda>_. None\<rparr>) [minutes 2, minutes 9] example_poison) = [example_delivery 2]"
  using undecryptable_secret_stops_retries [of "example_delivery 2" example_poison "minutes 1"
      "example_hooks_env\<lparr>he_decrypt := \<lambda>_. None\<rparr>" "[minutes 2, minutes 9]"]
  by (simp add: example_poison_def example_hook_defs is_due_def MAX_RETRIES_def poisoned_def webhook_get_def
      undecryptable_def time_defs)





end
