(* ===== verification/Evidence_Reports.thy ===== *)
theory Evidence_Reports
  imports Incidents Sessions
begin

text \<open>
  \<^verbatim>\<open>modules/evidence\<close> with its task, the evidence route of \<^verbatim>\<open>modules/incidents\<close>, the public
  \<^verbatim>\<open>modules/verification\<close> and the object store of \<^verbatim>\<open>infrastructure/storage.py\<close> as they use it.  The
  evidence is a JSON document whose numbers may be floats, a value of \<^verbatim>\<open>doc\<close>.  Outside the
  repository, and the fields of \<^verbatim>\<open>evidence_env\<close>: the JSON text of a document (canonical for the
  digest, and the stored one), SHA-256, the PDF a report is rendered to, the optional explanation of
  an AI provider, which uploads the store accepts and its download links.
\<close>

section \<open>Rows and documents\<close>

record evidence_report =
  er_id :: uuid
  er_org_id :: uuid
  er_incident_id :: uuid
  er_file_path :: string
  er_file_size_bytes :: nat
  er_checksum :: string
  er_generated_at :: time
  er_expires_at :: "time option"
  er_created_at :: time

datatype doc = DNull | DBool bool | DInt int | DReal real | DStr string | DArr "doc list" | DObj "(string \<times> doc) list"

record evidence_snapshot =
  es_id :: uuid
  es_incident_id :: uuid
  es_org_id :: uuid
  es_dependency_id :: uuid
  es_time_window_start :: time
  es_time_window_end :: time
  es_observation_ids :: "string list"
  es_attribution_result :: "doc option"
  es_methodology_version :: string
  es_data_hash :: string
  es_verification_id :: string
  es_report_file_path :: string
  es_report_checksum :: string
  es_json_evidence_path :: string
  es_created_at :: time

record stored_object =
  so_name :: string
  so_body :: string
  so_content_type :: string

record vault =
  va_world :: world
  va_reports :: "evidence_report list"
  va_snapshots :: "evidence_snapshot list"
  va_objects :: "stored_object list"

record evidence_env =
  ee_notify :: notify_env
  ee_isoformat :: "time \<Rightarrow> string"
  ee_canonical :: "doc \<Rightarrow> string"
  ee_dumps :: "doc \<Rightarrow> string"
  ee_sha256 :: "string \<Rightarrow> string"
  ee_pdf :: "incident \<Rightarrow> dependency \<Rightarrow> incident_correlation list \<Rightarrow> real \<Rightarrow> real \<Rightarrow> string \<Rightarrow> string \<Rightarrow> time \<Rightarrow>
    doc option \<Rightarrow> string option \<Rightarrow> string option"
  ee_ai :: "doc \<Rightarrow> string option"
  ee_accepts :: "string \<Rightarrow> bool"
  ee_presigned :: "string \<Rightarrow> nat \<Rightarrow> string option"

definition dopt :: "('a \<Rightarrow> doc) \<Rightarrow> 'a option \<Rightarrow> doc" where
  "dopt f x = (case x of None \<Rightarrow> DNull | Some v \<Rightarrow> f v)"

fun doc_of_json :: "json \<Rightarrow> doc" where
  "doc_of_json JNull = DNull"
| "doc_of_json (JBool b) = DBool b"
| "doc_of_json (JInt i) = DInt i"
| "doc_of_json (JStr s) = DStr s"
| "doc_of_json (JArr xs) = DArr (map doc_of_json xs)"
| "doc_of_json (JObj kvs) = DObj (map (\<lambda>(k, v). (k, doc_of_json v)) kvs)"

fun incident_status_value :: "incident_status \<Rightarrow> string" where
  "incident_status_value IncOpen = ''open''"
| "incident_status_value IncResolved = ''resolved''"
| "incident_status_value IncFalsePositive = ''false_positive''"

fun root_cause_value :: "root_cause \<Rightarrow> string" where
  "root_cause_value VendorFailure = ''vendor_failure''"
| "root_cause_value NetworkIssue = ''network_issue''"
| "root_cause_value ConfigError = ''config_error''"
| "root_cause_value UnknownCause = ''unknown''"

section \<open>Repository\<close>

definition report_create ::
  "uuid \<Rightarrow> time \<Rightarrow> uuid \<Rightarrow> uuid \<Rightarrow> string \<Rightarrow> nat \<Rightarrow> string \<Rightarrow> vault \<Rightarrow> evidence_report \<times> vault" where
  "report_create i now org_id incident_id file_path bytes checksum v =
     (let r = \<lparr>er_id = i, er_org_id = org_id, er_incident_id = incident_id, er_file_path = file_path,
        er_file_size_bytes = bytes, er_checksum = checksum, er_generated_at = now, er_expires_at = None, er_created_at = now\<rparr>
      in (r, v\<lparr>va_reports := va_reports v @ [r]\<rparr>))"

definition report_get_by_id :: "vault \<Rightarrow> uuid \<Rightarrow> evidence_report option" where
  "report_get_by_id v i = get_row er_id i (va_reports v)"

definition report_get_by_incident :: "vault \<Rightarrow> uuid \<Rightarrow> evidence_report option" where
  "report_get_by_incident v incident_id =
     (case page_of (\<lambda>r. - er_generated_at r) 0 1 (filter (\<lambda>r. er_incident_id r = incident_id) (va_reports v)) of
        [] \<Rightarrow> None | r # _ \<Rightarrow> Some r)"

definition report_list_for_org :: "vault \<Rightarrow> uuid \<Rightarrow> nat \<Rightarrow> evidence_report list" where
  "report_list_for_org v org_id limit =
     page_of (\<lambda>r. - er_generated_at r) 0 limit (filter (\<lambda>r. er_org_id r = org_id) (va_reports v))"

text \<open>The verification identifier is unique, and rows are never updated or deleted (the listeners of the model).\<close>

definition snapshot_create :: "evidence_snapshot \<Rightarrow> (evidence_snapshot, vault) service" where
  "snapshot_create r v =
     (if es_verification_id r \<in> es_verification_id ` set (va_snapshots v)
      then (Inl (IntegrityError ''evidence_snapshots''), v)
      else (Inr r, v\<lparr>va_snapshots := va_snapshots v @ [r]\<rparr>))"

definition get_by_verification_id :: "vault \<Rightarrow> string \<Rightarrow> evidence_snapshot option" where
  "get_by_verification_id v i = get_row es_verification_id i (va_snapshots v)"

definition get_latest_for_incident :: "vault \<Rightarrow> uuid \<Rightarrow> evidence_snapshot option" where
  "get_latest_for_incident v incident_id =
     (case page_of (\<lambda>r. - es_created_at r) 0 1 (filter (\<lambda>r. es_incident_id r = incident_id) (va_snapshots v)) of
        [] \<Rightarrow> None | r # _ \<Rightarrow> Some r)"

section \<open>Object store\<close>

definition storage_error :: "string \<Rightarrow> app_error" where
  "storage_error name = ValueError (''Upload of '' @ quoted name @ '' failed'')"

definition put_object :: "stored_object \<Rightarrow> stored_object list \<Rightarrow> stored_object list" where
  "put_object x xs = filter (\<lambda>y. so_name y \<noteq> so_name x) xs @ [x]"

definition upload_bytes :: "evidence_env \<Rightarrow> string \<Rightarrow> string \<Rightarrow> string \<Rightarrow> (unit, vault) service" where
  "upload_bytes env data object_name content_type v =
     (if ee_accepts env object_name
      then (Inr (), v\<lparr>va_objects := put_object \<lparr>so_name = object_name, so_body = data, so_content_type = content_type\<rparr> (va_objects v)\<rparr>)
      else (Inl (storage_error object_name), v))"

text \<open>A download finds the store up: its outages are modelled for the uploads only.\<close>

definition download_bytes :: "vault \<Rightarrow> string \<Rightarrow> string option" where
  "download_bytes v object_name = map_option so_body (get_row so_name object_name (va_objects v))"

section \<open>The evidence of an incident\<close>

definition evidence_item_doc :: "evidence_env \<Rightarrow> evidence_item \<Rightarrow> doc" where
  "evidence_item_doc env x = (case x of
     ObservationItem i t region error_type \<Rightarrow> DObj [(''observation_id'', DStr (uuid_str i)),
       (''timestamp'', DStr (ee_isoformat env t)), (''region'', DStr region), (''error_type'', dopt DStr error_type)]
   | SignalItem signal score \<Rightarrow> DObj [(''type'', DStr ''signal''), (''signal'', DStr signal), (''score'', DReal score)])"

definition attribution_payload :: "evidence_env \<Rightarrow> attribution_result option \<Rightarrow> doc option" where
  "attribution_payload env result = map_option (\<lambda>r. DObj [(''id'', DStr (uuid_str (ar_id r))),
     (''classification'', DStr (ar_classification r)), (''confidence_score'', DReal (ar_confidence_score r)),
     (''signal_breakdown'', DObj (map (\<lambda>(k, v). (k, DReal v)) (ar_signal_breakdown r))),
     (''supporting_evidence'', DArr (map (evidence_item_doc env) (ar_supporting_evidence r))),
     (''contradicting_evidence'', DArr (map (evidence_item_doc env) (ar_contradicting_evidence r))),
     (''methodology_version'', DStr (ar_methodology_version r))]) result"

definition observation_payload :: "evidence_env \<Rightarrow> observation \<Rightarrow> doc" where
  "observation_payload env x = DObj [(''id'', DStr (uuid_str (ob_id x))),
     (''timestamp'', DStr (ee_isoformat env (ob_timestamp x))), (''source_type'', DStr (ob_source_type x)),
     (''source_id'', dopt (\<lambda>i. DStr (uuid_str i)) (ob_source_id x)), (''region'', DStr (ob_region x)),
     (''endpoint_url'', DStr (ob_endpoint_url x)), (''latency_ms'', DReal (ob_latency_ms x)),
     (''status_code'', dopt DInt (ob_status_code x)), (''error_type'', dopt DStr (ob_error_type x)),
     (''error_message'', dopt DStr (ob_error_message x)), (''metadata'', doc_of_json (JObj (ob_metadata x)))]"

definition incident_doc :: "evidence_env \<Rightarrow> incident \<Rightarrow> doc" where
  "incident_doc env inc = DObj [(''id'', DStr (uuid_str (in_id inc))), (''org_id'', DStr (uuid_str (in_org_id inc))),
     (''dependency_id'', DStr (uuid_str (in_dependency_id inc))),
     (''started_at'', DStr (ee_isoformat env (in_started_at inc))),
     (''resolved_at'', dopt (\<lambda>t. DStr (ee_isoformat env t)) (in_resolved_at inc)),
     (''severity'', DStr (incident_severity_value (in_severity inc))),
     (''status'', DStr (incident_status_value (in_status inc))),
     (''root_cause'', DStr (root_cause_value (in_root_cause inc)))]"

definition dependency_doc :: "dependency \<Rightarrow> doc" where
  "dependency_doc d = DObj [(''id'', DStr (uuid_str (d_id d))), (''name'', DStr (d_name d)),
     (''endpoint_url'', DStr (d_endpoint_url d)), (''regions'', DArr (map DStr (d_regions d)))]"

text \<open>The items of the dictionary \<^verbatim>\<open>evidence_data\<close>, and those added to it in the stored document.\<close>

definition evidence_data ::
  "evidence_env \<Rightarrow> incident \<Rightarrow> dependency \<Rightarrow> time \<Rightarrow> observation list \<Rightarrow> doc option \<Rightarrow> string \<Rightarrow> (string \<times> doc) list" where
  "evidence_data env inc dep window_end observations attribution methodology_version =
     [(''schema_version'', DStr ''1.0''), (''incident'', incident_doc env inc), (''dependency'', dependency_doc dep),
      (''time_window'', DObj [(''start'', DStr (ee_isoformat env (in_started_at inc))),
         (''end'', DStr (ee_isoformat env window_end))]),
      (''observations'', DArr (map (observation_payload env) observations)),
      (''attribution'', case attribution of None \<Rightarrow> DNull | Some d \<Rightarrow> d),
      (''methodology_version'', DStr methodology_version)]"

definition sealed :: "evidence_env \<Rightarrow> string \<Rightarrow> string \<Rightarrow> string \<Rightarrow> time \<Rightarrow> (string \<times> doc) list" where
  "sealed env data_hash verification_id report_checksum generated_at =
     [(''data_hash'', DStr data_hash), (''verification_id'', DStr verification_id),
      (''report_checksum'', DStr report_checksum), (''generated_at'', DStr (ee_isoformat env generated_at))]"

text \<open>What the evidence is computed from, read before anything is written.\<close>

record measured =
  me_incident :: incident
  me_dependency :: dependency
  me_correlations :: "incident_correlation list"
  me_uptime_pct :: real
  me_sla_impact_pct :: real
  me_window_end :: time
  me_observations :: "observation list"
  me_attribution :: "doc option"
  me_methodology :: string

definition measure_incident :: "evidence_env \<Rightarrow> time \<Rightarrow> uuid \<Rightarrow> monitor \<Rightarrow> app_error + measured" where
  "measure_incident env now incident_id m = (case incident_get_by_id m incident_id of
     None \<Rightarrow> Inl (ResourceNotFoundException ''Incident not found'')
   | Some inc \<Rightarrow> (case dep_get_by_id m (in_dependency_id inc) of
       None \<Rightarrow> Inl (ResourceNotFoundException ''Dependency not found'')
     | Some dep \<Rightarrow>
         (let uptime = cs_uptime_percentage (get_aggregated_stats now m (d_id dep) 24);
              window_end = (case in_resolved_at inc of None \<Rightarrow> now | Some t \<Rightarrow> t);
              result = attribution_get_by_incident m (in_id inc)
          in Inr \<lparr>me_incident = inc, me_dependency = dep, me_correlations = get_correlations m incident_id,
               me_uptime_pct = uptime, me_sla_impact_pct = py_round 2 (max 0 (100 - uptime)), me_window_end = window_end,
               me_observations = list_for_source m (d_id dep) ''customer_check'' 1000 (Some (in_started_at inc)) (Some window_end),
               me_attribution = attribution_payload env result,
               me_methodology = (case result of None \<Rightarrow> ''v1.0'' | Some r \<Rightarrow> ar_methodology_version r)\<rparr>)))"

definition measured_data :: "evidence_env \<Rightarrow> measured \<Rightarrow> (string \<times> doc) list" where
  "measured_data env x = evidence_data env (me_incident x) (me_dependency x) (me_window_end x) (me_observations x)
     (me_attribution x) (me_methodology x)"

definition data_hash_of :: "evidence_env \<Rightarrow> (string \<times> doc) list \<Rightarrow> string" where
  "data_hash_of env kvs = ee_sha256 env (ee_canonical env (DObj kvs))"

definition ai_context :: "measured \<Rightarrow> doc" where
  "ai_context x = DObj [(''attribution'', case me_attribution x of None \<Rightarrow> DNull | Some d \<Rightarrow> d),
     (''uptime_percentage'', DReal (me_uptime_pct x)), (''sla_impact_percentage'', DReal (me_sla_impact_pct x)),
     (''observation_count'', DInt (int (length (me_observations x))))]"

text \<open>The rendered report; \<^verbatim>\<open>None\<close> when both PDF renderers fail.\<close>

definition render_report :: "evidence_env \<Rightarrow> time \<Rightarrow> string \<Rightarrow> measured \<Rightarrow> string option" where
  "render_report env now verification_id x = ee_pdf env (me_incident x) (me_dependency x) (me_correlations x)
     (py_round 2 (me_uptime_pct x)) (py_round 2 (me_sla_impact_pct x)) (data_hash_of env (measured_data env x))
     verification_id now (me_attribution x) (ee_ai env (ai_context x))"

definition base_path :: "incident \<Rightarrow> string \<Rightarrow> string" where
  "base_path inc generation_key = ''evidence/'' @ uuid_str (in_org_id inc) @ ''/'' @ uuid_str (in_id inc) @ ''/'' @ generation_key"

record evidence_ids =
  ei_report :: uuid
  ei_snapshot :: uuid
  ei_verification :: string
  ei_generation_key :: string

definition snapshot_of :: "evidence_env \<Rightarrow> time \<Rightarrow> evidence_ids \<Rightarrow> measured \<Rightarrow> string \<Rightarrow> evidence_snapshot" where
  "snapshot_of env now ids x report_checksum =
     (let path = base_path (me_incident x) (ei_generation_key ids)
      in \<lparr>es_id = ei_snapshot ids, es_incident_id = in_id (me_incident x), es_org_id = in_org_id (me_incident x),
           es_dependency_id = d_id (me_dependency x), es_time_window_start = in_started_at (me_incident x),
           es_time_window_end = me_window_end x, es_observation_ids = map (\<lambda>y. uuid_str (ob_id y)) (me_observations x),
           es_attribution_result = me_attribution x, es_methodology_version = me_methodology x,
           es_data_hash = data_hash_of env (measured_data env x), es_verification_id = ei_verification ids,
           es_report_file_path = path @ ''.pdf'', es_report_checksum = report_checksum,
           es_json_evidence_path = path @ ''.json'', es_created_at = now\<rparr>)"

definition document_of :: "evidence_env \<Rightarrow> time \<Rightarrow> evidence_ids \<Rightarrow> measured \<Rightarrow> string \<Rightarrow> doc" where
  "document_of env now ids x report_checksum = DObj (measured_data env x @
     sealed env (data_hash_of env (measured_data env x)) (ei_verification ids) report_checksum now)"

text \<open>The report's row, the two uploads and the snapshot; an upload that raises ends the operation.\<close>

definition store_evidence ::
  "evidence_env \<Rightarrow> time \<Rightarrow> evidence_ids \<Rightarrow> measured \<Rightarrow> string \<Rightarrow> (evidence_report \<times> evidence_snapshot, vault) service" where
  "store_evidence env now ids x pdf v =
     (let checksum = ee_sha256 env pdf; s = snapshot_of env now ids x checksum
      in case report_create (ei_report ids) now (in_org_id (me_incident x)) (in_id (me_incident x))
                (es_report_file_path s) (length pdf) checksum v of
        (report, v1) \<Rightarrow>
          and_then (upload_bytes env pdf (es_report_file_path s) ''application/pdf'') (\<lambda>_.
          and_then (upload_bytes env (ee_dumps env (document_of env now ids x checksum)) (es_json_evidence_path s)
              ''application/json'') (\<lambda>_.
          and_then (snapshot_create s) (\<lambda>snapshot v. (Inr (report, snapshot), v)))) v1)"

definition log_evidence :: "time \<Rightarrow> evidence_report \<Rightarrow> evidence_snapshot \<Rightarrow> monitor \<Rightarrow> monitor" where
  "log_evidence now report s m = m\<lparr>mo_db := log_event now ''EVIDENCE_GENERATED'' (Some (es_org_id s)) None
     ''evidence_snapshot'' (uuid_str (es_id s))
     (JObj [(''incident_id'', juuid (es_incident_id s)), (''report_id'', juuid (er_id report)),
        (''data_hash'', JStr (es_data_hash s)), (''report_checksum'', JStr (es_report_checksum s)),
        (''verification_id'', JStr (es_verification_id s))]) (mo_db m)\<rparr>"

text \<open>The alert; the download link that cannot be made, like any other exception, is logged.\<close>

definition evidence_alert :: "evidence_env \<Rightarrow> time \<Rightarrow> incident \<Rightarrow> evidence_report \<Rightarrow> evidence_snapshot \<Rightarrow> world \<Rightarrow> world" where
  "evidence_alert env now inc report s w = (case ee_presigned env (er_file_path report) 3600 of
     None \<Rightarrow> w
   | Some url \<Rightarrow> w\<lparr>w_notify := snd (dispatch_alert (ee_notify env) now (w_m w)
       \<lparr>al_org = in_org_id inc, al_incident_id = Some (in_id inc),
        al_severity = incident_severity_value (in_severity inc), al_title = ''SLA Evidence Report Generated'',
        al_body = ''Evidence report generated for incident '' @ uuid_str (in_id inc) @ ''. Verification ID: '' @ es_verification_id s,
        al_metadata = [(''report_id'', juuid (er_id report)), (''verification_id'', JStr (es_verification_id s)),
          (''checksum'', JStr (es_report_checksum s)), (''download_url'', JStr url)]\<rparr> (w_notify w))\<rparr>)"

definition generate_for_incident ::
  "evidence_env \<Rightarrow> time \<Rightarrow> evidence_ids \<Rightarrow> uuid \<Rightarrow> (evidence_report, vault) service" where
  "generate_for_incident env now ids incident_id v = (case measure_incident env now incident_id (w_m (va_world v)) of
     Inl e \<Rightarrow> (Inl e, v)
   | Inr x \<Rightarrow> (case render_report env now (ei_verification ids) x of
       None \<Rightarrow> (Inl (ValueError ''PDF generation failed via both Playwright and xhtml2pdf''), v)
     | Some pdf \<Rightarrow>
         and_then (store_evidence env now ids x pdf) (\<lambda>(report, snapshot) v.
           (let w = (va_world v)\<lparr>w_m := log_evidence now report snapshot (w_m (va_world v))\<rparr>
            in (Inr report, v\<lparr>va_world := evidence_alert env now (me_incident x) report snapshot w\<rparr>))) v))"

text \<open>A session that is rolled back: the objects stay in the store, and the messages are sent.\<close>

definition vault_rollback :: "vault \<Rightarrow> vault \<Rightarrow> vault" where
  "vault_rollback v v' = v\<lparr>va_world := (va_world v)\<lparr>w_notify := w_notify (va_world v')\<rparr>, va_objects := va_objects v'\<rparr>"

definition with_vault_session :: "('a, vault) service \<Rightarrow> ('a, vault) service" where
  "with_vault_session f v = (case f v of (Inl e, v') \<Rightarrow> (Inl e, vault_rollback v v') | (Inr x, v') \<Rightarrow> (Inr x, v'))"

text \<open>The task: it retries, up to three times, after an exception; each attempt draws its own identifiers.\<close>

definition TASK_RETRIES :: nat where "TASK_RETRIES = 3"

fun generate_attempts ::
  "evidence_env \<Rightarrow> (nat \<Rightarrow> time) \<Rightarrow> (nat \<Rightarrow> evidence_ids) \<Rightarrow> nat \<Rightarrow> nat \<Rightarrow> uuid \<Rightarrow> (evidence_report, vault) service" where
  "generate_attempts env nows ids k 0 incident_id v =
     with_vault_session (generate_for_incident env (nows k) (ids k) incident_id) v"
| "generate_attempts env nows ids k (Suc retries) incident_id v =
     (case with_vault_session (generate_for_incident env (nows k) (ids k) incident_id) v of
        (Inr r, v') \<Rightarrow> (Inr r, v') | (Inl e, v') \<Rightarrow> generate_attempts env nows ids (k + 1) retries incident_id v')"

definition generate_evidence_report ::
  "evidence_env \<Rightarrow> (nat \<Rightarrow> time) \<Rightarrow> (nat \<Rightarrow> evidence_ids) \<Rightarrow> uuid \<Rightarrow> (evidence_report, vault) service" where
  "generate_evidence_report env nows ids incident_id v = generate_attempts env nows ids 0 TASK_RETRIES incident_id v"

section \<open>Routes\<close>

record report_download =
  rd_report :: evidence_report
  rd_download_url :: string

definition list_reports :: "uuid \<Rightarrow> nat \<Rightarrow> vault \<Rightarrow> evidence_report list" where
  "list_reports org_id limit v = report_list_for_org v org_id limit"

definition owned_report :: "vault \<Rightarrow> uuid \<Rightarrow> uuid \<Rightarrow> app_error + evidence_report" where
  "owned_report v org_id report_id = (case report_get_by_id v report_id of
     None \<Rightarrow> Inl (ResourceNotFoundException ''Evidence report not found'')
   | Some r \<Rightarrow> if er_org_id r \<noteq> org_id then Inl (ResourceNotFoundException ''Evidence report not found'') else Inr r)"

definition get_report_download :: "evidence_env \<Rightarrow> uuid \<Rightarrow> uuid \<Rightarrow> vault \<Rightarrow> app_error + report_download" where
  "get_report_download env org_id report_id v = (case owned_report v org_id report_id of
     Inl e \<Rightarrow> Inl e
   | Inr r \<Rightarrow> (case ee_presigned env (er_file_path r) 3600 of
       None \<Rightarrow> Inl (ValueError (''Presigned URL generation for '' @ quoted (er_file_path r) @ '' failed''))
     | Some url \<Rightarrow> Inr \<lparr>rd_report = r, rd_download_url = url\<rparr>))"

definition regenerate_report :: "evidence_env \<Rightarrow> time \<Rightarrow> evidence_ids \<Rightarrow> uuid \<Rightarrow> uuid \<Rightarrow> (evidence_report, vault) service" where
  "regenerate_report env now ids org_id report_id v = (case owned_report v org_id report_id of
     Inl e \<Rightarrow> (Inl e, v) | Inr r \<Rightarrow> generate_for_incident env now ids (er_incident_id r) v)"

definition get_or_trigger_evidence :: "evidence_env \<Rightarrow> time \<Rightarrow> evidence_ids \<Rightarrow> uuid \<Rightarrow> uuid \<Rightarrow> (evidence_report, vault) service" where
  "get_or_trigger_evidence env now ids org_id incident_id v =
     (case owned_incident (w_m (va_world v)) org_id incident_id of
        Inl e \<Rightarrow> (Inl e, v)
      | Inr _ \<Rightarrow> (case report_get_by_incident v incident_id of
          Some r \<Rightarrow> (Inr r, v) | None \<Rightarrow> generate_for_incident env now ids incident_id v))"

text \<open>The public verification: 404, or the stored digests; \<^verbatim>\<open>db_up\<close> says whether the query succeeds.\<close>

datatype verify_response = VerifyUnavailable | VerifyNotFound | VerifyFound "(string \<times> doc) list"

definition verify_evidence :: "evidence_env \<Rightarrow> bool \<Rightarrow> string \<Rightarrow> vault \<Rightarrow> verify_response" where
  "verify_evidence env db_up verification_id v =
     (if \<not> db_up then VerifyUnavailable
      else (case get_by_verification_id v verification_id of None \<Rightarrow> VerifyNotFound
        | Some s \<Rightarrow> VerifyFound [(''found'', DBool True), (''incident_id'', DStr (uuid_str (es_incident_id s))),
            (''dependency_id'', DStr (uuid_str (es_dependency_id s))), (''org_id'', DStr (uuid_str (es_org_id s))),
            (''time_window'', DObj [(''start'', DStr (ee_isoformat env (es_time_window_start s))),
              (''end'', DStr (ee_isoformat env (es_time_window_end s)))]),
            (''data_hash'', DStr (es_data_hash s)), (''report_checksum'', DStr (es_report_checksum s)),
            (''methodology_version'', DStr (es_methodology_version s)),
            (''created_at'', DStr (ee_isoformat env (es_created_at s)))]))"

end
