(* ===== verification/Evidence_Gate.thy ===== *)
theory Evidence_Gate
  imports Evidence_Reports Rate_Limit
begin

text \<open>
  \<^verbatim>\<open>modules/evidence_gate\<close>: publishing an evidence report, the public download behind an email
  address, which opens an account on the way, and the lead statistics.  Random tokens, the password and
  the suffix of the slug are arguments; bcrypt and SHA-256 are the fields of \<^verbatim>\<open>security\<close>.  The word
  characters of the regular expressions are the ASCII ones.
\<close>

section \<open>Tables\<close>

record public_report =
  pu_id :: uuid
  pu_incident_id :: uuid
  pu_vendor_name :: string
  pu_report_id :: uuid
  pu_is_public :: bool
  pu_custom_title :: "string option"
  pu_custom_summary :: "string option"
  pu_download_count :: nat
  pu_accounts_created :: nat
  pu_created_at :: time

record gate_token =
  gt_id :: uuid
  gt_report_id :: uuid
  gt_email :: string
  gt_user_id :: "uuid option"
  gt_token_hash :: string
  gt_ip_address :: "string option"
  gt_downloaded_at :: "time option"
  gt_expires_at :: time
  gt_created_at :: time

record lead_event =
  le_id :: uuid
  le_source :: string
  le_email :: string
  le_user_id :: "uuid option"
  le_vendor_name :: "string option"
  le_incident_id :: "uuid option"
  le_ref_code :: "string option"
  le_ip_address :: "string option"
  le_user_agent :: "string option"
  le_converted_to_signup :: bool
  le_converted_at :: "time option"
  le_metadata :: json
  le_created_at :: time

record gate =
  ga_vault :: vault
  ga_public :: "public_report list"
  ga_tokens :: "gate_token list"
  ga_leads :: "lead_event list"

definition ga_monitor :: "gate \<Rightarrow> monitor" where
  "ga_monitor s = w_m (va_world (ga_vault s))"

definition on_gate_db :: "('a, db) service \<Rightarrow> ('a, gate) service" where
  "on_gate_db f s = (case f (mo_db (ga_monitor s)) of (r, d) \<Rightarrow>
     (r, s\<lparr>ga_vault := (ga_vault s)\<lparr>va_world := (va_world (ga_vault s))\<lparr>w_m := (ga_monitor s)\<lparr>mo_db := d\<rparr>\<rparr>\<rparr>\<rparr>))"

section \<open>Repositories\<close>

definition public_create ::
  "uuid \<Rightarrow> time \<Rightarrow> uuid \<Rightarrow> string \<Rightarrow> uuid \<Rightarrow> bool \<Rightarrow> string option \<Rightarrow> string option \<Rightarrow> gate \<Rightarrow> public_report \<times> gate" where
  "public_create i now incident_id vendor_name report_id is_public custom_title custom_summary s =
     (let r = \<lparr>pu_id = i, pu_incident_id = incident_id, pu_vendor_name = vendor_name, pu_report_id = report_id,
        pu_is_public = is_public, pu_custom_title = custom_title, pu_custom_summary = custom_summary,
        pu_download_count = 0, pu_accounts_created = 0, pu_created_at = now\<rparr>
      in (r, s\<lparr>ga_public := ga_public s @ [r]\<rparr>))"

definition public_get_by_id :: "gate \<Rightarrow> uuid \<Rightarrow> public_report option" where
  "public_get_by_id s i = get_row pu_id i (ga_public s)"

definition public_get_by_incident :: "gate \<Rightarrow> uuid \<Rightarrow> public_report option" where
  "public_get_by_incident s incident_id =
     (case page_of (\<lambda>r. - pu_created_at r) 0 1 (filter (\<lambda>r. pu_incident_id r = incident_id) (ga_public s)) of
        [] \<Rightarrow> None | r # _ \<Rightarrow> Some r)"

definition list_public_for_vendor :: "gate \<Rightarrow> string \<Rightarrow> public_report list" where
  "list_public_for_vendor s vendor_name = sort_key (\<lambda>r. - pu_created_at r)
     (filter (\<lambda>r. pu_vendor_name r = vendor_name \<and> pu_is_public r) (ga_public s))"

definition save_public :: "public_report \<Rightarrow> gate \<Rightarrow> gate" where
  "save_public r s = s\<lparr>ga_public := save_row pu_id r (ga_public s)\<rparr>"

definition update_publicity :: "public_report \<Rightarrow> bool \<Rightarrow> string option \<Rightarrow> string option \<Rightarrow> gate \<Rightarrow> gate" where
  "update_publicity r is_public custom_title custom_summary s = save_public (r\<lparr>pu_is_public := is_public,
     pu_custom_title := (if custom_title \<noteq> None then custom_title else pu_custom_title r),
     pu_custom_summary := (if custom_summary \<noteq> None then custom_summary else pu_custom_summary r)\<rparr>) s"

definition increment_download_count :: "uuid \<Rightarrow> gate \<Rightarrow> gate" where
  "increment_download_count i s = s\<lparr>ga_public := map (\<lambda>r. if pu_id r = i
     then r\<lparr>pu_download_count := pu_download_count r + 1\<rparr> else r) (ga_public s)\<rparr>"

definition increment_accounts_created :: "uuid \<Rightarrow> gate \<Rightarrow> gate" where
  "increment_accounts_created i s = s\<lparr>ga_public := map (\<lambda>r. if pu_id r = i
     then r\<lparr>pu_accounts_created := pu_accounts_created r + 1\<rparr> else r) (ga_public s)\<rparr>"

definition token_create ::
  "uuid \<Rightarrow> time \<Rightarrow> uuid \<Rightarrow> string \<Rightarrow> string \<Rightarrow> string option \<Rightarrow> uuid option \<Rightarrow> time \<Rightarrow> (gate_token, gate) service" where
  "token_create i now report_id email token_hash ip user_id expires_at s =
     (let t = \<lparr>gt_id = i, gt_report_id = report_id, gt_email = email, gt_user_id = user_id, gt_token_hash = token_hash,
        gt_ip_address = ip, gt_downloaded_at = None, gt_expires_at = expires_at, gt_created_at = now\<rparr>
      in if token_hash \<in> gt_token_hash ` set (ga_tokens s) then (Inl (IntegrityError ''evidence_gate_tokens''), s)
         else (Inr t, s\<lparr>ga_tokens := ga_tokens s @ [t]\<rparr>))"

definition token_get_by_hash :: "gate \<Rightarrow> string \<Rightarrow> gate_token option" where
  "token_get_by_hash s h = get_row gt_token_hash h (ga_tokens s)"

definition mark_downloaded :: "time \<Rightarrow> uuid \<Rightarrow> gate \<Rightarrow> gate" where
  "mark_downloaded now i s = s\<lparr>ga_tokens := map (\<lambda>t. if gt_id t = i
     then t\<lparr>gt_downloaded_at := Some now\<rparr> else t) (ga_tokens s)\<rparr>"

definition lead_create ::
  "uuid \<Rightarrow> time \<Rightarrow> string \<Rightarrow> string \<Rightarrow> string option \<Rightarrow> uuid option \<Rightarrow> uuid option \<Rightarrow> string option \<Rightarrow>
   string option \<Rightarrow> string option \<Rightarrow> json \<Rightarrow> gate \<Rightarrow> gate" where
  "lead_create i now source email vendor_name incident_id user_id ref_code ip user_agent metadata s =
     s\<lparr>ga_leads := ga_leads s @ [\<lparr>le_id = i, le_source = source, le_email = email, le_user_id = user_id,
       le_vendor_name = vendor_name, le_incident_id = incident_id, le_ref_code = ref_code, le_ip_address = ip,
       le_user_agent = user_agent, le_converted_to_signup = False, le_converted_at = None, le_metadata = metadata,
       le_created_at = now\<rparr>]\<rparr>"

definition mark_converted :: "time \<Rightarrow> uuid \<Rightarrow> string \<Rightarrow> gate \<Rightarrow> gate" where
  "mark_converted now user_id email s = s\<lparr>ga_leads := map (\<lambda>e. if le_email e = email \<and> le_user_id e = None
     then e\<lparr>le_user_id := Some user_id, le_converted_to_signup := True, le_converted_at := Some now\<rparr> else e) (ga_leads s)\<rparr>"

section \<open>Statistics\<close>

definition EVIDENCE_DOWNLOAD :: string where "EVIDENCE_DOWNLOAD = ''evidence_download''"

definition get_total_downloads :: "gate \<Rightarrow> nat" where
  "get_total_downloads s = length (filter (\<lambda>t. gt_downloaded_at t \<noteq> None) (ga_tokens s))"

definition get_total_accounts_created :: "gate \<Rightarrow> nat" where
  "get_total_accounts_created s = sum_list (map pu_accounts_created (ga_public s))"

definition converted_leads :: "gate \<Rightarrow> lead_event list" where
  "converted_leads s = filter (\<lambda>e. le_source e = EVIDENCE_DOWNLOAD \<and> le_converted_to_signup e) (ga_leads s)"

definition get_conversion_rate :: "gate \<Rightarrow> real" where
  "get_conversion_rate s = (if get_total_downloads s = 0 then 0
     else py_round 2 (real (length (converted_leads s)) / real (get_total_downloads s) * 100))"

definition get_top_vendors :: "gate \<Rightarrow> nat \<Rightarrow> (string option \<times> nat) list" where
  "get_top_vendors s limit =
     (let names = map le_vendor_name (filter (\<lambda>e. le_source e = EVIDENCE_DOWNLOAD) (ga_leads s))
      in take limit (sort_key (\<lambda>(v, n). - int n)
           (map (\<lambda>v. (v, length (filter (\<lambda>x. x = v) names))) (remdups names))))"

definition get_recent_conversions :: "gate \<Rightarrow> nat \<Rightarrow> (string \<times> string option \<times> time option) list" where
  "get_recent_conversions s limit = map (\<lambda>e. (le_email e, le_vendor_name e, le_converted_at e))
     (take limit (sort_key (\<lambda>e. case le_converted_at e of None \<Rightarrow> 0 | Some t \<Rightarrow> - t) (converted_leads s)))"

record gate_stats =
  gs_total_gated_downloads :: nat
  gs_total_accounts_created :: nat
  gs_conversion_rate :: real
  gs_top_vendors :: "(string option \<times> nat) list"
  gs_recent_conversions :: "(string \<times> string option \<times> time option) list"

definition get_stats :: "uuid \<Rightarrow> gate \<Rightarrow> gate_stats" where
  "get_stats org_id s = \<lparr>gs_total_gated_downloads = get_total_downloads s,
     gs_total_accounts_created = get_total_accounts_created s, gs_conversion_rate = get_conversion_rate s,
     gs_top_vendors = get_top_vendors s 10, gs_recent_conversions = get_recent_conversions s 10\<rparr>"

section \<open>The gate\<close>

record gate_request =
  gr_email :: string
  gr_full_name :: "string option"
  gr_incident_id :: uuid
  gr_vendor_name :: string
  gr_org_name :: "string option"
  gr_ref_code :: "string option"

record gate_response =
  gp_download_url :: string
  gp_report_id :: uuid
  gp_report_token :: string
  gp_expires_at :: time
  gp_account_created :: bool
  gp_login_url :: "string option"
  gp_message :: string

record gate_settings =
  gc_FRONTEND_BASE_URL :: string
  gc_REPORT_TOKEN_TTL_DAYS :: int

text \<open>What the handler draws: identifiers, the password and its salt, the suffix of the slug, the token.\<close>

record gate_draws =
  gd_user :: uuid
  gd_org :: uuid
  gd_member :: uuid
  gd_token :: uuid
  gd_lead :: uuid
  gd_password :: string
  gd_salt :: string
  gd_slug_suffix :: string
  gd_raw_token :: string

definition is_word :: "char \<Rightarrow> bool" where
  "is_word c = (is_alpha c \<or> is_digit c \<or> c = CHR ''_'')"

definition hyphenate :: "string \<Rightarrow> string" where
  "hyphenate s = map (\<lambda>c. if is_word c \<or> c = CHR ''-'' then c else CHR ''-'') s"

definition gate_slug :: "string \<Rightarrow> string \<Rightarrow> string" where
  "gate_slug org_name suffix = strip_hyphens (collapse_hyphens (hyphenate (lower org_name))) @ ''-'' @ suffix"

definition public_report_for :: "gate \<Rightarrow> gate_request \<Rightarrow> app_error + public_report" where
  "public_report_for s rq = (case public_get_by_incident s (gr_incident_id rq) of
     None \<Rightarrow> Inl (ResourceNotFoundException ''No public evidence report found for this incident'')
   | Some pub \<Rightarrow>
       if \<not> pu_is_public pub then Inl (ResourceNotFoundException ''No public evidence report found for this incident'')
       else if lower (pu_vendor_name pub) \<noteq> lower (gr_vendor_name rq)
       then Inl (ValidationException ''Vendor name does not match the evidence report'')
       else Inr pub)"

definition gate_organization :: "time \<Rightarrow> gate_draws \<Rightarrow> uuid \<Rightarrow> string option \<Rightarrow> (unit, db) service" where
  "gate_organization now draws user_id org_name = (if \<not> str_truthy org_name then pure_step (Inr ())
     else and_then (org_create (gd_org draws) now (the org_name) (gate_slug (the org_name) (gd_slug_suffix draws)) ''free'')
       (\<lambda>org. and_then (add_member (gd_member draws) now (o_id org) user_id ''owner'') (\<lambda>_. pure_step (Inr ()))))"

definition gate_user :: "security \<Rightarrow> time \<Rightarrow> gate_draws \<Rightarrow> gate_request \<Rightarrow> (user, db) service" where
  "gate_user sec now draws rq = and_then (pure_step (get_password_hash sec (gd_salt draws) (gd_password draws)))
     (\<lambda>password_hash. and_then (user_create (gd_user draws) now (gr_email rq) password_hash
         (if str_truthy (gr_full_name rq) then the (gr_full_name rq) else before CHR ''@'' (gr_email rq))
         False False None None None None None True)
       (\<lambda>user. and_then (gate_organization now draws (u_id user) (gr_org_name rq)) (\<lambda>_. pure_step (Inr user))))"

text \<open>The caller's account: the existing one, or a new one; the second component says which.\<close>

definition gate_account ::
  "security \<Rightarrow> time \<Rightarrow> gate_draws \<Rightarrow> gate_request \<Rightarrow> public_report \<Rightarrow> (uuid \<times> bool, gate) service" where
  "gate_account sec now draws rq pub s = (case user_get_by_email (mo_db (ga_monitor s)) (gr_email rq) of
     Some u \<Rightarrow> (Inr (u_id u, False), s)
   | None \<Rightarrow> and_then (on_gate_db (gate_user sec now draws rq))
       (\<lambda>u s. (Inr (u_id u, True), mark_converted now (u_id u) (gr_email rq) (increment_accounts_created (pu_id pub) s))) s)"

definition gate_answer :: "gate_settings \<Rightarrow> time \<Rightarrow> gate_draws \<Rightarrow> public_report \<Rightarrow> bool \<Rightarrow> gate_response" where
  "gate_answer cfg now draws pub account_created =
     \<lparr>gp_download_url = gc_FRONTEND_BASE_URL cfg @ ''/evidence/download/'' @ gd_raw_token draws,
      gp_report_id = pu_id pub, gp_report_token = gd_raw_token draws,
      gp_expires_at = now + days (gc_REPORT_TOKEN_TTL_DAYS cfg), gp_account_created = account_created,
      gp_login_url = (if account_created then Some (gc_FRONTEND_BASE_URL cfg @ ''/login'') else None),
      gp_message = (if account_created then ''Account created! Check your email to set your password and log in.''
        else ''Your download link is ready.'')\<rparr>"

definition gate_issue ::
  "security \<Rightarrow> gate_settings \<Rightarrow> time \<Rightarrow> gate_draws \<Rightarrow> gate_request \<Rightarrow> string option \<Rightarrow> string option \<Rightarrow> public_report \<Rightarrow>
   uuid \<times> bool \<Rightarrow> (gate_response, gate) service" where
  "gate_issue sec cfg now draws rq ip user_agent pub acc = (case acc of (user_id, account_created) \<Rightarrow>
     and_then (token_create (gd_token draws) now (pu_id pub) (gr_email rq) (sec_sha256 sec (gd_raw_token draws)) ip
         (Some user_id) (now + days (gc_REPORT_TOKEN_TTL_DAYS cfg)))
       (\<lambda>_ s. (Inr (gate_answer cfg now draws pub account_created),
          lead_create (gd_lead draws) now EVIDENCE_DOWNLOAD (gr_email rq) (Some (gr_vendor_name rq))
            (Some (gr_incident_id rq)) (Some user_id) (gr_ref_code rq) ip user_agent
            (JObj [(''account_created'', JBool account_created)]) s)))"

definition process_gate ::
  "security \<Rightarrow> gate_settings \<Rightarrow> time \<Rightarrow> gate_draws \<Rightarrow> gate_request \<Rightarrow> string option \<Rightarrow> string option \<Rightarrow>
   (gate_response, gate) service" where
  "process_gate sec cfg now draws rq ip user_agent s = (case public_report_for s rq of
     Inl e \<Rightarrow> (Inl e, s)
   | Inr pub \<Rightarrow> and_then (gate_account sec now draws rq pub) (gate_issue sec cfg now draws rq ip user_agent pub) s)"

section \<open>The download\<close>

definition download_filename :: "public_report \<Rightarrow> string" where
  "download_filename pub = hyphenate (lower (pu_vendor_name pub)) @ ''-evidence-'' @
     take 8 (uuid_str (pu_incident_id pub)) @ ''.pdf''"

definition gated_file :: "security \<Rightarrow> time \<Rightarrow> string \<Rightarrow> gate \<Rightarrow> app_error + gate_token \<times> public_report \<times> string" where
  "gated_file sec now token s = (case token_get_by_hash s (sec_sha256 sec token) of
     None \<Rightarrow> Inl (ResourceNotFoundException ''Invalid or expired download token'')
   | Some t \<Rightarrow>
       if now > gt_expires_at t then Inl (ValidationException ''Download token has expired'')
       else (case public_get_by_id s (gt_report_id t) of
         None \<Rightarrow> Inl (ResourceNotFoundException ''Public evidence report not found'')
       | Some pub \<Rightarrow> (case report_get_by_id (ga_vault s) (pu_report_id pub) of
           None \<Rightarrow> Inl (ResourceNotFoundException ''Evidence report file not found'')
         | Some report \<Rightarrow> (case download_bytes (ga_vault s) (er_file_path report) of
             None \<Rightarrow> Inl (ValueError (''Download of '' @ quoted (er_file_path report) @ '' failed''))
           | Some bytes \<Rightarrow> Inr (t, pub, bytes)))))"

definition download_evidence :: "security \<Rightarrow> time \<Rightarrow> string \<Rightarrow> (string \<times> string, gate) service" where
  "download_evidence sec now token s = (case gated_file sec now token s of
     Inl e \<Rightarrow> (Inl e, s)
   | Inr (t, pub, bytes) \<Rightarrow> (Inr (bytes, download_filename pub),
       if gt_downloaded_at t = None then increment_download_count (pu_id pub) (mark_downloaded now (gt_id t) s) else s))"

section \<open>Publishing\<close>

record publicize_request =
  pq_incident_id :: uuid
  pq_make_public :: bool
  pq_custom_title :: "string option"
  pq_custom_summary :: "string option"

definition publicize_evidence :: "uuid \<Rightarrow> time \<Rightarrow> uuid \<Rightarrow> publicize_request \<Rightarrow> (string \<times> uuid, gate) service" where
  "publicize_evidence i now org_id rq s =
     (case find (\<lambda>x. in_id x = pq_incident_id rq \<and> in_org_id x = org_id) (mo_incidents (ga_monitor s)) of
        None \<Rightarrow> (Inl (ResourceNotFoundException ''Incident not found''), s)
      | Some inc \<Rightarrow> (case report_get_by_incident (ga_vault s) (in_id inc) of
          None \<Rightarrow> (Inl (ResourceNotFoundException ''No evidence report exists for this incident. Generate one first.''), s)
        | Some report \<Rightarrow>
            (let vendor_name = (case dep_get_by_id (ga_monitor s) (in_dependency_id inc) of None \<Rightarrow> ''unknown'' | Some d \<Rightarrow> d_name d);
                 message = ''Evidence report is now '' @ (if pq_make_public rq then ''public'' else ''private'')
             in case public_get_by_incident s (in_id inc) of
                  Some existing \<Rightarrow> (Inr (message, pu_id existing),
                    update_publicity existing (pq_make_public rq) (pq_custom_title rq) (pq_custom_summary rq) s)
                | None \<Rightarrow>
                    if pq_make_public rq
                    then (case public_create i now (in_id inc) vendor_name (er_id report) True (pq_custom_title rq)
                            (pq_custom_summary rq) s of (r, s1) \<Rightarrow> (Inr (message, pu_id r), s1))
                    else (Inl (ResourceNotFoundException ''No public record exists to unpublish''), s))))"

text \<open>The public incidents of a vendor, from the last ninety days.\<close>

record public_incident =
  pi_incident :: incident
  pi_title :: string
  pi_duration_minutes :: "real option"

definition list_public_incidents :: "time \<Rightarrow> string \<Rightarrow> gate \<Rightarrow> public_incident list" where
  "list_public_incidents now vendor_name s =
     (let reports = list_public_for_vendor s vendor_name;
          incidents = sort_key (\<lambda>x. - in_started_at x) (filter (\<lambda>x. in_id x \<in> pu_incident_id ` set reports \<and>
            now - days 90 \<le> in_started_at x) (mo_incidents (ga_monitor s)))
      in map (\<lambda>x. \<lparr>pi_incident = x,
           pi_title = (case find (\<lambda>r. pu_incident_id r = in_id x) (rev reports) of
               None \<Rightarrow> vendor_name @ '' Incident''
             | Some r \<Rightarrow> if str_truthy (pu_custom_title r) then the (pu_custom_title r) else vendor_name @ '' Incident''),
           pi_duration_minutes = map_option (\<lambda>t. real_of_int (t - in_started_at x) / real_of_int (minutes 1)) (in_resolved_at x)\<rparr>) incidents)"

end
