(* ===== verification/Gate_Properties.thy ===== *)
theory Gate_Properties
  imports Evidence_Gate Monitoring_Examples
begin

text \<open>
  Evidence over any sequence of operations: every snapshot stays verifiable from the object store and
  the public endpoint, a download link works until it expires, and the counters of the gate.
\<close>

section \<open>A concrete gate\<close>

definition gate_security :: security where
  "gate_security = \<lparr>sec_sha256 = (\<lambda>t. CHR ''h'' # t), sec_hashpw = (\<lambda>p salt. Some (salt @ p)), sec_checkpw = (\<lambda>p h. Some True),
     sec_jwt_encode = (\<lambda>_. []), sec_jwt_decode = (\<lambda>_ _. JwtInvalid), sec_access_minutes = 15, sec_refresh_days = 30\<rparr>"

definition example_evidence_env :: evidence_env where
  "example_evidence_env = \<lparr>ee_notify = pe_notify (example_env 200 []), ee_isoformat = (\<lambda>_. ''t''), ee_canonical = (\<lambda>_. ''c''),
     ee_dumps = (\<lambda>_. ''{}''), ee_sha256 = (\<lambda>x. CHR ''h'' # x), ee_pdf = (\<lambda>_ _ _ _ _ _ _ _ _ _. Some ''pdf''),
     ee_ai = (\<lambda>_. None), ee_accepts = (\<lambda>_. True), ee_presigned = (\<lambda>_ _. None)\<rparr>"

definition example_report :: evidence_report where
  "example_report = \<lparr>er_id = 30, er_org_id = 1, er_incident_id = 20, er_file_path = ''e.pdf'', er_file_size_bytes = 3,
     er_checksum = ''hpdf'', er_generated_at = 0, er_expires_at = None, er_created_at = 0\<rparr>"

definition gate_user_row :: user where
  "gate_user_row = \<lparr>u_id = 1, u_email = ''a@b.c'', u_password_hash = ''p'', u_full_name = ''A'', u_is_active = True,
     u_is_email_verified = False, u_is_superuser = False, u_google_id = None, u_github_id = None,
     u_avatar_url = None, u_auth_provider = None, u_external_auth_id = None, u_is_system_admin = False,
     u_admin_note = None, u_source = None, u_last_login_at = None, u_last_activity_at = None, u_login_count = 0,
     u_created_at = 0\<rparr>"

definition example_vault :: "evidence_report list \<Rightarrow> stored_object list \<Rightarrow> vault" where
  "example_vault reports objects = \<lparr>va_world = \<lparr>w_m = empty_monitor\<lparr>mo_db := empty_db\<lparr>db_users := [gate_user_row]\<rparr>,
         mo_dependencies := [example_dependency []], mo_incidents := [example_incident]\<rparr>,
       w_notify = \<lparr>ns_redis = \<lparr>r_up = True, r_kv = (\<lambda>_. None)\<rparr>, ns_lookups = 0, ns_sent = []\<rparr>, w_tasks = [], w_broker_up = True\<rparr>,
     va_reports = reports, va_snapshots = [], va_objects = objects\<rparr>"

definition example_gate :: "public_report list \<Rightarrow> gate_token list \<Rightarrow> lead_event list \<Rightarrow> gate" where
  "example_gate pubs tokens leads = \<lparr>ga_vault = example_vault [example_report]
       [\<lparr>so_name = ''e.pdf'', so_body = ''pdf'', so_content_type = ''application/pdf''\<rparr>],
     ga_public = pubs, ga_tokens = tokens, ga_leads = leads\<rparr>"

definition example_public :: "bool \<Rightarrow> nat \<Rightarrow> public_report" where
  "example_public public n = \<lparr>pu_id = 40, pu_incident_id = 20, pu_vendor_name = ''api'', pu_report_id = 30, pu_is_public = public,
     pu_custom_title = None, pu_custom_summary = None, pu_download_count = n, pu_accounts_created = 0, pu_created_at = 0\<rparr>"

definition example_publicize :: "bool \<Rightarrow> publicize_request" where
  "example_publicize public = \<lparr>pq_incident_id = 20, pq_make_public = public, pq_custom_title = None, pq_custom_summary = None\<rparr>"

definition example_gate_request :: gate_request where
  "example_gate_request = \<lparr>gr_email = ''a@b.c'', gr_full_name = None, gr_incident_id = 20, gr_vendor_name = ''api'',
     gr_org_name = None, gr_ref_code = None\<rparr>"

definition example_draws :: gate_draws where
  "example_draws = \<lparr>gd_user = 2, gd_org = 3, gd_member = 4, gd_token = 41, gd_lead = 42, gd_password = ''p'', gd_salt = ''s'',
     gd_slug_suffix = ''x'', gd_raw_token = ''tok''\<rparr>"

definition example_token :: "time option \<Rightarrow> gate_token" where
  "example_token used = \<lparr>gt_id = 41, gt_report_id = 40, gt_email = ''a@b.c'', gt_user_id = Some 1, gt_token_hash = ''htok'',
     gt_ip_address = None, gt_downloaded_at = used, gt_expires_at = days 7, gt_created_at = 0\<rparr>"

definition example_lead :: lead_event where
  "example_lead = \<lparr>le_id = 42, le_source = ''evidence_download'', le_email = ''a@b.c'', le_user_id = Some 1, le_vendor_name = Some ''api'',
     le_incident_id = Some 20, le_ref_code = None, le_ip_address = None, le_user_agent = None, le_converted_to_signup = False,
     le_converted_at = None, le_metadata = JObj [(''account_created'', JBool False)], le_created_at = 0\<rparr>"

definition example_gate_settings :: gate_settings where
  "example_gate_settings = \<lparr>gc_FRONTEND_BASE_URL = [], gc_REPORT_TOKEN_TTL_DAYS = 7\<rparr>"

definition example_answer :: gate_response where
  "example_answer = gate_answer example_gate_settings 0 example_draws (example_public True 0) False"

lemmas example_gate_defs = example_gate_def example_vault_def example_report_def example_public_def gate_user_row_def
  example_publicize_def example_gate_request_def example_draws_def example_token_def example_lead_def
  example_gate_settings_def gate_security_def example_incident_def example_dependency_def empty_monitor_def empty_db_def

section \<open>Growth of the vault\<close>

definition vault_le :: "vault \<Rightarrow> vault \<Rightarrow> bool" where
  "vault_le v v' = ((\<forall>i r. report_get_by_id v i = Some r \<longrightarrow> report_get_by_id v' i = Some r) \<and>
     (\<forall>n b. download_bytes v n = Some b \<longrightarrow> download_bytes v' n = Some b) \<and>
     (\<exists>new. va_snapshots v' = va_snapshots v @ new))"

lemma vault_le_refl [simp]: "vault_le v v"
  by (simp add: vault_le_def)

lemma vault_le_trans: "vault_le v v1 \<Longrightarrow> vault_le v1 v2 \<Longrightarrow> vault_le v v2"
  by (auto simp: vault_le_def)

text \<open>A generation key is a random UUID: no object has a name made from it.\<close>

definition fresh_key :: "vault \<Rightarrow> string \<Rightarrow> bool" where
  "fresh_key v key = (\<forall>inc. base_path inc key @ ''.pdf'' \<notin> so_name ` set (va_objects v) \<and>
     base_path inc key @ ''.json'' \<notin> so_name ` set (va_objects v))"

lemma get_row_filter_other:
  "(\<And>x. x \<in> set xs \<Longrightarrow> key x = k \<Longrightarrow> P x) \<Longrightarrow> get_row key k (filter P xs) = get_row key k xs"
  by (induction xs) (auto simp: get_row_def)

lemma get_row_single [simp]: "get_row key k [x] = (if key x = k then Some x else None)"
  by (simp add: get_row_def)

lemma download_put:
  "download_bytes (v\<lparr>va_objects := put_object x (va_objects v)\<rparr>) n =
     (if n = so_name x then Some (so_body x) else download_bytes v n)"
proof -
  have "get_row so_name n (filter (\<lambda>y. so_name y \<noteq> so_name x) (va_objects v)) =
      (if n = so_name x then None else get_row so_name n (va_objects v))"
  proof (cases "n = so_name x")
    case True
    then show ?thesis
      by (auto simp: get_row_None)
  qed (simp add: get_row_filter_other)
  then show ?thesis
    by (auto simp: download_bytes_def put_object_def get_row_append split: option.splits)
qed

lemma upload_E:
  assumes "upload_bytes env data n c v = (Inr (), v')"
  shows "va_world v' = va_world v" "va_reports v' = va_reports v" "va_snapshots v' = va_snapshots v"
    "download_bytes v' m = (if m = n then Some data else download_bytes v m)"
  using assms by (auto simp: upload_bytes_def download_put split: if_splits)

text \<open>What a successful \<^verbatim>\<open>store_evidence\<close> leaves.\<close>

lemma store_evidence_E:
  assumes "store_evidence env now ids x pdf v = (Inr (report, s), v')"
  shows "s = snapshot_of env now ids x (ee_sha256 env pdf) \<and> va_snapshots v' = va_snapshots v @ [s] \<and>
    es_verification_id s \<notin> es_verification_id ` set (va_snapshots v) \<and> va_world v' = va_world v \<and>
    va_reports v' = va_reports v @ [report] \<and> er_incident_id report = in_id (me_incident x) \<and> er_file_path report = es_report_file_path s \<and>
    (\<forall>n. download_bytes v' n = (if n = es_json_evidence_path s
        then Some (ee_dumps env (document_of env now ids x (ee_sha256 env pdf)))
        else if n = es_report_file_path s then Some pdf else download_bytes v n))"
proof -
  define s0 where "s0 = snapshot_of env now ids x (ee_sha256 env pdf)"
  define v1 where "v1 = snd (report_create (ei_report ids) now (in_org_id (me_incident x)) (in_id (me_incident x))
    (es_report_file_path s0) (length pdf) (ee_sha256 env pdf) v)"
  have v1: "va_snapshots v1 = va_snapshots v" "va_world v1 = va_world v" "\<And>n. download_bytes v1 n = download_bytes v n"
    by (simp_all add: v1_def report_create_def Let_def download_bytes_def)
  obtain v2 v3 where up1: "upload_bytes env pdf (es_report_file_path s0) ''application/pdf'' v1 = (Inr (), v2)"
    and up2: "upload_bytes env (ee_dumps env (document_of env now ids x (ee_sha256 env pdf))) (es_json_evidence_path s0)
        ''application/json'' v2 = (Inr (), v3)"
    and snap: "snapshot_create s0 v3 = (Inr s, v')"
    and rep: "report = fst (report_create (ei_report ids) now (in_org_id (me_incident x)) (in_id (me_incident x))
      (es_report_file_path s0) (length pdf) (ee_sha256 env pdf) v)"
    using assms by (auto simp: store_evidence_def Let_def s0_def v1_def report_create_def elim!: and_then_E)
  have s: "s = s0" "va_snapshots v' = va_snapshots v3 @ [s0]" "es_verification_id s0 \<notin> es_verification_id ` set (va_snapshots v3)"
      "va_world v' = va_world v3" "va_reports v' = va_reports v3" "\<And>n. download_bytes v' n = download_bytes v3 n"
    using snap by (auto simp: snapshot_create_def download_bytes_def split: if_splits)
  have "va_reports v1 = va_reports v @ [report]"
    by (simp add: v1_def rep report_create_def Let_def)
  moreover have "er_incident_id report = in_id (me_incident x)" "er_file_path report = es_report_file_path s0"
    by (simp_all add: rep report_create_def Let_def)
  ultimately show ?thesis
    using s v1 upload_E [OF up1] upload_E [OF up2] by (auto simp: s0_def)
qed

text \<open>An attempt, whatever its result, writes no object but the two of its generation key.\<close>

lemma upload_others: "m \<noteq> n \<Longrightarrow> download_bytes (snd (upload_bytes env data n c v)) m = download_bytes v m"
  by (simp add: upload_bytes_def download_put)

lemma and_then_download:
  assumes "\<And>v. download_bytes (snd (f v)) m = download_bytes v m" and "\<And>a v. download_bytes (snd (g a v)) m = download_bytes v m"
  shows "download_bytes (snd (and_then f g v)) m = download_bytes v m"
proof (cases "f v")
  case (Pair r v1)
  have "download_bytes v1 m = download_bytes v m"
    using assms(1) [of v] Pair by simp
  then show ?thesis
    using Pair assms(2) by (cases r) (simp_all add: and_then_def)
qed

lemma store_evidence_others:
  assumes "m \<noteq> base_path (me_incident x) (ei_generation_key ids) @ ''.pdf''"
    and "m \<noteq> base_path (me_incident x) (ei_generation_key ids) @ ''.json''"
  shows "download_bytes (snd (store_evidence env now ids x pdf v)) m = download_bytes v m"
proof -
  have snap: "download_bytes (snd (snapshot_create s w)) m = download_bytes w m" for s w
    by (simp add: snapshot_create_def download_bytes_def)
  have rep: "download_bytes v1 m = download_bytes v m" if "report_create i t a b p n c v = (q, v1)" for i t a b p n c q v1
    using that by (auto simp: report_create_def Let_def download_bytes_def)
  have names: "es_report_file_path (snapshot_of env now ids x c) = base_path (me_incident x) (ei_generation_key ids) @ ''.pdf''"
    "es_json_evidence_path (snapshot_of env now ids x c) = base_path (me_incident x) (ei_generation_key ids) @ ''.json''" for c
    by (simp_all add: snapshot_of_def Let_def)
  show ?thesis
    unfolding store_evidence_def Let_def
    using rep assms by (auto simp: names upload_others snap split: prod.split intro!: and_then_download [THEN trans])
qed

lemma get_row_mono: "get_row key k t = Some r \<Longrightarrow> get_row key k (t @ u) = Some r"
  by (simp add: get_row_append)

lemma download_world [simp]: "download_bytes (v\<lparr>va_world := w\<rparr>) n = download_bytes v n"
  by (simp add: download_bytes_def)

lemma generate_cases:
  assumes "generate_for_incident env now ids incident_id v = (r, v')"
  obtains "v' = v"
  | x pdf where "v' = snd (store_evidence env now ids x pdf v)" and "\<exists>e. r = Inl e"
  | x pdf report s v1 w where "store_evidence env now ids x pdf v = (Inr (report, s), v1)"
      and "v' = v1\<lparr>va_world := w\<rparr>" and "r = Inr report" and "in_id (me_incident x) = incident_id"
proof -
  consider e where "measure_incident env now incident_id (w_m (va_world v)) = Inl e"
    | x where "measure_incident env now incident_id (w_m (va_world v)) = Inr x"
    by (cases "measure_incident env now incident_id (w_m (va_world v))") auto
  then show thesis
  proof cases
    case 1
    then show thesis
      using assms that(1) by (simp add: generate_for_incident_def)
  next
    case (2 x)
    have id: "in_id (me_incident x) = incident_id"
      using 2 by (auto simp: measure_incident_def Let_def incident_get_by_id_def dest!: get_row_Some split: option.splits)
    show thesis
    proof (cases "render_report env now (ei_verification ids) x")
      case None
      then show thesis
        using assms 2 that(1) by (simp add: generate_for_incident_def)
    next
      case (Some pdf)
      show thesis
      proof (cases "store_evidence env now ids x pdf v")
        case (Pair q v1)
        have gen: "generate_for_incident env now ids incident_id v = and_then (store_evidence env now ids x pdf) (\<lambda>(report, snapshot) v.
            (let w = (va_world v)\<lparr>w_m := log_evidence now report snapshot (w_m (va_world v))\<rparr>
             in (Inr report, v\<lparr>va_world := evidence_alert env now (me_incident x) report snapshot w\<rparr>))) v"
          by (simp add: generate_for_incident_def 2 Some)
        show thesis
        proof (cases q)
          case (Inl e)
          then have "v' = v1 \<and> r = Inl e"
            using assms Pair unfolding gen by (simp add: and_then_def)
          then show thesis
            using that(2) [of x pdf] Pair by simp
        next
          case (Inr b)
          obtain report s where b: "b = (report, s)"
            by (cases b)
          have "r = Inr report \<and> (\<exists>w. v' = v1\<lparr>va_world := w\<rparr>)"
            using assms Pair unfolding gen by (auto simp: and_then_def Inr b Let_def)
          then show thesis
            using that(3) [of x pdf report s v1] Pair Inr b id by auto
        qed
      qed
    qed
  qed
qed

lemma generate_le:
  assumes run: "with_vault_session (generate_for_incident env now ids incident_id) v = (r, v')"
    and fresh: "fresh_key v (ei_generation_key ids)"
  shows "vault_le v v'"
proof -
  obtain q v1 where gen: "generate_for_incident env now ids incident_id v = (q, v1)"
    by (cases "generate_for_incident env now ids incident_id v")
  have absent: "download_bytes v (base_path inc (ei_generation_key ids) @ ''.pdf'') = None"
    "download_bytes v (base_path inc (ei_generation_key ids) @ ''.json'') = None" for inc
    using fresh by (simp_all add: fresh_key_def download_bytes_def get_row_None)
  have keep: "download_bytes (snd (store_evidence env now ids x pdf v)) n = Some b" if "download_bytes v n = Some b" for x pdf n b
    using store_evidence_others [of n x ids env now pdf v] absent [of "me_incident x"] that by fastforce
  show ?thesis
    using gen
  proof (cases rule: generate_cases)
    case 1
    then show ?thesis
      using run gen by (cases q) (auto simp: with_vault_session_def vault_rollback_def vault_le_def report_get_by_id_def download_bytes_def)
  next
    case (2 x pdf)
    then have "v' = vault_rollback v v1"
      using run gen by (auto simp: with_vault_session_def)
    moreover have "download_bytes (vault_rollback v v1) n = download_bytes v1 n" for n
      by (simp add: vault_rollback_def download_bytes_def)
    ultimately show ?thesis
      using keep 2(1) by (simp add: vault_le_def vault_rollback_def report_get_by_id_def)
  next
    case (3 x pdf report s v2 w)
    then have v': "v' = v2\<lparr>va_world := w\<rparr>"
      using run gen by (simp add: with_vault_session_def)
    show ?thesis
      using store_evidence_E [OF 3(1)] keep [of _ _ x pdf] 3(1)
      by (auto simp: vault_le_def v' report_get_by_id_def intro: get_row_mono)
  qed
qed

text \<open>The environment of a run may differ in what the store, the renderers and the receivers do, not in the encodings.\<close>

definition same_encoding :: "evidence_env \<Rightarrow> evidence_env \<Rightarrow> bool" where
  "same_encoding env env' = (ee_canonical env' = ee_canonical env \<and> ee_dumps env' = ee_dumps env \<and>
     ee_sha256 env' = ee_sha256 env \<and> ee_isoformat env' = ee_isoformat env)"

inductive vault_step :: "evidence_env \<Rightarrow> vault \<Rightarrow> vault \<Rightarrow> bool" for env where
  generated: "same_encoding env env' \<Longrightarrow> fresh_key v (ei_generation_key ids) \<Longrightarrow>
    with_vault_session (generate_for_incident env' now ids incident_id) v = (r, v') \<Longrightarrow> vault_step env v v'"
| regenerated: "same_encoding env env' \<Longrightarrow> fresh_key v (ei_generation_key ids) \<Longrightarrow>
    with_vault_session (regenerate_report env' now ids org_id report_id) v = (r, v') \<Longrightarrow> vault_step env v v'"
| requested: "same_encoding env env' \<Longrightarrow> fresh_key v (ei_generation_key ids) \<Longrightarrow>
    with_vault_session (get_or_trigger_evidence env' now ids org_id incident_id) v = (r, v') \<Longrightarrow> vault_step env v v'"
| other: "vault_step env v (v\<lparr>va_world := w\<rparr>)"

definition vault_steps :: "evidence_env \<Rightarrow> vault \<Rightarrow> vault \<Rightarrow> bool" where
  "vault_steps env = (vault_step env)\<^sup>*\<^sup>*"

lemma rollback_self: "vault_rollback v v = v"
  by (simp add: vault_rollback_def)

text \<open>The two routes either leave the vault or generate.\<close>

lemma vault_step_cases:
  assumes "vault_step env v v'"
  obtains w where "v' = v\<lparr>va_world := w\<rparr>"
  | env' now ids incident_id r where "same_encoding env env'" and "fresh_key v (ei_generation_key ids)"
      and "with_vault_session (generate_for_incident env' now ids incident_id) v = (r, v')"
  using assms
proof cases
  case (generated env' ids now incident_id r)
  then show thesis
    using that(2) by blast
next
  case (regenerated env' ids now org_id report_id r)
  then show thesis
    using that(1) [of "va_world v"] that(2)
    by (cases "owned_report v org_id report_id") (auto simp: with_vault_session_def regenerate_report_def rollback_self)
next
  case (requested env' ids now org_id incident_id r)
  then show thesis
    using that(1) [of "va_world v"] that(2)
    by (cases "owned_incident (w_m (va_world v)) org_id incident_id"; cases "report_get_by_incident v incident_id")
      (auto simp: with_vault_session_def get_or_trigger_evidence_def rollback_self)
qed (use that(1) in blast)

lemma vault_le_world: "vault_le v (v\<lparr>va_world := w\<rparr>)"
  by (simp add: vault_le_def report_get_by_id_def)

lemma vault_step_le: "vault_step env v v' \<Longrightarrow> vault_le v v'"
  by (erule vault_step_cases) (auto simp: vault_le_world intro: generate_le)

lemma vault_steps_le: "vault_steps env v v' \<Longrightarrow> vault_le v v'"
  unfolding vault_steps_def by (induction rule: rtranclp_induct) (auto intro: vault_le_trans vault_step_le)

section \<open>Verifiable snapshots\<close>

definition snapshot_verifiable :: "evidence_env \<Rightarrow> vault \<Rightarrow> evidence_snapshot \<Rightarrow> bool" where
  "snapshot_verifiable env v s = (\<exists>kvs pdf.
     download_bytes v (es_report_file_path s) = Some pdf \<and> ee_sha256 env pdf = es_report_checksum s \<and>
     download_bytes v (es_json_evidence_path s) = Some (ee_dumps env (DObj (kvs @
       sealed env (es_data_hash s) (es_verification_id s) (es_report_checksum s) (es_created_at s)))) \<and>
     es_data_hash s = data_hash_of env kvs)"

lemma verifiable_le: "vault_le v v' \<Longrightarrow> snapshot_verifiable env v s \<Longrightarrow> snapshot_verifiable env v' s"
  unfolding vault_le_def snapshot_verifiable_def by blast

definition vault_wf :: "evidence_env \<Rightarrow> vault \<Rightarrow> bool" where
  "vault_wf env v = (distinct (map es_verification_id (va_snapshots v)) \<and>
     (\<forall>s \<in> set (va_snapshots v). snapshot_verifiable env v s))"

lemma encoding_sealed: "same_encoding env env' \<Longrightarrow> sealed env' a b c t = sealed env a b c t"
  by (simp add: same_encoding_def sealed_def)

lemma encoding_hash: "same_encoding env env' \<Longrightarrow> data_hash_of env' kvs = data_hash_of env kvs"
  by (simp add: same_encoding_def data_hash_of_def)

lemma paths_differ: "p @ ''.json'' \<noteq> p @ ''.pdf''"
  by simp

lemma store_evidence_verifiable:
  assumes "store_evidence env' now ids x pdf v = (Inr (report, s), v')" and enc: "same_encoding env env'"
  shows "snapshot_verifiable env v' s"
proof -
  have s: "s = snapshot_of env' now ids x (ee_sha256 env' pdf)" and dl: "download_bytes v' n = (if n = es_json_evidence_path s
        then Some (ee_dumps env' (document_of env' now ids x (ee_sha256 env' pdf)))
        else if n = es_report_file_path s then Some pdf else download_bytes v n)" for n
    using store_evidence_E [OF assms(1)] by auto
  have enc': "ee_sha256 env' = ee_sha256 env" "ee_dumps env' = ee_dumps env"
    using enc by (simp_all add: same_encoding_def)
  show ?thesis
    unfolding snapshot_verifiable_def
    by (intro exI [of _ "measured_data env' x"] exI [of _ pdf])
      (simp add: dl s snapshot_of_def Let_def document_of_def encoding_sealed [OF enc] encoding_hash [OF enc] enc')
qed

lemma vault_step_wf:
  assumes "vault_step env v v'" and wf: "vault_wf env v"
  shows "vault_wf env v'"
proof -
  have le: "vault_le v v'"
    using assms(1) by (rule vault_step_le)
  show ?thesis
    using assms(1)
  proof (cases rule: vault_step_cases)
    case (1 w)
    then show ?thesis
      using wf by (simp add: vault_wf_def snapshot_verifiable_def)
  next
    case (2 env' now ids incident_id r)
    obtain q v1 where gen: "generate_for_incident env' now ids incident_id v = (q, v1)"
      by (cases "generate_for_incident env' now ids incident_id v")
    have same: "vault_wf env v'" if "va_snapshots v' = va_snapshots v"
      using wf verifiable_le [OF le] that by (simp add: vault_wf_def)
    show ?thesis
      using gen
    proof (cases rule: generate_cases)
      case 1
      then show ?thesis
        using 2 gen same by (cases q) (auto simp: with_vault_session_def rollback_self)
    next
      case (2 x pdf)
      then show ?thesis
        using \<open>with_vault_session _ v = _\<close> gen same by (auto simp: with_vault_session_def vault_rollback_def)
    next
      case (3 x pdf report s v2 w)
      then have v': "v' = v2\<lparr>va_world := w\<rparr>"
        using 2 gen by (simp add: with_vault_session_def)
      have "snapshot_verifiable env v2 s"
        using store_evidence_verifiable [OF 3(1) 2(1)] .
      then have "snapshot_verifiable env v' s"
        by (simp add: snapshot_verifiable_def v')
      then show ?thesis
        using store_evidence_E [OF 3(1)] wf verifiable_le [OF le] by (auto simp: vault_wf_def v')
    qed
  qed
qed

lemma vault_steps_wf: "vault_steps env v v' \<Longrightarrow> vault_wf env v \<Longrightarrow> vault_wf env v'"
  unfolding vault_steps_def by (induction rule: rtranclp_induct) (auto intro: vault_step_wf)

text \<open>
  C13: Once a snapshot is stored, whatever the later runs do (outages of the store and of the renderers
  included), the public endpoint returns its digests, the PDF in the store has the reported checksum and
  the JSON document in the store, less its four added items, has the reported digest.
\<close>

theorem evidence_stays_verifiable:
  assumes "va_snapshots v0 = []" and "vault_steps env v0 v" and "s \<in> set (va_snapshots v)" and "vault_steps env v v'"
  shows "snapshot_verifiable env v' s \<and> (\<exists>items. verify_evidence env True (es_verification_id s) v' = VerifyFound items \<and>
    map_of items ''data_hash'' = Some (DStr (es_data_hash s)) \<and>
    map_of items ''report_checksum'' = Some (DStr (es_report_checksum s)))"
proof -
  have wf: "vault_wf env v'"
    using vault_steps_wf [OF assms(2)] vault_steps_wf [OF assms(4)] assms(1) by (simp add: vault_wf_def)
  have s: "s \<in> set (va_snapshots v')"
    using vault_steps_le [OF assms(4)] assms(3) by (auto simp: vault_le_def)
  have "get_by_verification_id v' (es_verification_id s) = Some s"
    using wf s unfolding get_by_verification_id_def vault_wf_def by (blast intro: get_row_distinct)
  then show ?thesis
    using wf s by (simp add: verify_evidence_def vault_wf_def)
qed

definition example_evidence_ids :: evidence_ids where
  "example_evidence_ids = \<lparr>ei_report = 30, ei_snapshot = 31, ei_verification = ''vid'', ei_generation_key = ''key''\<rparr>"

definition example_generated :: vault where
  "example_generated = snd (with_vault_session (generate_for_incident example_evidence_env 100 example_evidence_ids 20) (example_vault [] []))"

lemma example_generates: "vault_steps example_evidence_env (example_vault [] []) example_generated"
proof -
  obtain r where "with_vault_session (generate_for_incident example_evidence_env 100 example_evidence_ids 20) (example_vault [] []) = (r, example_generated)"
    by (metis example_generated_def prod.collapse)
  then have "vault_step example_evidence_env (example_vault [] []) example_generated"
    by (intro vault_step.generated [of _ example_evidence_env]) (simp_all add: same_encoding_def fresh_key_def example_vault_def)
  then show ?thesis
    by (simp add: vault_steps_def)
qed

lemma example_snapshot: "\<exists>s. va_snapshots example_generated = [s] \<and> es_verification_id s = ''vid'' \<and> es_report_checksum s = ''hpdf''"
  by (simp add: example_generated_def with_vault_session_def generate_for_incident_def measure_incident_def incident_get_by_id_def
      example_vault_def example_evidence_env_def example_evidence_ids_def example_incident_def example_dependency_def get_row_def
      dep_get_by_id_def dependency_row_def empty_monitor_def Let_def render_report_def store_evidence_def and_then_def
      report_create_def upload_bytes_def snapshot_create_def snapshot_of_def evidence_alert_def)

theorem evidence_stays_verifiable_witness:
  "\<exists>items. verify_evidence example_evidence_env True ''vid'' example_generated = VerifyFound items \<and>
     map_of items ''report_checksum'' = Some (DStr ''hpdf'')"
proof -
  obtain s where s: "s \<in> set (va_snapshots example_generated)" "es_verification_id s = ''vid''" "es_report_checksum s = ''hpdf''"
    using example_snapshot by auto
  have "va_snapshots (example_vault [] []) = []"
    by (simp add: example_vault_def)
  then show ?thesis
    using evidence_stays_verifiable [OF _ example_generates s(1), of example_generated] s(2,3) by (auto simp: vault_steps_def)
qed

section \<open>Steps of the gate\<close>

text \<open>
  The operations with their sessions: one that raises leaves the tables of the gate as they were.  The
  identifiers drawn are fresh.
\<close>

inductive gate_step :: "evidence_env \<Rightarrow> gate \<Rightarrow> gate \<Rightarrow> bool" for env where
  vault: "vault_step env (ga_vault s) v \<Longrightarrow> gate_step env s (s\<lparr>ga_vault := v\<rparr>)"
| gated: "process_gate sec cfg now draws rq ip user_agent s = (Inr resp, s') \<Longrightarrow>
    gd_token draws \<notin> gt_id ` set (ga_tokens s) \<Longrightarrow> gate_step env s s'"
| downloaded: "download_evidence sec now token s = (r, s') \<Longrightarrow> gate_step env s s'"
| published: "publicize_evidence i now org_id prq s = (Inr m, s') \<Longrightarrow> i \<notin> pu_id ` set (ga_public s) \<Longrightarrow> gate_step env s s'"

definition gate_steps :: "evidence_env \<Rightarrow> gate \<Rightarrow> gate \<Rightarrow> bool" where
  "gate_steps env = (gate_step env)\<^sup>*\<^sup>*"

lemma gate_account_E:
  assumes "gate_account sec now draws rq pub s = (Inr (uid, created), s1)"
  obtains "s1 = s"
  | w where "s1 = mark_converted now uid (gr_email rq) (increment_accounts_created (pu_id pub)
      (s\<lparr>ga_vault := (ga_vault s)\<lparr>va_world := w\<rparr>\<rparr>))"
proof (cases "user_get_by_email (mo_db (ga_monitor s)) (gr_email rq)")
  case None
  then show thesis
    using assms that(2) by (auto simp: gate_account_def on_gate_db_def split: prod.splits elim!: and_then_E)
qed (use assms that(1) in \<open>simp add: gate_account_def\<close>)

definition issued :: "security \<Rightarrow> gate_draws \<Rightarrow> public_report \<Rightarrow> time \<Rightarrow> gate_token \<Rightarrow> bool" where
  "issued sec draws pub expires_at t = (gt_id t = gd_token draws \<and> gt_report_id t = pu_id pub \<and>
     gt_token_hash t = sec_sha256 sec (gd_raw_token draws) \<and> gt_downloaded_at t = None \<and> gt_expires_at t = expires_at)"

lemma lead_create_E:
  "\<exists>e. le_user_id e = uid \<and> \<not> le_converted_to_signup e \<and>
    lead_create i now src email v inc uid rc ip ua md s = s\<lparr>ga_leads := ga_leads s @ [e]\<rparr>"
  by (rule exI [of _ "last (ga_leads (lead_create i now src email v inc uid rc ip ua md s))"]) (simp add: lead_create_def)

lemma gate_issue_E:
  assumes "gate_issue sec cfg now draws rq ip user_agent pub (uid, created) s1 = (Inr resp, s')"
  obtains t e where "resp = gate_answer cfg now draws pub created" and "issued sec draws pub (gp_expires_at resp) t"
    and "gt_token_hash t \<notin> gt_token_hash ` set (ga_tokens s1)" and "le_user_id e = Some uid"
    and "\<not> le_converted_to_signup e" and "s' = s1\<lparr>ga_tokens := ga_tokens s1 @ [t], ga_leads := ga_leads s1 @ [e]\<rparr>"
proof -
  obtain t s2 where tok: "token_create (gd_token draws) now (pu_id pub) (gr_email rq) (sec_sha256 sec (gd_raw_token draws)) ip
        (Some uid) (now + days (gc_REPORT_TOKEN_TTL_DAYS cfg)) s1 = (Inr t, s2)"
    and rest: "resp = gate_answer cfg now draws pub created" "\<exists>e. le_user_id e = Some uid \<and> \<not> le_converted_to_signup e \<and>
        s' = s2\<lparr>ga_leads := ga_leads s2 @ [e]\<rparr>"
    using assms unfolding gate_issue_def prod.case by (elim and_then_E) (use lead_create_E in \<open>simp, metis\<close>)
  have "issued sec draws pub (gp_expires_at resp) t" "gt_token_hash t \<notin> gt_token_hash ` set (ga_tokens s1)"
    "s2 = s1\<lparr>ga_tokens := ga_tokens s1 @ [t]\<rparr>"
    using tok rest(1) by (auto simp: token_create_def issued_def gate_answer_def Let_def split: if_splits)
  then show thesis
    using that rest by fastforce
qed

lemma process_gate_E:
  assumes "process_gate sec cfg now draws rq ip user_agent s = (Inr resp, s')"
  obtains pub uid created s1 where "public_report_for s rq = Inr pub"
    and "gate_account sec now draws rq pub s = (Inr (uid, created), s1)"
    and "gate_issue sec cfg now draws rq ip user_agent pub (uid, created) s1 = (Inr resp, s')"
  using assms by (auto simp: process_gate_def split: sum.splits elim!: and_then_E)

text \<open>What an operation does to the tables of the gate.\<close>

lemma get_row_map: "(\<And>x. key (f x) = key x) \<Longrightarrow> get_row key k (map f xs) = map_option f (get_row key k xs)"
  by (induction xs) (auto simp: get_row_def)

definition keeps :: "('r \<Rightarrow> 'k) \<Rightarrow> ('r \<Rightarrow> 'v) \<Rightarrow> 'r list \<Rightarrow> 'r list \<Rightarrow> bool" where
  "keeps key val t t' = (\<forall>k r. get_row key k t = Some r \<longrightarrow> (\<exists>r'. get_row key k t' = Some r' \<and> val r' = val r))"

lemma keepsD: "keeps key val t t' \<Longrightarrow> get_row key k t = Some r \<Longrightarrow> \<exists>r'. get_row key k t' = Some r' \<and> val r' = val r"
  by (simp add: keeps_def)

lemma keeps_refl [simp]: "keeps key val t t"
  by (simp add: keeps_def)

lemma keeps_trans: "keeps key val t t1 \<Longrightarrow> keeps key val t1 t2 \<Longrightarrow> keeps key val t t2"
  unfolding keeps_def by metis

lemma keeps_append: "keeps key val t (t @ u)"
  by (simp add: keeps_def get_row_append)

lemma keeps_map: "(\<And>x. key (f x) = key x \<and> val (f x) = val x) \<Longrightarrow> keeps key val t (map f t)"
  by (simp add: keeps_def get_row_map)

lemma keeps_save:
  assumes "get_row key (key r) t = Some r0" and "val r = val r0"
  shows "keeps key val t (save_row key r t)"
  using assms by (auto simp: keeps_def get_row_save)

definition gate_le :: "gate \<Rightarrow> gate \<Rightarrow> bool" where
  "gate_le s s' = (vault_le (ga_vault s) (ga_vault s') \<and>
     keeps gt_token_hash (\<lambda>t. (gt_expires_at t, gt_report_id t)) (ga_tokens s) (ga_tokens s') \<and>
     keeps pu_id pu_report_id (ga_public s) (ga_public s'))"

lemma gate_le_refl [simp]: "gate_le s s"
  by (simp add: gate_le_def)

lemma gate_le_trans: "gate_le s s1 \<Longrightarrow> gate_le s1 s2 \<Longrightarrow> gate_le s s2"
  unfolding gate_le_def by (blast intro: vault_le_trans keeps_trans)

lemma gate_account_tables:
  assumes "gate_account sec now draws rq pub s = (Inr (uid, created), s1)"
  shows "ga_tokens s1 = ga_tokens s" "\<exists>w. ga_vault s1 = (ga_vault s)\<lparr>va_world := w\<rparr>"
    "\<exists>f. ga_public s1 = map f (ga_public s) \<and> (\<forall>x. pu_id (f x) = pu_id x \<and> pu_report_id (f x) = pu_report_id x \<and>
      pu_download_count (f x) = pu_download_count x)"
    "ga_leads s1 = ga_leads s \<or> ga_leads s1 = ga_leads (mark_converted now uid (gr_email rq) s)"
proof -
  have v: "v\<lparr>va_world := va_world v\<rparr> = v" for v :: vault
    by simp
  have id: "xs = map (\<lambda>x. x) xs" for xs :: "public_report list"
    by simp
  show "ga_tokens s1 = ga_tokens s" "\<exists>w. ga_vault s1 = (ga_vault s)\<lparr>va_world := w\<rparr>"
    "ga_leads s1 = ga_leads s \<or> ga_leads s1 = ga_leads (mark_converted now uid (gr_email rq) s)"
    using assms v by (auto elim!: gate_account_E simp: mark_converted_def increment_accounts_created_def intro: exI [of _ "va_world (ga_vault s)"])
  show "\<exists>f. ga_public s1 = map f (ga_public s) \<and> (\<forall>x. pu_id (f x) = pu_id x \<and> pu_report_id (f x) = pu_report_id x \<and>
      pu_download_count (f x) = pu_download_count x)"
    using assms
  proof (rule gate_account_E)
    assume "s1 = s"
    then show ?thesis
      by (intro exI [of _ "\<lambda>x. x"]) simp
  next
    fix w
    assume s1: "s1 = mark_converted now uid (gr_email rq) (increment_accounts_created (pu_id pub) (s\<lparr>ga_vault := (ga_vault s)\<lparr>va_world := w\<rparr>\<rparr>))"
    show ?thesis
      by (rule exI [of _ "\<lambda>r. if pu_id r = pu_id pub then r\<lparr>pu_accounts_created := pu_accounts_created r + 1\<rparr> else r"])
        (simp add: s1 mark_converted_def increment_accounts_created_def)
  qed
qed

lemma download_E:
  assumes "download_evidence sec now token s = (r, s')"
  obtains "s' = s"
  | t pub where "gated_file sec now token s = Inr (t, pub, fst (projr r))" and "gt_downloaded_at t = None"
      and "s' = increment_download_count (pu_id pub) (mark_downloaded now (gt_id t) s)"
  using assms by (auto simp: download_evidence_def split: sum.splits if_splits)

lemma public_create_E:
  "public_create i now a b c d e f s = (r, s1) \<Longrightarrow>
    pu_id r = i \<and> pu_download_count r = 0 \<and> s1 = s\<lparr>ga_public := ga_public s @ [r]\<rparr>"
  by (auto simp: public_create_def Let_def)

lemma publicize_E:
  assumes "publicize_evidence i now org_id rq s = (Inr m, s')"
  obtains existing where "public_get_by_incident s (pq_incident_id rq) = Some existing"
      and "s' = update_publicity existing (pq_make_public rq) (pq_custom_title rq) (pq_custom_summary rq) s"
  | r where "pu_id r = i" and "pu_download_count r = 0" and "s' = s\<lparr>ga_public := ga_public s @ [r]\<rparr>"
proof -
  obtain inc report where inc: "find (\<lambda>x. in_id x = pq_incident_id rq \<and> in_org_id x = org_id) (mo_incidents (ga_monitor s)) = Some inc"
    and report: "report_get_by_incident (ga_vault s) (in_id inc) = Some report"
    using assms by (auto simp: publicize_evidence_def split: option.splits)
  have id: "in_id inc = pq_incident_id rq"
    using inc by (auto simp: find_Some_iff)
  show thesis
  proof (cases "public_get_by_incident s (in_id inc)")
    case None
    then show thesis
      using assms that(2) inc report
      by (auto simp: publicize_evidence_def Let_def split: if_splits prod.splits dest!: public_create_E)
  next
    case (Some existing)
    then show thesis
      using assms that(1) inc report id by (auto simp: publicize_evidence_def Let_def)
  qed
qed

lemma public_by_incident_mem: "public_get_by_incident s i = Some r \<Longrightarrow> r \<in> set (ga_public s)"
proof -
  assume "public_get_by_incident s i = Some r"
  then obtain rs where "page_of (\<lambda>r. - pu_created_at r) 0 1 (filter (\<lambda>r. pu_incident_id r = i) (ga_public s)) = r # rs"
    by (auto simp: public_get_by_incident_def split: list.splits)
  then have "r \<in> set (take 1 (sort_key (\<lambda>r. - pu_created_at r) (filter (\<lambda>r. pu_incident_id r = i) (ga_public s))))"
    by (simp add: page_of_def)
  then show ?thesis
    by (auto dest: in_set_takeD)
qed

section \<open>Links\<close>

definition gate_wf :: "gate \<Rightarrow> bool" where
  "gate_wf s = (distinct (map gt_id (ga_tokens s)) \<and> distinct (map pu_id (ga_public s)) \<and>
     (\<forall>t \<in> set (ga_tokens s). gt_report_id t \<in> pu_id ` set (ga_public s)) \<and>
     (\<forall>p \<in> set (ga_public s). pu_download_count p =
        length (filter (\<lambda>t. gt_report_id t = pu_id p \<and> gt_downloaded_at t \<noteq> None) (ga_tokens s))))"

lemma gate_step_le:
  assumes "gate_step env s s'" and wf: "gate_wf s"
  shows "gate_le s s'"
  using assms(1)
proof cases
  case (vault v)
  then show ?thesis
    by (simp add: gate_le_def vault_step_le)
next
  case (gated sec cfg now draws rq ip user_agent resp)
  from gated(1) show ?thesis
  proof (rule process_gate_E)
    fix pub uid created s1
    assume acc: "gate_account sec now draws rq pub s = (Inr (uid, created), s1)"
      and issue: "gate_issue sec cfg now draws rq ip user_agent pub (uid, created) s1 = (Inr resp, s')"
    obtain w f where s1: "ga_vault s1 = (ga_vault s)\<lparr>va_world := w\<rparr>" "ga_public s1 = map f (ga_public s)"
        "ga_tokens s1 = ga_tokens s" "\<And>x. pu_id (f x) = pu_id x \<and> pu_report_id (f x) = pu_report_id x"
      using gate_account_tables [OF acc] by blast
    from issue show ?thesis
      by (rule gate_issue_E) (auto simp: gate_le_def s1 vault_le_world keeps_append intro: keeps_map)
  qed
next
  case (downloaded sec now token r)
  then show ?thesis
    by (rule_tac download_E) (auto simp: gate_le_def increment_download_count_def mark_downloaded_def intro!: keeps_map)
next
  case (published i now org_id prq m)
  from published(1) show ?thesis
  proof (rule publicize_E)
    fix existing
    assume e: "public_get_by_incident s (pq_incident_id prq) = Some existing"
      and s': "s' = update_publicity existing (pq_make_public prq) (pq_custom_title prq) (pq_custom_summary prq) s"
    have "get_row pu_id (pu_id existing) (ga_public s) = Some existing"
      using wf public_by_incident_mem [OF e] by (auto simp: gate_wf_def intro: get_row_distinct)
    then show ?thesis
      by (auto simp: s' gate_le_def update_publicity_def save_public_def intro!: keeps_save)
  next
    fix r
    assume "s' = s\<lparr>ga_public := ga_public s @ [r]\<rparr>"
    then show ?thesis
      by (simp add: gate_le_def keeps_append)
  qed
qed

lemma save_row_map: "distinct (map key t) \<Longrightarrow> r0 \<in> set t \<Longrightarrow> key r = key r0 \<Longrightarrow>
    save_row key r t = map (\<lambda>x. if x = r0 then r else x) t"
  by (auto simp: save_row_def dest: distinct_map_inj)

lemma gated_file_E:
  assumes "gated_file sec now token s = Inr (t, pub, bytes)"
  shows "t \<in> set (ga_tokens s) \<and> pub \<in> set (ga_public s) \<and> pu_id pub = gt_report_id t"
  using assms by (auto simp: gated_file_def token_get_by_hash_def public_get_by_id_def dest!: get_row_Some
      split: option.splits if_splits)

lemma download_wf:
  assumes wf: "gate_wf s" and t: "t \<in> set (ga_tokens s)" "pub \<in> set (ga_public s)" "pu_id pub = gt_report_id t"
    and new: "gt_downloaded_at t = None"
  shows "gate_wf (increment_download_count (pu_id pub) (mark_downloaded now (gt_id t) s))"
proof -
  define f where "f u = u\<lparr>gt_downloaded_at := Some now\<rparr>" for u :: gate_token
  let ?ts = "map (\<lambda>u. if gt_id u = gt_id t then f u else u) (ga_tokens s)"
  let ?cnt = "\<lambda>p ts. length (filter (\<lambda>u. gt_report_id u = pu_id p \<and> gt_downloaded_at u \<noteq> None) ts)"
  have ids: "distinct (map gt_id (ga_tokens s))"
    using wf by (simp add: gate_wf_def)
  have count: "?cnt p ?ts = ?cnt p (ga_tokens s) + (if pu_id p = pu_id pub then 1 else 0)" for p
  proof (cases "pu_id p = pu_id pub")
    case True
    have "\<not> (gt_report_id t = pu_id p \<and> gt_downloaded_at t \<noteq> None)" "gt_report_id (f t) = pu_id p \<and> gt_downloaded_at (f t) \<noteq> None"
      "gt_id (f t) = gt_id t"
      using new t(3) True by (simp_all add: f_def)
    from count_one_more [of gt_id "ga_tokens s" t "\<lambda>u. gt_report_id u = pu_id p \<and> gt_downloaded_at u \<noteq> None" f, OF ids t(1) this] show ?thesis
      using True by simp
  next
    case False
    have "gt_report_id u = gt_report_id t" if "u \<in> set (ga_tokens s)" "gt_id u = gt_id t" for u
      using distinct_map_inj [OF ids that(1) t(1) that(2)] by simp
    then have "filter (\<lambda>u. gt_report_id u = pu_id p \<and> gt_downloaded_at u \<noteq> None) ?ts =
        filter (\<lambda>u. gt_report_id u = pu_id p \<and> gt_downloaded_at u \<noteq> None) (ga_tokens s)"
      using False t(3) by (intro filter_map_skip) (auto simp: f_def)
    then show ?thesis
      using False by simp
  qed
  have keys: "map gt_id ?ts = map gt_id (ga_tokens s)"
    by (auto simp: f_def)
  let ?s = "increment_download_count (pu_id pub) (mark_downloaded now (gt_id t) s)"
  define g where "g p = (if pu_id p = pu_id pub then p\<lparr>pu_download_count := pu_download_count p + 1\<rparr> else p)" for p :: public_report
  have g: "pu_id (g p) = pu_id p" "pu_download_count (g p) = pu_download_count p + (if pu_id p = pu_id pub then 1 else 0)" for p
    by (simp_all add: g_def)
  have s': "ga_tokens ?s = ?ts" "ga_public ?s = map g (ga_public s)"
    by (simp_all add: increment_download_count_def mark_downloaded_def f_def g_def)
  have pids: "map pu_id (map g (ga_public s)) = map pu_id (ga_public s)"
    by (simp add: g)
  show ?thesis
    unfolding gate_wf_def s'
  proof (intro conjI)
    show "distinct (map gt_id ?ts)" "distinct (map pu_id (map g (ga_public s)))"
      using wf unfolding keys pids by (simp_all add: gate_wf_def)
    have "gt_report_id u \<in> pu_id ` set (ga_public s)" if "u \<in> set ?ts" for u
      using that wf by (auto simp: gate_wf_def f_def)
    then show "\<forall>u \<in> set ?ts. gt_report_id u \<in> pu_id ` set (map g (ga_public s))"
      by (simp add: image_image g)
    show "\<forall>p \<in> set (map g (ga_public s)). pu_download_count p = ?cnt p ?ts"
    proof
      fix q assume "q \<in> set (map g (ga_public s))"
      then obtain p where p: "p \<in> set (ga_public s)" "q = g p"
        by auto
      have "pu_download_count p = ?cnt p (ga_tokens s)"
        using wf p(1) unfolding gate_wf_def by blast
      then show "pu_download_count q = ?cnt q ?ts"
        unfolding p(2) g count by simp
    qed
  qed
qed

lemma gate_step_wf:
  assumes "gate_step env s s'" and wf: "gate_wf s"
  shows "gate_wf s'"
  using assms(1)
proof cases
  case (vault v)
  then show ?thesis
    using wf by (simp add: gate_wf_def)
next
  case (gated sec cfg now draws rq ip user_agent resp)
  from gated(1) show ?thesis
  proof (rule process_gate_E)
    fix pub uid created s1
    assume pub: "public_report_for s rq = Inr pub" and acc: "gate_account sec now draws rq pub s = (Inr (uid, created), s1)"
      and issue: "gate_issue sec cfg now draws rq ip user_agent pub (uid, created) s1 = (Inr resp, s')"
    obtain f where f: "ga_public s1 = map f (ga_public s)" "\<And>x. pu_id (f x) = pu_id x" "\<And>x. pu_download_count (f x) = pu_download_count x"
      using gate_account_tables(3) [OF acc] by blast
    have "pub \<in> set (ga_public s)"
      using pub public_by_incident_mem by (auto simp: public_report_for_def split: option.splits if_splits)
    from issue show ?thesis
    proof (rule gate_issue_E)
      fix t e
      assume t: "issued sec draws pub (gp_expires_at resp) t"
        and s': "s' = s1\<lparr>ga_tokens := ga_tokens s1 @ [t], ga_leads := ga_leads s1 @ [e]\<rparr>"
      have ids: "pu_id ` f ` set (ga_public s) = pu_id ` set (ga_public s)"
        by (simp add: image_image f)
      show ?thesis
        using wf gated(2) t \<open>pub \<in> _\<close> f gate_account_tables(1) [OF acc]
        by (auto simp: gate_wf_def s' issued_def comp_def ids)
    qed
  qed
next
  case (downloaded sec now token r)
  then show ?thesis
    by (rule_tac download_E) (auto intro!: download_wf wf dest: gated_file_E)
next
  case (published i now org_id prq m)
  from published(1) show ?thesis
  proof (rule publicize_E)
    fix existing
    assume e: "public_get_by_incident s (pq_incident_id prq) = Some existing"
      and s': "s' = update_publicity existing (pq_make_public prq) (pq_custom_title prq) (pq_custom_summary prq) s"
    define x where "x = existing\<lparr>pu_is_public := pq_make_public prq,
      pu_custom_title := (if pq_custom_title prq \<noteq> None then pq_custom_title prq else pu_custom_title existing),
      pu_custom_summary := (if pq_custom_summary prq \<noteq> None then pq_custom_summary prq else pu_custom_summary existing)\<rparr>"
    have x: "pu_id x = pu_id existing" "pu_download_count x = pu_download_count existing"
      by (simp_all add: x_def)
    have "ga_public s' = save_row pu_id x (ga_public s)" "ga_tokens s' = ga_tokens s"
      by (simp_all add: s' update_publicity_def save_public_def x_def)
    moreover have "pu_id ` set (save_row pu_id x (ga_public s)) = pu_id ` set (ga_public s)"
      by (metis save_row_keys list.set_map)
    moreover have "pu_download_count q = length (filter (\<lambda>t. gt_report_id t = pu_id q \<and> gt_downloaded_at t \<noteq> None) (ga_tokens s))"
      if "q \<in> set (save_row pu_id x (ga_public s))" for q
    proof -
      have old: "\<forall>p \<in> set (ga_public s). pu_download_count p =
          length (filter (\<lambda>t. gt_report_id t = pu_id p \<and> gt_downloaded_at t \<noteq> None) (ga_tokens s))"
        using wf unfolding gate_wf_def by blast
      show ?thesis
        using set_save_row [OF that] bspec [OF old public_by_incident_mem [OF e]] old x by auto
    qed
    ultimately show ?thesis
      using wf unfolding gate_wf_def by (simp only: save_row_keys) blast
  next
    fix r
    assume r: "pu_id r = i" "pu_download_count r = 0" and s': "s' = s\<lparr>ga_public := ga_public s @ [r]\<rparr>"
    have "\<forall>t \<in> set (ga_tokens s). gt_report_id t \<noteq> i"
      using wf published(2) by (auto simp: gate_wf_def)
    then have "filter (\<lambda>t. gt_report_id t = pu_id r \<and> gt_downloaded_at t \<noteq> None) (ga_tokens s) = []"
      using r(1) by (simp add: filter_empty_conv)
    then show ?thesis
      using wf published(2) r unfolding gate_wf_def s' by simp
  qed
qed

lemma gate_steps_wf: "gate_steps env s s' \<Longrightarrow> gate_wf s \<Longrightarrow> gate_wf s' \<and> gate_le s s'"
  unfolding gate_steps_def
  by (induction rule: rtranclp_induct) (auto intro: gate_step_wf gate_le_trans gate_step_le)

definition gate_empty :: "gate \<Rightarrow> bool" where
  "gate_empty s = (ga_tokens s = [] \<and> ga_public s = [] \<and> ga_leads s = [])"

lemma gate_reachable_wf: "gate_empty s0 \<Longrightarrow> gate_steps env s0 s \<Longrightarrow> gate_wf s"
  using gate_steps_wf [of env s0 s] by (simp add: gate_empty_def gate_wf_def)

text \<open>Publish, ask for the file, take the report back, download.\<close>

lemma example_publish:
  "publicize_evidence 40 0 1 (example_publicize True) (example_gate [] [] []) =
     (Inr (''Evidence report is now public'', 40), example_gate [example_public True 0] [] [])"
  by (simp add: publicize_evidence_def example_gate_defs ga_monitor_def report_get_by_incident_def page_of_def dep_get_by_id_def
      dependency_row_def get_row_def public_get_by_incident_def public_create_def Let_def)

lemma example_process:
  "process_gate gate_security example_gate_settings 0 example_draws example_gate_request None None (example_gate [example_public True 0] [] []) =
     (Inr example_answer, example_gate [example_public True 0] [example_token None] [example_lead])"
  by (simp add: process_gate_def public_report_for_def public_get_by_incident_def page_of_def lower_def lower_char_def gate_account_def
      user_get_by_email_def gate_issue_def token_create_def lead_create_def and_then_def Let_def ga_monitor_def
      EVIDENCE_DOWNLOAD_def example_answer_def example_gate_defs gate_answer_def get_row_def)

lemma example_unpublish:
  "publicize_evidence 44 1 1 (example_publicize False) (example_gate [example_public True 0] [example_token None] [example_lead]) =
     (Inr (''Evidence report is now private'', 40), example_gate [example_public False 0] [example_token None] [example_lead])"
  by (simp add: publicize_evidence_def example_gate_defs ga_monitor_def report_get_by_incident_def page_of_def dep_get_by_id_def
      dependency_row_def get_row_def public_get_by_incident_def update_publicity_def save_public_def save_row_def Let_def)

lemma example_download:
  "download_evidence gate_security 5 ''tok'' (example_gate [example_public False 0] [example_token None] [example_lead]) =
     (Inr (''pdf'', download_filename (example_public False 0)),
      example_gate [example_public False 1] [example_token (Some 5)] [example_lead])"
  by (simp add: download_evidence_def gated_file_def token_get_by_hash_def public_get_by_id_def report_get_by_id_def download_bytes_def
      get_row_def example_gate_defs download_filename_def increment_download_count_def mark_downloaded_def days_def seconds_def)

lemma example_gate_empty: "gate_empty (example_gate [] [] [])"
  by (simp add: gate_empty_def example_gate_def)

lemma example_published: "gate_steps env (example_gate [] [] []) (example_gate [example_public True 0] [] [])"
  unfolding gate_steps_def
  by (rule r_into_rtranclp, rule gate_step.published [OF example_publish]) (simp add: example_gate_def)

lemma example_unpublished: "gate_steps env (example_gate [example_public True 0] [example_token None] [example_lead])
    (example_gate [example_public False 0] [example_token None] [example_lead])"
  unfolding gate_steps_def
  by (rule r_into_rtranclp, rule gate_step.published [OF example_unpublish]) (simp add: example_gate_def example_public_def)

lemma example_downloaded: "gate_steps env (example_gate [] [] []) (example_gate [example_public False 1] [example_token (Some 5)] [example_lead])"
proof -
  have "gate_step env (example_gate [example_public True 0] [] []) (example_gate [example_public True 0] [example_token None] [example_lead])"
    by (rule gate_step.gated [OF example_process]) (simp add: example_gate_def)
  moreover have "gate_step env (example_gate [example_public False 0] [example_token None] [example_lead])
      (example_gate [example_public False 1] [example_token (Some 5)] [example_lead])"
    by (rule gate_step.downloaded [OF example_download])
  ultimately show ?thesis
    using example_published [of env] example_unpublished [of env] unfolding gate_steps_def
    by (meson rtranclp.rtrancl_into_rtrancl rtranclp_trans)
qed

text \<open>
  C14: The link of an answered request returns the file of the published report until it expires, and as
  often as it is used: whatever happens in between, taking the report back included.
\<close>

theorem gate_link_until_expiry:
  assumes "gate_empty s0" and "gate_steps env s0 s" and "process_gate sec cfg now draws rq ip user_agent s = (Inr resp, s1)"
    and "gd_token draws \<notin> gt_id ` set (ga_tokens s)" and "public_report_for s rq = Inr pub"
    and "report_get_by_id (ga_vault s) (pu_report_id pub) = Some report"
    and "download_bytes (ga_vault s) (er_file_path report) = Some bytes"
    and "gate_steps env s1 s2" and "later \<le> gp_expires_at resp"
  shows "\<exists>name. fst (download_evidence sec later (gp_report_token resp) s2) = Inr (bytes, name)"
proof -
  have wf: "gate_wf s"
    using assms(1,2) by (rule gate_reachable_wf)
  have step: "gate_step env s s1"
    using assms(3,4) by (rule gate_step.gated)
  have le: "gate_le s1 s2" and le0: "gate_le s s2"
    using gate_steps_wf [OF assms(8) gate_step_wf [OF step wf]] gate_step_le [OF step wf] gate_le_trans by blast+
  have pub: "get_row pu_id (pu_id pub) (ga_public s) = Some pub"
    using assms(5) wf public_by_incident_mem [of s] get_row_distinct [of pu_id "ga_public s" pub]
    by (auto simp: public_report_for_def gate_wf_def split: option.splits if_splits)
  from assms(3) show ?thesis
  proof (rule process_gate_E)
    fix pub' uid created u
    assume "public_report_for s rq = Inr pub'" and issue: "gate_issue sec cfg now draws rq ip user_agent pub' (uid, created) u = (Inr resp, s1)"
    then have "pub' = pub"
      using assms(5) by simp
    from issue show ?thesis
    proof (rule gate_issue_E)
      fix t e
      assume resp: "resp = gate_answer cfg now draws pub' created" and t: "issued sec draws pub' (gp_expires_at resp) t"
        and new: "gt_token_hash t \<notin> gt_token_hash ` set (ga_tokens u)"
        and s1: "s1 = u\<lparr>ga_tokens := ga_tokens u @ [t], ga_leads := ga_leads u @ [e]\<rparr>"
      have "get_row gt_token_hash (sec_sha256 sec (gd_raw_token draws)) (ga_tokens s1) = Some t"
        using t new get_row_None [of gt_token_hash "gt_token_hash t" "ga_tokens u"]
        by (simp add: s1 get_row_append issued_def)
      with le have "\<exists>t'. get_row gt_token_hash (sec_sha256 sec (gd_raw_token draws)) (ga_tokens s2) = Some t' \<and>
          (gt_expires_at t', gt_report_id t') = (gt_expires_at t, gt_report_id t)"
        unfolding gate_le_def by (blast dest: keepsD)
      then obtain t' where t': "token_get_by_hash s2 (sec_sha256 sec (gd_raw_token draws)) = Some t'"
          "gt_expires_at t' = gp_expires_at resp" "gt_report_id t' = pu_id pub"
        using t \<open>pub' = pub\<close> by (auto simp: token_get_by_hash_def issued_def)
      have "\<exists>p'. get_row pu_id (pu_id pub) (ga_public s2) = Some p' \<and> pu_report_id p' = pu_report_id pub"
        using le0 pub unfolding gate_le_def by (blast dest: keepsD)
      then obtain pub2 where pub2: "public_get_by_id s2 (pu_id pub) = Some pub2" "pu_report_id pub2 = pu_report_id pub"
        unfolding public_get_by_id_def by blast
      have "report_get_by_id (ga_vault s2) (pu_report_id pub) = Some report"
        "download_bytes (ga_vault s2) (er_file_path report) = Some bytes"
        using le0 assms(6,7) by (simp_all add: gate_le_def vault_le_def)
      moreover have "gp_report_token resp = gd_raw_token draws"
        by (simp add: resp gate_answer_def)
      ultimately show ?thesis
        using t' pub2 assms(9) by (simp add: download_evidence_def gated_file_def)
    qed
  qed
qed

theorem gate_link_until_expiry_witness:
  "(\<exists>name. fst (download_evidence gate_security 5 ''tok'' (example_gate [example_public False 0] [example_token None] [example_lead])) =
     Inr (''pdf'', name))"
proof -
  have "public_report_for (example_gate [example_public True 0] [] []) example_gate_request = Inr (example_public True 0)"
    by (simp add: public_report_for_def public_get_by_incident_def page_of_def lower_def lower_char_def example_gate_defs)
  moreover have "report_get_by_id (ga_vault (example_gate [example_public True 0] [] [])) (pu_report_id (example_public True 0)) = Some example_report"
    "download_bytes (ga_vault (example_gate [example_public True 0] [] [])) (er_file_path example_report) = Some ''pdf''"
    by (simp_all add: report_get_by_id_def download_bytes_def get_row_def example_gate_defs)
  ultimately show ?thesis
    using gate_link_until_expiry [OF example_gate_empty example_published example_process _ _ _ _ example_unpublished, of _ _ _ 5]
    by (simp add: example_answer_def gate_answer_def example_gate_def example_draws_def example_gate_settings_def days_def seconds_def)
qed

text \<open>
  The download count of a report is the number of its links that were used, so a repeated download
  does not count, and the total of the statistics is the sum of the counts.
\<close>

theorem download_count_exact:
  assumes "gate_empty s0" and "gate_steps env s0 s"
  shows "(\<forall>p \<in> set (ga_public s). pu_download_count p =
      length (filter (\<lambda>t. gt_report_id t = pu_id p \<and> gt_downloaded_at t \<noteq> None) (ga_tokens s))) \<and>
    get_total_downloads s = sum_list (map pu_download_count (ga_public s))"
proof -
  have wf: "gate_wf s"
    using assms by (rule gate_reachable_wf)
  have counts: "\<forall>p \<in> set (ga_public s). pu_download_count p =
      length (filter (\<lambda>t. gt_report_id t = pu_id p \<and> gt_downloaded_at t \<noteq> None) (ga_tokens s))"
    using wf unfolding gate_wf_def by blast
  moreover have "get_total_downloads s = sum_list (map pu_download_count (ga_public s))"
    using length_by_key [of "map pu_id (ga_public s)" gt_report_id "ga_tokens s" "\<lambda>t. gt_downloaded_at t \<noteq> None"] wf counts
    by (simp add: get_total_downloads_def gate_wf_def comp_def image_subset_iff cong: map_cong)
  ultimately show ?thesis
    by blast
qed

theorem download_count_exact_witness:
  "get_total_downloads (example_gate [example_public False 1] [example_token (Some 5)] [example_lead]) = 1"
  using conjunct2 [OF download_count_exact [OF example_gate_empty example_downloaded [of example_evidence_env]]]
  by (simp add: example_gate_def example_public_def)

definition leads_assigned :: "gate \<Rightarrow> bool" where
  "leads_assigned s = (\<forall>e \<in> set (ga_leads s). le_user_id e \<noteq> None \<and> \<not> le_converted_to_signup e)"

lemma gate_step_leads:
  assumes "gate_step env s s'" and wf: "leads_assigned s"
  shows "leads_assigned s'"
  using assms(1)
proof cases
  case (gated sec cfg now draws rq ip user_agent resp)
  from gated(1) show ?thesis
  proof (rule process_gate_E)
    fix pub uid created s1
    assume acc: "gate_account sec now draws rq pub s = (Inr (uid, created), s1)"
      and issue: "gate_issue sec cfg now draws rq ip user_agent pub (uid, created) s1 = (Inr resp, s')"
    have "ga_leads (mark_converted now uid (gr_email rq) s) = ga_leads s"
      using wf by (auto simp: mark_converted_def leads_assigned_def intro!: map_idI)
    then have "ga_leads s1 = ga_leads s"
      using gate_account_tables(4) [OF acc] by simp
    from issue this show ?thesis
      by (rule_tac gate_issue_E) (use wf in \<open>auto simp: leads_assigned_def\<close>)
  qed
next
  case (downloaded sec now token r)
  then show ?thesis
    using wf by (rule_tac download_E) (auto simp: leads_assigned_def increment_download_count_def mark_downloaded_def)
next
  case (published i now org_id prq m)
  then show ?thesis
    using wf by (rule_tac publicize_E) (auto simp: leads_assigned_def update_publicity_def save_public_def)
qed (use wf in \<open>simp add: leads_assigned_def\<close>)

text \<open>
  The statistics never count a conversion: the only leads are those of the gate, which always name a
  user, and a conversion is recorded only on a lead without one.
\<close>

theorem conversions_never_counted:
  assumes "gate_empty s0" and "gate_steps env s0 s"
  shows "gs_conversion_rate (get_stats org_id s) = 0 \<and> gs_recent_conversions (get_stats org_id s) = []"
proof -
  have "leads_assigned s0"
    using assms(1) by (simp add: gate_empty_def leads_assigned_def)
  with assms(2) have "leads_assigned s"
    unfolding gate_steps_def by (induction rule: rtranclp_induct) (auto intro: gate_step_leads)
  then have "converted_leads s = []"
    by (auto simp: converted_leads_def leads_assigned_def filter_empty_conv)
  then show ?thesis
    by (simp add: get_stats_def get_conversion_rate_def get_recent_conversions_def py_round_def round_even_def)
qed

theorem conversions_never_counted_witness:
  "gs_conversion_rate (get_stats 1 (example_gate [example_public False 1] [example_token (Some 5)] [example_lead])) = 0"
  using conversions_never_counted [OF example_gate_empty example_downloaded [of example_evidence_env]] by simp

end
