(* ===== verification/Observation_Stats.thy ===== *)
theory Observation_Stats
  imports Attribution
begin

text \<open>
  The queries over observations: \<^verbatim>\<open>modules/observations/repository.py\<close>, \<^verbatim>\<open>service.py\<close> and the
  volume task.  Averages, percentiles and time buckets follow the documented functions of
  PostgreSQL (\<^verbatim>\<open>avg\<close>, \<^verbatim>\<open>percentile_cont\<close>, \<^verbatim>\<open>date_bin\<close>).  The collation of the database, which orders
  strings, is the argument \<^verbatim>\<open>coll\<close>.
\<close>

section \<open>Aggregates\<close>

definition obs_failed :: "observation \<Rightarrow> bool" where
  "obs_failed ob = (ob_status_code ob = None \<or> ob_error_type ob \<noteq> None)"

definition avg :: "real list \<Rightarrow> real option" where
  "avg xs = (if xs = [] then None else Some (sum_list xs / real (length xs)))"

definition percentile_cont :: "real \<Rightarrow> real list \<Rightarrow> real option" where
  "percentile_cont p xs = (if xs = [] then None
     else (let ys = sort xs; k = p * real (length ys - 1); i = nat \<lfloor>k\<rfloor>; j = nat \<lceil>k\<rceil>
       in Some (ys ! i + (k - real i) * (ys ! j - ys ! i))))"

definition min_by :: "('a \<Rightarrow> 'k::linorder) \<Rightarrow> 'a list \<Rightarrow> 'a option" where
  "min_by f xs = (case sort_key f xs of [] \<Rightarrow> None | x # _ \<Rightarrow> Some x)"

definition float_or_zero :: "real option \<Rightarrow> real" where
  "float_or_zero x = (case x of None \<Rightarrow> 0 | Some v \<Rightarrow> v)"

definition uptime_of :: "observation list \<Rightarrow> real" where
  "uptime_of obs = (if obs = [] then 100
     else py_round 2 ((real (length obs) - real (length (filter obs_failed obs))) / real (length obs) * 100))"

section \<open>Listings\<close>

definition observations_list_for_org :: "monitor \<Rightarrow> uuid \<Rightarrow> nat \<Rightarrow> time option \<Rightarrow> observation list" where
  "observations_list_for_org m org_id limit since = page_of (\<lambda>ob. - ob_timestamp ob) 0 limit
     (filter (\<lambda>ob. ob_org_id ob = Some org_id \<and> (case since of None \<Rightarrow> True | Some t \<Rightarrow> t \<le> ob_timestamp ob)) (mo_observations m))"

definition list_for_endpoints :: "monitor \<Rightarrow> string list \<Rightarrow> string \<Rightarrow> nat \<Rightarrow> time option \<Rightarrow> observation list" where
  "list_for_endpoints m urls source_type limit since = page_of (\<lambda>ob. - ob_timestamp ob) 0 limit
     (filter (\<lambda>ob. ob_endpoint_url ob \<in> set urls \<and> ob_source_type ob = source_type \<and>
        (case since of None \<Rightarrow> True | Some t \<Rightarrow> t \<le> ob_timestamp ob)) (mo_observations m))"

definition get_latest_observation :: "monitor \<Rightarrow> string list \<Rightarrow> string option \<Rightarrow> observation option" where
  "get_latest_observation m urls region =
     (case page_of (\<lambda>ob. - ob_timestamp ob) 0 1 (filter (\<lambda>ob. ob_endpoint_url ob \<in> set urls \<and>
        ob_source_type ob = ''customer_check'' \<and> (case region of None \<Rightarrow> True | Some r \<Rightarrow> ob_region ob = r)) (mo_observations m)) of
        [] \<Rightarrow> None | ob # _ \<Rightarrow> Some ob)"

section \<open>Statistics\<close>

record source_stats =
  ss_total :: nat
  ss_uptime_pct :: real
  ss_avg_latency :: real
  ss_p95 :: "real option"
  ss_source_type :: string
  ss_endpoint_url :: string

definition source_stats_of :: "(string \<Rightarrow> 'k::linorder) \<Rightarrow> observation list \<Rightarrow> source_stats" where
  "source_stats_of coll obs =
     (if obs = [] then \<lparr>ss_total = 0, ss_uptime_pct = 100, ss_avg_latency = 0, ss_p95 = None,
        ss_source_type = ''unknown'', ss_endpoint_url = []\<rparr>
      else \<lparr>ss_total = length obs, ss_uptime_pct = uptime_of obs,
        ss_avg_latency = py_round 2 (float_or_zero (avg (map ob_latency_ms obs))),
        ss_p95 = map_option (py_round 2) (percentile_cont (95 / 100) (map ob_latency_ms obs)),
        ss_source_type = (let x = min_by coll (map ob_source_type obs) in if str_truthy x then the x else ''unknown''),
        ss_endpoint_url = (let x = min_by coll (map ob_endpoint_url obs) in if str_truthy x then the x else [])\<rparr>)"

definition source_aggregated_stats :: "(string \<Rightarrow> 'k::linorder) \<Rightarrow> time \<Rightarrow> monitor \<Rightarrow> uuid \<Rightarrow> int \<Rightarrow> source_stats" where
  "source_aggregated_stats coll now m source_id window_hours = source_stats_of coll
     (filter (\<lambda>ob. ob_source_id ob = Some source_id \<and> now - hours window_hours \<le> ob_timestamp ob) (mo_observations m))"

record endpoint_stats =
  ep_total :: nat
  ep_uptime_percentage :: real
  ep_avg_latency_ms :: real
  ep_p95_latency_ms :: "real option"

definition endpoint_stats_of :: "observation list \<Rightarrow> endpoint_stats" where
  "endpoint_stats_of obs = \<lparr>ep_total = length obs, ep_uptime_percentage = uptime_of obs,
     ep_avg_latency_ms = py_round 2 (float_or_zero (avg (map ob_latency_ms obs))),
     ep_p95_latency_ms = map_option (py_round 2) (percentile_cont (95 / 100) (map ob_latency_ms obs))\<rparr>"

definition endpoint_rows :: "time \<Rightarrow> monitor \<Rightarrow> string list \<Rightarrow> int \<Rightarrow> string \<Rightarrow> observation list" where
  "endpoint_rows now m urls window_hours source_type = filter (\<lambda>ob. ob_endpoint_url ob \<in> set urls \<and>
     ob_source_type ob = source_type \<and> now - hours window_hours \<le> ob_timestamp ob) (mo_observations m)"

definition get_endpoint_stats :: "time \<Rightarrow> monitor \<Rightarrow> string list \<Rightarrow> int \<Rightarrow> string \<Rightarrow> endpoint_stats" where
  "get_endpoint_stats now m urls window_hours source_type = endpoint_stats_of (endpoint_rows now m urls window_hours source_type)"

text \<open>The mean failure rate over the sources of an organization; observations without a source are a group.\<close>

record sla_degradation =
  sd_total_degradation_pct :: real
  sd_affected_services :: nat

definition get_sla_degradation :: "time \<Rightarrow> monitor \<Rightarrow> uuid \<Rightarrow> int \<Rightarrow> sla_degradation" where
  "get_sla_degradation now m org_id period_days =
     (let obs = filter (\<lambda>ob. ob_org_id ob = Some org_id \<and> ob_source_type ob = ''customer_check'' \<and>
            now - days period_days \<le> ob_timestamp ob) (mo_observations m);
          rates = map (\<lambda>src. let g = filter (\<lambda>ob. ob_source_id ob = src) obs
            in real (length (filter obs_failed g)) / real (length g) * 100) (remdups (map ob_source_id obs))
      in \<lparr>sd_total_degradation_pct = (if rates = [] then 0 else py_round 2 (sum_list rates / real (length rates))),
          sd_affected_services = length (filter (\<lambda>x. 0 < x) rates)\<rparr>)"

section \<open>Retention\<close>

definition delete_before :: "time \<Rightarrow> monitor \<Rightarrow> nat \<times> monitor" where
  "delete_before cutoff m = (length (filter (\<lambda>ob. ob_timestamp ob < cutoff) (mo_observations m)),
     m\<lparr>mo_observations := filter (\<lambda>ob. \<not> ob_timestamp ob < cutoff) (mo_observations m)\<rparr>)"

definition count_between :: "monitor \<Rightarrow> time \<Rightarrow> time \<Rightarrow> nat" where
  "count_between m start until = length (filter (\<lambda>ob. start \<le> ob_timestamp ob \<and> ob_timestamp ob < until) (mo_observations m))"

definition daily_aggregation :: "time \<Rightarrow> monitor \<Rightarrow> nat" where
  "daily_aggregation now m = (let midnight = epoch_day now * days 1 in count_between m (midnight - days 1) midnight)"

section \<open>Time buckets\<close>

text \<open>\<^verbatim>\<open>date_bin\<close> with the origin 2000-01-01.\<close>

definition BIN_ORIGIN :: time where "BIN_ORIGIN = seconds 946684800"

definition bucket_start :: "int \<Rightarrow> time \<Rightarrow> time" where
  "bucket_start resolution t = BIN_ORIGIN + (t - BIN_ORIGIN) div seconds resolution * seconds resolution"

record timeline_row =
  tr_bucket_start :: time
  tr_avg_latency_ms :: real
  tr_rep_status_code :: "int option"
  tr_is_up :: bool
  tr_obs_count :: nat

definition bucket_of :: "time \<Rightarrow> observation list \<Rightarrow> timeline_row" where
  "bucket_of b obs = \<lparr>tr_bucket_start = b, tr_avg_latency_ms = py_round 2 (float_or_zero (avg (map ob_latency_ms obs))),
     tr_rep_status_code = min_by id (concat (map (\<lambda>ob. case ob_status_code ob of None \<Rightarrow> [] | Some c \<Rightarrow> [c]) obs)),
     tr_is_up = (\<forall>ob \<in> set obs. \<not> obs_failed ob), tr_obs_count = length obs\<rparr>"

definition timeline_rows :: "monitor \<Rightarrow> string list \<Rightarrow> time \<Rightarrow> time \<Rightarrow> string option \<Rightarrow> observation list" where
  "timeline_rows m urls since until region = filter (\<lambda>ob. ob_endpoint_url ob \<in> set urls \<and> ob_source_type ob = ''customer_check'' \<and>
     since \<le> ob_timestamp ob \<and> ob_timestamp ob < until \<and> (case region of None \<Rightarrow> True | Some r \<Rightarrow> ob_region ob = r)) (mo_observations m)"

definition get_timeline_buckets :: "monitor \<Rightarrow> string list \<Rightarrow> time \<Rightarrow> time \<Rightarrow> int \<Rightarrow> string option \<Rightarrow> timeline_row list" where
  "get_timeline_buckets m urls since until resolution region =
     (let obs = timeline_rows m urls since until region
      in map (\<lambda>b. bucket_of b (filter (\<lambda>ob. bucket_start resolution (ob_timestamp ob) = b) obs))
           (sort (remdups (map (\<lambda>ob. bucket_start resolution (ob_timestamp ob)) obs))))"

section \<open>Service\<close>

record observation_summary =
  os_source_type :: string
  os_source_id :: uuid
  os_endpoint_url :: string
  os_total_observations :: nat
  os_uptime_percentage :: real
  os_avg_latency_ms :: real
  os_p95_latency_ms :: "real option"
  os_period_hours :: int

definition list_observations :: "time \<Rightarrow> monitor \<Rightarrow> uuid \<Rightarrow> nat \<Rightarrow> int option \<Rightarrow> observation list" where
  "list_observations now m source_id limit window_hours = page_of (\<lambda>ob. - ob_timestamp ob) 0 limit
     (filter (\<lambda>ob. ob_source_id ob = Some source_id \<and>
        (case window_hours of None \<Rightarrow> True | Some h \<Rightarrow> h = 0 \<or> now - hours h \<le> ob_timestamp ob)) (mo_observations m))"

definition get_summary :: "(string \<Rightarrow> 'k::linorder) \<Rightarrow> time \<Rightarrow> monitor \<Rightarrow> uuid \<Rightarrow> int \<Rightarrow> observation_summary" where
  "get_summary coll now m source_id window_hours =
     (let s = source_aggregated_stats coll now m source_id window_hours
      in \<lparr>os_source_type = ss_source_type s, os_source_id = source_id, os_endpoint_url = ss_endpoint_url s,
          os_total_observations = ss_total s, os_uptime_percentage = ss_uptime_pct s, os_avg_latency_ms = ss_avg_latency s,
          os_p95_latency_ms = ss_p95 s, os_period_hours = window_hours\<rparr>)"

section \<open>Bounds\<close>

text \<open>A rounded percentage stays one.\<close>

lemma round_even_int [simp]: "round_even (of_int i) = i"
  by (simp add: round_even_def)

lemma py_round_whole [simp]: "py_round n (of_int i) = of_int i"
proof -
  have "of_int i * 10 ^ n = (of_int (i * 10 ^ n) :: real)"
    by simp
  then show ?thesis
    unfolding py_round_def by (metis nonzero_mult_div_cancel_right of_int_eq_0_iff of_int_mult of_int_numeral of_int_power power_not_zero round_even_int zero_neq_numeral)
qed

lemma py_round_between: "of_int a \<le> x \<Longrightarrow> x \<le> of_int b \<Longrightarrow> of_int a \<le> py_round n x \<and> py_round n x \<le> of_int b"
  using py_round_mono [of "of_int a" x n] py_round_mono [of x "of_int b" n] by simp

lemma uptime_bounds: "0 \<le> uptime_of obs \<and> uptime_of obs \<le> 100"
proof (cases "obs = []")
  case False
  have le: "length (filter obs_failed obs) \<le> length obs"
    by simp
  have "0 \<le> (real (length obs) - real (length (filter obs_failed obs))) / real (length obs) * 100"
    "(real (length obs) - real (length (filter obs_failed obs))) / real (length obs) * 100 \<le> 100"
    using False le by (simp_all add: divide_le_eq_1 field_simps)
  then show ?thesis
    using py_round_between [of 0 _ 100 2] False by (simp add: uptime_of_def)
qed (simp add: uptime_of_def)

lemma bucket_contains:
  assumes "0 < resolution"
  shows "bucket_start resolution t \<le> t \<and> t < bucket_start resolution t + seconds resolution"
proof -
  have pos: "0 < seconds resolution"
    using assms by (simp add: seconds_def)
  have "(t - BIN_ORIGIN) div seconds resolution * seconds resolution \<le> t - BIN_ORIGIN"
    "t - BIN_ORIGIN < (t - BIN_ORIGIN) div seconds resolution * seconds resolution + seconds resolution"
    using pos by (simp_all add: minus_mod_eq_div_mult [symmetric] add.commute)
  then show ?thesis
    by (simp add: bucket_start_def)
qed

text \<open>Every observation of the window is counted in exactly one bucket.\<close>

lemma buckets_partition:
  "sum_list (map tr_obs_count (get_timeline_buckets m urls since until resolution region)) =
     length (timeline_rows m urls since until region)"
  using length_by_key [of "sort (remdups (map (\<lambda>ob. bucket_start resolution (ob_timestamp ob)) (timeline_rows m urls since until region)))"
      "\<lambda>ob. bucket_start resolution (ob_timestamp ob)" "timeline_rows m urls since until region" "\<lambda>_. True"]
  by (simp add: get_timeline_buckets_def Let_def bucket_of_def comp_def)

end
