(* ===== verification/Pagination.thy ===== *)
theory Pagination
  imports Prelude
begin

text \<open>
  \<^verbatim>\<open>core/pagination.py\<close>: the list envelope and its legacy keyword arguments, the page cut from one
  row too many, and the walk of a client that follows the cursors.
\<close>

section \<open>Envelopes\<close>

definition DEFAULT_PAGE_LIMIT :: int where "DEFAULT_PAGE_LIMIT = 50"

record 'r paginated_response =
  pn_data :: "'r list"
  pn_next_cursor :: "string option"
  pn_has_more :: bool
  pn_limit :: int
  pn_total :: "int option"
  pn_page :: "int option"
  pn_size :: "int option"
  pn_pages :: "int option"

text \<open>The keyword arguments of the legacy constructor; an absent one is \<^verbatim>\<open>None\<close>.\<close>

record 'r legacy_kwargs =
  lk_items :: "'r list"
  lk_next_cursor :: "string option"
  lk_has_more :: "bool option"
  lk_limit :: "int option"
  lk_total :: "int option"
  lk_page :: "int option"
  lk_size :: "int option"
  lk_pages :: "int option"

definition no_kwargs :: "'r list \<Rightarrow> 'r legacy_kwargs" where
  "no_kwargs items = \<lparr>lk_items = items, lk_next_cursor = None, lk_has_more = None, lk_limit = None,
     lk_total = None, lk_page = None, lk_size = None, lk_pages = None\<rparr>"

definition or_int :: "int option \<Rightarrow> int \<Rightarrow> int" where
  "or_int x y = (case x of None \<Rightarrow> y | Some n \<Rightarrow> if n = 0 then y else n)"

definition accept_legacy_kwargs :: "'r legacy_kwargs \<Rightarrow> 'r paginated_response" where
  "accept_legacy_kwargs kw = \<lparr>pn_data = lk_items kw, pn_next_cursor = lk_next_cursor kw,
     pn_has_more = (case lk_has_more kw of Some b \<Rightarrow> b
       | None \<Rightarrow> (case (lk_page kw, lk_pages kw) of (Some page, Some pages) \<Rightarrow> page < pages | _ \<Rightarrow> False)),
     pn_limit = or_int (lk_size kw) (or_int (lk_limit kw) DEFAULT_PAGE_LIMIT),
     pn_total = lk_total kw, pn_page = lk_page kw, pn_size = lk_size kw, pn_pages = lk_pages kw\<rparr>"

definition paginated :: "'r list \<Rightarrow> int \<Rightarrow> bool \<Rightarrow> string option \<Rightarrow> 'r paginated_response" where
  "paginated items limit has_more next_cursor = \<lparr>pn_data = items, pn_next_cursor = next_cursor, pn_has_more = has_more,
     pn_limit = limit, pn_total = None, pn_page = None, pn_size = None, pn_pages = None\<rparr>"

definition slice_page :: "('r \<Rightarrow> string option) \<Rightarrow> 'r list \<Rightarrow> nat \<Rightarrow> 'r paginated_response" where
  "slice_page cursor_of rows limit =
     (let has_more = limit < length rows; items = take limit rows
      in paginated items (int limit) has_more (if has_more \<and> items \<noteq> [] then cursor_of (last items) else None))"

section \<open>Following the cursors\<close>

text \<open>
  What a listing that fetches one row more than the limit owes its clients: without a cursor the first
  rows, after the row of a cursor the rows that follow it.  \<^verbatim>\<open>walk_pages\<close> is the client that asks for the
  next page as long as there is more; \<^verbatim>\<open>fuel\<close> bounds its requests.
\<close>

fun walk_pages :: "(nat \<Rightarrow> uuid option \<Rightarrow> 'r list) \<Rightarrow> ('r \<Rightarrow> uuid) \<Rightarrow> nat \<Rightarrow> nat \<Rightarrow> uuid option \<Rightarrow> 'r list list" where
  "walk_pages fetch ident limit 0 cursor = []"
| "walk_pages fetch ident limit (Suc fuel) cursor =
     (let rows = fetch (limit + 1) cursor; items = take limit rows
      in if limit < length rows \<and> items \<noteq> []
         then items # walk_pages fetch ident limit fuel (Some (ident (last items)))
         else [items])"

locale cursor_listing =
  fixes fetch :: "'s \<Rightarrow> nat \<Rightarrow> uuid option \<Rightarrow> 'r list"
    and ident :: "'r \<Rightarrow> uuid"
    and rows :: "'s \<Rightarrow> 'r list"
    and ok :: "'s \<Rightarrow> bool"
  assumes first: "ok s \<Longrightarrow> fetch s n None = take n (rows s)"
    and after: "ok s \<Longrightarrow> rows s = xs @ r # ys \<Longrightarrow> fetch s n (Some (ident r)) = take n ys"
begin

lemma walk_from:
  assumes "0 < limit" and "ok s" and "length ys < fuel * limit \<or> (ys = [] \<and> 0 < fuel)" and "\<And>n. fetch s n cursor = take n ys"
    and "rows s = xs @ ys"
  shows "concat (walk_pages (fetch s) ident limit fuel cursor) = ys \<and>
    (\<forall>page \<in> set (walk_pages (fetch s) ident limit fuel cursor). length page \<le> limit) \<and>
    length (walk_pages (fetch s) ident limit fuel cursor) \<le> length ys div limit + 1"
  using assms(3-)
proof (induction fuel arbitrary: cursor xs ys)
  case (Suc fuel)
  show ?case
  proof (cases "limit < length ys")
    case True
    define zs where "zs = take limit ys"
    have zs: "zs \<noteq> []" "ys = zs @ drop limit ys"
      using True assms(1) by (auto simp: zs_def)
    then have ys: "rows s = (xs @ butlast zs) @ last zs # drop limit ys"
      using Suc.prems(3) by (metis append.assoc append_Cons append_Nil append_butlast_last_id)
    have "length (drop limit ys) < fuel * limit \<or> (drop limit ys = [] \<and> 0 < fuel)"
      using True Suc.prems(1) by auto
    moreover have "fetch s n (Some (ident (last zs))) = take n (drop limit ys)" for n
      by (rule after [OF assms(2) ys])
    ultimately have IH: "concat (walk_pages (fetch s) ident limit fuel (Some (ident (last zs)))) = drop limit ys \<and>
      (\<forall>page \<in> set (walk_pages (fetch s) ident limit fuel (Some (ident (last zs)))). length page \<le> limit) \<and>
      length (walk_pages (fetch s) ident limit fuel (Some (ident (last zs)))) \<le> length (drop limit ys) div limit + 1"
      by (rule Suc.IH [of "drop limit ys" _ "xs @ zs"]) (simp add: Suc.prems(3) zs_def)
    have walk: "walk_pages (fetch s) ident limit (Suc fuel) cursor = zs # walk_pages (fetch s) ident limit fuel (Some (ident (last zs)))"
      using True zs(1) by (simp add: Let_def Suc.prems(2) zs_def min_def)
    have "length (drop limit ys) div limit + 1 = length ys div limit"
      using True assms(1) le_div_geq [of limit "length ys"] by simp
    then show ?thesis
      unfolding walk using IH by (auto simp: zs_def)
  next
    case False
    then show ?thesis
      by (simp add: Let_def Suc.prems(2))
  qed
qed simp

text \<open>The pages of a full walk are the rows, in order and each once.\<close>

lemma walk_all:
  assumes "0 < limit" and "ok s" and "length (rows s) < fuel * limit"
  shows "concat (walk_pages (fetch s) ident limit fuel None) = rows s \<and>
    (\<forall>page \<in> set (walk_pages (fetch s) ident limit fuel None). length page \<le> limit) \<and>
    length (walk_pages (fetch s) ident limit fuel None) \<le> length (rows s) div limit + 1"
  using walk_from [of limit s "rows s" fuel None "[]"] assms first by simp

end

end
