(* ===== verification/Vendors.thy ===== *)
theory Vendors
  imports Observation_Stats Redis Pagination Sessions "HOL-Library.Product_Lexorder"
begin

text \<open>
  \<^verbatim>\<open>modules/vendors\<close>: the public catalogue of vendors, their statistics from the observations of every
  customer, the timeline with its cache and the cached cursor listing of the router.  Outside the
  repository, and arguments: the collation \<^verbatim>\<open>coll\<close> of the database and, in \<^verbatim>\<open>vendor_env\<close>, the JSON text
  of the two cached responses.  A request reads the clock once.
\<close>

section \<open>Tables\<close>

record vendor_tracking =
  vt_id :: uuid
  vt_vendor_name :: string
  vt_display_name :: string
  vt_endpoint_url :: string
  vt_category :: string
  vt_is_public :: bool
  vt_last_check_at :: "time option"
  vt_created_at :: time

record vendor_endpoint =
  ve_id :: uuid
  ve_vendor_id :: uuid
  ve_endpoint_url :: string
  ve_check_interval_seconds :: int
  ve_regions :: "string list"
  ve_is_active :: bool
  ve_health_status :: string
  ve_last_check_at :: "time option"
  ve_created_at :: time

record catalog =
  ca_monitor :: monitor
  ca_vendors :: "vendor_tracking list"
  ca_endpoints :: "vendor_endpoint list"
  ca_cache :: "string redis"

section \<open>Repository\<close>

definition vendor_row :: "catalog \<Rightarrow> uuid \<Rightarrow> vendor_tracking option" where
  "vendor_row s i = get_row vt_id i (ca_vendors s)"

text \<open>The position in the listing: the display name under the collation, then the identifier.\<close>

definition vendor_after :: "(string \<Rightarrow> 'k::linorder) \<Rightarrow> vendor_tracking \<Rightarrow> vendor_tracking \<Rightarrow> bool" where
  "vendor_after coll c r = (coll (vt_display_name c) < coll (vt_display_name r) \<or>
     (vt_display_name r = vt_display_name c \<and> vt_id c < vt_id r))"

definition ordered_vendors :: "(string \<Rightarrow> 'k::linorder) \<Rightarrow> vendor_tracking list \<Rightarrow> vendor_tracking list" where
  "ordered_vendors coll rs = sort_key (\<lambda>r. (coll (vt_display_name r), vt_id r)) rs"

definition list_public :: "(string \<Rightarrow> 'k::linorder) \<Rightarrow> catalog \<Rightarrow> nat option \<Rightarrow> uuid option \<Rightarrow> vendor_tracking list" where
  "list_public coll s limit cursor =
     (let rows = filter vt_is_public (ca_vendors s);
          rest = (case cursor of None \<Rightarrow> rows
            | Some i \<Rightarrow> (case vendor_row s i of None \<Rightarrow> rows | Some c \<Rightarrow> filter (vendor_after coll c) rows));
          page = ordered_vendors coll rest
      in case limit of None \<Rightarrow> page | Some n \<Rightarrow> take n page)"

definition vendor_get_by_name :: "catalog \<Rightarrow> string \<Rightarrow> vendor_tracking option" where
  "vendor_get_by_name s name = get_row vt_vendor_name (lower name) (ca_vendors s)"

text \<open>The columns of the two tables; a violated constraint is the error of the flush.\<close>

definition endpoint_create :: "uuid \<Rightarrow> time \<Rightarrow> uuid \<Rightarrow> string \<Rightarrow> (vendor_endpoint, catalog) service" where
  "endpoint_create i now vendor_id url s =
     (if length url > 500 then (Inl (ValueError ''value too long for type character varying(500)''), s)
      else if \<exists>x \<in> set (ca_endpoints s). ve_vendor_id x = vendor_id \<and> ve_endpoint_url x = url
      then (Inl (IntegrityError ''uq_vendor_endpoints_vendor_url''), s)
      else (let x = \<lparr>ve_id = i, ve_vendor_id = vendor_id, ve_endpoint_url = url, ve_check_interval_seconds = 300,
              ve_regions = [''us-east'', ''eu-west''], ve_is_active = True, ve_health_status = ''unknown'',
              ve_last_check_at = None, ve_created_at = now\<rparr>
            in (Inr x, s\<lparr>ca_endpoints := ca_endpoints s @ [x]\<rparr>)))"

definition vendor_fits :: "vendor_tracking \<Rightarrow> bool" where
  "vendor_fits v = (length (vt_vendor_name v) \<le> 100 \<and> length (vt_display_name v) \<le> 150 \<and>
     length (vt_endpoint_url v) \<le> 500 \<and> length (vt_category v) \<le> 100)"

definition vendor_insert :: "vendor_tracking \<Rightarrow> (vendor_tracking, catalog) service" where
  "vendor_insert v s =
     (if \<not> vendor_fits v then (Inl (ValueError ''value too long for type character varying''), s)
      else if vt_vendor_name v \<in> vt_vendor_name ` set (ca_vendors s)
      then (Inl (IntegrityError ''vendor_trackings_vendor_name''), s)
      else (Inr v, s\<lparr>ca_vendors := ca_vendors s @ [v]\<rparr>))"

definition vendor_create ::
  "uuid \<Rightarrow> uuid \<Rightarrow> time \<Rightarrow> string \<Rightarrow> string \<Rightarrow> string \<Rightarrow> string \<Rightarrow> bool \<Rightarrow> (vendor_tracking, catalog) service" where
  "vendor_create i j now name display_name url category is_public =
     and_then (vendor_insert \<lparr>vt_id = i, vt_vendor_name = lower name, vt_display_name = display_name,
         vt_endpoint_url = url, vt_category = category, vt_is_public = is_public, vt_last_check_at = None, vt_created_at = now\<rparr>)
       (\<lambda>v. and_then (endpoint_create j now (vt_id v) url) (\<lambda>_ s. (Inr v, s)))"

definition update_check_time :: "time \<Rightarrow> vendor_tracking \<Rightarrow> catalog \<Rightarrow> catalog" where
  "update_check_time now v s = s\<lparr>ca_vendors := save_row vt_id (v\<lparr>vt_last_check_at := Some now\<rparr>) (ca_vendors s)\<rparr>"

definition list_vendor_endpoints :: "(string \<Rightarrow> 'k::linorder) \<Rightarrow> catalog \<Rightarrow> string \<Rightarrow> vendor_endpoint list" where
  "list_vendor_endpoints coll s name = sort_key (\<lambda>x. coll (ve_endpoint_url x)) (filter (\<lambda>x.
     case vendor_row s (ve_vendor_id x) of None \<Rightarrow> False | Some v \<Rightarrow> vt_vendor_name v = lower name) (ca_endpoints s))"

text \<open>The join: an incident with the row of its dependency, deleted ones included.\<close>

definition incident_rows :: "monitor \<Rightarrow> string list \<Rightarrow> (incident \<times> dependency) list" where
  "incident_rows m urls = concat (map (\<lambda>x. case dependency_row m (in_dependency_id x) of
       None \<Rightarrow> [] | Some d \<Rightarrow> if d_endpoint_url d \<in> set urls then [(x, d)] else []) (mo_incidents m))"

definition list_incidents_for_endpoints :: "monitor \<Rightarrow> string list \<Rightarrow> nat \<Rightarrow> (incident \<times> dependency) list" where
  "list_incidents_for_endpoints m urls limit = page_of (\<lambda>(x, d). - in_started_at x) 0 limit (incident_rows m urls)"

text \<open>
  Ranges that overlap; \<^verbatim>\<open>tstzrange\<close> raises when an incident starts after its end, and an empty range
  overlaps nothing.
\<close>

definition get_incidents_in_window ::
  "time \<Rightarrow> monitor \<Rightarrow> string list \<Rightarrow> time \<Rightarrow> time \<Rightarrow> app_error + (uuid \<times> time \<times> time option) list" where
  "get_incidents_in_window now m urls since until =
     (let rows = map fst (incident_rows m urls);
          finish = (\<lambda>x. case in_resolved_at x of None \<Rightarrow> now | Some t \<Rightarrow> t)
      in if \<exists>x \<in> set rows. finish x < in_started_at x
         then Inl (ValueError ''range lower bound must be less than or equal to range upper bound'')
         else Inr (map (\<lambda>x. (in_id x, in_started_at x, in_resolved_at x)) (sort_key in_started_at
           (filter (\<lambda>x. in_started_at x < finish x \<and> since < until \<and> in_started_at x < until \<and> since < finish x) rows))))"

section \<open>Seeding\<close>

definition SEED_VENDORS :: "(string \<times> string \<times> string \<times> string) list" where
  "SEED_VENDORS = [(''stripe'', ''Stripe'', ''https://status.stripe.com'', ''payments''),
     (''auth0'', ''Auth0'', ''https://status.auth0.com'', ''auth''),
     (''cloudflare'', ''Cloudflare'', ''https://www.cloudflarestatus.com'', ''cdn''),
     (''openai'', ''OpenAI'', ''https://status.openai.com'', ''ai''),
     (''twilio'', ''Twilio'', ''https://status.twilio.com'', ''communications'')]"

text \<open>\<^verbatim>\<open>ids k\<close> are the identifiers drawn for the \<^verbatim>\<open>k\<close>-th vendor and its endpoint.\<close>

fun seed_loop ::
  "(nat \<Rightarrow> uuid \<times> uuid) \<Rightarrow> time \<Rightarrow> nat \<Rightarrow> (string \<times> string \<times> string \<times> string) list \<Rightarrow> nat \<Rightarrow> (nat, catalog) service" where
  "seed_loop ids now k [] seeded s = (Inr seeded, s)"
| "seed_loop ids now k ((name, display_name, url, category) # items) seeded s =
     (if vendor_get_by_name s name \<noteq> None then seed_loop ids now (k + 1) items seeded s
      else and_then (vendor_create (fst (ids k)) (snd (ids k)) now name display_name url category True)
        (\<lambda>_. seed_loop ids now (k + 1) items (seeded + 1)) s)"

definition seed_vendors :: "(nat \<Rightarrow> uuid \<times> uuid) \<Rightarrow> time \<Rightarrow> (nat, catalog) service" where
  "seed_vendors ids now = seed_loop ids now 0 SEED_VENDORS 0"

section \<open>Checks of a vendor\<close>

definition vendor_checks :: "monitor \<Rightarrow> string \<Rightarrow> check_result list" where
  "vendor_checks m url = filter (\<lambda>r. case dep_get_by_id m (cr_dependency_id r) of
     None \<Rightarrow> False | Some d \<Rightarrow> d_endpoint_url d = url) (mo_checks m)"

definition get_vendor_aggregated_stats :: "time \<Rightarrow> monitor \<Rightarrow> string \<Rightarrow> int \<Rightarrow> check_stats" where
  "get_vendor_aggregated_stats now m url window_hours =
     stats_of (filter (\<lambda>r. now - hours window_hours \<le> cr_executed_at r) (vendor_checks m url))"

definition get_vendor_recent_status :: "monitor \<Rightarrow> string \<Rightarrow> nat \<Rightarrow> check_result list" where
  "get_vendor_recent_status m url limit = page_of (\<lambda>r. - cr_executed_at r) 0 limit (vendor_checks m url)"

section \<open>Pages of a vendor\<close>

definition vendor_urls :: "vendor_tracking \<Rightarrow> vendor_endpoint list \<Rightarrow> string list" where
  "vendor_urls v endpoints = rev (remdups (rev (vt_endpoint_url v # map ve_endpoint_url endpoints)))"

definition vendor_and_urls ::
  "(string \<Rightarrow> 'k::linorder) \<Rightarrow> catalog \<Rightarrow> string \<Rightarrow> app_error + vendor_tracking \<times> vendor_endpoint list \<times> string list" where
  "vendor_and_urls coll s name =
     (let missing = Inl (ResourceNotFoundException (''Vendor '' @ quoted name @ '' not found''))
      in case vendor_get_by_name s name of None \<Rightarrow> missing
       | Some v \<Rightarrow> if \<not> vt_is_public v then missing
           else (let endpoints = list_vendor_endpoints coll s (vt_vendor_name v)
             in Inr (v, endpoints, vendor_urls v endpoints)))"

definition observed_status :: "observation list \<Rightarrow> string" where
  "observed_status obs = (if \<exists>ob \<in> set obs. str_truthy (ob_error_type ob) \<or> ob_status_code ob = None
     then ''degraded'' else ''operational'')"

definition legacy_status :: "monitor \<Rightarrow> string \<Rightarrow> string" where
  "legacy_status m url = (let legacy = get_vendor_recent_status m url 5
     in if legacy \<noteq> [] \<and> (\<forall>r \<in> set legacy. cr_is_up r) then ''operational''
        else if legacy \<noteq> [] then ''degraded'' else ''unknown'')"

record vendor_detail =
  vl_vendor :: vendor_tracking
  vl_recent_status :: string
  vl_endpoints :: "vendor_endpoint list"

definition get_vendor_detail :: "(string \<Rightarrow> 'k::linorder) \<Rightarrow> catalog \<Rightarrow> string \<Rightarrow> app_error + vendor_detail" where
  "get_vendor_detail coll s name = (case vendor_and_urls coll s name of
     Inl e \<Rightarrow> Inl e
   | Inr (v, endpoints, urls) \<Rightarrow>
       (let obs = list_for_endpoints (ca_monitor s) urls ''customer_check'' 5 None
        in Inr \<lparr>vl_vendor = v,
             vl_recent_status = (if obs \<noteq> [] then observed_status obs else legacy_status (ca_monitor s) (vt_endpoint_url v)),
             vl_endpoints = endpoints\<rparr>))"

text \<open>The board: the first vendor with a URL owns it, and 200 observations are read for all of them.\<close>

definition board_urls :: "(string \<Rightarrow> 'k::linorder) \<Rightarrow> catalog \<Rightarrow> (string \<times> string) list" where
  "board_urls coll s = concat (map (\<lambda>v. map (\<lambda>u. (u, vt_vendor_name v))
     (vendor_urls v (list_vendor_endpoints coll s (vt_vendor_name v)))) (list_public coll s None None))"

definition latest_by_url :: "observation list \<Rightarrow> observation list" where
  "latest_by_url obs = fold (\<lambda>ob found. if ob_endpoint_url ob \<in> ob_endpoint_url ` set found then found else found @ [ob]) obs []"

definition get_vendor_details_bulk :: "(string \<Rightarrow> 'k::linorder) \<Rightarrow> catalog \<Rightarrow> vendor_detail list" where
  "get_vendor_details_bulk coll s =
     (let url_to_vendor = map_of (board_urls coll s);
          latest = latest_by_url (list_for_endpoints (ca_monitor s) (map fst (board_urls coll s)) ''customer_check'' 200 None)
      in map (\<lambda>v. let obs = filter (\<lambda>ob. url_to_vendor (ob_endpoint_url ob) = Some (vt_vendor_name v)) latest
           in \<lparr>vl_vendor = v,
                vl_recent_status = (if obs \<noteq> [] then observed_status obs else legacy_status (ca_monitor s) (vt_endpoint_url v)),
                vl_endpoints = list_vendor_endpoints coll s (vt_vendor_name v)\<rparr>) (list_public coll s None None))"

record vendor_history =
  vh_vendor_name :: string
  vh_uptime_percentage_24h :: real
  vh_avg_latency_ms_24h :: real
  vh_recent_checks_count :: nat

definition get_vendor_history :: "(string \<Rightarrow> 'k::linorder) \<Rightarrow> time \<Rightarrow> catalog \<Rightarrow> string \<Rightarrow> app_error + vendor_history" where
  "get_vendor_history coll now s name = (case vendor_and_urls coll s name of
     Inl e \<Rightarrow> Inl e
   | Inr (v, _, urls) \<Rightarrow>
       (let stats = get_endpoint_stats now (ca_monitor s) urls 24 ''customer_check'';
            legacy = get_vendor_aggregated_stats now (ca_monitor s) (vt_endpoint_url v) 24
        in Inr (if ep_total stats = 0
          then \<lparr>vh_vendor_name = vt_vendor_name v, vh_uptime_percentage_24h = cs_uptime_percentage legacy,
            vh_avg_latency_ms_24h = cs_avg_latency_ms legacy, vh_recent_checks_count = cs_total_checks legacy\<rparr>
          else \<lparr>vh_vendor_name = vt_vendor_name v, vh_uptime_percentage_24h = ep_uptime_percentage stats,
            vh_avg_latency_ms_24h = ep_avg_latency_ms stats, vh_recent_checks_count = ep_total stats\<rparr>)))"

definition WINDOW_HOURS :: "(string \<times> int) list" where
  "WINDOW_HOURS = [(''1h'', 1), (''6h'', 6), (''24h'', 24), (''7d'', 168), (''30d'', 720), (''90d'', 2160)]"

definition window_hours :: "string \<Rightarrow> int option" where "window_hours w = map_of WINDOW_HOURS w"

text \<open>Without a window, or with an empty one, the metrics of every window.\<close>

definition get_vendor_metrics ::
  "(string \<Rightarrow> 'k::linorder) \<Rightarrow> time \<Rightarrow> catalog \<Rightarrow> string \<Rightarrow> string option \<Rightarrow> app_error + string \<times> (string \<times> endpoint_stats) list" where
  "get_vendor_metrics coll now s name window = (case vendor_and_urls coll s name of
     Inl e \<Rightarrow> Inl e
   | Inr (v, _, urls) \<Rightarrow>
       if str_truthy window \<and> window_hours (the window) = None
       then Inl (ValidationException (''Invalid window '' @ quoted (the window)))
       else (let labels = (if str_truthy window then [the window] else map fst WINDOW_HOURS)
         in Inr (vt_vendor_name v, map (\<lambda>w. (w, get_endpoint_stats now (ca_monitor s) urls
              (the (window_hours w)) ''customer_check'')) labels)))"

record vendor_incident =
  vi_incident_id :: uuid
  vi_dependency_name :: string
  vi_started_at :: time
  vi_resolved_at :: "time option"
  vi_severity :: incident_severity
  vi_status :: incident_status
  vi_duration_seconds :: real

definition vendor_incident_of :: "time \<Rightarrow> incident \<times> dependency \<Rightarrow> vendor_incident" where
  "vendor_incident_of now row = (case row of (x, d) \<Rightarrow>
     (let finish = (case in_resolved_at x of None \<Rightarrow> now | Some t \<Rightarrow> t)
      in \<lparr>vi_incident_id = in_id x, vi_dependency_name = d_name d, vi_started_at = in_started_at x,
           vi_resolved_at = in_resolved_at x, vi_severity = in_severity x, vi_status = in_status x,
           vi_duration_seconds = py_round 2 (max 0 (real_of_int (finish - in_started_at x) / real_of_int (seconds 1)))\<rparr>))"

definition get_vendor_incidents ::
  "(string \<Rightarrow> 'k::linorder) \<Rightarrow> time \<Rightarrow> catalog \<Rightarrow> string \<Rightarrow> nat \<Rightarrow> app_error + string \<times> vendor_incident list" where
  "get_vendor_incidents coll now s name limit = (case vendor_and_urls coll s name of
     Inl e \<Rightarrow> Inl e
   | Inr (v, _, urls) \<Rightarrow> Inr (vt_vendor_name v,
       map (vendor_incident_of now) (list_incidents_for_endpoints (ca_monitor s) urls limit)))"

section \<open>Timeline\<close>

definition DEFAULT_REGION :: string where "DEFAULT_REGION = ''us-east-1''"

definition AUTO_RESOLUTION :: "(string \<times> int) list" where
  "AUTO_RESOLUTION = [(''1h'', 60), (''6h'', 60), (''24h'', 300), (''7d'', 900), (''30d'', 3600), (''90d'', 21600)]"

definition RESOLUTION_SECONDS :: "(string \<times> int) list" where
  "RESOLUTION_SECONDS = [(''1m'', 60), (''5m'', 300), (''15m'', 900), (''1h'', 3600), (''6h'', 21600)]"

definition CACHE_TTL :: "(string \<times> int) list" where
  "CACHE_TTL = [(''1h'', 10), (''6h'', 15), (''24h'', 30), (''7d'', 120), (''30d'', 300), (''90d'', 600)]"

definition resolve_resolution :: "string \<Rightarrow> string \<Rightarrow> int" where
  "resolve_resolution window resolution = (if resolution = ''auto'' then the (map_of AUTO_RESOLUTION window)
     else the (map_of RESOLUTION_SECONDS resolution))"

definition auto_label :: "string \<Rightarrow> string" where
  "auto_label window = (let n = the (map_of AUTO_RESOLUTION window)
     in case find (\<lambda>(k, v). v = n) (rev RESOLUTION_SECONDS) of Some (k, _) \<Rightarrow> k | None \<Rightarrow> show_int n @ ''s'')"

record timeline_current =
  tn_timestamp :: "time option"
  tn_latency_ms :: "real option"
  tn_status_code :: "int option"
  tn_is_up :: "bool option"

definition current_of :: "observation option \<Rightarrow> timeline_current" where
  "current_of latest = (case latest of
     None \<Rightarrow> \<lparr>tn_timestamp = None, tn_latency_ms = None, tn_status_code = None, tn_is_up = None\<rparr>
   | Some ob \<Rightarrow> \<lparr>tn_timestamp = Some (ob_timestamp ob), tn_latency_ms = Some (py_round 2 (ob_latency_ms ob)),
       tn_status_code = ob_status_code ob, tn_is_up = Some (\<not> obs_failed ob)\<rparr>)"

record timeline_point =
  tp_row :: timeline_row
  tp_incident_id :: "uuid option"

text \<open>A bucket is taken to last 600 seconds, whatever the resolution.\<close>

definition BUCKET_ESTIMATE :: time where "BUCKET_ESTIMATE = seconds 600"

definition bucket_overlaps :: "time \<Rightarrow> time \<Rightarrow> uuid \<times> time \<times> time option \<Rightarrow> bool" where
  "bucket_overlaps now b inc = (case inc of (_, start, resolved) \<Rightarrow>
     b < (case resolved of None \<Rightarrow> now | Some t \<Rightarrow> t) \<and> start < b + BUCKET_ESTIMATE)"

definition associate_incidents :: "time \<Rightarrow> timeline_row list \<Rightarrow> (uuid \<times> time \<times> time option) list \<Rightarrow> timeline_point list" where
  "associate_incidents now buckets incidents = map (\<lambda>b. \<lparr>tp_row = b,
     tp_incident_id = map_option fst (find (bucket_overlaps now (tr_bucket_start b)) incidents)\<rparr>) buckets"

record vendor_timeline =
  vm_vendor_name :: string
  vm_window :: string
  vm_resolution :: string
  vm_region :: string
  vm_from :: time
  vm_to :: time
  vm_current :: timeline_current
  vm_points :: "timeline_point list"

text \<open>\<^verbatim>\<open>strftime("%Y%m%d%H%M")\<close> of a UTC time.\<close>

definition minute_stamp :: "time \<Rightarrow> string" where
  "minute_stamp now = (case civil_year_month (epoch_day now) of (y, mo) \<Rightarrow>
     zero_pad 4 y @ zero_pad 2 mo @ zero_pad 2 (civil_day (epoch_day now)) @
     zero_pad 2 (now mod days 1 div hours 1) @ zero_pad 2 (now mod hours 1 div minutes 1))"

definition timeline_key :: "time \<Rightarrow> string \<Rightarrow> string \<Rightarrow> string \<Rightarrow> string \<Rightarrow> string" where
  "timeline_key now name window resolution region =
     ''timeline:'' @ name @ '':'' @ window @ '':'' @ resolution @ '':'' @ region @ '':'' @ minute_stamp now"

record vendor_env =
  vv_dump :: "vendor_timeline \<Rightarrow> string"
  vv_parse :: "string \<Rightarrow> vendor_timeline option"
  vv_dump_page :: "vendor_tracking paginated_response \<Rightarrow> string"
  vv_parse_page :: "string \<Rightarrow> vendor_tracking paginated_response option"

definition get_cache :: "vendor_env \<Rightarrow> time \<Rightarrow> string \<Rightarrow> catalog \<Rightarrow> vendor_timeline option" where
  "get_cache env now key s = (case safe_redis_get now key (ca_cache s) of None \<Rightarrow> None | Some raw \<Rightarrow> vv_parse env raw)"

definition set_cache :: "vendor_env \<Rightarrow> time \<Rightarrow> string \<Rightarrow> vendor_timeline \<Rightarrow> int \<Rightarrow> catalog \<Rightarrow> catalog" where
  "set_cache env now key response ttl s = s\<lparr>ca_cache := snd (safe_redis_set now key (vv_dump env response) (Some ttl) (ca_cache s))\<rparr>"

definition timeline_response ::
  "time \<Rightarrow> string \<Rightarrow> string \<Rightarrow> string \<Rightarrow> string \<Rightarrow> time \<Rightarrow> timeline_current \<Rightarrow> timeline_point list \<Rightarrow> vendor_timeline" where
  "timeline_response now name window resolution region since current points =
     \<lparr>vm_vendor_name = name, vm_window = window,
      vm_resolution = (if resolution \<noteq> ''auto'' then resolution else auto_label window),
      vm_region = region, vm_from = since, vm_to = now, vm_current = current, vm_points = points\<rparr>"

definition build_timeline ::
  "time \<Rightarrow> monitor \<Rightarrow> vendor_tracking \<Rightarrow> string list \<Rightarrow> string \<Rightarrow> string \<Rightarrow> string \<Rightarrow> app_error + vendor_timeline" where
  "build_timeline now m v urls window resolution region =
     (let since = now - seconds (the (window_hours window) * 3600);
          buckets = get_timeline_buckets m urls since now (resolve_resolution window resolution) (Some region)
      in case get_incidents_in_window now m urls since now of
           Inl e \<Rightarrow> Inl e
         | Inr incidents \<Rightarrow> Inr (timeline_response now (vt_vendor_name v) window resolution region since
             (current_of (get_latest_observation m urls (Some region))) (associate_incidents now buckets incidents)))"

definition region_or_default :: "string option \<Rightarrow> string" where
  "region_or_default region = (if str_truthy region then the region else DEFAULT_REGION)"

definition timeline_impl ::
  "(string \<Rightarrow> 'k::linorder) \<Rightarrow> vendor_env \<Rightarrow> time \<Rightarrow> string \<Rightarrow> string \<Rightarrow> string \<Rightarrow> string option \<Rightarrow> (vendor_timeline, catalog) service" where
  "timeline_impl coll env now name window resolution region s =
     (if window_hours window = None then (Inl (ValidationException (''Invalid window '' @ quoted window)), s)
      else if resolution \<noteq> ''auto'' \<and> map_of RESOLUTION_SECONDS resolution = None
      then (Inl (ValidationException (''Invalid resolution '' @ quoted resolution)), s)
      else (case vendor_and_urls coll s name of
          Inl e \<Rightarrow> (Inl e, s)
        | Inr (v, _, urls) \<Rightarrow>
            (let key = timeline_key now name window resolution (region_or_default region)
             in case get_cache env now key s of
                  Some cached \<Rightarrow> (Inr cached, s)
                | None \<Rightarrow> (case build_timeline now (ca_monitor s) v urls window resolution (region_or_default region) of
                    Inl e \<Rightarrow> (Inl e, s)
                  | Inr response \<Rightarrow> (Inr response, set_cache env now key response (the (map_of CACHE_TTL window)) s)))))"

text \<open>Errors other than 404 and 422 become an empty timeline.\<close>

definition get_vendor_timeline ::
  "(string \<Rightarrow> 'k::linorder) \<Rightarrow> vendor_env \<Rightarrow> time \<Rightarrow> string \<Rightarrow> string \<Rightarrow> string \<Rightarrow> string option \<Rightarrow> (vendor_timeline, catalog) service" where
  "get_vendor_timeline coll env now name window resolution region s =
     (case timeline_impl coll env now name window resolution region s of
        (Inr r, s1) \<Rightarrow> (Inr r, s1)
      | (Inl (ResourceNotFoundException m), s1) \<Rightarrow> (Inl (ResourceNotFoundException m), s1)
      | (Inl (ValidationException m), s1) \<Rightarrow> (Inl (ValidationException m), s1)
      | (Inl _, s1) \<Rightarrow> (Inr (timeline_response now name window resolution (region_or_default region)
          (now - hours (case window_hours window of None \<Rightarrow> 24 | Some h \<Rightarrow> h)) (current_of None) []), s1))"

section \<open>Developer view\<close>

record developer_info =
  di_vendor :: vendor_detail
  di_current_status :: timeline_current
  di_metrics_24h :: "string \<times> (string \<times> endpoint_stats) list"
  di_recent_incidents :: "vendor_incident list"
  di_uptime_7d :: real
  di_uptime_30d :: real
  di_avg_latency_24h :: real
  di_p95_latency_24h :: "real option"
  di_endpoints :: "vendor_endpoint list"

definition get_developer_info :: "(string \<Rightarrow> 'k::linorder) \<Rightarrow> time \<Rightarrow> catalog \<Rightarrow> string \<Rightarrow> app_error + developer_info" where
  "get_developer_info coll now s name =
     (case (vendor_and_urls coll s name, get_vendor_detail coll s name, get_vendor_metrics coll now s name (Some ''24h''),
         get_vendor_incidents coll now s name 10) of
        (Inr (v, endpoints, urls), Inr detail, Inr metrics, Inr (_, incidents)) \<Rightarrow>
          (let stats = (\<lambda>h. get_endpoint_stats now (ca_monitor s) urls h ''customer_check'')
           in Inr \<lparr>di_vendor = detail,
             di_current_status = current_of (get_latest_observation (ca_monitor s) urls None),
             di_metrics_24h = metrics, di_recent_incidents = incidents,
             di_uptime_7d = py_round 2 (ep_uptime_percentage (stats 168)),
             di_uptime_30d = py_round 2 (ep_uptime_percentage (stats 720)),
             di_avg_latency_24h = py_round 2 (ep_avg_latency_ms (stats 24)),
             di_p95_latency_24h = map_option (py_round 2) (ep_p95_latency_ms (stats 24)), di_endpoints = endpoints\<rparr>)
      | (Inl e, _) \<Rightarrow> Inl e
      | (_, Inl e, _) \<Rightarrow> Inl e
      | (_, _, Inl e, _) \<Rightarrow> Inl e
      | (_, _, _, Inl e) \<Rightarrow> Inl e)"

section \<open>The cached listing\<close>

definition PUBLIC_VENDORS_CACHE_TTL :: int where "PUBLIC_VENDORS_CACHE_TTL = 60"

definition public_vendors_key :: "uuid option \<Rightarrow> nat \<Rightarrow> string" where
  "public_vendors_key cursor limit = ''public_vendors:'' @ (case cursor of None \<Rightarrow> ''start'' | Some i \<Rightarrow> uuid_str i) @
     '':'' @ show_nat limit"

definition vendors_page :: "(string \<Rightarrow> 'k::linorder) \<Rightarrow> catalog \<Rightarrow> uuid option \<Rightarrow> nat \<Rightarrow> vendor_tracking paginated_response" where
  "vendors_page coll s cursor limit =
     (let vendors = list_public coll s (Some (limit + 1)) cursor; has_more = limit < length vendors; items = take limit vendors
      in accept_legacy_kwargs ((no_kwargs items)\<lparr>lk_next_cursor :=
           (if has_more \<and> items \<noteq> [] then Some (uuid_str (vt_id (last items))) else None), lk_has_more := Some has_more\<rparr>))"

definition list_public_vendors ::
  "(string \<Rightarrow> 'k::linorder) \<Rightarrow> vendor_env \<Rightarrow> time \<Rightarrow> uuid option \<Rightarrow> nat \<Rightarrow> catalog \<Rightarrow> vendor_tracking paginated_response \<times> catalog" where
  "list_public_vendors coll env now cursor limit s =
     (let key = public_vendors_key cursor limit;
          cached = (case safe_redis_get now key (ca_cache s) of None \<Rightarrow> None | Some raw \<Rightarrow> if raw = [] then None else vv_parse_page env raw)
      in case cached of
           Some page \<Rightarrow> (page, s)
         | None \<Rightarrow> (let page = vendors_page coll s cursor limit
             in (page, s\<lparr>ca_cache := snd (safe_redis_setex now key PUBLIC_VENDORS_CACHE_TTL (vv_dump_page env page) (ca_cache s))\<rparr>)))"

end
