(* ===== verification/Vendor_Properties.thy ===== *)
theory Vendor_Properties
  imports Vendors Monitoring_Examples
begin

text \<open>
  The catalogue: its cursor listing, the statistics it publishes, and the timeline.
\<close>

section \<open>The listing\<close>

definition catalog_ok :: "(string \<Rightarrow> 'k::linorder) \<Rightarrow> catalog \<Rightarrow> bool" where
  "catalog_ok coll s = (inj coll \<and> distinct (map vt_id (ca_vendors s)))"

lemma ordered_after:
  assumes "inj coll" and "distinct (map vt_id rs)"
  shows "sorted_wrt (vendor_after coll) (ordered_vendors coll rs)"
proof -
  define key where "key r = (coll (vt_display_name r), vt_id r)" for r :: vendor_tracking
  have "distinct (map vt_id (ordered_vendors coll rs))"
    using assms(2) by (simp add: ordered_vendors_def distinct_map)
  then have "distinct (map key (ordered_vendors coll rs))"
    by (auto simp: key_def distinct_map inj_on_def)
  moreover have "ordered_vendors coll rs = sort_key key rs"
    unfolding ordered_vendors_def by (rule arg_cong [where f = "\<lambda>f. sort_key f rs"]) (simp add: key_def fun_eq_iff)
  then have "sorted (map key (ordered_vendors coll rs))"
    by simp
  ultimately have "sorted_wrt (<) (map key (ordered_vendors coll rs))"
    by (simp add: strict_sorted_iff)
  moreover have "vendor_after coll c r" if "key c < key r" for c r
    using that assms(1) by (auto simp: key_def vendor_after_def less_prod_def' le_less inj_def)
  ultimately show ?thesis
    by (auto simp: sorted_wrt_map elim: sorted_wrt_mono_rel [rotated])
qed

lemma after_asym: "inj coll \<Longrightarrow> vendor_after coll r c \<Longrightarrow> \<not> vendor_after coll c r"
  by (auto simp: vendor_after_def)

lemma list_public_after:
  assumes "catalog_ok coll s" and "list_public coll s None None = xs @ r # ys"
  shows "list_public coll s (Some n) (Some (vt_id r)) = take n ys"
proof -
  have ok: "inj coll" "distinct (map vt_id (ca_vendors s))"
    using assms(1) by (simp_all add: catalog_ok_def)
  define rows where "rows = filter vt_is_public (ca_vendors s)"
  have all: "ordered_vendors coll rows = xs @ r # ys"
    using assms(2) by (simp add: list_public_def rows_def)
  have "r \<in> set (ordered_vendors coll rows)"
    unfolding all by simp
  then have "r \<in> set (ca_vendors s)"
    by (simp add: ordered_vendors_def rows_def)
  then have row: "vendor_row s (vt_id r) = Some r"
    using ok(2) by (simp add: vendor_row_def get_row_distinct)
  have "distinct (map vt_id rows)"
    using ok(2) by (simp add: rows_def distinct_map_filter)
  then have "sorted_wrt (vendor_after coll) (xs @ r # ys)"
    using ordered_after [OF ok(1)] all by metis
  then have order: "\<forall>c \<in> set xs. vendor_after coll c r" "\<forall>y \<in> set ys. vendor_after coll r y"
    by (simp_all add: sorted_wrt_append)
  have "filter (vendor_after coll r) xs = []" "filter (vendor_after coll r) ys = ys"
    using order after_asym [OF ok(1)] by (simp_all add: filter_empty_conv filter_id_conv)
  moreover have "\<not> vendor_after coll r r"
    by (simp add: vendor_after_def)
  ultimately have "filter (vendor_after coll r) (xs @ r # ys) = ys"
    by simp
  then have "ordered_vendors coll (filter (vendor_after coll r) rows) = ys"
    using all unfolding ordered_vendors_def by (metis filter_sort)
  then show ?thesis
    by (simp add: list_public_def rows_def row)
qed

interpretation vendor_listing:
  cursor_listing "\<lambda>s n cursor. list_public coll s (Some n) cursor" vt_id "\<lambda>s. list_public coll s None None" "catalog_ok coll" for coll
  by unfold_locales (auto simp: list_public_after, simp add: list_public_def)

text \<open>
  C32: Following the cursors of the public listing gives every public vendor exactly once, by name, whatever
  the page size, in pages of at most that size.
\<close>

theorem catalog_pages:
  assumes "inj coll" and "distinct (map vt_id (ca_vendors s))" and "0 < limit" and "length (ca_vendors s) < fuel * limit"
  shows "concat (walk_pages (\<lambda>n cursor. list_public coll s (Some n) cursor) vt_id limit fuel None) =
      ordered_vendors coll (filter vt_is_public (ca_vendors s)) \<and>
    (\<forall>page \<in> set (walk_pages (\<lambda>n cursor. list_public coll s (Some n) cursor) vt_id limit fuel None). length page \<le> limit) \<and>
    length (walk_pages (\<lambda>n cursor. list_public coll s (Some n) cursor) vt_id limit fuel None) \<le>
      length (filter vt_is_public (ca_vendors s)) div limit + 1"
proof -
  have rows: "list_public coll s None None = ordered_vendors coll (filter vt_is_public (ca_vendors s))"
    by (simp add: list_public_def)
  have len: "length (list_public coll s None None) = length (filter vt_is_public (ca_vendors s))"
    by (simp add: rows ordered_vendors_def)
  have "length (list_public coll s None None) < fuel * limit"
    unfolding len using assms(4) by (meson le_less_trans length_filter_le)
  then show ?thesis
    using vendor_listing.walk_all [of limit coll s fuel] assms(1-3) unfolding rows by (simp add: catalog_ok_def ordered_vendors_def)
qed

definition example_vendor :: "uuid \<Rightarrow> string \<Rightarrow> bool \<Rightarrow> vendor_tracking" where
  "example_vendor i name public = \<lparr>vt_id = i, vt_vendor_name = name, vt_display_name = name, vt_endpoint_url = ''https://a.io/'',
     vt_category = ''c'', vt_is_public = public, vt_last_check_at = None, vt_created_at = 0\<rparr>"

definition example_catalog :: "monitor \<Rightarrow> catalog" where
  "example_catalog m = \<lparr>ca_monitor = m, ca_vendors = [example_vendor 2 ''b'' True, example_vendor 1 ''b'' True,
       example_vendor 3 ''x'' False, example_vendor 4 ''a'' True],
     ca_endpoints = [], ca_cache = \<lparr>r_up = True, r_kv = (\<lambda>_. None)\<rparr>\<rparr>"

text \<open>A collation: the code points as digits.\<close>

fun code_points :: "string \<Rightarrow> nat" where
  "code_points [] = 0"
| "code_points (c # s) = 1 + of_char c + 256 * code_points s"

lemma code_points_inj: "inj code_points"
proof (rule injI)
  fix s t
  show "code_points s = code_points t \<Longrightarrow> s = t"
  proof (induction s arbitrary: t)
    case Nil
    then show ?case
      by (cases t) simp_all
  next
    case (Cons c s)
    then obtain d u where t: "t = d # u"
      by (cases t) auto
    have lt: "(of_char c :: nat) < 256" "(of_char d :: nat) < 256"
      by simp_all
    have eq: "of_char c + 256 * code_points s = of_char d + 256 * code_points u"
      using Cons.prems t by simp
    then have "(of_char c :: nat) = of_char d"
      using lt by (metis mod_less mod_mult_self2)
    then show ?case
      using eq Cons.IH [of u] t by simp
  qed
qed

theorem catalog_pages_witness:
  "concat (walk_pages (\<lambda>n cursor. list_public code_points (example_catalog empty_monitor) (Some n) cursor) vt_id 2 3 None) =
     ordered_vendors code_points (filter vt_is_public (ca_vendors (example_catalog empty_monitor)))"
  using catalog_pages [OF code_points_inj, of "example_catalog empty_monitor" 2 3]
  by (simp add: example_catalog_def example_vendor_def)

section \<open>Statistics\<close>

text \<open>Averages and percentiles stay between the smallest and the largest value.\<close>

lemma avg_between:
  assumes "xs \<noteq> []" and "\<forall>x \<in> set xs. a \<le> x \<and> x \<le> b"
  shows "\<exists>v. avg xs = Some v \<and> a \<le> v \<and> v \<le> b"
proof -
  have "real (length xs) * a \<le> sum_list xs \<and> sum_list xs \<le> real (length xs) * b"
    using assms(2) by (induction xs) (auto simp: algebra_simps)
  then show ?thesis
    using assms(1) by (simp add: avg_def le_divide_eq divide_le_eq mult.commute)
qed

lemma percentile_between:
  assumes "xs \<noteq> []" and "\<forall>x \<in> set xs. a \<le> x \<and> x \<le> b" and "0 \<le> p" and "p \<le> 1"
  shows "\<exists>v. percentile_cont p xs = Some v \<and> a \<le> v \<and> v \<le> b"
proof -
  define ys where "ys = sort xs"
  define k where "k = p * real (length ys - 1)"
  have len: "0 < length ys"
    using assms(1) by (simp add: ys_def)
  have k: "0 \<le> k" "k \<le> real (length ys - 1)"
    using assms(3,4) by (simp_all add: k_def mult_left_le_one_le)
  have "nat \<lfloor>k\<rfloor> < length ys" "nat \<lceil>k\<rceil> < length ys"
    using k len by linarith+
  then have mem: "ys ! nat \<lfloor>k\<rfloor> \<in> set xs" "ys ! nat \<lceil>k\<rceil> \<in> set xs"
    by (metis nth_mem set_sort ys_def)+
  define t where "t = k - real (nat \<lfloor>k\<rfloor>)"
  have t: "0 \<le> t" "t \<le> 1"
    using k(1) by (simp_all add: t_def) linarith
  have v: "percentile_cont p xs = Some ((1 - t) * ys ! nat \<lfloor>k\<rfloor> + t * ys ! nat \<lceil>k\<rceil>)"
    using assms(1) by (simp add: percentile_cont_def Let_def ys_def k_def t_def algebra_simps)
  have "a \<le> (1 - t) * ys ! nat \<lfloor>k\<rfloor> + t * ys ! nat \<lceil>k\<rceil>"
    using convex_bound_le [of "- ys ! nat \<lfloor>k\<rfloor>" "- a" "- ys ! nat \<lceil>k\<rceil>" "1 - t" t] mem assms(2) t by simp
  moreover have "(1 - t) * ys ! nat \<lfloor>k\<rfloor> + t * ys ! nat \<lceil>k\<rceil> \<le> b"
    using convex_bound_le [of "ys ! nat \<lfloor>k\<rfloor>" b "ys ! nat \<lceil>k\<rceil>" "1 - t" t] mem assms(2) t by simp
  ultimately show ?thesis
    using v by blast
qed

lemma endpoint_stats_between:
  assumes "obs \<noteq> []" and "\<forall>ob \<in> set obs. of_int a \<le> ob_latency_ms ob \<and> ob_latency_ms ob \<le> of_int b"
  shows "of_int a \<le> ep_avg_latency_ms (endpoint_stats_of obs) \<and> ep_avg_latency_ms (endpoint_stats_of obs) \<le> of_int b \<and>
    (\<exists>p. ep_p95_latency_ms (endpoint_stats_of obs) = Some p \<and> of_int a \<le> p \<and> p \<le> of_int b)"
  using avg_between [of "map ob_latency_ms obs" "of_int a" "of_int b"]
    percentile_between [of "map ob_latency_ms obs" "of_int a" "of_int b" "95 / 100"] assms
  by (auto simp: endpoint_stats_of_def float_or_zero_def py_round_between)

text \<open>
  The metrics published for a vendor are percentages and latencies within those observed: every uptime
  is between 0 and 100, and in a window with observations the average and the 95th percentile are, after
  rounding, between any whole bounds of the latencies; the counts are those of all customers' checks.
\<close>

theorem published_metrics_bounded:
  assumes "get_vendor_metrics coll now s name window = Inr (vendor, metrics)" and "(w, stats) \<in> set metrics"
    and "vendor_and_urls coll s name = Inr (v, endpoints, urls)" and "window_hours w = Some h"
  shows "0 \<le> ep_uptime_percentage stats \<and> ep_uptime_percentage stats \<le> 100 \<and>
    ep_total stats = length (endpoint_rows now (ca_monitor s) urls h ''customer_check'') \<and>
    (\<forall>a b. ep_total stats \<noteq> 0 \<and> (\<forall>ob \<in> set (endpoint_rows now (ca_monitor s) urls h ''customer_check'').
        of_int a \<le> ob_latency_ms ob \<and> ob_latency_ms ob \<le> of_int b) \<longrightarrow>
      of_int a \<le> ep_avg_latency_ms stats \<and> ep_avg_latency_ms stats \<le> of_int b \<and>
      (\<exists>p. ep_p95_latency_ms stats = Some p \<and> of_int a \<le> p \<and> p \<le> of_int b))"
proof -
  have stats: "stats = endpoint_stats_of (endpoint_rows now (ca_monitor s) urls h ''customer_check'')"
    using assms by (auto simp: get_vendor_metrics_def get_endpoint_stats_def Let_def split: if_splits)
  show ?thesis
    unfolding stats using endpoint_stats_between uptime_bounds by (fastforce simp: endpoint_stats_of_def)
qed

definition example_observation :: "uuid \<Rightarrow> time \<Rightarrow> real \<Rightarrow> observation" where
  "example_observation i t latency = \<lparr>ob_id = i, ob_timestamp = t, ob_source_type = ''customer_check'', ob_source_id = Some 5,
     ob_org_id = Some 1, ob_region = ''us-east-1'', ob_endpoint_url = ''https://a.io/'', ob_latency_ms = latency,
     ob_status_code = Some 200, ob_response_time_ms = None, ob_error_type = None, ob_error_message = None, ob_metadata = []\<rparr>"

definition example_observed :: monitor where
  "example_observed = empty_monitor\<lparr>mo_dependencies := [example_dependency []], mo_incidents := [example_incident],
     mo_observations := [example_observation 60 50 12, example_observation 61 70 30]\<rparr>"

lemma example_vendor_urls:
  "vendor_and_urls code_points (example_catalog example_observed) ''a'' = Inr (example_vendor 4 ''a'' True, [], [''https://a.io/''])"
  by (simp add: vendor_and_urls_def vendor_get_by_name_def example_catalog_def example_vendor_def get_row_def lower_def lower_char_def
      list_vendor_endpoints_def vendor_urls_def Let_def)

theorem published_metrics_bounded_witness:
  "\<exists>stats. get_vendor_metrics code_points 100 (example_catalog example_observed) ''a'' (Some ''24h'') = Inr (''a'', [(''24h'', stats)]) \<and>
     12 \<le> ep_avg_latency_ms stats \<and> ep_avg_latency_ms stats \<le> 30"
proof -
  let ?stats = "get_endpoint_stats 100 example_observed [''https://a.io/''] 24 ''customer_check''"
  have w: "window_hours ''24h'' = Some 24"
    by (simp add: window_hours_def WINDOW_HOURS_def)
  have m: "get_vendor_metrics code_points 100 (example_catalog example_observed) ''a'' (Some ''24h'') = Inr (''a'', [(''24h'', ?stats)])"
    unfolding get_vendor_metrics_def example_vendor_urls
    by (simp add: str_truthy_def w example_vendor_def example_catalog_def)
  have rows: "endpoint_rows 100 example_observed [''https://a.io/''] 24 ''customer_check'' = [example_observation 60 50 12, example_observation 61 70 30]"
    by (simp add: endpoint_rows_def example_observed_def example_observation_def time_defs)
  have cat: "ca_monitor (example_catalog example_observed) = example_observed"
    by (simp add: example_catalog_def)
  have "(''24h'', ?stats) \<in> set [(''24h'', ?stats)]"
    by simp
  note stats = published_metrics_bounded [OF m this example_vendor_urls w]
  have "12 \<le> ep_avg_latency_ms ?stats \<and> ep_avg_latency_ms ?stats \<le> 30"
    using stats [THEN conjunct2, THEN conjunct2, THEN conjunct2, rule_format, of 12 30] stats [THEN conjunct2, THEN conjunct2, THEN conjunct1]
    by (simp add: cat rows) (simp add: example_observation_def)
  then show ?thesis
    using m by blast
qed

section \<open>The timeline\<close>

definition finish :: "time \<Rightarrow> incident \<Rightarrow> time" where
  "finish now x = (case in_resolved_at x of None \<Rightarrow> now | Some t \<Rightarrow> t)"

definition active_in :: "time \<Rightarrow> time \<Rightarrow> incident \<Rightarrow> bool" where
  "active_in now since x = (in_started_at x < finish now x \<and> in_started_at x < now \<and> since < finish now x)"

text \<open>The first incident of the window that overlaps is one that started first.\<close>

lemma first_incident:
  assumes "get_incidents_in_window now m urls since now = Inr rows" and "since < now"
  shows "case map_option fst (find (bucket_overlaps now b) rows) of
     None \<Rightarrow> \<forall>x \<in> set (map fst (incident_rows m urls)). \<not> (active_in now since x \<and> b < finish now x \<and> in_started_at x < b + minutes 10)
   | Some i \<Rightarrow> \<exists>x \<in> set (map fst (incident_rows m urls)). in_id x = i \<and>
       (active_in now since x \<and> b < finish now x \<and> in_started_at x < b + minutes 10) \<and>
       (\<forall>y \<in> set (map fst (incident_rows m urls)). active_in now since y \<and> b < finish now y \<and> in_started_at y < b + minutes 10 \<longrightarrow>
          in_started_at x \<le> in_started_at y)"
proof -
  obtain xs where xs: "xs = map fst (incident_rows m urls)"
    by simp
  let ?active = "sort_key in_started_at (filter (active_in now since) xs)"
  have P: "(\<lambda>x. in_started_at x < finish now x \<and> since < now \<and> in_started_at x < now \<and> since < finish now x) = active_in now since"
    using assms(2) by (auto simp: active_in_def)
  have "rows = map (\<lambda>x. (in_id x, in_started_at x, in_resolved_at x)) (sort_key in_started_at
      (filter (\<lambda>x. in_started_at x < finish now x \<and> since < now \<and> in_started_at x < now \<and> since < finish now x) xs))"
    using assms(1) by (simp add: get_incidents_in_window_def Let_def xs finish_def split: if_splits)
  then have rows: "rows = map (\<lambda>x. (in_id x, in_started_at x, in_resolved_at x)) ?active"
    unfolding P .
  let ?over = "\<lambda>x. b < finish now x \<and> in_started_at x < b + minutes 10"
  have over: "bucket_overlaps now b (in_id x, in_started_at x, in_resolved_at x) = ?over x" for x
    by (simp add: bucket_overlaps_def finish_def BUCKET_ESTIMATE_def minutes_def)
  have "find (bucket_overlaps now b) (map (\<lambda>x. (in_id x, in_started_at x, in_resolved_at x)) ys) =
      map_option (\<lambda>x. (in_id x, in_started_at x, in_resolved_at x)) (find ?over ys)" for ys
    by (induction ys) (simp_all add: over)
  then have found: "map_option fst (find (bucket_overlaps now b) rows) = map_option in_id (find ?over ?active)"
    by (simp add: rows option.map_comp comp_def)
  have first: "in_started_at x \<le> in_started_at y"
    if "find ?over ys = Some x" "sorted (map in_started_at ys)" "y \<in> set ys" "?over y" for x y ys
    using that by (induction ys) (auto split: if_splits)
  show ?thesis
  proof (cases "find ?over ?active")
    case None
    then have "\<forall>x \<in> set ?active. \<not> ?over x"
      unfolding find_None_iff by blast
    then show ?thesis
      unfolding found None xs [symmetric] by auto
  next
    case (Some x)
    then have "x \<in> set ?active" and over_x: "?over x"
      by (auto simp only: find_Some_iff nth_mem)
    then have "x \<in> set xs" "active_in now since x"
      by simp_all
    moreover have "in_started_at x \<le> in_started_at y" if "y \<in> set xs" "active_in now since y" "?over y" for y
      by (rule first [OF Some]) (use that in auto)
    ultimately show ?thesis
      unfolding found Some xs [symmetric] using over_x by auto
  qed
qed

text \<open>The bucket of a point's start holds the times of one resolution from there.\<close>

lemma resolution_positive:
  assumes "window_hours window = Some h" and "resolution = ''auto'' \<or> map_of RESOLUTION_SECONDS resolution \<noteq> None"
  shows "0 < resolve_resolution window resolution"
  using assms
  by (auto simp: resolve_resolution_def window_hours_def WINDOW_HOURS_def AUTO_RESOLUTION_def RESOLUTION_SECONDS_def split: if_splits)

lemma bucket_start_iff:
  assumes "0 < w" and "b = bucket_start w t0"
  shows "(bucket_start w t = b) = (b \<le> t \<and> t < b + seconds w)"
proof -
  define k where "k = (t0 - BIN_ORIGIN) div seconds w"
  have b: "b = BIN_ORIGIN + seconds w * k"
    by (simp add: assms(2) bucket_start_def k_def mult.commute)
  show ?thesis
  proof
    assume "bucket_start w t = b"
    then show "b \<le> t \<and> t < b + seconds w"
      using bucket_contains [OF assms(1), of t] by simp
  next
    assume "b \<le> t \<and> t < b + seconds w"
    then have "(t - BIN_ORIGIN) div seconds w = k"
      by (intro int_div_pos_eq [where r = "t - b"]) (simp_all add: b)
    then show "bucket_start w t = b"
      by (simp add: bucket_start_def b mult.commute)
  qed
qed

text \<open>The row of every bucket with an observation, each bucket once and in order.\<close>

lemma bucket_rows:
  assumes "p \<in> set (get_timeline_buckets m urls since until w region)" and "0 < w"
  shows "tr_obs_count p = length (filter (\<lambda>ob. tr_bucket_start p \<le> ob_timestamp ob \<and> ob_timestamp ob < tr_bucket_start p + seconds w)
    (timeline_rows m urls since until region)) \<and> 0 < tr_obs_count p"
proof -
  let ?obs = "timeline_rows m urls since until region"
  obtain ob0 where ob0: "ob0 \<in> set ?obs" "p = bucket_of (bucket_start w (ob_timestamp ob0))
      (filter (\<lambda>ob. bucket_start w (ob_timestamp ob) = bucket_start w (ob_timestamp ob0)) ?obs)"
    using assms(1) by (auto simp: get_timeline_buckets_def Let_def)
  then have "tr_obs_count p = length (filter (\<lambda>ob. bucket_start w (ob_timestamp ob) = tr_bucket_start p) ?obs)"
    "tr_bucket_start p = bucket_start w (ob_timestamp ob0)"
    by (simp_all add: bucket_of_def)
  moreover have "0 < length (filter (\<lambda>ob. bucket_start w (ob_timestamp ob) = bucket_start w (ob_timestamp ob0)) ?obs)"
    using ob0(1) by (auto simp: filter_empty_conv)
  ultimately show ?thesis
    using bucket_start_iff [OF assms(2), of "tr_bucket_start p" "ob_timestamp ob0"] by simp
qed

lemma bucket_starts:
  "map tr_bucket_start (get_timeline_buckets m urls since until w region) =
    sort (remdups (map (\<lambda>ob. bucket_start w (ob_timestamp ob)) (timeline_rows m urls since until region)))"
  by (simp add: get_timeline_buckets_def Let_def comp_def bucket_of_def)

text \<open>
  C33: The points of a timeline that is built start at distinct times, in order; each counts exactly the
  observations of the region and the window whose time lies within one resolution from its start, at least
  one, and every such observation is in a point.  A point shows an incident exactly when an
  incident of a dependency with one of the vendor's addresses was active in the window and at some
  time of the ten minutes from the point's start, whatever the resolution; of several it shows one
  that started first.  (So in the longer buckets an incident that starts later is missing, and a
  shorter bucket shows one that starts after it ended.)
\<close>

theorem timeline_points_exact:
  assumes "build_timeline now m v urls window resolution region = Inr r" and "window_hours window = Some h" and "0 < h"
    and "resolution = ''auto'' \<or> map_of RESOLUTION_SECONDS resolution \<noteq> None"
  defines "obs \<equiv> timeline_rows m urls (now - hours h) now (Some region)"
    and "w \<equiv> seconds (resolve_resolution window resolution)"
    and "shown \<equiv> \<lambda>b x. active_in now (now - hours h) x \<and> b < finish now x \<and> in_started_at x < b + minutes 10"
  shows "sorted_wrt (<) (map (\<lambda>p. tr_bucket_start (tp_row p)) (vm_points r)) \<and>
    (\<forall>ob \<in> set obs. \<exists>p \<in> set (vm_points r). tr_bucket_start (tp_row p) \<le> ob_timestamp ob \<and> ob_timestamp ob < tr_bucket_start (tp_row p) + w) \<and>
    (\<forall>p \<in> set (vm_points r). let b = tr_bucket_start (tp_row p) in
      tr_obs_count (tp_row p) = length (filter (\<lambda>ob. b \<le> ob_timestamp ob \<and> ob_timestamp ob < b + w) obs) \<and>
      0 < tr_obs_count (tp_row p) \<and>
      (case tp_incident_id p of
         None \<Rightarrow> \<forall>x \<in> set (map fst (incident_rows m urls)). \<not> shown b x
       | Some i \<Rightarrow> \<exists>x \<in> set (map fst (incident_rows m urls)). in_id x = i \<and> shown b x \<and>
           (\<forall>y \<in> set (map fst (incident_rows m urls)). shown b y \<longrightarrow> in_started_at x \<le> in_started_at y)))"
proof -
  have since: "now - seconds (the (window_hours window) * 3600) = now - hours h"
    using assms(2) by (simp add: hours_def mult.commute)
  let ?res = "resolve_resolution window resolution" and ?since = "now - hours h"
  let ?rows = "get_timeline_buckets m urls ?since now ?res (Some region)"
  obtain incidents where inc: "get_incidents_in_window now m urls ?since now = Inr incidents"
    and points: "vm_points r = associate_incidents now ?rows incidents"
    using assms(1) unfolding build_timeline_def Let_def since
    by (auto simp: timeline_response_def split: sum.splits)
  have pos: "0 < ?res"
    by (rule resolution_positive [OF assms(2,4)])
  have rows: "map tp_row (vm_points r) = ?rows"
    by (simp add: points associate_incidents_def comp_def)
  have starts: "map (\<lambda>p. tr_bucket_start (tp_row p)) (vm_points r) = sort (remdups (map (\<lambda>ob. bucket_start ?res (ob_timestamp ob)) obs))"
    unfolding obs_def bucket_starts [symmetric] rows [symmetric] by simp
  have order: "sorted_wrt (<) (map (\<lambda>p. tr_bucket_start (tp_row p)) (vm_points r))"
    unfolding starts by (simp add: strict_sorted_iff)
  have cover: "\<exists>p \<in> set (vm_points r). tr_bucket_start (tp_row p) \<le> ob_timestamp ob \<and> ob_timestamp ob < tr_bucket_start (tp_row p) + w"
    if ob: "ob \<in> set obs" for ob
  proof -
    have "bucket_start ?res (ob_timestamp ob) \<in> set (map (\<lambda>p. tr_bucket_start (tp_row p)) (vm_points r))"
      unfolding starts using ob by simp
    then obtain p where "p \<in> set (vm_points r)" "tr_bucket_start (tp_row p) = bucket_start ?res (ob_timestamp ob)"
      by auto
    then show ?thesis
      using bucket_contains [OF pos, of "ob_timestamp ob"] unfolding w_def by (intro bexI [of _ p]) simp_all
  qed
  have count: "tr_obs_count (tp_row p) = length (filter (\<lambda>ob. tr_bucket_start (tp_row p) \<le> ob_timestamp ob \<and>
      ob_timestamp ob < tr_bucket_start (tp_row p) + w) obs) \<and> 0 < tr_obs_count (tp_row p)" if "p \<in> set (vm_points r)" for p
  proof -
    have "tp_row p \<in> set ?rows"
      using that unfolding rows [symmetric] by simp
    from bucket_rows [OF this pos] show ?thesis
      unfolding obs_def w_def .
  qed
  have attached: "case tp_incident_id p of
         None \<Rightarrow> \<forall>x \<in> set (map fst (incident_rows m urls)). \<not> shown (tr_bucket_start (tp_row p)) x
       | Some i \<Rightarrow> \<exists>x \<in> set (map fst (incident_rows m urls)). in_id x = i \<and> shown (tr_bucket_start (tp_row p)) x \<and>
           (\<forall>y \<in> set (map fst (incident_rows m urls)). shown (tr_bucket_start (tp_row p)) y \<longrightarrow> in_started_at x \<le> in_started_at y)"
    if "p \<in> set (vm_points r)" for p
  proof -
    have "tp_incident_id p = map_option fst (find (bucket_overlaps now (tr_bucket_start (tp_row p))) incidents)"
      using that by (auto simp: points associate_incidents_def)
    moreover have "?since < now"
      using assms(3) by (simp add: hours_def seconds_def)
    ultimately show ?thesis
      using first_incident [OF inc] unfolding shown_def by simp
  qed
  show ?thesis
    unfolding Let_def by (intro conjI ballI order cover count [THEN conjunct1] count [THEN conjunct2] attached)
qed

text \<open>Two observations in one point of a minute, with the incident that was open.\<close>

theorem timeline_points_exact_witness:
  "\<exists>r. build_timeline 100 example_observed (example_vendor 4 ''a'' True) [''https://a.io/''] ''24h'' ''1m'' ''us-east-1'' = Inr r \<and>
     (\<exists>p \<in> set (vm_points r). tr_bucket_start (tp_row p) \<le> 70 \<and> 70 < tr_bucket_start (tp_row p) + minutes 1)"
proof -
  have "\<exists>rows. get_incidents_in_window 100 example_observed [''https://a.io/''] (100 - seconds (24 * 3600)) 100 = Inr rows"
    by (simp add: get_incidents_in_window_def incident_rows_def example_observed_def example_incident_def dependency_row_def
        get_row_def example_dependency_def)
  then have "\<exists>r. build_timeline 100 example_observed (example_vendor 4 ''a'' True) [''https://a.io/''] ''24h'' ''1m'' ''us-east-1'' = Inr r"
    by (auto simp: build_timeline_def window_hours_def WINDOW_HOURS_def Let_def)
  then obtain r where r: "build_timeline 100 example_observed (example_vendor 4 ''a'' True) [''https://a.io/''] ''24h'' ''1m'' ''us-east-1'' = Inr r"
    by blast
  have "timeline_rows example_observed [''https://a.io/''] (100 - hours 24) 100 (Some ''us-east-1'') =
      [example_observation 60 50 12, example_observation 61 70 30]"
    by (simp add: timeline_rows_def example_observed_def example_observation_def time_defs)
  then have mem: "example_observation 61 70 30 \<in> set (timeline_rows example_observed [''https://a.io/''] (100 - hours 24) 100 (Some ''us-east-1''))"
    by simp
  have h: "window_hours ''24h'' = Some 24" "(0::int) < 24" "''1m'' = ''auto'' \<or> map_of RESOLUTION_SECONDS ''1m'' \<noteq> None"
    by (simp_all add: window_hours_def WINDOW_HOURS_def RESOLUTION_SECONDS_def)
  have w: "seconds (resolve_resolution ''24h'' ''1m'') = minutes 1" "ob_timestamp (example_observation 61 70 30) = 70"
    by (simp_all add: resolve_resolution_def RESOLUTION_SECONDS_def minutes_def example_observation_def)
  from timeline_points_exact [OF r h, THEN conjunct2, THEN conjunct1, THEN bspec, OF mem] r show ?thesis
    unfolding w by blast
qed

end
