(* ===== verification/Referrals.thy ===== *)
theory Referrals
  imports Billing Monitoring Sessions
begin

text \<open>
  \<^verbatim>\<open>modules/referrals\<close>: the referral of a new user, its two rewards, their claims and the
  leaderboard.  The columns \<^verbatim>\<open>updated_at\<close> of the users, which the claim reads, and the random fragments
  of the codes are arguments.  Referral codes themselves are modelled with the partner program.
\<close>

section \<open>Tables\<close>

record referral =
  fr_id :: uuid
  fr_referrer_id :: uuid
  fr_referred_id :: uuid
  fr_referral_code :: string
  fr_referral_tier :: string
  fr_status :: string
  fr_referred_email :: string
  fr_referred_org_id :: "uuid option"
  fr_activated_at :: "time option"
  fr_created_at :: time

record referral_reward =
  rw_id :: uuid
  rw_referral_id :: uuid
  rw_beneficiary_user_id :: uuid
  rw_beneficiary_org_id :: "uuid option"
  rw_type :: string
  rw_value :: int
  rw_status :: string
  rw_activated_at :: "time option"
  rw_expires_at :: "time option"
  rw_claimed_at :: "time option"
  rw_created_at :: time

record org_plan_override =
  ov_id :: uuid
  ov_org_id :: uuid
  ov_override_type :: string
  ov_override_value :: int
  ov_source :: string
  ov_source_referral_id :: "uuid option"
  ov_is_active :: bool
  ov_expires_at :: "time option"

record program =
  rf_monitor :: monitor
  rf_referrals :: "referral list"
  rf_rewards :: "referral_reward list"
  rf_overrides :: "org_plan_override list"

definition rf_db :: "program \<Rightarrow> db" where "rf_db s = mo_db (rf_monitor s)"

definition put_rf_db :: "db \<Rightarrow> program \<Rightarrow> program" where
  "put_rf_db d s = s\<lparr>rf_monitor := (rf_monitor s)\<lparr>mo_db := d\<rparr>\<rparr>"

definition on_rf_db :: "('a, db) service \<Rightarrow> ('a, program) service" where
  "on_rf_db f s = (case f (rf_db s) of (r, d) \<Rightarrow> (r, put_rf_db d s))"

section \<open>Repositories\<close>

definition referral_insert ::
  "uuid \<Rightarrow> time \<Rightarrow> uuid \<Rightarrow> uuid \<Rightarrow> string \<Rightarrow> string \<Rightarrow> uuid option \<Rightarrow> string \<Rightarrow> (referral, program) service" where
  "referral_insert i now referrer_id referred_id code email org_id tier s =
     (let r = \<lparr>fr_id = i, fr_referrer_id = referrer_id, fr_referred_id = referred_id, fr_referral_code = code,
        fr_referral_tier = tier, fr_status = ''pending'', fr_referred_email = email, fr_referred_org_id = org_id,
        fr_activated_at = None, fr_created_at = now\<rparr>
      in if length code > 20 \<or> length email > 255 then (Inl (ValueError ''value too long for type character varying''), s)
         else if \<exists>x \<in> set (rf_referrals s). fr_referrer_id x = referrer_id \<and> fr_referred_id x = referred_id
         then (Inl (IntegrityError ''uq_referrals_referrer_referred''), s)
         else (Inr r, s\<lparr>rf_referrals := rf_referrals s @ [r]\<rparr>))"

definition referral_by_id :: "program \<Rightarrow> uuid \<Rightarrow> referral option" where
  "referral_by_id s i = get_row fr_id i (rf_referrals s)"

definition get_by_referrer_and_referred :: "program \<Rightarrow> uuid \<Rightarrow> uuid \<Rightarrow> referral option" where
  "get_by_referrer_and_referred s referrer_id referred_id =
     find (\<lambda>r. fr_referrer_id r = referrer_id \<and> fr_referred_id r = referred_id) (rf_referrals s)"

text \<open>The email column is not unique: with two rows \<^verbatim>\<open>scalar_one_or_none\<close> raises.\<close>

definition get_by_referred_email :: "program \<Rightarrow> string \<Rightarrow> app_error + referral option" where
  "get_by_referred_email s email = (case filter (\<lambda>r. fr_referred_email r = email) (rf_referrals s) of
     [] \<Rightarrow> Inr None | [r] \<Rightarrow> Inr (Some r) | _ \<Rightarrow> Inl MultipleResultsFound)"

definition list_by_referrer :: "program \<Rightarrow> uuid \<Rightarrow> referral list" where
  "list_by_referrer s referrer_id = sort_key (\<lambda>r. - fr_created_at r) (filter (\<lambda>r. fr_referrer_id r = referrer_id) (rf_referrals s))"

definition count_by_referrer :: "program \<Rightarrow> uuid \<Rightarrow> nat \<times> nat" where
  "count_by_referrer s referrer_id = (length (filter (\<lambda>r. fr_referrer_id r = referrer_id) (rf_referrals s)),
     length (filter (\<lambda>r. fr_referrer_id r = referrer_id \<and> fr_status r = ''active'') (rf_referrals s)))"

definition referral_update_status :: "time \<Rightarrow> referral \<Rightarrow> string \<Rightarrow> program \<Rightarrow> program" where
  "referral_update_status now r status s = s\<lparr>rf_referrals := save_row fr_id (r\<lparr>fr_status := status,
     fr_activated_at := (if status = ''active'' then Some now else fr_activated_at r)\<rparr>) (rf_referrals s)\<rparr>"

definition month_start :: "time \<Rightarrow> time" where
  "month_start now = (epoch_day now - (civil_day (epoch_day now) - 1)) * days 1"

definition leaderboard_rows :: "time \<Rightarrow> program \<Rightarrow> string \<Rightarrow> (uuid \<times> nat \<times> nat) list" where
  "leaderboard_rows now s period =
     (let rows = filter (\<lambda>r. if period = ''monthly'' then month_start now \<le> fr_created_at r
            else if period = ''weekly'' then now - days 7 \<le> fr_created_at r else True) (rf_referrals s)
      in map (\<lambda>u. let g = filter (\<lambda>r. fr_referrer_id r = u) rows
           in (u, length g, length (filter (\<lambda>r. fr_status r = ''active'') g))) (remdups (map fr_referrer_id rows)))"

definition repo_leaderboard :: "time \<Rightarrow> program \<Rightarrow> string \<Rightarrow> nat \<Rightarrow> nat \<Rightarrow> (uuid \<times> nat \<times> nat) list \<times> nat" where
  "repo_leaderboard now s period offset limit = (page_of (\<lambda>(u, tot, active). - int tot) offset limit (leaderboard_rows now s period),
     length (leaderboard_rows now s period))"

definition reward_create ::
  "uuid \<Rightarrow> time \<Rightarrow> uuid \<Rightarrow> uuid \<Rightarrow> string \<Rightarrow> int \<Rightarrow> uuid option \<Rightarrow> time option \<Rightarrow> program \<Rightarrow> program" where
  "reward_create i now referral_id user_id ty v org_id expires_at s = s\<lparr>rf_rewards := rf_rewards s @
     [\<lparr>rw_id = i, rw_referral_id = referral_id, rw_beneficiary_user_id = user_id, rw_beneficiary_org_id = org_id, rw_type = ty,
       rw_value = v, rw_status = ''pending'', rw_activated_at = None, rw_expires_at = expires_at, rw_claimed_at = None,
       rw_created_at = now\<rparr>]\<rparr>"

definition reward_get_by_id :: "program \<Rightarrow> uuid \<Rightarrow> referral_reward option" where
  "reward_get_by_id s i = get_row rw_id i (rf_rewards s)"

definition rewards_list_by_user :: "program \<Rightarrow> uuid \<Rightarrow> referral_reward list" where
  "rewards_list_by_user s user_id = sort_key (\<lambda>r. - rw_created_at r) (filter (\<lambda>r. rw_beneficiary_user_id r = user_id) (rf_rewards s))"

definition rewards_list_by_referral :: "program \<Rightarrow> uuid \<Rightarrow> referral_reward list" where
  "rewards_list_by_referral s i = sort_key (\<lambda>r. - rw_created_at r) (filter (\<lambda>r. rw_referral_id r = i) (rf_rewards s))"

definition reward_activate :: "time \<Rightarrow> referral_reward \<Rightarrow> program \<Rightarrow> referral_reward \<times> program" where
  "reward_activate now r s = (let r' = r\<lparr>rw_status := ''active'', rw_activated_at := Some now\<rparr>
     in (r', s\<lparr>rf_rewards := save_row rw_id r' (rf_rewards s)\<rparr>))"

definition reward_claim :: "time \<Rightarrow> referral_reward \<Rightarrow> program \<Rightarrow> program" where
  "reward_claim now r s = s\<lparr>rf_rewards := save_row rw_id (r\<lparr>rw_status := ''claimed'', rw_claimed_at := Some now\<rparr>) (rf_rewards s)\<rparr>"

definition override_create ::
  "uuid \<Rightarrow> uuid \<Rightarrow> string \<Rightarrow> int \<Rightarrow> string \<Rightarrow> uuid option \<Rightarrow> time option \<Rightarrow> program \<Rightarrow> program" where
  "override_create i org_id ty v source referral_id expires_at s = s\<lparr>rf_overrides := rf_overrides s @
     [\<lparr>ov_id = i, ov_org_id = org_id, ov_override_type = ty, ov_override_value = v, ov_source = source,
       ov_source_referral_id = referral_id, ov_is_active = True, ov_expires_at = expires_at\<rparr>]\<rparr>"

definition list_active_by_org :: "program \<Rightarrow> uuid \<Rightarrow> org_plan_override list" where
  "list_active_by_org s org_id = filter (\<lambda>x. ov_org_id x = org_id \<and> ov_is_active x) (rf_overrides s)"

definition get_by_org_and_type :: "program \<Rightarrow> uuid \<Rightarrow> string \<Rightarrow> app_error + org_plan_override option" where
  "get_by_org_and_type s org_id ty = (case filter (\<lambda>x. ov_org_id x = org_id \<and> ov_override_type x = ty \<and> ov_is_active x) (rf_overrides s) of
     [] \<Rightarrow> Inr None | [x] \<Rightarrow> Inr (Some x) | _ \<Rightarrow> Inl MultipleResultsFound)"

definition override_deactivate :: "org_plan_override \<Rightarrow> program \<Rightarrow> program" where
  "override_deactivate x s = s\<lparr>rf_overrides := save_row ov_id (x\<lparr>ov_is_active := False\<rparr>) (rf_overrides s)\<rparr>"

section \<open>Referral information\<close>

definition REFERRAL_REWARD_TYPE :: string where "REFERRAL_REWARD_TYPE = ''extra_dependencies''"
definition REFERRAL_REWARD_VALUE :: int where "REFERRAL_REWARD_VALUE = 5"
definition REFERRAL_REWARD_DURATION_DAYS :: int where "REFERRAL_REWARD_DURATION_DAYS = 30"

text \<open>Ten draws; then a longer fragment that is not checked.\<close>

fun generate_unique_code :: "nat \<Rightarrow> string \<Rightarrow> (nat \<Rightarrow> string) \<Rightarrow> string \<Rightarrow> db \<Rightarrow> string" where
  "generate_unique_code 0 full_name fragments long d = build_referral_code full_name long"
| "generate_unique_code (Suc n) full_name fragments long d =
     (let code = build_referral_code full_name (fragments n)
      in if \<not> code_exists d code then code else generate_unique_code n full_name fragments long d)"

record reward_item =
  ri_id :: string
  ri_type :: string
  ri_value :: int
  ri_status :: string
  ri_expires_at :: "time option"

definition reward_item_of :: "referral_reward \<Rightarrow> reward_item" where
  "reward_item_of r = \<lparr>ri_id = uuid_str (rw_id r), ri_type = rw_type r, ri_value = rw_value r, ri_status = rw_status r,
     ri_expires_at = rw_expires_at r\<rparr>"

record referral_info =
  rn_referral_code :: string
  rn_referral_link :: string
  rn_total_referrals :: nat
  rn_active_referrals :: nat
  rn_pending_rewards :: "reward_item list"
  rn_earned_rewards :: "reward_item list"
  rn_referral_tier :: string
  rn_is_founding_referrer :: bool

definition info_of :: "string \<Rightarrow> uuid \<Rightarrow> referral_code \<Rightarrow> program \<Rightarrow> referral_info" where
  "info_of frontend user_id code s =
     (let rewards = rewards_list_by_user s user_id; cnt = fst (count_by_referrer s user_id)
      in \<lparr>rn_referral_code = rc_code code, rn_referral_link = rstrip_char CHR ''/'' frontend @ ''/ref/'' @ rc_code code,
          rn_total_referrals = cnt, rn_active_referrals = snd (count_by_referrer s user_id),
          rn_pending_rewards = map reward_item_of (filter (\<lambda>r. rw_status r = ''pending'' \<or> rw_status r = ''active'') rewards),
          rn_earned_rewards = map reward_item_of (filter (\<lambda>r. rw_status r = ''claimed'') rewards),
          rn_referral_tier = (if 10 \<le> cnt then ''founding'' else ''standard''), rn_is_founding_referrer = (10 \<le> cnt)\<rparr>)"

definition own_code :: "uuid \<Rightarrow> time \<Rightarrow> (nat \<Rightarrow> string) \<Rightarrow> string \<Rightarrow> user \<Rightarrow> (referral_code, db) service" where
  "own_code i now fragments long user d = (case code_get_by_user_id d (u_id user) of
     Some code \<Rightarrow> (Inr code, d)
   | None \<Rightarrow> code_create i now (u_id user) (generate_unique_code 10 (u_full_name user) fragments long d) d)"

definition get_referral_info ::
  "string \<Rightarrow> uuid \<Rightarrow> time \<Rightarrow> (nat \<Rightarrow> string) \<Rightarrow> string \<Rightarrow> uuid \<Rightarrow> (referral_info, program) service" where
  "get_referral_info frontend i now fragments long user_id s = (case user_get_by_id (rf_db s) user_id of
     None \<Rightarrow> (Inl (ResourceNotFoundException ''User not found''), s)
   | Some user \<Rightarrow> and_then (on_rf_db (own_code i now fragments long user))
       (\<lambda>code s. (Inr (info_of frontend user_id code s), s)) s)"

section \<open>Claiming a reward\<close>

text \<open>The guards, in the order of the code.\<close>

definition claimable ::
  "(uuid \<Rightarrow> time) \<Rightarrow> time \<Rightarrow> uuid \<Rightarrow> uuid \<Rightarrow> program \<Rightarrow> app_error + referral_reward \<times> referral" where
  "claimable updated_at now user_id reward_id s = (case reward_get_by_id s reward_id of
     None \<Rightarrow> Inl (ResourceNotFoundException ''Reward not found'')
   | Some reward \<Rightarrow>
       if rw_beneficiary_user_id reward \<noteq> user_id then Inl (ForbiddenException ''This reward does not belong to you'')
       else if rw_status reward \<noteq> ''pending''
       then Inl (ValidationException (''Reward is already '' @ quoted (rw_status reward) @ '' and cannot be claimed''))
       else if (case rw_expires_at reward of None \<Rightarrow> False | Some t \<Rightarrow> t < now)
       then Inl (ValidationException ''This reward has expired'')
       else (case referral_by_id s (rw_referral_id reward) of
         None \<Rightarrow> Inl (ResourceNotFoundException ''Associated referral not found'')
       | Some ref \<Rightarrow> (case user_get_by_id (rf_db s) (fr_referred_id ref) of
           None \<Rightarrow> Inl (ResourceNotFoundException ''Referred user not found'')
         | Some referred \<Rightarrow>
             if updated_at (u_id referred) < now - days 30
             then Inl (ValidationException (''Reward cannot be claimed yet: the referred user must be active '' @
               ''(logged in within the last 30 days)''))
             else if (case fr_referred_org_id ref of None \<Rightarrow> 0 | Some o_ \<Rightarrow> dep_count_for_org (rf_monitor s) o_) = 0
             then Inl (ValidationException (''Reward cannot be claimed yet: the referred user must add at least '' @
               ''one dependency to complete onboarding''))
             else Inr (reward, ref))))"

definition beneficiary_org :: "program \<Rightarrow> uuid \<Rightarrow> referral_reward \<Rightarrow> uuid option" where
  "beneficiary_org s user_id reward = (case rw_beneficiary_org_id reward of Some o_ \<Rightarrow> Some o_
     | None \<Rightarrow> (case org_list_for_user (rf_db s) user_id of [] \<Rightarrow> None | org # _ \<Rightarrow> Some (o_id org)))"

definition extend_subscription :: "uuid \<Rightarrow> int \<Rightarrow> program \<Rightarrow> program" where
  "extend_subscription org_id n s = (case get_subscription (rf_db s) org_id of
     Some sub \<Rightarrow> (case s_current_period_end sub of None \<Rightarrow> s
       | Some t \<Rightarrow> put_rf_db (update_subscription sub [SfCurrentPeriodEnd (Some (t + days n))] (rf_db s)) s)
   | None \<Rightarrow> s)"

definition apply_reward :: "uuid \<Rightarrow> time \<Rightarrow> uuid \<Rightarrow> referral_reward \<Rightarrow> program \<Rightarrow> time option \<times> program" where
  "apply_reward i now user_id reward s =
     (let ty = rw_type reward; until = now + days REFERRAL_REWARD_DURATION_DAYS
      in case beneficiary_org s user_id reward of
           None \<Rightarrow> (None, s)
         | Some org_id \<Rightarrow>
             if ty = ''extra_dependencies'' \<or> ty = ''discount_pct''
             then (Some until, override_create i org_id ty (rw_value reward) ''referral'' (Some (rw_referral_id reward)) (Some until) s)
             else if ty = ''free_days'' then (Some (now + days 90), extend_subscription org_id (rw_value reward) s)
             else (None, s))"

definition claim_message :: "referral_reward \<Rightarrow> string" where
  "claim_message reward = ''Reward claimed! '' @ show_int (rw_value reward) @ '' '' @
     map (\<lambda>c. if c = CHR ''_'' then CHR '' '' else c) (rw_type reward) @ '' applied to your organization.''"

definition log_claim :: "time \<Rightarrow> uuid \<Rightarrow> referral_reward \<Rightarrow> program \<Rightarrow> program" where
  "log_claim now user_id reward s = put_rf_db (log_event now ''referral_reward_claimed'' None (Some user_id) ''referral_reward''
     (uuid_str (rw_id reward)) (JObj [(''reward_type'', JStr (rw_type reward)), (''reward_value'', JInt (rw_value reward)),
       (''referral_id'', juuid (rw_referral_id reward))]) (rf_db s)) s"

definition settle_claim :: "uuid \<Rightarrow> time \<Rightarrow> uuid \<Rightarrow> referral_reward \<Rightarrow> referral \<Rightarrow> program \<Rightarrow> time option \<times> program" where
  "settle_claim i now user_id reward ref s =
     (let s1 = (if fr_status ref = ''pending'' then referral_update_status now ref ''active'' s else s)
      in case apply_reward i now user_id reward s1 of (expires_at, s2) \<Rightarrow>
        (case reward_activate now reward s2 of (reward', s3) \<Rightarrow>
          (expires_at, log_claim now user_id reward' (reward_claim now reward' s3))))"

definition rewards_claim ::
  "uuid \<Rightarrow> (uuid \<Rightarrow> time) \<Rightarrow> time \<Rightarrow> uuid \<Rightarrow> uuid \<Rightarrow> (string \<times> time option, program) service" where
  "rewards_claim i updated_at now user_id reward_id s = (case claimable updated_at now user_id reward_id s of
     Inl e \<Rightarrow> (Inl e, s)
   | Inr (reward, ref) \<Rightarrow> (case settle_claim i now user_id reward ref s of
       (expires_at, s') \<Rightarrow> (Inr (claim_message reward, expires_at), s')))"

section \<open>Leaderboard\<close>

text \<open>\<^verbatim>\<open>str.split()\<close>.\<close>

fun words_acc :: "string \<Rightarrow> string \<Rightarrow> string list" where
  "words_acc [] cur = (if cur = [] then [] else [rev cur])"
| "words_acc (c # s) cur = (if is_space c then (if cur = [] then words_acc s [] else rev cur # words_acc s [])
     else words_acc s (c # cur))"

definition mask_display_name :: "string \<Rightarrow> string" where
  "mask_display_name full_name = (case words_acc (strip full_name) [] of
     [] \<Rightarrow> ''Anonymous''
   | first # rest \<Rightarrow> if rest \<noteq> [] then take 4 first @ '' '' @ upper [hd (last rest)] @ ''.'' else take 4 first @ ''.'')"

record leaderboard_entry =
  lb_rank :: nat
  lb_user_id :: uuid
  lb_display_name :: string
  lb_referral_code :: "string option"
  lb_total_referrals :: nat
  lb_active_referrals :: nat
  lb_is_self :: bool

definition leaderboard_entry_of :: "program \<Rightarrow> uuid option \<Rightarrow> nat \<Rightarrow> uuid \<times> nat \<times> nat \<Rightarrow> leaderboard_entry" where
  "leaderboard_entry_of s current rank raw = (case raw of (u, tot, active) \<Rightarrow>
     (let is_self = (current = Some u); user = user_get_by_id (rf_db s) u
      in \<lparr>lb_rank = rank, lb_user_id = u,
          lb_display_name = (case user of None \<Rightarrow> ''Unknown''
            | Some x \<Rightarrow> if is_self then u_full_name x else mask_display_name (u_full_name x)),
          lb_referral_code = (if is_self then map_option rc_code (code_get_by_user_id (rf_db s) u) else None),
          lb_total_referrals = tot, lb_active_referrals = active, lb_is_self = is_self\<rparr>))"

definition get_leaderboard ::
  "time \<Rightarrow> program \<Rightarrow> string \<Rightarrow> nat \<Rightarrow> nat \<Rightarrow> uuid option \<Rightarrow> app_error + leaderboard_entry list \<times> nat" where
  "get_leaderboard now s period page page_size current =
     (if period \<notin> {''all_time'', ''weekly'', ''monthly''}
      then Inl (ValidationException (''Invalid period '' @ quoted period @ ''. Must be one of: all_time, monthly, weekly''))
      else (let offset = (page - 1) * page_size
        in case repo_leaderboard now s period offset page_size of (raw, cnt) \<Rightarrow>
          Inr (map (\<lambda>(k, x). leaderboard_entry_of s current (offset + k + 1) x) (enumerate 0 raw), cnt)))"

section \<open>Referring a new user\<close>

record referral_ids =
  rx_referral :: uuid
  rx_reward_referrer :: uuid
  rx_reward_referred :: uuid

definition reward_both :: "referral_ids \<Rightarrow> time \<Rightarrow> referral \<Rightarrow> program \<Rightarrow> program" where
  "reward_both ids now ref s =
     (let until = Some (now + days REFERRAL_REWARD_DURATION_DAYS)
      in reward_create (rx_reward_referred ids) now (fr_id ref) (fr_referred_id ref) REFERRAL_REWARD_TYPE REFERRAL_REWARD_VALUE
           (fr_referred_org_id ref) until
         (reward_create (rx_reward_referrer ids) now (fr_id ref) (fr_referrer_id ref) REFERRAL_REWARD_TYPE REFERRAL_REWARD_VALUE
           None until s))"

definition log_referral :: "time \<Rightarrow> referral \<Rightarrow> program \<Rightarrow> program" where
  "log_referral now ref s = put_rf_db (log_event now ''referral_lead_captured'' (fr_referred_org_id ref) (Some (fr_referrer_id ref))
     ''referral'' (uuid_str (fr_id ref)) (JObj [(''referral_code'', JStr (fr_referral_code ref)),
       (''referred_email'', JStr (fr_referred_email ref)), (''referred_user_id'', juuid (fr_referred_id ref)),
       (''referral_tier'', JStr (fr_referral_tier ref))]) (rf_db s)) s"

definition process_referral_on_register ::
  "referral_ids \<Rightarrow> time \<Rightarrow> string \<Rightarrow> uuid \<Rightarrow> string \<Rightarrow> uuid option \<Rightarrow> (unit, program) service" where
  "process_referral_on_register ids now ref_code new_user_id new_user_email new_user_org_id s =
     (if ref_code = [] then (Inr (), s)
      else case code_get_by_code (rf_db s) ref_code of
        None \<Rightarrow> (Inr (), s)
      | Some code \<Rightarrow>
          if rc_user_id code = new_user_id then (Inr (), s)
          else (case get_by_referred_email s new_user_email of
            Inl e \<Rightarrow> (Inl e, s)
          | Inr (Some _) \<Rightarrow> (Inr (), s)
          | Inr None \<Rightarrow>
              and_then (referral_insert (rx_referral ids) now (rc_user_id code) new_user_id (rc_code code) new_user_email new_user_org_id
                  (if 10 \<le> fst (count_by_referrer s (rc_user_id code)) then ''founding'' else ''standard''))
                (\<lambda>ref s. (Inr (), log_referral now ref (reward_both ids now ref s))) s))"

end
