(* ===== verification/Referral_Properties.thy ===== *)
theory Referral_Properties
  imports Referrals Monitoring_Examples
begin

text \<open>
  The rewards of the referral program over any sequence of operations.
\<close>

section \<open>Reachable states\<close>

definition claimed_rewards :: "program \<Rightarrow> uuid \<Rightarrow> nat" where
  "claimed_rewards s i = length (filter (\<lambda>r. rw_referral_id r = i \<and> rw_status r = ''claimed'') (rf_rewards s))"

definition granted :: "program \<Rightarrow> uuid \<Rightarrow> nat" where
  "granted s i = length (filter (\<lambda>x. ov_source_referral_id x = Some i) (rf_overrides s))"

definition program_wf :: "program \<Rightarrow> bool" where
  "program_wf s = (distinct (map fr_id (rf_referrals s)) \<and> distinct (map rw_id (rf_rewards s)) \<and>
     distinct (map fr_referred_email (rf_referrals s)) \<and>
     (\<forall>r \<in> set (rf_rewards s). rw_referral_id r \<in> fr_id ` set (rf_referrals s) \<and> rw_value r = 5 \<and>
        rw_status r \<in> {''pending'', ''claimed''}) \<and>
     (\<forall>i. length (filter (\<lambda>r. rw_referral_id r = i) (rf_rewards s)) \<le> 2) \<and>
     (\<forall>x \<in> set (rf_overrides s). ov_override_value x = 5 \<and> ov_source_referral_id x \<in> Some ` fr_id ` set (rf_referrals s)) \<and>
     (\<forall>i. granted s i \<le> claimed_rewards s i))"

text \<open>The operations with their sessions; the identifiers drawn are fresh.\<close>

definition fresh_referral_ids :: "referral_ids \<Rightarrow> program \<Rightarrow> bool" where
  "fresh_referral_ids ids s = (rx_referral ids \<notin> fr_id ` set (rf_referrals s) \<and> rx_reward_referrer ids \<noteq> rx_reward_referred ids \<and>
     rx_reward_referrer ids \<notin> rw_id ` set (rf_rewards s) \<and> rx_reward_referred ids \<notin> rw_id ` set (rf_rewards s))"

inductive program_step :: "program \<Rightarrow> program \<Rightarrow> bool" where
  referred: "fresh_referral_ids ids s \<Longrightarrow> with_session (process_referral_on_register ids now code uid email org) s = (r, s') \<Longrightarrow> program_step s s'"
| claimed: "with_session (rewards_claim i updated_at now uid reward_id) s = (r, s') \<Longrightarrow> program_step s s'"
| informed: "with_session (get_referral_info frontend i now fragments long uid) s = (r, s') \<Longrightarrow> program_step s s'"
| other: "program_step s (s\<lparr>rf_monitor := m\<rparr>)"

definition no_referrals :: "program \<Rightarrow> bool" where
  "no_referrals s = (rf_referrals s = [] \<and> rf_rewards s = [] \<and> rf_overrides s = [])"

section \<open>The operations\<close>

lemma put_rf_db_tables [simp]:
  "rf_referrals (put_rf_db d s) = rf_referrals s" "rf_rewards (put_rf_db d s) = rf_rewards s" "rf_overrides (put_rf_db d s) = rf_overrides s"
  by (simp_all add: put_rf_db_def)

lemma wf_tables:
  "rf_referrals s' = rf_referrals s \<Longrightarrow> rf_rewards s' = rf_rewards s \<Longrightarrow> rf_overrides s' = rf_overrides s \<Longrightarrow>
    program_wf s \<Longrightarrow> program_wf s'"
  by (simp add: program_wf_def granted_def claimed_rewards_def)

lemma info_tables:
  assumes "with_session (get_referral_info frontend i now fragments long uid) s = (r, s')"
  shows "rf_referrals s' = rf_referrals s" "rf_rewards s' = rf_rewards s" "rf_overrides s' = rf_overrides s"
  using assms
  by (auto simp: with_session_def get_referral_info_def and_then_def on_rf_db_def split: option.splits prod.splits sum.splits)

lemma referral_insert_E:
  "referral_insert i now a b code email org tier s = (Inr ref, s') \<Longrightarrow>
    fr_id ref = i \<and> fr_referred_email ref = email \<and> s' = s\<lparr>rf_referrals := rf_referrals s @ [ref]\<rparr>"
  by (auto simp: referral_insert_def Let_def split: if_splits)

lemma process_cases:
  assumes "with_session (process_referral_on_register ids now code uid email org) s = (r, s')"
  obtains "s' = s"
  | ref d where "fr_id ref = rx_referral ids" and "fr_referred_email ref = email" and "email \<notin> fr_referred_email ` set (rf_referrals s)"
      and "s' = put_rf_db d (reward_both ids now ref (s\<lparr>rf_referrals := rf_referrals s @ [ref]\<rparr>))"
proof -
  have absent: "email \<notin> fr_referred_email ` set (rf_referrals s)" if "get_by_referred_email s email = Inr None"
    using that by (auto simp: get_by_referred_email_def filter_empty_conv split: list.splits)
  obtain q s1 where run: "process_referral_on_register ids now code uid email org s = (q, s1)"
    by (cases "process_referral_on_register ids now code uid email org s")
  show thesis
  proof (cases "s1 = s \<or> (\<exists>e. q = Inl e)")
    case True
    then show thesis
      using assms run that(1) by (auto simp: with_session_def split: sum.splits)
  next
    case False
    have "\<exists>ref. get_by_referred_email s email = Inr None \<and> fr_id ref = rx_referral ids \<and> fr_referred_email ref = email \<and>
        s1 = log_referral now ref (reward_both ids now ref (s\<lparr>rf_referrals := rf_referrals s @ [ref]\<rparr>))"
      using run False by (cases q)
        (auto simp: process_referral_on_register_def split: if_splits option.splits sum.splits elim!: and_then_E dest!: referral_insert_E)
    then obtain ref where "get_by_referred_email s email = Inr None" and "fr_id ref = rx_referral ids" and "fr_referred_email ref = email"
        and "s1 = log_referral now ref (reward_both ids now ref (s\<lparr>rf_referrals := rf_referrals s @ [ref]\<rparr>))"
      by blast
    then show thesis
      using absent that(2) assms run False by (auto simp: with_session_def log_referral_def split: sum.splits)
  qed
qed

lemma referred_wf:
  assumes wf: "program_wf s" and fresh: "fresh_referral_ids ids s" and ref: "fr_id ref = rx_referral ids"
    and email: "fr_referred_email ref \<notin> fr_referred_email ` set (rf_referrals s)"
  shows "program_wf (reward_both ids now ref (s\<lparr>rf_referrals := rf_referrals s @ [ref]\<rparr>))"
proof -
  let ?s = "reward_both ids now ref (s\<lparr>rf_referrals := rf_referrals s @ [ref]\<rparr>)"
  have new: "fr_id ref \<notin> fr_id ` set (rf_referrals s)"
    using fresh ref by (simp add: fresh_referral_ids_def)
  obtain a b where rows: "rf_rewards ?s = rf_rewards s @ [a, b]" and ab: "rw_id a = rx_reward_referrer ids" "rw_id b = rx_reward_referred ids"
      "rw_referral_id a = fr_id ref" "rw_referral_id b = fr_id ref" "rw_value a = 5" "rw_value b = 5"
      "rw_status a = ''pending''" "rw_status b = ''pending''"
    by (simp add: reward_both_def reward_create_def Let_def REFERRAL_REWARD_VALUE_def)
  have tables: "rf_referrals ?s = rf_referrals s @ [ref]" "rf_overrides ?s = rf_overrides s"
    by (simp_all add: reward_both_def reward_create_def Let_def)
  have none: "filter (\<lambda>r. rw_referral_id r = fr_id ref) (rf_rewards s) = []"
  proof -
    have "\<forall>r \<in> set (rf_rewards s). rw_referral_id r \<in> fr_id ` set (rf_referrals s)"
      using wf unfolding program_wf_def by blast
    then show ?thesis
      using new by (auto simp: filter_empty_conv) metis
  qed
  have two: "length (filter (\<lambda>r. rw_referral_id r = i) (rf_rewards ?s)) \<le> 2" for i
    using wf none ab by (cases "i = fr_id ref") (auto simp: rows program_wf_def)
  have same: "granted ?s i = granted s i" "claimed_rewards ?s i = claimed_rewards s i" for i
    using ab by (simp_all add: granted_def claimed_rewards_def rows tables)
  show ?thesis
    unfolding program_wf_def same
  proof (intro conjI)
    show "\<forall>i. length (filter (\<lambda>r. rw_referral_id r = i) (rf_rewards ?s)) \<le> 2"
      using two by blast
  qed (use wf fresh new email ab in \<open>auto simp: program_wf_def fresh_referral_ids_def rows tables\<close>)
qed

lemma claimable_E:
  assumes "claimable updated_at now uid reward_id s = Inr (reward, ref)"
  shows "reward \<in> set (rf_rewards s) \<and> rw_id reward = reward_id \<and> rw_status reward = ''pending'' \<and> ref \<in> set (rf_referrals s)"
  using assms by (auto simp: claimable_def reward_get_by_id_def referral_by_id_def dest!: get_row_Some split: option.splits if_splits)

lemma apply_reward_E:
  assumes "apply_reward i now uid reward s = (t, s')"
  shows "rf_referrals s' = rf_referrals s \<and> rf_rewards s' = rf_rewards s \<and>
    (rf_overrides s' = rf_overrides s \<or> (\<exists>x. rf_overrides s' = rf_overrides s @ [x] \<and> ov_override_value x = rw_value reward \<and>
       ov_source_referral_id x = Some (rw_referral_id reward)))"
  using assms
  by (auto simp: apply_reward_def Let_def override_create_def extend_subscription_def split: option.splits if_splits)

lemma save_row_twice: "key r' = key r \<Longrightarrow> save_row key r (save_row key r' t) = save_row key r t"
  by (simp add: save_row_def)

definition settled :: "referral_reward \<Rightarrow> referral_reward \<Rightarrow> program \<Rightarrow> program \<Rightarrow> bool" where
  "settled reward reward' s s' = (rw_id reward' = rw_id reward \<and> rw_referral_id reward' = rw_referral_id reward \<and>
     rw_value reward' = rw_value reward \<and> rw_status reward' = ''claimed'' \<and>
     rf_rewards s' = save_row rw_id reward' (rf_rewards s) \<and>
     map fr_id (rf_referrals s') = map fr_id (rf_referrals s) \<and>
     map fr_referred_email (rf_referrals s') = map fr_referred_email (rf_referrals s) \<and>
     (rf_overrides s' = rf_overrides s \<or> (\<exists>x. rf_overrides s' = rf_overrides s @ [x] \<and> ov_override_value x = rw_value reward \<and>
        ov_source_referral_id x = Some (rw_referral_id reward))))"

lemma settle_claim_E:
  assumes "settle_claim i now uid reward ref s = (t, s')" and "distinct (map fr_id (rf_referrals s))" and "ref \<in> set (rf_referrals s)"
  shows "\<exists>reward'. settled reward reward' s s'"
proof -
  define s1 where "s1 = (if fr_status ref = ''pending'' then referral_update_status now ref ''active'' s else s)"
  have s1: "map fr_id (rf_referrals s1) = map fr_id (rf_referrals s)"
      "map fr_referred_email (rf_referrals s1) = map fr_referred_email (rf_referrals s)"
      "rf_rewards s1 = rf_rewards s" "rf_overrides s1 = rf_overrides s"
    using map_save_row_same [of fr_id "rf_referrals s" ref _ fr_referred_email] assms(2,3)
    by (simp_all add: s1_def referral_update_status_def)
  obtain t2 s2 where app: "apply_reward i now uid reward s1 = (t2, s2)"
    by (cases "apply_reward i now uid reward s1")
  define r1 where "r1 = reward\<lparr>rw_status := ''active'', rw_activated_at := Some now\<rparr>"
  have s': "s' = log_claim now uid r1 (reward_claim now r1 (s2\<lparr>rf_rewards := save_row rw_id r1 (rf_rewards s2)\<rparr>))"
    using assms(1) app by (simp add: settle_claim_def Let_def s1_def reward_activate_def r1_def)
  have "settled reward (r1\<lparr>rw_status := ''claimed'', rw_claimed_at := Some now\<rparr>) s s'"
    using apply_reward_E [OF app] s1
    by (simp add: settled_def s' log_claim_def reward_claim_def save_row_twice) (simp add: r1_def)
  then show ?thesis
    by blast
qed

lemma claim_cases:
  assumes "with_session (rewards_claim i updated_at now uid reward_id) s = (r, s')" and "program_wf s"
  obtains "s' = s"
  | reward reward' where "reward \<in> set (rf_rewards s)" and "rw_status reward = ''pending''" and "rw_id reward = reward_id"
      and "settled reward reward' s s'"
proof (cases "claimable updated_at now uid reward_id s")
  case (Inl e)
  then show thesis
    using assms(1) that(1) by (simp add: with_session_def rewards_claim_def)
next
  case (Inr x)
  obtain reward ref where x: "x = (reward, ref)"
    by (cases x)
  obtain t s1 where st: "settle_claim i now uid reward ref s = (t, s1)"
    by (cases "settle_claim i now uid reward ref s")
  then have "s' = s1"
    using assms(1) Inr by (simp add: with_session_def rewards_claim_def x)
  have c: "reward \<in> set (rf_rewards s)" "rw_id reward = reward_id" "rw_status reward = ''pending''" "ref \<in> set (rf_referrals s)"
    using claimable_E [of updated_at now uid reward_id s reward ref] Inr x by auto
  obtain reward' where "settled reward reward' s s1"
    using settle_claim_E [OF st _ c(4)] assms(2) unfolding program_wf_def by blast
  then show thesis
    using that(2) c \<open>s' = s1\<close> by blast
qed

lemma length_filter_conj: "length (filter (\<lambda>x. P x \<and> Q x) xs) \<le> length (filter P xs)"
  by (induction xs) auto

lemma save_count:
  assumes "distinct (map key t)" and "x \<in> set t" and "key x' = key x"
  shows "\<not> P x \<Longrightarrow> P x' \<Longrightarrow> length (filter P (save_row key x' t)) = length (filter P t) + 1"
    and "P x = P x' \<Longrightarrow> length (filter P (save_row key x' t)) = length (filter P t)"
proof -
  have eq: "save_row key x' t = map (\<lambda>y. if key y = key x then x' else y) t"
    using assms(3) by (simp add: save_row_def)
  show "\<not> P x \<Longrightarrow> P x' \<Longrightarrow> length (filter P (save_row key x' t)) = length (filter P t) + 1"
    unfolding eq by (rule count_one_more [of key t x P "\<lambda>_. x'", OF assms(1,2)]) (simp_all add: assms(3))
  have len: "length (filter P xs) = length (filter id (map P xs))" for xs
    by (simp add: filter_map)
  show "length (filter P (save_row key x' t)) = length (filter P t)" if "P x = P x'"
    unfolding len using map_save_row_same [OF assms, of P] that by simp
qed

lemma claimed_wf:
  assumes wf: "program_wf s" and r: "reward \<in> set (rf_rewards s)" "rw_status reward = ''pending''" and st: "settled reward reward' s s'"
  shows "program_wf s'"
proof -
  have ids: "fr_id ` set (rf_referrals s') = fr_id ` set (rf_referrals s)"
    using st unfolding settled_def by (metis list.set_map)
  have d: "distinct (map rw_id (rf_rewards s))"
    using wf by (simp add: program_wf_def)
  note st' = st [unfolded settled_def]
  have claimed: "claimed_rewards s' i = claimed_rewards s i + (if i = rw_referral_id reward then 1 else 0)" for i
    using save_count [OF d r(1), of reward' "\<lambda>x. rw_referral_id x = i \<and> rw_status x = ''claimed''"] st' r(2)
    by (auto simp: claimed_rewards_def)
  have total: "length (filter (\<lambda>x. rw_referral_id x = i) (rf_rewards s')) = length (filter (\<lambda>x. rw_referral_id x = i) (rf_rewards s))" for i
    using save_count(2) [OF d r(1), of reward' "\<lambda>x. rw_referral_id x = i"] st' by simp
  have grant: "granted s' i \<le> granted s i + (if i = rw_referral_id reward then 1 else 0)" for i
    using st' by (auto simp: granted_def)
  have "granted s' i \<le> claimed_rewards s' i" for i
    using grant [of i] claimed [of i] wf unfolding program_wf_def by (metis add_le_mono1 le_trans)
  moreover have "\<forall>x \<in> set (rf_rewards s'). rw_referral_id x \<in> fr_id ` set (rf_referrals s') \<and> rw_value x = 5 \<and>
      rw_status x \<in> {''pending'', ''claimed''}"
  proof
    fix x assume "x \<in> set (rf_rewards s')"
    then have "x = reward' \<or> x \<in> set (rf_rewards s)"
      using st' set_save_row by metis
    then show "rw_referral_id x \<in> fr_id ` set (rf_referrals s') \<and> rw_value x = 5 \<and> rw_status x \<in> {''pending'', ''claimed''}"
      using wf r(1) st' unfolding ids by (auto simp: program_wf_def)
  qed
  moreover have "\<forall>x \<in> set (rf_overrides s'). ov_override_value x = 5 \<and> ov_source_referral_id x \<in> Some ` fr_id ` set (rf_referrals s')"
    using wf r(1) st' unfolding ids by (auto simp: program_wf_def)
  ultimately show ?thesis
    using wf st' total unfolding program_wf_def by simp
qed

lemma program_step_wf: "program_step s s' \<Longrightarrow> program_wf s \<Longrightarrow> program_wf s'"
proof (induction rule: program_step.induct)
  case (referred ids s now code uid email org r s')
  from referred(2) show ?case
  proof (cases rule: process_cases)
    case (2 ref d)
    then show ?thesis
      using referred_wf [OF referred(3,1), of ref now] by (auto intro: wf_tables)
  qed (use referred in simp)
next
  case (claimed i updated_at now uid reward_id s r s')
  from claimed show ?case
    by (auto elim!: claim_cases intro: claimed_wf)
next
  case (informed frontend i now fragments long uid s r s')
  then show ?case
    by (intro wf_tables [OF info_tables [OF informed(1)]])
next
  case (other s m)
  then show ?case
    by (auto intro: wf_tables)
qed

lemma program_steps_wf: "program_step\<^sup>*\<^sup>* s s' \<Longrightarrow> program_wf s \<Longrightarrow> program_wf s'"
  by (induction rule: rtranclp_induct) (auto intro: program_step_wf)

lemma no_referrals_wf: "no_referrals s \<Longrightarrow> program_wf s"
  by (simp add: no_referrals_def program_wf_def granted_def claimed_rewards_def)

section \<open>Bounded rewards\<close>

text \<open>
  C34: However often referrals are processed and rewards claimed, one referred address grants at most two
  overrides, of ten extra dependencies together, and a claimed reward cannot be claimed again.
\<close>

theorem referral_rewards_bounded:
  assumes "no_referrals s0" and "program_step\<^sup>*\<^sup>* s0 s"
  shows "sum_list (map ov_override_value (filter (\<lambda>x. \<exists>r \<in> set (rf_referrals s).
      ov_source_referral_id x = Some (fr_id r) \<and> fr_referred_email r = email) (rf_overrides s))) \<le> 10 \<and>
    (\<forall>reward \<in> set (rf_rewards s). rw_status reward = ''claimed'' \<longrightarrow>
      (\<exists>e. rewards_claim i updated_at now uid (rw_id reward) s = (Inl e, s)))"
proof -
  have wf: "program_wf s"
    using assms no_referrals_wf program_steps_wf by blast
  let ?of = "\<lambda>x. \<exists>r \<in> set (rf_referrals s). ov_source_referral_id x = Some (fr_id r) \<and> fr_referred_email r = email"
  have "sum_list (map ov_override_value (filter ?of (rf_overrides s))) \<le> 10"
  proof (cases "email \<in> fr_referred_email ` set (rf_referrals s)")
    case True
    then obtain r where r: "r \<in> set (rf_referrals s)" "fr_referred_email r = email"
      by auto
    have emails: "distinct (map fr_referred_email (rf_referrals s))"
      using wf by (simp add: program_wf_def)
    have "fr_referred_email q = email \<longleftrightarrow> q = r" if "q \<in> set (rf_referrals s)" for q
      using distinct_map_inj [OF emails that r(1)] r(2) by auto
    then have of: "?of = (\<lambda>x. ov_source_referral_id x = Some (fr_id r))"
      using r by (auto simp: fun_eq_iff)
    have vals: "\<forall>x \<in> set (rf_overrides s). ov_override_value x = 5"
      using wf unfolding program_wf_def by blast
    have "sum_list (map ov_override_value xs) = 5 * int (length xs)" if "set xs \<subseteq> set (rf_overrides s)" for xs
      using that vals by (induction xs) auto
    then have "sum_list (map ov_override_value (filter ?of (rf_overrides s))) = 5 * int (granted s (fr_id r))"
      unfolding of granted_def by simp
    moreover have "claimed_rewards s (fr_id r) \<le> length (filter (\<lambda>x. rw_referral_id x = fr_id r) (rf_rewards s))"
      unfolding claimed_rewards_def by (rule length_filter_conj)
    moreover have "length (filter (\<lambda>x. rw_referral_id x = fr_id r) (rf_rewards s)) \<le> 2" "granted s (fr_id r) \<le> claimed_rewards s (fr_id r)"
      using wf unfolding program_wf_def by blast+
    ultimately show ?thesis
      by linarith
  next
    case False
    then have "filter ?of (rf_overrides s) = []"
      by (auto simp: filter_empty_conv)
    then show ?thesis
      by simp
  qed
  moreover have "\<exists>e. rewards_claim i updated_at now uid (rw_id reward) s = (Inl e, s)"
    if "reward \<in> set (rf_rewards s)" "rw_status reward = ''claimed''" for reward
  proof -
    have "reward_get_by_id s (rw_id reward) = Some reward"
      using wf that(1) by (simp add: reward_get_by_id_def program_wf_def get_row_distinct)
    then show ?thesis
      using that(2) by (simp add: rewards_claim_def claimable_def)
  qed
  ultimately show ?thesis
    by blast
qed

definition referral_user :: "uuid \<Rightarrow> string \<Rightarrow> user" where
  "referral_user i email = \<lparr>u_id = i, u_email = email, u_password_hash = ''p'', u_full_name = ''A'', u_is_active = True,
     u_is_email_verified = False, u_is_superuser = False, u_google_id = None, u_github_id = None,
     u_avatar_url = None, u_auth_provider = None, u_external_auth_id = None, u_is_system_admin = False,
     u_admin_note = None, u_source = None, u_last_login_at = None, u_last_activity_at = None, u_login_count = 0,
     u_created_at = 0\<rparr>"

definition example_program :: program where
  "example_program = \<lparr>rf_monitor = empty_monitor\<lparr>mo_dependencies := [example_dependency []],
       mo_db := empty_db\<lparr>db_users := [referral_user 1 ''a'', referral_user 2 ''b''],
         db_referral_codes := [\<lparr>rc_id = 3, rc_user_id = 1, rc_code = ''1-2'', rc_is_active = True, rc_created_at = 0\<rparr>]\<rparr>\<rparr>,
     rf_referrals = [], rf_rewards = [], rf_overrides = []\<rparr>"

definition example_referral_ids :: referral_ids where
  "example_referral_ids = \<lparr>rx_referral = 10, rx_reward_referrer = 11, rx_reward_referred = 12\<rparr>"

definition example_referred :: program where
  "example_referred = snd (with_session (process_referral_on_register example_referral_ids 0 ''1-2'' 2 ''b'' (Some 1)) example_program)"

definition example_claimed :: program where
  "example_claimed = snd (with_session (rewards_claim 13 (\<lambda>_. 0) 5 2 12) example_referred)"

lemma example_program_steps: "program_step\<^sup>*\<^sup>* example_program example_claimed"
proof -
  have "program_step example_program example_referred"
    by (rule program_step.referred [of example_referral_ids])
      (simp_all add: fresh_referral_ids_def example_program_def example_referral_ids_def example_referred_def prod_eq_iff)
  moreover have "program_step example_referred example_claimed"
    unfolding example_claimed_def by (rule program_step.claimed) (rule prod.collapse [symmetric])
  ultimately show ?thesis
    by simp
qed

theorem referral_rewards_bounded_witness:
  "no_referrals example_program \<and> sum_list (map ov_override_value (filter (\<lambda>x. \<exists>r \<in> set (rf_referrals example_claimed).
      ov_source_referral_id x = Some (fr_id r) \<and> fr_referred_email r = ''b'') (rf_overrides example_claimed))) \<le> 10"
proof -
  have "no_referrals example_program"
    by (simp add: no_referrals_def example_program_def)
  then show ?thesis
    using referral_rewards_bounded [OF _ example_program_steps] by blast
qed

end
