(* ===== verification/Submissions.thy ===== *)
theory Submissions
  imports Vendors Ssrf Email_Auth
begin

text \<open>
  \<^verbatim>\<open>modules/vendor_submissions\<close>: the public submission of a vendor and its review.  The HEAD request
  to a submitted address changes nothing whatever its result and is left out; whether the table
  \<^verbatim>\<open>lead_captures\<close>, which no migration of the repository creates, exists is a field of the environment,
  like the resolver.  Word characters are the ASCII ones, and the dash of the subjects is a hyphen.
\<close>

section \<open>Tables\<close>

record vendor_submission =
  vs_id :: uuid
  vs_vendor_name :: string
  vs_display_name :: string
  vs_category :: "string option"
  vs_website_url :: "string option"
  vs_submitter_email :: string
  vs_submitter_name :: "string option"
  vs_submitter_user_id :: "uuid option"
  vs_reason :: "string option"
  vs_status :: string
  vs_review_note :: "string option"
  vs_reviewed_by :: "uuid option"
  vs_reviewed_at :: "time option"
  vs_created_at :: time

record submit_endpoint =
  se_name :: string
  se_url :: string
  se_method :: string
  se_expected_status :: int

record submission_endpoint =
  vse_id :: uuid
  vse_submission_id :: uuid
  vse_endpoint :: submit_endpoint

text \<open>The column \<^verbatim>\<open>endpoints_data\<close> repeats the endpoint rows of the submission.\<close>

record review =
  sb_catalog :: catalog
  sb_submissions :: "vendor_submission list"
  sb_endpoints :: "submission_endpoint list"
  sb_leads :: "(string \<times> string \<times> string option) list"
  sb_lookups :: nat
  sb_mails :: "mail list"

record submit_env =
  sv_dns :: resolver
  sv_has_lead_captures :: bool

definition on_catalog :: "('a, catalog) service \<Rightarrow> ('a, review) service" where
  "on_catalog f s = (case f (sb_catalog s) of (r, c) \<Rightarrow> (r, s\<lparr>sb_catalog := c\<rparr>))"

section \<open>Names\<close>

text \<open>\<^verbatim>\<open>re.sub(r"\s+", "-", s)\<close>.\<close>

function spaces_to_hyphen :: "string \<Rightarrow> string" where
  "spaces_to_hyphen [] = []"
| "spaces_to_hyphen (c # s) = (if is_space c then CHR ''-'' # spaces_to_hyphen (dropWhile is_space s) else c # spaces_to_hyphen s)"
  by pat_completeness auto
termination
  by (relation "measure length") (simp_all add: le_imp_less_Suc length_dropWhile_le)

definition is_slug_char :: "char \<Rightarrow> bool" where
  "is_slug_char c = (let n = (of_char c :: nat) in (97 \<le> n \<and> n \<le> 122) \<or> (48 \<le> n \<and> n \<le> 57) \<or> n = 45)"

definition sanitize_vendor_name :: "string \<Rightarrow> string" where
  "sanitize_vendor_name raw = strip_hyphens (collapse_hyphens (filter is_slug_char (spaces_to_hyphen (lower (strip raw)))))"

section \<open>Repository\<close>

definition submission_fits :: "vendor_submission \<Rightarrow> bool" where
  "submission_fits r = (length (vs_vendor_name r) \<le> 255 \<and> length (vs_display_name r) \<le> 255 \<and>
     length (vs_submitter_email r) \<le> 255 \<and> (case vs_category r of None \<Rightarrow> True | Some x \<Rightarrow> length x \<le> 255) \<and>
     (case vs_submitter_name r of None \<Rightarrow> True | Some x \<Rightarrow> length x \<le> 255))"

definition create_submission :: "vendor_submission \<Rightarrow> (vendor_submission, review) service" where
  "create_submission r s =
     (if \<not> submission_fits r then (Inl (ValueError ''value too long for type character varying(255)''), s)
      else if vs_vendor_name r \<in> vs_vendor_name ` set (sb_submissions s)
      then (Inl (IntegrityError ''vendor_submissions_vendor_name''), s)
      else (Inr r, s\<lparr>sb_submissions := sb_submissions s @ [r]\<rparr>))"

definition create_submission_endpoint :: "uuid \<Rightarrow> uuid \<Rightarrow> submit_endpoint \<Rightarrow> (submission_endpoint, review) service" where
  "create_submission_endpoint i submission_id e s =
     (if length (se_name e) > 255 \<or> length (se_method e) > 10 \<or> se_expected_status e < - (2 ^ 31) \<or> 2 ^ 31 \<le> se_expected_status e
      then (Inl (ValueError ''vendor_submission_endpoints''), s)
      else (let x = \<lparr>vse_id = i, vse_submission_id = submission_id, vse_endpoint = e\<rparr>
        in (Inr x, s\<lparr>sb_endpoints := sb_endpoints s @ [x]\<rparr>)))"

definition submission_get_by_vendor_name :: "review \<Rightarrow> string \<Rightarrow> vendor_submission option" where
  "submission_get_by_vendor_name s name = get_row vs_vendor_name (lower name) (sb_submissions s)"

definition submission_get_by_id :: "review \<Rightarrow> uuid \<Rightarrow> vendor_submission option" where
  "submission_get_by_id s i = get_row vs_id i (sb_submissions s)"

definition repo_list_submissions :: "review \<Rightarrow> string option \<Rightarrow> nat \<Rightarrow> nat \<Rightarrow> vendor_submission list \<times> nat" where
  "repo_list_submissions s status page page_size =
     (let rows = filter (\<lambda>r. case status of None \<Rightarrow> True | Some x \<Rightarrow> vs_status r = x) (sb_submissions s)
      in (page_of (\<lambda>r. - vs_created_at r) ((page - 1) * page_size) page_size rows, length rows))"

definition submission_update_status :: "time \<Rightarrow> uuid \<Rightarrow> string \<Rightarrow> uuid \<Rightarrow> string option \<Rightarrow> review \<Rightarrow> review" where
  "submission_update_status now i status reviewed_by note s = (case submission_get_by_id s i of
     None \<Rightarrow> s
   | Some r \<Rightarrow> s\<lparr>sb_submissions := save_row vs_id (r\<lparr>vs_status := status, vs_reviewed_by := Some reviewed_by,
       vs_reviewed_at := Some now, vs_review_note := (if note \<noteq> None then note else vs_review_note r)\<rparr>) (sb_submissions s)\<rparr>)"

section \<open>Submitting\<close>

record submit_request =
  sq_vendor_name :: string
  sq_display_name :: string
  sq_category :: "string option"
  sq_website_url :: "string option"
  sq_submitter_email :: string
  sq_submitter_name :: "string option"
  sq_reason :: "string option"
  sq_endpoints :: "submit_endpoint list option"

record submit_response =
  sp_id :: uuid
  sp_vendor_name :: string
  sp_display_name :: string
  sp_status :: string
  sp_message :: string
  sp_estimated_days :: "int option"

definition check_submitted_url :: "submit_env \<Rightarrow> string \<Rightarrow> (unit, review) service" where
  "check_submitted_url env url s = (case validate_outbound_url (sv_dns env) (sb_lookups s) url of
     (Inl reason, k) \<Rightarrow> (Inl (ValueError reason), s\<lparr>sb_lookups := k\<rparr>)
   | (Inr _, k) \<Rightarrow> (Inr (), s\<lparr>sb_lookups := k\<rparr>))"

fun check_endpoints :: "submit_env \<Rightarrow> submit_endpoint list \<Rightarrow> (unit, review) service" where
  "check_endpoints env [] s = (Inr (), s)"
| "check_endpoints env (e # es) s = and_then (check_submitted_url env (se_url e)) (\<lambda>_. check_endpoints env es) s"

fun store_endpoints :: "(nat \<Rightarrow> uuid) \<Rightarrow> nat \<Rightarrow> uuid \<Rightarrow> submit_endpoint list \<Rightarrow> (unit, review) service" where
  "store_endpoints ids k submission_id [] s = (Inr (), s)"
| "store_endpoints ids k submission_id (e # es) s =
     and_then (create_submission_endpoint (ids k) submission_id e) (\<lambda>_. store_endpoints ids (k + 1) submission_id es) s"

definition log_lead_capture :: "submit_env \<Rightarrow> string \<Rightarrow> string \<Rightarrow> string option \<Rightarrow> (unit, review) service" where
  "log_lead_capture env vendor_name email name s =
     (if sv_has_lead_captures env then (Inr (), s\<lparr>sb_leads := sb_leads s @ [(vendor_name, email, name)]\<rparr>)
      else (Inl (ValueError ''relation lead_captures does not exist''), s))"

definition confirmation_mail :: "string \<Rightarrow> string \<Rightarrow> string \<Rightarrow> mail" where
  "confirmation_mail email vendor_name display_name = \<lparr>ml_to = email,
     ml_subject = ''Reliastra - Vendor Submission Received: '' @ display_name,
     ml_body = ''Hi there,'' @ nl @ nl @ ''Thank you for submitting '' @ quoted display_name @ '' ('' @ vendor_name @
       '') to Reliastra.'' @ nl @ nl @ ''Your submission is currently pending review. Our team typically reviews '' @
       ''new vendor submissions within 3 business days. You will receive another email once a decision has been made.'' @ nl @ nl @
       ''If you have any questions, reply to this email.'' @ nl @ nl @ ''Best regards,'' @ nl @ ''The Reliastra Team''\<rparr>"

definition send_mail :: "mail \<Rightarrow> review \<Rightarrow> review" where
  "send_mail x s = s\<lparr>sb_mails := sb_mails s @ [x]\<rparr>"

definition submission_of :: "uuid \<Rightarrow> time \<Rightarrow> uuid option \<Rightarrow> string \<Rightarrow> submit_request \<Rightarrow> vendor_submission" where
  "submission_of i now user_id vendor_name rq = \<lparr>vs_id = i, vs_vendor_name = vendor_name, vs_display_name = sq_display_name rq,
     vs_category = sq_category rq, vs_website_url = sq_website_url rq, vs_submitter_email = sq_submitter_email rq,
     vs_submitter_name = sq_submitter_name rq, vs_submitter_user_id = user_id, vs_reason = sq_reason rq,
     vs_status = ''pending_review'', vs_review_note = None, vs_reviewed_by = None, vs_reviewed_at = None, vs_created_at = now\<rparr>"

definition received :: "submit_request \<Rightarrow> vendor_submission \<Rightarrow> review \<Rightarrow> (app_error + submit_response) \<times> review" where
  "received rq r s = (Inr \<lparr>sp_id = vs_id r, sp_vendor_name = vs_vendor_name r, sp_display_name = vs_display_name r,
       sp_status = vs_status r, sp_message = ''Your vendor submission has been received and is pending review. '' @
         ''We will notify you once it has been processed.'', sp_estimated_days = Some 3\<rparr>,
     send_mail (confirmation_mail (sq_submitter_email rq) (vs_vendor_name r) (sq_display_name rq)) s)"

definition accept_submission ::
  "submit_env \<Rightarrow> (nat \<Rightarrow> uuid) \<Rightarrow> time \<Rightarrow> uuid option \<Rightarrow> string \<Rightarrow> submit_request \<Rightarrow> (submit_response, review) service" where
  "accept_submission env ids now user_id vendor_name rq =
     (let es = (case sq_endpoints rq of None \<Rightarrow> [] | Some es \<Rightarrow> es)
      in and_then (\<lambda>s. if str_truthy (sq_website_url rq) then check_submitted_url env (the (sq_website_url rq)) s else (Inr (), s)) (\<lambda>_.
         and_then (check_endpoints env es) (\<lambda>_.
         and_then (create_submission (submission_of (ids 0) now user_id vendor_name rq)) (\<lambda>r.
         and_then (store_endpoints ids 1 (vs_id r) es) (\<lambda>_.
         and_then (log_lead_capture env vendor_name (sq_submitter_email rq) (sq_submitter_name rq)) (\<lambda>_. received rq r))))))"

definition submit_vendor ::
  "submit_env \<Rightarrow> (nat \<Rightarrow> uuid) \<Rightarrow> time \<Rightarrow> uuid option \<Rightarrow> submit_request \<Rightarrow> (submit_response, review) service" where
  "submit_vendor env ids now user_id rq s =
     (let vendor_name = sanitize_vendor_name (sq_vendor_name rq)
      in if vendor_name = [] then (Inl (ValidationException ''vendor_name must contain alphanumeric characters''), s)
         else if vendor_get_by_name (sb_catalog s) vendor_name \<noteq> None
         then (Inr \<lparr>sp_id = 0, sp_vendor_name = vendor_name, sp_display_name = sq_display_name rq, sp_status = ''already_exists'',
                sp_message = ''This vendor is already tracked in Reliastra.'', sp_estimated_days = None\<rparr>, s)
         else (case submission_get_by_vendor_name s vendor_name of
             Some r \<Rightarrow>
               if vs_status r = ''pending_review''
               then (Inr \<lparr>sp_id = vs_id r, sp_vendor_name = vendor_name, sp_display_name = sq_display_name rq,
                      sp_status = ''pending_review'', sp_message = ''This vendor has already been submitted and is awaiting review.'',
                      sp_estimated_days = Some 3\<rparr>, s)
               else accept_submission env ids now user_id vendor_name rq s
           | None \<Rightarrow> accept_submission env ids now user_id vendor_name rq s))"

section \<open>Reviewing\<close>

record approve_request =
  aq_vendor_name :: string
  aq_display_name :: string
  aq_category :: "string option"
  aq_endpoints :: "submit_endpoint list option"

record admin_action =
  aa_message :: string
  aa_submission_id :: uuid
  aa_status :: string

definition review_mail :: "string \<Rightarrow> string \<Rightarrow> string \<Rightarrow> string \<Rightarrow> string option \<Rightarrow> mail" where
  "review_mail email vendor_name display_name status reason =
     (if status = ''approved''
      then \<lparr>ml_to = email, ml_subject = ''Reliastra - Vendor Approved: '' @ display_name,
        ml_body = ''Hi there,'' @ nl @ nl @ ''Great news! Your vendor submission '' @ quoted display_name @ '' ('' @ vendor_name @ '') '' @
          ''has been approved and added to Reliastra.'' @ nl @ nl @ ''You can now view its status page and monitoring data.'' @ nl @ nl @
          ''Thank you for contributing to better infrastructure visibility.'' @ nl @ nl @ ''Best regards,'' @ nl @ ''The Reliastra Team''\<rparr>
      else \<lparr>ml_to = email, ml_subject = ''Reliastra - Vendor Submission Update: '' @ display_name,
        ml_body = ''Hi there,'' @ nl @ nl @ ''Your vendor submission '' @ quoted display_name @ '' ('' @ vendor_name @ '') '' @
          ''has been reviewed but was not approved at this time.'' @ nl @ nl @
          ''Reason: '' @ (if str_truthy reason then the reason else ''No additional details provided.'') @ nl @ nl @
          ''You are welcome to resubmit with additional information if you believe '' @
          ''this decision should be reconsidered.'' @ nl @ nl @ ''Best regards,'' @ nl @ ''The Reliastra Team''\<rparr>)"

definition pending_submission :: "review \<Rightarrow> string \<Rightarrow> string \<Rightarrow> uuid \<Rightarrow> app_error + vendor_submission" where
  "pending_submission s verb past i = (case submission_get_by_id s i of
     None \<Rightarrow> Inl (ResourceNotFoundException ''Vendor submission not found'')
   | Some r \<Rightarrow> if vs_status r \<noteq> ''pending_review''
       then Inl (ConflictException (''Cannot '' @ verb @ '' a submission with status '' @ quoted (vs_status r) @
         ''. Only pending_review submissions may be '' @ past @ ''.''))
       else Inr r)"

fun more_endpoints :: "(nat \<Rightarrow> uuid) \<Rightarrow> nat \<Rightarrow> time \<Rightarrow> uuid \<Rightarrow> string list \<Rightarrow> (unit, catalog) service" where
  "more_endpoints ids k now vendor_id [] s = (Inr (), s)"
| "more_endpoints ids k now vendor_id (url # urls) s =
     and_then (endpoint_create (ids k) now vendor_id url) (\<lambda>_. more_endpoints ids (k + 1) now vendor_id urls) s"

definition approved_vendor ::
  "(nat \<Rightarrow> uuid) \<Rightarrow> time \<Rightarrow> vendor_submission \<Rightarrow> approve_request \<Rightarrow> (unit, catalog) service" where
  "approved_vendor ids now r rq c =
     (let urls = map se_url (case aq_endpoints rq of None \<Rightarrow> [] | Some es \<Rightarrow> es);
          primary = (if urls \<noteq> [] then hd urls else if str_truthy (vs_website_url r) then the (vs_website_url r) else ''https://example.com'');
          category = (if str_truthy (aq_category rq) then the (aq_category rq)
            else if str_truthy (vs_category r) then the (vs_category r) else ''uncategorized'')
      in if vendor_get_by_name c (aq_vendor_name rq) \<noteq> None
         then (Inl (ConflictException (''A vendor with name '' @ quoted (aq_vendor_name rq) @ '' already exists.'')), c)
         else and_then (vendor_create (ids 0) (ids 1) now (aq_vendor_name rq) (aq_display_name rq) primary category True)
           (\<lambda>v. more_endpoints ids 2 now (vt_id v) (drop 1 urls)) c)"

definition approve_submission ::
  "(nat \<Rightarrow> uuid) \<Rightarrow> time \<Rightarrow> uuid \<Rightarrow> uuid \<Rightarrow> approve_request \<Rightarrow> (admin_action, review) service" where
  "approve_submission ids now i admin rq s = (case pending_submission s ''approve'' ''approved'' i of
     Inl e \<Rightarrow> (Inl e, s)
   | Inr r \<Rightarrow> and_then (on_catalog (approved_vendor ids now r rq)) (\<lambda>_ s.
       (Inr \<lparr>aa_message = ''Vendor '' @ quoted (aq_display_name rq) @ '' has been approved and added.'', aa_submission_id = i,
          aa_status = ''approved''\<rparr>,
        send_mail (review_mail (vs_submitter_email r) (vs_vendor_name r) (aq_display_name rq) ''approved'' None)
          (submission_update_status now i ''approved'' admin None s))) s)"

definition reject_submission :: "time \<Rightarrow> uuid \<Rightarrow> uuid \<Rightarrow> string \<Rightarrow> (admin_action, review) service" where
  "reject_submission now i admin reason s = (case pending_submission s ''reject'' ''rejected'' i of
     Inl e \<Rightarrow> (Inl e, s)
   | Inr r \<Rightarrow> (Inr \<lparr>aa_message = ''Vendor submission '' @ quoted (vs_vendor_name r) @ '' has been rejected.'', aa_submission_id = i,
         aa_status = ''rejected''\<rparr>,
       send_mail (review_mail (vs_submitter_email r) (vs_vendor_name r) (vs_display_name r) ''rejected'' (Some reason))
         (submission_update_status now i ''rejected'' admin (Some reason) s)))"

definition list_submissions :: "review \<Rightarrow> string option \<Rightarrow> nat \<Rightarrow> nat \<Rightarrow> vendor_submission paginated_response" where
  "list_submissions s status page page_size = (case repo_list_submissions s status page page_size of (rows, cnt) \<Rightarrow>
     accept_legacy_kwargs ((no_kwargs rows)\<lparr>lk_total := Some (int cnt), lk_page := Some (int page), lk_size := Some (int page_size),
       lk_pages := Some (max 1 ((int cnt + int page_size - 1) div int page_size))\<rparr>))"

text \<open>A session that is rolled back: the mails are sent and the lookups made.\<close>

definition with_review_session :: "('a, review) service \<Rightarrow> ('a, review) service" where
  "with_review_session f s = (case f s of (Inr x, s') \<Rightarrow> (Inr x, s')
     | (Inl e, s') \<Rightarrow> (Inl e, s\<lparr>sb_lookups := sb_lookups s', sb_mails := sb_mails s'\<rparr>))"

end
