(* ===== verification/Submission_Properties.thy ===== *)
theory Submission_Properties
  imports Submissions
begin

text \<open>
  Names of submitted vendors, and the review workflow over any sequence of operations.
\<close>

section \<open>Names\<close>

lemma collapse_subset: "set (collapse_hyphens s) \<subseteq> set s"
  by (induction s rule: collapse_hyphens.induct) auto

fun no_double :: "string \<Rightarrow> bool" where
  "no_double (a # b # s) = (\<not> (a = CHR ''-'' \<and> b = CHR ''-'') \<and> no_double (b # s))"
| "no_double _ = True"

lemma collapse_hd: "s \<noteq> [] \<Longrightarrow> \<exists>t. collapse_hyphens s = hd s # t"
  by (induction s rule: collapse_hyphens.induct) auto

lemma collapse_no_double: "no_double (collapse_hyphens s)"
proof (induction s rule: collapse_hyphens.induct)
  case (1 a b s)
  obtain t where t: "collapse_hyphens (b # s) = b # t"
    using collapse_hd [of "b # s"] by auto
  show ?case
    using 1 t by auto
qed auto

lemma collapse_id: "no_double s \<Longrightarrow> collapse_hyphens s = s"
  by (induction s rule: no_double.induct) auto

lemma no_double_tl: "no_double (a # s) \<Longrightarrow> no_double s"
  by (cases s) auto

lemma no_double_dropWhile: "no_double s \<Longrightarrow> no_double (dropWhile P s)"
  by (induction s) (auto dest: no_double_tl)

lemma no_double_append: "no_double (s @ [a, b]) = (no_double (s @ [a]) \<and> \<not> (a = CHR ''-'' \<and> b = CHR ''-''))"
  by (induction s rule: no_double.induct) auto

lemma no_double_rev: "no_double (rev s) = no_double s"
  by (induction s rule: no_double.induct) (auto simp: no_double_append)

lemma strip_no_double: "no_double s \<Longrightarrow> no_double (strip_hyphens s)"
  unfolding strip_hyphens_def by (metis no_double_dropWhile no_double_rev)

lemma strip_hyphens_subset: "set (strip_hyphens s) \<subseteq> set s"
  unfolding strip_hyphens_def using set_dropWhileD by (metis (no_types, lifting) set_rev subsetI)

lemma strip_hyphens_last: "strip_hyphens s \<noteq> [] \<Longrightarrow> last (strip_hyphens s) \<noteq> CHR ''-''"
  unfolding strip_hyphens_def by (metis (mono_tags, lifting) hd_dropWhile last_rev rev_is_Nil_conv)

lemma hd_rev_dropWhile:
  assumes "s = [] \<or> \<not> P (hd s)" and "t = rev (dropWhile P (rev s))" and "t \<noteq> []"
  shows "hd t = hd s"
proof -
  have "rev s = takeWhile P (rev s) @ dropWhile P (rev s)"
    by simp
  then have "s = rev (dropWhile P (rev s)) @ rev (takeWhile P (rev s))"
    by (metis rev_append rev_rev_ident)
  then have "s = t @ rev (takeWhile P (rev s))"
    using assms(2) by simp
  then have "hd s = hd (t @ rev (takeWhile P (rev s)))"
    by (rule arg_cong)
  then show ?thesis
    using assms(3) by simp
qed

lemma strip_hyphens_hd: "strip_hyphens s \<noteq> [] \<Longrightarrow> hd (strip_hyphens s) \<noteq> CHR ''-''"
proof -
  let ?P = "\<lambda>c. c = CHR ''-''"
  assume ne: "strip_hyphens s \<noteq> []"
  have "dropWhile ?P s \<noteq> []"
  proof
    assume "dropWhile ?P s = []"
    then have "strip_hyphens s = []"
      by (simp only: strip_hyphens_def rev.simps dropWhile.simps)
    then show False
      using ne by simp
  qed
  then have h: "\<not> ?P (hd (dropWhile ?P s))"
    by (rule hd_dropWhile)
  then have "hd (strip_hyphens s) = hd (dropWhile ?P s)"
    using hd_rev_dropWhile [of "dropWhile ?P s" ?P "strip_hyphens s", OF disjI2 strip_hyphens_def ne] by blast
  then show ?thesis
    using h by simp
qed

lemma strip_hyphens_id: "s = [] \<or> (hd s \<noteq> CHR ''-'' \<and> last s \<noteq> CHR ''-'') \<Longrightarrow> strip_hyphens s = s"
proof -
  assume s: "s = [] \<or> (hd s \<noteq> CHR ''-'' \<and> last s \<noteq> CHR ''-'')"
  have keep: "dropWhile (\<lambda>c. c = CHR ''-'') t = t" if "t = [] \<or> hd t \<noteq> CHR ''-''" for t
    using that by (cases t) auto
  have "dropWhile (\<lambda>c. c = CHR ''-'') s = s" "dropWhile (\<lambda>c. c = CHR ''-'') (rev s) = rev s"
    using s by (auto intro!: keep simp: hd_rev)
  then show ?thesis
    by (simp add: strip_hyphens_def)
qed

lemma slug_char_cases: "is_slug_char c \<Longrightarrow> lower_char c = c \<and> \<not> is_space c"
  by (auto simp: is_slug_char_def lower_char_def is_space_def Let_def)

definition slug :: "string \<Rightarrow> bool" where
  "slug s = ((\<forall>c \<in> set s. is_slug_char c) \<and> no_double s \<and> (s = [] \<or> (hd s \<noteq> CHR ''-'' \<and> last s \<noteq> CHR ''-'')))"

lemma sanitize_slug: "slug (sanitize_vendor_name raw)"
proof -
  let ?f = "filter is_slug_char (spaces_to_hyphen (lower (strip raw)))"
  have "set (sanitize_vendor_name raw) \<subseteq> set ?f"
    unfolding sanitize_vendor_name_def using strip_hyphens_subset collapse_subset by blast
  then have "\<forall>c \<in> set (sanitize_vendor_name raw). is_slug_char c"
    by auto
  moreover have "no_double (sanitize_vendor_name raw)"
    unfolding sanitize_vendor_name_def by (rule strip_no_double [OF collapse_no_double])
  moreover have "sanitize_vendor_name raw = [] \<or>
      (hd (sanitize_vendor_name raw) \<noteq> CHR ''-'' \<and> last (sanitize_vendor_name raw) \<noteq> CHR ''-'')"
    unfolding sanitize_vendor_name_def using strip_hyphens_hd strip_hyphens_last by blast
  ultimately show ?thesis
    unfolding slug_def by blast
qed

lemma slug_lower: "\<forall>c \<in> set s. is_slug_char c \<Longrightarrow> lower s = s"
  by (simp add: lower_def map_idI slug_char_cases)

lemma slug_strip: "\<forall>c \<in> set s. \<not> is_space c \<Longrightarrow> strip s = s"
proof -
  assume s: "\<forall>c \<in> set s. \<not> is_space c"
  have keep: "dropWhile is_space t = t" if "\<forall>c \<in> set t. \<not> is_space c" for t
    using that by (cases t) auto
  have "dropWhile is_space s = s" "dropWhile is_space (rev s) = rev s"
    using s by (simp_all add: keep)
  then show ?thesis
    by (simp add: strip_def)
qed

lemma slug_spaces: "\<forall>c \<in> set s. \<not> is_space c \<Longrightarrow> spaces_to_hyphen s = s"
  by (induction s) auto

lemma sanitize_id:
  assumes "slug s"
  shows "sanitize_vendor_name s = s"
proof -
  have "\<forall>c \<in> set s. \<not> is_space c" "\<forall>c \<in> set s. is_slug_char c"
    using assms slug_char_cases by (auto simp: slug_def)
  then show ?thesis
    using assms by (simp add: sanitize_vendor_name_def slug_lower slug_strip slug_spaces collapse_id strip_hyphens_id slug_def)
qed

text \<open>
  The name a submission is stored under has only lower-case letters, digits and single inner hyphens;
  such names are kept, so cleaning a name twice changes nothing.
\<close>

theorem sanitized_names:
  "slug (sanitize_vendor_name raw) \<and> (sanitize_vendor_name s = s) = slug s \<and>
   sanitize_vendor_name (sanitize_vendor_name raw) = sanitize_vendor_name raw"
  using sanitize_slug sanitize_id by metis

section \<open>Without the table of leads\<close>

lemma and_then_fails: "(\<And>a s. \<exists>e s'. g a s = (Inl e, s')) \<Longrightarrow> \<exists>e s'. and_then f g s = (Inl e, s')"
  by (auto simp: and_then_def split: prod.splits sum.splits)

definition log_and_confirm where
  "log_and_confirm env name rq r =
     and_then (log_lead_capture env name (sq_submitter_email rq) (sq_submitter_name rq)) (\<lambda>_. received rq r)"

lemma log_and_confirm_fails: "\<not> sv_has_lead_captures env \<Longrightarrow>
    log_and_confirm env name rq r s = (Inl (ValueError ''relation lead_captures does not exist''), s)"
  by (simp add: log_and_confirm_def and_then_def log_lead_capture_def)

lemmas accept_unfold = accept_submission_def [unfolded Let_def, folded log_and_confirm_def]

lemma accept_fails: "\<not> sv_has_lead_captures env \<Longrightarrow> \<exists>e s'. accept_submission env ids now uid name rq s = (Inl e, s')"
  unfolding accept_unfold by (intro and_then_fails) (simp add: log_and_confirm_fails)

lemma accept_mails:
  assumes "\<not> sv_has_lead_captures env" and "accept_submission env ids now uid name rq s = (r, s')"
  shows "sb_mails s' = sb_mails s"
proof -
  have ep: "sb_mails (snd (check_endpoints env es s)) = sb_mails s" for es s
    by (induction es arbitrary: s)
      (auto simp: and_then_def check_submitted_url_def split: prod.splits sum.splits)
  have st: "sb_mails (snd (store_endpoints ids k i es s)) = sb_mails s" for k i es s
    by (induction es arbitrary: k s)
      (auto simp: and_then_def create_submission_endpoint_def Let_def split: prod.splits sum.splits)
  have bind: "sb_mails (snd (and_then f g s)) = sb_mails s"
    if "\<And>s. sb_mails (snd (f s)) = sb_mails s" "\<And>a s. sb_mails (snd (g a s)) = sb_mails s"
    for f :: "('a, review) service" and g :: "'a \<Rightarrow> ('b, review) service" and s
    using that by (auto simp: and_then_def split: prod.splits sum.splits) (metis snd_conv)+
  have "sb_mails (snd (accept_submission env ids now uid name rq s)) = sb_mails s"
    unfolding accept_unfold
    by (intro bind ep st)
      (auto simp: check_submitted_url_def create_submission_def log_and_confirm_fails [OF assms(1)] split: prod.splits sum.splits)
  then show ?thesis
    using assms(2) by simp
qed

text \<open>
  C35: In the schema the migrations create, which lacks the table \<^verbatim>\<open>lead_captures\<close>, no submission is ever
  stored: a request is answered that the vendor exists or is pending, or fails; nothing is kept but the
  lookups, and no mail is sent.
\<close>

theorem submissions_never_stored:
  assumes "\<not> sv_has_lead_captures env" and "with_review_session (submit_vendor env ids now uid rq) s = (r, s')"
  shows "s' = s\<lparr>sb_lookups := sb_lookups s'\<rparr> \<and>
    (case r of Inl _ \<Rightarrow> True | Inr a \<Rightarrow> sp_status a = ''already_exists'' \<or>
      (\<exists>x \<in> set (sb_submissions s). vs_id x = sp_id a \<and> vs_status x = ''pending_review''))"
proof -
  let ?name = "sanitize_vendor_name (sq_vendor_name rq)"
  obtain e s1 where acc: "accept_submission env ids now uid ?name rq s = (Inl e, s1)"
    using accept_fails [OF assms(1)] by blast
  have mails: "sb_mails s1 = sb_mails s"
    using accept_mails [OF assms(1) acc] .
  have found: "x \<in> set (sb_submissions s)" if "submission_get_by_vendor_name s ?name = Some x" for x
    using that by (auto simp: submission_get_by_vendor_name_def dest: get_row_Some)
  show ?thesis
    using assms(2) acc mails found
    by (auto simp: with_review_session_def submit_vendor_def Let_def split: if_splits option.splits)
qed

section \<open>The review\<close>

definition review_wf :: "review \<Rightarrow> bool" where
  "review_wf s = (distinct (map vs_id (sb_submissions s)) \<and> distinct (map vs_vendor_name (sb_submissions s)))"

inductive review_step :: "review \<Rightarrow> review \<Rightarrow> bool" where
  submitted: "ids 0 \<notin> vs_id ` set (sb_submissions s) \<Longrightarrow>
    with_review_session (submit_vendor env ids now uid rq) s = (r, s') \<Longrightarrow> review_step s s'"
| approved: "with_review_session (approve_submission ids now i admin arq) s = (a, s') \<Longrightarrow> review_step s s'"
| rejected: "with_review_session (reject_submission now i admin reason) s = (a, s') \<Longrightarrow> review_step s s'"
| other: "review_step s (s\<lparr>sb_catalog := c\<rparr>)"

text \<open>What a step does to the submissions: nothing, one new pending row, or the review of a pending row.\<close>

definition review_effect :: "review \<Rightarrow> review \<Rightarrow> bool" where
  "review_effect s s' = (sb_submissions s' = sb_submissions s \<or>
     (\<exists>r. sb_submissions s' = sb_submissions s @ [r] \<and> vs_id r \<notin> vs_id ` set (sb_submissions s) \<and>
        vs_vendor_name r \<notin> vs_vendor_name ` set (sb_submissions s)) \<or>
     (\<exists>r r'. r \<in> set (sb_submissions s) \<and> vs_status r = ''pending_review'' \<and> vs_id r' = vs_id r \<and>
        vs_vendor_name r' = vs_vendor_name r \<and> sb_submissions s' = save_row vs_id r' (sb_submissions s)))"

lemma store_endpoints_rows: "sb_submissions (snd (store_endpoints ids k i es s)) = sb_submissions s"
  by (induction es arbitrary: k s) (auto simp: and_then_def create_submission_endpoint_def Let_def split: prod.splits sum.splits)

lemma check_endpoints_rows: "sb_submissions (snd (check_endpoints env es s)) = sb_submissions s"
  by (induction es arbitrary: s) (auto simp: and_then_def check_submitted_url_def split: prod.splits sum.splits)

lemma accept_E:
  assumes "accept_submission env ids now uid name rq s = (Inr resp, s')"
  shows "\<exists>r. sb_submissions s' = sb_submissions s @ [r] \<and> vs_id r = ids 0 \<and> vs_vendor_name r = name \<and>
    name \<notin> vs_vendor_name ` set (sb_submissions s)"
proof -
  define es where "es = (case sq_endpoints rq of None \<Rightarrow> [] | Some es \<Rightarrow> es)"
  obtain s1 s2 s3 s4 s5 r where
      a: "(if str_truthy (sq_website_url rq) then check_submitted_url env (the (sq_website_url rq)) s else (Inr (), s)) = (Inr (), s1)"
    and b: "check_endpoints env es s1 = (Inr (), s2)"
    and c: "create_submission (submission_of (ids 0) now uid name rq) s2 = (Inr r, s3)"
    and d: "store_endpoints ids 1 (vs_id r) es s3 = (Inr (), s4)"
    and e: "log_lead_capture env name (sq_submitter_email rq) (sq_submitter_name rq) s4 = (Inr (), s5)"
    and f: "received rq r s5 = (Inr resp, s')"
    using assms unfolding accept_submission_def Let_def es_def by (elim and_then_E) auto
  have "sb_submissions s1 = sb_submissions s"
    using a by (auto simp: check_submitted_url_def split: if_splits prod.splits sum.splits)
  moreover have "sb_submissions s2 = sb_submissions s1" "sb_submissions s4 = sb_submissions s3"
    using check_endpoints_rows [of env es s1] b store_endpoints_rows [of ids 1 "vs_id r" es s3] d by simp_all
  moreover have "sb_submissions s5 = sb_submissions s4"
    using e by (auto simp: log_lead_capture_def split: if_splits)
  moreover have "sb_submissions s' = sb_submissions s5"
    using f by (auto simp: received_def send_mail_def)
  moreover have "sb_submissions s3 = sb_submissions s2 @ [submission_of (ids 0) now uid name rq]"
    "vs_vendor_name (submission_of (ids 0) now uid name rq) \<notin> vs_vendor_name ` set (sb_submissions s2)"
    using c by (auto simp: create_submission_def split: if_splits)
  ultimately show ?thesis
    by (simp add: submission_of_def)
qed

lemma rollback_rows: "fst (with_review_session f s) = Inl e \<Longrightarrow> sb_submissions (snd (with_review_session f s)) = sb_submissions s"
  by (auto simp: with_review_session_def split: prod.splits sum.splits)


lemma rejected_rows: "with_review_session f s = (Inl e, s') \<Longrightarrow> sb_submissions s' = sb_submissions s"
  by (auto simp: with_review_session_def split: prod.splits sum.splits)

lemma accepted_rows: "with_review_session f s = (Inr x, s') \<Longrightarrow> f s = (Inr x, s')"
  by (auto simp: with_review_session_def split: prod.splits sum.splits)

lemma submit_effect:
  assumes "submit_vendor env ids now uid rq s = (Inr x, s')" and "ids 0 \<notin> vs_id ` set (sb_submissions s)"
  shows "review_effect s s'"
proof (cases "s' = s")
  case False
  then have "accept_submission env ids now uid (sanitize_vendor_name (sq_vendor_name rq)) rq s = (Inr x, s')"
    using assms(1) by (auto simp: submit_vendor_def Let_def split: if_splits option.splits)
  from accept_E [OF this] show ?thesis
    using assms(2) by (auto simp: review_effect_def)
qed (simp add: review_effect_def)

lemma pending_row: "pending_submission s verb past i = Inr r \<Longrightarrow>
    r \<in> set (sb_submissions s) \<and> vs_id r = i \<and> vs_status r = ''pending_review'' \<and> submission_get_by_id s i = Some r"
  by (auto simp: pending_submission_def submission_get_by_id_def split: option.splits if_splits dest: get_row_Some)

lemma on_catalog_rows: "sb_submissions (snd (on_catalog f s)) = sb_submissions s"
  by (simp add: on_catalog_def split: prod.splits)

lemma update_effect:
  assumes "sb_submissions t = sb_submissions s" and "pending_submission s verb past i = Inr r"
  shows "review_effect s (send_mail x (submission_update_status now i status admin note t))"
proof -
  have r: "r \<in> set (sb_submissions s)" "vs_status r = ''pending_review''" "submission_get_by_id t i = Some r"
    using pending_row [OF assms(2)] assms(1) by (simp_all add: submission_get_by_id_def)
  define r' where "r' = r\<lparr>vs_status := status, vs_reviewed_by := Some admin, vs_reviewed_at := Some now,
    vs_review_note := (if note \<noteq> None then note else vs_review_note r)\<rparr>"
  have "vs_id r' = vs_id r" "vs_vendor_name r' = vs_vendor_name r"
    "sb_submissions (send_mail x (submission_update_status now i status admin note t)) = save_row vs_id r' (sb_submissions s)"
    using r assms(1) by (simp_all add: r'_def submission_update_status_def send_mail_def)
  then show ?thesis
    using r unfolding review_effect_def by blast
qed

lemma approve_effect: "approve_submission ids now i admin rq s = (Inr x, s') \<Longrightarrow> review_effect s s'"
proof -
  assume a: "approve_submission ids now i admin rq s = (Inr x, s')"
  then obtain r where r: "pending_submission s ''approve'' ''approved'' i = Inr r"
    by (auto simp: approve_submission_def split: sum.splits)
  obtain t where "on_catalog (approved_vendor ids now r rq) s = (Inr (), t)"
      "s' = send_mail (review_mail (vs_submitter_email r) (vs_vendor_name r) (aq_display_name rq) ''approved'' None)
          (submission_update_status now i ''approved'' admin None t)"
    using a r by (auto simp: approve_submission_def elim!: and_then_E)
  then show ?thesis
    using update_effect [OF _ r] on_catalog_rows [of "approved_vendor ids now r rq" s] by simp
qed

lemma reject_effect: "reject_submission now i admin reason s = (Inr x, s') \<Longrightarrow> review_effect s s'"
  by (auto simp: reject_submission_def split: sum.splits intro: update_effect)

lemma session_effect:
  assumes "with_review_session f s = (r, s')" and "\<And>x. f s = (Inr x, s') \<Longrightarrow> review_effect s s'"
  shows "review_effect s s'"
proof (cases r)
  case (Inl e)
  then show ?thesis
    using assms(1) rejected_rows [of f s e s'] by (simp add: review_effect_def)
next
  case (Inr x)
  then show ?thesis
    using assms accepted_rows [of f s x s'] by simp
qed

lemma review_step_effect: "review_step s s' \<Longrightarrow> review_effect s s'"
proof (induction rule: review_step.induct)
  case (submitted ids s env now uid rq r s')
  then show ?case
    using session_effect submit_effect by metis
next
  case (approved ids now i admin arq s a s')
  then show ?case
    using session_effect approve_effect by metis
next
  case (rejected now i admin reason s a s')
  then show ?case
    using session_effect reject_effect by metis
next
  case (other s c)
  then show ?case
    by (simp add: review_effect_def)
qed

lemma review_effect_wf: "review_effect s s' \<Longrightarrow> review_wf s \<Longrightarrow> review_wf s'"
  unfolding review_effect_def review_wf_def by (elim disjE exE conjE) (simp_all add: map_save_row_same)

lemma review_effect_keeps:
  "review_effect s s' \<Longrightarrow> review_wf s \<Longrightarrow> r \<in> set (sb_submissions s) \<Longrightarrow> vs_status r \<noteq> ''pending_review'' \<Longrightarrow>
    r \<in> set (sb_submissions s')"
  unfolding review_effect_def review_wf_def
  by (elim disjE exE conjE) (auto simp: save_row_def image_iff dest: distinct_map_inj)

lemma review_steps_keep:
  "review_step\<^sup>*\<^sup>* s s' \<Longrightarrow> review_wf s \<Longrightarrow>
    review_wf s' \<and> (\<forall>r \<in> set (sb_submissions s). vs_status r \<noteq> ''pending_review'' \<longrightarrow> r \<in> set (sb_submissions s'))"
  by (induction rule: rtranclp_induct) (auto dest!: review_step_effect intro: review_effect_wf review_effect_keeps)

lemma reviewed_not_pending:
  assumes "review_wf s" "r \<in> set (sb_submissions s)" "vs_status r \<noteq> ''pending_review''"
  shows "\<exists>e. pending_submission s verb past (vs_id r) = Inl e"
proof -
  have "submission_get_by_id s (vs_id r) = Some r"
    using assms unfolding submission_get_by_id_def review_wf_def by (blast intro: get_row_distinct)
  then show ?thesis
    using assms(3) by (simp add: pending_submission_def)
qed

lemma reviewed_name_taken:
  assumes "review_wf s" "r \<in> set (sb_submissions s)" "vs_status r \<noteq> ''pending_review''"
    and "sanitize_vendor_name (sq_vendor_name rq) = vs_vendor_name r"
    and "submit_vendor env ids now uid rq s = (Inr x, s')"
  shows "sp_status x = ''already_exists''"
proof (rule ccontr)
  assume x: "sp_status x \<noteq> ''already_exists''"
  let ?n = "vs_vendor_name r"
  have "lower ?n = ?n"
    using sanitize_slug [of "sq_vendor_name rq"] by (simp add: assms(4) slug_lower slug_def)
  then have "submission_get_by_vendor_name s ?n = Some r"
    using assms(1,2) unfolding submission_get_by_vendor_name_def review_wf_def by (auto intro: get_row_distinct)
  then have "accept_submission env ids now uid ?n rq s = (Inr x, s')"
    using assms(3,4,5) x by (auto simp: submit_vendor_def Let_def split: if_splits)
  from accept_E [OF this] show False
    using assms(2) by auto
qed

text \<open>
  C35: A review is final: whatever is submitted, approved or rejected later, the row stays as the reviewer
  left it, approving or rejecting it again fails, and no later submission of the same name is accepted,
  although the mail of a rejection invites the submitter to submit again.
\<close>

theorem review_final:
  assumes "sb_submissions s0 = []" and "review_step\<^sup>*\<^sup>* s0 s" and "review_step\<^sup>*\<^sup>* s s'"
    and "r \<in> set (sb_submissions s)" and "vs_status r \<noteq> ''pending_review''"
  shows "r \<in> set (sb_submissions s') \<and>
    (\<exists>e. approve_submission ids now (vs_id r) admin arq s' = (Inl e, s')) \<and>
    (\<exists>e. reject_submission now (vs_id r) admin reason s' = (Inl e, s')) \<and>
    (sanitize_vendor_name (sq_vendor_name rq) = vs_vendor_name r \<longrightarrow>
      (case submit_vendor env ids now uid rq s' of (Inl e, _) \<Rightarrow> True | (Inr x, _) \<Rightarrow> sp_status x = ''already_exists''))"
proof -
  have "review_wf s0"
    using assms(1) by (simp add: review_wf_def)
  then have "review_wf s"
    using review_steps_keep [OF assms(2)] by blast
  then have wf: "review_wf s'" and r: "r \<in> set (sb_submissions s')"
    using review_steps_keep [OF assms(3)] assms(4,5) by blast+
  obtain e where "pending_submission s' ''approve'' ''approved'' (vs_id r) = Inl e"
    using reviewed_not_pending [OF wf r assms(5)] by blast
  moreover obtain e' where "pending_submission s' ''reject'' ''rejected'' (vs_id r) = Inl e'"
    using reviewed_not_pending [OF wf r assms(5)] by blast
  moreover note r reviewed_name_taken [OF wf r assms(5)]
  ultimately show ?thesis
    by (auto simp: approve_submission_def reject_submission_def split: prod.split sum.split)
qed

section \<open>Examples\<close>

definition example_review :: review where
  "example_review = \<lparr>sb_catalog = \<lparr>ca_monitor = empty_monitor, ca_vendors = [], ca_endpoints = [],
     ca_cache = \<lparr>r_up = True, r_kv = (\<lambda>_. None)\<rparr>\<rparr>,
     sb_submissions = [], sb_endpoints = [], sb_leads = [], sb_lookups = 0, sb_mails = []\<rparr>"

definition example_submission :: submit_request where
  "example_submission = \<lparr>sq_vendor_name = ''acme -io'', sq_display_name = ''acme'', sq_category = None, sq_website_url = None,
     sq_submitter_email = ''a@b.io'', sq_submitter_name = None, sq_reason = None, sq_endpoints = None\<rparr>"

definition example_env :: "bool \<Rightarrow> submit_env" where
  "example_env leads = \<lparr>sv_dns = (\<lambda>_ _. []), sv_has_lead_captures = leads\<rparr>"

lemma example_name: "sanitize_vendor_name ''acme -io'' = ''acme-io''"
  by code_simp

definition example_row :: vendor_submission where
  "example_row = submission_of 7 100 None ''acme-io'' example_submission"

lemma example_submit:
  "submit_vendor (example_env leads) ((+) 7) 100 None example_submission example_review =
     log_and_confirm (example_env leads) ''acme-io'' example_submission example_row (example_review\<lparr>sb_submissions := [example_row]\<rparr>)"
  by (simp add: submit_vendor_def example_name vendor_get_by_name_def submission_get_by_vendor_name_def get_row_def accept_unfold
      and_then_def str_truthy_def create_submission_def submission_fits_def submission_of_def example_row_def example_submission_def
      example_review_def Let_def)

theorem submissions_never_stored_witness:
  "\<exists>s'. with_review_session (submit_vendor (example_env False) ((+) 7) 100 None example_submission) example_review =
       (Inl (ValueError ''relation lead_captures does not exist''), s') \<and>
     s' = example_review\<lparr>sb_lookups := sb_lookups s'\<rparr>"
proof -
  let ?f = "submit_vendor (example_env False) ((+) 7) 100 None example_submission"
  have no_leads: "\<not> sv_has_lead_captures (example_env False)"
    by (simp add: example_env_def)
  obtain s' where s': "with_review_session ?f example_review = (Inl (ValueError ''relation lead_captures does not exist''), s')"
    by (simp add: with_review_session_def example_submit log_and_confirm_fails [OF no_leads])
  then show ?thesis
    using submissions_never_stored [OF no_leads s'] by blast
qed

theorem review_final_witness:
  "\<exists>s r. r \<in> set (sb_submissions s) \<and> vs_status r = ''rejected'' \<and> vs_vendor_name r = ''acme-io'' \<and>
     (\<exists>e. approve_submission ((+) 20) 300 (vs_id r) 1 \<lparr>aq_vendor_name = ''acme-io'', aq_display_name = ''acme'',
        aq_category = None, aq_endpoints = None\<rparr> s = (Inl e, s))"
proof -
  let ?env = "example_env True" and ?ids = "(+) 7"
  let ?r = "example_row\<lparr>vs_status := ''rejected'', vs_reviewed_by := Some 1, vs_reviewed_at := Some 200, vs_review_note := Some ''no''\<rparr>"
  have leads: "sv_has_lead_captures ?env"
    by (simp add: example_env_def)
  obtain x s1 where s1: "with_review_session (submit_vendor ?env ?ids 100 None example_submission) example_review = (Inr x, s1)"
      "sb_submissions s1 = [example_row]"
    by (simp add: with_review_session_def example_submit log_and_confirm_def and_then_def log_lead_capture_def leads
        received_def send_mail_def)
  have one: "review_step example_review s1"
    by (rule review_step.submitted [OF _ s1(1)]) (simp add: example_review_def)
  have "submission_get_by_id s1 7 = Some example_row"
    by (simp add: submission_get_by_id_def s1 get_row_def example_row_def submission_of_def)
  then obtain a s2 where s2: "with_review_session (reject_submission 200 7 1 ''no'') s1 = (Inr a, s2)" "sb_submissions s2 = [?r]"
    by (simp add: with_review_session_def reject_submission_def pending_submission_def example_row_def submission_of_def
        submission_update_status_def send_mail_def save_row_def s1)
  have two: "review_step s1 s2"
    by (rule review_step.rejected [OF s2(1)])
  have "review_step\<^sup>*\<^sup>* example_review s2"
    using one two by auto
  then have "\<exists>e. approve_submission ((+) 20) 300 (vs_id ?r) 1 \<lparr>aq_vendor_name = ''acme-io'', aq_display_name = ''acme'',
      aq_category = None, aq_endpoints = None\<rparr> s2 = (Inl e, s2)"
    using review_final [of example_review s2 s2 ?r] s2(2) by (simp add: example_review_def)
  then show ?thesis
    using s2(2) by (intro exI [of _ s2] exI [of _ ?r]) (simp add: example_row_def submission_of_def)
qed

end
