(* ===== verification/OAuth_Properties.thy ===== *)
theory OAuth_Properties
  imports Supabase_Auth Auth_Properties
begin

text \<open>
  What a sign-in with an external identity does to the accounts, and the life of its CSRF state.
\<close>

section \<open>Users\<close>

lemma get_row_save_same:
  assumes "get_row g v t = Some u" and "key r = key u" and "g r = v"
  shows "get_row g v (save_row key r t) = Some r"
  using assms(1)
proof (induction t)
  case (Cons x t)
  then show ?case
    using assms(2,3) by (cases "g x = v") (auto simp: get_row_def save_row_def)
qed (simp add: get_row_def)

lemma get_row_save_new:
  "x \<in> set t \<Longrightarrow> v \<notin> g ` set t \<Longrightarrow> key r = key x \<Longrightarrow> g r = v \<Longrightarrow> get_row g v (save_row key r t) = Some r"
  by (induction t) (auto simp: get_row_def save_row_def)

lemma put_link_kept [simp]:
  "u_id (put_link k r) = u_id r" "u_email (put_link k r) = u_email r" "u_password_hash (put_link k r) = u_password_hash r"
  "u_is_active (put_link k r) = u_is_active r" "u_full_name (put_link k r) = u_full_name r"
  by (induction k r rule: put_link.induct) simp_all

lemma set_links_kept [simp]:
  "u_id (set_fields put_link kws r) = u_id r" "u_email (set_fields put_link kws r) = u_email r"
  "u_password_hash (set_fields put_link kws r) = u_password_hash r" "u_is_active (set_fields put_link kws r) = u_is_active r"
  by (induction kws arbitrary: r) (simp_all add: set_fields_def)

lemma link_user_E:
  assumes "link_user user kws s = (Inr r, s')"
  obtains "r = set_fields put_link kws user" and "s' = save_user r s"
  using assms by (auto simp: link_user_def Let_def split: if_splits)

lemma create_org_and_agency_users:
  "create_org_and_agency now ids user full_name s = (Inr x, s') \<Longrightarrow> db_users s' = db_users s"
  by (auto simp: create_org_and_agency_def org_create_def add_org_def add_member_def insert_member_def create_application_def Let_def
      elim!: and_then_E split: if_splits)

lemma oauth_session_E:
  assumes "oauth_session sec now ids x a = (Inr (tokens, n), a')"
  obtains "u_is_active (fst x)" and "n = snd x" and "tokens = generate_token_pair sec now (ri_jtis ids) (u_id (fst x))"
    and "au_db a' = au_db a"
proof -
  have act: "u_is_active (fst x)"
    using assms by (auto simp: oauth_session_def pure_step_def split: if_splits)
  then obtain t a1 where op: "open_session sec now (ri_jtis ids) (ri_token ids) (ri_family ids) (u_id (fst x)) a = (Inr t, a1)"
    and "(tokens, n) = (t, snd x)" "a' = a1"
    using assms by (auto simp: oauth_session_def elim!: and_then_E)
  from op show thesis
    by (rule open_session_E) (use act \<open>(tokens, n) = (t, snd x)\<close> \<open>a' = a1\<close> in \<open>auto intro!: that simp: add_refresh_def\<close>)
qed

lemma github_authenticate_E:
  assumes "github_authenticate sec st pv now ids password code state s = (Inr (tokens, n), s')"
  obtains profile u d where "github_profile st pv code = Inr profile"
    and "github_account sec now ids password profile (au_db (sg_auth s)) = (Inr (u, n), d)"
    and "u_is_active u" and "tokens = generate_token_pair sec now (ri_jtis ids) (u_id u)" and "au_db (sg_auth s') = d"
proof -
  obtain s1 profile x s2 where cs: "check_signin_state now GITHUB_STATE_PREFIX state s = (Inr (), s1)"
    and pr: "github_profile st pv code = Inr profile"
    and ac: "on_auth (on_db (github_account sec now ids password profile)) s1 = (Inr x, s2)"
    and se: "on_auth (oauth_session sec now ids x) s2 = (Inr (tokens, n), s')"
    using assms by (auto simp: github_authenticate_def elim!: and_then_E)
  obtain d where d: "github_account sec now ids password profile (au_db (sg_auth s1)) = (Inr x, d)" "au_db (sg_auth s2) = d"
    using ac by (auto elim!: on_auth_E on_db_E)
  obtain a where a: "oauth_session sec now ids x (sg_auth s2) = (Inr (tokens, n), a)" "s' = s2\<lparr>sg_auth := a\<rparr>"
    using se by (rule on_auth_E)
  from a(1) show thesis
    by (rule oauth_session_E) (use that [OF pr, of "fst x" d] d a(2) check_signin_state_auth [OF cs] in \<open>cases x, auto\<close>)
qed

text \<open>The three ways to an account; each leaves the provider's identifier on the account's row.\<close>

lemma link_row:
  assumes "get_row g v (db_users s) = Some u" and "g r = v" and "u_id r = u_id u"
  shows "get_row g v (db_users (save_user r s)) = Some r"
  using get_row_save_same [of g v "db_users s" u u_id r] assms by (simp add: save_user_def)

lemma github_account_row:
  assumes "github_account sec now ids password (gid, email, verified, name, avatar) s = (Inr (u, n), d)"
  shows "user_get_by_github_id d gid = Some u \<and> (user_get_by_github_id s gid = None \<or> \<not> n)"
proof (cases "user_get_by_github_id s gid")
  case (Some user)
  then have gid: "u_github_id user = Some gid"
    by (auto simp: user_get_by_github_id_def dest: get_row_Some)
  have "u = user \<and> d = s \<and> \<not> n \<or> (\<exists>x. u = set_fields put_link [LfAvatarUrl x] user \<and> d = save_user u s \<and> \<not> n)"
    using assms Some by (auto simp: github_account_def elim!: and_then_E link_user_E split: if_splits)
  then show ?thesis
  proof
    assume "\<exists>x. u = set_fields put_link [LfAvatarUrl x] user \<and> d = save_user u s \<and> \<not> n"
    then obtain x where u: "u = set_fields put_link [LfAvatarUrl x] user" "d = save_user u s" "\<not> n"
      by blast
    have "u_github_id u = Some gid" "u_id u = u_id user"
      using gid u(1) by (cases x; simp add: set_fields_def)+
    then show ?thesis
      using link_row [of u_github_id "Some gid" s user u] Some u by (simp add: user_get_by_github_id_def)
  qed (use Some in auto)
next
  case None
  then have no: "Some gid \<notin> u_github_id ` set (db_users s)"
    by (simp add: user_get_by_github_id_def get_row_None)
  show ?thesis
  proof (cases "user_get_by_email s email")
    case (Some user)
    then obtain x where u: "u = set_fields put_link [LfGithubId (Some gid), LfAvatarUrl x, LfAuthProvider (Some ''github'')] user"
        "d = save_user u s" "\<not> n"
      using assms None by (auto simp: github_account_def elim!: and_then_E link_user_E)
    have gid: "u_github_id u = Some gid" and uid: "u_id u = u_id user"
      using u(1) by (cases x; simp add: set_fields_def)+
    have "user \<in> set (db_users s)"
      using Some by (auto simp: user_get_by_email_def dest: get_row_Some)
    then have "get_row u_github_id (Some gid) (save_row u_id u (db_users s)) = Some u"
      by (rule get_row_save_new [OF _ no uid gid])
    then show ?thesis
      using None u by (simp add: user_get_by_github_id_def save_user_def)
  next
    case no_email: None
    then obtain hash full_name avatar_url s1 where
        cr: "user_create (ri_user ids) now email hash full_name False verified None (Some gid) avatar_url (Some ''github'') None True s = (Inr u, s1)"
      and org: "create_org_and_agency now ids u full_name s1 = (Inr (), d)"
      using assms None by (auto simp: github_account_def github_new_account_def elim!: and_then_E)
    have "db_users s1 = db_users s @ [u]" "u_github_id u = Some gid"
      using cr by (auto simp: user_create_def add_user_def Let_def split: if_splits)
    then show ?thesis
      using None create_org_and_agency_users [OF org]
      by (simp add: user_get_by_github_id_def get_row_append) (simp add: get_row_def)
  qed
qed

text \<open>
  A GitHub account always reaches the same local account: after a sign-in, a later one with the same
  GitHub identifier opens a session of the same user and creates none, whatever its emails are then.
\<close>

theorem github_same_account:
  assumes "github_authenticate sec st pv now ids password code state s = (Inr (tokens, n), s1)"
    and "github_authenticate sec2 st2 pv2 now2 ids2 password2 code2 state2 s2 = (Inr (tokens2, n2), s3)"
    and "github_profile st pv code = Inr (gid, rest)" and "github_profile st2 pv2 code2 = Inr (gid, rest2)"
    and "user_get_by_github_id (au_db (sg_auth s2)) gid = user_get_by_github_id (au_db (sg_auth s1)) gid"
  shows "\<exists>u. user_get_by_github_id (au_db (sg_auth s1)) gid = Some u \<and> \<not> n2 \<and>
    tokens = generate_token_pair sec now (ri_jtis ids) (u_id u) \<and> tokens2 = generate_token_pair sec2 now2 (ri_jtis ids2) (u_id u)"
proof -
  obtain email verified name avatar where rest: "rest = (email, verified, name, avatar)"
    by (cases rest)
  obtain email2 verified2 name2 avatar2 where rest2: "rest2 = (email2, verified2, name2, avatar2)"
    by (cases rest2)
  obtain u d where u: "github_account sec now ids password (gid, rest) (au_db (sg_auth s)) = (Inr (u, n), d)"
      "tokens = generate_token_pair sec now (ri_jtis ids) (u_id u)" "au_db (sg_auth s1) = d"
    using assms(1,3) by (auto elim: github_authenticate_E)
  obtain v e where v: "github_account sec2 now2 ids2 password2 (gid, rest2) (au_db (sg_auth s2)) = (Inr (v, n2), e)"
      "tokens2 = generate_token_pair sec2 now2 (ri_jtis ids2) (u_id v)"
    using assms(2,4) by (auto elim: github_authenticate_E)
  have found: "user_get_by_github_id (au_db (sg_auth s1)) gid = Some u"
    using github_account_row [OF u(1) [unfolded rest]] u(3) by simp
  then have found2: "user_get_by_github_id (au_db (sg_auth s2)) gid = Some u"
    using assms(5) by simp
  then have "\<not> n2"
    using github_account_row [OF v(1) [unfolded rest2]] by simp
  moreover have "u_id v = u_id u"
    using v(1) found2 rest2 by (auto simp: github_account_def elim!: and_then_E link_user_E split: if_splits)
  ultimately show ?thesis
    using found u v by simp
qed

text \<open>
  Signing in with GitHub under the address of a password account signs into that account and leaves
  its password valid, even when the account never verified the address: whoever registered it keeps
  access to what its owner does from then on.
\<close>

theorem linked_account_keeps_password:
  assumes "github_authenticate sec st pv now ids password code state s = (Inr (tokens, n), s')"
    and "github_profile st pv code = Inr (gid, email, verified, name, avatar)"
    and "user_get_by_github_id (au_db (sg_auth s)) gid = None"
    and "user_get_by_email (au_db (sg_auth s)) email = Some u" and "verify_password sec old (u_password_hash u)"
  shows "\<not> n \<and> tokens = generate_token_pair sec now (ri_jtis ids) (u_id u) \<and>
    login sec now2 jtis tid fam email old (sg_auth s') = open_session sec now2 jtis tid fam (u_id u) (sg_auth s')"
proof -
  obtain r d where acc: "github_account sec now ids password (gid, email, verified, name, avatar) (au_db (sg_auth s)) = (Inr (r, n), d)"
    and r: "u_is_active r" "tokens = generate_token_pair sec now (ri_jtis ids) (u_id r)" "au_db (sg_auth s') = d"
    using assms(1,2) by (auto elim: github_authenticate_E)
  obtain kws where kws: "r = set_fields put_link kws u" "d = save_user r (au_db (sg_auth s))" "\<not> n"
    using acc assms(3,4) by (auto simp: github_account_def elim!: and_then_E link_user_E)
  have "user_get_by_email d email = Some r"
    using link_row [of u_email "lower email" "au_db (sg_auth s)" u r] assms(4) kws
    by (auto simp: user_get_by_email_def dest: get_row_Some)
  then show ?thesis
    using assms(5) kws r by (simp add: login_def)
qed

section \<open>The CSRF state\<close>

text \<open>Everything that touches the stored states, but another authorization URL with the same state.\<close>

inductive signin_step :: "string \<Rightarrow> signin \<Rightarrow> signin \<Rightarrow> bool" for key where
  google: "with_signin_session (google_auth_callback sec st pv now ids password code state) s = (r, s') \<Longrightarrow> signin_step key s s'"
| github: "with_signin_session (github_auth_callback sec st pv now ids password code state) s = (r, s') \<Longrightarrow> signin_step key s s'"
| google_url: "GOOGLE_STATE_PREFIX @ state_token \<noteq> key \<Longrightarrow> get_google_auth_url st now state_token s = (x, s') \<Longrightarrow> signin_step key s s'"
| github_url: "GITHUB_STATE_PREFIX @ state_token \<noteq> key \<Longrightarrow> get_github_auth_url st now state_token s = (x, s') \<Longrightarrow> signin_step key s s'"
| other: "signin_step key s (s\<lparr>sg_auth := a, sg_redis := (sg_redis s)\<lparr>r_up := up\<rparr>, sg_delete_up := del\<rparr>)"

definition no_state :: "string \<Rightarrow> signin \<Rightarrow> bool" where
  "no_state key s = (r_kv (sg_redis s) key = None)"

lemma check_signin_state_gone: "no_state key s \<Longrightarrow> no_state key (snd (check_signin_state now prefix state s))"
  by (simp add: no_state_def check_signin_state_def validate_state_def safe_redis_delete_def redis_delete_def split: prod.splits)

lemma no_state_then:
  "no_state key (snd (f s)) \<Longrightarrow> (\<And>a t. no_state key t \<Longrightarrow> no_state key (snd (g a t))) \<Longrightarrow> no_state key (snd (and_then f g s))"
  by (auto simp: and_then_def split: prod.splits sum.splits)

lemma no_state_on_auth: "no_state key s \<Longrightarrow> no_state key (snd (on_auth f s))"
  by (simp add: no_state_def on_auth_def split: prod.splits)

lemma no_state_pure: "no_state key s \<Longrightarrow> no_state key (snd (pure_step x s))"
  by (simp add: pure_step_def)

lemma no_state_answer: "no_state key s \<Longrightarrow> no_state key (snd (oauth_answer sec now y s))"
  by (simp add: oauth_answer_def split: sum.splits option.splits)

lemmas no_state_rules = no_state_then check_signin_state_gone no_state_on_auth no_state_pure no_state_answer

lemma google_callback_gone:
  assumes "no_state key (snd (check_signin_state now GOOGLE_STATE_PREFIX state s))"
  shows "no_state key (snd (google_auth_callback sec st pv now ids password code state s))"
  unfolding google_auth_callback_def google_authenticate_def
  by (rule no_state_then, rule no_state_then, rule assms, (intro no_state_rules; assumption)+)

lemma github_callback_gone:
  assumes "no_state key (snd (check_signin_state now GITHUB_STATE_PREFIX state s))"
  shows "no_state key (snd (github_auth_callback sec st pv now ids password code state s))"
  unfolding github_auth_callback_def github_authenticate_def
  by (rule no_state_then, rule no_state_then, rule assms, (intro no_state_rules; assumption)+)

lemma session_gone: "no_state key (snd (f s)) \<Longrightarrow> with_signin_session f s = (r, s') \<Longrightarrow> no_state key s'"
  by (auto simp: with_signin_session_def no_state_def split: prod.splits sum.splits)

lemma store_state_gone: "prefix @ t \<noteq> key \<Longrightarrow> no_state key s \<Longrightarrow> no_state key (store_state now prefix t s)"
  by (simp add: no_state_def store_state_def safe_redis_set_def redis_set_def put_key_def split: prod.splits)

lemma signin_step_gone: "signin_step key s s' \<Longrightarrow> no_state key s \<Longrightarrow> no_state key s'"
proof (induction rule: signin_step.induct)
  case (google sec st pv now ids password code state s r s')
  then show ?case
    using session_gone google_callback_gone check_signin_state_gone by blast
next
  case (github sec st pv now ids password code state s r s')
  then show ?case
    using session_gone github_callback_gone check_signin_state_gone by blast
next
  case (google_url state_token st now s x s')
  then show ?case
    by (auto simp: get_google_auth_url_def store_state_gone)
next
  case (github_url state_token st now s x s')
  then show ?case
    by (auto simp: get_github_auth_url_def store_state_gone)
qed (simp add: no_state_def)

lemma signin_steps_gone: "(signin_step key)\<^sup>*\<^sup>* s s' \<Longrightarrow> no_state key s \<Longrightarrow> no_state key s'"
  by (induction rule: rtranclp_induct) (auto intro: signin_step_gone)

text \<open>
  C37: The state of a GitHub authorization request is accepted once: after a callback that found it in
  Redis and whose deletion of it reached Redis, whatever the callback answered, every later callback with it
  is refused and changes nothing, until an authorization URL is issued with it again.  (The callback does
  not look at the deletion's result: one that finds the state and loses Redis before the deletion leaves
  the state valid, and one during an outage is refused without spending it.)
\<close>

theorem oauth_state_once:
  assumes "fst (validate_state now GITHUB_STATE_PREFIX t s)" and "sg_delete_up s" and "t \<noteq> []"
    and "with_signin_session (github_auth_callback sec st pv now ids password code (Some t)) s = (r, s1)"
    and "(signin_step (GITHUB_STATE_PREFIX @ t))\<^sup>*\<^sup>* s1 s2"
  shows "with_signin_session (github_auth_callback sec2 st2 pv2 now2 ids2 password2 code2 (Some t)) s2 =
    (Inl (ValidationException ''Invalid or expired authorization state. Please try again.''), s2)"
proof -
  let ?key = "GITHUB_STATE_PREFIX @ t"
  have "no_state ?key (snd (check_signin_state now GITHUB_STATE_PREFIX (Some t) s))"
    using assms(1-3) by (auto simp: check_signin_state_def validate_state_def str_truthy_def no_state_def safe_redis_exists_def redis_get_def
        safe_redis_delete_def redis_delete_def split: if_splits prod.splits)
  then have "no_state ?key (snd (github_auth_callback sec st pv now ids password code (Some t) s))"
    by (rule github_callback_gone)
  then have "no_state ?key s2"
    using session_gone assms(4,5) signin_steps_gone by blast
  then have "\<not> safe_redis_exists now2 ?key (sg_redis s2)"
    by (simp add: safe_redis_exists_def redis_get_def no_state_def live_def)
  then have "check_signin_state now2 GITHUB_STATE_PREFIX (Some t) s2 =
      (Inl (ValidationException ''Invalid or expired authorization state. Please try again.''), s2)"
    using assms(3) by (simp add: check_signin_state_def validate_state_def str_truthy_def)
  then show ?thesis
    by (simp add: with_signin_session_def github_auth_callback_def github_authenticate_def and_then_def)
qed

section \<open>Google\<close>

text \<open>
  The profile endpoint the service calls, \<^verbatim>\<open>oauth2/v2/userinfo\<close>, names the member \<^verbatim>\<open>verified_email\<close>.
  With such replies no sign-in with Google succeeds, and the accounts stay as they are.
\<close>

theorem google_never_signs_in:
  assumes "\<And>token status body. pv_userinfo pv token = Some (status, body) \<Longrightarrow> ''email_verified'' \<notin> fst ` set body"
  shows "\<exists>e s'. with_signin_session (google_auth_callback sec st pv now ids password code state) s = (Inl e, s') \<and> sg_auth s' = sg_auth s"
proof -
  have "\<exists>e. google_profile st pv code = Inl e"
  proof (cases "google_profile st pv code")
    case (Inr p)
    then obtain token status body where "pv_userinfo pv token = Some (status, body)" "truthy (dget body ''email_verified'')"
      by (auto simp: google_profile_def google_user_info_def split: sum.splits option.splits if_splits prod.splits)
    then have "map_of body ''email_verified'' = None"
      using assms by (simp add: map_of_eq_None_iff)
    then show ?thesis
      using \<open>truthy (dget body ''email_verified'')\<close> by (simp add: dget_def)
  qed simp
  then obtain e where e: "google_profile st pv code = Inl e"
    by blast
  have "\<exists>e s'. google_auth_callback sec st pv now ids password code state s = (Inl e, s')"
    by (cases "check_signin_state now GOOGLE_STATE_PREFIX state s")
      (auto simp: google_auth_callback_def google_authenticate_def and_then_def pure_step_def e split: sum.split)
  then show ?thesis
    by (auto simp: with_signin_session_def)
qed

section \<open>Supabase\<close>

text \<open>
  A Supabase identity with an unknown subject signs in as the local user with the email of its token,
  whether or not the token says the address is verified and whether or not the user is active.
\<close>

theorem supabase_links_unverified:
  assumes "map_supabase_user payload = Inr m" and "su_email m = JStr email" and "email \<noteq> []"
    and "su_external_auth_id m \<notin> the ` (u_external_auth_id ` set (db_users (au_db s)) - {None})"
    and "user_get_by_email (au_db s) email = Some u"
    and "\<not> (\<exists>x \<in> set (db_users (au_db s)). u_id x \<noteq> u_id u \<and>
      ((u_google_id x \<noteq> None \<and> u_google_id x = u_google_id u) \<or> (u_github_id x \<noteq> None \<and> u_github_id x = u_github_id u)))"
    and "ri_token ids \<notin> rt_id ` set (au_refresh s)"
    and "hash_token sec (tr_refresh_token (generate_token_pair sec now (ri_jtis ids) (u_id u))) \<notin> rt_token_hash ` set (au_refresh s)"
  shows "\<exists>p s'. supabase_me sec now ids rnd payload s = (Inr p, s') \<and> sf_user_id p = u_id u \<and>
    sf_tokens p = generate_token_pair sec now (ri_jtis ids) (u_id u)"
proof -
  let ?r = "set_fields put_link [LfExternalAuthId (Some (su_external_auth_id m))] u"
  have r: "?r = u\<lparr>u_external_auth_id := Some (su_external_auth_id m)\<rparr>"
    by (simp add: set_fields_def)
  have "filter (\<lambda>x. u_external_auth_id x = Some (su_external_auth_id m)) (db_users (au_db s)) = []"
    using assms(4) by (force simp: filter_empty_conv)
  then have "get_by_external_auth_id (au_db s) (su_external_auth_id m) = Inr None"
    by (simp add: get_by_external_auth_id_def one_or_none_def)
  moreover have "link_user u [LfExternalAuthId (Some (su_external_auth_id m))] (au_db s) = (Inr ?r, save_user ?r (au_db s))"
    using assms(6) by (simp add: link_user_def Let_def r)
  ultimately have acc: "supabase_account now ids rnd m (au_db s) = (Inr ?r, save_user ?r (au_db s))"
    using assms(2,3,5) by (simp add: supabase_account_def required_text_def)
  have "u \<in> set (db_users (au_db s))"
    using get_row_Some [OF assms(5) [unfolded user_get_by_email_def]] ..
  moreover have "map u_id (db_users (save_user ?r (au_db s))) = map u_id (db_users (au_db s))"
    by (simp add: save_user_def)
  then have "u_id ` set (db_users (save_user ?r (au_db s))) = u_id ` set (db_users (au_db s))"
    by (metis list.set_map)
  ultimately have "u_id u \<in> u_id ` set (db_users (save_user ?r (au_db s)))"
    by simp
  then show ?thesis
    using assms(1,7,8) acc
    by (simp add: supabase_me_def and_then_def pure_step_def on_db_def supabase_session_def store_refresh_token_def Let_def r)
qed

section \<open>Examples\<close>

definition demo_oauth :: oauth_settings where
  "demo_oauth = \<lparr>os_enabled = True, os_client_id = Some ''id'', os_client_secret = Some ''secret'', os_redirect_uri = None\<rparr>"

definition demo_provider :: provider where
  "demo_provider = \<lparr>pv_token = (\<lambda>_. Some (200, [(''access_token'', JStr ''t'')])),
     pv_userinfo = (\<lambda>_. Some (200, [(''id'', JInt 5), (''email'', JStr ''a@b.c'')])), pv_emails = (\<lambda>_. Some (200, []))\<rparr>"

definition demo_signin :: signin where
  "demo_signin = \<lparr>sg_auth = demo_auth, sg_redis = \<lparr>r_up = True, r_kv = (\<lambda>k. if k = GITHUB_STATE_PREFIX @ ''x'' then Some (''1'', Some 600) else None)\<rparr>, sg_delete_up = True\<rparr>"

lemma demo_profile: "github_profile demo_oauth demo_provider ''c'' = Inr (''5'', ''a@b.c'', True, JStr [], JNull)"
  by code_simp

lemma demo_email: "user_get_by_email demo_users ''a@b.c'' = Some demo_user"
  by code_simp

lemma demo_sign_in: "\<exists>tokens s'. github_authenticate demo_security demo_oauth demo_provider 0 demo_ids ''p'' ''c'' None demo_signin = (Inr (tokens, False), s')"
proof -
  let ?u = "demo_user\<lparr>u_github_id := Some ''5'', u_auth_provider := Some ''github''\<rparr>"
  have "github_account demo_security 0 demo_ids ''p'' (''5'', ''a@b.c'', True, JStr [], JNull) demo_users =
      (Inr (?u, False), save_user ?u demo_users)"
  proof -
    have "user_get_by_github_id demo_users ''5'' = None" "u_avatar_url demo_user = None"
      by (simp_all add: user_get_by_github_id_def get_row_def demo_users_def demo_user_def)
    moreover have "link_user demo_user [LfGithubId (Some ''5''), LfAvatarUrl None, LfAuthProvider (Some ''github'')] demo_users =
        (Inr ?u, save_user ?u demo_users)"
      by (simp add: link_user_def set_fields_def demo_users_def demo_user_def Let_def)
    ultimately show ?thesis
      using demo_email by (simp add: github_account_def and_then_def pure_step_def)
  qed
  moreover have "\<exists>tokens s'. open_session demo_security 0 (ri_jtis demo_ids) (ri_token demo_ids) (ri_family demo_ids) (u_id ?u)
      (demo_auth\<lparr>au_db := save_user ?u demo_users\<rparr>) = (Inr tokens, s')"
    by (rule open_session_ok) (simp_all add: demo_auth_def demo_users_def demo_user_def save_user_def save_row_def)
  ultimately show ?thesis
    by (auto simp: github_authenticate_def check_signin_state_def str_truthy_def and_then_def pure_step_def demo_profile on_auth_def on_db_def
        demo_signin_def demo_auth_def oauth_session_def demo_user_def)
qed

theorem linked_account_keeps_password_witness:
  "\<exists>tokens s'. github_authenticate demo_security demo_oauth demo_provider 0 demo_ids ''p'' ''c'' None demo_signin = (Inr (tokens, False), s') \<and>
     login demo_security 9 (''a2'', ''r2'') 10 11 ''a@b.c'' ''pw'' (sg_auth s') =
       open_session demo_security 9 (''a2'', ''r2'') 10 11 1 (sg_auth s')"
proof -
  obtain tokens s' where s': "github_authenticate demo_security demo_oauth demo_provider 0 demo_ids ''p'' ''c'' None demo_signin = (Inr (tokens, False), s')"
    using demo_sign_in by blast
  have "au_db (sg_auth demo_signin) = demo_users" "user_get_by_github_id demo_users ''5'' = None"
      "verify_password demo_security ''pw'' (u_password_hash demo_user)" "u_id demo_user = 1"
    by (simp_all add: demo_signin_def demo_auth_def user_get_by_github_id_def get_row_def demo_users_def demo_user_def
        verify_password_def demo_security_def)
  then show ?thesis
    using linked_account_keeps_password [OF s' demo_profile, of demo_user "''pw''" 9 "(''a2'', ''r2'')" 10 11] demo_email s'
    by simp
qed

theorem oauth_state_once_witness:
  "\<exists>s1. (\<exists>r. with_signin_session (github_auth_callback demo_security demo_oauth demo_provider 0 demo_ids ''p'' ''c'' (Some ''x'')) demo_signin = (r, s1)) \<and>
     with_signin_session (github_auth_callback demo_security demo_oauth demo_provider 1 demo_ids ''p'' ''c'' (Some ''x'')) s1 =
       (Inl (ValidationException ''Invalid or expired authorization state. Please try again.''), s1)"
proof -
  have ok: "fst (validate_state 0 GITHUB_STATE_PREFIX ''x'' demo_signin)" "sg_delete_up demo_signin"
    by (simp_all add: validate_state_def safe_redis_exists_def redis_get_def live_def demo_signin_def)
  obtain r s1 where "with_signin_session (github_auth_callback demo_security demo_oauth demo_provider 0 demo_ids ''p'' ''c'' (Some ''x'')) demo_signin = (r, s1)"
    by (cases "with_signin_session (github_auth_callback demo_security demo_oauth demo_provider 0 demo_ids ''p'' ''c'' (Some ''x'')) demo_signin")
  then show ?thesis
    using oauth_state_once [OF ok _ _ rtranclp.rtrancl_refl] by blast
qed

text \<open>A state whose deletion is lost is found again.\<close>

lemma lost_deletion_keeps_state:
  "snd (validate_state 0 GITHUB_STATE_PREFIX ''x'' (demo_signin\<lparr>sg_delete_up := False\<rparr>)) = demo_signin\<lparr>sg_delete_up := False\<rparr> \<and>
   fst (validate_state 1 GITHUB_STATE_PREFIX ''x'' (demo_signin\<lparr>sg_delete_up := False\<rparr>))"
  by (simp add: validate_state_def safe_redis_exists_def redis_get_def live_def demo_signin_def)

end
