(* ===== verification/Status_Pages.thy ===== *)
theory Status_Pages
  imports Organizations Complex_Main
begin

text \<open>
  \<^verbatim>\<open>modules/status_pages\<close>: the public status of the service, the status pages of the organizations and
  the components the seed script creates.  Nothing in the repository deactivates a page or reports an
  incident on it, so the list of active incidents is empty, as in the code.
\<close>

section \<open>Tables\<close>

record status_page =
  pg_id :: uuid
  pg_org_id :: uuid
  pg_slug :: string
  pg_title :: string
  pg_show_uptime_graph :: bool
  pg_show_incident_history :: bool
  pg_branding :: "(string \<times> json) list option"
  pg_allowed_domains :: "string list option"
  pg_is_active :: bool

record status_component =
  sc_id :: uuid
  sc_name :: string
  sc_display_name :: string
  sc_status :: string
  sc_description :: "string option"
  sc_order_index :: int
  sc_is_public :: bool
  sc_uptime_30d :: real

record status_board =
  bo_pages :: "status_page list"
  bo_components :: "status_component list"

section \<open>Repository\<close>

definition page_get_by_org_id :: "status_board \<Rightarrow> uuid \<Rightarrow> status_page option" where
  "page_get_by_org_id s org_id = get_row pg_org_id org_id (bo_pages s)"

definition page_get_by_slug :: "status_board \<Rightarrow> string \<Rightarrow> status_page option" where
  "page_get_by_slug s slug = get_row pg_slug slug (filter pg_is_active (bo_pages s))"

text \<open>The flush fails on a second page of an organization, a taken slug and a value that does not fit.\<close>

definition page_create ::
  "uuid \<Rightarrow> uuid \<Rightarrow> string \<Rightarrow> string \<Rightarrow> bool \<Rightarrow> bool \<Rightarrow> (string \<times> json) list option \<Rightarrow> string list option \<Rightarrow>
   (status_page, status_board) service" where
  "page_create i org_id slug title show_uptime_graph show_incident_history branding allowed_domains s =
     (let r = \<lparr>pg_id = i, pg_org_id = org_id, pg_slug = slug, pg_title = title, pg_show_uptime_graph = show_uptime_graph,
               pg_show_incident_history = show_incident_history, pg_branding = branding, pg_allowed_domains = allowed_domains,
               pg_is_active = True\<rparr>
      in if length slug > 100 \<or> length title > 255 then (Inl (ValueError ''value too long for type character varying''), s)
         else if org_id \<in> pg_org_id ` set (bo_pages s) \<or> slug \<in> pg_slug ` set (bo_pages s)
         then (Inl (IntegrityError ''status_pages''), s)
         else (Inr r, s\<lparr>bo_pages := bo_pages s @ [r]\<rparr>))"

definition list_public_components :: "status_board \<Rightarrow> status_component list" where
  "list_public_components s = sort_key sc_order_index (filter sc_is_public (bo_components s))"

definition get_component_by_name :: "status_board \<Rightarrow> string \<Rightarrow> status_component option" where
  "get_component_by_name s name = get_row sc_name name (bo_components s)"

definition upsert_component ::
  "uuid \<Rightarrow> string \<Rightarrow> string \<Rightarrow> string \<Rightarrow> string option \<Rightarrow> int \<Rightarrow> bool \<Rightarrow> real \<Rightarrow> status_board \<Rightarrow> status_component \<times> status_board" where
  "upsert_component i name display_name status description order_index is_public uptime_30d s =
     (case get_component_by_name s name of
        Some c \<Rightarrow> (let r = c\<lparr>sc_display_name := display_name, sc_status := status, sc_description := description,
            sc_order_index := order_index, sc_is_public := is_public, sc_uptime_30d := uptime_30d\<rparr>
          in (r, s\<lparr>bo_components := save_row sc_name r (bo_components s)\<rparr>))
      | None \<Rightarrow> (let r = \<lparr>sc_id = i, sc_name = name, sc_display_name = display_name, sc_status = status,
            sc_description = description, sc_order_index = order_index, sc_is_public = is_public, sc_uptime_30d = uptime_30d\<rparr>
          in (r, s\<lparr>bo_components := bo_components s @ [r]\<rparr>)))"

section \<open>Service\<close>

record status_page_config =
  sr_slug :: string
  sr_title :: string
  sr_show_uptime_graph :: bool
  sr_show_incident_history :: bool
  sr_branding :: "(string \<times> json) list option"
  sr_allowed_domains :: "string list option"

record public_status =
  ps_overall_status :: string
  ps_components :: "status_component list"
  ps_last_updated :: time
  ps_refresh_interval_seconds :: int

definition status_priority :: "string list" where
  "status_priority = [''major_outage'', ''partial_outage'', ''degraded'', ''operational'']"

definition overall_status :: "status_component list \<Rightarrow> string" where
  "overall_status components = (case find (\<lambda>p. list_ex (\<lambda>c. sc_status c = p) components) status_priority of
     None \<Rightarrow> ''operational'' | Some p \<Rightarrow> p)"

definition get_public_status :: "time \<Rightarrow> status_board \<Rightarrow> public_status" where
  "get_public_status now s = \<lparr>ps_overall_status = overall_status (list_public_components s),
     ps_components = list_public_components s, ps_last_updated = now, ps_refresh_interval_seconds = 60\<rparr>"

definition get_org_status_page :: "status_board \<Rightarrow> uuid \<Rightarrow> app_error + status_page" where
  "get_org_status_page s org_id = (case page_get_by_org_id s org_id of
     None \<Rightarrow> Inl (ResourceNotFoundException ''Status page not found for this organization'') | Some p \<Rightarrow> Inr p)"

definition create_org_status_page :: "uuid \<Rightarrow> uuid \<Rightarrow> status_page_config \<Rightarrow> (status_page, status_board) service" where
  "create_org_status_page i org_id rq s =
     (if page_get_by_org_id s org_id \<noteq> None
      then (Inl (ConflictException ''Organization already has a status page. Update it instead.''), s)
      else if page_get_by_slug s (sr_slug rq) \<noteq> None
      then (Inl (ConflictException (''Status page slug '' @ quoted (sr_slug rq) @ '' is already taken.'')), s)
      else page_create i org_id (sr_slug rq) (sr_title rq) (sr_show_uptime_graph rq) (sr_show_incident_history rq)
        (sr_branding rq) (sr_allowed_domains rq) s)"

definition get_public_status_page_by_slug :: "time \<Rightarrow> status_board \<Rightarrow> string \<Rightarrow> app_error + status_page \<times> public_status" where
  "get_public_status_page_by_slug now s slug = (case page_get_by_slug s slug of
     None \<Rightarrow> Inl (ResourceNotFoundException (''Status page with slug '' @ quoted slug @ '' not found''))
   | Some p \<Rightarrow> Inr (p, get_public_status now s))"

definition DEFAULT_COMPONENTS :: "(string \<times> string \<times> string \<times> int) list" where
  "DEFAULT_COMPONENTS = [(''api'', ''API'', ''Core REST API endpoints'', 0),
     (''check_engine'', ''Check Engine'', ''Scheduled vendor health checks and monitoring'', 1),
     (''dashboard'', ''Dashboard'', ''Web dashboard and real-time status views'', 2),
     (''auth'', ''Authentication'', ''OAuth, JWT, and API key authentication services'', 3),
     (''billing'', ''Billing'', ''Subscription management and payment processing'', 4)]"

fun seed_components :: "(nat \<Rightarrow> uuid) \<Rightarrow> nat \<Rightarrow> (string \<times> string \<times> string \<times> int) list \<Rightarrow> status_board \<Rightarrow> nat \<times> status_board" where
  "seed_components ids n [] s = (n, s)"
| "seed_components ids n ((name, display_name, description, order_index) # cs) s =
     (if get_component_by_name s name \<noteq> None then seed_components ids n cs s
      else seed_components ids (n + 1) cs
        (snd (upsert_component (ids n) name display_name ''operational'' (Some description) order_index True 100 s)))"

definition seed_default_components :: "(nat \<Rightarrow> uuid) \<Rightarrow> status_board \<Rightarrow> nat \<times> status_board" where
  "seed_default_components ids s = seed_components ids 0 DEFAULT_COMPONENTS s"

end
