(* ===== verification/Status_Properties.thy ===== *)
theory Status_Properties
  imports Status_Pages
begin

text \<open>
  The overall status is the worst of the public components; a status page stays under its slug; seeding
  the components twice is seeding them once.
\<close>

section \<open>Severity\<close>

text \<open>The order of severity the overall status is the maximum of; other statuses do not count.\<close>

definition severity :: "string \<Rightarrow> nat" where
  "severity status = (if status = ''major_outage'' then 3 else if status = ''partial_outage'' then 2
     else if status = ''degraded'' then 1 else 0)"

definition severity_name :: "nat \<Rightarrow> string" where
  "severity_name n = (if n = 0 then ''operational'' else if n = 1 then ''degraded'' else if n = 2 then ''partial_outage'' else ''major_outage'')"

definition worst :: "status_component list \<Rightarrow> nat" where
  "worst cs = fold (\<lambda>c. max (severity (sc_status c))) cs 0"

lemma worst_snoc [simp]: "worst (cs @ [c]) = max (severity (sc_status c)) (worst cs)"
  by (simp add: worst_def)

lemma has_status_snoc: "list_ex (\<lambda>c. sc_status c = p) (cs @ [c]) \<longleftrightarrow> sc_status c = p \<or> list_ex (\<lambda>c. sc_status c = p) cs"
  by auto

lemma overall_status_eq:
  "overall_status cs = (if list_ex (\<lambda>c. sc_status c = ''major_outage'') cs then ''major_outage''
     else if list_ex (\<lambda>c. sc_status c = ''partial_outage'') cs then ''partial_outage''
     else if list_ex (\<lambda>c. sc_status c = ''degraded'') cs then ''degraded'' else ''operational'')"
  by (simp add: overall_status_def status_priority_def)

lemma worst_eq:
  "worst cs = (if list_ex (\<lambda>c. sc_status c = ''major_outage'') cs then 3
     else if list_ex (\<lambda>c. sc_status c = ''partial_outage'') cs then 2
     else if list_ex (\<lambda>c. sc_status c = ''degraded'') cs then 1 else 0)"
proof (induction cs rule: rev_induct)
  case (snoc c cs)
  then show ?case
    unfolding worst_snoc has_status_snoc snoc.IH by (simp add: severity_def)
qed (simp add: worst_def)

text \<open>
  The public status names the worst status among the public components, whatever their order;
  a status the code does not know counts as operational.
\<close>

theorem overall_status_worst:
  "ps_overall_status (get_public_status now s) = severity_name (worst (filter sc_is_public (bo_components s)))"
proof -
  have "list_ex P (list_public_components s) = list_ex P (filter sc_is_public (bo_components s))" for P
    by (simp add: list_public_components_def list_ex_iff)
  then show ?thesis
    by (simp add: get_public_status_def overall_status_eq worst_eq severity_name_def)
qed

section \<open>Steps\<close>

definition board_wf :: "status_board \<Rightarrow> bool" where
  "board_wf s = (distinct (map pg_org_id (bo_pages s)) \<and> distinct (map pg_slug (bo_pages s)) \<and>
     distinct (map sc_name (bo_components s)) \<and> (\<forall>p \<in> set (bo_pages s). pg_is_active p))"

inductive board_step :: "status_board \<Rightarrow> status_board \<Rightarrow> bool" where
  page: "create_org_status_page i org_id rq s = (r, s') \<Longrightarrow> board_step s s'"
| component: "upsert_component i name display_name status description order_index is_public uptime s = (c, s') \<Longrightarrow> board_step s s'"
| seed: "seed_default_components ids s = (n, s') \<Longrightarrow> board_step s s'"

lemma upsert_pages [simp]:
  "bo_pages (snd (upsert_component i name display_name status description order_index is_public uptime s)) = bo_pages s"
  by (simp add: upsert_component_def Let_def split: option.split)

lemma upsert_wf: "board_wf s \<Longrightarrow> board_wf (snd (upsert_component i name display_name status description order_index is_public uptime s))"
  by (auto simp: board_wf_def upsert_component_def Let_def get_component_by_name_def get_row_None split: option.split)

lemma seed_pages [simp]: "bo_pages (snd (seed_components ids n cs s)) = bo_pages s"
  by (induction ids n cs s rule: seed_components.induct) auto

lemma seed_components_wf: "board_wf s \<Longrightarrow> board_wf (snd (seed_components ids n cs s))"
  by (induction ids n cs s rule: seed_components.induct) (auto intro: upsert_wf)

lemma create_page_cases:
  assumes "create_org_status_page i org_id rq s = (r, s')"
  shows "(\<exists>e. r = Inl e) \<and> s' = s \<or>
    (\<exists>p. r = Inr p \<and> s' = s\<lparr>bo_pages := bo_pages s @ [p]\<rparr> \<and> pg_org_id p = org_id \<and> pg_slug p = sr_slug rq \<and>
      pg_is_active p \<and> org_id \<notin> pg_org_id ` set (bo_pages s) \<and> sr_slug rq \<notin> pg_slug ` set (bo_pages s))"
  using assms by (auto simp: create_org_status_page_def page_create_def Let_def split: if_splits)

text \<open>A step keeps the invariant and every page.\<close>

lemma board_step_keeps: "board_step s s' \<Longrightarrow> board_wf s \<Longrightarrow> board_wf s' \<and> set (bo_pages s) \<subseteq> set (bo_pages s')"
proof (induction rule: board_step.induct)
  case (page i org_id rq s r s')
  then show ?case
    using create_page_cases [OF page(1)] by (auto simp: board_wf_def)
next
  case (component i name display_name status description order_index is_public uptime s c s')
  then show ?case
    using upsert_wf upsert_pages by (metis snd_conv subset_refl)
next
  case (seed ids s n s')
  then show ?case
    using seed_components_wf seed_pages by (metis seed_default_components_def snd_conv subset_refl)
qed

lemma board_steps_keep: "board_step\<^sup>*\<^sup>* s s' \<Longrightarrow> board_wf s \<Longrightarrow> board_wf s' \<and> set (bo_pages s) \<subseteq> set (bo_pages s')"
  by (induction rule: rtranclp_induct) (blast dest: board_step_keeps)+

lemma served: "board_wf s \<Longrightarrow> p \<in> set (bo_pages s) \<Longrightarrow>
    page_get_by_slug s (pg_slug p) = Some p \<and> page_get_by_org_id s (pg_org_id p) = Some p"
  by (auto simp: page_get_by_slug_def page_get_by_org_id_def board_wf_def filter_id_conv [THEN iffD2] intro!: get_row_distinct)

text \<open>
  A status page once created is served under its slug in every later state, and until then no other
  organization gets the slug and its own organization gets no second page.
\<close>

theorem status_page_stays:
  assumes "bo_pages s0 = []" and "distinct (map sc_name (bo_components s0))" and "board_step\<^sup>*\<^sup>* s0 s"
    and "create_org_status_page i org_id rq s = (Inr p, s1)" and "board_step\<^sup>*\<^sup>* s1 s2"
  shows "get_public_status_page_by_slug now s2 (sr_slug rq) = Inr (p, get_public_status now s2) \<and>
    get_org_status_page s2 org_id = Inr p \<and>
    (sr_slug rq2 = sr_slug rq \<or> org2 = org_id \<longrightarrow> (\<exists>m. create_org_status_page j org2 rq2 s2 = (Inl (ConflictException m), s2)))"
proof -
  have "board_wf s0"
    using assms(1,2) by (simp add: board_wf_def)
  then have "board_wf s"
    using board_steps_keep [OF assms(3)] by blast
  then have "board_wf s1"
    using board_step_keeps [OF board_step.page [OF assms(4)]] by blast
  moreover have p: "p \<in> set (bo_pages s1)" "pg_slug p = sr_slug rq" "pg_org_id p = org_id"
    using create_page_cases [OF assms(4)] by auto
  ultimately have "page_get_by_slug s2 (sr_slug rq) = Some p \<and> page_get_by_org_id s2 org_id = Some p"
    using board_steps_keep [OF assms(5)] served [of s2 p] by auto
  then show ?thesis
    by (auto simp: get_public_status_page_by_slug_def get_org_status_page_def create_org_status_page_def)
qed

section \<open>Seeding\<close>

lemma seed_known: "\<forall>(name, _, _, _) \<in> set cs. get_component_by_name s name \<noteq> None \<Longrightarrow> seed_components ids n cs s = (n, s)"
  by (induction cs) auto

lemma component_names:
  "get_component_by_name (snd (upsert_component i name display_name status description order_index is_public uptime s)) k \<noteq> None \<longleftrightarrow>
    k = name \<or> get_component_by_name s k \<noteq> None"
  by (auto simp: upsert_component_def Let_def get_component_by_name_def get_row_save get_row_append split: option.split)
    (auto simp: get_row_def find_Some_iff split: if_splits)

lemma upsert_known: "get_component_by_name s k \<noteq> None \<Longrightarrow>
    get_component_by_name (snd (upsert_component i name display_name status description order_index is_public uptime s)) k \<noteq> None"
  by (simp add: component_names del: not_None_eq)

lemma upsert_adds: "get_component_by_name (snd (upsert_component i name display_name status description order_index is_public uptime s)) name \<noteq> None"
  by (simp add: component_names del: not_None_eq)

lemma seed_keeps: "get_component_by_name s k \<noteq> None \<Longrightarrow> get_component_by_name (snd (seed_components ids n cs s)) k \<noteq> None"
  by (induction ids n cs s rule: seed_components.induct) (auto simp: upsert_known)

lemma seed_adds: "\<forall>(name, _, _, _) \<in> set cs. get_component_by_name (snd (seed_components ids n cs s)) name \<noteq> None"
proof (induction ids n cs s rule: seed_components.induct)
  case (2 ids n name display_name description order_index cs s)
  then show ?case
    using seed_keeps [of s name ids n cs] seed_keeps [OF upsert_adds, of ids "n + 1" cs] by auto
qed simp

text \<open>Seeding leaves the components that exist as they are, and a second run adds nothing.\<close>

theorem seed_idempotent:
  "(\<exists>new. bo_components (snd (seed_default_components ids s)) = bo_components s @ new \<and> length new = fst (seed_default_components ids s)) \<and>
   seed_default_components ids' (snd (seed_default_components ids s)) = (0, snd (seed_default_components ids s))"
proof -
  have "\<exists>new. bo_components (snd (seed_components ids n cs s)) = bo_components s @ new \<and> n + length new = fst (seed_components ids n cs s)" for n cs
  proof (induction ids n cs s rule: seed_components.induct)
    case (2 ids n name display_name description order_index cs s)
    show ?case
    proof (cases "get_component_by_name s name = None")
      case True
      then obtain c where "bo_components (snd (upsert_component (ids n) name display_name ''operational'' (Some description) order_index True 100 s))
          = bo_components s @ [c]"
        by (auto simp: upsert_component_def Let_def)
      then show ?thesis
        using 2(2) True by auto
    qed (use 2 in auto)
  qed simp
  from this [of 0 DEFAULT_COMPONENTS] show ?thesis
    using seed_known [OF seed_adds] by (auto simp: seed_default_components_def)
qed

section \<open>An example\<close>

definition example_config :: status_page_config where
  "example_config = \<lparr>sr_slug = ''acme'', sr_title = ''Acme'', sr_show_uptime_graph = True, sr_show_incident_history = True,
     sr_branding = None, sr_allowed_domains = None\<rparr>"

theorem status_page_stays_witness:
  "\<exists>p s1. create_org_status_page 7 1 example_config \<lparr>bo_pages = [], bo_components = []\<rparr> = (Inr p, s1) \<and>
     get_public_status_page_by_slug 9 s1 ''acme'' = Inr (p, get_public_status 9 s1) \<and>
     (\<exists>m. create_org_status_page 8 2 example_config s1 = (Inl (ConflictException m), s1))"
proof -
  obtain p s1 where c: "create_org_status_page 7 1 example_config \<lparr>bo_pages = [], bo_components = []\<rparr> = (Inr p, s1)"
    by (simp add: create_org_status_page_def page_get_by_org_id_def page_get_by_slug_def get_row_def page_create_def example_config_def Let_def)
  have "sr_slug example_config = ''acme''"
    by (simp add: example_config_def)
  then show ?thesis
    using status_page_stays [OF _ _ rtranclp.rtrancl_refl c rtranclp.rtrancl_refl, of 9 example_config 2 8] c by auto
qed

end
