(* ===== verification/Agencies.thy ===== *)
theory Agencies
  imports Organizations
begin

text \<open>
  \<^verbatim>\<open>modules/agencies\<close>: the clients of an agency and their applications, and the isolation of the
  organizations from each other.
\<close>

section \<open>Repository\<close>

definition get_client :: "db \<Rightarrow> uuid \<Rightarrow> client option" where
  "get_client s i = get_row cl_id i (db_clients s)"

definition repo_list_clients :: "(string \<Rightarrow> 'k::linorder) \<Rightarrow> db \<Rightarrow> uuid \<Rightarrow> client list" where
  "repo_list_clients coll s org_id = sort_key (coll \<circ> cl_name) (filter (\<lambda>c. cl_org_id c = org_id) (db_clients s))"

definition repo_create_client :: "uuid \<Rightarrow> uuid \<Rightarrow> string \<Rightarrow> string option \<Rightarrow> db \<Rightarrow> client \<times> db" where
  "repo_create_client i org_id name description s =
     (let c = \<lparr>cl_id = i, cl_org_id = org_id, cl_name = name, cl_description = description\<rparr>
      in (c, s\<lparr>db_clients := db_clients s @ [c]\<rparr>))"

definition repo_list_applications :: "(string \<Rightarrow> 'k::linorder) \<Rightarrow> db \<Rightarrow> uuid \<Rightarrow> uuid \<Rightarrow> application list" where
  "repo_list_applications coll s org_id client_id = sort_key (coll \<circ> ap_name)
     (filter (\<lambda>a. ap_org_id a = org_id \<and> ap_client_id a = Some client_id) (db_applications s))"

section \<open>Service\<close>

text \<open>Names have 1 to 150 characters and descriptions at most 500: both requests are validated alike.\<close>

record agency_request =
  ay_name :: string
  ay_description :: "string option"

definition valid_agency_request :: "agency_request \<Rightarrow> bool" where
  "valid_agency_request rq = (1 \<le> length (ay_name rq) \<and> length (ay_name rq) \<le> 150 \<and>
     (case ay_description rq of None \<Rightarrow> True | Some d \<Rightarrow> length d \<le> 500))"

definition require_org :: "db \<Rightarrow> uuid \<Rightarrow> app_error + organization" where
  "require_org s org_id = (case org_get_by_id s org_id of
     None \<Rightarrow> Inl (ResourceNotFoundException ''Organization not found'') | Some x \<Rightarrow> Inr x)"

definition require_client :: "db \<Rightarrow> uuid \<Rightarrow> uuid \<Rightarrow> app_error + client" where
  "require_client s org_id client_id = (case get_client s client_id of
     None \<Rightarrow> Inl (ResourceNotFoundException ''Client not found'')
   | Some c \<Rightarrow> if cl_org_id c \<noteq> org_id then Inl (ResourceNotFoundException ''Client not found'') else Inr c)"

definition list_clients :: "(string \<Rightarrow> 'k::linorder) \<Rightarrow> uuid \<Rightarrow> (client list, db) service" where
  "list_clients coll org_id s = (case require_org s org_id of
     Inl e \<Rightarrow> (Inl e, s) | Inr _ \<Rightarrow> (Inr (repo_list_clients coll s org_id), s))"

definition create_client :: "uuid \<Rightarrow> uuid \<Rightarrow> agency_request \<Rightarrow> (client, db) service" where
  "create_client i org_id rq s =
     (if \<not> valid_agency_request rq then (Inl (ValidationException ''request''), s)
      else case require_org s org_id of
        Inl e \<Rightarrow> (Inl e, s)
      | Inr org \<Rightarrow> (case repo_create_client i org_id (ay_name rq) (ay_description rq) s of (c, s1) \<Rightarrow>
          (Inr c, if \<not> o_has_agency_mode org then snd (org_update org [OfHasAgencyMode (Some True)] s1) else s1)))"

definition list_applications :: "(string \<Rightarrow> 'k::linorder) \<Rightarrow> uuid \<Rightarrow> uuid \<Rightarrow> (application list, db) service" where
  "list_applications coll org_id client_id s = (case require_client s org_id client_id of
     Inl e \<Rightarrow> (Inl e, s) | Inr _ \<Rightarrow> (Inr (repo_list_applications coll s org_id client_id), s))"

definition create_client_application :: "uuid \<Rightarrow> time \<Rightarrow> uuid \<Rightarrow> uuid \<Rightarrow> agency_request \<Rightarrow> (application, db) service" where
  "create_client_application i now org_id client_id rq s =
     (if \<not> valid_agency_request rq then (Inl (ValidationException ''request''), s)
      else case require_client s org_id client_id of
        Inl e \<Rightarrow> (Inl e, s)
      | Inr _ \<Rightarrow> (case create_application i now org_id (ay_name rq) (Some client_id) (ay_description rq) s of (a, s1) \<Rightarrow> (Inr a, s1)))"

section \<open>Isolation\<close>

text \<open>Every application of a client belongs to the client's organization, which is in agency mode.\<close>

definition agency_wf :: "db \<Rightarrow> bool" where
  "agency_wf s = (distinct (map cl_id (db_clients s)) \<and> distinct (map o_id (db_organizations s)) \<and>
     (\<forall>a \<in> set (db_applications s). \<forall>c. ap_client_id a = Some c \<longrightarrow>
        (\<exists>x. get_client s c = Some x \<and> cl_org_id x = ap_org_id a)) \<and>
     (\<forall>x \<in> set (db_clients s). \<exists>org \<in> set (db_organizations s). o_id org = cl_org_id x \<and> o_has_agency_mode org))"

inductive agency_step :: "db \<Rightarrow> db \<Rightarrow> bool" where
  client: "i \<notin> cl_id ` set (db_clients s) \<Longrightarrow> create_client i org_id rq s = (r, s') \<Longrightarrow> agency_step s s'"
| application: "create_client_application i now org_id client_id rq s = (r', s') \<Longrightarrow> agency_step s s'"

lemma create_client_cases:
  assumes "create_client i org_id rq s = (r, s')"
  shows "s' = s \<or> (\<exists>c org. r = Inr c \<and> cl_id c = i \<and> cl_org_id c = org_id \<and> org \<in> set (db_organizations s) \<and> o_id org = org_id \<and>
    db_clients s' = db_clients s @ [c] \<and> db_applications s' = db_applications s \<and>
    (if o_has_agency_mode org then db_organizations s' = db_organizations s
     else db_organizations s' = save_row o_id (org\<lparr>o_has_agency_mode := True\<rparr>) (db_organizations s)))"
  using assms
  by (auto simp: create_client_def require_org_def repo_create_client_def org_update_def save_org_def set_fields_def Let_def
      org_get_by_id_def split: if_splits option.splits dest!: get_row_Some)

lemma save_row_member: "x \<in> set t \<Longrightarrow> (if key x = key r then r else x) \<in> set (save_row key r t)"
  by (auto simp: save_row_def)

lemma agency_mode_kept:
  assumes "\<exists>y \<in> set t. o_id y = k \<and> o_has_agency_mode y" and "o_has_agency_mode r"
  shows "\<exists>y \<in> set (save_row o_id r t). o_id y = k \<and> o_has_agency_mode y"
proof -
  obtain y where "y \<in> set t" "o_id y = k" "o_has_agency_mode y"
    using assms(1) by blast
  then show ?thesis
    using assms(2) save_row_member [of y t o_id r] by (intro bexI [of _ "if o_id y = o_id r then r else y"]) auto
qed

lemma agency_step_wf: "agency_step s s' \<Longrightarrow> agency_wf s \<Longrightarrow> agency_wf s'"
proof (induction rule: agency_step.induct)
  case (client i s org_id rq r s')
  show ?case
  proof (cases "s' = s")
    case False
    then obtain c org where c: "cl_id c = i" "cl_org_id c = org_id" "org \<in> set (db_organizations s)" "o_id org = org_id"
      "db_clients s' = db_clients s @ [c]" "db_applications s' = db_applications s"
      and orgs: "if o_has_agency_mode org then db_organizations s' = db_organizations s
        else db_organizations s' = save_row o_id (org\<lparr>o_has_agency_mode := True\<rparr>) (db_organizations s)"
      using create_client_cases [OF client(2)] by blast
    have mode: "\<exists>y \<in> set (db_organizations s'). o_id y = k \<and> o_has_agency_mode y"
      if "k = org_id \<or> (\<exists>y \<in> set (db_organizations s). o_id y = k \<and> o_has_agency_mode y)" for k
    proof (cases "o_has_agency_mode org")
      case True
      then show ?thesis
        using that orgs c(3,4) by auto
    next
      case False
      then have eq: "db_organizations s' = save_row o_id (org\<lparr>o_has_agency_mode := True\<rparr>) (db_organizations s)"
        using orgs by simp
      show ?thesis
      proof (cases "k = org_id")
        case True
        then show ?thesis
          using c(4) save_row_member [OF c(3), of o_id "org\<lparr>o_has_agency_mode := True\<rparr>"] unfolding eq
          by (intro bexI [of _ "org\<lparr>o_has_agency_mode := True\<rparr>"]) simp_all
      next
        case False
        then show ?thesis
          unfolding eq using that by (intro agency_mode_kept) auto
      qed
    qed
    have "map o_id (db_organizations s') = map o_id (db_organizations s)"
      using orgs by (auto split: if_splits)
    moreover have "get_client s' k = Some x" if "get_client s k = Some x" for k x
      using that by (simp add: get_client_def c(5) get_row_append)
    ultimately show ?thesis
      using client c mode unfolding agency_wf_def by (auto, blast+)
  qed (use client in simp)
next
  case (application i now org_id client_id rq s r' s')
  then show ?case
    by (auto simp: create_client_application_def require_client_def create_application_def agency_wf_def get_client_def Let_def
        split: if_splits option.splits)
qed

lemma agency_steps_wf: "agency_step\<^sup>*\<^sup>* s s' \<Longrightarrow> agency_wf s \<Longrightarrow> agency_wf s'"
  by (induction rule: rtranclp_induct) (auto intro: agency_step_wf)

text \<open>
  C38: The clients of an agency are isolated: in every reachable state an application of a client is listed
  to the client's organization and to nobody else, and no other organization can list or add one.
\<close>

theorem clients_isolated:
  assumes "db_clients s0 = []" and "\<forall>a \<in> set (db_applications s0). ap_client_id a = None"
    and "distinct (map o_id (db_organizations s0))" and "agency_step\<^sup>*\<^sup>* s0 s" and "get_client s c = Some x"
  shows "list_applications coll (cl_org_id x) c s = (Inr (sort_key (coll \<circ> ap_name) (filter (\<lambda>a. ap_client_id a = Some c) (db_applications s))), s) \<and>
    (org \<noteq> cl_org_id x \<longrightarrow> list_applications coll org c s = (Inl (ResourceNotFoundException ''Client not found''), s) \<and>
      (\<exists>e. create_client_application i now org c rq s = (Inl e, s)))"
proof -
  have "agency_wf s0"
    using assms(1-3) by (simp add: agency_wf_def)
  then have wf: "agency_wf s"
    using agency_steps_wf [OF assms(4)] by blast
  have "ap_org_id a = cl_org_id x" if "a \<in> set (db_applications s)" "ap_client_id a = Some c" for a
    using wf that assms(5) by (auto simp: agency_wf_def)
  then have "filter (\<lambda>a. ap_org_id a = cl_org_id x \<and> ap_client_id a = Some c) (db_applications s) =
      filter (\<lambda>a. ap_client_id a = Some c) (db_applications s)"
    by (intro filter_cong) auto
  then show ?thesis
    using assms(5) by (auto simp: list_applications_def require_client_def repo_list_applications_def create_client_application_def)
qed

section \<open>An example\<close>

definition agency_org :: "uuid \<Rightarrow> organization" where
  "agency_org i = \<lparr>o_id = i, o_name = ''A'', o_slug = ''a'', o_plan = ''agency'', o_has_agency_mode = False, o_created_at = 0\<rparr>"

definition agency_rq :: agency_request where
  "agency_rq = \<lparr>ay_name = ''Shop'', ay_description = None\<rparr>"

theorem clients_isolated_witness:
  "\<exists>c s. create_client 7 1 agency_rq (empty_db\<lparr>db_organizations := [agency_org 1, agency_org 2]\<rparr>) = (Inr c, s) \<and>
     list_applications (\<lambda>_. 0 :: nat) 2 7 s = (Inl (ResourceNotFoundException ''Client not found''), s) \<and>
     list_applications (\<lambda>_. 0 :: nat) 1 7 s = (Inr [], s)"
proof -
  let ?s0 = "empty_db\<lparr>db_organizations := [agency_org 1, agency_org 2]\<rparr>"
  obtain c s where c: "create_client 7 1 agency_rq ?s0 = (Inr c, s)" "get_client s 7 = Some c" "cl_org_id c = 1" "db_applications s = []"
    by (simp add: create_client_def valid_agency_request_def agency_rq_def require_org_def org_get_by_id_def get_row_def agency_org_def
        repo_create_client_def org_update_def save_org_def set_fields_def get_client_def empty_db_def Let_def)
  have "agency_step ?s0 s"
    by (rule agency_step.client [OF _ c(1)]) (simp add: empty_db_def)
  then have "agency_step\<^sup>*\<^sup>* ?s0 s"
    by blast
  from clients_isolated [OF _ _ _ this c(2), of "\<lambda>_. 0 :: nat" 2] show ?thesis
    using c by (auto simp: empty_db_def agency_org_def)
qed

end
