(* ===== verification/Console.thy ===== *)
theory Console
  imports Monitoring Email_Auth Partner_Admin
begin

text \<open>
  The tables of the admin console (\<^verbatim>\<open>modules/admin/models.py\<close>) and its repositories for audit, users,
  feedback, communication and operations (\<^verbatim>\<open>modules/admin/repository.py\<close>).  The state wraps the
  monitoring tables, whose database part holds users, organizations, subscriptions and the audit
  log of the admin panel.
\<close>

section \<open>Tables\<close>

record plan_change =
  pch_org_id :: uuid
  pch_changed_by :: "uuid option"
  pch_from_plan :: string
  pch_to_plan :: string
  pch_reason :: "string option"
  pch_admin_note :: "string option"
  pch_created_at :: time

record user_activity_log =
  uac_id :: uuid
  uac_user_id :: "uuid option"
  uac_action :: string
  uac_details :: json
  uac_ip_address :: "string option"
  uac_user_agent :: "string option"
  uac_created_at :: time

record feedback_ticket =
  fbt_id :: uuid
  fbt_ticket_number :: string
  fbt_user_id :: "uuid option"
  fbt_email :: string
  fbt_full_name :: "string option"
  fbt_category :: string
  fbt_subject :: string
  fbt_body :: string
  fbt_priority :: string
  fbt_status :: string
  fbt_source :: "string option"
  fbt_assigned_to :: "uuid option"
  fbt_resolution :: "string option"
  fbt_created_at :: time
  fbt_resolved_at :: "time option"

record feedback_message =
  fbm_id :: uuid
  fbm_ticket_id :: uuid
  fbm_sender_type :: string
  fbm_sender_id :: uuid
  fbm_sender_name :: string
  fbm_body :: string
  fbm_is_internal_note :: bool
  fbm_created_at :: time

record email_campaign =
  cam_id :: uuid
  cam_campaign_name :: string
  cam_subject :: string
  cam_body_html :: string
  cam_body_text :: "string option"
  cam_segment :: "string option"
  cam_recipient_count :: int
  cam_status :: string
  cam_utm_campaign :: "string option"
  cam_created_by :: "uuid option"
  cam_scheduled_at :: "time option"
  cam_sent_at :: "time option"
  cam_created_at :: time

record campaign_recipient =
  rcp_id :: uuid
  rcp_campaign_id :: uuid
  rcp_user_id :: "uuid option"
  rcp_email :: string
  rcp_status :: string
  rcp_created_at :: time

record in_app_notification =
  ntf_id :: uuid
  ntf_title :: string
  ntf_body :: string
  ntf_notification_type :: string
  ntf_action_url :: "string option"
  ntf_action_label :: "string option"
  ntf_priority :: string
  ntf_expires_at :: "time option"
  ntf_is_dismissible :: bool
  ntf_created_by :: "uuid option"
  ntf_created_at :: time

record notification_delivery =
  dlv_id :: uuid
  dlv_notification_id :: uuid
  dlv_user_id :: uuid
  dlv_is_read :: bool
  dlv_created_at :: time

record announcement =
  ann_id :: uuid
  ann_title :: string
  ann_body_html :: string
  ann_placement :: string
  ann_target_plans :: "string list option"
  ann_target_segment :: "string option"
  ann_action_url :: "string option"
  ann_action_label :: "string option"
  ann_is_dismissible :: bool
  ann_bg_color :: "string option"
  ann_text_color :: "string option"
  ann_is_active :: bool
  ann_starts_at :: "time option"
  ann_expires_at :: "time option"
  ann_created_by :: "uuid option"
  ann_created_at :: time

record announcement_dismissal =
  dsm_announcement_id :: uuid
  dsm_user_id :: uuid
  dsm_created_at :: time

record system_health_alert =
  sha_id :: uuid
  sha_severity :: string
  sha_component :: string
  sha_message :: string
  sha_is_resolved :: bool
  sha_created_at :: time

record app_error_log =
  elg_id :: uuid
  elg_level :: string
  elg_component :: "string option"
  elg_message :: string
  elg_is_resolved :: bool
  elg_created_at :: time

text \<open>\<^verbatim>\<open>co_mails\<close> are the mails handed to the SMTP server, with their HTML part.\<close>

record console =
  co_monitor :: monitor
  co_plan_changes :: "plan_change list"
  co_activity :: "user_activity_log list"
  co_tickets :: "feedback_ticket list"
  co_messages :: "feedback_message list"
  co_campaigns :: "email_campaign list"
  co_recipients :: "campaign_recipient list"
  co_notifications :: "in_app_notification list"
  co_deliveries :: "notification_delivery list"
  co_announcements :: "announcement list"
  co_dismissals :: "announcement_dismissal list"
  co_alerts :: "system_health_alert list"
  co_errors :: "app_error_log list"
  co_mails :: "(mail \<times> string option) list"

definition co_db :: "console \<Rightarrow> db" where
  "co_db s = mo_db (co_monitor s)"

definition put_db :: "db \<Rightarrow> console \<Rightarrow> console" where
  "put_db d s = s\<lparr>co_monitor := (co_monitor s)\<lparr>mo_db := d\<rparr>\<rparr>"

definition on_console_db :: "('a, db) service \<Rightarrow> ('a, console) service" where
  "on_console_db f s = (case f (co_db s) of (r, d) \<Rightarrow> (r, put_db d s))"

lemma co_db_put [simp]: "co_db (put_db d s) = d"
  by (simp add: co_db_def put_db_def)

lemma put_db_same [simp]: "put_db (co_db s) s = s"
  by (simp add: co_db_def put_db_def)

lemma put_db_fields [simp]:
  "co_campaigns (put_db d s) = co_campaigns s" "co_recipients (put_db d s) = co_recipients s"
  "co_tickets (put_db d s) = co_tickets s" "co_mails (put_db d s) = co_mails s"
  "co_plan_changes (put_db d s) = co_plan_changes s" "co_announcements (put_db d s) = co_announcements s"
  "co_deliveries (put_db d s) = co_deliveries s" "co_notifications (put_db d s) = co_notifications s"
  "co_messages (put_db d s) = co_messages s" "put_db d (put_db e s) = put_db d s"
  by (simp_all add: put_db_def)

section \<open>Column lengths\<close>

definition opt_len :: "nat \<Rightarrow> string option \<Rightarrow> bool" where
  "opt_len n x = (case x of None \<Rightarrow> True | Some t \<Rightarrow> length t \<le> n)"

definition too_long :: app_error where
  "too_long = ValueError ''value too long for type character varying''"

definition ticket_fits :: "feedback_ticket \<Rightarrow> bool" where
  "ticket_fits t = (length (fbt_ticket_number t) \<le> 50 \<and> length (fbt_email t) \<le> 255 \<and> opt_len 150 (fbt_full_name t) \<and>
     length (fbt_category t) \<le> 50 \<and> length (fbt_subject t) \<le> 500 \<and> length (fbt_priority t) \<le> 20 \<and>
     length (fbt_status t) \<le> 30 \<and> opt_len 50 (fbt_source t))"

definition campaign_fits :: "email_campaign \<Rightarrow> bool" where
  "campaign_fits c = (length (cam_campaign_name c) \<le> 255 \<and> length (cam_subject c) \<le> 500 \<and> opt_len 100 (cam_segment c) \<and>
     length (cam_status c) \<le> 30 \<and> opt_len 255 (cam_utm_campaign c))"

definition notification_fits :: "in_app_notification \<Rightarrow> bool" where
  "notification_fits n = (length (ntf_title n) \<le> 255 \<and> length (ntf_notification_type n) \<le> 50 \<and>
     opt_len 500 (ntf_action_url n) \<and> opt_len 100 (ntf_action_label n) \<and> length (ntf_priority n) \<le> 20)"

definition announcement_fits :: "announcement \<Rightarrow> bool" where
  "announcement_fits a = (length (ann_title a) \<le> 255 \<and> length (ann_placement a) \<le> 50 \<and> opt_len 50 (ann_target_segment a) \<and>
     opt_len 500 (ann_action_url a) \<and> opt_len 100 (ann_action_label a) \<and> opt_len 20 (ann_bg_color a) \<and> opt_len 20 (ann_text_color a))"

text \<open>\<^verbatim>\<open>(page - 1) * page_size\<close> for the 1-based pages the routes admit, with the number of matching rows.\<close>

definition console_page :: "('r \<Rightarrow> time) \<Rightarrow> nat \<Rightarrow> nat \<Rightarrow> 'r list \<Rightarrow> 'r list \<times> nat" where
  "console_page created page page_size rows =
     (page_of (\<lambda>r. - created r) ((page - 1) * page_size) page_size rows, length rows)"

definition matches :: "string \<Rightarrow> string \<Rightarrow> bool" where
  "matches search text = ilike text (''%'' @ search @ ''%'')"

section \<open>Audit\<close>

text \<open>
  Details of an entry are Python values; the JSON serializer of the column refuses a UUID object.
\<close>

datatype detail = DvJson json | DvUuid uuid

fun serialize :: "(string \<times> detail) list \<Rightarrow> (string \<times> json) list option" where
  "serialize [] = Some []"
| "serialize ((k, DvUuid _) # ds) = None"
| "serialize ((k, DvJson j) # ds) = map_option ((#) (k, j)) (serialize ds)"

record audit_entry =
  aud_action :: string
  aud_entity_type :: string
  aud_entity_id :: string
  aud_details :: "(string \<times> detail) list option"

definition audit_insert :: "time \<Rightarrow> user \<Rightarrow> http_client \<Rightarrow> audit_entry \<Rightarrow> (unit, console) service" where
  "audit_insert now admin client e s =
     (case (case aud_details e of None \<Rightarrow> Some JNull | Some ds \<Rightarrow> map_option JObj (serialize ds)) of
        None \<Rightarrow> (Inl (ValueError ''Object of type UUID is not JSON serializable''), s)
      | Some details \<Rightarrow>
          if length (aud_action e) > 100 \<or> length (aud_entity_type e) > 100 \<or> length (aud_entity_id e) > 255 then (Inl too_long, s)
          else (Inr (), put_db ((co_db s)\<lparr>db_admin_audit := db_admin_audit (co_db s) @
            [\<lparr>aal_admin_user_id = Some (u_id admin), aal_admin_email = Some (u_email admin), aal_action = aud_action e,
              aal_entity_type = Some (aud_entity_type e), aal_entity_id = Some (aud_entity_id e), aal_details = details,
              aal_ip_address = hc_host client, aal_user_agent = hc_user_agent client, aal_created_at = now\<rparr>]\<rparr>) s))"

definition audit_list_logs ::
  "string option \<Rightarrow> string option \<Rightarrow> nat \<Rightarrow> nat \<Rightarrow> console \<Rightarrow> admin_audit_log list \<times> nat" where
  "audit_list_logs action entity_type page page_size s = console_page aal_created_at page page_size
     (filter (\<lambda>l. (\<not> str_truthy action \<or> Some (aal_action l) = action) \<and>
        (\<not> str_truthy entity_type \<or> aal_entity_type l = entity_type)) (db_admin_audit (co_db s)))"

section \<open>Users\<close>

definition search_match :: "string option \<Rightarrow> user \<Rightarrow> bool" where
  "search_match search u = (\<not> str_truthy search \<or> matches (the search) (u_email u) \<or> matches (the search) (u_full_name u))"

definition repo_search_users ::
  "string option \<Rightarrow> bool option \<Rightarrow> bool option \<Rightarrow> string option \<Rightarrow> nat \<Rightarrow> nat \<Rightarrow> console \<Rightarrow> user list \<times> nat" where
  "repo_search_users search is_active is_system_admin source page page_size s =
     console_page u_created_at page page_size
       (filter (\<lambda>u. search_match search u \<and> (is_active = None \<or> is_active = Some (u_is_active u)) \<and>
          (is_system_admin = None \<or> is_system_admin = Some (u_is_system_admin u)) \<and>
          (\<not> str_truthy source \<or> u_source u = source)) (db_users (co_db s)))"

record user_org =
  uo_org_id :: uuid
  uo_org_name :: string
  uo_role :: string
  uo_plan :: string

text \<open>The join takes every membership row, deleted ones included.\<close>

definition member_orgs :: "db \<Rightarrow> uuid \<Rightarrow> (organization \<times> string) list" where
  "member_orgs d user_id = concat (map (\<lambda>m. map (\<lambda>org. (org, m_role m))
     (filter (\<lambda>org. o_id org = m_org_id m) (db_organizations d))) (filter (\<lambda>m. m_user_id m = user_id) (db_members d)))"

definition get_user_orgs :: "console \<Rightarrow> uuid \<Rightarrow> user_org list" where
  "get_user_orgs s user_id = map (\<lambda>(org, role). \<lparr>uo_org_id = o_id org, uo_org_name = o_name org, uo_role = role, uo_plan = o_plan org\<rparr>)
     (member_orgs (co_db s) user_id)"

definition list_activity :: "uuid \<Rightarrow> nat \<Rightarrow> nat \<Rightarrow> console \<Rightarrow> user_activity_log list \<times> nat" where
  "list_activity user_id page page_size s = console_page uac_created_at page page_size
     (filter (\<lambda>a. uac_user_id a = Some user_id) (co_activity s))"

definition log_activity :: "uuid \<Rightarrow> time \<Rightarrow> uuid \<Rightarrow> string \<Rightarrow> json \<Rightarrow> http_client \<Rightarrow> (user_activity_log, console) service" where
  "log_activity i now user_id action details client s =
     (if length action > 100 then (Inl too_long, s)
      else (let r = \<lparr>uac_id = i, uac_user_id = Some user_id, uac_action = action, uac_details = details,
              uac_ip_address = hc_host client, uac_user_agent = hc_user_agent client, uac_created_at = now\<rparr>
        in (Inr r, s\<lparr>co_activity := co_activity s @ [r]\<rparr>)))"

text \<open>The columns of \<^verbatim>\<open>UserRepository.update\<close> the console writes.\<close>

datatype admin_field =
    AfFullName string
  | AfIsActive bool
  | AfIsSystemAdmin bool
  | AfAdminNote string
  | AfSource string

fun put_admin :: "admin_field \<Rightarrow> user \<Rightarrow> user" where
  "put_admin (AfFullName v) r = r\<lparr>u_full_name := v\<rparr>"
| "put_admin (AfIsActive v) r = r\<lparr>u_is_active := v\<rparr>"
| "put_admin (AfIsSystemAdmin v) r = r\<lparr>u_is_system_admin := v\<rparr>"
| "put_admin (AfAdminNote v) r = r\<lparr>u_admin_note := Some v\<rparr>"
| "put_admin (AfSource v) r = r\<lparr>u_source := Some v\<rparr>"

definition admin_update :: "user \<Rightarrow> admin_field list \<Rightarrow> (user, db) service" where
  "admin_update user kws d =
     (let r = set_fields put_admin kws user
      in if length (u_full_name r) > 150 \<or> \<not> opt_len 50 (u_source r) then (Inl too_long, d) else (Inr r, save_user r d))"

section \<open>Feedback\<close>

definition ticket_number_taken :: "string \<Rightarrow> console \<Rightarrow> bool" where
  "ticket_number_taken n s = (\<exists>t \<in> set (co_tickets s). fbt_ticket_number t = n)"

definition repo_create_ticket :: "feedback_ticket \<Rightarrow> (feedback_ticket, console) service" where
  "repo_create_ticket t s =
     (if \<not> ticket_fits t then (Inl too_long, s)
      else if ticket_number_taken (fbt_ticket_number t) s then (Inl (IntegrityError ''feedback_tickets_ticket_number''), s)
      else (Inr t, s\<lparr>co_tickets := co_tickets s @ [t]\<rparr>))"

definition get_ticket_by_id :: "console \<Rightarrow> uuid \<Rightarrow> feedback_ticket option" where
  "get_ticket_by_id s i = get_row fbt_id i (co_tickets s)"

definition get_ticket_by_number :: "console \<Rightarrow> string \<Rightarrow> feedback_ticket option" where
  "get_ticket_by_number s n = get_row fbt_ticket_number n (co_tickets s)"

record ticket_filter =
  tf_status :: "string option"
  tf_category :: "string option"
  tf_priority :: "string option"
  tf_assigned_to :: "uuid option"
  tf_search :: "string option"

definition any_ticket :: ticket_filter where
  "any_ticket = \<lparr>tf_status = None, tf_category = None, tf_priority = None, tf_assigned_to = None, tf_search = None\<rparr>"

definition text_filter :: "string option \<Rightarrow> string \<Rightarrow> bool" where
  "text_filter f v = (\<not> str_truthy f \<or> f = Some v)"

definition ticket_selected :: "ticket_filter \<Rightarrow> feedback_ticket \<Rightarrow> bool" where
  "ticket_selected f t = (text_filter (tf_status f) (fbt_status t) \<and> text_filter (tf_category f) (fbt_category t) \<and>
     text_filter (tf_priority f) (fbt_priority t) \<and> (tf_assigned_to f = None \<or> fbt_assigned_to t = tf_assigned_to f) \<and>
     (\<not> str_truthy (tf_search f) \<or> matches (the (tf_search f)) (fbt_subject t) \<or> matches (the (tf_search f)) (fbt_email t) \<or>
        matches (the (tf_search f)) (fbt_ticket_number t)))"

definition repo_list_tickets :: "ticket_filter \<Rightarrow> nat \<Rightarrow> nat \<Rightarrow> console \<Rightarrow> feedback_ticket list \<times> nat" where
  "repo_list_tickets f page page_size s = console_page fbt_created_at page page_size (filter (ticket_selected f) (co_tickets s))"

datatype ticket_field = TfStatus string | TfPriority string | TfAssignedTo uuid | TfResolution string

fun put_ticket :: "ticket_field \<Rightarrow> feedback_ticket \<Rightarrow> feedback_ticket" where
  "put_ticket (TfStatus v) t = t\<lparr>fbt_status := v\<rparr>"
| "put_ticket (TfPriority v) t = t\<lparr>fbt_priority := v\<rparr>"
| "put_ticket (TfAssignedTo v) t = t\<lparr>fbt_assigned_to := Some v\<rparr>"
| "put_ticket (TfResolution v) t = t\<lparr>fbt_resolution := Some v\<rparr>"

text \<open>The time of the first resolution is kept when a ticket is opened again.\<close>

definition changed_ticket :: "time \<Rightarrow> feedback_ticket \<Rightarrow> ticket_field list \<Rightarrow> feedback_ticket" where
  "changed_ticket now ticket kws =
     (let t = set_fields put_ticket kws ticket
      in if TfStatus ''resolved'' \<in> set kws \<and> fbt_resolved_at t = None then t\<lparr>fbt_resolved_at := Some now\<rparr> else t)"

definition repo_update_ticket :: "time \<Rightarrow> feedback_ticket \<Rightarrow> ticket_field list \<Rightarrow> (feedback_ticket, console) service" where
  "repo_update_ticket now ticket kws s =
     (let t = changed_ticket now ticket kws
      in if \<not> ticket_fits t then (Inl too_long, s)
         else if (\<exists>i. fbt_assigned_to t = Some i \<and> i \<notin> u_id ` set (db_users (co_db s)))
         then (Inl (IntegrityError ''feedback_tickets_assigned_to''), s)
         else (Inr t, s\<lparr>co_tickets := save_row fbt_id t (co_tickets s)\<rparr>))"

definition add_message ::
  "uuid \<Rightarrow> time \<Rightarrow> uuid \<Rightarrow> string \<Rightarrow> uuid \<Rightarrow> string \<Rightarrow> string \<Rightarrow> bool \<Rightarrow> (feedback_message, console) service" where
  "add_message i now ticket_id sender_type sender_id sender_name body is_internal_note s =
     (if length sender_type > 30 \<or> length sender_name > 150 then (Inl too_long, s)
      else (let r = \<lparr>fbm_id = i, fbm_ticket_id = ticket_id, fbm_sender_type = sender_type, fbm_sender_id = sender_id,
              fbm_sender_name = sender_name, fbm_body = body, fbm_is_internal_note = is_internal_note, fbm_created_at = now\<rparr>
        in (Inr r, s\<lparr>co_messages := co_messages s @ [r]\<rparr>)))"

definition list_messages :: "console \<Rightarrow> uuid \<Rightarrow> feedback_message list" where
  "list_messages s ticket_id = sort_key fbm_created_at (filter (\<lambda>r. fbm_ticket_id r = ticket_id) (co_messages s))"

definition count_by :: "('r \<Rightarrow> string) \<Rightarrow> 'r list \<Rightarrow> (string \<times> nat) list" where
  "count_by key rows = map (\<lambda>k. (k, length (filter (\<lambda>r. key r = k) rows))) (remdups (map key rows))"

record ticket_stats =
  tst_total_tickets :: nat
  tst_open_tickets :: nat
  tst_resolved_tickets :: nat
  tst_by_category :: "(string \<times> nat) list"
  tst_by_priority :: "(string \<times> nat) list"

definition get_ticket_stats :: "console \<Rightarrow> ticket_stats" where
  "get_ticket_stats s = \<lparr>tst_total_tickets = length (co_tickets s),
     tst_open_tickets = length (filter (\<lambda>t. fbt_status t = ''open'') (co_tickets s)),
     tst_resolved_tickets = length (filter (\<lambda>t. fbt_status t = ''resolved'') (co_tickets s)),
     tst_by_category = count_by fbt_category (co_tickets s), tst_by_priority = count_by fbt_priority (co_tickets s)\<rparr>"

section \<open>Communication\<close>

definition repo_create_campaign :: "email_campaign \<Rightarrow> (email_campaign, console) service" where
  "repo_create_campaign c s =
     (if \<not> campaign_fits c then (Inl too_long, s) else (Inr c, s\<lparr>co_campaigns := co_campaigns s @ [c]\<rparr>))"

definition get_campaign_by_id :: "console \<Rightarrow> uuid \<Rightarrow> email_campaign option" where
  "get_campaign_by_id s i = get_row cam_id i (co_campaigns s)"

definition repo_list_campaigns :: "string option \<Rightarrow> nat \<Rightarrow> nat \<Rightarrow> console \<Rightarrow> email_campaign list \<times> nat" where
  "repo_list_campaigns status page page_size s =
     console_page cam_created_at page page_size (filter (\<lambda>c. text_filter status (cam_status c)) (co_campaigns s))"

datatype campaign_field =
    CfName string
  | CfSubject string
  | CfBodyHtml string
  | CfBodyText string
  | CfSegment string
  | CfStatus string
  | CfRecipientCount int
  | CfSentAt time

fun put_campaign :: "campaign_field \<Rightarrow> email_campaign \<Rightarrow> email_campaign" where
  "put_campaign (CfName v) c = c\<lparr>cam_campaign_name := v\<rparr>"
| "put_campaign (CfSubject v) c = c\<lparr>cam_subject := v\<rparr>"
| "put_campaign (CfBodyHtml v) c = c\<lparr>cam_body_html := v\<rparr>"
| "put_campaign (CfBodyText v) c = c\<lparr>cam_body_text := Some v\<rparr>"
| "put_campaign (CfSegment v) c = c\<lparr>cam_segment := Some v\<rparr>"
| "put_campaign (CfStatus v) c = c\<lparr>cam_status := v\<rparr>"
| "put_campaign (CfRecipientCount v) c = c\<lparr>cam_recipient_count := v\<rparr>"
| "put_campaign (CfSentAt v) c = c\<lparr>cam_sent_at := Some v\<rparr>"

definition repo_update_campaign :: "email_campaign \<Rightarrow> campaign_field list \<Rightarrow> (email_campaign, console) service" where
  "repo_update_campaign campaign kws s =
     (let c = set_fields put_campaign kws campaign
      in if \<not> campaign_fits c then (Inl too_long, s) else (Inr c, s\<lparr>co_campaigns := save_row cam_id c (co_campaigns s)\<rparr>))"

definition create_recipient :: "uuid \<Rightarrow> time \<Rightarrow> uuid \<Rightarrow> uuid option \<Rightarrow> string \<Rightarrow> console \<Rightarrow> console" where
  "create_recipient i now campaign_id user_id email s = s\<lparr>co_recipients := co_recipients s @
     [\<lparr>rcp_id = i, rcp_campaign_id = campaign_id, rcp_user_id = user_id, rcp_email = email, rcp_status = ''pending'', rcp_created_at = now\<rparr>]\<rparr>"

definition repo_create_notification :: "in_app_notification \<Rightarrow> (in_app_notification, console) service" where
  "repo_create_notification n s =
     (if \<not> notification_fits n then (Inl too_long, s) else (Inr n, s\<lparr>co_notifications := co_notifications s @ [n]\<rparr>))"

definition get_notification_by_id :: "console \<Rightarrow> uuid \<Rightarrow> in_app_notification option" where
  "get_notification_by_id s i = get_row ntf_id i (co_notifications s)"

definition repo_list_notifications :: "nat \<Rightarrow> nat \<Rightarrow> console \<Rightarrow> in_app_notification list \<times> nat" where
  "repo_list_notifications page page_size s = console_page ntf_created_at page page_size (co_notifications s)"

definition create_delivery :: "uuid \<Rightarrow> time \<Rightarrow> uuid \<Rightarrow> uuid \<Rightarrow> console \<Rightarrow> console" where
  "create_delivery i now notification_id user_id s = s\<lparr>co_deliveries := co_deliveries s @
     [\<lparr>dlv_id = i, dlv_notification_id = notification_id, dlv_user_id = user_id, dlv_is_read = False, dlv_created_at = now\<rparr>]\<rparr>"

definition repo_create_announcement :: "announcement \<Rightarrow> (announcement, console) service" where
  "repo_create_announcement a s =
     (if \<not> announcement_fits a then (Inl too_long, s) else (Inr a, s\<lparr>co_announcements := co_announcements s @ [a]\<rparr>))"

definition get_announcement_by_id :: "console \<Rightarrow> uuid \<Rightarrow> announcement option" where
  "get_announcement_by_id s i = get_row ann_id i (co_announcements s)"

definition repo_list_announcements :: "bool option \<Rightarrow> nat \<Rightarrow> nat \<Rightarrow> console \<Rightarrow> announcement list \<times> nat" where
  "repo_list_announcements is_active page page_size s = console_page ann_created_at page page_size
     (filter (\<lambda>a. is_active = None \<or> is_active = Some (ann_is_active a)) (co_announcements s))"

datatype announcement_field =
    NfTitle string
  | NfBodyHtml string
  | NfPlacement string
  | NfTargetPlans "string list"
  | NfTargetSegment string
  | NfActionUrl string
  | NfActionLabel string
  | NfIsDismissible bool
  | NfBgColor string
  | NfTextColor string
  | NfIsActive bool
  | NfStartsAt time
  | NfExpiresAt time

fun put_announcement :: "announcement_field \<Rightarrow> announcement \<Rightarrow> announcement" where
  "put_announcement (NfTitle v) a = a\<lparr>ann_title := v\<rparr>"
| "put_announcement (NfBodyHtml v) a = a\<lparr>ann_body_html := v\<rparr>"
| "put_announcement (NfPlacement v) a = a\<lparr>ann_placement := v\<rparr>"
| "put_announcement (NfTargetPlans v) a = a\<lparr>ann_target_plans := Some v\<rparr>"
| "put_announcement (NfTargetSegment v) a = a\<lparr>ann_target_segment := Some v\<rparr>"
| "put_announcement (NfActionUrl v) a = a\<lparr>ann_action_url := Some v\<rparr>"
| "put_announcement (NfActionLabel v) a = a\<lparr>ann_action_label := Some v\<rparr>"
| "put_announcement (NfIsDismissible v) a = a\<lparr>ann_is_dismissible := v\<rparr>"
| "put_announcement (NfBgColor v) a = a\<lparr>ann_bg_color := Some v\<rparr>"
| "put_announcement (NfTextColor v) a = a\<lparr>ann_text_color := Some v\<rparr>"
| "put_announcement (NfIsActive v) a = a\<lparr>ann_is_active := v\<rparr>"
| "put_announcement (NfStartsAt v) a = a\<lparr>ann_starts_at := Some v\<rparr>"
| "put_announcement (NfExpiresAt v) a = a\<lparr>ann_expires_at := Some v\<rparr>"

definition repo_update_announcement :: "announcement \<Rightarrow> announcement_field list \<Rightarrow> (announcement, console) service" where
  "repo_update_announcement ann kws s =
     (let a = set_fields put_announcement kws ann
      in if \<not> announcement_fits a then (Inl too_long, s)
         else (Inr a, s\<lparr>co_announcements := save_row ann_id a (co_announcements s)\<rparr>))"

definition running :: "time \<Rightarrow> announcement \<Rightarrow> bool" where
  "running now a = (ann_is_active a \<and> (case ann_starts_at a of None \<Rightarrow> True | Some t \<Rightarrow> t \<le> now) \<and>
     (case ann_expires_at a of None \<Rightarrow> True | Some t \<Rightarrow> t > now))"

definition get_active_announcements_for_user :: "time \<Rightarrow> uuid \<Rightarrow> string \<Rightarrow> console \<Rightarrow> announcement list" where
  "get_active_announcements_for_user now user_id user_plan s =
     (let dismissed = map dsm_announcement_id (filter (\<lambda>d. dsm_user_id d = user_id) (co_dismissals s))
      in filter (\<lambda>a. case ann_target_plans a of None \<Rightarrow> True | Some ps \<Rightarrow> ps = [] \<or> user_plan \<in> set ps)
           (filter (\<lambda>a. ann_id a \<notin> set dismissed) (filter (running now) (co_announcements s))))"

definition dismiss_announcement :: "time \<Rightarrow> uuid \<Rightarrow> uuid \<Rightarrow> (unit, console) service" where
  "dismiss_announcement now announcement_id user_id s =
     (if (\<exists>d \<in> set (co_dismissals s). dsm_announcement_id d = announcement_id \<and> dsm_user_id d = user_id)
      then (Inl (IntegrityError ''uq_announcement_dismissal''), s)
      else if get_announcement_by_id s announcement_id = None then (Inl (IntegrityError ''announcement_dismissals_announcement_id''), s)
      else (Inr (), s\<lparr>co_dismissals := co_dismissals s @
        [\<lparr>dsm_announcement_id = announcement_id, dsm_user_id = user_id, dsm_created_at = now\<rparr>]\<rparr>))"

section \<open>Operations\<close>

definition list_health_alerts :: "bool option \<Rightarrow> nat \<Rightarrow> nat \<Rightarrow> console \<Rightarrow> system_health_alert list \<times> nat" where
  "list_health_alerts is_resolved page page_size s = console_page sha_created_at page page_size
     (filter (\<lambda>a. is_resolved = None \<or> is_resolved = Some (sha_is_resolved a)) (co_alerts s))"

definition repo_list_error_logs :: "string option \<Rightarrow> bool option \<Rightarrow> nat \<Rightarrow> nat \<Rightarrow> console \<Rightarrow> app_error_log list \<times> nat" where
  "repo_list_error_logs level is_resolved page page_size s = console_page elg_created_at page page_size
     (filter (\<lambda>l. text_filter level (elg_level l) \<and> (is_resolved = None \<or> is_resolved = Some (elg_is_resolved l))) (co_errors s))"

definition resolve_error_log :: "uuid \<Rightarrow> console \<Rightarrow> app_error_log option \<times> console" where
  "resolve_error_log i s = (case get_row elg_id i (co_errors s) of
     None \<Rightarrow> (None, s)
   | Some l \<Rightarrow> (let r = l\<lparr>elg_is_resolved := True\<rparr> in (Some r, s\<lparr>co_errors := save_row elg_id r (co_errors s)\<rparr>)))"

record system_metrics =
  sme_total_users :: nat
  sme_total_orgs :: nat
  sme_total_dependencies :: nat
  sme_total_incidents_open :: nat
  sme_total_tickets_open :: nat

definition get_system_metrics :: "console \<Rightarrow> system_metrics" where
  "get_system_metrics s = \<lparr>sme_total_users = length (db_users (co_db s)), sme_total_orgs = length (db_organizations (co_db s)),
     sme_total_dependencies = length (mo_dependencies (co_monitor s)),
     sme_total_incidents_open = length (filter (\<lambda>i. in_status i = IncOpen) (mo_incidents (co_monitor s))),
     sme_total_tickets_open = length (filter (\<lambda>t. fbt_status t = ''open'') (co_tickets s))\<rparr>"

end
