(* ===== verification/Console_Service.thy ===== *)
theory Console_Service
  imports Console
begin

text \<open>
  \<^verbatim>\<open>modules/admin/service.py\<close>: the audit helper, the services for users, feedback, communication and
  operations, and the routes of \<^verbatim>\<open>modules/admin/router.py\<close> that change something.
\<close>

text \<open>
  What the console reads from outside: the security primitives, the SMTP server's answers, the format
  of timestamps, the value the attribute \<^verbatim>\<open>metadata\<close> of a mapped ticket has as JSON (if it has one),
  and the probes of the database and of Redis.
\<close>

record console_env =
  cv_security :: security
  cv_mailer :: "mail \<Rightarrow> bool"
  cv_iso :: "time \<Rightarrow> string"
  cv_metadata :: "feedback_ticket \<Rightarrow> json option"
  cv_database :: "string option"
  cv_redis_up :: bool

definition IMPERSONATION_TOKEN_TTL_MINUTES :: int where "IMPERSONATION_TOKEN_TTL_MINUTES = 15"

section \<open>Audit\<close>

text \<open>
  A failed insertion is only logged, but the flush has deactivated the session's transaction and expired
  its objects: the next statement raises, or at the latest the decorator of the route, which reads the
  attributes of the administrator (\<^verbatim>\<open>modules/admin/decorators.py\<close>).
\<close>

definition log_action :: "time \<Rightarrow> user \<Rightarrow> http_client \<Rightarrow> audit_entry \<Rightarrow> (unit, console) service" where
  "log_action now admin client e s = (case audit_insert now admin client e s of
     (Inr _, s1) \<Rightarrow> (Inr (), s1)
   | (Inl _, _) \<Rightarrow> (Inl (ValueError ''PendingRollbackError''), s))"

lemma log_action_E:
  assumes "log_action now admin client e s = (Inr (), s1)"
  obtains l where "s1 = put_db ((co_db s)\<lparr>db_admin_audit := db_admin_audit (co_db s) @ [l]\<rparr>) s" and "aal_admin_user_id l = Some (u_id admin)"
    and "aal_admin_email l = Some (u_email admin)" and "aal_action l = aud_action e" and "aal_entity_type l = Some (aud_entity_type e)"
    and "aal_entity_id l = Some (aud_entity_id e)" and "aal_created_at l = now"
proof -
  obtain details where "s1 = put_db ((co_db s)\<lparr>db_admin_audit := db_admin_audit (co_db s) @
      [\<lparr>aal_admin_user_id = Some (u_id admin), aal_admin_email = Some (u_email admin), aal_action = aud_action e,
        aal_entity_type = Some (aud_entity_type e), aal_entity_id = Some (aud_entity_id e), aal_details = details,
        aal_ip_address = hc_host client, aal_user_agent = hc_user_agent client, aal_created_at = now\<rparr>]\<rparr>) s"
    using assms by (auto simp: log_action_def audit_insert_def split: sum.splits option.splits if_splits)
  then show thesis
    by (rule that) simp_all
qed

section \<open>Users\<close>

text \<open>
  The listing validates each user against the schema of the whole listing, which takes neither a user
  nor any attribute of one: only an empty page is answered.
\<close>

record 'r listing =
  ls_items :: "'r list"
  ls_total :: nat
  ls_page :: nat
  ls_page_size :: nat

definition listing_of :: "nat \<Rightarrow> nat \<Rightarrow> 'r list \<times> nat \<Rightarrow> 'r listing" where
  "listing_of page page_size x = \<lparr>ls_items = fst x, ls_total = snd x, ls_page = page, ls_page_size = page_size\<rparr>"

definition search_users ::
  "string option \<Rightarrow> bool option \<Rightarrow> bool option \<Rightarrow> string option \<Rightarrow> nat \<Rightarrow> nat \<Rightarrow> (user listing, console) service" where
  "search_users search is_active is_system_admin source page page_size s =
     (let x = repo_search_users search is_active is_system_admin source page page_size s
      in if fst x \<noteq> [] then (Inl (ValueError ''Input should be a valid dictionary or instance of AdminUserListResponse''), s)
         else (Inr (listing_of page page_size x), s))"

record user_detail =
  ude_user :: user
  ude_organizations :: "user_org list"

definition get_user_detail :: "uuid \<Rightarrow> (user_detail, console) service" where
  "get_user_detail user_id s = (case user_get_by_id (co_db s) user_id of
     None \<Rightarrow> (Inl (ResourceNotFoundException ''User not found''), s)
   | Some user \<Rightarrow> (Inr \<lparr>ude_user = user, ude_organizations = get_user_orgs s user_id\<rparr>, s))"

fun field_detail :: "admin_field \<Rightarrow> string \<times> detail" where
  "field_detail (AfFullName v) = (''full_name'', DvJson (JStr v))"
| "field_detail (AfIsActive v) = (''is_active'', DvJson (JBool v))"
| "field_detail (AfIsSystemAdmin v) = (''is_system_admin'', DvJson (JBool v))"
| "field_detail (AfAdminNote v) = (''admin_note'', DvJson (JStr v))"
| "field_detail (AfSource v) = (''source'', DvJson (JStr v))"

definition update_user :: "time \<Rightarrow> user \<Rightarrow> http_client \<Rightarrow> uuid \<Rightarrow> admin_field list \<Rightarrow> (user_detail, console) service" where
  "update_user now admin client user_id kws s = (case user_get_by_id (co_db s) user_id of
     None \<Rightarrow> (Inl (ResourceNotFoundException ''User not found''), s)
   | Some user \<Rightarrow>
       and_then (on_console_db (admin_update user kws)) (\<lambda>updated.
       and_then (log_action now admin client \<lparr>aud_action = ''update_user'', aud_entity_type = ''user'', aud_entity_id = uuid_str user_id,
           aud_details = Some (map field_detail kws)\<rparr>) (\<lambda>_ s1.
         (Inr \<lparr>ude_user = updated, ude_organizations = get_user_orgs s1 user_id\<rparr>, s1))) s)"

text \<open>A token is issued, decoded again, and re-encoded with an expiry fifteen minutes ahead.\<close>

definition expiring_token :: "security \<Rightarrow> time \<Rightarrow> string \<Rightarrow> app_error + string" where
  "expiring_token sec now token = (case sec_jwt_decode sec now token of
     JwtClaims payload \<Rightarrow> Inr (sec_jwt_encode sec (dict_set
       (''exp'', JInt ((now + minutes IMPERSONATION_TOKEN_TTL_MINUTES) div 1000000)) payload))
   | _ \<Rightarrow> Inl (ValueError ''InvalidTokenError''))"

definition impersonation_claims :: "uuid \<Rightarrow> uuid \<Rightarrow> (string \<times> json) list" where
  "impersonation_claims admin_id user_id = [(''impersonator_id'', JStr (uuid_str admin_id)),
     (''impersonated_user_id'', JStr (uuid_str user_id)), (''type'', JStr ''impersonation'')]"

record impersonation =
  imp_token :: string
  imp_user_id :: uuid
  imp_email :: string
  imp_expires_in_seconds :: int

definition impersonate :: "console_env \<Rightarrow> time \<Rightarrow> string \<Rightarrow> user \<Rightarrow> http_client \<Rightarrow> uuid \<Rightarrow> (impersonation, console) service" where
  "impersonate env now jti admin client user_id s = (case user_get_by_id (co_db s) user_id of
     None \<Rightarrow> (Inl (ResourceNotFoundException ''User not found''), s)
   | Some user \<Rightarrow>
       if \<not> u_is_active user then (Inl (ValidationException ''Cannot impersonate an inactive user''), s)
       else
         and_then (pure_step (expiring_token (cv_security env) now (create_access_token (cv_security env) now jti (uuid_str user_id)
             (impersonation_claims (u_id admin) user_id)))) (\<lambda>token.
         and_then (log_action now admin client \<lparr>aud_action = ''impersonate_user'', aud_entity_type = ''user'',
             aud_entity_id = uuid_str user_id, aud_details = None\<rparr>) (\<lambda>_ s1.
           (Inr \<lparr>imp_token = token, imp_user_id = user_id, imp_email = u_email user,
              imp_expires_in_seconds = IMPERSONATION_TOKEN_TTL_MINUTES * 60\<rparr>, s1))) s)"

text \<open>Any string of the column's length is taken as a plan.\<close>

definition set_plan :: "time \<Rightarrow> user \<Rightarrow> organization \<Rightarrow> string \<Rightarrow> string option \<Rightarrow> string \<Rightarrow> (unit, console) service" where
  "set_plan now admin org new_plan reason note s =
     (if length new_plan > 50 then (Inl too_long, s)
      else (Inr (), (put_db (snd (org_update org [OfPlan (Some new_plan)] (co_db s))) s)
        \<lparr>co_plan_changes := co_plan_changes s @ [\<lparr>pch_org_id = o_id org, pch_changed_by = Some (u_id admin), pch_from_plan = o_plan org,
           pch_to_plan = new_plan, pch_reason = reason, pch_admin_note = Some note, pch_created_at = now\<rparr>]\<rparr>))"

definition plan_details :: "string \<Rightarrow> string \<Rightarrow> string option \<Rightarrow> (string \<times> detail) list" where
  "plan_details from_plan to_plan reason = [(''from_plan'', DvJson (JStr from_plan)), (''to_plan'', DvJson (JStr to_plan)),
     (''reason'', DvJson (jopt JStr reason))]"

definition override_plan ::
  "time \<Rightarrow> user \<Rightarrow> http_client \<Rightarrow> uuid \<Rightarrow> string \<Rightarrow> string option \<Rightarrow> (string, console) service" where
  "override_plan now admin client org_id new_plan reason s = (case org_get_by_id (co_db s) org_id of
     None \<Rightarrow> (Inl (ResourceNotFoundException ''Organization not found''), s)
   | Some org \<Rightarrow>
       and_then (set_plan now admin org new_plan reason (''Admin override by '' @ u_email admin)) (\<lambda>_.
       and_then (log_action now admin client \<lparr>aud_action = ''override_plan'', aud_entity_type = ''organization'',
           aud_entity_id = uuid_str org_id, aud_details = Some (plan_details (o_plan org) new_plan reason)\<rparr>) (\<lambda>_.
         pure_step (Inr (''Plan changed from '' @ o_plan org @ '' to '' @ new_plan)))) s)"

definition hand_mail :: "console_env \<Rightarrow> string \<Rightarrow> string \<Rightarrow> string \<Rightarrow> string option \<Rightarrow> console \<Rightarrow> bool \<times> console" where
  "hand_mail env to_email subject body html_body s =
     (let ml = \<lparr>ml_to = to_email, ml_subject = subject, ml_body = body\<rparr>
      in if cv_mailer env ml then (True, s\<lparr>co_mails := co_mails s @ [(ml, html_body)]\<rparr>) else (False, s))"

definition mail_details :: "string \<Rightarrow> bool \<Rightarrow> (string \<times> detail) list" where
  "mail_details subject success = [(''subject'', DvJson (JStr subject)), (''success'', DvJson (JBool success))]"

definition send_email_to_user ::
  "console_env \<Rightarrow> time \<Rightarrow> user \<Rightarrow> http_client \<Rightarrow> uuid \<Rightarrow> string \<Rightarrow> string \<Rightarrow> string option \<Rightarrow> (bool, console) service" where
  "send_email_to_user env now admin client user_id subject body html_body s = (case user_get_by_id (co_db s) user_id of
     None \<Rightarrow> (Inl (ResourceNotFoundException ''User not found''), s)
   | Some user \<Rightarrow> (case hand_mail env (u_email user) subject body html_body s of (success, s1) \<Rightarrow>
       and_then (log_action now admin client \<lparr>aud_action = ''send_email_to_user'', aud_entity_type = ''user'',
           aud_entity_id = uuid_str user_id, aud_details = Some (mail_details subject success)\<rparr>) (\<lambda>_. pure_step (Inr success)) s1))"

definition get_user_activity :: "uuid \<Rightarrow> nat \<Rightarrow> nat \<Rightarrow> (user_activity_log listing, console) service" where
  "get_user_activity user_id page page_size s = (Inr (listing_of page page_size (list_activity user_id page page_size s)), s)"

section \<open>Feedback\<close>

text \<open>
  The response takes its field \<^verbatim>\<open>metadata\<close> from the attribute of that name, not from the column, which
  is mapped as \<^verbatim>\<open>metadata_\<close>; it must be an object or null.
\<close>

definition ticket_response :: "console_env \<Rightarrow> feedback_ticket \<Rightarrow> app_error + feedback_ticket" where
  "ticket_response env t = (case cv_metadata env t of
     Some JNull \<Rightarrow> Inr t | Some (JObj d) \<Rightarrow> Inr t | _ \<Rightarrow> Inl (ValueError ''metadata: Input should be a valid dictionary''))"

fun ticket_responses :: "console_env \<Rightarrow> feedback_ticket list \<Rightarrow> app_error + feedback_ticket list" where
  "ticket_responses env [] = Inr []"
| "ticket_responses env (t # ts) = (case ticket_response env t of Inl e \<Rightarrow> Inl e
   | Inr r \<Rightarrow> (case ticket_responses env ts of Inl e \<Rightarrow> Inl e | Inr rs \<Rightarrow> Inr (r # rs)))"

record ticket_request =
  tkr_email :: string
  tkr_full_name :: "string option"
  tkr_category :: string
  tkr_subject :: string
  tkr_body :: string
  tkr_priority :: string
  tkr_source :: "string option"

definition create_ticket ::
  "console_env \<Rightarrow> uuid \<Rightarrow> nat \<Rightarrow> time \<Rightarrow> ticket_request \<Rightarrow> uuid option \<Rightarrow> (feedback_ticket, console) service" where
  "create_ticket env i rnd now rq user_id s =
     and_then (repo_create_ticket \<lparr>fbt_id = i, fbt_ticket_number = ''FB-'' @ upper (hex_digits 8 rnd), fbt_user_id = user_id,
         fbt_email = tkr_email rq, fbt_full_name = tkr_full_name rq, fbt_category = tkr_category rq, fbt_subject = tkr_subject rq,
         fbt_body = tkr_body rq, fbt_priority = tkr_priority rq, fbt_status = ''open'', fbt_source = tkr_source rq,
         fbt_assigned_to = None, fbt_resolution = None, fbt_created_at = now, fbt_resolved_at = None\<rparr>) (\<lambda>t.
       pure_step (ticket_response env t)) s"

definition get_ticket :: "console_env \<Rightarrow> uuid \<Rightarrow> (feedback_ticket \<times> feedback_message list, console) service" where
  "get_ticket env ticket_id s = (case get_ticket_by_id s ticket_id of
     None \<Rightarrow> (Inl (ResourceNotFoundException ''Ticket not found''), s)
   | Some t \<Rightarrow> (case ticket_response env t of Inl e \<Rightarrow> (Inl e, s) | Inr r \<Rightarrow> (Inr (r, list_messages s ticket_id), s)))"

definition list_tickets :: "console_env \<Rightarrow> ticket_filter \<Rightarrow> nat \<Rightarrow> nat \<Rightarrow> (feedback_ticket listing, console) service" where
  "list_tickets env f page page_size s =
     (let x = repo_list_tickets f page page_size s
      in case ticket_responses env (fst x) of Inl e \<Rightarrow> (Inl e, s) | Inr rs \<Rightarrow> (Inr (listing_of page page_size (rs, snd x)), s))"

fun ticket_detail :: "ticket_field \<Rightarrow> string \<times> detail" where
  "ticket_detail (TfStatus v) = (''status'', DvJson (JStr v))"
| "ticket_detail (TfPriority v) = (''priority'', DvJson (JStr v))"
| "ticket_detail (TfAssignedTo v) = (''assigned_to'', DvUuid v)"
| "ticket_detail (TfResolution v) = (''resolution'', DvJson (JStr v))"

definition update_ticket ::
  "console_env \<Rightarrow> time \<Rightarrow> user \<Rightarrow> http_client \<Rightarrow> uuid \<Rightarrow> ticket_field list \<Rightarrow> (feedback_ticket, console) service" where
  "update_ticket env now admin client ticket_id kws s = (case get_ticket_by_id s ticket_id of
     None \<Rightarrow> (Inl (ResourceNotFoundException ''Ticket not found''), s)
   | Some ticket \<Rightarrow>
       and_then (repo_update_ticket now ticket kws) (\<lambda>updated.
       and_then (log_action now admin client \<lparr>aud_action = ''update_ticket'', aud_entity_type = ''feedback_ticket'',
           aud_entity_id = uuid_str ticket_id, aud_details = Some (map ticket_detail kws)\<rparr>) (\<lambda>_.
         pure_step (ticket_response env updated))) s)"

definition reply_to_ticket ::
  "uuid \<Rightarrow> time \<Rightarrow> user \<Rightarrow> uuid \<Rightarrow> string \<Rightarrow> bool \<Rightarrow> (feedback_message, console) service" where
  "reply_to_ticket i now admin ticket_id body is_internal_note s = (case get_ticket_by_id s ticket_id of
     None \<Rightarrow> (Inl (ResourceNotFoundException ''Ticket not found''), s)
   | Some ticket \<Rightarrow> add_message i now ticket_id ''admin'' (u_id admin) (u_full_name admin) body is_internal_note s)"

record bulk_request =
  bkr_ticket_ids :: "uuid list"
  bkr_status :: "string option"
  bkr_priority :: "string option"
  bkr_assigned_to :: "uuid option"

definition bulk_fields :: "bulk_request \<Rightarrow> ticket_field list" where
  "bulk_fields rq = (if str_truthy (bkr_status rq) then [TfStatus (the (bkr_status rq))] else []) @
     (if str_truthy (bkr_priority rq) then [TfPriority (the (bkr_priority rq))] else []) @
     (case bkr_assigned_to rq of None \<Rightarrow> [] | Some i \<Rightarrow> [TfAssignedTo i])"

fun bulk_loop :: "time \<Rightarrow> ticket_field list \<Rightarrow> uuid list \<Rightarrow> nat \<Rightarrow> (nat, console) service" where
  "bulk_loop now kws [] n s = (Inr n, s)"
| "bulk_loop now kws (tid # tids) n s = (case get_ticket_by_id s tid of
     None \<Rightarrow> bulk_loop now kws tids n s
   | Some ticket \<Rightarrow> and_then (repo_update_ticket now ticket kws) (\<lambda>_. bulk_loop now kws tids (n + 1)) s)"

definition bulk_update_tickets ::
  "time \<Rightarrow> user \<Rightarrow> http_client \<Rightarrow> bulk_request \<Rightarrow> (nat \<times> string, console) service" where
  "bulk_update_tickets now admin client rq s =
     and_then (bulk_loop now (bulk_fields rq) (bkr_ticket_ids rq) 0) (\<lambda>n.
     and_then (if n > 0 then log_action now admin client \<lparr>aud_action = ''bulk_update_tickets'', aud_entity_type = ''feedback_ticket'',
           aud_entity_id = join '','' (map uuid_str (bkr_ticket_ids rq)), aud_details = Some (map ticket_detail (bulk_fields rq))\<rparr>
         else pure_step (Inr ())) (\<lambda>_.
       pure_step (Inr (n, ''Updated '' @ show_nat n @ '' tickets'')))) s"

definition get_feedback_stats :: "(ticket_stats, console) service" where
  "get_feedback_stats s = (Inr (get_ticket_stats s), s)"

section \<open>Communication\<close>

record campaign_request =
  cmr_campaign_name :: string
  cmr_subject :: string
  cmr_body_html :: string
  cmr_body_text :: "string option"
  cmr_segment :: "string option"
  cmr_utm_campaign :: "string option"
  cmr_scheduled_at :: "time option"

definition create_campaign :: "uuid \<Rightarrow> time \<Rightarrow> uuid \<Rightarrow> campaign_request \<Rightarrow> (email_campaign, console) service" where
  "create_campaign i now created_by rq = repo_create_campaign \<lparr>cam_id = i, cam_campaign_name = cmr_campaign_name rq,
     cam_subject = cmr_subject rq, cam_body_html = cmr_body_html rq, cam_body_text = cmr_body_text rq, cam_segment = cmr_segment rq,
     cam_recipient_count = 0, cam_status = ''draft'', cam_utm_campaign = cmr_utm_campaign rq, cam_created_by = Some created_by,
     cam_scheduled_at = cmr_scheduled_at rq, cam_sent_at = None, cam_created_at = now\<rparr>"

definition list_campaigns :: "string option \<Rightarrow> nat \<Rightarrow> nat \<Rightarrow> (email_campaign listing, console) service" where
  "list_campaigns status page page_size s = (Inr (listing_of page page_size (repo_list_campaigns status page page_size s)), s)"

definition with_campaign :: "uuid \<Rightarrow> (email_campaign \<Rightarrow> ('a, console) service) \<Rightarrow> ('a, console) service" where
  "with_campaign i f s = (case get_campaign_by_id s i of
     None \<Rightarrow> (Inl (ResourceNotFoundException ''Campaign not found''), s) | Some c \<Rightarrow> f c s)"

definition get_campaign :: "uuid \<Rightarrow> (email_campaign, console) service" where
  "get_campaign i = with_campaign i (\<lambda>c. pure_step (Inr c))"

text \<open>The fields of the update request: the state of a campaign is not among them.\<close>

record campaign_update =
  cmu_campaign_name :: "string option"
  cmu_subject :: "string option"
  cmu_body_html :: "string option"
  cmu_body_text :: "string option"
  cmu_segment :: "string option"

definition given :: "('v \<Rightarrow> 'f) \<Rightarrow> 'v option \<Rightarrow> 'f list" where
  "given f x = (case x of None \<Rightarrow> [] | Some v \<Rightarrow> [f v])"

definition campaign_kwargs :: "campaign_update \<Rightarrow> campaign_field list" where
  "campaign_kwargs rq = given CfName (cmu_campaign_name rq) @ given CfSubject (cmu_subject rq) @
     given CfBodyHtml (cmu_body_html rq) @ given CfBodyText (cmu_body_text rq) @ given CfSegment (cmu_segment rq)"

definition update_campaign :: "uuid \<Rightarrow> campaign_field list \<Rightarrow> (email_campaign, console) service" where
  "update_campaign i kws = with_campaign i (\<lambda>c. repo_update_campaign c kws)"

text \<open>Every active user becomes a recipient, whatever the campaign's segment; no mail is sent.\<close>

fun add_recipients :: "(nat \<Rightarrow> uuid) \<Rightarrow> time \<Rightarrow> uuid \<Rightarrow> user list \<Rightarrow> nat \<Rightarrow> console \<Rightarrow> nat \<times> console" where
  "add_recipients ids now campaign_id [] n s = (n, s)"
| "add_recipients ids now campaign_id (u # us) n s =
     add_recipients ids now campaign_id us (n + 1) (create_recipient (ids n) now campaign_id (Some (u_id u)) (u_email u) s)"

definition count_detail :: "string \<Rightarrow> nat \<Rightarrow> (string \<times> detail) list" where
  "count_detail key n = [(key, DvJson (JInt (int n)))]"

definition send_campaign ::
  "(nat \<Rightarrow> uuid) \<Rightarrow> time \<Rightarrow> user \<Rightarrow> http_client \<Rightarrow> uuid \<Rightarrow> (string \<times> nat, console) service" where
  "send_campaign ids now admin client i = with_campaign i (\<lambda>campaign.
     if cam_status campaign = ''sent'' then pure_step (Inl (ValidationException ''Campaign has already been sent''))
     else (\<lambda>s. case add_recipients ids now i (filter u_is_active (db_users (co_db s))) 0 s of (sent, s1) \<Rightarrow>
       and_then (repo_update_campaign campaign [CfStatus ''sent'', CfRecipientCount (int sent), CfSentAt now]) (\<lambda>_.
       and_then (log_action now admin client \<lparr>aud_action = ''send_campaign'', aud_entity_type = ''email_campaign'',
           aud_entity_id = uuid_str i, aud_details = Some (count_detail ''recipient_count'' sent)\<rparr>) (\<lambda>_.
         pure_step (Inr (''Campaign sent to '' @ show_nat sent @ '' recipients'', sent)))) s1))"

record notification_request =
  nrq_title :: string
  nrq_body :: string
  nrq_notification_type :: string
  nrq_action_url :: "string option"
  nrq_action_label :: "string option"
  nrq_priority :: string
  nrq_expires_at :: "time option"
  nrq_is_dismissible :: bool

definition create_notification :: "uuid \<Rightarrow> time \<Rightarrow> uuid \<Rightarrow> notification_request \<Rightarrow> (in_app_notification, console) service" where
  "create_notification i now created_by rq = repo_create_notification \<lparr>ntf_id = i, ntf_title = nrq_title rq, ntf_body = nrq_body rq,
     ntf_notification_type = nrq_notification_type rq, ntf_action_url = nrq_action_url rq, ntf_action_label = nrq_action_label rq,
     ntf_priority = nrq_priority rq, ntf_expires_at = nrq_expires_at rq, ntf_is_dismissible = nrq_is_dismissible rq,
     ntf_created_by = Some created_by, ntf_created_at = now\<rparr>"

definition list_notifications :: "nat \<Rightarrow> nat \<Rightarrow> (in_app_notification listing, console) service" where
  "list_notifications page page_size s = (Inr (listing_of page page_size (repo_list_notifications page page_size s)), s)"

fun add_deliveries :: "(nat \<Rightarrow> uuid) \<Rightarrow> time \<Rightarrow> uuid \<Rightarrow> user list \<Rightarrow> nat \<Rightarrow> console \<Rightarrow> nat \<times> console" where
  "add_deliveries ids now notification_id [] n s = (n, s)"
| "add_deliveries ids now notification_id (u # us) n s =
     add_deliveries ids now notification_id us (n + 1) (create_delivery (ids n) now notification_id (u_id u) s)"

text \<open>The targets of the call are not used, and publishing again delivers again.\<close>

definition publish_notification ::
  "(nat \<Rightarrow> uuid) \<Rightarrow> time \<Rightarrow> user \<Rightarrow> http_client \<Rightarrow> uuid \<Rightarrow> string option \<Rightarrow> string option \<Rightarrow> (string \<times> nat, console) service" where
  "publish_notification ids now admin client i target_segment target_plan s = (case get_notification_by_id s i of
     None \<Rightarrow> (Inl (ResourceNotFoundException ''Notification not found''), s)
   | Some n \<Rightarrow> (case add_deliveries ids now i (filter u_is_active (db_users (co_db s))) 0 s of (delivered, s1) \<Rightarrow>
       and_then (log_action now admin client \<lparr>aud_action = ''publish_notification'', aud_entity_type = ''in_app_notification'',
           aud_entity_id = uuid_str i, aud_details = Some (count_detail ''delivery_count'' delivered)\<rparr>) (\<lambda>_.
         pure_step (Inr (''Notification delivered to '' @ show_nat delivered @ '' users'', delivered))) s1))"

record announcement_request =
  arq_title :: string
  arq_body_html :: string
  arq_placement :: string
  arq_target_plans :: "string list option"
  arq_target_segment :: "string option"
  arq_action_url :: "string option"
  arq_action_label :: "string option"
  arq_is_dismissible :: bool
  arq_bg_color :: "string option"
  arq_text_color :: "string option"
  arq_starts_at :: "time option"
  arq_expires_at :: "time option"

definition create_announcement :: "uuid \<Rightarrow> time \<Rightarrow> uuid \<Rightarrow> announcement_request \<Rightarrow> (announcement, console) service" where
  "create_announcement i now created_by rq = repo_create_announcement \<lparr>ann_id = i, ann_title = arq_title rq,
     ann_body_html = arq_body_html rq, ann_placement = arq_placement rq, ann_target_plans = arq_target_plans rq,
     ann_target_segment = arq_target_segment rq, ann_action_url = arq_action_url rq, ann_action_label = arq_action_label rq,
     ann_is_dismissible = arq_is_dismissible rq, ann_bg_color = arq_bg_color rq, ann_text_color = arq_text_color rq,
     ann_is_active = False, ann_starts_at = arq_starts_at rq, ann_expires_at = arq_expires_at rq,
     ann_created_by = Some created_by, ann_created_at = now\<rparr>"

definition list_announcements :: "bool option \<Rightarrow> nat \<Rightarrow> nat \<Rightarrow> (announcement listing, console) service" where
  "list_announcements is_active page page_size s =
     (Inr (listing_of page page_size (repo_list_announcements is_active page page_size s)), s)"

definition with_announcement :: "uuid \<Rightarrow> (announcement \<Rightarrow> ('a, console) service) \<Rightarrow> ('a, console) service" where
  "with_announcement i f s = (case get_announcement_by_id s i of
     None \<Rightarrow> (Inl (ResourceNotFoundException ''Announcement not found''), s) | Some a \<Rightarrow> f a s)"

definition get_announcement :: "uuid \<Rightarrow> (announcement, console) service" where
  "get_announcement i = with_announcement i (\<lambda>a. pure_step (Inr a))"

definition update_announcement :: "uuid \<Rightarrow> announcement_field list \<Rightarrow> (announcement, console) service" where
  "update_announcement i kws = with_announcement i (\<lambda>a. repo_update_announcement a kws)"

text \<open>What a signed-in user reads: the plan is that of the newest organization.\<close>

definition get_active_announcements :: "time \<Rightarrow> user \<Rightarrow> console \<Rightarrow> announcement list" where
  "get_active_announcements now user s =
     (let user_plan = (case org_list_for_user (co_db s) (u_id user) of [] \<Rightarrow> ''free'' | org # _ \<Rightarrow> o_plan org)
      in get_active_announcements_for_user now (u_id user) user_plan s)"

section \<open>Operations\<close>

record health_check_item =
  hci_component :: string
  hci_status :: string
  hci_message :: "string option"

definition database_check :: "console_env \<Rightarrow> health_check_item" where
  "database_check env = (case cv_database env of
     None \<Rightarrow> \<lparr>hci_component = ''database'', hci_status = ''ok'', hci_message = None\<rparr>
   | Some e \<Rightarrow> \<lparr>hci_component = ''database'', hci_status = ''error'', hci_message = Some e\<rparr>)"

definition redis_check :: "console_env \<Rightarrow> health_check_item" where
  "redis_check env = (if cv_redis_up env then \<lparr>hci_component = ''redis'', hci_status = ''ok'', hci_message = None\<rparr>
     else \<lparr>hci_component = ''redis'', hci_status = ''error'', hci_message = Some ''Redis ping failed''\<rparr>)"

definition health_check :: "console_env \<Rightarrow> string \<times> health_check_item list" where
  "health_check env = (if cv_database env \<noteq> None \<or> \<not> cv_redis_up env then ''degraded'' else ''ok'',
     [database_check env, redis_check env])"

text \<open>The engines are reported from a constant, not observed: name, status and last error.\<close>

definition check_engines :: "(string \<times> string \<times> string option) list" where
  "check_engines = [(''dependency_checker'', ''running'', None), (''incident_detector'', ''running'', None),
     (''evidence_collector'', ''idle'', None)]"

definition list_error_logs :: "string option \<Rightarrow> bool option \<Rightarrow> nat \<Rightarrow> nat \<Rightarrow> (app_error_log listing, console) service" where
  "list_error_logs level is_resolved page page_size s =
     (Inr (listing_of page page_size (repo_list_error_logs level is_resolved page page_size s)), s)"

definition resolve_error :: "uuid \<Rightarrow> (string, console) service" where
  "resolve_error i s = (case resolve_error_log i s of
     (None, s1) \<Rightarrow> (Inl (ResourceNotFoundException ''Error log not found''), s1)
   | (Some l, s1) \<Rightarrow> (Inr ''Error marked as resolved'', s1))"

section \<open>The audit log route\<close>

definition list_audit_logs ::
  "string option \<Rightarrow> string option \<Rightarrow> uuid option \<Rightarrow> string option \<Rightarrow> nat \<Rightarrow> nat \<Rightarrow> (admin_audit_log listing, console) service" where
  "list_audit_logs action entity_type actor search page page_size s = (Inr (listing_of page page_size
     (console_page aal_created_at page page_size (filter (\<lambda>l.
        text_filter action (aal_action l) \<and> (\<not> str_truthy entity_type \<or> aal_entity_type l = entity_type) \<and>
        (actor = None \<or> aal_admin_user_id l = actor) \<and>
        (\<not> str_truthy search \<or> (case aal_admin_email l of None \<Rightarrow> False | Some e \<Rightarrow> matches (the search) e) \<or>
          matches (the search) (aal_action l) \<or> (case aal_entity_id l of None \<Rightarrow> False | Some e \<Rightarrow> matches (the search) e)))
       (db_admin_audit (co_db s))))), s)"

end
