(* ===== verification/Control_Plane.thy ===== *)
theory Control_Plane
  imports Console_Service "HOL-Library.Product_Lexorder"
begin

text \<open>
  The operational half of \<^verbatim>\<open>modules/admin/control_plane_service.py\<close>: the items that need attention, the
  global search, and the customers with the operations on them.
\<close>

section \<open>Churn signals\<close>

record churn_signal =
  chs_org_id :: uuid
  chs_org_name :: string
  chs_plan :: string
  chs_last_activity_at :: "time option"
  chs_subscription_status :: string
  chs_risk_level :: string

text \<open>The latest of the owners' activities; NULLs are skipped.\<close>

definition last_owner_activity :: "db \<Rightarrow> uuid \<Rightarrow> time option" where
  "last_owner_activity d org_id =
     (let owners = map m_user_id (filter (\<lambda>m. m_org_id m = org_id \<and> m_role m = ''owner'') (db_members d));
          ts = concat (map (\<lambda>u. case u_last_activity_at u of None \<Rightarrow> [] | Some t \<Rightarrow> [t]) (filter (\<lambda>u. u_id u \<in> set owners) (db_users d)))
      in if ts = [] then None else Some (Max (set ts)))"

definition risk_level :: "time \<Rightarrow> time option \<Rightarrow> string" where
  "risk_level now last_act = (case last_act of None \<Rightarrow> ''high''
   | Some t \<Rightarrow> if t < now - days 30 then ''high'' else if t < now - days 14 then ''medium'' else ''low'')"

text \<open>One row for each status the subscriptions of an organization have.\<close>

definition get_churn_signals :: "time \<Rightarrow> nat \<Rightarrow> console \<Rightarrow> churn_signal list" where
  "get_churn_signals now limit s =
     (let d = co_db s;
          orgs = sort_key (\<lambda>org. - o_created_at org) (filter (\<lambda>org. o_plan org \<noteq> ''free'') (db_organizations d));
          statuses = (\<lambda>org. case remdups (map s_status (filter (\<lambda>x. s_organization_id x = o_id org) (db_subscriptions d))) of
             [] \<Rightarrow> [''unknown''] | xs \<Rightarrow> map (\<lambda>x. if x = [] then ''unknown'' else x) xs)
      in take limit (concat (map (\<lambda>org. map (\<lambda>st. \<lparr>chs_org_id = o_id org, chs_org_name = o_name org, chs_plan = o_plan org,
           chs_last_activity_at = last_owner_activity d (o_id org), chs_subscription_status = st,
           chs_risk_level = risk_level now (last_owner_activity d (o_id org))\<rparr>) (statuses org)) orgs)))"

section \<open>Attention\<close>

record attention_item =
  att_type :: string
  att_priority :: string
  att_count :: nat
  att_title :: string
  att_description :: "string option"
  att_target_resource :: "string option"
  att_target_id :: "string option"
  att_href :: "string option"

record attention_counts =
  atc_urgent_tickets :: nat
  atc_unassigned_tickets :: nat
  atc_open_incidents :: nat
  atc_high_churn :: nat
  atc_pending_payouts :: nat

definition attention_when :: "nat \<Rightarrow> string \<Rightarrow> string \<Rightarrow> string \<Rightarrow> string \<Rightarrow> string \<Rightarrow> string option \<Rightarrow> attention_item list" where
  "attention_when n ty priority title description resource href =
     (if n > 0 then [\<lparr>att_type = ty, att_priority = priority, att_count = n, att_title = show_nat n @ title,
        att_description = Some description, att_target_resource = Some resource, att_target_id = None, att_href = href\<rparr>] else [])"

definition health_items :: "health_check_item list \<Rightarrow> attention_item list" where
  "health_items checks = map (\<lambda>c. \<lparr>att_type = ''system_health'', att_priority = ''critical'', att_count = 1,
       att_title = hci_component c @ '' unhealthy'',
       att_description = Some (if str_truthy (hci_message c) then the (hci_message c) else hci_component c @ '' status='' @ hci_status c),
       att_target_resource = Some ''operations'', att_target_id = None, att_href = Some ''/v1/admin/operations/overview''\<rparr>)
     (filter (\<lambda>c. hci_status c \<noteq> ''ok'') checks)"

definition engine_items :: "(string \<times> string \<times> string option) list \<Rightarrow> attention_item list" where
  "engine_items engines = map (\<lambda>(name, status, last_error). \<lparr>att_type = ''failed_worker'', att_priority = ''critical'', att_count = 1,
       att_title = ''Worker '' @ [CHR 0x27] @ name @ [CHR 0x27] @ '' is '' @ status,
       att_description = Some (if str_truthy last_error then the last_error else ''Background worker needs attention.''),
       att_target_resource = Some ''operations'', att_target_id = None, att_href = Some ''/v1/admin/operations/overview''\<rparr>)
     (filter (\<lambda>(name, status, last_error). status \<notin> {''running'', ''idle'', ''ok''}) engines)"

definition priority_rank :: "string \<Rightarrow> int" where
  "priority_rank p = (case map_of [(''critical'', 0), (''high'', 1), (''normal'', 2), (''low'', 3)] p of None \<Rightarrow> 9 | Some r \<Rightarrow> r)"

definition unresolved_errors :: "console \<Rightarrow> nat" where
  "unresolved_errors s = length (filter (\<lambda>l. \<not> elg_is_resolved l) (co_errors s))"

definition raised_items :: "attention_counts \<Rightarrow> health_check_item list \<Rightarrow> (string \<times> string \<times> string option) list \<Rightarrow> console \<Rightarrow> attention_item list" where
  "raised_items n checks engines s =
     attention_when (atc_urgent_tickets n) ''urgent_support'' ''critical'' '' urgent support ticket(s)''
       ''Tickets marked urgent/critical/high that still need attention.'' ''support_ticket'' (Some ''/v1/admin/support/tickets?priority=urgent'') @
     attention_when (atc_unassigned_tickets n) ''unassigned_support'' ''high'' '' unassigned ticket(s)''
       ''Open tickets with no assignee.'' ''support_ticket'' (Some ''/v1/admin/support/tickets?status=open'') @
     attention_when (atc_open_incidents n) ''open_incidents'' (if atc_open_incidents n \<ge> 5 then ''high'' else ''normal'') '' open incident(s)''
       ''Customer-facing incidents currently open.'' ''incident'' None @
     attention_when (atc_high_churn n) ''churn_risk'' ''high'' '' high-value customer(s) at churn risk''
       ''Paying orgs with low recent activity.'' ''customer'' (Some ''/v1/admin/customers/churn-risk'') @
     attention_when (atc_pending_payouts n) ''pending_partner_payouts'' ''normal'' '' pending partner payout(s)''
       ''Partner payouts awaiting processing.'' ''partner_payout'' (Some ''/v1/admin/partners/payouts'') @
     health_items checks @ engine_items engines @
     attention_when (unresolved_errors s) ''unresolved_errors'' (if unresolved_errors s \<ge> 10 then ''high'' else ''normal'')
       '' unresolved error log(s)'' ''Application errors awaiting triage.'' ''error_log'' (Some ''/v1/admin/operations/errors'')"

definition attention_key :: "attention_item \<Rightarrow> int \<times> int" where
  "attention_key i = (priority_rank (att_priority i), - int (att_count i))"

definition collect_attention_items ::
  "attention_counts \<Rightarrow> health_check_item list \<Rightarrow> (string \<times> string \<times> string option) list \<Rightarrow> console \<Rightarrow> attention_item list" where
  "collect_attention_items n checks engines s = sort_key attention_key (raised_items n checks engines s)"

definition needs_attention :: "feedback_ticket \<Rightarrow> bool" where
  "needs_attention t = (fbt_status t \<in> {''open'', ''in_progress'', ''pending''})"

definition urgent_count :: "console \<Rightarrow> nat" where
  "urgent_count s = length (filter (\<lambda>t. needs_attention t \<and> fbt_priority t \<in> {''urgent'', ''critical'', ''high''}) (co_tickets s))"

definition unassigned_count :: "console \<Rightarrow> nat" where
  "unassigned_count s = length (filter (\<lambda>t. needs_attention t \<and> fbt_assigned_to t = None) (co_tickets s))"

definition pending_payouts :: "console \<Rightarrow> nat" where
  "pending_payouts s = length (filter (\<lambda>p. payout_status_value (po_status p) \<in> {''pending'', ''processing'', ''requested''}) (db_payouts (co_db s)))"

record attention_response =
  atr_items :: "attention_item list"
  atr_critical_count :: nat
  atr_high_count :: nat
  atr_normal_count :: nat

definition with_priority :: "string \<Rightarrow> attention_item list \<Rightarrow> nat" where
  "with_priority p items = length (filter (\<lambda>i. att_priority i = p) items)"

definition get_attention :: "console_env \<Rightarrow> time \<Rightarrow> console \<Rightarrow> attention_response" where
  "get_attention env now s =
     (let items = collect_attention_items
           \<lparr>atc_urgent_tickets = urgent_count s, atc_unassigned_tickets = unassigned_count s,
            atc_open_incidents = sme_total_incidents_open (get_system_metrics s),
            atc_high_churn = length (filter (\<lambda>c. chs_risk_level c = ''high'') (get_churn_signals now 50 s)),
            atc_pending_payouts = pending_payouts s\<rparr> (snd (health_check env)) check_engines s
      in \<lparr>atr_items = items, atr_critical_count = with_priority ''critical'' items, atr_high_count = with_priority ''high'' items,
          atr_normal_count = with_priority ''normal'' items\<rparr>)"

section \<open>Global search\<close>

record search_hit =
  hit_resource_type :: string
  hit_id :: string
  hit_title :: string
  hit_subtitle :: "string option"
  hit_href :: "string option"
  hit_meta :: "(string \<times> json) list"

record search_response =
  sre_query :: string
  sre_customers :: "search_hit list"
  sre_organizations :: "search_hit list"
  sre_tickets :: "search_hit list"
  sre_partners :: "search_hit list"
  sre_campaigns :: "search_hit list"
  sre_total :: nat

definition customer_hit :: "user \<Rightarrow> search_hit" where
  "customer_hit u = \<lparr>hit_resource_type = ''customer'', hit_id = uuid_str (u_id u),
     hit_title = (if u_full_name u = [] then u_email u else u_full_name u), hit_subtitle = Some (u_email u),
     hit_href = Some (''/v1/admin/customers/'' @ uuid_str (u_id u)), hit_meta = [(''is_active'', JBool (u_is_active u))]\<rparr>"

definition organization_hit :: "organization \<Rightarrow> search_hit" where
  "organization_hit org = \<lparr>hit_resource_type = ''organization'', hit_id = uuid_str (o_id org), hit_title = o_name org,
     hit_subtitle = Some (o_plan org), hit_href = Some (''/v1/admin/customers?search='' @ o_name org), hit_meta = [(''plan'', JStr (o_plan org))]\<rparr>"

text \<open>The middle dot of the subtitle is written as a hyphen.\<close>

definition ticket_hit :: "feedback_ticket \<Rightarrow> search_hit" where
  "ticket_hit t = \<lparr>hit_resource_type = ''ticket'', hit_id = uuid_str (fbt_id t),
     hit_title = fbt_ticket_number t @ '': '' @ fbt_subject t, hit_subtitle = Some (fbt_status t @ '' - '' @ fbt_priority t),
     hit_href = Some (''/v1/admin/support/tickets/'' @ uuid_str (fbt_id t)),
     hit_meta = [(''status'', JStr (fbt_status t)), (''priority'', JStr (fbt_priority t))]\<rparr>"

definition partner_email :: "db \<Rightarrow> partner_profile \<Rightarrow> string" where
  "partner_email d p = (case user_get_by_id d (pp_user_id p) of None \<Rightarrow> [] | Some u \<Rightarrow> u_email u)"

definition partner_hit :: "db \<Rightarrow> partner_profile \<Rightarrow> search_hit" where
  "partner_hit d p = \<lparr>hit_resource_type = ''partner'', hit_id = uuid_str (pp_id p),
     hit_title = (if partner_email d p = [] then uuid_str (pp_id p) else partner_email d p),
     hit_subtitle = Some (partner_status_value (pp_status p)), hit_href = Some (''/v1/admin/partners/'' @ uuid_str (pp_id p)),
     hit_meta = [(''status'', JStr (partner_status_value (pp_status p)))]\<rparr>"

fun partner_hits :: "db \<Rightarrow> string \<Rightarrow> nat \<Rightarrow> partner_profile list \<Rightarrow> search_hit list" where
  "partner_hits d q limit [] = []"
| "partner_hits d q limit (p # ps) =
     (if limit = 0 then []
      else if contains_str (lower (partner_email d p)) (lower q) \<or> contains_str (lower (uuid_str (pp_id p))) (lower q)
      then partner_hit d p # partner_hits d q (limit - 1) ps else partner_hits d q limit ps)"

definition campaign_hit :: "email_campaign \<Rightarrow> search_hit" where
  "campaign_hit c = \<lparr>hit_resource_type = ''campaign'', hit_id = uuid_str (cam_id c), hit_title = cam_campaign_name c,
     hit_subtitle = Some (cam_status c), hit_href = Some (''/v1/admin/communications/campaigns/'' @ uuid_str (cam_id c)),
     hit_meta = [(''status'', JStr (cam_status c))]\<rparr>"

definition search :: "string \<Rightarrow> nat \<Rightarrow> console \<Rightarrow> search_response" where
  "search query limit s =
     (let q = strip query; d = co_db s
      in if length q < 2 then \<lparr>sre_query = q, sre_customers = [], sre_organizations = [], sre_tickets = [], sre_partners = [],
           sre_campaigns = [], sre_total = 0\<rparr>
         else (let customers = map customer_hit (page_of (\<lambda>u. - u_created_at u) 0 limit (filter (search_match (Some q)) (db_users d)));
               organizations = map organization_hit (page_of (\<lambda>x. - o_created_at x) 0 limit (filter (\<lambda>x. matches q (o_name x)) (db_organizations d)));
               tickets = map ticket_hit (page_of (\<lambda>t. - fbt_created_at t) 0 limit
                 (filter (\<lambda>t. matches q (fbt_subject t) \<or> matches q (fbt_email t) \<or> matches q (fbt_ticket_number t)) (co_tickets s)));
               partners = partner_hits d q limit (take 50 (db_profiles d));
               campaigns = map campaign_hit (page_of (\<lambda>c. - cam_created_at c) 0 limit
                 (filter (\<lambda>c. matches q (cam_campaign_name c) \<or> matches q (cam_subject c)) (co_campaigns s)))
           in \<lparr>sre_query = q, sre_customers = customers, sre_organizations = organizations, sre_tickets = tickets, sre_partners = partners,
               sre_campaigns = campaigns,
               sre_total = length customers + length organizations + length tickets + length partners + length campaigns\<rparr>))"

section \<open>Customers\<close>

text \<open>\<^verbatim>\<open>plan\<close> is absent for a customer without an organization.\<close>

definition derive_health :: "time \<Rightarrow> bool \<Rightarrow> time option \<Rightarrow> string option \<Rightarrow> string" where
  "derive_health now is_active last_activity plan =
     (if \<not> is_active then ''inactive''
      else case last_activity of None \<Rightarrow> ''unknown''
      | Some t \<Rightarrow> let age = now - t in
          if age > days 30 \<and> str_truthy plan \<and> plan \<noteq> Some ''free'' then ''at_risk''
          else if age > days 60 then ''churning'' else ''healthy'')"

definition plan_mrr :: "string option \<Rightarrow> int" where
  "plan_mrr plan = (if str_truthy plan \<and> plan \<noteq> Some ''free'' then get_plan_price_usd (the plan) else 0)"

record customer_query =
  cq_search :: "string option"
  cq_status :: "string option"
  cq_plan :: "string option"
  cq_health :: "string option"
  cq_created_from :: "time option"
  cq_created_to :: "time option"
  cq_page :: nat
  cq_page_size :: nat
  cq_sort :: string

definition status_flag :: "string option \<Rightarrow> bool option" where
  "status_flag status = (if status = Some ''active'' then Some True
     else if status = Some ''inactive'' \<or> status = Some ''deactivated'' then Some False else None)"

definition customer_selected :: "customer_query \<Rightarrow> user \<Rightarrow> bool" where
  "customer_selected q u = (search_match (cq_search q) u \<and>
     (status_flag (cq_status q) = None \<or> status_flag (cq_status q) = Some (u_is_active u)) \<and>
     (case cq_created_from q of None \<Rightarrow> True | Some t \<Rightarrow> t \<le> u_created_at u) \<and>
     (case cq_created_to q of None \<Rightarrow> True | Some t \<Rightarrow> u_created_at u \<le> t))"

text \<open>\<^verbatim>\<open>coll\<close> is the collation of the name column.\<close>

definition ordered_customers :: "(string \<Rightarrow> 'k::linorder) \<Rightarrow> string \<Rightarrow> user list \<Rightarrow> user list" where
  "ordered_customers coll order us = (if order = ''created_at_asc'' then sort_key u_created_at us
     else if order = ''name'' then sort_key (coll \<circ> u_full_name) us else sort_key (\<lambda>u. - u_created_at u) us)"

record customer_item =
  cui_user :: user
  cui_plan :: "string option"
  cui_org_id :: "uuid option"
  cui_org_name :: "string option"
  cui_health :: string
  cui_mrr :: int

definition customer_item_of :: "time \<Rightarrow> console \<Rightarrow> user \<Rightarrow> customer_item" where
  "customer_item_of now s u =
     (let primary = (case get_user_orgs s (u_id u) of [] \<Rightarrow> None | x # _ \<Rightarrow> Some x);
          plan = map_option uo_plan primary
      in \<lparr>cui_user = u, cui_plan = plan, cui_org_id = map_option uo_org_id primary, cui_org_name = map_option uo_org_name primary,
          cui_health = derive_health now (u_is_active u) (u_last_activity_at u) plan, cui_mrr = plan_mrr plan\<rparr>)"

text \<open>The filters on plan and health apply to the rows of the page, after the count.\<close>

definition list_customers :: "(string \<Rightarrow> 'k::linorder) \<Rightarrow> time \<Rightarrow> customer_query \<Rightarrow> console \<Rightarrow> customer_item listing" where
  "list_customers coll now q s =
     (let rows = filter (customer_selected q) (db_users (co_db s));
          page = take (cq_page_size q) (drop ((cq_page q - 1) * cq_page_size q) (ordered_customers coll (cq_sort q) rows));
          items = filter (\<lambda>i. (\<not> str_truthy (cq_plan q) \<or> cui_plan i = cq_plan q) \<and>
            (\<not> str_truthy (cq_health q) \<or> Some (cui_health i) = cq_health q)) (map (customer_item_of now s) page)
      in listing_of (cq_page q) (cq_page_size q) (items, length rows))"

record org_snapshot =
  osn_org_id :: uuid
  osn_org_name :: string
  osn_role :: string
  osn_plan :: string
  osn_mrr :: int
  osn_billing_status :: "string option"
  osn_member_count :: nat
  osn_dependency_count :: nat
  osn_open_incidents :: nat
  osn_open_tickets :: nat

text \<open>The newest subscription is the one inserted last.\<close>

definition newest_subscription :: "db \<Rightarrow> uuid \<Rightarrow> subscription option" where
  "newest_subscription d org_id = (case filter (\<lambda>x. s_organization_id x = org_id) (db_subscriptions d) of
     [] \<Rightarrow> None | xs \<Rightarrow> Some (last xs))"

definition org_incidents :: "console \<Rightarrow> uuid \<Rightarrow> incident list" where
  "org_incidents s org_id = filter (\<lambda>i. in_org_id i = org_id) (mo_incidents (co_monitor s))"

definition org_snapshot_of :: "console \<Rightarrow> uuid \<Rightarrow> organization \<times> string \<Rightarrow> org_snapshot" where
  "org_snapshot_of s customer_id x = (case x of (org, role) \<Rightarrow>
     \<lparr>osn_org_id = o_id org, osn_org_name = o_name org, osn_role = role, osn_plan = o_plan org, osn_mrr = plan_mrr (Some (o_plan org)),
      osn_billing_status = map_option s_status (newest_subscription (co_db s) (o_id org)),
      osn_member_count = length (filter (\<lambda>m. m_org_id m = o_id org) (db_members (co_db s))),
      osn_dependency_count = length (filter (\<lambda>p. d_org_id p = o_id org) (mo_dependencies (co_monitor s))),
      osn_open_incidents = length (filter (\<lambda>i. in_status i = IncOpen) (org_incidents s (o_id org))),
      osn_open_tickets = length (filter (\<lambda>t. fbt_user_id t = Some customer_id \<and> needs_attention t) (co_tickets s))\<rparr>)"

text \<open>
  The primary organization is the last one owned, else the first; the subscription shown is that of
  the last primary organization that had one.
\<close>

fun primary_loop :: "console \<Rightarrow> uuid \<Rightarrow> (organization \<times> string) list \<Rightarrow> org_snapshot option \<times> subscription option \<Rightarrow> org_snapshot option \<times> subscription option" where
  "primary_loop s customer_id [] acc = acc"
| "primary_loop s customer_id (x # xs) (primary, sub) = primary_loop s customer_id xs
     (if primary = None \<or> snd x = ''owner''
      then (Some (org_snapshot_of s customer_id x),
            case newest_subscription (co_db s) (o_id (fst x)) of None \<Rightarrow> sub | Some y \<Rightarrow> Some y)
      else (primary, sub))"

record customer_detail =
  cde_user :: user
  cde_health :: string
  cde_organizations :: "org_snapshot list"
  cde_primary_org :: "org_snapshot option"
  cde_plan :: "string option"
  cde_mrr :: int
  cde_billing_status :: "string option"
  cde_subscription :: "subscription option"
  cde_dependencies :: nat
  cde_incidents :: nat
  cde_open_incidents :: nat
  cde_support_tickets :: nat
  cde_open_support_tickets :: nat
  cde_recent_activity :: "user_activity_log list"
  cde_recent_tickets :: "feedback_ticket list"

definition customer_detail_of :: "time \<Rightarrow> console \<Rightarrow> user \<Rightarrow> customer_detail" where
  "customer_detail_of now s user =
     (let i = u_id user;
          orgs = member_orgs (co_db s) i;
          snaps = map (org_snapshot_of s i) orgs;
          (primary, sub) = primary_loop s i orgs (None, None);
          (tickets, ticket_total) = repo_list_tickets (any_ticket\<lparr>tf_search := Some (u_email user)\<rparr>) 1 5 s;
          user_tickets = page_of (\<lambda>t. - fbt_created_at t) 0 5 (filter (\<lambda>t. fbt_user_id t = Some i) (co_tickets s));
          source = (if user_tickets \<noteq> [] then user_tickets else tickets);
          plan = map_option osn_plan primary
      in \<lparr>cde_user = user, cde_health = derive_health now (u_is_active user) (u_last_activity_at user) plan,
          cde_organizations = snaps, cde_primary_org = primary, cde_plan = plan, cde_mrr = sum_list (map osn_mrr snaps),
          cde_billing_status = (case primary of None \<Rightarrow> None | Some x \<Rightarrow> osn_billing_status x), cde_subscription = sub,
          cde_dependencies = sum_list (map osn_dependency_count snaps),
          cde_incidents = sum_list (map (\<lambda>x. length (org_incidents s (osn_org_id x))) snaps),
          cde_open_incidents = sum_list (map osn_open_incidents snaps),
          cde_support_tickets = (if user_tickets = [] then ticket_total else length user_tickets),
          cde_open_support_tickets = length (filter needs_attention source),
          cde_recent_activity = fst (list_activity i 1 10 s), cde_recent_tickets = source\<rparr>)"

definition get_customer_detail :: "time \<Rightarrow> uuid \<Rightarrow> (customer_detail, console) service" where
  "get_customer_detail now customer_id s = (case user_get_by_id (co_db s) customer_id of
     None \<Rightarrow> (Inl (ResourceNotFoundException ''Customer not found''), s)
   | Some user \<Rightarrow> (Inr (customer_detail_of now s user), s))"

record customer_update =
  cup_full_name :: "string option"
  cup_admin_note :: "string option"
  cup_source :: "string option"

definition customer_kwargs :: "customer_update \<Rightarrow> admin_field list" where
  "customer_kwargs rq = given AfFullName (cup_full_name rq) @ given AfAdminNote (cup_admin_note rq) @ given AfSource (cup_source rq)"

definition update_customer :: "time \<Rightarrow> user \<Rightarrow> http_client \<Rightarrow> uuid \<Rightarrow> customer_update \<Rightarrow> (customer_detail, console) service" where
  "update_customer now admin client customer_id rq =
     and_then (update_user now admin client customer_id (customer_kwargs rq)) (\<lambda>_. get_customer_detail now customer_id)"

record customer_impersonation =
  cim_token :: string
  cim_user_id :: uuid
  cim_email :: string
  cim_expires_in_seconds :: int
  cim_impersonator_id :: uuid
  cim_reason :: string

definition customer_claims :: "uuid \<Rightarrow> uuid \<Rightarrow> string \<Rightarrow> (string \<times> json) list" where
  "customer_claims admin_id customer_id reason = impersonation_claims admin_id customer_id @
     [(''reason'', JStr (take 200 (strip reason))), (''refresh'', JBool False)]"

definition reason_detail :: "string \<Rightarrow> (string \<times> detail) list" where
  "reason_detail reason = [(''reason'', DvJson (JStr reason))]"

definition impersonate_customer ::
  "console_env \<Rightarrow> time \<Rightarrow> string \<Rightarrow> user \<Rightarrow> http_client \<Rightarrow> uuid \<Rightarrow> string \<Rightarrow> (customer_impersonation, console) service" where
  "impersonate_customer env now jti admin client customer_id reason s = (case user_get_by_id (co_db s) customer_id of
     None \<Rightarrow> (Inl (ResourceNotFoundException ''Customer not found''), s)
   | Some user \<Rightarrow>
       if \<not> u_is_active user then (Inl (ValidationException ''Cannot impersonate an inactive customer''), s)
       else if length (strip reason) < 3 then (Inl (ValidationException ''Impersonation reason is required''), s)
       else
         and_then (pure_step (expiring_token (cv_security env) now (create_access_token (cv_security env) now jti (uuid_str customer_id)
             (customer_claims (u_id admin) customer_id reason)))) (\<lambda>token.
         and_then (log_action now admin client \<lparr>aud_action = ''impersonate_customer'', aud_entity_type = ''customer'',
             aud_entity_id = uuid_str customer_id, aud_details = Some (reason_detail (strip reason))\<rparr>) (\<lambda>_ s1.
           (Inr \<lparr>cim_token = token, cim_user_id = customer_id, cim_email = u_email user,
              cim_expires_in_seconds = IMPERSONATION_TOKEN_TTL_MINUTES * 60, cim_impersonator_id = u_id admin, cim_reason = strip reason\<rparr>, s1))) s)"

text \<open>Without an organization in the request, the first one owned is taken, else the first.\<close>

definition plan_target :: "console \<Rightarrow> uuid \<Rightarrow> uuid option \<Rightarrow> app_error + uuid" where
  "plan_target s customer_id org_id = (case org_id of Some i \<Rightarrow> Inr i
   | None \<Rightarrow> (case get_user_orgs s customer_id of
       [] \<Rightarrow> Inl (ResourceNotFoundException ''Customer has no organization to apply plan to'')
     | x # xs \<Rightarrow> Inr (uo_org_id (case find (\<lambda>y. uo_role y = ''owner'') (x # xs) of None \<Rightarrow> x | Some y \<Rightarrow> y))))"

record plan_reply =
  plr_org_id :: uuid
  plr_from_plan :: string
  plr_to_plan :: string

text \<open>The membership may be a deleted one.\<close>

definition change_customer_plan ::
  "time \<Rightarrow> user \<Rightarrow> http_client \<Rightarrow> uuid \<Rightarrow> string \<Rightarrow> string option \<Rightarrow> uuid option \<Rightarrow> (plan_reply, console) service" where
  "change_customer_plan now admin client customer_id plan reason org_id s = (case plan_target s customer_id org_id of
     Inl e \<Rightarrow> (Inl e, s)
   | Inr i \<Rightarrow> (case org_get_by_id (co_db s) i of
       None \<Rightarrow> (Inl (ResourceNotFoundException ''Organization not found''), s)
     | Some org \<Rightarrow> (case get_member (co_db s) i customer_id True of
         Inl e \<Rightarrow> (Inl e, s)
       | Inr None \<Rightarrow> (Inl (ValidationException ''Customer is not a member of the target organization''), s)
       | Inr (Some m) \<Rightarrow>
           and_then (set_plan now admin org plan reason (''Admin plan change by '' @ u_email admin @ '' for customer '' @ uuid_str customer_id)) (\<lambda>_.
           and_then (log_action now admin client \<lparr>aud_action = ''override_plan'', aud_entity_type = ''organization'', aud_entity_id = uuid_str i,
               aud_details = Some (plan_details (o_plan org) plan reason @ [(''customer_id'', DvJson (JStr (uuid_str customer_id)))])\<rparr>) (\<lambda>_.
             pure_step (Inr \<lparr>plr_org_id = i, plr_from_plan = o_plan org, plr_to_plan = plan\<rparr>))) s)))"

definition email_customer ::
  "console_env \<Rightarrow> time \<Rightarrow> user \<Rightarrow> http_client \<Rightarrow> uuid \<Rightarrow> string \<Rightarrow> string \<Rightarrow> string option \<Rightarrow> (bool, console) service" where
  "email_customer env now admin client customer_id subject body html_body s = (case user_get_by_id (co_db s) customer_id of
     None \<Rightarrow> (Inl (ResourceNotFoundException ''Customer not found''), s)
   | Some user \<Rightarrow> (case hand_mail env (u_email user) subject body html_body s of (success, s1) \<Rightarrow>
       and_then (log_action now admin client \<lparr>aud_action = ''send_email_to_customer'', aud_entity_type = ''customer'',
           aud_entity_id = uuid_str customer_id, aud_details = Some (mail_details subject success)\<rparr>) (\<lambda>_. pure_step (Inr success)) s1))"

definition deactivation_note :: "console_env \<Rightarrow> time \<Rightarrow> string option \<Rightarrow> string \<Rightarrow> string" where
  "deactivation_note env now note reason =
     (let stamp = ''[deactivated '' @ cv_iso env now @ ''] '' @ reason
      in if str_truthy note then strip (the note @ nl @ stamp) else stamp)"

definition deactivate_customer ::
  "console_env \<Rightarrow> time \<Rightarrow> user \<Rightarrow> http_client \<Rightarrow> uuid \<Rightarrow> string \<Rightarrow> (customer_detail, console) service" where
  "deactivate_customer env now admin client customer_id reason s = (case user_get_by_id (co_db s) customer_id of
     None \<Rightarrow> (Inl (ResourceNotFoundException ''Customer not found''), s)
   | Some user \<Rightarrow>
       if customer_id = u_id admin then (Inl (ValidationException ''Cannot deactivate your own admin account''), s)
       else
         and_then (on_console_db (admin_update user [AfIsActive False])) (\<lambda>user1.
         and_then (on_console_db (admin_update user1 [AfAdminNote (deactivation_note env now (u_admin_note user1) reason)])) (\<lambda>_.
         and_then (log_action now admin client \<lparr>aud_action = ''deactivate_customer'', aud_entity_type = ''customer'',
             aud_entity_id = uuid_str customer_id, aud_details = Some (reason_detail reason)\<rparr>) (\<lambda>_.
           get_customer_detail now customer_id))) s)"

definition get_customer_activity :: "uuid \<Rightarrow> nat \<Rightarrow> nat \<Rightarrow> console \<Rightarrow> user_activity_log listing" where
  "get_customer_activity customer_id page page_size s = listing_of page page_size (list_activity customer_id page page_size s)"

record signup =
  sgn_user :: user
  sgn_org_name :: "string option"
  sgn_plan :: "string option"

text \<open>One row for each organization a user owns, or one without organization.\<close>

definition signup_rows :: "db \<Rightarrow> user \<Rightarrow> signup list" where
  "signup_rows d u = (case filter (\<lambda>(org, role). role = ''owner'') (member_orgs d (u_id u)) of
     [] \<Rightarrow> [\<lparr>sgn_user = u, sgn_org_name = None, sgn_plan = None\<rparr>]
   | xs \<Rightarrow> map (\<lambda>(org, role). \<lparr>sgn_user = u, sgn_org_name = Some (o_name org), sgn_plan = Some (o_plan org)\<rparr>) xs)"

definition get_recent_signups :: "nat \<Rightarrow> console \<Rightarrow> signup list" where
  "get_recent_signups limit s = take limit (concat (map (signup_rows (co_db s)) (sort_key (\<lambda>u. - u_created_at u) (db_users (co_db s)))))"

definition get_churn_risk :: "time \<Rightarrow> nat \<Rightarrow> console \<Rightarrow> (churn_signal \<times> string) list" where
  "get_churn_risk now limit s = map (\<lambda>c. (c, if chs_risk_level c = ''high'' then ''at_risk'' else ''healthy'')) (get_churn_signals now limit s)"

end
