(* ===== verification/Console_Analytics.thy ===== *)
theory Console_Analytics
  imports Control_Plane Attribution
begin

text \<open>
  The aggregates of the console: the business and analytics repositories of
  \<^verbatim>\<open>modules/admin/repository.py\<close>, and the revenue, growth, product, support, communication and
  operation summaries with the overview of \<^verbatim>\<open>modules/admin/control_plane_service.py\<close>.  Rates are exact
  reals with Python's rounding; fields the code always fills with zero are left out.
\<close>

section \<open>Business\<close>

definition active_subscriptions :: "console \<Rightarrow> subscription list" where
  "active_subscriptions s = filter (\<lambda>x. s_status x = ''active'') (db_subscriptions (co_db s))"

text \<open>The price of each plan times its number of active subscriptions.\<close>

definition mrr :: "console \<Rightarrow> int" where
  "mrr s = sum_list (map (\<lambda>(plan, cnt). get_plan_price_usd plan * int cnt) (count_by s_plan (active_subscriptions s)))"

record business_summary =
  bsm_total_users :: nat
  bsm_total_organizations :: nat
  bsm_mrr :: int
  bsm_active_subscriptions :: nat
  bsm_new_signups_7d :: nat

definition users_since :: "time \<Rightarrow> console \<Rightarrow> nat" where
  "users_since t s = length (filter (\<lambda>u. t \<le> u_created_at u) (db_users (co_db s)))"

definition get_business_summary :: "time \<Rightarrow> console \<Rightarrow> business_summary" where
  "get_business_summary now s = \<lparr>bsm_total_users = length (db_users (co_db s)), bsm_total_organizations = length (db_organizations (co_db s)),
     bsm_mrr = mrr s, bsm_active_subscriptions = length (active_subscriptions s), bsm_new_signups_7d = users_since (now - days 7) s\<rparr>"

text \<open>\<^verbatim>\<open>strftime("%Y-%m-%d")\<close>.\<close>

definition date_text :: "time \<Rightarrow> string" where
  "date_text t = (case civil_year_month (epoch_day t) of (y, m) \<Rightarrow>
     zero_pad 4 y @ ''-'' @ zero_pad 2 m @ ''-'' @ zero_pad 2 (civil_day (epoch_day t)))"

text \<open>Today's figure for every day.\<close>

definition get_mrr_timeseries :: "time \<Rightarrow> nat \<Rightarrow> console \<Rightarrow> (string \<times> int) list" where
  "get_mrr_timeseries now n s = map (\<lambda>i. (date_text (now - days (int n - 1 - int i)), mrr s)) [0..<n]"

section \<open>Analytics\<close>

definition monitoring_orgs :: "console \<Rightarrow> nat" where
  "monitoring_orgs s = length (remdups (map d_org_id (mo_dependencies (co_monitor s))))"

definition checking_orgs :: "console \<Rightarrow> nat" where
  "checking_orgs s = length (remdups (map cr_org_id (mo_checks (co_monitor s))))"

definition repo_growth_funnel :: "console \<Rightarrow> (string \<times> nat) list" where
  "repo_growth_funnel s = [(''signups'', length (db_users (co_db s))), (''organizations'', monitoring_orgs s),
     (''dependencies_monitored'', length (mo_dependencies (co_monitor s)))]"

definition ratio :: "nat \<Rightarrow> nat \<Rightarrow> real" where
  "ratio n whole = real n / real (max whole 1)"

record feature_adoption =
  fad_feature :: string
  fad_total_users :: nat
  fad_active_users :: nat
  fad_adoption_pct :: real

definition adoption :: "string \<Rightarrow> nat \<Rightarrow> nat \<Rightarrow> feature_adoption" where
  "adoption feature whole active = \<lparr>fad_feature = feature, fad_total_users = whole, fad_active_users = active,
     fad_adoption_pct = py_round 1 (ratio active whole * 100)\<rparr>"

text \<open>Organizations are set against users.\<close>

definition get_feature_adoption :: "console \<Rightarrow> feature_adoption list" where
  "get_feature_adoption s = (let whole = length (db_users (co_db s)) in if whole = 0 then []
     else [adoption ''dependencies'' whole (monitoring_orgs s), adoption ''monitoring'' whole (checking_orgs s)])"

record vendor_coverage =
  vco_vendor_name :: string
  vco_total_orgs :: nat
  vco_monitoring_orgs :: nat
  vco_coverage_pct :: real

definition get_vendor_coverage :: "console \<Rightarrow> vendor_coverage list" where
  "get_vendor_coverage s =
     (let deps = mo_dependencies (co_monitor s); whole = length (db_organizations (co_db s));
          rows = map (\<lambda>n. (n, length (remdups (map d_org_id (filter (\<lambda>p. d_name p = n) deps))))) (remdups (map d_name deps))
      in if whole = 0 then []
         else map (\<lambda>(n, cnt). \<lparr>vco_vendor_name = n, vco_total_orgs = whole, vco_monitoring_orgs = cnt,
           vco_coverage_pct = py_round 1 (real cnt / real whole * 100)\<rparr>) (page_of (\<lambda>(n, cnt). - int cnt) 0 20 rows))"

definition get_time_to_value :: "(string \<times> nat) list" where
  "get_time_to_value = [(''same_day'', 0), (''1_3_days'', 0), (''4_7_days'', 0), (''8_30_days'', 0), (''30_plus_days'', 0)]"

record engagement =
  eng_dau :: nat
  eng_wau :: nat
  eng_mau :: nat
  eng_dau_mau_ratio :: real

definition day_start :: "time \<Rightarrow> time" where
  "day_start now = epoch_day now * days 1"

definition active_since :: "time \<Rightarrow> console \<Rightarrow> nat" where
  "active_since t s = length (filter (\<lambda>u. case u_last_activity_at u of None \<Rightarrow> False | Some a \<Rightarrow> t \<le> a) (db_users (co_db s)))"

definition get_engagement :: "time \<Rightarrow> console \<Rightarrow> engagement" where
  "get_engagement now s =
     (let dau = active_since (day_start now) s; mau = active_since (now - days 30) s
      in \<lparr>eng_dau = dau, eng_wau = active_since (now - days 7) s, eng_mau = mau, eng_dau_mau_ratio = py_round 1 (ratio dau mau * 100)\<rparr>)"

section \<open>Revenue\<close>

record revenue_summary =
  rvs_mrr :: int
  rvs_arr_estimate :: int
  rvs_paying_customers :: nat
  rvs_arpu :: real

definition get_revenue_summary :: "time \<Rightarrow> console \<Rightarrow> revenue_summary" where
  "get_revenue_summary now s =
     (let b = get_business_summary now s
      in \<lparr>rvs_mrr = bsm_mrr b, rvs_arr_estimate = bsm_mrr b * 12, rvs_paying_customers = bsm_active_subscriptions b,
          rvs_arpu = py_round 2 (real_of_int (bsm_mrr b) / real (max (bsm_active_subscriptions b) 1))\<rparr>)"

definition PERIOD_DAYS :: "(string \<times> nat) list" where
  "PERIOD_DAYS = [(''7d'', 7), (''30d'', 30), (''90d'', 90), (''365d'', 365)]"

definition period_days :: "string \<Rightarrow> nat" where
  "period_days period = (case map_of PERIOD_DAYS period of None \<Rightarrow> 30 | Some n \<Rightarrow> n)"

definition sampled :: "nat \<Rightarrow> 'p list \<Rightarrow> 'p list" where
  "sampled k raw = map snd (filter (\<lambda>(i, p). i mod k = 0 \<or> i = length raw - 1) (enumerate 0 raw))"

definition get_revenue_timeseries :: "time \<Rightarrow> string \<Rightarrow> string \<Rightarrow> console \<Rightarrow> (string \<times> int) list" where
  "get_revenue_timeseries now period granularity s =
     (let raw = get_mrr_timeseries now (period_days period) s
      in if granularity = ''week'' then sampled 7 raw else if granularity = ''month'' then sampled 30 raw else raw)"

definition churn_item :: "churn_signal \<Rightarrow> attention_item" where
  "churn_item c = \<lparr>att_type = ''high_value_churn'', att_priority = (if chs_risk_level c = ''high'' then ''high'' else ''normal''), att_count = 1,
     att_title = chs_org_name c @ '' at churn risk'', att_description = Some (''Plan='' @ chs_plan c @ '' risk='' @ chs_risk_level c),
     att_target_resource = Some ''organization'', att_target_id = Some (uuid_str (chs_org_id c)), att_href = Some ''/v1/admin/customers/churn-risk''\<rparr>"

definition get_revenue_attention :: "time \<Rightarrow> console \<Rightarrow> attention_item list" where
  "get_revenue_attention now s = map churn_item (filter (\<lambda>c. chs_risk_level c \<in> {''high'', ''medium''}) (get_churn_signals now 20 s))"

section \<open>Growth and product\<close>

record growth_overview =
  gro_signups :: nat
  gro_activated_users :: nat
  gro_activated_organizations :: nat
  gro_paying_customers :: nat
  gro_conversion_rate :: real
  gro_engagement :: engagement

definition stage_count :: "string \<Rightarrow> (string \<times> nat) list \<Rightarrow> nat" where
  "stage_count stage funnel = (case map_of funnel stage of None \<Rightarrow> 0 | Some n \<Rightarrow> n)"

definition get_growth_overview :: "time \<Rightarrow> string \<Rightarrow> console \<Rightarrow> growth_overview" where
  "get_growth_overview now period s =
     (let paying = length (active_subscriptions s); total_orgs = length (db_organizations (co_db s))
      in \<lparr>gro_signups = users_since (now - days (int (period_days period))) s,
          gro_activated_users = stage_count ''organizations'' (repo_growth_funnel s),
          gro_activated_organizations = monitoring_orgs s, gro_paying_customers = paying,
          gro_conversion_rate = py_round 2 (ratio paying total_orgs * 100), gro_engagement = get_engagement now s\<rparr>)"

fun stage_loop :: "nat option \<Rightarrow> (string \<times> nat) list \<Rightarrow> (string \<times> nat \<times> real option) list" where
  "stage_loop prev [] = []"
| "stage_loop prev ((name, count) # rest) =
     (name, count, case prev of None \<Rightarrow> None | Some p \<Rightarrow> if p > 0 then Some (py_round 4 (real count / real p)) else None)
     # stage_loop (Some count) rest"

definition funnel_stages :: "console \<Rightarrow> (string \<times> nat \<times> real option) list" where
  "funnel_stages s = stage_loop None [(''signup'', length (db_users (co_db s))),
     (''verified'', length (filter u_is_email_verified (db_users (co_db s)))), (''organization'', length (db_organizations (co_db s))),
     (''dependency_added'', monitoring_orgs s), (''monitoring_started'', checking_orgs s), (''activated'', checking_orgs s),
     (''paid'', length (active_subscriptions s))]"

definition checks_since :: "time \<Rightarrow> console \<Rightarrow> nat" where
  "checks_since t s = length (filter (\<lambda>c. t \<le> cr_executed_at c) (mo_checks (co_monitor s)))"

record product_overview =
  pro_active_users :: nat
  pro_active_organizations :: nat
  pro_active_monitors :: nat
  pro_checks_today :: nat
  pro_open_incidents :: nat
  pro_vendor_coverage_top :: "vendor_coverage list"
  pro_feature_adoption :: "feature_adoption list"

definition get_product_overview :: "time \<Rightarrow> console \<Rightarrow> product_overview" where
  "get_product_overview now s =
     (let metrics = get_system_metrics s
      in \<lparr>pro_active_users = eng_dau (get_engagement now s), pro_active_organizations = sme_total_orgs metrics,
          pro_active_monitors = sme_total_dependencies metrics, pro_checks_today = checks_since (day_start now) s,
          pro_open_incidents = sme_total_incidents_open metrics, pro_vendor_coverage_top = take 5 (get_vendor_coverage s),
          pro_feature_adoption = get_feature_adoption s\<rparr>)"

definition get_product_features :: "console \<Rightarrow> (string \<times> nat \<times> nat \<times> real) list" where
  "get_product_features s = map (\<lambda>f. (fad_feature f, fad_total_users f, fad_active_users f,
     py_round 4 (ratio (fad_active_users f) (fad_total_users f)))) (get_feature_adoption s)"

definition stickiness :: "time \<Rightarrow> console \<Rightarrow> real" where
  "stickiness now s = py_round 4 (ratio (eng_dau (get_engagement now s)) (eng_mau (get_engagement now s)))"

definition activation_rate :: "console \<Rightarrow> real" where
  "activation_rate s = py_round 4 (ratio (checking_orgs s) (length (db_organizations (co_db s))))"

section \<open>Support and communication\<close>

record support_overview =
  sov_open :: nat
  sov_urgent :: nat
  sov_unassigned :: nat
  sov_waiting_on_customer :: nat
  sov_waiting_on_agent :: nat
  sov_resolved_today :: nat
  sov_queue :: "(string \<times> nat) list"
  sov_by_category :: "(string \<times> nat) list"

text \<open>The urgent tickets here are those of every status.\<close>

definition get_support_overview :: "time \<Rightarrow> console \<Rightarrow> support_overview" where
  "get_support_overview now s =
     (let stats = get_ticket_stats s; prio = (\<lambda>p. stage_count p (tst_by_priority stats));
          with_status = (\<lambda>st. length (filter (\<lambda>t. fbt_status t = st) (co_tickets s)))
      in \<lparr>sov_open = tst_open_tickets stats, sov_urgent = prio ''urgent'' + prio ''critical'' + prio ''high'',
          sov_unassigned = unassigned_count s, sov_waiting_on_customer = with_status ''waiting_on_customer'',
          sov_waiting_on_agent = with_status ''waiting_on_agent'',
          sov_resolved_today = length (filter (\<lambda>t. fbt_status t = ''resolved'' \<and>
            (case fbt_resolved_at t of None \<Rightarrow> False | Some x \<Rightarrow> day_start now \<le> x)) (co_tickets s)),
          sov_queue = map (\<lambda>p. (p, prio p)) [''critical'', ''urgent'', ''high'', ''normal'', ''low''],
          sov_by_category = tst_by_category stats\<rparr>)"

record ticket_workspace =
  wsp_ticket :: feedback_ticket
  wsp_messages :: "feedback_message list"
  wsp_customer :: "customer_detail option"

text \<open>The customer is left out when the ticket has none or the lookup fails.\<close>

definition get_support_ticket_workspace :: "console_env \<Rightarrow> time \<Rightarrow> uuid \<Rightarrow> (ticket_workspace, console) service" where
  "get_support_ticket_workspace env now ticket_id =
     and_then (get_ticket env ticket_id) (\<lambda>(t, messages) s.
       (Inr \<lparr>wsp_ticket = t, wsp_messages = messages,
          wsp_customer = (case fbt_user_id t of None \<Rightarrow> None
            | Some i \<Rightarrow> (case fst (get_customer_detail now i s) of Inl e \<Rightarrow> None | Inr c \<Rightarrow> Some c))\<rparr>, s))"

record communications_overview =
  cov_campaigns_total :: nat
  cov_drafts :: nat
  cov_scheduled :: nat
  cov_sent_today :: nat
  cov_notifications :: nat
  cov_announcements_active :: nat
  cov_announcements_total :: nat
  cov_recent_campaigns :: nat
  cov_recent_recipients :: int

definition campaigns_in :: "string \<Rightarrow> console \<Rightarrow> email_campaign list" where
  "campaigns_in status s = filter (\<lambda>c. cam_status c = status) (co_campaigns s)"

text \<open>A NULL \<^verbatim>\<open>sent_at\<close> sorts first in a descending order.\<close>

definition recent_sent :: "console \<Rightarrow> email_campaign list" where
  "recent_sent s = page_of (\<lambda>c. case cam_sent_at c of None \<Rightarrow> (0 :: int, 0) | Some t \<Rightarrow> (1, - t)) 0 10 (campaigns_in ''sent'' s)"

definition get_communications_overview :: "time \<Rightarrow> console \<Rightarrow> communications_overview" where
  "get_communications_overview now s = \<lparr>cov_campaigns_total = length (co_campaigns s), cov_drafts = length (campaigns_in ''draft'' s),
     cov_scheduled = length (campaigns_in ''scheduled'' s),
     cov_sent_today = length (filter (\<lambda>c. case cam_sent_at c of None \<Rightarrow> False | Some t \<Rightarrow> day_start now \<le> t) (campaigns_in ''sent'' s)),
     cov_notifications = length (co_notifications s), cov_announcements_active = length (filter ann_is_active (co_announcements s)),
     cov_announcements_total = length (co_announcements s), cov_recent_campaigns = length (recent_sent s),
     cov_recent_recipients = sum_list (map cam_recipient_count (recent_sent s))\<rparr>"

section \<open>Overview and operations\<close>

definition component_health :: "health_check_item option \<Rightarrow> string" where
  "component_health item = (case item of None \<Rightarrow> ''unknown''
   | Some i \<Rightarrow> if hci_status i = ''ok'' then ''healthy'' else if hci_status i = ''degraded'' then ''degraded'' else ''error'')"

definition worker_status :: "(string \<times> string \<times> string option) list \<Rightarrow> string" where
  "worker_status engines = (if list_ex (\<lambda>(name, status, e). status \<notin> {''running'', ''idle'', ''ok''}) engines then ''degraded'' else ''healthy'')"

definition health_of :: "console_env \<Rightarrow> string \<Rightarrow> health_check_item option" where
  "health_of env component = find (\<lambda>i. hci_component i = component) (snd (health_check env))"

record overview =
  ovw_users :: nat
  ovw_organizations :: nat
  ovw_active_users :: nat
  ovw_paying_organizations :: nat
  ovw_mrr :: int
  ovw_arr_estimate :: int
  ovw_new_signups :: nat
  ovw_conversion_rate :: real
  ovw_dependencies :: nat
  ovw_checks_today :: nat
  ovw_open_incidents :: nat
  ovw_open_tickets :: nat
  ovw_urgent_tickets :: nat
  ovw_unassigned_tickets :: nat
  ovw_active_campaigns :: nat
  ovw_scheduled_campaigns :: nat
  ovw_draft_campaigns :: nat
  ovw_announcements :: nat
  ovw_database_health :: string
  ovw_redis_health :: string
  ovw_worker_health :: string
  ovw_actions_required :: "attention_item list"

definition get_overview :: "console_env \<Rightarrow> time \<Rightarrow> console \<Rightarrow> overview" where
  "get_overview env now s =
     (let b = get_business_summary now s; metrics = get_system_metrics s
      in \<lparr>ovw_users = bsm_total_users b, ovw_organizations = bsm_total_organizations b, ovw_active_users = eng_dau (get_engagement now s),
          ovw_paying_organizations = bsm_active_subscriptions b, ovw_mrr = bsm_mrr b, ovw_arr_estimate = bsm_mrr b * 12, ovw_new_signups = bsm_new_signups_7d b,
          ovw_conversion_rate = py_round 2 (ratio (bsm_active_subscriptions b) (bsm_total_organizations b) * 100),
          ovw_dependencies = sme_total_dependencies metrics, ovw_checks_today = checks_since (day_start now) s,
          ovw_open_incidents = sme_total_incidents_open metrics, ovw_open_tickets = tst_open_tickets (get_ticket_stats s),
          ovw_urgent_tickets = urgent_count s, ovw_unassigned_tickets = unassigned_count s,
          ovw_active_campaigns = length (campaigns_in ''sent'' s) + length (campaigns_in ''sending'' s),
          ovw_scheduled_campaigns = length (campaigns_in ''scheduled'' s), ovw_draft_campaigns = length (campaigns_in ''draft'' s),
          ovw_announcements = length (filter ann_is_active (co_announcements s)),
          ovw_database_health = component_health (health_of env ''database''), ovw_redis_health = component_health (health_of env ''redis''),
          ovw_worker_health = worker_status check_engines,
          ovw_actions_required = collect_attention_items
            \<lparr>atc_urgent_tickets = urgent_count s, atc_unassigned_tickets = unassigned_count s,
             atc_open_incidents = sme_total_incidents_open metrics, atc_high_churn = 0, atc_pending_payouts = 0\<rparr>
            (snd (health_check env)) check_engines s\<rparr>)"

record deployment =
  dep_paystack_secret_key :: string
  dep_smtp_host :: string
  dep_s3_bucket :: string

record operations_overview =
  opo_database :: string
  opo_redis :: string
  opo_workers :: string
  opo_billing :: "string \<times> string option"
  opo_email :: "string \<times> string option"
  opo_storage :: "string \<times> string option"
  opo_overall :: string

text \<open>A provider's component is known to work only when it is configured.\<close>

definition configured :: "bool \<Rightarrow> string \<Rightarrow> string \<times> string option" where
  "configured ok message = (if ok then (''healthy'', None) else (''unknown'', Some message))"

text \<open>The scheduler and the check engine repeat the status of the workers.\<close>

definition get_operations_overview :: "console_env \<Rightarrow> deployment \<Rightarrow> operations_overview" where
  "get_operations_overview env settings =
     (let db_status = (if cv_database env = None then ''healthy'' else ''error'');
          redis_status = (if cv_redis_up env then ''healthy'' else ''error'');
          workers = worker_status check_engines
      in \<lparr>opo_database = db_status, opo_redis = redis_status, opo_workers = workers,
          opo_billing = configured (dep_paystack_secret_key settings \<noteq> []) ''Billing provider not configured'',
          opo_email = configured (dep_smtp_host settings \<noteq> [] \<and> dep_smtp_host settings \<notin> {''localhost'', ''127.0.0.1''})
            ''SMTP not configured for production'',
          opo_storage = configured (dep_s3_bucket settings \<noteq> []) ''Object storage not configured'',
          opo_overall = (if db_status = ''error'' \<or> redis_status = ''error'' \<or> workers = ''degraded'' then ''degraded'' else ''healthy'')\<rparr>)"

end
