(* ===== verification/Console_Properties.thy ===== *)
theory Console_Properties
  imports Console_Analytics Access
begin

text \<open>
  Properties of the admin console: campaigns are sent once, every change of a user or an organization
  is in the audit log, bulk updates and tickets, impersonation tokens, and the attention list.
\<close>

section \<open>Requests of administrators\<close>

definition console_request :: "user \<Rightarrow> ('a, console) service \<Rightarrow> ('a, console) service" where
  "console_request admin f s = (case require_system_admin admin of Inl e \<Rightarrow> (Inl e, s) | Inr _ \<Rightarrow> with_session f s)"

lemma console_request_cases:
  assumes "console_request admin f s = (r, s')"
  shows "s' = s \<or> u_is_system_admin admin \<and> (\<exists>v. f s = (Inr v, s'))"
  using assms by (auto simp: console_request_def require_system_admin_def with_session_def split: if_splits sum.splits prod.splits)

inductive admin_step :: "console \<Rightarrow> console \<Rightarrow> bool" where
  update_user: "console_request admin (update_user now admin client i kws) s = (r1, s') \<Longrightarrow> admin_step s s'"
| impersonate: "console_request admin (impersonate env now jti admin client i) s = (r2, s') \<Longrightarrow> admin_step s s'"
| override_plan: "console_request admin (override_plan now admin client i plan reason) s = (r3, s') \<Longrightarrow> admin_step s s'"
| send_email: "console_request admin (send_email_to_user env now admin client i subject body html) s = (r4, s') \<Longrightarrow> admin_step s s'"
| create_ticket: "console_request admin (create_ticket env i rnd now trq user_id) s = (r5, s') \<Longrightarrow> admin_step s s'"
| update_ticket: "console_request admin (update_ticket env now admin client i tkws) s = (r6, s') \<Longrightarrow> admin_step s s'"
| reply: "console_request admin (reply_to_ticket i now admin ticket_id body note) s = (r7, s') \<Longrightarrow> admin_step s s'"
| bulk: "console_request admin (bulk_update_tickets now admin client brq) s = (r8, s') \<Longrightarrow> admin_step s s'"
| create_campaign: "i \<notin> cam_id ` set (co_campaigns s) \<Longrightarrow> console_request admin (create_campaign i now (u_id admin) crq) s = (r9, s') \<Longrightarrow>
    admin_step s s'"
| update_campaign: "console_request admin (update_campaign i (campaign_kwargs urq)) s = (r10, s') \<Longrightarrow> admin_step s s'"
| send_campaign: "console_request admin (send_campaign ids now admin client i) s = (r11, s') \<Longrightarrow> admin_step s s'"
| create_notification: "console_request admin (create_notification i now (u_id admin) nrq) s = (r12, s') \<Longrightarrow> admin_step s s'"
| create_announcement: "console_request admin (create_announcement i now (u_id admin) arq) s = (r13, s') \<Longrightarrow> admin_step s s'"
| update_announcement: "console_request admin (update_announcement i akws) s = (r14, s') \<Longrightarrow> admin_step s s'"
| update_customer: "console_request admin (update_customer now admin client i cup) s = (r15, s') \<Longrightarrow> admin_step s s'"
| impersonate_customer: "console_request admin (impersonate_customer env now jti admin client i reason2) s = (r16, s') \<Longrightarrow> admin_step s s'"
| change_plan: "console_request admin (change_customer_plan now admin client i plan reason org_id) s = (r17, s') \<Longrightarrow> admin_step s s'"
| email_customer: "console_request admin (email_customer env now admin client i subject body html) s = (r18, s') \<Longrightarrow> admin_step s s'"
| deactivate: "console_request admin (deactivate_customer env now admin client i reason2) s = (r19, s') \<Longrightarrow> admin_step s s'"

section \<open>What each operation touches\<close>

lemma co_db_tables [simp]:
  "co_db (s\<lparr>co_plan_changes := a\<rparr>) = co_db s" "co_db (s\<lparr>co_activity := b\<rparr>) = co_db s" "co_db (s\<lparr>co_tickets := c\<rparr>) = co_db s"
  "co_db (s\<lparr>co_messages := d\<rparr>) = co_db s" "co_db (s\<lparr>co_campaigns := e\<rparr>) = co_db s" "co_db (s\<lparr>co_recipients := f\<rparr>) = co_db s"
  "co_db (s\<lparr>co_notifications := g\<rparr>) = co_db s" "co_db (s\<lparr>co_deliveries := h\<rparr>) = co_db s" "co_db (s\<lparr>co_announcements := k\<rparr>) = co_db s"
  "co_db (s\<lparr>co_mails := m\<rparr>) = co_db s"
  by (simp_all add: co_db_def)

definition names_row :: "admin_audit_log \<Rightarrow> uuid \<Rightarrow> bool" where
  "names_row l i = (aal_entity_id l = Some (uuid_str i) \<and> (\<exists>admin :: user. u_is_system_admin admin \<and> aal_admin_user_id l = Some (u_id admin) \<and>
     aal_admin_email l = Some (u_email admin)))"

text \<open>The log grows, and every user or organization whose row changed is named by a new entry.\<close>

definition audited_change :: "db \<Rightarrow> db \<Rightarrow> bool" where
  "audited_change d d' = (\<exists>ls. db_admin_audit d' = db_admin_audit d @ ls \<and>
     (\<forall>i. user_get_by_id d' i \<noteq> user_get_by_id d i \<or> org_get_by_id d' i \<noteq> org_get_by_id d i \<longrightarrow> (\<exists>l \<in> set ls. names_row l i)))"

lemma audited_change_refl [simp, intro]: "audited_change d d"
  by (auto simp: audited_change_def)

lemma audited_change_trans:
  assumes "audited_change d d'" and "audited_change d' d''"
  shows "audited_change d d''"
proof -
  obtain ls where ls: "db_admin_audit d' = db_admin_audit d @ ls"
    "\<And>i. user_get_by_id d' i \<noteq> user_get_by_id d i \<or> org_get_by_id d' i \<noteq> org_get_by_id d i \<Longrightarrow> \<exists>l \<in> set ls. names_row l i"
    using assms(1) unfolding audited_change_def by blast
  obtain ms where ms: "db_admin_audit d'' = db_admin_audit d' @ ms"
    "\<And>i. user_get_by_id d'' i \<noteq> user_get_by_id d' i \<or> org_get_by_id d'' i \<noteq> org_get_by_id d' i \<Longrightarrow> \<exists>l \<in> set ms. names_row l i"
    using assms(2) unfolding audited_change_def by blast
  show ?thesis
    unfolding audited_change_def
  proof (intro exI conjI allI impI)
    show "db_admin_audit d'' = db_admin_audit d @ (ls @ ms)"
      using ls(1) ms(1) by simp
    fix i
    assume "user_get_by_id d'' i \<noteq> user_get_by_id d i \<or> org_get_by_id d'' i \<noteq> org_get_by_id d i"
    then have "(user_get_by_id d' i \<noteq> user_get_by_id d i \<or> org_get_by_id d' i \<noteq> org_get_by_id d i) \<or>
        (user_get_by_id d'' i \<noteq> user_get_by_id d' i \<or> org_get_by_id d'' i \<noteq> org_get_by_id d' i)"
      by auto
    then show "\<exists>l \<in> set (ls @ ms). names_row l i"
      using ls(2) ms(2) by fastforce
  qed
qed

text \<open>A change of one row followed by the entry that names it.\<close>

lemma logged_change:
  assumes "u_is_system_admin admin" and "log_action now admin client e s = (Inr (), s1)"
    and "db_admin_audit (co_db s) = db_admin_audit d"
    and "\<And>i. user_get_by_id (co_db s) i \<noteq> user_get_by_id d i \<or> org_get_by_id (co_db s) i \<noteq> org_get_by_id d i \<Longrightarrow> uuid_str i = aud_entity_id e"
  shows "audited_change d (co_db s1)"
proof -
  obtain l where l: "s1 = put_db ((co_db s)\<lparr>db_admin_audit := db_admin_audit (co_db s) @ [l]\<rparr>) s" "aal_admin_user_id l = Some (u_id admin)"
    "aal_admin_email l = Some (u_email admin)" "aal_entity_id l = Some (aud_entity_id e)"
    using assms(2) by (rule log_action_E)
  have "user_get_by_id (co_db s1) i = user_get_by_id (co_db s) i" "org_get_by_id (co_db s1) i = org_get_by_id (co_db s) i" for i
    using l(1) by (simp_all add: user_get_by_id_def org_get_by_id_def)
  then show ?thesis
    unfolding audited_change_def using l assms by (intro exI [of _ "[l]"]) (auto simp: names_row_def)
qed

lemma lookup_saved:
  "user_get_by_id (save_user r d) i \<noteq> user_get_by_id d i \<Longrightarrow> i = u_id r"
  "org_get_by_id (save_org q d) i \<noteq> org_get_by_id d i \<Longrightarrow> i = o_id q"
  by (auto simp: user_get_by_id_def save_user_def org_get_by_id_def save_org_def get_row_save split: if_splits)

lemma lookup_saved_other [simp]:
  "org_get_by_id (save_user r d) i = org_get_by_id d i" "user_get_by_id (save_org q d) i = user_get_by_id d i"
  "db_admin_audit (save_user r d) = db_admin_audit d" "db_admin_audit (save_org q d) = db_admin_audit d"
  by (simp_all add: user_get_by_id_def save_user_def org_get_by_id_def save_org_def)

lemma put_admin_id [simp]: "u_id (put_admin k r) = u_id r"
  by (cases k) auto

lemma set_admin_id [simp]: "u_id (set_fields put_admin kws r) = u_id r"
  unfolding set_fields_def by (induction kws arbitrary: r) simp_all

lemma admin_update_E:
  assumes "on_console_db (admin_update user kws) s = (Inr r, s')"
  obtains "r = set_fields put_admin kws user" and "s' = put_db (save_user r (co_db s)) s"
  using assms by (auto simp: on_console_db_def admin_update_def Let_def split: if_splits)

lemma user_row_id: "user_get_by_id d i = Some u \<Longrightarrow> u_id u = i"
  by (auto simp: user_get_by_id_def dest: get_row_Some)

lemma org_row_id: "org_get_by_id d i = Some x \<Longrightarrow> o_id x = i"
  by (auto simp: org_get_by_id_def dest: get_row_Some)

text \<open>The tables of the campaigns are those of the three campaign operations only.\<close>

definition same_campaigns :: "console \<Rightarrow> console \<Rightarrow> bool" where
  "same_campaigns s s' = (co_campaigns s' = co_campaigns s \<and> co_recipients s' = co_recipients s)"

lemma same_campaigns_refl [simp, intro]: "same_campaigns s s"
  by (simp add: same_campaigns_def)

lemma same_campaigns_put [simp]: "same_campaigns s (put_db d s') = same_campaigns s s'"
  by (simp add: same_campaigns_def)

lemma log_action_same: "log_action now admin client e s = (Inr (), s1) \<Longrightarrow> same_campaigns s s1 \<and> co_mails s1 = co_mails s"
  by (elim log_action_E) (simp add: same_campaigns_def)

lemma log_action_audited: "u_is_system_admin admin \<Longrightarrow> log_action now admin client e s = (Inr (), s1) \<Longrightarrow> audited_change (co_db s) (co_db s1)"
  by (erule logged_change, assumption) simp_all

lemma update_user_effect:
  assumes "u_is_system_admin admin" and "update_user now admin client i kws s = (Inr v, s')"
  shows "audited_change (co_db s) (co_db s') \<and> same_campaigns s s'"
proof -
  obtain u where u: "user_get_by_id (co_db s) i = Some u"
    using assms(2) by (auto simp: update_user_def split: option.splits)
  obtain r s1 s2 e where r: "on_console_db (admin_update u kws) s = (Inr r, s1)" "log_action now admin client e s1 = (Inr (), s2)"
    "aud_entity_id e = uuid_str i" "s' = s2"
    using assms(2) u by (auto simp: update_user_def elim!: and_then_E)
  have row: "r = set_fields put_admin kws u" "s1 = put_db (save_user r (co_db s)) s"
    using r(1) by (auto elim: admin_update_E)
  have "audited_change (co_db s) (co_db s2)"
    using lookup_saved(1) [of r "co_db s"] row r(3) user_row_id [OF u] by (intro logged_change [OF assms(1) r(2)]) auto
  moreover have "same_campaigns s s2"
    using log_action_same [OF r(2)] row(2) by (simp add: same_campaigns_def)
  ultimately show ?thesis
    using r(4) by simp
qed

lemma impersonate_effect:
  assumes "u_is_system_admin admin" and "impersonate env now jti admin client i s = (Inr v, s')"
  shows "audited_change (co_db s) (co_db s') \<and> same_campaigns s s'"
  using assms by (auto simp: impersonate_def split: option.splits if_splits elim!: and_then_E dest: log_action_same log_action_audited)

lemma set_plan_E:
  assumes "set_plan now admin org plan reason note s = (Inr v, s1)"
  obtains c where "s1 = (put_db (save_org (org\<lparr>o_plan := plan\<rparr>) (co_db s)) s)\<lparr>co_plan_changes := co_plan_changes s @ [c]\<rparr>"
    and "pch_org_id c = o_id org" and "pch_from_plan c = o_plan org" and "pch_to_plan c = plan" and "pch_changed_by c = Some (u_id admin)"
  using assms by (auto simp: set_plan_def org_update_def set_fields_def Let_def split: if_splits)

lemma set_plan_logged:
  assumes "u_is_system_admin admin" and "set_plan now admin org plan reason note s = (Inr v, s1)"
    and "log_action now admin client e s1 = (Inr (), s2)" and "aud_entity_id e = uuid_str (o_id org)"
  shows "audited_change (co_db s) (co_db s2) \<and> same_campaigns s s2"
proof -
  obtain c where c: "s1 = (put_db (save_org (org\<lparr>o_plan := plan\<rparr>) (co_db s)) s)\<lparr>co_plan_changes := co_plan_changes s @ [c]\<rparr>"
    using assms(2) by (rule set_plan_E)
  have "audited_change (co_db s) (co_db s2)"
    using lookup_saved(2) [of "org\<lparr>o_plan := plan\<rparr>" "co_db s"] c assms(4) by (intro logged_change [OF assms(1,3)]) auto
  then show ?thesis
    using log_action_same [OF assms(3)] c by (simp add: same_campaigns_def)
qed

lemma override_plan_effect:
  assumes "u_is_system_admin admin" and "override_plan now admin client i plan reason s = (Inr v, s')"
  shows "audited_change (co_db s) (co_db s') \<and> same_campaigns s s'"
proof -
  obtain org where org: "org_get_by_id (co_db s) i = Some org"
    using assms(2) by (auto simp: override_plan_def split: option.splits)
  obtain w s1 s2 e where r: "set_plan now admin org plan reason (''Admin override by '' @ u_email admin) s = (Inr w, s1)"
    "log_action now admin client e s1 = (Inr (), s2)" "aud_entity_id e = uuid_str i" "s' = s2"
    using assms(2) org by (auto simp: override_plan_def elim!: and_then_E)
  then show ?thesis
    using set_plan_logged [OF assms(1) r(1,2)] org_row_id [OF org] by simp
qed

lemma hand_mail_same: "hand_mail env to_email subject body html s = (b, s1) \<Longrightarrow> co_db s1 = co_db s \<and> same_campaigns s s1"
  by (auto simp: hand_mail_def same_campaigns_def Let_def split: if_splits)

lemma mail_effects:
  assumes "u_is_system_admin admin"
  shows "send_email_to_user env now admin client i subject body html s = (Inr v, s') \<Longrightarrow>
      audited_change (co_db s) (co_db s') \<and> same_campaigns s s'"
    and "email_customer env now admin client i subject body html s = (Inr v, s') \<Longrightarrow>
      audited_change (co_db s) (co_db s') \<and> same_campaigns s s'"
  using log_action_audited [OF assms] log_action_same hand_mail_same
  by (fastforce simp: send_email_to_user_def email_customer_def same_campaigns_def split: option.splits prod.splits elim!: and_then_E)+

lemma repo_update_ticket_E:
  assumes "repo_update_ticket now ticket kws s = (Inr t, s1)"
  obtains "t = changed_ticket now ticket kws" and "ticket_fits t" and "s1 = s\<lparr>co_tickets := save_row fbt_id t (co_tickets s)\<rparr>"
    and "\<And>i. fbt_assigned_to t = Some i \<Longrightarrow> i \<in> u_id ` set (db_users (co_db s))"
  using assms by (auto simp: repo_update_ticket_def Let_def split: if_splits)

lemma update_ticket_effect:
  assumes "u_is_system_admin admin" and "update_ticket env now admin client i kws s = (Inr v, s')"
  shows "audited_change (co_db s) (co_db s') \<and> same_campaigns s s'"
  using assms log_action_audited [OF assms(1)] log_action_same
  by (fastforce simp: update_ticket_def same_campaigns_def split: option.splits elim!: and_then_E repo_update_ticket_E)

lemma create_ticket_effect: "create_ticket env i rnd now rq user_id s = (Inr v, s') \<Longrightarrow> co_db s' = co_db s \<and> same_campaigns s s'"
  by (auto simp: create_ticket_def repo_create_ticket_def same_campaigns_def split: if_splits elim!: and_then_E)

lemma reply_effect: "reply_to_ticket i now admin ticket_id body note s = (Inr v, s') \<Longrightarrow> co_db s' = co_db s \<and> same_campaigns s s'"
  by (auto simp: reply_to_ticket_def add_message_def same_campaigns_def Let_def split: if_splits option.splits)

lemma bulk_loop_same: "bulk_loop now kws tids n s = (Inr m, s1) \<Longrightarrow> co_db s1 = co_db s \<and> same_campaigns s s1"
proof (induction tids arbitrary: n s)
  case (Cons tid tids)
  show ?case
  proof (cases "get_ticket_by_id s tid")
    case None
    then show ?thesis
      using Cons by simp
  next
    case (Some ticket)
    then obtain t s2 where "repo_update_ticket now ticket kws s = (Inr t, s2)" "bulk_loop now kws tids (n + 1) s2 = (Inr m, s1)"
      using Cons.prems by (auto elim!: and_then_E)
    then show ?thesis
      using Cons.IH [of "n + 1" s2] by (auto simp: same_campaigns_def elim!: repo_update_ticket_E)
  qed
qed simp

lemma bulk_update_effect:
  assumes "u_is_system_admin admin" and "bulk_update_tickets now admin client rq s = (Inr v, s')"
  shows "audited_change (co_db s) (co_db s') \<and> same_campaigns s s'"
proof -
  obtain n s1 s2 e where r: "bulk_loop now (bulk_fields rq) (bkr_ticket_ids rq) 0 s = (Inr n, s1)"
    "(if n > 0 then log_action now admin client e else pure_step (Inr ())) s1 = (Inr (), s2)" "s' = s2"
    using assms(2) by (auto simp: bulk_update_tickets_def elim!: and_then_E)
  then show ?thesis
    using bulk_loop_same [OF r(1)] log_action_audited [OF assms(1), of now client e s1 s2] log_action_same [of now admin client e s1 s2]
    by (cases "n > 0") (auto simp: same_campaigns_def)
qed

lemma notice_effects:
  "create_notification i now u rq s = (Inr v, s') \<Longrightarrow> co_db s' = co_db s \<and> same_campaigns s s'"
  "create_announcement i now u arq s = (Inr w, s') \<Longrightarrow> co_db s' = co_db s \<and> same_campaigns s s'"
  "update_announcement i kws s = (Inr x, s') \<Longrightarrow> co_db s' = co_db s \<and> same_campaigns s s'"
  by (auto simp: create_notification_def repo_create_notification_def create_announcement_def repo_create_announcement_def
      update_announcement_def with_announcement_def repo_update_announcement_def same_campaigns_def Let_def
      split: if_splits option.splits)

lemma get_customer_detail_same: "get_customer_detail now i s = (r, s') \<Longrightarrow> s' = s"
  by (auto simp: get_customer_detail_def split: option.splits)

lemma update_customer_effect:
  assumes "u_is_system_admin admin" and "update_customer now admin client i rq s = (Inr v, s')"
  shows "audited_change (co_db s) (co_db s') \<and> same_campaigns s s'"
  using assms(2) update_user_effect [OF assms(1)] by (fastforce simp: update_customer_def elim!: and_then_E dest: get_customer_detail_same)

lemma impersonate_customer_effect:
  assumes "u_is_system_admin admin" and "impersonate_customer env now jti admin client i reason s = (Inr v, s')"
  shows "audited_change (co_db s) (co_db s') \<and> same_campaigns s s'"
  using assms by (auto simp: impersonate_customer_def split: option.splits if_splits elim!: and_then_E dest: log_action_same log_action_audited)

lemma change_plan_effect:
  assumes "u_is_system_admin admin" and "change_customer_plan now admin client i plan reason org_id s = (Inr v, s')"
  shows "audited_change (co_db s) (co_db s') \<and> same_campaigns s s'"
proof -
  obtain k org where org: "plan_target s i org_id = Inr k" "org_get_by_id (co_db s) k = Some org"
    using assms(2) by (auto simp: change_customer_plan_def split: sum.splits option.splits)
  obtain w nt s1 s2 e where r: "set_plan now admin org plan reason nt s = (Inr w, s1)"
    "log_action now admin client e s1 = (Inr (), s2)" "aud_entity_id e = uuid_str k" "s' = s2"
    using assms(2) org by (auto simp: change_customer_plan_def split: sum.splits option.splits elim!: and_then_E)
  then show ?thesis
    using set_plan_logged [OF assms(1) r(1,2)] org_row_id [OF org(2)] by simp
qed

lemma deactivate_effect:
  assumes "u_is_system_admin admin" and "deactivate_customer env now admin client i reason s = (Inr v, s')"
  shows "audited_change (co_db s) (co_db s') \<and> same_campaigns s s'"
proof -
  obtain u where u: "user_get_by_id (co_db s) i = Some u" "i \<noteq> u_id admin"
    using assms(2) by (auto simp: deactivate_customer_def split: option.splits if_splits)
  obtain r1 s1 k r2 s2 e s3 where r: "on_console_db (admin_update u [AfIsActive False]) s = (Inr r1, s1)"
    "on_console_db (admin_update r1 [k]) s1 = (Inr r2, s2)" "log_action now admin client e s2 = (Inr (), s3)"
    "aud_entity_id e = uuid_str i" "get_customer_detail now i s3 = (Inr v, s')"
    using assms(2) u by (auto simp: deactivate_customer_def elim!: and_then_E)
  have row1: "u_id r1 = i" "s1 = put_db (save_user r1 (co_db s)) s"
    using r(1) user_row_id [OF u(1)] by (auto elim!: admin_update_E)
  have row2: "u_id r2 = i" "s2 = put_db (save_user r2 (co_db s1)) s1"
    using r(2) row1(1) by (auto elim!: admin_update_E)
  have "k = i" if "user_get_by_id (co_db s2) k \<noteq> user_get_by_id (co_db s) k" for k
    using that row1 row2 lookup_saved(1) [of r1 "co_db s" k] lookup_saved(1) [of r2 "co_db s1" k] by fastforce
  then have "audited_change (co_db s) (co_db s3)"
    using row1 row2 r(4) by (intro logged_change [OF assms(1) r(3)]) auto
  then show ?thesis
    using log_action_same [OF r(3)] row1(2) row2(2) get_customer_detail_same [OF r(5)] by (simp add: same_campaigns_def)
qed

section \<open>Campaigns\<close>

definition recipients_of :: "uuid \<Rightarrow> console \<Rightarrow> (uuid option \<times> string) list" where
  "recipients_of i s = map (\<lambda>r. (rcp_user_id r, rcp_email r)) (filter (\<lambda>r. rcp_campaign_id r = i) (co_recipients s))"

definition active_users :: "db \<Rightarrow> user list" where
  "active_users d = filter u_is_active (db_users d)"

lemma add_recipients_spec:
  "add_recipients ids now i us n s = (m, s1) \<Longrightarrow> m = n + length us \<and> co_db s1 = co_db s \<and> co_campaigns s1 = co_campaigns s \<and>
     co_mails s1 = co_mails s \<and> recipients_of i s1 = recipients_of i s @ map (\<lambda>u. (Some (u_id u), u_email u)) us \<and>
     (\<forall>j. j \<noteq> i \<longrightarrow> recipients_of j s1 = recipients_of j s) \<and>
     (\<forall>r \<in> set (co_recipients s1). r \<in> set (co_recipients s) \<or> rcp_campaign_id r = i)"
proof (induction us arbitrary: n s)
  case (Cons u us)
  then show ?case
    using Cons.IH [of "n + 1" "create_recipient (ids n) now i (Some (u_id u)) (u_email u) s"]
    by (auto simp: create_recipient_def recipients_of_def)
qed auto

definition sent_campaign :: "email_campaign \<Rightarrow> time \<Rightarrow> nat \<Rightarrow> email_campaign" where
  "sent_campaign c now n = c\<lparr>cam_status := ''sent'', cam_recipient_count := int n, cam_sent_at := Some now\<rparr>"

lemma send_campaign_E:
  assumes "send_campaign ids now admin client i s = (Inr (msg, n), s')"
  obtains c where "get_campaign_by_id s i = Some c" and "cam_status c \<noteq> ''sent''" and "n = length (active_users (co_db s))"
    and "co_campaigns s' = save_row cam_id (sent_campaign c now n) (co_campaigns s)"
    and "recipients_of i s' = recipients_of i s @ map (\<lambda>u. (Some (u_id u), u_email u)) (active_users (co_db s))"
    and "\<And>j. j \<noteq> i \<Longrightarrow> recipients_of j s' = recipients_of j s" and "co_mails s' = co_mails s"
proof -
  obtain c where c: "get_campaign_by_id s i = Some c" "cam_status c \<noteq> ''sent''"
    using assms by (auto simp: send_campaign_def with_campaign_def split: option.splits if_splits)
  obtain m s1 where m: "add_recipients ids now i (active_users (co_db s)) 0 s = (m, s1)"
    by (cases "add_recipients ids now i (active_users (co_db s)) 0 s")
  then obtain w s2 e where r: "repo_update_campaign c [CfStatus ''sent'', CfRecipientCount (int m), CfSentAt now] s1 = (Inr w, s2)"
    "log_action now admin client e s2 = (Inr (), s')" "n = m"
    using assms c by (auto simp: send_campaign_def with_campaign_def active_users_def elim!: and_then_E)
  have s2: "s2 = s1\<lparr>co_campaigns := save_row cam_id (sent_campaign c now m) (co_campaigns s1)\<rparr>"
    using r(1) by (auto simp: repo_update_campaign_def sent_campaign_def set_fields_def Let_def split: if_splits)
  show thesis
    using c add_recipients_spec [OF m] log_action_same [OF r(2)] r(3) s2
    by (intro that [of c]) (auto simp: same_campaigns_def recipients_of_def)
qed

lemma update_campaign_E:
  assumes "update_campaign i kws s = (Inr v, s')"
  obtains c where "get_campaign_by_id s i = Some c" and "co_db s' = co_db s" and "co_recipients s' = co_recipients s"
    and "co_campaigns s' = save_row cam_id (set_fields put_campaign kws c) (co_campaigns s)"
  using assms by (auto simp: update_campaign_def with_campaign_def repo_update_campaign_def Let_def split: option.splits if_splits)

lemma put_kwargs: "k \<in> set (campaign_kwargs rq) \<Longrightarrow> cam_id (put_campaign k c) = cam_id c \<and> cam_status (put_campaign k c) = cam_status c"
  by (auto simp: campaign_kwargs_def given_def split: option.splits)

lemma set_kwargs: "set kws \<subseteq> set (campaign_kwargs rq) \<Longrightarrow>
    cam_id (set_fields put_campaign kws c) = cam_id c \<and> cam_status (set_fields put_campaign kws c) = cam_status c"
  unfolding set_fields_def by (induction kws arbitrary: c) (auto simp: put_kwargs)

lemma create_campaign_E:
  assumes "create_campaign i now u rq s = (Inr v, s')"
  obtains c where "cam_id c = i" and "cam_status c = ''draft''" and "s' = s\<lparr>co_campaigns := co_campaigns s @ [c]\<rparr>"
  by (rule that [of v]) (use assms in \<open>auto simp: create_campaign_def repo_create_campaign_def split: if_splits\<close>)

lemma send_campaign_db:
  assumes "u_is_system_admin admin" and "send_campaign ids now admin client i s = (Inr v, s')"
  shows "audited_change (co_db s) (co_db s')"
proof -
  obtain c where c: "get_campaign_by_id s i = Some c" "cam_status c \<noteq> ''sent''"
    using assms(2) by (auto simp: send_campaign_def with_campaign_def split: option.splits if_splits)
  obtain m s1 where m: "add_recipients ids now i (active_users (co_db s)) 0 s = (m, s1)"
    by (cases "add_recipients ids now i (active_users (co_db s)) 0 s")
  then obtain kws w s2 e where r: "repo_update_campaign c kws s1 = (Inr w, s2)" "log_action now admin client e s2 = (Inr (), s')"
    using assms(2) c by (auto simp: send_campaign_def with_campaign_def active_users_def elim!: and_then_E)
  have "co_db s2 = co_db s"
    using r(1) add_recipients_spec [OF m] by (auto simp: repo_update_campaign_def Let_def split: if_splits)
  then show ?thesis
    using log_action_audited [OF assms(1) r(2)] by simp
qed

definition campaign_event :: "console \<Rightarrow> console \<Rightarrow> bool" where
  "campaign_event s s' = (same_campaigns s s' \<or>
     (\<exists>i now u rq v. i \<notin> cam_id ` set (co_campaigns s) \<and> create_campaign i now u rq s = (Inr v, s')) \<or>
     (\<exists>i rq v. update_campaign i (campaign_kwargs rq) s = (Inr v, s')) \<or>
     (\<exists>ids now admin client i v. send_campaign ids now admin client i s = (Inr v, s')))"

lemma same_event: "same_campaigns s s' \<Longrightarrow> campaign_event s s'"
  by (simp add: campaign_event_def)

lemma step_effect: "admin_step s s' \<Longrightarrow> audited_change (co_db s) (co_db s') \<and> campaign_event s s'"
proof (induction rule: admin_step.induct)
  case (update_user admin now client i kws s r s')
  then show ?case using console_request_cases update_user_effect same_event by blast
next
  case (impersonate admin env now jti client i s r s')
  then show ?case using console_request_cases impersonate_effect same_event by blast
next
  case (override_plan admin now client i plan reason s r s')
  then show ?case using console_request_cases override_plan_effect same_event by blast
next
  case (send_email admin env now client i subject body html s r s')
  then show ?case using console_request_cases mail_effects(1) same_event by blast
next
  case (create_ticket admin env i rnd now trq user_id s r s')
  then show ?case using console_request_cases [OF create_ticket] create_ticket_effect same_event by (metis audited_change_refl same_campaigns_refl)
next
  case (update_ticket admin env now client i kws s r s')
  then show ?case using console_request_cases update_ticket_effect same_event by blast
next
  case (reply admin i now ticket_id body nt s r s')
  then show ?case using console_request_cases [OF reply] reply_effect same_event by (metis audited_change_refl same_campaigns_refl)
next
  case (bulk admin now client rq s r s')
  then show ?case using console_request_cases bulk_update_effect same_event by blast
next
  case (create_campaign i s admin now rq r s')
  then have "s' = s \<or> (\<exists>v. create_campaign i now (u_id admin) rq s = (Inr v, s'))"
    using console_request_cases by blast
  then have "s' = s \<or> co_db s' = co_db s \<and> campaign_event s s'"
    using create_campaign(1) unfolding campaign_event_def by (blast elim: create_campaign_E intro: co_db_tables)
  then show ?case
    using same_event [of s s] by auto
next
  case (update_campaign admin i rq s r s')
  then have "s' = s \<or> (\<exists>v. update_campaign i (campaign_kwargs rq) s = (Inr v, s'))"
    using console_request_cases by blast
  then have "s' = s \<or> co_db s' = co_db s \<and> campaign_event s s'"
    unfolding campaign_event_def by (blast elim: update_campaign_E)
  then show ?case
    using same_event [of s s] by auto
next
  case (send_campaign admin ids now client i s r s')
  then have "s' = s \<or> u_is_system_admin admin \<and> (\<exists>v. send_campaign ids now admin client i s = (Inr v, s'))"
    using console_request_cases by blast
  then show ?case
    unfolding campaign_event_def using send_campaign_db by blast
next
  case (create_notification admin i now rq s r s')
  then show ?case using console_request_cases [OF create_notification] notice_effects(1) same_event by (metis audited_change_refl same_campaigns_refl)
next
  case (create_announcement admin i now rq s r s')
  then show ?case using console_request_cases [OF create_announcement] notice_effects(2) same_event by (metis audited_change_refl same_campaigns_refl)
next
  case (update_announcement admin i kws s r s')
  then show ?case using console_request_cases [OF update_announcement] notice_effects(3) same_event by (metis audited_change_refl same_campaigns_refl)
next
  case (update_customer admin now client i rq s r s')
  then show ?case using console_request_cases update_customer_effect same_event by blast
next
  case (impersonate_customer admin env now jti client i reason s r s')
  then show ?case using console_request_cases impersonate_customer_effect same_event by blast
next
  case (change_plan admin now client i plan reason org_id s r s')
  then show ?case using console_request_cases change_plan_effect same_event by blast
next
  case (email_customer admin env now client i subject body html s r s')
  then show ?case using console_request_cases mail_effects(2) same_event by blast
next
  case (deactivate admin env now client i reason s r s')
  then show ?case using console_request_cases deactivate_effect same_event by blast
qed

text \<open>A campaign that was not sent has no recipients.\<close>

definition is_sent :: "uuid \<Rightarrow> console \<Rightarrow> bool" where
  "is_sent i s = (\<exists>c. get_campaign_by_id s i = Some c \<and> cam_status c = ''sent'')"

definition campaigns_wf :: "console \<Rightarrow> bool" where
  "campaigns_wf s = (distinct (map cam_id (co_campaigns s)) \<and> (\<forall>i. \<not> is_sent i s \<longrightarrow> recipients_of i s = []))"

lemma campaign_id: "get_campaign_by_id s i = Some c \<Longrightarrow> cam_id c = i"
  by (auto simp: get_campaign_by_id_def dest: get_row_Some)

lemma campaign_saved:
  assumes "get_campaign_by_id s i = Some c" and "cam_id c' = i" and "co_campaigns s' = save_row cam_id c' (co_campaigns s)"
  shows "get_campaign_by_id s' j = (if j = i then Some c' else get_campaign_by_id s j)"
  using assms by (auto simp: get_campaign_by_id_def get_row_save)

lemma event_keeps:
  assumes "campaign_event s s'" and "campaigns_wf s"
  shows "campaigns_wf s' \<and> (\<forall>i. is_sent i s \<longrightarrow> is_sent i s' \<and> recipients_of i s' = recipients_of i s)"
  using assms(1) unfolding campaign_event_def
proof (elim disjE exE conjE)
  assume "same_campaigns s s'"
  then show ?thesis
    using assms(2) by (simp add: same_campaigns_def campaigns_wf_def is_sent_def get_campaign_by_id_def recipients_of_def)
next
  fix i now u rq v
  assume "i \<notin> cam_id ` set (co_campaigns s)" and "create_campaign i now u rq s = (Inr v, s')"
  then obtain c where c: "i \<notin> cam_id ` set (co_campaigns s)" "cam_id c = i" "cam_status c = ''draft''"
    "co_campaigns s' = co_campaigns s @ [c]" "co_recipients s' = co_recipients s"
    by (elim create_campaign_E) simp
  have "get_row cam_id j [c] = (if cam_id c = j then Some c else None)" for j
    by (simp add: get_row_def)
  then have "is_sent j s' = is_sent j s" for j
    using c by (auto simp: is_sent_def get_campaign_by_id_def get_row_append split: option.splits if_splits)
  then show ?thesis
    using assms(2) c by (simp add: campaigns_wf_def recipients_of_def)
next
  fix i rq v
  assume "update_campaign i (campaign_kwargs rq) s = (Inr v, s')"
  then obtain c where c: "get_campaign_by_id s i = Some c" "co_recipients s' = co_recipients s"
    "co_campaigns s' = save_row cam_id (set_fields put_campaign (campaign_kwargs rq) c) (co_campaigns s)"
    by (rule update_campaign_E)
  have "is_sent j s' = is_sent j s" for j
    using campaign_saved [OF c(1) _ c(3), of j] set_kwargs [of "campaign_kwargs rq" rq c] campaign_id [OF c(1)] c(1)
    by (auto simp: is_sent_def)
  then show ?thesis
    using assms(2) c by (simp add: campaigns_wf_def recipients_of_def)
next
  fix ids now admin client i v
  assume a: "send_campaign ids now admin client i s = (Inr v, s')"
  obtain c n where c: "get_campaign_by_id s i = Some c" "cam_status c \<noteq> ''sent''"
    "co_campaigns s' = save_row cam_id (sent_campaign c now n) (co_campaigns s)"
    "\<And>j. j \<noteq> i \<Longrightarrow> recipients_of j s' = recipients_of j s"
    using a by (cases v) (auto elim!: send_campaign_E)
  have "get_campaign_by_id s' j = (if j = i then Some (sent_campaign c now n) else get_campaign_by_id s j)" for j
    using campaign_saved [OF c(1) _ c(3), of j] campaign_id [OF c(1)] by (simp add: sent_campaign_def)
  then have sent: "is_sent j s' \<longleftrightarrow> j = i \<or> is_sent j s" for j
    by (simp add: is_sent_def sent_campaign_def)
  have "recipients_of j s' = recipients_of j s" if "is_sent j s" for j
    using c(1,2,4) that by (cases "j = i") (auto simp: is_sent_def)
  then show ?thesis
    using assms(2) c(3,4) sent by (auto simp: campaigns_wf_def)
qed

text \<open>The other parts of the program change everything but the campaigns.\<close>

inductive console_step :: "console \<Rightarrow> console \<Rightarrow> bool" where
  admin: "admin_step s s' \<Longrightarrow> console_step s s'"
| other: "same_campaigns s s' \<Longrightarrow> console_step s s'"

lemma steps_keep:
  "console_step\<^sup>*\<^sup>* s s' \<Longrightarrow> campaigns_wf s \<Longrightarrow> campaigns_wf s' \<and> (\<forall>i. is_sent i s \<longrightarrow> is_sent i s' \<and> recipients_of i s' = recipients_of i s)"
proof (induction rule: rtranclp_induct)
  case (step s' s'')
  have "campaign_event s' s''"
    using step(2) by cases (auto simp: step_effect same_event)
  then show ?case
    using step event_keeps by auto
qed simp

text \<open>
  C23: A campaign is sent once.  In every state reachable from one without campaigns, sending makes exactly
  the users active at that moment its recipients, and no mail goes out; whatever happens later the
  recipients stay and another attempt to send it is refused.
\<close>

theorem campaign_sent_once:
  assumes "co_campaigns s0 = []" and "co_recipients s0 = []" and "console_step\<^sup>*\<^sup>* s0 s"
    and "send_campaign ids now admin client i s = (Inr (msg, n), s1)" and "console_step\<^sup>*\<^sup>* s1 s2"
  shows "recipients_of i s2 = map (\<lambda>u. (Some (u_id u), u_email u)) (active_users (co_db s)) \<and> n = length (active_users (co_db s)) \<and>
    co_mails s1 = co_mails s \<and>
    send_campaign ids2 now2 admin2 client2 i s2 = (Inl (ValidationException ''Campaign has already been sent''), s2)"
proof -
  have "campaigns_wf s0"
    using assms(1,2) by (simp add: campaigns_wf_def recipients_of_def)
  then have wf: "campaigns_wf s"
    using steps_keep [OF assms(3)] by blast
  obtain c where c: "get_campaign_by_id s i = Some c" "cam_status c \<noteq> ''sent''" "n = length (active_users (co_db s))"
    "co_campaigns s1 = save_row cam_id (sent_campaign c now n) (co_campaigns s)"
    "recipients_of i s1 = recipients_of i s @ map (\<lambda>u. (Some (u_id u), u_email u)) (active_users (co_db s))" "co_mails s1 = co_mails s"
    using assms(4) by (rule send_campaign_E)
  have new: "recipients_of i s = []"
    using wf c(1,2) by (auto simp: campaigns_wf_def is_sent_def)
  have wf1: "campaigns_wf s1"
    using event_keeps [OF _ wf, of s1] assms(4) unfolding campaign_event_def by blast
  have "is_sent i s1"
    using campaign_saved [OF c(1) _ c(4), of i] campaign_id [OF c(1)] by (simp add: is_sent_def sent_campaign_def)
  then have "is_sent i s2" "recipients_of i s2 = recipients_of i s1"
    using steps_keep [OF assms(5) wf1] by blast+
  then show ?thesis
    using c(3,5,6) new by (auto simp: is_sent_def send_campaign_def with_campaign_def pure_step_def)
qed

text \<open>
  C15: The audit log is complete for the console: over any sequence of administrators' requests it only
  grows, and every user or organization whose row differs at the end is named by a new entry of a system
  administrator.
\<close>

theorem admin_changes_audited:
  assumes "admin_step\<^sup>*\<^sup>* s s'"
  shows "\<exists>entries. db_admin_audit (co_db s') = db_admin_audit (co_db s) @ entries \<and>
    (\<forall>i. user_get_by_id (co_db s') i \<noteq> user_get_by_id (co_db s) i \<or> org_get_by_id (co_db s') i \<noteq> org_get_by_id (co_db s) i \<longrightarrow>
      (\<exists>l \<in> set entries. names_row l i))"
proof -
  have "audited_change (co_db s) (co_db s')"
    using assms by (induction rule: rtranclp_induct) (auto intro: audited_change_trans dest: step_effect)
  then show ?thesis
    unfolding audited_change_def .
qed

section \<open>Impersonation\<close>

lemma map_of_replaced: "map_of (map (\<lambda>(k, v). if k = a then (a, b) else (k, v)) d) k = (if k = a \<and> a \<in> fst ` set d then Some b else map_of d k)"
proof (induction d)
  case (Cons x d)
  then show ?case
    by (cases "k = a"; cases "fst x = a") (simp_all add: case_prod_beta)
qed simp

lemma map_of_dict_set: "map_of (dict_set (a, b) d) k = (if k = a then Some b else map_of d k)"
proof (cases "a \<in> fst ` set d")
  case True
  then show ?thesis
    using map_of_replaced [of a b d k] by (simp add: dict_set_def)
next
  case False
  then have "map_of d a = None"
    by (simp add: map_of_eq_None_iff)
  then show ?thesis
    using False by (simp add: dict_set_def map_add_def split: option.splits)
qed

lemma dget_dict_set: "dget (dict_set (a, b) d) k = (if k = a then b else dget d k)"
  by (simp add: dget_def map_of_dict_set)

lemma customer_claims_type: "dget (fold dict_set (customer_claims a i reason) d) ''type'' = JStr ''impersonation''"
  by (simp add: customer_claims_def impersonation_claims_def dget_dict_set)

text \<open>
  C24: The token of an impersonation opens no route: it is refused as an access token and as a refresh token
  in every state and at every time, because its type is neither.  The hypothesis is that of the JWT
  library: a token decodes to the claims it was encoded from, or not at all.
\<close>

theorem impersonation_refused:
  assumes "\<forall>t d. sec_jwt_decode (cv_security env) t (sec_jwt_encode (cv_security env) d) \<in> {JwtClaims d, JwtExpired, JwtInvalid}"
    and "impersonate_customer env now jti admin client i reason s = (Inr reply, s')"
  shows "(\<exists>e. jwt_principal \<lparr>ae_now = later, ae_member = m, ae_security = cv_security env, ae_isoformat = iso_text\<rparr> a (cim_token reply) st =
      Inl (UnauthorizedException e)) \<and>
    (\<exists>e. refresh_checks (cv_security env) later (cim_token reply) a = Inl (UnauthorizedException e))"
proof -
  let ?sec = "cv_security env"
  let ?claims = "customer_claims (u_id admin) i reason"
  obtain token where token: "expiring_token ?sec now (create_access_token ?sec now jti (uuid_str i) ?claims) = Inr token" "cim_token reply = token"
    using assms(2) by (auto simp: impersonate_customer_def split: option.splits if_splits elim!: and_then_E)
  define base where "base = fold dict_set ?claims (base_token_payload now jti (uuid_str i) (now + minutes (sec_access_minutes ?sec)) ''access'')"
  obtain payload where "sec_jwt_decode ?sec now (sec_jwt_encode ?sec base) = JwtClaims payload"
    and enc: "token = sec_jwt_encode ?sec (dict_set (''exp'', JInt ((now + minutes IMPERSONATION_TOKEN_TTL_MINUTES) div 1000000)) payload)"
    using token(1) by (auto simp: expiring_token_def create_access_token_def base_def split: jwt_outcome.splits)
  then have "payload = base"
    using assms(1) by (metis insertE jwt_outcome.distinct(1,3) jwt_outcome.inject singletonD)
  then have ty: "dget (dict_set (''exp'', x) payload) ''type'' = JStr ''impersonation''" for x
    by (simp add: dget_dict_set base_def customer_claims_type)
  have "sec_jwt_decode ?sec later token \<in> {JwtClaims (dict_set (''exp'', JInt ((now + minutes IMPERSONATION_TOKEN_TTL_MINUTES) div 1000000)) payload), JwtExpired, JwtInvalid}"
    using assms(1) enc by simp
  then show ?thesis
    using token(2) ty by (auto simp: jwt_principal_def refresh_checks_def decode_token_def)
qed

section \<open>Tickets\<close>

lemma length_uuid_str: "length (uuid_str i) = 36"
  by (simp add: uuid_str_def Let_def)

lemma length_join: "length (join '','' (map uuid_str (i # is))) = 36 + 37 * length is"
  by (induction "is" arbitrary: i) (simp_all add: length_uuid_str)

definition found :: "console \<Rightarrow> uuid list \<Rightarrow> uuid list" where
  "found s tids = filter (\<lambda>i. get_ticket_by_id s i \<noteq> None) tids"

definition changed_in :: "time \<Rightarrow> ticket_field list \<Rightarrow> uuid set \<Rightarrow> feedback_ticket \<Rightarrow> feedback_ticket" where
  "changed_in now kws tids t = (if fbt_id t \<in> tids then changed_ticket now t kws else t)"

lemma set_ticket_id [simp]: "fbt_id (set_fields put_ticket kws t) = fbt_id t"
proof -
  have "fbt_id (put_ticket k t) = fbt_id t" for k t
    by (cases k) auto
  then show ?thesis
    unfolding set_fields_def by (induction kws arbitrary: t) auto
qed

lemma changed_ticket_id [simp]: "fbt_id (changed_ticket now t kws) = fbt_id t"
  by (simp add: changed_ticket_def Let_def)

lemma changed_assigned:
  assumes "\<forall>i. TfAssignedTo i \<notin> set kws"
  shows "fbt_assigned_to (changed_ticket now t kws) = fbt_assigned_to t"
proof -
  have "fbt_assigned_to (set_fields put_ticket kws t) = fbt_assigned_to t"
    using assms unfolding set_fields_def
  proof (induction kws arbitrary: t)
    case (Cons k kws)
    then show ?case by (cases k) auto
  qed simp
  then show ?thesis
    by (simp add: changed_ticket_def Let_def)
qed

lemma changed_in_Nil [simp]: "changed_in now kws {} = id"
  by (simp add: changed_in_def fun_eq_iff)

lemma get_ticket_mapped:
  assumes "fbt_id t = i" and "t \<in> set (co_tickets s)" and "distinct (map fbt_id (co_tickets s))"
  shows "get_ticket_by_id s i = Some t"
  using assms by (auto simp: get_ticket_by_id_def get_row_distinct)

lemma save_changed:
  assumes "get_ticket_by_id s i = Some t" and "distinct (map fbt_id (co_tickets s))"
  shows "save_row fbt_id (changed_ticket now t kws) (co_tickets s) = map (changed_in now kws {i}) (co_tickets s)"
proof -
  have t: "t \<in> set (co_tickets s)" "fbt_id t = i"
    using assms(1) by (auto simp: get_ticket_by_id_def dest: get_row_Some)
  have "x = t" if "x \<in> set (co_tickets s)" "fbt_id x = i" for x
    using get_row_distinct [OF assms(2) that(1)] get_row_distinct [OF assms(2) t(1)] that(2) t(2) by simp
  then have "(if fbt_id x = fbt_id (changed_ticket now t kws) then changed_ticket now t kws else x) = changed_in now kws {i} x"
    if "x \<in> set (co_tickets s)" for x
    using that t(2) by (cases "fbt_id x = i") (simp_all add: changed_in_def)
  then show ?thesis
    unfolding save_row_def by (intro map_cong) simp_all
qed

lemma bulk_loop_exact:
  assumes "distinct (map fbt_id (co_tickets s))" and "distinct tids" and "\<forall>i. TfAssignedTo i \<notin> set kws"
    and "\<forall>t \<in> set (co_tickets s). fbt_id t \<in> set tids \<longrightarrow> ticket_fits (changed_ticket now t kws)"
    and "\<forall>t \<in> set (co_tickets s). \<forall>i. fbt_assigned_to t = Some i \<longrightarrow> i \<in> u_id ` set (db_users (co_db s))"
  shows "bulk_loop now kws tids n s = (Inr (n + length (found s tids)), s\<lparr>co_tickets := map (changed_in now kws (set tids)) (co_tickets s)\<rparr>)"
  using assms
proof (induction tids arbitrary: n s)
  case (Cons tid tids)
  show ?case
  proof (cases "get_ticket_by_id s tid")
    case None
    then have "\<forall>t \<in> set (co_tickets s). fbt_id t \<noteq> tid"
      by (auto simp: get_ticket_by_id_def get_row_None)
    then have "map (changed_in now kws (set (tid # tids))) (co_tickets s) = map (changed_in now kws (set tids)) (co_tickets s)"
      by (auto simp: changed_in_def)
    then show ?thesis
      using None Cons.IH [of s n] Cons.prems by (simp add: found_def)
  next
    case (Some t)
    have t: "t \<in> set (co_tickets s)" "fbt_id t = tid"
      using Some by (auto simp: get_ticket_by_id_def dest: get_row_Some)
    let ?s = "s\<lparr>co_tickets := map (changed_in now kws {tid}) (co_tickets s)\<rparr>"
    have step: "repo_update_ticket now t kws s = (Inr (changed_ticket now t kws), ?s)"
      using t Cons.prems(3-5) changed_assigned [OF Cons.prems(3)] save_changed [OF Some Cons.prems(1)]
      by (auto simp: repo_update_ticket_def Let_def)
    have ids: "fbt_id (changed_in now kws A x) = fbt_id x" for A x
      by (simp add: changed_in_def)
    have keys: "map fbt_id (co_tickets ?s) = map fbt_id (co_tickets s)"
      by (simp add: ids comp_def)
    then have rows: "(get_ticket_by_id ?s j \<noteq> None) = (get_ticket_by_id s j \<noteq> None)" for j
      by (auto simp: get_ticket_by_id_def get_row_None image_image ids)
    have both: "map (changed_in now kws (set tids)) (map (changed_in now kws {tid}) (co_tickets s)) =
        map (changed_in now kws (set (tid # tids))) (co_tickets s)"
      using Cons.prems(2) by (auto simp: changed_in_def)
    have "bulk_loop now kws tids (n + 1) ?s =
        (Inr (n + 1 + length (found ?s tids)), ?s\<lparr>co_tickets := map (changed_in now kws (set tids)) (co_tickets ?s)\<rparr>)"
    proof (rule Cons.IH)
      show "distinct (map fbt_id (co_tickets ?s))"
        using Cons.prems(1) keys by metis
    qed (use Cons.prems changed_assigned [OF Cons.prems(3)] in \<open>auto simp: changed_in_def split: if_splits\<close>)
    moreover have "found ?s tids = found s tids"
      unfolding found_def using rows by (intro filter_cong) auto
    ultimately show ?thesis
      using Some step both by (simp add: and_then_def found_def)
  qed
qed (simp add: found_def)

lemma bulk_loop_count: "bulk_loop now kws tids n s = (Inr m, s1) \<Longrightarrow> n \<le> m \<and> (found s tids \<noteq> [] \<longrightarrow> n < m)"
proof (induction tids arbitrary: n s)
  case (Cons tid tids)
  show ?case
  proof (cases "get_ticket_by_id s tid")
    case None
    then show ?thesis
      using Cons by (simp add: found_def)
  next
    case (Some t)
    then obtain s2 where "bulk_loop now kws tids (n + 1) s2 = (Inr m, s1)"
      using Cons.prems by (auto elim!: and_then_E)
    then show ?thesis
      using Cons.IH [of "n + 1" s2] by auto
  qed
qed (simp add: found_def)

lemma bulk_loop_none: "found s tids = [] \<Longrightarrow> bulk_loop now kws tids n s = (Inr n, s)"
  by (induction tids) (auto simp: found_def split: if_splits)

lemma serialize_uuid: "(k, DvUuid i) \<in> set ds \<Longrightarrow> serialize ds = None"
  by (induction ds rule: serialize.induct) auto

lemma serialize_plain: "\<forall>i. TfAssignedTo i \<notin> set kws \<Longrightarrow> \<exists>js. serialize (map ticket_detail kws) = Some js"
proof (induction kws)
  case (Cons k kws)
  then show ?case by (cases k) auto
qed simp

lemma bulk_assigned: "TfAssignedTo i \<in> set (bulk_fields rq) \<longleftrightarrow> bkr_assigned_to rq = Some i"
  by (auto simp: bulk_fields_def split: option.splits)

lemma bulk_log_fails:
  assumes "bkr_assigned_to rq \<noteq> None \<or> length (bkr_ticket_ids rq) > 6"
  shows "log_action now admin client \<lparr>aud_action = ''bulk_update_tickets'', aud_entity_type = ''feedback_ticket'',
      aud_entity_id = join '','' (map uuid_str (bkr_ticket_ids rq)), aud_details = Some (map ticket_detail (bulk_fields rq))\<rparr> s =
    (Inl (ValueError ''PendingRollbackError''), s)"
proof (cases "serialize (map ticket_detail (bulk_fields rq))")
  case None
  then show ?thesis
    by (simp add: log_action_def audit_insert_def)
next
  case (Some js)
  have "bkr_assigned_to rq = None"
  proof (rule ccontr)
    assume "bkr_assigned_to rq \<noteq> None"
    then obtain i where "TfAssignedTo i \<in> set (bulk_fields rq)"
      using bulk_assigned by blast
    then have "(''assigned_to'', DvUuid i) \<in> set (map ticket_detail (bulk_fields rq))"
      by (force simp: image_iff)
    then show False
      using Some serialize_uuid by fastforce
  qed
  then obtain i "is" where "bkr_ticket_ids rq = i # is" "length is > 5"
    using assms by (cases "bkr_ticket_ids rq") auto
  then have "length (join '','' (map uuid_str (bkr_ticket_ids rq))) > 255"
    using length_join [of i "is"] by simp
  then show ?thesis
    using Some by (simp add: log_action_def audit_insert_def)
qed

text \<open>
  C25: A bulk update of tickets answers a count and changes nothing when none of the tickets exists; it
  fails and changes nothing when it assigns them or names more than six, because its audit entry cannot
  be stored; otherwise it changes exactly the named tickets and counts them.
\<close>

theorem bulk_update_exact:
  assumes "distinct (map fbt_id (co_tickets s))" and "distinct (bkr_ticket_ids rq)"
    and "\<forall>t \<in> set (co_tickets s). fbt_id t \<in> set (bkr_ticket_ids rq) \<longrightarrow> ticket_fits (changed_ticket now t (bulk_fields rq))"
    and "\<forall>t \<in> set (co_tickets s). \<forall>i. fbt_assigned_to t = Some i \<longrightarrow> i \<in> u_id ` set (db_users (co_db s))"
  shows "case with_session (bulk_update_tickets now admin client rq) s of (r, s') \<Rightarrow>
    if found s (bkr_ticket_ids rq) = [] then r = Inr (0, ''Updated 0 tickets'') \<and> s' = s
    else if bkr_assigned_to rq \<noteq> None \<or> length (bkr_ticket_ids rq) > 6 then (\<exists>e. r = Inl e) \<and> s' = s
    else (let n = length (found s (bkr_ticket_ids rq)) in r = Inr (n, ''Updated '' @ show_nat n @ '' tickets'') \<and>
      co_tickets s' = map (changed_in now (bulk_fields rq) (set (bkr_ticket_ids rq))) (co_tickets s))"
proof (cases "found s (bkr_ticket_ids rq) = []")
  case True
  have "show_nat 0 = ''0''"
    by (simp add: show_nat.simps digit_char_def char_of_def bit_0)
  then show ?thesis
    using True bulk_loop_none [OF True, of now "bulk_fields rq" 0]
    by (simp add: with_session_def bulk_update_tickets_def and_then_def pure_step_def)
next
  case some: False
  show ?thesis
  proof (cases "bkr_assigned_to rq \<noteq> None \<or> length (bkr_ticket_ids rq) > 6")
    case True
    have "\<exists>e. fst (bulk_update_tickets now admin client rq s) = Inl e"
    proof (cases "bulk_loop now (bulk_fields rq) (bkr_ticket_ids rq) 0 s")
      case (Pair r s1)
      then show ?thesis
        using bulk_loop_count [of now "bulk_fields rq" "bkr_ticket_ids rq" 0 s] some bulk_log_fails [OF True]
        by (cases r) (auto simp: bulk_update_tickets_def and_then_def)
    qed
    then show ?thesis
      using True some by (auto simp: with_session_def split: prod.splits sum.splits)
  next
    case False
    let ?s = "s\<lparr>co_tickets := map (changed_in now (bulk_fields rq) (set (bkr_ticket_ids rq))) (co_tickets s)\<rparr>"
    have plain: "\<forall>i. TfAssignedTo i \<notin> set (bulk_fields rq)"
      using False bulk_assigned by simp
    have "length (join '','' (map uuid_str (bkr_ticket_ids rq))) \<le> 255"
      using False length_join by (cases "bkr_ticket_ids rq") auto
    then have "fst (log_action now admin client \<lparr>aud_action = ''bulk_update_tickets'', aud_entity_type = ''feedback_ticket'',
        aud_entity_id = join '','' (map uuid_str (bkr_ticket_ids rq)), aud_details = Some (map ticket_detail (bulk_fields rq))\<rparr> ?s) = Inr ()"
      using serialize_plain [OF plain] by (auto simp: log_action_def audit_insert_def)
    then obtain s2 where log: "log_action now admin client \<lparr>aud_action = ''bulk_update_tickets'', aud_entity_type = ''feedback_ticket'',
        aud_entity_id = join '','' (map uuid_str (bkr_ticket_ids rq)), aud_details = Some (map ticket_detail (bulk_fields rq))\<rparr> ?s = (Inr (), s2)"
      by (metis prod.collapse)
    then have "co_tickets s2 = co_tickets ?s"
      by (auto elim!: log_action_E)
    then show ?thesis
      using bulk_loop_exact [OF assms(1,2) plain assms(3,4), of 0] log some False
      by (simp add: with_session_def bulk_update_tickets_def and_then_def pure_step_def Let_def)
  qed
qed

text \<open>The answer to the creation of a ticket cannot be built, so no ticket is ever stored.\<close>

theorem tickets_never_created:
  assumes "\<And>t. cv_metadata env t = None"
  shows "\<exists>e. with_session (create_ticket env i rnd now rq user_id) s = (Inl e, s)"
proof (cases "create_ticket env i rnd now rq user_id s")
  case (Pair r s')
  then obtain e where "r = Inl e"
    using assms by (cases r) (auto simp: create_ticket_def ticket_response_def elim!: and_then_E)
  then show ?thesis
    using Pair by (simp add: with_session_def)
qed

section \<open>Aggregates\<close>

lemma sum_counts:
  assumes "finite A" and "key ` set rows \<subseteq> A"
  shows "(\<Sum>k \<in> A. f k * int (length (filter (\<lambda>r. key r = k) rows))) = sum_list (map (\<lambda>r. f (key r)) rows)"
  using assms(2)
proof (induction rows)
  case (Cons r rows)
  have "f k * int (length (filter (\<lambda>x. key x = k) (r # rows))) =
      (if key r = k then f k else 0) + f k * int (length (filter (\<lambda>x. key x = k) rows))" for k
    by (simp add: algebra_simps)
  then show ?case
    using Cons assms(1) by (simp add: sum.distrib sum.delta' del: filter.simps)
qed simp

lemma sum_by_key:
  "sum_list (map (\<lambda>(k, cnt). f k * int cnt) (count_by key rows)) = sum_list (map (\<lambda>r. f (key r)) rows)"
proof -
  have "sum_list (map (\<lambda>(k, cnt). f k * int cnt) (count_by key rows)) =
      sum_list (map (\<lambda>k. f k * int (length (filter (\<lambda>r. key r = k) rows))) (remdups (map key rows)))"
    by (simp add: count_by_def comp_def)
  also have "\<dots> = (\<Sum>k \<in> key ` set rows. f k * int (length (filter (\<lambda>r. key r = k) rows)))"
    by (subst sum_list_distinct_conv_sum_set) simp_all
  finally show ?thesis
    using sum_counts [of "key ` set rows" key rows f] by simp
qed

text \<open>The recurring revenue is the sum of the prices of the active subscriptions.\<close>

theorem mrr_by_subscription: "mrr s = sum_list (map (\<lambda>x. get_plan_price_usd (s_plan x)) (active_subscriptions s))"
  unfolding mrr_def by (rule sum_by_key)

text \<open>The attention list is in order of rank and count, and its three counters add up to its length.\<close>

theorem attention_ranked:
  "sorted (map attention_key (atr_items (get_attention env now s))) \<and>
   atr_critical_count (get_attention env now s) + atr_high_count (get_attention env now s) + atr_normal_count (get_attention env now s) =
     length (atr_items (get_attention env now s))"
proof -
  have split: "\<forall>i \<in> set xs. att_priority i \<in> {''critical'', ''high'', ''normal''} \<Longrightarrow>
      with_priority ''critical'' xs + with_priority ''high'' xs + with_priority ''normal'' xs = length xs" for xs
    unfolding with_priority_def by (induction xs) auto
  have raised: "att_priority i = p" if "i \<in> set (attention_when m ty p title description resource href)" for i m ty p title description resource href
    using that by (auto simp: attention_when_def split: if_splits)
  have checks: "att_priority i = ''critical''" if "i \<in> set (health_items checks)" for i checks
    using that by (auto simp: health_items_def)
  have engines: "att_priority i = ''critical''" if "i \<in> set (engine_items engines)" for i engines
    using that by (auto simp: engine_items_def)
  have "att_priority i \<in> {''critical'', ''high'', ''normal''}" if "i \<in> set (raised_items n checks engines s)" for i n checks engines
    using that unfolding raised_items_def by (auto dest!: raised checks engines split: if_splits)
  then show ?thesis
    using split by (simp add: get_attention_def collect_attention_items_def Let_def)
qed

section \<open>Examples\<close>

definition demo_admin :: user where
  "demo_admin = \<lparr>u_id = 1, u_email = ''r@x.y'', u_password_hash = [], u_full_name = ''R'', u_is_active = True,
     u_is_email_verified = True, u_is_superuser = False, u_google_id = None, u_github_id = None,
     u_avatar_url = None, u_auth_provider = None, u_external_auth_id = None, u_is_system_admin = True,
     u_admin_note = None, u_source = None, u_last_login_at = None, u_last_activity_at = None, u_login_count = 0,
     u_created_at = 0\<rparr>"

definition demo_member :: user where
  "demo_member = demo_admin\<lparr>u_id := 2, u_email := ''m@x.y'', u_full_name := ''M'', u_is_system_admin := False\<rparr>"

definition demo_client :: http_client where
  "demo_client = \<lparr>hc_host = None, hc_user_agent = None\<rparr>"

definition demo_ticket :: feedback_ticket where
  "demo_ticket = \<lparr>fbt_id = 3, fbt_ticket_number = ''FB-1'', fbt_user_id = None, fbt_email = ''m@x.y'', fbt_full_name = None,
     fbt_category = ''general'', fbt_subject = ''S'', fbt_body = ''B'', fbt_priority = ''normal'', fbt_status = ''open'', fbt_source = None,
     fbt_assigned_to = None, fbt_resolution = None, fbt_created_at = 0, fbt_resolved_at = None\<rparr>"

definition demo_console :: console where
  "demo_console = \<lparr>co_monitor = empty_monitor\<lparr>mo_db := empty_db\<lparr>db_users := [demo_admin, demo_member]\<rparr>\<rparr>, co_plan_changes = [],
     co_activity = [], co_tickets = [demo_ticket], co_messages = [], co_campaigns = [], co_recipients = [], co_notifications = [],
     co_deliveries = [], co_announcements = [], co_dismissals = [], co_alerts = [], co_errors = [], co_mails = []\<rparr>"

definition demo_campaign :: campaign_request where
  "demo_campaign = \<lparr>cmr_campaign_name = ''N'', cmr_subject = ''S'', cmr_body_html = ''B'', cmr_body_text = None, cmr_segment = Some ''paid'',
     cmr_utm_campaign = None, cmr_scheduled_at = None\<rparr>"

lemma demo_console_users: "db_users (co_db demo_console) = [demo_admin, demo_member]"
  by (simp add: co_db_def demo_console_def)

lemma demo_campaign_created:
  "\<exists>c s. create_campaign 7 0 1 demo_campaign demo_console = (Inr c, s) \<and> admin_step demo_console s \<and>
     s = demo_console\<lparr>co_campaigns := [c]\<rparr> \<and> cam_id c = 7 \<and> cam_status c = ''draft'' \<and> campaign_fits c"
proof -
  obtain c s where c: "create_campaign 7 0 1 demo_campaign demo_console = (Inr c, s)" "cam_id c = 7" "cam_status c = ''draft''"
    "s = demo_console\<lparr>co_campaigns := [c]\<rparr>" "campaign_fits c"
    by (simp add: create_campaign_def repo_create_campaign_def campaign_fits_def demo_campaign_def opt_len_def demo_console_def)
  have "console_request demo_admin (create_campaign 7 0 (u_id demo_admin) demo_campaign) demo_console = (Inr c, s)"
    using c(1) by (simp add: console_request_def require_system_admin_def with_session_def demo_admin_def)
  then have "admin_step demo_console s"
    by (rule admin_step.create_campaign [rotated]) (simp add: demo_console_def)
  then show ?thesis
    using c by blast
qed

lemma demo_send:
  assumes "s = demo_console\<lparr>co_campaigns := [c]\<rparr>" and "cam_id c = 7" and "cam_status c = ''draft''" and "campaign_fits c"
  shows "\<exists>msg n s'. send_campaign ((+) 8) 1 demo_admin demo_client 7 s = (Inr (msg, n), s')"
proof -
  have row: "get_campaign_by_id s 7 = Some c"
    using assms by (simp add: get_campaign_by_id_def get_row_def)
  obtain m s1 where m: "add_recipients ((+) 8) 1 7 (active_users (co_db s)) 0 s = (m, s1)"
    by (cases "add_recipients ((+) 8) 1 7 (active_users (co_db s)) 0 s")
  have fits: "campaign_fits (set_fields put_campaign [CfStatus ''sent'', CfRecipientCount (int m), CfSentAt 1] c)"
    using assms(4) by (simp add: campaign_fits_def set_fields_def)
  show ?thesis
    using m row fits assms(3) by (auto simp: send_campaign_def with_campaign_def active_users_def and_then_def repo_update_campaign_def
        Let_def log_action_def audit_insert_def count_detail_def length_uuid_str pure_step_def)
qed

theorem campaign_sent_once_witness:
  "\<exists>s1. recipients_of 7 s1 = [(Some 1, ''r@x.y''), (Some 2, ''m@x.y'')] \<and> co_mails s1 = [] \<and>
     send_campaign ((+) 8) 2 demo_admin demo_client 7 s1 = (Inl (ValidationException ''Campaign has already been sent''), s1)"
proof -
  obtain c s where c: "admin_step demo_console s" "s = demo_console\<lparr>co_campaigns := [c]\<rparr>" "cam_id c = 7" "cam_status c = ''draft''" "campaign_fits c"
    using demo_campaign_created by blast
  then obtain msg n s1 where sent: "send_campaign ((+) 8) 1 demo_admin demo_client 7 s = (Inr (msg, n), s1)"
    using demo_send by blast
  have steps: "console_step\<^sup>*\<^sup>* demo_console s"
    using c(1) by (blast intro: console_step.admin)
  have "co_campaigns demo_console = []" "co_recipients demo_console = []" "co_mails s = []"
    using c(2) by (simp_all add: demo_console_def)
  moreover have "active_users (co_db s) = [demo_admin, demo_member]"
    using c(2) by (simp add: active_users_def demo_console_users) (simp add: demo_admin_def demo_member_def)
  ultimately show ?thesis
    using campaign_sent_once [OF _ _ steps sent rtranclp.rtrancl_refl, of "(+) 8" 2 demo_admin demo_client]
    by (auto simp: demo_admin_def demo_member_def)
qed

lemma update_user_succeeds:
  assumes "user_get_by_id (co_db s) i = Some u" and "length (u_full_name (set_fields put_admin kws u)) \<le> 150"
    and "opt_len 50 (u_source (set_fields put_admin kws u))" and "\<exists>js. serialize (map field_detail kws) = Some js"
  shows "\<exists>v s'. update_user now admin client i kws s = (Inr v, s') \<and>
    user_get_by_id (co_db s') i = user_get_by_id (save_user (set_fields put_admin kws u) (co_db s)) i"
proof -
  let ?r = "set_fields put_admin kws u"
  let ?e = "\<lparr>aud_action = ''update_user'', aud_entity_type = ''user'', aud_entity_id = uuid_str i, aud_details = Some (map field_detail kws)\<rparr>"
  have row: "on_console_db (admin_update u kws) s = (Inr ?r, put_db (save_user ?r (co_db s)) s)"
    using assms(2,3) by (simp add: on_console_db_def admin_update_def Let_def)
  have "fst (log_action now admin client ?e (put_db (save_user ?r (co_db s)) s)) = Inr ()"
    using assms(4) by (auto simp: log_action_def audit_insert_def length_uuid_str)
  then obtain s2 where log: "log_action now admin client ?e (put_db (save_user ?r (co_db s)) s) = (Inr (), s2)"
    by (metis prod.collapse)
  then have "user_get_by_id (co_db s2) i = user_get_by_id (save_user ?r (co_db s)) i"
    by (elim log_action_E) (simp add: user_get_by_id_def)
  then show ?thesis
    using assms(1) row log by (simp add: update_user_def and_then_def)
qed

lemma demo_member_row: "user_get_by_id (co_db demo_console) 2 = Some demo_member"
  by (simp add: user_get_by_id_def demo_console_users get_row_def) (simp add: demo_admin_def demo_member_def)

lemma demo_deactivated: "user_get_by_id (save_user (demo_member\<lparr>u_is_active := False\<rparr>) (co_db demo_console)) 2 = Some (demo_member\<lparr>u_is_active := False\<rparr>)"
  by (simp add: user_get_by_id_def save_user_def demo_console_users get_row_def save_row_def) (simp add: demo_admin_def demo_member_def)

theorem admin_changes_audited_witness:
  "\<exists>s'. admin_step\<^sup>*\<^sup>* demo_console s' \<and> user_get_by_id (co_db s') 2 \<noteq> user_get_by_id (co_db demo_console) 2 \<and>
     (\<exists>l \<in> set (db_admin_audit (co_db s')). names_row l 2)"
proof -
  let ?r = "demo_member\<lparr>u_is_active := False\<rparr>"
  have fields: "set_fields put_admin [AfIsActive False] demo_member = ?r"
    by (simp add: set_fields_def)
  have sizes: "length (u_full_name ?r) \<le> 150" "opt_len 50 (u_source ?r)" "?r \<noteq> demo_member"
    by (simp_all add: demo_admin_def demo_member_def opt_len_def)
  obtain v s' where v: "update_user 1 demo_admin demo_client 2 [AfIsActive False] demo_console = (Inr v, s')"
    and row: "user_get_by_id (co_db s') 2 = Some ?r"
    using update_user_succeeds [OF demo_member_row, of "[AfIsActive False]" 1 demo_admin demo_client] fields sizes demo_deactivated by auto
  have "console_request demo_admin (update_user 1 demo_admin demo_client 2 [AfIsActive False]) demo_console = (Inr v, s')"
    using v by (simp add: console_request_def require_system_admin_def with_session_def demo_admin_def)
  then have steps: "admin_step\<^sup>*\<^sup>* demo_console s'"
    by (blast intro: admin_step.update_user)
  moreover have "user_get_by_id (co_db s') 2 \<noteq> user_get_by_id (co_db demo_console) 2"
    using row sizes(3) demo_member_row by simp
  moreover have "db_admin_audit (co_db demo_console) = []"
    by (simp add: co_db_def demo_console_def empty_db_def)
  ultimately show ?thesis
    using admin_changes_audited [OF steps] by auto
qed

definition demo_bulk :: bulk_request where
  "demo_bulk = \<lparr>bkr_ticket_ids = [3], bkr_status = Some ''resolved'', bkr_priority = None, bkr_assigned_to = None\<rparr>"

lemma demo_bulk_row: "get_ticket_by_id demo_console 3 = Some demo_ticket"
  by (simp add: demo_console_def demo_ticket_def get_ticket_by_id_def get_row_def)

lemma demo_bulk_fields: "bulk_fields demo_bulk = [TfStatus ''resolved'']"
  by (simp add: bulk_fields_def demo_bulk_def str_truthy_def)

lemma demo_bulk_change: "changed_ticket 5 demo_ticket [TfStatus ''resolved''] = demo_ticket\<lparr>fbt_status := ''resolved'', fbt_resolved_at := Some 5\<rparr>"
  by (simp add: changed_ticket_def Let_def set_fields_def) (simp add: demo_ticket_def)

theorem bulk_update_exact_witness:
  "\<exists>s'. with_session (bulk_update_tickets 5 demo_admin demo_client demo_bulk) demo_console = (Inr (1, ''Updated 1 tickets''), s') \<and>
     map fbt_status (co_tickets s') = [''resolved''] \<and> map fbt_resolved_at (co_tickets s') = [Some 5]"
proof -
  have tickets: "co_tickets demo_console = [demo_ticket]" "fbt_id demo_ticket = 3" "fbt_assigned_to demo_ticket = None"
    by (simp_all add: demo_console_def demo_ticket_def)
  have ids: "bkr_ticket_ids demo_bulk = [3]" "bkr_assigned_to demo_bulk = None"
    by (simp_all add: demo_bulk_def)
  have fits: "ticket_fits (demo_ticket\<lparr>fbt_status := ''resolved'', fbt_resolved_at := Some 5\<rparr>)"
    by (simp add: demo_ticket_def ticket_fits_def opt_len_def)
  have "found demo_console [3] = [3]"
    by (simp add: found_def demo_bulk_row)
  moreover have "show_nat (Suc 0) = ''1''"
    by (simp add: show_nat.simps digit_char_def char_of_def bit_0)
  ultimately show ?thesis
    using bulk_update_exact [of demo_console demo_bulk 5 demo_admin demo_client]
    by (simp add: tickets ids fits demo_bulk_fields demo_bulk_change changed_in_def split: prod.splits)
qed

section \<open>An impersonation\<close>

definition demo_token_claims :: "(string \<times> json) list" where
  "demo_token_claims = fold dict_set (customer_claims 1 2 ''help'') (base_token_payload 0 ''j'' (uuid_str 2) (minutes 30) ''access'')"

definition demo_short_claims :: "(string \<times> json) list" where
  "demo_short_claims = dict_set (''exp'', JInt (minutes IMPERSONATION_TOKEN_TTL_MINUTES div 1000000)) demo_token_claims"

definition demo_tokens :: security where
  "demo_tokens = \<lparr>sec_sha256 = id, sec_hashpw = (\<lambda>_ _. None), sec_checkpw = (\<lambda>_ _. None),
     sec_jwt_encode = (\<lambda>d. if d = demo_token_claims then ''p0'' else if d = demo_short_claims then ''p1'' else ''x''),
     sec_jwt_decode = (\<lambda>_ x. if x = ''p0'' then JwtClaims demo_token_claims else if x = ''p1'' then JwtClaims demo_short_claims else JwtInvalid),
     sec_access_minutes = 30, sec_refresh_days = 7\<rparr>"

definition demo_console_env :: console_env where
  "demo_console_env = \<lparr>cv_security = demo_tokens, cv_mailer = (\<lambda>_. True), cv_iso = (\<lambda>_. []), cv_metadata = (\<lambda>_. None),
     cv_database = None, cv_redis_up = True\<rparr>"

lemma demo_impersonation:
  "\<exists>reply s'. impersonate_customer demo_console_env 0 ''j'' demo_admin demo_client 2 ''help'' demo_console = (Inr reply, s')"
proof -
  have token: "create_access_token demo_tokens 0 ''j'' (uuid_str 2) (customer_claims 1 2 ''help'') = ''p0''"
    by (simp add: create_access_token_def demo_tokens_def demo_token_claims_def)
  have "demo_short_claims \<noteq> demo_token_claims"
  proof
    assume "demo_short_claims = demo_token_claims"
    then have "dget demo_short_claims ''exp'' = dget demo_token_claims ''exp''"
      by simp
    then show False
      by (simp add: demo_short_claims_def demo_token_claims_def dget_dict_set customer_claims_def impersonation_claims_def base_token_payload_def dget_def
          map_of_dict_set IMPERSONATION_TOKEN_TTL_MINUTES_def minutes_def seconds_def)
  qed
  then have "expiring_token demo_tokens 0 ''p0'' = Inr ''p1''"
    by (simp add: expiring_token_def demo_short_claims_def [symmetric]) (simp add: demo_tokens_def demo_short_claims_def)
  moreover have "u_is_active demo_member" "u_id demo_admin = 1" "strip ''help'' = ''help''"
    by (simp_all add: demo_admin_def demo_member_def) code_simp
  ultimately show ?thesis
    using demo_member_row token by (simp add: impersonate_customer_def demo_console_env_def and_then_def pure_step_def log_action_def audit_insert_def
        reason_detail_def length_uuid_str)
qed

theorem impersonation_refused_witness:
  "\<exists>reply s'. impersonate_customer demo_console_env 0 ''j'' demo_admin demo_client 2 ''help'' demo_console = (Inr reply, s') \<and>
     (\<exists>e. refresh_checks demo_tokens 60000000 (cim_token reply)
       \<lparr>au_db = empty_db, au_refresh = [], au_email_tokens = [], au_reset_tokens = [], au_api_keys = []\<rparr> = Inl (UnauthorizedException e))"
proof -
  obtain reply s' where r: "impersonate_customer demo_console_env 0 ''j'' demo_admin demo_client 2 ''help'' demo_console = (Inr reply, s')"
    using demo_impersonation by blast
  have "\<forall>t d. sec_jwt_decode (cv_security demo_console_env) t (sec_jwt_encode (cv_security demo_console_env) d) \<in> {JwtClaims d, JwtExpired, JwtInvalid}"
    by (auto simp: demo_console_env_def demo_tokens_def)
  from impersonation_refused [OF this r, of 60000000] r show ?thesis
    by (auto simp: demo_console_env_def)
qed

end
