(* ===== verification/AI_Providers.thy ===== *)
theory AI_Providers
  imports Sessions Ssrf Complex_Main
begin

text \<open>
  \<^verbatim>\<open>modules/ai_integration\<close>: the AI providers an organization configures, and the explanations of
  evidence they are asked for.  Outside the repository, and the fields of \<^verbatim>\<open>ai_env\<close>: the answers of the
  name service, the Fernet cipher of \<^verbatim>\<open>core/security.py\<close> (its random part is an argument) and the
  replies of the providers, which may depend on everything posted before.  The posts are part of the
  state, as they cannot be rolled back.
\<close>

section \<open>Tables\<close>

record ai_provider =
  apv_id :: uuid
  apv_organization_id :: uuid
  apv_name :: string
  apv_provider_type :: string
  apv_endpoint_url :: string
  apv_encrypted_api_key :: "string option"
  apv_model_name :: string
  apv_is_default :: bool
  apv_max_tokens :: int
  apv_temperature :: real
  apv_enabled :: bool
  apv_created_at :: time

datatype ai_payload =
    ChatPayload string int real string
  | GooglePayload string int real

record ai_post =
  aip_url :: string
  aip_transport :: transport
  aip_headers :: "(string \<times> string) list"
  aip_payload :: ai_payload

record ai_state =
  as_db :: db
  as_providers :: "ai_provider list"
  as_posts :: "ai_post list"
  as_lookups :: nat

text \<open>A response with its JSON, a time-out or network error, or an exception of another class.\<close>

datatype ai_reply = AiResponse nat "json option" | AiUnreachable string | AiFailed string

record ai_env =
  aie_dns :: resolver
  aie_encrypt :: "string \<Rightarrow> (string \<times> json) list \<Rightarrow> string"
  aie_decrypt :: "string \<Rightarrow> (string \<times> json) list option"
  aie_reply :: "ai_post list \<Rightarrow> ai_post \<Rightarrow> ai_reply"

section \<open>Repository\<close>

definition list_for_org :: "ai_state \<Rightarrow> uuid \<Rightarrow> ai_provider list" where
  "list_for_org s org_id = sort_key apv_created_at (filter (\<lambda>p. apv_organization_id p = org_id) (as_providers s))"

definition provider_by_id :: "ai_state \<Rightarrow> uuid \<Rightarrow> ai_provider option" where
  "provider_by_id s i = get_row apv_id i (as_providers s)"

definition default_of :: "uuid \<Rightarrow> ai_provider \<Rightarrow> bool" where
  "default_of org_id p = (apv_organization_id p = org_id \<and> apv_is_default p)"

definition get_active_default :: "ai_state \<Rightarrow> uuid \<Rightarrow> ai_provider option" where
  "get_active_default s org_id = (case sort_key apv_created_at (filter (\<lambda>p. default_of org_id p \<and> apv_enabled p) (as_providers s)) of
     [] \<Rightarrow> None | p # _ \<Rightarrow> Some p)"

definition clear_defaults :: "uuid \<Rightarrow> uuid option \<Rightarrow> ai_state \<Rightarrow> ai_state" where
  "clear_defaults org_id exclude_id s = s\<lparr>as_providers := map (\<lambda>p. if default_of org_id p \<and> exclude_id \<noteq> Some (apv_id p)
     then p\<lparr>apv_is_default := False\<rparr> else p) (as_providers s)\<rparr>"

text \<open>The unique index of the defaults, \<^verbatim>\<open>uq_ai_providers_default_per_org\<close>.\<close>

definition default_taken :: "ai_provider \<Rightarrow> ai_state \<Rightarrow> bool" where
  "default_taken p s = (apv_is_default p \<and> (\<exists>q \<in> set (as_providers s). default_of (apv_organization_id p) q \<and> apv_id q \<noteq> apv_id p))"

definition provider_insert :: "ai_provider \<Rightarrow> (ai_provider, ai_state) service" where
  "provider_insert p s = (if default_taken p s then (Inl (IntegrityError ''uq_ai_providers_default_per_org''), s)
     else (Inr p, s\<lparr>as_providers := as_providers s @ [p]\<rparr>))"

text \<open>The columns of an update; \<^verbatim>\<open>None\<close> is an explicit null.\<close>

datatype provider_field =
    PfName "string option" | PfProviderType "string option" | PfEndpointUrl "string option" | PfModelName "string option"
  | PfIsDefault "bool option" | PfMaxTokens "int option" | PfTemperature "real option" | PfEnabled "bool option"
  | PfApiKey "string option"

fun put_provider :: "provider_field \<Rightarrow> ai_provider \<Rightarrow> ai_provider" where
  "put_provider (PfName (Some v)) r = r\<lparr>apv_name := v\<rparr>"
| "put_provider (PfProviderType (Some v)) r = r\<lparr>apv_provider_type := v\<rparr>"
| "put_provider (PfEndpointUrl (Some v)) r = r\<lparr>apv_endpoint_url := v\<rparr>"
| "put_provider (PfModelName (Some v)) r = r\<lparr>apv_model_name := v\<rparr>"
| "put_provider (PfIsDefault (Some v)) r = r\<lparr>apv_is_default := v\<rparr>"
| "put_provider (PfMaxTokens (Some v)) r = r\<lparr>apv_max_tokens := v\<rparr>"
| "put_provider (PfTemperature (Some v)) r = r\<lparr>apv_temperature := v\<rparr>"
| "put_provider (PfEnabled (Some v)) r = r\<lparr>apv_enabled := v\<rparr>"
| "put_provider (PfApiKey v) r = r\<lparr>apv_encrypted_api_key := v\<rparr>"
| "put_provider _ r = r"

text \<open>Every column but the key is NOT NULL.\<close>

fun sets_null :: "provider_field \<Rightarrow> bool" where
  "sets_null (PfName v) = (v = None)"
| "sets_null (PfProviderType v) = (v = None)"
| "sets_null (PfEndpointUrl v) = (v = None)"
| "sets_null (PfModelName v) = (v = None)"
| "sets_null (PfIsDefault v) = (v = None)"
| "sets_null (PfMaxTokens v) = (v = None)"
| "sets_null (PfTemperature v) = (v = None)"
| "sets_null (PfEnabled v) = (v = None)"
| "sets_null (PfApiKey v) = False"

definition provider_update :: "ai_provider \<Rightarrow> provider_field list \<Rightarrow> (ai_provider, ai_state) service" where
  "provider_update p fs s =
     (let r = set_fields put_provider fs p
      in if list_ex sets_null fs \<or> default_taken r s then (Inl (IntegrityError ''ai_providers''), s)
         else (Inr r, s\<lparr>as_providers := save_row apv_id r (as_providers s)\<rparr>))"

definition provider_delete :: "ai_provider \<Rightarrow> ai_state \<Rightarrow> ai_state" where
  "provider_delete p s = s\<lparr>as_providers := filter (\<lambda>q. apv_id q \<noteq> apv_id p) (as_providers s)\<rparr>"

section \<open>Requests\<close>

record provider_request =
  apr_name :: string
  apr_provider_type :: string
  apr_endpoint_url :: string
  apr_api_key :: "string option"
  apr_model_name :: string
  apr_is_default :: bool
  apr_max_tokens :: int
  apr_temperature :: real
  apr_enabled :: bool

definition PROVIDER_TYPES :: "string list" where
  "PROVIDER_TYPES = [''openai_compatible'', ''anthropic'', ''google'']"

definition http_url :: "string \<Rightarrow> bool" where
  "http_url url = (starts_with url ''https://'' \<or> starts_with url ''http://'')"

definition valid_provider_request :: "provider_request \<Rightarrow> bool" where
  "valid_provider_request r = (length (apr_name r) \<in> {1..100} \<and> apr_provider_type r \<in> set PROVIDER_TYPES \<and>
     length (apr_endpoint_url r) \<in> {1..500} \<and> http_url (apr_endpoint_url r) \<and> length (apr_model_name r) \<in> {1..100} \<and>
     apr_max_tokens r \<in> {1..100000} \<and> 0 \<le> apr_temperature r \<and> apr_temperature r \<le> 2)"

text \<open>The fields the client sent, without the key, in the order of the schema; then the key if it was sent.\<close>

record provider_changes =
  apc_fields :: "provider_field list"
  apc_api_key :: "string option option"

fun valid_field :: "provider_field \<Rightarrow> bool" where
  "valid_field (PfName (Some v)) = (length v \<in> {1..100})"
| "valid_field (PfProviderType (Some v)) = (v \<in> set PROVIDER_TYPES)"
| "valid_field (PfEndpointUrl (Some v)) = (length v \<le> 500 \<and> http_url v)"
| "valid_field (PfModelName (Some v)) = (length v \<in> {1..100})"
| "valid_field (PfMaxTokens (Some v)) = (v \<in> {1..100000})"
| "valid_field (PfTemperature (Some v)) = (0 \<le> v \<and> v \<le> 2)"
| "valid_field (PfApiKey v) = False"
| "valid_field _ = True"

fun field_key :: "provider_field \<Rightarrow> string" where
  "field_key (PfName v) = ''name''"
| "field_key (PfProviderType v) = ''provider_type''"
| "field_key (PfEndpointUrl v) = ''endpoint_url''"
| "field_key (PfModelName v) = ''model_name''"
| "field_key (PfIsDefault v) = ''is_default''"
| "field_key (PfMaxTokens v) = ''max_tokens''"
| "field_key (PfTemperature v) = ''temperature''"
| "field_key (PfEnabled v) = ''enabled''"
| "field_key (PfApiKey v) = ''encrypted_api_key''"

text \<open>An answer has the columns without the key, and whether there is one.\<close>

definition provider_response :: "ai_provider \<Rightarrow> ai_provider \<times> bool" where
  "provider_response p = (p\<lparr>apv_encrypted_api_key := None\<rparr>, str_truthy (apv_encrypted_api_key p))"

section \<open>Service\<close>

definition ai_log :: "time \<Rightarrow> string \<Rightarrow> uuid \<Rightarrow> uuid \<Rightarrow> json \<Rightarrow> ai_state \<Rightarrow> ai_state" where
  "ai_log now event_type org_id i payload s =
     s\<lparr>as_db := log_event now event_type (Some org_id) None ''ai_provider'' (uuid_str i) payload (as_db s)\<rparr>"

definition list_providers :: "uuid \<Rightarrow> ai_state \<Rightarrow> (ai_provider \<times> bool) list" where
  "list_providers org_id s = map provider_response (list_for_org s org_id)"

definition check_endpoint :: "ai_env \<Rightarrow> string \<Rightarrow> (unit, ai_state) service" where
  "check_endpoint env url s = (case validate_outbound_url (aie_dns env) (as_lookups s) url of
     (Inl reason, k) \<Rightarrow> (Inl (ValidationException reason), s\<lparr>as_lookups := k\<rparr>)
   | (Inr _, k) \<Rightarrow> (Inr (), s\<lparr>as_lookups := k\<rparr>))"

definition encrypted_key :: "ai_env \<Rightarrow> string \<Rightarrow> string option \<Rightarrow> string option" where
  "encrypted_key env nonce api_key =
     (if str_truthy api_key then Some (aie_encrypt env nonce [(''api_key'', JStr (the api_key))]) else None)"

text \<open>A violated constraint is reported as a second default.\<close>

definition reporting :: "string \<Rightarrow> ('a, ai_state) service \<Rightarrow> ('a, ai_state) service" where
  "reporting message f s = (case f s of (Inl (IntegrityError _), s1) \<Rightarrow> (Inl (ValidationException message), s1) | x \<Rightarrow> x)"

definition new_provider :: "ai_env \<Rightarrow> string \<Rightarrow> uuid \<Rightarrow> time \<Rightarrow> uuid \<Rightarrow> provider_request \<Rightarrow> ai_provider" where
  "new_provider env nonce i now org_id r = \<lparr>apv_id = i, apv_organization_id = org_id, apv_name = apr_name r,
     apv_provider_type = apr_provider_type r, apv_endpoint_url = apr_endpoint_url r,
     apv_encrypted_api_key = encrypted_key env nonce (apr_api_key r), apv_model_name = apr_model_name r,
     apv_is_default = apr_is_default r, apv_max_tokens = apr_max_tokens r, apv_temperature = apr_temperature r,
     apv_enabled = apr_enabled r, apv_created_at = now\<rparr>"

definition create_provider ::
  "ai_env \<Rightarrow> string \<Rightarrow> uuid \<Rightarrow> time \<Rightarrow> uuid \<Rightarrow> provider_request \<Rightarrow> (ai_provider \<times> bool, ai_state) service" where
  "create_provider env nonce i now org_id r =
     and_then (check_endpoint env (apr_endpoint_url r)) (\<lambda>_ s.
     and_then (reporting ''A default AI provider already exists for this organization. Unset the existing default before creating another.''
       (provider_insert (new_provider env nonce i now org_id r))) (\<lambda>p s1.
         (Inr (provider_response p), ai_log now ''AI_PROVIDER_CREATED'' org_id i (JObj [(''provider_type'', JStr (apv_provider_type p)),
            (''model_name'', JStr (apv_model_name p)), (''is_default'', JBool (apv_is_default p))]) s1))
       (if apr_is_default r then clear_defaults org_id None s else s))"

definition with_provider :: "uuid \<Rightarrow> uuid \<Rightarrow> (ai_provider \<Rightarrow> ('a, ai_state) service) \<Rightarrow> ('a, ai_state) service" where
  "with_provider org_id i f s = (case provider_by_id s i of
     None \<Rightarrow> (Inl (ResourceNotFoundException ''AI provider not found''), s)
   | Some p \<Rightarrow> if apv_organization_id p \<noteq> org_id then (Inl (ResourceNotFoundException ''AI provider not found''), s) else f p s)"

definition new_endpoint :: "provider_field list \<Rightarrow> string option" where
  "new_endpoint fs = (case find (\<lambda>f. field_key f = ''endpoint_url'') fs of Some (PfEndpointUrl v) \<Rightarrow> v | _ \<Rightarrow> None)"

definition changed_columns :: "ai_env \<Rightarrow> string \<Rightarrow> provider_changes \<Rightarrow> provider_field list" where
  "changed_columns env nonce r = apc_fields r @
     (case apc_api_key r of None \<Rightarrow> [] | Some k \<Rightarrow> [PfApiKey (encrypted_key env nonce k)])"

definition update_provider ::
  "ai_env \<Rightarrow> string \<Rightarrow> time \<Rightarrow> uuid \<Rightarrow> uuid \<Rightarrow> provider_changes \<Rightarrow> (ai_provider \<times> bool, ai_state) service" where
  "update_provider env nonce now org_id i r = with_provider org_id i (\<lambda>p.
     and_then (case new_endpoint (apc_fields r) of None \<Rightarrow> pure_step (Inr ()) | Some u \<Rightarrow> check_endpoint env u) (\<lambda>_ s.
     and_then (reporting ''A default AI provider already exists for this organization.''
       (provider_update p (changed_columns env nonce r))) (\<lambda>q s1.
         (Inr (provider_response q), ai_log now ''AI_PROVIDER_UPDATED'' org_id i
            (JObj [(''updated_fields'', JArr (map (JStr \<circ> field_key) (changed_columns env nonce r)))]) s1))
       (if PfIsDefault (Some True) \<in> set (apc_fields r) then clear_defaults org_id (Some i) s else s)))"

definition delete_provider :: "time \<Rightarrow> uuid \<Rightarrow> uuid \<Rightarrow> (unit, ai_state) service" where
  "delete_provider now org_id i = with_provider org_id i (\<lambda>p s.
     (Inr (), ai_log now ''AI_PROVIDER_DELETED'' org_id i (JObj [(''name'', JStr (apv_name p))]) (provider_delete p s)))"

section \<open>Calls\<close>

definition MAX_CONTEXT_JSON_CHARS :: nat where "MAX_CONTEXT_JSON_CHARS = 6000"
definition MAX_EXPLANATION_CHARS :: nat where "MAX_EXPLANATION_CHARS = 4000"
definition AI_MAX_RETRIES :: nat where "AI_MAX_RETRIES = 2"

definition truncated :: "nat \<Rightarrow> string \<Rightarrow> string" where
  "truncated n s = (if length s > n then take n s @ ''...[truncated]'' else s)"

text \<open>\<^verbatim>\<open>decrypt_jsonb\<close>: the empty dictionary when the cipher refuses the token.\<close>

definition decrypt_jsonb :: "ai_env \<Rightarrow> string option \<Rightarrow> (string \<times> json) list option" where
  "decrypt_jsonb env = map_option (\<lambda>x. case aie_decrypt env x of None \<Rightarrow> [] | Some d \<Rightarrow> d)"

definition stored_key :: "ai_env \<Rightarrow> ai_provider \<Rightarrow> json" where
  "stored_key env p = (case decrypt_jsonb env (apv_encrypted_api_key p) of None \<Rightarrow> JNull | Some d \<Rightarrow> dget d ''api_key'')"

definition json_header :: "string \<times> string" where
  "json_header = (''Content-Type'', ''application/json'')"

definition ai_headers :: "string \<Rightarrow> string \<Rightarrow> (string \<times> string) list" where
  "ai_headers provider_type api_key = json_header #
     (if provider_type = ''anthropic'' then [(''x-api-key'', api_key), (''anthropic-version'', ''2023-06-01'')]
      else if provider_type = ''google'' then [(''x-goog-api-key'', api_key)]
      else [(''Authorization'', ''Bearer '' @ api_key)])"

definition ai_payload_of :: "ai_provider \<Rightarrow> string \<Rightarrow> ai_payload" where
  "ai_payload_of p prompt = (if apv_provider_type p = ''google'' then GooglePayload prompt (apv_max_tokens p) (apv_temperature p)
     else ChatPayload (apv_model_name p) (apv_max_tokens p) (apv_temperature p) prompt)"

text \<open>\<^verbatim>\<open>data.get(k, default)\<close> raises on anything but a dictionary.\<close>

definition json_get :: "json \<Rightarrow> string \<Rightarrow> json \<Rightarrow> app_error + json" where
  "json_get j k dflt = (case j of JObj d \<Rightarrow> Inr (case map_of d k of None \<Rightarrow> dflt | Some v \<Rightarrow> v)
     | _ \<Rightarrow> Inl (ValueError ''AttributeError''))"

definition json_items :: "json \<Rightarrow> app_error + json list" where
  "json_items j = (case j of JArr xs \<Rightarrow> Inr xs | JStr s \<Rightarrow> Inr (map (\<lambda>c. JStr [c]) s) | JObj d \<Rightarrow> Inr (map (JStr \<circ> fst) d)
     | _ \<Rightarrow> Inl (ValueError ''TypeError''))"

definition json_first :: "json \<Rightarrow> app_error + json" where
  "json_first j = (case j of JArr (x # _) \<Rightarrow> Inr x | JStr (c # _) \<Rightarrow> Inr (JStr [c]) | JObj _ \<Rightarrow> Inl (ValueError ''KeyError'')
     | _ \<Rightarrow> Inl (ValueError ''TypeError''))"

definition sum_bind :: "app_error + 'a \<Rightarrow> ('a \<Rightarrow> app_error + 'b) \<Rightarrow> app_error + 'b" where
  "sum_bind x f = (case x of Inl e \<Rightarrow> Inl e | Inr v \<Rightarrow> f v)"

definition joined_texts :: "json list \<Rightarrow> string option" where
  "joined_texts items = (let text = join [CHR 0x0A] (concat (map (\<lambda>item. case item of
       JObj d \<Rightarrow> if truthy (dget d ''text'') then [py_str (dget d ''text'')] else [] | _ \<Rightarrow> []) items))
     in if text = [] then None else Some text)"

definition ai_extract :: "string \<Rightarrow> json \<Rightarrow> app_error + string option" where
  "ai_extract provider_type data =
     (if provider_type = ''anthropic'' then
        sum_bind (json_get data ''content'' JNull) (\<lambda>content.
        sum_bind (json_items (jor content (JArr []))) (\<lambda>items. Inr (joined_texts items)))
      else if provider_type = ''google'' then
        sum_bind (json_get data ''candidates'' JNull) (\<lambda>candidates.
          if \<not> truthy candidates then Inr None
          else sum_bind (json_first candidates) (\<lambda>c. sum_bind (json_get c ''content'' (JObj [])) (\<lambda>content.
            sum_bind (json_get content ''parts'' (JArr [])) (\<lambda>parts. sum_bind (json_items parts) (\<lambda>items. Inr (joined_texts items))))))
      else
        sum_bind (json_get data ''choices'' JNull) (\<lambda>choices.
          if \<not> truthy choices then Inr None
          else sum_bind (json_first choices) (\<lambda>c. sum_bind (json_get c ''message'' (JObj [])) (\<lambda>message.
            sum_bind (json_get message ''content'' JNull) (\<lambda>content. Inr (Some (py_str content)))))))"

definition transient_status :: "nat \<Rightarrow> bool" where
  "transient_status n = (n \<in> {429, 500, 502, 503, 504})"

text \<open>The attempts that are left after this one; the pauses between them are not modelled.\<close>

fun ai_attempts :: "ai_env \<Rightarrow> string \<Rightarrow> ai_post \<Rightarrow> nat \<Rightarrow> (string option, ai_state) service" where
  "ai_attempts env provider_type post left s =
     (let s1 = s\<lparr>as_posts := as_posts s @ [post]\<rparr>
      in case aie_reply env (as_posts s) post of
        AiResponse status body \<Rightarrow>
          if 200 \<le> status \<and> status < 300 then
            (case body of None \<Rightarrow> (Inl (ValueError ''JSONDecodeError''), s1) | Some data \<Rightarrow> (ai_extract provider_type data, s1))
          else if transient_status status \<and> left > 0 then ai_attempts env provider_type post (left - 1) s1
          else (Inl (ValueError ''HTTPStatusError''), s1)
      | AiUnreachable msg \<Rightarrow> if left > 0 then ai_attempts env provider_type post (left - 1) s1 else (Inl (ValueError msg), s1)
      | AiFailed msg \<Rightarrow> (Inl (ValueError msg), s1))"

declare ai_attempts.simps [simp del]

definition call_provider :: "ai_env \<Rightarrow> ai_provider \<Rightarrow> string \<Rightarrow> string \<Rightarrow> (string option, ai_state) service" where
  "call_provider env p api_key prompt s = (case resolve_pinned_target (aie_dns env) (as_lookups s) (apv_endpoint_url p) of
     (Inl reason, k) \<Rightarrow> (Inl (ValidationException reason), s\<lparr>as_lookups := k\<rparr>)
   | (Inr target, k) \<Rightarrow> ai_attempts env (apv_provider_type p)
       \<lparr>aip_url = apv_endpoint_url p, aip_transport = pinned_transport_for target,
        aip_headers = ai_headers (apv_provider_type p) api_key, aip_payload = ai_payload_of p prompt\<rparr>
       AI_MAX_RETRIES (s\<lparr>as_lookups := k\<rparr>))"

definition test_provider :: "ai_env \<Rightarrow> uuid \<Rightarrow> uuid \<Rightarrow> (string option, ai_state) service" where
  "test_provider env org_id i = with_provider org_id i (\<lambda>p.
     if \<not> truthy (stored_key env p) then pure_step (Inl (ValidationException ''Provider has no API key configured''))
     else call_provider env p (py_str (stored_key env p)) (''Connectivity test - respond with '' @ quoted ''ok'' @ ''.''))"

text \<open>The route answers whether there was a text.\<close>

definition test_ai_provider :: "ai_env \<Rightarrow> uuid \<Rightarrow> uuid \<Rightarrow> (string, ai_state) service" where
  "test_ai_provider env org_id i = and_then (test_provider env org_id i) (\<lambda>text.
     pure_step (Inr (if text \<noteq> None then ''ok'' else ''ok (empty response)'')))"

definition explanation_prompt :: "string \<Rightarrow> string \<Rightarrow> string" where
  "explanation_prompt instruction context_json =
     ''You are a technical evidence explainer. Explain only the supplied pre-computed evidence. '' @
     ''Do not invent measurements, conclusions, or facts. Do not alter the attribution result or confidence score.'' @
     [CHR 0x0A, CHR 0x0A] @ ''Instruction: '' @ instruction @ [CHR 0x0A, CHR 0x0A] @ ''Evidence Data:'' @ [CHR 0x0A] @
     truncated MAX_CONTEXT_JSON_CHARS context_json @ [CHR 0x0A, CHR 0x0A] @
     ''Use clear language and state that this is an AI-generated explanation.''"

text \<open>Every failure ends without an explanation; \<^verbatim>\<open>context_json\<close> is the JSON text of the context.\<close>

definition generate_explanation :: "ai_env \<Rightarrow> string \<Rightarrow> string \<Rightarrow> uuid \<Rightarrow> ai_state \<Rightarrow> string option \<times> ai_state" where
  "generate_explanation env context_json instruction org_id s = (case get_active_default s org_id of
     None \<Rightarrow> (None, s)
   | Some p \<Rightarrow>
       if \<not> truthy (stored_key env p) then (None, s)
       else (case call_provider env p (py_str (stored_key env p)) (explanation_prompt instruction context_json) s of
          (Inr text, s1) \<Rightarrow> (if str_truthy text then Some (truncated MAX_EXPLANATION_CHARS (the text)) else None, s1)
        | (Inl _, s1) \<Rightarrow> (None, s1)))"

end
