(* ===== verification/AI_Properties.thy ===== *)
theory AI_Properties
  imports AI_Providers
begin

text \<open>
  Properties of the AI providers: the default of an organization is unique and moves to the provider
  created or updated as default, and an explanation is a bounded number of posts to that provider.
\<close>

section \<open>The default provider\<close>

definition defaults :: "uuid \<Rightarrow> ai_state \<Rightarrow> ai_provider list" where
  "defaults org_id s = filter (default_of org_id) (as_providers s)"

definition ai_wf :: "ai_state \<Rightarrow> bool" where
  "ai_wf s = (distinct (map apv_id (as_providers s)) \<and> (\<forall>org_id. length (defaults org_id s) \<le> 1))"

lemma default_of_cleared [simp]: "\<not> default_of o1 (p\<lparr>apv_is_default := False\<rparr>)"
  by (simp add: default_of_def)

lemma as_log [simp]: "as_providers (ai_log t e oi i pl s) = as_providers s" "as_posts (ai_log t e oi i pl s) = as_posts s"
  by (simp_all add: ai_log_def)

lemma clear_ids [simp]: "map apv_id (as_providers (clear_defaults o1 x s)) = map apv_id (as_providers s)"
  by (simp add: clear_defaults_def comp_def if_distrib cong: if_cong)

lemma clear_id_set [simp]: "apv_id ` set (as_providers (clear_defaults o1 x s)) = apv_id ` set (as_providers s)"
  using clear_ids [of o1 x s] by (metis list.set_map)

lemma filter_cleared:
  "filter (default_of o1) (map (\<lambda>p. if default_of org_id p \<and> x \<noteq> Some (apv_id p) then p\<lparr>apv_is_default := False\<rparr> else p) ps) =
     (if o1 = org_id then filter (\<lambda>p. default_of org_id p \<and> x = Some (apv_id p)) ps else filter (default_of o1) ps)"
proof (cases "o1 = org_id")
  case True
  show ?thesis
  proof (induction ps)
    case (Cons a ps)
    then show ?case
      using True by (cases "x = Some (apv_id a)") auto
  qed simp
next
  case False
  then have "default_of o1 p \<Longrightarrow> \<not> default_of org_id p" for p
    by (simp add: default_of_def)
  then show ?thesis
    using False by (induction ps) auto
qed

lemma defaults_clear:
  "defaults o1 (clear_defaults org_id x s) =
     (if o1 = org_id then filter (\<lambda>p. default_of org_id p \<and> x = Some (apv_id p)) (as_providers s) else defaults o1 s)"
  by (simp add: defaults_def clear_defaults_def filter_cleared)

lemma distinct_filter_id:
  "distinct (map apv_id ps) \<Longrightarrow> length (filter (\<lambda>p. P p \<and> x = Some (apv_id p)) ps) \<le> 1"
  by (induction ps) (auto simp: filter_empty_conv image_iff)

lemma clear_wf: "ai_wf s \<Longrightarrow> ai_wf (clear_defaults org_id x s)"
  using distinct_filter_id [of "as_providers s" "default_of org_id" x] by (simp add: ai_wf_def defaults_clear)

lemma defaults_insert: "defaults o1 (s\<lparr>as_providers := as_providers s @ [p]\<rparr>) = defaults o1 s @ (if default_of o1 p then [p] else [])"
  by (simp add: defaults_def)

lemma not_taken:
  assumes "\<not> default_taken p s" and "apv_id p \<notin> apv_id ` set (as_providers s)" and "default_of o1 p"
  shows "defaults o1 s = []"
proof -
  have "\<not> default_of o1 q" if "q \<in> set (as_providers s)" for q
  proof
    assume "default_of o1 q"
    then have "default_of (apv_organization_id p) q" "apv_is_default p"
      using assms(3) by (simp_all add: default_of_def)
    moreover have "apv_id q \<noteq> apv_id p"
      using assms(2) that by (metis image_eqI)
    ultimately show False
      using assms(1) that by (auto simp: default_taken_def)
  qed
  then show ?thesis
    by (simp add: defaults_def filter_empty_conv)
qed

lemma insert_wf:
  assumes "ai_wf s" and "provider_insert p s = (Inr q, s')" and "apv_id p \<notin> apv_id ` set (as_providers s)"
  shows "ai_wf s'"
  using assms not_taken [of p s] by (auto simp: provider_insert_def ai_wf_def defaults_insert split: if_splits)

lemma put_provider_id [simp]: "apv_id (set_fields put_provider fs p) = apv_id p"
proof -
  have "apv_id (put_provider f p) = apv_id p" for f p
    by (cases "(f, p)" rule: put_provider.cases) auto
  then show ?thesis
    unfolding set_fields_def by (induction fs arbitrary: p) auto
qed

lemma put_provider_org [simp]: "apv_organization_id (set_fields put_provider fs p) = apv_organization_id p"
proof -
  have "apv_organization_id (put_provider f p) = apv_organization_id p" for f p
    by (cases "(f, p)" rule: put_provider.cases) auto
  then show ?thesis
    unfolding set_fields_def by (induction fs arbitrary: p) auto
qed

lemma save_defaults:
  assumes "distinct (map apv_id ps)" and "\<And>q. q \<in> set ps \<Longrightarrow> apv_id q \<noteq> apv_id r \<Longrightarrow> \<not> (apv_is_default r \<and> default_of (apv_organization_id r) q)"
    and "length (filter (default_of o1) ps) \<le> 1"
    and "\<And>q. q \<in> set ps \<Longrightarrow> apv_id q = apv_id r \<Longrightarrow> apv_organization_id q = apv_organization_id r"
  shows "length (filter (default_of o1) (save_row apv_id r ps)) \<le> 1"
proof (cases "default_of o1 r")
  case True
  then have "\<not> default_of o1 q" if "q \<in> set ps" "apv_id q \<noteq> apv_id r" for q
    using assms(2) that by (auto simp: default_of_def)
  then have "filter (default_of o1) (save_row apv_id r ps) = map (\<lambda>_. r) (filter (\<lambda>q. apv_id q = apv_id r) ps)"
    using True by (induction ps) (auto simp: save_row_def)
  then show ?thesis
    using assms(1) distinct_filter_id [of ps "\<lambda>_. True" "Some (apv_id r)"] by (simp add: eq_commute)
next
  case False
  then have "length (filter (default_of o1) (save_row apv_id r ps)) \<le> length (filter (default_of o1) ps)"
    by (induction ps) (auto simp: save_row_def)
  then show ?thesis
    using assms(3) by simp
qed

lemma with_provider_E:
  assumes "with_provider org_id i f s = (Inr v, s')"
  obtains p where "p \<in> set (as_providers s)" and "apv_id p = i" and "apv_organization_id p = org_id" and "f p s = (Inr v, s')"
  using assms by (auto simp: with_provider_def provider_by_id_def split: option.splits if_splits dest: get_row_Some)

lemma reporting_E: "reporting message f s = (Inr v, s') \<Longrightarrow> f s = (Inr v, s')"
  by (auto simp: reporting_def split: prod.splits sum.splits app_error.splits)

lemma check_endpoint_E:
  assumes "check_endpoint env url s = (r, s')"
  shows "as_providers s' = as_providers s" and "as_posts s' = as_posts s" and "as_db s' = as_db s"
  using assms by (auto simp: check_endpoint_def split: prod.splits sum.splits)

lemma wf_same: "as_providers s' = as_providers s \<Longrightarrow> ai_wf s' = ai_wf s"
  by (simp add: ai_wf_def defaults_def)

lemma create_wf:
  assumes "ai_wf s" and "create_provider env nonce i now org_id r s = (Inr v, s')" and "i \<notin> apv_id ` set (as_providers s)"
  shows "ai_wf s'"
proof -
  obtain s1 p s2 where s: "check_endpoint env (apr_endpoint_url r) s = (Inr (), s1)"
    "provider_insert (new_provider env nonce i now org_id r) (if apr_is_default r then clear_defaults org_id None s1 else s1) = (Inr p, s2)"
    "as_providers s' = as_providers s2"
    using assms(2) by (auto simp: create_provider_def elim!: and_then_E dest!: reporting_E)
  have "ai_wf s1"
    using assms(1) wf_same [OF check_endpoint_E(1) [OF s(1)]] by simp
  then have "ai_wf (if apr_is_default r then clear_defaults org_id None s1 else s1)"
    by (simp add: clear_wf)
  moreover have "apv_id (new_provider env nonce i now org_id r) \<notin>
      apv_id ` set (as_providers (if apr_is_default r then clear_defaults org_id None s1 else s1))"
    using assms(3) check_endpoint_E(1) [OF s(1)] by (simp add: new_provider_def)
  ultimately have "ai_wf s2"
    using insert_wf s(2) by blast
  then show ?thesis
    using wf_same [OF s(3)] by simp
qed

lemma update_row_wf:
  assumes "ai_wf s" and "provider_update p fs s = (Inr q, s')" and "p0 \<in> set (as_providers s)" and "apv_id p0 = apv_id p"
    and "apv_organization_id p0 = apv_organization_id p"
  shows "ai_wf s'"
proof -
  let ?r = "set_fields put_provider fs p"
  have s': "s' = s\<lparr>as_providers := save_row apv_id ?r (as_providers s)\<rparr>" "\<not> default_taken ?r s"
    using assms(2) by (auto simp: provider_update_def Let_def split: if_splits)
  have ids: "distinct (map apv_id (as_providers s))"
    using assms(1) by (simp add: ai_wf_def)
  have "length (filter (default_of o1) (save_row apv_id ?r (as_providers s))) \<le> 1" for o1
  proof (rule save_defaults [OF ids])
    show "\<not> (apv_is_default ?r \<and> default_of (apv_organization_id ?r) x)" if "x \<in> set (as_providers s)" "apv_id x \<noteq> apv_id ?r" for x
      using s'(2) that by (auto simp: default_taken_def)
    show "length (filter (default_of o1) (as_providers s)) \<le> 1"
      using assms(1) by (simp add: ai_wf_def defaults_def)
    show "apv_organization_id x = apv_organization_id ?r" if "x \<in> set (as_providers s)" "apv_id x = apv_id ?r" for x
      using distinct_map_inj [OF ids that(1) assms(3)] that(2) assms(4,5) by simp
  qed
  then show ?thesis
    using s'(1) ids by (simp add: ai_wf_def defaults_def)
qed

lemma update_wf:
  assumes "ai_wf s" and "update_provider env nonce now org_id i r s = (Inr v, s')"
  shows "ai_wf s'"
proof -
  obtain p where p: "p \<in> set (as_providers s)" "apv_id p = i" "apv_organization_id p = org_id"
    and run: "and_then (case new_endpoint (apc_fields r) of None \<Rightarrow> pure_step (Inr ()) | Some u \<Rightarrow> check_endpoint env u) (\<lambda>_ s.
      and_then (reporting ''A default AI provider already exists for this organization.'' (provider_update p (changed_columns env nonce r))) (\<lambda>q s1.
         (Inr (provider_response q), ai_log now ''AI_PROVIDER_UPDATED'' org_id i
            (JObj [(''updated_fields'', JArr (map (JStr \<circ> field_key) (changed_columns env nonce r)))]) s1))
       (if PfIsDefault (Some True) \<in> set (apc_fields r) then clear_defaults org_id (Some i) s else s)) s = (Inr v, s')"
    using assms(2) unfolding update_provider_def by (rule with_provider_E)
  obtain s1 where s1: "(case new_endpoint (apc_fields r) of None \<Rightarrow> pure_step (Inr ()) | Some u \<Rightarrow> check_endpoint env u) s = (Inr (), s1)"
    and rest: "and_then (reporting ''A default AI provider already exists for this organization.'' (provider_update p (changed_columns env nonce r))) (\<lambda>q s1.
         (Inr (provider_response q), ai_log now ''AI_PROVIDER_UPDATED'' org_id i
            (JObj [(''updated_fields'', JArr (map (JStr \<circ> field_key) (changed_columns env nonce r)))]) s1))
       (if PfIsDefault (Some True) \<in> set (apc_fields r) then clear_defaults org_id (Some i) s1 else s1) = (Inr v, s')"
    using run by (rule and_then_E) simp
  define s2 where "s2 = (if PfIsDefault (Some True) \<in> set (apc_fields r) then clear_defaults org_id (Some i) s1 else s1)"
  obtain q s3 where s3: "provider_update p (changed_columns env nonce r) s2 = (Inr q, s3)" "as_providers s' = as_providers s3"
    using rest unfolding s2_def [symmetric] by (auto elim!: and_then_E dest!: reporting_E)
  have same: "as_providers s1 = as_providers s"
    using s1 by (auto split: option.splits dest: check_endpoint_E)
  then have "ai_wf s2"
    using assms(1) wf_same [OF same] by (simp add: s2_def clear_wf)
  moreover obtain p0 where "p0 \<in> set (as_providers s2)" "apv_id p0 = apv_id p" "apv_organization_id p0 = apv_organization_id p"
  proof
    show "p \<in> set (as_providers s2)"
      using p same by (auto simp: s2_def clear_defaults_def image_iff intro!: bexI [of _ p])
  qed simp_all
  ultimately have "ai_wf s3"
    using update_row_wf s3(1) by blast
  then show ?thesis
    using wf_same [OF s3(2)] by simp
qed

lemma delete_wf:
  assumes "ai_wf s" and "delete_provider now org_id i s = (Inr v, s')"
  shows "ai_wf s'"
proof -
  obtain p where "(Inr (), ai_log now ''AI_PROVIDER_DELETED'' org_id i (JObj [(''name'', JStr (apv_name p))]) (provider_delete p s)) = (Inr v, s')"
    using assms(2) unfolding delete_provider_def by (rule with_provider_E) blast
  then have s': "as_providers s' = filter (\<lambda>q. apv_id q \<noteq> apv_id p) (as_providers s)"
    by (auto simp: provider_delete_def)
  have "length (filter (default_of o1) (filter P ps)) \<le> length (filter (default_of o1) ps)" for o1 P and ps :: "ai_provider list"
    by (induction ps) auto
  then have "length (defaults o1 s') \<le> length (defaults o1 s)" for o1
    by (simp add: defaults_def s')
  then show ?thesis
    using assms(1) le_trans unfolding ai_wf_def s' by (blast intro: distinct_map_filter)
qed

section \<open>Explanations\<close>

lemma attempts_bounded:
  assumes "ai_attempts env ty post left s = (r, s')"
  shows "\<exists>k \<le> left + 1. s' = s\<lparr>as_posts := as_posts s @ replicate k post\<rparr>"
  using assms
proof (induction left arbitrary: s)
  case 0
  then have "s' = s\<lparr>as_posts := as_posts s @ [post]\<rparr>"
    by (subst (asm) ai_attempts.simps) (auto simp: Let_def split: ai_reply.splits if_splits option.splits)
  then show ?case
    by (intro exI [of _ 1]) simp
next
  case (Suc l)
  let ?s1 = "s\<lparr>as_posts := as_posts s @ [post]\<rparr>"
  have "ai_attempts env ty post l ?s1 = (r, s') \<or> s' = ?s1"
    using Suc.prems by (subst (asm) ai_attempts.simps) (auto simp: Let_def split: ai_reply.splits if_splits option.splits)
  then show ?case
  proof
    assume "ai_attempts env ty post l ?s1 = (r, s')"
    then obtain k where "k \<le> l + 1" "s' = ?s1\<lparr>as_posts := as_posts ?s1 @ replicate k post\<rparr>"
      using Suc.IH by blast
    then show ?thesis
      by (intro exI [of _ "Suc k"]) simp
  next
    assume "s' = ?s1"
    then show ?thesis
      by (intro exI [of _ 1]) simp
  qed
qed

lemma call_effect:
  assumes "call_provider env p key prompt s = (r, s')"
  shows "as_providers s' = as_providers s \<and> as_db s' = as_db s \<and> (\<exists>k post. k \<le> 3 \<and> as_posts s' = as_posts s @ replicate k post \<and>
    aip_url post = apv_endpoint_url p \<and> (k > 0 \<longrightarrow> admissible (aip_transport post)))"
proof (cases "resolve_pinned_target (aie_dns env) (as_lookups s) (apv_endpoint_url p)")
  case (Pair target k)
  show ?thesis
  proof (cases target)
    case (Inl reason)
    then show ?thesis
      using assms Pair by (intro conjI exI [of _ 0] exI [of _ "undefined\<lparr>aip_url := apv_endpoint_url p\<rparr>"]) (auto simp: call_provider_def)
  next
    case (Inr t)
    let ?post = "\<lparr>aip_url = apv_endpoint_url p, aip_transport = pinned_transport_for t,
        aip_headers = ai_headers (apv_provider_type p) key, aip_payload = ai_payload_of p prompt\<rparr>"
    have run: "ai_attempts env (apv_provider_type p) ?post AI_MAX_RETRIES (s\<lparr>as_lookups := k\<rparr>) = (r, s')"
      using assms Pair Inr by (simp add: call_provider_def)
    obtain n where "n \<le> 3" "s' = s\<lparr>as_lookups := k, as_posts := as_posts s @ replicate n ?post\<rparr>"
      using attempts_bounded [OF run] by (auto simp: AI_MAX_RETRIES_def)
    moreover have "admissible (pinned_transport_for t)"
      using pinned_admissible(1) Pair Inr by blast
    ultimately show ?thesis
      by (intro conjI exI [of _ n] exI [of _ ?post]) simp_all
  qed
qed

lemma truncated_length: "length (truncated n t) \<le> n + 14"
  by (simp add: truncated_def)

lemma active_default:
  assumes "ai_wf s" and "get_active_default s org_id = Some p"
  shows "defaults org_id s = [p]" and "apv_enabled p"
proof -
  have "p \<in> set (filter (\<lambda>p. default_of org_id p \<and> apv_enabled p) (as_providers s))"
    using assms(2) unfolding get_active_default_def by (metis (no_types, lifting) list.case_eq_if list.set_sel(1) option.distinct(1) option.inject set_sort)
  then have p: "p \<in> set (defaults org_id s)" "apv_enabled p"
    by (simp_all add: defaults_def)
  moreover have "length (defaults org_id s) \<le> 1"
    using assms(1) by (simp add: ai_wf_def)
  ultimately show "defaults org_id s = [p]" "apv_enabled p"
    by (cases "defaults org_id s"; simp)+
qed

section \<open>Requests\<close>

inductive ai_step :: "ai_env \<Rightarrow> ai_state \<Rightarrow> ai_state \<Rightarrow> bool" for env where
  create: "i \<notin> apv_id ` set (as_providers s) \<Longrightarrow> with_session (create_provider env nonce i now org_id rq) s = (r1, s') \<Longrightarrow> ai_step env s s'"
| update: "with_session (update_provider env nonce now org_id i ch) s = (r2, s') \<Longrightarrow> ai_step env s s'"
| delete: "with_session (delete_provider now org_id i) s = (r3, s') \<Longrightarrow> ai_step env s s'"
| test: "test_ai_provider env org_id i s = (r4, s') \<Longrightarrow> ai_step env s s'"
| explain: "generate_explanation env context_json instruction org_id s = (text, s') \<Longrightarrow> ai_step env s s'"

lemma session_cases: "with_session f s = (r, s') \<Longrightarrow> s' = s \<or> (\<exists>v. f s = (Inr v, s'))"
  by (auto simp: with_session_def split: prod.splits sum.splits)

lemma generate_effect:
  assumes "generate_explanation env c ins org_id s = (text, s')"
  shows "text = None \<and> s' = s \<or> (\<exists>p key prompt r. get_active_default s org_id = Some p \<and> call_provider env p key prompt s = (r, s') \<and>
    (\<forall>t. text = Some t \<longrightarrow> t \<noteq> [] \<and> length t \<le> 4014))"
proof (cases "get_active_default s org_id")
  case None
  then show ?thesis
    using assms by (simp add: generate_explanation_def)
next
  case (Some p)
  show ?thesis
  proof (cases "truthy (stored_key env p)")
    case False
    then show ?thesis
      using assms Some by (simp add: generate_explanation_def)
  next
    case True
    obtain r s1 where r: "call_provider env p (py_str (stored_key env p)) (explanation_prompt ins c) s = (r, s1)"
      by fastforce
    have "s' = s1 \<and> (\<forall>t. text = Some t \<longrightarrow> (\<exists>x. str_truthy (Some x) \<and> t = truncated MAX_EXPLANATION_CHARS x))"
      using assms Some True r by (auto simp: generate_explanation_def str_truthy_def split: sum.splits if_splits option.splits)
    moreover have "t \<noteq> [] \<and> length t \<le> 4014" if "str_truthy (Some x)" "t = truncated MAX_EXPLANATION_CHARS x" for t x
      using that truncated_length [of MAX_EXPLANATION_CHARS x] by (auto simp: str_truthy_def truncated_def MAX_EXPLANATION_CHARS_def)
    ultimately show ?thesis
      using Some r by blast
  qed
qed

lemma test_effect:
  assumes "test_ai_provider env org_id i s = (r, s')"
  shows "as_providers s' = as_providers s"
proof -
  obtain r1 s1 where r: "test_provider env org_id i s = (r1, s1)"
    by fastforce
  have "as_providers s1 = as_providers s"
    using r by (auto simp: test_provider_def with_provider_def pure_step_def dest: call_effect split: option.splits if_splits)
  then show ?thesis
    using assms r by (cases r1) (auto simp: test_ai_provider_def and_then_def pure_step_def)
qed

lemma ai_step_wf: "ai_step env s s' \<Longrightarrow> ai_wf s \<Longrightarrow> ai_wf s'"
proof (induction rule: ai_step.induct)
  case (create i s nonce now org_id rq r s')
  then show ?case using session_cases create_wf by metis
next
  case (update nonce now org_id i ch s r s')
  then show ?case using session_cases update_wf by metis
next
  case (delete now org_id i s r s')
  then show ?case using session_cases delete_wf by metis
next
  case (test org_id i s r s')
  then show ?case using wf_same test_effect by metis
next
  case (explain c ins org_id s answer s')
  then have "as_providers s' = as_providers s"
    using generate_effect call_effect by blast
  then show ?case using wf_same explain.prems by metis
qed

lemma ai_steps_wf: "(ai_step env)\<^sup>*\<^sup>* s s' \<Longrightarrow> ai_wf s \<Longrightarrow> ai_wf s'"
  by (induction rule: rtranclp_induct) (auto dest: ai_step_wf)

text \<open>
  An explanation never raises and changes no table: whatever was configured before, it posts at most
  three requests, all to a public address the endpoint of the only default provider of the
  organization was pinned to, and a text it returns is not empty and at most 4014 characters long.
\<close>

theorem explanation_contained:
  assumes "as_providers s0 = []" and "(ai_step env)\<^sup>*\<^sup>* s0 s" and "generate_explanation env context_json instruction org_id s = (text, s')"
  shows "as_providers s' = as_providers s \<and> as_db s' = as_db s \<and> (\<forall>t. text = Some t \<longrightarrow> t \<noteq> [] \<and> length t \<le> 4014) \<and>
    (as_posts s' = as_posts s \<or> (\<exists>p n post. filter (default_of org_id) (as_providers s) = [p] \<and> apv_enabled p \<and> n \<le> 3 \<and>
       as_posts s' = as_posts s @ replicate n post \<and> aip_url post = apv_endpoint_url p \<and> admissible (aip_transport post)))"
proof -
  have "ai_wf s0"
    using assms(1) by (simp add: ai_wf_def defaults_def)
  then have wf: "ai_wf s"
    using ai_steps_wf assms(2) by blast
  show ?thesis
    using generate_effect [OF assms(3)]
  proof (elim disjE exE conjE)
    fix p key prompt r
    assume d: "get_active_default s org_id = Some p" and call: "call_provider env p key prompt s = (r, s')"
      and t: "\<forall>t. text = Some t \<longrightarrow> t \<noteq> [] \<and> length t \<le> 4014"
    obtain k post where k: "as_providers s' = as_providers s" "as_db s' = as_db s" "k \<le> 3" "as_posts s' = as_posts s @ replicate k post"
      "aip_url post = apv_endpoint_url p" "k > 0 \<longrightarrow> admissible (aip_transport post)"
      using call_effect [OF call] by blast
    show ?thesis
    proof (cases "k = 0")
      case True
      then show ?thesis
        using k t by simp
    next
      case False
      then show ?thesis
        using k t active_default [OF wf d] unfolding defaults_def by blast
    qed
  qed simp_all
qed

text \<open>Creating a default provider with an accepted endpoint succeeds and moves the default of the organization only.\<close>

theorem default_moves:
  assumes "ai_wf s" and "i \<notin> apv_id ` set (as_providers s)" and "apr_is_default r"
    and "validate_outbound_url (aie_dns env) (as_lookups s) (apr_endpoint_url r) = (Inr (), k)"
  shows "\<exists>a s'. create_provider env nonce i now org_id r s = (Inr a, s') \<and> ai_wf s' \<and>
    (\<forall>o1. defaults o1 s' = (if o1 = org_id then [new_provider env nonce i now org_id r] else defaults o1 s))"
proof -
  let ?p = "new_provider env nonce i now org_id r"
  let ?s = "clear_defaults org_id None (s\<lparr>as_lookups := k\<rparr>)"
  have cleared: "defaults o1 ?s = (if o1 = org_id then [] else defaults o1 s)" for o1
    by (simp add: defaults_clear) (simp add: defaults_def)
  have "\<not> default_taken ?p ?s"
    using cleared [of org_id] by (auto simp: default_taken_def new_provider_def defaults_def filter_empty_conv)
  then have ins: "provider_insert ?p ?s = (Inr ?p, ?s\<lparr>as_providers := as_providers ?s @ [?p]\<rparr>)"
    by (simp add: provider_insert_def)
  obtain a s' where run: "create_provider env nonce i now org_id r s = (Inr a, s')"
    and rows: "as_providers s' = as_providers ?s @ [?p]"
    using assms(3,4) ins by (simp add: create_provider_def check_endpoint_def reporting_def and_then_def)
  have "defaults o1 s' = (if o1 = org_id then [?p] else defaults o1 s)" for o1
    using cleared [of o1] assms(3) unfolding defaults_def rows by (auto simp: default_of_def new_provider_def)
  moreover have "ai_wf s'"
    using create_wf [OF assms(1) run assms(2)] .
  ultimately show ?thesis
    using run by blast
qed

section \<open>Examples\<close>

definition demo_ai :: ai_env where
  "demo_ai = \<lparr>aie_dns = (\<lambda>_ _. [''8.8.8.8'']), aie_encrypt = (\<lambda>_ d. py_str (dget d ''api_key'')),
     aie_decrypt = (\<lambda>x. Some [(''api_key'', JStr x)]),
     aie_reply = (\<lambda>_ _. AiResponse 200 (Some (JObj [(''choices'', JArr [])])))\<rparr>"

definition demo_request :: provider_request where
  "demo_request = \<lparr>apr_name = ''n'', apr_provider_type = ''openai_compatible'', apr_endpoint_url = ''https://a.io/'',
     apr_api_key = Some ''k'', apr_model_name = ''m'', apr_is_default = True, apr_max_tokens = 10, apr_temperature = 0,
     apr_enabled = True\<rparr>"

definition demo_ai_state :: ai_state where
  "demo_ai_state = \<lparr>as_db = empty_db, as_providers = [], as_posts = [], as_lookups = 0\<rparr>"

lemma demo_endpoint: "\<exists>k. validate_outbound_url (\<lambda>_ _. [''8.8.8.8'']) 0 ''https://a.io/'' = (Inr (), k)"
proof -
  have "case validate_outbound_url (\<lambda>_ _. [''8.8.8.8'']) 0 ''https://a.io/'' of (Inl _, _) \<Rightarrow> False | (Inr _, _) \<Rightarrow> True"
    by code_simp
  then show ?thesis
    by (auto split: prod.splits sum.splits)
qed

theorem explanation_contained_witness:
  "\<exists>s answer s'. (ai_step demo_ai)\<^sup>*\<^sup>* demo_ai_state s \<and> generate_explanation demo_ai ''c'' ''i'' 5 s = (answer, s') \<and>
     filter (default_of 5) (as_providers s) \<noteq> [] \<and> as_providers s' = as_providers s \<and> length (as_posts s') \<le> length (as_posts s) + 3"
proof -
  obtain k where k: "validate_outbound_url (\<lambda>_ _. [''8.8.8.8'']) 0 ''https://a.io/'' = (Inr (), k)"
    using demo_endpoint by blast
  have "ai_wf demo_ai_state"
    by (simp add: ai_wf_def defaults_def demo_ai_state_def)
  then obtain a s where s: "create_provider demo_ai ''x'' 7 0 5 demo_request demo_ai_state = (Inr a, s)"
    and d: "defaults 5 s = [new_provider demo_ai ''x'' 7 0 5 demo_request]"
    using default_moves [of demo_ai_state 7 demo_request demo_ai k "''x''" 0 5] k
    by (auto simp: demo_ai_state_def demo_request_def demo_ai_def)
  have "with_session (create_provider demo_ai ''x'' 7 0 5 demo_request) demo_ai_state = (Inr a, s)"
    using s by (simp add: with_session_def)
  then have steps: "(ai_step demo_ai)\<^sup>*\<^sup>* demo_ai_state s"
    by (intro r_into_rtranclp ai_step.create) (simp_all add: demo_ai_state_def)
  obtain answer s' where g: "generate_explanation demo_ai ''c'' ''i'' 5 s = (answer, s')"
    by fastforce
  have "as_providers demo_ai_state = []"
    by (simp add: demo_ai_state_def)
  from explanation_contained [OF this steps g] show ?thesis
    using steps g d by (auto simp: defaults_def)
qed

end
