(* ===== verification/Partitions.thy ===== *)
theory Partitions
  imports Registration
begin

text \<open>
  \<^verbatim>\<open>modules/checks/partition_manager.py\<close> and its task: the monthly partitions of the check results and of
  the observations, their names and statements, and that a run leaves every coming month with exactly
  one partition.  The state is the list of the existing partitions; whether the server refuses a
  statement is the argument \<^verbatim>\<open>refuses\<close>.
\<close>

section \<open>Months\<close>

definition PARENT_TABLE :: string where "PARENT_TABLE = ''check_results''"
definition OBSERVATIONS_PARENT_TABLE :: string where "OBSERVATIONS_PARENT_TABLE = ''observations''"
definition MONTHS_AHEAD :: nat where "MONTHS_AHEAD = 12"

type_synonym month = "int \<times> int"

definition following :: "month \<Rightarrow> month" where
  "following mo = (case mo of (y, m) \<Rightarrow> if m = 12 then (y + 1, 1) else (y, m + 1))"

definition month_bounds :: "month \<Rightarrow> month \<times> month" where
  "month_bounds mo = (mo, following mo)"

fun months_loop :: "nat \<Rightarrow> month \<Rightarrow> month list" where
  "months_loop 0 mo = []"
| "months_loop (Suc n) (y, m) = (y, m) # months_loop n (if m + 1 > 12 then (y + 1, 1) else (y, m + 1))"

definition months_ahead :: "time \<Rightarrow> nat \<Rightarrow> month list" where
  "months_ahead now count = months_loop count (civil_year_month (epoch_day now))"

section \<open>Statements\<close>

definition partition_name_for :: "string \<Rightarrow> month \<Rightarrow> string" where
  "partition_name_for parent mo = (case mo of (y, m) \<Rightarrow> parent @ ''_'' @ zero_pad 4 y @ ''_'' @ zero_pad 2 m)"

text \<open>\<^verbatim>\<open>isoformat\<close> of the first instant of a month.\<close>

definition month_isoformat :: "month \<Rightarrow> string" where
  "month_isoformat mo = (case mo of (y, m) \<Rightarrow> zero_pad 4 y @ ''-'' @ zero_pad 2 m @ ''-01T00:00:00+00:00'')"

definition create_partition_ddl :: "string \<Rightarrow> month \<Rightarrow> string" where
  "create_partition_ddl parent mo = ''CREATE TABLE IF NOT EXISTS '' @ partition_name_for parent mo @ '' PARTITION OF '' @ parent @
     '' FOR VALUES FROM ('' @ quoted (month_isoformat (fst (month_bounds mo))) @ '') TO ('' @
     quoted (month_isoformat (snd (month_bounds mo))) @ '')''"

definition drop_partition_ddl :: "string \<Rightarrow> month \<Rightarrow> string" where
  "drop_partition_ddl parent mo = ''DROP TABLE IF EXISTS '' @ partition_name_for parent mo"

section \<open>Creation\<close>

record partition =
  par_name :: string
  par_from :: month
  par_to :: month

definition new_partition :: "string \<Rightarrow> month \<Rightarrow> partition" where
  "new_partition parent mo = \<lparr>par_name = partition_name_for parent mo, par_from = fst (month_bounds mo), par_to = snd (month_bounds mo)\<rparr>"

text \<open>\<^verbatim>\<open>IF NOT EXISTS\<close> looks at the name only.\<close>

definition run_create :: "(string \<Rightarrow> bool) \<Rightarrow> string \<Rightarrow> month \<Rightarrow> partition list \<Rightarrow> (app_error + partition list)" where
  "run_create refuses parent mo ps =
     (if refuses (create_partition_ddl parent mo) then Inl (ValueError ''ProgrammingError'')
      else if partition_name_for parent mo \<in> par_name ` set ps then Inr ps else Inr (ps @ [new_partition parent mo]))"

fun ensure_loop :: "(string \<Rightarrow> bool) \<Rightarrow> string \<Rightarrow> month list \<Rightarrow> partition list \<Rightarrow> app_error + partition list" where
  "ensure_loop refuses parent [] ps = Inr ps"
| "ensure_loop refuses parent (mo # ms) ps = (case run_create refuses parent mo ps of
     Inl e \<Rightarrow> Inl e | Inr ps1 \<Rightarrow> ensure_loop refuses parent ms ps1)"

text \<open>The statements of a run are committed together; the names are those of all its months.\<close>

definition ensure_partitions :: "(string \<Rightarrow> bool) \<Rightarrow> string \<Rightarrow> time \<Rightarrow> nat \<Rightarrow> (string list, partition list) service" where
  "ensure_partitions refuses parent now count ps =
     (case ensure_loop refuses parent (months_ahead now count) ps of
        Inl e \<Rightarrow> (Inl e, ps)
      | Inr ps1 \<Rightarrow> (Inr (map (partition_name_for parent) (months_ahead now count)), ps1))"

text \<open>Both tables, the first committed before the second is begun.\<close>

definition ensure_check_result_partitions :: "(string \<Rightarrow> bool) \<Rightarrow> time \<Rightarrow> nat \<Rightarrow> (nat, partition list) service" where
  "ensure_check_result_partitions refuses now count =
     and_then (ensure_partitions refuses PARENT_TABLE now count) (\<lambda>names.
     and_then (ensure_partitions refuses OBSERVATIONS_PARENT_TABLE now count) (\<lambda>obs_names.
       pure_step (Inr (length names + length obs_names))))"

section \<open>Months as numbers\<close>

definition month_index :: "month \<Rightarrow> int" where
  "month_index mo = 12 * fst mo + snd mo - 1"

definition valid_month :: "month \<Rightarrow> bool" where
  "valid_month mo = (1 \<le> snd mo \<and> snd mo \<le> 12)"

lemma following_index: "valid_month mo \<Longrightarrow> month_index (following mo) = month_index mo + 1 \<and> valid_month (following mo)"
  by (auto simp: following_def month_index_def valid_month_def split: prod.splits)

lemma month_index_inj: "valid_month a \<Longrightarrow> valid_month b \<Longrightarrow> month_index a = month_index b \<Longrightarrow> a = b"
proof -
  assume valid: "valid_month a" "valid_month b" and eq: "month_index a = month_index b"
  have "fst a = fst b" "snd a = snd b"
    using valid eq unfolding month_index_def valid_month_def by presburger+
  then show "a = b"
    by (rule prod_eqI)
qed

lemma months_loop_step: "valid_month mo \<Longrightarrow> months_loop (Suc n) mo = mo # months_loop n (following mo)"
  by (cases mo) (auto simp: following_def valid_month_def)

lemma months_loop_index:
  "valid_month mo \<Longrightarrow> map month_index (months_loop n mo) = map (\<lambda>k. month_index mo + int k) [0..<n] \<and> list_all valid_month (months_loop n mo)"
proof (induction n arbitrary: mo)
  case (Suc n)
  have "map (\<lambda>k. month_index mo + int k) [0..<Suc n] = month_index mo # map (\<lambda>k. month_index (following mo) + int k) [0..<n]"
    using following_index [OF Suc.prems] by (simp add: upt_conv_Cons map_Suc_upt [symmetric] del: upt_Suc)
  then show ?case
    using Suc following_index [OF Suc.prems] by (simp add: months_loop_step del: upt_Suc)
qed simp

lemma now_valid: "valid_month (civil_year_month d)"
  using civil_month_range [of d] by (cases "civil_year_month d") (auto simp: valid_month_def)

section \<open>Names\<close>

lemma parse_zeros: "parse_digits 0 (replicate k CHR ''0'' @ s) = parse_digits 0 s"
  by (induction k) (simp_all add: digit_val_def Let_def)

lemma zero_pad_inj: "0 \<le> a \<Longrightarrow> 0 \<le> b \<Longrightarrow> zero_pad w a = zero_pad w b \<Longrightarrow> a = b"
proof -
  assume nonneg: "0 \<le> a" "0 \<le> b" and eq: "zero_pad w a = zero_pad w b"
  have "parse_digits 0 (zero_pad w x) = Some (nat x)" if "0 \<le> x" for x
    using that show_nat_digits by (simp add: zero_pad_def pad_left_def show_int_def parse_zeros)
  then have "nat a = nat b"
    using nonneg eq by (metis option.inject)
  then show "a = b"
    using nonneg by simp
qed

lemma length_month: "1 \<le> m \<Longrightarrow> m \<le> 12 \<Longrightarrow> length (zero_pad 2 m) = 2"
proof -
  assume m: "1 \<le> m" "m \<le> 12"
  have "length (show_nat n) \<le> 2" if "n \<le> 12" for n
    using that by (subst show_nat.simps, subst show_nat.simps) auto
  then have "length (show_int m) \<le> 2"
    using m by (simp add: show_int_def)
  then show ?thesis
    by (simp add: zero_pad_def pad_left_def)
qed

lemma name_inj:
  assumes "partition_name_for parent a = partition_name_for parent b" and "valid_month a" and "valid_month b" and "0 \<le> fst a" and "0 \<le> fst b"
  shows "a = b"
proof -
  obtain y m y' m' where ab: "a = (y, m)" "b = (y', m')"
    by fastforce
  have "(zero_pad 4 y @ ''_'') @ zero_pad 2 m = (zero_pad 4 y' @ ''_'') @ zero_pad 2 m'"
    using assms(1) by (simp add: partition_name_for_def ab)
  moreover have "length (zero_pad 2 m) = length (zero_pad 2 m')"
    using assms(2,3) length_month by (simp add: valid_month_def ab)
  ultimately have "zero_pad 4 y = zero_pad 4 y'" "zero_pad 2 m = zero_pad 2 m'"
    by (simp_all add: append_eq_append_conv)
  then show ?thesis
    using assms zero_pad_inj [of m m' 2] zero_pad_inj [of y y' 4] by (simp add: ab valid_month_def)
qed

section \<open>Coverage\<close>

definition partitions_wf :: "string \<Rightarrow> partition list \<Rightarrow> bool" where
  "partitions_wf parent ps = (distinct (map par_name ps) \<and>
     (\<forall>p \<in> set ps. valid_month (par_from p) \<and> 0 \<le> fst (par_from p) \<and> p = new_partition parent (par_from p)))"

definition holds_month :: "int \<Rightarrow> partition \<Rightarrow> bool" where
  "holds_month k p = (month_index (par_from p) \<le> k \<and> k < month_index (par_to p))"

lemma new_partition_fields [simp]:
  "par_name (new_partition parent mo) = partition_name_for parent mo" "par_from (new_partition parent mo) = mo"
  "par_to (new_partition parent mo) = following mo"
  by (simp_all add: new_partition_def month_bounds_def)

lemma holds_month_iff:
  assumes "partitions_wf parent ps" and "p \<in> set ps"
  shows "holds_month k p \<longleftrightarrow> month_index (par_from p) = k"
proof -
  have p: "valid_month (par_from p)" "p = new_partition parent (par_from p)"
    using assms by (simp_all add: partitions_wf_def)
  then have "par_to p = following (par_from p)"
    by (metis new_partition_fields(3))
  then show ?thesis
    using following_index [OF p(1)] by (auto simp: holds_month_def)
qed

lemma run_create_wf:
  assumes "partitions_wf parent ps" and "run_create refuses parent mo ps = Inr ps1" and "valid_month mo" and "0 \<le> fst mo"
  shows "partitions_wf parent ps1 \<and> set ps \<subseteq> set ps1 \<and> new_partition parent mo \<in> set ps1"
proof (cases "partition_name_for parent mo \<in> par_name ` set ps")
  case True
  then obtain p where p: "p \<in> set ps" "par_name p = partition_name_for parent mo"
    by auto
  then have q: "valid_month (par_from p)" "0 \<le> fst (par_from p)" "p = new_partition parent (par_from p)"
    using assms(1) by (simp_all add: partitions_wf_def)
  then have "partition_name_for parent (par_from p) = partition_name_for parent mo"
    using p(2) by (metis new_partition_fields(1))
  then have "par_from p = mo"
    using name_inj q(1,2) assms(3,4) by blast
  then show ?thesis
    using assms(1,2) True p(1) q(3) by (auto simp: run_create_def split: if_splits)
next
  case False
  then have "ps1 = ps @ [new_partition parent mo]"
    using assms(2) by (simp add: run_create_def split: if_splits)
  then show ?thesis
    using assms(1,3,4) False by (auto simp: partitions_wf_def)
qed

lemma ensure_loop_wf:
  assumes "partitions_wf parent ps" and "ensure_loop refuses parent ms ps = Inr ps1" and "\<forall>mo \<in> set ms. valid_month mo \<and> 0 \<le> fst mo"
  shows "partitions_wf parent ps1 \<and> set ps \<subseteq> set ps1 \<and> new_partition parent ` set ms \<subseteq> set ps1"
  using assms
proof (induction ms arbitrary: ps)
  case (Cons mo ms)
  then obtain ps2 where ps2: "run_create refuses parent mo ps = Inr ps2" "ensure_loop refuses parent ms ps2 = Inr ps1"
    by (auto split: sum.splits)
  then have "partitions_wf parent ps2 \<and> set ps \<subseteq> set ps2 \<and> new_partition parent mo \<in> set ps2"
    using run_create_wf Cons.prems by simp
  moreover from this have "partitions_wf parent ps1 \<and> set ps2 \<subseteq> set ps1 \<and> new_partition parent ` set ms \<subseteq> set ps1"
    using Cons.IH [of ps2] ps2(2) Cons.prems(3) by (meson list.set_intros(2))
  ultimately show ?case
    by auto
qed simp

lemma index_year: "valid_month a \<Longrightarrow> valid_month b \<Longrightarrow> month_index a \<le> month_index b \<Longrightarrow> fst a \<le> fst b"
  by (cases a; cases b) (simp add: month_index_def valid_month_def)

text \<open>
  A run of the partition task for a table either fails and changes nothing, or keeps every partition and
  leaves exactly one partition for the current month and each of the following ones, as many as asked
  for in all; the months never overlap.
\<close>

theorem months_partitioned:
  assumes "partitions_wf parent ps" and "0 \<le> fst (civil_year_month (epoch_day now))"
  shows "case ensure_partitions refuses parent now count ps of
      (Inl e, ps') \<Rightarrow> ps' = ps
    | (Inr names, ps') \<Rightarrow> length names = count \<and> partitions_wf parent ps' \<and> set ps \<subseteq> set ps' \<and>
        (\<forall>k \<in> {0..<count}. \<exists>!p. p \<in> set ps' \<and> holds_month (month_index (civil_year_month (epoch_day now)) + int k) p)"
proof (cases "ensure_loop refuses parent (months_ahead now count) ps")
  case (Inr ps')
  let ?now = "civil_year_month (epoch_day now)"
  have months: "map month_index (months_ahead now count) = map (\<lambda>k. month_index ?now + int k) [0..<count]"
    "list_all valid_month (months_ahead now count)"
    using months_loop_index [OF now_valid, of count "epoch_day now"] by (simp_all add: months_ahead_def)
  have "valid_month mo \<and> 0 \<le> fst mo" if "mo \<in> set (months_ahead now count)" for mo
  proof -
    have "month_index mo \<in> set (map (\<lambda>k. month_index ?now + int k) [0..<count])"
      using that months(1) by (metis image_eqI list.set_map)
    then have "month_index ?now \<le> month_index mo"
      by auto
    moreover have "valid_month mo"
      using that months(2) by (simp add: list_all_iff)
    ultimately show ?thesis
      using index_year [OF now_valid, of mo "epoch_day now"] assms(2) by linarith
  qed
  then have ps': "partitions_wf parent ps'" "set ps \<subseteq> set ps'" "new_partition parent ` set (months_ahead now count) \<subseteq> set ps'"
    using ensure_loop_wf [OF assms(1) Inr] by auto
  have "\<exists>!p. p \<in> set ps' \<and> holds_month (month_index ?now + int k) p" if "k \<in> {0..<count}" for k
  proof -
    have "month_index ?now + int k \<in> set (map month_index (months_ahead now count))"
      using that unfolding months(1) by auto
    then obtain mo where mo: "mo \<in> set (months_ahead now count)" "month_index mo = month_index ?now + int k"
      by auto
    have new: "new_partition parent mo \<in> set ps'"
      using ps'(3) mo(1) by auto
    have same: "p = new_partition parent mo" if "p \<in> set ps'" "holds_month (month_index ?now + int k) p" for p
    proof -
      have "month_index (par_from p) = month_index mo" "valid_month (par_from p)" "p = new_partition parent (par_from p)"
        using holds_month_iff [OF ps'(1) that(1)] that ps'(1) mo(2) by (auto simp: partitions_wf_def)
      moreover have "valid_month mo"
        using months(2) mo(1) by (simp add: list_all_iff)
      ultimately show ?thesis
        using month_index_inj by metis
    qed
    have "holds_month (month_index ?now + int k) (new_partition parent mo)"
      using holds_month_iff [OF ps'(1) new] mo(2) by simp
    then show ?thesis
      using new same by blast
  qed
  then show ?thesis
    using Inr ps' arg_cong [OF months(1), of length] by (simp add: ensure_partitions_def)
qed (simp add: ensure_partitions_def)

lemma ensure_loop_accepted: "\<exists>ps1. ensure_loop (\<lambda>ddl. False) parent ms ps = Inr ps1"
  by (induction ms arbitrary: ps) (auto simp: run_create_def)

lemma months_partitioned_witness:
  "\<exists>names ps. ensure_partitions (\<lambda>ddl. False) PARENT_TABLE (days 0) 2 [] = (Inr names, ps) \<and> length names = 2 \<and>
     (\<exists>!p. p \<in> set ps \<and> holds_month (month_index (1970, 2)) p)"
proof -
  have "epoch_day (days 0) = 0"
    by (simp add: epoch_day_def time_defs)
  then have now: "civil_year_month (epoch_day (days 0)) = (1970, 1)"
    unfolding civil_year_month_def Let_def by simp
  have created: "\<exists>names ps. ensure_partitions (\<lambda>ddl. False) PARENT_TABLE (days 0) 2 [] = (Inr names, ps)"
    using ensure_loop_accepted [of PARENT_TABLE "months_ahead (days 0) 2" "[]"] by (auto simp: ensure_partitions_def)
  then obtain names ps where run: "ensure_partitions (\<lambda>ddl. False) PARENT_TABLE (days 0) 2 [] = (Inr names, ps)"
    by blast
  have start: "partitions_wf PARENT_TABLE []" "0 \<le> fst (civil_year_month (epoch_day (days 0)))"
    unfolding now by (simp_all add: partitions_wf_def)
  have "length names = 2 \<and> (\<forall>k \<in> {0..<2}. \<exists>!p. p \<in> set ps \<and> holds_month (month_index (1970, 1) + int k) p)"
    using months_partitioned [OF start, where refuses = "\<lambda>ddl. False" and count = 2] unfolding run now prod.case sum.case by blast
  moreover have "month_index (1970, 2) = month_index (1970, 1) + int 1" "1 \<in> {0..<2::nat}"
    by (simp_all add: month_index_def)
  ultimately show ?thesis
    using run by metis
qed

end
