(* ===== verification/Dashboard.thy ===== *)
theory Dashboard
  imports Vendors Policy_Properties "HOL-Library.Multiset"
begin

text \<open>
  \<^verbatim>\<open>modules/dashboard\<close> and the joined incident listing of \<^verbatim>\<open>modules/incidents/repository.py\<close>: the
  summary, the health of the dependencies, the latency points and the incident timeline with its
  cursors.  The collation of names is the argument \<^verbatim>\<open>coll\<close>; the ranges of the query parameters are those
  the routes declare.
\<close>

section \<open>Summary\<close>

record dashboard_summary =
  das_active_dependencies_count :: nat
  das_open_incidents_count :: nat
  das_overall_uptime_percentage :: real
  das_alerts_today_count :: nat

definition active_dependencies :: "monitor \<Rightarrow> uuid \<Rightarrow> dependency list" where
  "active_dependencies s org_id = filter (\<lambda>d. d_org_id d = org_id \<and> d_is_active d \<and> \<not> d_is_deleted d) (mo_dependencies s)"

definition today_start :: "time \<Rightarrow> time" where
  "today_start now = epoch_day now * days 1"

definition overall_uptime :: "check_result list \<Rightarrow> real" where
  "overall_uptime rs = (if rs = [] then 100 else py_round 2 (real (length (filter cr_is_up rs)) / real (length rs) * 100))"

definition get_summary_stats :: "time \<Rightarrow> monitor \<Rightarrow> uuid \<Rightarrow> dashboard_summary" where
  "get_summary_stats now s org_id =
     \<lparr>das_active_dependencies_count = length (active_dependencies s org_id),
      das_open_incidents_count = length (filter (\<lambda>r. in_org_id r = org_id \<and> in_status r = IncOpen) (mo_incidents s)),
      das_overall_uptime_percentage =
        overall_uptime (filter (\<lambda>r. cr_org_id r = org_id \<and> now - hours 24 \<le> cr_executed_at r) (mo_checks s)),
      das_alerts_today_count = length (filter (\<lambda>r. in_org_id r = org_id \<and> today_start now \<le> in_started_at r) (mo_incidents s))\<rparr>"

definition dashboard_get_summary :: "time \<Rightarrow> monitor \<Rightarrow> uuid \<Rightarrow> dashboard_summary" where
  "dashboard_get_summary now s org_id = get_summary_stats now s org_id"

text \<open>The uptime of the summary is a percentage.\<close>

theorem summary_uptime: "0 \<le> das_overall_uptime_percentage (dashboard_get_summary now s org_id) \<and> das_overall_uptime_percentage (dashboard_get_summary now s org_id) \<le> 100"
proof -
  have "0 \<le> overall_uptime rs \<and> overall_uptime rs \<le> 100" for rs
  proof (cases "rs = []")
    case False
    then have "real (length (filter cr_is_up rs)) / real (length rs) * 100 \<le> 100"
      by (simp add: divide_le_eq)
    then show ?thesis
      using py_round_between [of 0 "real (length (filter cr_is_up rs)) / real (length rs) * 100" 100 2] False
      by (simp add: overall_uptime_def)
  qed (simp add: overall_uptime_def)
  then show ?thesis
    by (simp add: dashboard_get_summary_def get_summary_stats_def)
qed

section \<open>Dependencies\<close>

definition list_active_dependencies :: "(string \<Rightarrow> 'k::linorder) \<Rightarrow> monitor \<Rightarrow> uuid \<Rightarrow> dependency list" where
  "list_active_dependencies coll s org_id = sort_key (\<lambda>d. coll (d_name d)) (active_dependencies s org_id)"

record dependency_health =
  dhe_dependency_id :: uuid
  dhe_name :: string
  dhe_endpoint_url :: string
  dhe_current_status :: string
  dhe_uptime_percentage_24h :: real
  dhe_avg_latency_ms_24h :: real

definition health_status :: "dependency \<Rightarrow> real \<Rightarrow> string" where
  "health_status d up_pct = (if \<not> d_is_active d then ''paused'' else if 99 \<le> up_pct then ''operational'' else ''degraded'')"

definition health_row :: "dependency \<Rightarrow> check_stats option \<Rightarrow> dependency_health" where
  "health_row d stats =
     (let up_pct = (case stats of None \<Rightarrow> 100 | Some x \<Rightarrow> cs_uptime_percentage x)
      in \<lparr>dhe_dependency_id = d_id d, dhe_name = d_name d, dhe_endpoint_url = d_endpoint_url d,
          dhe_current_status = health_status d up_pct, dhe_uptime_percentage_24h = up_pct,
          dhe_avg_latency_ms_24h = (case stats of None \<Rightarrow> 0 | Some x \<Rightarrow> cs_avg_latency_ms x)\<rparr>)"

definition get_dependency_health :: "(string \<Rightarrow> 'k::linorder) \<Rightarrow> time \<Rightarrow> monitor \<Rightarrow> uuid \<Rightarrow> dependency_health list" where
  "get_dependency_health coll now s org_id =
     (let deps = list_active_dependencies coll s org_id; stats_map = get_aggregated_stats_bulk now s (map d_id deps) 24
      in map (\<lambda>d. health_row d (stats_map (d_id d))) deps)"

text \<open>
  The two queries of the health view give each dependency what a query of its own would give, and no
  dependency is shown as paused.
\<close>

theorem health_agrees:
  "get_dependency_health coll now s org_id =
     map (\<lambda>d. health_row d (Some (get_aggregated_stats now s (d_id d) 24))) (list_active_dependencies coll s org_id) \<and>
   list_all (\<lambda>h. dhe_current_status h = (if 99 \<le> dhe_uptime_percentage_24h h then ''operational'' else ''degraded''))
     (get_dependency_health coll now s org_id)"
proof
  show agree: "get_dependency_health coll now s org_id =
     map (\<lambda>d. health_row d (Some (get_aggregated_stats now s (d_id d) 24))) (list_active_dependencies coll s org_id)"
    by (simp add: get_dependency_health_def Let_def bulk_stats_agree)
  show "list_all (\<lambda>h. dhe_current_status h = (if 99 \<le> dhe_uptime_percentage_24h h then ''operational'' else ''degraded''))
     (get_dependency_health coll now s org_id)"
    by (simp add: agree list_all_iff health_row_def Let_def health_status_def list_active_dependencies_def active_dependencies_def)
qed

section \<open>Latency and degradation\<close>

record latency_point =
  lap_timestamp :: time
  lap_region :: string
  lap_latency_ms :: real
  lap_dependency_id :: "uuid option"

definition get_latency_timeseries :: "time \<Rightarrow> int \<Rightarrow> monitor \<Rightarrow> uuid \<Rightarrow> latency_point list" where
  "get_latency_timeseries now window m org_id =
     map (\<lambda>ob. \<lparr>lap_timestamp = ob_timestamp ob, lap_region = ob_region ob, lap_latency_ms = ob_latency_ms ob, lap_dependency_id = ob_source_id ob\<rparr>)
       (filter (\<lambda>ob. ob_source_type ob = ''customer_check'') (rev (observations_list_for_org m org_id 500 (Some (now - hours window)))))"

record sla_response =
  slr_total_degradation_pct :: real
  slr_affected_services :: nat
  slr_period :: string

definition sla_degradation_route :: "time \<Rightarrow> monitor \<Rightarrow> uuid \<Rightarrow> int \<Rightarrow> sla_response" where
  "sla_degradation_route now m org_id period_days =
     (let stats = get_sla_degradation now m org_id period_days
      in \<lparr>slr_total_degradation_pct = sd_total_degradation_pct stats, slr_affected_services = sd_affected_services stats,
          slr_period = show_int period_days @ ''d''\<rparr>)"

definition get_vendor_status :: "(string \<Rightarrow> 'k::linorder) \<Rightarrow> catalog \<Rightarrow> vendor_detail list" where
  "get_vendor_status coll s = get_vendor_details_bulk coll s"

text \<open>The points run forwards in time, lie in the window and belong to the organization.\<close>

theorem latency_points_ordered:
  "sorted (map lap_timestamp (get_latency_timeseries now window m org_id)) \<and>
   length (get_latency_timeseries now window m org_id) \<le> 500 \<and>
   list_all (\<lambda>p. now - hours window \<le> lap_timestamp p \<and> list_ex (\<lambda>ob. ob_org_id ob = Some org_id \<and> ob_timestamp ob = lap_timestamp p \<and>
     ob_source_id ob = lap_dependency_id p) (mo_observations m)) (get_latency_timeseries now window m org_id)"
proof -
  let ?own = "filter (\<lambda>ob. ob_org_id ob = Some org_id \<and> now - hours window \<le> ob_timestamp ob) (mo_observations m)"
  let ?rows = "observations_list_for_org m org_id 500 (Some (now - hours window))"
  have rows: "?rows = take 500 (sort_key (\<lambda>ob. - ob_timestamp ob) ?own)"
    by (simp add: observations_list_for_org_def page_of_def)
  have "sorted (map (\<lambda>ob. - ob_timestamp ob) ?rows)"
    unfolding rows take_map [symmetric] by (rule sorted_wrt_take, rule sorted_sort_key)
  then have "sorted_wrt (\<lambda>a b. ob_timestamp b \<le> ob_timestamp a) ?rows"
    by (simp add: sorted_map)
  then have "sorted_wrt (\<lambda>a b. ob_timestamp a \<le> ob_timestamp b) (rev ?rows)"
    by (simp add: sorted_wrt_rev)
  then have "sorted_wrt (\<lambda>a b. ob_timestamp a \<le> ob_timestamp b) (filter (\<lambda>ob. ob_source_type ob = ''customer_check'') (rev ?rows))"
    by (rule sorted_wrt_filter)
  then have "sorted (map lap_timestamp (get_latency_timeseries now window m org_id))"
    by (simp add: get_latency_timeseries_def sorted_map comp_def sorted_wrt_map)
  moreover have "length (get_latency_timeseries now window m org_id) \<le> length ?rows"
    unfolding get_latency_timeseries_def length_map by (metis length_filter_le length_rev)
  moreover have "length ?rows \<le> 500"
    unfolding rows by simp
  moreover have "set ?rows \<subseteq> set ?own"
    using set_take_subset [of 500 "sort_key (\<lambda>ob. - ob_timestamp ob) ?own"] unfolding rows set_sort .
  then have "list_all (\<lambda>p. now - hours window \<le> lap_timestamp p \<and> list_ex (\<lambda>ob. ob_org_id ob = Some org_id \<and> ob_timestamp ob = lap_timestamp p \<and>
     ob_source_id ob = lap_dependency_id p) (mo_observations m)) (get_latency_timeseries now window m org_id)"
    by (auto simp: get_latency_timeseries_def list_all_iff list_ex_iff)
  ultimately show ?thesis
    by linarith
qed

section \<open>Incident timeline\<close>

text \<open>Newest first, the identifier as tie-breaker; a cursor that names no incident is ignored.\<close>

definition incident_key :: "incident \<Rightarrow> int \<times> int" where
  "incident_key r = (- in_started_at r, - int (in_id r))"

definition incident_before :: "incident \<Rightarrow> incident \<Rightarrow> bool" where
  "incident_before c r = (in_started_at r < in_started_at c \<or> (in_started_at r = in_started_at c \<and> in_id r < in_id c))"

definition correlations_of :: "monitor \<Rightarrow> incident list \<Rightarrow> uuid \<Rightarrow> incident_correlation list" where
  "correlations_of s incs i =
     filter (\<lambda>c. ic_incident_id c = i) (sort_key (\<lambda>c. - ic_confidence c) (filter (\<lambda>c. ic_incident_id c \<in> set (map in_id incs)) (mo_correlations s)))"

definition list_with_correlations_for_org ::
    "monitor \<Rightarrow> uuid \<Rightarrow> nat \<Rightarrow> uuid option \<Rightarrow> (incident \<times> incident_correlation list) list" where
  "list_with_correlations_for_org s org_id limit cursor =
     (let own = filter (\<lambda>r. in_org_id r = org_id) (mo_incidents s);
          older = (case cursor of None \<Rightarrow> own
            | Some c \<Rightarrow> (case incident_get_by_id s c of None \<Rightarrow> own | Some x \<Rightarrow> filter (incident_before x) own));
          incs = take limit (sort_key incident_key older)
      in map (\<lambda>r. (r, correlations_of s incs (in_id r))) incs)"

definition get_incident_timeline ::
    "monitor \<Rightarrow> uuid \<Rightarrow> nat \<Rightarrow> uuid option \<Rightarrow> (incident \<times> incident_correlation list) list" where
  "get_incident_timeline s org_id limit cursor = list_with_correlations_for_org s org_id limit cursor"

text \<open>The route passes no limit to the envelope, which reports its default.\<close>

definition incident_timeline_route ::
    "monitor \<Rightarrow> uuid \<Rightarrow> nat \<Rightarrow> uuid option \<Rightarrow> (incident \<times> incident_correlation list) paginated_response" where
  "incident_timeline_route s org_id limit cursor =
     (let rows = get_incident_timeline s org_id (limit + 1) cursor; has_more = limit < length rows; items = take limit rows
      in accept_legacy_kwargs ((no_kwargs items)\<lparr>lk_has_more := Some has_more,
           lk_next_cursor := (if has_more \<and> items \<noteq> [] then Some (uuid_str (in_id (fst (last items)))) else None)\<rparr>))"

text \<open>A client that sends the cursor of each page with its next request.\<close>

fun follow_timeline :: "monitor \<Rightarrow> uuid \<Rightarrow> nat \<Rightarrow> nat \<Rightarrow> uuid option \<Rightarrow> (incident \<times> incident_correlation list) list list" where
  "follow_timeline s org_id limit 0 cursor = []"
| "follow_timeline s org_id limit (Suc fuel) cursor =
     (let page = incident_timeline_route s org_id limit cursor
      in pn_data page # (case Option.bind (pn_next_cursor page) parse_uuid of
           None \<Rightarrow> [] | Some c \<Rightarrow> follow_timeline s org_id limit fuel (Some c)))"

definition all_incidents :: "monitor \<Rightarrow> uuid \<Rightarrow> (incident \<times> incident_correlation list) list" where
  "all_incidents s org_id =
     map (\<lambda>r. (r, get_correlations s (in_id r))) (sort_key incident_key (filter (\<lambda>r. in_org_id r = org_id) (mo_incidents s)))"

lemma filtered_after:
  fixes key :: "'r \<Rightarrow> 'k::linorder"
  assumes "inj_on key (set rows)" and "distinct rows" and "sort_key key rows = xs @ r # ys"
  shows "sort_key key (filter (\<lambda>y. key r < key y) rows) = ys"
proof -
  have sets: "set (xs @ r # ys) = set rows" "distinct (xs @ r # ys)"
    using assms(2) unfolding assms(3) [symmetric] by simp_all
  have "sorted (map key (xs @ r # ys))"
    unfolding assms(3) [symmetric] by (rule sorted_sort_key)
  then have order: "\<forall>x \<in> set xs. key x \<le> key r" "\<forall>y \<in> set ys. key r \<le> key y"
    by (auto simp: sorted_append)
  have "key r \<noteq> key y" if "y \<in> set ys" for y
    using that sets inj_onD [OF assms(1), of r y] by auto
  then have "filter (\<lambda>y. key r < key y) (xs @ r # ys) = ys"
    using order by (auto simp: filter_empty_conv filter_id_conv order_less_le)
  then show ?thesis
    unfolding assms(3) [symmetric] filter_sort .
qed

lemma correlations_of_get: "r \<in> set incs \<Longrightarrow> correlations_of s incs (in_id r) = get_correlations s (in_id r)"
  unfolding correlations_of_def get_correlations_def filter_sort [symmetric] filter_filter
  by (rule filter_cong) auto

lemma list_with_correlations:
  "list_with_correlations_for_org s org_id limit cursor = map (\<lambda>r. (r, get_correlations s (in_id r))) (take limit (sort_key incident_key
     (case cursor of None \<Rightarrow> filter (\<lambda>r. in_org_id r = org_id) (mo_incidents s)
      | Some c \<Rightarrow> (case incident_get_by_id s c of None \<Rightarrow> filter (\<lambda>r. in_org_id r = org_id) (mo_incidents s)
        | Some x \<Rightarrow> filter (incident_before x) (filter (\<lambda>r. in_org_id r = org_id) (mo_incidents s))))))"
  unfolding list_with_correlations_for_org_def Let_def by (rule map_cong) (simp_all add: correlations_of_get)

lemma incident_before_key: "incident_before c r \<longleftrightarrow> incident_key c < incident_key r"
  by (auto simp: incident_before_def incident_key_def less_prod_def')

lemma list_after:
  assumes "distinct (map in_id (mo_incidents s))" and "all_incidents s org_id = xs @ (r, cs) # ys"
  shows "list_with_correlations_for_org s org_id n (Some (in_id r)) = take n ys"
proof -
  let ?own = "filter (\<lambda>r. in_org_id r = org_id) (mo_incidents s)"
  let ?row = "\<lambda>r. (r, get_correlations s (in_id r))"
  obtain xs' ys' where rows: "sort_key incident_key ?own = xs' @ r # ys'" "ys = map ?row ys'"
    using assms(2) unfolding all_incidents_def by (auto simp: map_eq_append_conv)
  then have "r \<in> set (mo_incidents s)"
    by (metis filter_is_subset in_set_conv_decomp set_sort subsetD)
  then have found: "incident_get_by_id s (in_id r) = Some r"
    using assms(1) by (simp add: incident_get_by_id_def get_row_distinct)
  have "inj_on incident_key (set ?own)" "distinct ?own"
    using assms(1) by (auto simp: distinct_map inj_on_def incident_key_def)
  then have "sort_key incident_key (filter (incident_before r) ?own) = ys'"
    unfolding incident_before_key using rows(1) by (rule filtered_after)
  then show ?thesis
    by (simp add: list_with_correlations found rows(2) take_map)
qed

interpretation incident_listing:
  cursor_listing "\<lambda>s n cursor. list_with_correlations_for_org s org_id n cursor" "\<lambda>row. in_id (fst row)" "\<lambda>s. all_incidents s org_id"
    "\<lambda>s. distinct (map in_id (mo_incidents s))" for org_id
proof
  fix s n
  show "list_with_correlations_for_org s org_id n None = take n (all_incidents s org_id)"
    by (simp add: list_with_correlations all_incidents_def take_map)
next
  fix s n xs r ys
  assume "distinct (map in_id (mo_incidents s))" and "all_incidents s org_id = xs @ r # ys"
  then show "list_with_correlations_for_org s org_id n (Some (in_id (fst r))) = take n ys"
    using list_after [of s org_id xs "fst r" "snd r" ys n] by simp
qed

lemma follow_walk:
  assumes "\<forall>r \<in> set (mo_incidents s). in_id r < 2 ^ 128"
  shows "follow_timeline s org_id limit fuel cursor =
    walk_pages (list_with_correlations_for_org s org_id) (\<lambda>row. in_id (fst row)) limit fuel cursor"
proof (induction fuel arbitrary: cursor)
  case (Suc fuel)
  let ?rows = "list_with_correlations_for_org s org_id (limit + 1) cursor"
  have "parse_uuid (uuid_str (in_id (fst (last (take limit ?rows))))) = Some (in_id (fst (last (take limit ?rows))))" if "take limit ?rows \<noteq> []"
  proof (rule uuid_roundtrip_aux)
    have "last (take limit ?rows) \<in> set ?rows"
      using that by (meson in_set_takeD last_in_set)
    then have "fst (last (take limit ?rows)) \<in> set (mo_incidents s)"
      unfolding list_with_correlations by (auto dest!: in_set_takeD split: option.splits)
    then show "in_id (fst (last (take limit ?rows))) < 2 ^ 128"
      using assms by blast
  qed
  then show ?case
    using Suc.IH by (simp add: incident_timeline_route_def get_incident_timeline_def accept_legacy_kwargs_def no_kwargs_def Let_def)
qed simp

text \<open>
  C31: Following the cursors of the dashboard's incident timeline shows every incident of the organization
  exactly once, newest first and with its own correlations, whatever the page size, in pages of at most
  that size.
\<close>

theorem incident_timeline_pages:
  assumes "distinct (map in_id (mo_incidents s))" and "\<forall>r \<in> set (mo_incidents s). in_id r < 2 ^ 128"
    and "0 < limit" and "length (mo_incidents s) < fuel * limit"
  shows "concat (follow_timeline s org_id limit fuel None) = all_incidents s org_id \<and>
    (\<forall>page \<in> set (follow_timeline s org_id limit fuel None). length page \<le> limit) \<and>
    mset (map fst (concat (follow_timeline s org_id limit fuel None))) = mset (filter (\<lambda>r. in_org_id r = org_id) (mo_incidents s))"
proof -
  have "length (all_incidents s org_id) \<le> length (mo_incidents s)"
    by (simp add: all_incidents_def)
  then have pages: "concat (follow_timeline s org_id limit fuel None) = all_incidents s org_id \<and>
      (\<forall>page \<in> set (follow_timeline s org_id limit fuel None). length page \<le> limit)"
    unfolding follow_walk [OF assms(2)] using incident_listing.walk_all [of limit s org_id fuel] assms by linarith
  have "map fst (all_incidents s org_id) = sort_key incident_key (filter (\<lambda>r. in_org_id r = org_id) (mo_incidents s))"
    by (simp add: all_incidents_def comp_def)
  then show ?thesis
    using pages by simp
qed

definition dated_incident :: "uuid \<Rightarrow> time \<Rightarrow> incident" where
  "dated_incident i t = \<lparr>in_id = i, in_org_id = 1, in_dependency_id = 2, in_started_at = t, in_resolved_at = None, in_severity = Major,
     in_status = IncOpen, in_root_cause = UnknownCause, in_description = None, in_evidence_report_id = None, in_created_at = t\<rparr>"

lemma incident_timeline_pages_witness:
  "map (in_id \<circ> fst) (concat (follow_timeline (empty_monitor\<lparr>mo_incidents := [dated_incident 5 10, dated_incident 6 30, dated_incident 7 10]\<rparr>)
     1 1 4 None)) = [6, 7, 5]"
proof -
  let ?s = "empty_monitor\<lparr>mo_incidents := [dated_incident 5 10, dated_incident 6 30, dated_incident 7 10]\<rparr>"
  have "concat (follow_timeline ?s 1 1 4 None) = all_incidents ?s 1"
    using incident_timeline_pages [where s = ?s and limit = 1 and fuel = 4 and org_id = 1] by (simp add: dated_incident_def)
  then show ?thesis
    by (simp add: all_incidents_def dated_incident_def incident_key_def)
qed

end
