(* ===== verification/Timeline_Share.thy ===== *)
theory Timeline_Share
  imports Vendors Access
begin

text \<open>
  \<^verbatim>\<open>modules/timeline_share\<close>: the share links with their optional sign-in, the views, and the image route
  with its cache.  The drawing of the chart is the parameter \<^verbatim>\<open>ts_render\<close>; what the route prepares for it
  is modelled.
\<close>

section \<open>State\<close>

record timeline_share =
  tsh_id :: uuid
  tsh_vendor_name :: string
  tsh_user_id :: "uuid option"
  tsh_share_token :: string
  tsh_window :: string
  tsh_region :: string
  tsh_note :: "string option"
  tsh_utm_source :: "string option"
  tsh_view_count :: nat
  tsh_expires_at :: time

type_synonym png_key = "string \<times> string \<times> string"

record sharing =
  sg_catalog :: catalog
  sg_shares :: "timeline_share list"
  sg_png_cache :: "png_key \<rightharpoonup> string \<times> time"

definition PNG_CACHE_TTL_SECONDS :: int where "PNG_CACHE_TTL_SECONDS = 300"
definition FRONTEND_TRACK_BASE :: string where "FRONTEND_TRACK_BASE = ''https://frontend.zevcloud.app/track''"

section \<open>Repository\<close>

text \<open>The columns and constraints of the table: the lengths, the unique token and the user.\<close>

definition share_insert :: "timeline_share \<Rightarrow> (timeline_share, sharing) service" where
  "share_insert r s =
     (if length (tsh_vendor_name r) > 255 \<or> length (tsh_share_token r) > 255 \<or> length (tsh_window r) > 50 \<or> length (tsh_region r) > 50 \<or>
         (case tsh_utm_source r of None \<Rightarrow> False | Some u \<Rightarrow> length u > 255)
      then (Inl (ValueError ''value too long for type character varying''), s)
      else if list_ex (\<lambda>x. tsh_share_token x = tsh_share_token r) (sg_shares s)
      then (Inl (IntegrityError ''ix_timeline_shares_share_token''), s)
      else if (case tsh_user_id r of None \<Rightarrow> False | Some u \<Rightarrow> user_get_by_id (mo_db (ca_monitor (sg_catalog s))) u = None)
      then (Inl (IntegrityError ''timeline_shares_user_id_fkey''), s)
      else (Inr r, s\<lparr>sg_shares := sg_shares s @ [r]\<rparr>))"

definition share_get_by_token :: "sharing \<Rightarrow> string \<Rightarrow> timeline_share option" where
  "share_get_by_token s token = get_row tsh_share_token token (sg_shares s)"

definition increment_view_count :: "uuid \<Rightarrow> sharing \<Rightarrow> sharing" where
  "increment_view_count i s = s\<lparr>sg_shares := map (\<lambda>r. if tsh_id r = i then r\<lparr>tsh_view_count := tsh_view_count r + 1\<rparr> else r) (sg_shares s)\<rparr>"

section \<open>Share links\<close>

record share_request =
  tsr_window :: string
  tsr_region :: string
  tsr_note :: "string option"

record share_response =
  tsp_share_url :: string
  tsp_expires_at :: time
  tsp_share_token :: string
  tsp_vendor_name :: string

definition share_url :: "string \<Rightarrow> timeline_share \<Rightarrow> string" where
  "share_url base r = base @ ''/shared/timeline/'' @ tsh_vendor_name r @ ''?token='' @ tsh_share_token r @ ''&window='' @ tsh_window r @
     ''&region='' @ tsh_region r"

definition create_share_link ::
    "uuid \<Rightarrow> string \<Rightarrow> time \<Rightarrow> string \<Rightarrow> uuid option \<Rightarrow> share_request \<Rightarrow> string \<Rightarrow> (share_response, sharing) service" where
  "create_share_link i token now vendor_name user_id rq base s =
     (case share_insert \<lparr>tsh_id = i, tsh_vendor_name = lower vendor_name, tsh_user_id = user_id, tsh_share_token = token,
          tsh_window = tsr_window rq, tsh_region = tsr_region rq, tsh_note = tsr_note rq, tsh_utm_source = None, tsh_view_count = 0,
          tsh_expires_at = now + hours 1\<rparr> s of
        (Inl e, s1) \<Rightarrow> (Inl e, s1)
      | (Inr r, s1) \<Rightarrow> (Inr \<lparr>tsp_share_url = share_url base r, tsp_expires_at = now + hours 1, tsp_share_token = token,
          tsp_vendor_name = tsh_vendor_name r\<rparr>, s1))"

text \<open>The errors of the recording are logged.\<close>

definition record_share_event :: "uuid \<Rightarrow> string \<Rightarrow> time \<Rightarrow> string \<Rightarrow> uuid option \<Rightarrow> string option \<Rightarrow> sharing \<Rightarrow> sharing" where
  "record_share_event i token now vendor_name user_id utm s =
     snd (share_insert \<lparr>tsh_id = i, tsh_vendor_name = lower vendor_name, tsh_user_id = user_id, tsh_share_token = token,
       tsh_window = ''24h'', tsh_region = ''us-east'', tsh_note = None, tsh_utm_source = utm, tsh_view_count = 0,
       tsh_expires_at = now + hours 1\<rparr> s)"

text \<open>
  The route calls the dependency as a function, so its bearer argument is FastAPI's marker and not the
  credentials: reading them fails, and only a key in \<^verbatim>\<open>X-API-Key\<close> or raw in the authorization is found.
\<close>

definition plain_key :: "http_request \<Rightarrow> bool" where
  "plain_key rq = (strip (header rq ''x-api-key'') \<noteq> [] \<or> starts_with (lower (strip (header rq ''authorization''))) ''rel_'')"

definition share_user :: "access_env \<Rightarrow> auth \<Rightarrow> http_request \<Rightarrow> request_state \<Rightarrow> access_redis \<Rightarrow> uuid option \<times> access_redis" where
  "share_user env a rq st r =
     (if plain_key rq
      then (case get_current_user env a rq st r of (Inr (u, _), r1) \<Rightarrow> (Some (u_id u), r1) | (Inl _, r1) \<Rightarrow> (None, r1))
      else (None, r))"

definition create_timeline_share ::
    "access_env \<Rightarrow> auth \<Rightarrow> http_request \<Rightarrow> request_state \<Rightarrow> access_redis \<Rightarrow> uuid \<Rightarrow> string \<Rightarrow> string \<Rightarrow> share_request \<Rightarrow> (share_response, sharing) service" where
  "create_timeline_share env a rq st r i token vendor_name body =
     create_share_link i token (ae_now env) vendor_name (fst (share_user env a rq st r)) body ''https://frontend.zevcloud.app''"

section \<open>Images\<close>

text \<open>What the chart is drawn from; without points, a flat line over the last day.\<close>

record chart =
  ch_display_name :: string
  ch_window :: string
  ch_region :: string
  ch_size :: "int \<times> int"
  ch_series :: "(time \<times> real \<times> bool) list"
  ch_incidents :: "(time \<times> real) list"
  ch_qr_url :: "string option"

definition chart_row :: "timeline_point \<Rightarrow> time \<times> real \<times> bool" where
  "chart_row p = (tr_bucket_start (tp_row p), tr_avg_latency_ms (tp_row p), tr_is_up (tp_row p))"

definition chart_series :: "time \<Rightarrow> timeline_point list \<Rightarrow> (time \<times> real \<times> bool) list" where
  "chart_series now points = (if points = [] then [(now - hours 24, 0, True), (now, 0, True)] else map chart_row points)"

definition incident_marks :: "timeline_point list \<Rightarrow> (time \<times> real) list" where
  "incident_marks points = map (\<lambda>p. (fst (chart_row p), fst (snd (chart_row p)))) (filter (\<lambda>p. tp_incident_id p \<noteq> None) points)"

definition qr_url :: "string \<Rightarrow> string option \<Rightarrow> string" where
  "qr_url vendor_name utm = FRONTEND_TRACK_BASE @ ''/'' @ vendor_name @ ''?utm_source=share_png'' @
     (if str_truthy utm then ''&utm_source='' @ the utm else [])"

record png_request =
  pq_vendor_name :: string
  pq_window :: string
  pq_region :: string
  pq_width :: int
  pq_height :: int
  pq_include_qr :: bool
  pq_utm_source :: "string option"

definition valid_png_request :: "png_request \<Rightarrow> bool" where
  "valid_png_request q = (400 \<le> pq_width q \<and> pq_width q \<le> 2400 \<and> 300 \<le> pq_height q \<and> pq_height q \<le> 1200)"

definition png_key_of :: "png_request \<Rightarrow> png_key" where
  "png_key_of q = (lower (pq_vendor_name q), pq_window q, pq_region q)"

definition chart_of :: "time \<Rightarrow> string \<Rightarrow> png_request \<Rightarrow> timeline_point list \<Rightarrow> chart" where
  "chart_of now display_name q points =
     \<lparr>ch_display_name = display_name, ch_window = pq_window q, ch_region = pq_region q, ch_size = (pq_width q, pq_height q),
      ch_series = chart_series now points, ch_incidents = incident_marks points,
      ch_qr_url = (if pq_include_qr q then Some (qr_url (pq_vendor_name q) (pq_utm_source q)) else None)\<rparr>"

record share_env =
  ts_vendor :: vendor_env
  ts_render :: "time \<Rightarrow> chart \<Rightarrow> app_error + string"

text \<open>\<^verbatim>\<open>str.title\<close> on the words of a name.\<close>

fun title_from :: "bool \<Rightarrow> string \<Rightarrow> string" where
  "title_from inside [] = []"
| "title_from inside (c # s) = (if is_alpha c then (if inside then lower_char c else upper_char c) # title_from True s else c # title_from False s)"

definition get_vendor_display_name :: "catalog \<Rightarrow> string \<Rightarrow> string" where
  "get_vendor_display_name s name = (case vendor_get_by_name s name of
     Some v \<Rightarrow> vt_display_name v
   | None \<Rightarrow> title_from False (map (\<lambda>c. if c = CHR ''-'' then CHR '' '' else c) name))"

definition fetch_timeline_data ::
    "(string \<Rightarrow> 'k::linorder) \<Rightarrow> share_env \<Rightarrow> time \<Rightarrow> png_request \<Rightarrow> (vendor_timeline, sharing) service" where
  "fetch_timeline_data coll env now q s =
     (case get_vendor_timeline coll (ts_vendor env) now (pq_vendor_name q) (pq_window q) ''auto'' (Some (pq_region q)) (sg_catalog s) of
        (r, c) \<Rightarrow> (r, s\<lparr>sg_catalog := c\<rparr>))"

definition cached_png :: "time \<Rightarrow> png_key \<Rightarrow> sharing \<Rightarrow> string option" where
  "cached_png now k s = (case sg_png_cache s k of None \<Rightarrow> None
     | Some (bytes, ts) \<Rightarrow> if now - ts < seconds PNG_CACHE_TTL_SECONDS then Some bytes else None)"

text \<open>The renderer is a plain function whose result is awaited: bytes cannot be.\<close>

definition await_bytes :: "string \<Rightarrow> app_error + string" where
  "await_bytes bytes = Inl (ValueError ''object bytes cannot be used in an await expression'')"

definition render_chart :: "share_env \<Rightarrow> time \<Rightarrow> chart \<Rightarrow> app_error + string" where
  "render_chart env now chart = (case ts_render env now chart of Inl e \<Rightarrow> Inl e | Inr bytes \<Rightarrow> await_bytes bytes)"

definition prune_cache :: "time \<Rightarrow> sharing \<Rightarrow> sharing" where
  "prune_cache now s = s\<lparr>sg_png_cache := (\<lambda>k. case sg_png_cache s k of None \<Rightarrow> None
     | Some (bytes, ts) \<Rightarrow> if seconds PNG_CACHE_TTL_SECONDS \<le> now - ts then None else Some (bytes, ts))\<rparr>"

definition draw_png :: "(string \<Rightarrow> 'k::linorder) \<Rightarrow> share_env \<Rightarrow> time \<Rightarrow> png_request \<Rightarrow> (string, sharing) service" where
  "draw_png coll env now q = and_then (fetch_timeline_data coll env now q) (\<lambda>data s.
     case render_chart env now (chart_of now (get_vendor_display_name (sg_catalog s) (pq_vendor_name q)) q (vm_points data)) of
        Inl e \<Rightarrow> (Inl e, s)
      | Inr png \<Rightarrow> (Inr png, prune_cache now (s\<lparr>sg_png_cache := (sg_png_cache s)(png_key_of q \<mapsto> (png, now))\<rparr>)))"

definition generate_timeline_png :: "(string \<Rightarrow> 'k::linorder) \<Rightarrow> share_env \<Rightarrow> time \<Rightarrow> png_request \<Rightarrow> (string, sharing) service" where
  "generate_timeline_png coll env now q s = (case cached_png now (png_key_of q) s of
     Some png \<Rightarrow> (Inr png, s)
   | None \<Rightarrow> draw_png coll env now q (s\<lparr>sg_png_cache := (sg_png_cache s)(png_key_of q := None)\<rparr>))"

definition get_timeline_share_png :: "(string \<Rightarrow> 'k::linorder) \<Rightarrow> share_env \<Rightarrow> time \<Rightarrow> png_request \<Rightarrow> (string, sharing) service" where
  "get_timeline_share_png coll env now q =
     (if valid_png_request q then generate_timeline_png coll env now q else pure_step (Inl (ValidationException ''Invalid request'')))"

section \<open>Steps\<close>

inductive share_step :: "sharing \<Rightarrow> sharing \<Rightarrow> bool" where
  link: "create_share_link i token now name user rq base s = (res, s1) \<Longrightarrow> share_step s s1"
| event: "share_step s (record_share_event i token now name user utm s)"
| view: "share_step s (increment_view_count i s)"
| image: "generate_timeline_png (coll :: string \<Rightarrow> nat) env now q s = (res, s1) \<Longrightarrow> share_step s s1"
| monitor: "share_step s (s\<lparr>sg_catalog := c\<rparr>)"

inductive_cases share_stepE: "share_step s s1"

definition sharing_wf :: "sharing \<Rightarrow> bool" where
  "sharing_wf s = (distinct (map tsh_share_token (sg_shares s)) \<and> sg_png_cache s = Map.empty)"

lemma share_insert_cases:
  "share_insert r s = (res, s1) \<Longrightarrow> s1 = s \<and> (\<exists>e. res = Inl e) \<or>
     s1 = s\<lparr>sg_shares := sg_shares s @ [r]\<rparr> \<and> res = Inr r \<and> tsh_share_token r \<notin> tsh_share_token ` set (sg_shares s)"
  by (auto simp: share_insert_def list_ex_iff split: if_splits)

lemma share_insert_wf: "share_insert r s = (res, s1) \<Longrightarrow> sharing_wf s \<Longrightarrow> sharing_wf s1"
  by (drule share_insert_cases) (auto simp: sharing_wf_def)

lemma draw_png_fails:
  assumes "draw_png coll env now q s = (res, s1)"
  shows "(\<exists>e. res = Inl e) \<and> sg_png_cache s1 = sg_png_cache s \<and> sg_shares s1 = sg_shares s"
proof -
  obtain r c where fetch: "fetch_timeline_data coll env now q s = (r, s\<lparr>sg_catalog := c\<rparr>)"
    by (metis (no_types, lifting) fetch_timeline_data_def prod.case_eq_if)
  show ?thesis
    using assms fetch
    by (cases r) (auto simp: draw_png_def and_then_def render_chart_def await_bytes_def split: sum.splits)
qed

lemma generate_png_fails:
  assumes "sharing_wf s" and "generate_timeline_png coll env now q s = (res, s1)"
  shows "(\<exists>e. res = Inl e) \<and> sharing_wf s1 \<and> sg_shares s1 = sg_shares s"
proof -
  have "cached_png now (png_key_of q) s = None"
    using assms(1) by (simp add: cached_png_def sharing_wf_def)
  moreover have "s\<lparr>sg_png_cache := (sg_png_cache s)(png_key_of q := None)\<rparr> = s"
    using assms(1) by (simp add: sharing_wf_def fun_upd_idem)
  ultimately have "draw_png coll env now q s = (res, s1)"
    using assms(2) by (simp add: generate_timeline_png_def)
  from draw_png_fails [OF this] show ?thesis
    using assms(1) by (simp add: sharing_wf_def)
qed

lemma share_step_wf: "share_step s s1 \<Longrightarrow> sharing_wf s \<Longrightarrow> sharing_wf s1"
proof (induction rule: share_step.induct)
  case (link i token now name user rq base s res s1)
  then show ?case
    using share_insert_wf unfolding create_share_link_def by (auto split: prod.splits sum.splits)
next
  case (event s i token now name user utm)
  then show ?case
    unfolding record_share_event_def using share_insert_wf by (metis prod.collapse)
next
  case (view s i)
  then show ?case
    by (simp add: increment_view_count_def sharing_wf_def comp_def if_distrib cong: if_cong)
next
  case (image coll env now q s res s1)
  then show ?case
    using generate_png_fails by blast
qed (simp add: sharing_wf_def)

text \<open>
  The image route answers no request with an image: whatever links, views and images were asked for
  before, and whatever the renderer draws, the answer is an error and nothing is cached.
\<close>

theorem png_never_served:
  assumes "share_step\<^sup>*\<^sup>* s0 s" and "sharing_wf s0"
  shows "\<exists>e s1. get_timeline_share_png coll env now q s = (Inl e, s1) \<and> sg_png_cache s1 = Map.empty"
proof -
  have wf: "sharing_wf s"
    using assms by (induction rule: rtranclp_induct) (auto intro: share_step_wf)
  have "\<exists>e s1. generate_timeline_png coll env now q s = (Inl e, s1) \<and> sg_png_cache s1 = Map.empty"
    using generate_png_fails [OF wf] by (metis prod.collapse sharing_wf_def)
  then show ?thesis
    using wf by (simp add: get_timeline_share_png_def pure_step_def sharing_wf_def)
qed

text \<open>
  A link is stored once under its token with the hour it is valid for, its address names the token, and a
  bearer token does not attribute it to its user: only a plain key does.
\<close>

theorem share_link_recorded:
  assumes "create_timeline_share env a rq st r i token name body s = (Inr resp, s1)"
  shows "\<exists>row. sg_shares s1 = sg_shares s @ [row] \<and> tsh_share_token row = token \<and> share_get_by_token s1 token = Some row \<and>
    tsh_expires_at row = ae_now env + hours 1 \<and> tsh_view_count row = 0 \<and> (\<exists>x y. tsp_share_url resp = x @ token @ y) \<and>
    (plain_key rq \<or> tsh_user_id row = None)"
proof -
  let ?row = "\<lparr>tsh_id = i, tsh_vendor_name = lower name, tsh_user_id = fst (share_user env a rq st r), tsh_share_token = token,
      tsh_window = tsr_window body, tsh_region = tsr_region body, tsh_note = tsr_note body, tsh_utm_source = None, tsh_view_count = 0,
      tsh_expires_at = ae_now env + hours 1\<rparr>"
  obtain res where ins: "share_insert ?row s = (res, s1)"
    using assms unfolding create_timeline_share_def create_share_link_def by (auto split: prod.splits sum.splits)
  have ok: "res = Inr ?row"
    using ins assms share_insert_cases [OF ins] unfolding create_timeline_share_def create_share_link_def by auto
  then have s1: "s1 = s\<lparr>sg_shares := sg_shares s @ [?row]\<rparr>" "token \<notin> tsh_share_token ` set (sg_shares s)"
    using share_insert_cases [OF ins] by auto
  have "tsp_share_url resp = share_url ''https://frontend.zevcloud.app'' ?row"
    using assms ins ok unfolding create_timeline_share_def create_share_link_def by auto
  then have "\<exists>x y. tsp_share_url resp = x @ token @ y"
    unfolding share_url_def by (metis append.assoc timeline_share.select_convs(4))
  moreover have "share_get_by_token s1 token = Some ?row"
    unfolding share_get_by_token_def s1(1) using s1(2) get_row_None [of tsh_share_token token "sg_shares s"] by (simp add: get_row_append) (simp add: get_row_def)
  ultimately show ?thesis
    using s1(1) by (auto simp: share_user_def)
qed

end
