(* ===== verification/Spec2Isabelle.thy ===== *)
theory Spec2Isabelle
  imports Org_Service Billing_Properties Monitoring_Properties Evidence_Properties Policy_Properties Access_Properties Webhook_Properties Gate_Properties Vendor_Properties Referral_Properties Submission_Properties OAuth_Properties Status_Properties Agencies Console_Properties AI_Properties Partitions Dashboard Timeline_Share
begin

text \<open>
  A verification development of the Reliastra backend, a FastAPI and Celery service over PostgreSQL
  and Redis that probes the third-party services its customers depend on, opens and attributes
  incidents, and bills its customers.  File names are relative to \<^verbatim>\<open>src/app\<close>.

  The program.  A request or task runs inside one database session, which commits when it returns
  and rolls back when it raises (\<^verbatim>\<open>db/session.py\<close>).  A request is authenticated by a token or an API
  key, checked against the roles and scopes of its route, limited by a sliding window in Redis and,
  with an idempotency key, answered from a cache.  The scheduler task queues a check for every
  region of each due dependency; a check probes the endpoint through the outbound policy, stores
  the result with an observation event in an outbox, and evaluates the quorum: two regions failing
  within a minute open an incident, two regions succeeding resolve it.  Opening and resolving alert
  the organization's channels; resolving attributes the incident and generates an evidence report,
  which can be published behind a gate that trades downloads for accounts.  A second task drains the
  outbox into the observations, from which the public vendor catalogue is computed.
  Organizations, their members, roles and plans limit what may be configured; the billing webhook
  sets the plans and feeds the partner program, which accrues, reverses, releases and pays
  commissions; referrals grant overrides of the limits.  Operators moderate vendor submissions,
  partners, customers and campaigns.

  How it is modelled.  A session state is a record with one list per table, in insertion order
  (\<^verbatim>\<open>Database\<close> for users, organizations, billing and partners; the record of \<^verbatim>\<open>Monitoring\<close> extends it
  with the monitoring tables; \<^verbatim>\<open>Sessions\<close>, \<^verbatim>\<open>Webhooks\<close>, \<^verbatim>\<open>Evidence_Reports\<close>, \<^verbatim>\<open>Vendors\<close>, \<^verbatim>\<open>Referrals\<close>,
  \<^verbatim>\<open>Submissions\<close>, \<^verbatim>\<open>OAuth\<close>, \<^verbatim>\<open>Status_Pages\<close> and \<^verbatim>\<open>Console\<close> wrap what they need of these with their own tables).  An
  operation takes what it reads from outside (the clock, fresh identifiers, request data, replies of
  other services) and the state, and returns a result, an error or a value, with the new state.  A
  constraint of the schema that the code relies on (unique codes, one open incident per dependency,
  column lengths) is a guard of the insertion that returns the database's error.  Errors are values
  of the type of \<^verbatim>\<open>core/exceptions.py\<close>.

  The theories, in the order of the imports:

  \<^item> \<^verbatim>\<open>Prelude\<close>: identifiers, times, table operations, JSON values, calendar and number formats, the
    errors.  \<^verbatim>\<open>Permissions\<close>: \<^verbatim>\<open>core/permissions.py\<close>.  \<^verbatim>\<open>Redis\<close>: the commands and wrappers of
    \<^verbatim>\<open>infrastructure/redis_client.py\<close>.  \<^verbatim>\<open>Py_Values\<close>: Python's operations on decoded JSON.
  \<^item> \<^verbatim>\<open>Database\<close>, \<^verbatim>\<open>Organizations\<close>, \<^verbatim>\<open>Org_Service\<close>: the tables, \<^verbatim>\<open>core/audit_log.py\<close>, and
    \<^verbatim>\<open>modules/users\<close>, \<^verbatim>\<open>modules/organizations\<close>; membership uniqueness and ownership.
    \<^verbatim>\<open>Agencies\<close>: \<^verbatim>\<open>modules/agencies\<close>, with the isolation of its clients.
  \<^item> \<^verbatim>\<open>Partner_Repository\<close>, \<^verbatim>\<open>Partner_Service\<close>, \<^verbatim>\<open>Commissions\<close>, \<^verbatim>\<open>Partner_Admin\<close>: \<^verbatim>\<open>modules/partners\<close>.
    \<^verbatim>\<open>Partner_Ledger\<close> proves the ledger invariant of every operation, \<^verbatim>\<open>Partner_Steps\<close> lifts it to a
    step relation with arbitrary changes of the other tables, \<^verbatim>\<open>Partner_Payouts\<close> characterises the
    reservation loop, \<^verbatim>\<open>Partner_Properties\<close> states the properties.
  \<^item> \<^verbatim>\<open>Billing\<close>, \<^verbatim>\<open>Billing_Properties\<close>: \<^verbatim>\<open>modules/billing\<close>, its webhook and its effect on plans and
    commissions.
  \<^item> \<^verbatim>\<open>Url\<close>, \<^verbatim>\<open>Ssrf\<close>: the URL and address parsing the outbound policy uses and
    \<^verbatim>\<open>core/ssrf_protection.py\<close>; IPv4 and IPv6 addresses are machine words.
    \<^verbatim>\<open>Circuit_Breaker\<close>: \<^verbatim>\<open>core/circuit_breaker.py\<close>.
  \<^item> \<^verbatim>\<open>Monitoring\<close>: the monitoring tables and repositories.  \<^verbatim>\<open>Dependencies\<close>, \<^verbatim>\<open>Attribution\<close>,
    \<^verbatim>\<open>Notifications\<close>, \<^verbatim>\<open>Incidents\<close>, \<^verbatim>\<open>Checks\<close>, \<^verbatim>\<open>Outbox\<close>: the modules of those names, with
    \<^verbatim>\<open>modules/observations\<close> in the last; \<^verbatim>\<open>Observation_Stats\<close>: its statistics and timelines.
  \<^item> \<^verbatim>\<open>Quorum\<close>: what one check does to each table.  \<^verbatim>\<open>Monitoring_Steps\<close>: the step relation of the
    monitoring half, with the writes of concurrent transactions inside an incident's insertion, and the
    invariant that a dependency keeps its organization and has one open incident at most.
    \<^verbatim>\<open>Blind_Spots\<close>: checks from one region.  \<^verbatim>\<open>Alarm\<close>: the abstract
    machine of open incidents that the checks refine.  \<^verbatim>\<open>Evidence\<close>: the accounting of results,
    events and observations, up to the cutoff of the retention task.  \<^verbatim>\<open>Monitoring_Examples\<close> holds the states of the witnesses;
    \<^verbatim>\<open>Monitoring_Properties\<close>, \<^verbatim>\<open>Evidence_Properties\<close> and \<^verbatim>\<open>Policy_Properties\<close> state the properties.
  \<^item> \<^verbatim>\<open>Rate_Limit\<close>: \<^verbatim>\<open>core/rate_limit.py\<close>.  \<^verbatim>\<open>Sessions\<close>, \<^verbatim>\<open>Registration\<close>, \<^verbatim>\<open>Email_Auth\<close>: \<^verbatim>\<open>modules/auth\<close> over
    the parameters of \<^verbatim>\<open>core/security.py\<close>; \<^verbatim>\<open>OAuth\<close>, \<^verbatim>\<open>Supabase_Auth\<close>: the external sign-ins;
    \<^verbatim>\<open>Session_Steps\<close> the step relation of them all, with the invariant that the live token of a family
    is its newest; \<^verbatim>\<open>Auth_Properties\<close>, with the run of two concurrent refreshes that breaks it;
    \<^verbatim>\<open>OAuth_Properties\<close>: the linking of accounts and the life of the CSRF state.
  \<^item> \<^verbatim>\<open>Api_Keys\<close>, \<^verbatim>\<open>Access\<close>, \<^verbatim>\<open>Idempotency\<close>, \<^verbatim>\<open>Access_Properties\<close>: \<^verbatim>\<open>modules/api_keys\<close>, \<^verbatim>\<open>dependencies.py\<close> with
    \<^verbatim>\<open>core/tenant.py\<close>, the idempotency middleware of \<^verbatim>\<open>main.py\<close>, and what they guarantee together.
  \<^item> \<^verbatim>\<open>Webhooks\<close>, \<^verbatim>\<open>Webhook_Properties\<close>: \<^verbatim>\<open>modules/webhooks\<close>, its signatures and retries,
    with the retry runs that raise and are rolled back.
  \<^item> \<^verbatim>\<open>Evidence_Reports\<close>, \<^verbatim>\<open>Evidence_Gate\<close>, \<^verbatim>\<open>Gate_Properties\<close>: \<^verbatim>\<open>modules/evidence\<close>,
    \<^verbatim>\<open>modules/verification\<close> and \<^verbatim>\<open>modules/evidence_gate\<close>.
  \<^item> \<^verbatim>\<open>Pagination\<close>, \<^verbatim>\<open>Vendors\<close>, \<^verbatim>\<open>Vendor_Properties\<close>: \<^verbatim>\<open>core/pagination.py\<close> and \<^verbatim>\<open>modules/vendors\<close>; the pages of
    the catalogue and the points of a timeline.  \<^verbatim>\<open>Referrals\<close>, \<^verbatim>\<open>Referral_Properties\<close>,
    \<^verbatim>\<open>Submissions\<close>, \<^verbatim>\<open>Submission_Properties\<close>: \<^verbatim>\<open>modules/referrals\<close> and \<^verbatim>\<open>modules/vendor_submissions\<close>.
  \<^item> \<^verbatim>\<open>Status_Pages\<close>, \<^verbatim>\<open>Status_Properties\<close>: \<^verbatim>\<open>modules/status_pages\<close>.
  \<^item> The administrators' console, \<^verbatim>\<open>modules/admin\<close>: \<^verbatim>\<open>Console\<close> has its tables and repositories,
    \<^verbatim>\<open>Console_Service\<close> its services, \<^verbatim>\<open>Control_Plane\<close> and \<^verbatim>\<open>Console_Analytics\<close> the control plane: attention,
    search and customers in the first, the reports in the second.  \<^verbatim>\<open>Console_Properties\<close> has the step
    relation of the administrators' requests, the completeness of the audit log, the single sending
    of campaigns, bulk updates and impersonation tokens.
  \<^item> \<^verbatim>\<open>Dashboard\<close>: \<^verbatim>\<open>modules/dashboard\<close> with the joined incident listing; the pages of the incident timeline.
    \<^verbatim>\<open>Timeline_Share\<close>: \<^verbatim>\<open>modules/timeline_share\<close>; what a link records, and that the image route fails.
  \<^item> \<^verbatim>\<open>AI_Providers\<close>, \<^verbatim>\<open>AI_Properties\<close>: \<^verbatim>\<open>modules/ai_integration\<close>; the single default provider, the attempts
    of a call and the containment of an explanation.  \<^verbatim>\<open>Partitions\<close>:
    \<^verbatim>\<open>modules/checks/partition_manager.py\<close>; a run leaves one partition for each of the asked months.

  Parameters.  Code outside the repository is an argument of the operations that use it: the
  payment provider's replies, HMAC-SHA512 and the JSON decoder (billing), the Fernet cipher of stored
  headers, DNS and the HTTP exchange of a probe, the receivers of alerts, bcrypt, SHA-256 and the JWT
  library (the record \<^verbatim>\<open>security\<close>), \<^verbatim>\<open>isoformat\<close> and \<^verbatim>\<open>fromisoformat\<close>, the application behind the
  middleware, Fernet, HMAC-SHA256 and the receivers of webhooks (\<^verbatim>\<open>hook_env\<close>), the JSON text, the PDF
  renderers, the AI explanation and the object store (\<^verbatim>\<open>evidence_env\<close>), the collation of names, the
  JSON text of cached answers (\<^verbatim>\<open>vendor_env\<close>), the resolver and the table of leads (\<^verbatim>\<open>submit_env\<close>), the
  replies of an identity provider (\<^verbatim>\<open>provider\<close>) and the decoding of a Supabase token
  (\<^verbatim>\<open>supabase_env\<close>), the address policy, the replies, Fernet and JSON texts of the AI providers
  (\<^verbatim>\<open>ai_env\<close>), the drawing of a chart (\<^verbatim>\<open>share_env\<close>), and the mail server's answers, the probes of the database and of Redis and the
  value of a ticket's \<^verbatim>\<open>metadata\<close> attribute, which SQLAlchemy defines (\<^verbatim>\<open>console_env\<close>).  Hypotheses on them state documented behaviour only.

  Bounds.  The redirect loop of a probe is bounded by the code's own limit of five redirects, and is
  structural recursion on the redirects left; the search for a free slug ends because only finitely
  many are taken; the other loops recurse on the list they traverse.  No operation uses fuel.

  Concurrency.  Step relations run the requests and tasks one after the other.  Where the code handles a
  race, its other party is explicit: the writers that commit between the look-up and the insertion of
  an incident, the claims and leases in Redis, the second of two concurrent refreshes of a token.

  Conventions.  Rows a query leaves unordered, and ties of its sort key, come in insertion order.
  One operation reads the clock once.  Identifiers drawn by uuid4 are fresh: an insertion of a
  known primary key is not modelled.  Foreign keys are checked where the code depends on the check.
  Floating-point scores and rates are exact real numbers.  Dashes in messages are ASCII.  The columns
  \<^verbatim>\<open>updated_at\<close>, except where a query reads it, and those only the database's partitioning uses, are
  left out.

  Not modelled.  Start-up, settings, logging, metrics, the SMTP, storage, Celery and database
  clients; the engine's construction; the migrations, which state the schema the guards model; the
  rendering of reports, badges, feeds and charts; the TLS fields of a probe; the read-only aggregates of the growth module, with the three reports of the console
  that call the growth service; and the entries the audit decorator of the console adds in a session
  of its own, beside those of the services.
\<close>

end
